(* ===== verification/Prelude.thy ===== *)
theory Prelude
  imports Main "HOL-Library.Word"
begin

unbundle bit_operations_syntax

text \<open>
  Shared vocabulary of the MotaCoin development: the names of the machine types the C++ sources
  use, fixed-width wrap-around on \<open>int\<close>, C's truncating division, little-endian byte images of
  integers (the memory image that \<open>WRITEDATA\<close>, \<open>memcpy\<close> and \<open>FLATDATA\<close> expose on the supported
  little-endian platforms) and generic lemmas on lists and options.
\<close>

section \<open>Machine types\<close>

type_synonym byte = "8 word"
type_synonym valtype = "byte list"
type_synonym CScript = "byte list"
type_synonym u32 = "32 word"
type_synonym u64 = "64 word"
type_synonym uint160 = "160 word"
type_synonym uint256 = "256 word"

text \<open>
  Signed quantities (\<open>int\<close>, \<open>int64_t\<close>) are kept in \<open>int\<close>; every arithmetic result of the code that
  is stored in such a variable goes through one of the following reductions.
\<close>

definition i32 :: "int \<Rightarrow> int" where
  "i32 x = signed_take_bit 31 x"

definition i64 :: "int \<Rightarrow> int" where
  "i64 x = signed_take_bit 63 x"

definition in_i32 :: "int \<Rightarrow> bool" where
  "in_i32 x \<longleftrightarrow> - (2 ^ 31) \<le> x \<and> x < 2 ^ 31"

definition in_i64 :: "int \<Rightarrow> bool" where
  "in_i64 x \<longleftrightarrow> - (2 ^ 63) \<le> x \<and> x < 2 ^ 63"

lemma i32_id [simp]: "in_i32 x \<Longrightarrow> i32 x = x"
  unfolding i32_def in_i32_def by (rule signed_take_bit_int_eq_self) simp_all

lemma i64_id [simp]: "in_i64 x \<Longrightarrow> i64 x = x"
  unfolding i64_def in_i64_def by (rule signed_take_bit_int_eq_self) simp_all

lemma in_i64_i64 [simp]: "in_i64 (i64 x)"
  unfolding i64_def in_i64_def
  using signed_take_bit_int_greater_eq_minus_exp [of 63 x] signed_take_bit_int_less_exp [of 63 x]
  by simp

lemma in_i32_i32 [simp]: "in_i32 (i32 x)"
  unfolding i32_def in_i32_def
  using signed_take_bit_int_greater_eq_minus_exp [of 31 x] signed_take_bit_int_less_exp [of 31 x]
  by simp

text \<open>C's integer division and remainder truncate towards zero.\<close>

definition cdiv :: "int \<Rightarrow> int \<Rightarrow> int" where
  "cdiv a b = sgn a * sgn b * (\<bar>a\<bar> div \<bar>b\<bar>)"

lemma cdiv_nonneg [simp]: "0 \<le> a \<Longrightarrow> 0 < b \<Longrightarrow> cdiv a b = a div b"
  unfolding cdiv_def by (cases "a = 0") (simp_all add: sgn_if)

section \<open>Little-endian byte images\<close>

primrec le_enc :: "nat \<Rightarrow> nat \<Rightarrow> byte list" where
  "le_enc 0 n = []"
| "le_enc (Suc k) n = of_nat (n mod 256) # le_enc k (n div 256)"

primrec le_dec :: "byte list \<Rightarrow> nat" where
  "le_dec [] = 0"
| "le_dec (b # bs) = unat b + 256 * le_dec bs"

lemma length_le_enc [simp]: "length (le_enc k n) = k"
  by (induction k arbitrary: n) simp_all

lemma unat_byte_less [simp]: "unat (b :: byte) < 256"
  using unsigned_less [of b] by simp

lemma unat_of_nat_byte [simp]: "unat (of_nat (n mod 256) :: byte) = n mod 256"
  by (simp add: unat_of_nat)

lemma le_dec_enc [simp]: "le_dec (le_enc k n) = n mod 256 ^ k"
proof (induction k arbitrary: n)
  case 0
  then show ?case by simp
next
  case (Suc k)
  have "n mod 256 + 256 * (n div 256 mod 256 ^ k) = n mod (256 * 256 ^ k)"
    by (metis add.commute mod_mult2_eq)
  then show ?case using Suc by simp
qed

lemma le_dec_bound: "le_dec bs < 256 ^ length bs"
proof (induction bs)
  case Nil
  then show ?case by simp
next
  case (Cons b bs)
  then have "256 * Suc (le_dec bs) \<le> 256 * 256 ^ length bs"
    by (intro mult_le_mono2) simp
  then show ?case using unat_byte_less [of b] by (simp del: unat_byte_less)
qed

lemma le_enc_dec [simp]: "le_enc (length bs) (le_dec bs) = bs"
proof (induction bs)
  case Nil
  then show ?case by simp
next
  case (Cons b bs)
  have m: "(unat b + 256 * le_dec bs) mod 256 = unat b"
    and d: "(unat b + 256 * le_dec bs) div 256 = le_dec bs"
    using unat_byte_less [of b] by simp_all
  show ?case using Cons by (simp add: m d)
qed

lemma le_dec_append: "le_dec (xs @ ys) = le_dec xs + 256 ^ length xs * le_dec ys"
  by (induction xs) (simp_all add: algebra_simps)

lemma le_dec_replicate0 [simp]: "le_dec (replicate k 0) = 0"
  by (induction k) simp_all

lemma le_enc_inject:
  "length xs = length ys \<Longrightarrow> le_dec xs = le_dec ys \<Longrightarrow> xs = ys"
  by (metis le_enc_dec)

text \<open>Big-endian images, used by OpenSSL's MPI format.\<close>

definition be_enc :: "nat \<Rightarrow> nat \<Rightarrow> byte list" where
  "be_enc k n = rev (le_enc k n)"

lemma length_be_enc [simp]: "length (be_enc k n) = k"
  by (simp add: be_enc_def)

text \<open>The in-memory images of the unsigned types and of \<open>int64_t\<close>.\<close>

definition u32_bytes :: "u32 \<Rightarrow> byte list" where
  "u32_bytes w = le_enc 4 (unat w)"

definition u64_bytes :: "u64 \<Rightarrow> byte list" where
  "u64_bytes w = le_enc 8 (unat w)"

definition i32_bytes :: "int \<Rightarrow> byte list" where
  "i32_bytes x = le_enc 4 (nat (x mod 2 ^ 32))"

definition i64_bytes :: "int \<Rightarrow> byte list" where
  "i64_bytes x = le_enc 8 (nat (x mod 2 ^ 64))"

definition u256_bytes :: "uint256 \<Rightarrow> byte list" where
  "u256_bytes w = le_enc 32 (unat w)"

definition bytes_u256 :: "byte list \<Rightarrow> uint256" where
  "bytes_u256 bs = of_nat (le_dec bs)"

definition u160_bytes :: "uint160 \<Rightarrow> byte list" where
  "u160_bytes w = le_enc 20 (unat w)"

definition bytes_u160 :: "byte list \<Rightarrow> uint160" where
  "bytes_u160 bs = of_nat (le_dec bs)"

lemma length_word_bytes [simp]:
  "length (u32_bytes a) = 4" "length (u64_bytes b) = 8" "length (i32_bytes x) = 4"
  "length (i64_bytes x) = 8" "length (u256_bytes h) = 32" "length (u160_bytes h') = 20"
  by (simp_all add: u32_bytes_def u64_bytes_def i32_bytes_def i64_bytes_def u256_bytes_def u160_bytes_def)

lemma bytes_u256_bytes [simp]: "bytes_u256 (u256_bytes w) = w"
proof -
  have "unat w < 256 ^ 32" using unsigned_less [of w] by simp
  then show ?thesis by (simp add: bytes_u256_def u256_bytes_def)
qed

lemma u256_bytes_bytes [simp]:
  assumes "length bs = 32" shows "u256_bytes (bytes_u256 bs) = bs"
proof -
  have "le_dec bs < 2 ^ 256" using le_dec_bound [of bs] assms by simp
  then have "unat (of_nat (le_dec bs) :: uint256) = le_dec bs" by (simp add: unsigned_of_nat take_bit_nat_eq_self)
  then show ?thesis using assms le_enc_dec [of bs] by (simp add: bytes_u256_def u256_bytes_def)
qed

lemma bytes_u160_bytes [simp]: "bytes_u160 (u160_bytes w) = w"
proof -
  have "unat w < 256 ^ 20" using unsigned_less [of w] by simp
  then show ?thesis by (simp add: bytes_u160_def u160_bytes_def)
qed

lemma u160_bytes_bytes [simp]:
  assumes "length bs = 20" shows "u160_bytes (bytes_u160 bs) = bs"
proof -
  have "le_dec bs < 2 ^ 160" using le_dec_bound [of bs] assms by simp
  then have "unat (of_nat (le_dec bs) :: uint160) = le_dec bs" by (simp add: unsigned_of_nat take_bit_nat_eq_self)
  then show ?thesis using assms le_enc_dec [of bs] by (simp add: bytes_u160_def u160_bytes_def)
qed

section \<open>Lists\<close>

lemma bind_Some_iff: "Option.bind m f = Some y \<longleftrightarrow> (\<exists>x. m = Some x \<and> f x = Some y)"
  by (cases m) simp_all

lemma last_take_drop_butlast: "xs \<noteq> [] \<Longrightarrow> butlast xs @ [last xs] = xs"
  by simp

end
