(* ===== verification/Serialize.thy ===== *)
theory Serialize
  imports Prelude
begin

text \<open>
  The serialization framework of \<open>serialize.h\<close>: the buffer \<open>CDataStream\<close> with its read position,
  compact sizes, variable-length integers and vectors. Encoders produce byte lists, decoders
  consume a prefix of a byte list and return the rest; \<open>None\<close> is the \<open>ios_base::failure\<close> that the
  stream throws. The locale \<open>codec\<close> is the contract between an encoder and its decoder; each
  serializable type of the later theories interprets it, and the vector template is proved once.
\<close>

section \<open>The contract of a serializable type\<close>

locale codec =
  fixes put :: "'a \<Rightarrow> byte list"
    and get :: "byte list \<Rightarrow> ('a \<times> byte list) option"
    and ok :: "'a \<Rightarrow> bool"
  assumes get_put: "ok x \<Longrightarrow> get (put x @ rest) = Some (x, rest)"
begin

lemma get_put_all: "ok x \<Longrightarrow> get (put x) = Some (x, [])"
  using get_put [of x "[]"] by simp

lemma put_prefix_free:
  assumes "ok x" "ok y" "put x @ r = put y @ s"
  shows "x = y \<and> r = s"
proof -
  have "get (put y @ s) = Some (x, r)"
    using get_put [OF assms(1), of r] unfolding assms(3) .
  with get_put [OF assms(2), of s] show ?thesis by simp
qed

lemma put_inj: "ok x \<Longrightarrow> ok y \<Longrightarrow> put x = put y \<Longrightarrow> x = y"
  using put_prefix_free [of x y "[]" "[]"] by blast

end

section \<open>CDataStream\<close>

record CDataStream =
  vch :: "byte list"
  nReadPos :: nat

definition ds_begin :: "CDataStream \<Rightarrow> byte list" where
  "ds_begin s = drop (nReadPos s) (vch s)"

definition ds_size :: "CDataStream \<Rightarrow> nat" where
  "ds_size s = length (vch s) - nReadPos s"

definition ds_Compact :: "CDataStream \<Rightarrow> CDataStream" where
  "ds_Compact s = s\<lparr>vch := drop (nReadPos s) (vch s), nReadPos := 0\<rparr>"

definition ds_Rewind :: "nat \<Rightarrow> CDataStream \<Rightarrow> CDataStream option" where
  "ds_Rewind n s = (if n > nReadPos s then None else Some (s\<lparr>nReadPos := nReadPos s - n\<rparr>))"

text \<open>\<open>read\<close>: the sum of position and size is an \<open>unsigned int\<close>; reaching the end clears the buffer.\<close>

definition ds_read :: "nat \<Rightarrow> CDataStream \<Rightarrow> (byte list \<times> CDataStream) option" where
  "ds_read nSize s =
     (let nReadPosNext = (nReadPos s + nSize) mod 2 ^ 32 in
      if nReadPosNext \<ge> length (vch s)
      then if nReadPosNext > length (vch s) then None
           else Some (take nSize (drop (nReadPos s) (vch s)), s\<lparr>nReadPos := 0, vch := []\<rparr>)
      else Some (take nSize (drop (nReadPos s) (vch s)), s\<lparr>nReadPos := nReadPosNext\<rparr>))"

definition ds_ignore :: "nat \<Rightarrow> CDataStream \<Rightarrow> CDataStream option" where
  "ds_ignore nSize s =
     (let nReadPosNext = (nReadPos s + nSize) mod 2 ^ 32 in
      if nReadPosNext \<ge> length (vch s)
      then if nReadPosNext > length (vch s) then None
           else Some (s\<lparr>nReadPos := 0, vch := []\<rparr>)
      else Some (s\<lparr>nReadPos := nReadPosNext\<rparr>))"

definition ds_write :: "byte list \<Rightarrow> CDataStream \<Rightarrow> CDataStream" where
  "ds_write bs s = s\<lparr>vch := vch s @ bs\<rparr>"

definition ds_wf :: "CDataStream \<Rightarrow> bool" where
  "ds_wf s \<longleftrightarrow> nReadPos s \<le> length (vch s) \<and> length (vch s) < 2 ^ 31"

text \<open>The abstract stream: the unread bytes.\<close>

definition read_bytes :: "nat \<Rightarrow> byte list \<Rightarrow> (byte list \<times> byte list) option" where
  "read_bytes n s = (if n \<le> length s then Some (take n s, drop n s) else None)"

lemma read_bytes_append [simp]: "length xs = n \<Longrightarrow> read_bytes n (xs @ r) = Some (xs, r)"
  by (auto simp: read_bytes_def)

lemma ds_next_exact: "ds_wf s \<Longrightarrow> n < 2 ^ 31 \<Longrightarrow> (nReadPos s + n) mod 2 ^ 32 = nReadPos s + n"
  by (simp add: ds_wf_def)

lemma ds_read_refines:
  assumes "ds_wf s" "n < 2 ^ 31"
  shows "map_option (\<lambda>(bs, s'). (bs, ds_begin s')) (ds_read n s) = read_bytes n (ds_begin s)"
  using assms ds_next_exact [OF assms]
  by (auto simp: ds_read_def read_bytes_def ds_begin_def ds_wf_def Let_def add.commute)

lemma ds_ignore_refines:
  assumes "ds_wf s" "n < 2 ^ 31"
  shows "map_option ds_begin (ds_ignore n s) = map_option snd (read_bytes n (ds_begin s))"
  using assms ds_next_exact [OF assms]
  by (auto simp: ds_ignore_def read_bytes_def ds_begin_def ds_wf_def Let_def add.commute)

lemma ds_read_wf: "ds_wf s \<Longrightarrow> n < 2 ^ 31 \<Longrightarrow> ds_read n s = Some (bs, s') \<Longrightarrow> ds_wf s'"
  using ds_next_exact [of s n]
  by (auto simp: ds_read_def ds_wf_def Let_def split: if_splits)

lemma ds_write_begin: "ds_wf s \<Longrightarrow> ds_begin (ds_write bs s) = ds_begin s @ bs"
  by (simp add: ds_write_def ds_begin_def ds_wf_def)

lemma ds_Compact_begin: "ds_begin (ds_Compact s) = ds_begin s"
  by (simp add: ds_Compact_def ds_begin_def)

lemma ds_Rewind_begin:
  assumes "ds_wf s" "ds_Rewind n s = Some s'"
  shows "drop n (ds_begin s') = ds_begin s"
  using assms by (auto simp: ds_Rewind_def ds_begin_def ds_wf_def split: if_splits)

section \<open>Compact sizes\<close>

definition MAX_SIZE :: nat where "MAX_SIZE = 0x02000000"

definition GetSizeOfCompactSize :: "nat \<Rightarrow> nat" where
  "GetSizeOfCompactSize nSize =
     (if nSize < 253 then 1
      else if nSize \<le> 0xFFFF then 1 + 2
      else if nSize \<le> 0xFFFFFFFF then 1 + 4
      else 1 + 8)"

definition WriteCompactSize :: "nat \<Rightarrow> byte list" where
  "WriteCompactSize nSize =
     (if nSize < 253 then [of_nat nSize]
      else if nSize \<le> 0xFFFF then 253 # le_enc 2 nSize
      else if nSize \<le> 0xFFFFFFFF then 254 # le_enc 4 nSize
      else 255 # le_enc 8 nSize)"

definition ReadCompactSize :: "byte list \<Rightarrow> (nat \<times> byte list) option" where
  "ReadCompactSize is =
     (case read_bytes 1 is of
        None \<Rightarrow> None
      | Some (c, is1) \<Rightarrow>
          let chSize = hd c;
              r = (if chSize < 253 then Some (unat chSize, is1)
                   else if chSize = 253 then map_option (map_prod le_dec id) (read_bytes 2 is1)
                   else if chSize = 254 then map_option (map_prod le_dec id) (read_bytes 4 is1)
                   else map_option (map_prod le_dec id) (read_bytes 8 is1))
          in case r of None \<Rightarrow> None
             | Some (nSizeRet, is2) \<Rightarrow> if nSizeRet > MAX_SIZE then None else Some (nSizeRet, is2))"

lemma length_WriteCompactSize: "length (WriteCompactSize n) = GetSizeOfCompactSize n"
  by (simp add: WriteCompactSize_def GetSizeOfCompactSize_def)

lemma le_dec_singleton_of_nat: "n < 253 \<Longrightarrow> unat (of_nat n :: byte) = n"
  by (simp add: unsigned_of_nat take_bit_nat_eq_self)

lemma of_nat_byte_less_253: "n < 253 \<Longrightarrow> (of_nat n :: byte) < 253"
  by (simp add: word_less_nat_alt le_dec_singleton_of_nat)

interpretation compact: codec WriteCompactSize ReadCompactSize "\<lambda>n. n \<le> MAX_SIZE"
proof
  fix x :: nat and rest :: "byte list"
  assume x: "x \<le> MAX_SIZE"
  show "ReadCompactSize (WriteCompactSize x @ rest) = Some (x, rest)"
  proof (cases "x < 253")
    case True
    with x show ?thesis
      by (simp add: ReadCompactSize_def WriteCompactSize_def read_bytes_def Let_def
          le_dec_singleton_of_nat of_nat_byte_less_253)
  next
    case False
    with x show ?thesis
      by (simp add: ReadCompactSize_def WriteCompactSize_def read_bytes_def Let_def MAX_SIZE_def)
  qed
qed

lemma ReadCompactSize_bound: "ReadCompactSize s = Some (n, r) \<Longrightarrow> n \<le> MAX_SIZE"
  by (auto simp: ReadCompactSize_def Let_def split: option.splits if_splits prod.splits)

section \<open>Variable-length integers\<close>

text \<open>\<open>tmp\<close> is filled least significant group first and written in reverse.\<close>

fun GetSizeOfVarInt :: "nat \<Rightarrow> nat" where
  "GetSizeOfVarInt n = 1 + (if n \<le> 0x7F then 0 else GetSizeOfVarInt ((n div 128) - 1))"

fun varint_tmp :: "bool \<Rightarrow> nat \<Rightarrow> byte list" where
  "varint_tmp first n =
     ((of_nat n AND 0x7F) OR (if first then 0x00 else 0x80)) #
     (if n \<le> 0x7F then [] else varint_tmp False ((n div 128) - 1))"

declare GetSizeOfVarInt.simps [simp del] varint_tmp.simps [simp del]

definition WriteVarInt :: "nat \<Rightarrow> byte list" where
  "WriteVarInt n = rev (varint_tmp True n)"

text \<open>
  The accumulator has type \<open>I\<close> of \<open>w\<close> bits. After the shift its seven low bits are zero, so the
  bitwise or with a seven-bit value is an addition.
\<close>

fun ReadVarInt_loop :: "nat \<Rightarrow> nat \<Rightarrow> byte list \<Rightarrow> (nat \<times> byte list) option" where
  "ReadVarInt_loop w n [] = None"
| "ReadVarInt_loop w n (chData # is) =
     (let n1 = (n * 128 + unat (chData AND 0x7F)) mod 2 ^ w in
      if chData AND 0x80 \<noteq> 0 then ReadVarInt_loop w ((n1 + 1) mod 2 ^ w) is
      else Some (n1, is))"

definition ReadVarInt :: "nat \<Rightarrow> byte list \<Rightarrow> (nat \<times> byte list) option" where
  "ReadVarInt w is = ReadVarInt_loop w 0 is"

lemma length_varint_tmp: "length (varint_tmp f n) = GetSizeOfVarInt n"
proof (induction n arbitrary: f rule: GetSizeOfVarInt.induct)
  case (1 n)
  then show ?case by (subst varint_tmp.simps, subst GetSizeOfVarInt.simps) simp
qed

lemma length_WriteVarInt: "length (WriteVarInt n) = GetSizeOfVarInt n"
  by (simp add: WriteVarInt_def length_varint_tmp)

lemma and_7F_unat: "unat ((of_nat n :: byte) AND 0x7F) = n mod 128"
proof -
  have "(of_nat n :: byte) AND 0x7F = take_bit 7 (of_nat n)"
    by (simp add: take_bit_eq_mask mask_numeral)
  moreover have "unat (take_bit 7 (of_nat n :: byte)) = take_bit 7 n"
    by (simp only: unsigned_take_bit_eq unsigned_of_nat take_bit_take_bit) simp
  ultimately show ?thesis by (simp only: take_bit_eq_mod) simp
qed

lemma and_or_80: fixes x :: byte
  shows "(x AND 0x7F OR 0x80) AND 0x7F = x AND 0x7F" "(x AND 0x7F OR 0x80) AND 0x80 \<noteq> 0"
    "(x AND 0x7F) AND 0x80 = 0" "(x AND 0x7F) AND 0x7F = x AND 0x7F"
proof -
  show "(x AND 0x7F OR 0x80) AND 0x7F = x AND 0x7F"
    by (simp add: bit.conj_disj_distrib2 and.assoc)
  show "(x AND 0x7F OR 0x80) AND 0x80 \<noteq> 0"
    by (simp add: bit.conj_disj_distrib2 and.assoc)
  show "(x AND 0x7F) AND 0x80 = 0"
    by (simp add: and.assoc)
  show "(x AND 0x7F) AND 0x7F = x AND 0x7F"
    by (simp add: and.assoc)
qed

lemma varint_continuation:
  "m + 1 < 2 ^ w \<Longrightarrow>
   ReadVarInt_loop w 0 (rev (varint_tmp False m) @ rest) = ReadVarInt_loop w (m + 1) rest"
proof (induction m arbitrary: rest rule: GetSizeOfVarInt.induct)
  case (1 m)
  show ?case
  proof (cases "m \<le> 0x7F")
    case True
    with 1 show ?thesis
      by (simp add: varint_tmp.simps [of False m] and_7F_unat and_or_80 Let_def)
  next
    case False
    define q where "q = m div 128 - 1"
    have q: "m div 128 = q + 1" using False by (simp add: q_def)
    have qw: "q + 1 < 2 ^ w" using 1(2) div_le_dividend [of m 128] q by linarith
    have m: "(q + 1) * 128 + m mod 128 = m" unfolding q [symmetric] by simp
    have "ReadVarInt_loop w 0 (rev (varint_tmp False m) @ rest)
        = ReadVarInt_loop w (q + 1) (((of_nat m AND 0x7F) OR 0x80) # rest)"
      using False 1(1) [of "((of_nat m AND 0x7F) OR 0x80) # rest"] qw
      by (simp add: varint_tmp.simps [of False m] q_def)
    also have "\<dots> = ReadVarInt_loop w (m + 1) rest"
      using 1(2) m by (simp only: ReadVarInt_loop.simps and_7F_unat and_or_80 Let_def) simp
    finally show ?thesis .
  qed
qed

lemma ReadVarInt_WriteVarInt:
  assumes "n < 2 ^ w" shows "ReadVarInt w (WriteVarInt n @ rest) = Some (n, rest)"
proof (cases "n \<le> 0x7F")
  case True
  with assms show ?thesis
    by (simp add: ReadVarInt_def WriteVarInt_def varint_tmp.simps [of True n] and_7F_unat and_or_80 Let_def)
next
  case False
  define q where "q = n div 128 - 1"
  have q: "n div 128 = q + 1" using False by (simp add: q_def)
  have qw: "q + 1 < 2 ^ w" using assms div_le_dividend [of n 128] q by linarith
  have n: "(q + 1) * 128 + n mod 128 = n" unfolding q [symmetric] by simp
  have "ReadVarInt w (WriteVarInt n @ rest) = ReadVarInt_loop w (q + 1) ((of_nat n AND 0x7F) # rest)"
    using False varint_continuation [OF qw, of "(of_nat n AND 0x7F) # rest"]
    by (simp add: ReadVarInt_def WriteVarInt_def varint_tmp.simps [of True n] q_def)
  also have "\<dots> = Some (n, rest)"
    using assms n by (simp only: ReadVarInt_loop.simps and_7F_unat and_or_80 Let_def) simp
  finally show ?thesis .
qed

interpretation varint64: codec WriteVarInt "ReadVarInt 64" "\<lambda>n. n < 2 ^ 64"
  by unfold_locales (rule ReadVarInt_WriteVarInt)

section \<open>Vectors\<close>

definition GetSerializeSize_vec :: "('a \<Rightarrow> nat) \<Rightarrow> 'a list \<Rightarrow> nat" where
  "GetSerializeSize_vec sz v = GetSizeOfCompactSize (length v) + sum_list (map sz v)"

definition Serialize_vec :: "('a \<Rightarrow> byte list) \<Rightarrow> 'a list \<Rightarrow> byte list" where
  "Serialize_vec put v = WriteCompactSize (length v) @ concat (map put v)"

fun Unserialize_n :: "(byte list \<Rightarrow> ('a \<times> byte list) option) \<Rightarrow> nat \<Rightarrow> byte list \<Rightarrow> ('a list \<times> byte list) option" where
  "Unserialize_n get 0 is = Some ([], is)"
| "Unserialize_n get (Suc n) is =
     (case get is of
        None \<Rightarrow> None
      | Some (x, is1) \<Rightarrow>
          (case Unserialize_n get n is1 of None \<Rightarrow> None | Some (xs, is2) \<Rightarrow> Some (x # xs, is2)))"

definition Unserialize_vec :: "(byte list \<Rightarrow> ('a \<times> byte list) option) \<Rightarrow> byte list \<Rightarrow> ('a list \<times> byte list) option" where
  "Unserialize_vec get is =
     (case ReadCompactSize is of None \<Rightarrow> None | Some (nSize, is1) \<Rightarrow> Unserialize_n get nSize is1)"

text \<open>Vectors of \<open>unsigned char\<close> (\<open>boost::is_fundamental\<close>) are copied as one block; so is a script.\<close>

definition Serialize_bytes :: "byte list \<Rightarrow> byte list" where
  "Serialize_bytes v = WriteCompactSize (length v) @ v"

definition Unserialize_bytes :: "byte list \<Rightarrow> (byte list \<times> byte list) option" where
  "Unserialize_bytes is =
     (case ReadCompactSize is of None \<Rightarrow> None | Some (nSize, is1) \<Rightarrow> read_bytes nSize is1)"

definition GetSerializeSize_bytes :: "byte list \<Rightarrow> nat" where
  "GetSerializeSize_bytes v = GetSizeOfCompactSize (length v) + length v"

interpretation bytes: codec Serialize_bytes Unserialize_bytes "\<lambda>v. length v \<le> MAX_SIZE"
  by unfold_locales
     (simp add: Unserialize_bytes_def Serialize_bytes_def compact.get_put)

locale codec_vec = codec
begin

lemma Unserialize_n_put:
  "list_all ok v \<Longrightarrow> Unserialize_n get (length v) (concat (map put v) @ rest) = Some (v, rest)"
  by (induction v) (simp_all add: get_put)

end

sublocale codec_vec \<subseteq> vec: codec "Serialize_vec put" "Unserialize_vec get"
    "\<lambda>v. length v \<le> MAX_SIZE \<and> list_all ok v"
  by unfold_locales
     (simp add: Unserialize_vec_def Serialize_vec_def compact.get_put Unserialize_n_put)

lemma length_Serialize_vec:
  "(\<And>x. x \<in> set v \<Longrightarrow> length (put x) = sz x) \<Longrightarrow>
   length (Serialize_vec put v) = GetSerializeSize_vec sz v"
  by (simp add: Serialize_vec_def GetSerializeSize_vec_def length_WriteCompactSize length_concat
      comp_def cong: map_cong)

lemma length_Serialize_bytes: "length (Serialize_bytes v) = GetSerializeSize_bytes v"
  by (simp add: Serialize_bytes_def GetSerializeSize_bytes_def length_WriteCompactSize)

section \<open>Flat integers\<close>

definition Unserialize_u32 :: "byte list \<Rightarrow> (u32 \<times> byte list) option" where
  "Unserialize_u32 is = map_option (map_prod (\<lambda>bs. of_nat (le_dec bs)) id) (read_bytes 4 is)"

definition Unserialize_u256 :: "byte list \<Rightarrow> (uint256 \<times> byte list) option" where
  "Unserialize_u256 is = map_option (map_prod bytes_u256 id) (read_bytes 32 is)"

definition Unserialize_i32 :: "byte list \<Rightarrow> (int \<times> byte list) option" where
  "Unserialize_i32 is = map_option (map_prod (\<lambda>bs. i32 (int (le_dec bs))) id) (read_bytes 4 is)"

definition Unserialize_i64 :: "byte list \<Rightarrow> (int \<times> byte list) option" where
  "Unserialize_i64 is = map_option (map_prod (\<lambda>bs. i64 (int (le_dec bs))) id) (read_bytes 8 is)"

lemma le_dec_u32_bytes [simp]: "le_dec (u32_bytes w) = unat w"
proof -
  have "unat w < 256 ^ 4" using unsigned_less [of w] by simp
  then show ?thesis by (simp add: u32_bytes_def)
qed

lemma i32_of_bytes [simp]: "in_i32 x \<Longrightarrow> i32 (int (le_dec (i32_bytes x))) = x"
proof -
  assume x: "in_i32 x"
  have "int (le_dec (i32_bytes x)) = take_bit 32 x"
    by (simp add: i32_bytes_def take_bit_eq_mod zmod_int)
  moreover have "signed_take_bit 31 (take_bit 32 x) = signed_take_bit 31 x"
    by (simp add: signed_take_bit_take_bit)
  ultimately show ?thesis using i32_id [OF x] by (simp add: i32_def)
qed

lemma i64_of_bytes [simp]: "in_i64 x \<Longrightarrow> i64 (int (le_dec (i64_bytes x))) = x"
proof -
  assume x: "in_i64 x"
  have "int (le_dec (i64_bytes x)) = take_bit 64 x"
    by (simp add: i64_bytes_def take_bit_eq_mod zmod_int)
  moreover have "signed_take_bit 63 (take_bit 64 x) = signed_take_bit 63 x"
    by (simp add: signed_take_bit_take_bit)
  ultimately show ?thesis using i64_id [OF x] by (simp add: i64_def)
qed

interpretation u32c: codec_vec u32_bytes Unserialize_u32 "\<lambda>_. True"
  by unfold_locales (simp add: Unserialize_u32_def)

interpretation u256c: codec_vec u256_bytes Unserialize_u256 "\<lambda>_. True"
  by unfold_locales (simp add: Unserialize_u256_def)

interpretation i32c: codec i32_bytes Unserialize_i32 in_i32
  by unfold_locales (simp add: Unserialize_i32_def)

interpretation i64c: codec i64_bytes Unserialize_i64 in_i64
  by unfold_locales (simp add: Unserialize_i64_def)

end
