(* ===== verification/Bignum.thy ===== *)
theory Bignum
  imports Prelude
begin

text \<open>
  \<open>CBigNum\<close> (\<open>bignum.h\<close>) over OpenSSL's \<open>BIGNUM\<close>. A big number is an \<open>int\<close>; the conversions to and
  from OpenSSL's MPI byte format and to machine words are library code and are parameters, held in
  the record \<open>bn_lib\<close>. What the manual page of \<open>BN_bn2mpi\<close>/\<open>BN_mpi2bn\<close>/\<open>BN_get_word\<close> promises is
  the predicate \<open>mpi_documented\<close>; \<open>bn_ref\<close> is an implementation of it, used by the witnesses.
\<close>

record bn_lib =
  BN_mpi2bn :: "byte list \<Rightarrow> int"
  BN_bn2mpi :: "int \<Rightarrow> byte list"
  BN_get_word :: "int \<Rightarrow> nat"

section \<open>The documented MPI format\<close>

text \<open>Sign-magnitude bytes, least significant byte first, the sign in the top bit of the last byte.\<close>

fun mag_bytes :: "nat \<Rightarrow> byte list" where
  "mag_bytes n = (if n = 0 then [] else of_nat (n mod 256) # mag_bytes (n div 256))"

declare mag_bytes.simps [simp del]

definition vch_enc :: "int \<Rightarrow> byte list" where
  "vch_enc n =
     (let m = mag_bytes (nat \<bar>n\<bar>) in
      if m = [] then []
      else if last m AND 0x80 \<noteq> 0 then m @ [if n < 0 then 0x80 else 0]
      else if n < 0 then butlast m @ [last m OR 0x80]
      else m)"

definition vch_val :: "byte list \<Rightarrow> int" where
  "vch_val v =
     (if v = [] then 0
      else let m = int (le_dec (butlast v @ [last v AND 0x7F]))
           in if last v AND 0x80 \<noteq> 0 then - m else m)"

definition mpi_documented :: "bn_lib \<Rightarrow> bool" where
  "mpi_documented B \<longleftrightarrow>
     (\<forall>body. length body < 2 ^ 31 \<longrightarrow> BN_mpi2bn B (be_enc 4 (length body) @ body) = vch_val (rev body)) \<and>
     (\<forall>n. BN_bn2mpi B n = be_enc 4 (length (vch_enc n)) @ rev (vch_enc n)) \<and>
     (\<forall>n. BN_get_word B n = (if nat \<bar>n\<bar> < 2 ^ 64 then nat \<bar>n\<bar> else 2 ^ 64 - 1))"

definition bn_ref :: bn_lib where
  "bn_ref = \<lparr>BN_mpi2bn = (\<lambda>s. vch_val (rev (drop 4 s))),
             BN_bn2mpi = (\<lambda>n. be_enc 4 (length (vch_enc n)) @ rev (vch_enc n)),
             BN_get_word = (\<lambda>n. if nat \<bar>n\<bar> < 2 ^ 64 then nat \<bar>n\<bar> else 2 ^ 64 - 1)\<rparr>"

lemma bn_ref_documented [simp]: "mpi_documented bn_ref"
  by (simp add: mpi_documented_def bn_ref_def)

lemma mpi2bn_doc:
  "mpi_documented B \<Longrightarrow> length body < 2 ^ 31 \<Longrightarrow>
   BN_mpi2bn B (be_enc 4 (length body) @ body) = vch_val (rev body)"
  by (simp add: mpi_documented_def)

lemma bn2mpi_doc:
  "mpi_documented B \<Longrightarrow> BN_bn2mpi B n = be_enc 4 (length (vch_enc n)) @ rev (vch_enc n)"
  by (simp add: mpi_documented_def)

lemma get_word_doc:
  "mpi_documented B \<Longrightarrow> BN_get_word B n = (if nat \<bar>n\<bar> < 2 ^ 64 then nat \<bar>n\<bar> else 2 ^ 64 - 1)"
  by (simp add: mpi_documented_def)

subsection \<open>Facts about the format\<close>

lemma le_dec_mag_bytes [simp]: "le_dec (mag_bytes n) = n"
proof (induction n rule: mag_bytes.induct)
  case (1 n)
  then show ?case by (subst mag_bytes.simps) simp
qed

lemma mag_bytes_Nil_iff [simp]: "mag_bytes n = [] \<longleftrightarrow> n = 0"
  by (subst mag_bytes.simps) simp

lemma mag_bytes_last_nz: "n \<noteq> 0 \<Longrightarrow> last (mag_bytes n) \<noteq> 0"
proof (induction n rule: mag_bytes.induct)
  case (1 n)
  show ?case
  proof (cases "n div 256 = 0")
    case True
    then have "n < 256" by (simp add: div_eq_0_iff)
    have "(of_nat n :: byte) \<noteq> 0"
    proof
      assume "(of_nat n :: byte) = 0"
      then have "unat (of_nat n :: byte) = 0" by simp
      then show False using \<open>n < 256\<close> 1(2) by (simp add: unsigned_of_nat take_bit_nat_eq_self)
    qed
    with True 1(2) \<open>n < 256\<close> show ?thesis by (subst mag_bytes.simps) simp
  next
    case False
    with 1 have "last (mag_bytes (n div 256)) \<noteq> 0" by simp
    with False 1(2) show ?thesis by (subst mag_bytes.simps) simp
  qed
qed

lemma mag_bytes_length: "n < 256 ^ k \<Longrightarrow> length (mag_bytes n) \<le> k"
proof (induction n arbitrary: k rule: mag_bytes.induct)
  case (1 n)
  show ?case
  proof (cases "n = 0")
    case True
    then show ?thesis by (subst mag_bytes.simps) simp
  next
    case False
    with 1(2) obtain k' where k: "k = Suc k'" by (cases k) auto
    have "n div 256 < 256 ^ k'" using 1(2) k by (simp add: less_mult_imp_div_less mult.commute)
    with 1(1) False k show ?thesis by (subst mag_bytes.simps) simp
  qed
qed

lemma vch_enc_length: "nat \<bar>n\<bar> < 256 ^ k \<Longrightarrow> length (vch_enc n) \<le> k + 1"
  using mag_bytes_length [of "nat \<bar>n\<bar>" k] by (auto simp: vch_enc_def Let_def)

lemma vch_enc_0 [simp]: "vch_enc 0 = []"
  by (simp add: vch_enc_def)

lemma byte_and_FF: "x AND 0xFF = (x :: byte)"
proof -
  have "x AND mask 8 = take_bit 8 x" by (simp only: take_bit_eq_mask)
  also have "take_bit 8 x = x" by (simp add: take_bit_word_eq_self)
  finally show ?thesis by (simp add: mask_numeral)
qed

lemma byte_and_80_split: fixes x :: byte
  shows "x AND 0x80 = 0 \<Longrightarrow> x AND 0x7F = x"
    and "x AND 0x80 = 0 \<Longrightarrow> (x OR 0x80) AND 0x7F = x"
    and "(x OR 0x80) AND 0x80 = 0x80"
proof -
  have e: "x AND 0x7F OR x AND 0x80 = x"
    using byte_and_FF [of x] by (simp flip: bit.conj_disj_distrib)
  show a: "x AND 0x80 = 0 \<Longrightarrow> x AND 0x7F = x" using e by simp
  show "x AND 0x80 = 0 \<Longrightarrow> (x OR 0x80) AND 0x7F = x"
    using a by (simp add: bit.conj_disj_distrib2)
  show "(x OR 0x80) AND 0x80 = 0x80"
    by (rule bit_word_eqI) (auto simp: bit_and_iff bit_or_iff)
qed

lemma vch_val_enc [simp]: "vch_val (vch_enc n) = n"
proof -
  define m where "m = mag_bytes (nat \<bar>n\<bar>)"
  have dec: "int (le_dec m) = \<bar>n\<bar>" by (simp add: m_def)
  show ?thesis
  proof (cases "m = []")
    case True
    then show ?thesis using dec by (simp add: vch_enc_def vch_val_def m_def)
  next
    case ne: False
    consider "last m AND 0x80 \<noteq> 0" | "last m AND 0x80 = 0" "n < 0" | "last m AND 0x80 = 0" "0 \<le> n"
      by linarith
    then show ?thesis
    proof cases
      case 1
      then have "vch_enc n = m @ [if n < 0 then 0x80 else 0]" using ne by (simp add: vch_enc_def m_def Let_def)
      then show ?thesis using dec by (simp add: vch_val_def le_dec_append Let_def)
    next
      case 2
      then have v: "vch_enc n = butlast m @ [last m OR 0x80]" using ne by (simp add: vch_enc_def m_def Let_def)
      have "butlast m @ [(last m OR 0x80) AND 0x7F] = m" using 2 ne by (simp add: byte_and_80_split)
      then show ?thesis using dec 2 by (simp add: v vch_val_def byte_and_80_split Let_def)
    next
      case 3
      then have v: "vch_enc n = m" using ne by (simp add: vch_enc_def m_def Let_def)
      have "butlast m @ [last m AND 0x7F] = m" using 3 ne by (simp add: byte_and_80_split)
      then show ?thesis using dec 3 ne by (simp add: v vch_val_def Let_def)
    qed
  qed
qed

lemma vch_val_bound: "\<bar>vch_val v\<bar> < 256 ^ length v"
proof (cases "v = []")
  case False
  then have "length (butlast v @ [last v AND 0x7F]) = length v" by simp
  then have "int (le_dec (butlast v @ [last v AND 0x7F])) < 256 ^ length v"
    using le_dec_bound [of "butlast v @ [last v AND 0x7F]"] by (metis of_nat_less_iff of_nat_numeral of_nat_power)
  then show ?thesis by (simp add: vch_val_def Let_def)
qed (simp add: vch_val_def)

section \<open>CBigNum conversions\<close>

definition setvch :: "bn_lib \<Rightarrow> byte list \<Rightarrow> int" where
  "setvch B v = BN_mpi2bn B (be_enc 4 (length v) @ rev v)"

definition getvch :: "bn_lib \<Rightarrow> int \<Rightarrow> byte list" where
  "getvch B n =
     (let v = BN_bn2mpi B n in if length v \<le> 4 then [] else rev (drop 4 v))"

definition getint :: "bn_lib \<Rightarrow> int \<Rightarrow> int" where
  "getint B n =
     (let w = int (BN_get_word B n) in
      if \<not> n < 0 then (if w > 2 ^ 31 - 1 then 2 ^ 31 - 1 else w)
      else (if w > 2 ^ 31 - 1 then - (2 ^ 31) else - w))"

text \<open>
  The shared loop of \<open>setint64\<close>, \<open>setuint64\<close> and \<open>setuint256\<close>: bytes most significant first, leading
  zeros dropped, a sign byte or sign bit where the first kept byte asks for it.
\<close>

definition strip_lead :: "bool \<Rightarrow> byte list \<Rightarrow> byte list" where
  "strip_lead fNegative bs =
     (case dropWhile (\<lambda>c. c = 0) bs of
        [] \<Rightarrow> []
      | c # cs \<Rightarrow> if c AND 0x80 \<noteq> 0 then (if fNegative then 0x80 else 0) # c # cs
                  else if fNegative then (c OR 0x80) # cs
                  else c # cs)"

definition set_stripped :: "bn_lib \<Rightarrow> byte list \<Rightarrow> int" where
  "set_stripped B p = BN_mpi2bn B (be_enc 4 (length p) @ p)"

definition setuint64 :: "bn_lib \<Rightarrow> u64 \<Rightarrow> int" where
  "setuint64 B n = set_stripped B (strip_lead False (be_enc 8 (unat n)))"

definition setint64 :: "bn_lib \<Rightarrow> int \<Rightarrow> int" where
  "setint64 B sn =
     (if sn < 0 then set_stripped B (strip_lead True (be_enc 8 (nat (- (sn + 1)) + 1)))
      else set_stripped B (strip_lead False (be_enc 8 (nat sn))))"

definition setuint256 :: "bn_lib \<Rightarrow> uint256 \<Rightarrow> int" where
  "setuint256 B n = set_stripped B (strip_lead False (rev (u256_bytes n)))"

text \<open>
  \<open>getuint64\<close> and \<open>getuint256\<close> clear the sign bit of the first body byte and copy the low bytes
  from the end of the MPI buffer.
\<close>

definition get_low :: "bn_lib \<Rightarrow> nat \<Rightarrow> int \<Rightarrow> nat" where
  "get_low B k n =
     (let v = BN_bn2mpi B n in
      if length v < 4 then 0
      else let body = drop 4 v;
               body1 = (case body of [] \<Rightarrow> [] | c # cs \<Rightarrow> (c AND 0x7F) # cs)
           in le_dec (take k (rev body1)))"

definition getuint64 :: "bn_lib \<Rightarrow> int \<Rightarrow> u64" where
  "getuint64 B n = of_nat (get_low B 8 n)"

definition getuint256 :: "bn_lib \<Rightarrow> int \<Rightarrow> uint256" where
  "getuint256 B n = of_nat (get_low B 32 n)"

definition SetCompact :: "bn_lib \<Rightarrow> u32 \<Rightarrow> int" where
  "SetCompact B nCompact =
     (let nSize = unat (drop_bit 24 nCompact);
          v0 = (replicate (4 + nSize) 0)[3 := of_nat nSize];
          v1 = (if nSize \<ge> 1 then v0[4 := ucast (drop_bit 16 nCompact AND 0xff)] else v0);
          v2 = (if nSize \<ge> 2 then v1[5 := ucast (drop_bit 8 nCompact AND 0xff)] else v1);
          v3 = (if nSize \<ge> 3 then v2[6 := ucast (drop_bit 0 nCompact AND 0xff)] else v2)
      in BN_mpi2bn B v3)"

definition GetCompact :: "bn_lib \<Rightarrow> int \<Rightarrow> u32" where
  "GetCompact B n =
     (let v = BN_bn2mpi B n;
          nSize = length v - 4;
          c0 = push_bit 24 (of_nat nSize);
          c1 = (if nSize \<ge> 1 then c0 OR push_bit 16 (ucast (v ! 4)) else c0);
          c2 = (if nSize \<ge> 2 then c1 OR push_bit 8 (ucast (v ! 5)) else c1)
      in (if nSize \<ge> 3 then c2 OR push_bit 0 (ucast (v ! 6)) else c2))"

subsection \<open>Round trips\<close>

lemma getvch_doc: "mpi_documented B \<Longrightarrow> getvch B n = vch_enc n"
  by (simp add: getvch_def bn2mpi_doc Let_def)

lemma setvch_doc: "mpi_documented B \<Longrightarrow> length v < 2 ^ 31 \<Longrightarrow> setvch B v = vch_val v"
  using mpi2bn_doc [of B "rev v"] by (simp add: setvch_def)

lemma setvch_getvch:
  "mpi_documented B \<Longrightarrow> length (getvch B n) < 2 ^ 31 \<Longrightarrow> setvch B (getvch B n) = n"
  by (simp add: setvch_doc getvch_doc)


lemma le_dec_rev_dropWhile: "le_dec (rev (dropWhile (\<lambda>c. c = 0) bs)) = le_dec (rev bs)"
  by (induction bs) (simp_all add: le_dec_append)

lemma vch_val_snoc: "vch_val (xs @ [x]) = (if x AND 0x80 \<noteq> 0 then - 1 else 1) * int (le_dec (xs @ [x AND 0x7F]))"
  by (simp add: vch_val_def Let_def)

lemma le_dec_snoc0: "le_dec (xs @ [0]) = le_dec xs" "le_dec (xs @ [y, 0]) = le_dec (xs @ [y])"
  by (simp_all add: le_dec_append)

lemma vch_val_strip_lead:
  "vch_val (rev (strip_lead neg bs)) = (if neg then - 1 else 1) * int (le_dec (rev bs))"
proof (cases "dropWhile (\<lambda>c. c = 0) bs")
  case Nil
  have "le_dec (rev bs) = 0" using le_dec_rev_dropWhile [of bs] unfolding Nil by simp
  then show ?thesis unfolding strip_lead_def Nil by (simp add: vch_val_def)
next
  case (Cons c cs)
  then have d: "le_dec (rev cs @ [c]) = le_dec (rev bs)" using le_dec_rev_dropWhile [of bs] by simp
  then show ?thesis
    using Cons vch_val_snoc [of "rev cs @ [c]"]
    by (auto simp: strip_lead_def vch_val_snoc byte_and_80_split le_dec_snoc0)
qed

lemma length_strip_lead: "length (strip_lead neg bs) \<le> length bs + 1"
  using length_dropWhile_le [of "\<lambda>c. c = 0" bs] by (auto simp: strip_lead_def split: list.split)

lemma set_stripped_doc:
  "mpi_documented B \<Longrightarrow> length bs < 2 ^ 30 \<Longrightarrow>
   set_stripped B (strip_lead neg bs) = (if neg then - 1 else 1) * int (le_dec (rev bs))"
  using length_strip_lead [of neg bs] by (simp add: set_stripped_def mpi2bn_doc vch_val_strip_lead)

lemma setuint256_doc: "mpi_documented B \<Longrightarrow> setuint256 B h = uint h"
proof -
  assume "mpi_documented B"
  moreover have "unat h < 256 ^ 32" using unsigned_less [of h] by simp
  ultimately show ?thesis by (simp add: setuint256_def set_stripped_doc u256_bytes_def)
qed

lemma setuint64_doc: "mpi_documented B \<Longrightarrow> setuint64 B w = uint w"
proof -
  assume "mpi_documented B"
  moreover have "unat w < 256 ^ 8" using unsigned_less [of w] by simp
  ultimately show ?thesis by (simp add: setuint64_def set_stripped_doc be_enc_def)
qed

lemma setint64_doc: "mpi_documented B \<Longrightarrow> in_i64 x \<Longrightarrow> setint64 B x = x"
proof -
  assume B: "mpi_documented B" and x: "in_i64 x"
  have "x < 0 \<Longrightarrow> nat (- (x + 1)) + 1 < 256 ^ 8 \<and> int (nat (- (x + 1)) + 1) = - x"
    and "0 \<le> x \<Longrightarrow> nat x < 256 ^ 8"
    using x by (simp_all add: in_i64_def nat_less_iff)
  then show ?thesis using B by (cases "x < 0") (simp_all add: setint64_def set_stripped_doc be_enc_def)
qed

lemma le_dec_take: "le_dec (take k xs) = le_dec xs mod 256 ^ k"
proof (cases "k \<le> length xs")
  case True
  have "le_dec xs = le_dec (take k xs) + 256 ^ k * le_dec (drop k xs)"
    using le_dec_append [of "take k xs" "drop k xs"] True by simp
  then show ?thesis using le_dec_bound [of "take k xs"] True by simp
next
  case False
  then have "256 ^ length xs \<le> (256 :: nat) ^ k" by (intro power_increasing) simp_all
  then have "le_dec xs < 256 ^ k" using le_dec_bound [of xs] by linarith
  then show ?thesis using False by simp
qed

lemma le_dec_clear_sign:
  "v \<noteq> [] \<Longrightarrow> int (le_dec (butlast v @ [last v AND 0x7F])) = \<bar>vch_val v\<bar>"
  by (simp add: vch_val_def Let_def)

lemma get_low_doc: "mpi_documented B \<Longrightarrow> get_low B k n = nat \<bar>n\<bar> mod 256 ^ k"
proof -
  assume B: "mpi_documented B"
  show ?thesis
  proof (cases "vch_enc n = []")
    case True
    then have "n = 0" using vch_val_enc [of n] by (simp add: vch_val_def)
    then show ?thesis using B by (simp add: get_low_def bn2mpi_doc Let_def)
  next
    case False
    then obtain c cs where c: "rev (vch_enc n) = c # cs" by (cases "rev (vch_enc n)") auto
    then have e: "vch_enc n = rev cs @ [c]" by (metis rev.simps(2) rev_rev_ident)
    have "int (le_dec (rev cs @ [c AND 0x7F])) = \<bar>n\<bar>"
      using le_dec_clear_sign [OF False] e vch_val_enc [of n] by simp
    then have "le_dec (rev cs @ [c AND 0x7F]) = nat \<bar>n\<bar>" by linarith
    then show ?thesis using B c
      by (simp add: get_low_def bn2mpi_doc Let_def le_dec_take [where k = k])
  qed
qed

lemma getuint256_doc: "mpi_documented B \<Longrightarrow> 0 \<le> n \<Longrightarrow> n < 2 ^ 256 \<Longrightarrow> uint (getuint256 B n) = n"
  by (simp add: getuint256_def get_low_doc unsigned_of_nat take_bit_nat_eq_self nat_less_iff
      flip: uint_nat) (simp add: unsigned_of_int take_bit_int_eq_self)

lemma getuint256_setuint256: "mpi_documented B \<Longrightarrow> getuint256 B (setuint256 B h) = h"
proof -
  assume B: "mpi_documented B"
  have "uint h < 2 ^ 256" using unsigned_less [of h, where ?'a = int] by simp
  then show ?thesis using B getuint256_doc [OF B, of "uint h"]
    by (simp add: setuint256_doc flip: word_uint_eq_iff)
qed

subsection \<open>Compact targets\<close>

definition compact_body :: "u32 \<Rightarrow> byte list" where
  "compact_body c =
     take (unat (drop_bit 24 c))
       ([ucast (drop_bit 16 c AND 0xff), ucast (drop_bit 8 c AND 0xff), ucast (c AND 0xff)] @
        replicate (unat (drop_bit 24 c) - 3) 0)"

lemma nat_small:
  "(3 :: nat) = Suc (Suc (Suc 0))" "(4 :: nat) = Suc (Suc (Suc (Suc 0)))"
  "(5 :: nat) = Suc (Suc (Suc (Suc (Suc 0))))" "(6 :: nat) = Suc (Suc (Suc (Suc (Suc (Suc 0)))))"
  by simp_all

lemma be_enc_4_small: "n < 256 \<Longrightarrow> be_enc 4 n = [0, 0, 0, of_nat n]"
  by (simp add: be_enc_def nat_small)

lemma unat_drop_bit_24: "unat (drop_bit 24 (c :: u32)) < 256"
proof -
  have l: "unat c < 2 ^ 32" using unsigned_less [of c] by simp
  then have "unat c div 2 ^ 24 < 256" by (simp add: less_mult_imp_div_less)
  moreover have "unat (drop_bit 24 c) = drop_bit 24 (unat c)"
    using take_bit_nat_eq_self [OF l] by (simp only: unsigned_drop_bit_eq) simp
  ultimately show ?thesis by (simp add: drop_bit_eq_div)
qed

lemma SetCompact_doc: "mpi_documented B \<Longrightarrow> SetCompact B c = vch_val (rev (compact_body c))"
proof -
  assume B: "mpi_documented B"
  define s where "s = unat (drop_bit 24 c)"
  have s: "s < 256" using unat_drop_bit_24 by (simp add: s_def)
  have len: "length (compact_body c) = s" by (simp add: compact_body_def s_def)
  consider "s = 0" | "s = Suc 0" | "s = Suc (Suc 0)" | k where "s = Suc (Suc (Suc k))"
    by (metis not0_implies_Suc)
  then have "SetCompact B c = BN_mpi2bn B ([0, 0, 0, of_nat s] @ compact_body c)"
    by cases (simp_all add: SetCompact_def compact_body_def s_def [symmetric] Let_def nat_small)
  also have "\<dots> = vch_val (rev (compact_body c))"
    using mpi2bn_doc [OF B, of "compact_body c"] s len by (simp add: be_enc_4_small)
  finally show ?thesis .
qed

lemma compact_word_fields:
  fixes a b c d :: byte
  defines "w \<equiv> (push_bit 24 (ucast a) OR push_bit 16 (ucast b) OR push_bit 8 (ucast c) OR ucast d :: u32)"
  shows "unat (drop_bit 24 w) = unat a" "ucast (drop_bit 16 w AND 0xff) = b"
    "ucast (drop_bit 8 w AND 0xff) = c" "ucast (w AND 0xff) = d"
proof -
  have m: "(0xff :: u32) = mask 8" by (simp add: mask_numeral)
  have "drop_bit 24 w = ucast a"
    by (rule bit_word_eqI) (auto simp: w_def bit_simps dest: bit_imp_le_length)
  moreover have "take_bit 32 (unat a) = unat a"
    using unat_byte_less [of a] by (intro take_bit_nat_eq_self) (simp del: unat_byte_less)
  ultimately show "unat (drop_bit 24 w) = unat a" by (simp add: unsigned_ucast_eq)
  show "ucast (drop_bit 16 w AND 0xff) = b"
    unfolding m by (rule bit_word_eqI) (auto simp: w_def bit_simps dest: bit_imp_le_length)
  show "ucast (drop_bit 8 w AND 0xff) = c"
    unfolding m by (rule bit_word_eqI) (auto simp: w_def bit_simps dest: bit_imp_le_length)
  show "ucast (w AND 0xff) = d"
    unfolding m by (rule bit_word_eqI) (auto simp: w_def bit_simps dest: bit_imp_le_length)
qed

text \<open>The three most significant bytes survive; the rest of the body is zero.\<close>

lemma compact_body_GetCompact:
  assumes B: "mpi_documented B" and s: "length (vch_enc n) < 256"
  shows "compact_body (GetCompact B n) =
    take 3 (rev (vch_enc n)) @ replicate (length (vch_enc n) - 3) 0"
proof -
  define b where "b = rev (vch_enc n)"
  define g where "g i = (if i < length b then b ! i else 0)" for i
  have v: "BN_bn2mpi B n = be_enc 4 (length b) @ b" using bn2mpi_doc [OF B] by (simp add: b_def)
  consider "b = []" | x where "b = [x]" | x y where "b = [x, y]" | x y z r where "b = x # y # z # r"
    by (metis list.exhaust)
  note b_cases = this
  have u: "(ucast (of_nat (length b) :: byte) :: u32) = of_nat (length b)"
    using s by (simp add: unsigned_of_nat take_bit_nat_eq_self b_def)
  have "GetCompact B n = push_bit 24 (of_nat (length b)) OR push_bit 16 (ucast (g 0))
      OR push_bit 8 (ucast (g 1)) OR ucast (g 2)"
    using b_cases by cases (simp_all add: GetCompact_def v Let_def g_def nth_append or.assoc)
  then have "GetCompact B n = push_bit 24 (ucast (of_nat (length b) :: byte)) OR push_bit 16 (ucast (g 0))
      OR push_bit 8 (ucast (g 1)) OR ucast (g 2)" by (simp only: u)
  moreover have "unat (of_nat (length b) :: byte) = length b"
    using s by (simp add: unsigned_of_nat take_bit_nat_eq_self b_def)
  ultimately have "compact_body (GetCompact B n) = take (length b) ([g 0, g 1, g 2] @ replicate (length b - 3) 0)"
    by (simp only: compact_body_def compact_word_fields)
  also have "\<dots> = take 3 b @ replicate (length b - 3) 0"
    using b_cases by cases (simp_all add: g_def)
  finally show ?thesis by (simp add: b_def)
qed

lemma vch_val_nonneg_enc: "0 \<le> n \<Longrightarrow> int (le_dec (vch_enc n)) = n"
  by (auto simp: vch_enc_def Let_def le_dec_append)

lemma vch_enc_top: "0 \<le> n \<Longrightarrow> vch_enc n \<noteq> [] \<Longrightarrow> last (vch_enc n) AND 0x80 = 0"
  by (auto simp: vch_enc_def Let_def)

lemma vch_val_pos: "v \<noteq> [] \<Longrightarrow> last v AND 0x80 = 0 \<Longrightarrow> vch_val v = int (le_dec v)"
  by (simp add: vch_val_def Let_def byte_and_80_split)

lemma SetCompact_GetCompact:
  assumes B: "mpi_documented B" and n: "0 \<le> n" and s: "length (vch_enc n) < 256"
  shows "SetCompact B (GetCompact B n) = n - n mod 256 ^ (length (vch_enc n) - 3)"
proof (cases "vch_enc n = []")
  case True
  then have "n = 0" using vch_val_enc [of n] by (simp add: vch_val_def)
  then show ?thesis using B by (simp add: SetCompact_doc compact_body_GetCompact vch_val_def)
next
  case ne: False
  define e k where "e = vch_enc n" and "k = length e - 3"
  have e: "e \<noteq> []" "last e AND 0x80 = 0" "int (le_dec e) = n"
    using ne n vch_enc_top vch_val_nonneg_enc by (simp_all add: e_def)
  have "rev (compact_body (GetCompact B n)) = replicate k 0 @ drop k e"
    using compact_body_GetCompact [OF B s] by (simp add: e_def k_def rev_take)
  then have "SetCompact B (GetCompact B n) = vch_val (replicate k 0 @ drop k e)"
    using B by (simp add: SetCompact_doc)
  also have "\<dots> = int (le_dec (replicate k 0 @ drop k e))"
  proof (rule vch_val_pos)
    have "k < length e" using e(1) by (cases e) (simp_all add: k_def)
    then show "replicate k 0 @ drop k e \<noteq> []" "last (replicate k 0 @ drop k e) AND 0x80 = 0"
      using e(2) by (simp_all add: last_append)
  qed
  also have "\<dots> = int (256 ^ k * le_dec (drop k e))" by (simp add: le_dec_append)
  also have "256 ^ k * le_dec (drop k e) = le_dec e - le_dec e mod 256 ^ k"
  proof -
    have "le_dec e = le_dec (take k e) + 256 ^ length (take k e) * le_dec (drop k e)"
      using le_dec_append [of "take k e" "drop k e"] by (simp only: append_take_drop_id)
    moreover have "length (take k e) = k" by (simp add: k_def)
    ultimately show ?thesis by (simp only: le_dec_take)
  qed
  finally show ?thesis using e(3) by (auto simp: k_def e_def of_nat_diff zmod_int)
qed

lemma SetCompact_GetCompact_le:
  assumes "mpi_documented B" "0 \<le> n" "length (vch_enc n) < 256"
  shows "0 \<le> SetCompact B (GetCompact B n)" "SetCompact B (GetCompact B n) \<le> n"
  using assms by (simp_all add: SetCompact_GetCompact zmod_le_nonneg_dividend)

end
