(* ===== verification/Script.thy ===== *)
theory Script
  imports Bignum
begin

text \<open>
  Scripts as byte vectors (\<open>script.h\<close>): the opcode numbers, the builders \<open>operator<<\<close>, the instruction
  reader \<open>GetOp2\<close> and the scanners written with it (\<open>FindAndDelete\<close>, \<open>Find\<close>, \<open>IsPushOnly\<close>,
  \<open>HasCanonicalPushes\<close>, \<open>GetSigOpCount\<close>, \<open>IsPayToScriptHash\<close>). An \<open>opcodetype\<close> is its number; an
  iterator into a script is the suffix it points at.
\<close>

section \<open>Opcodes\<close>

abbreviation (input) OP_0 :: nat where "OP_0 \<equiv> 0x00"
abbreviation (input) OP_FALSE :: nat where "OP_FALSE \<equiv> 0x00"
abbreviation (input) OP_PUSHDATA1 :: nat where "OP_PUSHDATA1 \<equiv> 0x4c"
abbreviation (input) OP_PUSHDATA2 :: nat where "OP_PUSHDATA2 \<equiv> 0x4d"
abbreviation (input) OP_PUSHDATA4 :: nat where "OP_PUSHDATA4 \<equiv> 0x4e"
abbreviation (input) OP_1NEGATE :: nat where "OP_1NEGATE \<equiv> 0x4f"
abbreviation (input) OP_RESERVED :: nat where "OP_RESERVED \<equiv> 0x50"
abbreviation (input) OP_1 :: nat where "OP_1 \<equiv> 0x51"
abbreviation (input) OP_TRUE :: nat where "OP_TRUE \<equiv> 0x51"
abbreviation (input) OP_2 :: nat where "OP_2 \<equiv> 0x52"
abbreviation (input) OP_3 :: nat where "OP_3 \<equiv> 0x53"
abbreviation (input) OP_4 :: nat where "OP_4 \<equiv> 0x54"
abbreviation (input) OP_5 :: nat where "OP_5 \<equiv> 0x55"
abbreviation (input) OP_6 :: nat where "OP_6 \<equiv> 0x56"
abbreviation (input) OP_7 :: nat where "OP_7 \<equiv> 0x57"
abbreviation (input) OP_8 :: nat where "OP_8 \<equiv> 0x58"
abbreviation (input) OP_9 :: nat where "OP_9 \<equiv> 0x59"
abbreviation (input) OP_10 :: nat where "OP_10 \<equiv> 0x5a"
abbreviation (input) OP_11 :: nat where "OP_11 \<equiv> 0x5b"
abbreviation (input) OP_12 :: nat where "OP_12 \<equiv> 0x5c"
abbreviation (input) OP_13 :: nat where "OP_13 \<equiv> 0x5d"
abbreviation (input) OP_14 :: nat where "OP_14 \<equiv> 0x5e"
abbreviation (input) OP_15 :: nat where "OP_15 \<equiv> 0x5f"
abbreviation (input) OP_16 :: nat where "OP_16 \<equiv> 0x60"
abbreviation (input) OP_NOP :: nat where "OP_NOP \<equiv> 0x61"
abbreviation (input) OP_VER :: nat where "OP_VER \<equiv> 0x62"
abbreviation (input) OP_IF :: nat where "OP_IF \<equiv> 0x63"
abbreviation (input) OP_NOTIF :: nat where "OP_NOTIF \<equiv> 0x64"
abbreviation (input) OP_VERIF :: nat where "OP_VERIF \<equiv> 0x65"
abbreviation (input) OP_VERNOTIF :: nat where "OP_VERNOTIF \<equiv> 0x66"
abbreviation (input) OP_ELSE :: nat where "OP_ELSE \<equiv> 0x67"
abbreviation (input) OP_ENDIF :: nat where "OP_ENDIF \<equiv> 0x68"
abbreviation (input) OP_VERIFY :: nat where "OP_VERIFY \<equiv> 0x69"
abbreviation (input) OP_RETURN :: nat where "OP_RETURN \<equiv> 0x6a"
abbreviation (input) OP_TOALTSTACK :: nat where "OP_TOALTSTACK \<equiv> 0x6b"
abbreviation (input) OP_FROMALTSTACK :: nat where "OP_FROMALTSTACK \<equiv> 0x6c"
abbreviation (input) OP_2DROP :: nat where "OP_2DROP \<equiv> 0x6d"
abbreviation (input) OP_2DUP :: nat where "OP_2DUP \<equiv> 0x6e"
abbreviation (input) OP_3DUP :: nat where "OP_3DUP \<equiv> 0x6f"
abbreviation (input) OP_2OVER :: nat where "OP_2OVER \<equiv> 0x70"
abbreviation (input) OP_2ROT :: nat where "OP_2ROT \<equiv> 0x71"
abbreviation (input) OP_2SWAP :: nat where "OP_2SWAP \<equiv> 0x72"
abbreviation (input) OP_IFDUP :: nat where "OP_IFDUP \<equiv> 0x73"
abbreviation (input) OP_DEPTH :: nat where "OP_DEPTH \<equiv> 0x74"
abbreviation (input) OP_DROP :: nat where "OP_DROP \<equiv> 0x75"
abbreviation (input) OP_DUP :: nat where "OP_DUP \<equiv> 0x76"
abbreviation (input) OP_NIP :: nat where "OP_NIP \<equiv> 0x77"
abbreviation (input) OP_OVER :: nat where "OP_OVER \<equiv> 0x78"
abbreviation (input) OP_PICK :: nat where "OP_PICK \<equiv> 0x79"
abbreviation (input) OP_ROLL :: nat where "OP_ROLL \<equiv> 0x7a"
abbreviation (input) OP_ROT :: nat where "OP_ROT \<equiv> 0x7b"
abbreviation (input) OP_SWAP :: nat where "OP_SWAP \<equiv> 0x7c"
abbreviation (input) OP_TUCK :: nat where "OP_TUCK \<equiv> 0x7d"
abbreviation (input) OP_CAT :: nat where "OP_CAT \<equiv> 0x7e"
abbreviation (input) OP_SUBSTR :: nat where "OP_SUBSTR \<equiv> 0x7f"
abbreviation (input) OP_LEFT :: nat where "OP_LEFT \<equiv> 0x80"
abbreviation (input) OP_RIGHT :: nat where "OP_RIGHT \<equiv> 0x81"
abbreviation (input) OP_SIZE :: nat where "OP_SIZE \<equiv> 0x82"
abbreviation (input) OP_INVERT :: nat where "OP_INVERT \<equiv> 0x83"
abbreviation (input) OP_AND :: nat where "OP_AND \<equiv> 0x84"
abbreviation (input) OP_OR :: nat where "OP_OR \<equiv> 0x85"
abbreviation (input) OP_XOR :: nat where "OP_XOR \<equiv> 0x86"
abbreviation (input) OP_EQUAL :: nat where "OP_EQUAL \<equiv> 0x87"
abbreviation (input) OP_EQUALVERIFY :: nat where "OP_EQUALVERIFY \<equiv> 0x88"
abbreviation (input) OP_RESERVED1 :: nat where "OP_RESERVED1 \<equiv> 0x89"
abbreviation (input) OP_RESERVED2 :: nat where "OP_RESERVED2 \<equiv> 0x8a"
abbreviation (input) OP_1ADD :: nat where "OP_1ADD \<equiv> 0x8b"
abbreviation (input) OP_1SUB :: nat where "OP_1SUB \<equiv> 0x8c"
abbreviation (input) OP_2MUL :: nat where "OP_2MUL \<equiv> 0x8d"
abbreviation (input) OP_2DIV :: nat where "OP_2DIV \<equiv> 0x8e"
abbreviation (input) OP_NEGATE :: nat where "OP_NEGATE \<equiv> 0x8f"
abbreviation (input) OP_ABS :: nat where "OP_ABS \<equiv> 0x90"
abbreviation (input) OP_NOT :: nat where "OP_NOT \<equiv> 0x91"
abbreviation (input) OP_0NOTEQUAL :: nat where "OP_0NOTEQUAL \<equiv> 0x92"
abbreviation (input) OP_ADD :: nat where "OP_ADD \<equiv> 0x93"
abbreviation (input) OP_SUB :: nat where "OP_SUB \<equiv> 0x94"
abbreviation (input) OP_MUL :: nat where "OP_MUL \<equiv> 0x95"
abbreviation (input) OP_DIV :: nat where "OP_DIV \<equiv> 0x96"
abbreviation (input) OP_MOD :: nat where "OP_MOD \<equiv> 0x97"
abbreviation (input) OP_LSHIFT :: nat where "OP_LSHIFT \<equiv> 0x98"
abbreviation (input) OP_RSHIFT :: nat where "OP_RSHIFT \<equiv> 0x99"
abbreviation (input) OP_BOOLAND :: nat where "OP_BOOLAND \<equiv> 0x9a"
abbreviation (input) OP_BOOLOR :: nat where "OP_BOOLOR \<equiv> 0x9b"
abbreviation (input) OP_NUMEQUAL :: nat where "OP_NUMEQUAL \<equiv> 0x9c"
abbreviation (input) OP_NUMEQUALVERIFY :: nat where "OP_NUMEQUALVERIFY \<equiv> 0x9d"
abbreviation (input) OP_NUMNOTEQUAL :: nat where "OP_NUMNOTEQUAL \<equiv> 0x9e"
abbreviation (input) OP_LESSTHAN :: nat where "OP_LESSTHAN \<equiv> 0x9f"
abbreviation (input) OP_GREATERTHAN :: nat where "OP_GREATERTHAN \<equiv> 0xa0"
abbreviation (input) OP_LESSTHANOREQUAL :: nat where "OP_LESSTHANOREQUAL \<equiv> 0xa1"
abbreviation (input) OP_GREATERTHANOREQUAL :: nat where "OP_GREATERTHANOREQUAL \<equiv> 0xa2"
abbreviation (input) OP_MIN :: nat where "OP_MIN \<equiv> 0xa3"
abbreviation (input) OP_MAX :: nat where "OP_MAX \<equiv> 0xa4"
abbreviation (input) OP_WITHIN :: nat where "OP_WITHIN \<equiv> 0xa5"
abbreviation (input) OP_RIPEMD160 :: nat where "OP_RIPEMD160 \<equiv> 0xa6"
abbreviation (input) OP_SHA1 :: nat where "OP_SHA1 \<equiv> 0xa7"
abbreviation (input) OP_SHA256 :: nat where "OP_SHA256 \<equiv> 0xa8"
abbreviation (input) OP_HASH160 :: nat where "OP_HASH160 \<equiv> 0xa9"
abbreviation (input) OP_HASH256 :: nat where "OP_HASH256 \<equiv> 0xaa"
abbreviation (input) OP_CODESEPARATOR :: nat where "OP_CODESEPARATOR \<equiv> 0xab"
abbreviation (input) OP_CHECKSIG :: nat where "OP_CHECKSIG \<equiv> 0xac"
abbreviation (input) OP_CHECKSIGVERIFY :: nat where "OP_CHECKSIGVERIFY \<equiv> 0xad"
abbreviation (input) OP_CHECKMULTISIG :: nat where "OP_CHECKMULTISIG \<equiv> 0xae"
abbreviation (input) OP_CHECKMULTISIGVERIFY :: nat where "OP_CHECKMULTISIGVERIFY \<equiv> 0xaf"
abbreviation (input) OP_NOP1 :: nat where "OP_NOP1 \<equiv> 0xb0"
abbreviation (input) OP_NOP2 :: nat where "OP_NOP2 \<equiv> 0xb1"
abbreviation (input) OP_NOP3 :: nat where "OP_NOP3 \<equiv> 0xb2"
abbreviation (input) OP_NOP4 :: nat where "OP_NOP4 \<equiv> 0xb3"
abbreviation (input) OP_NOP5 :: nat where "OP_NOP5 \<equiv> 0xb4"
abbreviation (input) OP_NOP6 :: nat where "OP_NOP6 \<equiv> 0xb5"
abbreviation (input) OP_NOP7 :: nat where "OP_NOP7 \<equiv> 0xb6"
abbreviation (input) OP_NOP8 :: nat where "OP_NOP8 \<equiv> 0xb7"
abbreviation (input) OP_NOP9 :: nat where "OP_NOP9 \<equiv> 0xb8"
abbreviation (input) OP_NOP10 :: nat where "OP_NOP10 \<equiv> 0xb9"
abbreviation (input) OP_SMALLINTEGER :: nat where "OP_SMALLINTEGER \<equiv> 0xfa"
abbreviation (input) OP_PUBKEYS :: nat where "OP_PUBKEYS \<equiv> 0xfb"
abbreviation (input) OP_PUBKEYHASH :: nat where "OP_PUBKEYHASH \<equiv> 0xfd"
abbreviation (input) OP_PUBKEY :: nat where "OP_PUBKEY \<equiv> 0xfe"
abbreviation (input) OP_INVALIDOPCODE :: nat where "OP_INVALIDOPCODE \<equiv> 0xff"

text \<open>\<open>GetOpName\<close>: the table of its \<open>switch\<close>.\<close>

definition op_names :: "(nat \<times> string) list" where
  "op_names = [
     (OP_0, ''0''), (OP_PUSHDATA1, ''OP_PUSHDATA1''), (OP_PUSHDATA2, ''OP_PUSHDATA2''),
     (OP_PUSHDATA4, ''OP_PUSHDATA4''), (OP_1NEGATE, ''-1''), (OP_RESERVED, ''OP_RESERVED''),
     (OP_1, ''1''), (OP_2, ''2''), (OP_3, ''3''),
     (OP_4, ''4''), (OP_5, ''5''), (OP_6, ''6''),
     (OP_7, ''7''), (OP_8, ''8''), (OP_9, ''9''),
     (OP_10, ''10''), (OP_11, ''11''), (OP_12, ''12''),
     (OP_13, ''13''), (OP_14, ''14''), (OP_15, ''15''),
     (OP_16, ''16''), (OP_NOP, ''OP_NOP''), (OP_VER, ''OP_VER''),
     (OP_IF, ''OP_IF''), (OP_NOTIF, ''OP_NOTIF''), (OP_VERIF, ''OP_VERIF''),
     (OP_VERNOTIF, ''OP_VERNOTIF''), (OP_ELSE, ''OP_ELSE''), (OP_ENDIF, ''OP_ENDIF''),
     (OP_VERIFY, ''OP_VERIFY''), (OP_RETURN, ''OP_RETURN''), (OP_TOALTSTACK, ''OP_TOALTSTACK''),
     (OP_FROMALTSTACK, ''OP_FROMALTSTACK''), (OP_2DROP, ''OP_2DROP''), (OP_2DUP, ''OP_2DUP''),
     (OP_3DUP, ''OP_3DUP''), (OP_2OVER, ''OP_2OVER''), (OP_2ROT, ''OP_2ROT''),
     (OP_2SWAP, ''OP_2SWAP''), (OP_IFDUP, ''OP_IFDUP''), (OP_DEPTH, ''OP_DEPTH''),
     (OP_DROP, ''OP_DROP''), (OP_DUP, ''OP_DUP''), (OP_NIP, ''OP_NIP''),
     (OP_OVER, ''OP_OVER''), (OP_PICK, ''OP_PICK''), (OP_ROLL, ''OP_ROLL''),
     (OP_ROT, ''OP_ROT''), (OP_SWAP, ''OP_SWAP''), (OP_TUCK, ''OP_TUCK''),
     (OP_CAT, ''OP_CAT''), (OP_SUBSTR, ''OP_SUBSTR''), (OP_LEFT, ''OP_LEFT''),
     (OP_RIGHT, ''OP_RIGHT''), (OP_SIZE, ''OP_SIZE''), (OP_INVERT, ''OP_INVERT''),
     (OP_AND, ''OP_AND''), (OP_OR, ''OP_OR''), (OP_XOR, ''OP_XOR''),
     (OP_EQUAL, ''OP_EQUAL''), (OP_EQUALVERIFY, ''OP_EQUALVERIFY''), (OP_RESERVED1, ''OP_RESERVED1''),
     (OP_RESERVED2, ''OP_RESERVED2''), (OP_1ADD, ''OP_1ADD''), (OP_1SUB, ''OP_1SUB''),
     (OP_2MUL, ''OP_2MUL''), (OP_2DIV, ''OP_2DIV''), (OP_NEGATE, ''OP_NEGATE''),
     (OP_ABS, ''OP_ABS''), (OP_NOT, ''OP_NOT''), (OP_0NOTEQUAL, ''OP_0NOTEQUAL''),
     (OP_ADD, ''OP_ADD''), (OP_SUB, ''OP_SUB''), (OP_MUL, ''OP_MUL''),
     (OP_DIV, ''OP_DIV''), (OP_MOD, ''OP_MOD''), (OP_LSHIFT, ''OP_LSHIFT''),
     (OP_RSHIFT, ''OP_RSHIFT''), (OP_BOOLAND, ''OP_BOOLAND''), (OP_BOOLOR, ''OP_BOOLOR''),
     (OP_NUMEQUAL, ''OP_NUMEQUAL''), (OP_NUMEQUALVERIFY, ''OP_NUMEQUALVERIFY''), (OP_NUMNOTEQUAL, ''OP_NUMNOTEQUAL''),
     (OP_LESSTHAN, ''OP_LESSTHAN''), (OP_GREATERTHAN, ''OP_GREATERTHAN''), (OP_LESSTHANOREQUAL, ''OP_LESSTHANOREQUAL''),
     (OP_GREATERTHANOREQUAL, ''OP_GREATERTHANOREQUAL''), (OP_MIN, ''OP_MIN''), (OP_MAX, ''OP_MAX''),
     (OP_WITHIN, ''OP_WITHIN''), (OP_RIPEMD160, ''OP_RIPEMD160''), (OP_SHA1, ''OP_SHA1''),
     (OP_SHA256, ''OP_SHA256''), (OP_HASH160, ''OP_HASH160''), (OP_HASH256, ''OP_HASH256''),
     (OP_CODESEPARATOR, ''OP_CODESEPARATOR''), (OP_CHECKSIG, ''OP_CHECKSIG''), (OP_CHECKSIGVERIFY, ''OP_CHECKSIGVERIFY''),
     (OP_CHECKMULTISIG, ''OP_CHECKMULTISIG''), (OP_CHECKMULTISIGVERIFY, ''OP_CHECKMULTISIGVERIFY''), (OP_NOP1, ''OP_NOP1''),
     (OP_NOP2, ''OP_NOP2''), (OP_NOP3, ''OP_NOP3''), (OP_NOP4, ''OP_NOP4''),
     (OP_NOP5, ''OP_NOP5''), (OP_NOP6, ''OP_NOP6''), (OP_NOP7, ''OP_NOP7''),
     (OP_NOP8, ''OP_NOP8''), (OP_NOP9, ''OP_NOP9''), (OP_NOP10, ''OP_NOP10''),
     (OP_PUBKEYHASH, ''OP_PUBKEYHASH''), (OP_PUBKEY, ''OP_PUBKEY''), (OP_INVALIDOPCODE, ''OP_INVALIDOPCODE'')]"

definition GetOpName :: "nat \<Rightarrow> string" where
  "GetOpName opcode = (case map_of op_names opcode of Some s \<Rightarrow> s | None \<Rightarrow> ''OP_UNKNOWN'')"

section \<open>Building scripts\<close>

definition op_byte :: "nat \<Rightarrow> CScript" where
  "op_byte opcode = [of_nat opcode]"

text \<open>\<open>operator<<(const std::vector<unsigned char>&)\<close>.\<close>

definition push_data :: "valtype \<Rightarrow> CScript" where
  "push_data b =
     (if length b < OP_PUSHDATA1 then [of_nat (length b)]
      else if length b \<le> 0xff then [of_nat OP_PUSHDATA1, of_nat (length b)]
      else if length b \<le> 0xffff then of_nat OP_PUSHDATA2 # le_enc 2 (length b)
      else of_nat OP_PUSHDATA4 # le_enc 4 (length b)) @ b"

definition push_uint160 :: "uint160 \<Rightarrow> CScript" where
  "push_uint160 h = 20 # u160_bytes h"

definition push_uint256 :: "uint256 \<Rightarrow> CScript" where
  "push_uint256 h = 32 # u256_bytes h"

definition push_bignum :: "bn_lib \<Rightarrow> int \<Rightarrow> CScript" where
  "push_bignum B n = push_data (getvch B n)"

definition push_int64 :: "bn_lib \<Rightarrow> int \<Rightarrow> CScript" where
  "push_int64 B n =
     (if n = -1 \<or> (n \<ge> 1 \<and> n \<le> 16) then [of_int (n + (int OP_1 - 1))]
      else push_data (getvch B (setint64 B n)))"

definition push_uint64 :: "bn_lib \<Rightarrow> u64 \<Rightarrow> CScript" where
  "push_uint64 B n =
     (if n \<ge> 1 \<and> n \<le> 16 then [of_nat (unat n + (OP_1 - 1))]
      else push_data (getvch B (setuint64 B n)))"

text \<open>The assertions of \<open>DecodeOP_N\<close> and \<open>EncodeOP_N\<close> are \<open>None\<close>.\<close>

definition DecodeOP_N :: "nat \<Rightarrow> nat option" where
  "DecodeOP_N opcode =
     (if opcode = OP_0 then Some 0
      else if opcode \<ge> OP_1 \<and> opcode \<le> OP_16 then Some (opcode - (OP_1 - 1)) else None)"

definition EncodeOP_N :: "int \<Rightarrow> nat option" where
  "EncodeOP_N n =
     (if \<not> (n \<ge> 0 \<and> n \<le> 16) then None
      else if n = 0 then Some OP_0 else Some (nat (int OP_1 + n - 1)))"

section \<open>Reading instructions\<close>

definition GetOp2 :: "CScript \<Rightarrow> (nat \<times> valtype \<times> CScript) option" where
  "GetOp2 pc =
     (case pc of
        [] \<Rightarrow> None
      | c # pc1 \<Rightarrow>
          let opcode = unat c in
          if opcode \<le> OP_PUSHDATA4 then
            (let sz = (if opcode < OP_PUSHDATA1 then Some (opcode, pc1)
                       else if opcode = OP_PUSHDATA1 then
                         (if length pc1 < 1 then None else Some (le_dec (take 1 pc1), drop 1 pc1))
                       else if opcode = OP_PUSHDATA2 then
                         (if length pc1 < 2 then None else Some (le_dec (take 2 pc1), drop 2 pc1))
                       else
                         (if length pc1 < 4 then None else Some (le_dec (take 4 pc1), drop 4 pc1)))
             in case sz of
                  None \<Rightarrow> None
                | Some (nSize, pc2) \<Rightarrow>
                    if length pc2 < nSize then None
                    else Some (opcode, take nSize pc2, drop nSize pc2))
          else Some (opcode, [], pc1))"

lemma GetOp2_shorter: "GetOp2 s = Some (opcode, v, r) \<Longrightarrow> length r < length s"
  by (auto simp: GetOp2_def Let_def split: list.splits if_splits option.splits)

lemma GetOp2_suffix: "GetOp2 s = Some (opcode, v, r) \<Longrightarrow> \<exists>p. s = p @ r"
  by (auto simp: GetOp2_def Let_def split: list.splits if_splits option.splits)
     (metis append_Cons append_take_drop_id drop_drop append.left_neutral)+

lemma GetOp2_opcode_bound: "GetOp2 s = Some (opcode, v, r) \<Longrightarrow> opcode < 256"
  by (auto simp: GetOp2_def Let_def split: list.splits if_splits option.splits)

lemma GetOp2_data_length: "GetOp2 s = Some (opcode, v, r) \<Longrightarrow> length v + length r < length s"
  by (auto simp: GetOp2_def Let_def split: list.splits if_splits option.splits)

lemma GetOp2_op: "OP_PUSHDATA4 < unat c \<Longrightarrow> GetOp2 (c # r) = Some (unat c, [], r)"
  by (simp add: GetOp2_def Let_def)

lemma GetOp2_direct_push:
  "unat c < OP_PUSHDATA1 \<Longrightarrow> length d = unat c \<Longrightarrow> GetOp2 (c # d @ r) = Some (unat c, d, r)"
  by (simp add: GetOp2_def Let_def)

section \<open>Scanners\<close>

function IsPushOnly :: "CScript \<Rightarrow> bool" where
  "IsPushOnly pc =
     (if pc = [] then True
      else case GetOp2 pc of
             None \<Rightarrow> False
           | Some (opcode, v, pc') \<Rightarrow> if opcode > OP_16 then False else IsPushOnly pc')"
  by pat_completeness auto
termination
  by (relation "measure length") (auto dest: GetOp2_shorter)

function HasCanonicalPushes :: "CScript \<Rightarrow> bool" where
  "HasCanonicalPushes pc =
     (if pc = [] then True
      else case GetOp2 pc of
             None \<Rightarrow> False
           | Some (opcode, data, pc') \<Rightarrow>
               if opcode > OP_16 then HasCanonicalPushes pc'
               else if opcode < OP_PUSHDATA1 \<and> opcode > OP_0 \<and> (length data = 1 \<and> hd data \<le> 16) then False
               else if opcode = OP_PUSHDATA1 \<and> length data < OP_PUSHDATA1 then False
               else if opcode = OP_PUSHDATA2 \<and> length data \<le> 0xFF then False
               else if opcode = OP_PUSHDATA4 \<and> length data \<le> 0xFFFF then False
               else HasCanonicalPushes pc')"
  by pat_completeness auto
termination
  by (relation "measure length") (auto dest: GetOp2_shorter)

function Find :: "nat \<Rightarrow> CScript \<Rightarrow> nat" where
  "Find op pc =
     (if pc = [] then 0
      else case GetOp2 pc of
             None \<Rightarrow> 0
           | Some (opcode, v, pc') \<Rightarrow> (if opcode = op then 1 else 0) + Find op pc')"
  by pat_completeness auto
termination
  by (relation "measure (length \<circ> snd)") (auto dest: GetOp2_shorter)

text \<open>The loop of \<open>GetSigOpCount(bool)\<close>; \<open>lastOpcode\<close> starts as \<open>OP_INVALIDOPCODE\<close>.\<close>

function sigops_loop :: "bool \<Rightarrow> nat \<Rightarrow> CScript \<Rightarrow> nat" where
  "sigops_loop fAccurate lastOpcode pc =
     (if pc = [] then 0
      else case GetOp2 pc of
             None \<Rightarrow> 0
           | Some (opcode, v, pc') \<Rightarrow>
               (if opcode = OP_CHECKSIG \<or> opcode = OP_CHECKSIGVERIFY then 1
                else if opcode = OP_CHECKMULTISIG \<or> opcode = OP_CHECKMULTISIGVERIFY then
                  (if fAccurate \<and> lastOpcode \<ge> OP_1 \<and> lastOpcode \<le> OP_16
                   then the (DecodeOP_N lastOpcode) else 20)
                else 0) + sigops_loop fAccurate opcode pc')"
  by pat_completeness auto
termination
  by (relation "measure (\<lambda>(a, b, pc). length pc)") (auto dest: GetOp2_shorter)

declare IsPushOnly.simps [simp del] HasCanonicalPushes.simps [simp del]
  Find.simps [simp del] sigops_loop.simps [simp del]

definition GetSigOpCount :: "bool \<Rightarrow> CScript \<Rightarrow> nat" where
  "GetSigOpCount fAccurate s = sigops_loop fAccurate OP_INVALIDOPCODE s"

definition IsPayToScriptHash :: "CScript \<Rightarrow> bool" where
  "IsPayToScriptHash s \<longleftrightarrow>
     length s = 23 \<and> unat (s ! 0) = OP_HASH160 \<and> s ! 1 = 0x14 \<and> unat (s ! 22) = OP_EQUAL"

text \<open>\<open>GetSigOpCount(const CScript& scriptSig)\<close>: the last item pushed by the input script.\<close>

function last_push :: "valtype \<Rightarrow> CScript \<Rightarrow> valtype option" where
  "last_push data pc =
     (if pc = [] then Some data
      else case GetOp2 pc of
             None \<Rightarrow> None
           | Some (opcode, data', pc') \<Rightarrow> if opcode > OP_16 then None else last_push data' pc')"
  by pat_completeness auto
termination
  by (relation "measure (length \<circ> snd)") (auto dest: GetOp2_shorter)

declare last_push.simps [simp del]

definition GetSigOpCount_sig :: "CScript \<Rightarrow> CScript \<Rightarrow> nat" where
  "GetSigOpCount_sig s scriptSig =
     (if \<not> IsPayToScriptHash s then GetSigOpCount True s
      else case last_push [] scriptSig of
             None \<Rightarrow> 0
           | Some subscript \<Rightarrow> GetSigOpCount True subscript)"

text \<open>
  \<open>FindAndDelete\<close>: at every instruction boundary, occurrences of \<open>b\<close> are erased before the next
  instruction is read; the scan stops where \<open>GetOp\<close> fails.
\<close>

function erase_prefix :: "CScript \<Rightarrow> CScript \<Rightarrow> CScript \<times> nat" where
  "erase_prefix b s =
     (if b \<noteq> [] \<and> length s \<ge> length b \<and> take (length b) s = b
      then (case erase_prefix b (drop (length b) s) of (s', n) \<Rightarrow> (s', Suc n))
      else (s, 0))"
  by pat_completeness auto
termination
  by (relation "measure (length \<circ> snd)") (auto simp: neq_Nil_conv)

declare erase_prefix.simps [simp del]

lemma erase_prefix_length: "length (fst (erase_prefix b s)) + snd (erase_prefix b s) * length b = length s"
proof (induction b s rule: erase_prefix.induct)
  case (1 b s)
  then show ?case
    by (subst (1 2) erase_prefix.simps) (auto split: prod.splits)
qed

lemma erase_prefix_shorter: "(s1, n1) = erase_prefix b s \<Longrightarrow> length s1 \<le> length s"
  using erase_prefix_length [of b s] by (cases "erase_prefix b s") auto

function fad_loop :: "CScript \<Rightarrow> CScript \<Rightarrow> CScript \<times> nat" where
  "fad_loop b s =
     (case erase_prefix b s of (s1, n1) \<Rightarrow>
        (case GetOp2 s1 of
           None \<Rightarrow> (s1, n1)
         | Some (opcode, v, r) \<Rightarrow>
             (case fad_loop b r of (r', n2) \<Rightarrow> (take (length s1 - length r) s1 @ r', n1 + n2))))"
  by pat_completeness auto
termination
  by (relation "measure (length \<circ> snd)")
     (auto dest!: GetOp2_shorter dest: erase_prefix_shorter)

declare fad_loop.simps [simp del]

definition FindAndDelete :: "CScript \<Rightarrow> CScript \<Rightarrow> CScript \<times> nat" where
  "FindAndDelete s b = (if b = [] then (s, 0) else fad_loop b s)"

subsection \<open>Properties of the scanners\<close>

lemma FindAndDelete_length:
  "length (fst (FindAndDelete s b)) + snd (FindAndDelete s b) * length b = length s"
proof -
  have "length (fst (fad_loop b s)) + snd (fad_loop b s) * length b = length s"
  proof (induction b s rule: fad_loop.induct)
    case (1 b s)
    obtain s1 n1 where e: "erase_prefix b s = (s1, n1)" by force
    then have l: "length s1 + n1 * length b = length s" using erase_prefix_length [of b s] by simp
    show ?case
    proof (cases "GetOp2 s1")
      case None
      with e l show ?thesis by (subst (1 2) fad_loop.simps) simp
    next
      case (Some t)
      then obtain opcode v r where t: "GetOp2 s1 = Some (opcode, v, r)" by (cases t) auto
      obtain r' n2 where f: "fad_loop b r = (r', n2)" by force
      have "length r' + n2 * length b = length r" using 1 e t f by force
      moreover have "length r < length s1" using t by (rule GetOp2_shorter)
      ultimately show ?thesis using e t f l by (subst (1 2) fad_loop.simps) (simp add: algebra_simps)
    qed
  qed
  then show ?thesis by (simp add: FindAndDelete_def)
qed

lemma GetOp2_push_data:
  assumes "length b < 2 ^ 32"
  shows "\<exists>opcode. GetOp2 (push_data b @ r) = Some (opcode, b, r) \<and> opcode \<le> OP_PUSHDATA4 \<and>
           (opcode = (if length b < OP_PUSHDATA1 then length b else if length b \<le> 0xff then OP_PUSHDATA1
                      else if length b \<le> 0xffff then OP_PUSHDATA2 else OP_PUSHDATA4))"
proof -
  have small: "unat (of_nat (length b) :: byte) = length b" if "length b \<le> 0xff"
    using that by (simp add: unsigned_of_nat take_bit_nat_eq_self)
  show ?thesis
    using assms small by (auto simp: GetOp2_def push_data_def Let_def unsigned_of_nat)
qed

lemma IsPushOnly_push_data:
  "length b < 2 ^ 32 \<Longrightarrow> IsPushOnly (push_data b @ r) = IsPushOnly r"
proof -
  assume "length b < 2 ^ 32"
  then obtain opcode where "GetOp2 (push_data b @ r) = Some (opcode, b, r)" "opcode \<le> OP_PUSHDATA4"
    using GetOp2_push_data by blast
  moreover then have "push_data b @ r \<noteq> []" by (auto simp: GetOp2_def)
  ultimately show ?thesis by (simp only: IsPushOnly.simps [of "push_data b @ r"]) simp
qed

lemma IsPushOnly_pushes:
  "(\<forall>b \<in> set bs. length b < 2 ^ 32) \<Longrightarrow> IsPushOnly (concat (map push_data bs))"
  by (induction bs) (simp_all add: IsPushOnly_push_data, simp add: IsPushOnly.simps)

lemma HasCanonicalPushes_push_data:
  assumes "length b < 2 ^ 32"
  shows "HasCanonicalPushes (push_data b @ r) \<longleftrightarrow>
         \<not> (length b = 1 \<and> hd b \<le> 16) \<and> HasCanonicalPushes r"
proof -
  obtain opcode where g: "GetOp2 (push_data b @ r) = Some (opcode, b, r)"
    "opcode = (if length b < OP_PUSHDATA1 then length b else if length b \<le> 0xff then OP_PUSHDATA1
               else if length b \<le> 0xffff then OP_PUSHDATA2 else OP_PUSHDATA4)"
    using GetOp2_push_data [OF assms] by blast
  then have "push_data b @ r \<noteq> []" by (auto simp: GetOp2_def)
  with g show ?thesis by (auto simp: HasCanonicalPushes.simps [of "push_data b @ r"])
qed

lemma DecodeOP_N_le: "OP_1 \<le> n \<Longrightarrow> n \<le> OP_16 \<Longrightarrow> the (DecodeOP_N n) \<le> 16"
  by (simp add: DecodeOP_N_def)

lemma DecodeOP_N_EncodeOP_N:
  "0 \<le> n \<Longrightarrow> n \<le> 16 \<Longrightarrow> Option.bind (EncodeOP_N n) DecodeOP_N = Some (nat n)"
  by (simp add: EncodeOP_N_def DecodeOP_N_def) arith

lemma sigops_loop_bound: "sigops_loop acc l s \<le> 20 * length s"
proof (induction acc l s rule: sigops_loop.induct)
  case (1 acc l s)
  show ?case
  proof (cases "GetOp2 s")
    case None
    then show ?thesis by (subst sigops_loop.simps) simp
  next
    case (Some t)
    then obtain opcode v r where t: "GetOp2 s = Some (opcode, v, r)" by (cases t) auto
    then have "s \<noteq> []" by (auto simp: GetOp2_def)
    then have IH: "sigops_loop acc opcode r \<le> 20 * length r" using 1 t by auto
    moreover have "length r < length s" using t by (rule GetOp2_shorter)
    moreover have "OP_1 \<le> l \<Longrightarrow> l \<le> OP_16 \<Longrightarrow> the (DecodeOP_N l) \<le> 20"
      using DecodeOP_N_le [of l] by simp
    ultimately show ?thesis using t \<open>s \<noteq> []\<close> by (subst sigops_loop.simps) auto
  qed
qed

lemma sigops_accurate_le: "sigops_loop True l s \<le> sigops_loop False l' s"
proof (induction True l s arbitrary: l' rule: sigops_loop.induct)
  case (1 l s)
  show ?case
  proof (cases "GetOp2 s")
    case None
    then show ?thesis by (subst sigops_loop.simps) simp
  next
    case (Some t)
    then obtain opcode v r where t: "GetOp2 s = Some (opcode, v, r)" by (cases t) auto
    then have "s \<noteq> []" by (auto simp: GetOp2_def)
    then have IH: "sigops_loop True opcode r \<le> sigops_loop False opcode r" using 1 t by auto
    moreover have "OP_1 \<le> l \<Longrightarrow> l \<le> OP_16 \<Longrightarrow> the (DecodeOP_N l) \<le> 20"
      using DecodeOP_N_le [of l] by simp
    ultimately show ?thesis using t \<open>s \<noteq> []\<close>
      by (subst sigops_loop.simps, subst (2) sigops_loop.simps) auto
  qed
qed

end
