(* ===== verification/Crypto.thy ===== *)
theory Crypto
  imports Bignum
begin

text \<open>
  The cryptographic primitives the node calls. SHA-256, SHA-1, RIPEMD-160 and elliptic-curve
  signature checking are OpenSSL functions and are fields of the record \<open>ssl_lib\<close>; the wrappers
  \<open>Hash\<close>, \<open>Hash160\<close> (\<open>util.h\<close>) and \<open>CKey::SetPubKey\<close>, \<open>CKey::Verify\<close>, \<open>CPubKey\<close> (\<open>key.h\<close>,
  \<open>key.cpp\<close>) are definitions over it. The documented digest lengths are \<open>digests_documented\<close>.
  The elliptic-curve key object is determined by the public key bytes it was set from, so the
  library calls that take the key take those bytes.
\<close>

record ssl_lib =
  bn :: bn_lib
  SHA256 :: "byte list \<Rightarrow> byte list"
  SHA1 :: "byte list \<Rightarrow> byte list"
  RIPEMD160 :: "byte list \<Rightarrow> byte list"
  o2i_ECPublicKey :: "valtype \<Rightarrow> bool"
  ECDSA_verify :: "valtype \<Rightarrow> byte list \<Rightarrow> valtype \<Rightarrow> int"

definition digests_documented :: "ssl_lib \<Rightarrow> bool" where
  "digests_documented L \<longleftrightarrow>
     (\<forall>m. length (SHA256 L m) = 32 \<and> length (SHA1 L m) = 20 \<and> length (RIPEMD160 L m) = 20)"

definition Hash :: "ssl_lib \<Rightarrow> byte list \<Rightarrow> uint256" where
  "Hash L m = bytes_u256 (SHA256 L (u256_bytes (bytes_u256 (SHA256 L m))))"

text \<open>The two-range overload hashes the concatenation (two \<open>SHA256_Update\<close> calls).\<close>

definition Hash2 :: "ssl_lib \<Rightarrow> byte list \<Rightarrow> byte list \<Rightarrow> uint256" where
  "Hash2 L p1 p2 = bytes_u256 (SHA256 L (u256_bytes (bytes_u256 (SHA256 L (p1 @ p2)))))"

definition Hash160 :: "ssl_lib \<Rightarrow> byte list \<Rightarrow> uint160" where
  "Hash160 L v = bytes_u160 (RIPEMD160 L (u256_bytes (bytes_u256 (SHA256 L v))))"

type_synonym CKeyID = uint160
type_synonym CScriptID = uint160

definition CPubKey_GetID :: "ssl_lib \<Rightarrow> valtype \<Rightarrow> CKeyID" where
  "CPubKey_GetID L vchPubKey = Hash160 L vchPubKey"

definition CPubKey_IsValid :: "valtype \<Rightarrow> bool" where
  "CPubKey_IsValid vchPubKey \<longleftrightarrow> length vchPubKey = 33 \<or> length vchPubKey = 65"

definition CPubKey_IsCompressed :: "valtype \<Rightarrow> bool" where
  "CPubKey_IsCompressed vchPubKey \<longleftrightarrow> length vchPubKey = 33"

definition CKey_SetPubKey :: "ssl_lib \<Rightarrow> valtype \<Rightarrow> bool" where
  "CKey_SetPubKey L vchPubKey = o2i_ECPublicKey L vchPubKey"

definition CKey_Verify :: "ssl_lib \<Rightarrow> valtype \<Rightarrow> uint256 \<Rightarrow> valtype \<Rightarrow> bool" where
  "CKey_Verify L vchPubKey hash vchSig =
     (let verifyResult = ECDSA_verify L vchPubKey (u256_bytes hash) vchSig in
      if verifyResult \<noteq> 1 then False else True)"

text \<open>
  A library for the witnesses: digests made of the message length, keys valid exactly for 33- and
  65-byte strings, and a signature that must repeat the signed hash.
\<close>

definition ssl_demo :: ssl_lib where
  "ssl_demo = \<lparr>bn = bn_ref,
     SHA256 = (\<lambda>m. le_enc 32 (le_dec m + length m)),
     SHA1 = (\<lambda>m. le_enc 20 (le_dec m + length m)),
     RIPEMD160 = (\<lambda>m. le_enc 20 (le_dec m)),
     o2i_ECPublicKey = (\<lambda>k. length k = 33 \<or> length k = 65),
     ECDSA_verify = (\<lambda>k h s. if take 32 s = h then 1 else 0)\<rparr>"

lemma ssl_demo_documented [simp]: "digests_documented ssl_demo" "mpi_documented (bn ssl_demo)"
  by (simp_all add: digests_documented_def ssl_demo_def)

lemma Hash2_Hash: "Hash2 L p1 p2 = Hash L (p1 @ p2)"
  by (simp add: Hash2_def Hash_def)

end
