(* ===== verification/Transaction.thy ===== *)
theory Transaction
  imports Serialize Script Crypto
begin

text \<open>
  Transactions (\<open>main.h\<close>, \<open>main.cpp\<close>): outpoints, inputs, outputs, their serialization and hash, the
  classification predicates and the context-free checks \<open>CheckTransaction\<close>, \<open>GetValueOut\<close>,
  \<open>GetMinFee\<close>, \<open>GetLegacySigOpCount\<close>. The mutable \<open>nDoS\<close> counter is carried by the error value:
  a check returns \<open>Inl e\<close> with a named error (\<open>return false\<close>) or \<open>Inr\<close> (\<open>return true\<close>).
\<close>

section \<open>Money\<close>

abbreviation (input) COIN :: int where "COIN \<equiv> 100000000"
abbreviation (input) CENT :: int where "CENT \<equiv> 1000000"
abbreviation (input) MAX_MONEY :: int where "MAX_MONEY \<equiv> 90 * 1000000 * COIN"
abbreviation (input) MAX_BLOCK_SIZE :: nat where "MAX_BLOCK_SIZE \<equiv> 1000000"
abbreviation (input) MAX_BLOCK_SIZE_GEN :: nat where "MAX_BLOCK_SIZE_GEN \<equiv> MAX_BLOCK_SIZE div 2"
abbreviation (input) MAX_BLOCK_SIGOPS :: nat where "MAX_BLOCK_SIGOPS \<equiv> MAX_BLOCK_SIZE div 50"

text \<open>\<open>0.0000002 * COIN\<close> in double precision is exactly 20.\<close>

abbreviation (input) MIN_TX_FEE :: int where "MIN_TX_FEE \<equiv> 20"
abbreviation (input) MIN_RELAY_TX_FEE :: int where "MIN_RELAY_TX_FEE \<equiv> MIN_TX_FEE"
abbreviation (input) LOCKTIME_THRESHOLD :: int where "LOCKTIME_THRESHOLD \<equiv> 500000000"
abbreviation (input) CURRENT_VERSION :: int where "CURRENT_VERSION \<equiv> 1"

definition MoneyRange :: "int \<Rightarrow> bool" where
  "MoneyRange nValue \<longleftrightarrow> nValue \<ge> 0 \<and> nValue \<le> MAX_MONEY"

section \<open>Outpoints, inputs, outputs\<close>

datatype COutPoint = COutPoint (op_hash: uint256) (op_n: u32)

definition COutPoint_Null :: COutPoint where
  "COutPoint_Null = COutPoint 0 (- 1)"

definition COutPoint_IsNull :: "COutPoint \<Rightarrow> bool" where
  "COutPoint_IsNull p \<longleftrightarrow> op_hash p = 0 \<and> op_n p = - 1"

text \<open>\<open>operator<\<close>: the order of \<open>std::map<COutPoint, ...>\<close> and \<open>std::set<COutPoint>\<close>.\<close>

instantiation COutPoint :: linorder
begin

definition less_COutPoint :: "COutPoint \<Rightarrow> COutPoint \<Rightarrow> bool" where
  "less_COutPoint a b \<longleftrightarrow>
     op_hash a < op_hash b \<or> (op_hash a = op_hash b \<and> op_n a < op_n b)"

definition less_eq_COutPoint :: "COutPoint \<Rightarrow> COutPoint \<Rightarrow> bool" where
  "less_eq_COutPoint a b \<longleftrightarrow> a < b \<or> a = b"

instance
proof
  fix x y z :: COutPoint
  show "x < y \<longleftrightarrow> x \<le> y \<and> \<not> y \<le> x" "x \<le> x"
    "x \<le> y \<Longrightarrow> y \<le> z \<Longrightarrow> x \<le> z" "x \<le> y \<Longrightarrow> y \<le> x \<Longrightarrow> x = y" "x \<le> y \<or> y \<le> x"
    by (cases x; cases y; cases z; auto simp: less_eq_COutPoint_def less_COutPoint_def)+
qed

end

record CTxIn =
  prevout :: COutPoint
  scriptSig :: CScript
  nSequence :: u32

definition CTxIn_IsFinal :: "CTxIn \<Rightarrow> bool" where
  "CTxIn_IsFinal txin \<longleftrightarrow> nSequence txin = - 1"

record CTxOut =
  nValue :: int
  scriptPubKey :: CScript

definition CTxOut_SetNull :: CTxOut where
  "CTxOut_SetNull = \<lparr>nValue = -1, scriptPubKey = []\<rparr>"

definition CTxOut_IsNull :: "CTxOut \<Rightarrow> bool" where
  "CTxOut_IsNull txout \<longleftrightarrow> nValue txout = -1"

definition CTxOut_SetEmpty :: CTxOut where
  "CTxOut_SetEmpty = \<lparr>nValue = 0, scriptPubKey = []\<rparr>"

definition CTxOut_IsEmpty :: "CTxOut \<Rightarrow> bool" where
  "CTxOut_IsEmpty txout \<longleftrightarrow> nValue txout = 0 \<and> scriptPubKey txout = []"

section \<open>Transactions\<close>

record CTransaction =
  nVersion :: int
  nTime :: u32
  vin :: "CTxIn list"
  vout :: "CTxOut list"
  nLockTime :: u32

definition CTransaction_IsNull :: "CTransaction \<Rightarrow> bool" where
  "CTransaction_IsNull tx \<longleftrightarrow> vin tx = [] \<and> vout tx = []"

subsection \<open>Serialization\<close>

definition outpoint_bytes :: "COutPoint \<Rightarrow> byte list" where
  "outpoint_bytes p = u256_bytes (op_hash p) @ u32_bytes (op_n p)"

definition Unserialize_outpoint :: "byte list \<Rightarrow> (COutPoint \<times> byte list) option" where
  "Unserialize_outpoint is =
     (case Unserialize_u256 is of None \<Rightarrow> None | Some (h, is1) \<Rightarrow>
      (case Unserialize_u32 is1 of None \<Rightarrow> None | Some (n, is2) \<Rightarrow> Some (COutPoint h n, is2)))"

definition txin_bytes :: "CTxIn \<Rightarrow> byte list" where
  "txin_bytes i = outpoint_bytes (prevout i) @ Serialize_bytes (scriptSig i) @ u32_bytes (nSequence i)"

definition Unserialize_txin :: "byte list \<Rightarrow> (CTxIn \<times> byte list) option" where
  "Unserialize_txin is =
     (case Unserialize_outpoint is of None \<Rightarrow> None | Some (p, is1) \<Rightarrow>
      (case Unserialize_bytes is1 of None \<Rightarrow> None | Some (s, is2) \<Rightarrow>
      (case Unserialize_u32 is2 of None \<Rightarrow> None | Some (q, is3) \<Rightarrow>
         Some (\<lparr>prevout = p, scriptSig = s, nSequence = q\<rparr>, is3))))"

definition txout_bytes :: "CTxOut \<Rightarrow> byte list" where
  "txout_bytes t = i64_bytes (nValue t) @ Serialize_bytes (scriptPubKey t)"

definition Unserialize_txout :: "byte list \<Rightarrow> (CTxOut \<times> byte list) option" where
  "Unserialize_txout is =
     (case Unserialize_i64 is of None \<Rightarrow> None | Some (v, is1) \<Rightarrow>
      (case Unserialize_bytes is1 of None \<Rightarrow> None | Some (s, is2) \<Rightarrow>
         Some (\<lparr>nValue = v, scriptPubKey = s\<rparr>, is2)))"

definition tx_bytes :: "CTransaction \<Rightarrow> byte list" where
  "tx_bytes t = i32_bytes (nVersion t) @ u32_bytes (nTime t) @ Serialize_vec txin_bytes (vin t) @
     Serialize_vec txout_bytes (vout t) @ u32_bytes (nLockTime t)"

definition Unserialize_tx :: "byte list \<Rightarrow> (CTransaction \<times> byte list) option" where
  "Unserialize_tx is =
     (case Unserialize_i32 is of None \<Rightarrow> None | Some (ver, is1) \<Rightarrow>
      (case Unserialize_u32 is1 of None \<Rightarrow> None | Some (t, is2) \<Rightarrow>
      (case Unserialize_vec Unserialize_txin is2 of None \<Rightarrow> None | Some (vi, is3) \<Rightarrow>
      (case Unserialize_vec Unserialize_txout is3 of None \<Rightarrow> None | Some (vo, is4) \<Rightarrow>
      (case Unserialize_u32 is4 of None \<Rightarrow> None | Some (l, is5) \<Rightarrow>
         Some (\<lparr>nVersion = ver, nTime = t, vin = vi, vout = vo, nLockTime = l\<rparr>, is5))))))"

definition txin_ok :: "CTxIn \<Rightarrow> bool" where
  "txin_ok i \<longleftrightarrow> length (scriptSig i) \<le> MAX_SIZE"

definition txout_ok :: "CTxOut \<Rightarrow> bool" where
  "txout_ok t \<longleftrightarrow> in_i64 (nValue t) \<and> length (scriptPubKey t) \<le> MAX_SIZE"

definition tx_ok :: "CTransaction \<Rightarrow> bool" where
  "tx_ok t \<longleftrightarrow> in_i32 (nVersion t) \<and>
     length (vin t) \<le> MAX_SIZE \<and> list_all txin_ok (vin t) \<and>
     length (vout t) \<le> MAX_SIZE \<and> list_all txout_ok (vout t)"

interpretation outpoint: codec_vec outpoint_bytes Unserialize_outpoint "\<lambda>_. True"
  by unfold_locales
     (simp add: Unserialize_outpoint_def outpoint_bytes_def u256c.get_put u32c.get_put)

interpretation txin: codec_vec txin_bytes Unserialize_txin txin_ok
  by unfold_locales
     (simp add: Unserialize_txin_def txin_bytes_def txin_ok_def outpoint.get_put bytes.get_put u32c.get_put)

interpretation txout: codec_vec txout_bytes Unserialize_txout txout_ok
  by unfold_locales
     (simp add: Unserialize_txout_def txout_bytes_def txout_ok_def i64c.get_put bytes.get_put)

interpretation tx: codec_vec tx_bytes Unserialize_tx tx_ok
  by unfold_locales
     (simp add: Unserialize_tx_def tx_bytes_def tx_ok_def i32c.get_put u32c.get_put
        txin.vec.get_put txout.vec.get_put)

definition GetSerializeSize_txin :: "CTxIn \<Rightarrow> nat" where
  "GetSerializeSize_txin i = 36 + GetSerializeSize_bytes (scriptSig i) + 4"

definition GetSerializeSize_txout :: "CTxOut \<Rightarrow> nat" where
  "GetSerializeSize_txout t = 8 + GetSerializeSize_bytes (scriptPubKey t)"

definition GetSerializeSize_tx :: "CTransaction \<Rightarrow> nat" where
  "GetSerializeSize_tx t = 4 + 4 + GetSerializeSize_vec GetSerializeSize_txin (vin t) +
     GetSerializeSize_vec GetSerializeSize_txout (vout t) + 4"

lemma length_txin_bytes: "length (txin_bytes i) = GetSerializeSize_txin i"
  by (simp add: txin_bytes_def outpoint_bytes_def GetSerializeSize_txin_def length_Serialize_bytes)

lemma length_txout_bytes: "length (txout_bytes t) = GetSerializeSize_txout t"
  by (simp add: txout_bytes_def GetSerializeSize_txout_def length_Serialize_bytes)

lemma length_tx_bytes: "length (tx_bytes t) = GetSerializeSize_tx t"
  by (simp add: tx_bytes_def GetSerializeSize_tx_def length_Serialize_vec [OF length_txin_bytes]
      length_Serialize_vec [OF length_txout_bytes])

definition GetHash :: "ssl_lib \<Rightarrow> CTransaction \<Rightarrow> uint256" where
  "GetHash L tx = Hash L (tx_bytes tx)"

subsection \<open>Classification\<close>

definition IsCoinBase :: "CTransaction \<Rightarrow> bool" where
  "IsCoinBase tx \<longleftrightarrow> length (vin tx) = 1 \<and> COutPoint_IsNull (prevout (vin tx ! 0)) \<and> length (vout tx) \<ge> 1"

definition IsCoinStake :: "CTransaction \<Rightarrow> bool" where
  "IsCoinStake tx \<longleftrightarrow> length (vin tx) > 0 \<and> \<not> COutPoint_IsNull (prevout (vin tx ! 0)) \<and>
     length (vout tx) \<ge> 2 \<and> CTxOut_IsEmpty (vout tx ! 0)"

text \<open>\<open>IsFinal\<close> reads the globals \<open>nBestHeight\<close> and \<open>GetAdjustedTime()\<close> when an argument is 0.\<close>

definition IsFinal :: "int \<Rightarrow> int \<Rightarrow> int \<Rightarrow> int \<Rightarrow> CTransaction \<Rightarrow> bool" where
  "IsFinal nBestHeight adjustedTime nBlockHeight nBlockTime tx =
     (if nLockTime tx = 0 then True
      else let h = (if nBlockHeight = 0 then nBestHeight else nBlockHeight);
               t = (if nBlockTime = 0 then adjustedTime else nBlockTime);
               l = uint (nLockTime tx)
           in if l < (if l < LOCKTIME_THRESHOLD then h else t) then True
              else list_all CTxIn_IsFinal (vin tx))"

fun newer_loop :: "bool \<Rightarrow> u32 \<Rightarrow> (CTxIn \<times> CTxIn) list \<Rightarrow> bool" where
  "newer_loop fNewer nLowest [] = fNewer"
| "newer_loop fNewer nLowest ((a, b) # r) =
     (if nSequence a \<noteq> nSequence b then
        let (fNewer1, nLowest1) = (if nSequence a \<le> nLowest then (False, nSequence a) else (fNewer, nLowest));
            (fNewer2, nLowest2) = (if nSequence b < nLowest1 then (True, nSequence b) else (fNewer1, nLowest1))
        in newer_loop fNewer2 nLowest2 r
      else newer_loop fNewer nLowest r)"

definition IsNewerThan :: "CTransaction \<Rightarrow> CTransaction \<Rightarrow> bool" where
  "IsNewerThan tx old =
     (if length (vin tx) \<noteq> length (vin old) then False
      else if \<not> list_all (\<lambda>(a, b). prevout a = prevout b) (zip (vin tx) (vin old)) then False
      else newer_loop False (- 1) (zip (vin tx) (vin old)))"

subsection \<open>Values\<close>

fun value_out_loop :: "int \<Rightarrow> CTxOut list \<Rightarrow> int option" where
  "value_out_loop nValueOut [] = Some nValueOut"
| "value_out_loop nValueOut (txout # r) =
     (let nValueOut1 = i64 (nValueOut + nValue txout) in
      if \<not> MoneyRange (nValue txout) \<or> \<not> MoneyRange nValueOut1 then None
      else value_out_loop nValueOut1 r)"

definition GetValueOut :: "CTransaction \<Rightarrow> int option" where
  "GetValueOut tx = value_out_loop 0 (vout tx)"

datatype GetMinFee_mode = GMF_BLOCK | GMF_RELAY | GMF_SEND

definition GetMinFee :: "nat \<Rightarrow> GetMinFee_mode \<Rightarrow> nat \<Rightarrow> CTransaction \<Rightarrow> int" where
  "GetMinFee nBlockSize mode nBytes tx =
     (let nBaseFee = (if mode = GMF_RELAY then MIN_RELAY_TX_FEE else MIN_TX_FEE);
          nNewBlockSize = (nBlockSize + nBytes) mod 2 ^ 32;
          nMinFee0 = i64 ((1 + cdiv (int nBytes) 1000) * nBaseFee);
          nMinFee1 = (if nMinFee0 < nBaseFee
                      then (if list_ex (\<lambda>txout. nValue txout < CENT) (vout tx) then nBaseFee else nMinFee0)
                      else nMinFee0);
          cont = (\<lambda>nMinFee. if \<not> MoneyRange nMinFee then MAX_MONEY else nMinFee)
      in if nBlockSize \<noteq> 1 \<and> nNewBlockSize \<ge> MAX_BLOCK_SIZE_GEN div 2
         then if nNewBlockSize \<ge> MAX_BLOCK_SIZE_GEN then MAX_MONEY
              else cont (i64 (nMinFee1 * int (MAX_BLOCK_SIZE_GEN div (MAX_BLOCK_SIZE_GEN - nNewBlockSize))))
         else cont nMinFee1)"

definition GetLegacySigOpCount :: "CTransaction \<Rightarrow> nat" where
  "GetLegacySigOpCount tx =
     (sum_list (map (\<lambda>txin. GetSigOpCount False (scriptSig txin)) (vin tx)) +
      sum_list (map (\<lambda>txout. GetSigOpCount False (scriptPubKey txout)) (vout tx))) mod 2 ^ 32"

subsection \<open>CheckTransaction\<close>

datatype tx_error = Vin_empty | Vout_empty | Size_limits | Txout_empty | Value_negative
  | Value_too_high | Total_out_of_range | Duplicate_input | Coinbase_script_size | Prevout_null

text \<open>The denial-of-service score of each rejection; the duplicate-input exit records none.\<close>

fun tx_dos :: "tx_error \<Rightarrow> nat" where
  "tx_dos Vin_empty = 10"
| "tx_dos Vout_empty = 10"
| "tx_dos Duplicate_input = 0"
| "tx_dos Prevout_null = 10"
| "tx_dos _ = 100"

fun check_outputs :: "bool \<Rightarrow> int \<Rightarrow> CTxOut list \<Rightarrow> tx_error option" where
  "check_outputs special nValueOut [] = None"
| "check_outputs special nValueOut (txout # r) =
     (if CTxOut_IsEmpty txout \<and> \<not> special then Some Txout_empty
      else if nValue txout < 0 then Some Value_negative
      else if nValue txout > MAX_MONEY then Some Value_too_high
      else let nValueOut1 = i64 (nValueOut + nValue txout) in
           if \<not> MoneyRange nValueOut1 then Some Total_out_of_range
           else check_outputs special nValueOut1 r)"

fun check_dup :: "COutPoint set \<Rightarrow> CTxIn list \<Rightarrow> bool" where
  "check_dup vInOutPoints [] = True"
| "check_dup vInOutPoints (txin # r) =
     (if prevout txin \<in> vInOutPoints then False
      else check_dup (insert (prevout txin) vInOutPoints) r)"

definition CheckTransaction :: "CTransaction \<Rightarrow> tx_error + unit" where
  "CheckTransaction tx =
     (if vin tx = [] then Inl Vin_empty
      else if vout tx = [] then Inl Vout_empty
      else if GetSerializeSize_tx tx > MAX_BLOCK_SIZE then Inl Size_limits
      else case check_outputs (IsCoinBase tx \<or> IsCoinStake tx) 0 (vout tx) of
             Some e \<Rightarrow> Inl e
           | None \<Rightarrow>
               if \<not> check_dup {} (vin tx) then Inl Duplicate_input
               else if IsCoinBase tx then
                 (if length (scriptSig (vin tx ! 0)) < 2 \<or> length (scriptSig (vin tx ! 0)) > 100
                  then Inl Coinbase_script_size else Inr ())
               else if list_ex (\<lambda>txin. COutPoint_IsNull (prevout txin)) (vin tx) then Inl Prevout_null
               else Inr ())"

section \<open>Properties\<close>

text \<open>Money in range never wraps: two amounts in range add without reduction.\<close>

lemma MoneyRange_add_i64:
  "MoneyRange a \<Longrightarrow> 0 \<le> b \<Longrightarrow> b \<le> MAX_MONEY \<Longrightarrow> i64 (a + b) = a + b"
  by (rule i64_id) (auto simp: MoneyRange_def in_i64_def)

definition total_out :: "CTxOut list \<Rightarrow> int" where
  "total_out os = sum_list (map nValue os)"

lemma total_out_simps [simp]: "total_out [] = 0" "total_out (t # os) = nValue t + total_out os"
  by (simp_all add: total_out_def)

lemma total_out_nonneg: "list_all (\<lambda>t. 0 \<le> nValue t) os \<Longrightarrow> 0 \<le> total_out os"
  by (induction os) auto

lemma check_outputs_None_iff:
  assumes "MoneyRange acc"
  shows "check_outputs sp acc os = None \<longleftrightarrow>
    list_all (\<lambda>t. 0 \<le> nValue t \<and> nValue t \<le> MAX_MONEY \<and> (CTxOut_IsEmpty t \<longrightarrow> sp)) os \<and>
    acc + total_out os \<le> MAX_MONEY"
  using assms
proof (induction os arbitrary: acc)
  case Nil
  then show ?case by (simp add: MoneyRange_def)
next
  case (Cons t os)
  show ?case
  proof (cases "0 \<le> nValue t \<and> nValue t \<le> MAX_MONEY")
    case True
    then have w: "i64 (acc + nValue t) = acc + nValue t" using MoneyRange_add_i64 [OF Cons.prems] by simp
    show ?thesis
    proof (cases "MoneyRange (acc + nValue t)")
      case r: True
      then show ?thesis using True w Cons.IH [OF r] by (auto simp: Let_def)
    next
      case False
      then have "acc + nValue t > MAX_MONEY" using True Cons.prems by (auto simp: MoneyRange_def)
      moreover have "list_all (\<lambda>t. 0 \<le> nValue t \<and> nValue t \<le> MAX_MONEY \<and> (CTxOut_IsEmpty t \<longrightarrow> sp)) os
          \<Longrightarrow> 0 \<le> total_out os"
        by (rule total_out_nonneg) (auto simp: list_all_iff)
      ultimately show ?thesis using True w False by (auto simp: Let_def)
    qed
  next
    case False
    then show ?thesis by auto
  qed
qed

lemma check_dup_iff: "check_dup S is \<longleftrightarrow> distinct (map prevout is) \<and> prevout ` set is \<inter> S = {}"
  by (induction S "is" rule: check_dup.induct) auto

lemma value_out_loop_Some:
  assumes "MoneyRange acc" "list_all (\<lambda>t. 0 \<le> nValue t) os" "acc + total_out os \<le> MAX_MONEY"
  shows "value_out_loop acc os = Some (acc + total_out os)"
  using assms
proof (induction os arbitrary: acc)
  case Nil
  then show ?case by simp
next
  case (Cons t os)
  have nn: "0 \<le> nValue t" "0 \<le> total_out os" using Cons.prems total_out_nonneg by auto
  have le: "nValue t \<le> MAX_MONEY" "MoneyRange (acc + nValue t)"
    using Cons.prems nn by (auto simp: MoneyRange_def)
  have "i64 (acc + nValue t) = acc + nValue t"
    using MoneyRange_add_i64 [OF Cons.prems(1)] nn le by simp
  then show ?case using Cons.IH [OF le(2)] Cons.prems nn le
    by (simp add: Let_def add.assoc) (simp add: MoneyRange_def)
qed

lemma value_out_loop_range:
  "MoneyRange acc \<Longrightarrow> value_out_loop acc os = Some v \<Longrightarrow> MoneyRange v \<and> v = acc + total_out os \<and>
     list_all (\<lambda>t. MoneyRange (nValue t)) os"
proof (induction os arbitrary: acc)
  case Nil
  then show ?case by simp
next
  case (Cons t os)
  from Cons.prems(2) have r: "MoneyRange (nValue t)" "MoneyRange (i64 (acc + nValue t))"
    "value_out_loop (i64 (acc + nValue t)) os = Some v"
    by (auto simp: Let_def split: if_splits)
  have "i64 (acc + nValue t) = acc + nValue t"
    using MoneyRange_add_i64 [OF Cons.prems(1)] r(1) by (simp add: MoneyRange_def)
  then show ?case using Cons.IH [OF r(2,3)] r by auto
qed

text \<open>The specification of a well-formed transaction.\<close>

definition tx_wellformed :: "CTransaction \<Rightarrow> bool" where
  "tx_wellformed tx \<longleftrightarrow>
     vin tx \<noteq> [] \<and> vout tx \<noteq> [] \<and> length (tx_bytes tx) \<le> MAX_BLOCK_SIZE \<and>
     (\<forall>t \<in> set (vout tx). 0 \<le> nValue t \<and> nValue t \<le> MAX_MONEY) \<and>
     (\<forall>t \<in> set (vout tx). CTxOut_IsEmpty t \<longrightarrow> IsCoinBase tx \<or> IsCoinStake tx) \<and>
     total_out (vout tx) \<le> MAX_MONEY \<and>
     distinct (map prevout (vin tx)) \<and>
     (if IsCoinBase tx then 2 \<le> length (scriptSig (vin tx ! 0)) \<and> length (scriptSig (vin tx ! 0)) \<le> 100
      else \<forall>i \<in> set (vin tx). \<not> COutPoint_IsNull (prevout i))"

lemma MoneyRange_0 [simp]: "MoneyRange 0"
  by (simp add: MoneyRange_def)

lemma CheckTransaction_wellformed: "CheckTransaction tx = Inr () \<longleftrightarrow> tx_wellformed tx"
proof -
  have c: "check_outputs sp 0 (vout tx) = None \<longleftrightarrow>
      (\<forall>t \<in> set (vout tx). 0 \<le> nValue t \<and> nValue t \<le> MAX_MONEY \<and> (CTxOut_IsEmpty t \<longrightarrow> sp)) \<and>
      total_out (vout tx) \<le> MAX_MONEY" for sp
    using check_outputs_None_iff [of 0 sp "vout tx"] by (simp add: list_all_iff)
  show ?thesis
    by (cases "check_outputs (IsCoinBase tx \<or> IsCoinStake tx) 0 (vout tx)")
       (use c [of "IsCoinBase tx \<or> IsCoinStake tx"] in
        \<open>auto simp: CheckTransaction_def tx_wellformed_def check_dup_iff length_tx_bytes list_ex_iff\<close>)
qed

end
