(* ===== verification/Interp.thy ===== *)
theory Interp
  imports Transaction "HOL-Library.Sublist"
begin

text \<open>
  The script interpreter \<open>EvalScript\<close> (\<open>script.cpp\<close>). The stacks are lists with the top first
  (\<open>stacktop(-k)\<close> is element \<open>k - 1\<close>), \<open>vfExec\<close> has the innermost branch first, an iterator is the
  suffix of the script it points at. \<open>None\<close> is \<open>return false\<close>, which also covers every exception,
  since the code catches them all. Signature checking is the parameter \<open>checker\<close>: signature, public
  key and script code, instantiated with \<open>CheckSig\<close> in the theory \<open>Verify\<close>. The bodies of the
  disabled opcodes are unreachable (the loop rejects them before the switch) and are not translated.
\<close>

section \<open>Values\<close>

definition vchFalse :: valtype where "vchFalse = []"
definition vchTrue :: valtype where "vchTrue = [1]"

definition CastToBigNum :: "bn_lib \<Rightarrow> valtype \<Rightarrow> int option" where
  "CastToBigNum B v = (if length v > 4 then None else Some (setvch B (getvch B (setvch B v))))"

fun CastToBool :: "valtype \<Rightarrow> bool" where
  "CastToBool [] = False"
| "CastToBool (c # r) =
     (if c \<noteq> 0 then (if r = [] \<and> c = 0x80 then False else True) else CastToBool r)"

section \<open>Canonical encodings\<close>

definition IsCanonicalPubKey :: "valtype \<Rightarrow> bool" where
  "IsCanonicalPubKey k =
     (if length k < 33 then False
      else if k ! 0 = 0x04 then length k = 65
      else if k ! 0 = 0x02 \<or> k ! 0 = 0x03 then length k = 33
      else False)"

definition IsCanonicalSignature :: "valtype \<Rightarrow> bool" where
  "IsCanonicalSignature s =
     (if length s < 9 then False
      else if length s > 73 then False
      else let nHashType = s ! (length s - 1) AND NOT 0x80 in
      if nHashType < 1 \<or> nHashType > 3 then False
      else if s ! 0 \<noteq> 0x30 then False
      else if unat (s ! 1) \<noteq> length s - 3 then False
      else let nLenR = unat (s ! 3) in
      if 5 + nLenR \<ge> length s then False
      else let nLenS = unat (s ! (5 + nLenR)) in
      if nLenR + nLenS + 7 \<noteq> length s then False
      else if s ! 2 \<noteq> 0x02 then False
      else if nLenR = 0 then False
      else if s ! 4 AND 0x80 \<noteq> 0 then False
      else if nLenR > 1 \<and> s ! 4 = 0 \<and> s ! 5 AND 0x80 = 0 then False
      else if s ! (4 + nLenR) \<noteq> 0x02 then False
      else if nLenS = 0 then False
      else if s ! (6 + nLenR) AND 0x80 \<noteq> 0 then False
      else if nLenS > 1 \<and> s ! (6 + nLenR) = 0 \<and> s ! (7 + nLenR) AND 0x80 = 0 then False
      else if nLenS > 32 then False
      else True)"

section \<open>The machine state\<close>

record eval_state =
  stack :: "valtype list"
  altstack :: "valtype list"
  vfExec :: "bool list"
  nOpCount :: nat
  pbegincodehash :: CScript

type_synonym checker = "valtype \<Rightarrow> valtype \<Rightarrow> CScript \<Rightarrow> bool"

definition disabled_op :: "nat \<Rightarrow> bool" where
  "disabled_op opcode \<longleftrightarrow> opcode \<in>
     {OP_CAT, OP_SUBSTR, OP_LEFT, OP_RIGHT, OP_INVERT, OP_AND, OP_OR, OP_XOR, OP_2MUL, OP_2DIV,
      OP_MUL, OP_DIV, OP_MOD, OP_LSHIFT, OP_RSHIFT}"

section \<open>The cases of the switch\<close>

definition exec_push :: "bn_lib \<Rightarrow> nat \<Rightarrow> eval_state \<Rightarrow> eval_state option" where
  "exec_push B opcode st = Some (st\<lparr>stack := getvch B (int opcode - (int OP_1 - 1)) # stack st\<rparr>)"

definition exec_control :: "bool \<Rightarrow> nat \<Rightarrow> eval_state \<Rightarrow> eval_state option" where
  "exec_control fExec opcode st =
     (if opcode = OP_IF \<or> opcode = OP_NOTIF then
        (if fExec then
           (case stack st of
              [] \<Rightarrow> None
            | v # s \<Rightarrow>
                let fValue = CastToBool v;
                    fValue' = (if opcode = OP_NOTIF then \<not> fValue else fValue)
                in Some (st\<lparr>stack := s, vfExec := fValue' # vfExec st\<rparr>))
         else Some (st\<lparr>vfExec := False # vfExec st\<rparr>))
      else if opcode = OP_ELSE then
        (case vfExec st of [] \<Rightarrow> None | f # fs \<Rightarrow> Some (st\<lparr>vfExec := (\<not> f) # fs\<rparr>))
      else if opcode = OP_ENDIF then
        (case vfExec st of [] \<Rightarrow> None | f # fs \<Rightarrow> Some (st\<lparr>vfExec := fs\<rparr>))
      else if opcode = OP_VERIFY then
        (case stack st of [] \<Rightarrow> None | v # s \<Rightarrow> if CastToBool v then Some (st\<lparr>stack := s\<rparr>) else None)
      else if opcode = OP_RETURN then None
      else Some st)"

definition exec_stack :: "bn_lib \<Rightarrow> nat \<Rightarrow> eval_state \<Rightarrow> eval_state option" where
  "exec_stack B opcode st =
     (if opcode = OP_TOALTSTACK then
        (case stack st of x # s \<Rightarrow> Some (st\<lparr>stack := s, altstack := x # altstack st\<rparr>) | _ \<Rightarrow> None)
      else if opcode = OP_FROMALTSTACK then
        (case altstack st of x # a \<Rightarrow> Some (st\<lparr>stack := x # stack st, altstack := a\<rparr>) | _ \<Rightarrow> None)
      else if opcode = OP_2DROP then
        (case stack st of _ # _ # s \<Rightarrow> Some (st\<lparr>stack := s\<rparr>) | _ \<Rightarrow> None)
      else if opcode = OP_2DUP then
        (case stack st of x2 # x1 # s \<Rightarrow> Some (st\<lparr>stack := x2 # x1 # x2 # x1 # s\<rparr>) | _ \<Rightarrow> None)
      else if opcode = OP_3DUP then
        (case stack st of x3 # x2 # x1 # s \<Rightarrow> Some (st\<lparr>stack := x3 # x2 # x1 # x3 # x2 # x1 # s\<rparr>) | _ \<Rightarrow> None)
      else if opcode = OP_2OVER then
        (case stack st of x4 # x3 # x2 # x1 # s \<Rightarrow> Some (st\<lparr>stack := x2 # x1 # x4 # x3 # x2 # x1 # s\<rparr>) | _ \<Rightarrow> None)
      else if opcode = OP_2ROT then
        (case stack st of x6 # x5 # x4 # x3 # x2 # x1 # s \<Rightarrow>
           Some (st\<lparr>stack := x2 # x1 # x6 # x5 # x4 # x3 # s\<rparr>) | _ \<Rightarrow> None)
      else if opcode = OP_2SWAP then
        (case stack st of x4 # x3 # x2 # x1 # s \<Rightarrow> Some (st\<lparr>stack := x2 # x1 # x4 # x3 # s\<rparr>) | _ \<Rightarrow> None)
      else if opcode = OP_IFDUP then
        (case stack st of x # s \<Rightarrow> Some (if CastToBool x then st\<lparr>stack := x # x # s\<rparr> else st) | _ \<Rightarrow> None)
      else if opcode = OP_DEPTH then
        Some (st\<lparr>stack := getvch B (int (length (stack st))) # stack st\<rparr>)
      else if opcode = OP_DROP then
        (case stack st of _ # s \<Rightarrow> Some (st\<lparr>stack := s\<rparr>) | _ \<Rightarrow> None)
      else if opcode = OP_DUP then
        (case stack st of x # s \<Rightarrow> Some (st\<lparr>stack := x # x # s\<rparr>) | _ \<Rightarrow> None)
      else if opcode = OP_NIP then
        (case stack st of x2 # x1 # s \<Rightarrow> Some (st\<lparr>stack := x2 # s\<rparr>) | _ \<Rightarrow> None)
      else if opcode = OP_OVER then
        (case stack st of x2 # x1 # s \<Rightarrow> Some (st\<lparr>stack := x1 # x2 # x1 # s\<rparr>) | _ \<Rightarrow> None)
      else if opcode = OP_ROT then
        (case stack st of x3 # x2 # x1 # s \<Rightarrow> Some (st\<lparr>stack := x1 # x3 # x2 # s\<rparr>) | _ \<Rightarrow> None)
      else if opcode = OP_SWAP then
        (case stack st of x2 # x1 # s \<Rightarrow> Some (st\<lparr>stack := x1 # x2 # s\<rparr>) | _ \<Rightarrow> None)
      else if opcode = OP_TUCK then
        (case stack st of x2 # x1 # s \<Rightarrow> Some (st\<lparr>stack := x2 # x1 # x2 # s\<rparr>) | _ \<Rightarrow> None)
      else None)"

definition exec_pick :: "bn_lib \<Rightarrow> nat \<Rightarrow> eval_state \<Rightarrow> eval_state option" where
  "exec_pick B opcode st =
     (if length (stack st) < 2 then None
      else case CastToBigNum B (hd (stack st)) of
             None \<Rightarrow> None
           | Some x \<Rightarrow>
               let n = getint B x; s = tl (stack st) in
               if n < 0 \<or> n \<ge> int (length s) then None
               else let v = s ! nat n;
                        s' = (if opcode = OP_ROLL then take (nat n) s @ drop (nat n + 1) s else s)
                    in Some (st\<lparr>stack := v # s'\<rparr>))"

definition exec_size :: "bn_lib \<Rightarrow> eval_state \<Rightarrow> eval_state option" where
  "exec_size B st =
     (case stack st of
        [] \<Rightarrow> None
      | x # s \<Rightarrow> Some (st\<lparr>stack := getvch B (int (length x)) # x # s\<rparr>))"

definition exec_equal :: "nat \<Rightarrow> eval_state \<Rightarrow> eval_state option" where
  "exec_equal opcode st =
     (case stack st of
        x2 # x1 # s \<Rightarrow>
          let fEqual = (x1 = x2) in
          if opcode = OP_EQUALVERIFY then (if fEqual then Some (st\<lparr>stack := s\<rparr>) else None)
          else Some (st\<lparr>stack := (if fEqual then vchTrue else vchFalse) # s\<rparr>)
      | _ \<Rightarrow> None)"

definition unary_num :: "nat \<Rightarrow> int \<Rightarrow> int" where
  "unary_num opcode n =
     (if opcode = OP_1ADD then n + 1
      else if opcode = OP_1SUB then n - 1
      else if opcode = OP_NEGATE then - n
      else if opcode = OP_ABS then (if n < 0 then - n else n)
      else if opcode = OP_NOT then of_bool (n = 0)
      else of_bool (n \<noteq> 0))"

definition exec_unary :: "bn_lib \<Rightarrow> nat \<Rightarrow> eval_state \<Rightarrow> eval_state option" where
  "exec_unary B opcode st =
     (case stack st of
        [] \<Rightarrow> None
      | x # s \<Rightarrow>
          (case CastToBigNum B x of
             None \<Rightarrow> None
           | Some n \<Rightarrow> Some (st\<lparr>stack := getvch B (unary_num opcode n) # s\<rparr>)))"

definition binary_num :: "nat \<Rightarrow> int \<Rightarrow> int \<Rightarrow> int" where
  "binary_num opcode n1 n2 =
     (if opcode = OP_ADD then n1 + n2
      else if opcode = OP_SUB then n1 - n2
      else if opcode = OP_BOOLAND then of_bool (n1 \<noteq> 0 \<and> n2 \<noteq> 0)
      else if opcode = OP_BOOLOR then of_bool (n1 \<noteq> 0 \<or> n2 \<noteq> 0)
      else if opcode = OP_NUMEQUAL then of_bool (n1 = n2)
      else if opcode = OP_NUMEQUALVERIFY then of_bool (n1 = n2)
      else if opcode = OP_NUMNOTEQUAL then of_bool (n1 \<noteq> n2)
      else if opcode = OP_LESSTHAN then of_bool (n1 < n2)
      else if opcode = OP_GREATERTHAN then of_bool (n1 > n2)
      else if opcode = OP_LESSTHANOREQUAL then of_bool (n1 \<le> n2)
      else if opcode = OP_GREATERTHANOREQUAL then of_bool (n1 \<ge> n2)
      else if opcode = OP_MIN then (if n1 < n2 then n1 else n2)
      else (if n1 > n2 then n1 else n2))"

definition exec_binary :: "bn_lib \<Rightarrow> nat \<Rightarrow> eval_state \<Rightarrow> eval_state option" where
  "exec_binary B opcode st =
     (case stack st of
        x2 # x1 # s \<Rightarrow>
          (case (CastToBigNum B x1, CastToBigNum B x2) of
             (Some n1, Some n2) \<Rightarrow>
               let r = getvch B (binary_num opcode n1 n2) in
               if opcode = OP_NUMEQUALVERIFY
               then (if CastToBool r then Some (st\<lparr>stack := s\<rparr>) else None)
               else Some (st\<lparr>stack := r # s\<rparr>)
           | _ \<Rightarrow> None)
      | _ \<Rightarrow> None)"

definition exec_within :: "bn_lib \<Rightarrow> eval_state \<Rightarrow> eval_state option" where
  "exec_within B st =
     (case stack st of
        x3 # x2 # x1 # s \<Rightarrow>
          (case (CastToBigNum B x1, CastToBigNum B x2, CastToBigNum B x3) of
             (Some n1, Some n2, Some n3) \<Rightarrow>
               Some (st\<lparr>stack := (if n2 \<le> n1 \<and> n1 < n3 then vchTrue else vchFalse) # s\<rparr>)
           | _ \<Rightarrow> None)
      | _ \<Rightarrow> None)"

definition exec_hash :: "ssl_lib \<Rightarrow> nat \<Rightarrow> eval_state \<Rightarrow> eval_state option" where
  "exec_hash L opcode st =
     (case stack st of
        [] \<Rightarrow> None
      | v # s \<Rightarrow>
          let vchHash = (if opcode = OP_RIPEMD160 then RIPEMD160 L v
                         else if opcode = OP_SHA1 then SHA1 L v
                         else if opcode = OP_SHA256 then SHA256 L v
                         else if opcode = OP_HASH160 then u160_bytes (Hash160 L v)
                         else u256_bytes (Hash L v))
          in Some (st\<lparr>stack := vchHash # s\<rparr>))"

definition exec_checksig :: "checker \<Rightarrow> nat \<Rightarrow> eval_state \<Rightarrow> eval_state option" where
  "exec_checksig check opcode st =
     (case stack st of
        vchPubKey # vchSig # s \<Rightarrow>
          let scriptCode = fst (FindAndDelete (pbegincodehash st) (push_data vchSig));
              fSuccess = (IsCanonicalSignature vchSig \<and> IsCanonicalPubKey vchPubKey \<and>
                          check vchSig vchPubKey scriptCode)
          in if opcode = OP_CHECKSIGVERIFY then (if fSuccess then Some (st\<lparr>stack := s\<rparr>) else None)
             else Some (st\<lparr>stack := (if fSuccess then vchTrue else vchFalse) # s\<rparr>)
      | _ \<Rightarrow> None)"

text \<open>
  The matching loop of \<open>OP_CHECKMULTISIG\<close>, over the signatures and keys still to be tried. The last
  equation is never reached: the code keeps the number of signatures at most the number of keys.
\<close>

fun multisig_loop :: "(valtype \<Rightarrow> valtype \<Rightarrow> bool) \<Rightarrow> valtype list \<Rightarrow> valtype list \<Rightarrow> bool" where
  "multisig_loop ok [] keys = True"
| "multisig_loop ok (sig # sigs) (key # keys) =
     (let sigs' = (if ok sig key then sigs else sig # sigs) in
      if length sigs' > length keys then False else multisig_loop ok sigs' keys)"
| "multisig_loop ok (sig # sigs) [] = False"

definition exec_multisig :: "bn_lib \<Rightarrow> checker \<Rightarrow> nat \<Rightarrow> eval_state \<Rightarrow> eval_state option" where
  "exec_multisig B check opcode st =
     (let s = stack st in
      if length s < 1 then None
      else case CastToBigNum B (s ! 0) of
        None \<Rightarrow> None
      | Some bnKeys \<Rightarrow>
          let nKeysCount = getint B bnKeys in
          if nKeysCount < 0 \<or> nKeysCount > 20 then None
          else let nOpCount' = nOpCount st + nat nKeysCount in
          if nOpCount' > 201 then None
          else let ikey = 2; i = ikey + nat nKeysCount in
          if length s < i then None
          else case CastToBigNum B (s ! (i - 1)) of
            None \<Rightarrow> None
          | Some bnSigs \<Rightarrow>
              let nSigsCount = getint B bnSigs in
              if nSigsCount < 0 \<or> nSigsCount > nKeysCount then None
              else let isig = i + 1; i' = isig + nat nSigsCount in
              if length s < i' then None
              else let sigs = map (\<lambda>k. s ! (isig - 1 + k)) [0..<nat nSigsCount];
                       keys = map (\<lambda>k. s ! (ikey - 1 + k)) [0..<nat nKeysCount];
                       scriptCode = fold (\<lambda>sig sc. fst (FindAndDelete sc (push_data sig))) sigs (pbegincodehash st);
                       fSuccess = multisig_loop (\<lambda>sig key. IsCanonicalSignature sig \<and> IsCanonicalPubKey key \<and>
                                                   check sig key scriptCode) sigs keys;
                       st' = st\<lparr>nOpCount := nOpCount'\<rparr>;
                       rest = drop i' s
                   in if opcode = OP_CHECKMULTISIGVERIFY
                      then (if fSuccess then Some (st'\<lparr>stack := rest\<rparr>) else None)
                      else Some (st'\<lparr>stack := (if fSuccess then vchTrue else vchFalse) # rest\<rparr>))"

definition exec_op :: "ssl_lib \<Rightarrow> checker \<Rightarrow> bool \<Rightarrow> nat \<Rightarrow> CScript \<Rightarrow> eval_state \<Rightarrow> eval_state option" where
  "exec_op L check fExec opcode pc st =
     (if opcode = OP_1NEGATE \<or> (OP_1 \<le> opcode \<and> opcode \<le> OP_16) then exec_push (bn L) opcode st
      else if opcode = OP_NOP \<or> (OP_NOP1 \<le> opcode \<and> opcode \<le> OP_NOP10) then Some st
      else if opcode \<in> {OP_IF, OP_NOTIF, OP_ELSE, OP_ENDIF, OP_VERIFY, OP_RETURN} then exec_control fExec opcode st
      else if opcode = OP_PICK \<or> opcode = OP_ROLL then exec_pick (bn L) opcode st
      else if OP_TOALTSTACK \<le> opcode \<and> opcode \<le> OP_TUCK then exec_stack (bn L) opcode st
      else if opcode = OP_SIZE then exec_size (bn L) st
      else if opcode = OP_EQUAL \<or> opcode = OP_EQUALVERIFY then exec_equal opcode st
      else if opcode \<in> {OP_1ADD, OP_1SUB, OP_NEGATE, OP_ABS, OP_NOT, OP_0NOTEQUAL} then exec_unary (bn L) opcode st
      else if opcode \<in> {OP_ADD, OP_SUB, OP_BOOLAND, OP_BOOLOR, OP_NUMEQUAL, OP_NUMEQUALVERIFY, OP_NUMNOTEQUAL,
                        OP_LESSTHAN, OP_GREATERTHAN, OP_LESSTHANOREQUAL, OP_GREATERTHANOREQUAL, OP_MIN, OP_MAX}
           then exec_binary (bn L) opcode st
      else if opcode = OP_WITHIN then exec_within (bn L) st
      else if OP_RIPEMD160 \<le> opcode \<and> opcode \<le> OP_HASH256 then exec_hash L opcode st
      else if opcode = OP_CODESEPARATOR then Some (st\<lparr>pbegincodehash := pc\<rparr>)
      else if opcode = OP_CHECKSIG \<or> opcode = OP_CHECKSIGVERIFY then exec_checksig check opcode st
      else if opcode = OP_CHECKMULTISIG \<or> opcode = OP_CHECKMULTISIGVERIFY then exec_multisig (bn L) check opcode st
      else None)"

section \<open>The loop\<close>

definition exec_instr :: "ssl_lib \<Rightarrow> checker \<Rightarrow> nat \<Rightarrow> valtype \<Rightarrow> CScript \<Rightarrow> eval_state \<Rightarrow> eval_state option" where
  "exec_instr L check opcode vchPushValue pc st =
     (let fExec = (False \<notin> set (vfExec st)) in
      if length vchPushValue > 520 then None
      else let st1 = (if opcode > OP_16 then st\<lparr>nOpCount := nOpCount st + 1\<rparr> else st) in
      if opcode > OP_16 \<and> nOpCount st1 > 201 then None
      else if disabled_op opcode then None
      else let r = (if fExec \<and> opcode \<le> OP_PUSHDATA4 then Some (st1\<lparr>stack := vchPushValue # stack st1\<rparr>)
                    else if fExec \<or> (OP_IF \<le> opcode \<and> opcode \<le> OP_ENDIF) then exec_op L check fExec opcode pc st1
                    else Some st1)
           in case r of
                None \<Rightarrow> None
              | Some st2 \<Rightarrow> if length (stack st2) + length (altstack st2) > 1000 then None else Some st2)"

function eval_loop :: "ssl_lib \<Rightarrow> checker \<Rightarrow> CScript \<Rightarrow> eval_state \<Rightarrow> eval_state option" where
  "eval_loop L check pc st =
     (if pc = [] then Some st
      else case GetOp2 pc of
             None \<Rightarrow> None
           | Some (opcode, vchPushValue, pc') \<Rightarrow>
               (case exec_instr L check opcode vchPushValue pc' st of
                  None \<Rightarrow> None
                | Some st' \<Rightarrow> eval_loop L check pc' st'))"
  by pat_completeness auto
termination
  by (relation "measure (\<lambda>(L, check, pc, st). length pc)") (auto dest: GetOp2_shorter)

declare eval_loop.simps [simp del]

definition EvalScript :: "ssl_lib \<Rightarrow> checker \<Rightarrow> valtype list \<Rightarrow> CScript \<Rightarrow> valtype list option" where
  "EvalScript L check stk script =
     (if length script > 10000 then None
      else case eval_loop L check script
                  \<lparr>stack = stk, altstack = [], vfExec = [], nOpCount = 0, pbegincodehash = script\<rparr> of
             None \<Rightarrow> None
           | Some st \<Rightarrow> if vfExec st \<noteq> [] then None else Some (stack st))"

section \<open>Bounds on the machine\<close>

definition small_elems :: "eval_state \<Rightarrow> bool" where
  "small_elems st \<longleftrightarrow> list_all (\<lambda>v. length v \<le> 520) (stack st) \<and> list_all (\<lambda>v. length v \<le> 520) (altstack st)"

lemma CastToBigNum_bound:
  assumes "mpi_documented B" "CastToBigNum B v = Some n"
  shows "\<bar>n\<bar> < 256 ^ 4" "n = vch_val v"
proof -
  have l: "length v \<le> 4" and n: "n = setvch B (getvch B (setvch B v))"
    using assms(2) by (auto simp: CastToBigNum_def split: if_splits)
  have v: "setvch B v = vch_val v" using assms(1) l by (intro setvch_doc) simp_all
  have b: "\<bar>vch_val v\<bar> < 256 ^ 4"
    using vch_val_bound [of v] power_increasing [of "length v" 4 "256 :: int"] l by simp
  then have "length (vch_enc (vch_val v)) \<le> 5" using vch_enc_length [of "vch_val v" 4] by simp
  then show "n = vch_val v" using n v assms(1) by (simp add: getvch_doc setvch_doc)
  then show "\<bar>n\<bar> < 256 ^ 4" using b by simp
qed

lemma getvch_small: "mpi_documented B \<Longrightarrow> \<bar>n\<bar> < 256 ^ 5 \<Longrightarrow> length (getvch B n) \<le> 520"
  using vch_enc_length [of n 5] by (simp add: getvch_doc nat_less_iff)

lemma if_abs_bound: "\<bar>a\<bar> < k \<Longrightarrow> \<bar>b\<bar> < k \<Longrightarrow> \<bar>if c then a else b\<bar> < (k :: int)"
  by simp

lemma of_bool_abs_bound: "\<bar>of_bool c\<bar> < (256 :: int) ^ 5"
  by simp

lemma unary_num_bound: "\<bar>n\<bar> < 256 ^ 4 \<Longrightarrow> \<bar>unary_num opcode n\<bar> < 256 ^ 5"
  unfolding unary_num_def by (intro if_abs_bound of_bool_abs_bound) simp_all

lemma binary_num_bound: "\<bar>n\<bar> < 256 ^ 4 \<Longrightarrow> \<bar>m\<bar> < 256 ^ 4 \<Longrightarrow> \<bar>binary_num opcode n m\<bar> < 256 ^ 5"
  unfolding binary_num_def by (intro if_abs_bound of_bool_abs_bound) simp_all

lemma small_consts [simp]: "length vchTrue \<le> 520" "length vchFalse \<le> 520"
  by (simp_all add: vchTrue_def vchFalse_def)

lemma list_all_drop: "list_all P s \<Longrightarrow> list_all P (drop n s)"
  by (auto simp: list_all_iff dest: in_set_dropD)

lemma list_all_take: "list_all P s \<Longrightarrow> list_all P (take n s)"
  by (auto simp: list_all_iff dest: in_set_takeD)

lemma if_elim: "(if c then a else b) = r \<Longrightarrow> (a = r \<Longrightarrow> P) \<Longrightarrow> (b = r \<Longrightarrow> P) \<Longrightarrow> P"
  by (cases c) simp_all

lemma small_push: "small_elems st \<Longrightarrow> mpi_documented B \<Longrightarrow> opcode < 256 \<Longrightarrow>
    exec_push B opcode st = Some st' \<Longrightarrow> small_elems st'"
  by (auto simp: exec_push_def small_elems_def intro!: getvch_small)

lemma small_control: "small_elems st \<Longrightarrow> exec_control fExec opcode st = Some st' \<Longrightarrow> small_elems st'"
  by (auto simp: exec_control_def small_elems_def Let_def split: if_splits list.splits)

lemma small_stack:
  assumes "small_elems st" "mpi_documented B" "length (stack st) \<le> 1000" "exec_stack B opcode st = Some st'"
  shows "small_elems st'"
proof -
  have "length (getvch B (int (length (stack st)))) \<le> 520"
    using assms by (intro getvch_small) auto
  then show ?thesis using assms(1,4) unfolding exec_stack_def small_elems_def
    by (elim if_elim) (auto split: if_split_asm list.split_asm)
qed

lemma list_all_nth: "list_all P s \<Longrightarrow> n < length s \<Longrightarrow> P (s ! n)"
  by (simp add: list_all_length)

lemma small_pick:
  assumes "small_elems st" "exec_pick B opcode st = Some st'"
  shows "small_elems st'"
  using assms by (cases "stack st")
    (auto simp: exec_pick_def small_elems_def Let_def list_all_drop list_all_take not_le
       intro!: list_all_nth [where P = "\<lambda>v. length v \<le> 520"] split: if_split_asm option.split_asm)

lemma small_size:
  assumes "small_elems st" "mpi_documented B" "exec_size B st = Some st'"
  shows "small_elems st'"
  using assms by (auto simp: exec_size_def small_elems_def intro!: getvch_small split: list.split_asm)

lemma small_equal: "small_elems st \<Longrightarrow> exec_equal opcode st = Some st' \<Longrightarrow> small_elems st'"
  by (auto simp: exec_equal_def small_elems_def Let_def split: list.split_asm if_split_asm)

lemma small_unary: "small_elems st \<Longrightarrow> mpi_documented B \<Longrightarrow> exec_unary B opcode st = Some st' \<Longrightarrow> small_elems st'"
  by (auto simp: exec_unary_def small_elems_def split: list.split_asm option.split_asm
      intro!: getvch_small unary_num_bound dest: CastToBigNum_bound(1))

lemma small_binary: "small_elems st \<Longrightarrow> mpi_documented B \<Longrightarrow> exec_binary B opcode st = Some st' \<Longrightarrow> small_elems st'"
  by (auto simp: exec_binary_def small_elems_def Let_def split: list.split_asm option.split_asm if_split_asm
      intro!: getvch_small binary_num_bound dest: CastToBigNum_bound(1))

lemma small_within: "small_elems st \<Longrightarrow> exec_within B st = Some st' \<Longrightarrow> small_elems st'"
  by (auto simp: exec_within_def small_elems_def split: list.split_asm option.split_asm if_split_asm)

lemma small_hash: "small_elems st \<Longrightarrow> digests_documented L \<Longrightarrow> exec_hash L opcode st = Some st' \<Longrightarrow> small_elems st'"
  by (auto simp: exec_hash_def small_elems_def Let_def digests_documented_def split: list.split_asm if_split_asm)

lemma small_checksig: "small_elems st \<Longrightarrow> exec_checksig check opcode st = Some st' \<Longrightarrow> small_elems st'"
  by (auto simp: exec_checksig_def small_elems_def Let_def split: list.split_asm if_split_asm)

lemma small_multisig: "small_elems st \<Longrightarrow> exec_multisig B check opcode st = Some st' \<Longrightarrow> small_elems st'"
  unfolding exec_multisig_def small_elems_def Let_def
  by (auto simp: list_all_drop simp del: upt_conv_Cons split: option.split_asm if_split_asm)

text \<open>One case per group of the switch.\<close>

lemma exec_op_cases:
  assumes "exec_op L check fExec opcode pc st = Some st'"
  obtains "exec_push (bn L) opcode st = Some st'"
  | "Some st = Some st'"
  | "exec_control fExec opcode st = Some st'"
  | "exec_pick (bn L) opcode st = Some st'"
  | "exec_stack (bn L) opcode st = Some st'"
  | "exec_size (bn L) st = Some st'"
  | "exec_equal opcode st = Some st'"
  | "exec_unary (bn L) opcode st = Some st'"
  | "exec_binary (bn L) opcode st = Some st'"
  | "exec_within (bn L) st = Some st'"
  | "exec_hash L opcode st = Some st'"
  | "Some (st\<lparr>pbegincodehash := pc\<rparr>) = Some st'"
  | "exec_checksig check opcode st = Some st'"
  | "exec_multisig (bn L) check opcode st = Some st'"
  using assms unfolding exec_op_def by (elim if_elim) (assumption | erule option.distinct(1) [THEN notE])+

lemma small_pbegin: "Some (st\<lparr>pbegincodehash := pc\<rparr>) = Some st' \<Longrightarrow> small_elems st \<Longrightarrow> small_elems st'"
  by (auto simp: small_elems_def)

lemma small_exec_op:
  assumes "small_elems st" "digests_documented L" "mpi_documented (bn L)" "length (stack st) \<le> 1000"
    "opcode < 256" "exec_op L check fExec opcode pc st = Some st'"
  shows "small_elems st'"
  using assms(6)
proof (rule exec_op_cases)
  show "Some st = Some st' \<Longrightarrow> small_elems st'" using assms(1) by simp
qed (fact small_push [OF assms(1,3,5)] small_control [OF assms(1)] small_pick [OF assms(1)]
      small_stack [OF assms(1,3,4)] small_size [OF assms(1,3)] small_equal [OF assms(1)]
      small_unary [OF assms(1,3)] small_binary [OF assms(1,3)] small_within [OF assms(1)]
      small_hash [OF assms(1,2)] small_pbegin [OF _ assms(1)] small_checksig [OF assms(1)]
      small_multisig [OF assms(1)])+

text \<open>The operation count never exceeds 201, and only \<open>OP_CHECKMULTISIG\<close> adds more than one to it.\<close>

lemma push_frame: "exec_push B opcode st = Some st' \<Longrightarrow> nOpCount st' = nOpCount st \<and> vfExec st' = vfExec st"
  by (auto simp: exec_push_def)

lemma stack_frame: "exec_stack B opcode st = Some st' \<Longrightarrow> nOpCount st' = nOpCount st \<and> vfExec st' = vfExec st"
  unfolding exec_stack_def by (elim if_elim) (auto split: list.split_asm if_split_asm)

lemma pick_frame: "exec_pick B opcode st = Some st' \<Longrightarrow> nOpCount st' = nOpCount st \<and> vfExec st' = vfExec st"
  by (auto simp: exec_pick_def Let_def split: list.split_asm option.split_asm if_split_asm)

lemma size_frame: "exec_size B st = Some st' \<Longrightarrow> nOpCount st' = nOpCount st \<and> vfExec st' = vfExec st"
  by (auto simp: exec_size_def Let_def split: list.split_asm option.split_asm if_split_asm)

lemma equal_frame: "exec_equal opcode st = Some st' \<Longrightarrow> nOpCount st' = nOpCount st \<and> vfExec st' = vfExec st"
  by (auto simp: exec_equal_def Let_def split: list.split_asm option.split_asm if_split_asm)

lemma unary_frame: "exec_unary B opcode st = Some st' \<Longrightarrow> nOpCount st' = nOpCount st \<and> vfExec st' = vfExec st"
  by (auto simp: exec_unary_def Let_def split: list.split_asm option.split_asm if_split_asm)

lemma binary_frame: "exec_binary B opcode st = Some st' \<Longrightarrow> nOpCount st' = nOpCount st \<and> vfExec st' = vfExec st"
  by (auto simp: exec_binary_def Let_def split: list.split_asm option.split_asm if_split_asm)

lemma within_frame: "exec_within B st = Some st' \<Longrightarrow> nOpCount st' = nOpCount st \<and> vfExec st' = vfExec st"
  by (auto simp: exec_within_def Let_def split: list.split_asm option.split_asm if_split_asm)

lemma hash_frame: "exec_hash L opcode st = Some st' \<Longrightarrow> nOpCount st' = nOpCount st \<and> vfExec st' = vfExec st"
  unfolding exec_hash_def by (cases "stack st") (auto simp: Let_def)

lemma checksig_frame: "exec_checksig check opcode st = Some st' \<Longrightarrow> nOpCount st' = nOpCount st \<and> vfExec st' = vfExec st"
  by (auto simp: exec_checksig_def Let_def split: list.split_asm option.split_asm if_split_asm)

lemma control_frame: "exec_control fExec opcode st = Some st' \<Longrightarrow> nOpCount st' = nOpCount st"
  unfolding exec_control_def by (elim if_elim) (auto simp: Let_def split: list.split_asm if_split_asm)

lemmas exec_frame = push_frame stack_frame pick_frame size_frame equal_frame unary_frame binary_frame
  within_frame hash_frame checksig_frame

lemma nOpCount_multisig:
  "exec_multisig B check opcode st = Some st' \<Longrightarrow> nOpCount st \<le> nOpCount st' \<and> nOpCount st' \<le> 201 \<and> vfExec st' = vfExec st"
  unfolding exec_multisig_def Let_def by (auto simp del: upt_conv_Cons split: option.split_asm if_split_asm)

lemma nOpCount_exec_op:
  assumes "nOpCount st \<le> 201" "exec_op L check fExec opcode pc st = Some st'"
  shows "nOpCount st \<le> nOpCount st' \<and> nOpCount st' \<le> 201"
  using assms by (elim exec_op_cases) (auto dest: exec_frame control_frame nOpCount_multisig)

section \<open>What a successful evaluation guarantees\<close>

text \<open>All instructions of a script, if it parses to its end.\<close>

function instructions :: "CScript \<Rightarrow> (nat \<times> valtype) list option" where
  "instructions pc =
     (if pc = [] then Some []
      else case GetOp2 pc of
             None \<Rightarrow> None
           | Some (opcode, v, pc') \<Rightarrow>
               (case instructions pc' of None \<Rightarrow> None | Some is \<Rightarrow> Some ((opcode, v) # is)))"
  by pat_completeness auto
termination
  by (relation "measure length") (auto dest: GetOp2_shorter)

declare instructions.simps [simp del]

text \<open>The nesting depth of conditionals after a sequence of opcodes.\<close>

fun if_depth :: "nat \<Rightarrow> nat list \<Rightarrow> nat option" where
  "if_depth d [] = Some d"
| "if_depth d (opcode # r) =
     (if opcode = OP_IF \<or> opcode = OP_NOTIF then if_depth (Suc d) r
      else if opcode = OP_ELSE then (if d = 0 then None else if_depth d r)
      else if opcode = OP_ENDIF then (if d = 0 then None else if_depth (d - 1) r)
      else if_depth d r)"

definition counted_ops :: "(nat \<times> valtype) list \<Rightarrow> nat" where
  "counted_ops is = length (filter (\<lambda>(opcode, v). opcode > OP_16) is)"

lemma exec_op_if_range:
  "exec_op L check fExec OP_IF pc st = exec_control fExec OP_IF st"
  "exec_op L check fExec OP_NOTIF pc st = exec_control fExec OP_NOTIF st"
  "exec_op L check fExec OP_VERIF pc st = None"
  "exec_op L check fExec OP_VERNOTIF pc st = None"
  "exec_op L check fExec OP_ELSE pc st = exec_control fExec OP_ELSE st"
  "exec_op L check fExec OP_ENDIF pc st = exec_control fExec OP_ENDIF st"
  by (simp_all add: exec_op_def)

lemma exec_op_vfExec:
  assumes "exec_op L check fExec opcode pc st = Some st'" "opcode \<notin> {OP_IF, OP_NOTIF, OP_ELSE, OP_ENDIF}"
  shows "vfExec st' = vfExec st"
  using assms(1)
proof (rule exec_op_cases)
  assume "exec_control fExec opcode st = Some st'"
  then show ?thesis using assms(2) by (auto simp: exec_control_def split: list.split_asm if_split_asm)
qed (auto dest: exec_frame nOpCount_multisig)

lemma if_range: "OP_IF \<le> opcode \<Longrightarrow> opcode \<le> OP_ENDIF \<Longrightarrow>
    opcode \<in> {OP_IF, OP_NOTIF, OP_VERIF, OP_VERNOTIF, OP_ELSE, OP_ENDIF}"
  by (simp, arith)

definition count_op :: "nat \<Rightarrow> eval_state \<Rightarrow> eval_state" where
  "count_op opcode st = (if opcode > OP_16 then st\<lparr>nOpCount := nOpCount st + 1\<rparr> else st)"

lemma count_op_simps [simp]:
  "stack (count_op opcode st) = stack st" "altstack (count_op opcode st) = altstack st"
  "vfExec (count_op opcode st) = vfExec st" "nOpCount (count_op opcode st) = nOpCount st + of_bool (opcode > OP_16)"
  by (simp_all add: count_op_def)

lemma exec_instrE:
  assumes "exec_instr L check opcode v pc st = Some st'"
  obtains (push) "st' = (count_op opcode st)\<lparr>stack := v # stack st\<rparr>"
      "opcode \<le> OP_PUSHDATA4" "length v \<le> 520" "length (stack st') + length (altstack st') \<le> 1000"
    | (op) fExec where "exec_op L check fExec opcode pc (count_op opcode st) = Some st'" "\<not> disabled_op opcode"
      "length v \<le> 520" "opcode > OP_16 \<Longrightarrow> nOpCount st < 201" "length (stack st') + length (altstack st') \<le> 1000"
    | (skip) "st' = count_op opcode st" "\<not> (OP_IF \<le> opcode \<and> opcode \<le> OP_ENDIF)" "\<not> disabled_op opcode"
      "length v \<le> 520" "opcode > OP_16 \<Longrightarrow> nOpCount st < 201" "length (stack st') + length (altstack st') \<le> 1000"
proof -
  obtain st2 where g: "length v \<le> 520" "\<not> disabled_op opcode" "opcode > OP_16 \<Longrightarrow> nOpCount st < 201"
      "length (stack st') + length (altstack st') \<le> 1000"
    and r: "(if (False \<notin> set (vfExec st)) \<and> opcode \<le> OP_PUSHDATA4
      then Some ((count_op opcode st)\<lparr>stack := v # stack (count_op opcode st)\<rparr>)
      else if (False \<notin> set (vfExec st)) \<or> (OP_IF \<le> opcode \<and> opcode \<le> OP_ENDIF)
      then exec_op L check (False \<notin> set (vfExec st)) opcode pc (count_op opcode st)
      else Some (count_op opcode st)) = Some st'"
    using assms unfolding exec_instr_def Let_def count_op_def by (auto split: if_split_asm option.split_asm)
  show thesis
  proof (cases "(False \<notin> set (vfExec st)) \<and> opcode \<le> OP_PUSHDATA4")
    case True
    with r g show ?thesis by (intro push) auto
  next
    case False
    then show ?thesis
      using r g op skip by (cases "(False \<notin> set (vfExec st)) \<or> (OP_IF \<le> opcode \<and> opcode \<le> OP_ENDIF)") auto
  qed
qed

lemma exec_control_depth:
  assumes "exec_control fExec opcode st = Some st'" "opcode \<in> {OP_IF, OP_NOTIF, OP_ELSE, OP_ENDIF}"
  shows "if_depth (length (vfExec st)) (opcode # ops) = if_depth (length (vfExec st')) ops"
  using assms by (auto simp: exec_control_def Let_def split: if_split_asm list.split_asm)

lemma exec_instr_depth:
  assumes "exec_instr L check opcode v pc st = Some st'"
  shows "if_depth (length (vfExec st)) (opcode # ops) = if_depth (length (vfExec st')) ops"
  using assms
proof (cases rule: exec_instrE)
  case (op fExec)
  show ?thesis
  proof (cases "opcode \<in> {OP_IF, OP_NOTIF, OP_ELSE, OP_ENDIF}")
    case True
    then have "exec_op L check fExec opcode pc (count_op opcode st) = exec_control fExec opcode (count_op opcode st)"
      by (auto simp: exec_op_if_range)
    then show ?thesis using op(1) True exec_control_depth [of fExec opcode "count_op opcode st" st' ops]
      by simp
  next
    case False
    then show ?thesis using exec_op_vfExec [OF op(1)] by simp
  qed
qed auto

lemma exec_instr_admissible:
  assumes "exec_instr L check opcode v pc st = Some st'" "nOpCount st \<le> 201"
  shows "length v \<le> 520" "\<not> disabled_op opcode" "opcode \<noteq> OP_VERIF" "opcode \<noteq> OP_VERNOTIF"
    "nOpCount st + of_bool (opcode > OP_16) \<le> nOpCount st'" "nOpCount st' \<le> 201"
    "length (stack st') + length (altstack st') \<le> 1000"
  using assms
  by (elim exec_instrE; force simp: disabled_op_def exec_op_if_range dest: nOpCount_exec_op [rotated])+

lemma exec_instr_small:
  assumes "exec_instr L check opcode v pc st = Some st'" "small_elems st" "digests_documented L"
    "mpi_documented (bn L)" "length (stack st) \<le> 1000" "opcode < 256"
  shows "small_elems st'"
  using assms(1)
proof (cases rule: exec_instrE)
  case (op fExec)
  have "small_elems (count_op opcode st)" using assms(2) by (simp add: small_elems_def)
  from small_exec_op [OF this assms(3,4) _ assms(6) op(1)] show ?thesis using assms(5) by simp
qed (use assms(2) in \<open>simp_all add: small_elems_def\<close>)

lemma eval_loop_induct [consumes 1, case_names Nil Cons]:
  assumes "eval_loop L check pc st = Some st'"
    and "\<And>st. P [] st st"
    and "\<And>pc st opcode v pc' st1 st'. pc \<noteq> [] \<Longrightarrow> GetOp2 pc = Some (opcode, v, pc') \<Longrightarrow>
        exec_instr L check opcode v pc' st = Some st1 \<Longrightarrow> eval_loop L check pc' st1 = Some st' \<Longrightarrow>
        P pc' st1 st' \<Longrightarrow> P pc st st'"
  shows "P pc st st'"
  using assms(1)
proof (induction pc arbitrary: st rule: measure_induct_rule [of length])
  case (less pc)
  show ?case
  proof (cases "pc = []")
    case True
    then show ?thesis using less.prems assms(2) by (simp add: eval_loop.simps)
  next
    case False
    then obtain opcode v pc' st1 where "GetOp2 pc = Some (opcode, v, pc')"
      "exec_instr L check opcode v pc' st = Some st1" "eval_loop L check pc' st1 = Some st'"
      using less.prems by (subst (asm) eval_loop.simps) (auto split: option.split_asm)
    then show ?thesis using False less.IH [OF GetOp2_shorter] assms(3) by blast
  qed
qed

lemma eval_loop_admissible:
  assumes "eval_loop L check pc st = Some st'" "nOpCount st \<le> 201"
  shows "\<exists>is. instructions pc = Some is \<and>
     (\<forall>(opcode, v) \<in> set is. length v \<le> 520 \<and> \<not> disabled_op opcode \<and> opcode \<noteq> OP_VERIF \<and> opcode \<noteq> OP_VERNOTIF) \<and>
     nOpCount st + counted_ops is \<le> 201 \<and>
     if_depth (length (vfExec st)) (map fst is) = Some (length (vfExec st'))"
  using assms
proof (induction rule: eval_loop_induct)
  case (Nil st)
  then show ?case by (simp add: instructions.simps counted_ops_def)
next
  case (Cons pc st opcode v pc' st1 st')
  note a = exec_instr_admissible [OF Cons.hyps(3) Cons.prems]
  obtain "is" where i: "instructions pc' = Some is"
     "\<forall>(opcode, v) \<in> set is. length v \<le> 520 \<and> \<not> disabled_op opcode \<and> opcode \<noteq> OP_VERIF \<and> opcode \<noteq> OP_VERNOTIF"
     "nOpCount st1 + counted_ops is \<le> 201"
     "if_depth (length (vfExec st1)) (map fst is) = Some (length (vfExec st'))"
    using Cons.IH [OF a(6)] by blast
  have p: "instructions pc = Some ((opcode, v) # is)"
    using Cons.hyps(1,2) i(1) by (subst instructions.simps) simp
  have c: "nOpCount st + counted_ops ((opcode, v) # is) \<le> 201"
    using a(5) i(3) by (auto simp: counted_ops_def)
  have d: "if_depth (length (vfExec st)) (map fst ((opcode, v) # is)) = Some (length (vfExec st'))"
    using exec_instr_depth [OF Cons.hyps(3), of "map fst is"] i(4) by simp
  show ?case using p c d a(1-4) i(2) by (intro exI [of _ "(opcode, v) # is"]) auto
qed

lemma eval_loop_small:
  assumes "eval_loop L check pc st = Some st'" "small_elems st" "digests_documented L"
    "mpi_documented (bn L)" "length (stack st) \<le> 1000" "nOpCount st \<le> 201"
  shows "small_elems st' \<and> length (stack st') \<le> 1000"
  using assms
proof (induction rule: eval_loop_induct)
  case (Cons pc st opcode v pc' st1 st')
  then show ?case
    using exec_instr_small [OF Cons.hyps(3)] exec_instr_admissible(6,7) [OF Cons.hyps(3)]
      GetOp2_opcode_bound by force
qed simp

text \<open>Greedy matching in \<open>OP_CHECKMULTISIG\<close> finds an order-preserving assignment whenever one exists.\<close>

lemma multisig_loop_iff:
  assumes "length sigs \<le> length keys"
  shows "multisig_loop ok sigs keys \<longleftrightarrow> (\<exists>ks. subseq ks keys \<and> list_all2 ok sigs ks)"
  using assms
proof (induction ok sigs keys rule: multisig_loop.induct)
  case (1 ok keys)
  then show ?case by (auto intro: exI [of _ "[]"])
next
  case (2 ok sig sigs key keys)
  show ?case
  proof (cases "ok sig key")
    case True
    have "(\<exists>ks. subseq ks (key # keys) \<and> list_all2 ok (sig # sigs) ks) \<longleftrightarrow>
          (\<exists>ks. subseq ks keys \<and> list_all2 ok sigs ks)"
      using True by (auto simp: list_all2_Cons1) (metis subseq_Cons2_iff subseq_Cons' subseq_Cons2)+
    then show ?thesis using True 2 by simp
  next
    case False
    then have "(\<exists>ks. subseq ks (key # keys) \<and> list_all2 ok (sig # sigs) ks) \<longleftrightarrow>
          (\<exists>ks. subseq ks keys \<and> list_all2 ok (sig # sigs) ks)"
      by (auto simp: list_all2_Cons1) (metis subseq_Cons2_iff)+
    moreover have "subseq ks keys \<Longrightarrow> list_all2 ok (sig # sigs) ks \<Longrightarrow> length (sig # sigs) \<le> length keys" for ks
      using list_emb_length list_all2_lengthD by metis
    ultimately show ?thesis using False 2 by (auto simp: not_le)
  qed
qed simp

section \<open>Evaluating standard scripts\<close>

lemma eval_loop_Nil [simp]: "eval_loop L check [] st = Some st"
  by (simp add: eval_loop.simps)

lemma eval_loop_step:
  "GetOp2 pc = Some (opcode, v, pc') \<Longrightarrow>
   eval_loop L check pc st = Option.bind (exec_instr L check opcode v pc' st) (eval_loop L check pc')"
  by (subst eval_loop.simps) (auto simp: GetOp2_def split: option.split)

lemma eval_loop_push_data:
  assumes "length b \<le> 520" "vfExec st = []" "length (stack st) + length (altstack st) < 1000"
  shows "eval_loop L check (push_data b @ pc) st = eval_loop L check pc (st\<lparr>stack := b # stack st\<rparr>)"
proof -
  obtain opcode where g: "GetOp2 (push_data b @ pc) = Some (opcode, b, pc)" "opcode \<le> OP_PUSHDATA4"
    using GetOp2_push_data [of b pc] assms(1) by auto
  have "exec_instr L check opcode b pc st = Some (st\<lparr>stack := b # stack st\<rparr>)"
    using g(2) assms by (auto simp: exec_instr_def disabled_op_def Let_def)
  then show ?thesis using eval_loop_step [OF g(1)] by simp
qed

lemma eval_loop_op:
  assumes "OP_PUSHDATA4 < unat c"
  shows "eval_loop L check (c # pc) st = Option.bind (exec_instr L check (unat c) [] pc st) (eval_loop L check pc)"
  using assms by (intro eval_loop_step GetOp2_op)

lemma eval_loop_pushes:
  assumes "list_all (\<lambda>b. length b \<le> 520) bs" "vfExec st = []"
    "length (stack st) + length (altstack st) + length bs \<le> 1000"
  shows "eval_loop L check (concat (map push_data bs) @ pc) st =
         eval_loop L check pc (st\<lparr>stack := rev bs @ stack st\<rparr>)"
  using assms by (induction bs arbitrary: st) (simp_all add: eval_loop_push_data)

lemma EvalScript_pushes:
  assumes "list_all (\<lambda>b. length b \<le> 520) bs" "length stk + length bs \<le> 1000"
    "length (concat (map push_data bs)) \<le> 10000"
  shows "EvalScript L check stk (concat (map push_data bs)) = Some (rev bs @ stk)"
  using assms eval_loop_pushes [OF assms(1), of _ L check "[]"] by (simp add: EvalScript_def)

text \<open>\<open>OP_DUP OP_HASH160 <hash> OP_EQUALVERIFY OP_CHECKSIG\<close>, as \<open>SetDestination\<close> builds it.\<close>

definition p2pkh_script :: "uint160 \<Rightarrow> CScript" where
  "p2pkh_script h = op_byte OP_DUP @ op_byte OP_HASH160 @ push_data (u160_bytes h) @
     op_byte OP_EQUALVERIFY @ op_byte OP_CHECKSIG"

lemma unat_numeral_byte [simp]:
  "unat (0x76 :: byte) = 0x76" "unat (0xa9 :: byte) = 0xa9" "unat (0x88 :: byte) = 0x88" "unat (0xac :: byte) = 0xac"
  by simp_all

lemma EvalScript_p2pkh:
  assumes "length stk \<le> 900"
  shows "EvalScript L check (pk # sig # stk) (p2pkh_script h) =
     (if Hash160 L pk = h
      then Some ((if IsCanonicalSignature sig \<and> IsCanonicalPubKey pk \<and>
                     check sig pk (fst (FindAndDelete (p2pkh_script h) (push_data sig)))
                  then vchTrue else vchFalse) # stk)
      else None)"
proof -
  have inj: "u160_bytes a = u160_bytes b \<longleftrightarrow> a = b" for a b by (metis bytes_u160_bytes)
  have len: "length (push_data (u160_bytes h)) = 21" by (simp add: push_data_def)
  show ?thesis
    using assms unfolding EvalScript_def p2pkh_script_def
    by (simp add: op_byte_def eval_loop_op exec_instr_def Let_def disabled_op_def exec_op_def exec_stack_def
          exec_hash_def eval_loop_push_data exec_equal_def exec_checksig_def inj len)
qed

lemmas eval_simps = EvalScript_def eval_loop_op exec_instr_def Let_def disabled_op_def exec_op_def

section \<open>Properties\<close>

text \<open>C29. A script that evaluates successfully is at most 10000 bytes long, parses completely, pushes no
  element over 520 bytes, contains no disabled opcode and neither \<open>OP_VERIF\<close> nor \<open>OP_VERNOTIF\<close> (even in
  a branch that is not taken), has at most 201 counted operations, and its conditionals are balanced.\<close>

theorem EvalScript_admissible:
  assumes "EvalScript L check stk script = Some stk'"
  shows "length script \<le> 10000 \<and> (\<exists>is. instructions script = Some is \<and>
     (\<forall>(opcode, v) \<in> set is. length v \<le> 520 \<and> \<not> disabled_op opcode \<and> opcode \<noteq> OP_VERIF \<and> opcode \<noteq> OP_VERNOTIF) \<and>
     counted_ops is \<le> 201 \<and> if_depth 0 (map fst is) = Some 0)"
proof -
  obtain st where st: "eval_loop L check script
      \<lparr>stack = stk, altstack = [], vfExec = [], nOpCount = 0, pbegincodehash = script\<rparr> = Some st"
    "vfExec st = []" "length script \<le> 10000"
    using assms by (auto simp: EvalScript_def split: if_split_asm option.split_asm)
  show ?thesis using eval_loop_admissible [OF st(1)] st(2,3) by simp
qed

theorem EvalScript_admissible_witness:
  "EvalScript ssl_demo (\<lambda>sig key code. True) [] [0x51, 0x63, 0x51, 0x68] = Some [[1]] \<and>
   (\<exists>is. instructions [0x51, 0x63, 0x51, 0x68] = Some is \<and> counted_ops is \<le> 201 \<and> if_depth 0 (map fst is) = Some 0)"
proof -
  have e: "EvalScript ssl_demo (\<lambda>sig key code. True) [] [0x51, 0x63, 0x51, 0x68] = Some [[1]]"
    by (simp add: eval_simps exec_push_def exec_control_def getvch_doc vch_enc_def mag_bytes.simps [of "Suc 0"])
  then show ?thesis using EvalScript_admissible [OF e] by blast
qed

text \<open>Whatever the script does, the stack it leaves has at most 1000 elements of at most 520 bytes
  each, when it starts from such a stack; the digest and bignum libraries behave as documented.\<close>

lemma EvalScript_stack_bounds:
  assumes "EvalScript L check stk script = Some stk'" "digests_documented L" "mpi_documented (bn L)"
    "length stk \<le> 1000" "\<forall>v \<in> set stk. length v \<le> 520"
  shows "length stk' \<le> 1000 \<and> (\<forall>v \<in> set stk'. length v \<le> 520)"
proof -
  obtain st where st: "eval_loop L check script
      \<lparr>stack = stk, altstack = [], vfExec = [], nOpCount = 0, pbegincodehash = script\<rparr> = Some st" "stk' = stack st"
    using assms(1) by (auto simp: EvalScript_def split: if_split_asm option.split_asm)
  show ?thesis using eval_loop_small [OF st(1)] st(2) assms(2-5) by (simp add: small_elems_def list_all_iff)
qed

text \<open>The pay-to-pubkey-hash template evaluated on a key and a signature: it fails unless the key hashes
  to the committed hash, and otherwise replaces the two by the outcome of the signature check on the
  script itself with the signature removed.\<close>

lemma EvalScript_pay_to_pubkey_hash:
  assumes "length stk \<le> 900"
  shows "EvalScript L check (pk # sig # stk) (p2pkh_script h) =
     (if Hash160 L pk = h
      then Some ((if IsCanonicalSignature sig \<and> IsCanonicalPubKey pk \<and>
                     check sig pk (fst (FindAndDelete (p2pkh_script h) (push_data sig)))
                  then vchTrue else vchFalse) # stk)
      else None)"
  by (rule EvalScript_p2pkh [OF assms])

text \<open>C30. \<open>OP_CHECKMULTISIG\<close> matches signatures to keys greedily from the top of the stack; this succeeds
  exactly when some order-preserving choice of keys verifies all the signatures.\<close>

theorem multisig_loop_complete:
  assumes "length sigs \<le> length keys"
  shows "multisig_loop ok sigs keys \<longleftrightarrow> (\<exists>ks. subseq ks keys \<and> list_all2 ok sigs ks)"
  by (rule multisig_loop_iff [OF assms])

theorem multisig_loop_complete_witness:
  "\<exists>ks. subseq ks [[1], [2 :: byte], [3]] \<and> list_all2 (=) [[1], [3]] ks"
  using multisig_loop_complete [of "[[1], [3]]" "[[1], [2], [3]]" "(=)"] by simp

end
