(* ===== verification/Verify.thy ===== *)
theory Verify
  imports Interp "HOL-Library.List_Lexorder" "HOL-Library.Product_Lexorder"
begin

text \<open>
  Signature hashes, signature checking with its cache, and script verification (\<open>script.cpp\<close>).
  \<open>SignatureHash\<close> is split in the transaction copy it edits (\<open>sighash_tx\<close>, \<open>None\<close> for the two exits
  that return the constant 1) and the hash. \<open>CSignatureCache::setValid\<close> is a strictly sorted list in
  the order of \<open>std::set\<close> on tuples of byte strings; the random hashes that drive eviction are a
  stream of values. \<open>CheckSig\<close> without the cache is the checker the interpreter runs with: the
  theorem on \<open>CheckSig_cached\<close> shows that the cached version answers the same.
\<close>

section \<open>Signature hash\<close>

abbreviation (input) SIGHASH_ALL :: int where "SIGHASH_ALL \<equiv> 1"
abbreviation (input) SIGHASH_NONE :: int where "SIGHASH_NONE \<equiv> 2"
abbreviation (input) SIGHASH_SINGLE :: int where "SIGHASH_SINGLE \<equiv> 3"
abbreviation (input) SIGHASH_ANYONECANPAY :: int where "SIGHASH_ANYONECANPAY \<equiv> 0x80"

definition blank_sequences :: "nat \<Rightarrow> CTxIn list \<Rightarrow> CTxIn list" where
  "blank_sequences nIn vi = map (\<lambda>(i, txin). if i \<noteq> nIn then txin\<lparr>nSequence := 0\<rparr> else txin) (enumerate 0 vi)"

definition sighash_tx :: "CScript \<Rightarrow> CTransaction \<Rightarrow> nat \<Rightarrow> int \<Rightarrow> CTransaction option" where
  "sighash_tx scriptCode txTo nIn nHashType =
     (if nIn \<ge> length (vin txTo) then None
      else let scriptCode' = fst (FindAndDelete scriptCode (op_byte OP_CODESEPARATOR));
               vin1 = (map (\<lambda>txin. txin\<lparr>scriptSig := []\<rparr>) (vin txTo))[nIn := (vin txTo ! nIn)\<lparr>scriptSig := scriptCode'\<rparr>];
               txTmp = txTo\<lparr>vin := vin1\<rparr>;
               r = (if nHashType AND 0x1f = SIGHASH_NONE
                    then Some (txTmp\<lparr>vout := [], vin := blank_sequences nIn vin1\<rparr>)
                    else if nHashType AND 0x1f = SIGHASH_SINGLE
                    then if nIn \<ge> length (vout txTo) then None
                         else Some (txTmp\<lparr>vout := replicate nIn CTxOut_SetNull @ [vout txTo ! nIn],
                                          vin := blank_sequences nIn vin1\<rparr>)
                    else Some txTmp)
           in case r of
                None \<Rightarrow> None
              | Some t \<Rightarrow> Some (if nHashType AND SIGHASH_ANYONECANPAY \<noteq> 0
                               then t\<lparr>vin := [vin t ! nIn]\<rparr> else t))"

definition SignatureHash :: "ssl_lib \<Rightarrow> CScript \<Rightarrow> CTransaction \<Rightarrow> nat \<Rightarrow> int \<Rightarrow> uint256" where
  "SignatureHash L scriptCode txTo nIn nHashType =
     (case sighash_tx scriptCode txTo nIn nHashType of
        None \<Rightarrow> 1
      | Some txTmp \<Rightarrow> Hash L (tx_bytes txTmp @ i32_bytes nHashType))"

section \<open>The signature cache\<close>

type_synonym sigdata_type = "uint256 \<times> valtype \<times> valtype"

definition sigcache_Get :: "sigdata_type list \<Rightarrow> uint256 \<Rightarrow> valtype \<Rightarrow> valtype \<Rightarrow> bool" where
  "sigcache_Get setValid hash vchSig pubKey \<longleftrightarrow> (hash, vchSig, pubKey) \<in> set setValid"

lemma evicted_in: "setValid \<noteq> [] \<Longrightarrow>
    (case dropWhile P setValid of [] \<Rightarrow> hd setValid | x # _ \<Rightarrow> x) \<in> set setValid"
  by (auto split: list.split) (metis list.set_intros(1) set_dropWhileD)

text \<open>The eviction loop; \<open>rnd\<close> is the stream of \<open>GetRandHash\<close> results.\<close>

function sigcache_evict :: "(nat \<Rightarrow> uint256) \<Rightarrow> nat \<Rightarrow> nat \<Rightarrow> sigdata_type list \<Rightarrow> sigdata_type list" where
  "sigcache_evict rnd i nMaxCacheSize setValid =
     (if length setValid > nMaxCacheSize
      then let it = (case dropWhile (\<lambda>x. x < (rnd i, [], [])) setValid of [] \<Rightarrow> hd setValid | x # _ \<Rightarrow> x)
           in sigcache_evict rnd (Suc i) nMaxCacheSize (remove1 it setValid)
      else setValid)"
  by pat_completeness auto
termination
proof (relation "measure (\<lambda>(rnd, i, m, s). length s)")
  fix rnd :: "nat \<Rightarrow> uint256" and i m :: nat and s :: "sigdata_type list" and it
  assume "m < length s" and it: "it = (case dropWhile (\<lambda>x. x < (rnd i, [], [])) s of [] \<Rightarrow> hd s | x # _ \<Rightarrow> x)"
  then have "s \<noteq> []" by auto
  with it have "it \<in> set s" using evicted_in by blast
  with \<open>s \<noteq> []\<close> show "((rnd, Suc i, m, remove1 it s), rnd, i, m, s) \<in> measure (\<lambda>(rnd, i, m, s). length s)"
    by (simp add: length_remove1)
qed simp

declare sigcache_evict.simps [simp del]

definition sigcache_Set :: "(nat \<Rightarrow> uint256) \<Rightarrow> int \<Rightarrow> sigdata_type list \<Rightarrow> uint256 \<Rightarrow> valtype \<Rightarrow> valtype \<Rightarrow> sigdata_type list" where
  "sigcache_Set rnd nMaxCacheSize setValid hash vchSig pubKey =
     (if nMaxCacheSize \<le> 0 then setValid
      else insort_insert (hash, vchSig, pubKey) (sigcache_evict rnd 0 (nat nMaxCacheSize) setValid))"

section \<open>CheckSig\<close>

text \<open>The hash type in force: the one requested, or the last byte of the signature when 0 is passed.\<close>

definition sig_hash_type :: "int \<Rightarrow> valtype \<Rightarrow> int option" where
  "sig_hash_type nHashType vchSig =
     (if vchSig = [] then None
      else if nHashType = 0 then Some (uint (last vchSig))
      else if nHashType \<noteq> uint (last vchSig) then None else Some nHashType)"

definition CheckSig :: "ssl_lib \<Rightarrow> CTransaction \<Rightarrow> nat \<Rightarrow> int \<Rightarrow> valtype \<Rightarrow> valtype \<Rightarrow> CScript \<Rightarrow> bool" where
  "CheckSig L txTo nIn nHashType vchSig vchPubKey scriptCode =
     (case sig_hash_type nHashType vchSig of
        None \<Rightarrow> False
      | Some ht \<Rightarrow>
          let sighash = SignatureHash L scriptCode txTo nIn ht in
          if \<not> CKey_SetPubKey L vchPubKey then False
          else if \<not> CKey_Verify L vchPubKey sighash (butlast vchSig) then False
          else True)"

definition CheckSig_cached :: "ssl_lib \<Rightarrow> (nat \<Rightarrow> uint256) \<Rightarrow> int \<Rightarrow> sigdata_type list \<Rightarrow> CTransaction \<Rightarrow> nat \<Rightarrow> int \<Rightarrow>
    valtype \<Rightarrow> valtype \<Rightarrow> CScript \<Rightarrow> bool \<times> sigdata_type list" where
  "CheckSig_cached L rnd nMaxCacheSize cache txTo nIn nHashType vchSig vchPubKey scriptCode =
     (case sig_hash_type nHashType vchSig of
        None \<Rightarrow> (False, cache)
      | Some ht \<Rightarrow>
          let sighash = SignatureHash L scriptCode txTo nIn ht; sig = butlast vchSig in
          if sigcache_Get cache sighash sig vchPubKey then (True, cache)
          else if \<not> CKey_SetPubKey L vchPubKey then (False, cache)
          else if \<not> CKey_Verify L vchPubKey sighash sig then (False, cache)
          else (True, sigcache_Set rnd nMaxCacheSize cache sighash sig vchPubKey))"

section \<open>VerifyScript\<close>

definition VerifyScript :: "ssl_lib \<Rightarrow> CScript \<Rightarrow> CScript \<Rightarrow> CTransaction \<Rightarrow> nat \<Rightarrow> int \<Rightarrow> bool" where
  "VerifyScript L sigScript pubKeyScript txTo nIn nHashType =
     (let check = CheckSig L txTo nIn nHashType in
      case EvalScript L check [] sigScript of
        None \<Rightarrow> False
      | Some stackCopy \<Rightarrow>
          (case EvalScript L check stackCopy pubKeyScript of
             None \<Rightarrow> False
           | Some [] \<Rightarrow> False
           | Some (v # s) \<Rightarrow>
               if \<not> CastToBool v then False
               else if IsPayToScriptHash pubKeyScript then
                 (if \<not> IsPushOnly sigScript then False
                  else case stackCopy of
                         [] \<Rightarrow> False
                       | pubKey2 # rest \<Rightarrow>
                           (case EvalScript L check rest pubKey2 of
                              None \<Rightarrow> False
                            | Some [] \<Rightarrow> False
                            | Some (v2 # s2) \<Rightarrow> CastToBool v2))
               else True))"

text \<open>\<open>None\<close> is the failed assertion on \<open>nIn\<close>.\<close>

definition VerifySignature :: "ssl_lib \<Rightarrow> CTransaction \<Rightarrow> CTransaction \<Rightarrow> nat \<Rightarrow> int \<Rightarrow> bool option" where
  "VerifySignature L txFrom txTo nIn nHashType =
     (if nIn \<ge> length (vin txTo) then None
      else let txin = vin txTo ! nIn in
      if unat (op_n (prevout txin)) \<ge> length (vout txFrom) then Some False
      else let txout = vout txFrom ! unat (op_n (prevout txin)) in
      if op_hash (prevout txin) \<noteq> GetHash L txFrom then Some False
      else if \<not> VerifyScript L (scriptSig txin) (scriptPubKey txout) txTo nIn nHashType then Some False
      else Some True)"

section \<open>The cache is transparent\<close>

definition cache_valid :: "ssl_lib \<Rightarrow> sigdata_type list \<Rightarrow> bool" where
  "cache_valid L cache \<longleftrightarrow> sorted cache \<and> distinct cache \<and>
     list_all (\<lambda>(h, sig, pk). CKey_SetPubKey L pk \<and> CKey_Verify L pk h sig) cache"

lemma sigcache_evict_subset: "set (sigcache_evict rnd i m s) \<subseteq> set s"
proof (induction rnd i m s rule: sigcache_evict.induct)
  case (1 rnd i m s)
  show ?case
  proof (cases "m < length s")
    case True
    then show ?thesis using 1 [OF True refl] set_remove1_subset by (subst sigcache_evict.simps) (force simp: Let_def)
  next
    case False
    then show ?thesis by (subst sigcache_evict.simps) simp
  qed
qed

lemma sigcache_evict_sorted:
  "sorted s \<and> distinct s \<Longrightarrow> sorted (sigcache_evict rnd i m s) \<and> distinct (sigcache_evict rnd i m s)"
proof (induction rnd i m s rule: sigcache_evict.induct)
  case (1 rnd i m s)
  then show ?case by (subst (1 2) sigcache_evict.simps) (auto simp: Let_def sorted_remove1)
qed

lemma sigcache_evict_length: "length (sigcache_evict rnd i m s) \<le> m"
proof (induction rnd i m s rule: sigcache_evict.induct)
  case (1 rnd i m s)
  then show ?case by (subst sigcache_evict.simps) (auto simp: Let_def)
qed

lemma sigcache_Set_length:
  "0 < m \<Longrightarrow> int (length (sigcache_Set rnd m cache h sig pk)) \<le> m + 1"
  using sigcache_evict_length [of rnd 0 "nat m" cache]
  by (auto simp: sigcache_Set_def insort_insert_key_def)

lemma sigcache_Set_valid:
  assumes "cache_valid L cache" "CKey_SetPubKey L pk" "CKey_Verify L pk h sig"
  shows "cache_valid L (sigcache_Set rnd m cache h sig pk)"
proof -
  let ?e = "sigcache_evict rnd 0 (nat m) cache"
  have e: "sorted ?e" "distinct ?e" "set ?e \<subseteq> set cache"
    using sigcache_evict_sorted [of cache] sigcache_evict_subset [of rnd 0 "nat m" cache] assms(1)
    by (auto simp: cache_valid_def)
  then show ?thesis using assms
    by (auto simp: cache_valid_def sigcache_Set_def list_all_iff sorted_insort_insert distinct_insort_insert
        set_insort_insert)
qed

lemma CheckSig_cached_transparent:
  assumes "cache_valid L cache"
  shows "fst (CheckSig_cached L rnd m cache txTo nIn ht sig pk code) = CheckSig L txTo nIn ht sig pk code \<and>
         cache_valid L (snd (CheckSig_cached L rnd m cache txTo nIn ht sig pk code))"
proof (cases "sig_hash_type ht sig")
  case None
  then show ?thesis using assms by (simp add: CheckSig_cached_def CheckSig_def)
next
  case (Some t)
  let ?h = "SignatureHash L code txTo nIn t"
  have "sigcache_Get cache ?h (butlast sig) pk \<Longrightarrow> CKey_SetPubKey L pk \<and> CKey_Verify L pk ?h (butlast sig)"
    using assms by (auto simp: cache_valid_def sigcache_Get_def list_all_iff)
  then show ?thesis using Some assms sigcache_Set_valid [OF assms]
    by (simp add: CheckSig_cached_def CheckSig_def Let_def)
qed

section \<open>What a signature commits to\<close>

text \<open>The signature hash ignores the scripts of all inputs.\<close>

definition strip_scripts :: "CTransaction \<Rightarrow> CTransaction" where
  "strip_scripts tx = tx\<lparr>vin := map (\<lambda>txin. txin\<lparr>scriptSig := []\<rparr>) (vin tx)\<rparr>"

lemma sighash_tx_strip: "sighash_tx code (strip_scripts tx) nIn ht = sighash_tx code tx nIn ht"
  by (auto simp: sighash_tx_def strip_scripts_def Let_def comp_def)

lemma sighash_tx_ALL:
  assumes "nIn < length (vin tx)"
  shows "sighash_tx code tx nIn SIGHASH_ALL = Some (tx\<lparr>vin :=
     (map (\<lambda>txin. txin\<lparr>scriptSig := []\<rparr>) (vin tx))
       [nIn := (vin tx ! nIn)\<lparr>scriptSig := fst (FindAndDelete code (op_byte OP_CODESEPARATOR))\<rparr>]\<rparr>)"
proof -
  have "(1 :: int) AND 0x1f = 1" "(1 :: int) AND 0x80 = 0" by code_simp+
  then show ?thesis using assms by (simp add: sighash_tx_def Let_def)
qed

lemma sighash_tx_NONE:
  "nIn < length (vin tx) \<Longrightarrow> \<exists>t. sighash_tx code tx nIn SIGHASH_NONE = Some t \<and>
     sighash_tx code (tx\<lparr>vout := os\<rparr>) nIn SIGHASH_NONE = Some t"
proof -
  have "(2 :: int) AND 0x1f = 2" "(2 :: int) AND 0x80 = 0" by code_simp+
  then show "nIn < length (vin tx) \<Longrightarrow> ?thesis" by (simp add: sighash_tx_def Let_def)
qed

lemma FindAndDelete_le: "length (fst (FindAndDelete s b)) \<le> length s"
  using FindAndDelete_length [of s b] by linarith

lemma list_all_update: "list_all P xs \<Longrightarrow> P x \<Longrightarrow> list_all P (xs[i := x])"
  by (auto simp: list_all_iff dest: set_update_subset_insert [THEN subsetD])

lemma sighash_tx_ok:
  assumes "tx_ok tx" "length code \<le> MAX_SIZE" "nIn < length (vin tx)"
  shows "tx_ok (the (sighash_tx code tx nIn SIGHASH_ALL))"
  using assms FindAndDelete_le [of code "op_byte OP_CODESEPARATOR"]
  by (simp add: sighash_tx_ALL tx_ok_def)
     (auto intro!: list_all_update simp: txin_ok_def list.pred_map list.pred_True comp_def)

text \<open>The edited inputs, seen field by field.\<close>

definition sign_inputs :: "CScript \<Rightarrow> nat \<Rightarrow> CTxIn list \<Rightarrow> CTxIn list" where
  "sign_inputs c n vi = (map (\<lambda>txin. txin\<lparr>scriptSig := []\<rparr>) vi)[n := (vi ! n)\<lparr>scriptSig := c\<rparr>]"

lemma sign_inputs_fields:
  "map prevout (sign_inputs c n vi) = map prevout vi" "map nSequence (sign_inputs c n vi) = map nSequence vi"
  "length (sign_inputs c n vi) = length vi"
  "n < length vi \<Longrightarrow> i < length vi \<Longrightarrow> scriptSig (sign_inputs c n vi ! i) = (if i = n then c else [])"
  by (cases "n < length vi"; auto simp: sign_inputs_def nth_list_update list_update_beyond intro!: nth_equalityI)+

lemma sighash_ALL_preimage:
  assumes "tx_ok tx" "tx_ok tx'" "length code \<le> MAX_SIZE" "length code' \<le> MAX_SIZE"
    "nIn < length (vin tx)" "nIn' < length (vin tx')"
    "tx_bytes (the (sighash_tx code tx nIn SIGHASH_ALL)) @ i32_bytes SIGHASH_ALL =
     tx_bytes (the (sighash_tx code' tx' nIn' SIGHASH_ALL)) @ i32_bytes SIGHASH_ALL"
  shows "nVersion tx = nVersion tx' \<and> nTime tx = nTime tx' \<and> nLockTime tx = nLockTime tx' \<and> vout tx = vout tx' \<and>
     map prevout (vin tx) = map prevout (vin tx') \<and> map nSequence (vin tx) = map nSequence (vin tx') \<and>
     (fst (FindAndDelete code (op_byte OP_CODESEPARATOR)) \<noteq> [] \<longrightarrow> nIn = nIn' \<and>
        fst (FindAndDelete code (op_byte OP_CODESEPARATOR)) = fst (FindAndDelete code' (op_byte OP_CODESEPARATOR)))"
proof -
  let ?c = "fst (FindAndDelete code (op_byte OP_CODESEPARATOR))"
  let ?c' = "fst (FindAndDelete code' (op_byte OP_CODESEPARATOR))"
  have "the (sighash_tx code tx nIn SIGHASH_ALL) = the (sighash_tx code' tx' nIn' SIGHASH_ALL)"
    using assms(7) by (intro tx.put_inj sighash_tx_ok assms(1-6)) simp
  then have e: "tx\<lparr>vin := sign_inputs ?c nIn (vin tx)\<rparr> = tx'\<lparr>vin := sign_inputs ?c' nIn' (vin tx')\<rparr>"
    by (simp only: sighash_tx_ALL [OF assms(5)] sighash_tx_ALL [OF assms(6)] option.sel sign_inputs_def)
  then have f: "nVersion tx = nVersion tx'" "nTime tx = nTime tx'" "nLockTime tx = nLockTime tx'" "vout tx = vout tx'"
    and i: "sign_inputs ?c nIn (vin tx) = sign_inputs ?c' nIn' (vin tx')"
    by (cases tx; cases tx'; simp)+
  have l: "length (vin tx) = length (vin tx')" using i sign_inputs_fields(3) by metis
  have "?c = (if nIn = nIn' then ?c' else [])"
    using sign_inputs_fields(4) [OF assms(5,5), of ?c] sign_inputs_fields(4) [OF assms(6), of nIn ?c'] i l assms(5)
    by simp
  then show ?thesis using f i sign_inputs_fields(1,2) by (metis (full_types))
qed

section \<open>Spending standard outputs\<close>

lemma FindAndDelete_Nil: "b \<noteq> [] \<Longrightarrow> FindAndDelete [] b = ([], 0)"
  by (simp add: FindAndDelete_def fad_loop.simps erase_prefix.simps GetOp2_def)

lemma p2pkh_not_p2sh: "\<not> IsPayToScriptHash (p2pkh_script h)"
  by (simp add: IsPayToScriptHash_def p2pkh_script_def op_byte_def push_data_def)

lemma CastToBool_consts [simp]: "CastToBool vchTrue" "\<not> CastToBool vchFalse"
  by (simp_all add: vchTrue_def vchFalse_def)

lemma length_push_data_small: "length b \<le> 520 \<Longrightarrow> length (push_data b) \<le> 523"
  by (simp add: push_data_def)

lemma VerifyScript_p2pkh:
  assumes "length sig \<le> 520" "length pk \<le> 520"
  shows "VerifyScript L (push_data sig @ push_data pk) (p2pkh_script h) txTo nIn ht \<longleftrightarrow>
     Hash160 L pk = h \<and> IsCanonicalSignature sig \<and> IsCanonicalPubKey pk \<and>
     CheckSig L txTo nIn ht sig pk (fst (FindAndDelete (p2pkh_script h) (push_data sig)))"
proof -
  have "EvalScript L c [] (concat (map push_data [sig, pk])) = Some (rev [sig, pk] @ [])" for c
    using assms length_push_data_small [of sig] length_push_data_small [of pk]
    by (intro EvalScript_pushes) simp_all
  then have e: "EvalScript L c [] (push_data sig @ push_data pk) = Some [pk, sig]" for c by simp
  show ?thesis unfolding VerifyScript_def e Let_def
    by (auto simp: EvalScript_p2pkh p2pkh_not_p2sh)
qed

definition p2sh_script :: "uint160 \<Rightarrow> CScript" where
  "p2sh_script h = op_byte OP_HASH160 @ push_data (u160_bytes h) @ op_byte OP_EQUAL"

lemma u160_bytes_inj: "u160_bytes a = u160_bytes b \<longleftrightarrow> a = b"
  by (metis bytes_u160_bytes)

lemma p2sh_is_p2sh: "IsPayToScriptHash (p2sh_script h)"
  by (simp add: IsPayToScriptHash_def p2sh_script_def op_byte_def push_data_def nth_append)

lemma EvalScript_p2sh:
  assumes "length stk \<le> 900"
  shows "EvalScript L check (r # stk) (p2sh_script h) =
    Some ((if Hash160 L r = h then vchTrue else vchFalse) # stk)"
proof -
  have len: "length (push_data (u160_bytes h)) = 21" by (simp add: push_data_def)
  show ?thesis using assms unfolding p2sh_script_def
    by (simp add: eval_simps op_byte_def exec_hash_def eval_loop_push_data exec_equal_def u160_bytes_inj len)
qed

text \<open>The outcome of a script run on a stack.\<close>

definition accepts :: "valtype list option \<Rightarrow> bool" where
  "accepts r = (case r of Some (v # s) \<Rightarrow> CastToBool v | _ \<Rightarrow> False)"

lemma VerifyScript_p2sh:
  assumes "list_all (\<lambda>b. length b \<le> 520) bs" "length redeem \<le> 520" "length bs \<le> 800"
    "length (concat (map push_data (bs @ [redeem]))) \<le> 10000"
  shows "VerifyScript L (concat (map push_data (bs @ [redeem]))) (p2sh_script h) txTo nIn ht \<longleftrightarrow>
     Hash160 L redeem = h \<and> accepts (EvalScript L (CheckSig L txTo nIn ht) (rev bs) redeem)"
proof -
  have e: "EvalScript L c [] (concat (map push_data (bs @ [redeem]))) = Some (redeem # rev bs)" for c
    using EvalScript_pushes [of "bs @ [redeem]" "[]" L c] assms by simp
  have p: "IsPushOnly (concat (map push_data (bs @ [redeem])))"
    by (rule IsPushOnly_pushes) (use assms in \<open>auto simp: list_all_iff\<close>)
  show ?thesis unfolding VerifyScript_def e Let_def
    using assms(3) p by (auto simp: EvalScript_p2sh p2sh_is_p2sh accepts_def split: option.split list.split)
qed

section \<open>Properties\<close>

text \<open>A transaction for the witnesses.\<close>

definition demo_tx :: "CScript \<Rightarrow> CTransaction" where
  "demo_tx s = \<lparr>nVersion = 1, nTime = 7, vin = [\<lparr>prevout = COutPoint 3 0, scriptSig = s, nSequence = - 1\<rparr>],
     vout = [\<lparr>nValue = 5, scriptPubKey = [0x51]\<rparr>], nLockTime = 0\<rparr>"

text \<open>C33. The signature cache never changes an answer: with a cache that holds only verified triples,
  \<open>CheckSig\<close> returns what it returns without a cache, and the cache it leaves again holds only verified
  triples, whatever the random evictions and the size limit were.\<close>

theorem signature_cache_transparent:
  assumes "cache_valid L cache"
  shows "fst (CheckSig_cached L rnd m cache txTo nIn ht sig pk code) = CheckSig L txTo nIn ht sig pk code \<and>
         cache_valid L (snd (CheckSig_cached L rnd m cache txTo nIn ht sig pk code))"
  by (rule CheckSig_cached_transparent [OF assms])

theorem signature_cache_transparent_witness:
  "fst (CheckSig_cached ssl_demo (\<lambda>i. 5) 50000 [] (demo_tx []) 0 0 [1] [2] []) = CheckSig ssl_demo (demo_tx []) 0 0 [1] [2] []"
  using signature_cache_transparent [of ssl_demo "[]"] by (simp add: cache_valid_def)



text \<open>C31. Spending a pay-to-pubkey-hash output by pushing a signature and a key succeeds exactly when the
  key hashes to the committed hash, both encodings are canonical and the signature verifies.\<close>

theorem VerifyScript_pay_to_pubkey_hash:
  assumes "length sig \<le> 520" "length pk \<le> 520"
  shows "VerifyScript L (push_data sig @ push_data pk) (p2pkh_script h) txTo nIn ht \<longleftrightarrow>
     Hash160 L pk = h \<and> IsCanonicalSignature sig \<and> IsCanonicalPubKey pk \<and>
     CheckSig L txTo nIn ht sig pk (fst (FindAndDelete (p2pkh_script h) (push_data sig)))"
  by (rule VerifyScript_p2pkh [OF assms])

theorem VerifyScript_pay_to_pubkey_hash_witness:
  "\<not> VerifyScript ssl_demo (push_data [9] @ push_data [7]) (p2pkh_script 0) (demo_tx []) 0 0"
  using VerifyScript_pay_to_pubkey_hash [of "[9]" "[7]" ssl_demo 0 "demo_tx []" 0 0]
  by (simp add: IsCanonicalSignature_def)

text \<open>Spending a pay-to-script-hash output with literal pushes succeeds exactly when the last push
  hashes to the committed hash and, run as a script on the other pushes, it accepts.\<close>

lemma VerifyScript_pay_to_script_hash:
  assumes "list_all (\<lambda>b. length b \<le> 520) bs" "length redeem \<le> 520" "length bs \<le> 800"
    "length (concat (map push_data (bs @ [redeem]))) \<le> 10000"
  shows "VerifyScript L (concat (map push_data (bs @ [redeem]))) (p2sh_script h) txTo nIn ht \<longleftrightarrow>
     Hash160 L redeem = h \<and> accepts (EvalScript L (CheckSig L txTo nIn ht) (rev bs) redeem)"
  by (rule VerifyScript_p2sh [OF assms])

end
