(* ===== verification/Solver.thy ===== *)
theory Solver
  imports Verify
begin

text \<open>
  Recognising and building the standard output scripts (\<open>script.cpp\<close>): the template matcher
  \<open>Solver\<close>, destinations, \<open>IsStandard\<close>, \<open>IsMine\<close> against a key store, and the scripts that
  \<open>SetDestination\<close> and \<open>SetMultisig\<close> build. A key store is seen through the two look-ups these
  functions make, \<open>HaveKey\<close> and \<open>GetCScript\<close>.
\<close>

section \<open>Template matching\<close>

datatype txnouttype = TX_NONSTANDARD | TX_PUBKEY | TX_PUBKEYHASH | TX_SCRIPTHASH | TX_MULTISIG

datatype CTxDestination = CNoDestination | DKeyID CKeyID | DScriptID CScriptID

text \<open>\<open>mTemplates\<close>, in the order of the \<open>std::map\<close> on the enumeration.\<close>

definition mTemplates :: "(txnouttype \<times> CScript) list" where
  "mTemplates =
     [(TX_PUBKEY, op_byte OP_PUBKEY @ op_byte OP_CHECKSIG),
      (TX_PUBKEYHASH, op_byte OP_DUP @ op_byte OP_HASH160 @ op_byte OP_PUBKEYHASH @
                      op_byte OP_EQUALVERIFY @ op_byte OP_CHECKSIG),
      (TX_MULTISIG, op_byte OP_SMALLINTEGER @ op_byte OP_PUBKEYS @ op_byte OP_SMALLINTEGER @
                    op_byte OP_CHECKMULTISIG)]"

text \<open>
  The inner loop on \<open>OP_PUBKEYS\<close>. When \<open>GetOp\<close> fails it has reset the opcode and the data; the
  comparison that follows then fails, so the position it leaves does not matter.
\<close>

function pubkeys_loop :: "nat \<Rightarrow> valtype \<Rightarrow> CScript \<Rightarrow> valtype list \<Rightarrow> nat \<times> valtype \<times> CScript \<times> valtype list" where
  "pubkeys_loop opcode1 vch1 pc1 sols =
     (if length vch1 \<ge> 33 \<and> length vch1 \<le> 120
      then (case GetOp2 pc1 of
              None \<Rightarrow> (OP_INVALIDOPCODE, [], [], sols @ [vch1])
            | Some (opcode1', vch1', pc1') \<Rightarrow> pubkeys_loop opcode1' vch1' pc1' (sols @ [vch1]))
      else (opcode1, vch1, pc1, sols))"
  by pat_completeness auto
termination
  by (relation "measure (\<lambda>(a, b, pc, d). length pc)") (auto dest: GetOp2_shorter)

declare pubkeys_loop.simps [simp del]

text \<open>One comparison: the solutions found so far, or \<open>None\<close> for \<open>break\<close>.\<close>

definition match_item :: "nat \<Rightarrow> valtype \<Rightarrow> nat \<Rightarrow> valtype \<Rightarrow> valtype list \<Rightarrow> valtype list option" where
  "match_item opcode1 vch1 opcode2 vch2 sols =
     (if opcode2 = OP_PUBKEY then (if length vch1 < 33 \<or> length vch1 > 120 then None else Some (sols @ [vch1]))
      else if opcode2 = OP_PUBKEYHASH then (if length vch1 \<noteq> 20 then None else Some (sols @ [vch1]))
      else if opcode2 = OP_SMALLINTEGER then
        (if opcode1 = OP_0 \<or> (opcode1 \<ge> OP_1 \<and> opcode1 \<le> OP_16)
         then Some (sols @ [[of_nat (the (DecodeOP_N opcode1))]]) else None)
      else if opcode1 \<noteq> opcode2 \<or> vch1 \<noteq> vch2 then None
      else Some sols)"

function match_loop :: "CScript \<Rightarrow> CScript \<Rightarrow> valtype list \<Rightarrow> valtype list option" where
  "match_loop pc1 pc2 sols =
     (if pc1 = [] \<and> pc2 = [] then Some sols
      else case GetOp2 pc1 of
        None \<Rightarrow> None
      | Some (opcode1, vch1, pc1') \<Rightarrow>
          (case GetOp2 pc2 of
             None \<Rightarrow> None
           | Some (opcode2, vch2, pc2') \<Rightarrow>
               if opcode2 = OP_PUBKEYS then
                 (case pubkeys_loop opcode1 vch1 pc1' sols of (opcode1', vch1', pc1'', sols') \<Rightarrow>
                    (case GetOp2 pc2' of
                       None \<Rightarrow> None
                     | Some (opcode2', vch2', pc2'') \<Rightarrow>
                         (case match_item opcode1' vch1' opcode2' vch2' sols' of
                            None \<Rightarrow> None
                          | Some s \<Rightarrow> match_loop pc1'' pc2'' s)))
               else
                 (case match_item opcode1 vch1 opcode2 vch2 sols of
                    None \<Rightarrow> None
                  | Some s \<Rightarrow> match_loop pc1' pc2' s)))"
  by pat_completeness auto
termination
  by (relation "measure (\<lambda>(a, pc2, c). length pc2)") (auto dest!: GetOp2_shorter)

declare match_loop.simps [simp del]

text \<open>The result and the two output parameters; \<open>vSolutionsRet\<close> is empty at every call.\<close>

fun scan_templates :: "CScript \<Rightarrow> (txnouttype \<times> CScript) list \<Rightarrow> bool \<times> txnouttype \<times> valtype list" where
  "scan_templates s [] = (False, TX_NONSTANDARD, [])"
| "scan_templates s ((t, script2) # r) =
     (case match_loop s script2 [] of
        None \<Rightarrow> scan_templates s r
      | Some sols \<Rightarrow>
          if t = TX_MULTISIG then
            (let m = unat (hd (hd sols)); n = unat (hd (last sols)) in
             if m < 1 \<or> n < 1 \<or> m > n \<or> length sols - 2 \<noteq> n then (False, t, sols) else (True, t, sols))
          else (True, t, sols))"

definition Solver :: "CScript \<Rightarrow> bool \<times> txnouttype \<times> valtype list" where
  "Solver s =
     (if IsPayToScriptHash s then (True, TX_SCRIPTHASH, [take 20 (drop 2 s)])
      else scan_templates s mTemplates)"

definition ScriptSigArgsExpected :: "txnouttype \<Rightarrow> valtype list \<Rightarrow> int" where
  "ScriptSigArgsExpected t vSolutions =
     (case t of
        TX_NONSTANDARD \<Rightarrow> -1
      | TX_PUBKEY \<Rightarrow> 1
      | TX_PUBKEYHASH \<Rightarrow> 2
      | TX_MULTISIG \<Rightarrow> (if vSolutions = [] \<or> hd vSolutions = [] then -1 else uint (hd (hd vSolutions)) + 1)
      | TX_SCRIPTHASH \<Rightarrow> 1)"

definition IsStandard :: "CScript \<Rightarrow> bool" where
  "IsStandard s =
     (case Solver s of (ok, whichType, vSolutions) \<Rightarrow>
        if \<not> ok then False
        else if whichType = TX_MULTISIG \<and>
                (let m = hd (hd vSolutions); n = hd (last vSolutions) in n < 1 \<or> n > 3 \<or> m < 1 \<or> m > n) then False
        else whichType \<noteq> TX_NONSTANDARD)"

section \<open>Destinations\<close>

definition ExtractDestination :: "ssl_lib \<Rightarrow> CScript \<Rightarrow> CTxDestination option" where
  "ExtractDestination L s =
     (case Solver s of (ok, whichType, vSolutions) \<Rightarrow>
        if \<not> ok then None
        else if whichType = TX_PUBKEY then Some (DKeyID (CPubKey_GetID L (vSolutions ! 0)))
        else if whichType = TX_PUBKEYHASH then Some (DKeyID (bytes_u160 (vSolutions ! 0)))
        else if whichType = TX_SCRIPTHASH then Some (DScriptID (bytes_u160 (vSolutions ! 0)))
        else None)"

text \<open>The type, the addresses and the number of signatures required.\<close>

definition ExtractDestinations :: "ssl_lib \<Rightarrow> CScript \<Rightarrow> (txnouttype \<times> CTxDestination list \<times> int) option" where
  "ExtractDestinations L s =
     (case Solver s of (ok, typeRet, vSolutions) \<Rightarrow>
        if \<not> ok then None
        else if typeRet = TX_MULTISIG then
          Some (typeRet, map (\<lambda>k. DKeyID (CPubKey_GetID L k)) (butlast (tl vSolutions)), uint (hd (hd vSolutions)))
        else (case ExtractDestination L s of None \<Rightarrow> None | Some address \<Rightarrow> Some (typeRet, [address], 1)))"

definition SetDestination :: "CTxDestination \<Rightarrow> CScript" where
  "SetDestination dest =
     (case dest of
        CNoDestination \<Rightarrow> []
      | DKeyID keyID \<Rightarrow> op_byte OP_DUP @ op_byte OP_HASH160 @ push_uint160 keyID @
                          op_byte OP_EQUALVERIFY @ op_byte OP_CHECKSIG
      | DScriptID scriptID \<Rightarrow> op_byte OP_HASH160 @ push_uint160 scriptID @ op_byte OP_EQUAL)"

text \<open>The public keys of the keys; \<open>None\<close> is the assertion of \<open>EncodeOP_N\<close>.\<close>

definition SetMultisig :: "int \<Rightarrow> valtype list \<Rightarrow> CScript option" where
  "SetMultisig nRequired keys =
     (case (EncodeOP_N nRequired, EncodeOP_N (int (length keys))) of
        (Some m, Some n) \<Rightarrow> Some (op_byte m @ concat (map push_data keys) @ op_byte n @ op_byte OP_CHECKMULTISIG)
      | _ \<Rightarrow> None)"

section \<open>Key store queries\<close>

record key_view =
  HaveKey :: "CKeyID \<Rightarrow> bool"
  GetCScript :: "CScriptID \<Rightarrow> CScript option"

definition HaveKeys :: "ssl_lib \<Rightarrow> valtype list \<Rightarrow> key_view \<Rightarrow> nat" where
  "HaveKeys L pubkeys keystore = length (filter (\<lambda>pubkey. HaveKey keystore (CPubKey_GetID L pubkey)) pubkeys)"

definition IsMine_dest :: "key_view \<Rightarrow> CTxDestination \<Rightarrow> bool" where
  "IsMine_dest keystore dest =
     (case dest of
        CNoDestination \<Rightarrow> False
      | DKeyID keyID \<Rightarrow> HaveKey keystore keyID
      | DScriptID scriptID \<Rightarrow> GetCScript keystore scriptID \<noteq> None)"

text \<open>\<open>None\<close> is a recursion that does not end (a cycle of redeem scripts).\<close>

partial_function (option) IsMine :: "ssl_lib \<Rightarrow> key_view \<Rightarrow> CScript \<Rightarrow> bool option" where
  "IsMine L keystore s =
     (case Solver s of (ok, whichType, vSolutions) \<Rightarrow>
        if \<not> ok then Some False
        else case whichType of
          TX_NONSTANDARD \<Rightarrow> Some False
        | TX_PUBKEY \<Rightarrow> Some (HaveKey keystore (CPubKey_GetID L (vSolutions ! 0)))
        | TX_PUBKEYHASH \<Rightarrow> Some (HaveKey keystore (bytes_u160 (vSolutions ! 0)))
        | TX_SCRIPTHASH \<Rightarrow>
            (case GetCScript keystore (bytes_u160 (vSolutions ! 0)) of
               None \<Rightarrow> Some False
             | Some subscript \<Rightarrow> IsMine L keystore subscript)
        | TX_MULTISIG \<Rightarrow>
            (let keys = butlast (tl vSolutions) in Some (HaveKeys L keys keystore = length keys)))"

section \<open>Soundness of the matcher\<close>

lemma match_loop_Nil2: "match_loop pc1 [] sols = (if pc1 = [] then Some sols else None)"
  by (subst match_loop.simps) (simp add: GetOp2_def split: option.split)

lemma match_loop_op:
  assumes "OP_PUSHDATA4 < unat c" "unat c \<noteq> OP_PUBKEYS"
  shows "match_loop pc1 (c # pc2) sols =
     (case GetOp2 pc1 of None \<Rightarrow> None | Some (opcode1, vch1, pc1') \<Rightarrow>
        Option.bind (match_item opcode1 vch1 (unat c) [] sols) (match_loop pc1' pc2))"
  using assms by (subst match_loop.simps) (auto simp: GetOp2_op split: option.split)

lemma match_loop_pubkeys:
  assumes "unat c = OP_PUBKEYS" "OP_PUSHDATA4 < unat c'"
  shows "match_loop pc1 (c # c' # pc2) sols =
     (case GetOp2 pc1 of None \<Rightarrow> None | Some (opcode1, vch1, pc1') \<Rightarrow>
       (case pubkeys_loop opcode1 vch1 pc1' sols of (opcode1', vch1', pc1'', sols') \<Rightarrow>
          Option.bind (match_item opcode1' vch1' (unat c') [] sols') (match_loop pc1'' pc2)))"
  using assms by (subst match_loop.simps) (auto simp: GetOp2_op split: option.split prod.split)

lemma match_item_Some:
  "match_item opcode1 vch1 opcode2 [] sols = Some r \<longleftrightarrow>
     (if opcode2 = OP_PUBKEY then 33 \<le> length vch1 \<and> length vch1 \<le> 120 \<and> r = sols @ [vch1]
      else if opcode2 = OP_PUBKEYHASH then length vch1 = 20 \<and> r = sols @ [vch1]
      else if opcode2 = OP_SMALLINTEGER then (opcode1 = OP_0 \<or> (OP_1 \<le> opcode1 \<and> opcode1 \<le> OP_16)) \<and>
        r = sols @ [[of_nat (the (DecodeOP_N opcode1))]]
      else opcode1 = opcode2 \<and> vch1 = [] \<and> r = sols)"
  by (auto simp: match_item_def)

lemma match_loop_op_Some:
  "OP_PUSHDATA4 < unat c \<Longrightarrow> unat c \<noteq> OP_PUBKEYS \<Longrightarrow> match_loop pc1 (c # pc2) sols = Some r \<longleftrightarrow>
     (\<exists>opcode1 vch1 pc1' s. GetOp2 pc1 = Some (opcode1, vch1, pc1') \<and>
        match_item opcode1 vch1 (unat c) [] sols = Some s \<and> match_loop pc1' pc2 s = Some r)"
  by (auto simp: match_loop_op bind_eq_Some_conv split: option.split)

lemma match_loop_pubkeys_Some:
  "unat c = OP_PUBKEYS \<Longrightarrow> OP_PUSHDATA4 < unat c' \<Longrightarrow> match_loop pc1 (c # c' # pc2) sols = Some r \<longleftrightarrow>
     (\<exists>opcode1 vch1 pc1' opcode1' vch1' pc1'' sols' s. GetOp2 pc1 = Some (opcode1, vch1, pc1') \<and>
        pubkeys_loop opcode1 vch1 pc1' sols = (opcode1', vch1', pc1'', sols') \<and>
        match_item opcode1' vch1' (unat c') [] sols' = Some s \<and> match_loop pc1'' pc2 s = Some r)"
  by (auto simp: match_loop_pubkeys bind_eq_Some_conv split: option.split prod.split)

lemma match_loop_Nil2_Some: "match_loop pc1 [] sols = Some r \<longleftrightarrow> pc1 = [] \<and> r = sols"
  by (auto simp: match_loop_Nil2)

lemmas match_Some = match_loop_op_Some match_loop_pubkeys_Some match_loop_Nil2_Some match_item_Some

lemma instructions_Nil [simp]: "instructions [] = Some []"
  by (simp add: instructions.simps)

lemma instructions_step: "GetOp2 pc = Some (opcode, v, pc') \<Longrightarrow>
    instructions pc = map_option ((#) (opcode, v)) (instructions pc')"
  by (subst instructions.simps) (auto simp: GetOp2_def split: option.split)

lemma pubkeys_loop_sound:
  assumes "pubkeys_loop opcode1 vch1 pc1 sols = (opcode1', vch1', pc1', sols')" "opcode1' \<noteq> OP_INVALIDOPCODE"
    "instructions pc1' = Some is"
  shows "\<exists>ops keys. sols' = sols @ keys \<and> length ops = length keys \<and> list_all (\<lambda>k. 33 \<le> length k \<and> length k \<le> 120) keys \<and>
     map_option ((#) (opcode1, vch1)) (instructions pc1) = Some (zip ops keys @ (opcode1', vch1') # is)"
  using assms
proof (induction opcode1 vch1 pc1 sols rule: pubkeys_loop.induct)
  case (1 opcode1 vch1 pc1 sols)
  show ?case
  proof (cases "33 \<le> length vch1 \<and> length vch1 \<le> 120")
    case False
    then have "opcode1' = opcode1" "vch1' = vch1" "pc1' = pc1" "sols' = sols"
      using "1.prems"(1) by (auto simp: pubkeys_loop.simps)
    then show ?thesis using "1.prems"(3) by (intro exI [of _ "[]"]) simp
  next
    case True
    show ?thesis
    proof (cases "GetOp2 pc1")
      case None
      then show ?thesis using True "1.prems"(1,2) by (simp add: pubkeys_loop.simps)
    next
      case (Some t)
      then obtain o1 v1 p1 where g: "GetOp2 pc1 = Some (o1, v1, p1)" by (cases t) auto
      have "pubkeys_loop o1 v1 p1 (sols @ [vch1]) = (opcode1', vch1', pc1', sols')"
        using "1.prems"(1) True g by (subst (asm) pubkeys_loop.simps) simp
      from "1.IH" [OF True g refl refl this "1.prems"(2,3)] obtain ops keys where
        k: "sols' = (sols @ [vch1]) @ keys" "length ops = length keys"
          "list_all (\<lambda>k. 33 \<le> length k \<and> length k \<le> 120) keys"
          "map_option ((#) (o1, v1)) (instructions p1) = Some (zip ops keys @ (opcode1', vch1') # is)"
        by blast
      then show ?thesis using True instructions_step [OF g]
        by (intro exI [of _ "opcode1 # ops"] exI [of _ "vch1 # keys"]) auto
    qed
  qed
qed

definition small_int :: "nat \<Rightarrow> bool" where
  "small_int opcode \<longleftrightarrow> opcode = OP_0 \<or> (OP_1 \<le> opcode \<and> opcode \<le> OP_16)"

definition std_shape :: "txnouttype \<Rightarrow> valtype list \<Rightarrow> CScript \<Rightarrow> bool" where
  "std_shape t sols s =
     (case t of
        TX_NONSTANDARD \<Rightarrow> False
      | TX_PUBKEY \<Rightarrow> \<exists>opcode k. sols = [k] \<and> 33 \<le> length k \<and> length k \<le> 120 \<and>
          instructions s = Some [(opcode, k), (OP_CHECKSIG, [])]
      | TX_PUBKEYHASH \<Rightarrow> \<exists>opcode h. sols = [h] \<and> length h = 20 \<and>
          instructions s = Some [(OP_DUP, []), (OP_HASH160, []), (opcode, h), (OP_EQUALVERIFY, []), (OP_CHECKSIG, [])]
      | TX_SCRIPTHASH \<Rightarrow> \<exists>h. sols = [h] \<and> length h = 20 \<and> s = op_byte OP_HASH160 @ [0x14] @ h @ op_byte OP_EQUAL
      | TX_MULTISIG \<Rightarrow> \<exists>m n vm vn ops keys. length ops = length keys \<and>
          instructions s = Some ((m, vm) # zip ops keys @ [(n, vn), (OP_CHECKMULTISIG, [])]) \<and>
          small_int m \<and> small_int n \<and> the (DecodeOP_N n) = length keys \<and>
          1 \<le> the (DecodeOP_N m) \<and> the (DecodeOP_N m) \<le> length keys \<and>
          list_all (\<lambda>k. 33 \<le> length k \<and> length k \<le> 120) keys \<and>
          sols = [of_nat (the (DecodeOP_N m))] # keys @ [[of_nat (the (DecodeOP_N n))]])"

lemma template_pubkey:
  assumes "match_loop s [0xfe, 0xac] [] = Some sols"
  shows "std_shape TX_PUBKEY sols s"
  using assms
  by (auto simp: match_Some std_shape_def instructions_step)

lemma template_pubkeyhash:
  assumes "match_loop s [0x76, 0xa9, 0xfd, 0x88, 0xac] [] = Some sols"
  shows "std_shape TX_PUBKEYHASH sols s"
  using assms
  by (auto simp: match_Some std_shape_def instructions_step)

lemma DecodeOP_N_small: "small_int opcode \<Longrightarrow> the (DecodeOP_N opcode) \<le> 16"
  by (auto simp: small_int_def DecodeOP_N_def)

lemma template_multisig:
  assumes "match_loop s [0xfa, 0xfb, 0xfa, 0xae] [] = Some sols"
    "1 \<le> unat (hd (hd sols))" "unat (hd (hd sols)) \<le> unat (hd (last sols))" "length sols - 2 = unat (hd (last sols))"
  shows "std_shape TX_MULTISIG sols s"
proof -
  obtain m vm p1 o2 v2 p2 n vn p3 sols' p4 where
    g1: "GetOp2 s = Some (m, vm, p1)" "small_int m" and
    g2: "GetOp2 p1 = Some (o2, v2, p2)" and
    g3: "pubkeys_loop o2 v2 p2 [[of_nat (the (DecodeOP_N m))]] = (n, vn, p3, sols')" "small_int n" and
    g4: "GetOp2 p3 = Some (OP_CHECKMULTISIG, [], p4)" "p4 = []" and
    s: "sols = sols' @ [[of_nat (the (DecodeOP_N n))]]"
    using assms(1) by (auto simp: match_Some small_int_def)
  have i4: "instructions p3 = Some [(OP_CHECKMULTISIG, [])]" using g4 by (simp add: instructions_step)
  have "n \<noteq> OP_INVALIDOPCODE" using g3(2) by (auto simp: small_int_def)
  from pubkeys_loop_sound [OF g3(1) this i4] obtain ops keys where
    k: "sols' = [[of_nat (the (DecodeOP_N m))]] @ keys" "length ops = length keys"
      "list_all (\<lambda>k. 33 \<le> length k \<and> length k \<le> 120) keys"
      "map_option ((#) (o2, v2)) (instructions p2) = Some (zip ops keys @ (n, vn) # [(OP_CHECKMULTISIG, [])])" by blast
  have "unat (of_nat (the (DecodeOP_N m)) :: byte) = the (DecodeOP_N m)"
    "unat (of_nat (the (DecodeOP_N n)) :: byte) = the (DecodeOP_N n)"
    using DecodeOP_N_small [OF g1(2)] DecodeOP_N_small [OF g3(2)]
    by (simp_all add: unsigned_of_nat take_bit_nat_eq_self)
  then show ?thesis using assms(2-4) s k g1 g2 g3(2) unfolding std_shape_def txnouttype.case
    by (intro exI [of _ m] exI [of _ n] exI [of _ vm] exI [of _ vn] exI [of _ ops] exI [of _ keys])
       (simp add: instructions_step)
qed

lemma IsPayToScriptHash_shape:
  assumes "IsPayToScriptHash s"
  shows "s = op_byte OP_HASH160 @ [0x14] @ take 20 (drop 2 s) @ op_byte OP_EQUAL"
proof -
  have l: "length s = 23" and b: "s ! 0 = of_nat OP_HASH160" "s ! 1 = 0x14" "s ! 22 = of_nat OP_EQUAL"
    using assms by (auto simp: IsPayToScriptHash_def word_unat_eq_iff)
  have "drop 20 (drop 2 s) = drop 22 s" by simp
  then have "s = take 2 s @ take 20 (drop 2 s) @ drop 22 s" by (metis append_take_drop_id)
  moreover have "take 2 s = [s ! 0, s ! 1]"
    using l by (cases s; cases "tl s") auto
  moreover have "drop 22 s = [s ! 22]"
    using l Cons_nth_drop_Suc [of 22 s] by simp
  ultimately show ?thesis using b by (simp add: op_byte_def)
qed

lemma Solver_std_shape:
  assumes "Solver s = (True, t, sols)"
  shows "std_shape t sols s"
proof (cases "IsPayToScriptHash s")
  case True
  then have "t = TX_SCRIPTHASH" "sols = [take 20 (drop 2 s)]" "length s = 23"
    using assms by (simp_all add: Solver_def IsPayToScriptHash_def)
  then show ?thesis using IsPayToScriptHash_shape [OF True] by (simp add: std_shape_def)
next
  case False
  then show ?thesis using assms template_pubkey [of s] template_pubkeyhash [of s] template_multisig [of s]
    by (auto simp: Solver_def mTemplates_def op_byte_def Let_def not_less split: option.split_asm if_split_asm)
qed

section \<open>Building and recognising\<close>

lemma push_uint160_data: "push_uint160 h = push_data (u160_bytes h)"
  by (simp add: push_uint160_def push_data_def)

lemma SetDestination_scripts:
  "SetDestination (DKeyID h) = p2pkh_script h" "SetDestination (DScriptID h) = p2sh_script h"
  by (simp_all add: SetDestination_def p2pkh_script_def p2sh_script_def push_uint160_data)

lemma GetOp2_push_uint160: "GetOp2 (20 # u160_bytes h @ r) = Some (20, u160_bytes h, r)"
  using GetOp2_direct_push [of 20 "u160_bytes h" r] by simp

lemma Solver_p2pkh: "Solver (p2pkh_script h) = (True, TX_PUBKEYHASH, [u160_bytes h])"
proof -
  have s: "p2pkh_script h = [0x76, 0xa9] @ 20 # u160_bytes h @ [0x88, 0xac]"
    by (simp add: p2pkh_script_def op_byte_def push_data_def)
  have "\<not> IsPayToScriptHash (p2pkh_script h)" by (rule p2pkh_not_p2sh)
  then show ?thesis unfolding s
    by (simp add: Solver_def mTemplates_def op_byte_def match_loop_op match_loop_Nil2 GetOp2_op match_item_def
        GetOp2_push_uint160)
qed

lemma Solver_p2sh: "Solver (p2sh_script h) = (True, TX_SCRIPTHASH, [u160_bytes h])"
proof -
  have "take 20 (drop 2 (p2sh_script h)) = u160_bytes h"
    by (simp add: p2sh_script_def op_byte_def push_data_def)
  then show ?thesis by (simp add: Solver_def p2sh_is_p2sh)
qed

lemma pubkeys_loop_push:
  assumes "list_all (\<lambda>k. 33 \<le> length k \<and> length k \<le> 120) keys" "OP_PUSHDATA4 < unat c"
    "33 \<le> length k \<and> length k \<le> 120"
  shows "pubkeys_loop opcode k (concat (map push_data keys) @ c # r) sols = (unat c, [], r, sols @ k # keys)"
  using assms(1,3)
proof (induction keys arbitrary: opcode k sols)
  case Nil
  then show ?case using assms(2) by (simp add: pubkeys_loop.simps GetOp2_op)
next
  case (Cons k' keys)
  obtain opcode' where "GetOp2 (push_data k' @ concat (map push_data keys) @ c # r) =
      Some (opcode', k', concat (map push_data keys) @ c # r)"
    using GetOp2_push_data [of k' "concat (map push_data keys) @ c # r"] Cons.prems by auto
  then show ?case using Cons by (subst pubkeys_loop.simps) simp
qed

lemma GetOp2_nat_op:
  assumes "OP_PUSHDATA4 < n" "n < 256"
  shows "GetOp2 (word_of_nat n # r) = Some (n, [], r)"
proof -
  have "unat (word_of_nat n :: byte) = n" using assms by (simp add: unsigned_of_nat take_bit_nat_eq_self)
  then show ?thesis using GetOp2_op [of "word_of_nat n" r] assms by simp
qed

lemma Solver_SetMultisig:
  assumes "list_all (\<lambda>k. 33 \<le> length k \<and> length k \<le> 120) keys" "1 \<le> m" "m \<le> length keys" "length keys \<le> 16"
  shows "\<exists>s. SetMultisig (int m) keys = Some s \<and>
     Solver s = (True, TX_MULTISIG, [of_nat m] # keys @ [[of_nat (length keys)]])"
proof -
  obtain k ks where k: "keys = k # ks" "33 \<le> length k \<and> length k \<le> 120" "list_all (\<lambda>k. 33 \<le> length k \<and> length k \<le> 120) ks"
    using assms by (cases keys) auto
  obtain a b where ab: "a = 80 + m" "b = 80 + length keys" by simp
  then have r: "80 < a" "a \<le> 96" "80 < b" "b \<le> 96" "a - 80 = m" "b - 80 = length keys" using assms by auto
  let ?rest = "concat (map push_data ks) @ word_of_nat b # [0xae]"
  let ?s = "word_of_nat a # push_data k @ ?rest"
  have s: "SetMultisig (int m) keys = Some ?s"
    using assms k(1) ab by (auto simp: SetMultisig_def EncodeOP_N_def op_byte_def nat_add_distrib of_nat_diff)
  obtain opk where gk: "GetOp2 (push_data k @ ?rest) = Some (opk, k, ?rest)"
    using GetOp2_push_data [of k ?rest] k(2) by auto
  have ga: "GetOp2 ?s = Some (a, [], push_data k @ ?rest)" using r by (intro GetOp2_nat_op) auto
  have ub: "unat (word_of_nat b :: byte) = b" using r by (simp add: unsigned_of_nat take_bit_nat_eq_self)
  have loop: "pubkeys_loop opk k ?rest sols = (b, [], [0xae], sols @ k # ks)" for sols
    using pubkeys_loop_push [OF k(3) _ k(2), of "word_of_nat b" opk "[0xae]" sols] ub r by simp
  have d: "the (DecodeOP_N a) = m" "the (DecodeOP_N b) = length keys" using r by (auto simp: DecodeOP_N_def)
  have "match_loop ?s [0xfa, 0xfb, 0xfa, 0xae] [] = Some ([of_nat m] # keys @ [[of_nat (length keys)]])"
    using r k(1) by (simp add: match_loop_op match_loop_pubkeys match_loop_Nil2 ga gk loop match_item_def d GetOp2_op)
  moreover have "match_loop ?s [0xfe, 0xac] [] = None" "match_loop ?s [0x76, 0xa9, 0xfd, 0x88, 0xac] [] = None"
    using r by (simp_all add: match_loop_op ga match_item_def)
  moreover have "\<not> IsPayToScriptHash ?s"
    using r by (simp add: IsPayToScriptHash_def unsigned_of_nat take_bit_nat_eq_self)
  moreover have "unat (of_nat (length keys) :: byte) = length keys" "unat (of_nat m :: byte) = m"
    using assms by (simp_all add: unsigned_of_nat take_bit_nat_eq_self)
  ultimately have "Solver ?s = (True, TX_MULTISIG, [of_nat m] # keys @ [[of_nat (length keys)]])"
    using assms by (auto simp: Solver_def mTemplates_def op_byte_def Let_def not_less)
  with s show ?thesis by blast
qed

lemma ExtractDestination_SetDestination:
  assumes "dest \<noteq> CNoDestination"
  shows "ExtractDestination L (SetDestination dest) = Some dest"
  using assms
  by (cases dest) (simp_all add: SetDestination_scripts ExtractDestination_def Solver_p2pkh Solver_p2sh)

lemma IsMine_SetDestination:
  "IsMine L ks (SetDestination (DKeyID h)) = Some (HaveKey ks h)"
  "GetCScript ks h = Some sub \<Longrightarrow> IsMine L ks (SetDestination (DScriptID h)) = IsMine L ks sub"
  "GetCScript ks h = None \<Longrightarrow> IsMine L ks (SetDestination (DScriptID h)) = Some False"
  by (simp_all add: SetDestination_scripts IsMine.simps [of L ks "p2pkh_script h"]
      IsMine.simps [of L ks "p2sh_script h"] Solver_p2pkh Solver_p2sh)

section \<open>Properties\<close>

text \<open>C37. Whatever \<open>Solver\<close> accepts has the shape of the type it reports, instruction by instruction, and
  the solutions are the key, hash or keys (with the two counts) found at the template's places; for a
  multisignature the counts satisfy 1 <= m <= n and n is the number of keys.\<close>

theorem Solver_sound:
  assumes "Solver s = (True, t, sols)"
  shows "std_shape t sols s"
  by (rule Solver_std_shape [OF assms])

theorem Solver_sound_witness:
  "std_shape TX_PUBKEYHASH [u160_bytes 5] (p2pkh_script 5)"
  by (rule Solver_sound [OF Solver_p2pkh])

text \<open>The script built for a key or script address is recognised as that address.\<close>

lemma destination_roundtrip:
  assumes "dest \<noteq> CNoDestination"
  shows "ExtractDestination L (SetDestination dest) = Some dest"
  by (rule ExtractDestination_SetDestination [OF assms])

text \<open>For 1 <= m <= n <= 16 keys of 33 to 120 bytes, \<open>SetMultisig\<close> builds a script that \<open>Solver\<close>
  recognises as a multisignature with exactly these counts and keys.\<close>

lemma multisig_roundtrip:
  assumes "list_all (\<lambda>k. 33 \<le> length k \<and> length k \<le> 120) keys" "1 \<le> m" "m \<le> length keys" "length keys \<le> 16"
  shows "\<exists>s. SetMultisig (int m) keys = Some s \<and>
     Solver s = (True, TX_MULTISIG, [of_nat m] # keys @ [[of_nat (length keys)]])"
  by (rule Solver_SetMultisig [OF assms])

end
