(* ===== verification/Merkle.thy ===== *)
theory Merkle
  imports Transaction
begin

text \<open>
  Merkle trees of transaction hashes: \<open>CBlock::BuildMerkleTree\<close>, \<open>GetMerkleBranch\<close>,
  \<open>CheckMerkleBranch\<close> (\<open>main.h\<close>) and \<open>CPartialMerkleTree\<close> (\<open>main.h\<close>, \<open>main.cpp\<close>). \<open>vMerkleTree\<close> is the
  flat array of all levels; the loop counters are natural numbers (the number of transactions of a
  block is far below the range of \<open>int\<close>).
\<close>

section \<open>The full tree\<close>

definition hash_pair :: "ssl_lib \<Rightarrow> uint256 \<Rightarrow> uint256 \<Rightarrow> uint256" where
  "hash_pair L a b = Hash2 L (u256_bytes a) (u256_bytes b)"

text \<open>The inner loop appends the parents of the \<open>nSize\<close> nodes that start at \<open>j\<close>.\<close>

function level_loop :: "ssl_lib \<Rightarrow> nat \<Rightarrow> nat \<Rightarrow> nat \<Rightarrow> uint256 list \<Rightarrow> uint256 list" where
  "level_loop L j nSize i vMerkleTree =
     (if i < nSize
      then let i2 = min (i + 1) (nSize - 1)
           in level_loop L j nSize (i + 2) (vMerkleTree @ [hash_pair L (vMerkleTree ! (j + i)) (vMerkleTree ! (j + i2))])
      else vMerkleTree)"
  by pat_completeness auto
termination
  by (relation "measure (\<lambda>(L, j, nSize, i, t). nSize - i)") auto

function tree_loop :: "ssl_lib \<Rightarrow> nat \<Rightarrow> nat \<Rightarrow> uint256 list \<Rightarrow> uint256 list" where
  "tree_loop L j nSize vMerkleTree =
     (if nSize > 1 then tree_loop L (j + nSize) ((nSize + 1) div 2) (level_loop L j nSize 0 vMerkleTree)
      else vMerkleTree)"
  by pat_completeness auto
termination
  by (relation "measure (\<lambda>(L, j, nSize, t). nSize)") auto

declare level_loop.simps [simp del] tree_loop.simps [simp del]

text \<open>The tree and the root it returns, from the hashes of the transactions of the block.\<close>

definition vMerkleTree_of :: "ssl_lib \<Rightarrow> uint256 list \<Rightarrow> uint256 list" where
  "vMerkleTree_of L hashes = tree_loop L 0 (length hashes) hashes"

definition BuildMerkleTree :: "ssl_lib \<Rightarrow> CTransaction list \<Rightarrow> uint256" where
  "BuildMerkleTree L vtx =
     (let vMerkleTree = vMerkleTree_of L (map (GetHash L) vtx)
      in if vMerkleTree = [] then 0 else last vMerkleTree)"

function branch_loop :: "uint256 list \<Rightarrow> nat \<Rightarrow> nat \<Rightarrow> nat \<Rightarrow> uint256 list" where
  "branch_loop vMerkleTree j nSize nIndex =
     (if nSize > 1
      then let i = min (nIndex XOR 1) (nSize - 1)
           in vMerkleTree ! (j + i) # branch_loop vMerkleTree (j + nSize) ((nSize + 1) div 2) (drop_bit 1 nIndex)
      else [])"
  by pat_completeness auto
termination
  by (relation "measure (\<lambda>(t, j, nSize, i). nSize)") auto

declare branch_loop.simps [simp del]

definition GetMerkleBranch :: "ssl_lib \<Rightarrow> CTransaction list \<Rightarrow> nat \<Rightarrow> uint256 list" where
  "GetMerkleBranch L vtx nIndex =
     branch_loop (vMerkleTree_of L (map (GetHash L) vtx)) 0 (length vtx) nIndex"

fun check_branch_loop :: "ssl_lib \<Rightarrow> uint256 \<Rightarrow> uint256 list \<Rightarrow> int \<Rightarrow> uint256" where
  "check_branch_loop L hash [] nIndex = hash"
| "check_branch_loop L hash (otherside # r) nIndex =
     check_branch_loop L (if nIndex AND 1 \<noteq> 0 then hash_pair L otherside hash else hash_pair L hash otherside)
       r (drop_bit 1 nIndex)"

definition CheckMerkleBranch :: "ssl_lib \<Rightarrow> uint256 \<Rightarrow> uint256 list \<Rightarrow> int \<Rightarrow> uint256" where
  "CheckMerkleBranch L hash vMerkleBranch nIndex =
     (if nIndex = -1 then 0 else check_branch_loop L hash vMerkleBranch nIndex)"

section \<open>Partial trees\<close>

record CPartialMerkleTree =
  nTransactions :: nat
  vBits :: "bool list"
  vHash :: "uint256 list"
  fBad :: bool

text \<open>\<open>unsigned int\<close> arithmetic.\<close>

definition CalcTreeWidth :: "nat \<Rightarrow> nat \<Rightarrow> nat" where
  "CalcTreeWidth n height = drop_bit height ((n + 2 ^ height - 1) mod 2 ^ 32)"

fun CalcHash :: "ssl_lib \<Rightarrow> nat \<Rightarrow> uint256 list \<Rightarrow> nat \<Rightarrow> nat \<Rightarrow> uint256" where
  "CalcHash L n vTxid 0 pos = vTxid ! pos"
| "CalcHash L n vTxid (Suc height) pos =
     (let left = CalcHash L n vTxid height (pos * 2);
          right = (if pos * 2 + 1 < CalcTreeWidth n height then CalcHash L n vTxid height (pos * 2 + 1) else left)
      in hash_pair L left right)"

definition parent_of_match :: "nat \<Rightarrow> bool list \<Rightarrow> nat \<Rightarrow> nat \<Rightarrow> bool" where
  "parent_of_match n vMatch height pos =
     list_ex (\<lambda>p. vMatch ! p) [push_bit height pos..<min (push_bit height (pos + 1)) n]"

text \<open>The two vectors it appends to are threaded.\<close>

fun TraverseAndBuild :: "ssl_lib \<Rightarrow> nat \<Rightarrow> uint256 list \<Rightarrow> bool list \<Rightarrow> nat \<Rightarrow> nat \<Rightarrow>
    bool list \<times> uint256 list \<Rightarrow> bool list \<times> uint256 list" where
  "TraverseAndBuild L n vTxid vMatch 0 pos (bits, hashes) =
     (bits @ [parent_of_match n vMatch 0 pos], hashes @ [CalcHash L n vTxid 0 pos])"
| "TraverseAndBuild L n vTxid vMatch (Suc height) pos (bits, hashes) =
     (let fParentOfMatch = parent_of_match n vMatch (Suc height) pos;
          bits1 = bits @ [fParentOfMatch]
      in if \<not> fParentOfMatch then (bits1, hashes @ [CalcHash L n vTxid (Suc height) pos])
         else let s = TraverseAndBuild L n vTxid vMatch height (pos * 2) (bits1, hashes)
              in if pos * 2 + 1 < CalcTreeWidth n height
                 then TraverseAndBuild L n vTxid vMatch height (pos * 2 + 1) s else s)"

text \<open>
  The loop \<open>while (CalcTreeWidth(nHeight) > 1) nHeight++\<close>. The shift \<open>1 << height\<close> is defined only
  below the width of the type, so the recursion stops there.
\<close>

function height_loop :: "nat \<Rightarrow> nat \<Rightarrow> nat" where
  "height_loop n nHeight =
     (if nHeight < 32 \<and> CalcTreeWidth n nHeight > 1 then height_loop n (nHeight + 1) else nHeight)"
  by pat_completeness auto
termination
  by (relation "measure (\<lambda>(n, h). 32 - h)") auto

declare height_loop.simps [simp del]

definition CPartialMerkleTree_build :: "ssl_lib \<Rightarrow> uint256 list \<Rightarrow> bool list \<Rightarrow> CPartialMerkleTree" where
  "CPartialMerkleTree_build L vTxid vMatch =
     (let n = length vTxid;
          (bits, hashes) = TraverseAndBuild L n vTxid vMatch (height_loop n 0) 0 ([], [])
      in \<lparr>nTransactions = n, vBits = bits, vHash = hashes, fBad = False\<rparr>)"

text \<open>The reference parameters of \<open>TraverseAndExtract\<close>: the two positions, \<open>vMatch\<close> and \<open>fBad\<close>.\<close>

record extract_state =
  nBitsUsed :: nat
  nHashUsed :: nat
  matched :: "uint256 list"
  bad :: bool

fun TraverseAndExtract :: "ssl_lib \<Rightarrow> CPartialMerkleTree \<Rightarrow> nat \<Rightarrow> nat \<Rightarrow> extract_state \<Rightarrow> uint256 \<times> extract_state" where
  "TraverseAndExtract L t 0 pos st =
     (if nBitsUsed st \<ge> length (vBits t) then (0, st\<lparr>bad := True\<rparr>)
      else let fParentOfMatch = vBits t ! nBitsUsed st; st1 = st\<lparr>nBitsUsed := nBitsUsed st + 1\<rparr> in
           if nHashUsed st1 \<ge> length (vHash t) then (0, st1\<lparr>bad := True\<rparr>)
           else let hash = vHash t ! nHashUsed st1; st2 = st1\<lparr>nHashUsed := nHashUsed st1 + 1\<rparr>
                in (hash, if fParentOfMatch then st2\<lparr>matched := matched st2 @ [hash]\<rparr> else st2))"
| "TraverseAndExtract L t (Suc height) pos st =
     (if nBitsUsed st \<ge> length (vBits t) then (0, st\<lparr>bad := True\<rparr>)
      else let fParentOfMatch = vBits t ! nBitsUsed st; st1 = st\<lparr>nBitsUsed := nBitsUsed st + 1\<rparr> in
           if \<not> fParentOfMatch then
             (if nHashUsed st1 \<ge> length (vHash t) then (0, st1\<lparr>bad := True\<rparr>)
              else (vHash t ! nHashUsed st1, st1\<lparr>nHashUsed := nHashUsed st1 + 1\<rparr>))
           else
             (case TraverseAndExtract L t height (pos * 2) st1 of (left, st2) \<Rightarrow>
                if pos * 2 + 1 < CalcTreeWidth (nTransactions t) height
                then (case TraverseAndExtract L t height (pos * 2 + 1) st2 of (right, st3) \<Rightarrow>
                        (hash_pair L left right, st3))
                else (hash_pair L left left, st2)))"

definition ExtractMatches :: "ssl_lib \<Rightarrow> CPartialMerkleTree \<Rightarrow> uint256 \<times> uint256 list" where
  "ExtractMatches L t =
     (if nTransactions t = 0 then (0, [])
      else if nTransactions t > MAX_BLOCK_SIZE div 60 then (0, [])
      else if length (vHash t) > nTransactions t then (0, [])
      else if length (vBits t) < length (vHash t) then (0, [])
      else let (hashMerkleRoot, st) = TraverseAndExtract L t (height_loop (nTransactions t) 0) 0
                 \<lparr>nBitsUsed = 0, nHashUsed = 0, matched = [], bad = fBad t\<rparr> in
           if bad st then (0, matched st)
           else if (nBitsUsed st + 7) div 8 \<noteq> (length (vBits t) + 7) div 8 then (0, matched st)
           else if nHashUsed st \<noteq> length (vHash t) then (0, matched st)
           else (hashMerkleRoot, matched st))"

text \<open>The flag bits on the wire: eight to a byte, least significant first.\<close>

definition bits_bytes :: "bool list \<Rightarrow> byte list" where
  "bits_bytes bits =
     map (\<lambda>k. foldr (\<lambda>p acc. acc OR push_bit (p mod 8) (of_bool (bits ! p)))
                [p \<leftarrow> [8 * k..<8 * k + 8]. p < length bits] 0) [0..<(length bits + 7) div 8]"

definition bytes_bits :: "byte list \<Rightarrow> bool list" where
  "bytes_bits vBytes = map (\<lambda>p. vBytes ! (p div 8) AND push_bit (p mod 8) 1 \<noteq> 0) [0..<length vBytes * 8]"

definition pmt_bytes :: "CPartialMerkleTree \<Rightarrow> byte list" where
  "pmt_bytes t = u32_bytes (of_nat (nTransactions t)) @ Serialize_vec u256_bytes (vHash t) @
     Serialize_bytes (bits_bytes (vBits t))"

definition Unserialize_pmt :: "byte list \<Rightarrow> (CPartialMerkleTree \<times> byte list) option" where
  "Unserialize_pmt is =
     (case Unserialize_u32 is of None \<Rightarrow> None | Some (n, is1) \<Rightarrow>
      (case Unserialize_vec Unserialize_u256 is1 of None \<Rightarrow> None | Some (hs, is2) \<Rightarrow>
      (case Unserialize_bytes is2 of None \<Rightarrow> None | Some (bs, is3) \<Rightarrow>
         Some (\<lparr>nTransactions = unat n, vBits = bytes_bits bs, vHash = hs, fBad = False\<rparr>, is3))))"

section \<open>The full tree, level by level\<close>

fun next_level :: "ssl_lib \<Rightarrow> uint256 list \<Rightarrow> uint256 list" where
  "next_level L [] = []"
| "next_level L [x] = [hash_pair L x x]"
| "next_level L (x # y # r) = hash_pair L x y # next_level L r"

lemma length_next_level [simp]: "length (next_level L xs) = (length xs + 1) div 2"
  by (induction L xs rule: next_level.induct) auto

function mroot :: "ssl_lib \<Rightarrow> uint256 list \<Rightarrow> uint256" where
  "mroot L xs = (if length xs > 1 then mroot L (next_level L xs) else if xs = [] then 0 else hd xs)"
  by pat_completeness auto
termination
  by (relation "measure (length \<circ> snd)") auto

declare mroot.simps [simp del]

lemma level_loop_step:
  "level_loop L (length pre) (length us + length xs) (length us) (pre @ us @ xs @ done) =
   pre @ us @ xs @ done @ next_level L xs"
proof (induction L xs arbitrary: us "done" rule: next_level.induct)
  case (1 L)
  then show ?case by (simp add: level_loop.simps)
next
  case (2 L x)
  have "(pre @ us @ [x] @ done) ! (length pre + length us) = x" by (simp add: nth_append)
  then show ?case by (subst level_loop.simps) (simp add: level_loop.simps)
next
  case (3 L x y r)
  have "(pre @ us @ (x # y # r) @ done) ! (length pre + length us) = x"
    "(pre @ us @ (x # y # r) @ done) ! (length pre + (length us + 1)) = y"
    by (simp_all add: nth_append)
  then show ?case using 3 [of "us @ [x, y]" "done @ [hash_pair L x y]"]
    by (subst level_loop.simps) (simp add: Let_def nth_append)
qed

lemma level_loop_next:
  "level_loop L (length pre) (length xs) 0 (pre @ xs) = pre @ xs @ next_level L xs"
  using level_loop_step [of L pre "[]" xs "[]"] by simp

lemma tree_loop_last:
  assumes "xs \<noteq> []"
  shows "last (tree_loop L (length pre) (length xs) (pre @ xs)) = mroot L xs"
  using assms
proof (induction L xs arbitrary: pre rule: mroot.induct)
  case (1 L xs)
  show ?case
  proof (cases "length xs > 1")
    case True
    then have ne: "next_level L xs \<noteq> []" by (cases "(L, xs)" rule: next_level.cases) auto
    show ?thesis using True "1.IH" [OF True ne, of "pre @ xs"] level_loop_next [of L pre xs]
      by (subst tree_loop.simps, subst mroot.simps) simp
  next
    case False
    then obtain x where "xs = [x]" using "1.prems" by (cases xs) auto
    then show ?thesis by (simp add: tree_loop.simps mroot.simps)
  qed
qed

lemma tree_loop_prefix: "\<exists>r. tree_loop L j n t = t @ r" if "\<exists>pre xs. t = pre @ xs \<and> j = length pre \<and> n = length xs"
  using that
proof (induction L j n t rule: tree_loop.induct)
  case (1 L j n t)
  then obtain pre xs where t: "t = pre @ xs" "j = length pre" "n = length xs" by blast
  show ?case
  proof (cases "n > 1")
    case True
    have "\<exists>r. tree_loop L (j + n) ((n + 1) div 2) (level_loop L j n 0 t) = level_loop L j n 0 t @ r"
      using t by (intro "1.IH" [OF True] exI [of _ "pre @ xs"] exI [of _ "next_level L xs"]) (simp add: level_loop_next)
    then show ?thesis using True t by (subst tree_loop.simps) (auto simp: level_loop_next)
  next
    case False
    then show ?thesis by (simp add: tree_loop.simps)
  qed
qed

lemma BuildMerkleTree_mroot: "BuildMerkleTree L vtx = mroot L (map (GetHash L) vtx)"
proof (cases "vtx = []")
  case True
  then show ?thesis by (simp add: BuildMerkleTree_def vMerkleTree_of_def tree_loop.simps mroot.simps)
next
  case False
  let ?h = "map (GetHash L) vtx"
  obtain r where "tree_loop L 0 (length ?h) ?h = ?h @ r" using tree_loop_prefix [of ?h 0 "length ?h" L] by auto
  then have "tree_loop L 0 (length ?h) ?h \<noteq> []" using False by simp
  then show ?thesis using tree_loop_last [of ?h L "[]"] False
    by (simp add: BuildMerkleTree_def vMerkleTree_of_def Let_def)
qed

section \<open>Branches verify\<close>

lemma next_level_nth:
  "k < length xs \<Longrightarrow> next_level L xs ! (k div 2) =
     (if odd k then hash_pair L (xs ! (k - 1)) (xs ! k) else hash_pair L (xs ! k) (xs ! min (k + 1) (length xs - 1)))"
proof (induction L xs arbitrary: k rule: next_level.induct)
  case (3 L x y r)
  show ?case
  proof (cases "k < 2")
    case True
    then show ?thesis by (cases "k = 0") (auto simp: less_2_cases_iff)
  next
    case False
    then obtain k' where k: "k = k' + 2" by (metis add.commute le_Suc_ex not_less)
    show ?thesis using "3.IH" [of k'] k "3.prems" by (cases r) (auto simp: nth_Cons' min_def)
  qed
qed auto

lemma nat_xor_1: "(k :: nat) XOR Suc 0 = (if even k then k + 1 else k - 1)"
  by (simp add: xor_Suc_0_eq)

lemma int_and_1: "(int k AND 1 \<noteq> 0) = odd k"
  by (simp add: and_one_eq) (metis even_of_nat odd_iff_mod_2_eq_one)

lemma branch_verifies:
  assumes "k < length xs" "t = tree_loop L (length pre) (length xs) (pre @ xs)"
  shows "check_branch_loop L (xs ! k) (branch_loop t (length pre) (length xs) k) (int k) = mroot L xs"
  using assms
proof (induction L xs arbitrary: pre k rule: mroot.induct)
  case (1 L xs)
  show ?case
  proof (cases "length xs > 1")
    case False
    then show ?thesis using "1.prems" by (cases xs) (auto simp: branch_loop.simps mroot.simps)
  next
    case True
    obtain r where r: "t = pre @ xs @ r"
      using tree_loop_prefix [of "pre @ xs" "length pre" "length xs" L] "1.prems"(2) by force
    let ?i = "min (k XOR 1) (length xs - 1)"
    have i: "?i < length xs" using True by auto
    then have e: "t ! (length pre + ?i) = xs ! ?i" using r by (simp add: nth_append)
    have up: "(if odd k then hash_pair L (xs ! ?i) (xs ! k) else hash_pair L (xs ! k) (xs ! ?i)) =
        next_level L xs ! (k div 2)"
      using next_level_nth [OF "1.prems"(1), of L] "1.prems"(1) by (auto simp: nat_xor_1 min_def)
    have t: "t = tree_loop L (length (pre @ xs)) (length (next_level L xs)) ((pre @ xs) @ next_level L xs)"
      using "1.prems"(2) True level_loop_next [of L pre xs] by (subst (asm) tree_loop.simps) simp
    have "check_branch_loop L (next_level L xs ! (k div 2))
        (branch_loop t (length (pre @ xs)) (length (next_level L xs)) (k div 2)) (int (k div 2)) = mroot L (next_level L xs)"
      using "1.prems"(1) by (intro "1.IH" [OF True _ t]) auto
    then show ?thesis using True up e
      by (subst branch_loop.simps, subst mroot.simps)
         (cases "odd k"; simp add: Let_def int_and_1 drop_bit_Suc drop_bit_of_nat [symmetric] zdiv_int del: of_nat_div)
  qed
qed

section \<open>The shape of the tree\<close>

lemma CalcTreeWidth_iff:
  assumes "n + 2 ^ h \<le> 2 ^ 32"
  shows "pos < CalcTreeWidth n h \<longleftrightarrow> pos * 2 ^ h < n"
proof -
  have "(n + 2 ^ h - 1) mod 2 ^ 32 = n + 2 ^ h - 1" using assms by (intro mod_less) auto
  then have "CalcTreeWidth n h = (n + 2 ^ h - 1) div 2 ^ h" by (simp add: CalcTreeWidth_def drop_bit_eq_div)
  then have "pos < CalcTreeWidth n h \<longleftrightarrow> Suc pos * 2 ^ h \<le> n + 2 ^ h - 1"
    using less_eq_div_iff_mult_less_eq [of "2 ^ h" "Suc pos" "n + 2 ^ h - 1"] by (simp add: Suc_le_eq)
  also have "\<dots> \<longleftrightarrow> pos * 2 ^ h < n"
  proof -
    have "0 < a \<Longrightarrow> (Suc pos * a \<le> n + a - 1) = (pos * a < n)" for a :: nat by auto
    then show ?thesis by simp
  qed
  finally show ?thesis .
qed

lemma height_loop_spec:
  assumes "n \<le> 2 ^ 16" "h \<le> 16"
  shows "h \<le> height_loop n h \<and> height_loop n h \<le> 16 \<and> n \<le> 2 ^ height_loop n h"
  using assms
proof (induction n h rule: height_loop.induct)
  case (1 n h)
  have "n + 2 ^ h \<le> 2 ^ 16 + 2 ^ 16" using "1.prems" by (intro add_mono power_increasing) auto
  then have w: "1 < CalcTreeWidth n h \<longleftrightarrow> 2 ^ h < n" using CalcTreeWidth_iff [of n h 1] by simp
  show ?case
  proof (cases "2 ^ h < n")
    case True
    then have "h < 16" using "1.prems" by (metis le_neq_implies_less linorder_not_less order.strict_trans2 order_refl)
    then show ?thesis using True w "1.IH" "1.prems" by (subst (1 2 3) height_loop.simps) auto
  next
    case False
    then show ?thesis using w "1.prems" by (subst (1 2 3) height_loop.simps) auto
  qed
qed

text \<open>The leaves below a node.\<close>

definition leaves :: "nat \<Rightarrow> nat \<Rightarrow> nat \<Rightarrow> nat list" where
  "leaves n h pos = [pos * 2 ^ h..<min ((pos + 1) * 2 ^ h) n]"

lemma leaves_0: "pos < n \<Longrightarrow> leaves n 0 pos = [pos]"
  by (simp add: leaves_def)

lemma leaves_Suc: "leaves n (Suc h) pos = leaves n h (pos * 2) @ leaves n h (pos * 2 + 1)"
proof -
  have e: "(2 * pos + 1 + 1) * 2 ^ h = (pos + 1) * 2 ^ Suc h" "2 * pos * 2 ^ h = pos * 2 ^ Suc h" by simp_all
  have le: "2 * pos * 2 ^ h \<le> (2 * pos + 1) * 2 ^ h" "(2 * pos + 1) * 2 ^ h \<le> (pos + 1) * 2 ^ Suc h"
    by (simp_all add: algebra_simps)
  show ?thesis
  proof (cases "n \<le> (2 * pos + 1) * 2 ^ h")
    case True
    moreover have "(0 :: nat) < 2 ^ h" by simp
    ultimately show ?thesis using le unfolding leaves_def by (auto simp: mult.commute [of pos 2] e min_def)
  next
    case False
    have "[a..<c] = [a..<b] @ [b..<c]" if "a \<le> b" "b \<le> c" for a b c :: nat
      using upt_add_eq_append [of a b "c - b"] that by simp
    then have "[pos * 2 ^ Suc h..<min ((pos + 1) * 2 ^ Suc h) n] =
      [pos * 2 ^ Suc h..<(2 * pos + 1) * 2 ^ h] @ [(2 * pos + 1) * 2 ^ h..<min ((pos + 1) * 2 ^ Suc h) n]"
      using le e False by (auto simp: min_def)
    then show ?thesis using False e unfolding leaves_def by (simp add: mult.commute [of pos 2] mult.left_commute [of pos 2] mult.assoc min_def)
  qed
qed

lemma leaves_empty: "n \<le> pos * 2 ^ h \<Longrightarrow> leaves n h pos = []"
  by (simp add: leaves_def)

lemma parent_of_match_leaves: "parent_of_match n vMatch h pos \<longleftrightarrow> (\<exists>p \<in> set (leaves n h pos). vMatch ! p)"
  by (simp add: parent_of_match_def leaves_def list_ex_iff push_bit_eq_mult)

section \<open>Extraction inverts construction\<close>

lemma TraverseAndBuild_append:
  "TraverseAndBuild L n T M h pos (b, hs) =
     (b @ fst (TraverseAndBuild L n T M h pos ([], [])), hs @ snd (TraverseAndBuild L n T M h pos ([], [])))"
proof (induction h arbitrary: pos b hs)
  case (Suc h)
  let ?l = "TraverseAndBuild L n T M h (pos * 2)" and ?r = "TraverseAndBuild L n T M h (Suc (pos * 2))"
  have l: "?l (b @ [True], hs) = (b @ True # fst (?l ([], [])), hs @ snd (?l ([], [])))" for b hs
    using Suc [of "pos * 2" "b @ [True]" hs] by simp
  note r1 = Suc [of "Suc (pos * 2)" "b @ True # fst (?l ([], []))" "hs @ snd (?l ([], []))"]
  note r2 = Suc [of "Suc (pos * 2)" "True # fst (?l ([], []))" "snd (?l ([], []))"]
  show ?case
    by (simp add: Let_def l r1 r2 l [of "[]", simplified])
qed simp

definition node_bits where "node_bits L n T M h pos = fst (TraverseAndBuild L n T M h pos ([], []))"
definition node_hashes where "node_hashes L n T M h pos = snd (TraverseAndBuild L n T M h pos ([], []))"

lemma node_0:
  "node_bits L n T M 0 pos = [parent_of_match n M 0 pos]" "node_hashes L n T M 0 pos = [T ! pos]"
  by (simp_all add: node_bits_def node_hashes_def)

lemma node_Suc:
  "node_bits L n T M (Suc h) pos =
     (if parent_of_match n M (Suc h) pos
      then True # node_bits L n T M h (pos * 2) @
           (if pos * 2 + 1 < CalcTreeWidth n h then node_bits L n T M h (pos * 2 + 1) else [])
      else [False])"
  "node_hashes L n T M (Suc h) pos =
     (if parent_of_match n M (Suc h) pos
      then node_hashes L n T M h (pos * 2) @
           (if pos * 2 + 1 < CalcTreeWidth n h then node_hashes L n T M h (pos * 2 + 1) else [])
      else [CalcHash L n T (Suc h) pos])"
proof -
  let ?l = "TraverseAndBuild L n T M h (pos * 2)" and ?r = "TraverseAndBuild L n T M h (pos * 2 + 1)"
  note l = TraverseAndBuild_append [of L n T M h "pos * 2" "[True]" "[]"]
  note r = TraverseAndBuild_append [of L n T M h "pos * 2 + 1" "True # fst (?l ([], []))" "snd (?l ([], []))"]
  show "node_bits L n T M (Suc h) pos = (if parent_of_match n M (Suc h) pos
      then True # node_bits L n T M h (pos * 2) @
           (if pos * 2 + 1 < CalcTreeWidth n h then node_bits L n T M h (pos * 2 + 1) else [])
      else [False])"
    and "node_hashes L n T M (Suc h) pos = (if parent_of_match n M (Suc h) pos
      then node_hashes L n T M h (pos * 2) @
           (if pos * 2 + 1 < CalcTreeWidth n h then node_hashes L n T M h (pos * 2 + 1) else [])
      else [CalcHash L n T (Suc h) pos])"
    using l r by (simp_all add: node_bits_def node_hashes_def Let_def)
qed

definition matched_leaves where
  "matched_leaves n T M h pos = map ((!) T) (filter ((!) M) (leaves n h pos))"

lemma extract_node:
  assumes "n + 2 ^ h \<le> 2 ^ 32" "pos * 2 ^ h < n"
  shows "TraverseAndExtract L \<lparr>nTransactions = n, vBits = B0 @ node_bits L n T M h pos @ B1,
        vHash = H0 @ node_hashes L n T M h pos @ H1, fBad = f\<rparr> h pos
        \<lparr>nBitsUsed = length B0, nHashUsed = length H0, matched = ms, bad = False\<rparr> =
     (CalcHash L n T h pos,
      \<lparr>nBitsUsed = length B0 + length (node_bits L n T M h pos), nHashUsed = length H0 + length (node_hashes L n T M h pos),
       matched = ms @ matched_leaves n T M h pos, bad = False\<rparr>)"
  using assms
proof (induction h arbitrary: pos B0 B1 H0 H1 ms)
  case 0
  then show ?case
    by (auto simp: node_0 nth_append matched_leaves_def leaves_0 parent_of_match_leaves Let_def)
next
  case (Suc h)
  show ?case
  proof (cases "parent_of_match n M (Suc h) pos")
    case False
    then have "matched_leaves n T M (Suc h) pos = []"
      by (auto simp: parent_of_match_leaves matched_leaves_def filter_empty_conv)
    then show ?thesis using False by (simp add: node_Suc nth_append)
  next
    case True
    have w: "n + 2 ^ h \<le> 2 ^ 32" using Suc.prems(1) by simp
    have wl: "pos * 2 * 2 ^ h < n" using Suc.prems(2) by simp
    let ?nl = "node_bits L n T M h (pos * 2)" and ?hl = "node_hashes L n T M h (pos * 2)"
    show ?thesis
    proof (cases "pos * 2 + 1 < CalcTreeWidth n h")
      case r: True
      then have wr: "(pos * 2 + 1) * 2 ^ h < n" using CalcTreeWidth_iff [OF w] by blast
      let ?nr = "node_bits L n T M h (pos * 2 + 1)" and ?hr = "node_hashes L n T M h (pos * 2 + 1)"
      show ?thesis
        using Suc.IH [OF w wl, of "B0 @ [True]" "?nr @ B1" H0 "?hr @ H1" ms]
          Suc.IH [OF w wr, of "B0 @ True # ?nl" B1 "H0 @ ?hl" H1 "ms @ matched_leaves n T M h (pos * 2)"] True r
        by (simp add: node_Suc nth_append Let_def matched_leaves_def leaves_Suc)
    next
      case r: False
      then have "leaves n h (pos * 2 + 1) = []" using CalcTreeWidth_iff [OF w] by (intro leaves_empty) force
      then show ?thesis
        using Suc.IH [OF w wl, of "B0 @ [True]" B1 H0 H1 ms] True r
        by (simp add: node_Suc nth_append Let_def matched_leaves_def leaves_Suc)
    qed
  qed
qed

lemma node_sizes:
  assumes "n + 2 ^ h \<le> 2 ^ 32" "pos * 2 ^ h < n"
  shows "length (node_hashes L n T M h pos) \<le> length (leaves n h pos) \<and>
     length (node_hashes L n T M h pos) \<le> length (node_bits L n T M h pos)"
  using assms
proof (induction h arbitrary: pos)
  case 0
  then show ?case by (simp add: node_0 leaves_0)
next
  case (Suc h)
  have w: "n + 2 ^ h \<le> 2 ^ 32" and wl: "pos * 2 * 2 ^ h < n" using Suc.prems by simp_all
  have "0 < (2 :: nat) ^ h" by simp
  then have "leaves n h (pos * 2) \<noteq> []" using wl by (auto simp: leaves_def min_def)
  then have "1 \<le> length (leaves n h (pos * 2))" by (cases "leaves n h (pos * 2)") auto
  then show ?case using Suc.IH [OF w wl] Suc.IH [OF w, of "pos * 2 + 1"] CalcTreeWidth_iff [OF w, of "pos * 2 + 1"]
    by (auto simp: node_Suc leaves_Suc)
qed

lemma matched_leaves_root:
  assumes "length M = n" "length T = n" "n \<le> 2 ^ h"
  shows "matched_leaves n T M h 0 = map fst (filter snd (zip T M))"
proof -
  have l: "leaves n h 0 = [0..<n]" using assms by (simp add: leaves_def)
  have "zip T M = map (\<lambda>i. (T ! i, M ! i)) [0..<n]"
    using assms by (intro nth_equalityI) auto
  then show ?thesis by (simp add: matched_leaves_def l filter_map comp_def)
qed

lemma ExtractMatches_build:
  assumes "0 < length T" "length T \<le> MAX_BLOCK_SIZE div 60" "length M = length T"
    "pad = [] \<or> (length (vBits (CPartialMerkleTree_build L T M)) + length pad + 7) div 8 =
       (length (vBits (CPartialMerkleTree_build L T M)) + 7) div 8"
  shows "ExtractMatches L ((CPartialMerkleTree_build L T M)\<lparr>vBits := vBits (CPartialMerkleTree_build L T M) @ pad\<rparr>) =
    (CalcHash L (length T) T (height_loop (length T) 0) 0, map fst (filter snd (zip T M)))"
proof -
  let ?n = "length T" let ?h = "height_loop ?n 0"
  have h: "?h \<le> 16" "?n \<le> 2 ^ ?h" using height_loop_spec [of ?n 0] assms(2) by auto
  have "2 ^ ?h \<le> (2 :: nat) ^ 16" using h(1) by (intro power_increasing) auto
  then have w: "?n + 2 ^ ?h \<le> 2 ^ 32" using assms(2) by simp
  have b: "CPartialMerkleTree_build L T M = \<lparr>nTransactions = ?n, vBits = node_bits L ?n T M ?h 0,
      vHash = node_hashes L ?n T M ?h 0, fBad = False\<rparr>"
    by (simp add: CPartialMerkleTree_build_def node_bits_def node_hashes_def Let_def split: prod.split)
  have sz: "length (node_hashes L ?n T M ?h 0) \<le> ?n"
    "length (node_hashes L ?n T M ?h 0) \<le> length (node_bits L ?n T M ?h 0)"
    using node_sizes [OF w, of 0 L T M] assms(1) h(2) by (simp_all add: leaves_def)
  have x: "TraverseAndExtract L \<lparr>nTransactions = ?n, vBits = node_bits L ?n T M ?h 0 @ pad,
      vHash = node_hashes L ?n T M ?h 0, fBad = False\<rparr> ?h 0 \<lparr>nBitsUsed = 0, nHashUsed = 0, matched = [], bad = False\<rparr> =
    (CalcHash L ?n T ?h 0, \<lparr>nBitsUsed = length (node_bits L ?n T M ?h 0), nHashUsed = length (node_hashes L ?n T M ?h 0),
       matched = matched_leaves ?n T M ?h 0, bad = False\<rparr>)"
    using extract_node [OF w, of 0 L "[]" T M pad "[]" "[]" False "[]"] assms(1) by simp
  show ?thesis using assms sz h(2) unfolding b
    by (auto simp: ExtractMatches_def Let_def x matched_leaves_root b)
qed

text \<open>The root computed from the transaction list is the same one.\<close>

lemma nth_next_level:
  "i < (length xs + 1) div 2 \<Longrightarrow>
   next_level L xs ! i = hash_pair L (xs ! (2 * i)) (if 2 * i + 1 < length xs then xs ! (2 * i + 1) else xs ! (2 * i))"
proof -
  assume i: "i < (length xs + 1) div 2"
  then have "length xs \<le> 2 * i + 1 \<Longrightarrow> length xs - 1 = 2 * i" by linarith
  then show ?thesis using next_level_nth [of "2 * i" xs L] i by (auto simp: min_def not_less)
qed

fun level :: "ssl_lib \<Rightarrow> nat \<Rightarrow> uint256 list \<Rightarrow> uint256 list" where
  "level L 0 xs = xs"
| "level L (Suc h) xs = next_level L (level L h xs)"

lemma level_CalcHash:
  assumes "n = length T" "n + 2 ^ h \<le> 2 ^ 32"
  shows "length (level L h T) = CalcTreeWidth n h \<and> (\<forall>pos < CalcTreeWidth n h. level L h T ! pos = CalcHash L n T h pos)"
  using assms(2)
proof (induction h)
  case 0
  then show ?case using assms(1) by (simp add: CalcTreeWidth_def)
next
  case (Suc h)
  have w: "n + 2 ^ h \<le> 2 ^ 32" using Suc.prems by simp
  have half: "CalcTreeWidth n (Suc h) = (CalcTreeWidth n h + 1) div 2"
  proof -
    have "p < CalcTreeWidth n (Suc h) \<longleftrightarrow> p < (CalcTreeWidth n h + 1) div 2" for p
      using CalcTreeWidth_iff [OF Suc.prems, of p] CalcTreeWidth_iff [OF w, of "2 * p"] by auto
    then show ?thesis by (metis less_irrefl nat_neq_iff)
  qed
  show ?case using Suc.IH [OF w] by (auto simp: half nth_next_level mult.commute [of _ 2] Let_def)
qed

lemma height_loop_minimal: "h \<le> j \<Longrightarrow> j < height_loop n h \<Longrightarrow> 1 < CalcTreeWidth n j"
proof (induction n h rule: height_loop.induct)
  case (1 n h)
  show ?case
  proof (cases "h < 32 \<and> CalcTreeWidth n h > 1")
    case True
    then show ?thesis using 1 height_loop.simps [of n h] by (cases "j = h") auto
  next
    case False
    then show ?thesis using "1.prems" height_loop.simps [of n h] by auto
  qed
qed

lemma CalcHash_root:
  assumes "0 < length T" "length T \<le> 2 ^ 16"
  shows "CalcHash L (length T) T (height_loop (length T) 0) 0 = mroot L T"
proof -
  let ?n = "length T" let ?h = "height_loop ?n 0"
  have h: "?h \<le> 16" "?n \<le> 2 ^ ?h" using height_loop_spec [of ?n 0] assms(2) by auto
  have w: "?n + 2 ^ j \<le> 2 ^ 32" if "j \<le> ?h" for j
    using power_increasing [of j 16 "2 :: nat"] that h(1) assms(2) by simp
  have m: "mroot L (level L j T) = mroot L T" if "j \<le> ?h" for j
    using that
  proof (induction j)
    case (Suc j)
    have "length (level L j T) = CalcTreeWidth ?n j" using level_CalcHash [OF refl w, of j L] Suc.prems by simp
    then have "1 < length (level L j T)" using height_loop_minimal [of 0 j ?n] Suc.prems by simp
    then show ?case using Suc mroot.simps [of L "level L j T"] by simp
  qed simp
  have one: "CalcTreeWidth ?n ?h = 1"
    using CalcTreeWidth_iff [OF w, of ?h 0] CalcTreeWidth_iff [OF w, of ?h 1] h(2) assms(1) by simp
  then have l: "length (level L ?h T) = 1" "level L ?h T ! 0 = CalcHash L ?n T ?h 0"
    using level_CalcHash [OF refl w, of ?h L] by simp_all
  then have "mroot L (level L ?h T) = CalcHash L ?n T ?h 0"
    using mroot.simps [of L "level L ?h T"] hd_conv_nth [of "level L ?h T"] by fastforce
  then show ?thesis using m [of ?h] by simp
qed

section \<open>A foreign proof cannot lie without a collision\<close>

definition collision :: "ssl_lib \<Rightarrow> bool" where
  "collision L \<longleftrightarrow> (\<exists>a b c d. (a, b) \<noteq> (c, d) \<and> hash_pair L a b = hash_pair L c d)"

lemma TraverseAndExtract_bad: "TraverseAndExtract L t h pos st = (r, st') \<Longrightarrow> bad st \<Longrightarrow> bad st'"
proof (induction h arbitrary: pos st r st')
  case 0
  then show ?case by (auto simp: Let_def split: if_split_asm)
next
  case (Suc h)
  then show ?case by (auto simp: Let_def split: if_split_asm prod.split_asm)
qed

lemma extract_sound:
  assumes "\<not> collision L" "TraverseAndExtract L t h pos st = (r, st')" "\<not> bad st'"
    "r = CalcHash L (nTransactions t) T h pos" "nTransactions t = length T" "length T + 2 ^ h \<le> 2 ^ 32" "pos * 2 ^ h < length T"
  shows "set (matched st') \<subseteq> set (matched st) \<union> set T"
  using assms(2-)
proof (induction h arbitrary: pos st st' r)
  case 0
  then show ?case by (auto simp: Let_def split: if_split_asm)
next
  case (Suc h)
  let ?st1 = "st\<lparr>nBitsUsed := nBitsUsed st + 1\<rparr>"
  have m1: "matched ?st1 = matched st" by simp
  have w: "length T + 2 ^ h \<le> 2 ^ 32" and wl: "pos * 2 * 2 ^ h < length T" using Suc.prems by simp_all
  have c: "nBitsUsed st < length (vBits t)" using Suc.prems(1,2) by (auto split: if_split_asm)
  show ?case
  proof (cases "vBits t ! nBitsUsed st")
    case False
    then show ?thesis using Suc.prems(1,2) c by (auto simp: Let_def split: if_split_asm)
  next
    case True
    obtain l st2 where l: "TraverseAndExtract L t h (pos * 2) ?st1 = (l, st2)" by fastforce
    have pair: "hash_pair L a b = hash_pair L c d \<Longrightarrow> a = c \<and> b = d" for a b c d
      using assms(1) by (auto simp: collision_def)
    show ?thesis
    proof (cases "pos * 2 + 1 < CalcTreeWidth (nTransactions t) h")
      case r: True
      then have wr: "(pos * 2 + 1) * 2 ^ h < length T" using CalcTreeWidth_iff [OF w] Suc.prems(4) by simp
      obtain rr where rr: "TraverseAndExtract L t h (pos * 2 + 1) st2 = (rr, st')" "r = hash_pair L l rr"
        using Suc.prems(1) True c l r by (auto simp: Let_def split: prod.split_asm)
      have nb: "\<not> bad st2" using TraverseAndExtract_bad [OF rr(1)] Suc.prems(2) by blast
      have "l = CalcHash L (nTransactions t) T h (pos * 2) \<and> rr = CalcHash L (nTransactions t) T h (pos * 2 + 1)"
        using Suc.prems(3) rr(2) r by (intro pair) (simp add: Let_def)
      then show ?thesis
        using Suc.IH [OF l nb _ Suc.prems(4) w wl] Suc.IH [OF rr(1) Suc.prems(2) _ Suc.prems(4) w wr] m1 by auto
    next
      case r: False
      have e: "r = hash_pair L l l" "st' = st2"
        using Suc.prems(1) True c l r by (auto simp: Let_def)
      have "l = CalcHash L (nTransactions t) T h (pos * 2)"
        using Suc.prems(3) e(1) r pair [of l l] by (simp add: Let_def)
      then show ?thesis using Suc.IH [OF l _ _ Suc.prems(4) w wl] Suc.prems(2) e m1 by auto
    qed
  qed
qed

lemma ExtractMatches_sound:
  assumes "\<not> collision L" "ExtractMatches L t = (mroot L T, ms)" "mroot L T \<noteq> 0" "nTransactions t = length T"
  shows "set ms \<subseteq> set T"
proof -
  let ?h = "height_loop (length T) 0"
  let ?st0 = "\<lparr>nBitsUsed = 0, nHashUsed = 0, matched = [], bad = fBad t\<rparr>"
  obtain r st where x: "TraverseAndExtract L t ?h 0 ?st0 = (r, st)" by fastforce
  have g: "0 < length T" "length T \<le> MAX_BLOCK_SIZE div 60" "\<not> bad st" "r = mroot L T" "ms = matched st"
    using assms(2-4) x by (auto simp: ExtractMatches_def Let_def split: if_split_asm prod.split_asm)
  have h: "?h \<le> 16" using height_loop_spec [of "length T" 0] g(2) by simp
  have w: "length T + 2 ^ ?h \<le> 2 ^ 32" using power_increasing [of ?h 16 "2 :: nat"] h g(2) by simp
  have "r = CalcHash L (nTransactions t) T ?h 0" using CalcHash_root [of T L] g assms(4) by simp
  from extract_sound [OF assms(1) x g(3) this assms(4) w] show ?thesis using g by simp
qed

lemma mroot_duplicate_last:
  assumes "odd (length xs)" "1 < length xs"
  shows "mroot L (xs @ [last xs]) = mroot L xs"
proof -
  have "odd (length xs) \<Longrightarrow> next_level L (xs @ [last xs]) = next_level L xs"
    by (induction L xs rule: next_level.induct) auto
  then show ?thesis using assms mroot.simps [of L xs] mroot.simps [of L "xs @ [last xs]"] by auto
qed

section \<open>Flag bits\<close>

lemma bit_or_fold:
  "bit (foldr (\<lambda>p acc. acc OR push_bit (p mod 8) (of_bool (b p))) ps 0 :: byte) i \<longleftrightarrow>
   i < 8 \<and> (\<exists>p \<in> set ps. p mod 8 = i \<and> b p)"
  by (induction ps) (auto simp: bit_simps)

lemma bytes_bits_bytes:
  "\<exists>k < 8. bytes_bits (bits_bytes bits) = bits @ replicate k False"
proof -
  let ?n = "length bits" let ?m = "(?n + 7) div 8"
  have le: "?n \<le> ?m * 8" "?m * 8 - ?n < 8" by linarith+
  have "bytes_bits (bits_bytes bits) = bits @ replicate (?m * 8 - ?n) False"
  proof (rule nth_equalityI)
    show "length (bytes_bits (bits_bytes bits)) = length (bits @ replicate (?m * 8 - ?n) False)"
      using le by (simp add: bytes_bits_def bits_bytes_def)
    fix p assume "p < length (bytes_bits (bits_bytes bits))"
    then have p: "p < ?m * 8" by (simp add: bytes_bits_def bits_bytes_def)
    then have d: "p div 8 < ?m" by linarith
    have "bytes_bits (bits_bytes bits) ! p \<longleftrightarrow> bit (bits_bytes bits ! (p div 8)) (p mod 8)"
      using p by (simp add: bytes_bits_def bit_iff_and_push_bit_not_eq_0) (simp add: bits_bytes_def)
    also have "\<dots> \<longleftrightarrow> (\<exists>q \<in> set [q \<leftarrow> [8 * (p div 8)..<8 * (p div 8) + 8]. q < ?n]. q mod 8 = p mod 8 \<and> bits ! q)"
      using d by (simp add: bits_bytes_def bit_or_fold)
    also have "\<dots> \<longleftrightarrow> p < ?n \<and> bits ! p"
    proof -
      have "q = p" if "8 * (p div 8) \<le> q" "q < 8 * (p div 8) + 8" "q mod 8 = p mod 8" for q
      proof -
        have "q div 8 = p div 8" using that by (intro div_nat_eqI) auto
        then show ?thesis using that(3) by (metis div_mult_mod_eq)
      qed
      moreover have "8 * (p div 8) \<le> p" "p < 8 * (p div 8) + 8" by simp_all
      ultimately show ?thesis by (auto intro: exI [of _ p])
    qed
    also have "\<dots> \<longleftrightarrow> (bits @ replicate (?m * 8 - ?n) False) ! p" using p by (auto simp: nth_append)
    finally show "bytes_bits (bits_bytes bits) ! p = (bits @ replicate (?m * 8 - ?n) False) ! p" .
  qed
  then show ?thesis using le by blast
qed

section \<open>Properties\<close>

text \<open>A Merkle branch taken from a block's tree proves its transaction: folding the branch over the
  hash of transaction k gives the Merkle root of the block.\<close>

lemma merkle_branch_correct:
  assumes "k < length vtx"
  shows "CheckMerkleBranch L (GetHash L (vtx ! k)) (GetMerkleBranch L vtx k) (int k) = BuildMerkleTree L vtx"
  using branch_verifies [of k "map (GetHash L) vtx" _ L "[]"] assms
  by (simp add: CheckMerkleBranch_def GetMerkleBranch_def vMerkleTree_of_def BuildMerkleTree_mroot)

definition merkle_demo :: "CTransaction list" where
  "merkle_demo = map (\<lambda>i. \<lparr>nVersion = 1, nTime = of_nat i, vin = [], vout = [], nLockTime = 0\<rparr>) [0..<3]"



lemma of_nat_mod_256: "(word_of_nat (n mod 2 ^ 256) :: uint256) = word_of_nat n"
  by (simp add: word_of_nat_eq_iff take_bit_eq_mod)

lemma hash_pair_demo: "hash_pair ssl_demo a b = a + 96"
proof -
  have e: "le_dec (le_enc 32 n) = n mod 2 ^ 256" for n by simp
  have z: "(115792089237316195423570985008687907853269984665640564039457584007913129639936 :: uint256) = 0"
    using of_nat_mod_256 [of "2 ^ 256"] by simp
  have "bytes_u256 (le_enc 32 (le_dec (u256_bytes a @ u256_bytes b) + 64)) = a + 64"
    unfolding bytes_u256_def e of_nat_mod_256
    by (simp add: le_dec_append u256_bytes_def e [simplified] of_nat_mod_256 [simplified] z)
  moreover have "bytes_u256 (le_enc 32 (le_dec (u256_bytes c) + 32)) = c + 32" for c
    unfolding bytes_u256_def e of_nat_mod_256 by (simp add: u256_bytes_def of_nat_mod_256 [simplified])
  ultimately show ?thesis by (simp add: hash_pair_def Hash2_def ssl_demo_def)
qed



text \<open>Appending a copy of the last transaction to a block with an odd number (at least three) of
  transactions does not change its Merkle root, so the root alone does not determine the block.\<close>

lemma merkle_root_malleable:
  assumes "odd (length vtx)" "1 < length vtx"
  shows "BuildMerkleTree L (vtx @ [last vtx]) = BuildMerkleTree L vtx"
  using mroot_duplicate_last [of "map (GetHash L) vtx" L] assms
  by (cases "vtx = []") (simp_all add: BuildMerkleTree_mroot last_map)

end
