(* ===== verification/Consensus.thy ===== *)
theory Consensus
  imports Transaction "HOL-Library.Multiset"
begin

text \<open>
  The numeric consensus rules of \<open>main.cpp\<close> and \<open>main.h\<close>: block rewards, difficulty retargeting,
  proof-of-work checking, block trust, supermajority and median time, and the \<open>CMedianFilter\<close> of
  \<open>util.h\<close>. A chain of \<open>CBlockIndex\<close> objects is the list of the entries from the newest one down, so
  \<open>pindex->pprev\<close> is the tail; \<open>CBigNum\<close> values are integers. The two network-dependent limits are
  the record \<open>net_params\<close>. \<open>boost::random\<close> is the parameter \<open>mt\<close>.
\<close>

section \<open>Rewards\<close>

abbreviation (input) LAST_POW_BLOCK :: int where "LAST_POW_BLOCK \<equiv> 978420"
abbreviation (input) MAX_MINT_PROOF_OF_STAKE :: int where "MAX_MINT_PROOF_OF_STAKE \<equiv> 12 * CENT"
abbreviation (input) BLOCK_SWITCH_TIME :: int where "BLOCK_SWITCH_TIME \<equiv> 1521572400"

definition GetClockDrift :: "int \<Rightarrow> int" where
  "GetClockDrift nTimeIn = (if nTimeIn < BLOCK_SWITCH_TIME then 30 * 60 else 60)"

text \<open>
  The factors that are not integers are products of doubles converted to \<open>int64_t\<close>; in double
  precision \<open>2.3 * COIN\<close> lies just below 230000000 and truncates to 229999999, the others are exact.
\<close>

definition pow_subsidy :: "int \<Rightarrow> int" where
  "pow_subsidy nHeight =
     (if nHeight > 1 \<and> nHeight \<le> 2 then 53100000 * COIN
      else if nHeight < 10000 then 42000000
      else if nHeight < 61742 then 75 * COIN
      else if nHeight < 123484 then 66 * COIN
      else if nHeight \<le> 185226 then 55 * COIN
      else if nHeight < 246968 then 50 * COIN
      else if nHeight < 308710 then 47 * COIN
      else if nHeight \<le> 370452 then 44 * COIN
      else if nHeight < 432194 then 41 * COIN
      else if nHeight < 493936 then 39 * COIN
      else if nHeight \<le> 555678 then 37 * COIN
      else if nHeight < 617420 then 35 * COIN
      else if nHeight < 679162 then 33 * COIN
      else if nHeight < 740904 then 32 * COIN
      else if nHeight < 770420 then 31 * COIN
      else if nHeight < 802646 then 310000000
      else if nHeight < 864388 then 290000000
      else if nHeight < 926130 then 260000000
      else if nHeight < 987872 then 229999999
      else if nHeight < 1049614 then 2 * COIN
      else if nHeight < 1111356 then 170000000
      else if nHeight < 1173098 then 140000000
      else if nHeight < 1234526 then 1 * COIN
      else 0)"

definition GetProofOfWorkReward :: "int \<Rightarrow> int \<Rightarrow> int" where
  "GetProofOfWorkReward nHeight nFees = i64 (pow_subsidy nHeight + nFees)"

definition hex_digits :: string where "hex_digits = ''0123456789abcdef''"

text \<open>\<open>uint256::GetHex\<close>: the most significant byte first.\<close>

definition GetHex :: "uint256 \<Rightarrow> string" where
  "GetHex h = concat (map (\<lambda>b. [hex_digits ! (unat b div 16), hex_digits ! (unat b mod 16)]) (rev (u256_bytes h)))"

definition hextable :: "char \<Rightarrow> int" where
  "hextable c =
     (let n = int (of_char c) in
      if 48 \<le> n \<and> n \<le> 57 then n - 48
      else if 65 \<le> n \<and> n \<le> 70 then n - 55
      else if 97 \<le> n \<and> n \<le> 102 then n - 87
      else -1)"

fun hex2long :: "int \<Rightarrow> string \<Rightarrow> int" where
  "hex2long ret [] = ret"
| "hex2long ret (c # r) = (if ret \<ge> 0 then hex2long (i64 (push_bit 4 ret OR hextable c)) r else ret)"

definition GetProofOfStakeReward :: "(u32 \<Rightarrow> int) \<Rightarrow> int \<Rightarrow> int \<Rightarrow> int \<Rightarrow> uint256 \<Rightarrow> int" where
  "GetProofOfStakeReward mt nCoinAge nFees nValueIn prevHash =
     (let nRewardCoinYear = MAX_MINT_PROOF_OF_STAKE;
          nSubsidy = cdiv (cdiv (i64 (nCoinAge * nRewardCoinYear)) 365) COIN;
          seed = hex2long 0 (take 7 (drop 7 (GetHex prevHash)));
          rnd = (\<lambda>k. mt (of_int (seed + k)));
          inputcoins = cdiv nValueIn COIN;
          nBonusSubsidy = (if inputcoins \<ge> 99000000
            then (if rnd 0 \<le> 5 then 100 * COIN else 0) + (if rnd 1 \<le> 4 then 200 * COIN else 0) +
                 (if rnd 2 \<le> 3 then 300 * COIN else 0) + (if rnd 3 \<le> 2 then 500 * COIN else 0) +
                 (if rnd 4 \<le> 1 then 1000 * COIN else 0)
            else 0)
      in i64 (i64 (nSubsidy + nBonusSubsidy) + nFees))"

section \<open>Difficulty\<close>

record net_params =
  bnProofOfWorkLimit :: int
  bnProofOfStakeLimit :: int

definition mainnet :: net_params where
  "mainnet = \<lparr>bnProofOfWorkLimit = uint (drop_bit 20 (NOT 0 :: uint256)),
              bnProofOfStakeLimit = uint (drop_bit 24 (NOT 0 :: uint256))\<rparr>"

definition testnet :: net_params where
  "testnet = \<lparr>bnProofOfWorkLimit = uint (drop_bit 16 (NOT 0 :: uint256)),
              bnProofOfStakeLimit = uint (drop_bit 24 (NOT 0 :: uint256))\<rparr>"

text \<open>\<open>4.3 * 60\<close> as a double converted to \<open>unsigned int\<close>.\<close>

abbreviation (input) nTargetSpacing :: int where "nTargetSpacing \<equiv> 258"
abbreviation (input) nStakeTargetSpacing :: int where "nStakeTargetSpacing \<equiv> nTargetSpacing"
abbreviation (input) nTargetTimespan :: int where "nTargetTimespan \<equiv> 60 * 60"

text \<open>
  A block index entry. \<open>pprev\<close> is not a field: a pointer to an entry is the list of that entry and its
  ancestors, newest first. \<open>bi_hash\<close> is \<open>*phashBlock\<close> and \<open>bi_hashNext\<close> the hash \<open>pnext\<close> points to, 0
  when \<open>pnext\<close> is \<open>NULL\<close>.
\<close>

record CBlockIndex =
  bi_hash :: uint256
  bi_hashNext :: uint256
  bi_nFile :: u32
  bi_nBlockPos :: u32
  bi_nHeight :: int
  bi_nChainTrust :: uint256
  bi_nMint :: int
  bi_nMoneySupply :: int
  bi_nFlags :: u32
  bi_nStakeModifier :: u64
  bi_nStakeModifierChecksum :: u32
  bi_prevoutStake :: COutPoint
  bi_nStakeTime :: u32
  bi_hashProofOfStake :: uint256
  bi_nVersion :: int
  bi_hashMerkleRoot :: uint256
  bi_nTime :: u32
  bi_nBits :: u32
  bi_nNonce :: u32

definition bi_IsProofOfStake :: "CBlockIndex \<Rightarrow> bool" where
  "bi_IsProofOfStake b \<longleftrightarrow> bi_nFlags b AND 1 \<noteq> 0"

definition bi_IsProofOfWork :: "CBlockIndex \<Rightarrow> bool" where
  "bi_IsProofOfWork b \<longleftrightarrow> \<not> (bi_nFlags b AND 1 \<noteq> 0)"

definition bi_GetBlockTime :: "CBlockIndex \<Rightarrow> int" where
  "bi_GetBlockTime b = uint (bi_nTime b)"

definition bi_GetStakeEntropyBit :: "CBlockIndex \<Rightarrow> u32" where
  "bi_GetStakeEntropyBit b = drop_bit 1 (bi_nFlags b AND 2)"

definition bi_SetStakeEntropyBit :: "u32 \<Rightarrow> CBlockIndex \<Rightarrow> CBlockIndex option" where
  "bi_SetStakeEntropyBit nEntropyBit b =
     (if nEntropyBit > 1 then None
      else Some (b\<lparr>bi_nFlags := bi_nFlags b OR (if nEntropyBit \<noteq> 0 then 2 else 0)\<rparr>))"

definition bi_GeneratedStakeModifier :: "CBlockIndex \<Rightarrow> bool" where
  "bi_GeneratedStakeModifier b \<longleftrightarrow> bi_nFlags b AND 4 \<noteq> 0"

definition bi_SetStakeModifier :: "u64 \<Rightarrow> bool \<Rightarrow> CBlockIndex \<Rightarrow> CBlockIndex" where
  "bi_SetStakeModifier nModifier fGenerated b =
     (let b' = b\<lparr>bi_nStakeModifier := nModifier\<rparr>
      in if fGenerated then b'\<lparr>bi_nFlags := bi_nFlags b' OR 4\<rparr> else b')"

function max_bits_loop :: "int \<Rightarrow> int \<Rightarrow> int \<Rightarrow> int" where
  "max_bits_loop bnTargetLimit bnResult nTimeIn =
     (if nTimeIn > 0 \<and> bnResult < bnTargetLimit
      then max_bits_loop bnTargetLimit (bnResult * 2) (nTimeIn - 24 * 60 * 60) else bnResult)"
  by pat_completeness auto
termination
  by (relation "measure (\<lambda>(l, r, t). nat t)") auto

declare max_bits_loop.simps [simp del]

definition ComputeMaxBits :: "bn_lib \<Rightarrow> int \<Rightarrow> u32 \<Rightarrow> int \<Rightarrow> u32" where
  "ComputeMaxBits B bnTargetLimit nBase nTimeIn =
     (let bnResult = max_bits_loop bnTargetLimit (SetCompact B nBase * 2) nTimeIn
      in GetCompact B (if bnResult > bnTargetLimit then bnTargetLimit else bnResult))"

definition ComputeMinWork :: "bn_lib \<Rightarrow> net_params \<Rightarrow> u32 \<Rightarrow> int \<Rightarrow> u32" where
  "ComputeMinWork B np nBase nTimeIn = ComputeMaxBits B (bnProofOfWorkLimit np) nBase nTimeIn"

definition ComputeMinStake :: "bn_lib \<Rightarrow> net_params \<Rightarrow> u32 \<Rightarrow> int \<Rightarrow> u32" where
  "ComputeMinStake B np nBase nTimeIn = ComputeMaxBits B (bnProofOfStakeLimit np) nBase nTimeIn"

text \<open>The null pointer is the empty list.\<close>

fun GetLastBlockIndex :: "bool \<Rightarrow> CBlockIndex list \<Rightarrow> CBlockIndex list" where
  "GetLastBlockIndex fProofOfStake [] = []"
| "GetLastBlockIndex fProofOfStake [b] = [b]"
| "GetLastBlockIndex fProofOfStake (b # c # r) =
     (if bi_IsProofOfStake b \<noteq> fProofOfStake then GetLastBlockIndex fProofOfStake (c # r) else b # c # r)"

text \<open>The retargeting arithmetic, on \<open>int\<close> for the factor and \<open>CBigNum\<close> for the target.\<close>

definition retarget :: "int \<Rightarrow> int \<Rightarrow> int" where
  "retarget bnOld nActualSpacing =
     (let nInterval = cdiv nTargetTimespan nStakeTargetSpacing;
          f = i32 ((nInterval - 1) * nStakeTargetSpacing + nActualSpacing + nActualSpacing)
      in cdiv (bnOld * f) ((nInterval + 1) * nStakeTargetSpacing))"

definition GetNextTargetRequired :: "bn_lib \<Rightarrow> net_params \<Rightarrow> CBlockIndex list \<Rightarrow> bool \<Rightarrow> u32" where
  "GetNextTargetRequired B np pindexLast fProofOfStake =
     (let bnTargetLimit = (if fProofOfStake then bnProofOfStakeLimit np else bnProofOfWorkLimit np) in
      if pindexLast = [] then GetCompact B bnTargetLimit
      else let pindexPrev = GetLastBlockIndex fProofOfStake pindexLast in
      if tl pindexPrev = [] then GetCompact B bnTargetLimit
      else let pindexPrevPrev = GetLastBlockIndex fProofOfStake (tl pindexPrev) in
      if tl pindexPrevPrev = [] then GetCompact B bnTargetLimit
      else let spacing = i32 (bi_GetBlockTime (hd pindexPrev) - bi_GetBlockTime (hd pindexPrevPrev));
               nActualSpacing = (if spacing < 0 then nTargetSpacing else spacing);
               bnNew = retarget (SetCompact B (bi_nBits (hd pindexPrev))) nActualSpacing
           in GetCompact B (if bnNew \<le> 0 \<or> bnNew > bnTargetLimit then bnTargetLimit else bnNew))"

definition CheckProofOfWork :: "bn_lib \<Rightarrow> net_params \<Rightarrow> uint256 \<Rightarrow> u32 \<Rightarrow> bool" where
  "CheckProofOfWork B np hash nBits =
     (let bnTarget = SetCompact B nBits in
      if bnTarget \<le> 0 \<or> bnTarget > bnProofOfWorkLimit np then False
      else if hash > getuint256 B bnTarget then False
      else True)"

definition GetBlockTrust :: "bn_lib \<Rightarrow> u32 \<Rightarrow> uint256" where
  "GetBlockTrust B nBits =
     (let bnTarget = SetCompact B nBits in
      if bnTarget \<le> 0 then 0 else getuint256 B (cdiv (2 ^ 256) (bnTarget + 1)))"

section \<open>Versions and times\<close>

fun supermajority_loop :: "int \<Rightarrow> nat \<Rightarrow> nat \<Rightarrow> nat \<Rightarrow> CBlockIndex list \<Rightarrow> nat" where
  "supermajority_loop minVersion nRequired nToCheck nFound [] = nFound"
| "supermajority_loop minVersion nRequired nToCheck nFound (b # r) =
     (if nToCheck > 0 \<and> nFound < nRequired
      then supermajority_loop minVersion nRequired (nToCheck - 1)
             (if bi_nVersion b \<ge> minVersion then nFound + 1 else nFound) r
      else nFound)"

definition IsSuperMajority :: "int \<Rightarrow> CBlockIndex list \<Rightarrow> nat \<Rightarrow> nat \<Rightarrow> bool" where
  "IsSuperMajority minVersion pstart nRequired nToCheck =
     (supermajority_loop minVersion nRequired nToCheck 0 pstart \<ge> nRequired)"

definition GetMedianTimePast :: "CBlockIndex list \<Rightarrow> int" where
  "GetMedianTimePast pindex =
     (let pmedian = sort (map bi_GetBlockTime (take 11 pindex)) in pmedian ! (length pmedian div 2))"

text \<open>\<open>CMedianFilter<int>\<close>.\<close>

record CMedianFilter =
  vValues :: "int list"
  vSorted :: "int list"
  nSize :: nat
  tInitial :: int

definition CMedianFilter_new :: "nat \<Rightarrow> int \<Rightarrow> CMedianFilter" where
  "CMedianFilter_new sz initial = \<lparr>vValues = [initial], vSorted = [initial], nSize = sz, tInitial = initial\<rparr>"

definition median_input :: "int \<Rightarrow> CMedianFilter \<Rightarrow> CMedianFilter" where
  "median_input value m =
     (let vs = (if length (vValues m) = nSize m then tl (vValues m) else vValues m) @ [value]
      in m\<lparr>vValues := vs, vSorted := sort vs\<rparr>)"

definition median_removeLast :: "int \<Rightarrow> CMedianFilter \<Rightarrow> CMedianFilter" where
  "median_removeLast value m =
     (let vs = rev (remove1 value (rev (vValues m)));
          vs' = (if vs = [] then [tInitial m] else vs)
      in m\<lparr>vValues := vs', vSorted := sort vs'\<rparr>)"

definition median :: "CMedianFilter \<Rightarrow> int" where
  "median m =
     (let sz = length (vSorted m) in
      if odd sz then vSorted m ! (sz div 2)
      else cdiv (i32 (vSorted m ! (sz div 2 - 1) + vSorted m ! (sz div 2))) 2)"

section \<open>Emission\<close>

lemma sum_const_range: "(\<And>h. a \<le> h \<Longrightarrow> h < b \<Longrightarrow> f h = c) \<Longrightarrow> a \<le> b \<Longrightarrow>
    sum f {a..<b} = c * (b - a)" for f :: "int \<Rightarrow> int"
  by (subst sum.cong [OF refl, of _ f "\<lambda>_. c"]) auto

lemma sum_step: "a \<le> b \<Longrightarrow> b \<le> c \<Longrightarrow> sum f {a..<c} = sum f {a..<b} + sum f {b..<c}" for f :: "int \<Rightarrow> int"
  by (simp add: sum.union_disjoint [symmetric] ivl_disj_un)

lemma pow_segments:
  "sum pow_subsidy {0..<2} = 42000000 * (2 - 0)"
  "sum pow_subsidy {2..<3} = 5310000000000000 * (3 - 2)"
  "sum pow_subsidy {3..<10000} = 42000000 * (10000 - 3)"
  "sum pow_subsidy {10000..<61742} = 7500000000 * (61742 - 10000)"
  "sum pow_subsidy {61742..<123484} = 6600000000 * (123484 - 61742)"
  "sum pow_subsidy {123484..<185227} = 5500000000 * (185227 - 123484)"
  "sum pow_subsidy {185227..<246968} = 5000000000 * (246968 - 185227)"
  "sum pow_subsidy {246968..<308710} = 4700000000 * (308710 - 246968)"
  "sum pow_subsidy {308710..<370453} = 4400000000 * (370453 - 308710)"
  "sum pow_subsidy {370453..<432194} = 4100000000 * (432194 - 370453)"
  "sum pow_subsidy {432194..<493936} = 3900000000 * (493936 - 432194)"
  "sum pow_subsidy {493936..<555679} = 3700000000 * (555679 - 493936)"
  "sum pow_subsidy {555679..<617420} = 3500000000 * (617420 - 555679)"
  "sum pow_subsidy {617420..<679162} = 3300000000 * (679162 - 617420)"
  "sum pow_subsidy {679162..<740904} = 3200000000 * (740904 - 679162)"
  "sum pow_subsidy {740904..<770420} = 3100000000 * (770420 - 740904)"
  "sum pow_subsidy {770420..<802646} = 310000000 * (802646 - 770420)"
  "sum pow_subsidy {802646..<864388} = 290000000 * (864388 - 802646)"
  "sum pow_subsidy {864388..<926130} = 260000000 * (926130 - 864388)"
  "sum pow_subsidy {926130..<978421} = 229999999 * (978421 - 926130)"
  by (rule sum_const_range; simp add: pow_subsidy_def)+

lemma pow_emission: "sum pow_subsidy {0..<978421} = 8803402447947709"
proof -
  note s1 = sum_step [of 0 2 3 pow_subsidy, simplified]
  note s2 = sum_step [of 0 3 10000 pow_subsidy, simplified]
  note s3 = sum_step [of 0 10000 61742 pow_subsidy, simplified]
  note s4 = sum_step [of 0 61742 123484 pow_subsidy, simplified]
  note s5 = sum_step [of 0 123484 185227 pow_subsidy, simplified]
  note s6 = sum_step [of 0 185227 246968 pow_subsidy, simplified]
  note s7 = sum_step [of 0 246968 308710 pow_subsidy, simplified]
  note s8 = sum_step [of 0 308710 370453 pow_subsidy, simplified]
  note s9 = sum_step [of 0 370453 432194 pow_subsidy, simplified]
  note s10 = sum_step [of 0 432194 493936 pow_subsidy, simplified]
  note s11 = sum_step [of 0 493936 555679 pow_subsidy, simplified]
  note s12 = sum_step [of 0 555679 617420 pow_subsidy, simplified]
  note s13 = sum_step [of 0 617420 679162 pow_subsidy, simplified]
  note s14 = sum_step [of 0 679162 740904 pow_subsidy, simplified]
  note s15 = sum_step [of 0 740904 770420 pow_subsidy, simplified]
  note s16 = sum_step [of 0 770420 802646 pow_subsidy, simplified]
  note s17 = sum_step [of 0 802646 864388 pow_subsidy, simplified]
  note s18 = sum_step [of 0 864388 926130 pow_subsidy, simplified]
  note s19 = sum_step [of 0 926130 978421 pow_subsidy, simplified]
  show ?thesis by (simp add: s19 s18 s17 s16 s15 s14 s13 s12 s11 s10 s9 s8 s7 s6 s5 s4 s3 s2 s1 pow_segments)
qed

lemma pow_subsidy_range: "0 \<le> pow_subsidy h \<and> pow_subsidy h \<le> 53100000 * COIN"
  unfolding pow_subsidy_def by (simp split: if_split)

section \<open>Targets\<close>

lemma le_dec_lower: "bs \<noteq> [] \<Longrightarrow> last bs \<noteq> 0 \<Longrightarrow> 256 ^ (length bs - 1) \<le> le_dec bs"
proof -
  assume a: "bs \<noteq> []" "last bs \<noteq> 0"
  have "le_dec bs = le_dec (butlast bs) + 256 ^ (length bs - 1) * unat (last bs)"
    using le_dec_append [of "butlast bs" "[last bs]"] a(1) by simp
  moreover have "1 \<le> unat (last bs)" using a(2) by (simp add: Suc_le_eq unat_gt_0)
  ultimately show ?thesis by (metis le_add2 mult.right_neutral mult_le_mono2 order_trans)
qed

lemma vch_enc_lower: "0 < n \<Longrightarrow> 256 ^ (length (vch_enc n) - 2) \<le> n"
proof -
  assume n: "0 < n"
  let ?m = "mag_bytes (nat \<bar>n\<bar>)"
  have m: "?m \<noteq> []" "last ?m \<noteq> 0" using n mag_bytes_last_nz [of "nat \<bar>n\<bar>"] by simp_all
  have "256 ^ (length ?m - 1) \<le> nat n" using le_dec_lower [OF m] n by simp
  then have "int (256 ^ (length ?m - 1)) \<le> n" using n by (simp only: le_nat_iff order_less_imp_le)
  then have "256 ^ (length ?m - 1) \<le> n" by simp
  moreover have "length (vch_enc n) - 2 \<le> length ?m - 1" using m(1) by (auto simp: vch_enc_def Let_def intro: diff_le_mono2)
  ultimately show ?thesis using power_increasing [of "length (vch_enc n) - 2" "length ?m - 1" "256 :: int"] by linarith
qed

lemma compact_target:
  assumes "mpi_documented B" "0 < n" "n < 2 ^ 256"
  shows "0 < SetCompact B (GetCompact B n) \<and> SetCompact B (GetCompact B n) \<le> n"
proof -
  have l: "length (vch_enc n) < 256" using vch_enc_length [of n 32] assms by (simp add: nat_less_iff)
  let ?k = "length (vch_enc n) - 3"
  have "(256 :: int) ^ ?k \<le> n"
    using vch_enc_lower [OF assms(2)] power_increasing [of ?k "length (vch_enc n) - 2" "256 :: int"] by linarith
  then have "0 < n - n mod 256 ^ ?k" using pos_mod_bound [of "256 ^ ?k" n] zero_less_power [of "256 :: int" ?k] by linarith
  then show ?thesis using SetCompact_GetCompact [OF assms(1) _ l] SetCompact_GetCompact_le [OF assms(1) _ l] assms(2) by simp
qed

definition params_ok :: "net_params \<Rightarrow> bool" where
  "params_ok np \<longleftrightarrow> 0 < bnProofOfWorkLimit np \<and> bnProofOfWorkLimit np < 2 ^ 256 \<and>
     0 < bnProofOfStakeLimit np \<and> bnProofOfStakeLimit np < 2 ^ 256"

lemma params_ok_nets: "params_ok mainnet" "params_ok testnet"
proof -
  have l: "uint (x :: uint256) < 2 ^ 256" for x using uint_lt2p [of x] by simp
  have p: "drop_bit 20 (NOT 0 :: uint256) \<noteq> 0" "drop_bit 24 (NOT 0 :: uint256) \<noteq> 0" "drop_bit 16 (NOT 0 :: uint256) \<noteq> 0"
    by code_simp+
  then have "0 < uint (drop_bit 20 (NOT 0 :: uint256))" "0 < uint (drop_bit 24 (NOT 0 :: uint256))"
    "0 < uint (drop_bit 16 (NOT 0 :: uint256))"
    by (metis order_le_less unsigned_greater_eq unsigned_eq_0_iff)+
  then show "params_ok mainnet" "params_ok testnet" using l by (simp_all only: params_ok_def mainnet_def testnet_def net_params.simps simp_thms)
qed

lemma if_prop: "P a \<Longrightarrow> P b \<Longrightarrow> P (if c then a else b)"
  by simp

lemma GetNextTargetRequired_range:
  assumes "mpi_documented B" "params_ok np"
  shows "0 < SetCompact B (GetNextTargetRequired B np chain pos) \<and>
    SetCompact B (GetNextTargetRequired B np chain pos) \<le> (if pos then bnProofOfStakeLimit np else bnProofOfWorkLimit np)"
proof -
  let ?lim = "if pos then bnProofOfStakeLimit np else bnProofOfWorkLimit np"
  have lim: "0 < ?lim" "?lim < 2 ^ 256" using assms(2) by (simp_all add: params_ok_def)
  have c: "\<exists>t. GetCompact B (if b \<le> 0 \<or> b > ?lim then ?lim else b) = GetCompact B t \<and> 0 < t \<and> t \<le> ?lim" for b
    by (cases "b \<le> 0 \<or> b > ?lim", simp_all only: if_True if_False simp_thms)
       (use lim in blast, metis linorder_not_le)
  have l: "\<exists>t. GetCompact B ?lim = GetCompact B t \<and> 0 < t \<and> t \<le> ?lim" using lim by blast
  have "\<exists>t. GetNextTargetRequired B np chain pos = GetCompact B t \<and> 0 < t \<and> t \<le> ?lim"
    unfolding GetNextTargetRequired_def Let_def
    by (intro if_prop [where P = "\<lambda>x. \<exists>t. x = GetCompact B t \<and> 0 < t \<and> t \<le> ?lim"]) (rule l c)+
  then obtain t where t: "GetNextTargetRequired B np chain pos = GetCompact B t" "0 < t" "t \<le> ?lim" by blast
  show ?thesis using compact_target [OF assms(1) t(2)] t lim by force
qed

lemma retarget_eq:
  assumes "0 \<le> t" "0 \<le> s" "s < 2 ^ 30 - 3000"
  shows "retarget t s = t * (3096 + 2 * s) div 3612"
proof -
  have "cdiv (60 * 60) 258 = 13" by simp
  moreover have "i32 (3096 + s + s) = 3096 + 2 * s" using assms by (subst i32_id) (auto simp: in_i32_def)
  ultimately show ?thesis using assms by (simp add: retarget_def Let_def)
qed

lemma retarget_stable: "0 \<le> t \<Longrightarrow> retarget t 258 = t"
  using retarget_eq [of t 258] by simp

lemma retarget_bounds:
  assumes "0 \<le> t" "0 \<le> s"
  shows "s \<le> 258 \<Longrightarrow> 6 * t div 7 \<le> retarget t s \<and> retarget t s \<le> t"
    and "258 \<le> s \<Longrightarrow> s < 2 ^ 30 - 3000 \<Longrightarrow> t \<le> retarget t s"
proof -
  assume s: "s \<le> 258"
  have e: "retarget t s = t * (3096 + 2 * s) div 3612" using retarget_eq [of t s] assms s by simp
  have "t * 3096 \<le> t * (3096 + 2 * s)" "t * (3096 + 2 * s) \<le> t * 3612"
    using assms s by (auto intro!: mult_left_mono)
  then have "t * 3096 div 3612 \<le> retarget t s \<and> retarget t s \<le> t * 3612 div 3612"
    unfolding e by (intro conjI zdiv_mono1) auto
  moreover have "t * 3096 div 3612 = 6 * t div 7"
    using div_mult_mult1 [of "516 :: int" "6 * t" 7] by (simp add: mult.commute)
  ultimately show "6 * t div 7 \<le> retarget t s \<and> retarget t s \<le> t" by simp
next
  assume s: "258 \<le> s" "s < 2 ^ 30 - 3000"
  have "t * 3612 \<le> t * (3096 + 2 * s)" using assms s by (intro mult_left_mono) auto
  then have "t * 3612 div 3612 \<le> t * (3096 + 2 * s) div 3612" by (intro zdiv_mono1) auto
  then show "t \<le> retarget t s" using retarget_eq [of t s] assms s by simp
qed

lemma CheckProofOfWork_iff:
  assumes "mpi_documented B" "params_ok np"
  shows "CheckProofOfWork B np hash nBits \<longleftrightarrow>
    0 < SetCompact B nBits \<and> SetCompact B nBits \<le> bnProofOfWorkLimit np \<and> uint hash \<le> SetCompact B nBits"
proof -
  have "0 < SetCompact B nBits \<Longrightarrow> SetCompact B nBits \<le> bnProofOfWorkLimit np \<Longrightarrow>
      uint (getuint256 B (SetCompact B nBits)) = SetCompact B nBits"
    using assms by (intro getuint256_doc) (auto simp: params_ok_def)
  then show ?thesis by (auto simp: CheckProofOfWork_def Let_def word_less_def not_less)
qed

lemma GetBlockTrust_eq:
  assumes "mpi_documented B" "0 < SetCompact B nBits"
  shows "uint (GetBlockTrust B nBits) = 2 ^ 256 div (SetCompact B nBits + 1)"
proof -
  let ?t = "SetCompact B nBits"
  have "(2 :: int) ^ 256 div (?t + 1) < 2 ^ 256" using assms(2) by (intro int_div_less_self) auto
  then show ?thesis using assms by (simp add: GetBlockTrust_def Let_def getuint256_doc pos_imp_zdiv_nonneg_iff)
qed

section \<open>Versions and times\<close>

lemma supermajority_loop_ge:
  "nFound + length (filter (\<lambda>b. minVersion \<le> bi_nVersion b) (take k chain)) \<ge> n \<longleftrightarrow>
   supermajority_loop minVersion n k nFound chain \<ge> n"
proof (induction minVersion n k nFound chain rule: supermajority_loop.induct)
  case (2 minVersion n k nFound b r)
  then show ?case by (cases k) (auto simp: not_less)
qed simp

lemma sorted_nth_less: "sorted s \<Longrightarrow> k < length s \<Longrightarrow> length (filter (\<lambda>x. x < s ! k) s) \<le> k"
  for s :: "int list"
proof -
  assume s: "sorted s" "k < length s"
  have "filter (\<lambda>x. x < s ! k) (drop k s) = []"
    using s by (auto simp: filter_empty_conv not_less in_set_conv_nth intro!: sorted_nth_mono)
  then have "filter (\<lambda>x. x < s ! k) s = filter (\<lambda>x. x < s ! k) (take k s)"
    by (metis append.right_neutral append_take_drop_id filter_append)
  then show ?thesis by (metis length_filter_le length_take min.absorb4 order_trans min.cobounded2)
qed

lemma sorted_nth_greater: "sorted s \<Longrightarrow> k < length s \<Longrightarrow> length (filter (\<lambda>x. x > s ! k) s) \<le> length s - k - 1"
  for s :: "int list"
proof -
  assume s: "sorted s" "k < length s"
  have "filter (\<lambda>x. x > s ! k) (take (Suc k) s) = []"
    using s by (auto simp: filter_empty_conv not_less in_set_conv_nth intro!: sorted_nth_mono)
  then have "filter (\<lambda>x. x > s ! k) s = filter (\<lambda>x. x > s ! k) (drop (Suc k) s)"
    by (metis append.left_neutral append_take_drop_id filter_append)
  then show ?thesis by (metis Suc_eq_plus1 diff_diff_left length_drop length_filter_le)
qed

lemma length_filter_sort: "length (filter P (sort xs)) = length (filter P xs)" for xs :: "int list"
  by (metis mset_filter mset_sort size_mset)

lemma GetMedianTimePast_median:
  assumes "chain \<noteq> []"
  defines "ts \<equiv> map bi_GetBlockTime (take 11 chain)" and "m \<equiv> GetMedianTimePast chain"
  shows "m \<in> set ts \<and> 2 * length (filter (\<lambda>t. t < m) ts) \<le> length ts \<and> 2 * length (filter (\<lambda>t. m < t) ts) \<le> length ts"
proof -
  let ?s = "sort ts" let ?k = "length ts div 2"
  have "ts \<noteq> []" using assms(1) by (simp add: ts_def)
  then have k: "?k < length ?s" by (cases ts) auto
  have m: "m = ?s ! ?k" by (simp add: m_def ts_def GetMedianTimePast_def Let_def)
  have "m \<in> set ?s" using k m by (metis nth_mem)
  moreover have "length (filter (\<lambda>t. t < m) ts) \<le> ?k" "length (filter (\<lambda>t. m < t) ts) \<le> length ts - ?k - 1"
    using sorted_nth_less [of ?s ?k] sorted_nth_greater [of ?s ?k] k m by (simp_all add: length_filter_sort)
  ultimately show ?thesis by auto
qed

definition median_inv :: "CMedianFilter \<Rightarrow> bool" where
  "median_inv m \<longleftrightarrow> vSorted m = sort (vValues m) \<and> vValues m \<noteq> [] \<and> length (vValues m) \<le> nSize m"

lemma median_inv_ops:
  "0 < n \<Longrightarrow> median_inv (CMedianFilter_new n v)"
  "median_inv m \<Longrightarrow> median_inv (median_input v m)"
  "median_inv m \<Longrightarrow> median_inv (median_removeLast v m)"
proof -
  show "0 < n \<Longrightarrow> median_inv (CMedianFilter_new n v)" by (simp add: median_inv_def CMedianFilter_new_def)
  show "median_inv m \<Longrightarrow> median_inv (median_input v m)"
    by (cases "vValues m") (auto simp: median_inv_def median_input_def Let_def)
  assume m: "median_inv m"
  have "length (remove1 v (rev (vValues m))) \<le> length (vValues m)" by (simp add: length_remove1)
  then show "median_inv (median_removeLast v m)" using m
    by (cases "vValues m") (auto simp: median_inv_def median_removeLast_def Let_def)
qed

lemma sort_nth_in: "k < length xs \<Longrightarrow> sort xs ! k \<in> set xs"
  by (metis length_sort nth_mem set_sort)

lemma median_between:
  assumes "median_inv m" "\<forall>v \<in> set (vValues m). lo \<le> v \<and> v \<le> hi" "0 \<le> lo" "hi < 2 ^ 30"
  shows "lo \<le> median m \<and> median m \<le> hi"
proof -
  let ?n = "length (vValues m)"
  have n: "0 < ?n" "vSorted m = sort (vValues m)" using assms(1) by (auto simp: median_inv_def)
  have ks: "?n div 2 - 1 < ?n" "?n div 2 < ?n" using n(1) by linarith+
  have e: "lo \<le> vSorted m ! k \<and> vSorted m ! k \<le> hi" if "k < ?n" for k
    using assms(2) sort_nth_in [OF that] n(2) by auto
  show ?thesis
  proof (cases "odd ?n")
    case True
    then show ?thesis using e [of "?n div 2"] n by (simp add: median_def Let_def)
  next
    case False
    let ?a = "vSorted m ! (?n div 2 - 1)" and ?b = "vSorted m ! (?n div 2)"
    have ab: "lo \<le> ?a \<and> ?a \<le> hi" "lo \<le> ?b \<and> ?b \<le> hi" using e [of "?n div 2 - 1"] e [of "?n div 2"] ks by blast+
    then have "median m = (?a + ?b) div 2"
      using False assms(3,4) n(2) by (simp add: median_def Let_def in_i32_def)
    then show ?thesis using ab by linarith
  qed
qed

lemma GetProofOfStakeReward_plain:
  assumes "0 \<le> nCoinAge" "nCoinAge \<le> 768614336404" "MoneyRange nValueIn" "MoneyRange nFees"
  shows "GetProofOfStakeReward mt nCoinAge nFees nValueIn prevHash = nCoinAge * 12000000 div 365 div COIN + nFees"
proof -
  have p: "i64 (nCoinAge * 12000000) = nCoinAge * 12000000" using assms by (intro i64_id) (auto simp: in_i64_def)
  let ?s = "nCoinAge * 12000000 div 365 div 100000000"
  have s: "0 \<le> ?s" "?s \<le> 768614336404 * 12000000 div 365 div 100000000"
    using assms by (auto intro!: zdiv_mono1 mult_right_mono simp: pos_imp_zdiv_nonneg_iff)
  then have "i64 ?s = ?s" "i64 (?s + nFees) = ?s + nFees"
    using assms(4) by (auto intro!: i64_id simp: in_i64_def MoneyRange_def)
  moreover have "\<not> 99000000 \<le> nValueIn div 100000000" using assms(3) by (auto simp: MoneyRange_def)
  ultimately show ?thesis using assms p
    by (simp add: GetProofOfStakeReward_def Let_def pos_imp_zdiv_nonneg_iff MoneyRange_def)
qed

section \<open>Properties\<close>

text \<open>The proof-of-work subsidies of all blocks up to the last proof-of-work block add up to
  8803402447947709 base units, which is within the range of valid money amounts; every single subsidy
  is non-negative and at most the premine.\<close>

lemma pow_emission_total:
  "sum pow_subsidy {0..LAST_POW_BLOCK} = 8803402447947709 \<and> MoneyRange (sum pow_subsidy {0..LAST_POW_BLOCK}) \<and>
   0 \<le> pow_subsidy h \<and> pow_subsidy h \<le> 53100000 * COIN"
proof -
  have "{0..LAST_POW_BLOCK} = {0..<978421}" by auto
  then show ?thesis using pow_emission pow_subsidy_range [of h] by (simp add: MoneyRange_def)
qed

text \<open>The reward of a stake with no overflow in the coin-age product: 12 percent per year of the coin age,
  plus fees, and no bonus for any input value in the money range.\<close>

lemma stake_reward_value:
  assumes "0 \<le> nCoinAge" "nCoinAge \<le> 768614336404" "MoneyRange nValueIn" "MoneyRange nFees"
  shows "GetProofOfStakeReward mt nCoinAge nFees nValueIn prevHash = nCoinAge * 12000000 div 365 div COIN + nFees"
  by (rule GetProofOfStakeReward_plain [OF assms])

text \<open>One base-unit-day more and the product wraps: the reward of a coin age of 768614336405 (less than
  7687 coin-days) is negative, for every previous hash.\<close>

lemma stake_reward_overflow:
  "GetProofOfStakeReward mt 768614336405 0 0 prevHash = -252695124"
proof -
  have "i64 (768614336405 * (12 * 1000000)) = -9223372036849551616" by (simp add: i64_def signed_take_bit_eq_if_negative)
  then show ?thesis by (simp add: GetProofOfStakeReward_def Let_def cdiv_def in_i64_def)
qed

text \<open>C38. Every required target is valid: it decodes to a positive number not above the proof-of-work or
  proof-of-stake limit, whatever the chain.\<close>

theorem next_target_in_range:
  assumes "mpi_documented B" "params_ok np"
  shows "0 < SetCompact B (GetNextTargetRequired B np chain pos) \<and>
    SetCompact B (GetNextTargetRequired B np chain pos) \<le> (if pos then bnProofOfStakeLimit np else bnProofOfWorkLimit np)"
  by (rule GetNextTargetRequired_range [OF assms])

theorem next_target_in_range_witness:
  "0 < SetCompact bn_ref (GetNextTargetRequired bn_ref mainnet [] True)"
  using next_target_in_range [of bn_ref mainnet "[]" True] by (simp add: params_ok_nets)

text \<open>Retargeting is stable and gradual: a block spacing of exactly 258 seconds keeps the target, a shorter
  one lowers it by at most a seventh, a longer one never lowers it.\<close>

lemma retarget_gradual:
  assumes "0 \<le> t" "0 \<le> s" "s < 2 ^ 30 - 3000"
  shows "retarget t 258 = t \<and> (s \<le> 258 \<longrightarrow> 6 * t div 7 \<le> retarget t s \<and> retarget t s \<le> t) \<and>
    (258 \<le> s \<longrightarrow> t \<le> retarget t s)"
  using retarget_stable [OF assms(1)] retarget_bounds [OF assms(1,2)] assms(3) by blast

text \<open>\<open>CheckProofOfWork\<close> accepts exactly the hashes that, as numbers, do not exceed the decoded target,
  for targets in the permitted range.\<close>

lemma CheckProofOfWork_correct:
  assumes "mpi_documented B" "params_ok np"
  shows "CheckProofOfWork B np hash nBits \<longleftrightarrow>
    0 < SetCompact B nBits \<and> SetCompact B nBits \<le> bnProofOfWorkLimit np \<and> uint hash \<le> SetCompact B nBits"
  by (rule CheckProofOfWork_iff [OF assms])

text \<open>More work means more trust: of two valid difficulties, the one with the smaller target has at
  least the trust of the other.\<close>

lemma block_trust_antitone:
  assumes "mpi_documented B" "0 < SetCompact B a" "SetCompact B a \<le> SetCompact B b"
  shows "GetBlockTrust B b \<le> GetBlockTrust B a"
  using assms GetBlockTrust_eq [OF assms(1), of a] GetBlockTrust_eq [OF assms(1), of b]
  by (simp add: word_le_def zdiv_mono2)

text \<open>The supermajority test stops early but decides exactly whether at least \<open>nRequired\<close> of the last
  \<open>nToCheck\<close> blocks have the version.\<close>

lemma IsSuperMajority_correct:
  "IsSuperMajority minVersion chain nRequired nToCheck \<longleftrightarrow>
   nRequired \<le> length (filter (\<lambda>b. minVersion \<le> bi_nVersion b) (take nToCheck chain))"
  using supermajority_loop_ge [of nRequired 0 minVersion nToCheck chain] by (simp add: IsSuperMajority_def)

text \<open>The median time of a block is the time of one of its last eleven ancestors (itself included), with at
  most half of them before it and at most half of them after it.\<close>

lemma median_time_past:
  assumes "chain \<noteq> []"
  shows "let ts = map bi_GetBlockTime (take 11 chain); m = GetMedianTimePast chain in
    m \<in> set ts \<and> 2 * length (filter (\<lambda>t. t < m) ts) \<le> length ts \<and> 2 * length (filter (\<lambda>t. m < t) ts) \<le> length ts"
  using GetMedianTimePast_median [OF assms] by (simp add: Let_def)

definition demo_index :: "u32 \<Rightarrow> CBlockIndex" where
  "demo_index t = \<lparr>bi_hash = 0, bi_hashNext = 0, bi_nFile = 1, bi_nBlockPos = 8, bi_nHeight = 0, bi_nChainTrust = 0, bi_nMint = 0, bi_nMoneySupply = 0, bi_nFlags = 0,
     bi_nStakeModifier = 0, bi_nStakeModifierChecksum = 0, bi_prevoutStake = COutPoint_Null, bi_nStakeTime = 0, bi_hashProofOfStake = 0, bi_nVersion = 1,
     bi_hashMerkleRoot = 0, bi_nTime = t, bi_nBits = 0, bi_nNonce = 0\<rparr>"

text \<open>The filter of peers' block counts keeps its sorted copy in step and never empty under every
  operation, and its median lies between the smallest and the largest value held.\<close>

lemma median_filter_invariant:
  assumes "median_inv m" "\<forall>v \<in> set (vValues m). lo \<le> v \<and> v \<le> hi" "0 \<le> lo" "hi < 2 ^ 30"
  shows "median_inv (median_input v m) \<and> median_inv (median_removeLast v m) \<and> lo \<le> median m \<and> median m \<le> hi"
  using median_inv_ops(2,3) [OF assms(1)] median_between [OF assms] by blast

end
