(* ===== verification/Ledger.thy ===== *)
theory Ledger
  imports Solver Merkle Consensus
begin

text \<open>
  The ledger: the transaction index with its spent markers (\<open>CDiskTxPos\<close>, \<open>CTxIndex\<close>, \<open>CTxDB\<close>) and
  connecting and disconnecting transactions to it (\<open>FetchInputs\<close>, \<open>ConnectInputs\<close>,
  \<open>DisconnectInputs\<close> and their helpers in \<open>main.cpp\<close>). A check returns \<open>Inl e\<close> for a \<open>return false\<close>,
  a failed assertion or a thrown \<open>runtime_error\<close>, and \<open>Inr\<close> otherwise. The database is a map; writes
  go to the open batch of the caller and succeed. What the code reads from elsewhere (block files,
  the memory pool, the clock, the best height, the checkpoint estimate, the proof-of-work hash and
  the random engine) is the record \<open>node_env\<close>.
\<close>

section \<open>Disk positions and the transaction index\<close>

record CDiskTxPos =
  nFile :: u32
  nBlockPos :: u32
  nTxPos :: u32

definition CDiskTxPos_Null :: CDiskTxPos where
  "CDiskTxPos_Null = \<lparr>nFile = - 1, nBlockPos = 0, nTxPos = 0\<rparr>"

definition CDiskTxPos_IsNull :: "CDiskTxPos \<Rightarrow> bool" where
  "CDiskTxPos_IsNull p \<longleftrightarrow> nFile p = - 1"

text \<open>\<open>CDiskTxPos(1,1,1)\<close>, the indicator for a transaction of the memory pool.\<close>

definition pos_mempool :: CDiskTxPos where
  "pos_mempool = \<lparr>nFile = 1, nBlockPos = 1, nTxPos = 1\<rparr>"

record CTxIndex =
  pos :: CDiskTxPos
  vSpent :: "CDiskTxPos list"

definition CTxIndex_Null :: CTxIndex where
  "CTxIndex_Null = \<lparr>pos = CDiskTxPos_Null, vSpent = []\<rparr>"

definition CTxIndex_new :: "CDiskTxPos \<Rightarrow> nat \<Rightarrow> CTxIndex" where
  "CTxIndex_new posIn nOutputs = \<lparr>pos = posIn, vSpent = replicate nOutputs CDiskTxPos_Null\<rparr>"

section \<open>Blocks\<close>

record CBlockHeader =
  b_nVersion :: int
  b_hashPrevBlock :: uint256
  b_hashMerkleRoot :: uint256
  b_nTime :: u32
  b_nBits :: u32
  b_nNonce :: u32

definition header_bytes :: "'a CBlockHeader_scheme \<Rightarrow> byte list" where
  "header_bytes b = i32_bytes (b_nVersion b) @ u256_bytes (b_hashPrevBlock b) @ u256_bytes (b_hashMerkleRoot b) @
     u32_bytes (b_nTime b) @ u32_bytes (b_nBits b) @ u32_bytes (b_nNonce b)"

definition b_GetBlockTime :: "'a CBlockHeader_scheme \<Rightarrow> int" where
  "b_GetBlockTime b = uint (b_nTime b)"

record CBlock = CBlockHeader +
  vtx :: "CTransaction list"
  vchBlockSig :: valtype

definition b_IsProofOfStake :: "CBlock \<Rightarrow> bool" where
  "b_IsProofOfStake b \<longleftrightarrow> length (vtx b) > 1 \<and> IsCoinStake (vtx b ! 1)"

definition b_IsProofOfWork :: "CBlock \<Rightarrow> bool" where
  "b_IsProofOfWork b \<longleftrightarrow> \<not> b_IsProofOfStake b"

text \<open>A block on the wire and on disk: header, transactions, signature.\<close>

definition block_bytes :: "CBlock \<Rightarrow> byte list" where
  "block_bytes b = header_bytes b @ Serialize_vec tx_bytes (vtx b) @ Serialize_bytes (vchBlockSig b)"

definition GetSerializeSize_block :: "CBlock \<Rightarrow> nat" where
  "GetSerializeSize_block b = 80 + GetSerializeSize_vec GetSerializeSize_tx (vtx b) +
     GetSerializeSize_bytes (vchBlockSig b)"

section \<open>The environment and the database\<close>

text \<open>
  \<open>disk_tx p\<close> is \<open>CTransaction::ReadFromDisk\<close> of a position: \<open>Inr\<close> the transaction, or \<open>Inl\<close> what a
  failed read leaves in the object. \<open>mt19937 s\<close> is the draw of the C++ engine seeded with \<open>s\<close>.
\<close>

record node_env =
  disk_tx :: "CDiskTxPos \<Rightarrow> CTransaction + CTransaction"
  disk_header :: "u32 \<Rightarrow> u32 \<Rightarrow> CBlockHeader option"
  mempool_tx :: "uint256 \<rightharpoonup> CTransaction"
  adjusted_time :: int
  best_height :: int
  total_blocks_estimate :: int
  Hash9 :: "byte list \<Rightarrow> uint256"
  mt19937 :: "u32 \<Rightarrow> int"
  env_params :: net_params

definition b_GetHash :: "node_env \<Rightarrow> 'a CBlockHeader_scheme \<Rightarrow> uint256" where
  "b_GetHash E b = Hash9 E (header_bytes b)"

record CDiskBlockIndex =
  di_index :: CBlockIndex
  di_hashPrev :: uint256
  di_hashNext :: uint256

definition CDiskBlockIndex_of :: "CBlockIndex list \<Rightarrow> CDiskBlockIndex" where
  "CDiskBlockIndex_of pindex =
     \<lparr>di_index = hd pindex,
      di_hashPrev = (case tl pindex of [] \<Rightarrow> 0 | p # _ \<Rightarrow> bi_hash p),
      di_hashNext = bi_hashNext (hd pindex)\<rparr>"

text \<open>The hash of an entry on disk is recomputed from its header fields (the cached copy holds the same value).\<close>

definition di_GetBlockHash :: "node_env \<Rightarrow> CDiskBlockIndex \<Rightarrow> uint256" where
  "di_GetBlockHash E d = b_GetHash E
     \<lparr>b_nVersion = bi_nVersion (di_index d), b_hashPrevBlock = di_hashPrev d,
      b_hashMerkleRoot = bi_hashMerkleRoot (di_index d), b_nTime = bi_nTime (di_index d),
      b_nBits = bi_nBits (di_index d), b_nNonce = bi_nNonce (di_index d)\<rparr>"

type_synonym txmap = "uint256 \<rightharpoonup> CTxIndex"

record CTxDB =
  db_tx :: txmap
  db_index :: "uint256 \<rightharpoonup> CDiskBlockIndex"

definition ReadTxIndex :: "uint256 \<Rightarrow> CTxDB \<Rightarrow> CTxIndex option" where
  "ReadTxIndex hash db = db_tx db hash"

definition UpdateTxIndex :: "uint256 \<Rightarrow> CTxIndex \<Rightarrow> CTxDB \<Rightarrow> CTxDB" where
  "UpdateTxIndex hash txindex db = db\<lparr>db_tx := (db_tx db)(hash \<mapsto> txindex)\<rparr>"

definition AddTxIndex :: "ssl_lib \<Rightarrow> CTransaction \<Rightarrow> CDiskTxPos \<Rightarrow> CTxDB \<Rightarrow> CTxDB" where
  "AddTxIndex L tx p db = db\<lparr>db_tx := (db_tx db)(GetHash L tx \<mapsto> CTxIndex_new p (length (vout tx)))\<rparr>"

definition EraseTxIndex :: "ssl_lib \<Rightarrow> CTransaction \<Rightarrow> CTxDB \<Rightarrow> CTxDB" where
  "EraseTxIndex L tx db = db\<lparr>db_tx := (db_tx db)(GetHash L tx := None)\<rparr>"

definition ContainsTx :: "uint256 \<Rightarrow> CTxDB \<Rightarrow> bool" where
  "ContainsTx hash db \<longleftrightarrow> db_tx db hash \<noteq> None"

definition WriteBlockIndex :: "node_env \<Rightarrow> CDiskBlockIndex \<Rightarrow> CTxDB \<Rightarrow> CTxDB" where
  "WriteBlockIndex E d db = db\<lparr>db_index := (db_index db)(di_GetBlockHash E d \<mapsto> d)\<rparr>"

section \<open>Fetching inputs\<close>

type_synonym MapPrevTx = "uint256 \<rightharpoonup> CTxIndex \<times> CTransaction"

datatype ledger_error = Prev_index_missing | Prev_not_in_mempool | Disk_read_failed | Prevout_range
  | Immature | Timestamp_violation | Txin_values_range | Already_spent | Signature_invalid
  | Value_in_below_out | Negative_fee | Fee_too_low | Fees_range
  | Assertion_failed | Runtime_error
  | Block_invalid | Overwrites_unspent | Too_many_sigops | Coinbase_reward_exceeded
  | No_coin_age | Coinstake_pays_too_much

text \<open>The default constructor of a transaction stamps it with the adjusted time.\<close>

definition CTransaction_Null :: "int \<Rightarrow> CTransaction" where
  "CTransaction_Null adjustedTime =
     \<lparr>nVersion = CURRENT_VERSION, nTime = of_int adjustedTime, vin = [], vout = [], nLockTime = 0\<rparr>"

definition fetch_one :: "node_env \<Rightarrow> CTxDB \<Rightarrow> txmap \<Rightarrow> bool \<Rightarrow> bool \<Rightarrow> uint256 \<Rightarrow> (ledger_error + unit) \<times> CTxIndex \<times> CTransaction" where
  "fetch_one E db mapTestPool fBlock fMiner hash =
     (let found = (if (fBlock \<or> fMiner) \<and> mapTestPool hash \<noteq> None then mapTestPool hash else ReadTxIndex hash db);
          txindex = (case found of None \<Rightarrow> CTxIndex_Null | Some ti \<Rightarrow> ti);
          blank = CTransaction_Null (adjusted_time E)
      in if found = None \<and> (fBlock \<or> fMiner) then (Inl Prev_index_missing, txindex, blank)
         else if found = None \<or> pos txindex = pos_mempool
         then (case mempool_tx E hash of
                 None \<Rightarrow> (Inl Prev_not_in_mempool, txindex, blank)
               | Some txPrev \<Rightarrow>
                   (Inr (), if found = None then txindex\<lparr>vSpent := replicate (length (vout txPrev)) CDiskTxPos_Null\<rparr> else txindex,
                    txPrev))
         else (case disk_tx E (pos txindex) of
                 Inl t \<Rightarrow> (Inl Disk_read_failed, txindex, t)
               | Inr txPrev \<Rightarrow> (Inr (), txindex, txPrev)))"

fun fetch_loop :: "node_env \<Rightarrow> CTxDB \<Rightarrow> txmap \<Rightarrow> bool \<Rightarrow> bool \<Rightarrow> MapPrevTx \<Rightarrow> CTxIn list \<Rightarrow> (ledger_error + unit) \<times> MapPrevTx" where
  "fetch_loop E db mapTestPool fBlock fMiner inputsRet [] = (Inr (), inputsRet)"
| "fetch_loop E db mapTestPool fBlock fMiner inputsRet (txin # r) =
     (let hash = op_hash (prevout txin) in
      if inputsRet hash \<noteq> None then fetch_loop E db mapTestPool fBlock fMiner inputsRet r
      else case fetch_one E db mapTestPool fBlock fMiner hash of
             (Inl e, entry) \<Rightarrow> (Inl e, inputsRet(hash \<mapsto> entry))
           | (Inr _, entry) \<Rightarrow> fetch_loop E db mapTestPool fBlock fMiner (inputsRet(hash \<mapsto> entry)) r)"

fun range_loop :: "MapPrevTx \<Rightarrow> CTxIn list \<Rightarrow> ledger_error + unit" where
  "range_loop inputsRet [] = Inr ()"
| "range_loop inputsRet (txin # r) =
     (case inputsRet (op_hash (prevout txin)) of
        None \<Rightarrow> Inl Assertion_failed
      | Some (txindex, txPrev) \<Rightarrow>
          if unat (op_n (prevout txin)) \<ge> length (vout txPrev) \<or> unat (op_n (prevout txin)) \<ge> length (vSpent txindex)
          then Inl Prevout_range
          else range_loop inputsRet r)"

text \<open>The second result is \<open>inputsRet\<close>, entries of a failed look-up included; \<open>fInvalid\<close> is set exactly
  on the exit \<open>Prevout_range\<close>.\<close>

definition FetchInputs :: "node_env \<Rightarrow> CTxDB \<Rightarrow> txmap \<Rightarrow> bool \<Rightarrow> bool \<Rightarrow> MapPrevTx \<Rightarrow> CTransaction \<Rightarrow> (ledger_error + unit) \<times> MapPrevTx" where
  "FetchInputs E db mapTestPool fBlock fMiner inputsRet tx =
     (if IsCoinBase tx then (Inr (), inputsRet)
      else case fetch_loop E db mapTestPool fBlock fMiner inputsRet (vin tx) of
             (Inl e, ins) \<Rightarrow> (Inl e, ins)
           | (Inr _, ins) \<Rightarrow> (range_loop ins (vin tx), ins))"

definition GetOutputFor :: "CTxIn \<Rightarrow> MapPrevTx \<Rightarrow> ledger_error + CTxOut" where
  "GetOutputFor input inputs =
     (case inputs (op_hash (prevout input)) of
        None \<Rightarrow> Inl Runtime_error
      | Some (_, txPrev) \<Rightarrow>
          if unat (op_n (prevout input)) \<ge> length (vout txPrev) then Inl Runtime_error
          else Inr (vout txPrev ! unat (op_n (prevout input))))"

fun value_in_loop :: "MapPrevTx \<Rightarrow> int \<Rightarrow> CTxIn list \<Rightarrow> ledger_error + int" where
  "value_in_loop inputs nResult [] = Inr nResult"
| "value_in_loop inputs nResult (txin # r) =
     (case GetOutputFor txin inputs of
        Inl e \<Rightarrow> Inl e
      | Inr txout \<Rightarrow> value_in_loop inputs (i64 (nResult + nValue txout)) r)"

definition GetValueMapIn :: "MapPrevTx \<Rightarrow> CTransaction \<Rightarrow> ledger_error + int" where
  "GetValueMapIn inputs tx = (if IsCoinBase tx then Inr 0 else value_in_loop inputs 0 (vin tx))"

fun p2sh_sigops_loop :: "MapPrevTx \<Rightarrow> nat \<Rightarrow> CTxIn list \<Rightarrow> ledger_error + nat" where
  "p2sh_sigops_loop inputs nSigOps [] = Inr nSigOps"
| "p2sh_sigops_loop inputs nSigOps (txin # r) =
     (case GetOutputFor txin inputs of
        Inl e \<Rightarrow> Inl e
      | Inr txout \<Rightarrow>
          p2sh_sigops_loop inputs
            (if IsPayToScriptHash (scriptPubKey txout)
             then (nSigOps + GetSigOpCount_sig (scriptPubKey txout) (scriptSig txin)) mod 2 ^ 32 else nSigOps) r)"

definition GetP2SHSigOpCount :: "MapPrevTx \<Rightarrow> CTransaction \<Rightarrow> ledger_error + nat" where
  "GetP2SHSigOpCount inputs tx = (if IsCoinBase tx then Inr 0 else p2sh_sigops_loop inputs 0 (vin tx))"

section \<open>Standard inputs\<close>

definition tx_IsStandard :: "bool \<Rightarrow> CTransaction \<Rightarrow> bool" where
  "tx_IsStandard fEnforceCanonical tx =
     (if nVersion tx > CURRENT_VERSION then False
      else list_all (\<lambda>txin. \<not> length (scriptSig txin) > 500 \<and> IsPushOnly (scriptSig txin) \<and>
                       \<not> (fEnforceCanonical \<and> \<not> HasCanonicalPushes (scriptSig txin))) (vin tx) \<and>
           list_all (\<lambda>txout. IsStandard (scriptPubKey txout) \<and> nValue txout \<noteq> 0 \<and>
                       \<not> (fEnforceCanonical \<and> \<not> HasCanonicalPushes (scriptPubKey txout))) (vout tx))"

definition input_standard :: "ssl_lib \<Rightarrow> CTransaction \<Rightarrow> nat \<Rightarrow> CTxIn \<Rightarrow> CTxOut \<Rightarrow> bool" where
  "input_standard L tx i txin prev =
     (case Solver (scriptPubKey prev) of (ok, whichType, vSolutions) \<Rightarrow>
        if \<not> ok then False
        else let nArgsExpected = ScriptSigArgsExpected whichType vSolutions in
        if nArgsExpected < 0 then False
        else case EvalScript L (CheckSig L tx i 0) [] (scriptSig txin) of
               None \<Rightarrow> False
             | Some stk \<Rightarrow>
                 if whichType = TX_SCRIPTHASH then
                   (case stk of
                      [] \<Rightarrow> False
                    | subscript # _ \<Rightarrow>
                        (case Solver subscript of (ok2, whichType2, vSolutions2) \<Rightarrow>
                           if \<not> ok2 \<or> whichType2 = TX_SCRIPTHASH then False
                           else let tmpExpected = ScriptSigArgsExpected whichType2 vSolutions2 in
                           if tmpExpected < 0 then False
                           else int (length stk) = nArgsExpected + tmpExpected))
                 else int (length stk) = nArgsExpected)"

fun inputs_standard_loop :: "ssl_lib \<Rightarrow> CTransaction \<Rightarrow> MapPrevTx \<Rightarrow> nat \<Rightarrow> CTxIn list \<Rightarrow> ledger_error + bool" where
  "inputs_standard_loop L tx mapInputs i [] = Inr True"
| "inputs_standard_loop L tx mapInputs i (txin # r) =
     (case GetOutputFor txin mapInputs of
        Inl e \<Rightarrow> Inl e
      | Inr prev \<Rightarrow> if \<not> input_standard L tx i txin prev then Inr False
                    else inputs_standard_loop L tx mapInputs (Suc i) r)"

definition AreInputsStandard :: "ssl_lib \<Rightarrow> MapPrevTx \<Rightarrow> CTransaction \<Rightarrow> ledger_error + bool" where
  "AreInputsStandard L mapInputs tx =
     (if IsCoinBase tx then Inr True else inputs_standard_loop L tx mapInputs 0 (vin tx))"

section \<open>Connecting and disconnecting a transaction\<close>

abbreviation (input) nCoinbaseMaturity :: int where "nCoinbaseMaturity \<equiv> 10"

text \<open>The loop over the last blocks: the previous transaction sits in one of them.\<close>

definition immature :: "CBlockIndex list \<Rightarrow> CTxIndex \<Rightarrow> bool" where
  "immature pindexBlock txindex =
     list_ex (\<lambda>pindex. bi_nBlockPos pindex = nBlockPos (pos txindex) \<and> bi_nFile pindex = nFile (pos txindex))
       (takeWhile (\<lambda>pindex. bi_nHeight (hd pindexBlock) - bi_nHeight pindex < nCoinbaseMaturity) pindexBlock)"

text \<open>The inexpensive checks; the result is \<open>nValueIn\<close>.\<close>

fun connect_check :: "MapPrevTx \<Rightarrow> CBlockIndex list \<Rightarrow> CTransaction \<Rightarrow> int \<Rightarrow> CTxIn list \<Rightarrow> ledger_error + int" where
  "connect_check inputs pindexBlock tx nValueIn [] = Inr nValueIn"
| "connect_check inputs pindexBlock tx nValueIn (txin # r) =
     (case inputs (op_hash (prevout txin)) of
        None \<Rightarrow> Inl Assertion_failed
      | Some (txindex, txPrev) \<Rightarrow>
          let n = unat (op_n (prevout txin)) in
          if n \<ge> length (vout txPrev) \<or> n \<ge> length (vSpent txindex) then Inl Prevout_range
          else if (IsCoinBase txPrev \<or> IsCoinStake txPrev) \<and> immature pindexBlock txindex then Inl Immature
          else if nTime txPrev > nTime tx then Inl Timestamp_violation
          else let nValueIn1 = i64 (nValueIn + nValue (vout txPrev ! n)) in
               if \<not> MoneyRange (nValue (vout txPrev ! n)) \<or> \<not> MoneyRange nValueIn1 then Inl Txin_values_range
               else connect_check inputs pindexBlock tx nValueIn1 r)"

text \<open>The expensive loop: double spends, signatures, and marking the outputs as spent. The second
  result is \<open>mapTestPool\<close>, with what was written before a failure.\<close>

fun connect_mark :: "ssl_lib \<Rightarrow> bool \<Rightarrow> bool \<Rightarrow> CDiskTxPos \<Rightarrow> CTransaction \<Rightarrow> nat \<Rightarrow> CTxIn list \<Rightarrow> MapPrevTx \<Rightarrow> txmap \<Rightarrow>
    (ledger_error + unit) \<times> txmap" where
  "connect_mark L checkSigs write posThisTx tx i [] inputs mapTestPool = (Inr (), mapTestPool)"
| "connect_mark L checkSigs write posThisTx tx i (txin # r) inputs mapTestPool =
     (let hash = op_hash (prevout txin); n = unat (op_n (prevout txin)) in
      case inputs hash of
        None \<Rightarrow> (Inl Assertion_failed, mapTestPool)
      | Some (txindex, txPrev) \<Rightarrow>
          if \<not> CDiskTxPos_IsNull (vSpent txindex ! n) then (Inl Already_spent, mapTestPool)
          else case (if checkSigs then VerifySignature L txPrev tx i 0 else Some True) of
                 None \<Rightarrow> (Inl Assertion_failed, mapTestPool)
               | Some False \<Rightarrow> (Inl Signature_invalid, mapTestPool)
               | Some True \<Rightarrow>
                   let txindex1 = txindex\<lparr>vSpent := (vSpent txindex)[n := posThisTx]\<rparr> in
                   connect_mark L checkSigs write posThisTx tx (Suc i) r (inputs(hash \<mapsto> (txindex1, txPrev)))
                     (if write then mapTestPool(hash \<mapsto> txindex1) else mapTestPool))"

text \<open>The fee rules; \<open>GetMinFee()\<close> has its default arguments.\<close>

definition connect_fee :: "CTransaction \<Rightarrow> int \<Rightarrow> ledger_error + unit" where
  "connect_fee tx nValueIn =
     (if IsCoinStake tx then Inr ()
      else case GetValueOut tx of
             None \<Rightarrow> Inl Runtime_error
           | Some nValueOut \<Rightarrow>
               if nValueIn < nValueOut then Inl Value_in_below_out
               else let nTxFee = i64 (nValueIn - nValueOut) in
               if nTxFee < 0 then Inl Negative_fee
               else if nTxFee < GetMinFee 1 GMF_BLOCK 0 tx then Inl Fee_too_low
               else if \<not> MoneyRange (i64 (0 + nTxFee)) then Inl Fees_range
               else Inr ())"

definition ConnectInputs :: "ssl_lib \<Rightarrow> node_env \<Rightarrow> MapPrevTx \<Rightarrow> txmap \<Rightarrow> CDiskTxPos \<Rightarrow> CBlockIndex list \<Rightarrow> bool \<Rightarrow> bool \<Rightarrow> CTransaction \<Rightarrow>
    (ledger_error + unit) \<times> txmap" where
  "ConnectInputs L E inputs mapTestPool posThisTx pindexBlock fBlock fMiner tx =
     (if IsCoinBase tx then (Inr (), mapTestPool)
      else case connect_check inputs pindexBlock tx 0 (vin tx) of
             Inl e \<Rightarrow> (Inl e, mapTestPool)
           | Inr nValueIn \<Rightarrow>
               (case connect_mark L (\<not> (fBlock \<and> best_height E < total_blocks_estimate E)) (fBlock \<or> fMiner)
                       posThisTx tx 0 (vin tx) inputs mapTestPool of
                  (Inl e, pool) \<Rightarrow> (Inl e, pool)
                | (Inr _, pool) \<Rightarrow> (connect_fee tx nValueIn, pool)))"

fun client_loop :: "ssl_lib \<Rightarrow> node_env \<Rightarrow> CTransaction \<Rightarrow> nat \<Rightarrow> int \<Rightarrow> CTxIn list \<Rightarrow> ledger_error + int" where
  "client_loop L E tx i nValueIn [] = Inr nValueIn"
| "client_loop L E tx i nValueIn (txin # r) =
     (case mempool_tx E (op_hash (prevout txin)) of
        None \<Rightarrow> Inl Prev_not_in_mempool
      | Some txPrev \<Rightarrow>
          let n = unat (op_n (prevout txin)) in
          if n \<ge> length (vout txPrev) then Inl Prevout_range
          else case VerifySignature L txPrev tx i 0 of
                 None \<Rightarrow> Inl Assertion_failed
               | Some False \<Rightarrow> Inl Signature_invalid
               | Some True \<Rightarrow>
                   let nValueIn1 = i64 (nValueIn + nValue (vout txPrev ! n)) in
                   if \<not> MoneyRange (nValue (vout txPrev ! n)) \<or> \<not> MoneyRange nValueIn1 then Inl Txin_values_range
                   else client_loop L E tx (Suc i) nValueIn1 r)"

definition ClientConnectInputs :: "ssl_lib \<Rightarrow> node_env \<Rightarrow> CTransaction \<Rightarrow> ledger_error + bool" where
  "ClientConnectInputs L E tx =
     (if IsCoinBase tx then Inr False
      else case client_loop L E tx 0 0 (vin tx) of
             Inl Assertion_failed \<Rightarrow> Inl Assertion_failed
           | Inl _ \<Rightarrow> Inr False
           | Inr nValueIn \<Rightarrow>
               (case GetValueOut tx of None \<Rightarrow> Inl Runtime_error | Some v \<Rightarrow> Inr (\<not> v > nValueIn)))"

fun disconnect_loop :: "CTxIn list \<Rightarrow> CTxDB \<Rightarrow> bool \<times> CTxDB" where
  "disconnect_loop [] db = (True, db)"
| "disconnect_loop (txin # r) db =
     (case ReadTxIndex (op_hash (prevout txin)) db of
        None \<Rightarrow> (False, db)
      | Some txindex \<Rightarrow>
          let n = unat (op_n (prevout txin)) in
          if n \<ge> length (vSpent txindex) then (False, db)
          else disconnect_loop r (UpdateTxIndex (op_hash (prevout txin))
                 (txindex\<lparr>vSpent := (vSpent txindex)[n := CDiskTxPos_Null]\<rparr>) db))"

definition DisconnectInputs :: "ssl_lib \<Rightarrow> CTransaction \<Rightarrow> CTxDB \<Rightarrow> bool \<times> CTxDB" where
  "DisconnectInputs L tx db =
     (case (if IsCoinBase tx then (True, db) else disconnect_loop (vin tx) db) of
        (False, db1) \<Rightarrow> (False, db1)
      | (True, db1) \<Rightarrow> (True, EraseTxIndex L tx db1))"

definition GetMapTxInputs :: "node_env \<Rightarrow> CTxDB \<Rightarrow> MapPrevTx \<Rightarrow> bool \<Rightarrow> bool \<Rightarrow> CTransaction \<Rightarrow> bool \<times> MapPrevTx" where
  "GetMapTxInputs E db mapInputs fBlock fMiner tx =
     (case FetchInputs E db (\<lambda>_. None) fBlock fMiner mapInputs tx of
        (Inl Prevout_range, ins) \<Rightarrow> (False, ins)
      | (_, ins) \<Rightarrow> (True, ins))"

section \<open>Coin age\<close>

abbreviation (input) nStakeMinAge :: int where "nStakeMinAge \<equiv> 15 * 60"

definition ReadFromDisk_outpoint :: "node_env \<Rightarrow> CTxDB \<Rightarrow> COutPoint \<Rightarrow> (CTransaction \<times> CTxIndex) option" where
  "ReadFromDisk_outpoint E db prev =
     (case ReadTxIndex (op_hash prev) db of
        None \<Rightarrow> None
      | Some txindex \<Rightarrow>
          (case disk_tx E (pos txindex) of
             Inl _ \<Rightarrow> None
           | Inr txPrev \<Rightarrow> if unat (op_n prev) \<ge> length (vout txPrev) then None else Some (txPrev, txindex)))"

fun coin_age_loop :: "node_env \<Rightarrow> CTxDB \<Rightarrow> CTransaction \<Rightarrow> int \<Rightarrow> CTxIn list \<Rightarrow> int option" where
  "coin_age_loop E db tx bnCentSecond [] = Some bnCentSecond"
| "coin_age_loop E db tx bnCentSecond (txin # r) =
     (case ReadFromDisk_outpoint E db (prevout txin) of
        None \<Rightarrow> coin_age_loop E db tx bnCentSecond r
      | Some (txPrev, txindex) \<Rightarrow>
          if nTime tx < nTime txPrev then None
          else case disk_header E (nFile (pos txindex)) (nBlockPos (pos txindex)) of
                 None \<Rightarrow> None
               | Some block \<Rightarrow>
                   if b_GetBlockTime block + nStakeMinAge > uint (nTime tx) then coin_age_loop E db tx bnCentSecond r
                   else coin_age_loop E db tx (bnCentSecond +
                          cdiv (nValue (vout txPrev ! unat (op_n (prevout txin))) * uint (nTime tx - nTime txPrev)) CENT) r)"

definition GetCoinAge :: "bn_lib \<Rightarrow> node_env \<Rightarrow> CTxDB \<Rightarrow> CTransaction \<Rightarrow> u64 option" where
  "GetCoinAge B E db tx =
     (if IsCoinBase tx then Some 0
      else case coin_age_loop E db tx 0 (vin tx) of
             None \<Rightarrow> None
           | Some bnCentSecond \<Rightarrow> Some (getuint64 B (cdiv (bnCentSecond * CENT) (24 * 60 * 60))))"

section \<open>Coins: the abstract view of the index\<close>

text \<open>The coins of an index: the outpoints whose spent marker is null.\<close>

definition coins :: "txmap \<Rightarrow> COutPoint set" where
  "coins m = {p. \<exists>ti. m (op_hash p) = Some ti \<and> unat (op_n p) < length (vSpent ti) \<and>
                    CDiskTxPos_IsNull (vSpent ti ! unat (op_n p))}"

definition spent_by :: "CTransaction \<Rightarrow> COutPoint set" where
  "spent_by tx = (if IsCoinBase tx then {} else prevout ` set (vin tx))"

lemma IsNull_Null [simp]: "CDiskTxPos_IsNull CDiskTxPos_Null"
  by (simp add: CDiskTxPos_IsNull_def CDiskTxPos_Null_def)

lemma outpoint_eq_iff: "x = (p :: COutPoint) \<longleftrightarrow> op_hash x = op_hash p \<and> unat (op_n x) = unat (op_n p)"
  by (cases x; cases p) (simp add: word_unat_eq_iff)

lemma coins_mark:
  assumes "m (op_hash p) = Some ti" "unat (op_n p) < length (vSpent ti)" "\<not> CDiskTxPos_IsNull q"
  shows "coins (m(op_hash p \<mapsto> ti\<lparr>vSpent := (vSpent ti)[unat (op_n p) := q]\<rparr>)) = coins m - {p}"
proof (rule set_eqI)
  fix x
  show "x \<in> coins (m(op_hash p \<mapsto> ti\<lparr>vSpent := (vSpent ti)[unat (op_n p) := q]\<rparr>)) \<longleftrightarrow> x \<in> coins m - {p}"
    using assms by (cases "op_hash x = op_hash p") (auto simp: coins_def nth_list_update outpoint_eq_iff [of x])
qed

lemma coins_unmark:
  assumes "m (op_hash p) = Some ti" "unat (op_n p) < length (vSpent ti)"
  shows "coins (m(op_hash p \<mapsto> ti\<lparr>vSpent := (vSpent ti)[unat (op_n p) := CDiskTxPos_Null]\<rparr>)) = insert p (coins m)"
proof (rule set_eqI)
  fix x
  show "x \<in> coins (m(op_hash p \<mapsto> ti\<lparr>vSpent := (vSpent ti)[unat (op_n p) := CDiskTxPos_Null]\<rparr>)) \<longleftrightarrow>
      x \<in> insert p (coins m)"
    using assms by (cases "op_hash x = op_hash p") (auto simp: coins_def nth_list_update outpoint_eq_iff [of x])
qed

lemma coins_create:
  "coins (m(h \<mapsto> CTxIndex_new q k)) = {p \<in> coins m. op_hash p \<noteq> h} \<union> {p. op_hash p = h \<and> unat (op_n p) < k}"
  by (auto simp: coins_def CTxIndex_new_def)

lemma coins_erase: "coins (m(h := None)) = {p \<in> coins m. op_hash p \<noteq> h}"
  by (auto simp: coins_def)

section \<open>What FetchInputs returns\<close>

text \<open>While a block is connected, the fetched index entries are those of the database overlaid with
  the queued changes.\<close>

definition view :: "CTxDB \<Rightarrow> txmap \<Rightarrow> txmap" where
  "view db pool = db_tx db ++ pool"

lemma view_simps [simp]:
  "view db (pool(h \<mapsto> ti)) = (view db pool)(h \<mapsto> ti)" "view db Map.empty = db_tx db" "view db (\<lambda>_. None) = db_tx db"
  by (simp_all add: view_def)

definition inputs_agree :: "txmap \<Rightarrow> MapPrevTx \<Rightarrow> bool" where
  "inputs_agree m inputs \<longleftrightarrow> (\<forall>h ti t. inputs h = Some (ti, t) \<longrightarrow> m h = Some ti)"

lemma fetch_one_block:
  "fetch_one E db pool True fMiner h = (Inr u, ti, t) \<Longrightarrow> view db pool h = Some ti"
  by (auto simp: fetch_one_def view_def ReadTxIndex_def Let_def map_add_def
      split: option.splits sum.splits if_splits)

lemma fetch_loop_step:
  assumes "fetch_loop E db pool fBlock fMiner ins (txin # r) = (Inr u, ins')"
  obtains (known) "ins (op_hash (prevout txin)) \<noteq> None" "fetch_loop E db pool fBlock fMiner ins r = (Inr u, ins')"
  | (new) ti t where "ins (op_hash (prevout txin)) = None"
      "fetch_one E db pool fBlock fMiner (op_hash (prevout txin)) = (Inr (), ti, t)"
      "fetch_loop E db pool fBlock fMiner (ins(op_hash (prevout txin) \<mapsto> (ti, t))) r = (Inr u, ins')"
  using assms
  by (cases "ins (op_hash (prevout txin))")
     (auto simp: Let_def split: prod.splits sum.splits intro: known new)

lemma fetch_loop_agree:
  "fetch_loop E db pool True fMiner ins vs = (Inr u, ins') \<Longrightarrow> inputs_agree (view db pool) ins \<Longrightarrow>
     inputs_agree (view db pool) ins'"
proof (induction vs arbitrary: ins)
  case Nil
  then show ?case by simp
next
  case (Cons txin r)
  from Cons.prems(1) show ?case
  proof (cases rule: fetch_loop_step)
    case known
    then show ?thesis using Cons by blast
  next
    case (new ti t)
    have "inputs_agree (view db pool) (ins(op_hash (prevout txin) \<mapsto> (ti, t)))"
      using Cons.prems(2) fetch_one_block [OF new(2)] by (auto simp: inputs_agree_def)
    then show ?thesis using Cons.IH [OF new(3)] by blast
  qed
qed

lemma range_loop_Inr:
  "range_loop ins vs = Inr u \<Longrightarrow> txin \<in> set vs \<Longrightarrow>
     \<exists>ti t. ins (op_hash (prevout txin)) = Some (ti, t) \<and> unat (op_n (prevout txin)) < length (vSpent ti) \<and>
            unat (op_n (prevout txin)) < length (vout t)"
  by (induction vs) (auto split: option.splits if_splits)

lemma FetchInputs_agree:
  assumes "FetchInputs E db pool True fMiner Map.empty tx = (Inr u, ins)"
  shows "inputs_agree (view db pool) ins"
proof -
  have e: "inputs_agree (view db pool) Map.empty" by (simp add: inputs_agree_def)
  show ?thesis
  proof (cases "IsCoinBase tx")
    case True
    then show ?thesis using assms e by (simp add: FetchInputs_def)
  next
    case False
    with assms have "fetch_loop E db pool True fMiner Map.empty (vin tx) = (Inr (), ins)"
      by (cases "fetch_loop E db pool True fMiner Map.empty (vin tx)"; cases "fst (fetch_loop E db pool True fMiner Map.empty (vin tx))")
         (simp_all add: FetchInputs_def)
    from fetch_loop_agree [OF this e] show ?thesis .
  qed
qed

text \<open>The assertion of the second loop cannot fail.\<close>

lemma fetch_loop_dom:
  "fetch_loop E db pool fBlock fMiner ins vs = (Inr u, ins') \<Longrightarrow>
     dom ins \<subseteq> dom ins' \<and> (\<forall>txin \<in> set vs. op_hash (prevout txin) \<in> dom ins')"
proof (induction vs arbitrary: ins)
  case Nil
  then show ?case by simp
next
  case (Cons txin r)
  from Cons.prems(1) show ?case
  proof (cases rule: fetch_loop_step)
    case known
    then have "op_hash (prevout txin) \<in> dom ins" by (simp add: domIff)
    then show ?thesis using Cons.IH [OF known(2)] by auto
  next
    case (new ti t)
    then show ?thesis using Cons.IH [OF new(3)] by (simp del: fun_upd_apply)
  qed
qed

lemma range_loop_no_assert:
  "\<forall>txin \<in> set vs. op_hash (prevout txin) \<in> dom ins \<Longrightarrow> range_loop ins vs \<noteq> Inl Assertion_failed"
  by (induction vs) (auto split: if_splits)

lemma FetchInputs_no_assert: "fst (FetchInputs E db pool fBlock fMiner ins tx) \<noteq> Inl Assertion_failed"
proof (cases "fetch_loop E db pool fBlock fMiner ins (vin tx)")
  case (Pair r ins')
  have one: "fst (fetch_one E db pool fBlock fMiner h) \<noteq> Inl Assertion_failed" for h
    by (auto simp: fetch_one_def Let_def split: option.split sum.split)
  have "fst (fetch_loop E db pool fBlock fMiner ins vs) \<noteq> Inl Assertion_failed" for ins vs
  proof (induction vs arbitrary: ins)
    case (Cons txin r)
    then show ?case using one [of "op_hash (prevout txin)"]
      by (auto simp: Let_def split: prod.split sum.split)
  qed simp
  from this [of ins "vin tx"] show ?thesis
    using Pair range_loop_no_assert fetch_loop_dom [of E db pool fBlock fMiner ins "vin tx"]
    by (cases r) (auto simp: FetchInputs_def)
qed

section \<open>What ConnectInputs checks\<close>

definition prev_tx :: "MapPrevTx \<Rightarrow> CTxIn \<Rightarrow> CTransaction" where
  "prev_tx inputs txin = snd (the (inputs (op_hash (prevout txin))))"

definition prev_value :: "MapPrevTx \<Rightarrow> CTxIn \<Rightarrow> int" where
  "prev_value inputs txin = nValue (vout (prev_tx inputs txin) ! unat (op_n (prevout txin)))"

definition total_in :: "MapPrevTx \<Rightarrow> CTransaction \<Rightarrow> int" where
  "total_in inputs tx = sum_list (map (prev_value inputs) (vin tx))"

definition input_checked :: "MapPrevTx \<Rightarrow> CBlockIndex list \<Rightarrow> CTransaction \<Rightarrow> CTxIn \<Rightarrow> bool" where
  "input_checked inputs pindexBlock tx txin \<longleftrightarrow>
     (case inputs (op_hash (prevout txin)) of
        None \<Rightarrow> False
      | Some (ti, t) \<Rightarrow>
          unat (op_n (prevout txin)) < length (vout t) \<and> unat (op_n (prevout txin)) < length (vSpent ti) \<and>
          (IsCoinBase t \<or> IsCoinStake t \<longrightarrow> \<not> immature pindexBlock ti) \<and>
          nTime t \<le> nTime tx \<and> MoneyRange (prev_value inputs txin))"

lemma connect_check_Inr:
  assumes "MoneyRange acc"
  shows "connect_check inputs chain tx acc vs = Inr v \<longleftrightarrow>
     v = acc + sum_list (map (prev_value inputs) vs) \<and> MoneyRange v \<and> list_all (input_checked inputs chain tx) vs"
  using assms
proof (induction vs arbitrary: acc)
  case Nil
  then show ?case by auto
next
  case (Cons txin r)
  show ?case
  proof (cases "inputs (op_hash (prevout txin))")
    case None
    then show ?thesis by (simp add: input_checked_def)
  next
    case (Some e)
    obtain ti t where e: "e = (ti, t)" by (cases e)
    let ?n = "unat (op_n (prevout txin))" and ?x = "prev_value inputs txin"
    have x: "nValue (vout t ! ?n) = ?x" using Some e by (simp add: prev_value_def prev_tx_def)
    have nn: "list_all (input_checked inputs chain tx) r \<Longrightarrow> 0 \<le> sum_list (map (prev_value inputs) r)"
      by (intro sum_list_nonneg)
         (fastforce simp: list_all_iff input_checked_def MoneyRange_def split: option.splits)
    show ?thesis
    proof (cases "MoneyRange ?x")
      case True
      then have w: "i64 (acc + ?x) = acc + ?x"
        using MoneyRange_add_i64 [OF Cons.prems] by (simp add: MoneyRange_def)
      show ?thesis
      proof (cases "MoneyRange (acc + ?x)")
        case r: True
        then show ?thesis using Some e x w True Cons.IH [OF r]
          by (auto simp: Let_def input_checked_def add.assoc)
      next
        case False
        then have "acc + ?x > MAX_MONEY" using True Cons.prems by (auto simp: MoneyRange_def)
        then show ?thesis using Some e x w True False nn by (auto simp: Let_def MoneyRange_def)
      qed
    next
      case False
      then show ?thesis using Some e x by (auto simp: Let_def input_checked_def)
    qed
  qed
qed

lemma connect_mark_signed:
  assumes "connect_mark L True write q tx i vs inputs pool = (Inr u, pool')" "k < length vs"
  shows "VerifySignature L (prev_tx inputs (vs ! k)) tx (i + k) 0 = Some True"
  using assms
proof (induction vs arbitrary: i inputs pool k)
  case Nil
  then show ?case by simp
next
  case (Cons txin r)
  let ?h = "op_hash (prevout txin)"
  from Cons.prems(1) obtain ti t where h: "inputs ?h = Some (ti, t)"
    and v: "VerifySignature L t tx i 0 = Some True"
    and rest: "connect_mark L True write q tx (Suc i) r
      (inputs(?h \<mapsto> (ti\<lparr>vSpent := (vSpent ti)[unat (op_n (prevout txin)) := q]\<rparr>, t)))
      (if write then pool(?h \<mapsto> ti\<lparr>vSpent := (vSpent ti)[unat (op_n (prevout txin)) := q]\<rparr>) else pool) = (Inr u, pool')"
    by (auto simp: Let_def split: option.splits if_splits bool.splits)
  have same: "prev_tx (inputs(?h \<mapsto> (ti', t))) x = prev_tx inputs x" for x ti'
    using h by (auto simp: prev_tx_def)
  show ?case
  proof (cases k)
    case 0
    then show ?thesis using h v by (simp add: prev_tx_def)
  next
    case (Suc j)
    then show ?thesis using Cons.IH [OF rest, of j] Cons.prems(2) by (simp add: same del: fun_upd_apply)
  qed
qed

text \<open>Marking: every input is a coin of the view, no two inputs are the same coin, and exactly the
  inputs leave the set of coins.\<close>

lemma connect_mark_coins:
  assumes "connect_mark L cs True q tx i vs inputs pool = (Inr u, pool')" "inputs_agree (view db pool) inputs"
    "list_all (input_checked inputs chain tx) vs" "\<not> CDiskTxPos_IsNull q"
  shows "distinct (map prevout vs) \<and> prevout ` set vs \<subseteq> coins (view db pool) \<and>
     coins (view db pool') = coins (view db pool) - prevout ` set vs"
  using assms(1-3)
proof (induction vs arbitrary: i inputs pool)
  case Nil
  then show ?case by simp
next
  case (Cons txin r)
  let ?p = "prevout txin"
  let ?h = "op_hash ?p" and ?n = "unat (op_n ?p)"
  from Cons.prems(1) obtain ti t where h: "inputs ?h = Some (ti, t)"
    and un: "CDiskTxPos_IsNull (vSpent ti ! ?n)"
    and rest: "connect_mark L cs True q tx (Suc i) r (inputs(?h \<mapsto> (ti\<lparr>vSpent := (vSpent ti)[?n := q]\<rparr>, t)))
      (pool(?h \<mapsto> ti\<lparr>vSpent := (vSpent ti)[?n := q]\<rparr>)) = (Inr u, pool')"
    by (auto simp: Let_def split: option.splits if_splits bool.splits)
  have n: "?n < length (vSpent ti)" using Cons.prems(3) h by (simp add: input_checked_def)
  have vh: "view db pool ?h = Some ti" using Cons.prems(2) h by (auto simp: inputs_agree_def)
  have p: "?p \<in> coins (view db pool)" using vh n un by (auto simp: coins_def)
  let ?in' = "inputs(?h \<mapsto> (ti\<lparr>vSpent := (vSpent ti)[?n := q]\<rparr>, t))"
    and ?pool' = "pool(?h \<mapsto> ti\<lparr>vSpent := (vSpent ti)[?n := q]\<rparr>)"
  have "inputs_agree (view db ?pool') ?in'"
    using Cons.prems(2) by (auto simp: inputs_agree_def)
  moreover have "list_all (input_checked ?in' chain tx) r"
    using Cons.prems(3) h
    by (auto simp: list_all_iff input_checked_def immature_def prev_value_def prev_tx_def split: option.splits if_splits)
  ultimately have IH: "distinct (map prevout r) \<and> prevout ` set r \<subseteq> coins (view db ?pool') \<and>
     coins (view db pool') = coins (view db ?pool') - prevout ` set r"
    using Cons.IH [OF rest] by blast
  have "coins (view db ?pool') = coins (view db pool) - {?p}"
    using coins_mark [of "view db pool" ?p ti q] vh n assms(4) by simp
  with IH p show ?case by auto
qed

section \<open>Marking and unmarking\<close>

definition mark_one :: "CDiskTxPos \<Rightarrow> COutPoint \<Rightarrow> txmap \<Rightarrow> txmap" where
  "mark_one q p m = (case m (op_hash p) of None \<Rightarrow> m
     | Some ti \<Rightarrow> m(op_hash p \<mapsto> ti\<lparr>vSpent := (vSpent ti)[unat (op_n p) := q]\<rparr>))"

definition mark_all :: "CDiskTxPos \<Rightarrow> COutPoint list \<Rightarrow> txmap \<Rightarrow> txmap" where
  "mark_all q ps m = fold (mark_one q) ps m"

lemma mark_all_simps [simp]: "mark_all q [] m = m" "mark_all q (p # ps) m = mark_all q ps (mark_one q p m)"
  by (simp_all add: mark_all_def)

lemma mark_one_dom [simp]: "(mark_one q p m h = None) = (m h = None)"
  by (auto simp: mark_one_def split: option.split)

lemma mark_all_dom [simp]: "(mark_all q ps m h = None) = (m h = None)"
  by (induction ps arbitrary: m) simp_all

lemma mark_one_length: "mark_one q p m h = Some ti' \<Longrightarrow> \<exists>ti. m h = Some ti \<and> pos ti' = pos ti \<and> length (vSpent ti') = length (vSpent ti)"
  by (auto simp: mark_one_def split: option.splits if_splits)

lemma mark_one_again: "mark_one q p (mark_one q' p m) = mark_one q p m"
  by (auto simp: mark_one_def split: option.split)

lemma mark_one_commute:
  assumes "p \<noteq> p'"
  shows "mark_one q p (mark_one q' p' m) = mark_one q' p' (mark_one q p m)"
proof (cases "op_hash p = op_hash p'")
  case True
  with assms have "unat (op_n p) \<noteq> unat (op_n p')" by (simp add: outpoint_eq_iff)
  then show ?thesis using True by (auto simp: mark_one_def list_update_swap split: option.split)
next
  case False
  then show ?thesis by (auto simp: mark_one_def fun_upd_twist split: option.split)
qed

lemma mark_all_commute: "p \<notin> set ps \<Longrightarrow> mark_one q p (mark_all q' ps m) = mark_all q' ps (mark_one q p m)"
  by (induction ps arbitrary: m) (auto simp: mark_one_commute)

lemma mark_one_upd: "op_hash p \<noteq> h \<Longrightarrow> mark_one q p (m(h := x)) = (mark_one q p m)(h := x)"
  by (auto simp: mark_one_def fun_upd_twist split: option.split)

lemma mark_all_upd: "h \<notin> op_hash ` set ps \<Longrightarrow> mark_all q ps (m(h := x)) = (mark_all q ps m)(h := x)"
  by (induction ps arbitrary: m) (auto simp: mark_one_upd)

definition exact_null :: "txmap \<Rightarrow> COutPoint \<Rightarrow> bool" where
  "exact_null m p \<longleftrightarrow> (\<exists>ti. m (op_hash p) = Some ti \<and> unat (op_n p) < length (vSpent ti) \<and>
      vSpent ti ! unat (op_n p) = CDiskTxPos_Null)"

lemma mark_one_null: "exact_null m p \<Longrightarrow> mark_one CDiskTxPos_Null p m = m"
  by (auto simp: exact_null_def mark_one_def fun_upd_idem) (metis (no_types, lifting) CTxIndex.surjective CTxIndex.update_convs(2) fun_upd_idem list_update_id)

lemma unmark_mark:
  "distinct ps \<Longrightarrow> \<forall>p \<in> set ps. exact_null m p \<Longrightarrow> mark_all CDiskTxPos_Null ps (mark_all q ps m) = m"
proof (induction ps)
  case Nil
  then show ?case by simp
next
  case (Cons p ps)
  then show ?case using mark_all_commute [of p ps CDiskTxPos_Null q "mark_one q p m"]
    by (simp add: mark_one_again mark_one_null)
qed

lemma connect_mark_view:
  assumes "connect_mark L cs True q tx i vs inputs pool = (Inr u, pool')" "inputs_agree (view db pool) inputs"
  shows "view db pool' = mark_all q (map prevout vs) (view db pool)"
  using assms
proof (induction vs arbitrary: i inputs pool)
  case Nil
  then show ?case by simp
next
  case (Cons txin r)
  let ?h = "op_hash (prevout txin)" and ?n = "unat (op_n (prevout txin))"
  from Cons.prems(1) obtain ti t where h: "inputs ?h = Some (ti, t)"
    and rest: "connect_mark L cs True q tx (Suc i) r (inputs(?h \<mapsto> (ti\<lparr>vSpent := (vSpent ti)[?n := q]\<rparr>, t)))
      (pool(?h \<mapsto> ti\<lparr>vSpent := (vSpent ti)[?n := q]\<rparr>)) = (Inr u, pool')"
    by (auto simp: Let_def split: option.splits if_splits bool.splits)
  have vh: "view db pool ?h = Some ti" using Cons.prems(2) h by (auto simp: inputs_agree_def)
  have "inputs_agree (view db (pool(?h \<mapsto> ti\<lparr>vSpent := (vSpent ti)[?n := q]\<rparr>)))
      (inputs(?h \<mapsto> (ti\<lparr>vSpent := (vSpent ti)[?n := q]\<rparr>, t)))"
    using Cons.prems(2) by (auto simp: inputs_agree_def)
  from Cons.IH [OF rest this] show ?case using vh by (simp add: mark_one_def del: fun_upd_apply)
qed

lemma disconnect_loop_mark:
  assumes "\<forall>txin \<in> set vs. \<exists>ti. db_tx db (op_hash (prevout txin)) = Some ti \<and>
      unat (op_n (prevout txin)) < length (vSpent ti)"
  shows "disconnect_loop vs db = (True, db\<lparr>db_tx := mark_all CDiskTxPos_Null (map prevout vs) (db_tx db)\<rparr>)"
  using assms
proof (induction vs arbitrary: db)
  case Nil
  then show ?case by simp
next
  case (Cons txin r)
  let ?p = "prevout txin"
  from Cons.prems obtain ti where ti: "db_tx db (op_hash ?p) = Some ti" "unat (op_n ?p) < length (vSpent ti)" by auto
  let ?db = "db\<lparr>db_tx := mark_one CDiskTxPos_Null ?p (db_tx db)\<rparr>"
  have u: "UpdateTxIndex (op_hash ?p) (ti\<lparr>vSpent := (vSpent ti)[unat (op_n ?p) := CDiskTxPos_Null]\<rparr>) db = ?db"
    using ti by (simp add: UpdateTxIndex_def mark_one_def)
  have "\<forall>txin \<in> set r. \<exists>ti. db_tx ?db (op_hash (prevout txin)) = Some ti \<and> unat (op_n (prevout txin)) < length (vSpent ti)"
  proof
    fix x assume "x \<in> set r"
    with Cons.prems obtain ti' where "db_tx db (op_hash (prevout x)) = Some ti'" "unat (op_n (prevout x)) < length (vSpent ti')"
      by auto
    then show "\<exists>ti. db_tx ?db (op_hash (prevout x)) = Some ti \<and> unat (op_n (prevout x)) < length (vSpent ti)"
      using ti by (auto simp: mark_one_def)
  qed
  from Cons.IH [OF this] show ?case using ti u by (simp add: ReadTxIndex_def Let_def)
qed

section \<open>Connecting a transaction\<close>

lemma ConnectInputs_InrD:
  assumes "ConnectInputs L E inputs pool q chain fBlock fMiner tx = (Inr u, pool')" "\<not> IsCoinBase tx"
  shows "MoneyRange (total_in inputs tx)" "list_all (input_checked inputs chain tx) (vin tx)"
    "connect_mark L (\<not> (fBlock \<and> best_height E < total_blocks_estimate E)) (fBlock \<or> fMiner) q tx 0 (vin tx) inputs pool
       = (Inr (), pool')"
    "connect_fee tx (total_in inputs tx) = Inr ()"
proof -
  let ?cm = "connect_mark L (\<not> (fBlock \<and> best_height E < total_blocks_estimate E)) (fBlock \<or> fMiner) q tx 0 (vin tx) inputs pool"
  obtain v where v: "connect_check inputs chain tx 0 (vin tx) = Inr v"
    using assms by (cases "connect_check inputs chain tx 0 (vin tx)") (simp_all add: ConnectInputs_def)
  have t: "v = total_in inputs tx" "MoneyRange v" and c: "list_all (input_checked inputs chain tx) (vin tx)"
    using v by (auto simp: connect_check_Inr total_in_def)
  obtain r p where rp: "?cm = (r, p)" by (cases ?cm)
  have "r = Inr ()" using assms v rp by (cases r) (simp_all add: ConnectInputs_def)
  moreover from this have "p = pool'" "connect_fee tx v = Inr ()" using assms v rp by (simp_all add: ConnectInputs_def)
  ultimately show "MoneyRange (total_in inputs tx)" "list_all (input_checked inputs chain tx) (vin tx)"
    "?cm = (Inr (), pool')" "connect_fee tx (total_in inputs tx) = Inr ()"
    using t c rp by simp_all
qed

lemma GetMinFee_default: "GetMinFee (Suc 0) GMF_BLOCK 0 tx = 20"
  by (simp add: GetMinFee_def Let_def MoneyRange_def in_i64_def)

lemma connect_fee_Inr:
  assumes "MoneyRange v" "\<not> IsCoinStake tx"
  shows "connect_fee tx v = Inr () \<longleftrightarrow>
     (\<exists>out. GetValueOut tx = Some out \<and> MoneyRange out \<and> out + 20 \<le> v)"
proof (cases "GetValueOut tx")
  case None
  then show ?thesis using assms by (simp add: connect_fee_def)
next
  case (Some out)
  then have out: "MoneyRange out" using value_out_loop_range [of 0 "vout tx" out] by (auto simp: GetValueOut_def)
  have "i64 (v - out) = v - out"
    by (rule i64_id) (use assms(1) out in \<open>auto simp: MoneyRange_def in_i64_def\<close>)
  then show ?thesis using assms Some out
    by (auto simp: connect_fee_def GetMinFee_default Let_def MoneyRange_def in_i64_def)
qed

lemma GetValueOut_total: "GetValueOut tx = Some v \<Longrightarrow> MoneyRange v \<and> v = total_out (vout tx) \<and>
    list_all (\<lambda>t. MoneyRange (nValue t)) (vout tx)"
  using value_out_loop_range [of 0 "vout tx" v] by (auto simp: GetValueOut_def)

lemma i64_add_left: "i64 (i64 a + b) = i64 (a + b)"
  unfolding i64_def signed_take_bit_eq_take_bit_shift
  by (simp add: take_bit_eq_mod mod_simps algebra_simps)

lemma total_in_value_in:
  assumes "list_all (input_checked inputs chain tx) vs"
  shows "value_in_loop inputs acc vs = Inr v \<Longrightarrow> in_i64 acc \<Longrightarrow> v = i64 (acc + sum_list (map (prev_value inputs) vs))"
  using assms
proof (induction vs arbitrary: acc)
  case Nil
  then show ?case by simp
next
  case (Cons txin r)
  then obtain ti t where e: "inputs (op_hash (prevout txin)) = Some (ti, t)" "unat (op_n (prevout txin)) < length (vout t)"
    by (auto simp: input_checked_def split: option.splits)
  then have "value_in_loop inputs (i64 (acc + prev_value inputs txin)) r = Inr v"
    using Cons.prems(1) by (simp add: GetOutputFor_def prev_value_def prev_tx_def)
  from Cons.IH [OF this] Cons.prems(3) show ?case
    using i64_add_left [of "acc + prev_value inputs txin" "sum_list (map (prev_value inputs) r)"] by (simp add: add.assoc)
qed

lemma value_in_total_in:
  assumes "ConnectInputs L E inputs pool q chain fBlock fMiner tx = (Inr u, pool')" "\<not> IsCoinBase tx"
    "GetValueMapIn inputs tx = Inr v"
  shows "v = total_in inputs tx"
proof -
  have "v = i64 (total_in inputs tx)"
    using total_in_value_in [OF ConnectInputs_InrD(2) [OF assms(1,2)], of 0 v] assms(2,3)
    by (simp add: GetValueMapIn_def total_in_def in_i64_def)
  then show ?thesis using ConnectInputs_InrD(1) [OF assms(1,2)]
    by (auto simp: MoneyRange_def in_i64_def intro!: i64_id)
qed

text \<open>The whole effect of connecting a transaction to the view of a block.\<close>

lemma ConnectInputs_block:
  assumes f: "FetchInputs E db pool True False Map.empty tx = (Inr u, inputs)"
    and c: "ConnectInputs L E inputs pool q chain True False tx = (Inr u', pool')"
    and q: "\<not> CDiskTxPos_IsNull q"
  shows "spent_by tx \<subseteq> coins (view db pool)" "\<not> IsCoinBase tx \<Longrightarrow> distinct (map prevout (vin tx))"
    "coins (view db pool') = coins (view db pool) - spent_by tx"
    "view db pool' = (if IsCoinBase tx then view db pool else mark_all q (map prevout (vin tx)) (view db pool))"
proof -
  have a: "inputs_agree (view db pool) inputs" by (rule FetchInputs_agree [OF f])
  consider (cb) "IsCoinBase tx" | (n) "\<not> IsCoinBase tx" by blast
  then have "spent_by tx \<subseteq> coins (view db pool) \<and> (\<not> IsCoinBase tx \<longrightarrow> distinct (map prevout (vin tx))) \<and>
    coins (view db pool') = coins (view db pool) - spent_by tx \<and>
    view db pool' = (if IsCoinBase tx then view db pool else mark_all q (map prevout (vin tx)) (view db pool))"
  proof cases
    case cb
    then show ?thesis using c by (simp add: spent_by_def ConnectInputs_def)
  next
    case n
    note D = ConnectInputs_InrD [OF c n, simplified]
    show ?thesis using n connect_mark_coins [OF D(3) a D(2) q] connect_mark_view [OF D(3) a]
      by (simp add: spent_by_def)
  qed
  then show "spent_by tx \<subseteq> coins (view db pool)" "\<not> IsCoinBase tx \<Longrightarrow> distinct (map prevout (vin tx))"
    "coins (view db pool') = coins (view db pool) - spent_by tx"
    "view db pool' = (if IsCoinBase tx then view db pool else mark_all q (map prevout (vin tx)) (view db pool))"
    by auto
qed

section \<open>Properties\<close>

text \<open>A previous transaction with one anyone-can-spend output and a transaction spending it.\<close>

definition demo_prev :: CTransaction where
  "demo_prev = \<lparr>nVersion = 1, nTime = 10, vin = [\<lparr>prevout = COutPoint 5 0, scriptSig = [], nSequence = -1\<rparr>],
     vout = [\<lparr>nValue = 1000, scriptPubKey = [0x51]\<rparr>], nLockTime = 0\<rparr>"

definition demo_spend :: CTransaction where
  "demo_spend = \<lparr>nVersion = 1, nTime = 20,
     vin = [\<lparr>prevout = COutPoint (GetHash ssl_demo demo_prev) 0, scriptSig = [], nSequence = -1\<rparr>],
     vout = [\<lparr>nValue = 900, scriptPubKey = [0x51]\<rparr>], nLockTime = 0\<rparr>"

definition demo_pos :: CDiskTxPos where
  "demo_pos = \<lparr>nFile = 1, nBlockPos = 300, nTxPos = 400\<rparr>"

definition demo_env :: node_env where
  "demo_env = \<lparr>disk_tx = (\<lambda>_. Inr demo_prev), disk_header = (\<lambda>_ _. None), mempool_tx = (\<lambda>_. None), adjusted_time = 50,
     best_height = 100, total_blocks_estimate = 0, Hash9 = Hash ssl_demo, mt19937 = (\<lambda>_. 50), env_params = mainnet\<rparr>"

definition demo_db :: CTxDB where
  "demo_db = \<lparr>db_tx = [GetHash ssl_demo demo_prev \<mapsto> CTxIndex_new demo_pos 1], db_index = (\<lambda>_. None)\<rparr>"

definition demo_inputs :: MapPrevTx where
  "demo_inputs = [GetHash ssl_demo demo_prev \<mapsto> (CTxIndex_new demo_pos 1, demo_prev)]"

lemma demo_fetch: "FetchInputs demo_env demo_db Map.empty True False Map.empty demo_spend = (Inr (), demo_inputs)"
  by (simp add: FetchInputs_def IsCoinBase_def demo_spend_def COutPoint_IsNull_def Let_def fetch_one_def ReadTxIndex_def
      demo_db_def demo_inputs_def demo_env_def CTxIndex_new_def demo_pos_def pos_mempool_def demo_prev_def)

lemma demo_verify: "VerifySignature ssl_demo demo_prev demo_spend 0 0 = Some True"
proof -
  have "VerifyScript ssl_demo [] [0x51] demo_spend 0 0"
    by (simp add: VerifyScript_def eval_simps exec_push_def IsPayToScriptHash_def getvch_doc vch_enc_def mag_bytes.simps [of "Suc 0"])
  then show ?thesis by (simp add: VerifySignature_def demo_spend_def demo_prev_def Let_def)
qed

lemma demo_connect:
  "ConnectInputs ssl_demo demo_env demo_inputs Map.empty demo_pos [demo_index 30] True False demo_spend =
     (Inr (), [GetHash ssl_demo demo_prev \<mapsto> \<lparr>pos = demo_pos, vSpent = [demo_pos]\<rparr>])"
proof -
  have [simp]: "\<not> IsCoinBase demo_spend" "\<not> IsCoinStake demo_spend" "\<not> IsCoinBase demo_prev" "\<not> IsCoinStake demo_prev"
    by (simp_all add: IsCoinBase_def IsCoinStake_def demo_spend_def demo_prev_def COutPoint_IsNull_def)
  have vin: "vin demo_spend = [\<lparr>prevout = COutPoint (GetHash ssl_demo demo_prev) 0, scriptSig = [], nSequence = -1\<rparr>]"
    by (simp add: demo_spend_def)
  have c: "connect_check demo_inputs [demo_index 30] demo_spend 0 (vin demo_spend) = Inr 1000"
    unfolding vin
    by (simp add: demo_inputs_def CTxIndex_new_def Let_def MoneyRange_def in_i64_def)
       (simp add: demo_spend_def demo_prev_def in_i64_def)
  have m: "connect_mark ssl_demo True True demo_pos demo_spend 0 (vin demo_spend) demo_inputs Map.empty =
     (Inr (), [GetHash ssl_demo demo_prev \<mapsto> \<lparr>pos = demo_pos, vSpent = [demo_pos]\<rparr>])"
    unfolding vin by (simp add: demo_inputs_def CTxIndex_new_def Let_def demo_verify)
  have "GetValueOut demo_spend = Some 900"
    by (simp add: MoneyRange_def GetValueOut_def demo_spend_def in_i64_def Let_def)
  then have f: "connect_fee demo_spend 1000 = Inr ()" by (simp add: connect_fee_Inr MoneyRange_def)
  show ?thesis using c m f by (simp add: ConnectInputs_def demo_env_def)
qed

text \<open>C8. No double spend: when a transaction is fetched and connected while a block is connected, its
  inputs are pairwise different coins of the current view (database overlaid with the queued changes of
  the block), and afterwards the coins are exactly the old ones without those inputs.\<close>

theorem connect_inputs_spend_coins:
  assumes "FetchInputs E db pool True False Map.empty tx = (Inr (), inputs)"
    and "ConnectInputs L E inputs pool q chain True False tx = (Inr (), pool')"
    and "\<not> IsCoinBase tx" "\<not> CDiskTxPos_IsNull q"
  shows "distinct (map prevout (vin tx)) \<and> prevout ` set (vin tx) \<subseteq> coins (view db pool) \<and>
     coins (view db pool') = coins (view db pool) - prevout ` set (vin tx)"
  using ConnectInputs_block [OF assms(1,2,4)] assms(3) by (simp add: spent_by_def)

theorem connect_inputs_spend_coins_witness:
  "coins (view demo_db [GetHash ssl_demo demo_prev \<mapsto> \<lparr>pos = demo_pos, vSpent = [demo_pos]\<rparr>]) =
     coins (view demo_db Map.empty) - {COutPoint (GetHash ssl_demo demo_prev) 0}"
  using connect_inputs_spend_coins [OF demo_fetch demo_connect]
  by (simp add: IsCoinBase_def demo_spend_def COutPoint_IsNull_def demo_pos_def CDiskTxPos_IsNull_def)



end
