(* ===== verification/Block.thy ===== *)
theory Block
  imports Ledger
begin

text \<open>
  Blocks (\<open>main.cpp\<close>): the context-free checks \<open>CheckBlock\<close> and \<open>CheckBlockSignature\<close>, connecting a
  block to the ledger and disconnecting it again (\<open>ConnectBlock\<close>, \<open>DisconnectBlock\<close>), and the balance
  check of \<open>AcceptBlock\<close>. A block index pointer is the chain from that entry down to genesis, newest
  first. Besides the updated database the operations return the calls of \<open>SyncWithWallets\<close> they make,
  as triples of transaction, \<open>fUpdate\<close> and \<open>fConnect\<close>.
\<close>

section \<open>CheckBlock\<close>

datatype block_error = Blk_size_limits | Blk_proof_of_work | Blk_time_future | Blk_first_not_coinbase
  | Blk_more_than_one_coinbase | Blk_coinbase_too_early | Blk_coinbase_not_empty | Blk_second_not_coinstake
  | Blk_more_than_one_coinstake | Blk_coinstake_timestamp | Blk_bad_signature | Blk_transaction tx_error
  | Blk_tx_after_block | Blk_duplicate_transaction | Blk_sigops | Blk_merkle_mismatch

text \<open>The denial-of-service score recorded with each rejection.\<close>

fun block_dos :: "block_error \<Rightarrow> nat" where
  "block_dos Blk_proof_of_work = 50"
| "block_dos Blk_time_future = 0"
| "block_dos Blk_coinbase_too_early = 50"
| "block_dos Blk_coinbase_not_empty = 0"
| "block_dos Blk_coinstake_timestamp = 50"
| "block_dos (Blk_transaction e) = tx_dos e"
| "block_dos Blk_tx_after_block = 50"
| "block_dos _ = 100"

definition CheckCoinStakeTimestamp :: "int \<Rightarrow> int \<Rightarrow> bool" where
  "CheckCoinStakeTimestamp nTimeBlock nTimeTx \<longleftrightarrow> nTimeBlock = nTimeTx"

definition CheckBlockSignature :: "ssl_lib \<Rightarrow> node_env \<Rightarrow> CBlock \<Rightarrow> bool" where
  "CheckBlockSignature L E b =
     (if b_IsProofOfWork b then vchBlockSig b = []
      else case Solver (scriptPubKey (vout (vtx b ! 1) ! 1)) of (ok, whichType, vSolutions) \<Rightarrow>
        if \<not> ok then False
        else if whichType = TX_PUBKEY then
          let vchPubKey = vSolutions ! 0 in
          if \<not> CKey_SetPubKey L vchPubKey then False
          else if vchBlockSig b = [] then False
          else CKey_Verify L vchPubKey (b_GetHash E b) (vchBlockSig b)
        else False)"

text \<open>The loop over the transactions of a block.\<close>

fun check_txs :: "int \<Rightarrow> CTransaction list \<Rightarrow> block_error option" where
  "check_txs blockTime [] = None"
| "check_txs blockTime (tx # r) =
     (case CheckTransaction tx of
        Inl e \<Rightarrow> Some (Blk_transaction e)
      | Inr _ \<Rightarrow> if blockTime < uint (nTime tx) then Some Blk_tx_after_block else check_txs blockTime r)"

definition check_stake_layout :: "ssl_lib \<Rightarrow> node_env \<Rightarrow> bool \<Rightarrow> CBlock \<Rightarrow> block_error option" where
  "check_stake_layout L E fCheckSig b =
     (if \<not> b_IsProofOfStake b then None
      else if length (vout (vtx b ! 0)) \<noteq> 2 \<or> \<not> CTxOut_IsEmpty (vout (vtx b ! 0) ! 0) \<or>
              \<not> CTxOut_IsEmpty (vout (vtx b ! 0) ! 1) then Some Blk_coinbase_not_empty
      else if vtx b = [] \<or> \<not> IsCoinStake (vtx b ! 1) then Some Blk_second_not_coinstake
      else if list_ex IsCoinStake (drop 2 (vtx b)) then Some Blk_more_than_one_coinstake
      else if \<not> CheckCoinStakeTimestamp (b_GetBlockTime b) (uint (nTime (vtx b ! 1))) then Some Blk_coinstake_timestamp
      else if fCheckSig \<and> \<not> CheckBlockSignature L E b then Some Blk_bad_signature
      else None)"

definition CheckBlock :: "ssl_lib \<Rightarrow> node_env \<Rightarrow> bool \<Rightarrow> bool \<Rightarrow> bool \<Rightarrow> CBlock \<Rightarrow> block_error option" where
  "CheckBlock L E fCheckPOW fCheckMerkleRoot fCheckSig b =
     (if vtx b = [] \<or> length (vtx b) > MAX_BLOCK_SIZE \<or> GetSerializeSize_block b > MAX_BLOCK_SIZE then Some Blk_size_limits
      else if fCheckPOW \<and> b_IsProofOfWork b \<and> \<not> CheckProofOfWork (bn L) (env_params E) (b_GetHash E b) (b_nBits b)
        then Some Blk_proof_of_work
      else if b_GetBlockTime b > adjusted_time E + GetClockDrift (b_GetBlockTime b) then Some Blk_time_future
      else if vtx b = [] \<or> \<not> IsCoinBase (vtx b ! 0) then Some Blk_first_not_coinbase
      else if list_ex IsCoinBase (drop 1 (vtx b)) then Some Blk_more_than_one_coinbase
      else if b_GetBlockTime b > uint (nTime (vtx b ! 0)) + GetClockDrift (uint (nTime (vtx b ! 0)))
        then Some Blk_coinbase_too_early
      else case check_stake_layout L E fCheckSig b of
        Some e \<Rightarrow> Some e
      | None \<Rightarrow>
          (case check_txs (b_GetBlockTime b) (vtx b) of
             Some e \<Rightarrow> Some e
           | None \<Rightarrow>
               let uniqueTx = set (map (GetHash L) (vtx b));
                   nSigOps = sum_list (map GetLegacySigOpCount (vtx b)) mod 2 ^ 32
               in if card uniqueTx \<noteq> length (vtx b) then Some Blk_duplicate_transaction
                  else if nSigOps > MAX_BLOCK_SIGOPS then Some Blk_sigops
                  else if fCheckMerkleRoot \<and> b_hashMerkleRoot b \<noteq> BuildMerkleTree L (vtx b) then Some Blk_merkle_mismatch
                  else None))"

section \<open>ConnectBlock\<close>

record connect_state =
  mapQueuedChanges :: txmap
  cs_nFees :: int
  cs_nValueIn :: int
  cs_nValueOut :: int
  cs_nStakeReward :: int
  cs_nSigOps :: nat
  cs_nTxPos :: u32

definition connect_tx :: "ssl_lib \<Rightarrow> node_env \<Rightarrow> CTxDB \<Rightarrow> CBlockIndex list \<Rightarrow> bool \<Rightarrow> CTransaction \<Rightarrow> connect_state \<Rightarrow>
    ledger_error + connect_state" where
  "connect_tx L E db pindex fJustCheck tx st =
     (let hashTx = GetHash L tx in
      if (case ReadTxIndex hashTx db of None \<Rightarrow> False | Some ti \<Rightarrow> list_ex CDiskTxPos_IsNull (vSpent ti))
      then Inl Overwrites_unspent
      else let nSigOps = (cs_nSigOps st + GetLegacySigOpCount tx) mod 2 ^ 32 in
      if nSigOps > MAX_BLOCK_SIGOPS then Inl Too_many_sigops
      else let posThisTx = \<lparr>nFile = bi_nFile (hd pindex), nBlockPos = bi_nBlockPos (hd pindex), nTxPos = cs_nTxPos st\<rparr>;
               nTxPos1 = (if fJustCheck then cs_nTxPos st else cs_nTxPos st + of_nat (GetSerializeSize_tx tx));
               own = CTxIndex_new posThisTx (length (vout tx))
      in if IsCoinBase tx then
           (case GetValueOut tx of
              None \<Rightarrow> Inl Runtime_error
            | Some v \<Rightarrow> Inr (st\<lparr>cs_nValueOut := i64 (cs_nValueOut st + v), cs_nSigOps := nSigOps, cs_nTxPos := nTxPos1,
                               mapQueuedChanges := (mapQueuedChanges st)(hashTx \<mapsto> own)\<rparr>))
         else case FetchInputs E db (mapQueuedChanges st) True False (\<lambda>_. None) tx of
                (Inl e, _) \<Rightarrow> Inl e
              | (Inr _, mapInputs) \<Rightarrow>
                  (case GetP2SHSigOpCount mapInputs tx of
                     Inl e \<Rightarrow> Inl e
                   | Inr p2sh \<Rightarrow>
                       let nSigOps1 = (nSigOps + p2sh) mod 2 ^ 32 in
                       if nSigOps1 > MAX_BLOCK_SIGOPS then Inl Too_many_sigops
                       else case GetValueMapIn mapInputs tx of
                              Inl e \<Rightarrow> Inl e
                            | Inr nTxValueIn \<Rightarrow>
                                (case GetValueOut tx of
                                   None \<Rightarrow> Inl Runtime_error
                                 | Some nTxValueOut \<Rightarrow>
                                     (case ConnectInputs L E mapInputs (mapQueuedChanges st) posThisTx pindex True False tx of
                                        (Inl e, _) \<Rightarrow> Inl e
                                      | (Inr _, pool) \<Rightarrow>
                                          Inr (st\<lparr>cs_nValueIn := i64 (cs_nValueIn st + nTxValueIn),
                                                  cs_nValueOut := i64 (cs_nValueOut st + nTxValueOut),
                                                  cs_nFees := (if IsCoinStake tx then cs_nFees st
                                                               else i64 (cs_nFees st + i64 (nTxValueIn - nTxValueOut))),
                                                  cs_nStakeReward := (if IsCoinStake tx then i64 (nTxValueOut - nTxValueIn)
                                                                      else cs_nStakeReward st),
                                                  cs_nSigOps := nSigOps1, cs_nTxPos := nTxPos1,
                                                  mapQueuedChanges := pool(hashTx \<mapsto> own)\<rparr>)))))"

fun connect_txs :: "ssl_lib \<Rightarrow> node_env \<Rightarrow> CTxDB \<Rightarrow> CBlockIndex list \<Rightarrow> bool \<Rightarrow> CTransaction list \<Rightarrow> connect_state \<Rightarrow>
    ledger_error + connect_state" where
  "connect_txs L E db pindex fJustCheck [] st = Inr st"
| "connect_txs L E db pindex fJustCheck (tx # r) st =
     (case connect_tx L E db pindex fJustCheck tx st of
        Inl e \<Rightarrow> Inl e
      | Inr st1 \<Rightarrow> connect_txs L E db pindex fJustCheck r st1)"

definition connect_init :: "CBlockIndex list \<Rightarrow> bool \<Rightarrow> CBlock \<Rightarrow> connect_state" where
  "connect_init pindex fJustCheck b =
     \<lparr>mapQueuedChanges = (\<lambda>_. None), cs_nFees = 0, cs_nValueIn = 0, cs_nValueOut = 0, cs_nStakeReward = 0, cs_nSigOps = 0,
      cs_nTxPos = (if fJustCheck then 1
                   else bi_nBlockPos (hd pindex) + of_nat (80 + GetSizeOfCompactSize 0 + GetSizeOfCompactSize 0) -
                        of_nat (2 * GetSizeOfCompactSize 0) + of_nat (GetSizeOfCompactSize (length (vtx b))))\<rparr>"

text \<open>The reward rules; \<open>None\<close> is success.\<close>

definition check_rewards :: "ssl_lib \<Rightarrow> node_env \<Rightarrow> CTxDB \<Rightarrow> CBlockIndex list \<Rightarrow> CBlock \<Rightarrow> connect_state \<Rightarrow> ledger_error option" where
  "check_rewards L E db pindex b st =
     (if b_IsProofOfWork b then
        (case GetValueOut (vtx b ! 0) of
           None \<Rightarrow> Some Runtime_error
         | Some v \<Rightarrow> if v > GetProofOfWorkReward (best_height E) (cs_nFees st) then Some Coinbase_reward_exceeded else None)
      else let prevHash = (case tl pindex of [] \<Rightarrow> 0 | p # _ \<Rightarrow> bi_hash p) in
        (case GetCoinAge (bn L) E db (vtx b ! 1) of
           None \<Rightarrow> Some No_coin_age
         | Some nCoinAge \<Rightarrow>
             if cs_nStakeReward st > GetProofOfStakeReward (mt19937 E) (i64 (uint nCoinAge)) (cs_nFees st) (cs_nValueIn st) prevHash
             then Some Coinstake_pays_too_much else None))"

type_synonym wallet_sync = "CTransaction \<times> bool \<times> bool"

definition ConnectBlock :: "ssl_lib \<Rightarrow> node_env \<Rightarrow> CTxDB \<Rightarrow> CBlockIndex list \<Rightarrow> bool \<Rightarrow> CBlock \<Rightarrow>
    ledger_error + (CBlockIndex \<times> CTxDB \<times> wallet_sync list)" where
  "ConnectBlock L E db pindex fJustCheck b =
     (if CheckBlock L E (\<not> fJustCheck) (\<not> fJustCheck) False b \<noteq> None then Inl Block_invalid
      else case connect_txs L E db pindex fJustCheck (vtx b) (connect_init pindex fJustCheck b) of
             Inl e \<Rightarrow> Inl e
           | Inr st \<Rightarrow>
               (case check_rewards L E db pindex b st of
                  Some e \<Rightarrow> Inl e
                | None \<Rightarrow>
                    let prevSupply = (case tl pindex of [] \<Rightarrow> 0 | p # _ \<Rightarrow> bi_nMoneySupply p);
                        pindex1 = (hd pindex)\<lparr>bi_nMint := i64 (i64 (cs_nValueOut st - cs_nValueIn st) + cs_nFees st),
                                              bi_nMoneySupply := i64 (i64 (prevSupply + cs_nValueOut st) - cs_nValueIn st)\<rparr>;
                        db1 = WriteBlockIndex E (CDiskBlockIndex_of (pindex1 # tl pindex)) db
                    in if fJustCheck then Inr (pindex1, db1, [])
                       else let db2 = db1\<lparr>db_tx := db_tx db1 ++ mapQueuedChanges st\<rparr>;
                                db3 = (if tl pindex = [] then db2
                                       else WriteBlockIndex E ((CDiskBlockIndex_of (tl pindex))\<lparr>di_hashNext := bi_hash pindex1\<rparr>) db2)
                            in Inr (pindex1, db3, map (\<lambda>tx. (tx, True, True)) (vtx b))))"

section \<open>DisconnectBlock\<close>

fun disconnect_txs :: "ssl_lib \<Rightarrow> CTransaction list \<Rightarrow> CTxDB \<Rightarrow> bool \<times> CTxDB" where
  "disconnect_txs L [] db = (True, db)"
| "disconnect_txs L (tx # r) db =
     (case DisconnectInputs L tx db of
        (False, db1) \<Rightarrow> (False, db1)
      | (True, db1) \<Rightarrow> disconnect_txs L r db1)"

definition DisconnectBlock :: "ssl_lib \<Rightarrow> node_env \<Rightarrow> CTxDB \<Rightarrow> CBlockIndex list \<Rightarrow> CBlock \<Rightarrow> bool \<times> CTxDB \<times> wallet_sync list" where
  "DisconnectBlock L E db pindex b =
     (case disconnect_txs L (rev (vtx b)) db of
        (False, db1) \<Rightarrow> (False, db1, [])
      | (True, db1) \<Rightarrow>
          (True,
           if tl pindex = [] then db1
           else WriteBlockIndex E ((CDiskBlockIndex_of (tl pindex))\<lparr>di_hashNext := 0\<rparr>) db1,
           map (\<lambda>tx. (tx, False, False)) (vtx b)))"

section \<open>The balance check of AcceptBlock\<close>

text \<open>\<open>Bal_reject\<close> is one of the \<open>return DoS\<close> exits, \<open>Bal_throw\<close> an exception out of \<open>GetValueMapIn\<close> or
  \<open>GetValueOut\<close>.\<close>

datatype balance = Bal_sums int int | Bal_reject | Bal_throw

fun balance_loop :: "node_env \<Rightarrow> CTxDB \<Rightarrow> int \<Rightarrow> int \<Rightarrow> CTransaction list \<Rightarrow> balance" where
  "balance_loop E db ins outs [] = Bal_sums ins outs"
| "balance_loop E db ins outs (tx # r) =
     (case GetMapTxInputs E db (\<lambda>_. None) True False tx of
        (False, _) \<Rightarrow> Bal_reject
      | (True, mapInputs) \<Rightarrow>
          (case (GetValueMapIn mapInputs tx, GetValueOut tx) of
             (Inr vIn, Some vOut) \<Rightarrow>
               if \<not> i64 (ins + vIn) \<ge> 0 then Bal_reject
               else if \<not> i64 (outs + vOut) \<ge> 0 then Bal_reject
               else balance_loop E db (i64 (ins + vIn)) (i64 (outs + vOut)) r
           | _ \<Rightarrow> Bal_throw))"

definition attacked_heights :: "int list" where
  "attacked_heights = [696401, 696475, 696488, 696510, 696559, 696564, 696574, 696594, 696806]"

definition balance_check :: "node_env \<Rightarrow> CTxDB \<Rightarrow> int \<Rightarrow> CBlock \<Rightarrow> bool" where
  "balance_check E db nHeight b =
     (if \<not> (nHeight > 10000 \<and> nHeight \<notin> set attacked_heights) then True
      else case balance_loop E db 0 0 (vtx b) of
             Bal_sums ins outs \<Rightarrow> \<not> i64 (ins + GetProofOfWorkReward nHeight 0) < outs
           | Bal_reject \<Rightarrow> False
           | Bal_throw \<Rightarrow> \<not> nHeight > 701720)"

section \<open>A chain of transactions over a set of coins\<close>

text \<open>
  The interface a ledger offers to whoever connects a list of transactions: a state with a set of
  coins, and a step per transaction that may fail. \<open>base\<close> are the coins before the block.
\<close>

definition inputs_of :: "CTransaction \<Rightarrow> COutPoint list" where
  "inputs_of tx = (if IsCoinBase tx then [] else map prevout (vin tx))"

definition outputs_of :: "uint256 \<Rightarrow> CTransaction \<Rightarrow> COutPoint set" where
  "outputs_of h tx = {p. op_hash p = h \<and> unat (op_n p) < length (vout tx)}"

lemma set_inputs_of: "set (inputs_of tx) = spent_by tx"
  by (simp add: inputs_of_def spent_by_def)

fun run_steps :: "('t \<Rightarrow> 's \<Rightarrow> 's option) \<Rightarrow> 't list \<Rightarrow> 's \<Rightarrow> 's option" where
  "run_steps step [] s = Some s"
| "run_steps step (tx # r) s = (case step tx s of None \<Rightarrow> None | Some s1 \<Rightarrow> run_steps step r s1)"

locale coin_chain =
  fixes coins_of :: "'s \<Rightarrow> COutPoint set"
    and step :: "CTransaction \<Rightarrow> 's \<Rightarrow> 's option"
    and txid :: "CTransaction \<Rightarrow> uint256"
    and base :: "COutPoint set"
  assumes step_spends: "step tx s = Some s' \<Longrightarrow> set (inputs_of tx) \<subseteq> coins_of s"
    and step_distinct: "step tx s = Some s' \<Longrightarrow> distinct (inputs_of tx)"
    and step_coins: "step tx s = Some s' \<Longrightarrow>
      coins_of s' = {p \<in> coins_of s - set (inputs_of tx). op_hash p \<noteq> txid tx} \<union> outputs_of (txid tx) tx"
    and step_fresh: "step tx s = Some s' \<Longrightarrow> p \<in> base \<Longrightarrow> op_hash p \<noteq> txid tx"
begin

lemma run_fresh: "run_steps step txs s = Some s' \<Longrightarrow> p \<in> base \<Longrightarrow> op_hash p \<notin> txid ` set txs"
  by (induction txs arbitrary: s) (auto split: option.splits dest: step_fresh)

lemma run_dead:
  assumes "run_steps step txs s = Some s'" "distinct (map txid txs)"
    "\<forall>p \<in> coins_of s \<union> D. op_hash p \<notin> txid ` set txs" "D \<inter> coins_of s = {}"
  shows "distinct (concat (map inputs_of txs)) \<and> set (concat (map inputs_of txs)) \<inter> D = {} \<and>
     coins_of s' = (coins_of s \<union> (\<Union>tx \<in> set txs. outputs_of (txid tx) tx)) - set (concat (map inputs_of txs))"
  using assms
proof (induction txs arbitrary: s D)
  case Nil
  then show ?case by simp
next
  case (Cons tx r)
  from Cons.prems(1) obtain s1 where s1: "step tx s = Some s1" and r: "run_steps step r s1 = Some s'"
    by (auto split: option.splits)
  note sp = step_spends [OF s1] and ds = step_distinct [OF s1] and co = step_coins [OF s1]
  let ?D = "D \<union> set (inputs_of tx)" and ?out = "outputs_of (txid tx) tx"
  have h: "\<forall>p \<in> coins_of s \<union> D. op_hash p \<noteq> txid tx" using Cons.prems(3) by auto
  have co': "coins_of s1 = (coins_of s - set (inputs_of tx)) \<union> ?out" using co h by auto
  have out: "\<forall>p \<in> ?out. op_hash p = txid tx" by (simp add: outputs_of_def)
  have di: "distinct (map txid r)" using Cons.prems(2) by simp
  have ha: "\<forall>p \<in> coins_of s1 \<union> ?D. op_hash p \<notin> txid ` set r"
    using Cons.prems(2,3) co' out sp by auto
  have dis: "?D \<inter> coins_of s1 = {}"
  proof -
    have "?out \<inter> (coins_of s \<union> D) = {}" using h out by (meson disjoint_iff)
    then show ?thesis using Cons.prems(4) co' sp by blast
  qed
  have IH: "distinct (concat (map inputs_of r)) \<and> set (concat (map inputs_of r)) \<inter> ?D = {} \<and>
     coins_of s' = (coins_of s1 \<union> (\<Union>tx \<in> set r. outputs_of (txid tx) tx)) - set (concat (map inputs_of r))"
    by (rule Cons.IH [OF r di ha dis])
  have "set (inputs_of tx) \<inter> ?out = {}" using sp h out by (meson UnI1 disjoint_iff subsetD)
  moreover have "set (inputs_of tx) \<inter> (\<Union>tx \<in> set r. outputs_of (txid tx) tx) = {}"
    using sp Cons.prems(3) by (auto simp: outputs_of_def)
  ultimately show ?case using IH ds sp Cons.prems(4) co' by auto
qed

lemma run_coins:
  assumes "run_steps step txs s = Some s'" "distinct (map txid txs)" "coins_of s = base"
  shows "distinct (concat (map inputs_of txs))"
    "coins_of s' = (base \<union> (\<Union>tx \<in> set txs. outputs_of (txid tx) tx)) - set (concat (map inputs_of txs))"
  using run_dead [OF assms(1,2), of "{}"] run_fresh [OF assms(1)] assms(3) by auto

end

section \<open>The block connector provides it\<close>

definition block_step :: "ssl_lib \<Rightarrow> node_env \<Rightarrow> CTxDB \<Rightarrow> CBlockIndex list \<Rightarrow> bool \<Rightarrow> CTransaction \<Rightarrow> connect_state \<Rightarrow> connect_state option" where
  "block_step L E db pindex fJustCheck tx st =
     (if bi_nFile (hd pindex) = - 1 then None
      else case connect_tx L E db pindex fJustCheck tx st of Inl _ \<Rightarrow> None | Inr st1 \<Rightarrow> Some st1)"

definition this_pos :: "CBlockIndex list \<Rightarrow> connect_state \<Rightarrow> CDiskTxPos" where
  "this_pos pindex st = \<lparr>nFile = bi_nFile (hd pindex), nBlockPos = bi_nBlockPos (hd pindex), nTxPos = cs_nTxPos st\<rparr>"

abbreviation (input) sview :: "CTxDB \<Rightarrow> connect_state \<Rightarrow> txmap" where
  "sview db st \<equiv> view db (mapQueuedChanges st)"

text \<open>The two ways a transaction is connected.\<close>

lemma connect_tx_cases:
  assumes "connect_tx L E db pindex j tx st = Inr st'"
  obtains (coinbase) v where "IsCoinBase tx" "GetValueOut tx = Some v"
      "st' = st\<lparr>cs_nValueOut := i64 (cs_nValueOut st + v), cs_nSigOps := cs_nSigOps st', cs_nTxPos := cs_nTxPos st',
        mapQueuedChanges := (mapQueuedChanges st)(GetHash L tx \<mapsto> CTxIndex_new (this_pos pindex st) (length (vout tx)))\<rparr>"
  | (spend) ins vi vo pool where "\<not> IsCoinBase tx"
      "FetchInputs E db (mapQueuedChanges st) True False Map.empty tx = (Inr (), ins)"
      "GetValueMapIn ins tx = Inr vi" "GetValueOut tx = Some vo"
      "ConnectInputs L E ins (mapQueuedChanges st) (this_pos pindex st) pindex True False tx = (Inr (), pool)"
      "st' = st\<lparr>cs_nValueIn := i64 (cs_nValueIn st + vi), cs_nValueOut := i64 (cs_nValueOut st + vo),
        cs_nFees := (if IsCoinStake tx then cs_nFees st else i64 (cs_nFees st + i64 (vi - vo))),
        cs_nStakeReward := (if IsCoinStake tx then i64 (vo - vi) else cs_nStakeReward st),
        cs_nSigOps := cs_nSigOps st', cs_nTxPos := cs_nTxPos st',
        mapQueuedChanges := pool(GetHash L tx \<mapsto> CTxIndex_new (this_pos pindex st) (length (vout tx)))\<rparr>"
proof (cases "IsCoinBase tx")
  case True
  with assms coinbase show ?thesis
    by (auto simp: connect_tx_def Let_def this_pos_def split: if_splits option.splits)
next
  case False
  obtain rf ins where f: "FetchInputs E db (mapQueuedChanges st) True False Map.empty tx = (rf, ins)" by fastforce
  obtain rc pool where c: "ConnectInputs L E ins (mapQueuedChanges st) (this_pos pindex st) pindex True False tx = (rc, pool)"
    by fastforce
  note c' = c [unfolded this_pos_def]
  show ?thesis
    using assms False f c' spend [OF False] 
    by (cases rf; cases "GetValueMapIn ins tx"; cases "GetValueOut tx"; cases rc)
       (auto simp: connect_tx_def Let_def this_pos_def split: if_splits sum.splits option.splits)
qed

lemma this_pos_not_null [simp]: "CDiskTxPos_IsNull (this_pos pindex st) \<longleftrightarrow> bi_nFile (hd pindex) = - 1"
  by (simp add: this_pos_def CDiskTxPos_IsNull_def)

text \<open>The view after a connected transaction: its inputs marked, its own entry added.\<close>

lemma connect_tx_effect:
  assumes "connect_tx L E db pindex j tx st = Inr st'" "bi_nFile (hd pindex) \<noteq> - 1"
  shows "sview db st' = (mark_all (this_pos pindex st) (inputs_of tx) (sview db st))
           (GetHash L tx \<mapsto> CTxIndex_new (this_pos pindex st) (length (vout tx))) \<and>
    set (inputs_of tx) \<subseteq> coins (sview db st) \<and> distinct (inputs_of tx) \<and>
    coins (mark_all (this_pos pindex st) (inputs_of tx) (sview db st)) = coins (sview db st) - set (inputs_of tx)"
  using assms(1)
proof (cases rule: connect_tx_cases)
  case (coinbase v)
  have "sview db st' = (sview db st)(GetHash L tx \<mapsto> CTxIndex_new (this_pos pindex st) (length (vout tx)))"
    by (subst coinbase(3)) (simp del: fun_upd_apply)
  with coinbase(1) show ?thesis by (simp add: inputs_of_def)
next
  case (spend ins vi vo pool)
  have q: "\<not> CDiskTxPos_IsNull (this_pos pindex st)" using assms(2) by simp
  note B = ConnectInputs_block [OF spend(2,5) q]
  have "sview db st' = (view db pool)(GetHash L tx \<mapsto> CTxIndex_new (this_pos pindex st) (length (vout tx)))"
    by (subst spend(6)) (simp del: fun_upd_apply)
  with spend(1) B show ?thesis by (simp add: inputs_of_def spent_by_def)
qed

lemma connect_tx_view:
  assumes "connect_tx L E db pindex j tx st = Inr st'" "bi_nFile (hd pindex) \<noteq> - 1"
  shows "sview db st' = (mark_all (this_pos pindex st) (inputs_of tx) (sview db st))
           (GetHash L tx \<mapsto> CTxIndex_new (this_pos pindex st) (length (vout tx)))"
    "set (inputs_of tx) \<subseteq> coins (sview db st)" "distinct (inputs_of tx)"
    "coins (mark_all (this_pos pindex st) (inputs_of tx) (sview db st)) = coins (sview db st) - set (inputs_of tx)"
  using connect_tx_effect [OF assms] by blast+

lemma connect_tx_overwrite:
  assumes "connect_tx L E db pindex j tx st = Inr st'" "p \<in> coins (db_tx db)"
  shows "op_hash p \<noteq> GetHash L tx"
proof
  assume "op_hash p = GetHash L tx"
  with assms(2) obtain ti where "db_tx db (GetHash L tx) = Some ti" "list_ex CDiskTxPos_IsNull (vSpent ti)"
    unfolding coins_def list_ex_iff by (auto dest: nth_mem)
  with assms(1) show False by (simp add: connect_tx_def ReadTxIndex_def Let_def)
qed

interpretation block: coin_chain "\<lambda>st. coins (sview db st)" "block_step L E db pindex j" "GetHash L" "coins (db_tx db)"
  for L E db pindex j
proof unfold_locales
  fix tx st st' p
  assume "block_step L E db pindex j tx st = Some st'"
  then have c: "connect_tx L E db pindex j tx st = Inr st'" and n: "bi_nFile (hd pindex) \<noteq> - 1"
    by (auto simp: block_step_def split: if_splits sum.splits)
  note V = connect_tx_view [OF c n]
  show "set (inputs_of tx) \<subseteq> coins (sview db st)" "distinct (inputs_of tx)" by (rule V(2), rule V(3))
  show "coins (sview db st') = {p \<in> coins (sview db st) - set (inputs_of tx). op_hash p \<noteq> GetHash L tx} \<union>
      outputs_of (GetHash L tx) tx"
    unfolding V(1) coins_create V(4) by (simp add: outputs_of_def)
  show "p \<in> coins (db_tx db) \<Longrightarrow> op_hash p \<noteq> GetHash L tx" by (rule connect_tx_overwrite [OF c])
qed

lemma connect_txs_run:
  assumes "bi_nFile (hd pindex) \<noteq> - 1"
  shows "connect_txs L E db pindex j txs st = Inr st' \<Longrightarrow> run_steps (block_step L E db pindex j) txs st = Some st'"
  using assms by (induction txs arbitrary: st) (auto simp: block_step_def split: sum.splits)

lemma CheckBlock_distinct: "CheckBlock L E p m s b = None \<Longrightarrow> distinct (map (GetHash L) (vtx b))"
  by (auto simp: CheckBlock_def Let_def card_distinct split: if_splits option.splits)

lemma ConnectBlock_cases:
  assumes "ConnectBlock L E db pindex False b = Inr (pi, db', ev)"
  obtains st where "CheckBlock L E True True False b = None"
    "connect_txs L E db pindex False (vtx b) (connect_init pindex False b) = Inr st"
    "check_rewards L E db pindex b st = None" "db_tx db' = view db (mapQueuedChanges st)"
    "pi = (hd pindex)\<lparr>bi_nMint := i64 (i64 (cs_nValueOut st - cs_nValueIn st) + cs_nFees st),
       bi_nMoneySupply := i64 (i64 ((case tl pindex of [] \<Rightarrow> 0 | p # _ \<Rightarrow> bi_nMoneySupply p) + cs_nValueOut st) - cs_nValueIn st)\<rparr>"
proof -
  have c: "CheckBlock L E True True False b = None" using assms by (auto simp: ConnectBlock_def split: if_splits)
  obtain st where s: "connect_txs L E db pindex False (vtx b) (connect_init pindex False b) = Inr st"
    using assms c by (auto simp: ConnectBlock_def split: sum.splits)
  have r: "check_rewards L E db pindex b st = None" using assms c s by (auto simp: ConnectBlock_def split: option.splits)
  show thesis
    by (rule that [OF c s r]) (use assms c s r in \<open>auto simp: ConnectBlock_def Let_def WriteBlockIndex_def view_def\<close>)
qed

section \<open>Undoing a block\<close>

definition nulls_exact :: "txmap \<Rightarrow> bool" where
  "nulls_exact m \<longleftrightarrow> (\<forall>h ti k. m h = Some ti \<longrightarrow> k < length (vSpent ti) \<longrightarrow> CDiskTxPos_IsNull (vSpent ti ! k) \<longrightarrow>
     vSpent ti ! k = CDiskTxPos_Null)"

lemma nulls_exact_coins: "nulls_exact m \<Longrightarrow> p \<in> coins m \<Longrightarrow> exact_null m p"
  by (auto simp: nulls_exact_def coins_def exact_null_def)

lemma nulls_exact_mark_one: "nulls_exact m \<Longrightarrow> \<not> CDiskTxPos_IsNull q \<Longrightarrow> nulls_exact (mark_one q p m)"
  unfolding nulls_exact_def mark_one_def
  by (auto split: option.splits if_splits) (metis nth_list_update_eq nth_list_update_neq)

lemma nulls_exact_mark: "nulls_exact m \<Longrightarrow> \<not> CDiskTxPos_IsNull q \<Longrightarrow> nulls_exact (mark_all q ps m)"
  by (induction ps arbitrary: m) (simp_all add: nulls_exact_mark_one)

lemma nulls_exact_new: "nulls_exact m \<Longrightarrow> nulls_exact (m(h \<mapsto> CTxIndex_new q n))"
  by (auto simp: nulls_exact_def CTxIndex_new_def)

lemma mark_all_length:
  "m h = Some ti \<Longrightarrow> \<exists>ti'. mark_all q ps m h = Some ti' \<and> length (vSpent ti') = length (vSpent ti)"
proof (induction ps arbitrary: m ti)
  case Nil
  then show ?case by simp
next
  case (Cons p ps)
  then obtain ti1 where "mark_one q p m h = Some ti1" "length (vSpent ti1) = length (vSpent ti)"
    by (cases "op_hash p = h"; cases "m (op_hash p)") (auto simp: mark_one_def)
  then show ?case using Cons.IH [of "mark_one q p m" ti1] by simp
qed

lemma DisconnectInputs_undoes:
  assumes db: "db_tx db1 = (mark_all q (inputs_of tx) m)(GetHash L tx \<mapsto> ti)"
    and m: "m (GetHash L tx) = None" "\<forall>p \<in> set (inputs_of tx). exact_null m p" "distinct (inputs_of tx)"
  shows "DisconnectInputs L tx db1 = (True, db1\<lparr>db_tx := m\<rparr>)"
proof -
  have h: "GetHash L tx \<notin> op_hash ` set (inputs_of tx)" using m(1,2) by (auto simp: exact_null_def)
  have r: "mark_all CDiskTxPos_Null (inputs_of tx) (db_tx db1) = m(GetHash L tx \<mapsto> ti)"
    unfolding db using mark_all_upd [OF h] unmark_mark [OF m(3,2)] by simp
  have e: "(m(GetHash L tx \<mapsto> ti))(GetHash L tx := None) = m" using m(1) by auto
  show ?thesis
  proof (cases "IsCoinBase tx")
    case True
    then show ?thesis using r e by (simp add: DisconnectInputs_def EraseTxIndex_def inputs_of_def)
  next
    case False
    have pos: "\<exists>ti. db_tx db1 (op_hash p) = Some ti \<and> unat (op_n p) < length (vSpent ti)" if p: "p \<in> set (inputs_of tx)" for p
    proof -
      have "op_hash p \<noteq> GetHash L tx" using h p by (metis imageI)
      moreover obtain ti0 where "m (op_hash p) = Some ti0" "unat (op_n p) < length (vSpent ti0)"
        using m(2) p by (auto simp: exact_null_def)
      ultimately show ?thesis using mark_all_length [of m "op_hash p" ti0 q "inputs_of tx"] by (auto simp: db)
    qed
    then have "disconnect_loop (vin tx) db1 = (True, db1\<lparr>db_tx := mark_all CDiskTxPos_Null (map prevout (vin tx)) (db_tx db1)\<rparr>)"
      using False by (intro disconnect_loop_mark) (auto simp: inputs_of_def)
    then show ?thesis using False r e by (simp add: DisconnectInputs_def EraseTxIndex_def inputs_of_def)
  qed
qed

lemma disconnect_txs_append:
  "disconnect_txs L (xs @ ys) db = (case disconnect_txs L xs db of (False, db1) \<Rightarrow> (False, db1) | (True, db1) \<Rightarrow> disconnect_txs L ys db1)"
  by (induction xs arbitrary: db) (auto split: prod.splits bool.splits)

lemma disconnect_txs_undoes:
  assumes "connect_txs L E db pindex j txs st = Inr st'" "bi_nFile (hd pindex) \<noteq> - 1"
    "distinct (map (GetHash L) txs)" "\<forall>tx \<in> set txs. sview db st (GetHash L tx) = None" "nulls_exact (sview db st)"
    "db_tx db1 = sview db st'"
  shows "disconnect_txs L (rev txs) db1 = (True, db1\<lparr>db_tx := sview db st\<rparr>)"
  using assms(1,3-6)
proof (induction txs arbitrary: st)
  case Nil
  then show ?case by simp
next
  case (Cons tx r)
  from Cons.prems(1) obtain st1 where c: "connect_tx L E db pindex j tx st = Inr st1"
    and r: "connect_txs L E db pindex j r st1 = Inr st'" by (auto split: sum.splits)
  note V = connect_tx_view [OF c assms(2)]
  have q: "\<not> CDiskTxPos_IsNull (this_pos pindex st)" using assms(2) by simp
  have "\<forall>t \<in> set r. sview db st1 (GetHash L t) = None"
    using Cons.prems(2,3) by (simp add: V(1) image_iff) metis
  moreover have "nulls_exact (sview db st1)"
    unfolding V(1) by (intro nulls_exact_new nulls_exact_mark Cons.prems(4) q)
  ultimately have IH: "disconnect_txs L (rev r) db1 = (True, db1\<lparr>db_tx := sview db st1\<rparr>)"
    using Cons.IH [OF r] Cons.prems(2,5) by simp
  have "DisconnectInputs L tx (db1\<lparr>db_tx := sview db st1\<rparr>) = (True, (db1\<lparr>db_tx := sview db st1\<rparr>)\<lparr>db_tx := sview db st\<rparr>)"
  proof (rule DisconnectInputs_undoes)
    show "db_tx (db1\<lparr>db_tx := sview db st1\<rparr>) = (mark_all (this_pos pindex st) (inputs_of tx) (sview db st))
        (GetHash L tx \<mapsto> CTxIndex_new (this_pos pindex st) (length (vout tx)))" using V(1) by simp
    show "sview db st (GetHash L tx) = None" using Cons.prems(3) by simp
    show "\<forall>p \<in> set (inputs_of tx). exact_null (sview db st) p" using V(2) nulls_exact_coins [OF Cons.prems(4)] by blast
    show "distinct (inputs_of tx)" by (rule V(3))
  qed
  then show ?case using IH by (simp add: disconnect_txs_append)
qed

lemma DisconnectBlock_undoes:
  assumes "ConnectBlock L E db pindex False b = Inr (pi, db', ev)" "bi_nFile (hd pindex) \<noteq> - 1"
    and "nulls_exact (db_tx db)" "list_all (\<lambda>tx. db_tx db (GetHash L tx) = None) (vtx b)" "db_tx db1 = db_tx db'"
  shows "\<exists>db'' ev'. DisconnectBlock L E' db1 pindex' b = (True, db'', ev') \<and> db_tx db'' = db_tx db"
proof -
  obtain st where c: "CheckBlock L E True True False b = None"
    and t: "connect_txs L E db pindex False (vtx b) (connect_init pindex False b) = Inr st"
    and d: "db_tx db' = sview db st"
    using ConnectBlock_cases [OF assms(1)] by metis
  have i: "sview db (connect_init pindex False b) = db_tx db" by (simp add: connect_init_def)
  have "disconnect_txs L (rev (vtx b)) db1 = (True, db1\<lparr>db_tx := sview db (connect_init pindex False b)\<rparr>)"
    using disconnect_txs_undoes [OF t assms(2) CheckBlock_distinct [OF c], of db1] assms(3-5) d i by (simp add: list_all_iff)
  then show ?thesis using i by (simp add: DisconnectBlock_def WriteBlockIndex_def)
qed

lemma connect_txs_index:
  assumes "connect_txs L E db pindex j txs st = Inr st'" "bi_nFile (hd pindex) \<noteq> - 1"
  shows "dom (sview db st') = dom (sview db st) \<union> GetHash L ` set txs"
    "nulls_exact (sview db st) \<Longrightarrow> nulls_exact (sview db st')"
proof -
  have "dom (sview db st') = dom (sview db st) \<union> GetHash L ` set txs \<and> (nulls_exact (sview db st) \<longrightarrow> nulls_exact (sview db st'))"
    using assms(1)
  proof (induction txs arbitrary: st)
    case (Cons tx r)
    from Cons.prems obtain st1 where c: "connect_tx L E db pindex j tx st = Inr st1"
      and r: "connect_txs L E db pindex j r st1 = Inr st'" by (auto split: sum.splits)
    note V = connect_tx_view(1) [OF c assms(2)]
    have q: "\<not> CDiskTxPos_IsNull (this_pos pindex st)" using assms(2) by simp
    have d: "dom (sview db st1) = insert (GetHash L tx) (dom (sview db st))"
      unfolding V by (rule set_eqI) (simp add: domIff)
    have n: "nulls_exact (sview db st) \<Longrightarrow> nulls_exact (sview db st1)"
      unfolding V by (intro nulls_exact_new nulls_exact_mark q)
    show ?case using Cons.IH [OF r] d n by simp
  qed simp
  then show "dom (sview db st') = dom (sview db st) \<union> GetHash L ` set txs"
    "nulls_exact (sview db st) \<Longrightarrow> nulls_exact (sview db st')" by auto
qed

lemma ConnectBlock_index:
  assumes "ConnectBlock L E db pindex False b = Inr (pi, db', ev)" "bi_nFile (hd pindex) \<noteq> - 1"
  shows "dom (db_tx db') = dom (db_tx db) \<union> GetHash L ` set (vtx b)" "nulls_exact (db_tx db) \<Longrightarrow> nulls_exact (db_tx db')"
proof -
  obtain st where t: "connect_txs L E db pindex False (vtx b) (connect_init pindex False b) = Inr st" and d: "db_tx db' = sview db st"
    using ConnectBlock_cases [OF assms(1)] by metis
  have i: "sview db (connect_init pindex False b) = db_tx db" by (simp add: connect_init_def)
  show "dom (db_tx db') = dom (db_tx db) \<union> GetHash L ` set (vtx b)" "nulls_exact (db_tx db) \<Longrightarrow> nulls_exact (db_tx db')"
    using connect_txs_index [OF t assms(2)] unfolding d i by blast+
qed

text \<open>The entry that \<open>ConnectBlock\<close> hands back differs in the money fields only.\<close>

lemma ConnectBlock_entry:
  "ConnectBlock L E db pindex False b = Inr (pi, db', ev) \<Longrightarrow> \<exists>x y. pi = (hd pindex)\<lparr>bi_nMint := x, bi_nMoneySupply := y\<rparr>"
  by (erule ConnectBlock_cases) blast

section \<open>Money\<close>

lemma i64_wraps: "\<exists>k. i64 a = a + 2 ^ 64 * k"
proof -
  have "i64 a = (a + 2 ^ 63) mod 2 ^ 64 - 2 ^ 63"
    by (simp add: i64_def signed_take_bit_eq_take_bit_shift take_bit_eq_mod)
  also have "\<dots> = a + 2 ^ 64 * (- ((a + 2 ^ 63) div 2 ^ 64))"
    using mult_div_mod_eq [of "2 ^ 64" "a + 2 ^ 63"] by linarith
  finally show ?thesis by blast
qed

lemma i64_unwrap:
  assumes "in_i64 a" "in_i64 b" "a = b + 2 ^ 64 * k"
  shows "a = b"
proof -
  have "k < 1" "- 1 < k" using assms by (simp_all add: in_i64_def)
  then show ?thesis using assms(3) by simp
qed

text \<open>What the sums of the block mean, up to the wrap-around of 64 bits: minted value is what the
  coinbase pays out, when no coinstake takes part.\<close>

definition minted :: "connect_state \<Rightarrow> int" where
  "minted st = cs_nValueOut st - cs_nValueIn st + cs_nFees st"

lemma connect_tx_minted:
  assumes "connect_tx L E db pindex j tx st = Inr st'" "\<not> IsCoinStake tx"
  shows "\<exists>k. minted st' = minted st + (if IsCoinBase tx then total_out (vout tx) else 0) + 2 ^ 64 * k"
    "\<exists>fee k. cs_nFees st' = cs_nFees st + fee + 2 ^ 64 * k \<and> 0 \<le> fee \<and> fee \<le> MAX_MONEY"
proof -
  have "(\<exists>k. minted st' = minted st + (if IsCoinBase tx then total_out (vout tx) else 0) + 2 ^ 64 * k) \<and>
    (\<exists>fee k. cs_nFees st' = cs_nFees st + fee + 2 ^ 64 * k \<and> 0 \<le> fee \<and> fee \<le> MAX_MONEY)"
    using assms(1)
  proof (cases rule: connect_tx_cases)
    case (coinbase v)
    have e: "cs_nValueOut st' = i64 (cs_nValueOut st + v)" "cs_nValueIn st' = cs_nValueIn st" "cs_nFees st' = cs_nFees st"
      by (subst coinbase(3), simp)+
    obtain k where "i64 (cs_nValueOut st + v) = cs_nValueOut st + v + 2 ^ 64 * k" using i64_wraps by blast
    then have "minted st' = minted st + total_out (vout tx) + 2 ^ 64 * k"
      using GetValueOut_total [OF coinbase(2)] by (simp add: minted_def e)
    moreover have "\<exists>fee k. cs_nFees st' = cs_nFees st + fee + 2 ^ 64 * k \<and> 0 \<le> fee \<and> fee \<le> MAX_MONEY"
      by (rule exI [of _ 0], rule exI [of _ 0]) (simp add: e)
    ultimately show ?thesis using coinbase(1) by auto
  next
    case (spend ins vi vo pool)
    have e: "cs_nValueOut st' = i64 (cs_nValueOut st + vo)" "cs_nValueIn st' = i64 (cs_nValueIn st + vi)"
      "cs_nFees st' = i64 (cs_nFees st + i64 (vi - vo))"
      by (subst spend(6), simp add: assms(2))+
    have vi: "vi = total_in ins tx" by (rule value_in_total_in [OF spend(5,1,3)])
    note D = ConnectInputs_InrD [OF spend(5,1)]
    have "vo + 20 \<le> vi" "MoneyRange vi" "MoneyRange vo"
      using D(1,4) connect_fee_Inr [OF D(1) assms(2)] spend(4) vi by auto
    then have f: "0 \<le> vi - vo" "vi - vo \<le> MAX_MONEY" by (auto simp: MoneyRange_def)
    then have w: "i64 (vi - vo) = vi - vo" by (auto intro!: i64_id simp: in_i64_def)
    obtain k1 k2 k3 where k: "i64 (cs_nValueOut st + vo) = cs_nValueOut st + vo + 2 ^ 64 * k1"
      "i64 (cs_nValueIn st + vi) = cs_nValueIn st + vi + 2 ^ 64 * k2"
      "i64 (cs_nFees st + (vi - vo)) = cs_nFees st + (vi - vo) + 2 ^ 64 * k3"
      using i64_wraps by meson
    have "minted st' = minted st + (if IsCoinBase tx then total_out (vout tx) else 0) + 2 ^ 64 * (k1 - k2 + k3)"
      unfolding minted_def e w k using spend(1) by (simp add: algebra_simps)
    moreover have "cs_nFees st' = cs_nFees st + (vi - vo) + 2 ^ 64 * k3" unfolding e w k by simp
    ultimately show ?thesis using f by blast
  qed
  then show "\<exists>k. minted st' = minted st + (if IsCoinBase tx then total_out (vout tx) else 0) + 2 ^ 64 * k"
    "\<exists>fee k. cs_nFees st' = cs_nFees st + fee + 2 ^ 64 * k \<and> 0 \<le> fee \<and> fee \<le> MAX_MONEY" by blast+
qed

definition coinbase_out :: "CTransaction list \<Rightarrow> int" where
  "coinbase_out txs = sum_list (map (\<lambda>tx. if IsCoinBase tx then total_out (vout tx) else 0) txs)"

lemma connect_txs_minted:
  assumes "connect_txs L E db pindex j txs st = Inr st'" "\<not> list_ex IsCoinStake txs"
  shows "\<exists>k. minted st' = minted st + coinbase_out txs + 2 ^ 64 * k"
    "\<exists>fees k. cs_nFees st' = cs_nFees st + fees + 2 ^ 64 * k \<and> 0 \<le> fees \<and> fees \<le> int (length txs) * MAX_MONEY"
proof -
  have "(\<exists>k. minted st' = minted st + coinbase_out txs + 2 ^ 64 * k) \<and>
    (\<exists>fees k. cs_nFees st' = cs_nFees st + fees + 2 ^ 64 * k \<and> 0 \<le> fees \<and> fees \<le> int (length txs) * MAX_MONEY)"
    using assms
  proof (induction txs arbitrary: st)
    case Nil
    have "minted st' = minted st + coinbase_out [] + 2 ^ 64 * 0" using Nil by (simp add: coinbase_out_def)
    moreover have "\<exists>fees k. cs_nFees st' = cs_nFees st + fees + 2 ^ 64 * k \<and> 0 \<le> fees \<and> fees \<le> int (length []) * MAX_MONEY"
      by (rule exI [of _ 0], rule exI [of _ 0]) (use Nil in simp)
    ultimately show ?case by auto
  next
    case (Cons tx r)
    then obtain st1 where c: "connect_tx L E db pindex j tx st = Inr st1" "connect_txs L E db pindex j r st1 = Inr st'"
      by (auto split: sum.splits)
    have n: "\<not> IsCoinStake tx" "\<not> list_ex IsCoinStake r" using Cons.prems(2) by auto
    obtain k1 k2 where m: "minted st1 = minted st + (if IsCoinBase tx then total_out (vout tx) else 0) + 2 ^ 64 * k1"
      "minted st' = minted st1 + coinbase_out r + 2 ^ 64 * k2"
      using connect_tx_minted(1) [OF c(1) n(1)] Cons.IH [OF c(2) n(2)] by blast
    obtain f l1 fs l2 where f: "cs_nFees st1 = cs_nFees st + f + 2 ^ 64 * l1" "0 \<le> f" "f \<le> MAX_MONEY"
      "cs_nFees st' = cs_nFees st1 + fs + 2 ^ 64 * l2" "0 \<le> fs" "fs \<le> int (length r) * MAX_MONEY"
      using connect_tx_minted(2) [OF c(1) n(1)] Cons.IH [OF c(2) n(2)] by blast
    have "minted st' = minted st + coinbase_out (tx # r) + 2 ^ 64 * (k1 + k2)"
      using m by (simp add: coinbase_out_def algebra_simps)
    moreover have "cs_nFees st' = cs_nFees st + (f + fs) + 2 ^ 64 * (l1 + l2)" "0 \<le> f + fs"
      "f + fs \<le> int (length (tx # r)) * MAX_MONEY"
      using f by (simp_all add: algebra_simps)
    ultimately show ?case by blast
  qed
  then show "\<exists>k. minted st' = minted st + coinbase_out txs + 2 ^ 64 * k"
    "\<exists>fees k. cs_nFees st' = cs_nFees st + fees + 2 ^ 64 * k \<and> 0 \<le> fees \<and> fees \<le> int (length txs) * MAX_MONEY"
    by blast+
qed

text \<open>
  A library whose digest is the first 32 bytes of the message, and blocks built from an
  anyone-can-spend output: \<open>demo_block\<close> spends it in an ordinary transaction, \<open>mint_block\<close> appends a
  coinstake that pays out more than it spends.
\<close>

definition ssl_prefix :: ssl_lib where
  "ssl_prefix = ssl_demo\<lparr>SHA256 := (\<lambda>m. take 32 (m @ replicate 32 0))\<rparr>"

definition blk_coinbase :: CTransaction where
  "blk_coinbase = \<lparr>nVersion = 1, nTime = 100, vin = [\<lparr>prevout = COutPoint_Null, scriptSig = [0, 0], nSequence = -1\<rparr>],
     vout = [\<lparr>nValue = 42000000, scriptPubKey = [0x51]\<rparr>], nLockTime = 0\<rparr>"

definition blk_spend :: CTransaction where
  "blk_spend = \<lparr>nVersion = 1, nTime = 20,
     vin = [\<lparr>prevout = COutPoint (GetHash ssl_prefix demo_prev) 0, scriptSig = [], nSequence = -1\<rparr>],
     vout = [\<lparr>nValue = 900, scriptPubKey = [0x51]\<rparr>], nLockTime = 0\<rparr>"

definition blk_stake :: CTransaction where
  "blk_stake = \<lparr>nVersion = 1, nTime = 30,
     vin = [\<lparr>prevout = COutPoint (GetHash ssl_prefix blk_spend) 0, scriptSig = [], nSequence = -1\<rparr>],
     vout = [CTxOut_SetEmpty, \<lparr>nValue = 1000000000000000, scriptPubKey = [0x51]\<rparr>], nLockTime = 0\<rparr>"

definition blk_of :: "CTransaction list \<Rightarrow> CBlock" where
  "blk_of txs = \<lparr>b_nVersion = 6, b_hashPrevBlock = 0, b_hashMerkleRoot = BuildMerkleTree ssl_prefix txs, b_nTime = 100,
     b_nBits = 0x03000007, b_nNonce = 0, vtx = txs, vchBlockSig = []\<rparr>"

definition blk_env :: node_env where
  "blk_env = demo_env\<lparr>Hash9 := (\<lambda>_. 0), adjusted_time := 200,
     disk_tx := (\<lambda>p. Inr (if nTxPos p = 400 then demo_prev else blk_spend))\<rparr>"

definition blk_db :: CTxDB where
  "blk_db = \<lparr>db_tx = [GetHash ssl_prefix demo_prev \<mapsto> CTxIndex_new demo_pos 1], db_index = (\<lambda>_. None)\<rparr>"

definition demo_block :: CBlock where "demo_block = blk_of [blk_coinbase, blk_spend]"
definition mint_block :: CBlock where "mint_block = blk_of [blk_coinbase, blk_spend, blk_stake]"

lemma blk_target: "CheckProofOfWork (bn ssl_prefix) mainnet 0 0x03000007"
proof -
  have s: "SetCompact bn_ref 0x03000007 = 7" by (simp add: SetCompact_doc) code_simp
  have "(7 :: int) \<le> bnProofOfWorkLimit mainnet" by (simp add: mainnet_def) code_simp
  then show ?thesis using s CheckProofOfWork_iff [of bn_ref mainnet 0 "0x03000007"]
    by (simp add: params_ok_nets ssl_prefix_def ssl_demo_def)
qed

lemma blk_sigops [simp]: "GetSigOpCount False [0x51] = 0" "GetSigOpCount False [] = 0" "GetSigOpCount False [0, 0] = 0"
  by (simp_all add: GetSigOpCount_def sigops_loop.simps GetOp2_def)

lemmas blk_defs = blk_coinbase_def blk_spend_def blk_stake_def CTxOut_SetEmpty_def COutPoint_Null_def

lemma blk_legacy [simp]:
  "GetLegacySigOpCount blk_coinbase = 0" "GetLegacySigOpCount blk_spend = 0" "GetLegacySigOpCount blk_stake = 0"
  by (simp_all add: GetLegacySigOpCount_def blk_defs)

lemma blk_kinds [simp]:
  "IsCoinBase blk_coinbase" "\<not> IsCoinStake blk_coinbase" "\<not> IsCoinBase blk_spend" "\<not> IsCoinStake blk_spend"
  "\<not> IsCoinBase blk_stake" "\<not> IsCoinBase demo_prev" "\<not> IsCoinStake demo_prev"
  by (simp_all add: IsCoinBase_def IsCoinStake_def blk_defs demo_prev_def COutPoint_IsNull_def CTxOut_IsEmpty_def)

lemma bytes_u256_inj: "length a = 32 \<Longrightarrow> length b = 32 \<Longrightarrow> bytes_u256 a = bytes_u256 b \<Longrightarrow> a = b"
  by (metis u256_bytes_bytes)

lemma prefix_hash: "GetHash ssl_prefix tx = bytes_u256 (take 32 (tx_bytes tx @ replicate 32 0))"
  by (auto simp: GetHash_def Hash_def ssl_prefix_def min_def)

lemma prefix_hash_distinct:
  assumes "nTime t \<noteq> nTime t'"
  shows "GetHash ssl_prefix t \<noteq> GetHash ssl_prefix t'"
proof
  assume "GetHash ssl_prefix t = GetHash ssl_prefix t'"
  then have "take 32 (tx_bytes t @ replicate 32 0) = take 32 (tx_bytes t' @ replicate 32 0)"
    unfolding prefix_hash by (rule bytes_u256_inj [rotated 2]) simp_all
  then have "take 4 (drop 4 (take 32 (tx_bytes t @ replicate 32 0))) = take 4 (drop 4 (take 32 (tx_bytes t' @ replicate 32 0)))"
    by simp
  then have "u32_bytes (nTime t) = u32_bytes (nTime t')" by (simp add: tx_bytes_def drop_take)
  then show False using assms u32c.get_put by (metis append_Nil2 option.inject prod.inject)
qed

lemma blk_wellformed [simp]:
  "CheckTransaction blk_coinbase = Inr ()" "CheckTransaction blk_spend = Inr ()"
  by (simp_all add: CheckTransaction_def GetSerializeSize_tx_def GetSerializeSize_vec_def GetSerializeSize_txin_def
      GetSerializeSize_txout_def GetSerializeSize_bytes_def GetSizeOfCompactSize_def Let_def MoneyRange_def in_i64_def
      IsCoinBase_def IsCoinStake_def COutPoint_IsNull_def CTxOut_IsEmpty_def blk_defs)


lemma blk_stake_kind [simp]: "IsCoinStake blk_stake" "CheckTransaction blk_stake = Inr ()"
  by (simp_all add: CheckTransaction_def GetSerializeSize_tx_def GetSerializeSize_vec_def GetSerializeSize_txin_def
      GetSerializeSize_txout_def GetSerializeSize_bytes_def GetSizeOfCompactSize_def Let_def MoneyRange_def in_i64_def
      IsCoinBase_def IsCoinStake_def COutPoint_IsNull_def CTxOut_IsEmpty_def blk_defs)

lemma blk_sizes [simp]:
  "GetSerializeSize_tx blk_coinbase = 67" "GetSerializeSize_tx blk_spend = 65" "GetSerializeSize_tx blk_stake = 74"
  by (simp_all add: GetSerializeSize_tx_def GetSerializeSize_vec_def GetSerializeSize_txin_def
      GetSerializeSize_txout_def GetSerializeSize_bytes_def GetSizeOfCompactSize_def blk_defs)

lemma blk_hashes:
  "GetHash ssl_prefix blk_coinbase \<noteq> GetHash ssl_prefix blk_spend" "GetHash ssl_prefix blk_coinbase \<noteq> GetHash ssl_prefix blk_stake"
  "GetHash ssl_prefix blk_spend \<noteq> GetHash ssl_prefix blk_stake" "GetHash ssl_prefix demo_prev \<noteq> GetHash ssl_prefix blk_coinbase"
  "GetHash ssl_prefix demo_prev \<noteq> GetHash ssl_prefix blk_spend" "GetHash ssl_prefix demo_prev \<noteq> GetHash ssl_prefix blk_stake"
  by (rule prefix_hash_distinct, simp add: blk_defs demo_prev_def)+

lemma blk_check: "txs = [blk_coinbase, blk_spend] \<or> txs = [blk_coinbase, blk_spend, blk_stake] \<Longrightarrow>
    CheckBlock ssl_prefix blk_env True True False (blk_of txs) = None"
proof -
  have t: "nTime blk_coinbase = 100" "nTime blk_spend = 20" "nTime blk_stake = 30" by (simp_all add: blk_defs)
  show "txs = [blk_coinbase, blk_spend] \<or> txs = [blk_coinbase, blk_spend, blk_stake] \<Longrightarrow> ?thesis"
    by (elim disjE)
       (simp_all add: CheckBlock_def blk_of_def GetSerializeSize_block_def GetSerializeSize_vec_def GetSerializeSize_bytes_def
        GetSizeOfCompactSize_def b_IsProofOfWork_def b_IsProofOfStake_def b_GetHash_def blk_env_def demo_env_def blk_target
        b_GetBlockTime_def GetClockDrift_def t check_stake_layout_def blk_hashes Let_def)
qed

lemma anyone_can_spend: "VerifyScript ssl_prefix [] [0x51] tx i 0"
proof -
  have "mpi_documented (bn ssl_prefix)" by (simp add: ssl_prefix_def)
  then show ?thesis
    by (simp add: VerifyScript_def eval_simps exec_push_def IsPayToScriptHash_def getvch_doc vch_enc_def mag_bytes.simps [of "Suc 0"])
qed

lemma blk_verify:
  "VerifySignature ssl_prefix demo_prev blk_spend 0 0 = Some True" "VerifySignature ssl_prefix blk_spend blk_stake 0 0 = Some True"
  by (simp_all add: VerifySignature_def Let_def)
     (simp_all add: blk_defs demo_prev_def anyone_can_spend)

lemma connect_tx_spendI:
  assumes "db_tx db (GetHash L tx) = None" "\<not> IsCoinBase tx" "cs_nSigOps st = 0" "GetLegacySigOpCount tx = 0"
    "FetchInputs E db (mapQueuedChanges st) True False Map.empty tx = (Inr (), ins)" "GetP2SHSigOpCount ins tx = Inr 0"
    "GetValueMapIn ins tx = Inr vi" "GetValueOut tx = Some vo"
    "ConnectInputs L E ins (mapQueuedChanges st) (this_pos pindex st) pindex True False tx = (Inr (), pool)"
  shows "connect_tx L E db pindex False tx st = Inr (st\<lparr>cs_nValueIn := i64 (cs_nValueIn st + vi), cs_nValueOut := i64 (cs_nValueOut st + vo),
        cs_nFees := (if IsCoinStake tx then cs_nFees st else i64 (cs_nFees st + i64 (vi - vo))),
        cs_nStakeReward := (if IsCoinStake tx then i64 (vo - vi) else cs_nStakeReward st),
        cs_nSigOps := 0, cs_nTxPos := cs_nTxPos st + of_nat (GetSerializeSize_tx tx),
        mapQueuedChanges := pool(GetHash L tx \<mapsto> CTxIndex_new (this_pos pindex st) (length (vout tx)))\<rparr>)"
  using assms by (simp add: connect_tx_def Let_def ReadTxIndex_def this_pos_def)

definition blk_pos :: "u32 \<Rightarrow> CDiskTxPos" where
  "blk_pos n = \<lparr>nFile = 1, nBlockPos = 8, nTxPos = n\<rparr>"

definition blk_st1 :: connect_state where
  "blk_st1 = \<lparr>mapQueuedChanges = [GetHash ssl_prefix blk_coinbase \<mapsto> CTxIndex_new (blk_pos 89) 1],
     cs_nFees = 0, cs_nValueIn = 0, cs_nValueOut = 42000000, cs_nStakeReward = 0, cs_nSigOps = 0, cs_nTxPos = 156\<rparr>"

definition blk_st2 :: connect_state where
  "blk_st2 = \<lparr>mapQueuedChanges = [GetHash ssl_prefix blk_coinbase \<mapsto> CTxIndex_new (blk_pos 89) 1,
       GetHash ssl_prefix demo_prev \<mapsto> \<lparr>pos = demo_pos, vSpent = [blk_pos 156]\<rparr>,
       GetHash ssl_prefix blk_spend \<mapsto> CTxIndex_new (blk_pos 156) 1],
     cs_nFees = 100, cs_nValueIn = 1000, cs_nValueOut = 42000900, cs_nStakeReward = 0, cs_nSigOps = 0, cs_nTxPos = 221\<rparr>"

lemma GetValueOut_blk:
  "GetValueOut blk_coinbase = Some 42000000" "GetValueOut blk_spend = Some 900" "GetValueOut blk_stake = Some 1000000000000000"
  by (simp_all add: GetValueOut_def blk_defs Let_def MoneyRange_def in_i64_def)

lemma blk_init: "connect_init [demo_index 100, demo_index 90] False (blk_of [a, b]) =
    \<lparr>mapQueuedChanges = (\<lambda>_. None), cs_nFees = 0, cs_nValueIn = 0, cs_nValueOut = 0, cs_nStakeReward = 0, cs_nSigOps = 0, cs_nTxPos = 89\<rparr>"
  "connect_init [demo_index 100, demo_index 90] False (blk_of [a, b, c]) =
    \<lparr>mapQueuedChanges = (\<lambda>_. None), cs_nFees = 0, cs_nValueIn = 0, cs_nValueOut = 0, cs_nStakeReward = 0, cs_nSigOps = 0, cs_nTxPos = 89\<rparr>"
  by (simp_all add: connect_init_def GetSizeOfCompactSize_def blk_of_def demo_index_def)

lemma blk_step1:
  "connect_tx ssl_prefix blk_env blk_db [demo_index 100, demo_index 90] False blk_coinbase
    \<lparr>mapQueuedChanges = (\<lambda>_. None), cs_nFees = 0, cs_nValueIn = 0, cs_nValueOut = 0, cs_nStakeReward = 0, cs_nSigOps = 0, cs_nTxPos = 89\<rparr>
   = Inr blk_st1"
proof -
  have "length (vout blk_coinbase) = 1" by (simp add: blk_defs)
  then show ?thesis using blk_hashes
    by (simp add: connect_tx_def Let_def ReadTxIndex_def blk_db_def GetValueOut_blk blk_st1_def demo_index_def blk_pos_def in_i64_def)
qed

lemma blk_fetch1: "FetchInputs blk_env blk_db (mapQueuedChanges blk_st1) True False Map.empty blk_spend =
    (Inr (), [GetHash ssl_prefix demo_prev \<mapsto> (CTxIndex_new demo_pos 1, demo_prev)])"
proof -
  have vin: "vin blk_spend = [\<lparr>prevout = COutPoint (GetHash ssl_prefix demo_prev) 0, scriptSig = [], nSequence = -1\<rparr>]"
    by (simp add: blk_spend_def)
  have "vout demo_prev \<noteq> []" by (simp add: demo_prev_def)
  then show ?thesis using blk_hashes
    by (simp add: FetchInputs_def vin Let_def fetch_one_def blk_st1_def ReadTxIndex_def blk_db_def
        CTxIndex_new_def demo_pos_def pos_mempool_def blk_env_def)
qed

lemma blk_step2:
  "connect_tx ssl_prefix blk_env blk_db [demo_index 100, demo_index 90] False blk_spend blk_st1 = Inr blk_st2"
proof -
  have vin: "vin blk_spend = [\<lparr>prevout = COutPoint (GetHash ssl_prefix demo_prev) 0, scriptSig = [], nSequence = -1\<rparr>]"
    by (simp add: blk_spend_def)
  let ?ins = "[GetHash ssl_prefix demo_prev \<mapsto> (CTxIndex_new demo_pos 1, demo_prev)]"
  have v: "vout demo_prev = [\<lparr>nValue = 1000, scriptPubKey = [0x51]\<rparr>]" "nTime demo_prev = 10" "nTime blk_spend = 20" "length (vout blk_spend) = 1"
    by (simp_all add: demo_prev_def blk_spend_def)
  have f: "connect_fee blk_spend 1000 = Inr ()" by (simp add: connect_fee_Inr MoneyRange_def GetValueOut_blk)
  have c: "ConnectInputs ssl_prefix blk_env ?ins (mapQueuedChanges blk_st1) (blk_pos 156) [demo_index 100, demo_index 90] True False blk_spend =
      (Inr (), (mapQueuedChanges blk_st1)(GetHash ssl_prefix demo_prev \<mapsto> \<lparr>pos = demo_pos, vSpent = [blk_pos 156]\<rparr>))"
    by (simp add: ConnectInputs_def vin v Let_def MoneyRange_def in_i64_def CTxIndex_new_def blk_verify f blk_env_def demo_env_def)
  have p: "GetP2SHSigOpCount ?ins blk_spend = Inr 0" "GetValueMapIn ?ins blk_spend = Inr 1000"
    by (simp_all add: GetP2SHSigOpCount_def GetValueMapIn_def vin v GetOutputFor_def IsPayToScriptHash_def in_i64_def)
  have s: "this_pos [demo_index 100, demo_index 90] blk_st1 = blk_pos 156" by (simp add: demo_index_def blk_st1_def this_pos_def blk_pos_def)
  have "db_tx blk_db (GetHash ssl_prefix blk_spend) = None" using blk_hashes by (simp add: blk_db_def)
  from connect_tx_spendI [OF this _ _ _ blk_fetch1 p GetValueOut_blk(2), of "[demo_index 100, demo_index 90]", unfolded s, OF _ _ _ c]
  show ?thesis using blk_hashes v(4)
    by (simp add: blk_st1_def blk_st2_def in_i64_def fun_upd_twist)
qed

definition blk_st3 :: connect_state where
  "blk_st3 = \<lparr>mapQueuedChanges = (mapQueuedChanges blk_st2)
      (GetHash ssl_prefix blk_spend \<mapsto> \<lparr>pos = blk_pos 156, vSpent = [blk_pos 221]\<rparr>,
       GetHash ssl_prefix blk_stake \<mapsto> CTxIndex_new (blk_pos 221) 2),
     cs_nFees = 100, cs_nValueIn = 1900, cs_nValueOut = 1000000042000900, cs_nStakeReward = 999999999999100,
     cs_nSigOps = 0, cs_nTxPos = 295\<rparr>"

lemma blk_fetch2: "FetchInputs blk_env blk_db (mapQueuedChanges blk_st2) True False Map.empty blk_stake =
    (Inr (), [GetHash ssl_prefix blk_spend \<mapsto> (CTxIndex_new (blk_pos 156) 1, blk_spend)])"
proof -
  have vin: "vin blk_stake = [\<lparr>prevout = COutPoint (GetHash ssl_prefix blk_spend) 0, scriptSig = [], nSequence = -1\<rparr>]"
    by (simp add: blk_stake_def)
  have "vout blk_spend \<noteq> []" by (simp add: blk_spend_def)
  then show ?thesis using blk_hashes
    by (simp add: FetchInputs_def vin Let_def fetch_one_def blk_st2_def ReadTxIndex_def blk_db_def
        CTxIndex_new_def blk_pos_def pos_mempool_def blk_env_def)
qed

lemma blk_step3:
  "connect_tx ssl_prefix blk_env blk_db [demo_index 100, demo_index 90] False blk_stake blk_st2 = Inr blk_st3"
proof -
  have vin: "vin blk_stake = [\<lparr>prevout = COutPoint (GetHash ssl_prefix blk_spend) 0, scriptSig = [], nSequence = -1\<rparr>]"
    by (simp add: blk_stake_def)
  let ?ins = "[GetHash ssl_prefix blk_spend \<mapsto> (CTxIndex_new (blk_pos 156) 1, blk_spend)]"
  have v: "vout blk_spend = [\<lparr>nValue = 900, scriptPubKey = [0x51]\<rparr>]" "nTime blk_spend = 20" "nTime blk_stake = 30" "length (vout blk_stake) = 2"
    by (simp_all add: blk_spend_def blk_stake_def)
  have f: "connect_fee blk_stake 900 = Inr ()" by (simp add: connect_fee_def)
  have c: "ConnectInputs ssl_prefix blk_env ?ins (mapQueuedChanges blk_st2) (blk_pos 221) [demo_index 100, demo_index 90] True False blk_stake =
      (Inr (), (mapQueuedChanges blk_st2)(GetHash ssl_prefix blk_spend \<mapsto> \<lparr>pos = blk_pos 156, vSpent = [blk_pos 221]\<rparr>))"
    by (simp add: ConnectInputs_def vin v Let_def MoneyRange_def in_i64_def CTxIndex_new_def blk_verify f blk_env_def demo_env_def)
  have p: "GetP2SHSigOpCount ?ins blk_stake = Inr 0" "GetValueMapIn ?ins blk_stake = Inr 900"
    by (simp_all add: GetP2SHSigOpCount_def GetValueMapIn_def vin v GetOutputFor_def IsPayToScriptHash_def in_i64_def)
  have s: "this_pos [demo_index 100, demo_index 90] blk_st2 = blk_pos 221" by (simp add: demo_index_def blk_st2_def this_pos_def blk_pos_def)
  have "db_tx blk_db (GetHash ssl_prefix blk_stake) = None" using blk_hashes by (simp add: blk_db_def)
  from connect_tx_spendI [OF this _ _ _ blk_fetch2 p GetValueOut_blk(3), of "[demo_index 100, demo_index 90]", unfolded s, OF _ _ _ c]
  show ?thesis using v(4) by (simp add: blk_st3_def blk_st2_def in_i64_def)
qed

definition mint_index :: CBlockIndex where
  "mint_index = (demo_index 100)\<lparr>bi_nMint := 999999999999100 + 42000000, bi_nMoneySupply := 1000000041999000\<rparr>"

lemma demo_block_connects:
  "\<exists>db'. ConnectBlock ssl_prefix blk_env blk_db [demo_index 100, demo_index 90] False demo_block =
     Inr ((demo_index 100)\<lparr>bi_nMint := 42000000, bi_nMoneySupply := 41999900\<rparr>, db', map (\<lambda>tx. (tx, True, True)) [blk_coinbase, blk_spend])"
proof -
  have v: "vtx demo_block = [blk_coinbase, blk_spend]" by (simp add: demo_block_def blk_of_def)
  have t: "connect_txs ssl_prefix blk_env blk_db [demo_index 100, demo_index 90] False [blk_coinbase, blk_spend]
      (connect_init [demo_index 100, demo_index 90] False demo_block) = Inr blk_st2"
    unfolding demo_block_def blk_init by (simp add: blk_step1 blk_step2)
  have r: "check_rewards ssl_prefix blk_env blk_db [demo_index 100, demo_index 90] demo_block blk_st2 = None"
    by (simp add: check_rewards_def b_IsProofOfWork_def b_IsProofOfStake_def v GetValueOut_blk GetProofOfWorkReward_def
        pow_subsidy_def blk_env_def demo_env_def blk_st2_def in_i64_def)
  have c: "CheckBlock ssl_prefix blk_env True True False demo_block = None" by (simp add: demo_block_def blk_check)
  have s: "cs_nFees blk_st2 = 100" "cs_nValueIn blk_st2 = 1000" "cs_nValueOut blk_st2 = 42000900" by (simp_all add: blk_st2_def)
  have q: "bi_nMoneySupply (demo_index 90) = 0" by (simp add: demo_index_def)
  show ?thesis using t r c by (simp add: ConnectBlock_def v Let_def s in_i64_def q)
qed

lemma mint_block_connects:
  "\<exists>db'. ConnectBlock ssl_prefix blk_env blk_db [demo_index 100, demo_index 90] False mint_block =
     Inr (mint_index, db', map (\<lambda>tx. (tx, True, True)) [blk_coinbase, blk_spend, blk_stake])"
proof -
  have v: "vtx mint_block = [blk_coinbase, blk_spend, blk_stake]" by (simp add: mint_block_def blk_of_def)
  have t: "connect_txs ssl_prefix blk_env blk_db [demo_index 100, demo_index 90] False [blk_coinbase, blk_spend, blk_stake]
      (connect_init [demo_index 100, demo_index 90] False mint_block) = Inr blk_st3"
    unfolding mint_block_def blk_init by (simp add: blk_step1 blk_step2 blk_step3)
  have r: "check_rewards ssl_prefix blk_env blk_db [demo_index 100, demo_index 90] mint_block blk_st3 = None"
    by (simp add: check_rewards_def b_IsProofOfWork_def b_IsProofOfStake_def v GetValueOut_blk GetProofOfWorkReward_def
        pow_subsidy_def blk_env_def demo_env_def blk_st3_def in_i64_def)
  have c: "CheckBlock ssl_prefix blk_env True True False mint_block = None" by (simp add: mint_block_def blk_check)
  have s: "cs_nFees blk_st3 = 100" "cs_nValueIn blk_st3 = 1900" "cs_nValueOut blk_st3 = 1000000042000900" by (simp_all add: blk_st3_def)
  have q: "bi_nMoneySupply (demo_index 90) = 0" by (simp add: demo_index_def)
  show ?thesis using t r c by (simp add: ConnectBlock_def v Let_def s in_i64_def mint_index_def q)
qed

section \<open>What CheckBlock guarantees\<close>

lemma sum_list_bound: "(\<And>x. x \<in> set xs \<Longrightarrow> f x \<le> g x) \<Longrightarrow> sum_list (map f xs) \<le> sum_list (map (g :: 'a \<Rightarrow> nat) xs)"
  by (induction xs) (auto intro: add_mono)

lemma legacy_sigops_bound: "GetLegacySigOpCount tx \<le> 20 * GetSerializeSize_tx tx"
proof -
  have s: "GetSigOpCount False s \<le> 20 * length s" for s by (simp add: GetSigOpCount_def sigops_loop_bound)
  have "sum_list (map (\<lambda>txin. GetSigOpCount False (scriptSig txin)) (vin tx)) \<le> sum_list (map (\<lambda>i. 20 * GetSerializeSize_txin i) (vin tx))"
    by (rule sum_list_bound) (use s in \<open>fastforce simp: GetSerializeSize_txin_def GetSerializeSize_bytes_def intro: le_trans\<close>)
  moreover have "sum_list (map (\<lambda>t. GetSigOpCount False (scriptPubKey t)) (vout tx)) \<le> sum_list (map (\<lambda>t. 20 * GetSerializeSize_txout t) (vout tx))"
    by (rule sum_list_bound) (use s in \<open>fastforce simp: GetSerializeSize_txout_def GetSerializeSize_bytes_def intro: le_trans\<close>)
  ultimately have "sum_list (map (\<lambda>txin. GetSigOpCount False (scriptSig txin)) (vin tx)) +
      sum_list (map (\<lambda>t. GetSigOpCount False (scriptPubKey t)) (vout tx)) \<le> 20 * GetSerializeSize_tx tx"
    by (simp add: GetSerializeSize_tx_def GetSerializeSize_vec_def sum_list_const_mult)
  then show ?thesis unfolding GetLegacySigOpCount_def by (rule le_trans [OF mod_less_eq_dividend])
qed

lemma length_block_bytes: "length (block_bytes b) = GetSerializeSize_block b"
  by (simp add: block_bytes_def header_bytes_def GetSerializeSize_block_def length_Serialize_vec [OF length_tx_bytes]
      length_Serialize_bytes)

lemma block_sigops_no_wrap:
  assumes "GetSerializeSize_block b \<le> MAX_BLOCK_SIZE"
  shows "sum_list (map GetLegacySigOpCount (vtx b)) < 2 ^ 32"
proof -
  have "sum_list (map GetLegacySigOpCount (vtx b)) \<le> sum_list (map (\<lambda>tx. 20 * GetSerializeSize_tx tx) (vtx b))"
    by (rule sum_list_bound) (rule legacy_sigops_bound)
  also have "\<dots> \<le> 20 * GetSerializeSize_block b"
    by (simp add: GetSerializeSize_block_def GetSerializeSize_vec_def sum_list_const_mult)
  finally show ?thesis using assms by simp
qed

lemma check_txs_None:
  "check_txs t txs = None \<longleftrightarrow> list_all (\<lambda>tx. tx_wellformed tx \<and> uint (nTime tx) \<le> t) txs"
  by (induction txs) (auto simp: CheckTransaction_wellformed split: sum.split simp flip: CheckTransaction_wellformed)

definition block_wellformed :: "ssl_lib \<Rightarrow> CBlock \<Rightarrow> bool" where
  "block_wellformed L b \<longleftrightarrow>
     vtx b \<noteq> [] \<and> length (block_bytes b) \<le> MAX_BLOCK_SIZE \<and> IsCoinBase (hd (vtx b)) \<and> \<not> list_ex IsCoinBase (tl (vtx b)) \<and>
     list_all (\<lambda>tx. tx_wellformed tx \<and> uint (nTime tx) \<le> b_GetBlockTime b) (vtx b) \<and>
     distinct (map (GetHash L) (vtx b)) \<and> sum_list (map GetLegacySigOpCount (vtx b)) \<le> MAX_BLOCK_SIGOPS \<and>
     b_hashMerkleRoot b = mroot L (map (GetHash L) (vtx b)) \<and>
     (b_IsProofOfStake b \<longrightarrow> \<not> list_ex IsCoinStake (drop 2 (vtx b)) \<and> b_GetBlockTime b = uint (nTime (vtx b ! 1)))"

lemma CheckBlock_wellformed:
  assumes "CheckBlock L E p True s b = None"
  shows "block_wellformed L b"
proof -
  have n: "vtx b \<noteq> []" and z: "GetSerializeSize_block b \<le> MAX_BLOCK_SIZE" and cb: "IsCoinBase (vtx b ! 0)"
    and nc: "\<not> list_ex IsCoinBase (drop 1 (vtx b))" and st: "check_stake_layout L E s b = None"
    and tx: "check_txs (b_GetBlockTime b) (vtx b) = None"
    and so: "sum_list (map GetLegacySigOpCount (vtx b)) mod 2 ^ 32 \<le> MAX_BLOCK_SIGOPS"
    and me: "b_hashMerkleRoot b = BuildMerkleTree L (vtx b)"
    using assms by (auto simp: CheckBlock_def Let_def split: if_splits option.splits)
  have "sum_list (map GetLegacySigOpCount (vtx b)) \<le> MAX_BLOCK_SIGOPS" using so block_sigops_no_wrap [OF z] by simp
  moreover have "b_IsProofOfStake b \<Longrightarrow> \<not> list_ex IsCoinStake (drop 2 (vtx b)) \<and> b_GetBlockTime b = uint (nTime (vtx b ! 1))"
    using st by (auto simp: check_stake_layout_def CheckCoinStakeTimestamp_def split: if_splits)
  ultimately show ?thesis
    using n z cb nc tx me CheckBlock_distinct [OF assms]
    by (simp add: block_wellformed_def length_block_bytes check_txs_None BuildMerkleTree_mroot hd_conv_nth drop_Suc)
qed

section \<open>The balance check\<close>

lemma i64_nonneg_exact:
  assumes "0 \<le> a" "in_i64 a" "in_i64 b" "0 \<le> i64 (a + b)"
  shows "i64 (a + b) = a + b"
proof -
  obtain k where k: "i64 (a + b) = a + b + 2 ^ 64 * k" using i64_wraps by blast
  have "k < 1" "- 1 < k" using k assms in_i64_i64 [of "a + b"] by (simp_all add: in_i64_def)
  then show ?thesis using k by simp
qed

lemma value_in_loop_i64: "value_in_loop ins acc vs = Inr v \<Longrightarrow> in_i64 acc \<Longrightarrow> in_i64 v"
  by (induction vs arbitrary: acc) (auto split: sum.splits)

lemma GetValueMapIn_i64: "GetValueMapIn ins tx = Inr v \<Longrightarrow> in_i64 v"
  using value_in_loop_i64 [of ins 0 "vin tx" v] by (auto simp: GetValueMapIn_def in_i64_def split: if_splits)

text \<open>The value of the inputs of a transaction, looked up in the database alone.\<close>

definition db_value_in :: "node_env \<Rightarrow> CTxDB \<Rightarrow> CTransaction \<Rightarrow> ledger_error + int" where
  "db_value_in E db tx = GetValueMapIn (snd (GetMapTxInputs E db (\<lambda>_. None) True False tx)) tx"

lemma balance_loop_sums:
  assumes "balance_loop E db a c txs = Bal_sums i out" "0 \<le> a" "in_i64 a" "0 \<le> c" "in_i64 c"
  shows "list_all (\<lambda>tx. \<exists>v. db_value_in E db tx = Inr v) txs \<and>
     i = a + sum_list (map (\<lambda>tx. projr (db_value_in E db tx)) txs) \<and> 0 \<le> i \<and> in_i64 i \<and>
     out = c + sum_list (map (\<lambda>tx. total_out (vout tx)) txs) \<and> 0 \<le> out"
  using assms
proof (induction txs arbitrary: a c)
  case Nil
  then show ?case by simp
next
  case (Cons tx r)
  obtain ok ins where g: "GetMapTxInputs E db (\<lambda>_. None) True False tx = (ok, ins)" by fastforce
  with Cons.prems(1) obtain vi vo where v: "GetValueMapIn ins tx = Inr vi" "GetValueOut tx = Some vo"
    and nn: "0 \<le> i64 (a + vi)" "0 \<le> i64 (c + vo)"
    and rest: "balance_loop E db (i64 (a + vi)) (i64 (c + vo)) r = Bal_sums i out"
    by (cases ok; cases "GetValueMapIn ins tx"; cases "GetValueOut tx") (simp_all split: if_splits)
  have "in_i64 vo" using GetValueOut_total [OF v(2)] by (auto simp: MoneyRange_def in_i64_def)
  then have w: "i64 (a + vi) = a + vi" "i64 (c + vo) = c + vo"
    using i64_nonneg_exact Cons.prems nn GetValueMapIn_i64 [OF v(1)] by auto
  have "db_value_in E db tx = Inr vi" using g v by (simp add: db_value_in_def)
  moreover have "in_i64 (a + vi)" "in_i64 (c + vo)" using w in_i64_i64 by metis+
  ultimately show ?case using Cons.IH [of "a + vi" "c + vo"] rest nn w GetValueOut_total [OF v(2)]
    by (auto simp: add.assoc)
qed


lemma coinbase_out_single: "vs \<noteq> [] \<Longrightarrow> IsCoinBase (hd vs) \<Longrightarrow> \<not> list_ex IsCoinBase (tl vs) \<Longrightarrow> coinbase_out vs = total_out (vout (hd vs))"
proof -
  have "\<not> list_ex IsCoinBase ws \<Longrightarrow> coinbase_out ws = 0" for ws by (induction ws) (auto simp: coinbase_out_def)
  then show "vs \<noteq> [] \<Longrightarrow> IsCoinBase (hd vs) \<Longrightarrow> \<not> list_ex IsCoinBase (tl vs) \<Longrightarrow> ?thesis"
    by (cases vs) (auto simp: coinbase_out_def)
qed

lemma i64_eqI: "in_i64 b \<Longrightarrow> a = b + 2 ^ 64 * k \<Longrightarrow> i64 a = b"
  using i64_wraps [of a] i64_unwrap [of "i64 a" b] by (metis (no_types, opaque_lifting) add.assoc distrib_left in_i64_i64)

lemma i64_i64_add: "i64 (i64 a + b) = i64 (a + b)" "i64 (i64 a - b) = i64 (a - b)"
  using i64_add_left [of a b] i64_add_left [of a "- b"] by simp_all

text \<open>The arithmetic of the money supply.\<close>

lemma supply_arith:
  assumes m: "vOut - vIn + F = cb + 2 ^ 64 * k" and f: "F = fees + 2 ^ 64 * l"
    and r: "MoneyRange cb" "0 \<le> fees" "fees \<le> 1000 * MAX_MONEY" "MoneyRange prev" "0 \<le> s \<and> s \<le> 5310000000000000"
  shows "i64 (i64 (vOut - vIn) + F) = cb \<and> i64 (i64 (prev + vOut) - vIn) = prev + cb - fees \<and> i64 (s + F) = s + fees"
proof (intro conjI)
  have "i64 (vOut - vIn + F) = cb" by (rule i64_eqI [OF _ m]) (use r in \<open>auto simp: MoneyRange_def in_i64_def\<close>)
  then show "i64 (i64 (vOut - vIn) + F) = cb" by (simp add: i64_i64_add)
  have "i64 (prev + vOut - vIn) = prev + cb - fees"
    by (rule i64_eqI [of _ _ "k - l"]) (use m f r in \<open>auto simp: MoneyRange_def in_i64_def\<close>)
  then show "i64 (i64 (prev + vOut) - vIn) = prev + cb - fees" by (simp add: i64_i64_add)
  show "i64 (s + F) = s + fees" by (rule i64_eqI [of _ _ l]) (use f r in \<open>auto simp: in_i64_def\<close>)
qed

section \<open>Properties\<close>



text \<open>C2. Connecting a block refines the abstract ledger: no coin is spent twice in the block, and the coins
  afterwards are the old coins and all outputs of the block, without everything its inputs name.\<close>

theorem connect_block_coins:
  assumes "ConnectBlock L E db pindex False b = Inr (pi, db', ev)" "bi_nFile (hd pindex) \<noteq> - 1"
  shows "distinct (concat (map inputs_of (vtx b))) \<and>
     coins (db_tx db') = (coins (db_tx db) \<union> (\<Union>tx \<in> set (vtx b). outputs_of (GetHash L tx) tx)) - set (concat (map inputs_of (vtx b)))"
proof -
  obtain st where c: "CheckBlock L E True True False b = None"
    and t: "connect_txs L E db pindex False (vtx b) (connect_init pindex False b) = Inr st"
    and d: "db_tx db' = sview db st"
    using ConnectBlock_cases [OF assms(1)] by metis
  have "coins (sview db (connect_init pindex False b)) = coins (db_tx db)" by (simp add: connect_init_def)
  from block.run_coins [OF connect_txs_run [OF assms(2) t] CheckBlock_distinct [OF c] this] d show ?thesis by simp
qed

theorem connect_block_coins_witness:
  "\<exists>pi db' ev. ConnectBlock ssl_prefix blk_env blk_db [demo_index 100, demo_index 90] False mint_block = Inr (pi, db', ev) \<and>
     COutPoint (GetHash ssl_prefix demo_prev) 0 \<notin> coins (db_tx db') \<and> COutPoint (GetHash ssl_prefix blk_coinbase) 0 \<in> coins (db_tx db')"
proof -
  obtain db' where c: "ConnectBlock ssl_prefix blk_env blk_db [demo_index 100, demo_index 90] False mint_block =
     Inr (mint_index, db', map (\<lambda>tx. (tx, True, True)) [blk_coinbase, blk_spend, blk_stake])"
    using mint_block_connects by blast
  have v: "vtx mint_block = [blk_coinbase, blk_spend, blk_stake]" by (simp add: mint_block_def blk_of_def)
  have i: "inputs_of blk_coinbase = []" "inputs_of blk_spend = [COutPoint (GetHash ssl_prefix demo_prev) 0]"
    "inputs_of blk_stake = [COutPoint (GetHash ssl_prefix blk_spend) 0]" "length (vout blk_coinbase) = 1"
    by (simp_all add: inputs_of_def) (simp_all add: blk_spend_def blk_stake_def blk_coinbase_def)
  have "bi_nFile (hd [demo_index 100, demo_index 90]) \<noteq> - 1" by (simp add: demo_index_def)
  from connect_block_coins [OF c this] c show ?thesis using blk_hashes by (auto simp: v i outputs_of_def)
qed



text \<open>C6. Bounded inflation: a connected proof-of-work block without coinstake transactions mints exactly
  what its coinbase pays, and the recorded money supply grows by at most the subsidy, despite the
  wrap-around of the 64-bit sums (for blocks of up to 1000 transactions, whose fees cannot overflow).\<close>

theorem pow_block_supply:
  assumes "ConnectBlock L E db (p # q # chain) False b = Inr (pi, db', ev)"
    and "b_IsProofOfWork b" "\<not> list_ex IsCoinStake (vtx b)" "length (vtx b) \<le> 1000" "MoneyRange (bi_nMoneySupply q)"
  shows "bi_nMint pi = total_out (vout (hd (vtx b))) \<and> bi_nMoneySupply pi \<le> bi_nMoneySupply q + pow_subsidy (best_height E)"
proof -
  obtain st where c: "CheckBlock L E True True False b = None"
    and t: "connect_txs L E db (p # q # chain) False (vtx b) (connect_init (p # q # chain) False b) = Inr st"
    and r: "check_rewards L E db (p # q # chain) b st = None"
    and pi: "bi_nMint pi = i64 (i64 (cs_nValueOut st - cs_nValueIn st) + cs_nFees st)"
      "bi_nMoneySupply pi = i64 (i64 (bi_nMoneySupply q + cs_nValueOut st) - cs_nValueIn st)"
    by (rule ConnectBlock_cases [OF assms(1)]) simp
  have z: "minted (connect_init (p # q # chain) False b) = 0" "cs_nFees (connect_init (p # q # chain) False b) = 0"
    by (simp_all add: minted_def connect_init_def)
  let ?cb = "total_out (vout (hd (vtx b)))"
  have cb: "coinbase_out (vtx b) = ?cb"
    using CheckBlock_wellformed [OF c] coinbase_out_single by (simp add: block_wellformed_def)
  obtain k fees l where m: "minted st = ?cb + 2 ^ 64 * k" and f: "cs_nFees st = fees + 2 ^ 64 * l" "0 \<le> fees"
      "fees \<le> int (length (vtx b)) * MAX_MONEY"
    using connect_txs_minted [OF t assms(3)] z cb by auto
  have fees: "fees \<le> 1000 * MAX_MONEY" using f(3) assms(4) by simp
  have n: "vtx b \<noteq> []" using CheckBlock_wellformed [OF c] by (simp add: block_wellformed_def)
  obtain v where v: "GetValueOut (vtx b ! 0) = Some v" "v \<le> i64 (pow_subsidy (best_height E) + cs_nFees st)"
    using r assms(2) by (auto simp: check_rewards_def GetProofOfWorkReward_def split: option.splits if_splits)
  have vr: "MoneyRange ?cb" "v = ?cb" using GetValueOut_total [OF v(1)] n by (auto simp: hd_conv_nth)
  show ?thesis
    using supply_arith [OF m [unfolded minted_def] f(1) vr(1) f(2) fees assms(5) pow_subsidy_range [simplified]] v(2) vr(2) pi by simp
qed


theorem pow_block_supply_witness:
  "\<exists>pi db' ev. ConnectBlock ssl_prefix blk_env blk_db [demo_index 100, demo_index 90] False demo_block = Inr (pi, db', ev) \<and>
     bi_nMint pi = 42000000 \<and> bi_nMoneySupply pi \<le> 0 + pow_subsidy 100"
proof -
  obtain db' where c: "ConnectBlock ssl_prefix blk_env blk_db [demo_index 100, demo_index 90] False demo_block =
     Inr ((demo_index 100)\<lparr>bi_nMint := 42000000, bi_nMoneySupply := 41999900\<rparr>, db', map (\<lambda>tx. (tx, True, True)) [blk_coinbase, blk_spend])"
    using demo_block_connects by blast
  have v: "vtx demo_block = [blk_coinbase, blk_spend]" by (simp add: demo_block_def blk_of_def)
  have s: "bi_nMoneySupply (demo_index 90) = 0" "best_height blk_env = 100" by (simp_all add: demo_index_def blk_env_def demo_env_def)
  show ?thesis using pow_block_supply [OF c] c by (auto simp: v s b_IsProofOfWork_def b_IsProofOfStake_def)
qed

text \<open>The balance check looks inputs up in the database only: the input that \<open>blk_stake\<close> takes from the
  same block leaves a blank entry and its value cannot be determined.\<close>

lemma blk_db_inputs:
  "GetMapTxInputs blk_env blk_db (\<lambda>_. None) True False blk_coinbase = (True, \<lambda>_. None)" "GetValueMapIn (\<lambda>_. None) blk_coinbase = Inr 0"
  "GetMapTxInputs blk_env blk_db (\<lambda>_. None) True False blk_spend = (True, [GetHash ssl_prefix demo_prev \<mapsto> (CTxIndex_new demo_pos 1, demo_prev)])"
  "GetValueMapIn [GetHash ssl_prefix demo_prev \<mapsto> (CTxIndex_new demo_pos 1, demo_prev)] blk_spend = Inr 1000"
  "GetMapTxInputs blk_env blk_db (\<lambda>_. None) True False blk_stake = (True, [GetHash ssl_prefix blk_spend \<mapsto> (CTxIndex_Null, CTransaction_Null 200)])"
  "GetValueMapIn [GetHash ssl_prefix blk_spend \<mapsto> (CTxIndex_Null, CTransaction_Null 200)] blk_stake = Inl Runtime_error"
proof -
  have vin: "vin blk_spend = [\<lparr>prevout = COutPoint (GetHash ssl_prefix demo_prev) 0, scriptSig = [], nSequence = -1\<rparr>]"
    "vin blk_stake = [\<lparr>prevout = COutPoint (GetHash ssl_prefix blk_spend) 0, scriptSig = [], nSequence = -1\<rparr>]"
    by (simp_all add: blk_spend_def blk_stake_def)
  have v: "vout demo_prev = [\<lparr>nValue = 1000, scriptPubKey = [0x51]\<rparr>]" by (simp add: demo_prev_def)
  show "GetMapTxInputs blk_env blk_db (\<lambda>_. None) True False blk_coinbase = (True, \<lambda>_. None)" "GetValueMapIn (\<lambda>_. None) blk_coinbase = Inr 0"
    by (simp_all add: GetMapTxInputs_def FetchInputs_def GetValueMapIn_def)
  show "GetMapTxInputs blk_env blk_db (\<lambda>_. None) True False blk_spend = (True, [GetHash ssl_prefix demo_prev \<mapsto> (CTxIndex_new demo_pos 1, demo_prev)])"
    by (simp add: GetMapTxInputs_def FetchInputs_def vin v Let_def fetch_one_def ReadTxIndex_def blk_db_def
        CTxIndex_new_def demo_pos_def pos_mempool_def blk_env_def)
  show "GetMapTxInputs blk_env blk_db (\<lambda>_. None) True False blk_stake = (True, [GetHash ssl_prefix blk_spend \<mapsto> (CTxIndex_Null, CTransaction_Null 200)])"
    using blk_hashes by (simp add: GetMapTxInputs_def FetchInputs_def vin v Let_def fetch_one_def ReadTxIndex_def blk_db_def blk_env_def)
  show "GetValueMapIn [GetHash ssl_prefix demo_prev \<mapsto> (CTxIndex_new demo_pos 1, demo_prev)] blk_spend = Inr 1000"
    "GetValueMapIn [GetHash ssl_prefix blk_spend \<mapsto> (CTxIndex_Null, CTransaction_Null 200)] blk_stake = Inl Runtime_error"
    by (simp_all add: GetValueMapIn_def vin v GetOutputFor_def in_i64_def CTransaction_Null_def)
qed

text \<open>C28. The minting attack: connecting a block does not bound what a coinstake outside position 1 pays
  out. The block below is a valid proof-of-work block for \<open>ConnectBlock\<close> at a height with a subsidy of
  0.42 coins and raises the money supply by ten million coins. The balance check of \<open>AcceptBlock\<close>
  refuses it from height 701721 on, because an input of an in-block chain cannot be looked up.\<close>

theorem coinstake_minting:
  "\<exists>db' ev. ConnectBlock ssl_prefix blk_env blk_db [demo_index 100, demo_index 90] False mint_block = Inr (mint_index, db', ev) \<and>
     b_IsProofOfWork mint_block \<and> pow_subsidy (best_height blk_env) = 42000000 \<and>
     bi_nMoneySupply mint_index = bi_nMoneySupply (demo_index 90) + 1000000041999000 \<and>
     balance_check blk_env blk_db 701720 mint_block \<and> \<not> balance_check blk_env blk_db 701721 mint_block"
proof -
  have v: "vtx mint_block = [blk_coinbase, blk_spend, blk_stake]" by (simp add: mint_block_def blk_of_def)
  have "balance_loop blk_env blk_db 0 0 (vtx mint_block) = Bal_throw"
    unfolding v using blk_db_inputs by (simp add: in_i64_def GetValueOut_blk)
  then have "balance_check blk_env blk_db 701720 mint_block" "\<not> balance_check blk_env blk_db 701721 mint_block"
    by (simp_all add: balance_check_def attacked_heights_def)
  moreover have "pow_subsidy (best_height blk_env) = 42000000" by (simp add: blk_env_def demo_env_def pow_subsidy_def)
  ultimately show ?thesis using mint_block_connects
    by (auto simp: b_IsProofOfWork_def b_IsProofOfStake_def v mint_index_def demo_index_def)
qed

text \<open>The balance check is sound: above height 701720 an accepted block has all its inputs in the
  database, and its outputs are worth at most its inputs and the subsidy, as unbounded integers.\<close>

lemma balance_check_sound:
  assumes "balance_check E db h b" "h > 701720"
  shows "list_all (\<lambda>tx. \<exists>v. db_value_in E db tx = Inr v) (vtx b) \<and>
     sum_list (map (\<lambda>tx. total_out (vout tx)) (vtx b)) \<le>
       sum_list (map (\<lambda>tx. projr (db_value_in E db tx)) (vtx b)) + pow_subsidy h"
proof -
  from assms obtain i out where s: "balance_loop E db 0 0 (vtx b) = Bal_sums i out" and le: "out \<le> i64 (i + GetProofOfWorkReward h 0)"
    by (auto simp: balance_check_def attacked_heights_def split: balance.splits)
  have L: "list_all (\<lambda>tx. \<exists>v. db_value_in E db tx = Inr v) (vtx b)"
     "i = sum_list (map (\<lambda>tx. projr (db_value_in E db tx)) (vtx b))" "0 \<le> i" "in_i64 i"
     "out = sum_list (map (\<lambda>tx. total_out (vout tx)) (vtx b))" "0 \<le> out"
    using balance_loop_sums [OF s] by (auto simp: in_i64_def)
  have g: "GetProofOfWorkReward h 0 = pow_subsidy h" "in_i64 (pow_subsidy h)"
    using pow_subsidy_range [of h] by (auto simp: GetProofOfWorkReward_def in_i64_def)
  have "i64 (i + pow_subsidy h) = i + pow_subsidy h"
    using i64_nonneg_exact [of i "pow_subsidy h"] L g le by simp
  then show ?thesis using L le g by simp
qed

end
