(* ===== verification/Kernel.thy ===== *)
theory Kernel
  imports Block "HOL-Library.Product_Lexorder"
begin

text \<open>
  The proof-of-stake kernel (\<open>kernel.cpp\<close>): the stake modifier computed from the blocks of a selection
  interval, and the check that a coinstake meets its target. The block index is the map
  \<open>mapBlockIndex\<close> from hashes to entries; a chain is the list of entries from the newest down, and
  \<open>pnext\<close> is followed through \<open>bi_hashNext\<close>. \<open>nModifierInterval\<close> differs between the networks and is an
  argument. The loop along \<open>pnext\<close> is a partial function: \<open>None\<close> means that it does not end.
\<close>

section \<open>Intervals and weights\<close>

abbreviation (input) nStakeMaxAge :: int where "nStakeMaxAge \<equiv> 25 * 24 * 60 * 60"
abbreviation (input) nModifierInterval_main :: u32 where "nModifierInterval_main \<equiv> 10 * 60"
abbreviation (input) nModifierInterval_test :: u32 where "nModifierInterval_test \<equiv> 60"
abbreviation (input) MODIFIER_INTERVAL_RATIO :: int where "MODIFIER_INTERVAL_RATIO \<equiv> 3"

definition GetWeight :: "int \<Rightarrow> int \<Rightarrow> int" where
  "GetWeight nIntervalBeginning nIntervalEnd =
     min (i64 (i64 (nIntervalEnd - nIntervalBeginning) - nStakeMinAge)) nStakeMaxAge"

definition GetWeight2 :: "int \<Rightarrow> int \<Rightarrow> int" where
  "GetWeight2 nIntervalBeginning nIntervalEnd =
     min (i64 (i64 (nIntervalEnd - nIntervalBeginning) - nStakeMinAge)) nStakeMaxAge"

fun last_generated :: "CBlockIndex list \<Rightarrow> CBlockIndex list" where
  "last_generated [] = []"
| "last_generated [b] = [b]"
| "last_generated (b # c # r) = (if \<not> bi_GeneratedStakeModifier b then last_generated (c # r) else b # c # r)"

definition GetLastStakeModifier :: "CBlockIndex list \<Rightarrow> (u64 \<times> int) option" where
  "GetLastStakeModifier pindex =
     (case last_generated pindex of
        [] \<Rightarrow> None
      | b # _ \<Rightarrow> if \<not> bi_GeneratedStakeModifier b then None else Some (bi_nStakeModifier b, bi_GetBlockTime b))"

text \<open>Unsigned arithmetic, since \<open>nModifierInterval\<close> is \<open>unsigned int\<close>. The assertion on the section number
  holds at both calls, whose loop counters stay below 64.\<close>

definition GetStakeModifierSelectionIntervalSection :: "u32 \<Rightarrow> nat \<Rightarrow> int" where
  "GetStakeModifierSelectionIntervalSection nModifierInterval nSection =
     uint ((nModifierInterval * 63) div (word_of_int (63 + (63 - int nSection) * (MODIFIER_INTERVAL_RATIO - 1))))"

definition GetStakeModifierSelectionInterval :: "u32 \<Rightarrow> int" where
  "GetStakeModifierSelectionInterval nModifierInterval =
     foldl (\<lambda>s nSection. i64 (s + GetStakeModifierSelectionIntervalSection nModifierInterval nSection)) 0 [0..<64]"

section \<open>Selecting blocks\<close>

type_synonym block_map = "uint256 \<rightharpoonup> CBlockIndex"

definition hashSelection :: "ssl_lib \<Rightarrow> u64 \<Rightarrow> CBlockIndex \<Rightarrow> uint256" where
  "hashSelection L nStakeModifierPrev pindex =
     (let hashProof = (if bi_IsProofOfStake pindex then bi_hashProofOfStake pindex else bi_hash pindex);
          h = Hash L (u256_bytes hashProof @ u64_bytes nStakeModifierPrev)
      in if bi_IsProofOfStake pindex then drop_bit 32 h else h)"

text \<open>\<open>best\<close> is the pair of \<open>hashBest\<close> and \<open>*pindexSelected\<close> once \<open>fSelected\<close> is set; \<open>Inl\<close> is the error
  exit for a candidate without index entry.\<close>

fun select_loop :: "ssl_lib \<Rightarrow> block_map \<Rightarrow> uint256 set \<Rightarrow> int \<Rightarrow> u64 \<Rightarrow> (uint256 \<times> CBlockIndex) option \<Rightarrow> (int \<times> uint256) list \<Rightarrow>
    unit + (uint256 \<times> CBlockIndex) option" where
  "select_loop L mapBlockIndex selected stop modifier best [] = Inr best"
| "select_loop L mapBlockIndex selected stop modifier best (item # r) =
     (case mapBlockIndex (snd item) of
        None \<Rightarrow> Inl ()
      | Some pindex \<Rightarrow>
          if best \<noteq> None \<and> bi_GetBlockTime pindex > stop then Inr best
          else if bi_hash pindex \<in> selected then select_loop L mapBlockIndex selected stop modifier best r
          else let h = hashSelection L modifier pindex in
               select_loop L mapBlockIndex selected stop modifier
                 (case best of
                    Some (hashBest, p) \<Rightarrow> if h < hashBest then Some (h, pindex) else best
                  | None \<Rightarrow> Some (h, pindex)) r)"

definition SelectBlockFromCandidates :: "ssl_lib \<Rightarrow> block_map \<Rightarrow> (int \<times> uint256) list \<Rightarrow> uint256 set \<Rightarrow> int \<Rightarrow> u64 \<Rightarrow> CBlockIndex option" where
  "SelectBlockFromCandidates L mapBlockIndex vSortedByTimestamp mapSelectedBlocks nSelectionIntervalStop nStakeModifierPrev =
     (case select_loop L mapBlockIndex mapSelectedBlocks nSelectionIntervalStop nStakeModifierPrev None vSortedByTimestamp of
        Inl _ \<Rightarrow> None
      | Inr best \<Rightarrow> map_option snd best)"

text \<open>The rounds of \<open>ComputeNextStakeModifier\<close>.\<close>

fun modifier_rounds :: "ssl_lib \<Rightarrow> block_map \<Rightarrow> u32 \<Rightarrow> (int \<times> uint256) list \<Rightarrow> u64 \<Rightarrow> nat list \<Rightarrow> int \<Rightarrow> uint256 set \<Rightarrow> u64 \<Rightarrow> u64 option" where
  "modifier_rounds L mapBlockIndex mi cands modifier [] stop selected new = Some new"
| "modifier_rounds L mapBlockIndex mi cands modifier (nRound # r) stop selected new =
     (let stop1 = i64 (stop + GetStakeModifierSelectionIntervalSection mi nRound) in
      case SelectBlockFromCandidates L mapBlockIndex cands selected stop1 modifier of
        None \<Rightarrow> None
      | Some pindex \<Rightarrow>
          modifier_rounds L mapBlockIndex mi cands modifier r stop1 (insert (bi_hash pindex) selected)
            (new OR push_bit nRound (ucast (bi_GetStakeEntropyBit pindex))))"

definition stake_candidates :: "int \<Rightarrow> CBlockIndex list \<Rightarrow> (int \<times> uint256) list" where
  "stake_candidates nSelectionIntervalStart pindexPrev =
     sort (rev (map (\<lambda>b. (bi_GetBlockTime b, bi_hash b))
       (takeWhile (\<lambda>b. bi_GetBlockTime b \<ge> nSelectionIntervalStart) pindexPrev)))"

definition selection_start :: "u32 \<Rightarrow> CBlockIndex list \<Rightarrow> int" where
  "selection_start mi pindexPrev =
     i64 (i64 (cdiv (bi_GetBlockTime (hd pindexPrev)) (uint mi) * uint mi) - GetStakeModifierSelectionInterval mi)"

text \<open>The result is \<open>nStakeModifier\<close> and \<open>fGeneratedStakeModifier\<close>, or \<open>None\<close> on an error.\<close>

definition ComputeNextStakeModifier :: "ssl_lib \<Rightarrow> block_map \<Rightarrow> u32 \<Rightarrow> CBlockIndex list \<Rightarrow> (u64 \<times> bool) option" where
  "ComputeNextStakeModifier L mapBlockIndex mi pindexPrev =
     (if pindexPrev = [] then Some (0, True)
      else case GetLastStakeModifier pindexPrev of
             None \<Rightarrow> None
           | Some (nStakeModifier, nModifierTime) \<Rightarrow>
               if cdiv nModifierTime (uint mi) \<ge> cdiv (bi_GetBlockTime (hd pindexPrev)) (uint mi)
               then Some (nStakeModifier, False)
               else let start = selection_start mi pindexPrev;
                        vSortedByTimestamp = stake_candidates start pindexPrev
                    in map_option (\<lambda>m. (m, True))
                         (modifier_rounds L mapBlockIndex mi vSortedByTimestamp nStakeModifier
                            [0..<min 64 (length vSortedByTimestamp)] start {} 0))"

section \<open>The modifier of a kernel\<close>

text \<open>A \<open>pnext\<close> that is not null refers to an entry of the index.\<close>

partial_function (option) kernel_modifier_loop :: "block_map \<Rightarrow> int \<Rightarrow> CBlockIndex \<Rightarrow> int \<Rightarrow> int \<Rightarrow> (unit + u64 \<times> int \<times> int) option" where
  "kernel_modifier_loop mapBlockIndex stop pindex nHeight nModTime =
     (if nModTime < stop then
        (if bi_hashNext pindex = 0 then Some (Inl ())
         else case mapBlockIndex (bi_hashNext pindex) of
                None \<Rightarrow> Some (Inl ())
              | Some p \<Rightarrow>
                  if bi_GeneratedStakeModifier p
                  then kernel_modifier_loop mapBlockIndex stop p (bi_nHeight p) (bi_GetBlockTime p)
                  else kernel_modifier_loop mapBlockIndex stop p nHeight nModTime)
      else Some (Inr (bi_nStakeModifier pindex, nHeight, nModTime)))"

definition GetKernelStakeModifier :: "block_map \<Rightarrow> u32 \<Rightarrow> uint256 \<Rightarrow> (unit + u64 \<times> int \<times> int) option" where
  "GetKernelStakeModifier mapBlockIndex mi hashBlockFrom =
     (case mapBlockIndex hashBlockFrom of
        None \<Rightarrow> Some (Inl ())
      | Some pindexFrom \<Rightarrow>
          kernel_modifier_loop mapBlockIndex (i64 (bi_GetBlockTime pindexFrom + GetStakeModifierSelectionInterval mi))
            pindexFrom (bi_nHeight pindexFrom) (bi_GetBlockTime pindexFrom))"

section \<open>The kernel hash\<close>

definition stakeHash :: "ssl_lib \<Rightarrow> u32 \<Rightarrow> u32 \<Rightarrow> byte list \<Rightarrow> u32 \<Rightarrow> u32 \<Rightarrow> u32 \<Rightarrow> uint256" where
  "stakeHash L nTimeTx nTxPrevTime ss prevoutIndex nTxPrevOffset nTimeBlockFrom =
     Hash L (ss @ u32_bytes nTimeBlockFrom @ u32_bytes nTxPrevOffset @ u32_bytes nTxPrevTime @
             u32_bytes prevoutIndex @ u32_bytes nTimeTx)"

definition stakeTargetHit :: "bn_lib \<Rightarrow> uint256 \<Rightarrow> int \<Rightarrow> int \<Rightarrow> int \<Rightarrow> bool" where
  "stakeTargetHit B hashProofOfStake nTimeWeight nValueIn bnTargetPerCoinDay =
     (let bnCoinDayWeight = cdiv (cdiv (setint64 B nValueIn * setint64 B nTimeWeight) (setint64 B COIN)) (24 * 60 * 60)
      in setuint256 B hashProofOfStake < bnCoinDayWeight * bnTargetPerCoinDay)"

text \<open>The search loop: remaining counter values \<open>i\<close>, the result pair \<open>nTimeTx\<close>, \<open>hashProofOfStake\<close>, and \<open>fSuccess\<close>.\<close>

fun kernel_search :: "(u32 \<Rightarrow> uint256) \<Rightarrow> (uint256 \<Rightarrow> u32 \<Rightarrow> bool) \<Rightarrow> u32 \<Rightarrow> nat list \<Rightarrow> bool \<times> u32 \<times> uint256 \<Rightarrow> bool \<times> u32 \<times> uint256" where
  "kernel_search hashAt hit nHashDrift [] res = res"
| "kernel_search hashAt hit nHashDrift (i # r) (fSuccess, nTimeTx, hashProof) =
     (let nTryTime = nTimeTx + nHashDrift - of_nat i;
          h = hashAt nTryTime
      in kernel_search hashAt hit nHashDrift r (if hit h nTimeTx then (True, nTryTime, h) else (fSuccess, nTimeTx, h)))"

text \<open>
  The result is the return value, the reference arguments \<open>nTimeTx\<close> and \<open>hashProofOfStake\<close>, and the
  new contents of \<open>mapHashedBlocks\<close> when the call replaces them; \<open>now\<close> is \<open>GetTime()\<close>.
\<close>

definition CheckStakeKernelHash :: "ssl_lib \<Rightarrow> node_env \<Rightarrow> block_map \<Rightarrow> u32 \<Rightarrow> int \<Rightarrow> u32 \<Rightarrow> 'a CBlockHeader_scheme \<Rightarrow> u32 \<Rightarrow> CTransaction \<Rightarrow>
    COutPoint \<Rightarrow> u32 \<Rightarrow> u32 \<Rightarrow> bool \<Rightarrow> uint256 \<Rightarrow> (bool \<times> u32 \<times> uint256 \<times> (int \<rightharpoonup> u32) option) option" where
  "CheckStakeKernelHash L E mapBlockIndex mi now nBits blockFrom nTxPrevOffset txPrev prevoutK nTimeTx nHashDrift fCheck hashProofOfStake =
     (let nValueIn = nValue (vout txPrev ! unat (op_n prevoutK));
          nTxPrevTime = nTime txPrev;
          nTimeBlockFrom = b_nTime blockFrom
      in if nTimeTx < nTime txPrev then Some (False, nTimeTx, hashProofOfStake, None)
         else if nTimeBlockFrom + word_of_int nStakeMinAge > nTimeTx then Some (False, nTimeTx, hashProofOfStake, None)
         else let bnTargetPerCoinDay = SetCompact (bn L) nBits in
         (case GetKernelStakeModifier mapBlockIndex mi (b_GetHash E blockFrom) of
            None \<Rightarrow> None
          | Some (Inl _) \<Rightarrow> Some (False, nTimeTx, hashProofOfStake, None)
          | Some (Inr (nStakeModifier, _, _)) \<Rightarrow>
              let ss = u64_bytes nStakeModifier;
                  hashAt = (\<lambda>t. stakeHash L t nTxPrevTime ss (op_n prevoutK) nTxPrevOffset nTimeBlockFrom);
                  hit = (\<lambda>h t. stakeTargetHit (bn L) h (GetWeight (uint nTxPrevTime) (uint t)) nValueIn bnTargetPerCoinDay)
              in if fCheck then Some (hit (hashAt nTimeTx) nTimeTx, nTimeTx, hashAt nTimeTx, None)
                 else case kernel_search hashAt hit nHashDrift [0..<unat nHashDrift] (False, nTimeTx, hashProofOfStake) of
                        (ok, t, h) \<Rightarrow> Some (ok, t, h, Some [best_height E \<mapsto> word_of_int now])))"

datatype stake_error = Stk_not_coinstake | Stk_prev_missing | Stk_signature | Stk_assertion | Stk_block_missing | Stk_kernel

text \<open>\<open>Inr\<close> is success with \<open>hashProofOfStake\<close>.\<close>

definition CheckProofOfStake :: "ssl_lib \<Rightarrow> node_env \<Rightarrow> CTxDB \<Rightarrow> block_map \<Rightarrow> u32 \<Rightarrow> int \<Rightarrow> CTransaction \<Rightarrow> u32 \<Rightarrow> (stake_error + uint256) option" where
  "CheckProofOfStake L E db mapBlockIndex mi now tx nBits =
     (if \<not> IsCoinStake tx then Some (Inl Stk_not_coinstake)
      else let txin = vin tx ! 0 in
      (case ReadFromDisk_outpoint E db (prevout txin) of
         None \<Rightarrow> Some (Inl Stk_prev_missing)
       | Some (txPrev, txindex) \<Rightarrow>
           (case VerifySignature L txPrev tx 0 0 of
              None \<Rightarrow> Some (Inl Stk_assertion)
            | Some False \<Rightarrow> Some (Inl Stk_signature)
            | Some True \<Rightarrow>
                (case disk_header E (nFile (pos txindex)) (nBlockPos (pos txindex)) of
                   None \<Rightarrow> Some (Inl Stk_block_missing)
                 | Some block \<Rightarrow>
                     (case CheckStakeKernelHash L E mapBlockIndex mi now nBits block (nTxPos (pos txindex) - nBlockPos (pos txindex))
                             txPrev (prevout txin) (nTime tx) 0 True 0 of
                        None \<Rightarrow> None
                      | Some (ok, _, hashProofOfStake, _) \<Rightarrow> Some (if ok then Inr hashProofOfStake else Inl Stk_kernel))))))"

section \<open>Checksums of modifiers\<close>

definition genesis_hash :: uint256 where
  "genesis_hash = 0x00000fea25f87416682baa54946a1d156909d0959588eb573a0ae16a64230c61"

text \<open>\<open>None\<close> is the failed assertion.\<close>

definition GetStakeModifierChecksum :: "ssl_lib \<Rightarrow> CBlockIndex list \<Rightarrow> u32 option" where
  "GetStakeModifierChecksum L pindex =
     (if tl pindex = [] \<and> bi_hash (hd pindex) \<noteq> genesis_hash then None
      else let b = hd pindex;
               ss = (case tl pindex of [] \<Rightarrow> [] | p # _ \<Rightarrow> u32_bytes (bi_nStakeModifierChecksum p)) @
                    u32_bytes (bi_nFlags b) @ u256_bytes (bi_hashProofOfStake b) @ u64_bytes (bi_nStakeModifier b)
           in Some (ucast (drop_bit (256 - 32) (Hash L ss))))"

definition mapStakeModifierCheckpoints :: "int \<rightharpoonup> u32" where
  "mapStakeModifierCheckpoints = [0 \<mapsto> 0x0e00670b]"

definition CheckStakeModifierCheckpoints :: "int \<Rightarrow> u32 \<Rightarrow> bool" where
  "CheckStakeModifierCheckpoints nHeight nStakeModifierChecksum =
     (case mapStakeModifierCheckpoints nHeight of
        None \<Rightarrow> True
      | Some c \<Rightarrow> nStakeModifierChecksum = c)"

section \<open>Selection is a minimum\<close>

lemma foldl_arg_min:
  fixes f :: "'a \<Rightarrow> 'b::linorder"
  shows "foldl (\<lambda>b x. if f x < f b then x else b) x xs = arg_min_list f (x # xs)"
proof (induction xs arbitrary: x)
  case (Cons y ys)
  have le: "f (arg_min_list f (y # ys)) \<le> f y" using f_arg_min_list_f [of "y # ys" f] by simp
  show ?case
  proof (cases "f y < f x")
    case True
    then have "\<not> f x \<le> f (arg_min_list f (y # ys))" using le by simp
    then show ?thesis using True Cons.IH [of y] by (simp add: Let_def)
  next
    case False
    have "arg_min_list f (x # ys) = arg_min_list f (x # y # ys)"
    proof (cases ys)
      case Nil
      then show ?thesis using False by (simp add: not_less)
    next
      case (Cons z zs)
      then show ?thesis using False by (auto simp: Let_def not_less)
    qed
    then show ?thesis using False Cons.IH [of x] by simp
  qed
qed simp

text \<open>The candidates of a round: the earliest block not selected yet, and the later ones up to the stop time.\<close>

definition eligible :: "uint256 set \<Rightarrow> int \<Rightarrow> (int \<times> uint256) list \<Rightarrow> (int \<times> uint256) list" where
  "eligible selected stop cands =
     (case filter (\<lambda>it. snd it \<notin> selected) cands of
        [] \<Rightarrow> []
      | u # r \<Rightarrow> u # filter (\<lambda>it. fst it \<le> stop) r)"

definition indexed :: "block_map \<Rightarrow> (int \<times> uint256) list \<Rightarrow> bool" where
  "indexed mapBlockIndex cands \<longleftrightarrow>
     (\<forall>it \<in> set cands. \<exists>b. mapBlockIndex (snd it) = Some b \<and> bi_hash b = snd it \<and> bi_GetBlockTime b = fst it)"

lemma indexed_Cons: "indexed M (it # r) \<longleftrightarrow>
    (\<exists>b. M (snd it) = Some b \<and> bi_hash b = snd it \<and> bi_GetBlockTime b = fst it) \<and> indexed M r"
  by (auto simp: indexed_def)

abbreviation (input) sel_hash :: "ssl_lib \<Rightarrow> block_map \<Rightarrow> u64 \<Rightarrow> int \<times> uint256 \<Rightarrow> uint256" where
  "sel_hash L M m it \<equiv> hashSelection L m (the (M (snd it)))"

lemma select_loop_best:
  assumes "indexed M cs" "sorted (map fst cs)" "M (snd it) = Some b"
  shows "select_loop L M selected stop m (Some (hashSelection L m b, b)) cs =
    (let y = foldl (\<lambda>b x. if sel_hash L M m x < sel_hash L M m b then x else b) it
               (filter (\<lambda>it. fst it \<le> stop) (filter (\<lambda>it. snd it \<notin> selected) cs))
     in Inr (Some (sel_hash L M m y, the (M (snd y)))))"
  using assms
proof (induction cs arbitrary: it b)
  case Nil
  then show ?case by simp
next
  case (Cons c cs)
  obtain d where d: "M (snd c) = Some d" "bi_hash d = snd c" "bi_GetBlockTime d = fst c" using Cons.prems(1) by (auto simp: indexed_Cons)
  show ?case
  proof (cases "fst c > stop")
    case True
    then have "filter (\<lambda>it. fst it \<le> stop) (filter (\<lambda>it. snd it \<notin> selected) (c # cs)) = []"
      using Cons.prems(2) by (fastforce simp: filter_empty_conv)
    then show ?thesis using True d Cons.prems(3) by (simp add: Let_def del: filter_filter)
  next
    case False
    have IH: "select_loop L M selected stop m (Some (hashSelection L m b', b')) cs =
      (let y = foldl (\<lambda>b x. if sel_hash L M m x < sel_hash L M m b then x else b) it'
               (filter (\<lambda>it. fst it \<le> stop) (filter (\<lambda>it. snd it \<notin> selected) cs))
       in Inr (Some (sel_hash L M m y, the (M (snd y)))))" if "M (snd it') = Some b'" for it' b'
      using Cons.IH [OF _ _ that] Cons.prems(1,2) by (simp add: indexed_Cons)
    show ?thesis using False d Cons.prems(3) IH [OF Cons.prems(3)] IH [OF d(1)] by (simp add: Let_def)
  qed
qed

lemma select_loop_none:
  assumes "indexed M cs" "sorted (map fst cs)"
  shows "select_loop L M selected stop m None cs =
    (case eligible selected stop cs of
       [] \<Rightarrow> Inr None
     | es \<Rightarrow> let y = arg_min_list (sel_hash L M m) es in Inr (Some (sel_hash L M m y, the (M (snd y)))))"
  using assms
proof (induction cs)
  case Nil
  then show ?case by (simp add: eligible_def)
next
  case (Cons c cs)
  obtain d where d: "M (snd c) = Some d" "bi_hash d = snd c" "bi_GetBlockTime d = fst c" using Cons.prems(1) by (auto simp: indexed_Cons)
  have cs: "indexed M cs" "sorted (map fst cs)" using Cons.prems by (auto simp: indexed_Cons)
  show ?case
  proof (cases "snd c \<in> selected")
    case True
    then have "eligible selected stop (c # cs) = eligible selected stop cs" by (simp add: eligible_def)
    then show ?thesis using True d Cons.IH [OF cs] by simp
  next
    case False
    then have "eligible selected stop (c # cs) = c # filter (\<lambda>it. fst it \<le> stop) (filter (\<lambda>it. snd it \<notin> selected) cs)"
      by (simp add: eligible_def)
    then show ?thesis using False d select_loop_best [OF cs d(1), of L selected stop m]
      by (simp add: Let_def foldl_arg_min [of "sel_hash L M m"] del: filter_filter)
  qed
qed

lemma select_correct:
  assumes "indexed M cs" "sorted (map fst cs)"
  shows "SelectBlockFromCandidates L M cs selected stop m =
    (case eligible selected stop cs of
       [] \<Rightarrow> None
     | es \<Rightarrow> M (snd (arg_min_list (\<lambda>it. hashSelection L m (the (M (snd it)))) es)))"
proof (cases "eligible selected stop cs")
  case Nil
  then show ?thesis using select_loop_none [OF assms, of L selected stop m] by (simp add: SelectBlockFromCandidates_def)
next
  case (Cons e es)
  let ?y = "arg_min_list (sel_hash L M m) (e # es)"
  have "?y \<in> set (e # es)" by (rule arg_min_list_in) simp
  then have "?y \<in> set cs" unfolding Cons [symmetric] by (auto simp: eligible_def split: list.splits dest: filter_eq_ConsD)
  then have "M (snd ?y) \<noteq> None" using assms(1) unfolding indexed_def by fastforce
  then show ?thesis using select_loop_none [OF assms, of L selected stop m] Cons
    by (simp add: SelectBlockFromCandidates_def Let_def del: arg_min_list.simps)
qed

section \<open>The bits of a modifier\<close>

lemma entropy_bit:
  "bit (push_bit n (ucast (bi_GetStakeEntropyBit b)) :: u64) i \<longleftrightarrow> i = n \<and> i < 64 \<and> bit (bi_nFlags b) 1"
proof -
  have "bit (bi_nFlags b AND 2) k = (k = 1 \<and> bit (bi_nFlags b) 1)" for k
    by (auto simp only: bit_and_iff bit_2_iff possible_bit_word) simp
  then have e: "bit (bi_GetStakeEntropyBit b) k = (k = 0 \<and> bit (bi_nFlags b) 1)" for k
    unfolding bi_GetStakeEntropyBit_def bit_drop_bit_eq comp_def by (cases k) simp_all
  show ?thesis unfolding bit_push_bit_iff bit_ucast_iff e possible_bit_word by (cases "i = n") auto
qed

lemma select_some:
  assumes "indexed M cs" "sorted (map fst cs)" "\<exists>it \<in> set cs. snd it \<notin> selected"
  obtains b it where "SelectBlockFromCandidates L M cs selected stop m = Some b" "it \<in> set cs" "M (snd it) = Some b"
    "bi_hash b = snd it" "bi_hash b \<notin> selected"
proof -
  obtain e es where e: "eligible selected stop cs = e # es"
    using assms(3) by (cases "filter (\<lambda>it. snd it \<notin> selected) cs") (auto simp: eligible_def filter_empty_conv)
  let ?y = "arg_min_list (\<lambda>it. hashSelection L m (the (M (snd it)))) (e # es)"
  have "?y \<in> set (e # es)" by (rule arg_min_list_in) simp
  then have y: "?y \<in> set cs \<and> snd ?y \<notin> selected" unfolding e [symmetric]
    by (auto simp: eligible_def split: list.splits dest: filter_eq_ConsD)
  then obtain b where b: "M (snd ?y) = Some b" "bi_hash b = snd ?y" using assms(1) unfolding indexed_def by blast
  have "SelectBlockFromCandidates L M cs selected stop m = Some b"
    using select_correct [OF assms(1,2), of L selected stop m] e b(1) by (simp del: arg_min_list.simps)
  then show thesis using that b y by metis
qed

lemma modifier_rounds_spec:
  assumes "indexed M cs" "sorted (map fst cs)" "distinct (map snd cs)"
    "n \<le> card (snd ` set cs - selected)"
  shows "\<exists>m es. modifier_rounds L M mi cs prev [k..<k + n] stop selected new = Some m \<and> length es = n \<and>
     distinct (map bi_hash es) \<and> bi_hash ` set es \<inter> selected = {} \<and>
     (\<forall>b \<in> set es. bi_hash b \<in> snd ` set cs \<and> M (bi_hash b) = Some b) \<and>
     (\<forall>i < 64. bit m i \<longleftrightarrow> bit new i \<or> (k \<le> i \<and> i < k + n \<and> bit (bi_nFlags (es ! (i - k))) 1))"
  using assms(4)
proof (induction n arbitrary: k stop selected new)
  case 0
  then show ?case by (auto intro: exI [of _ "[]"])
next
  case (Suc n)
  have "\<exists>it \<in> set cs. snd it \<notin> selected"
  proof (rule ccontr)
    assume "\<not> ?thesis"
    then have "snd ` set cs - selected = {}" by auto
    with Suc.prems show False by (metis card.empty not_less_eq_eq zero_le)
  qed
  then obtain b it where b: "SelectBlockFromCandidates L M cs selected (i64 (stop + GetStakeModifierSelectionIntervalSection mi k)) prev = Some b"
    "it \<in> set cs" "M (snd it) = Some b" "bi_hash b = snd it" "bi_hash b \<notin> selected"
    by (rule select_some [OF assms(1,2), of selected L "i64 (stop + GetStakeModifierSelectionIntervalSection mi k)" prev])
  let ?sel = "insert (bi_hash b) selected"
  let ?new = "new OR push_bit k (ucast (bi_GetStakeEntropyBit b))"
  have "snd ` set cs - ?sel = (snd ` set cs - selected) - {bi_hash b}" by auto
  moreover have "bi_hash b \<in> snd ` set cs - selected" using b(2,4,5) by auto
  ultimately have "card (snd ` set cs - ?sel) = card (snd ` set cs - selected) - 1" by (simp only: card_Diff_singleton)
  then have "n \<le> card (snd ` set cs - ?sel)" using Suc.prems by linarith
  from Suc.IH [OF this, of "Suc k" "i64 (stop + GetStakeModifierSelectionIntervalSection mi k)" ?new]
  obtain m es where m: "modifier_rounds L M mi cs prev [Suc k..<Suc k + n] (i64 (stop + GetStakeModifierSelectionIntervalSection mi k)) ?sel ?new = Some m"
    "length es = n" "distinct (map bi_hash es)" "bi_hash ` set es \<inter> ?sel = {}"
    "\<forall>b \<in> set es. bi_hash b \<in> snd ` set cs \<and> M (bi_hash b) = Some b"
    "\<forall>i < 64. bit m i \<longleftrightarrow> bit ?new i \<or> (Suc k \<le> i \<and> i < Suc k + n \<and> bit (bi_nFlags (es ! (i - Suc k))) 1)" by blast
  have bits: "bit m i \<longleftrightarrow> bit new i \<or> (k \<le> i \<and> i < k + Suc n \<and> bit (bi_nFlags ((b # es) ! (i - k))) 1)" if "i < 64" for i
  proof (cases "i = k")
    case True
    then show ?thesis using m(6) that by (simp add: bit_or_iff entropy_bit)
  next
    case False
    then have "(b # es) ! (i - k) = es ! (i - Suc k)" if "k \<le> i" using that by (simp add: nth_Cons' Suc_diff_Suc)
    then show ?thesis using m(6) that False by (auto simp: bit_or_iff entropy_bit)
  qed
  have "[k..<k + Suc n] = k # [Suc k..<Suc k + n]" by (simp add: upt_conv_Cons del: upt_Suc)
  then have "modifier_rounds L M mi cs prev [k..<k + Suc n] stop selected new = Some m" using b(1) m(1) by (simp add: Let_def del: upt_Suc)
  moreover have "distinct (map bi_hash (b # es))" "bi_hash ` set (b # es) \<inter> selected = {}" using m(3,4) b(5) by auto
  moreover have "\<forall>c \<in> set (b # es). bi_hash c \<in> snd ` set cs \<and> M (bi_hash c) = Some c" using m(5) b(2,3,4) by auto
  ultimately show ?case using bits m(2) by (intro exI [of _ m] exI [of _ "b # es"]) simp
qed

text \<open>A chain of the index: every entry is found under its hash, hashes are distinct, and the oldest entry
  has a generated modifier.\<close>

definition chain_indexed :: "block_map \<Rightarrow> CBlockIndex list \<Rightarrow> bool" where
  "chain_indexed M chain \<longleftrightarrow>
     (\<forall>b \<in> set chain. M (bi_hash b) = Some b) \<and> distinct (map bi_hash chain) \<and>
     (chain \<noteq> [] \<longrightarrow> bi_GeneratedStakeModifier (last chain))"

lemma last_generated_ex: "chain \<noteq> [] \<Longrightarrow> bi_GeneratedStakeModifier (last chain) \<Longrightarrow>
    \<exists>b r. last_generated chain = b # r \<and> bi_GeneratedStakeModifier b"
  by (induction chain rule: last_generated.induct) auto

lemma GetLastStakeModifier_total: "chain_indexed M chain \<Longrightarrow> chain \<noteq> [] \<Longrightarrow> GetLastStakeModifier chain \<noteq> None"
  using last_generated_ex [of chain] by (auto simp: chain_indexed_def GetLastStakeModifier_def)

lemma candidates_indexed:
  assumes "chain_indexed M chain"
  shows "indexed M (stake_candidates start chain)" "sorted (map fst (stake_candidates start chain))"
    "distinct (map snd (stake_candidates start chain))"
    "snd ` set (stake_candidates start chain) = bi_hash ` set (takeWhile (\<lambda>b. start \<le> bi_GetBlockTime b) chain)"
proof -
  let ?t = "takeWhile (\<lambda>b. start \<le> bi_GetBlockTime b) chain"
  have sub: "set ?t \<subseteq> set chain" by (auto dest: set_takeWhileD)
  show "indexed M (stake_candidates start chain)"
    using assms sub by (auto simp: indexed_def stake_candidates_def chain_indexed_def)
  have "sorted (stake_candidates start chain)" by (simp add: stake_candidates_def)
  then show "sorted (map fst (stake_candidates start chain))"
    unfolding sorted_map by (rule sorted_wrt_mono_rel [rotated]) (auto simp: less_eq_prod_def)
  have "distinct (map bi_hash ?t)"
    using assms by (metis chain_indexed_def distinct_append map_append takeWhile_dropWhile_id)
  then have "distinct (rev (map bi_hash ?t))" by simp
  moreover have "mset (map snd (stake_candidates start chain)) = mset (rev (map bi_hash ?t))"
    by (simp add: stake_candidates_def image_mset.compositionality comp_def)
  ultimately show "distinct (map snd (stake_candidates start chain))" using mset_eq_imp_distinct_iff by blast
  show "snd ` set (stake_candidates start chain) = bi_hash ` set ?t"
    by (simp add: stake_candidates_def image_image)
qed

lemma ComputeNextStakeModifier_spec:
  assumes "chain_indexed M chain" "chain \<noteq> []"
  shows "\<exists>m g. ComputeNextStakeModifier L M mi chain = Some (m, g) \<and>
    (g \<longrightarrow> (\<exists>es. let cands = takeWhile (\<lambda>b. selection_start mi chain \<le> bi_GetBlockTime b) chain in
       length es = min 64 (length cands) \<and> distinct (map bi_hash es) \<and> set es \<subseteq> set cands \<and>
       (\<forall>i < 64. bit m i \<longleftrightarrow> i < length es \<and> bit (bi_nFlags (es ! i)) 1)))"
proof -
  obtain m0 t0 where last: "GetLastStakeModifier chain = Some (m0, t0)" using GetLastStakeModifier_total [OF assms] by force
  show ?thesis
  proof (cases "cdiv t0 (uint mi) \<ge> cdiv (bi_GetBlockTime (hd chain)) (uint mi)")
    case True
    then show ?thesis using last assms(2) by (auto simp: ComputeNextStakeModifier_def)
  next
    case False
    let ?start = "selection_start mi chain"
    let ?t = "takeWhile (\<lambda>b. ?start \<le> bi_GetBlockTime b) chain"
    let ?cs = "stake_candidates ?start chain"
    note ci = candidates_indexed [OF assms(1), of ?start]
    have len: "length ?cs = length ?t" by (simp add: stake_candidates_def)
    have "card (snd ` set ?cs) = length ?cs" using distinct_card [OF ci(3)] by simp
    then have "min 64 (length ?cs) \<le> card (snd ` set ?cs - {})" by simp
    from modifier_rounds_spec [OF ci(1-3) this, of L mi m0 0 ?start 0]
    obtain m es where m: "modifier_rounds L M mi ?cs m0 [0..<min 64 (length ?cs)] ?start {} 0 = Some m"
      "length es = min 64 (length ?cs)" "distinct (map bi_hash es)"
      "\<forall>b \<in> set es. bi_hash b \<in> snd ` set ?cs \<and> M (bi_hash b) = Some b"
      "\<forall>i < 64. bit m i \<longleftrightarrow> i < min 64 (length ?cs) \<and> bit (bi_nFlags (es ! i)) 1" by auto
    have "set es \<subseteq> set ?t"
    proof
      fix b assume "b \<in> set es"
      then have "bi_hash b \<in> bi_hash ` set ?t" "M (bi_hash b) = Some b" using m(4) ci(4) by auto
      then obtain c where c: "c \<in> set ?t" "bi_hash c = bi_hash b" by auto
      have "M (bi_hash c) = Some c" using c(1) assms(1) by (auto simp: chain_indexed_def dest: set_takeWhileD)
      then show "b \<in> set ?t" using c \<open>M (bi_hash b) = Some b\<close> by simp
    qed
    moreover have "\<forall>i < 64. bit m i \<longleftrightarrow> i < length es \<and> bit (bi_nFlags (es ! i)) 1" using m(5) unfolding m(2) .
    moreover have "length es = min 64 (length ?t)" using m(2) len by (simp only:)
    moreover have "ComputeNextStakeModifier L M mi chain = Some (m, True)"
      using last assms(2) False m(1) by (simp add: ComputeNextStakeModifier_def Let_def)
    ultimately show ?thesis using m(3) unfolding Let_def by blast
  qed
qed

section \<open>Following the main chain\<close>

text \<open>\<open>pnext\<close> leads to an entry one block higher, and heights are bounded.\<close>

definition next_ok :: "block_map \<Rightarrow> int \<Rightarrow> bool" where
  "next_ok M hmax \<longleftrightarrow>
     (\<forall>h b. M h = Some b \<longrightarrow> bi_nHeight b \<le> hmax \<and>
        (bi_hashNext b \<noteq> 0 \<longrightarrow> (\<exists>c. M (bi_hashNext b) = Some c \<and> bi_nHeight c = bi_nHeight b + 1)))"

inductive follows :: "block_map \<Rightarrow> CBlockIndex \<Rightarrow> CBlockIndex list \<Rightarrow> bool" for M where
  follows_refl: "follows M b []"
| follows_step: "bi_hashNext b \<noteq> 0 \<Longrightarrow> M (bi_hashNext b) = Some c \<Longrightarrow> follows M c bs \<Longrightarrow> follows M b (c # bs)"

inductive_simps follows_simps: "follows M b []" "follows M b (c # bs)"

text \<open>The result of the loop: unless it fails, the modifier of the entry itself, if that is late enough, or of the
  first later entry with a generated modifier that is.\<close>

definition kernel_result :: "block_map \<Rightarrow> int \<Rightarrow> CBlockIndex \<Rightarrow> int \<Rightarrow> int \<Rightarrow> unit + u64 \<times> int \<times> int \<Rightarrow> bool" where
  "kernel_result M stop p hgt t r \<longleftrightarrow>
     (case r of
        Inl _ \<Rightarrow> True
      | Inr (m, hgt', t') \<Rightarrow> stop \<le> t' \<and>
          (t' = t \<and> hgt' = hgt \<and> m = bi_nStakeModifier p \<or>
           (\<exists>bs c. follows M p (bs @ [c]) \<and> bi_GeneratedStakeModifier c \<and> m = bi_nStakeModifier c \<and> hgt' = bi_nHeight c \<and>
              t' = bi_GetBlockTime c \<and> (\<forall>b \<in> set bs. bi_GeneratedStakeModifier b \<longrightarrow> bi_GetBlockTime b < stop))))"

lemma kernel_loop_spec:
  assumes "next_ok M hmax" "M h = Some p" "nat (hmax - bi_nHeight p) \<le> n"
  shows "\<exists>r. kernel_modifier_loop M stop p hgt t = Some r \<and> kernel_result M stop p hgt t r"
  using assms(2,3)
proof (induction n arbitrary: h p hgt t)
  case 0
  have "bi_hashNext p = 0 \<or> False"
  proof (rule ccontr)
    assume "\<not> ?thesis"
    then obtain c where "M (bi_hashNext p) = Some c" "bi_nHeight c = bi_nHeight p + 1" using assms(1) 0(1) by (auto simp: next_ok_def)
    moreover have "bi_nHeight c \<le> hmax" using assms(1) calculation(1) by (auto simp: next_ok_def)
    ultimately show False using 0(2) by simp
  qed
  then show ?case by (subst kernel_modifier_loop.simps) (simp add: kernel_result_def)
next
  case (Suc n)
  show ?case
  proof (cases "t < stop \<and> bi_hashNext p \<noteq> 0")
    case False
    then show ?thesis by (subst kernel_modifier_loop.simps) (auto simp: kernel_result_def)
  next
    case True
    then obtain c where c: "M (bi_hashNext p) = Some c" "bi_nHeight c = bi_nHeight p + 1"
      using assms(1) Suc.prems(1) by (auto simp: next_ok_def)
    then have n: "nat (hmax - bi_nHeight c) \<le> n" using Suc.prems(2) by simp
    let ?hgt = "if bi_GeneratedStakeModifier c then bi_nHeight c else hgt"
      and ?t = "if bi_GeneratedStakeModifier c then bi_GetBlockTime c else t"
    have eq: "kernel_modifier_loop M stop p hgt t = kernel_modifier_loop M stop c ?hgt ?t"
      using True c(1) by (subst kernel_modifier_loop.simps) simp
    have fc: "follows M p [c]" using True c(1) by (simp add: follows_simps)
    show ?thesis
    proof (cases "bi_GeneratedStakeModifier c \<and> stop \<le> bi_GetBlockTime c")
      case hit: True
      then have "kernel_modifier_loop M stop c ?hgt ?t = Some (Inr (bi_nStakeModifier c, bi_nHeight c, bi_GetBlockTime c))"
        by (subst kernel_modifier_loop.simps) simp
      moreover have "kernel_result M stop p hgt t (Inr (bi_nStakeModifier c, bi_nHeight c, bi_GetBlockTime c))"
        using hit fc by (auto simp: kernel_result_def intro!: exI [of _ "[]"] exI [of _ c])
      ultimately show ?thesis using eq by simp
    next
      case miss: False
      then have lt: "?t < stop" using True by auto
      obtain r where r: "kernel_modifier_loop M stop c ?hgt ?t = Some r" "kernel_result M stop c ?hgt ?t r"
        using Suc.IH [OF c(1) n, of ?hgt ?t] by blast
      have "kernel_result M stop p hgt t r"
      proof (cases r)
        case (Inr x)
        obtain m hgt' t' where x: "x = (m, hgt', t')" by (cases x)
        from r(2) lt Inr x obtain bs d where "follows M c (bs @ [d])" "bi_GeneratedStakeModifier d" "m = bi_nStakeModifier d"
          "hgt' = bi_nHeight d" "t' = bi_GetBlockTime d" "stop \<le> t'"
          "\<forall>b \<in> set bs. bi_GeneratedStakeModifier b \<longrightarrow> bi_GetBlockTime b < stop"
          by (auto simp: kernel_result_def)
        then show ?thesis using Inr x miss True c(1)
          by (auto simp: kernel_result_def follows_simps not_le intro!: exI [of _ "c # bs"] exI [of _ d])
      qed (simp add: kernel_result_def)
      then show ?thesis using eq r(1) by simp
    qed
  qed
qed

lemma GetWeight_i64: "in_i64 (GetWeight a b)"
  using in_i64_i64 [of "i64 (b - a) - 900"] by (auto simp: GetWeight_def min_def in_i64_def)

lemma stakeTargetHit_doc:
  assumes "mpi_documented B" "in_i64 v" "in_i64 w"
  shows "stakeTargetHit B h w v bnTarget \<longleftrightarrow> uint h < cdiv (cdiv (v * w) COIN) (24 * 60 * 60) * bnTarget"
  using assms setint64_doc [OF assms(1), of COIN]
  by (simp add: stakeTargetHit_def setint64_doc setuint256_doc Let_def in_i64_def)

lemma GetKernelStakeModifier_total:
  assumes "next_ok M hmax"
  shows "\<exists>r. GetKernelStakeModifier M mi h = Some r"
proof (cases "M h")
  case (Some p)
  show ?thesis unfolding GetKernelStakeModifier_def Some option.case using kernel_loop_spec [OF assms Some order_refl] by blast
qed (simp add: GetKernelStakeModifier_def)

lemma CheckStakeKernelHash_total:
  "next_ok M hmax \<Longrightarrow> \<exists>r. CheckStakeKernelHash L E M mi now nBits block off txPrev p t drift check h = Some r"
  using GetKernelStakeModifier_total [of M hmax mi "b_GetHash E block"]
  by (auto simp: CheckStakeKernelHash_def Let_def split: sum.split prod.split)

lemma CheckProofOfStake_total: "next_ok M hmax \<Longrightarrow> \<exists>r. CheckProofOfStake L E db M mi now tx nBits = Some r"
proof -
  assume n: "next_ok M hmax"
  have k: "CheckStakeKernelHash L E M mi now nBits block off txPrev p t drift check h \<noteq> None"
    for block :: CBlockHeader and off txPrev p t drift check h
    using CheckStakeKernelHash_total [OF n] by (metis option.discI)
  have "CheckProofOfStake L E db M mi now tx nBits \<noteq> None"
    by (simp add: CheckProofOfStake_def Let_def k split: option.split bool.split prod.split)
  then show ?thesis by blast
qed

text \<open>The kernel check proper, with \<open>fCheck\<close> set.\<close>

lemma CheckStakeKernelHash_check:
  assumes "mpi_documented (bn L)" "in_i64 (nValue (vout txPrev ! unat (op_n p)))"
  shows "CheckStakeKernelHash L E M mi now nBits block off txPrev p t drift True h0 = Some (True, t', h, m') \<longleftrightarrow>
    nTime txPrev \<le> t \<and> b_nTime block + 900 \<le> t \<and> t' = t \<and> m' = None \<and>
    (\<exists>m hgt mt. GetKernelStakeModifier M mi (b_GetHash E block) = Some (Inr (m, hgt, mt)) \<and>
       h = stakeHash L t (nTime txPrev) (u64_bytes m) (op_n p) off (b_nTime block) \<and>
       uint h < cdiv (cdiv (nValue (vout txPrev ! unat (op_n p)) * GetWeight (uint (nTime txPrev)) (uint t)) COIN) (24 * 60 * 60) *
         SetCompact (bn L) nBits)"
proof (cases "nTime txPrev \<le> t \<and> b_nTime block + 900 \<le> t")
  case False
  then show ?thesis by (auto simp: CheckStakeKernelHash_def Let_def not_le)
next
  case True
  note hit = stakeTargetHit_doc [OF assms GetWeight_i64]
  from True show ?thesis
    by (cases "GetKernelStakeModifier M mi (b_GetHash E block)")
       (auto simp: CheckStakeKernelHash_def Let_def not_le hit split: sum.splits)
qed

section \<open>Properties\<close>

text \<open>Selecting a block for the stake modifier takes the minimum of the selection hash over the
  earliest block not selected yet and all later ones up to the end of the round, the earliest at a
  tie; it fails only when every candidate is selected.\<close>

lemma SelectBlockFromCandidates_correct:
  assumes "indexed M cs" "sorted (map fst cs)"
  shows "SelectBlockFromCandidates L M cs selected stop m =
    (case eligible selected stop cs of
       [] \<Rightarrow> None
     | es \<Rightarrow> M (snd (arg_min_list (\<lambda>it. hashSelection L m (the (M (snd it)))) es)))"
  by (rule select_correct [OF assms])

definition kernel_demo :: CBlockIndex where "kernel_demo = (demo_index 9)\<lparr>bi_hash := 3, bi_nFlags := 6\<rparr>"

text \<open>C24. On a chain of the index that starts with a generated modifier, computing the next modifier never
  fails; a newly generated modifier consists of the entropy bits of pairwise different blocks of the
  selection interval, one per round, at most 64.\<close>

theorem stake_modifier_bits:
  assumes "chain_indexed M chain" "chain \<noteq> []"
  shows "\<exists>m g. ComputeNextStakeModifier L M mi chain = Some (m, g) \<and>
    (g \<longrightarrow> (\<exists>es. let cands = takeWhile (\<lambda>b. selection_start mi chain \<le> bi_GetBlockTime b) chain in
       length es = min 64 (length cands) \<and> distinct (map bi_hash es) \<and> set es \<subseteq> set cands \<and>
       (\<forall>i < 64. bit m i \<longleftrightarrow> i < length es \<and> bit (bi_nFlags (es ! i)) 1)))"
  by (rule ComputeNextStakeModifier_spec [OF assms])

theorem stake_modifier_bits_witness:
  "\<exists>m g. ComputeNextStakeModifier ssl_demo [3 \<mapsto> kernel_demo] 600 [kernel_demo] = Some (m, g)"
proof -
  have "chain_indexed [3 \<mapsto> kernel_demo] [kernel_demo]"
    by (simp add: chain_indexed_def kernel_demo_def bi_GeneratedStakeModifier_def)
  then show ?thesis using stake_modifier_bits [of "[3 \<mapsto> kernel_demo]" "[kernel_demo]" ssl_demo 600] by blast
qed

text \<open>C25. When \<open>pnext\<close> pointers climb block by block to a bounded height, the search for the stake modifier of
  a kernel ends; if it succeeds, it returns the modifier of the first block after the kernel's block
  that has a generated modifier and is later by a selection interval.\<close>

theorem kernel_modifier_found:
  assumes "next_ok M hmax" "M h = Some p" "0 < GetStakeModifierSelectionInterval mi"
    "stop = bi_GetBlockTime p + GetStakeModifierSelectionInterval mi" "in_i64 stop"
  shows "\<exists>r. GetKernelStakeModifier M mi h = Some r \<and>
    (\<forall>m hgt t. r = Inr (m, hgt, t) \<longrightarrow>
      (\<exists>bs c. follows M p (bs @ [c]) \<and> bi_GeneratedStakeModifier c \<and> stop \<le> bi_GetBlockTime c \<and>
        m = bi_nStakeModifier c \<and> hgt = bi_nHeight c \<and> t = bi_GetBlockTime c \<and>
        (\<forall>b \<in> set bs. bi_GeneratedStakeModifier b \<longrightarrow> bi_GetBlockTime b < stop)))"
proof -
  obtain r where r: "kernel_modifier_loop M stop p (bi_nHeight p) (bi_GetBlockTime p) = Some r"
    "kernel_result M stop p (bi_nHeight p) (bi_GetBlockTime p) r"
    using kernel_loop_spec [OF assms(1,2) order_refl] by blast
  have "GetKernelStakeModifier M mi h = Some r" using r(1) assms by (simp add: GetKernelStakeModifier_def)
  moreover have "\<not> stop \<le> bi_GetBlockTime p" using assms(3,4) by simp
  ultimately show ?thesis using r(2) by (intro exI [of _ r]) (clarsimp simp: kernel_result_def, blast)
qed

theorem kernel_modifier_found_witness:
  "\<exists>r. GetKernelStakeModifier [3 \<mapsto> kernel_demo] 600 3 = Some r"
proof -
  have "next_ok [3 \<mapsto> kernel_demo] 0" by (simp add: next_ok_def kernel_demo_def demo_index_def)
  moreover have i: "GetStakeModifierSelectionInterval 600 = 21135" by code_simp
  moreover have "bi_GetBlockTime kernel_demo = 9" by (simp add: kernel_demo_def demo_index_def bi_GetBlockTime_def)
  ultimately show ?thesis
    using kernel_modifier_found [of "[3 \<mapsto> kernel_demo]" 0 3 kernel_demo 600 21144] by (auto simp: in_i64_def)
qed

text \<open>C5. \<open>CheckProofOfStake\<close> accepts exactly the coinstakes whose kernel output can be read and is signed
  for, is not younger than the transaction, sits in a block of the minimum age, and whose kernel hash,
  with the stake modifier of that block, is below the target times the coin-day weight.\<close>

theorem CheckProofOfStake_correct:
  assumes "mpi_documented (bn L)"
    "\<And>txPrev ti. ReadFromDisk_outpoint E db (prevout (vin tx ! 0)) = Some (txPrev, ti) \<Longrightarrow>
       in_i64 (nValue (vout txPrev ! unat (op_n (prevout (vin tx ! 0)))))"
  shows "CheckProofOfStake L E db M mi now tx nBits = Some (Inr h) \<longleftrightarrow>
    IsCoinStake tx \<and>
    (\<exists>txPrev ti block m hgt mt.
       ReadFromDisk_outpoint E db (prevout (vin tx ! 0)) = Some (txPrev, ti) \<and> VerifySignature L txPrev tx 0 0 = Some True \<and>
       disk_header E (nFile (pos ti)) (nBlockPos (pos ti)) = Some block \<and>
       nTime txPrev \<le> nTime tx \<and> b_nTime block + 900 \<le> nTime tx \<and>
       GetKernelStakeModifier M mi (b_GetHash E block) = Some (Inr (m, hgt, mt)) \<and>
       h = stakeHash L (nTime tx) (nTime txPrev) (u64_bytes m) (op_n (prevout (vin tx ! 0)))
             (nTxPos (pos ti) - nBlockPos (pos ti)) (b_nTime block) \<and>
       uint h < cdiv (cdiv (nValue (vout txPrev ! unat (op_n (prevout (vin tx ! 0)))) *
         GetWeight (uint (nTime txPrev)) (uint (nTime tx))) COIN) (24 * 60 * 60) * SetCompact (bn L) nBits)"
proof (cases "IsCoinStake tx")
  case False
  then show ?thesis by (simp add: CheckProofOfStake_def)
next
  case True
  let ?p = "prevout (vin tx ! 0)"
  have "CheckProofOfStake L E db M mi now tx nBits = Some (Inr h) \<longleftrightarrow>
    (\<exists>txPrev ti block. ReadFromDisk_outpoint E db ?p = Some (txPrev, ti) \<and> VerifySignature L txPrev tx 0 0 = Some True \<and>
       disk_header E (nFile (pos ti)) (nBlockPos (pos ti)) = Some block \<and>
       (\<exists>t' m'. CheckStakeKernelHash L E M mi now nBits block (nTxPos (pos ti) - nBlockPos (pos ti)) txPrev ?p (nTime tx) 0 True 0 =
          Some (True, t', h, m')))"
    using True by (auto simp: CheckProofOfStake_def Let_def split: option.splits bool.splits if_splits prod.splits)
  then show ?thesis using True assms(2) by (auto simp: CheckStakeKernelHash_check [OF assms(1)])
qed

theorem CheckProofOfStake_correct_witness:
  "CheckProofOfStake ssl_demo demo_env demo_db [3 \<mapsto> kernel_demo] 600 0 demo_spend 0 \<noteq> Some (Inr 0)"
proof -
  have "in_i64 (nValue (vout txPrev ! unat (op_n (prevout (vin demo_spend ! 0)))))"
    if "ReadFromDisk_outpoint demo_env demo_db (prevout (vin demo_spend ! 0)) = Some (txPrev, ti)" for txPrev ti
    using that by (auto simp: ReadFromDisk_outpoint_def demo_env_def demo_prev_def demo_spend_def in_i64_def
        split: option.splits if_splits)
  then show ?thesis
    using CheckProofOfStake_correct [of ssl_demo demo_env demo_db demo_spend "[3 \<mapsto> kernel_demo]" 600 0 0 0]
    by (simp add: IsCoinStake_def demo_spend_def)
qed

text \<open>The search loop does not stop at a success and hashes on from the new time: the hash it hands back is
  that of the last try, which need not be the hash of the time it found.\<close>

lemma kernel_search_last:
  "kernel_search hashAt hit drift (is @ [i]) (ok, t, h) = (ok', t', h') \<Longrightarrow>
     \<exists>t0. h' = hashAt (t0 + drift - of_nat i)"
proof (induction "is" arbitrary: ok t h)
  case Nil
  then show ?case by (auto simp: Let_def split: if_splits)
next
  case (Cons j r)
  then show ?case by (auto simp: Let_def split: if_splits)
qed

lemma kernel_search_mismatch:
  "kernel_search (\<lambda>t. if t = 12 then 0 else 9) (\<lambda>h t. h < 5) 2 [0..<2] (False, 10, 0) = (True, 12, 9)"
  by (simp add: upt_rec Let_def)

end
