(* ===== verification/StdMap.thy ===== *)
theory StdMap
  imports Prelude
begin

text \<open>
  \<open>std::map\<close> as the code uses it: a finite map iterated in key order, modelled as an association list
  with strictly increasing keys. The interface \<open>ordered_map\<close> states what the clients rely on (look-up
  after insertion and erasure, iteration order, \<open>lower_bound\<close>); the list operations provide it.
\<close>

type_synonym ('k, 'v) smap = "('k \<times> 'v) list"

definition sm_find :: "('k, 'v) smap \<Rightarrow> 'k \<Rightarrow> 'v option" where
  "sm_find m k = map_of m k"

fun sm_put :: "'k::linorder \<Rightarrow> 'v \<Rightarrow> ('k, 'v) smap \<Rightarrow> ('k, 'v) smap" where
  "sm_put k v [] = [(k, v)]"
| "sm_put k v ((k', v') # m) =
     (if k < k' then (k, v) # (k', v') # m
      else if k = k' then (k, v) # m
      else (k', v') # sm_put k v m)"

definition sm_erase :: "'k \<Rightarrow> ('k, 'v) smap \<Rightarrow> ('k, 'v) smap" where
  "sm_erase k m = filter (\<lambda>e. fst e \<noteq> k) m"

definition sm_ok :: "('k::linorder, 'v) smap \<Rightarrow> bool" where
  "sm_ok m \<longleftrightarrow> sorted_wrt (<) (map fst m)"

text \<open>The first key not less than the given one, or the smallest key at the end (\<open>lower_bound\<close> followed
  by the wrap to \<open>begin()\<close>); the map must not be empty.\<close>

definition sm_cyclic_bound :: "'k::linorder \<Rightarrow> ('k, 'v) smap \<Rightarrow> 'k" where
  "sm_cyclic_bound k m = (case filter (\<lambda>e. k \<le> fst e) m of [] \<Rightarrow> fst (hd m) | e # _ \<Rightarrow> fst e)"

locale ordered_map =
  fixes find :: "'m \<Rightarrow> 'k::linorder \<Rightarrow> 'v option"
    and put :: "'k \<Rightarrow> 'v \<Rightarrow> 'm \<Rightarrow> 'm"
    and erase :: "'k \<Rightarrow> 'm \<Rightarrow> 'm"
    and keys :: "'m \<Rightarrow> 'k list"
    and ok :: "'m \<Rightarrow> bool"
  assumes find_put: "ok m \<Longrightarrow> find (put k v m) = (find m)(k \<mapsto> v)"
    and find_erase: "find (erase k m) = (find m)(k := None)"
    and ok_put: "ok m \<Longrightarrow> ok (put k v m)"
    and ok_erase: "ok m \<Longrightarrow> ok (erase k m)"
    and keys_ok: "ok m \<Longrightarrow> sorted_wrt (<) (keys m)"
    and set_keys: "set (keys m) = dom (find m)"
begin

lemma keys_distinct: "ok m \<Longrightarrow> distinct (keys m)"
  using keys_ok strict_sorted_iff by blast

lemma keys_enumerate: "ok m \<Longrightarrow> keys m = sorted_list_of_set (dom (find m))"
  using keys_ok set_keys by (metis sorted_list_of_set.idem_if_sorted_distinct strict_sorted_iff)

lemma length_keys: "ok m \<Longrightarrow> length (keys m) = card (dom (find m))"
  using distinct_card [OF keys_distinct] set_keys by metis

lemma finite_dom: "finite (dom (find m))"
  using set_keys [of m] by (metis List.finite_set)

lemma length_erase:
  assumes "ok m" "find m k \<noteq> None"
  shows "length (keys (erase k m)) < length (keys m)"
proof -
  have "dom (find (erase k m)) \<subset> dom (find m)" using assms(2) by (auto simp: find_erase)
  then show ?thesis using length_keys [OF assms(1)] length_keys [OF ok_erase [OF assms(1)]] psubset_card_mono [OF finite_dom] by metis
qed

lemma length_put_new:
  assumes "ok m" "find m k = None"
  shows "length (keys (put k v m)) = Suc (length (keys m))"
  using assms length_keys [OF ok_put [OF assms(1)], of k v] length_keys [OF assms(1)] finite_dom [of m]
  by (simp add: find_put card_insert_if domIff)

end

lemma sm_put_keys: "fst ` set (sm_put k v m) = insert k (fst ` set m)"
proof (induction m)
  case (Cons e m)
  then show ?case by (cases e) (simp add: insert_commute)
qed simp

lemma sm_ok_Cons: "sm_ok ((k, v) # m) \<longleftrightarrow> (\<forall>k' \<in> fst ` set m. k < k') \<and> sm_ok m"
  by (simp add: sm_ok_def)

lemma sm_ok_put: "sm_ok m \<Longrightarrow> sm_ok (sm_put k v m)"
proof (induction m)
  case Nil
  then show ?case by (simp add: sm_ok_def)
next
  case (Cons e m)
  obtain k' v' where e: "e = (k', v')" by (cases e)
  have ok: "\<forall>x \<in> fst ` set m. k' < x" "sm_ok m" using Cons.prems unfolding e sm_ok_Cons by auto
  consider "k < k'" | "k = k'" | "k' < k" by force
  then show ?case
  proof cases
    case 1
    have "\<forall>x \<in> fst ` set ((k', v') # m). k < x" using ok(1) 1 less_trans by auto
    then show ?thesis using 1 Cons.prems unfolding e by (simp add: sm_ok_def)
  next
    case 2
    then show ?thesis using ok unfolding e by (simp add: sm_ok_Cons)
  next
    case 3
    then have "\<forall>x \<in> fst ` set (sm_put k v m). k' < x" using ok(1) unfolding sm_put_keys by simp
    moreover have "\<not> k < k'" "k \<noteq> k'" using 3 by auto
    ultimately show ?thesis using Cons.IH [OF ok(2)] unfolding e by (simp add: sm_ok_def)
  qed
qed

lemma sm_find_put_same: "sm_find (sm_put k v m) k = Some v"
  by (induction m) (auto simp: sm_find_def)

lemma sm_find_put: "sm_ok m \<Longrightarrow> sm_find (sm_put k v m) = (sm_find m)(k \<mapsto> v)"
  by (induction m) (auto simp: sm_find_def sm_ok_Cons fun_eq_iff)

interpretation sm: ordered_map sm_find sm_put sm_erase "map fst" sm_ok
proof unfold_locales
  fix m :: "('a, 'b) smap" and k :: 'a and v :: 'b
  show "sm_ok m \<Longrightarrow> sm_find (sm_put k v m) = (sm_find m)(k \<mapsto> v)" by (rule sm_find_put)
  show "sm_find (sm_erase k m) = (sm_find m)(k := None)"
    by (induction m) (auto simp: sm_find_def sm_erase_def fun_eq_iff)
  show "sm_ok m \<Longrightarrow> sm_ok (sm_put k v m)" by (rule sm_ok_put)
  show "sm_ok m \<Longrightarrow> sm_ok (sm_erase k m)"
    by (induction m) (auto simp: sm_ok_def sm_erase_def)
  show "sm_ok m \<Longrightarrow> sorted_wrt (<) (map fst m)" by (simp add: sm_ok_def)
  show "set (map fst m) = dom (sm_find m)" by (simp add: sm_find_def [abs_def] dom_map_of_conv_image_fst)
qed

lemma sm_cyclic_bound_in:
  assumes "m \<noteq> []"
  shows "sm_find m (sm_cyclic_bound k m) \<noteq> None"
proof -
  have "sm_cyclic_bound k m \<in> set (map fst m)"
  proof (cases "filter (\<lambda>e. k \<le> fst e) m")
    case Nil
    then show ?thesis using assms by (simp add: sm_cyclic_bound_def)
  next
    case (Cons e r)
    then have "e \<in> set m" by (metis filter_is_subset list.set_intros(1) subsetD)
    then show ?thesis using Cons by (simp add: sm_cyclic_bound_def)
  qed
  then show ?thesis using sm.set_keys [of m] by auto
qed

end
