(* ===== verification/Mempool.thy ===== *)
theory Mempool
  imports Ledger StdMap
begin

text \<open>
  Transactions outside blocks (\<open>main.cpp\<close>): the orphan transactions (\<open>AddOrphanTx\<close>, \<open>EraseOrphanTx\<close>,
  \<open>LimitOrphanTxSize\<close>) and the memory pool \<open>CTxMemPool\<close> (\<open>addUnchecked\<close>, \<open>remove\<close>, \<open>removeConflicts\<close>,
  \<open>clear\<close>, \<open>queryHashes\<close>, \<open>accept\<close>). Maps that the code iterates are ordered maps; a \<open>CInPoint\<close> is
  the key of the pool transaction its pointer refers to and the input number. \<open>remove\<close> recurses over
  the pool: its model takes the available stack depth as fuel and is \<open>None\<close> when that is exhausted.
\<close>

section \<open>Orphan transactions\<close>

record orphan_state =
  mapOrphanTransactions :: "(uint256, CTransaction) smap"
  mapOrphanTransactionsByPrev :: "uint256 \<rightharpoonup> uint256 set"

definition by_prev_insert :: "uint256 \<Rightarrow> CTxIn \<Rightarrow> (uint256 \<rightharpoonup> uint256 set) \<Rightarrow> (uint256 \<rightharpoonup> uint256 set)" where
  "by_prev_insert hash txin m =
     (let h = op_hash (prevout txin) in
      m(h \<mapsto> insert hash (case m h of None \<Rightarrow> {} | Some s \<Rightarrow> s)))"

definition AddOrphanTx :: "ssl_lib \<Rightarrow> CTransaction \<Rightarrow> orphan_state \<Rightarrow> bool \<times> orphan_state" where
  "AddOrphanTx L tx st =
     (let hash = GetHash L tx in
      if sm_find (mapOrphanTransactions st) hash \<noteq> None then (False, st)
      else if GetSerializeSize_tx tx > 5000 then (False, st)
      else (True, \<lparr>mapOrphanTransactions = sm_put hash tx (mapOrphanTransactions st),
                   mapOrphanTransactionsByPrev = fold (by_prev_insert hash) (vin tx) (mapOrphanTransactionsByPrev st)\<rparr>))"

definition by_prev_erase :: "uint256 \<Rightarrow> CTxIn \<Rightarrow> (uint256 \<rightharpoonup> uint256 set) \<Rightarrow> (uint256 \<rightharpoonup> uint256 set)" where
  "by_prev_erase hash txin m =
     (let h = op_hash (prevout txin);
          s = (case m h of None \<Rightarrow> {} | Some s \<Rightarrow> s) - {hash}
      in if s = {} then m(h := None) else m(h \<mapsto> s))"

definition EraseOrphanTx :: "uint256 \<Rightarrow> orphan_state \<Rightarrow> orphan_state" where
  "EraseOrphanTx hash st =
     (case sm_find (mapOrphanTransactions st) hash of
        None \<Rightarrow> st
      | Some tx \<Rightarrow> \<lparr>mapOrphanTransactions = sm_erase hash (mapOrphanTransactions st),
                    mapOrphanTransactionsByPrev = fold (by_prev_erase hash) (vin tx) (mapOrphanTransactionsByPrev st)\<rparr>)"

lemma EraseOrphanTx_shrinks:
  "sm_find (mapOrphanTransactions st) h \<noteq> None \<Longrightarrow>
     length (mapOrphanTransactions (EraseOrphanTx h st)) < length (mapOrphanTransactions st)"
proof -
  have "sm_find m h \<noteq> None \<Longrightarrow> length (sm_erase h m) < length m" for m :: "(uint256, CTransaction) smap"
    by (induction m) (auto simp: sm_find_def sm_erase_def less_Suc_eq_le split: if_splits)
  then show "sm_find (mapOrphanTransactions st) h \<noteq> None \<Longrightarrow> ?thesis" by (auto simp: EraseOrphanTx_def split: option.split)
qed

text \<open>The eviction loop; \<open>rnd\<close> is the stream of \<open>GetRandHash\<close> results.\<close>

function LimitOrphanTxSize :: "(nat \<Rightarrow> uint256) \<Rightarrow> nat \<Rightarrow> nat \<Rightarrow> orphan_state \<Rightarrow> nat \<times> orphan_state" where
  "LimitOrphanTxSize rnd nMaxOrphans nEvicted st =
     (if length (mapOrphanTransactions st) > nMaxOrphans
      then LimitOrphanTxSize rnd nMaxOrphans (Suc nEvicted)
             (EraseOrphanTx (sm_cyclic_bound (rnd nEvicted) (mapOrphanTransactions st)) st)
      else (nEvicted, st))"
  by pat_completeness auto
termination
proof (relation "measure (\<lambda>(rnd, n, e, st). length (mapOrphanTransactions st))")
  fix rnd :: "nat \<Rightarrow> uint256" and n e :: nat and st :: orphan_state
  assume "n < length (mapOrphanTransactions st)"
  then have "mapOrphanTransactions st \<noteq> []" by auto
  from EraseOrphanTx_shrinks [OF sm_cyclic_bound_in [OF this]]
  show "((rnd, n, Suc e, EraseOrphanTx (sm_cyclic_bound (rnd e) (mapOrphanTransactions st)) st), rnd, n, e, st)
      \<in> measure (\<lambda>(rnd, n, e, st). length (mapOrphanTransactions st))" by simp
qed simp

declare LimitOrphanTxSize.simps [simp del]

section \<open>The memory pool\<close>

record CTxMemPool =
  mapTx :: "(uint256, CTransaction) smap"
  mapNextTx :: "COutPoint \<rightharpoonup> uint256 \<times> nat"
  nTransactionsUpdated :: u32

definition pool_exists :: "CTxMemPool \<Rightarrow> uint256 \<Rightarrow> bool" where
  "pool_exists P hash \<longleftrightarrow> sm_find (mapTx P) hash \<noteq> None"

definition addUnchecked :: "uint256 \<Rightarrow> CTransaction \<Rightarrow> CTxMemPool \<Rightarrow> CTxMemPool" where
  "addUnchecked hash tx P =
     P\<lparr>mapTx := sm_put hash tx (mapTx P),
       mapNextTx := fold (\<lambda>(i, txin) m. m(prevout txin \<mapsto> (hash, i))) (enumerate 0 (vin tx)) (mapNextTx P),
       nTransactionsUpdated := nTransactionsUpdated P + 1\<rparr>"

text \<open>The erasures at the end of \<open>remove\<close>.\<close>

definition erase_tx :: "uint256 \<Rightarrow> CTransaction \<Rightarrow> CTxMemPool \<Rightarrow> CTxMemPool" where
  "erase_tx hash tx P =
     P\<lparr>mapNextTx := fold (\<lambda>txin m. m(prevout txin := None)) (vin tx) (mapNextTx P),
       mapTx := sm_erase hash (mapTx P),
       nTransactionsUpdated := nTransactionsUpdated P + 1\<rparr>"

text \<open>The loop over the outputs; \<open>rec\<close> is the recursive call.\<close>

fun remove_outs :: "(CTransaction \<Rightarrow> CTxMemPool \<Rightarrow> CTxMemPool option) \<Rightarrow> uint256 \<Rightarrow> nat list \<Rightarrow> CTxMemPool \<Rightarrow> CTxMemPool option" where
  "remove_outs rec hash [] P = Some P"
| "remove_outs rec hash (i # r) P =
     (case mapNextTx P (COutPoint hash (of_nat i)) of
        None \<Rightarrow> remove_outs rec hash r P
      | Some (h, n) \<Rightarrow>
          (case sm_find (mapTx P) h of
             None \<Rightarrow> None
           | Some child \<Rightarrow> (case rec child P of None \<Rightarrow> None | Some P1 \<Rightarrow> remove_outs rec hash r P1)))"

fun pool_remove :: "ssl_lib \<Rightarrow> nat \<Rightarrow> bool \<Rightarrow> CTransaction \<Rightarrow> CTxMemPool \<Rightarrow> CTxMemPool option" where
  "pool_remove L 0 fRecursive tx P = None"
| "pool_remove L (Suc fuel) fRecursive tx P =
     (let hash = GetHash L tx in
      if \<not> pool_exists P hash then Some P
      else case (if fRecursive then remove_outs (pool_remove L fuel True) hash [0..<length (vout tx)] P else Some P) of
             None \<Rightarrow> None
           | Some P1 \<Rightarrow> Some (erase_tx hash tx P1))"

fun removeConflicts :: "ssl_lib \<Rightarrow> nat \<Rightarrow> CTransaction \<Rightarrow> CTxIn list \<Rightarrow> CTxMemPool \<Rightarrow> CTxMemPool option" where
  "removeConflicts L fuel tx [] P = Some P"
| "removeConflicts L fuel tx (txin # r) P =
     (case mapNextTx P (prevout txin) of
        None \<Rightarrow> removeConflicts L fuel tx r P
      | Some (h, n) \<Rightarrow>
          (case sm_find (mapTx P) h of
             None \<Rightarrow> None
           | Some txConflict \<Rightarrow>
               if txConflict \<noteq> tx
               then (case pool_remove L fuel True txConflict P of None \<Rightarrow> None | Some P1 \<Rightarrow> removeConflicts L fuel tx r P1)
               else removeConflicts L fuel tx r P))"

definition pool_clear :: "CTxMemPool \<Rightarrow> CTxMemPool" where
  "pool_clear P = \<lparr>mapTx = [], mapNextTx = (\<lambda>_. None), nTransactionsUpdated = nTransactionsUpdated P + 1\<rparr>"

definition queryHashes :: "CTxMemPool \<Rightarrow> uint256 list" where
  "queryHashes P = map fst (mapTx P)"

section \<open>Accepting a transaction\<close>

datatype accept_error = Acc_check tx_error | Acc_coinbase | Acc_coinstake | Acc_locktime | Acc_nonstandard | Acc_known
  | Acc_in_chain | Acc_conflict | Acc_invalid_inputs | Acc_missing_inputs | Acc_nonstandard_inputs | Acc_low_fee
  | Acc_rate_limited | Acc_connect ledger_error | Acc_exception ledger_error

text \<open>The checks against the previous transactions. \<open>rate_ok\<close> is the verdict of the rate limiter for
  free transactions; \<open>pindexBest\<close> is the best chain.\<close>

definition accept_inputs :: "ssl_lib \<Rightarrow> node_env \<Rightarrow> bool \<Rightarrow> bool \<Rightarrow> CTxDB \<Rightarrow> CBlockIndex list \<Rightarrow> CTransaction \<Rightarrow> accept_error + unit" where
  "accept_inputs L E fTestNet rate_ok db pindexBest tx =
     (case FetchInputs E db (\<lambda>_. None) False False (\<lambda>_. None) tx of
        (Inl Prevout_range, _) \<Rightarrow> Inl Acc_invalid_inputs
      | (Inl Assertion_failed, _) \<Rightarrow> Inl (Acc_exception Assertion_failed)
      | (Inl _, _) \<Rightarrow> Inl Acc_missing_inputs
      | (Inr _, mapInputs) \<Rightarrow>
          (case AreInputsStandard L mapInputs tx of
             Inl e \<Rightarrow> Inl (Acc_exception e)
           | Inr std \<Rightarrow>
               if \<not> std \<and> \<not> fTestNet then Inl Acc_nonstandard_inputs
               else case GetValueMapIn mapInputs tx of
                      Inl e \<Rightarrow> Inl (Acc_exception e)
                    | Inr vIn \<Rightarrow>
                        (case GetValueOut tx of
                           None \<Rightarrow> Inl (Acc_exception Runtime_error)
                         | Some vOut \<Rightarrow>
                             let nFees = i64 (vIn - vOut);
                                 txMinFee = GetMinFee 1000 GMF_RELAY (GetSerializeSize_tx tx) tx
                             in if nFees < txMinFee then Inl Acc_low_fee
                                else if nFees < MIN_RELAY_TX_FEE \<and> \<not> rate_ok then Inl Acc_rate_limited
                                else case ConnectInputs L E mapInputs (\<lambda>_. None) pos_mempool pindexBest False False tx of
                                       (Inl e, _) \<Rightarrow> Inl (Acc_connect e)
                                     | (Inr _, _) \<Rightarrow> Inr ())))"

definition pool_env :: "node_env \<Rightarrow> CTxMemPool \<Rightarrow> node_env" where
  "pool_env E P = E\<lparr>mempool_tx := sm_find (mapTx P)\<rparr>"

text \<open>\<open>pfMissingInputs\<close> is set exactly on the exit \<open>Acc_missing_inputs\<close>.\<close>

definition pool_accept :: "ssl_lib \<Rightarrow> node_env \<Rightarrow> bool \<Rightarrow> bool \<Rightarrow> bool \<Rightarrow> CTxDB \<Rightarrow> CBlockIndex list \<Rightarrow> bool \<Rightarrow> CTransaction \<Rightarrow> CTxMemPool \<Rightarrow>
    accept_error + CTxMemPool" where
  "pool_accept L E fTestNet fEnforceCanonical rate_ok db pindexBest fCheckInputs tx P =
     (case CheckTransaction tx of
        Inl e \<Rightarrow> Inl (Acc_check e)
      | Inr _ \<Rightarrow>
          if IsCoinBase tx then Inl Acc_coinbase
          else if IsCoinStake tx then Inl Acc_coinstake
          else if uint (nLockTime tx) > 2 ^ 31 - 1 then Inl Acc_locktime
          else if \<not> fTestNet \<and> \<not> tx_IsStandard fEnforceCanonical tx then Inl Acc_nonstandard
          else let hash = GetHash L tx in
          if pool_exists P hash then Inl Acc_known
          else if fCheckInputs \<and> ContainsTx hash db then Inl Acc_in_chain
          else if list_ex (\<lambda>txin. mapNextTx P (prevout txin) \<noteq> None) (vin tx) then Inl Acc_conflict
          else case (if fCheckInputs then accept_inputs L (pool_env E P) fTestNet rate_ok db pindexBest tx else Inr ()) of
                 Inl e \<Rightarrow> Inl e
               | Inr _ \<Rightarrow> Inr (addUnchecked hash tx P))"

section \<open>Orphans stay indexed\<close>

definition prev_hashes :: "CTransaction \<Rightarrow> uint256 set" where
  "prev_hashes tx = (\<lambda>txin. op_hash (prevout txin)) ` set (vin tx)"

definition waiting :: "orphan_state \<Rightarrow> uint256 \<Rightarrow> uint256 set" where
  "waiting st h = {k. \<exists>tx. sm_find (mapOrphanTransactions st) k = Some tx \<and> h \<in> prev_hashes tx}"

definition some_set :: "'a set \<Rightarrow> 'a set option" where
  "some_set s = (if s = {} then None else Some s)"

text \<open>The index by previous hash holds exactly the orphans that wait for it, and no empty sets.\<close>

definition orphan_inv :: "orphan_state \<Rightarrow> bool" where
  "orphan_inv st \<longleftrightarrow> sm_ok (mapOrphanTransactions st) \<and>
     (\<forall>h. mapOrphanTransactionsByPrev st h = some_set (waiting st h)) \<and>
     (\<forall>k tx. sm_find (mapOrphanTransactions st) k = Some tx \<longrightarrow> GetSerializeSize_tx tx \<le> 5000)"

lemma fold_by_prev_insert:
  "fold (by_prev_insert k) vs m h =
     (if h \<in> (\<lambda>txin. op_hash (prevout txin)) ` set vs then Some (insert k (case m h of None \<Rightarrow> {} | Some s \<Rightarrow> s)) else m h)"
proof (induction vs arbitrary: m)
  case (Cons v vs)
  show ?case unfolding fold.simps comp_def Cons.IH by (auto simp: by_prev_insert_def Let_def)
qed simp

lemma fold_by_prev_erase:
  "fold (by_prev_erase k) vs m h =
     (if h \<in> (\<lambda>txin. op_hash (prevout txin)) ` set vs then some_set ((case m h of None \<Rightarrow> {} | Some s \<Rightarrow> s) - {k}) else m h)"
proof (induction vs arbitrary: m)
  case (Cons v vs)
  show ?case unfolding fold.simps comp_def Cons.IH by (auto simp: by_prev_erase_def Let_def some_set_def)
qed simp

lemma some_set_default [simp]: "(case some_set s of None \<Rightarrow> {} | Some t \<Rightarrow> t) = s"
  by (simp add: some_set_def)

lemma orphan_inv_add:
  assumes "orphan_inv st"
  shows "orphan_inv (snd (AddOrphanTx L tx st))"
proof (cases "sm_find (mapOrphanTransactions st) (GetHash L tx) \<noteq> None \<or> GetSerializeSize_tx tx > 5000")
  case True
  then show ?thesis using assms by (auto simp: AddOrphanTx_def Let_def)
next
  case False
  let ?st = "snd (AddOrphanTx L tx st)" and ?k = "GetHash L tx"
  have ok: "sm_ok (mapOrphanTransactions st)" and bp: "\<And>h. mapOrphanTransactionsByPrev st h = some_set (waiting st h)"
    using assms by (auto simp: orphan_inv_def)
  have m: "sm_find (mapOrphanTransactions ?st) = (sm_find (mapOrphanTransactions st))(?k \<mapsto> tx)"
    using False sm.find_put [OF ok] by (auto simp: AddOrphanTx_def Let_def)
  have w: "waiting ?st h = (if h \<in> prev_hashes tx then insert ?k (waiting st h) else waiting st h)" for h
    using False unfolding waiting_def m by auto
  have "mapOrphanTransactionsByPrev ?st h = some_set (waiting ?st h)" for h
    using False unfolding w by (auto simp: AddOrphanTx_def Let_def fold_by_prev_insert bp prev_hashes_def) (simp_all add: some_set_def)
  moreover have "sm_ok (mapOrphanTransactions ?st)" using False sm.ok_put [OF ok] by (auto simp: AddOrphanTx_def Let_def)
  ultimately show ?thesis using assms False m by (auto simp: orphan_inv_def)
qed

lemma orphan_inv_erase:
  assumes "orphan_inv st"
  shows "orphan_inv (EraseOrphanTx k st)"
proof (cases "sm_find (mapOrphanTransactions st) k")
  case None
  then show ?thesis using assms by (simp add: EraseOrphanTx_def)
next
  case (Some tx)
  let ?st = "EraseOrphanTx k st"
  have ok: "sm_ok (mapOrphanTransactions st)" and bp: "\<And>h. mapOrphanTransactionsByPrev st h = some_set (waiting st h)"
    using assms by (auto simp: orphan_inv_def)
  have m: "sm_find (mapOrphanTransactions ?st) = (sm_find (mapOrphanTransactions st))(k := None)"
    using Some sm.find_erase by (simp add: EraseOrphanTx_def)
  have w: "waiting ?st h = waiting st h - {k}" for h unfolding waiting_def m by auto
  have n: "k \<in> waiting st h \<Longrightarrow> h \<in> prev_hashes tx" for h using Some by (auto simp: waiting_def)
  have "mapOrphanTransactionsByPrev ?st h = some_set (waiting ?st h)" for h
    using Some n [of h] unfolding w
    by (cases "k \<in> waiting st h") (auto simp: EraseOrphanTx_def fold_by_prev_erase bp prev_hashes_def)
  moreover have "sm_ok (mapOrphanTransactions ?st)" using Some sm.ok_erase [OF ok] by (simp add: EraseOrphanTx_def)
  ultimately show ?thesis using assms m by (auto simp: orphan_inv_def)
qed

lemma orphan_inv_limit:
  "orphan_inv st \<Longrightarrow> orphan_inv (snd (LimitOrphanTxSize rnd n e st)) \<and>
     length (mapOrphanTransactions (snd (LimitOrphanTxSize rnd n e st))) \<le> n \<and>
     set (mapOrphanTransactions (snd (LimitOrphanTxSize rnd n e st))) \<subseteq> set (mapOrphanTransactions st)"
proof (induction rnd n e st rule: LimitOrphanTxSize.induct)
  case (1 rnd n e st)
  have sub: "set (mapOrphanTransactions (EraseOrphanTx k st)) \<subseteq> set (mapOrphanTransactions st)" for k
    by (auto simp: EraseOrphanTx_def sm_erase_def split: option.splits)
  show ?case
  proof (cases "n < length (mapOrphanTransactions st)")
    case True
    then show ?thesis using 1(1) [OF True orphan_inv_erase [OF 1(2)]] sub
      by (subst (1 2 3) LimitOrphanTxSize.simps) (simp, blast)
  next
    case False
    then show ?thesis using 1(2) by (subst (1 2 3) LimitOrphanTxSize.simps) simp
  qed
qed

section \<open>The pool invariant\<close>

abbreviation (input) ptx :: "CTxMemPool \<Rightarrow> uint256 \<Rightarrow> CTransaction option" where
  "ptx P \<equiv> sm_find (mapTx P)"

text \<open>The spending index holds exactly the inputs of the pool transactions, so that no two of them
  spend the same output.\<close>

definition pool_inv :: "ssl_lib \<Rightarrow> CTxMemPool \<Rightarrow> bool" where
  "pool_inv L P \<longleftrightarrow> sm_ok (mapTx P) \<and>
     (\<forall>h tx. ptx P h = Some tx \<longrightarrow> GetHash L tx = h) \<and>
     (\<forall>p h i. mapNextTx P p = Some (h, i) \<longleftrightarrow> (\<exists>tx. ptx P h = Some tx \<and> i < length (vin tx) \<and> prevout (vin tx ! i) = p))"

lemma pool_invD:
  assumes "pool_inv L P"
  shows "sm_ok (mapTx P)" "ptx P h = Some tx \<Longrightarrow> GetHash L tx = h"
    "mapNextTx P p = Some (h, i) \<Longrightarrow> \<exists>tx. ptx P h = Some tx \<and> i < length (vin tx) \<and> prevout (vin tx ! i) = p"
    "ptx P h = Some tx \<Longrightarrow> i < length (vin tx) \<Longrightarrow> mapNextTx P (prevout (vin tx ! i)) = Some (h, i)"
  using assms unfolding pool_inv_def by metis+

lemma fold_erase_next:
  "fold (\<lambda>txin m. m(prevout txin := None)) vs m p = (if p \<in> prevout ` set vs then None else m p)"
  by (induction vs arbitrary: m) auto

lemma erase_tx_simps [simp]:
  "ptx (erase_tx h tx P) = (ptx P)(h := None)"
  "mapNextTx (erase_tx h tx P) p = (if p \<in> prevout ` set (vin tx) then None else mapNextTx P p)"
  using sm.find_erase [of h "mapTx P"] by (simp_all add: erase_tx_def fold_erase_next)

lemma pool_inv_erase:
  assumes inv: "pool_inv L P" and h: "ptx P h = Some tx"
  shows "pool_inv L (erase_tx h tx P)"
proof -
  have "mapNextTx (erase_tx h tx P) p = Some (h', i) \<longleftrightarrow>
      (\<exists>tx'. ptx (erase_tx h tx P) h' = Some tx' \<and> i < length (vin tx') \<and> prevout (vin tx' ! i) = p)" for p h' i
  proof
    assume a: "mapNextTx (erase_tx h tx P) p = Some (h', i)"
    then have np: "p \<notin> prevout ` set (vin tx)" and b: "mapNextTx P p = Some (h', i)" by (auto split: if_splits)
    from pool_invD(3) [OF inv b] obtain tx' where t: "ptx P h' = Some tx'" "i < length (vin tx')" "prevout (vin tx' ! i) = p" by auto
    have "h' \<noteq> h" using t np h by auto
    then show "\<exists>tx'. ptx (erase_tx h tx P) h' = Some tx' \<and> i < length (vin tx') \<and> prevout (vin tx' ! i) = p" using t by simp
  next
    assume "\<exists>tx'. ptx (erase_tx h tx P) h' = Some tx' \<and> i < length (vin tx') \<and> prevout (vin tx' ! i) = p"
    then obtain tx' where t: "h' \<noteq> h" "ptx P h' = Some tx'" "i < length (vin tx')" "prevout (vin tx' ! i) = p" by (auto split: if_splits)
    have b: "mapNextTx P p = Some (h', i)" using pool_invD(4) [OF inv t(2,3)] t(4) by simp
    have "p \<notin> prevout ` set (vin tx)"
    proof
      assume "p \<in> prevout ` set (vin tx)"
      then obtain j where "j < length (vin tx)" "prevout (vin tx ! j) = p" by (auto simp: in_set_conv_nth)
      with pool_invD(4) [OF inv h] b t(1) show False by auto
    qed
    then show "mapNextTx (erase_tx h tx P) p = Some (h', i)" using b by simp
  qed
  moreover have "sm_ok (mapTx (erase_tx h tx P))" using pool_invD(1) [OF inv] sm.ok_erase by (simp add: erase_tx_def)
  ultimately show ?thesis using pool_invD(2) [OF inv] unfolding pool_inv_def by (auto split: if_splits)
qed


section \<open>Recursive removal\<close>

definition subpool :: "CTxMemPool \<Rightarrow> CTxMemPool \<Rightarrow> bool" where
  "subpool P' P \<longleftrightarrow> ptx P' \<subseteq>\<^sub>m ptx P \<and> mapNextTx P' \<subseteq>\<^sub>m mapNextTx P"

lemma subpool_refl [simp]: "subpool P P" by (simp add: subpool_def)

lemma subpool_trans: "subpool A B \<Longrightarrow> subpool B C \<Longrightarrow> subpool A C"
  unfolding subpool_def by (elim conjE, intro conjI; rule map_le_trans)

lemma map_leD: "m1 \<subseteq>\<^sub>m m2 \<Longrightarrow> m1 k = Some v \<Longrightarrow> m2 k = Some v"
  by (metis domI map_le_def)

lemma subpoolD:
  assumes "subpool P' P"
  shows "ptx P' h = Some tx \<Longrightarrow> ptx P h = Some tx" "mapNextTx P' p = Some x \<Longrightarrow> mapNextTx P p = Some x"
    "mapNextTx P p = None \<Longrightarrow> mapNextTx P' p = None"
proof -
  have le: "ptx P' \<subseteq>\<^sub>m ptx P" "mapNextTx P' \<subseteq>\<^sub>m mapNextTx P" using assms by (simp_all add: subpool_def)
  show "ptx P' h = Some tx \<Longrightarrow> ptx P h = Some tx" by (rule map_leD [OF le(1)])
  show n: "mapNextTx P' p = Some x \<Longrightarrow> mapNextTx P p = Some x" for x by (rule map_leD [OF le(2)])
  show "mapNextTx P p = None \<Longrightarrow> mapNextTx P' p = None" using n by (cases "mapNextTx P' p") auto
qed

text \<open>\<open>h'\<close> spends an output of \<open>h\<close>; a rank that decreases from parent to child bounds every chain.\<close>

definition child :: "CTxMemPool \<Rightarrow> uint256 \<Rightarrow> uint256 \<Rightarrow> bool" where
  "child P h h' \<longleftrightarrow> (\<exists>tx n i. ptx P h = Some tx \<and> n < length (vout tx) \<and> mapNextTx P (COutPoint h (of_nat n)) = Some (h', i))"

definition ranked :: "(uint256 \<Rightarrow> nat) \<Rightarrow> CTxMemPool \<Rightarrow> bool" where
  "ranked r P \<longleftrightarrow> (\<forall>h h'. child P h h' \<longrightarrow> r h' < r h)"

lemma child_subpool: "subpool P' P \<Longrightarrow> child P' h h' \<Longrightarrow> child P h h'"
  unfolding child_def using subpoolD by blast

lemma desc_subpool: "subpool P' P \<Longrightarrow> (child P')\<^sup>*\<^sup>* h h' \<Longrightarrow> (child P)\<^sup>*\<^sup>* h h'"
  by (erule rtranclp_mono [THEN predicate2D, rotated]) (auto dest: child_subpool)

lemma ranked_subpool: "subpool P' P \<Longrightarrow> ranked r P \<Longrightarrow> ranked r P'"
  unfolding ranked_def using child_subpool by blast

lemma desc_rank:
  assumes "ranked r P" "(child P)\<^sup>*\<^sup>* h h'"
  shows "r h' \<le> r h"
  using assms(2,1) by (induction rule: rtranclp_induct) (simp, meson ranked_def less_imp_le order_trans)

definition removed :: "CTxMemPool \<Rightarrow> CTxMemPool \<Rightarrow> uint256 \<Rightarrow> bool" where
  "removed P P' h \<longleftrightarrow> ptx P h \<noteq> None \<and> ptx P' h = None"

definition childless :: "CTxMemPool \<Rightarrow> CTxMemPool \<Rightarrow> bool" where
  "childless P P' \<longleftrightarrow> (\<forall>h tx n. ptx P h = Some tx \<longrightarrow> ptx P' h = None \<longrightarrow> n < length (vout tx) \<longrightarrow>
     mapNextTx P' (COutPoint h (of_nat n)) = None)"

text \<open>What removing \<open>h\<close> with its descendants means.\<close>

definition removes :: "ssl_lib \<Rightarrow> uint256 \<Rightarrow> CTxMemPool \<Rightarrow> CTxMemPool \<Rightarrow> bool" where
  "removes L h P P' \<longleftrightarrow> pool_inv L P' \<and> subpool P' P \<and> ptx P' h = None \<and>
     (\<forall>h'. removed P P' h' \<longrightarrow> (child P)\<^sup>*\<^sup>* h h') \<and> childless P P'"

lemma childless_trans:
  assumes "childless P P1" "childless P1 P2" "subpool P1 P" "subpool P2 P1"
  shows "childless P P2"
  unfolding childless_def
proof (intro allI impI)
  fix h tx n
  assume a: "ptx P h = Some tx" "ptx P2 h = None" "n < length (vout tx)"
  show "mapNextTx P2 (COutPoint h (of_nat n)) = None"
  proof (cases "ptx P1 h")
    case None
    then show ?thesis using assms(1,4) a subpoolD(3) unfolding childless_def by blast
  next
    case (Some tx1)
    then have "tx1 = tx" using subpoolD(1) [OF assms(3)] a(1) by fastforce
    then show ?thesis using assms(2) a Some unfolding childless_def by blast
  qed
qed

lemma removed_trans: "removed P P2 h \<Longrightarrow> removed P P1 h \<or> removed P1 P2 h"
  by (auto simp: removed_def)

lemma remove_outs_spec:
  assumes rec: "\<And>c Q. pool_inv L Q \<Longrightarrow> ranked r Q \<Longrightarrow> ptx Q (GetHash L c) = Some c \<Longrightarrow> r (GetHash L c) < k \<Longrightarrow>
      \<exists>Q'. rec c Q = Some Q' \<and> removes L (GetHash L c) Q Q'"
    and "pool_inv L P" "ranked r P" "ptx P h = Some tx" "r h \<le> k" "set ns \<subseteq> {..<length (vout tx)}"
  shows "\<exists>P'. remove_outs rec h ns P = Some P' \<and> pool_inv L P' \<and> subpool P' P \<and> ptx P' h = Some tx \<and>
     (\<forall>n \<in> set ns. mapNextTx P' (COutPoint h (of_nat n)) = None) \<and> (\<forall>h'. removed P P' h' \<longrightarrow> (child P)\<^sup>*\<^sup>* h h') \<and> childless P P'"
  using assms(2-6)
proof (induction ns arbitrary: P)
  case Nil
  then show ?case by (auto simp: removed_def childless_def)
next
  case (Cons n ns)
  note inv = Cons.prems(1) and rk = Cons.prems(2) and h = Cons.prems(3)
  show ?case
  proof (cases "mapNextTx P (COutPoint h (of_nat n))")
    case None
    obtain P' where "remove_outs rec h ns P = Some P'" "pool_inv L P'" "subpool P' P" "ptx P' h = Some tx"
      "\<forall>n \<in> set ns. mapNextTx P' (COutPoint h (of_nat n)) = None" "\<forall>h'. removed P P' h' \<longrightarrow> (child P)\<^sup>*\<^sup>* h h'" "childless P P'"
      using Cons.IH [OF inv rk h] Cons.prems(4,5) by auto
    then show ?thesis using None subpoolD(3) by auto
  next
    case (Some x)
    obtain h1 i where x: "mapNextTx P (COutPoint h (of_nat n)) = Some (h1, i)" using Some by (cases x) auto
    from pool_invD(3) [OF inv x] obtain c where c: "ptx P h1 = Some c" by auto
    have hc: "GetHash L c = h1" by (rule pool_invD(2) [OF inv c])
    have ch: "child P h h1" unfolding child_def using h x Cons.prems(5) by auto
    then have r1: "r h1 < r h" using rk by (simp add: ranked_def)
    obtain P1 where P1: "rec c P = Some P1" and rm: "removes L h1 P P1"
      using rec [OF inv rk] hc c r1 Cons.prems(4) by fastforce
    have inv1: "pool_inv L P1" and sub1: "subpool P1 P" and gone: "ptx P1 h1 = None"
      and desc1: "\<forall>h'. removed P P1 h' \<longrightarrow> (child P)\<^sup>*\<^sup>* h1 h'" and cl1: "childless P P1"
      using rm by (auto simp: removes_def)
    have h': "ptx P1 h = Some tx"
    proof (cases "ptx P1 h")
      case None
      then have "(child P)\<^sup>*\<^sup>* h1 h" using desc1 h by (simp add: removed_def)
      from desc_rank [OF rk this] r1 show ?thesis by simp
    next
      case (Some tx')
      then show ?thesis using subpoolD(1) [OF sub1 Some] h by simp
    qed
    have n1: "mapNextTx P1 (COutPoint h (of_nat n)) = None"
    proof (rule ccontr)
      assume "mapNextTx P1 (COutPoint h (of_nat n)) \<noteq> None"
      then have "mapNextTx P1 (COutPoint h (of_nat n)) = Some (h1, i)" using subpoolD(2) [OF sub1] x by fastforce
      from pool_invD(3) [OF inv1 this] gone show False by auto
    qed
    obtain P' where P': "remove_outs rec h ns P1 = Some P'" "pool_inv L P'" "subpool P' P1" "ptx P' h = Some tx"
      "\<forall>n \<in> set ns. mapNextTx P' (COutPoint h (of_nat n)) = None" "\<forall>h'. removed P1 P' h' \<longrightarrow> (child P1)\<^sup>*\<^sup>* h h'" "childless P1 P'"
      using Cons.IH [OF inv1 ranked_subpool [OF sub1 rk] h'] Cons.prems(4,5) by auto
    have "(child P)\<^sup>*\<^sup>* h h'" if "removed P P' h'" for h'
      using removed_trans [OF that, of P1] desc1 P'(6) desc_subpool [OF sub1] ch by (meson converse_rtranclp_into_rtranclp)
    then show ?thesis
      using x c P1 P' n1 subpoolD(3) [OF P'(3)] subpool_trans [OF P'(3) sub1] childless_trans [OF cl1 P'(7) sub1 P'(3)]
      by auto
  qed
qed

lemma pool_remove_spec:
  assumes "pool_inv L P" "ranked r P" "ptx P (GetHash L tx) = Some tx" "r (GetHash L tx) < fuel"
  shows "\<exists>P'. pool_remove L fuel True tx P = Some P' \<and> removes L (GetHash L tx) P P'"
  using assms
proof (induction fuel arbitrary: tx P)
  case 0
  then show ?case by simp
next
  case (Suc k)
  let ?h = "GetHash L tx"
  have "r ?h \<le> k" using Suc.prems(4) by simp
  moreover have "set [0..<length (vout tx)] \<subseteq> {..<length (vout tx)}" by auto
  ultimately
  obtain P1 where P1: "remove_outs (pool_remove L k True) ?h [0..<length (vout tx)] P = Some P1" "pool_inv L P1" "subpool P1 P"
    "ptx P1 ?h = Some tx" "\<forall>n \<in> set [0..<length (vout tx)]. mapNextTx P1 (COutPoint ?h (of_nat n)) = None"
    "\<forall>h'. removed P P1 h' \<longrightarrow> (child P)\<^sup>*\<^sup>* ?h h'" "childless P P1"
    using remove_outs_spec [OF Suc.IH Suc.prems(1-3)] by blast
  let ?P = "erase_tx ?h tx P1"
  have s: "subpool ?P P1" by (auto simp: subpool_def map_le_def split: if_splits)
  have "childless P1 ?P" using P1(4,5) by (auto simp: childless_def)
  then have "childless P ?P" using childless_trans [OF P1(7) _ P1(3) s] by blast
  moreover have "(child P)\<^sup>*\<^sup>* ?h h'" if "removed P ?P h'" for h'
    using that P1(6) by (cases "h' = ?h") (auto simp: removed_def)
  ultimately have "removes L ?h P ?P"
    using pool_inv_erase [OF P1(2,4)] subpool_trans [OF s P1(3)] by (simp add: removes_def)
  then show ?case using P1(1) Suc.prems(3) by (simp add: pool_exists_def)
qed

section \<open>Every operation keeps the invariant\<close>

lemma pool_inv_erase_absent:
  assumes "pool_inv L P" "ptx P h = None" "\<forall>p \<in> prevout ` set (vin tx). mapNextTx P p = None"
  shows "pool_inv L (erase_tx h tx P)"
proof -
  have "ptx (erase_tx h tx P) = ptx P" using assms(2) by (auto simp: fun_eq_iff)
  moreover have "mapNextTx (erase_tx h tx P) = mapNextTx P" using assms(3) by (auto simp: fun_eq_iff)
  moreover have "sm_ok (mapTx (erase_tx h tx P))" using pool_invD(1) [OF assms(1)] sm.ok_erase by (simp add: erase_tx_def)
  ultimately show ?thesis using assms(1) by (simp add: pool_inv_def)
qed

lemma subpool_erase: "subpool (erase_tx h tx P) P"
  by (auto simp: subpool_def map_le_def split: if_splits)

lemma remove_outs_keeps:
  assumes rec: "\<And>c Q Q'. pool_inv L Q \<Longrightarrow> ptx Q (GetHash L c) = Some c \<Longrightarrow> rec c Q = Some Q' \<Longrightarrow> pool_inv L Q' \<and> subpool Q' Q"
    and "pool_inv L P" "remove_outs rec h ns P = Some P'"
  shows "pool_inv L P' \<and> subpool P' P"
  using assms(2,3)
proof (induction ns arbitrary: P)
  case Nil
  then show ?case by simp
next
  case (Cons n ns)
  show ?case
  proof (cases "mapNextTx P (COutPoint h (of_nat n))")
    case None
    then show ?thesis using Cons by simp
  next
    case (Some x)
    obtain h1 i where x: "x = (h1, i)" by (cases x)
    from Cons.prems(2) Some x obtain c P1 where c: "ptx P h1 = Some c" "rec c P = Some P1" "remove_outs rec h ns P1 = Some P'"
      by (auto split: option.splits)
    have "pool_inv L P1 \<and> subpool P1 P" using rec [OF Cons.prems(1) _ c(2)] pool_invD(2) [OF Cons.prems(1) c(1)] c(1) by simp
    then show ?thesis using Cons.IH [OF _ c(3)] subpool_trans by blast
  qed
qed

lemma pool_remove_keeps:
  assumes "pool_inv L P" "ptx P (GetHash L tx) = None \<or> ptx P (GetHash L tx) = Some tx" "pool_remove L fuel rec tx P = Some P'"
  shows "pool_inv L P' \<and> subpool P' P"
  using assms
proof (induction fuel arbitrary: rec tx P P')
  case 0
  then show ?case by simp
next
  case (Suc k)
  let ?h = "GetHash L tx"
  show ?case
  proof (cases "ptx P ?h")
    case None
    then show ?thesis using Suc.prems by (simp add: pool_exists_def)
  next
    case (Some t)
    then have t: "ptx P ?h = Some tx" using Suc.prems(2) by simp
    from Suc.prems(3) t obtain P1 where
      r: "(if rec then remove_outs (pool_remove L k True) ?h [0..<length (vout tx)] P else Some P) = Some P1" and P': "P' = erase_tx ?h tx P1"
      by (auto simp: pool_exists_def Let_def split: option.splits)
    have s: "pool_inv L P1 \<and> subpool P1 P"
    proof (cases rec)
      case True
      then show ?thesis using r remove_outs_keeps [OF _ Suc.prems(1)] Suc.IH by (metis (no_types, lifting))
    next
      case False
      then show ?thesis using r Suc.prems(1) by simp
    qed
    have "pool_inv L P'"
    proof (cases "ptx P1 ?h")
      case (Some t1)
      then show ?thesis using pool_inv_erase s subpoolD(1) t P' by fastforce
    next
      case None
      have "mapNextTx P1 p = None" if p: "p \<in> prevout ` set (vin tx)" for p
      proof (rule ccontr)
        assume "mapNextTx P1 p \<noteq> None"
        then obtain h' i' where a: "mapNextTx P1 p = Some (h', i')" by auto
        obtain i where i: "i < length (vin tx)" "prevout (vin tx ! i) = p" using p by (auto simp: in_set_conv_nth)
        have "mapNextTx P p = Some (?h, i)" using pool_invD(4) [OF Suc.prems(1) t i(1)] i(2) by simp
        moreover have "mapNextTx P p = Some (h', i')" using subpoolD(2) s a by blast
        ultimately have "h' = ?h" by simp
        moreover obtain tx' where "ptx P1 h' = Some tx'" using pool_invD(3) a s by blast
        ultimately show False using None by simp
      qed
      then show ?thesis unfolding P' using s by (intro pool_inv_erase_absent None) auto
    qed
    moreover have "subpool P' P" unfolding P' using s by (intro subpool_trans [OF subpool_erase]) simp
    ultimately show ?thesis by simp
  qed
qed

lemma removeConflicts_keeps:
  assumes "pool_inv L P" "removeConflicts L fuel tx vs P = Some P'"
  shows "pool_inv L P' \<and> subpool P' P"
  using assms
proof (induction vs arbitrary: P)
  case Nil
  then show ?case by simp
next
  case (Cons v vs)
  show ?case
  proof (cases "mapNextTx P (prevout v)")
    case None
    then show ?thesis using Cons by simp
  next
    case (Some x)
    obtain h1 i where x: "x = (h1, i)" by (cases x)
    obtain c where c: "ptx P h1 = Some c" using pool_invD(3) [OF Cons.prems(1)] Some x by blast
    show ?thesis
    proof (cases "c = tx")
      case True
      then show ?thesis using Cons Some x c by simp
    next
      case False
      then obtain P1 where P1: "pool_remove L fuel True c P = Some P1" "removeConflicts L fuel tx vs P1 = Some P'"
        using Cons.prems(2) Some x c by (auto split: option.splits)
      have "pool_inv L P1 \<and> subpool P1 P"
        using pool_remove_keeps [OF Cons.prems(1) _ P1(1)] c pool_invD(2) [OF Cons.prems(1) c] by simp
      then show ?thesis using Cons.IH [OF _ P1(2)] subpool_trans by blast
    qed
  qed
qed

lemma fold_add_next:
  "distinct (map prevout vs) \<Longrightarrow>
     fold (\<lambda>(i, txin) m. m(prevout txin \<mapsto> (h, i))) (enumerate k vs) m p = Some (h', j) \<longleftrightarrow>
     (if p \<in> prevout ` set vs then h' = h \<and> (\<exists>i < length vs. j = k + i \<and> prevout (vs ! i) = p) else m p = Some (h', j))"
proof (induction vs arbitrary: k m)
  case Nil
  then show ?case by simp
next
  case (Cons v vs)
  have IH: "fold (\<lambda>(i, txin) m. m(prevout txin \<mapsto> (h, i))) (enumerate (Suc k) vs) (m(prevout v \<mapsto> (h, k))) p = Some (h', j) \<longleftrightarrow>
     (if p \<in> prevout ` set vs then h' = h \<and> (\<exists>i < length vs. j = Suc k + i \<and> prevout (vs ! i) = p)
      else (m(prevout v \<mapsto> (h, k))) p = Some (h', j))"
    by (rule Cons.IH) (use Cons.prems in simp)
  have ex: "(\<exists>i < length (v # vs). j = k + i \<and> prevout ((v # vs) ! i) = p) \<longleftrightarrow>
      (j = k \<and> prevout v = p) \<or> (\<exists>i < length vs. j = Suc k + i \<and> prevout (vs ! i) = p)"
    by (auto simp: less_Suc_eq_0_disj)
  have in_vs: "p \<in> prevout ` set vs \<longleftrightarrow> (\<exists>i < length vs. prevout (vs ! i) = p)" by (simp add: image_iff set_conv_nth) metis
  have dis: "prevout v \<notin> prevout ` set vs" using Cons.prems by simp
  have step: "fold (\<lambda>(i, txin) m. m(prevout txin \<mapsto> (h, i))) (enumerate k (v # vs)) m p =
      fold (\<lambda>(i, txin) m. m(prevout txin \<mapsto> (h, i))) (enumerate (Suc k) vs) (m(prevout v \<mapsto> (h, k))) p"
    by (simp del: fun_upd_apply)
  show ?case
  proof (cases "p = prevout v")
    case True
    have "\<not> (\<exists>i < length vs. prevout (vs ! i) = p)" unfolding in_vs [symmetric] using dis True by simp
    then show ?thesis unfolding step IH ex using True dis by auto
  next
    case False
    then show ?thesis unfolding step IH ex by auto
  qed
qed

lemma pool_inv_add:
  assumes inv: "pool_inv L P" and new: "ptx P (GetHash L tx) = None" and d: "distinct (map prevout (vin tx))"
    and nc: "\<forall>txin \<in> set (vin tx). mapNextTx P (prevout txin) = None"
  shows "pool_inv L (addUnchecked (GetHash L tx) tx P)"
proof -
  let ?h = "GetHash L tx" and ?P = "addUnchecked (GetHash L tx) tx P"
  have pt: "ptx ?P = (ptx P)(?h \<mapsto> tx)" using sm.find_put [OF pool_invD(1) [OF inv]] by (simp add: addUnchecked_def)
  have nx: "mapNextTx ?P p = Some (h, i) \<longleftrightarrow>
      (if p \<in> prevout ` set (vin tx) then h = ?h \<and> (i < length (vin tx) \<and> prevout (vin tx ! i) = p) else mapNextTx P p = Some (h, i))" for p h i
    using fold_add_next [OF d, of ?h 0] by (auto simp: addUnchecked_def)
  have "mapNextTx ?P p = Some (h, i) \<longleftrightarrow> (\<exists>t. ptx ?P h = Some t \<and> i < length (vin t) \<and> prevout (vin t ! i) = p)" for p h i
  proof (cases "h = ?h")
    case True
    have "mapNextTx P p \<noteq> Some (h, i)" using pool_invD(3) [OF inv] new True by fastforce
    then show ?thesis unfolding nx pt using True by auto
  next
    case False
    then have "\<exists>t. ptx P h = Some t \<and> i < length (vin t) \<and> prevout (vin t ! i) = p \<Longrightarrow> p \<notin> prevout ` set (vin tx)"
      using pool_invD(4) [OF inv] nc by fastforce
    then show ?thesis unfolding nx pt using False inv by (auto simp: pool_inv_def)
  qed
  moreover have "sm_ok (mapTx ?P)" using sm.ok_put [OF pool_invD(1) [OF inv]] by (simp add: addUnchecked_def)
  ultimately show ?thesis using pool_invD(2) [OF inv] unfolding pool_inv_def pt by auto
qed

lemma pool_accept_Inr:
  assumes "pool_accept L E tn ec ro db best ci tx P = Inr P'"
  shows "P' = addUnchecked (GetHash L tx) tx P" "ptx P (GetHash L tx) = None" "tx_wellformed tx"
    "\<not> IsCoinBase tx" "\<not> IsCoinStake tx" "\<forall>txin \<in> set (vin tx). mapNextTx P (prevout txin) = None"
    "ci \<Longrightarrow> accept_inputs L (pool_env E P) tn ro db best tx = Inr ()"
  using assms by (auto simp: pool_accept_def Let_def pool_exists_def list_ex_iff simp del: not_None_eq simp flip: CheckTransaction_wellformed
      split: sum.splits if_splits)

lemma pool_accept_keeps:
  assumes "pool_inv L P" "pool_accept L E tn ec ro db best ci tx P = Inr P'"
  shows "pool_inv L P'"
  using pool_inv_add [OF assms(1) pool_accept_Inr(2) [OF assms(2)] _ pool_accept_Inr(6) [OF assms(2)]]
    pool_accept_Inr(1,3) [OF assms(2)] by (simp add: tx_wellformed_def)

lemma pool_clear_inv: "pool_inv L (pool_clear P)"
  by (simp add: pool_inv_def pool_clear_def sm_find_def sm_ok_def)

text \<open>The pool as a state machine. A removal is asked for a transaction whose hash is not that of a
  different pool transaction.\<close>

inductive pool_step :: "ssl_lib \<Rightarrow> CTxMemPool \<Rightarrow> CTxMemPool \<Rightarrow> bool" for L where
  accept: "pool_accept L E tn ec ro db best ci tx P = Inr P' \<Longrightarrow> pool_step L P P'"
| remove: "ptx P (GetHash L tx) = None \<or> ptx P (GetHash L tx) = Some tx \<Longrightarrow> pool_remove L fuel rec tx P = Some P' \<Longrightarrow> pool_step L P P'"
| conflicts: "removeConflicts L fuel tx (vin tx) P = Some P' \<Longrightarrow> pool_step L P P'"
| clear: "pool_step L P (pool_clear P)"

inductive_cases pool_stepE: "pool_step L P P'"

lemma pool_step_keeps: "pool_step L P P' \<Longrightarrow> pool_inv L P \<Longrightarrow> pool_inv L P'"
  by (erule pool_stepE) (auto intro: pool_accept_keeps pool_clear_inv dest: pool_remove_keeps removeConflicts_keeps)

definition pool_empty :: CTxMemPool where
  "pool_empty = \<lparr>mapTx = [], mapNextTx = (\<lambda>_. None), nTransactionsUpdated = 0\<rparr>"

lemma pool_reachable_inv: "(pool_step L)\<^sup>*\<^sup>* pool_empty P \<Longrightarrow> pool_inv L P"
  by (induction rule: rtranclp_induct)
     (simp_all add: pool_step_keeps, simp add: pool_inv_def pool_empty_def sm_find_def sm_ok_def)

lemma pool_inv_no_conflict:
  assumes inv: "pool_inv L P" and "ptx P h = Some tx" "ptx P h' = Some tx'" "h \<noteq> h'"
  shows "prevout ` set (vin tx) \<inter> prevout ` set (vin tx') = {}"
proof (rule ccontr)
  assume "prevout ` set (vin tx) \<inter> prevout ` set (vin tx') \<noteq> {}"
  then obtain a b where "a \<in> set (vin tx)" "b \<in> set (vin tx')" "prevout a = prevout b" by blast
  then obtain i j where "i < length (vin tx)" "j < length (vin tx')" "prevout (vin tx ! i) = prevout (vin tx' ! j)"
    by (metis in_set_conv_nth)
  with pool_invD(4) [OF inv assms(2)] pool_invD(4) [OF inv assms(3)] assms(4) show False by fastforce
qed

text \<open>\<open>h\<close> descends from a pool transaction other than \<open>tx\<close> that spends one of the inputs \<open>vs\<close>.\<close>

definition conflict_desc :: "CTransaction \<Rightarrow> CTxIn list \<Rightarrow> CTxMemPool \<Rightarrow> uint256 \<Rightarrow> bool" where
  "conflict_desc tx vs P h \<longleftrightarrow>
     (\<exists>txin \<in> set vs. \<exists>c i. mapNextTx P (prevout txin) = Some (c, i) \<and> ptx P c \<noteq> Some tx \<and> (child P)\<^sup>*\<^sup>* c h)"

lemma conflict_desc_subpool:
  assumes "pool_inv L P1" "subpool P1 P" "conflict_desc tx vs P1 h"
  shows "conflict_desc tx (v # vs) P h"
proof -
  obtain w c i where w: "w \<in> set vs" "mapNextTx P1 (prevout w) = Some (c, i)" "ptx P1 c \<noteq> Some tx" "(child P1)\<^sup>*\<^sup>* c h"
    using assms(3) unfolding conflict_desc_def by blast
  obtain t where t: "ptx P1 c = Some t" using pool_invD(3) [OF assms(1) w(2)] by blast
  then have "ptx P c \<noteq> Some tx" using subpoolD(1) [OF assms(2) t] w(3) by simp
  then show ?thesis
    unfolding conflict_desc_def using w(1) subpoolD(2) [OF assms(2) w(2)] desc_subpool [OF assms(2) w(4)] by (metis list.set_intros(2))
qed

lemma removeConflicts_spec:
  assumes "pool_inv L P" "ranked r P" "\<forall>h. r h < fuel"
  shows "\<exists>P'. removeConflicts L fuel tx vs P = Some P' \<and> pool_inv L P' \<and> subpool P' P \<and>
     (\<forall>txin \<in> set vs. \<forall>h i. mapNextTx P' (prevout txin) = Some (h, i) \<longrightarrow> ptx P' h = Some tx) \<and>
     (\<forall>h. removed P P' h \<longrightarrow> conflict_desc tx vs P h)"
  using assms(1,2)
proof (induction vs arbitrary: P)
  case Nil
  then show ?case by (auto simp: removed_def)
next
  case (Cons v vs)
  note inv = Cons.prems(1) and rk = Cons.prems(2)
  have fin: ?case
    if P1: "pool_inv L P1" "subpool P1 P" "removeConflicts L fuel tx (v # vs) P = removeConflicts L fuel tx vs P1"
      "\<forall>h i. mapNextTx P1 (prevout v) = Some (h, i) \<longrightarrow> ptx P1 h = Some tx"
      "\<forall>h. removed P P1 h \<longrightarrow> conflict_desc tx (v # vs) P h" for P1
  proof -
    obtain P' where P': "removeConflicts L fuel tx vs P1 = Some P'" "pool_inv L P'" "subpool P' P1"
      "\<forall>txin \<in> set vs. \<forall>h i. mapNextTx P' (prevout txin) = Some (h, i) \<longrightarrow> ptx P' h = Some tx"
      "\<forall>h. removed P1 P' h \<longrightarrow> conflict_desc tx vs P1 h"
      using Cons.IH [OF P1(1) ranked_subpool [OF P1(2) rk]] by blast
    have "ptx P' h = Some tx" if a: "mapNextTx P' (prevout v) = Some (h, i)" for h i
    proof -
      have "ptx P1 h = Some tx" using P1(4) subpoolD(2) [OF P'(3) a] by blast
      moreover obtain t where "ptx P' h = Some t" using pool_invD(3) [OF P'(2) a] by blast
      ultimately show ?thesis using subpoolD(1) [OF P'(3)] by fastforce
    qed
    moreover have "conflict_desc tx (v # vs) P h" if "removed P P' h" for h
      using removed_trans [OF that, of P1] P1(5) P'(5) conflict_desc_subpool [OF P1(1,2)] by blast
    ultimately show ?thesis using P'(1,2,4) P1(3) subpool_trans [OF P'(3) P1(2)] by auto
  qed
  show ?case
  proof (cases "mapNextTx P (prevout v)")
    case None
    show ?thesis by (rule fin [OF inv subpool_refl]) (use None in \<open>auto simp: removed_def\<close>)
  next
    case (Some x)
    obtain h1 i where x: "mapNextTx P (prevout v) = Some (h1, i)" using Some by (cases x) auto
    obtain c where c: "ptx P h1 = Some c" using pool_invD(3) [OF inv x] by blast
    have hc: "GetHash L c = h1" by (rule pool_invD(2) [OF inv c])
    show ?thesis
    proof (cases "c = tx")
      case True
      show ?thesis by (rule fin [OF inv subpool_refl]) (use x c True in \<open>auto simp: removed_def\<close>)
    next
      case False
      obtain P1 where P1: "pool_remove L fuel True c P = Some P1" "removes L h1 P P1"
        using pool_remove_spec [OF inv rk, of c fuel] hc c assms(3) by auto
      have s: "pool_inv L P1" "subpool P1 P" "ptx P1 h1 = None" using P1(2) by (auto simp: removes_def)
      have n: "mapNextTx P1 (prevout v) \<noteq> Some (h, j)" for h j
      proof
        assume a: "mapNextTx P1 (prevout v) = Some (h, j)"
        then have "h = h1" using subpoolD(2) [OF s(2) a] x by simp
        then show False using pool_invD(3) [OF s(1) a] s(3) by auto
      qed
      have "conflict_desc tx (v # vs) P h" if "removed P P1 h" for h
        using that P1(2) x c False unfolding removes_def conflict_desc_def by auto
      then show ?thesis using n by (intro fin [OF s(1,2)]) (use x c False P1 in simp_all)
    qed
  qed
qed

text \<open>The relay fee is never below the bound of the rate limiter.\<close>

lemma i64_20: "1 \<le> x \<Longrightarrow> x \<le> 2147484000000 \<Longrightarrow> 20 \<le> i64 (20 * x)"
  by (subst i64_id) (simp_all add: in_i64_def)

lemma GetMinFee_relay:
  assumes n: "n < 2 ^ 32"
  shows "20 \<le> GetMinFee 1000 GMF_RELAY n tx"
proof -
  have q: "0 \<le> int n div 1000" "int n div 1000 < 4294968" using n by simp_all
  have c: "cdiv (int n) 1000 = int n div 1000" by (cases "n = 0") (simp_all add: cdiv_def)
  have f: "i64 ((1 + cdiv (int n) 1000) * 20) = (1 + int n div 1000) * 20"
    unfolding c by (rule i64_id) (use q in \<open>simp add: in_i64_def\<close>)
  have m: "20 \<le> i64 ((1 + int n div 1000) * 20 * int (500000 div (500000 - k)))"
    if k: "k < 500000" for k :: nat
  proof -
    have "1 \<le> 500000 div (500000 - k)" using k by (simp add: Suc_le_eq div_greater_zero_iff)
    moreover have "500000 div (500000 - k) \<le> 500000" by simp
    ultimately have b: "1 \<le> int (500000 div (500000 - k))" "int (500000 div (500000 - k)) \<le> 500000" by linarith+
    have "1 * 1 \<le> (1 + int n div 1000) * int (500000 div (500000 - k))"
      by (rule mult_mono) (use q b in linarith)+
    moreover have "(1 + int n div 1000) * int (500000 div (500000 - k)) \<le> 4294968 * 500000"
      by (rule mult_mono) (use q b in linarith)+
    ultimately have "20 \<le> i64 (20 * ((1 + int n div 1000) * int (500000 div (500000 - k))))"
      by (intro i64_20) simp_all
    then show ?thesis by (simp only: ac_simps)
  qed
  have g: "20 \<le> (if \<not> MoneyRange x then MAX_MONEY else x)" if "20 \<le> x" for x using that by simp
  have F: "20 \<le> (1 + int n div 1000) * 20" using q by simp
  have nf: "\<not> (1 + int n div 1000) * 20 < 20" using F by simp
  show ?thesis
    by (simp only: GetMinFee_def Let_def simp_thms if_True if_False f nf split: if_split)
       (intro conjI impI; (rule F)?; (use m [of "(1000 + n) mod 2 ^ 32"] in simp)?)
qed

text \<open>Without cycles the number of descendants is a rank, and no chain is longer than the pool.\<close>

definition pool_rank :: "CTxMemPool \<Rightarrow> uint256 \<Rightarrow> nat" where
  "pool_rank P h = card {h'. (child P)\<^sup>+\<^sup>+ h h'}"

lemma desc_in_pool:
  assumes "pool_inv L P" "(child P)\<^sup>+\<^sup>+ h h'"
  shows "h' \<in> dom (ptx P)"
  using assms(2) by (induction rule: tranclp_induct) (auto simp: child_def dest!: pool_invD(3) [OF assms(1)])

lemma ranked_pool_rank:
  assumes inv: "pool_inv L P" and ac: "acyclicP (child P)"
  shows "ranked (pool_rank P) P" "pool_rank P h \<le> length (mapTx P)"
proof -
  have fin: "finite (dom (ptx P))" by (rule sm.finite_dom)
  have sub: "{h'. (child P)\<^sup>+\<^sup>+ h h'} \<subseteq> dom (ptx P)" for h using desc_in_pool [OF inv] by blast
  show "pool_rank P h \<le> length (mapTx P)"
    unfolding pool_rank_def using card_mono [OF fin sub] sm.length_keys [OF pool_invD(1) [OF inv]] by simp
  have "pool_rank P h2 < pool_rank P h1" if c: "child P h1 h2" for h1 h2
    unfolding pool_rank_def
  proof (rule psubset_card_mono)
    show "finite {h'. (child P)\<^sup>+\<^sup>+ h1 h'}" by (rule finite_subset [OF sub fin])
    have "\<not> (child P)\<^sup>+\<^sup>+ h2 h2" using ac by (simp add: acyclic_def trancl_def)
    then show "{h'. (child P)\<^sup>+\<^sup>+ h2 h'} \<subset> {h'. (child P)\<^sup>+\<^sup>+ h1 h'}"
      using c by (auto intro: tranclp_into_tranclp2)
  qed
  then show "ranked (pool_rank P) P" by (simp add: ranked_def)
qed

lemma removes_descendants:
  assumes inv: "pool_inv L P" and r: "removes L h P P'" and d: "(child P)\<^sup>*\<^sup>* h h'"
  shows "ptx P' h' = None"
  using d
proof (induction rule: rtranclp_induct)
  case base
  then show ?case using r by (simp add: removes_def)
next
  case (step a b)
  have inv': "pool_inv L P'" and sub: "subpool P' P" and cl: "childless P P'" using r by (auto simp: removes_def)
  obtain tx n i where c: "ptx P a = Some tx" "n < length (vout tx)" "mapNextTx P (COutPoint a (of_nat n)) = Some (b, i)"
    using step.hyps(2) by (auto simp: child_def)
  have none: "mapNextTx P' (COutPoint a (of_nat n)) = None"
    using cl c(1,2) step.IH unfolding childless_def by blast
  obtain t where t: "ptx P b = Some t" "i < length (vin t)" "prevout (vin t ! i) = COutPoint a (of_nat n)"
    using pool_invD(3) [OF inv c(3)] by blast
  show ?case
  proof (cases "ptx P' b")
    case (Some t')
    then have "t' = t" using subpoolD(1) [OF sub Some] t(1) by simp
    then show ?thesis using pool_invD(4) [OF inv' Some] t(2,3) none by fastforce
  qed
qed

lemma removes_exact:
  assumes inv: "pool_inv L P" and r: "removes L h P P'"
  shows "ptx P' h' = (if (child P)\<^sup>*\<^sup>* h h' then None else ptx P h')"
proof -
  have sub: "subpool P' P" and d: "removed P P' h' \<Longrightarrow> (child P)\<^sup>*\<^sup>* h h'" using r by (auto simp: removes_def)
  have "ptx P' h' = ptx P h'" if "\<not> (child P)\<^sup>*\<^sup>* h h'"
    using that d subpoolD(1) [OF sub, of h'] by (cases "ptx P' h'"; cases "ptx P h'") (auto simp: removed_def)
  then show ?thesis using removes_descendants [OF inv r] by simp
qed

lemma desc_survives:
  assumes inv: "pool_inv L P" and r: "removes L h1 P P1" and d: "(child P)\<^sup>*\<^sup>* c h" and c: "ptx P1 c \<noteq> None"
  shows "ptx P1 h = None \<or> (child P1)\<^sup>*\<^sup>* c h"
  using d
proof (induction rule: rtranclp_induct)
  case base
  then show ?case by simp
next
  case (step a b)
  obtain t n i where t: "ptx P a = Some t" "n < length (vout t)" "mapNextTx P (COutPoint a (of_nat n)) = Some (b, i)"
    using step.hyps(2) by (auto simp: child_def)
  show ?case
  proof (cases "(child P)\<^sup>*\<^sup>* h1 a")
    case True
    then show ?thesis using removes_descendants [OF inv r] step.hyps(2) by (meson rtranclp.rtrancl_into_rtrancl)
  next
    case False
    then have a: "ptx P1 a = Some t" using removes_exact [OF inv r, of a] t(1) by simp
    then have ca: "(child P1)\<^sup>*\<^sup>* c a" using step.IH by simp
    show ?thesis
    proof (cases "ptx P1 b")
      case (Some u)
      have inv1: "pool_inv L P1" and sub: "subpool P1 P" using r by (auto simp: removes_def)
      have "ptx P b = Some u" by (rule subpoolD(1) [OF sub Some])
      then have "i < length (vin u)" "prevout (vin u ! i) = COutPoint a (of_nat n)" using pool_invD(3) [OF inv t(3)] by auto
      then have "mapNextTx P1 (COutPoint a (of_nat n)) = Some (b, i)" using pool_invD(4) [OF inv1 Some] by fastforce
      then have "child P1 a b" using a t(2) by (auto simp: child_def)
      then show ?thesis using rtranclp.rtrancl_into_rtrancl [OF ca] by blast
    qed simp
  qed
qed

lemma removeConflicts_gone:
  assumes "pool_inv L P" "ranked r P" "\<forall>h. r h < fuel" "removeConflicts L fuel tx vs P = Some P'" "conflict_desc tx vs P h"
  shows "ptx P' h = None"
  using assms(1,2,4,5)
proof (induction vs arbitrary: P)
  case Nil
  then show ?case by (simp add: conflict_desc_def)
next
  case (Cons v vs)
  note inv = Cons.prems(1) and rk = Cons.prems(2)
  show ?case
  proof (cases "\<exists>c i t. mapNextTx P (prevout v) = Some (c, i) \<and> ptx P c = Some t \<and> t \<noteq> tx")
    case True
    then obtain h1 i t where x: "mapNextTx P (prevout v) = Some (h1, i)" and t: "ptx P h1 = Some t" "t \<noteq> tx" by blast
    have ht: "GetHash L t = h1" by (rule pool_invD(2) [OF inv t(1)])
    obtain P1 where P1: "pool_remove L fuel True t P = Some P1" "removes L h1 P P1"
      using pool_remove_spec [OF inv rk, of t fuel] ht t(1) assms(3) by auto
    have s: "pool_inv L P1" "subpool P1 P" using P1(2) by (auto simp: removes_def)
    have rc: "removeConflicts L fuel tx vs P1 = Some P'" using Cons.prems(3) x t P1(1) by simp
    have sub: "subpool P' P1" using removeConflicts_keeps [OF s(1) rc] by blast
    have gone: "ptx P' h = None" if "ptx P1 h = None" using that subpoolD(1) [OF sub, of h] by (cases "ptx P' h") auto
    obtain w c j where w: "w \<in> set (v # vs)" "mapNextTx P (prevout w) = Some (c, j)" "ptx P c \<noteq> Some tx" "(child P)\<^sup>*\<^sup>* c h"
      using Cons.prems(4) unfolding conflict_desc_def by blast
    show ?thesis
    proof (cases "ptx P1 c")
      case None
      then have "(child P)\<^sup>*\<^sup>* h1 c" using removes_exact [OF inv P1(2), of c] pool_invD(3) [OF inv w(2)] by (auto split: if_splits)
      then show ?thesis using gone removes_descendants [OF inv P1(2)] w(4) by (meson rtranclp_trans)
    next
      case (Some u)
      have uP: "ptx P c = Some u" by (rule subpoolD(1) [OF s(2) Some])
      then have "j < length (vin u)" "prevout (vin u ! j) = prevout w" using pool_invD(3) [OF inv w(2)] by auto
      then have n: "mapNextTx P1 (prevout w) = Some (c, j)" using pool_invD(4) [OF s(1) Some] by fastforce
      have "w \<noteq> v" using n x w(2) Some P1(2) by (auto simp: removes_def)
      then have "w \<in> set vs" using w(1) by simp
      then have "conflict_desc tx vs P1 h" if "(child P1)\<^sup>*\<^sup>* c h"
        unfolding conflict_desc_def using n w(3) uP Some that by metis
      then show ?thesis
        using desc_survives [OF inv P1(2) w(4)] Some gone Cons.IH [OF s(1) ranked_subpool [OF s(2) rk] rc] by blast
    qed
  next
    case False
    have "conflict_desc tx vs P h" using Cons.prems(4) False pool_invD(3) [OF inv] unfolding conflict_desc_def
      by (metis set_ConsD)
    moreover have "removeConflicts L fuel tx vs P = Some P'"
      using Cons.prems(3) False by (auto split: option.splits if_splits)
    ultimately show ?thesis using Cons.IH [OF inv rk] by blast
  qed
qed

lemma removeConflicts_exact:
  assumes "pool_inv L P" "ranked r P" "\<forall>h. r h < fuel" "removeConflicts L fuel tx vs P = Some P'"
  shows "ptx P' = (\<lambda>h. if conflict_desc tx vs P h then None else ptx P h)"
proof
  fix h
  obtain P2 where "removeConflicts L fuel tx vs P = Some P2" "subpool P2 P" "removed P P2 h \<longrightarrow> conflict_desc tx vs P h"
    using removeConflicts_spec [OF assms(1-3), of tx vs] by blast
  then have sub: "subpool P' P" and d: "removed P P' h \<longrightarrow> conflict_desc tx vs P h" using assms(4) by simp_all
  show "ptx P' h = (if conflict_desc tx vs P h then None else ptx P h)"
    using removeConflicts_gone [OF assms] d subpoolD(1) [OF sub, of h]
    by (cases "ptx P' h"; cases "ptx P h") (auto simp: removed_def)
qed

section \<open>Properties\<close>

text \<open>C10. In every state the memory pool can reach from empty by accepting transactions, removing
  transactions, removing conflicts and clearing, the spending index holds exactly the inputs of the
  pool transactions, and two different pool transactions never spend the same output.\<close>

theorem pool_no_double_spend:
  assumes "(pool_step L)\<^sup>*\<^sup>* pool_empty P"
  shows "(\<forall>p h i. mapNextTx P p = Some (h, i) \<longleftrightarrow>
        (\<exists>tx. sm_find (mapTx P) h = Some tx \<and> i < length (vin tx) \<and> prevout (vin tx ! i) = p)) \<and>
    (\<forall>h h' tx tx'. sm_find (mapTx P) h = Some tx \<longrightarrow> sm_find (mapTx P) h' = Some tx' \<longrightarrow> h \<noteq> h' \<longrightarrow>
        prevout ` set (vin tx) \<inter> prevout ` set (vin tx') = {}) \<and>
    (\<forall>h tx. sm_find (mapTx P) h = Some tx \<longrightarrow> GetHash L tx = h)"
proof (intro conjI)
  note inv = pool_reachable_inv [OF assms]
  show "\<forall>p h i. mapNextTx P p = Some (h, i) \<longleftrightarrow>
        (\<exists>tx. sm_find (mapTx P) h = Some tx \<and> i < length (vin tx) \<and> prevout (vin tx ! i) = p)"
    "\<forall>h tx. sm_find (mapTx P) h = Some tx \<longrightarrow> GetHash L tx = h" using inv by (simp_all add: pool_inv_def)
  show "\<forall>h h' tx tx'. sm_find (mapTx P) h = Some tx \<longrightarrow> sm_find (mapTx P) h' = Some tx' \<longrightarrow> h \<noteq> h' \<longrightarrow>
        prevout ` set (vin tx) \<inter> prevout ` set (vin tx') = {}" using pool_inv_no_conflict [OF inv] by blast
qed

definition demo_leaf :: CTransaction where
  "demo_leaf = \<lparr>nVersion = 1, nTime = 10, vin = [\<lparr>prevout = COutPoint 5 7, scriptSig = [], nSequence = -1\<rparr>],
     vout = [\<lparr>nValue = 1000, scriptPubKey = [0x51]\<rparr>], nLockTime = 0\<rparr>"

definition demo_pool :: CTxMemPool where
  "demo_pool = addUnchecked (GetHash ssl_demo demo_leaf) demo_leaf pool_empty"

lemma demo_accept: "pool_accept ssl_demo demo_env True False True demo_db [demo_index 30] False demo_leaf pool_empty = Inr demo_pool"
proof -
  have "CheckTransaction demo_leaf = Inr ()"
    by (simp add: CheckTransaction_def GetSerializeSize_tx_def GetSerializeSize_vec_def GetSerializeSize_txin_def
        GetSerializeSize_txout_def GetSerializeSize_bytes_def GetSizeOfCompactSize_def Let_def MoneyRange_def in_i64_def
        IsCoinBase_def IsCoinStake_def COutPoint_IsNull_def CTxOut_IsEmpty_def demo_leaf_def)
  then show ?thesis
    by (simp add: pool_accept_def demo_pool_def IsCoinBase_def IsCoinStake_def pool_exists_def pool_empty_def sm_find_def
        demo_leaf_def COutPoint_IsNull_def Let_def)
qed

lemma demo_pool_next: "mapNextTx demo_pool = [COutPoint 5 7 \<mapsto> (GetHash ssl_demo demo_leaf, 0)]"
  "sm_find (mapTx demo_pool) = [GetHash ssl_demo demo_leaf \<mapsto> demo_leaf]"
  by (simp_all add: demo_pool_def addUnchecked_def pool_empty_def demo_leaf_def sm_find_def fun_eq_iff)

lemma demo_pool_reach: "(pool_step ssl_demo)\<^sup>*\<^sup>* pool_empty demo_pool"
  using pool_step.accept [OF demo_accept] by blast

theorem pool_no_double_spend_witness:
  "mapNextTx demo_pool (COutPoint 5 7) = Some (GetHash ssl_demo demo_leaf, 0)"
proof -
  have "\<exists>tx. sm_find (mapTx demo_pool) (GetHash ssl_demo demo_leaf) = Some tx \<and> 0 < length (vin tx) \<and> prevout (vin tx ! 0) = COutPoint 5 7"
    by (simp add: demo_pool_next) (simp add: demo_leaf_def)
  then show ?thesis using pool_no_double_spend [OF demo_pool_reach] by blast
qed

text \<open>C26. Recursive removal terminates: when no pool transaction depends on itself, a stack deeper than
  the number of pool transactions is enough, and the call removes exactly the transaction and its
  descendants and keeps every other transaction.\<close>

theorem pool_remove_descendants:
  assumes "pool_inv L P" "acyclicP (child P)" "sm_find (mapTx P) (GetHash L tx) = Some tx" "length (mapTx P) < fuel"
  shows "\<exists>P'. pool_remove L fuel True tx P = Some P' \<and> pool_inv L P' \<and>
    sm_find (mapTx P') = (\<lambda>h. if (child P)\<^sup>*\<^sup>* (GetHash L tx) h then None else sm_find (mapTx P) h)"
proof -
  have "pool_rank P (GetHash L tx) < fuel" using ranked_pool_rank(2) [OF assms(1,2)] assms(4) by (rule le_less_trans)
  from pool_remove_spec [OF assms(1) ranked_pool_rank(1) [OF assms(1,2)] assms(3) this]
  obtain P' where "pool_remove L fuel True tx P = Some P'" "removes L (GetHash L tx) P P'" by blast
  then show ?thesis using removes_exact [OF assms(1)] by (auto simp: removes_def)
qed

lemma demo_pool_acyclic: "\<not> child demo_pool h h'"
  by (auto simp: child_def demo_pool_next demo_leaf_def split: if_splits)

lemma demo_pool_acyclicP: "acyclicP (child demo_pool)"
proof -
  have "{(x, y). child demo_pool x y} = {}" by (simp add: demo_pool_acyclic)
  then show ?thesis by (simp add: acyclic_def)
qed

theorem pool_remove_descendants_witness:
  "\<exists>P'. pool_remove ssl_demo 2 True demo_leaf demo_pool = Some P' \<and> sm_find (mapTx P') (GetHash ssl_demo demo_leaf) = None"
proof -
  have "pool_inv ssl_demo demo_pool" by (rule pool_reachable_inv [OF demo_pool_reach])
  moreover have "acyclicP (child demo_pool)" by (rule demo_pool_acyclicP)
  moreover have "length (mapTx demo_pool) < 2" by (simp add: demo_pool_def addUnchecked_def pool_empty_def)
  ultimately show ?thesis
    using pool_remove_descendants [of ssl_demo demo_pool demo_leaf 2] by (auto simp: demo_pool_next)
qed

text \<open>C27. Removing the conflicts of a transaction terminates, leaves no other pool transaction that spends
  one of its inputs, and removes exactly the transactions that conflict with it and those that depend
  on one that does.\<close>

theorem removeConflicts_complete:
  assumes "pool_inv L P" "acyclicP (child P)" "length (mapTx P) < fuel"
  shows "\<exists>P'. removeConflicts L fuel tx (vin tx) P = Some P' \<and> pool_inv L P' \<and>
     (\<forall>txin \<in> set (vin tx). \<forall>h i. mapNextTx P' (prevout txin) = Some (h, i) \<longrightarrow> sm_find (mapTx P') h = Some tx) \<and>
     sm_find (mapTx P') = (\<lambda>h. if conflict_desc tx (vin tx) P h then None else sm_find (mapTx P) h)"
proof -
  have r: "\<forall>h. pool_rank P h < fuel" using ranked_pool_rank(2) [OF assms(1,2)] assms(3) by (blast intro: le_less_trans)
  note rk = ranked_pool_rank(1) [OF assms(1,2)]
  from removeConflicts_spec [OF assms(1) rk r] removeConflicts_exact [OF assms(1) rk r]
  show ?thesis by (metis (no_types, lifting))
qed

theorem removeConflicts_complete_witness:
  "\<exists>P'. removeConflicts ssl_demo 2 demo_leaf (vin demo_leaf) demo_pool = Some P' \<and> pool_inv ssl_demo P'"
proof -
  have "pool_inv ssl_demo demo_pool" by (rule pool_reachable_inv [OF demo_pool_reach])
  moreover have "acyclicP (child demo_pool)" by (rule demo_pool_acyclicP)
  moreover have "length (mapTx demo_pool) < 2" by (simp add: demo_pool_def addUnchecked_def pool_empty_def)
  ultimately show ?thesis using removeConflicts_complete [of ssl_demo demo_pool 2 demo_leaf] by blast
qed

text \<open>The orphan transactions stay indexed by the transactions they wait for, each of at most 5000
  bytes, through additions and removals; limiting them ends with at most the given number, all of
  them among the previous ones.\<close>

lemma orphans_bounded_and_indexed:
  assumes "orphan_inv st"
  shows "orphan_inv (snd (AddOrphanTx L tx st)) \<and> orphan_inv (EraseOrphanTx h st) \<and>
    orphan_inv (snd (LimitOrphanTxSize rnd n 0 st)) \<and>
    length (mapOrphanTransactions (snd (LimitOrphanTxSize rnd n 0 st))) \<le> n \<and>
    set (mapOrphanTransactions (snd (LimitOrphanTxSize rnd n 0 st))) \<subseteq> set (mapOrphanTransactions st)"
  using orphan_inv_add [OF assms] orphan_inv_erase [OF assms] orphan_inv_limit [OF assms] by blast

end
