(* ===== verification/Chain.thy ===== *)
theory Chain
  imports Kernel Mempool
begin

text \<open>
  The block tree and the best chain (\<open>main.cpp\<close>, \<open>checkpoints.cpp\<close>): adding a block to the index,
  switching to a better chain (\<open>SetBestChain\<close>, \<open>Reorganize\<close>), the checkpoints and \<open>AcceptBlock\<close>. The
  globals are the record \<open>node_state\<close>: a pointer to a block index entry is its hash, \<open>mapBlockIndex\<close>
  holds the entries and \<open>pprev\<close> the parent pointers. \<open>txdb\<close> is the committed database; the functions
  that run inside a transaction of the database take and return the pending one. Everything outside
  the node's memory (OpenSSL, block files, clock, command line) is the record \<open>chain_env\<close>.
\<close>

section \<open>State\<close>

datatype CPMode = STRICT | ADVISORY | PERMISSIVE

record chain_env =
  ce_ssl :: ssl_lib
  ce_env :: node_env
  read_block :: "u32 \<Rightarrow> u32 \<Rightarrow> CBlock option"
  fTestNet :: bool
  fEnforceCanonical :: bool
  nModifierInterval :: u32
  now :: int
  CheckpointsMode :: CPMode

record node_state =
  mapBlockIndex :: block_map
  pprev :: "uint256 \<rightharpoonup> uint256"
  txdb :: CTxDB
  db_hashBestChain :: uint256
  db_bestInvalidTrust :: uint256
  db_hashSyncCheckpoint :: uint256
  mempool :: CTxMemPool
  pindexGenesisBlock :: "uint256 option"
  pindexBest :: "uint256 option"
  hashBestChain :: uint256
  nBestHeight :: int
  nBestChainTrust :: uint256
  nBestInvalidTrust :: uint256
  nTimeBestReceived :: int
  setStakeSeen :: "(COutPoint \<times> u32) set"
  hashSyncCheckpoint :: uint256
  hashPendingCheckpoint :: uint256
  hashInvalidCheckpoint :: uint256
  wallet_log :: "wallet_sync list"

text \<open>The entries from a pointer down to genesis. An entry at height \<open>n\<close> has \<open>n\<close> ancestors, so the height
  bounds the walk.\<close>

fun walk :: "nat \<Rightarrow> block_map \<Rightarrow> (uint256 \<rightharpoonup> uint256) \<Rightarrow> uint256 \<Rightarrow> CBlockIndex list" where
  "walk 0 idx prev h = []"
| "walk (Suc n) idx prev h =
     (case idx h of
        None \<Rightarrow> []
      | Some b \<Rightarrow> b # (case prev h of None \<Rightarrow> [] | Some p \<Rightarrow> walk n idx prev p))"

definition chain_of :: "node_state \<Rightarrow> uint256 \<Rightarrow> CBlockIndex list" where
  "chain_of st h =
     (case mapBlockIndex st h of
        None \<Rightarrow> []
      | Some b \<Rightarrow> walk (Suc (nat (bi_nHeight b))) (mapBlockIndex st) (pprev st) h)"

definition best_chain :: "node_state \<Rightarrow> CBlockIndex list" where
  "best_chain st = (case pindexBest st of None \<Rightarrow> [] | Some h \<Rightarrow> chain_of st h)"

text \<open>What the ledger functions read of the state.\<close>

definition st_env :: "chain_env \<Rightarrow> node_state \<Rightarrow> node_env" where
  "st_env C st = (ce_env C)\<lparr>mempool_tx := sm_find (mapTx (mempool st)),
     best_height := (case best_chain st of [] \<Rightarrow> -1 | b # _ \<Rightarrow> bi_nHeight b)\<rparr>"

definition ReadBlock :: "chain_env \<Rightarrow> CBlockIndex \<Rightarrow> CBlock option" where
  "ReadBlock C pindex =
     (case read_block C (bi_nFile pindex) (bi_nBlockPos pindex) of
        None \<Rightarrow> None
      | Some b \<Rightarrow> if b_GetHash (ce_env C) b \<noteq> bi_hash pindex then None else Some b)"

definition IsInMainChain :: "node_state \<Rightarrow> CBlockIndex \<Rightarrow> bool" where
  "IsInMainChain st pindex \<longleftrightarrow> bi_hashNext pindex \<noteq> 0 \<or> pindexBest st = Some (bi_hash pindex)"

section \<open>Reorganize\<close>

text \<open>The walk to the fork, from the best chain and the new chain; \<open>None\<close> when a chain ends first.\<close>

fun find_fork :: "CBlockIndex list \<Rightarrow> CBlockIndex list \<Rightarrow> uint256 option" where
  "find_fork [] plonger = None"
| "find_fork (pfork # r) plonger =
     (case dropWhile (\<lambda>p. bi_nHeight p > bi_nHeight pfork) plonger of
        [] \<Rightarrow> None
      | p # ps \<Rightarrow> if bi_hash p = bi_hash pfork then Some (bi_hash pfork) else find_fork r (p # ps))"

datatype reorg_error = Reorg_no_fork | Reorg_read | Reorg_disconnect | Reorg_connect ledger_error | Reorg_stack

fun disconnect_branch :: "chain_env \<Rightarrow> uint256 list \<Rightarrow> node_state \<Rightarrow> CTxDB \<Rightarrow> CTransaction list \<Rightarrow>
    (reorg_error + CTxDB \<times> CTransaction list) \<times> node_state" where
  "disconnect_branch C [] st db vResurrect = (Inr (db, vResurrect), st)"
| "disconnect_branch C (h # r) st db vResurrect =
     (let pindex = chain_of st h in
      case ReadBlock C (hd pindex) of
        None \<Rightarrow> (Inl Reorg_read, st)
      | Some block \<Rightarrow>
          (case DisconnectBlock (ce_ssl C) (st_env C st) db pindex block of
             (False, _, _) \<Rightarrow> (Inl Reorg_disconnect, st)
           | (True, db1, ev) \<Rightarrow>
               disconnect_branch C r (st\<lparr>wallet_log := wallet_log st @ ev\<rparr>) db1
                 (vResurrect @ filter (\<lambda>tx. \<not> (IsCoinBase tx \<or> IsCoinStake tx)) (vtx block))))"

fun connect_branch :: "chain_env \<Rightarrow> uint256 list \<Rightarrow> node_state \<Rightarrow> CTxDB \<Rightarrow> CTransaction list \<Rightarrow>
    (reorg_error + CTxDB \<times> CTransaction list) \<times> node_state" where
  "connect_branch C [] st db vDelete = (Inr (db, vDelete), st)"
| "connect_branch C (h # r) st db vDelete =
     (let pindex = chain_of st h in
      case ReadBlock C (hd pindex) of
        None \<Rightarrow> (Inl Reorg_read, st)
      | Some block \<Rightarrow>
          (case ConnectBlock (ce_ssl C) (st_env C st) db pindex False block of
             Inl e \<Rightarrow> (Inl (Reorg_connect e), st)
           | Inr (pi, db1, ev) \<Rightarrow>
               connect_branch C r (st\<lparr>mapBlockIndex := (mapBlockIndex st)(h \<mapsto> pi), wallet_log := wallet_log st @ ev\<rparr>) db1
                 (vDelete @ vtx block)))"

text \<open>The assignments to \<open>pnext\<close> of the parent.\<close>

definition set_pnext :: "(uint256 \<rightharpoonup> uint256) \<Rightarrow> uint256 \<Rightarrow> uint256 \<Rightarrow> block_map \<Rightarrow> block_map" where
  "set_pnext prev nxt h idx =
     (case prev h of
        None \<Rightarrow> idx
      | Some p \<Rightarrow> (case idx p of None \<Rightarrow> idx | Some b \<Rightarrow> idx(p \<mapsto> b\<lparr>bi_hashNext := nxt\<rparr>)))"

text \<open>\<open>AcceptToMemoryPool(txdb, false)\<close>, the result ignored.\<close>

definition resurrect :: "chain_env \<Rightarrow> node_state \<Rightarrow> CTransaction \<Rightarrow> CTxMemPool \<Rightarrow> CTxMemPool" where
  "resurrect C st tx P =
     (case pool_accept (ce_ssl C) (st_env C st) (fTestNet C) (fEnforceCanonical C) True (txdb st) (best_chain st) False tx P of
        Inl _ \<Rightarrow> P
      | Inr P1 \<Rightarrow> P1)"

text \<open>\<open>mempool.remove(tx)\<close>: without recursion one frame is enough.\<close>

definition pool_drop :: "ssl_lib \<Rightarrow> CTransaction \<Rightarrow> CTxMemPool \<Rightarrow> CTxMemPool" where
  "pool_drop L tx P = (case pool_remove L 1 False tx P of None \<Rightarrow> P | Some P1 \<Rightarrow> P1)"

text \<open>A stack as deep as the pool is large; \<open>None\<close> when it is exhausted.\<close>

fun delete_all :: "ssl_lib \<Rightarrow> CTransaction list \<Rightarrow> CTxMemPool \<Rightarrow> CTxMemPool option" where
  "delete_all L [] P = Some P"
| "delete_all L (tx # r) P =
     (let P1 = pool_drop L tx P in
      case removeConflicts L (Suc (length (mapTx P1))) tx (vin tx) P1 of
        None \<Rightarrow> None
      | Some P2 \<Rightarrow> delete_all L r P2)"

definition Reorganize :: "chain_env \<Rightarrow> uint256 \<Rightarrow> node_state \<Rightarrow> (reorg_error + unit) \<times> node_state" where
  "Reorganize C hNew st =
     (case find_fork (best_chain st) (chain_of st hNew) of
        None \<Rightarrow> (Inl Reorg_no_fork, st)
      | Some pfork \<Rightarrow>
          let vDisconnect = takeWhile (\<lambda>h. h \<noteq> pfork) (map bi_hash (best_chain st));
              vConnect = rev (takeWhile (\<lambda>h. h \<noteq> pfork) (map bi_hash (chain_of st hNew)))
          in case disconnect_branch C vDisconnect st (txdb st) [] of
               (Inl e, st1) \<Rightarrow> (Inl e, st1)
             | (Inr (db1, vResurrect), st1) \<Rightarrow>
                 (case connect_branch C vConnect st1 db1 [] of
                    (Inl e, st2) \<Rightarrow> (Inl e, st2)
                  | (Inr (db2, vDelete), st2) \<Rightarrow>
                      let st3 = st2\<lparr>txdb := db2, db_hashBestChain := hNew,
                            mapBlockIndex := fold (\<lambda>h. set_pnext (pprev st2) h h) vConnect
                              (fold (set_pnext (pprev st2) 0) vDisconnect (mapBlockIndex st2))\<rparr>
                      in case delete_all (ce_ssl C) vDelete (fold (resurrect C st3) vResurrect (mempool st3)) of
                           None \<Rightarrow> (Inl Reorg_stack, st3)
                         | Some P \<Rightarrow> (Inr (), st3\<lparr>mempool := P\<rparr>)))"

section \<open>SetBestChain\<close>

definition chain_trust :: "node_state \<Rightarrow> uint256 \<Rightarrow> uint256" where
  "chain_trust st h = (case mapBlockIndex st h of None \<Rightarrow> 0 | Some b \<Rightarrow> bi_nChainTrust b)"

definition InvalidChainFound :: "uint256 \<Rightarrow> node_state \<Rightarrow> node_state" where
  "InvalidChainFound hNew st =
     (if chain_trust st hNew > nBestInvalidTrust st
      then st\<lparr>nBestInvalidTrust := chain_trust st hNew, db_bestInvalidTrust := chain_trust st hNew\<rparr>
      else st)"

definition SetBestChainInner :: "chain_env \<Rightarrow> CBlock \<Rightarrow> uint256 \<Rightarrow> node_state \<Rightarrow> bool \<times> node_state" where
  "SetBestChainInner C block hNew st =
     (case ConnectBlock (ce_ssl C) (st_env C st) (txdb st) (chain_of st hNew) False block of
        Inl _ \<Rightarrow> (False, InvalidChainFound hNew st)
      | Inr (pi, db1, ev) \<Rightarrow>
          (True, st\<lparr>txdb := db1, db_hashBestChain := b_GetHash (ce_env C) block,
             mapBlockIndex := set_pnext (pprev st) hNew hNew ((mapBlockIndex st)(hNew \<mapsto> pi)),
             wallet_log := wallet_log st @ ev,
             mempool := fold (pool_drop (ce_ssl C)) (vtx block) (mempool st)\<rparr>))"

text \<open>The loop that postpones blocks: those whose parent alone already beats the best chain, newest first.\<close>

fun postpone :: "uint256 \<Rightarrow> CBlockIndex list \<Rightarrow> CBlockIndex list \<times> CBlockIndex list" where
  "postpone best (p # q # r) =
     (if bi_nChainTrust q > best then (case postpone best (q # r) of (sec, interm) \<Rightarrow> (p # sec, interm)) else ([], p # q # r))"
| "postpone best ps = ([], ps)"

text \<open>Connecting the postponed blocks, oldest first; the loop ends at the first failure.\<close>

fun connect_further :: "chain_env \<Rightarrow> CBlockIndex list \<Rightarrow> node_state \<Rightarrow> node_state" where
  "connect_further C [] st = st"
| "connect_further C (p # r) st =
     (case ReadBlock C p of
        None \<Rightarrow> st
      | Some block \<Rightarrow>
          (case SetBestChainInner C block (bi_hash p) st of
             (False, st1) \<Rightarrow> st1
           | (True, st1) \<Rightarrow> connect_further C r st1))"

definition new_best :: "chain_env \<Rightarrow> uint256 \<Rightarrow> uint256 \<Rightarrow> node_state \<Rightarrow> node_state" where
  "new_best C hash hNew st =
     st\<lparr>hashBestChain := hash, pindexBest := Some hNew,
        nBestHeight := (case mapBlockIndex st hNew of None \<Rightarrow> -1 | Some b \<Rightarrow> bi_nHeight b),
        nBestChainTrust := chain_trust st hNew, nTimeBestReceived := now C,
        mempool := (mempool st)\<lparr>nTransactionsUpdated := nTransactionsUpdated (mempool st) + 1\<rparr>\<rparr>"

definition SetBestChain :: "chain_env \<Rightarrow> CBlock \<Rightarrow> uint256 \<Rightarrow> node_state \<Rightarrow> bool \<times> node_state" where
  "SetBestChain C block hNew st =
     (let hash = b_GetHash (ce_env C) block in
      if pindexGenesisBlock st = None \<and> hash = genesis_hash
      then (True, new_best C hash hNew (st\<lparr>db_hashBestChain := hash, pindexGenesisBlock := Some hNew\<rparr>))
      else if b_hashPrevBlock block = hashBestChain st
      then (case SetBestChainInner C block hNew st of
              (False, st1) \<Rightarrow> (False, st1)
            | (True, st1) \<Rightarrow> (True, new_best C hash hNew st1))
      else case postpone (case pindexBest st of None \<Rightarrow> 0 | Some b \<Rightarrow> chain_trust st b) (chain_of st hNew) of
             (vpindexSecondary, interm) \<Rightarrow>
               (case Reorganize C (bi_hash (hd interm)) st of
                  (Inl _, st1) \<Rightarrow> (False, InvalidChainFound hNew st1)
                | (Inr _, st1) \<Rightarrow> (True, new_best C hash hNew (connect_further C (rev vpindexSecondary) st1))))"

section \<open>AddToBlockIndex\<close>

text \<open>The constructor from a block, with \<open>phashBlock\<close> set.\<close>

definition CBlockIndex_new :: "u32 \<Rightarrow> u32 \<Rightarrow> CBlock \<Rightarrow> uint256 \<Rightarrow> CBlockIndex" where
  "CBlockIndex_new nFileIn nBlockPosIn block hash =
     \<lparr>bi_hash = hash, bi_hashNext = 0, bi_nFile = nFileIn, bi_nBlockPos = nBlockPosIn, bi_nHeight = 0, bi_nChainTrust = 0,
      bi_nMint = 0, bi_nMoneySupply = 0, bi_nFlags = (if b_IsProofOfStake block then 1 else 0),
      bi_nStakeModifier = 0, bi_nStakeModifierChecksum = 0,
      bi_prevoutStake = (if b_IsProofOfStake block then prevout (vin (vtx block ! 1) ! 0) else COutPoint_Null),
      bi_nStakeTime = (if b_IsProofOfStake block then nTime (vtx block ! 1) else 0),
      bi_hashProofOfStake = 0, bi_nVersion = b_nVersion block, bi_hashMerkleRoot = b_hashMerkleRoot block,
      bi_nTime = b_nTime block, bi_nBits = b_nBits block, bi_nNonce = b_nNonce block\<rparr>"

definition b_GetStakeEntropyBit :: "node_env \<Rightarrow> CBlock \<Rightarrow> u32" where
  "b_GetStakeEntropyBit E block = ucast ((ucast (b_GetHash E block) :: u64) AND 1)"

datatype add_error = Add_exists | Add_entropy | Add_modifier | Add_assertion | Add_modifier_checkpoint | Add_best_chain

text \<open>The entry of a new block, before it enters the index.\<close>

definition index_entry :: "chain_env \<Rightarrow> u32 \<Rightarrow> u32 \<Rightarrow> uint256 \<Rightarrow> CBlock \<Rightarrow> node_state \<Rightarrow> add_error + CBlockIndex" where
  "index_entry C nFileIn nBlockPosIn hashProof block st =
     (let L = ce_ssl C; E = ce_env C;
          prev = chain_of st (b_hashPrevBlock block);
          p0 = CBlockIndex_new nFileIn nBlockPosIn block (b_GetHash E block);
          p1 = p0\<lparr>bi_nHeight := (case prev of [] \<Rightarrow> 0 | b # _ \<Rightarrow> i32 (bi_nHeight b + 1)),
                  bi_nChainTrust := (case prev of [] \<Rightarrow> 0 | b # _ \<Rightarrow> bi_nChainTrust b) + GetBlockTrust (bn L) (b_nBits block)\<rparr>
      in case bi_SetStakeEntropyBit (b_GetStakeEntropyBit E block) p1 of
           None \<Rightarrow> Inl Add_entropy
         | Some p2 \<Rightarrow>
             let p3 = p2\<lparr>bi_hashProofOfStake := hashProof\<rparr> in
             (case ComputeNextStakeModifier L (mapBlockIndex st) (nModifierInterval C) prev of
                None \<Rightarrow> Inl Add_modifier
              | Some (m, g) \<Rightarrow>
                  let p4 = bi_SetStakeModifier m g p3 in
                  (case GetStakeModifierChecksum L (p4 # prev) of
                     None \<Rightarrow> Inl Add_assertion
                   | Some c \<Rightarrow>
                       if \<not> CheckStakeModifierCheckpoints (bi_nHeight p4) c then Inl Add_modifier_checkpoint
                       else Inr (p4\<lparr>bi_nStakeModifierChecksum := c\<rparr>))))"

definition insert_index :: "chain_env \<Rightarrow> CBlock \<Rightarrow> CBlockIndex \<Rightarrow> node_state \<Rightarrow> node_state" where
  "insert_index C block p st =
     (let h = bi_hash p;
          st1 = st\<lparr>mapBlockIndex := (mapBlockIndex st)(h \<mapsto> p),
                   pprev := (pprev st)(h := (if mapBlockIndex st (b_hashPrevBlock block) = None then None else Some (b_hashPrevBlock block))),
                   setStakeSeen := (if bi_IsProofOfStake p then insert (bi_prevoutStake p, bi_nStakeTime p) (setStakeSeen st) else setStakeSeen st)\<rparr>
      in st1\<lparr>txdb := WriteBlockIndex (ce_env C) (CDiskBlockIndex_of (p # chain_of st (b_hashPrevBlock block))) (txdb st)\<rparr>)"

definition AddToBlockIndex :: "chain_env \<Rightarrow> u32 \<Rightarrow> u32 \<Rightarrow> uint256 \<Rightarrow> CBlock \<Rightarrow> node_state \<Rightarrow> (add_error + unit) \<times> node_state" where
  "AddToBlockIndex C nFileIn nBlockPosIn hashProof block st =
     (let hash = b_GetHash (ce_env C) block in
      if mapBlockIndex st hash \<noteq> None then (Inl Add_exists, st)
      else case index_entry C nFileIn nBlockPosIn hashProof block st of
             Inl e \<Rightarrow> (Inl e, st)
           | Inr p \<Rightarrow>
               let st1 = insert_index C block p st in
               if bi_nChainTrust p > nBestChainTrust st1
               then (case SetBestChain C block hash st1 of
                       (False, st2) \<Rightarrow> (Inl Add_best_chain, st2)
                     | (True, st2) \<Rightarrow> (Inr (), st2))
               else (Inr (), st1))"

section \<open>Checkpoints\<close>

definition mapCheckpoints :: "(int \<times> uint256) list" where
  "mapCheckpoints =
     [(0, genesis_hash),
      (25, 0x000001cc753748395adc5bada031b8df33ab40ac6cbff52babef0c56ebdc0bc3),
      (701720, 0x0000000000011348d2e6c48125d1e97912b84e2afa5e85db37303366a25cda73),
      (701907, 0x27895d01be9f6a7a9fe8756da7dbd8bbbf435675b27359bfa1ffd10cd9f17b6a),
      (770605, 0x3bd5f669ae847624b32f2bbb7bfda1568cb2f347cea08f61191c92ce840c116b),
      (974427, 0xfe79e1b25515d1682e20b68e0190fde50759e95b8070c2ac55c9621a44c33b3c)]"

definition mapCheckpointsTestnet :: "(int \<times> uint256) list" where
  "mapCheckpointsTestnet = [(0, genesis_hash)]"

definition checkpoints :: "bool \<Rightarrow> (int \<times> uint256) list" where
  "checkpoints testNet = (if testNet then mapCheckpointsTestnet else mapCheckpoints)"

definition CheckHardened :: "bool \<Rightarrow> int \<Rightarrow> uint256 \<Rightarrow> bool" where
  "CheckHardened testNet nHeight hash =
     (case map_of (checkpoints testNet) nHeight of None \<Rightarrow> True | Some h \<Rightarrow> hash = h)"

definition GetTotalBlocksEstimate :: "bool \<Rightarrow> int" where
  "GetTotalBlocksEstimate testNet = fst (last (checkpoints testNet))"

definition GetLastCheckpoint :: "bool \<Rightarrow> node_state \<Rightarrow> uint256 option" where
  "GetLastCheckpoint testNet st =
     map_option snd (find (\<lambda>(_, h). mapBlockIndex st h \<noteq> None) (rev (checkpoints testNet)))"

text \<open>The trace back to the height of another block; \<open>[]\<close> is the null pointer.\<close>

definition trace_back :: "int \<Rightarrow> CBlockIndex list \<Rightarrow> CBlockIndex list" where
  "trace_back nHeight chain = dropWhile (\<lambda>p. bi_nHeight p > nHeight) chain"

text \<open>\<open>None\<close> is the failed assertion.\<close>

definition CheckSync :: "chain_env \<Rightarrow> uint256 \<Rightarrow> uint256 \<Rightarrow> node_state \<Rightarrow> bool option" where
  "CheckSync C hashBlock hashPrev st =
     (if fTestNet C then Some True
      else let prev = chain_of st hashPrev; nHeight = i32 (bi_nHeight (hd prev) + 1) in
      case mapBlockIndex st (hashSyncCheckpoint st) of
        None \<Rightarrow> None
      | Some pindexSync \<Rightarrow>
          Some ((nHeight > bi_nHeight pindexSync \<longrightarrow>
                   (case trace_back (bi_nHeight pindexSync) prev of
                      [] \<Rightarrow> False
                    | p # _ \<Rightarrow> \<not> (bi_nHeight p < bi_nHeight pindexSync \<or> bi_hash p \<noteq> hashSyncCheckpoint st))) \<and>
                \<not> (nHeight = bi_nHeight pindexSync \<and> hashBlock \<noteq> hashSyncCheckpoint st) \<and>
                \<not> (nHeight < bi_nHeight pindexSync \<and> mapBlockIndex st hashBlock = None)))"

definition ValidateSyncCheckpoint :: "uint256 \<Rightarrow> node_state \<Rightarrow> bool \<times> node_state" where
  "ValidateSyncCheckpoint hashCheckpoint st =
     (case (mapBlockIndex st (hashSyncCheckpoint st), mapBlockIndex st hashCheckpoint) of
        (Some sync, Some recv) \<Rightarrow>
          if bi_nHeight recv \<le> bi_nHeight sync
          then (case trace_back (bi_nHeight recv) (chain_of st (hashSyncCheckpoint st)) of
                  [] \<Rightarrow> (False, st)
                | p # _ \<Rightarrow> if bi_hash p \<noteq> hashCheckpoint then (False, st\<lparr>hashInvalidCheckpoint := hashCheckpoint\<rparr>) else (False, st))
          else (case trace_back (bi_nHeight sync) (chain_of st hashCheckpoint) of
                  [] \<Rightarrow> (False, st)
                | p # _ \<Rightarrow> if bi_hash p \<noteq> hashSyncCheckpoint st then (False, st\<lparr>hashInvalidCheckpoint := hashCheckpoint\<rparr>)
                           else (True, st))
      | _ \<Rightarrow> (False, st))"

definition WriteSyncCheckpoint :: "uint256 \<Rightarrow> node_state \<Rightarrow> node_state" where
  "WriteSyncCheckpoint hashCheckpoint st = st\<lparr>db_hashSyncCheckpoint := hashCheckpoint, hashSyncCheckpoint := hashCheckpoint\<rparr>"

definition AcceptPendingSyncCheckpoint :: "chain_env \<Rightarrow> node_state \<Rightarrow> bool \<times> node_state" where
  "AcceptPendingSyncCheckpoint C st =
     (let hp = hashPendingCheckpoint st in
      if hp \<noteq> 0 \<and> mapBlockIndex st hp \<noteq> None
      then (case ValidateSyncCheckpoint hp st of
              (False, st1) \<Rightarrow> (False, st1\<lparr>hashPendingCheckpoint := 0\<rparr>)
            | (True, st1) \<Rightarrow>
                let p = hd (chain_of st1 hp) in
                (case (if IsInMainChain st1 p then (None, st1)
                       else case ReadBlock C p of
                              None \<Rightarrow> (Some False, st1)
                            | Some block \<Rightarrow>
                                (case SetBestChain C block hp st1 of
                                   (False, st2) \<Rightarrow> (Some False, st2\<lparr>hashInvalidCheckpoint := hp\<rparr>)
                                 | (True, st2) \<Rightarrow> (None, st2))) of
                   (Some r, st2) \<Rightarrow> (r, st2)
                 | (None, st2) \<Rightarrow> (True, (WriteSyncCheckpoint hp st2)\<lparr>hashPendingCheckpoint := 0\<rparr>)))
      else (False, st))"

text \<open>The search for a suitable checkpoint, backwards from the best block.\<close>

fun auto_select :: "CBlockIndex \<Rightarrow> CBlockIndex list \<Rightarrow> uint256" where
  "auto_select best (p # q # r) =
     (if bi_GetBlockTime p + 60 * 60 > bi_GetBlockTime best \<or> bi_nHeight p + 8 > bi_nHeight best
      then auto_select best (q # r) else bi_hash p)"
| "auto_select best [p] = bi_hash p"
| "auto_select best [] = 0"

definition AutoSelectSyncCheckpoint :: "node_state \<Rightarrow> uint256" where
  "AutoSelectSyncCheckpoint st = auto_select (hd (best_chain st)) (best_chain st)"

definition IsMatureSyncCheckpoint :: "chain_env \<Rightarrow> node_state \<Rightarrow> bool option" where
  "IsMatureSyncCheckpoint C st =
     (case mapBlockIndex st (hashSyncCheckpoint st) of
        None \<Rightarrow> None
      | Some p \<Rightarrow> Some (nBestHeight st \<ge> bi_nHeight p + nCoinbaseMaturity \<or>
                        bi_GetBlockTime p + nStakeMinAge < adjusted_time (ce_env C)))"

section \<open>AcceptBlock\<close>

datatype accept_block_error = AB_known | AB_no_prev | AB_pow_height | AB_pos_height | AB_bits | AB_time | AB_non_final
  | AB_balance | AB_hardened | AB_stake stake_error | AB_no_end | AB_assertion | AB_sync | AB_coinbase_height
  | AB_disk | AB_index add_error

abbreviation (input) MODIFIER_INTERVAL_SWITCH :: int where "MODIFIER_INTERVAL_SWITCH \<equiv> 100"

text \<open>The contextual checks, in order. \<open>Inr\<close> is \<open>hashProofOfStake\<close>. \<open>AB_no_end\<close> stands for a kernel
  check that does not end.\<close>

definition accept_checks :: "chain_env \<Rightarrow> CBlock \<Rightarrow> node_state \<Rightarrow> accept_block_error + uint256" where
  "accept_checks C block st =
     (let L = ce_ssl C; E = st_env C st; hash = b_GetHash E block; prev = chain_of st (b_hashPrevBlock block);
          nHeight = i32 (bi_nHeight (hd prev) + 1)
      in if mapBlockIndex st hash \<noteq> None then Inl AB_known
         else if mapBlockIndex st (b_hashPrevBlock block) = None then Inl AB_no_prev
         else if b_IsProofOfWork block \<and> nHeight > LAST_POW_BLOCK then Inl AB_pow_height
         else if b_IsProofOfStake block \<and> nHeight < MODIFIER_INTERVAL_SWITCH then Inl AB_pos_height
         else if b_nBits block \<noteq> GetNextTargetRequired (bn L) (env_params E) prev (b_IsProofOfStake block) then Inl AB_bits
         else if b_GetBlockTime block \<le> GetMedianTimePast prev \<or>
                 b_GetBlockTime block + GetClockDrift (b_GetBlockTime block) < bi_GetBlockTime (hd prev) then Inl AB_time
         else if \<not> list_all (IsFinal (nBestHeight st) (adjusted_time E) nHeight (b_GetBlockTime block)) (vtx block) then Inl AB_non_final
         else if \<not> balance_check E (txdb st) nHeight block then Inl AB_balance
         else if \<not> CheckHardened (fTestNet C) nHeight hash then Inl AB_hardened
         else case (if b_IsProofOfStake block
                    then CheckProofOfStake L E (txdb st) (mapBlockIndex st) (nModifierInterval C) (now C) (vtx block ! 1) (b_nBits block)
                    else Some (Inr 0)) of
                None \<Rightarrow> Inl AB_no_end
              | Some (Inl e) \<Rightarrow> Inl (AB_stake e)
              | Some (Inr hashProofOfStake) \<Rightarrow>
                  (case CheckSync C hash (b_hashPrevBlock block) st of
                     None \<Rightarrow> Inl AB_assertion
                   | Some cpSatisfies \<Rightarrow>
                       if CheckpointsMode C = STRICT \<and> \<not> cpSatisfies then Inl AB_sync
                       else let expect = push_int64 (bn L) nHeight;
                                sig = scriptSig (vin (vtx block ! 0) ! 0)
                            in if length sig < length expect \<or> take (length expect) sig \<noteq> expect then Inl AB_coinbase_height
                               else Inr hashProofOfStake))"

text \<open>\<open>written\<close> is where the block was stored, \<open>None\<close> when the disk is full or the write failed.\<close>

definition AcceptBlock :: "chain_env \<Rightarrow> (u32 \<times> u32) option \<Rightarrow> CBlock \<Rightarrow> node_state \<Rightarrow> (accept_block_error + unit) \<times> node_state" where
  "AcceptBlock C written block st =
     (case accept_checks C block st of
        Inl e \<Rightarrow> (Inl e, st)
      | Inr hashProofOfStake \<Rightarrow>
          (case written of
             None \<Rightarrow> (Inl AB_disk, st)
           | Some (nFileW, nBlockPosW) \<Rightarrow>
               (case AddToBlockIndex C nFileW nBlockPosW hashProofOfStake block st of
                  (Inl e, st1) \<Rightarrow> (Inl (AB_index e), st1)
                | (Inr _, st1) \<Rightarrow> (Inr (), snd (AcceptPendingSyncCheckpoint C st1)))))"

end
