(* ===== verification/Chain_Inv.thy ===== *)
theory Chain_Inv
  imports Chain
begin

text \<open>
  Invariants of the block tree and the best chain. \<open>tree_ok\<close> is the shape of the block index,
  \<open>ledger_at\<close> says that the transaction index is the one obtained by connecting the blocks of a chain
  one after the other, \<open>flags_at\<close> that \<open>pnext\<close> marks exactly that chain. The properties: a successful
  reorganization leaves the index of the new chain and marks it, a failed one leaves the database
  and the best chain alone, and the best chain's trust never decreases.
\<close>

section \<open>Lists\<close>

lemma map_filter_append: "List.map_filter f (xs @ ys) = List.map_filter f xs @ List.map_filter f ys"
  by (simp add: map_filter_def)

lemma map_filter_rev: "List.map_filter f (rev xs) = rev (List.map_filter f xs)"
  by (simp add: map_filter_def rev_map rev_filter)

lemma map_filter_eq: "map f xs = map g ys \<Longrightarrow> List.map_filter f xs = List.map_filter g ys"
  by (induction xs ys rule: list_induct2') (auto split: option.split)

lemma map_filter_all: "map f xs = map Some ys \<Longrightarrow> List.map_filter f xs = ys"
  by (induction xs ys rule: list_induct2') auto

lemma find_SomeD: "find P xs = Some x \<Longrightarrow> x \<in> set xs \<and> P x"
  by (auto simp: find_Some_iff)

section \<open>The block tree\<close>

definition entry_ok :: "ssl_lib \<Rightarrow> block_map \<Rightarrow> (uint256 \<rightharpoonup> uint256) \<Rightarrow> uint256 \<Rightarrow> CBlockIndex \<Rightarrow> bool" where
  "entry_ok L idx prev h b \<longleftrightarrow> bi_hash b = h \<and> h \<noteq> 0 \<and> 0 \<le> bi_nHeight b \<and> bi_nFile b \<noteq> - 1 \<and>
     (case prev h of
        None \<Rightarrow> bi_nHeight b = 0 \<and> bi_nChainTrust b = GetBlockTrust (bn L) (bi_nBits b)
      | Some p \<Rightarrow> (\<exists>q. idx p = Some q \<and> bi_nHeight b = bi_nHeight q + 1 \<and>
                       bi_nChainTrust b = bi_nChainTrust q + GetBlockTrust (bn L) (bi_nBits b)))"

definition tree_ok :: "ssl_lib \<Rightarrow> block_map \<Rightarrow> (uint256 \<rightharpoonup> uint256) \<Rightarrow> bool" where
  "tree_ok L idx prev \<longleftrightarrow> (\<forall>h b. idx h = Some b \<longrightarrow> entry_ok L idx prev h b)"

abbreviation index_ok :: "chain_env \<Rightarrow> node_state \<Rightarrow> bool" where
  "index_ok C st \<equiv> tree_ok (ce_ssl C) (mapBlockIndex st) (pprev st)"

lemma tree_okD:
  assumes "tree_ok L idx prev" "idx h = Some b"
  shows "bi_hash b = h" "h \<noteq> 0" "0 \<le> bi_nHeight b" "bi_nFile b \<noteq> - 1" "prev h = None \<Longrightarrow> bi_nHeight b = 0"
    "prev h = Some p \<Longrightarrow> \<exists>q. idx p = Some q \<and> bi_nHeight b = bi_nHeight q + 1 \<and>
       bi_nChainTrust b = bi_nChainTrust q + GetBlockTrust (bn L) (bi_nBits b)"
  using assms unfolding tree_ok_def entry_ok_def by fastforce+

lemma tree_induct [consumes 1, case_names none root node]:
  assumes "tree_ok L idx prev"
    and "\<And>h. idx h = None \<Longrightarrow> P h"
    and "\<And>h b. idx h = Some b \<Longrightarrow> prev h = None \<Longrightarrow> P h"
    and "\<And>h b p q. idx h = Some b \<Longrightarrow> prev h = Some p \<Longrightarrow> idx p = Some q \<Longrightarrow> bi_nHeight b = bi_nHeight q + 1 \<Longrightarrow> P p \<Longrightarrow> P h"
  shows "P h"
proof (induction "case idx h of None \<Rightarrow> 0 | Some b \<Rightarrow> nat (bi_nHeight b)" arbitrary: h rule: less_induct)
  case less
  show ?case
  proof (cases "idx h")
    case (Some b)
    show ?thesis
    proof (cases "prev h")
      case (Some p)
      with tree_okD(6) [OF assms(1) \<open>idx h = Some b\<close>] obtain q where q: "idx p = Some q" "bi_nHeight b = bi_nHeight q + 1" by blast
      have "P p" by (rule less) (use q tree_okD(3) [OF assms(1) q(1)] \<open>idx h = Some b\<close> in simp)
      then show ?thesis using assms(4) \<open>idx h = Some b\<close> Some q by blast
    qed (use assms(3) Some in blast)
  qed (use assms(2) in blast)
qed

lemma chain_of_None [simp]: "mapBlockIndex st h = None \<Longrightarrow> chain_of st h = []"
  by (simp add: chain_of_def)

lemma chain_of_cong: "mapBlockIndex st' = mapBlockIndex st \<Longrightarrow> pprev st' = pprev st \<Longrightarrow> chain_of st' h = chain_of st h"
  unfolding chain_of_def by (simp only:)

lemma chain_of_upd [simp]:
  "chain_of (st\<lparr>wallet_log := log\<rparr>) = chain_of st" "chain_of (st\<lparr>mempool := P\<rparr>) = chain_of st"
  "chain_of (st\<lparr>txdb := db\<rparr>) = chain_of st"
  by (rule ext, rule chain_of_cong, simp, simp)+

lemma chain_of_Some:
  assumes "tree_ok L (mapBlockIndex st) (pprev st)" "mapBlockIndex st h = Some b"
  shows "chain_of st h = b # (case pprev st h of None \<Rightarrow> [] | Some p \<Rightarrow> chain_of st p)"
proof (cases "pprev st h")
  case (Some p)
  with tree_okD(6) [OF assms] obtain q where q: "mapBlockIndex st p = Some q" "bi_nHeight b = bi_nHeight q + 1" by blast
  then have "nat (bi_nHeight b) = Suc (nat (bi_nHeight q))" using tree_okD(3) [OF assms(1) q(1)] by simp
  then show ?thesis using assms(2) Some q by (simp add: chain_of_def)
qed (use assms in \<open>simp add: chain_of_def\<close>)

lemma chain_of_hd: "tree_ok L (mapBlockIndex st) (pprev st) \<Longrightarrow> mapBlockIndex st h = Some b \<Longrightarrow> hd (chain_of st h) = b"
  by (simp add: chain_of_Some)

lemma chain_of_mem:
  assumes "tree_ok L (mapBlockIndex st) (pprev st)" "x \<in> set (chain_of st h)"
  shows "mapBlockIndex st (bi_hash x) = Some x"
  using assms
proof (induction h rule: tree_induct)
  case (root h b)
  then show ?case using tree_okD(1) [OF assms(1)] by (auto simp: chain_of_Some [OF assms(1)])
next
  case (node h b p q)
  then show ?case using tree_okD(1) [OF assms(1)] by (auto simp: chain_of_Some [OF assms(1) node(1)])
qed simp

lemma chain_of_suffix:
  assumes "tree_ok L (mapBlockIndex st) (pprev st)" "chain_of st h = xs @ x # ys"
  shows "chain_of st (bi_hash x) = x # ys"
  using assms
proof (induction h arbitrary: xs rule: tree_induct)
  case (root h b)
  then show ?case using tree_okD(1) [OF assms(1)] by (auto simp: chain_of_Some [OF assms(1)] Cons_eq_append_conv)
next
  case (node h b p q)
  show ?case
  proof (cases xs)
    case Nil
    then have "x = b" using node(6) by (simp add: chain_of_Some [OF assms(1) node(1)])
    then show ?thesis using Nil node(6) tree_okD(1) [OF assms(1) node(1)] by simp
  next
    case (Cons y zs)
    then show ?thesis using node(2,5,6) by (simp add: chain_of_Some [OF assms(1) node(1)])
  qed
qed simp

lemma chain_of_heights:
  assumes "tree_ok L (mapBlockIndex st) (pprev st)"
  shows "sorted_wrt (\<lambda>x y. bi_nHeight x > bi_nHeight y) (chain_of st h)"
  using assms
proof (induction h rule: tree_induct)
  case (node h b p q)
  have c: "chain_of st p = q # (case pprev st p of None \<Rightarrow> [] | Some p \<Rightarrow> chain_of st p)" by (rule chain_of_Some [OF assms node(3)])
  have "bi_nHeight y < bi_nHeight b" if "y \<in> set (chain_of st p)" for y
    using that node(4,5) unfolding c by auto
  then show ?case using node(2,5) by (simp add: chain_of_Some [OF assms node(1)])
qed (simp_all add: chain_of_Some [OF assms])

lemma decreasing_distinct: "sorted_wrt (\<lambda>x y. f x > (f y :: int)) xs \<Longrightarrow> distinct xs"
  by (induction xs) auto

lemma chain_of_distinct:
  assumes "tree_ok L (mapBlockIndex st) (pprev st)"
  shows "distinct (map bi_hash (chain_of st h))"
  using decreasing_distinct [OF chain_of_heights [OF assms]] chain_of_mem [OF assms]
  by (simp add: distinct_map inj_on_def) (metis option.inject)

lemma chain_of_tl:
  assumes "tree_ok L (mapBlockIndex st) (pprev st)" "chain_of st h = xs @ x # y # ys"
  shows "pprev st (bi_hash x) = Some (bi_hash y)"
proof -
  have c: "chain_of st (bi_hash x) = x # y # ys" by (rule chain_of_suffix [OF assms])
  have m: "mapBlockIndex st (bi_hash x) = Some x" using chain_of_mem [OF assms(1), of x h] assms(2) by simp
  then obtain p where p: "pprev st (bi_hash x) = Some p" "chain_of st p = y # ys"
    using c chain_of_Some [OF assms(1) m] by (auto split: option.splits)
  then have "mapBlockIndex st p \<noteq> None" by (metis chain_of_None list.distinct(1))
  then have "p = bi_hash y" using p(2) tree_okD(1) [OF assms(1)] chain_of_hd [OF assms(1)] by fastforce
  then show ?thesis using p(1) by simp
qed

subsection \<open>What reorganizing leaves alone\<close>

text \<open>Reorganizing changes the \<open>pnext\<close> pointer and the money fields of an entry, nothing else.\<close>

definition core_of :: "CBlockIndex \<Rightarrow> CBlockIndex" where
  "core_of b = b\<lparr>bi_hashNext := 0, bi_nMint := 0, bi_nMoneySupply := 0\<rparr>"

lemma core_of_upd [simp]:
  "core_of (b\<lparr>bi_hashNext := x\<rparr>) = core_of b" "core_of (b\<lparr>bi_nMint := y, bi_nMoneySupply := z\<rparr>) = core_of b"
  by (simp_all add: core_of_def)

lemma core_of_eqD:
  assumes "core_of a = core_of b"
  shows "bi_hash a = bi_hash b" "bi_nHeight a = bi_nHeight b" "bi_nFile a = bi_nFile b" "bi_nBlockPos a = bi_nBlockPos b"
    "bi_nChainTrust a = bi_nChainTrust b" "bi_nBits a = bi_nBits b"
proof -
  have e: "f (core_of a) = f (core_of b)" for f :: "CBlockIndex \<Rightarrow> 'a" by (simp add: assms)
  show "bi_hash a = bi_hash b" using e [of bi_hash] by (simp add: core_of_def)
  show "bi_nHeight a = bi_nHeight b" using e [of bi_nHeight] by (simp add: core_of_def)
  show "bi_nFile a = bi_nFile b" using e [of bi_nFile] by (simp add: core_of_def)
  show "bi_nBlockPos a = bi_nBlockPos b" using e [of bi_nBlockPos] by (simp add: core_of_def)
  show "bi_nChainTrust a = bi_nChainTrust b" using e [of bi_nChainTrust] by (simp add: core_of_def)
  show "bi_nBits a = bi_nBits b" using e [of bi_nBits] by (simp add: core_of_def)
qed

definition same_core :: "block_map \<Rightarrow> block_map \<Rightarrow> bool" where
  "same_core idx idx' \<longleftrightarrow> map_option core_of \<circ> idx' = map_option core_of \<circ> idx"

lemma same_core_refl [simp]: "same_core idx idx" by (simp add: same_core_def)

lemma same_core_trans [trans]: "same_core a b \<Longrightarrow> same_core b c \<Longrightarrow> same_core a c" by (simp add: same_core_def)

lemma same_coreD: "same_core idx idx' \<Longrightarrow> map_option core_of (idx' h) = map_option core_of (idx h)"
  by (simp add: same_core_def fun_eq_iff)

lemma same_core_Some:
  assumes "same_core idx idx'" "idx' h = Some b'"
  obtains b where "idx h = Some b" "core_of b' = core_of b"
  using same_coreD [OF assms(1), of h] assms(2) by (cases "idx h") auto

lemma same_core_Some':
  assumes "same_core idx idx'" "idx h = Some b"
  obtains b' where "idx' h = Some b'" "core_of b' = core_of b"
  using same_coreD [OF assms(1), of h] assms(2) by (cases "idx' h") auto

lemma same_core_upd: "idx h = Some b \<Longrightarrow> core_of b' = core_of b \<Longrightarrow> same_core idx (idx(h \<mapsto> b'))"
  by (auto simp: same_core_def fun_eq_iff)

lemma tree_ok_core:
  assumes "tree_ok L idx prev" "same_core idx idx'"
  shows "tree_ok L idx' prev"
  unfolding tree_ok_def
proof (intro allI impI)
  fix h b'
  assume "idx' h = Some b'"
  then obtain b where b: "idx h = Some b" "core_of b' = core_of b" by (rule same_core_Some [OF assms(2)])
  note c = core_of_eqD [OF b(2)]
  have e: "entry_ok L idx prev h b" using assms(1) b(1) by (simp add: tree_ok_def)
  show "entry_ok L idx' prev h b'"
  proof (cases "prev h")
    case (Some p)
    with e obtain q where q: "idx p = Some q" "bi_nHeight b = bi_nHeight q + 1"
      "bi_nChainTrust b = bi_nChainTrust q + GetBlockTrust (bn L) (bi_nBits b)" by (auto simp: entry_ok_def)
    obtain q' where "idx' p = Some q'" "core_of q' = core_of q" by (rule same_core_Some' [OF assms(2) q(1)])
    then show ?thesis using e Some q c core_of_eqD [of q' q] by (simp add: entry_ok_def)
  qed (use e c in \<open>simp add: entry_ok_def\<close>)
qed

lemma walk_core: "same_core idx idx' \<Longrightarrow> map core_of (walk n idx' prev h) = map core_of (walk n idx prev h)"
proof (induction n arbitrary: h)
  case (Suc n)
  then show ?case using same_coreD [OF Suc.prems, of h]
    by (cases "idx h"; cases "idx' h") (auto split: option.splits)
qed simp

lemma chain_of_core:
  assumes "same_core (mapBlockIndex st) (mapBlockIndex st')" "pprev st' = pprev st"
  shows "map core_of (chain_of st' h) = map core_of (chain_of st h)"
proof (cases "mapBlockIndex st h")
  case None
  then show ?thesis using same_coreD [OF assms(1), of h] by simp
next
  case (Some b)
  obtain b' where "mapBlockIndex st' h = Some b'" "core_of b' = core_of b" by (rule same_core_Some' [OF assms(1) Some])
  then show ?thesis using Some walk_core [OF assms(1)] core_of_eqD(2) [of b' b] by (simp only: chain_of_def assms(2) option.case)
qed

lemma map_core:
  assumes "map core_of xs = map core_of ys" "\<And>a b. core_of a = core_of b \<Longrightarrow> f a = f b"
  shows "map f xs = map f ys"
  using assms(1) by (induction xs ys rule: list_induct2') (auto dest: assms(2))

lemma ReadBlock_core: "core_of a = core_of b \<Longrightarrow> ReadBlock C a = ReadBlock C b"
  by (frule core_of_eqD(1), frule core_of_eqD(3), drule core_of_eqD(4)) (simp add: ReadBlock_def split: option.split)

section \<open>The transaction index of a chain\<close>

text \<open>
  \<open>replay C bs m\<close>: connecting the blocks \<open>bs\<close> (newest first) to an empty transaction index gives
  \<open>m\<close>, each block accepted by \<open>ConnectBlock\<close> and its transactions new to the index. Genesis itself is
  never connected.
\<close>

inductive replay :: "chain_env \<Rightarrow> CBlock list \<Rightarrow> txmap \<Rightarrow> bool" for C where
  genesis: "replay C [] (\<lambda>_. None)"
| block: "replay C bs (db_tx db) \<Longrightarrow> ReadBlock C (hd (chain_of st h)) = Some b \<Longrightarrow> bi_nFile (hd (chain_of st h)) \<noteq> - 1 \<Longrightarrow>
    list_all (\<lambda>tx. db_tx db (GetHash (ce_ssl C) tx) = None) (vtx b) \<Longrightarrow>
    ConnectBlock (ce_ssl C) (st_env C st) db (chain_of st h) False b = Inr (pi, db', ev) \<Longrightarrow> replay C (b # bs) (db_tx db')"

inductive_cases replay_ConsE: "replay C (b # bs) m"

definition txids :: "chain_env \<Rightarrow> CBlock \<Rightarrow> uint256 list" where
  "txids C b = map (GetHash (ce_ssl C)) (vtx b)"

lemma replay_index:
  assumes "replay C bs m"
  shows "nulls_exact m" "dom m = set (concat (map (txids C) bs))" "distinct (concat (map (txids C) bs))"
proof -
  have "nulls_exact m \<and> dom m = set (concat (map (txids C) bs)) \<and> distinct (concat (map (txids C) bs))"
    using assms
  proof induction
    case genesis
    then show ?case by (simp add: nulls_exact_def)
  next
    case (block bs db st h b pi db' ev)
    note I = ConnectBlock_index [OF block(5,3)]
    have "CheckBlock (ce_ssl C) (st_env C st) True True False b = None" using ConnectBlock_cases [OF block(5)] by metis
    then have d: "distinct (txids C b)" unfolding txids_def by (rule CheckBlock_distinct)
    have "db_tx db t = None" if "t \<in> set (txids C b)" for t
      using block(4) that by (auto simp: list_all_iff txids_def)
    then have "set (txids C b) \<inter> dom (db_tx db) = {}" by auto
    then show ?case using I block.IH d by (auto simp: txids_def)
  qed
  then show "nulls_exact m" "dom m = set (concat (map (txids C) bs))" "distinct (concat (map (txids C) bs))" by blast+
qed

text \<open>Disconnecting the newest block of a chain gives back the index of the rest, in any environment.\<close>

lemma replay_disconnect:
  assumes "replay C (b # bs) (db_tx db)"
  shows "\<exists>db' ev. DisconnectBlock (ce_ssl C) E db pindex b = (True, db', ev) \<and> replay C bs (db_tx db')"
proof -
  from assms obtain db0 st h pi db1 ev where r: "replay C bs (db_tx db0)" and f: "bi_nFile (hd (chain_of st h)) \<noteq> - 1"
    and n: "list_all (\<lambda>tx. db_tx db0 (GetHash (ce_ssl C) tx) = None) (vtx b)"
    and c: "ConnectBlock (ce_ssl C) (st_env C st) db0 (chain_of st h) False b = Inr (pi, db1, ev)" and e: "db_tx db = db_tx db1"
    by (elim replay_ConsE) metis
  from DisconnectBlock_undoes [OF c f replay_index(1) [OF r] n e]
  obtain db' ev' where "DisconnectBlock (ce_ssl C) E db pindex b = (True, db', ev')" "db_tx db' = db_tx db0" by blast
  then show ?thesis using r by auto
qed

definition reads :: "chain_env \<Rightarrow> node_state \<Rightarrow> uint256 \<Rightarrow> CBlock option" where
  "reads C st h = ReadBlock C (hd (chain_of st h))"

lemma disconnect_branch_replay:
  assumes "map (reads C st) hs = map Some ds" "replay C (ds @ bs) (db_tx db)"
  shows "\<exists>db' log. disconnect_branch C hs st db vR =
      (Inr (db', vR @ filter (\<lambda>tx. \<not> (IsCoinBase tx \<or> IsCoinStake tx)) (concat (map vtx ds))), st\<lparr>wallet_log := log\<rparr>) \<and> replay C bs (db_tx db')"
  using assms
proof (induction hs arbitrary: st ds db vR)
  case Nil
  then show ?case by (auto intro!: exI [of _ "wallet_log st"])
next
  case (Cons h hs)
  then obtain d ds' where ds: "ds = d # ds'" "reads C st h = Some d" "map (reads C st) hs = map Some ds'" by (auto simp: Cons_eq_map_conv)
  from Cons.prems(2) replay_disconnect [of C d "ds' @ bs" db] obtain db1 ev where
    d: "DisconnectBlock (ce_ssl C) (st_env C st) db (chain_of st h) d = (True, db1, ev)" and r: "replay C (ds' @ bs) (db_tx db1)"
    unfolding ds(1) by (metis append_Cons)
  let ?st = "st\<lparr>wallet_log := wallet_log st @ ev\<rparr>"
  have "reads C ?st = reads C st" by (simp add: fun_eq_iff reads_def)
  then have "map (reads C ?st) hs = map Some ds'" using ds(3) by simp
  from Cons.IH [OF this r, of "vR @ filter (\<lambda>tx. \<not> (IsCoinBase tx \<or> IsCoinStake tx)) (vtx d)"] obtain db' log where
    "disconnect_branch C hs ?st db1 (vR @ filter (\<lambda>tx. \<not> (IsCoinBase tx \<or> IsCoinStake tx)) (vtx d)) =
      (Inr (db', vR @ filter (\<lambda>tx. \<not> (IsCoinBase tx \<or> IsCoinStake tx)) (concat (map vtx ds))), st\<lparr>wallet_log := log\<rparr>)"
    "replay C bs (db_tx db')" by (auto simp: ds(1))
  then show ?case using d ds(2) by (auto simp: reads_def Let_def)
qed

definition nexts :: "block_map \<Rightarrow> uint256 \<rightharpoonup> uint256" where
  "nexts idx h = map_option bi_hashNext (idx h)"

text \<open>Connecting touches the money fields of the index and the wallets.\<close>

lemma connect_branch_state:
  assumes "index_ok C st" "\<forall>h \<in> set hs. mapBlockIndex st h \<noteq> None"
  shows "\<exists>idx log. snd (connect_branch C hs st db vD) = st\<lparr>mapBlockIndex := idx, wallet_log := log\<rparr> \<and>
    same_core (mapBlockIndex st) idx \<and> nexts idx = nexts (mapBlockIndex st)"
  using assms
proof (induction hs arbitrary: st db vD)
  case Nil
  then show ?case by (auto intro!: exI [of _ "mapBlockIndex st"] exI [of _ "wallet_log st"])
next
  case (Cons h hs)
  show ?case
  proof (cases "\<exists>b pi db1 ev. reads C st h = Some b \<and> ConnectBlock (ce_ssl C) (st_env C st) db (chain_of st h) False b = Inr (pi, db1, ev)")
    case True
    then obtain b pi db1 ev where b: "reads C st h = Some b" "ConnectBlock (ce_ssl C) (st_env C st) db (chain_of st h) False b = Inr (pi, db1, ev)" by blast
    let ?st = "st\<lparr>mapBlockIndex := (mapBlockIndex st)(h \<mapsto> pi), wallet_log := wallet_log st @ ev\<rparr>"
    obtain e where e: "mapBlockIndex st h = Some e" using Cons.prems(2) by auto
    have pi: "core_of pi = core_of e" "bi_hashNext pi = bi_hashNext e"
      using ConnectBlock_entry [OF b(2)] chain_of_hd [OF Cons.prems(1) e] by auto
    have n: "nexts (mapBlockIndex ?st) = nexts (mapBlockIndex st)" using e pi(2) by (auto simp: nexts_def)
    from pi have c: "same_core (mapBlockIndex st) (mapBlockIndex ?st)" using e by (simp add: same_core_upd)
    then have "index_ok C ?st" using tree_ok_core [OF Cons.prems(1)] by simp
    moreover have "\<forall>h \<in> set hs. mapBlockIndex ?st h \<noteq> None" using Cons.prems(2) by simp
    ultimately obtain idx log where "snd (connect_branch C hs ?st db1 (vD @ vtx b)) = ?st\<lparr>mapBlockIndex := idx, wallet_log := log\<rparr>"
      "same_core (mapBlockIndex ?st) idx" "nexts idx = nexts (mapBlockIndex ?st)" using Cons.IH by blast
    then show ?thesis using same_core_trans [OF c] b n by (auto simp: reads_def Let_def)
  next
    case False
    then have "snd (connect_branch C (h # hs) st db vD) = st"
      by (auto simp: reads_def Let_def split: option.splits sum.splits prod.splits)
    then show ?thesis by (auto intro!: exI [of _ "mapBlockIndex st"] exI [of _ "wallet_log st"])
  qed
qed

lemma reads_core:
  assumes "same_core (mapBlockIndex st) (mapBlockIndex st')" "pprev st' = pprev st" "mapBlockIndex st h \<noteq> None" "index_ok C st"
  shows "reads C st' h = reads C st h"
proof -
  obtain b where b: "mapBlockIndex st h = Some b" using assms(3) by auto
  obtain b' where b': "mapBlockIndex st' h = Some b'" "core_of b' = core_of b" by (rule same_core_Some' [OF assms(1) b])
  have "index_ok C st'" using tree_ok_core [OF assms(4,1)] assms(2) by simp
  then show ?thesis using b' chain_of_hd [OF assms(4) b] chain_of_hd [of _ st' h b'] ReadBlock_core [OF b'(2)] by (simp add: reads_def)
qed

lemma connect_branch_replay:
  assumes "connect_branch C hs st db vD = (Inr (db', vD'), st')" "index_ok C st" "\<forall>h \<in> set hs. mapBlockIndex st h \<noteq> None"
    and "replay C bs (db_tx db)" "distinct (concat (map (txids C) (rev (List.map_filter (reads C st) hs) @ bs)))"
  shows "\<exists>ds. map (reads C st) hs = map Some ds \<and> replay C (rev ds @ bs) (db_tx db') \<and> vD' = vD @ concat (map vtx ds)"
  using assms
proof (induction hs arbitrary: st db vD bs)
  case Nil
  then show ?case by simp
next
  case (Cons h hs)
  from Cons.prems(1) obtain b pi db1 ev where b: "reads C st h = Some b"
    and cb: "ConnectBlock (ce_ssl C) (st_env C st) db (chain_of st h) False b = Inr (pi, db1, ev)"
    and r: "connect_branch C hs (st\<lparr>mapBlockIndex := (mapBlockIndex st)(h \<mapsto> pi), wallet_log := wallet_log st @ ev\<rparr>) db1 (vD @ vtx b) = (Inr (db', vD'), st')"
    by (auto simp: reads_def Let_def split: option.splits sum.splits prod.splits)
  let ?st = "st\<lparr>mapBlockIndex := (mapBlockIndex st)(h \<mapsto> pi), wallet_log := wallet_log st @ ev\<rparr>"
  obtain e where e: "mapBlockIndex st h = Some e" using Cons.prems(3) by auto
  have hd: "hd (chain_of st h) = e" by (rule chain_of_hd [OF Cons.prems(2) e])
  have "core_of pi = core_of e" using ConnectBlock_entry [OF cb] hd by auto
  then have c: "same_core (mapBlockIndex st) (mapBlockIndex ?st)" using e by (simp add: same_core_upd)
  then have ok: "index_ok C ?st" using tree_ok_core [OF Cons.prems(2)] by simp
  have m: "\<forall>h \<in> set hs. mapBlockIndex ?st h \<noteq> None" using Cons.prems(3) by simp
  have rd: "map (reads C ?st) hs = map (reads C st) hs" "List.map_filter (reads C ?st) hs = List.map_filter (reads C st) hs"
    using reads_core [OF c _ _ Cons.prems(2)] Cons.prems(3) by (simp_all add: map_filter_def cong: filter_cong map_cong)
  have "set (txids C b) \<inter> set (concat (map (txids C) bs)) = {}" using Cons.prems(5) b by (auto simp: map_filter_simps)
  then have n: "list_all (\<lambda>tx. db_tx db (GetHash (ce_ssl C) tx) = None) (vtx b)"
    using replay_index(2) [OF Cons.prems(4)] by (fastforce simp: list_all_iff txids_def)
  have rp: "replay C (b # bs) (db_tx db1)"
    by (rule replay.block [OF Cons.prems(4) _ _ n cb]) (use b hd tree_okD(4) [OF Cons.prems(2) e] in \<open>simp_all add: reads_def\<close>)
  have d: "distinct (concat (map (txids C) (rev (List.map_filter (reads C ?st) hs) @ b # bs)))"
    using Cons.prems(5) b by (simp add: rd(2) map_filter_simps)
  from Cons.IH [OF r ok m rp d] obtain ds where "map (reads C st) hs = map Some ds" "replay C (rev ds @ b # bs) (db_tx db')"
    "vD' = (vD @ vtx b) @ concat (map vtx ds)" unfolding rd(1) by blast
  then show ?case using b by (intro exI [of _ "b # ds"]) simp
qed

section \<open>The fork\<close>

lemma find_fork_find:
  assumes "sorted_wrt (\<lambda>x y. bi_nHeight x > bi_nHeight y) A" "sorted_wrt (\<lambda>x y. bi_nHeight x > bi_nHeight y) B"
    and "\<And>a b. a \<in> set A \<Longrightarrow> b \<in> set B \<Longrightarrow> bi_hash a = bi_hash b \<Longrightarrow> bi_nHeight a = bi_nHeight b"
  shows "find_fork A B = find (\<lambda>h. h \<in> set (map bi_hash B)) (map bi_hash A)"
  using assms
proof (induction A arbitrary: B)
  case (Cons a A)
  let ?D = "takeWhile (\<lambda>p. bi_nHeight p > bi_nHeight a) B"
  let ?R = "dropWhile (\<lambda>p. bi_nHeight p > bi_nHeight a) B"
  have B: "set B = set ?D \<union> set ?R" by (metis set_append takeWhile_dropWhile_id)
  have low: "bi_hash x \<noteq> bi_hash d" if "x \<in> set (a # A)" "d \<in> set ?D" for x d
  proof -
    have "bi_nHeight x \<le> bi_nHeight a" "bi_nHeight d > bi_nHeight a" "d \<in> set B"
      using that Cons.prems(1) by (auto dest: set_takeWhileD)
    then show ?thesis using Cons.prems(3) [OF that(1), of d] by auto
  qed
  show ?case
  proof (cases ?R)
    case Nil
    have "set (map bi_hash (a # A)) \<inter> set (map bi_hash B) = {}" using low B Nil by auto
    then have "find (\<lambda>h. h \<in> set (map bi_hash B)) (map bi_hash (a # A)) = None" unfolding find_None_iff by blast
    then show ?thesis unfolding find_fork.simps Nil by (simp only: list.case)
  next
    case (Cons p ps)
    have s: "sorted_wrt (\<lambda>x y. bi_nHeight x > bi_nHeight y) (p # ps)"
      using sorted_wrt_drop [OF Cons.prems(2), of "length ?D"] Cons by (metis dropWhile_eq_drop)
    have pa: "bi_nHeight p \<le> bi_nHeight a" using hd_dropWhile [of "\<lambda>p. bi_nHeight p > bi_nHeight a" B] Cons by simp
    have mem: "x \<in> set B" if "x \<in> set (p # ps)" for x using that B Cons by auto
    show ?thesis
    proof (cases "bi_hash p = bi_hash a")
      case True
      then show ?thesis using Cons mem by (force simp: image_iff)
    next
      case False
      have na: "bi_hash a \<notin> set (map bi_hash B)"
      proof
        assume "bi_hash a \<in> set (map bi_hash B)"
        then obtain b where b: "b \<in> set B" "bi_hash b = bi_hash a" by auto
        then have "b \<in> set ps" using low [of a b] B Cons False by auto
        moreover have "bi_nHeight a = bi_nHeight b" using Cons.prems(3) [of a b] b by simp
        ultimately show False using s pa by auto
      qed
      have "find_fork A (p # ps) = find (\<lambda>h. h \<in> set (map bi_hash (p # ps))) (map bi_hash A)"
        by (rule Cons.IH) (use Cons.prems(1,3) s mem in auto)
      also have "\<dots> = find (\<lambda>h. h \<in> set (map bi_hash B)) (map bi_hash A)"
      proof (rule find_cong [OF refl])
        fix h assume "h \<in> set (map bi_hash A)"
        then show "(h \<in> set (map bi_hash (p # ps))) = (h \<in> set (map bi_hash B))" using low B Cons by fastforce
      qed
      finally show ?thesis using na Cons False by simp
    qed
  qed
qed simp

lemma chain_fork:
  assumes "index_ok C st"
  shows "find_fork (chain_of st a) (chain_of st b) = find (\<lambda>h. h \<in> set (map bi_hash (chain_of st b))) (map bi_hash (chain_of st a))"
proof (rule find_fork_find)
  fix x y
  assume "x \<in> set (chain_of st a)" "y \<in> set (chain_of st b)" "bi_hash x = bi_hash y"
  then show "bi_nHeight x = bi_nHeight y" using chain_of_mem [OF assms] by (metis option.inject)
qed (rule chain_of_heights [OF assms])+

lemma chain_split:
  assumes "index_ok C st" "f \<in> set (map bi_hash (chain_of st h))"
  obtains xs where "chain_of st h = xs @ chain_of st f" "takeWhile (\<lambda>x. x \<noteq> f) (map bi_hash (chain_of st h)) = map bi_hash xs"
    "chain_of st f \<noteq> []" "mapBlockIndex st f \<noteq> None"
proof -
  from assms(2) obtain ys y zs where s: "map bi_hash (chain_of st h) = ys @ f # zs" "f \<notin> set ys" by (metis split_list_first)
  then obtain xs a vs where x: "chain_of st h = xs @ a # vs" "map bi_hash xs = ys" "bi_hash a = f" by (auto simp: map_eq_append_conv)
  have c: "chain_of st f = a # vs" using chain_of_suffix [OF assms(1) x(1)] x(3) by simp
  have "takeWhile (\<lambda>x. x \<noteq> f) (map bi_hash (chain_of st h)) = map bi_hash xs"
    unfolding s(1) x(2) using s(2) by (subst takeWhile_append2) auto
  moreover have "mapBlockIndex st f \<noteq> None" using c by (metis chain_of_None list.distinct(1))
  ultimately show ?thesis using that x(1) c by simp
qed

lemma find_fork_common:
  assumes "index_ok C st" "find_fork (chain_of st a) (chain_of st b) = Some f"
  shows "f \<in> set (map bi_hash (chain_of st a))" "f \<in> set (map bi_hash (chain_of st b))"
  using find_SomeD [OF assms(2) [unfolded chain_fork [OF assms(1)]]] by simp_all

section \<open>The marks of the main chain\<close>

text \<open>\<open>next_of hs h\<close> is what \<open>pnext\<close> of block \<open>h\<close> should be when the main chain is \<open>hs\<close>, newest first.\<close>

fun next_of :: "uint256 list \<Rightarrow> uint256 \<Rightarrow> uint256" where
  "next_of (x # y # r) h = (if h = y then x else next_of (y # r) h)"
| "next_of _ h = 0"

definition flags :: "block_map \<Rightarrow> uint256 list \<Rightarrow> bool" where
  "flags idx hs \<longleftrightarrow> (\<forall>h n. nexts idx h = Some n \<longrightarrow> n = next_of hs h)"

abbreviation flags_at :: "node_state \<Rightarrow> uint256 \<Rightarrow> bool" where
  "flags_at st t \<equiv> flags (mapBlockIndex st) (map bi_hash (chain_of st t))"

lemma next_of_notin: "h \<notin> set (tl hs) \<Longrightarrow> next_of hs h = 0"
  by (induction hs h rule: next_of.induct) auto

lemma next_of_nz: "0 \<notin> set hs \<Longrightarrow> next_of hs h \<noteq> 0 \<longleftrightarrow> h \<in> set (tl hs)"
  by (induction hs h rule: next_of.induct) auto

lemma nexts_set_pnext:
  "nexts (set_pnext prev n x idx) h = (if prev x = Some h \<and> nexts idx h \<noteq> None then Some n else nexts idx h)"
  by (auto simp: nexts_def set_pnext_def split: option.split)

lemma flags_down:
  assumes "flags idx (x # y # r)" "prev x = Some y" "y \<notin> set r"
  shows "flags (set_pnext prev 0 x idx) (y # r)"
  unfolding flags_def
proof (intro allI impI)
  fix h n
  assume n: "nexts (set_pnext prev 0 x idx) h = Some n"
  show "n = next_of (y # r) h"
  proof (cases "h = y")
    case True
    then have "n = 0" using n assms(2) by (auto simp: nexts_set_pnext split: if_splits)
    then show ?thesis using assms(3) True by (simp add: next_of_notin)
  next
    case False
    then have "nexts idx h = Some n" using n assms(2) by (simp add: nexts_set_pnext)
    then have "n = next_of (x # y # r) h" using assms(1) unfolding flags_def by blast
    then show ?thesis using False by simp
  qed
qed

lemma flags_up: "flags idx (y # r) \<Longrightarrow> prev x = Some y \<Longrightarrow> flags (set_pnext prev x x idx) (x # y # r)"
  by (auto simp: flags_def nexts_set_pnext)

lemma flags_disconnect:
  assumes "flags idx (xs @ f # r)" "successively (\<lambda>x y. prev x = Some y) (xs @ f # r)" "distinct (xs @ f # r)"
  shows "flags (fold (set_pnext prev 0) xs idx) (f # r)"
  using assms
proof (induction xs arbitrary: idx)
  case (Cons x xs)
  obtain y ys where y: "xs @ f # r = y # ys" by (cases "xs @ f # r") auto
  then have "flags (set_pnext prev 0 x idx) (xs @ f # r)" using Cons.prems flags_down [of idx x y ys prev] by auto
  then show ?case using Cons.IH Cons.prems(2,3) y by simp
qed simp

lemma flags_connect:
  assumes "flags idx (f # r)" "successively (\<lambda>x y. prev x = Some y) (us @ f # r)"
  shows "flags (fold (\<lambda>h. set_pnext prev h h) (rev us) idx) (us @ f # r)"
  using assms(2)
proof (induction us)
  case (Cons u us)
  obtain y ys where y: "us @ f # r = y # ys" by (cases "us @ f # r") auto
  then show ?case using Cons flags_up [of _ y ys prev u] by simp
qed (use assms(1) in simp)

lemma chain_of_successively:
  assumes "tree_ok L (mapBlockIndex st) (pprev st)"
  shows "successively (\<lambda>x y. pprev st x = Some y) (map bi_hash (chain_of st h))"
  using assms
proof (induction h rule: tree_induct)
  case (node h b p q)
  then show ?case using tree_okD(1) [OF assms]
    by (simp add: chain_of_Some [OF assms node(1)] chain_of_Some [OF assms node(3)])
qed (simp_all add: chain_of_Some [OF assms])

section \<open>Reorganizing keeps the ledger\<close>

definition ledger_at :: "chain_env \<Rightarrow> node_state \<Rightarrow> uint256 \<Rightarrow> bool" where
  "ledger_at C st h \<longleftrightarrow> (\<exists>bs. map (ReadBlock C) (butlast (chain_of st h)) = map Some bs \<and> replay C bs (db_tx (txdb st)))"

text \<open>No transaction identifier occurs twice in the blocks of the chain after genesis.\<close>

definition chain_txids :: "chain_env \<Rightarrow> node_state \<Rightarrow> uint256 \<Rightarrow> uint256 list" where
  "chain_txids C st h = concat (map (txids C) (List.map_filter (ReadBlock C) (butlast (chain_of st h))))"

definition no_repeats :: "chain_env \<Rightarrow> node_state \<Rightarrow> uint256 \<Rightarrow> bool" where
  "no_repeats C st h \<longleftrightarrow> distinct (chain_txids C st h)"

lemma reads_mem: "index_ok C st \<Longrightarrow> set xs \<subseteq> set (chain_of st h) \<Longrightarrow> map (reads C st) (map bi_hash xs) = map (ReadBlock C) xs"
  using chain_of_mem chain_of_hd by (fastforce simp: reads_def)

lemma butlast_core:
  assumes "same_core (mapBlockIndex st) (mapBlockIndex st')" "pprev st' = pprev st"
  shows "map (ReadBlock C) (butlast (chain_of st' h)) = map (ReadBlock C) (butlast (chain_of st h))"
  using map_core [OF chain_of_core [OF assms] ReadBlock_core] by (simp add: map_butlast)

lemma set_pnext_core: "same_core idx (set_pnext prev n h idx)"
  by (auto simp: set_pnext_def intro!: same_core_upd split: option.split)

lemma fold_set_pnext_core: "same_core idx (fold (\<lambda>h. set_pnext prev (g h) h) hs idx)"
  by (induction hs arbitrary: idx) (auto intro: same_core_trans set_pnext_core)

text \<open>The globals that only \<open>SetBestChain\<close> itself assigns.\<close>

definition moved :: "node_state \<Rightarrow> node_state \<Rightarrow> bool" where
  "moved st st' \<longleftrightarrow> same_core (mapBlockIndex st) (mapBlockIndex st') \<and> pprev st' = pprev st \<and> pindexBest st' = pindexBest st \<and>
     hashBestChain st' = hashBestChain st \<and> nBestChainTrust st' = nBestChainTrust st \<and> nBestHeight st' = nBestHeight st \<and>
     pindexGenesisBlock st' = pindexGenesisBlock st"

lemma moved_trans: "moved a b \<Longrightarrow> moved b c \<Longrightarrow> moved a c"
  unfolding moved_def using same_core_trans by metis

text \<open>Both phases of a reorganization through, with the state that is then committed.\<close>

lemma reorg_commit:
  assumes ok: "index_ok C st" "ledger_at C st t" "flags_at st t" "no_repeats C st hNew"
    and f: "find_fork (chain_of st t) (chain_of st hNew) = Some f"
    and d: "disconnect_branch C (takeWhile (\<lambda>h. h \<noteq> f) (map bi_hash (chain_of st t))) st (txdb st) [] = (Inr (db1, vR), st1)"
    and c: "connect_branch C (rev (takeWhile (\<lambda>h. h \<noteq> f) (map bi_hash (chain_of st hNew)))) st1 db1 [] = (Inr (db2, vD), st2)"
    and st': "st' = st2\<lparr>txdb := db2, db_hashBestChain := hNew,
       mapBlockIndex := fold (\<lambda>h. set_pnext (pprev st2) h h) (rev (takeWhile (\<lambda>h. h \<noteq> f) (map bi_hash (chain_of st hNew))))
         (fold (set_pnext (pprev st2) 0) (takeWhile (\<lambda>h. h \<noteq> f) (map bi_hash (chain_of st t))) (mapBlockIndex st2))\<rparr>"
  shows "moved st st'" "ledger_at C st' hNew" "flags_at st' hNew"
proof -
  obtain xs where x: "chain_of st t = xs @ chain_of st f" "takeWhile (\<lambda>x. x \<noteq> f) (map bi_hash (chain_of st t)) = map bi_hash xs"
    and f0: "chain_of st f \<noteq> []" by (rule chain_split [OF ok(1) find_fork_common(1) [OF ok(1) f]])
  obtain us where u: "chain_of st hNew = us @ chain_of st f" "takeWhile (\<lambda>x. x \<noteq> f) (map bi_hash (chain_of st hNew)) = map bi_hash us"
    by (rule chain_split [OF ok(1) find_fork_common(2) [OF ok(1) f]])
  from ok(2) x(1) f0 obtain bs where bs: "map (ReadBlock C) xs @ map (ReadBlock C) (butlast (chain_of st f)) = map Some bs"
    and r: "replay C bs (db_tx (txdb st))" by (auto simp: ledger_at_def butlast_append)
  then obtain ds cs where dc: "bs = ds @ cs" "map (ReadBlock C) xs = map Some ds" "map (ReadBlock C) (butlast (chain_of st f)) = map Some cs"
    by (auto simp: append_eq_map_conv)
  have "map (reads C st) (map bi_hash xs) = map Some ds" using reads_mem [OF ok(1), of xs t] x(1) dc(2) by simp
  from disconnect_branch_replay [OF this r [unfolded dc(1)], of "[]"] d [unfolded x(2)] obtain log where
    st1: "st1 = st\<lparr>wallet_log := log\<rparr>" and r1: "replay C cs (db_tx db1)" by auto
  have ok1: "index_ok C st1" "\<forall>h \<in> set (rev (map bi_hash us)). mapBlockIndex st1 h \<noteq> None"
    using ok(1) chain_of_mem [OF ok(1), of _ hNew] u(1) by (auto simp: st1)
  have rd1: "map (reads C st1) (map bi_hash us) = map (ReadBlock C) us"
    using reads_mem [OF ok(1), of us hNew] u(1) by (simp add: st1 reads_def)
  have "distinct (concat (map (txids C) (List.map_filter (ReadBlock C) us @ cs)))"
    using ok(4) f0 map_filter_all [OF dc(3)] unfolding no_repeats_def chain_txids_def u(1) by (simp add: butlast_append map_filter_append)
  then have nr: "distinct (concat (map (txids C) (rev (List.map_filter (reads C st1) (rev (map bi_hash us))) @ cs)))"
    unfolding map_filter_rev rev_rev_ident map_filter_eq [OF rd1] .
  from connect_branch_replay [OF c [unfolded u(2)] ok1 r1 nr] obtain es where
    es: "map (ReadBlock C) us = map Some es" "replay C (es @ cs) (db_tx db2)"
    by (metis rd1 rev_map rev_rev_ident)
  obtain idx log2 where st2: "st2 = st1\<lparr>mapBlockIndex := idx, wallet_log := log2\<rparr>" and core: "same_core (mapBlockIndex st1) idx"
    and nx: "nexts idx = nexts (mapBlockIndex st)"
    using connect_branch_state [OF ok1, of db1 "[]"] c [unfolded u(2)] st1 by auto
  have core': "same_core (mapBlockIndex st) (mapBlockIndex st')"
    using same_core_trans [OF core same_core_trans [OF fold_set_pnext_core fold_set_pnext_core]] by (simp add: st' st2 st1)
  then show "moved st st'" by (simp add: moved_def st' st2 st1)
  have p: "pprev st' = pprev st" by (simp add: st' st2 st1)
  have "map (ReadBlock C) (butlast (chain_of st' hNew)) = map Some (es @ cs)"
    unfolding butlast_core [OF core' p] u(1) using f0 es(1) dc(3) by (simp add: butlast_append)
  moreover have "db_tx (txdb st') = db_tx db2" by (simp add: st')
  ultimately show "ledger_at C st' hNew" using es(2) unfolding ledger_at_def by metis
  obtain r where fr: "map bi_hash (chain_of st f) = f # r"
    using f0 tree_okD(1) [OF ok(1)] by (cases "mapBlockIndex st f") (auto simp: chain_of_Some [OF ok(1)])
  have "flags idx (map bi_hash xs @ f # r)" using ok(3) x(1) fr nx by (simp add: flags_def)
  then have "flags (fold (set_pnext (pprev st) 0) (map bi_hash xs) idx) (f # r)"
    using chain_of_successively [OF ok(1), of t] chain_of_distinct [OF ok(1), of t] x(1) fr by (intro flags_disconnect) simp_all
  then have "flags (mapBlockIndex st') (map bi_hash us @ f # r)"
    using chain_of_successively [OF ok(1), of hNew] u fr x(2) by (simp add: st' st2 st1 flags_connect)
  moreover have "map bi_hash (chain_of st' hNew) = map bi_hash us @ f # r"
    using map_core [OF chain_of_core [OF core' p, of hNew] core_of_eqD(1)] u(1) fr by simp
  ultimately show "flags_at st' hNew" by simp
qed

text \<open>
  \<open>synced C st h\<close>: the block index is a tree, the committed transaction index belongs to the chain of \<open>h\<close>,
  that chain is marked, and \<open>h\<close> is what the database records as its best chain.
\<close>

definition synced :: "chain_env \<Rightarrow> node_state \<Rightarrow> uint256 \<Rightarrow> bool" where
  "synced C st h \<longleftrightarrow> index_ok C st \<and> ledger_at C st h \<and> flags_at st h \<and> mapBlockIndex st h \<noteq> None \<and> db_hashBestChain st = h"

lemma syncedD:
  assumes "synced C st h"
  shows "index_ok C st" "ledger_at C st h" "flags_at st h" "mapBlockIndex st h \<noteq> None" "db_hashBestChain st = h"
  using assms by (simp_all add: synced_def)

lemma moved_index: "moved st st' \<Longrightarrow> index_ok C st \<Longrightarrow> index_ok C st'"
  unfolding moved_def using tree_ok_core by auto

lemma moved_entry: "moved st st' \<Longrightarrow> mapBlockIndex st h \<noteq> None \<Longrightarrow> mapBlockIndex st' h \<noteq> None"
  unfolding moved_def using same_core_Some' by (metis option.distinct(1) option.exhaust)

lemma moved_hashes: "moved st st' \<Longrightarrow> map bi_hash (chain_of st' h) = map bi_hash (chain_of st h)"
  unfolding moved_def by (elim conjE) (rule map_core [OF chain_of_core core_of_eqD(1)])

lemma moved_trust:
  assumes "moved st st'"
  shows "chain_trust st' h = chain_trust st h"
proof -
  have c: "same_core (mapBlockIndex st) (mapBlockIndex st')" using assms by (simp add: moved_def)
  show ?thesis
  proof (cases "mapBlockIndex st h")
    case None
    then show ?thesis using same_coreD [OF c, of h] by (simp add: chain_trust_def)
  next
    case (Some b)
    obtain b' where "mapBlockIndex st' h = Some b'" "core_of b' = core_of b" by (rule same_core_Some' [OF c Some])
    then show ?thesis using Some core_of_eqD(5) [of b' b] by (simp add: chain_trust_def)
  qed
qed

lemma moved_no_repeats:
  assumes "moved st st'"
  shows "no_repeats C st' h = no_repeats C st h"
proof -
  have "same_core (mapBlockIndex st) (mapBlockIndex st')" "pprev st' = pprev st" using assms by (simp_all add: moved_def)
  from map_filter_eq [OF butlast_core [OF this]] show ?thesis unfolding no_repeats_def chain_txids_def by simp
qed

text \<open>A state in which only what the chain's blocks leave alone has changed is in step with the same chain.\<close>

lemma synced_moved:
  assumes "synced C st h" "moved st st'" "txdb st' = txdb st" "nexts (mapBlockIndex st') = nexts (mapBlockIndex st)"
    "db_hashBestChain st' = db_hashBestChain st"
  shows "synced C st' h"
proof -
  have c: "same_core (mapBlockIndex st) (mapBlockIndex st')" "pprev st' = pprev st" using assms(2) by (simp_all add: moved_def)
  have "ledger_at C st' h" using syncedD(2) [OF assms(1)] unfolding ledger_at_def butlast_core [OF c] assms(3) .
  moreover have "flags_at st' h"
    using syncedD(3) [OF assms(1)] unfolding flags_def assms(4) moved_hashes [OF assms(2)] .
  ultimately show ?thesis
    using moved_index [OF assms(2)] moved_entry [OF assms(2)] assms(1,5) by (simp add: synced_def)
qed

lemma moved_refl [simp]: "moved st st" by (simp add: moved_def)

lemma disconnect_branch_state: "\<exists>log. snd (disconnect_branch C hs st db vR) = st\<lparr>wallet_log := log\<rparr>"
proof (induction hs arbitrary: st db vR)
  case (Cons h hs)
  have "\<exists>log. st = st\<lparr>wallet_log := log\<rparr>" by (rule exI [of _ "wallet_log st"]) simp
  moreover have "\<exists>log'. snd (disconnect_branch C hs (st\<lparr>wallet_log := log\<rparr>) db' v) = st\<lparr>wallet_log := log'\<rparr>" for log db' v
    using Cons.IH [of "st\<lparr>wallet_log := log\<rparr>" db' v] by simp
  ultimately show ?case by (auto simp: Let_def split: option.split prod.split bool.split)
next
  case Nil
  show ?case by (rule exI [of _ "wallet_log st"]) simp
qed

text \<open>Whatever \<open>Reorganize\<close> returns, the state is in step with the old chain or with the new one.\<close>

lemma Reorganize_outcome:
  assumes "synced C st t" "pindexBest st = Some t" "no_repeats C st hNew" "mapBlockIndex st hNew \<noteq> None" "Reorganize C hNew st = (res, st')"
  shows "moved st st' \<and> (synced C st' hNew \<or> res \<noteq> Inr () \<and> synced C st' t)"
proof -
  note ok = syncedD [OF assms(1)]
  have bc: "best_chain st = chain_of st t" using assms(2) by (simp add: best_chain_def)
  have stay: "moved st st1 \<and> synced C st1 t"
    if "\<exists>idx log. st1 = st\<lparr>mapBlockIndex := idx, wallet_log := log\<rparr> \<and> same_core (mapBlockIndex st) idx \<and> nexts idx = nexts (mapBlockIndex st)" for st1
  proof -
    have "moved st st1" using that by (auto simp: moved_def)
    then show ?thesis using synced_moved [OF assms(1)] that by auto
  qed
  have id: "\<exists>idx log. st\<lparr>wallet_log := log'\<rparr> = st\<lparr>mapBlockIndex := idx, wallet_log := log\<rparr> \<and> same_core (mapBlockIndex st) idx \<and>
      nexts idx = nexts (mapBlockIndex st)" for log' by (rule exI [of _ "mapBlockIndex st"], rule exI [of _ log']) simp
  show ?thesis
  proof (cases "find_fork (best_chain st) (chain_of st hNew)")
    case None
    then have "st' = st" "res \<noteq> Inr ()" using assms(5) by (auto simp: Reorganize_def)
    then show ?thesis using assms(1) by simp
  next
    case (Some f)
    note f = Some [unfolded bc]
    let ?D = "takeWhile (\<lambda>h. h \<noteq> f) (map bi_hash (chain_of st t))" and ?U = "rev (takeWhile (\<lambda>h. h \<noteq> f) (map bi_hash (chain_of st hNew)))"
    obtain rd st1 where d: "disconnect_branch C ?D st (txdb st) [] = (rd, st1)" by fastforce
    from disconnect_branch_state [of C ?D st "txdb st" "[]"] d obtain log where st1: "st1 = st\<lparr>wallet_log := log\<rparr>" by auto
    show ?thesis
    proof (cases rd)
      case (Inl e)
      then have "st' = st1" "res \<noteq> Inr ()" using assms(5) Some d by (auto simp: Reorganize_def bc Let_def)
      then show ?thesis using stay [of st1] id [of log] st1 by auto
    next
      case (Inr dr)
      obtain db1 vR where dr: "dr = (db1, vR)" by fastforce
      obtain rc st2 where c: "connect_branch C ?U st1 db1 [] = (rc, st2)" by fastforce
      have "set ?U \<subseteq> bi_hash ` set (chain_of st hNew)" by (auto dest: set_takeWhileD)
      then have ok1: "index_ok C st1" "\<forall>h \<in> set ?U. mapBlockIndex st1 h \<noteq> None"
        using ok(1) chain_of_mem [OF ok(1), of _ hNew] unfolding st1 by (simp, fastforce)
      have s2: "\<exists>idx log. st2 = st\<lparr>mapBlockIndex := idx, wallet_log := log\<rparr> \<and> same_core (mapBlockIndex st) idx \<and> nexts idx = nexts (mapBlockIndex st)"
        using connect_branch_state [OF ok1, of db1 "[]"] c by (auto simp: st1)
      show ?thesis
      proof (cases rc)
        case (Inl e)
        then have "st' = st2" "res \<noteq> Inr ()" using assms(5) Some d c \<open>rd = Inr dr\<close> dr by (auto simp: Reorganize_def bc Let_def)
        then show ?thesis using stay s2 by blast
      next
        case (Inr cr)
        obtain db2 vD where cr: "cr = (db2, vD)" by fastforce
        define st3 where "st3 = st2\<lparr>txdb := db2, db_hashBestChain := hNew,
          mapBlockIndex := fold (\<lambda>h. set_pnext (pprev st2) h h) ?U (fold (set_pnext (pprev st2) 0) ?D (mapBlockIndex st2))\<rparr>"
        note k = reorg_commit [OF ok(1-3) assms(3) f d [unfolded \<open>rd = Inr dr\<close> dr] c [unfolded Inr cr] st3_def]
        have s3: "synced C st3 hNew"
          using k moved_index [OF k(1) ok(1)] moved_entry [OF k(1) assms(4)] by (simp add: synced_def) (simp add: st3_def)
        have "st' = st3 \<or> (\<exists>P. st' = st3\<lparr>mempool := P\<rparr>)"
          using assms(5) Some d c \<open>rd = Inr dr\<close> dr Inr cr
          by (auto simp: Reorganize_def bc Let_def st3_def [symmetric] split: option.splits)
        moreover have "moved st3 (st3\<lparr>mempool := P\<rparr>)" "synced C (st3\<lparr>mempool := P\<rparr>) hNew" for P
          using synced_moved [OF s3, of "st3\<lparr>mempool := P\<rparr>"] by (simp_all add: moved_def)
        ultimately show ?thesis using s3 k(1) moved_trans [OF k(1)] by auto
      qed
    qed
  qed
qed

section \<open>SetBestChain keeps the ledger\<close>

lemma ReadBlock_hash: "ReadBlock C e = Some b \<Longrightarrow> b_GetHash (ce_env C) b = bi_hash e"
  by (simp add: ReadBlock_def split: option.splits if_splits)

lemma invalid_synced: "moved st (InvalidChainFound h st) \<and> (synced C st t \<longrightarrow> synced C (InvalidChainFound h st) t)"
proof -
  have m: "moved st (InvalidChainFound h st)" by (simp add: InvalidChainFound_def moved_def)
  show ?thesis using synced_moved [OF _ m] m by (simp add: InvalidChainFound_def)
qed

lemma SetBestChainInner_outcome:
  assumes "synced C st t" "pprev st hNew = Some t" "mapBlockIndex st hNew = Some e" "ReadBlock C e = Some block" "no_repeats C st hNew"
    and "SetBestChainInner C block hNew st = (r, st')"
  shows "moved st st' \<and> synced C st' (if r then hNew else t)"
proof (cases "ConnectBlock (ce_ssl C) (st_env C st) (txdb st) (chain_of st hNew) False block")
  case (Inl x)
  then show ?thesis using assms(1,6) invalid_synced by (auto simp: SetBestChainInner_def)
next
  case (Inr y)
  obtain pi db1 ev where y: "y = (pi, db1, ev)" by (cases y) auto
  note c = Inr [unfolded y] and ok = syncedD [OF assms(1)]
  have r: "r" and st': "st' = st\<lparr>txdb := db1, db_hashBestChain := b_GetHash (ce_env C) block,
             mapBlockIndex := set_pnext (pprev st) hNew hNew ((mapBlockIndex st)(hNew \<mapsto> pi)),
             wallet_log := wallet_log st @ ev, mempool := fold (pool_drop (ce_ssl C)) (vtx block) (mempool st)\<rparr>"
    using assms(6) c by (auto simp: SetBestChainInner_def)
  have hd: "hd (chain_of st hNew) = e" and ch: "chain_of st hNew = e # chain_of st t"
    using chain_of_hd [OF ok(1) assms(3)] chain_of_Some [OF ok(1) assms(3)] assms(2) by simp_all
  have t0: "chain_of st t \<noteq> []" using ok(4) chain_of_Some [OF ok(1)] by auto
  obtain bs where bs: "map (ReadBlock C) (butlast (chain_of st t)) = map Some bs" "replay C bs (db_tx (txdb st))"
    using ok(2) by (auto simp: ledger_at_def)
  have "set (txids C block) \<inter> set (concat (map (txids C) bs)) = {}"
    using assms(4,5) t0 map_filter_all [OF bs(1)] by (auto simp: no_repeats_def chain_txids_def ch)
  then have n: "list_all (\<lambda>tx. db_tx (txdb st) (GetHash (ce_ssl C) tx) = None) (vtx block)"
    using replay_index(2) [OF bs(2)] by (fastforce simp: list_all_iff txids_def)
  have rp: "replay C (block # bs) (db_tx db1)"
    by (rule replay.block [OF bs(2) _ _ n c]) (use assms(4) tree_okD(4) [OF ok(1) assms(3)] in \<open>simp_all add: hd\<close>)
  have e: "core_of pi = core_of e" "bi_hashNext pi = bi_hashNext e" using ConnectBlock_entry [OF c] hd by auto
  have "same_core (mapBlockIndex st) ((mapBlockIndex st)(hNew \<mapsto> pi))" using same_core_upd assms(3) e(1) by simp
  then have m: "moved st st'" using same_core_trans [OF _ set_pnext_core] by (simp add: moved_def st')
  then have core: "same_core (mapBlockIndex st) (mapBlockIndex st')" "pprev st' = pprev st" by (simp_all add: moved_def)
  have "map (ReadBlock C) (butlast (chain_of st' hNew)) = map Some (block # bs)"
    unfolding butlast_core [OF core] ch using t0 bs(1) assms(4) by simp
  moreover have "db_tx (txdb st') = db_tx db1" by (simp add: st')
  ultimately have "ledger_at C st' hNew" using rp unfolding ledger_at_def by metis
  moreover have "flags_at st' hNew"
  proof -
    have "nexts ((mapBlockIndex st)(hNew \<mapsto> pi)) = nexts (mapBlockIndex st)" using assms(3) e(2) by (auto simp: nexts_def)
    then have "flags ((mapBlockIndex st)(hNew \<mapsto> pi)) (map bi_hash (chain_of st t))" using ok(3) by (simp add: flags_def)
    moreover obtain r where "map bi_hash (chain_of st t) = t # r"
      using ok(4) chain_of_Some [OF ok(1)] tree_okD(1) [OF ok(1)] by fastforce
    ultimately have "flags (mapBlockIndex st') (hNew # map bi_hash (chain_of st t))"
      using flags_up [of _ t r "pprev st" hNew] assms(2) by (simp add: st')
    then show ?thesis unfolding moved_hashes [OF m] ch using tree_okD(1) [OF ok(1) assms(3)] by simp
  qed
  moreover have "db_hashBestChain st' = hNew"
    using ReadBlock_hash [OF assms(4)] tree_okD(1) [OF ok(1) assms(3)] by (simp add: st')
  ultimately have "synced C st' hNew"
    using moved_index [OF m ok(1)] moved_entry [OF m, of hNew] assms(3) by (simp add: synced_def)
  then show ?thesis using m r by simp
qed

lemma connect_further_outcome:
  assumes "synced C st t" "successively (\<lambda>x y. pprev st y = Some x) (t # map bi_hash ps)"
    and "\<forall>p \<in> set ps. map_option core_of (mapBlockIndex st (bi_hash p)) = Some (core_of p) \<and> no_repeats C st (bi_hash p)"
  shows "moved st (connect_further C ps st) \<and>
    (\<exists>h \<in> set (t # map bi_hash ps). synced C (connect_further C ps st) h)"
  using assms
proof (induction ps arbitrary: st t)
  case (Cons p ps)
  obtain e where e: "mapBlockIndex st (bi_hash p) = Some e" "core_of e = core_of p" using Cons.prems(3) by auto
  have nr: "no_repeats C st (bi_hash p)" and pv: "pprev st (bi_hash p) = Some t" using Cons.prems(2,3) by simp_all
  show ?case
  proof (cases "ReadBlock C p")
    case (Some block)
    then have rb: "ReadBlock C e = Some block" using ReadBlock_core [OF e(2)] by simp
    obtain r st1 where i: "SetBestChainInner C block (bi_hash p) st = (r, st1)" by fastforce
    note o = SetBestChainInner_outcome [OF Cons.prems(1) pv e(1) rb nr i]
    show ?thesis
    proof (cases r)
      case True
      then have s: "moved st st1" "synced C st1 (bi_hash p)" using o by simp_all
      have c: "same_core (mapBlockIndex st) (mapBlockIndex st1)" "pprev st1 = pprev st" using s(1) by (simp_all add: moved_def)
      have "moved st1 (connect_further C ps st1) \<and> (\<exists>h \<in> set (bi_hash p # map bi_hash ps). synced C (connect_further C ps st1) h)"
        by (rule Cons.IH [OF s(2)])
           (use Cons.prems(2,3) in \<open>simp_all add: c(2) same_coreD [OF c(1)] moved_no_repeats [OF s(1)]\<close>)
      then show ?thesis using moved_trans [OF s(1)] Some i True by auto
    next
      case False
      then show ?thesis using o Some i by auto
    qed
  qed (use Cons.prems(1) in auto)
qed auto

lemma postpone_split: "postpone best ch = (sec, interm) \<Longrightarrow> ch = sec @ interm \<and> (ch \<noteq> [] \<longrightarrow> interm \<noteq> [])"
  by (induction best ch arbitrary: sec interm rule: postpone.induct) (auto split: if_splits prod.splits)

lemma no_repeats_suffix:
  assumes "chain_of st h = us @ chain_of st f" "chain_of st f \<noteq> []" "no_repeats C st h"
  shows "no_repeats C st f"
  using assms(2,3) unfolding no_repeats_def chain_txids_def assms(1) by (simp add: butlast_append map_filter_append)

lemma new_best_simps [simp]:
  "mapBlockIndex (new_best C a h st) = mapBlockIndex st" "pprev (new_best C a h st) = pprev st" "txdb (new_best C a h st) = txdb st"
  "db_hashBestChain (new_best C a h st) = db_hashBestChain st" "pindexBest (new_best C a h st) = Some h" "hashBestChain (new_best C a h st) = a"
  "nBestChainTrust (new_best C a h st) = chain_trust st h" "pindexGenesisBlock (new_best C a h st) = pindexGenesisBlock st"
  by (simp_all add: new_best_def)

lemma synced_new_best [simp]: "synced C (new_best C a h st) t = synced C st t"
  unfolding synced_def ledger_at_def by (simp add: chain_of_cong [of "new_best C a h st" st])

text \<open>The in-memory best chain agrees with the committed one.\<close>

definition tip_agrees :: "node_state \<Rightarrow> bool" where
  "tip_agrees st \<longleftrightarrow> pindexGenesisBlock st \<noteq> None \<and> pindexBest st = Some (db_hashBestChain st) \<and>
     hashBestChain st = db_hashBestChain st \<and> nBestChainTrust st = chain_trust st (db_hashBestChain st)"

lemma SetBestChain_outcome:
  assumes "synced C st t" "tip_agrees st" "mapBlockIndex st hNew = Some e" "ReadBlock C e = Some block"
    and "pprev st hNew = Some (b_hashPrevBlock block)" "no_repeats C st hNew" "SetBestChain C block hNew st = (r, st')"
  shows "(\<exists>h. synced C st' h) \<and> same_core (mapBlockIndex st) (mapBlockIndex st') \<and> pprev st' = pprev st \<and>
    (if r then pindexBest st' = Some hNew \<and> hashBestChain st' = hNew \<and> nBestChainTrust st' = chain_trust st hNew \<and>
       pindexGenesisBlock st' = pindexGenesisBlock st else moved st st')"
proof -
  note ok = syncedD [OF assms(1)]
  have hash: "b_GetHash (ce_env C) block = hNew" using ReadBlock_hash [OF assms(4)] tree_okD(1) [OF ok(1) assms(3)] by simp
  have tip: "pindexGenesisBlock st \<noteq> None" "pindexBest st = Some t" "hashBestChain st = t" using assms(2) ok(5) by (simp_all add: tip_agrees_def)
  have fin: ?thesis if "r" "moved st st1" "synced C st1 h" "st' = new_best C hNew hNew st1" for st1 h
    using that moved_trust [OF that(2)] by (auto simp: moved_def)
  have fail: ?thesis if "\<not> r" "moved st st1" "synced C st1 h" "st' = st1 \<or> st' = InvalidChainFound hNew st1" for st1 h
  proof -
    have "moved st st'" "synced C st' h" using that invalid_synced moved_trans by blast+
    then show ?thesis using that(1) by (auto simp: moved_def)
  qed
  show ?thesis
  proof (cases "b_hashPrevBlock block = t")
    case True
    obtain r1 st1 where i: "SetBestChainInner C block hNew st = (r1, st1)" by fastforce
    note o = SetBestChainInner_outcome [OF assms(1) _ assms(3,4,6) i]
    have "r = r1" "st' = (if r1 then new_best C hNew hNew st1 else st1)"
      using assms(7) i True tip hash by (auto simp: SetBestChain_def Let_def split: bool.splits)
    then show ?thesis using fin [of st1 hNew] fail [of st1 t] o assms(5) True by (cases r1) auto
  next
    case False
    obtain sec interm where p: "postpone (chain_trust st t) (chain_of st hNew) = (sec, interm)" by fastforce
    have ch: "chain_of st hNew \<noteq> []" using chain_of_Some [OF ok(1) assms(3)] by simp
    then obtain q qs where sp: "chain_of st hNew = sec @ q # qs" and q: "interm = q # qs" using postpone_split [OF p] by (cases interm) auto
    have cq: "chain_of st (bi_hash q) = q # qs" by (rule chain_of_suffix [OF ok(1) sp])
    have iq: "mapBlockIndex st (bi_hash q) \<noteq> None" using chain_of_mem [OF ok(1), of q hNew] sp by simp
    have nq: "no_repeats C st (bi_hash q)" by (rule no_repeats_suffix [OF _ _ assms(6)]) (use sp cq in simp_all)
    obtain rr st1 where R: "Reorganize C (bi_hash q) st = (rr, st1)" by fastforce
    note o = Reorganize_outcome [OF assms(1) tip(2) nq iq R]
    show ?thesis
    proof (cases rr)
      case (Inl x)
      then have "\<not> r" "st' = InvalidChainFound hNew st1"
        using assms(7) False tip hash p R q by (auto simp: SetBestChain_def Let_def)
      then show ?thesis using fail o by blast
    next
      case (Inr u)
      then have s1: "moved st st1" "synced C st1 (bi_hash q)" using o by auto
      have r: "r" and st': "st' = new_best C hNew hNew (connect_further C (rev sec) st1)"
        using assms(7) False tip hash p R q Inr by (auto simp: SetBestChain_def Let_def)
      have m: "same_core (mapBlockIndex st) (mapBlockIndex st1)" "pprev st1 = pprev st" using s1(1) by (simp_all add: moved_def)
      have "successively (\<lambda>x y. pprev st x = Some y) (map bi_hash sec @ [bi_hash q])"
        using chain_of_successively [OF ok(1), of hNew] sp by (simp add: successively_append_iff)
      then have "successively (\<lambda>x y. pprev st1 y = Some x) (bi_hash q # map bi_hash (rev sec))"
        using successively_rev [of "\<lambda>x y. pprev st y = Some x" "map bi_hash sec @ [bi_hash q]"]
        unfolding m(2) by (simp only: rev_append rev.simps append_Nil append_Cons rev_map)
      moreover have "map_option core_of (mapBlockIndex st1 (bi_hash x)) = Some (core_of x) \<and> no_repeats C st1 (bi_hash x)" if "x \<in> set (rev sec)" for x
      proof -
        obtain us vs where "chain_of st hNew = us @ x # vs" using \<open>x \<in> _\<close> sp by (metis append.assoc append_Cons set_rev split_list)
        note s = this chain_of_suffix [OF ok(1) this]
        have "no_repeats C st (bi_hash x)" by (rule no_repeats_suffix [OF _ _ assms(6)]) (use s in simp_all)
        moreover have "mapBlockIndex st (bi_hash x) = Some x" using chain_of_mem [OF ok(1), of x hNew] s(1) by simp
        ultimately show ?thesis using same_coreD [OF m(1)] moved_no_repeats [OF s1(1)] by simp
      qed
      ultimately have "moved st1 (connect_further C (rev sec) st1) \<and> (\<exists>h. synced C (connect_further C (rev sec) st1) h)"
        using connect_further_outcome [OF s1(2)] by blast
      then show ?thesis using fin [OF r _ _ st'] moved_trans [OF s1(1)] by blast
    qed
  qed
qed

section \<open>Adding a block\<close>

lemma index_entry_fields:
  assumes "index_entry C nFileIn nBlockPosIn hashProof block st = Inr p" "chain_of st (b_hashPrevBlock block) = q # r"
  shows "bi_hash p = b_GetHash (ce_env C) block" "bi_hashNext p = 0" "bi_nFile p = nFileIn" "bi_nBlockPos p = nBlockPosIn"
    "bi_nHeight p = i32 (bi_nHeight q + 1)" "bi_nBits p = b_nBits block"
    "bi_nChainTrust p = bi_nChainTrust q + GetBlockTrust (bn (ce_ssl C)) (b_nBits block)"
  using assms
  by (auto simp: index_entry_def Let_def bi_SetStakeEntropyBit_def bi_SetStakeModifier_def CBlockIndex_new_def
      split: option.splits prod.splits if_splits)

lemma insert_index_simps:
  "mapBlockIndex (insert_index C block p st) = (mapBlockIndex st)(bi_hash p \<mapsto> p)"
  "pprev (insert_index C block p st) = (pprev st)(bi_hash p := (if mapBlockIndex st (b_hashPrevBlock block) = None then None else Some (b_hashPrevBlock block)))"
  "db_tx (txdb (insert_index C block p st)) = db_tx (txdb st)" "db_hashBestChain (insert_index C block p st) = db_hashBestChain st"
  "pindexBest (insert_index C block p st) = pindexBest st" "hashBestChain (insert_index C block p st) = hashBestChain st"
  "nBestChainTrust (insert_index C block p st) = nBestChainTrust st" "pindexGenesisBlock (insert_index C block p st) = pindexGenesisBlock st"
  by (simp_all add: insert_index_def Let_def WriteBlockIndex_def)

lemma insert_index_tree:
  assumes "index_ok C st" "mapBlockIndex st (bi_hash p) = None" "mapBlockIndex st (b_hashPrevBlock block) = Some q"
    and "bi_hash p \<noteq> 0" "bi_nFile p \<noteq> - 1" "bi_nHeight p = bi_nHeight q + 1"
    and "bi_nChainTrust p = bi_nChainTrust q + GetBlockTrust (bn (ce_ssl C)) (bi_nBits p)"
  shows "index_ok C (insert_index C block p st)"
  unfolding tree_ok_def
proof (intro allI impI)
  fix h b
  assume b: "mapBlockIndex (insert_index C block p st) h = Some b"
  have new: "b_hashPrevBlock block \<noteq> bi_hash p" using assms(2,3) by auto
  show "entry_ok (ce_ssl C) (mapBlockIndex (insert_index C block p st)) (pprev (insert_index C block p st)) h b"
  proof (cases "h = bi_hash p")
    case True
    then show ?thesis using b assms(3-7) new tree_okD(3) [OF assms(1,3)] by (auto simp: insert_index_simps entry_ok_def)
  next
    case False
    then have "mapBlockIndex st h = Some b" using b by (simp add: insert_index_simps)
    then have "entry_ok (ce_ssl C) (mapBlockIndex st) (pprev st) h b" using assms(1) by (simp add: tree_ok_def)
    then show ?thesis using False assms(2) by (auto simp: insert_index_simps entry_ok_def split: option.splits)
  qed
qed

lemma insert_index_chain:
  assumes "index_ok C st" "index_ok C (insert_index C block p st)" "mapBlockIndex st (bi_hash p) = None" "mapBlockIndex st h \<noteq> None"
  shows "chain_of (insert_index C block p st) h = chain_of st h"
  using assms(1,4)
proof (induction h rule: tree_induct)
  case (root h b)
  then have "h \<noteq> bi_hash p" using assms(3) by auto
  then show ?case using root chain_of_Some [OF assms(2), of h b] chain_of_Some [OF assms(1), of h b] by (simp add: insert_index_simps)
next
  case (node h b k q)
  then have "h \<noteq> bi_hash p" using assms(3) by auto
  then show ?case using node chain_of_Some [OF assms(2), of h b] chain_of_Some [OF assms(1), of h b] by (simp add: insert_index_simps)
qed simp

lemma insert_index_synced:
  assumes "synced C st t" "index_ok C (insert_index C block p st)" "mapBlockIndex st (bi_hash p) = None" "bi_hashNext p = 0"
  shows "synced C (insert_index C block p st) t"
proof -
  note ok = syncedD [OF assms(1)]
  have c: "chain_of (insert_index C block p st) t = chain_of st t" by (rule insert_index_chain [OF ok(1) assms(2,3) ok(4)])
  have "bi_hash p \<notin> set (map bi_hash (chain_of st t))" using chain_of_mem [OF ok(1)] assms(3) by auto
  then have "next_of (map bi_hash (chain_of st t)) (bi_hash p) = 0" by (intro next_of_notin) (metis list.sel(2) list.set_sel(2))
  then have "flags_at (insert_index C block p st) t"
    using ok(3) assms(4) unfolding c flags_def nexts_def by (auto simp: insert_index_simps)
  then show ?thesis using ok assms(2) unfolding synced_def ledger_at_def c by (simp add: insert_index_simps)
qed

definition fresh_block :: "chain_env \<Rightarrow> node_state \<Rightarrow> CBlock \<Rightarrow> bool" where
  "fresh_block C st block \<longleftrightarrow> distinct (txids C block @ chain_txids C st (b_hashPrevBlock block))"

text \<open>What a block brings along: it was stored where the index says, its parent is known and its transactions
  are new to the chain.\<close>

definition acceptable :: "chain_env \<Rightarrow> u32 \<Rightarrow> u32 \<Rightarrow> CBlock \<Rightarrow> CBlockIndex \<Rightarrow> node_state \<Rightarrow> bool" where
  "acceptable C nFileIn nBlockPosIn block q st \<longleftrightarrow>
     read_block C nFileIn nBlockPosIn = Some block \<and> nFileIn \<noteq> - 1 \<and> b_GetHash (ce_env C) block \<noteq> 0 \<and>
     mapBlockIndex st (b_hashPrevBlock block) = Some q \<and> bi_nHeight q < 2 ^ 31 - 1 \<and> fresh_block C st block"

lemma AddToBlockIndex_outcome:
  assumes "synced C st t" "tip_agrees st" "acceptable C nFileIn nBlockPosIn block q st"
    and "AddToBlockIndex C nFileIn nBlockPosIn hashProof block st = (r, st')"
  shows "(\<exists>h. synced C st' h) \<and>
    (let trust = bi_nChainTrust q + GetBlockTrust (bn (ce_ssl C)) (b_nBits block) in
     if r = Inr () \<and> trust > nBestChainTrust st
     then pindexBest st' = Some (b_GetHash (ce_env C) block) \<and> nBestChainTrust st' = trust
     else pindexBest st' = pindexBest st \<and> nBestChainTrust st' = nBestChainTrust st)"
proof (cases "mapBlockIndex st (b_GetHash (ce_env C) block) = None")
  case False
  then have "r \<noteq> Inr ()" "st' = st" using assms(4) by (auto simp: AddToBlockIndex_def)
  then show ?thesis using assms(1) by auto
next
  case True
  note ok = syncedD [OF assms(1)]
  have a: "read_block C nFileIn nBlockPosIn = Some block" "nFileIn \<noteq> - 1" "b_GetHash (ce_env C) block \<noteq> 0"
    "mapBlockIndex st (b_hashPrevBlock block) = Some q" "bi_nHeight q < 2 ^ 31 - 1" "fresh_block C st block"
    using assms(3) by (simp_all add: acceptable_def)
  show ?thesis
  proof (cases "index_entry C nFileIn nBlockPosIn hashProof block st")
    case (Inl e)
    then have "r \<noteq> Inr ()" "st' = st" using assms(4) True by (auto simp: AddToBlockIndex_def)
    then show ?thesis using assms(1) by auto
  next
    case (Inr p)
    let ?st = "insert_index C block p st"
    note F = index_entry_fields [OF Inr chain_of_Some [OF ok(1) a(4)]]
    have h: "bi_nHeight p = bi_nHeight q + 1"
      using F(5) a(5) tree_okD(3) [OF ok(1) a(4)] by (simp add: in_i32_def)
    have n: "mapBlockIndex st (bi_hash p) = None" using True F(1) by simp
    have io: "index_ok C ?st" by (rule insert_index_tree [OF ok(1) n a(4)]) (use F a h in simp_all)
    have sy: "synced C ?st t" by (rule insert_index_synced [OF assms(1) io n F(2)])
    have ne: "b_hashPrevBlock block \<noteq> bi_hash p" "t \<noteq> bi_hash p" using a(4) n ok(4) by auto
    have ta: "tip_agrees ?st" using assms(2) ne(2) ok(5) by (simp add: tip_agrees_def insert_index_simps chain_trust_def)
    have e: "mapBlockIndex ?st (bi_hash p) = Some p" "pprev ?st (bi_hash p) = Some (b_hashPrevBlock block)"
      using a(4) by (simp_all add: insert_index_simps)
    have rb: "ReadBlock C p = Some block" using a(1) F by (simp add: ReadBlock_def)
    have "chain_of ?st (bi_hash p) = p # chain_of st (b_hashPrevBlock block)" "chain_of st (b_hashPrevBlock block) \<noteq> []"
      using chain_of_Some [OF io e(1)] e(2) insert_index_chain [OF ok(1) io n, of "b_hashPrevBlock block"] a(4) chain_of_Some [OF ok(1) a(4)]
      by simp_all
    then have nr: "no_repeats C ?st (bi_hash p)"
      using a(6) rb by (simp add: fresh_block_def no_repeats_def chain_txids_def)
    have tr: "chain_trust ?st (bi_hash p) = bi_nChainTrust q + GetBlockTrust (bn (ce_ssl C)) (b_nBits block)"
      using F(7) e(1) by (simp add: chain_trust_def)
    show ?thesis
    proof (cases "bi_nChainTrust p > nBestChainTrust st")
      case T: True
      obtain b st2 where s: "SetBestChain C block (bi_hash p) ?st = (b, st2)" by fastforce
      have "st' = st2" "r = (if b then Inr () else Inl Add_best_chain)"
        using assms(4) True Inr T s F(1) by (auto simp: AddToBlockIndex_def Let_def insert_index_simps split: bool.splits)
      then show ?thesis using SetBestChain_outcome [OF sy ta e(1) rb e(2) nr s] T F(1,7) tr
        by (auto simp: moved_def insert_index_simps)
    next
      case F': False
      have "st' = ?st" "r = Inr ()" using assms(4) True Inr F' F(1) by (auto simp: AddToBlockIndex_def Let_def insert_index_simps)
      then show ?thesis using sy F(7) F' by (auto simp: insert_index_simps)
    qed
  qed
qed

section \<open>A small block tree\<close>

text \<open>
  Genesis, a connected block \<open>demo_a\<close> on it and a competitor \<open>demo_b\<close>, each with a coinbase only; the
  hash of a block is the low byte of its nonce.
\<close>

definition demo_coinbase :: CTransaction where
  "demo_coinbase = blk_coinbase\<lparr>nTime := 99\<rparr>"

definition demo_blk :: "u32 \<Rightarrow> u32 \<Rightarrow> CTransaction \<Rightarrow> CBlock" where
  "demo_blk bits nonce tx = \<lparr>b_nVersion = 6, b_hashPrevBlock = 1, b_hashMerkleRoot = BuildMerkleTree ssl_prefix [tx], b_nTime = 100,
     b_nBits = bits, b_nNonce = nonce, vtx = [tx], vchBlockSig = []\<rparr>"

definition demo_a :: CBlock where "demo_a = demo_blk 0x03000007 5 blk_coinbase"
definition demo_b :: CBlock where "demo_b = demo_blk 0x03000003 3 demo_coinbase"

definition demo_chain :: chain_env where
  "demo_chain = \<lparr>ce_ssl = ssl_prefix, ce_env = blk_env\<lparr>Hash9 := (\<lambda>h. ucast (h ! 76))\<rparr>,
     read_block = (\<lambda>_ p. if p = 8 then Some demo_a else Some demo_b), fTestNet = False, fEnforceCanonical = True,
     nModifierInterval = 600, now = 200, CheckpointsMode = STRICT\<rparr>"

definition demo_genesis_entry :: CBlockIndex where
  "demo_genesis_entry = (demo_index 90)\<lparr>bi_hash := 1, bi_hashNext := 5, bi_nBits := 0x03000007, bi_nChainTrust := GetBlockTrust bn_ref 0x03000007\<rparr>"

definition demo_a_entry :: CBlockIndex where
  "demo_a_entry = (demo_index 100)\<lparr>bi_hash := 5, bi_nHeight := 1, bi_nBits := 0x03000007,
     bi_nChainTrust := GetBlockTrust bn_ref 0x03000007 + GetBlockTrust bn_ref 0x03000007\<rparr>"

definition demo_txmap :: txmap where
  "demo_txmap = [GetHash ssl_prefix blk_coinbase \<mapsto> CTxIndex_new (blk_pos 89) 1]"

text \<open>The tip and the transaction index are parameters: the state before and after \<open>demo_a\<close> was connected.\<close>

definition demo_node :: "uint256 \<Rightarrow> txmap \<Rightarrow> node_state" where
  "demo_node tip m = \<lparr>mapBlockIndex = [1 \<mapsto> demo_genesis_entry, 5 \<mapsto> demo_a_entry], pprev = [5 \<mapsto> 1],
     txdb = \<lparr>db_tx = m, db_index = (\<lambda>_. None)\<rparr>, db_hashBestChain = tip, db_bestInvalidTrust = 0, db_hashSyncCheckpoint = 1,
     mempool = pool_empty, pindexGenesisBlock = Some 1, pindexBest = Some tip, hashBestChain = tip, nBestHeight = 1,
     nBestChainTrust = bi_nChainTrust demo_a_entry, nBestInvalidTrust = 0, nTimeBestReceived = 0, setStakeSeen = {},
     hashSyncCheckpoint = 1, hashPendingCheckpoint = 0, hashInvalidCheckpoint = 0, wallet_log = []\<rparr>"

lemma demo_bn [simp]: "bn (ce_ssl demo_chain) = bn_ref" by (simp add: demo_chain_def ssl_prefix_def ssl_demo_def)

lemma demo_entries:
  "bi_hash demo_genesis_entry = 1" "bi_nHeight demo_genesis_entry = 0" "bi_nFile demo_genesis_entry = 1" "bi_hashNext demo_genesis_entry = 5"
  "bi_nBits demo_genesis_entry = 0x03000007" "bi_nChainTrust demo_genesis_entry = GetBlockTrust bn_ref 0x03000007"
  "bi_hash demo_a_entry = 5" "bi_nHeight demo_a_entry = 1" "bi_nFile demo_a_entry = 1" "bi_nBlockPos demo_a_entry = 8" "bi_hashNext demo_a_entry = 0"
  "bi_nBits demo_a_entry = 0x03000007"
  "bi_nChainTrust demo_a_entry = GetBlockTrust bn_ref 0x03000007 + GetBlockTrust bn_ref 0x03000007"
  by (simp_all add: demo_genesis_entry_def demo_a_entry_def demo_index_def)

lemma demo_index_ok: "index_ok demo_chain (demo_node tip m)"
  by (auto simp: tree_ok_def entry_ok_def demo_node_def demo_entries split: if_splits)

lemma demo_node_db [simp]: "db_tx (txdb (demo_node tip m)) = m" by (simp add: demo_node_def)

lemma demo_chains:
  "chain_of (demo_node tip m) 1 = [demo_genesis_entry]" "chain_of (demo_node tip m) 5 = [demo_a_entry, demo_genesis_entry]"
  using chain_of_Some [OF demo_index_ok, of tip m 1] chain_of_Some [OF demo_index_ok, of tip m 5] by (simp_all add: demo_node_def)

lemma demo_block_hash:
  "b_GetHash (ce_env demo_chain) (demo_blk bits nonce tx) = ucast (u32_bytes nonce ! 0)"
  by (simp add: b_GetHash_def demo_chain_def header_bytes_def demo_blk_def nth_append)

lemma demo_hashes: "b_GetHash (ce_env demo_chain) demo_a = 5" "b_GetHash (ce_env demo_chain) demo_b = 3"
  unfolding demo_a_def demo_b_def demo_block_hash by code_simp+

lemma demo_target: "CheckProofOfWork bn_ref mainnet 5 0x03000007"
proof -
  have s: "SetCompact bn_ref 0x03000007 = 7" by (simp add: SetCompact_doc) code_simp
  have "(7 :: int) \<le> bnProofOfWorkLimit mainnet" by (simp add: mainnet_def) code_simp
  then show ?thesis using s CheckProofOfWork_iff [of bn_ref mainnet 5 "0x03000007"] by (simp add: params_ok_nets)
qed

lemma st_env_simps [simp]:
  "Hash9 (st_env C st) = Hash9 (ce_env C)" "adjusted_time (st_env C st) = adjusted_time (ce_env C)" "env_params (st_env C st) = env_params (ce_env C)"
  "mt19937 (st_env C st) = mt19937 (ce_env C)"
  by (simp_all add: st_env_def)

lemma b_GetHash_st_env [simp]: "b_GetHash (st_env C st) b = b_GetHash (ce_env C) b"
  by (simp add: b_GetHash_def)

lemma demo_a_check: "CheckBlock ssl_prefix (st_env demo_chain st) True True False demo_a = None"
proof -
  have e: "adjusted_time (ce_env demo_chain) = 200" "env_params (ce_env demo_chain) = mainnet" "bn ssl_prefix = bn_ref"
    by (simp_all add: demo_chain_def blk_env_def demo_env_def ssl_prefix_def ssl_demo_def)
  have v: "vtx demo_a = [blk_coinbase]" "b_nBits demo_a = 0x03000007" "b_nTime demo_a = 100" "vchBlockSig demo_a = []"
    "b_hashMerkleRoot demo_a = BuildMerkleTree ssl_prefix [blk_coinbase]" by (simp_all add: demo_a_def demo_blk_def)
  have t: "nTime blk_coinbase = 100" by (simp add: blk_defs)
  show ?thesis
    by (simp add: CheckBlock_def demo_hashes e v t demo_target GetSerializeSize_block_def GetSerializeSize_vec_def GetSerializeSize_bytes_def
        GetSizeOfCompactSize_def b_IsProofOfWork_def b_IsProofOfStake_def b_GetBlockTime_def GetClockDrift_def check_stake_layout_def Let_def)
qed

lemma demo_a_connects:
  "\<exists>pi db' ev. ConnectBlock ssl_prefix (st_env demo_chain (demo_node 1 Map.empty)) (txdb (demo_node 1 Map.empty)) [demo_a_entry, demo_genesis_entry]
     False demo_a = Inr (pi, db', ev) \<and> db_tx db' = demo_txmap"
proof -
  let ?E = "st_env demo_chain (demo_node 1 Map.empty)" and ?db = "txdb (demo_node 1 Map.empty)" and ?ch = "[demo_a_entry, demo_genesis_entry]"
  have db: "db_tx ?db = Map.empty" by (simp add: demo_node_def)
  have v: "vtx demo_a = [blk_coinbase]" by (simp add: demo_a_def demo_blk_def)
  have i: "connect_init ?ch False demo_a = \<lparr>mapQueuedChanges = (\<lambda>_. None), cs_nFees = 0, cs_nValueIn = 0, cs_nValueOut = 0,
      cs_nStakeReward = 0, cs_nSigOps = 0, cs_nTxPos = 89\<rparr>"
    by (simp add: connect_init_def GetSizeOfCompactSize_def v demo_entries)
  have l: "length (vout blk_coinbase) = 1" by (simp add: blk_defs)
  have t: "connect_txs ssl_prefix ?E ?db ?ch False [blk_coinbase] (connect_init ?ch False demo_a) = Inr blk_st1"
    unfolding i by (simp add: connect_tx_def Let_def ReadTxIndex_def db GetValueOut_blk blk_st1_def demo_entries blk_pos_def in_i64_def l)
  have bh: "best_height ?E = 0" 
  proof -
    have "pindexBest (demo_node 1 Map.empty) = Some 1" by (simp add: demo_node_def)
    then show ?thesis by (simp add: st_env_def best_chain_def demo_chains demo_entries)
  qed
  have r: "check_rewards ssl_prefix ?E ?db ?ch demo_a blk_st1 = None"
    by (simp add: check_rewards_def b_IsProofOfWork_def b_IsProofOfStake_def v GetValueOut_blk GetProofOfWorkReward_def
        pow_subsidy_def bh blk_st1_def in_i64_def)
  show ?thesis using demo_a_check [of "demo_node 1 Map.empty"] t r
    by (auto simp: ConnectBlock_def v Let_def WriteBlockIndex_def db demo_txmap_def blk_st1_def)
qed

lemma demo_synced: "synced demo_chain (demo_node 5 demo_txmap) 5"
proof -
  have rb: "ReadBlock demo_chain demo_a_entry = Some demo_a"
  proof -
    have "read_block demo_chain 1 8 = Some demo_a" by (simp add: demo_chain_def)
    then show ?thesis by (simp add: ReadBlock_def demo_entries demo_hashes)
  qed
  obtain pi db' ev where c: "ConnectBlock ssl_prefix (st_env demo_chain (demo_node 1 Map.empty)) (txdb (demo_node 1 Map.empty))
      (chain_of (demo_node 1 Map.empty) 5) False demo_a = Inr (pi, db', ev)" "db_tx db' = demo_txmap"
    unfolding demo_chains using demo_a_connects by blast
  have ssl: "ce_ssl demo_chain = ssl_prefix" by (simp add: demo_chain_def)
  have "replay demo_chain [demo_a] (db_tx db')"
  proof (rule replay.block)
    show "replay demo_chain [] (db_tx (txdb (demo_node 1 Map.empty)))" using replay.genesis by (simp add: demo_node_def)
    show "ConnectBlock (ce_ssl demo_chain) (st_env demo_chain (demo_node 1 Map.empty)) (txdb (demo_node 1 Map.empty))
      (chain_of (demo_node 1 Map.empty) 5) False demo_a = Inr (pi, db', ev)" unfolding ssl by (rule c(1))
  qed (simp_all add: demo_chains rb demo_entries list_all_iff)
  then have "ledger_at demo_chain (demo_node 5 demo_txmap) 5"
    unfolding ledger_at_def demo_chains using c(2) rb by (auto simp: demo_node_def intro!: exI [of _ "[demo_a]"])
  moreover have "flags_at (demo_node 5 demo_txmap) 5"
    unfolding demo_chains by (auto simp: flags_def nexts_def demo_node_def demo_entries)
  ultimately show ?thesis using demo_index_ok by (simp add: synced_def) (simp add: demo_node_def)
qed

lemma demo_tip: "tip_agrees (demo_node 5 demo_txmap)"
  by (simp add: tip_agrees_def demo_node_def chain_trust_def)

lemma demo_acceptable: "acceptable demo_chain 1 9 demo_b demo_genesis_entry (demo_node 5 demo_txmap)"
proof -
  have "b_hashPrevBlock demo_b = 1" by (simp add: demo_b_def demo_blk_def)
  moreover have "txids demo_chain demo_b = [GetHash (ce_ssl demo_chain) demo_coinbase]" by (simp add: txids_def demo_b_def demo_blk_def)
  ultimately show ?thesis
    by (simp add: acceptable_def demo_hashes fresh_block_def chain_txids_def demo_chains demo_entries)
       (simp add: demo_chain_def demo_node_def)
qed

section \<open>Checkpoints\<close>

text \<open>When the first postponed block cannot be read (or, likewise, connected), \<open>SetBestChain\<close> reports success and makes
  the new tip the best block in memory, although the database stops at the intermediate block.\<close>

lemma postponed_failure:
  assumes "pindexGenesisBlock st \<noteq> None" "b_hashPrevBlock block \<noteq> hashBestChain st"
    and "postpone (case pindexBest st of None \<Rightarrow> 0 | Some b \<Rightarrow> chain_trust st b) (chain_of st hNew) = (sec @ [p], q # qs)"
    and "Reorganize C (bi_hash q) st = (Inr (), st1)" "ReadBlock C p = None"
  shows "\<exists>st'. SetBestChain C block hNew st = (True, st') \<and> pindexBest st' = Some hNew \<and> db_hashBestChain st' = db_hashBestChain st1"
  using assms by (auto simp: SetBestChain_def Let_def)

lemma trace_back_hit:
  assumes "sorted_wrt (\<lambda>x y. bi_nHeight x > bi_nHeight y) ch" "x \<in> set ch"
  shows "\<exists>r. trace_back (bi_nHeight x) ch = x # r"
  using assms
proof (induction ch)
  case (Cons y ys)
  show ?case
  proof (cases "x = y")
    case False
    then have "x \<in> set ys" "bi_nHeight y > bi_nHeight x" using Cons.prems by auto
    then show ?thesis using Cons.IH Cons.prems(1) by (simp add: trace_back_def)
  qed (simp add: trace_back_def)
qed simp

lemma trace_back_subset: "set (trace_back n ch) \<subseteq> set ch"
  by (auto simp: trace_back_def dest: set_dropWhileD)

lemma trace_back_reaches:
  assumes "index_ok C st" "mapBlockIndex st h = Some s"
  shows "(case trace_back (bi_nHeight s) (chain_of st k) of [] \<Rightarrow> False | p # _ \<Rightarrow> \<not> (bi_nHeight p < bi_nHeight s \<or> bi_hash p \<noteq> h)) \<longleftrightarrow>
    h \<in> set (map bi_hash (chain_of st k))"
proof
  assume "case trace_back (bi_nHeight s) (chain_of st k) of [] \<Rightarrow> False | p # _ \<Rightarrow> \<not> (bi_nHeight p < bi_nHeight s \<or> bi_hash p \<noteq> h)"
  then obtain p r where "trace_back (bi_nHeight s) (chain_of st k) = p # r" "bi_hash p = h" by (auto split: list.splits)
  then show "h \<in> set (map bi_hash (chain_of st k))" using trace_back_subset [of "bi_nHeight s" "chain_of st k"] by auto
next
  assume "h \<in> set (map bi_hash (chain_of st k))"
  then have "s \<in> set (chain_of st k)" using chain_of_mem [OF assms(1), of _ k] assms(2) by auto
  from trace_back_hit [OF chain_of_heights [OF assms(1)] this]
  show "case trace_back (bi_nHeight s) (chain_of st k) of [] \<Rightarrow> False | p # _ \<Rightarrow> \<not> (bi_nHeight p < bi_nHeight s \<or> bi_hash p \<noteq> h)"
    using tree_okD(1) [OF assms] by auto
qed

section \<open>Properties\<close>



text \<open>C4. The chain with the most trust wins: a block added successfully becomes the tip exactly when its
  chain has more trust than the best chain, whose trust is then the new chain's; otherwise, and on
  every error, the tip and the best trust stay as they were.\<close>

theorem most_trust_wins:
  assumes "synced C st (db_hashBestChain st)" "tip_agrees st" "acceptable C nFileIn nBlockPosIn block q st"
    and "AddToBlockIndex C nFileIn nBlockPosIn hashProof block st = (r, st')"
  shows "let trust = bi_nChainTrust q + GetBlockTrust (bn (ce_ssl C)) (b_nBits block) in
     if r = Inr () \<and> trust > nBestChainTrust st
     then pindexBest st' = Some (b_GetHash (ce_env C) block) \<and> nBestChainTrust st' = trust
     else pindexBest st' = pindexBest st \<and> nBestChainTrust st' = nBestChainTrust st"
  using AddToBlockIndex_outcome [OF assms] by blast

theorem most_trust_wins_witness:
  "\<exists>r st'. AddToBlockIndex demo_chain 1 9 0 demo_b (demo_node 5 demo_txmap) = (r, st') \<and>
     pindexBest st' \<in> {Some 3, Some 5} \<and> nBestChainTrust st' \<ge> nBestChainTrust (demo_node 5 demo_txmap)"
proof -
  obtain r st' where a: "AddToBlockIndex demo_chain 1 9 0 demo_b (demo_node 5 demo_txmap) = (r, st')" by fastforce
  have s: "synced demo_chain (demo_node 5 demo_txmap) (db_hashBestChain (demo_node 5 demo_txmap))"
    using demo_synced syncedD(5) [OF demo_synced] by simp
  have t: "pindexBest (demo_node 5 demo_txmap) = Some 5" by (simp add: demo_node_def)
  from most_trust_wins [OF s demo_tip demo_acceptable a] a show ?thesis
    by (auto simp: Let_def demo_hashes t split: if_splits)
qed

text \<open>The walk of \<open>Reorganize\<close> from the two tips ends at the last common block: the first entry of the best
  chain, from the tip down, that is also on the new chain; it fails only when there is none.\<close>

lemma fork_is_last_common:
  assumes "index_ok C st"
  shows "find_fork (chain_of st a) (chain_of st b) = find (\<lambda>h. h \<in> set (map bi_hash (chain_of st b))) (map bi_hash (chain_of st a))"
  by (rule chain_fork [OF assms])



text \<open>The synchronized checkpoint: on the main network a block above it is in order exactly when the
  checkpoint is one of its ancestors, at its height only the checkpoint itself is, below it only a block that is
  already in the index.\<close>

lemma CheckSync_correct:
  assumes "index_ok C st" "\<not> fTestNet C" "mapBlockIndex st hashPrev = Some p" "bi_nHeight p < 2 ^ 31 - 1"
    and "mapBlockIndex st (hashSyncCheckpoint st) = Some s"
  shows "CheckSync C hashBlock hashPrev st = Some
    (if bi_nHeight p + 1 > bi_nHeight s then hashSyncCheckpoint st \<in> set (map bi_hash (chain_of st hashPrev))
     else if bi_nHeight p + 1 = bi_nHeight s then hashBlock = hashSyncCheckpoint st
     else mapBlockIndex st hashBlock \<noteq> None)"
proof -
  have h: "i32 (bi_nHeight p + 1) = bi_nHeight p + 1" using assms(4) tree_okD(3) [OF assms(1,3)] by (simp add: in_i32_def)
  show ?thesis
    unfolding CheckSync_def Let_def chain_of_hd [OF assms(1,3)] h trace_back_reaches [OF assms(1,5), symmetric]
    using assms(2,5) by auto
qed

end
