(* ===== verification/Process.thy ===== *)
theory Process
  imports Chain_Inv
begin

text \<open>
  Receiving a block (\<open>ProcessBlock\<close> in \<open>main.cpp\<close>) with the blocks whose parent is still missing, and the block
  locator (\<open>CBlockLocator\<close> in \<open>main.h\<close>). \<open>mapOrphanBlocksByPrev\<close> is a multimap: a list of pairs in the order of
  insertion, of which only the entries of one key are ever looked at. Where a stored block ends up is the
  parameter \<open>disk\<close>; \<open>pfrom\<close> says whether the block came from a peer and \<open>fIBD\<close> is what
  \<open>IsInitialBlockDownload\<close> answers. What is said to the peer is returned as a list. Not modelled are the
  wallet's savings and multisend payments and the broadcasting of a checkpoint by the holder of the master key.
\<close>

section \<open>Blocks without parent\<close>

record proc_state =
  node :: node_state
  mapOrphanBlocks :: "uint256 \<rightharpoonup> CBlock"
  mapOrphanBlocksByPrev :: "(uint256 \<times> CBlock) list"
  setStakeSeenOrphan :: "(COutPoint \<times> u32) set"

definition b_GetProofOfStake :: "CBlock \<Rightarrow> COutPoint \<times> u32" where
  "b_GetProofOfStake b =
     (if b_IsProofOfStake b then (prevout (vin (vtx b ! 1) ! 0), nTime (vtx b ! 1)) else (COutPoint_Null, 0))"

text \<open>The walk back to the first block of an orphan chain; \<open>None\<close> when it does not end.\<close>

partial_function (option) orphan_root :: "(uint256 \<rightharpoonup> CBlock) \<Rightarrow> CBlock \<Rightarrow> CBlock option" where
  "orphan_root m b = (case m (b_hashPrevBlock b) of None \<Rightarrow> Some b | Some p \<Rightarrow> orphan_root m p)"

definition GetOrphanRoot :: "node_env \<Rightarrow> (uint256 \<rightharpoonup> CBlock) \<Rightarrow> CBlock \<Rightarrow> uint256 option" where
  "GetOrphanRoot E m b = map_option (b_GetHash E) (orphan_root m b)"

definition WantedByOrphan :: "(uint256 \<rightharpoonup> CBlock) \<Rightarrow> CBlock \<Rightarrow> uint256 option" where
  "WantedByOrphan m b = map_option b_hashPrevBlock (orphan_root m b)"

definition WantedByPendingSyncCheckpoint :: "uint256 \<Rightarrow> proc_state \<Rightarrow> bool option" where
  "WantedByPendingSyncCheckpoint hashBlock ps =
     (let hp = hashPendingCheckpoint (node ps) in
      if hp = 0 then Some False
      else if hashBlock = hp then Some True
      else case mapOrphanBlocks ps hp of
             None \<Rightarrow> Some False
           | Some b \<Rightarrow> map_option (\<lambda>w. hashBlock = w) (WantedByOrphan (mapOrphanBlocks ps) b))"

section \<open>ProcessBlock\<close>

datatype net_msg = Misbehaving nat | AskFor uint256 | PushGetBlocks "uint256 option" uint256

datatype process_error = PB_known | PB_known_orphan | PB_duplicate_stake | PB_check block_error | PB_too_little_work
  | PB_duplicate_stake_orphan | PB_accept accept_block_error

datatype process_result = PB_error process_error | PB_orphan | PB_accepted

type_synonym disk = "CBlock \<Rightarrow> (u32 \<times> u32) option"

text \<open>The children of an accepted block, in order: each is offered to \<open>AcceptBlock\<close> and leaves the
  orphans either way. The accepted ones are queued.\<close>

fun accept_children :: "chain_env \<Rightarrow> disk \<Rightarrow> CBlock list \<Rightarrow> proc_state \<Rightarrow> uint256 list \<times> proc_state" where
  "accept_children C dsk [] ps = ([], ps)"
| "accept_children C dsk (b # r) ps =
     (case AcceptBlock C (dsk b) b (node ps) of (res, st) \<Rightarrow>
        let h = b_GetHash (ce_env C) b;
            ps1 = ps\<lparr>node := st, mapOrphanBlocks := (mapOrphanBlocks ps)(h := None),
                     setStakeSeenOrphan := setStakeSeenOrphan ps - {b_GetProofOfStake b}\<rparr>
        in case accept_children C dsk r ps1 of (acc, ps2) \<Rightarrow>
             ((case res of Inl _ \<Rightarrow> acc | Inr _ \<Rightarrow> h # acc), ps2))"

definition children_of :: "uint256 \<Rightarrow> (uint256 \<times> CBlock) list \<Rightarrow> CBlock list" where
  "children_of h byPrev = map snd (filter (\<lambda>x. fst x = h) byPrev)"

lemma accept_children_effect:
  assumes "accept_children C dsk bs ps = (acc, ps')"
  shows "mapOrphanBlocksByPrev ps' = mapOrphanBlocksByPrev ps \<and> length acc \<le> length bs \<and>
    mapOrphanBlocks ps' = mapOrphanBlocks ps |` (- (b_GetHash (ce_env C) ` set bs)) \<and>
    setStakeSeenOrphan ps' = setStakeSeenOrphan ps - b_GetProofOfStake ` set bs"
  using assms
proof (induction bs arbitrary: ps acc)
  case (Cons b bs)
  obtain res st where a: "AcceptBlock C (dsk b) b (node ps) = (res, st)" by fastforce
  let ?ps = "ps\<lparr>node := st, mapOrphanBlocks := (mapOrphanBlocks ps)(b_GetHash (ce_env C) b := None),
    setStakeSeenOrphan := setStakeSeenOrphan ps - {b_GetProofOfStake b}\<rparr>"
  obtain acc1 where r: "accept_children C dsk bs ?ps = (acc1, ps')" and acc: "length acc \<le> Suc (length acc1)"
    using Cons.prems a by (auto simp: Let_def split: prod.splits sum.splits)
  from Cons.IH [OF r] acc show ?case by (auto simp: restrict_map_def fun_eq_iff)
qed (simp add: restrict_map_def)

lemma accept_children_keeps:
  "mapOrphanBlocksByPrev (snd (accept_children C dsk bs ps)) = mapOrphanBlocksByPrev ps"
  "length (fst (accept_children C dsk bs ps)) \<le> length bs"
  using accept_children_effect [of C dsk bs ps] by (metis prod.collapse)+

text \<open>The work queue. A key leaves the multimap once its blocks were offered, so the loop ends.\<close>

function process_queue :: "chain_env \<Rightarrow> disk \<Rightarrow> uint256 list \<Rightarrow> proc_state \<Rightarrow> proc_state" where
  "process_queue C dsk [] ps = ps"
| "process_queue C dsk (hashPrev # q) ps =
     (let r = accept_children C dsk (children_of hashPrev (mapOrphanBlocksByPrev ps)) ps
      in process_queue C dsk (q @ fst r)
           ((snd r)\<lparr>mapOrphanBlocksByPrev := filter (\<lambda>x. fst x \<noteq> hashPrev) (mapOrphanBlocksByPrev (snd r))\<rparr>))"
  by pat_completeness auto
termination
proof (relation "measures [\<lambda>(C, dsk, q, ps). length (mapOrphanBlocksByPrev ps), \<lambda>(C, dsk, q, ps). length q]", goal_cases)
  case (2 C dsk h q ps r)
  have l: "length (fst r) \<le> length (children_of h (mapOrphanBlocksByPrev ps))" "mapOrphanBlocksByPrev (snd r) = mapOrphanBlocksByPrev ps"
    using 2 accept_children_keeps by simp_all
  show ?case
  proof (cases "filter (\<lambda>x. fst x = h) (mapOrphanBlocksByPrev ps) = []")
    case True
    then have "fst r = []" "filter (\<lambda>x. fst x \<noteq> h) (mapOrphanBlocksByPrev ps) = mapOrphanBlocksByPrev ps"
      using l(1) by (simp add: children_of_def, simp add: filter_empty_conv filter_id_conv)
    then show ?thesis using l(2) by simp
  next
    case False
    then have "length (filter (\<lambda>x. fst x \<noteq> h) (mapOrphanBlocksByPrev ps)) < length (mapOrphanBlocksByPrev ps)"
      using length_filter_less [of _ "mapOrphanBlocksByPrev ps" "\<lambda>x. fst x \<noteq> h"] by (auto simp: filter_empty_conv)
    then show ?thesis using l(2) by simp
  qed
qed simp

text \<open>The check against blocks with too little work, relative to the synchronized checkpoint.\<close>

definition too_little_work :: "chain_env \<Rightarrow> CBlock \<Rightarrow> node_state \<Rightarrow> bool" where
  "too_little_work C block st =
     (let B = bn (ce_ssl C); np = env_params (ce_env C); pcheckpoint = chain_of st (hashSyncCheckpoint st);
          deltaTime = i64 (b_GetBlockTime block - uint (bi_nTime (hd pcheckpoint)));
          bnRequired = SetCompact B
            (if b_IsProofOfStake block
             then ComputeMinStake B np (bi_nBits (hd (GetLastBlockIndex True pcheckpoint))) deltaTime
             else ComputeMinWork B np (bi_nBits (hd (GetLastBlockIndex False pcheckpoint))) deltaTime)
      in SetCompact B (b_nBits block) > bnRequired)"

definition AskForPendingSyncCheckpoint :: "bool \<Rightarrow> proc_state \<Rightarrow> net_msg list" where
  "AskForPendingSyncCheckpoint pfrom ps =
     (let hp = hashPendingCheckpoint (node ps) in
      if pfrom \<and> hp \<noteq> 0 \<and> mapBlockIndex (node ps) hp = None \<and> mapOrphanBlocks ps hp = None then [AskFor hp] else [])"

text \<open>Shunting off a block whose parent is missing.\<close>

definition add_orphan_block :: "chain_env \<Rightarrow> CBlock \<Rightarrow> proc_state \<Rightarrow> proc_state" where
  "add_orphan_block C block ps =
     ps\<lparr>mapOrphanBlocks := (mapOrphanBlocks ps)(b_GetHash (ce_env C) block \<mapsto> block),
        mapOrphanBlocksByPrev := mapOrphanBlocksByPrev ps @ [(b_hashPrevBlock block, block)],
        setStakeSeenOrphan := (if b_IsProofOfStake block then insert (b_GetProofOfStake block) (setStakeSeenOrphan ps)
                               else setStakeSeenOrphan ps)\<rparr>"

text \<open>The checks before the parent is looked for; \<open>WantedByPendingSyncCheckpoint\<close> changes nothing, so its answer
  \<open>wanted\<close> is computed once.\<close>

definition process_checks :: "chain_env \<Rightarrow> bool \<Rightarrow> bool \<Rightarrow> CBlock \<Rightarrow> proc_state \<Rightarrow> (process_error \<times> net_msg list) option" where
  "process_checks C pfrom wanted block ps =
     (let hash = b_GetHash (ce_env C) block; st = node ps; has_child = hash \<in> fst ` set (mapOrphanBlocksByPrev ps) in
      if b_IsProofOfStake block \<and> b_GetProofOfStake block \<in> setStakeSeen st \<and> \<not> has_child \<and> \<not> wanted then Some (PB_duplicate_stake, [])
      else case CheckBlock (ce_ssl C) (st_env C st) True True True block of
        Some e \<Rightarrow> Some (PB_check e, [])
      | None \<Rightarrow>
          if mapBlockIndex st (hashSyncCheckpoint st) \<noteq> None \<and> b_hashPrevBlock block \<noteq> hashBestChain st \<and> \<not> wanted \<and>
             too_little_work C block st
          then Some (PB_too_little_work, if pfrom then [Misbehaving 100] else [])
          else None)"

definition shunt_orphan :: "chain_env \<Rightarrow> bool \<Rightarrow> bool \<Rightarrow> bool \<Rightarrow> net_msg list \<Rightarrow> CBlock \<Rightarrow> proc_state \<Rightarrow>
    ((process_result \<times> net_msg list) \<times> proc_state) option" where
  "shunt_orphan C pfrom fIBD wanted ask block ps =
     (let has_child = b_GetHash (ce_env C) block \<in> fst ` set (mapOrphanBlocksByPrev ps) in
      if b_IsProofOfStake block \<and> b_GetProofOfStake block \<in> setStakeSeenOrphan ps \<and> \<not> has_child \<and> \<not> wanted
      then Some ((PB_error PB_duplicate_stake_orphan, ask), ps)
      else let ps1 = add_orphan_block C block ps in
        if \<not> pfrom then Some ((PB_orphan, ask), ps1)
        else case (GetOrphanRoot (ce_env C) (mapOrphanBlocks ps1) block, WantedByOrphan (mapOrphanBlocks ps1) block) of
               (Some root, Some w) \<Rightarrow>
                 Some ((PB_orphan, ask @ [PushGetBlocks (pindexBest (node ps)) root] @ (if fIBD then [] else [AskFor w])), ps1)
             | _ \<Rightarrow> None)"

definition ProcessBlock :: "chain_env \<Rightarrow> disk \<Rightarrow> bool \<Rightarrow> bool \<Rightarrow> CBlock \<Rightarrow> proc_state \<Rightarrow>
    ((process_result \<times> net_msg list) \<times> proc_state) option" where
  "ProcessBlock C dsk pfrom fIBD block ps =
     (let hash = b_GetHash (ce_env C) block; st = node ps in
      if mapBlockIndex st hash \<noteq> None then Some ((PB_error PB_known, []), ps)
      else if mapOrphanBlocks ps hash \<noteq> None then Some ((PB_error PB_known_orphan, []), ps)
      else case WantedByPendingSyncCheckpoint hash ps of
        None \<Rightarrow> None
      | Some wanted \<Rightarrow>
          (case process_checks C pfrom wanted block ps of
             Some (e, msgs) \<Rightarrow> Some ((PB_error e, msgs), ps)
           | None \<Rightarrow>
               let ask = (if fIBD then [] else AskForPendingSyncCheckpoint pfrom ps) in
               if mapBlockIndex st (b_hashPrevBlock block) = None then shunt_orphan C pfrom fIBD wanted ask block ps
               else (case AcceptBlock C (dsk block) block st of
                       (Inl e, st1) \<Rightarrow> Some ((PB_error (PB_accept e), ask), ps\<lparr>node := st1\<rparr>)
                     | (Inr _, st1) \<Rightarrow> Some ((PB_accepted, ask), process_queue C dsk [hash] (ps\<lparr>node := st1\<rparr>)))))"

declare process_queue.simps(2) [simp del]

section \<open>Checkpoint messages\<close>

definition in_main :: "node_state \<Rightarrow> uint256 \<Rightarrow> bool" where
  "in_main st hash = (case mapBlockIndex st hash of None \<Rightarrow> False | Some pindex \<Rightarrow> IsInMainChain st pindex)"

text \<open>The signed message is a version and the hash of the checkpoint; \<open>None\<close> is the exception of a short
  stream. The public master key of this network is the empty string.\<close>

record CSyncCheckpoint =
  vchMsg :: "byte list"
  vchSig :: "byte list"

definition strMasterPubKey :: "byte list" where "strMasterPubKey = []"

definition CheckSignature_sync :: "ssl_lib \<Rightarrow> CSyncCheckpoint \<Rightarrow> uint256 option option" where
  "CheckSignature_sync L m =
     (if \<not> CKey_SetPubKey L strMasterPubKey then Some None
      else if \<not> CKey_Verify L strMasterPubKey (Hash L (vchMsg m)) (vchSig m) then Some None
      else if length (vchMsg m) < 36 then None
      else Some (Some (bytes_u256 (take 32 (drop 4 (vchMsg m))))))"

text \<open>The block of the checkpoint becomes part of the main chain; \<open>False\<close> when that fails.\<close>

definition checkpoint_to_main :: "chain_env \<Rightarrow> uint256 \<Rightarrow> node_state \<Rightarrow> bool \<times> node_state" where
  "checkpoint_to_main C hashCheckpoint st =
     (let p = hd (chain_of st hashCheckpoint) in
      if IsInMainChain st p then (True, st)
      else case ReadBlock C p of
             None \<Rightarrow> (False, st)
           | Some block \<Rightarrow>
               (case SetBestChain C block hashCheckpoint st of
                  (False, st1) \<Rightarrow> (False, st1\<lparr>hashInvalidCheckpoint := hashCheckpoint\<rparr>)
                | (True, st1) \<Rightarrow> (True, st1)))"

definition ProcessSyncCheckpoint :: "chain_env \<Rightarrow> bool \<Rightarrow> CSyncCheckpoint \<Rightarrow> proc_state \<Rightarrow>
    ((bool \<times> net_msg list) \<times> proc_state) option" where
  "ProcessSyncCheckpoint C pfrom m ps =
     (case CheckSignature_sync (ce_ssl C) m of
        None \<Rightarrow> None
      | Some None \<Rightarrow> Some ((False, []), ps)
      | Some (Some hashCheckpoint) \<Rightarrow>
          let st = node ps in
          if mapBlockIndex st hashCheckpoint = None then
            let ps1 = ps\<lparr>node := st\<lparr>hashPendingCheckpoint := hashCheckpoint\<rparr>\<rparr> in
            if \<not> pfrom then Some ((False, []), ps1)
            else (case (case mapOrphanBlocks ps hashCheckpoint of
                          None \<Rightarrow> Some hashCheckpoint
                        | Some b \<Rightarrow> WantedByOrphan (mapOrphanBlocks ps) b) of
                    None \<Rightarrow> None
                  | Some w \<Rightarrow> Some ((False, [PushGetBlocks (pindexBest st) hashCheckpoint, AskFor w]), ps1))
          else (case ValidateSyncCheckpoint hashCheckpoint st of
                  (False, st1) \<Rightarrow> Some ((False, []), ps\<lparr>node := st1\<rparr>)
                | (True, st1) \<Rightarrow>
                    (case checkpoint_to_main C hashCheckpoint st1 of
                       (False, st2) \<Rightarrow> Some ((False, []), ps\<lparr>node := st2\<rparr>)
                     | (True, st2) \<Rightarrow>
                         Some ((True, []), ps\<lparr>node := (WriteSyncCheckpoint hashCheckpoint st2)\<lparr>hashPendingCheckpoint := 0\<rparr>\<rparr>))))"

text \<open>\<open>ResetSyncCheckpoint\<close>, which reads the checkpoints of the main network on every network.\<close>

definition ResetSyncCheckpoint :: "chain_env \<Rightarrow> node_state \<Rightarrow> bool \<times> node_state" where
  "ResetSyncCheckpoint C st =
     (let hash = snd (last mapCheckpoints) in
      case (case mapBlockIndex st hash of
              None \<Rightarrow> (True, st\<lparr>hashPendingCheckpoint := hash\<rparr>)
            | Some p \<Rightarrow>
                if IsInMainChain st p then (True, st)
                else case ReadBlock C p of
                       None \<Rightarrow> (False, st)
                     | Some block \<Rightarrow> SetBestChain C block hash st) of
        (False, st1) \<Rightarrow> (False, st1)
      | (True, st1) \<Rightarrow>
          (case find (\<lambda>(_, h). in_main st1 h) (rev mapCheckpoints) of
             None \<Rightarrow> (False, st1)
           | Some (_, h) \<Rightarrow> (True, WriteSyncCheckpoint h st1)))"

text \<open>With the empty master key no checkpoint message is ever accepted, as long as the library rejects the empty
  encoding of a public key.\<close>

lemma sync_checkpoints_off:
  "\<not> CKey_SetPubKey (ce_ssl C) [] \<Longrightarrow> ProcessSyncCheckpoint C pfrom m ps = Some ((False, []), ps)"
  by (simp add: ProcessSyncCheckpoint_def CheckSignature_sync_def strMasterPubKey_def)

section \<open>The orphan blocks are consistent\<close>

text \<open>Both maps hold the same blocks, each under its own hash and under its parent's, and every remembered
  stake belongs to an orphan.\<close>

definition orphans_ok :: "chain_env \<Rightarrow> proc_state \<Rightarrow> bool" where
  "orphans_ok C ps \<longleftrightarrow>
     distinct (map (\<lambda>x. b_GetHash (ce_env C) (snd x)) (mapOrphanBlocksByPrev ps)) \<and>
     (\<forall>x \<in> set (mapOrphanBlocksByPrev ps). fst x = b_hashPrevBlock (snd x)) \<and>
     mapOrphanBlocks ps = map_of (map (\<lambda>x. (b_GetHash (ce_env C) (snd x), snd x)) (mapOrphanBlocksByPrev ps)) \<and>
     setStakeSeenOrphan ps \<subseteq> (\<lambda>x. b_GetProofOfStake (snd x)) ` set (mapOrphanBlocksByPrev ps)"

lemma map_of_filter:
  assumes "distinct (map f xs)"
  shows "map_of (map (\<lambda>x. (f x, g x)) xs) |` (- (f ` {x \<in> set xs. P x})) = map_of (map (\<lambda>x. (f x, g x)) (filter (\<lambda>x. \<not> P x) xs))"
  using assms
proof (induction xs)
  case (Cons a xs)
  have a: "f a \<notin> f ` set xs" using Cons.prems by simp
  have n: "map_of (map (\<lambda>x. (f x, g x)) (filter Q xs)) (f a) = None" for Q
    using a by (auto simp: map_of_eq_None_iff image_image)
  have IH: "map_of (map (\<lambda>x. (f x, g x)) xs) |` (- (f ` {x \<in> set xs. P x})) = map_of (map (\<lambda>x. (f x, g x)) (filter (\<lambda>x. \<not> P x) xs))"
    using Cons by simp
  show ?case
  proof (rule ext)
    fix h
    show "(map_of (map (\<lambda>x. (f x, g x)) (a # xs)) |` (- (f ` {x \<in> set (a # xs). P x}))) h =
      map_of (map (\<lambda>x. (f x, g x)) (filter (\<lambda>x. \<not> P x) (a # xs))) h"
    proof (cases "h = f a")
      case True
      have "f a \<notin> f ` {x \<in> set xs. P x}" using a by blast
      then show ?thesis using True n by (cases "P a") (auto simp: restrict_map_def)
    next
      case False
      then have "h \<in> - (f ` {x \<in> set (a # xs). P x}) \<longleftrightarrow> h \<in> - (f ` {x \<in> set xs. P x})" by auto
      then show ?thesis using False IH [THEN fun_cong, of h] by (auto simp: restrict_map_def split: if_splits)
    qed
  qed
qed (simp add: restrict_map_def)

lemma process_queue_step:
  assumes "orphans_ok C ps" "accept_children C dsk (children_of h (mapOrphanBlocksByPrev ps)) ps = (acc, ps1)"
  shows "orphans_ok C (ps1\<lparr>mapOrphanBlocksByPrev := filter (\<lambda>x. fst x \<noteq> h) (mapOrphanBlocksByPrev ps1)\<rparr>)"
proof -
  let ?hash = "\<lambda>x. b_GetHash (ce_env C) (snd x)" and ?by = "mapOrphanBlocksByPrev ps"
  note e = accept_children_effect [OF assms(2)]
  have d: "distinct (map ?hash ?by)" and m: "mapOrphanBlocks ps = map_of (map (\<lambda>x. (?hash x, snd x)) ?by)"
    and st: "setStakeSeenOrphan ps \<subseteq> (\<lambda>x. b_GetProofOfStake (snd x)) ` set ?by" using assms(1) by (simp_all add: orphans_ok_def)
  have k: "g ` set (children_of h ?by) = (\<lambda>x. g (snd x)) ` {x \<in> set ?by. fst x = h}" for g :: "CBlock \<Rightarrow> 'c"
    by (auto simp: children_of_def)
  have "mapOrphanBlocks ps1 = map_of (map (\<lambda>x. (?hash x, snd x)) (filter (\<lambda>x. fst x \<noteq> h) ?by))"
    using e map_of_filter [OF d, of snd "\<lambda>x. fst x = h"] unfolding m k by simp
  moreover have "setStakeSeenOrphan ps1 \<subseteq> (\<lambda>x. b_GetProofOfStake (snd x)) ` set (filter (\<lambda>x. fst x \<noteq> h) ?by)"
  proof
    fix s
    assume "s \<in> setStakeSeenOrphan ps1"
    then have s: "s \<in> setStakeSeenOrphan ps" "s \<notin> (\<lambda>x. b_GetProofOfStake (snd x)) ` {x \<in> set ?by. fst x = h}" using e unfolding k by auto
    then obtain x where "x \<in> set ?by" "s = b_GetProofOfStake (snd x)" "fst x \<noteq> h" using st by blast
    then show "s \<in> (\<lambda>x. b_GetProofOfStake (snd x)) ` set (filter (\<lambda>x. fst x \<noteq> h) ?by)" by auto
  qed
  ultimately show ?thesis using assms(1) e by (auto simp: orphans_ok_def distinct_map_filter)
qed

lemma process_queue_orphans:
  assumes "orphans_ok C ps"
  shows "orphans_ok C (process_queue C dsk q ps) \<and>
    set (mapOrphanBlocksByPrev (process_queue C dsk q ps)) \<subseteq> {x \<in> set (mapOrphanBlocksByPrev ps). fst x \<notin> set q}"
  using assms
proof (induction C dsk q ps rule: process_queue.induct)
  case (2 C dsk h q ps)
  obtain acc ps1 where r: "accept_children C dsk (children_of h (mapOrphanBlocksByPrev ps)) ps = (acc, ps1)" by fastforce
  have "mapOrphanBlocksByPrev ps1 = mapOrphanBlocksByPrev ps" using accept_children_effect [OF r] by simp
  then show ?case using 2(1) [OF refl] process_queue_step [OF 2(2) r] by (auto simp: r process_queue.simps(2))
qed simp

lemma add_orphan_ok:
  assumes "orphans_ok C ps" "mapOrphanBlocks ps (b_GetHash (ce_env C) block) = None"
  shows "orphans_ok C (add_orphan_block C block ps)"
proof -
  have n: "b_GetHash (ce_env C) block \<notin> (\<lambda>x. b_GetHash (ce_env C) (snd x)) ` set (mapOrphanBlocksByPrev ps)"
    using assms by (auto simp: orphans_ok_def map_of_eq_None_iff image_image)
  have m: "mapOrphanBlocks ps = map_of (map (\<lambda>x. (b_GetHash (ce_env C) (snd x), snd x)) (mapOrphanBlocksByPrev ps))"
    using assms(1) by (simp add: orphans_ok_def)
  have "(mapOrphanBlocks ps)(b_GetHash (ce_env C) block \<mapsto> block) =
      map_of (map (\<lambda>x. (b_GetHash (ce_env C) (snd x), snd x)) (mapOrphanBlocksByPrev ps @ [(b_hashPrevBlock block, block)]))"
  proof (rule ext)
    fix h
    show "((mapOrphanBlocks ps)(b_GetHash (ce_env C) block \<mapsto> block)) h =
      map_of (map (\<lambda>x. (b_GetHash (ce_env C) (snd x), snd x)) (mapOrphanBlocksByPrev ps @ [(b_hashPrevBlock block, block)])) h"
      using assms(2) unfolding m by (auto simp: map_add_def split: option.split)
  qed
  then show ?thesis using assms(1) n by (auto simp: orphans_ok_def add_orphan_block_def)
qed

section \<open>The walk to the root\<close>

text \<open>The hash links between orphans, parent first.\<close>

definition orphan_links :: "(uint256 \<rightharpoonup> CBlock) \<Rightarrow> (uint256 \<times> uint256) set" where
  "orphan_links m = {(b_hashPrevBlock b, h) | b h. m h = Some b}"

lemma orphan_root_ends:
  assumes "wf (orphan_links m)"
  shows "\<exists>r. orphan_root m b = Some r \<and> m (b_hashPrevBlock r) = None"
  using assms
proof (induction "b_hashPrevBlock b" arbitrary: b rule: wf_induct_rule)
  case (less b)
  show ?case
  proof (cases "m (b_hashPrevBlock b)")
    case None
    then show ?thesis by (simp add: orphan_root.simps)
  next
    case (Some p)
    then have "(b_hashPrevBlock p, b_hashPrevBlock b) \<in> orphan_links m" by (auto simp: orphan_links_def)
    from less [OF this] Some show ?thesis by (simp add: orphan_root.simps [of m b])
  qed
qed

section \<open>Block locators\<close>

text \<open>\<open>CBlockLocator::Set\<close>: from the second argument on, the number of hashes already listed and the chain still
  to cover. \<open>nStep\<close> is at least 1 and never more than twice the length of the chain, so it does not overflow.\<close>

function locator_loop :: "nat \<Rightarrow> nat \<Rightarrow> CBlockIndex list \<Rightarrow> uint256 list" where
  "locator_loop nStep n [] = []"
| "locator_loop nStep n (p # r) =
     bi_hash p # locator_loop (if Suc n > 10 then nStep * 2 else nStep) (Suc n) (drop (nStep - 1) r)"
  by pat_completeness auto
termination by (relation "measure (\<lambda>(s, n, ch). length ch)") auto

definition locator_Set :: "CBlockIndex list \<Rightarrow> uint256 list" where
  "locator_Set pindex = locator_loop 1 0 pindex @ [genesis_hash]"

fun distance_loop :: "node_state \<Rightarrow> int \<Rightarrow> int \<Rightarrow> uint256 list \<Rightarrow> int" where
  "distance_loop st nDistance nStep [] = nDistance"
| "distance_loop st nDistance nStep (h # r) =
     (if in_main st h then nDistance
      else let nDistance1 = i32 (nDistance + nStep)
           in distance_loop st nDistance1 (if nDistance1 > 10 then i32 (nStep * 2) else nStep) r)"

definition GetDistanceBack :: "node_state \<Rightarrow> uint256 list \<Rightarrow> int" where
  "GetDistanceBack st vHave = distance_loop st 0 1 vHave"

definition locator_GetBlockIndex :: "node_state \<Rightarrow> uint256 list \<Rightarrow> uint256 option" where
  "locator_GetBlockIndex st vHave =
     (case find (in_main st) vHave of None \<Rightarrow> pindexGenesisBlock st | Some h \<Rightarrow> Some h)"

definition locator_GetBlockHash :: "node_state \<Rightarrow> uint256 list \<Rightarrow> uint256" where
  "locator_GetBlockHash st vHave = (case find (in_main st) vHave of None \<Rightarrow> genesis_hash | Some h \<Rightarrow> h)"

definition locator_GetHeight :: "node_state \<Rightarrow> uint256 list \<Rightarrow> int" where
  "locator_GetHeight st vHave =
     (case locator_GetBlockIndex st vHave of
        None \<Rightarrow> 0
      | Some h \<Rightarrow> (case mapBlockIndex st h of None \<Rightarrow> 0 | Some b \<Rightarrow> bi_nHeight b))"

lemma locator_doubling:
  assumes "10 \<le> n" "0 < s" "locator_loop s n ch \<noteq> []"
  shows "s * (2 ^ (length (locator_loop s n ch) - 1) - 1) < length ch"
  using assms
proof (induction s n ch rule: locator_loop.induct)
  case (2 s n p r)
  let ?rest = "locator_loop (s * 2) (Suc n) (drop (s - 1) r)"
  have e: "locator_loop s n (p # r) = bi_hash p # ?rest" using 2(2) by simp
  show ?case
  proof (cases "?rest = []")
    case True
    then show ?thesis unfolding e by simp
  next
    case False
    then have IH: "s * 2 * (2 ^ (length ?rest - 1) - 1) < length (drop (s - 1) r)" using 2 by simp
    obtain k where k: "length ?rest = Suc k" using False by (cases "length ?rest") auto
    have "s * (2 ^ Suc k - 1) = s * 2 * (2 ^ k - 1) + s" by (simp add: diff_mult_distrib2)
    moreover have "s * 2 * (2 ^ k - 1) < Suc (length r) - s" using IH [unfolded k] by simp
    ultimately show ?thesis using 2(3) k unfolding e by (simp del: locator_loop.simps)
  qed
qed simp

lemma locator_first:
  assumes "n \<le> 10" "length (locator_loop 1 n ch) > 10 - n"
  shows "2 ^ (length (locator_loop 1 n ch) - (10 - n) - 1) - 1 + (10 - n) < length ch"
  using assms
proof (induction "10 - n" arbitrary: n ch)
  case 0
  then have "n = 10" by simp
  then show ?case using locator_doubling [of 10 1 ch] 0 by fastforce
next
  case (Suc k)
  then obtain p r where ch: "ch = p # r" by (cases ch) auto
  have "n < 10" using Suc(2) by simp
  then have e: "locator_loop 1 n ch = bi_hash p # locator_loop 1 (Suc n) r" by (simp add: ch)
  have "2 ^ (length (locator_loop 1 (Suc n) r) - (10 - Suc n) - 1) - 1 + (10 - Suc n) < length r"
    by (rule Suc(1)) (use Suc(2-) e in simp_all)
  moreover have "length (bi_hash p # locator_loop 1 (Suc n) r) - (10 - n) - 1 = length (locator_loop 1 (Suc n) r) - (10 - Suc n) - 1"
    using \<open>n < 10\<close> by simp
  moreover have "10 - n = Suc (10 - Suc n)" using \<open>n < 10\<close> by simp
  ultimately show ?case unfolding ch e [unfolded ch] by (simp only: list.size)
qed

text \<open>A locator grows with the logarithm of the chain.\<close>

lemma locator_size: "2 ^ (length (locator_Set chain) - 12) \<le> max 1 (length chain)"
proof (cases "length (locator_loop 1 0 chain) > 10")
  case True
  then show ?thesis using locator_first [of 0 chain] by (simp add: locator_Set_def)
qed (simp add: locator_Set_def)

section \<open>An orphan block\<close>

definition demo_orphan :: CBlock where
  "demo_orphan = (demo_blk 0x03000007 4 blk_coinbase)\<lparr>b_hashPrevBlock := 77\<rparr>"

definition demo_proc :: proc_state where
  "demo_proc = \<lparr>node = (demo_node 5 demo_txmap)\<lparr>hashSyncCheckpoint := 0\<rparr>, mapOrphanBlocks = (\<lambda>_. None), mapOrphanBlocksByPrev = [],
     setStakeSeenOrphan = {}\<rparr>"

lemma demo_orphan_hash: "b_GetHash (ce_env demo_chain) demo_orphan = 4"
proof -
  have "b_GetHash (ce_env demo_chain) demo_orphan = ucast (u32_bytes 4 ! 0)"
    by (simp add: b_GetHash_def demo_chain_def header_bytes_def demo_orphan_def demo_blk_def nth_append)
  moreover have "(ucast (u32_bytes 4 ! 0) :: uint256) = 4" by code_simp
  ultimately show ?thesis by simp
qed

lemma demo_orphan_check: "CheckBlock ssl_prefix (st_env demo_chain st) True True True demo_orphan = None"
proof -
  have e: "adjusted_time (ce_env demo_chain) = 200" "env_params (ce_env demo_chain) = mainnet" "bn ssl_prefix = bn_ref"
    by (simp_all add: demo_chain_def blk_env_def demo_env_def ssl_prefix_def ssl_demo_def)
  have v: "vtx demo_orphan = [blk_coinbase]" "b_nBits demo_orphan = 0x03000007" "b_nTime demo_orphan = 100" "vchBlockSig demo_orphan = []"
    "b_hashMerkleRoot demo_orphan = BuildMerkleTree ssl_prefix [blk_coinbase]" by (simp_all add: demo_orphan_def demo_blk_def)
  have t: "nTime blk_coinbase = 100" by (simp add: blk_defs)
  have p: "CheckProofOfWork bn_ref mainnet 4 0x03000007"
  proof -
    have s: "SetCompact bn_ref 0x03000007 = 7" by (simp add: SetCompact_doc) code_simp
    have "(7 :: int) \<le> bnProofOfWorkLimit mainnet" by (simp add: mainnet_def) code_simp
    then show ?thesis using s CheckProofOfWork_iff [of bn_ref mainnet 4 "0x03000007"] by (simp add: params_ok_nets)
  qed
  show ?thesis
    by (simp add: CheckBlock_def demo_orphan_hash e v t p GetSerializeSize_block_def GetSerializeSize_vec_def GetSerializeSize_bytes_def
        GetSizeOfCompactSize_def b_IsProofOfWork_def b_IsProofOfStake_def b_GetBlockTime_def GetClockDrift_def check_stake_layout_def Let_def)
qed

lemma demo_orphan_processed:
  "ProcessBlock demo_chain (\<lambda>_. None) False True demo_orphan demo_proc = Some ((PB_orphan, []), add_orphan_block demo_chain demo_orphan demo_proc)"
proof -
  have n: "mapBlockIndex (node demo_proc) 4 = None" "mapBlockIndex (node demo_proc) 77 = None" "mapBlockIndex (node demo_proc) 0 = None"
    "hashSyncCheckpoint (node demo_proc) = 0" "hashPendingCheckpoint (node demo_proc) = 0" "mapOrphanBlocks demo_proc = (\<lambda>_. None)"
    by (simp_all add: demo_proc_def demo_node_def)
  have b: "\<not> b_IsProofOfStake demo_orphan" "b_hashPrevBlock demo_orphan = 77"
    by (simp_all add: b_IsProofOfStake_def demo_orphan_def demo_blk_def)
  have s: "ce_ssl demo_chain = ssl_prefix" by (simp add: demo_chain_def)
  have c: "process_checks demo_chain False False demo_orphan demo_proc = None"
    by (simp add: process_checks_def Let_def b n s demo_orphan_check)
  show ?thesis
    by (simp add: ProcessBlock_def demo_orphan_hash n b WantedByPendingSyncCheckpoint_def c shunt_orphan_def Let_def)
qed

section \<open>Properties\<close>

lemma shunt_orphan_cases:
  assumes "shunt_orphan C pfrom fIBD wanted ask block ps = Some ((res, msgs), ps')"
  shows "(\<exists>e. res = PB_error e) \<and> ps' = ps \<or> res = PB_orphan \<and> ps' = add_orphan_block C block ps"
  using assms unfolding shunt_orphan_def Let_def by (auto split: if_splits option.splits)

lemma ProcessBlock_cases:
  assumes "ProcessBlock C dsk pfrom fIBD block ps = Some ((res, msgs), ps')"
  shows "(\<exists>e. res = PB_error e) \<and> (\<exists>st1. ps' = ps\<lparr>node := st1\<rparr>) \<or>
    res = PB_orphan \<and> mapOrphanBlocks ps (b_GetHash (ce_env C) block) = None \<and> ps' = add_orphan_block C block ps \<or>
    res = PB_accepted \<and> (\<exists>st1. ps' = process_queue C dsk [b_GetHash (ce_env C) block] (ps\<lparr>node := st1\<rparr>))"
proof -
  have id: "\<exists>st1. ps = ps\<lparr>node := st1\<rparr>" by (rule exI [of _ "node ps"]) simp
  show ?thesis
    using assms id unfolding ProcessBlock_def Let_def
    by (auto split: if_splits option.splits prod.splits sum.splits dest!: shunt_orphan_cases)
qed

text \<open>C11. \<open>ProcessBlock\<close> keeps the orphan blocks consistent, whatever it answers: the two maps hold the same blocks
  under their own and their parents' hashes, every remembered stake belongs to an orphan, and after a block was
  accepted none of its children is left among the orphans.\<close>

theorem process_block_orphans:
  assumes "orphans_ok C ps" "ProcessBlock C dsk pfrom fIBD block ps = Some ((res, msgs), ps')"
  shows "orphans_ok C ps' \<and>
    (res = PB_accepted \<longrightarrow> list_all (\<lambda>x. b_hashPrevBlock (snd x) \<noteq> b_GetHash (ce_env C) block) (mapOrphanBlocksByPrev ps'))"
proof -
  have same: "orphans_ok C (ps\<lparr>node := st1\<rparr>)" for st1 using assms(1) by (simp add: orphans_ok_def)
  from ProcessBlock_cases [OF assms(2)] consider (error) e st1 where "res = PB_error e" "ps' = ps\<lparr>node := st1\<rparr>"
    | (orphan) "res = PB_orphan" "mapOrphanBlocks ps (b_GetHash (ce_env C) block) = None" "ps' = add_orphan_block C block ps"
    | (accepted) st1 where "ps' = process_queue C dsk [b_GetHash (ce_env C) block] (ps\<lparr>node := st1\<rparr>)" by metis
  then show ?thesis
  proof cases
    case orphan
    then show ?thesis using add_orphan_ok [OF assms(1)] by simp
  next
    case accepted
    have q: "orphans_ok C ps'" "set (mapOrphanBlocksByPrev ps') \<subseteq> {x \<in> set (mapOrphanBlocksByPrev ps). fst x \<noteq> b_GetHash (ce_env C) block}"
      using process_queue_orphans [OF same, of dsk "[b_GetHash (ce_env C) block]" st1] accepted by auto
    then have "b_hashPrevBlock (snd x) \<noteq> b_GetHash (ce_env C) block" if "x \<in> set (mapOrphanBlocksByPrev ps')" for x
      using that unfolding orphans_ok_def by fastforce
    then show ?thesis using q(1) by (simp add: list_all_iff)
  qed (use same in simp)
qed

theorem process_block_orphans_witness: "orphans_ok demo_chain (add_orphan_block demo_chain demo_orphan demo_proc)"
proof -
  have "orphans_ok demo_chain demo_proc" by (simp add: orphans_ok_def demo_proc_def)
  from process_block_orphans [OF this demo_orphan_processed] show ?thesis by simp
qed



end
