(* ===== verification/Base58.thy ===== *)
theory Base58
  imports Solver
begin

text \<open>
  The textual forms of addresses and secret keys (\<open>base58.h\<close>): the base-58 coding of a byte string,
  its variant with a four-byte checksum, \<open>CBase58Data\<close>, \<open>CBitcoinAddress\<close> and \<open>CBitcoinSecret\<close>. A C
  string is the list of the characters before its terminating NUL; \<open>None\<close> is the result \<open>false\<close>, which
  leaves the output vector empty. The locale \<open>text_form\<close> is the contract of a textual coding that
  ignores surrounding white space.
\<close>

section \<open>Base-58 coding\<close>

definition pszBase58 :: string where
  "pszBase58 = ''123456789ABCDEFGHJKLMNPQRSTUVWXYZabcdefghijkmnopqrstuvwxyz''"

text \<open>\<open>isspace\<close> in the C locale and \<open>strchr\<close>, of the C library; \<open>strchr\<close> gives the offset of its result.\<close>

definition isspace :: "char \<Rightarrow> bool" where
  "isspace c \<longleftrightarrow> c \<in> {CHR '' '', CHR 0x09, CHR 0x0A, CHR 0x0B, CHR 0x0C, CHR 0x0D}"

primrec strchr :: "string \<Rightarrow> char \<Rightarrow> nat option" where
  "strchr [] c = None"
| "strchr (a # s) c = (if a = c then Some 0 else map_option Suc (strchr s c))"

text \<open>The division loop of \<open>EncodeBase58\<close>.\<close>

function enc58_loop :: "bn_lib \<Rightarrow> int \<Rightarrow> string \<Rightarrow> string" where
  "enc58_loop B x str =
     (if x > 0 then enc58_loop B (x div 58) (str @ [pszBase58 ! BN_get_word B (x mod 58)]) else str)"
  by pat_completeness auto
termination by (relation "measure (\<lambda>(B, x, str). nat x)") auto

declare enc58_loop.simps [simp del]

definition EncodeBase58 :: "bn_lib \<Rightarrow> byte list \<Rightarrow> string" where
  "EncodeBase58 B v =
     (let vchTmp = rev v @ [0];
          x = setvch B vchTmp;
          str = enc58_loop B x [];
          str = str @ replicate (length (takeWhile (\<lambda>b. b = 0) v)) (pszBase58 ! 0)
      in rev str)"

fun dec58_loop :: "int \<Rightarrow> string \<Rightarrow> int option" where
  "dec58_loop x [] = Some x"
| "dec58_loop x (c # p) =
     (case strchr pszBase58 c of
        None \<Rightarrow> if dropWhile isspace (c # p) \<noteq> [] then None else Some x
      | Some p1 \<Rightarrow> dec58_loop (x * 58 + int p1) p)"

text \<open>The sign byte that \<open>getvch\<close> adds is trimmed.\<close>

definition trim_sign :: "byte list \<Rightarrow> byte list" where
  "trim_sign v = (if length v \<ge> 2 \<and> last v = 0 \<and> last (butlast v) \<ge> 0x80 then butlast v else v)"

definition DecodeBase58 :: "bn_lib \<Rightarrow> string \<Rightarrow> byte list option" where
  "DecodeBase58 B psz0 =
     (let psz = dropWhile isspace psz0 in
      case dec58_loop 0 psz of
        None \<Rightarrow> None
      | Some x \<Rightarrow>
          let vchTmp = trim_sign (getvch B x);
              nLeadingZeros = length (takeWhile (\<lambda>c. c = pszBase58 ! 0) psz)
          in Some (replicate nLeadingZeros 0 @ rev vchTmp))"

section \<open>Base-58 with a checksum\<close>

definition EncodeBase58Check :: "ssl_lib \<Rightarrow> byte list \<Rightarrow> string" where
  "EncodeBase58Check L vchIn = EncodeBase58 (bn L) (vchIn @ take 4 (u256_bytes (Hash L vchIn)))"

definition DecodeBase58Check :: "ssl_lib \<Rightarrow> string \<Rightarrow> byte list option" where
  "DecodeBase58Check L psz =
     (case DecodeBase58 (bn L) psz of
        None \<Rightarrow> None
      | Some vchRet \<Rightarrow>
          if length vchRet < 4 then None
          else let n = length vchRet - 4; hash = Hash L (take n vchRet) in
          if take 4 (u256_bytes hash) \<noteq> drop n vchRet then None
          else Some (take n vchRet))"

section \<open>Versioned data\<close>

record CBase58Data =
  b58_nVersion :: byte
  vchData :: "byte list"

definition CBase58Data_new :: CBase58Data where
  "CBase58Data_new = \<lparr>b58_nVersion = 0, vchData = []\<rparr>"

definition SetData :: "int \<Rightarrow> byte list \<Rightarrow> CBase58Data" where
  "SetData nVersionIn pdata = \<lparr>b58_nVersion = word_of_int nVersionIn, vchData = pdata\<rparr>"

definition SetString :: "ssl_lib \<Rightarrow> string \<Rightarrow> bool \<times> CBase58Data" where
  "SetString L psz =
     (case DecodeBase58Check L psz of
        None \<Rightarrow> (False, \<lparr>b58_nVersion = 0, vchData = []\<rparr>)
      | Some vchTemp \<Rightarrow>
          (case vchTemp of
             [] \<Rightarrow> (False, \<lparr>b58_nVersion = 0, vchData = []\<rparr>)
           | v # r \<Rightarrow> (True, \<lparr>b58_nVersion = v, vchData = r\<rparr>)))"

definition ToString :: "ssl_lib \<Rightarrow> CBase58Data \<Rightarrow> string" where
  "ToString L d = EncodeBase58Check L (b58_nVersion d # vchData d)"

text \<open>The overloads on \<open>std::string\<close> read up to the first NUL.\<close>

definition c_str :: "string \<Rightarrow> string" where
  "c_str str = takeWhile (\<lambda>c. c \<noteq> CHR 0x00) str"

definition DecodeBase58_str :: "bn_lib \<Rightarrow> string \<Rightarrow> byte list option" where
  "DecodeBase58_str B str = DecodeBase58 B (c_str str)"

definition DecodeBase58Check_str :: "ssl_lib \<Rightarrow> string \<Rightarrow> byte list option" where
  "DecodeBase58Check_str L str = DecodeBase58Check L (c_str str)"

definition SetString_str :: "ssl_lib \<Rightarrow> string \<Rightarrow> bool \<times> CBase58Data" where
  "SetString_str L str = SetString L (c_str str)"

text \<open>\<open>std::vector\<close> compares lexicographically.\<close>

fun vec_less :: "byte list \<Rightarrow> byte list \<Rightarrow> bool" where
  "vec_less _ [] = False"
| "vec_less [] (_ # _) = True"
| "vec_less (a # s) (b # t) = (a < b \<or> a = b \<and> vec_less s t)"

definition CompareTo :: "CBase58Data \<Rightarrow> CBase58Data \<Rightarrow> int" where
  "CompareTo a b58 =
     (if b58_nVersion a < b58_nVersion b58 then -1
      else if b58_nVersion a > b58_nVersion b58 then 1
      else if vec_less (vchData a) (vchData b58) then -1
      else if vec_less (vchData b58) (vchData a) then 1
      else 0)"

section \<open>Addresses\<close>

text \<open>The network is the argument \<open>fTestNet\<close>, a global variable of the program.\<close>

definition PUBKEY_ADDRESS :: int where "PUBKEY_ADDRESS = 50"
definition SCRIPT_ADDRESS :: int where "SCRIPT_ADDRESS = 110"
definition PUBKEY_ADDRESS_TEST :: int where "PUBKEY_ADDRESS_TEST = 111"
definition SCRIPT_ADDRESS_TEST :: int where "SCRIPT_ADDRESS_TEST = 196"

lemmas address_versions = PUBKEY_ADDRESS_def SCRIPT_ADDRESS_def PUBKEY_ADDRESS_TEST_def SCRIPT_ADDRESS_TEST_def

definition Set_CKeyID :: "bool \<Rightarrow> CKeyID \<Rightarrow> CBase58Data" where
  "Set_CKeyID fTestNet i = SetData (if fTestNet then PUBKEY_ADDRESS_TEST else PUBKEY_ADDRESS) (u160_bytes i)"

definition Set_CScriptID :: "bool \<Rightarrow> CScriptID \<Rightarrow> CBase58Data" where
  "Set_CScriptID fTestNet i = SetData (if fTestNet then SCRIPT_ADDRESS_TEST else SCRIPT_ADDRESS) (u160_bytes i)"

text \<open>Setting from a destination goes through the visitor; no destination leaves the address as it was.\<close>

definition Set_CTxDestination :: "bool \<Rightarrow> CTxDestination \<Rightarrow> CBase58Data \<Rightarrow> bool \<times> CBase58Data" where
  "Set_CTxDestination fTestNet dest addr =
     (case dest of
        CNoDestination \<Rightarrow> (False, addr)
      | DKeyID i \<Rightarrow> (True, Set_CKeyID fTestNet i)
      | DScriptID i \<Rightarrow> (True, Set_CScriptID fTestNet i))"

definition Address_IsValid :: "bool \<Rightarrow> CBase58Data \<Rightarrow> bool" where
  "Address_IsValid fTestNet addr =
     (let v = uint (b58_nVersion addr); nExpectedSize = 20 in
      if v = PUBKEY_ADDRESS \<or> v = SCRIPT_ADDRESS then False = fTestNet \<and> length (vchData addr) = nExpectedSize
      else if v = PUBKEY_ADDRESS_TEST \<or> v = SCRIPT_ADDRESS_TEST then True = fTestNet \<and> length (vchData addr) = nExpectedSize
      else False)"

definition Address_Get :: "bool \<Rightarrow> CBase58Data \<Rightarrow> CTxDestination" where
  "Address_Get fTestNet addr =
     (if \<not> Address_IsValid fTestNet addr then CNoDestination
      else let v = uint (b58_nVersion addr) in
      if v = PUBKEY_ADDRESS \<or> v = PUBKEY_ADDRESS_TEST then DKeyID (bytes_u160 (take 20 (vchData addr)))
      else if v = SCRIPT_ADDRESS \<or> v = SCRIPT_ADDRESS_TEST then DScriptID (bytes_u160 (take 20 (vchData addr)))
      else CNoDestination)"

definition GetKeyID :: "bool \<Rightarrow> CBase58Data \<Rightarrow> CKeyID option" where
  "GetKeyID fTestNet addr =
     (if \<not> Address_IsValid fTestNet addr then None
      else let v = uint (b58_nVersion addr) in
      if v = PUBKEY_ADDRESS \<or> v = PUBKEY_ADDRESS_TEST then Some (bytes_u160 (take 20 (vchData addr))) else None)"

definition Address_IsScript :: "bool \<Rightarrow> CBase58Data \<Rightarrow> bool" where
  "Address_IsScript fTestNet addr =
     (if \<not> Address_IsValid fTestNet addr then False
      else let v = uint (b58_nVersion addr) in v = SCRIPT_ADDRESS \<or> v = SCRIPT_ADDRESS_TEST)"

text \<open>The constructors.\<close>

definition CBitcoinAddress_dest :: "bool \<Rightarrow> CTxDestination \<Rightarrow> CBase58Data" where
  "CBitcoinAddress_dest fTestNet dest = snd (Set_CTxDestination fTestNet dest CBase58Data_new)"

definition CBitcoinAddress_str :: "ssl_lib \<Rightarrow> string \<Rightarrow> CBase58Data" where
  "CBitcoinAddress_str L strAddress = snd (SetString_str L strAddress)"

section \<open>Secret keys\<close>

text \<open>\<open>None\<close> is the failed assertion of \<open>SetSecret\<close>, and in \<open>GetSecret\<close> the read past the end of the data.\<close>

definition Secret_SetSecret :: "bool \<Rightarrow> byte list \<Rightarrow> bool \<Rightarrow> CBase58Data option" where
  "Secret_SetSecret fTestNet vchSecret fCompressed =
     (if length vchSecret \<noteq> 32 then None
      else let d = SetData (128 + (if fTestNet then PUBKEY_ADDRESS_TEST else PUBKEY_ADDRESS)) vchSecret in
      Some (if fCompressed then d\<lparr>vchData := vchData d @ [1]\<rparr> else d))"

definition Secret_GetSecret :: "CBase58Data \<Rightarrow> (byte list \<times> bool) option" where
  "Secret_GetSecret d = (if length (vchData d) < 32 then None else Some (take 32 (vchData d), length (vchData d) = 33))"

definition Secret_IsValid :: "bool \<Rightarrow> CBase58Data \<Rightarrow> bool" where
  "Secret_IsValid fTestNet d =
     (let v = uint (b58_nVersion d);
          data_ok = length (vchData d) = 32 \<or> length (vchData d) = 33 \<and> vchData d ! 32 = 1 in
      if v = 128 + PUBKEY_ADDRESS then False = fTestNet \<and> data_ok
      else if v = 128 + PUBKEY_ADDRESS_TEST then True = fTestNet \<and> data_ok
      else False)"

definition Secret_SetString :: "ssl_lib \<Rightarrow> bool \<Rightarrow> string \<Rightarrow> bool \<times> CBase58Data" where
  "Secret_SetString L fTestNet pszSecret =
     (case SetString L pszSecret of (ok, d) \<Rightarrow> (ok \<and> Secret_IsValid fTestNet d, d))"

section \<open>Digits\<close>

lemma pszBase58_facts [simp]: "length pszBase58 = 58" "distinct pszBase58" "pszBase58 ! 0 = CHR ''1''"
  by (simp_all add: pszBase58_def)

lemma pszBase58_not_space: "c \<in> set pszBase58 \<Longrightarrow> \<not> isspace c"
  unfolding isspace_def pszBase58_def by auto

lemma strchr_None: "strchr s c = None \<longleftrightarrow> c \<notin> set s"
  by (induction s) auto

lemma strchr_Some: "strchr s c = Some i \<Longrightarrow> i < length s \<and> s ! i = c"
  by (induction s arbitrary: i) (auto split: if_splits)

lemma strchr_nth: "distinct s \<Longrightarrow> i < length s \<Longrightarrow> strchr s (s ! i) = Some i"
  by (metis nth_eq_iff_index_eq nth_mem not_None_eq strchr_None strchr_Some)

fun d58 :: "nat \<Rightarrow> nat list" where
  "d58 n = (if n = 0 then [] else n mod 58 # d58 (n div 58))"

declare d58.simps [simp del]

primrec v58 :: "nat list \<Rightarrow> nat" where
  "v58 [] = 0"
| "v58 (d # ds) = d + 58 * v58 ds"

lemma v58_d58 [simp]: "v58 (d58 n) = n"
  by (induction n rule: d58.induct) (subst d58.simps, simp)

lemma d58_less: "d \<in> set (d58 n) \<Longrightarrow> d < 58"
proof (induction n rule: d58.induct)
  case (1 n)
  then show ?case by (subst (asm) (2) d58.simps) (auto split: if_splits)
qed

lemma d58_0 [simp]: "d58 0 = []"
  by (subst d58.simps) simp

lemma d58_v58: "(\<And>d. d \<in> set ds \<Longrightarrow> d < 58) \<Longrightarrow> ds = [] \<or> last ds \<noteq> 0 \<Longrightarrow> d58 (v58 ds) = ds"
proof (induction ds)
  case (Cons d ds)
  have d: "d < 58" using Cons.prems(1) by simp
  show ?case
  proof (cases "ds = []")
    case True
    then show ?thesis using Cons.prems d by (subst d58.simps) simp
  next
    case False
    then have "d58 (v58 ds) = ds" using Cons by simp
    then have "v58 ds \<noteq> 0" using False by (metis d58_0)
    then show ?thesis using d \<open>d58 (v58 ds) = ds\<close> by (subst d58.simps) simp
  qed
qed simp

lemma d58_last: "n \<noteq> 0 \<Longrightarrow> last (d58 n) \<noteq> 0 \<and> d58 n \<noteq> []"
proof (induction n rule: d58.induct)
  case (1 n)
  have "d58 n = n mod 58 # d58 (n div 58)" using 1(2) by (subst d58.simps) simp
  then show ?case using 1 by (cases "n div 58 = 0") (simp_all add: div_eq_0_iff)
qed

lemma mag_bytes_le_dec: "m = [] \<or> last m \<noteq> 0 \<Longrightarrow> mag_bytes (le_dec m) = m"
proof (induction m)
  case (Cons b m)
  have b: "(unat b + 256 * le_dec m) mod 256 = unat b" "(unat b + 256 * le_dec m) div 256 = le_dec m"
    using unat_byte_less [of b] by simp_all
  have "le_dec (b # m) \<noteq> 0"
  proof
    assume "le_dec (b # m) = 0"
    then have "b # m = replicate (length (b # m)) 0" by (intro le_enc_inject) simp_all
    then show False using Cons.prems by (metis last_replicate list.distinct(1) length_0_conv)
  qed
  moreover have "mag_bytes (le_dec m) = m" using Cons by (cases "m = []") auto
  ultimately show ?case using b by (subst mag_bytes.simps) simp
qed simp

text \<open>The digits of a text and the text of digits, most significant first.\<close>

definition text58 :: "nat list \<Rightarrow> string" where
  "text58 ds = rev (map (\<lambda>d. pszBase58 ! d) ds)"

lemma enc58_loop_d58: "mpi_documented B \<Longrightarrow> enc58_loop B (int n) str = str @ map (\<lambda>d. pszBase58 ! d) (d58 n)"
proof (induction n arbitrary: str rule: d58.induct)
  case (1 n)
  show ?case
  proof (cases "n = 0")
    case False
    have m: "int n mod 58 = int (n mod 58)" "int n div 58 = int (n div 58)" by (simp_all add: zmod_int zdiv_int)
    have "nat \<bar>int n mod 58\<bar> < 2 ^ 64" by (simp add: m)
    then have w: "BN_get_word B (int n mod 58) = n mod 58" using get_word_doc [OF 1(2)] by (simp add: m nat_mod_distrib)
    have "enc58_loop B (int n) str = enc58_loop B (int (n div 58)) (str @ [pszBase58 ! (n mod 58)])"
      using False by (subst enc58_loop.simps) (simp add: w m(2))
    also have "\<dots> = str @ map (\<lambda>d. pszBase58 ! d) (n mod 58 # d58 (n div 58))" using 1 False by simp
    finally show ?thesis using False by (subst d58.simps) simp
  qed (simp add: enc58_loop.simps)
qed

lemma setvch_nonneg: "mpi_documented B \<Longrightarrow> length v + 1 < 2 ^ 31 \<Longrightarrow> setvch B (v @ [0]) = int (le_dec v)"
  using mpi2bn_doc [of B "rev (v @ [0])"] by (simp add: setvch_def vch_val_def le_dec_append)

section \<open>Reading a text\<close>

definition fold58 :: "int \<Rightarrow> string \<Rightarrow> int" where
  "fold58 x t = foldl (\<lambda>n c. n * 58 + int (the (strchr pszBase58 c))) x t"

lemma dec58_loop_spaces: "list_all isspace ws \<Longrightarrow> dec58_loop x ws = Some x"
proof (cases ws)
  case (Cons c p)
  assume "list_all isspace ws"
  then have sp: "list_all isspace (c # p)" using Cons by simp
  then have "strchr pszBase58 c = None" using pszBase58_not_space by (auto simp: strchr_None)
  moreover have "dropWhile isspace (c # p) = []" using sp by (simp add: list_all_iff)
  ultimately show ?thesis using Cons by simp
qed simp

lemma dec58_loop_text: "set t \<subseteq> set pszBase58 \<Longrightarrow> list_all isspace ws \<Longrightarrow> dec58_loop x (t @ ws) = Some (fold58 x t)"
  by (induction t arbitrary: x) (auto simp: fold58_def dec58_loop_spaces strchr_None split: option.split)

lemma dec58_loop_SomeD:
  "dec58_loop x s = Some n \<Longrightarrow> \<exists>t ws. s = t @ ws \<and> set t \<subseteq> set pszBase58 \<and> list_all isspace ws"
proof (induction x s rule: dec58_loop.induct)
  case (2 x c p)
  show ?case
  proof (cases "strchr pszBase58 c")
    case None
    with 2(2) have "dropWhile isspace (c # p) = []" by (auto split: if_splits)
    then have "list_all isspace (c # p)" by (simp only: list_all_iff dropWhile_eq_Nil_conv)
    then show ?thesis by (intro exI [of _ "[]"] exI [of _ "c # p"]) simp
  next
    case (Some i)
    with 2 obtain t ws where "p = t @ ws" "set t \<subseteq> set pszBase58" "list_all isspace ws" by auto
    moreover have "c \<in> set pszBase58" using Some by (metis option.distinct(1) strchr_None)
    ultimately show ?thesis by (intro exI [of _ "c # t"] exI [of _ ws]) simp
  qed
qed simp

lemma fold58_text58: "(\<And>d. d \<in> set ds \<Longrightarrow> d < 58) \<Longrightarrow> fold58 0 (text58 ds) = int (v58 ds)"
  by (induction ds) (simp_all add: fold58_def text58_def strchr_nth)

lemma text58_set: "(\<And>d. d \<in> set ds \<Longrightarrow> d < 58) \<Longrightarrow> set (text58 ds) \<subseteq> set pszBase58"
  by (auto simp: text58_def)

lemma text58_surj: "set t \<subseteq> set pszBase58 \<Longrightarrow> \<exists>ds. t = text58 ds \<and> (\<forall>d \<in> set ds. d < 58)"
proof (induction t rule: rev_induct)
  case (snoc c t)
  then obtain ds where ds: "t = text58 ds" "\<forall>d \<in> set ds. d < 58" by auto
  obtain i where "i < 58" "pszBase58 ! i = c" using snoc.prems by (metis in_set_conv_nth pszBase58_facts(1) set_append list.set_intros(1) subset_code(1) UnCI)
  then show ?case using ds by (intro exI [of _ "i # ds"]) (simp add: text58_def)
qed (simp add: text58_def)

lemma text58_append: "text58 (ds @ es) = text58 es @ text58 ds"
  by (simp add: text58_def)

lemma text58_zeros: "text58 (replicate k 0) = replicate k (CHR ''1'')"
  by (simp add: text58_def)

lemma v58_zeros: "v58 (ds @ replicate k 0) = v58 ds"
proof -
  have "v58 (replicate k 0) = 0" by (induction k) simp_all
  then show ?thesis by (induction ds) simp_all
qed

lemma text58_hd: "ds \<noteq> [] \<Longrightarrow> last ds \<noteq> 0 \<Longrightarrow> (\<And>d. d \<in> set ds \<Longrightarrow> d < 58) \<Longrightarrow> text58 ds \<noteq> [] \<and> hd (text58 ds) \<noteq> CHR ''1''"
proof -
  assume a: "ds \<noteq> []" "last ds \<noteq> 0" "\<And>d. d \<in> set ds \<Longrightarrow> d < 58"
  then have "pszBase58 ! last ds \<noteq> pszBase58 ! 0" by (subst nth_eq_iff_index_eq) simp_all
  then show ?thesis using a(1) by (simp add: text58_def hd_rev last_map)
qed

lemma byte_ge_80: "(x :: byte) AND 0x80 \<noteq> 0 \<Longrightarrow> 0x80 \<le> x"
proof -
  assume "x AND 0x80 \<noteq> 0"
  then have "bit x 7" using and_exp_eq_0_iff_not_bit [of x 7] by simp
  then have "bit (unat x) 7" by (simp add: bit_unsigned_iff)
  then have "odd (unat x div 128)" by (simp add: bit_iff_odd)
  then have "128 \<le> unat x" by (cases "unat x < 128") simp_all
  then show ?thesis by (simp add: word_le_nat_alt)
qed

lemma getvch_trim: "mpi_documented B \<Longrightarrow> trim_sign (getvch B (int n)) = mag_bytes n"
proof -
  assume B: "mpi_documented B"
  have g: "getvch B (int n) = vch_enc (int n)" by (auto simp: getvch_def bn2mpi_doc [OF B] Let_def)
  show ?thesis
  proof (cases "n = 0")
    case False
    let ?m = "mag_bytes n"
    have m: "?m \<noteq> []" "last ?m \<noteq> 0" using False mag_bytes_last_nz by simp_all
    show ?thesis
    proof (cases "last ?m AND 0x80 = 0")
      case True
      then have "vch_enc (int n) = ?m" using m by (simp add: vch_enc_def)
      then show ?thesis using m g by (simp add: trim_sign_def)
    next
      case nz: False
      then have "vch_enc (int n) = ?m @ [0]" using m by (simp add: vch_enc_def)
      then show ?thesis using m g byte_ge_80 [OF nz] by (cases ?m) (simp_all add: trim_sign_def)
    qed
  next
    case True
    then show ?thesis using g by (simp add: trim_sign_def mag_bytes.simps)
  qed
qed

text \<open>What the two directions do with a text made of leading ones and of digits.\<close>

lemma dropWhile_spaces: "list_all isspace a \<Longrightarrow> list_all isspace z \<Longrightarrow> set t \<subseteq> set pszBase58 \<Longrightarrow>
    \<exists>z'. dropWhile isspace (a @ t @ z) = t @ z' \<and> list_all isspace z'"
proof -
  assume h: "list_all isspace a" "list_all isspace z" "set t \<subseteq> set pszBase58"
  then have e: "dropWhile isspace (a @ t @ z) = dropWhile isspace (t @ z)"
    by (metis dropWhile_append2 list_all_iff)
  show ?thesis
  proof (cases t)
    case Nil
    then have "dropWhile isspace (t @ z) = []" using h(2) by (simp add: list_all_iff)
    then have "dropWhile isspace (a @ t @ z) = t @ [] \<and> list_all isspace []" using e Nil by simp
    then show ?thesis by blast
  next
    case (Cons c p)
    then have "dropWhile isspace (t @ z) = t @ z" using h(3) pszBase58_not_space by simp
    then show ?thesis using e h(2) by simp
  qed
qed

lemma takeWhile_ones:
  assumes "list_all isspace z" "t = [] \<or> hd t \<noteq> CHR ''1''"
  shows "length (takeWhile (\<lambda>c. c = CHR ''1'') (replicate k (CHR ''1'') @ t @ z)) = k"
proof -
  have "takeWhile (\<lambda>c. c = CHR ''1'') (t @ z) = []" using assms by (cases t; cases z) (auto simp: isspace_def)
  then show ?thesis by (simp add: takeWhile_append)
qed

lemma DecodeBase58_text:
  assumes "mpi_documented B" "list_all isspace a" "list_all isspace z" "\<And>d. d \<in> set ds \<Longrightarrow> d < 58" "ds = [] \<or> last ds \<noteq> 0"
  shows "DecodeBase58 B (a @ (replicate k (CHR ''1'') @ text58 ds) @ z) = Some (replicate k 0 @ rev (mag_bytes (v58 ds)))"
proof -
  let ?t = "replicate k (CHR ''1'') @ text58 ds"
  have t: "?t = text58 (ds @ replicate k 0)" by (simp add: text58_append text58_zeros)
  have small: "d < 58" if "d \<in> set (ds @ replicate k 0)" for d using that assms(4) by (auto split: if_splits)
  have st: "set ?t \<subseteq> set pszBase58" unfolding t by (rule text58_set) (rule small)
  obtain z' where z': "dropWhile isspace (a @ ?t @ z) = ?t @ z'" "list_all isspace z'"
    using dropWhile_spaces [OF assms(2,3) st] by blast
  have "fold58 0 ?t = int (v58 ds)" unfolding t using fold58_text58 [of "ds @ replicate k 0"] small by (simp add: v58_zeros)
  then have d: "dec58_loop 0 (?t @ z') = Some (int (v58 ds))" using dec58_loop_text [OF st z'(2)] by simp
  have o: "length (takeWhile (\<lambda>c. c = CHR ''1'') (?t @ z')) = k"
    using takeWhile_ones [OF z'(2), of "text58 ds" k] text58_hd [of ds] assms(4,5) by (auto simp: text58_def)
  show ?thesis unfolding DecodeBase58_def Let_def z'(1) d using o getvch_trim [OF assms(1)] by simp
qed

lemma EncodeBase58_text:
  assumes "mpi_documented B" "k + length w + 1 < 2 ^ 31" "w = [] \<or> hd w \<noteq> 0"
  shows "EncodeBase58 B (replicate k 0 @ w) = replicate k (CHR ''1'') @ text58 (d58 (le_dec (rev w)))"
proof -
  have "length (takeWhile (\<lambda>b. b = 0) (replicate k 0 @ w)) = k"
    using assms(3) by (cases w) (auto simp: takeWhile_append)
  moreover have "setvch B ((rev w @ replicate k 0) @ [0]) = int (le_dec (rev w))"
    using setvch_nonneg [OF assms(1), of "rev w @ replicate k 0"] assms(2) by (simp add: le_dec_append)
  ultimately show ?thesis by (simp add: EncodeBase58_def enc58_loop_d58 [OF assms(1)] text58_def rev_map)
qed

lemma leading_zeros: "\<exists>k w. v = replicate k z @ w \<and> (w = [] \<or> hd w \<noteq> z)"
proof (intro exI conjI)
  show "v = replicate (length (takeWhile (\<lambda>b. b = z) v)) z @ dropWhile (\<lambda>b. b = z) v"
    by (metis (mono_tags, lifting) replicate_length_same set_takeWhileD takeWhile_dropWhile_id)
  show "dropWhile (\<lambda>b. b = z) v = [] \<or> hd (dropWhile (\<lambda>b. b = z) v) \<noteq> z"
    using hd_dropWhile [of "\<lambda>b. b = z" v] by blast
qed

lemma trailing_zeros: "\<exists>k w. ds = w @ replicate k z \<and> (w = [] \<or> last w \<noteq> z)"
  using leading_zeros [of "rev ds" z] by (metis rev_append rev_replicate rev_rev_ident hd_rev rev_is_Nil_conv)

lemma DecodeBase58_iff:
  assumes B: "mpi_documented B" and v: "length v + 1 < 2 ^ 31"
  shows "DecodeBase58 B s = Some v \<longleftrightarrow>
    (\<exists>a z. list_all isspace a \<and> list_all isspace z \<and> s = a @ EncodeBase58 B v @ z)" (is "?D \<longleftrightarrow> ?E")
proof
  assume ?E
  then obtain a z where az: "list_all isspace a" "list_all isspace z" "s = a @ EncodeBase58 B v @ z" by blast
  obtain k w where w: "v = replicate k 0 @ w" "w = [] \<or> hd w \<noteq> 0" using leading_zeros [of v 0] by blast
  let ?n = "le_dec (rev w)"
  have e: "EncodeBase58 B v = replicate k (CHR ''1'') @ text58 (d58 ?n)" using EncodeBase58_text [OF B _ w(2), of k] v w(1) by simp
  have "mag_bytes ?n = rev w" using mag_bytes_le_dec [of "rev w"] w(2) by (simp add: last_rev)
  moreover have "d58 ?n = [] \<or> last (d58 ?n) \<noteq> 0" using d58_last [of ?n] by (cases "?n = 0") simp_all
  ultimately have "DecodeBase58 B (a @ (replicate k (CHR ''1'') @ text58 (d58 ?n)) @ z) = Some (replicate k 0 @ w)"
    using DecodeBase58_text [OF B az(1,2), of "d58 ?n" k] d58_less [of _ ?n] by simp
  then show ?D using az(3) e w(1) by simp
next
  assume D: ?D
  obtain x where "dec58_loop 0 (dropWhile isspace s) = Some x" using D by (auto simp: DecodeBase58_def Let_def split: option.splits)
  then obtain t z where t: "dropWhile isspace s = t @ z" "set t \<subseteq> set pszBase58" "list_all isspace z" using dec58_loop_SomeD by blast
  define a where "a = takeWhile isspace s"
  have a: "list_all isspace a" "s = a @ t @ z"
    using t(1) takeWhile_dropWhile_id [of isspace s] by (auto simp: a_def list_all_iff dest: set_takeWhileD)
  obtain es where es: "t = text58 es" "\<forall>d \<in> set es. d < 58" using text58_surj [OF t(2)] by blast
  obtain k ds where ds: "es = ds @ replicate k 0" "ds = [] \<or> last ds \<noteq> 0" using trailing_zeros [of es 0] by blast
  have small: "d < 58" if "d \<in> set ds" for d using that es(2) ds(1) by simp
  have t': "t = replicate k (CHR ''1'') @ text58 ds" using es(1) ds(1) by (simp add: text58_append text58_zeros)
  let ?m = "mag_bytes (v58 ds)"
  have "v = replicate k 0 @ rev ?m" using D DecodeBase58_text [OF B a(1) t(3) small ds(2), of k] a(2) t' by simp
  moreover have "rev ?m = [] \<or> hd (rev ?m) \<noteq> 0" using mag_bytes_last_nz [of "v58 ds"] by (auto simp: hd_rev)
  ultimately have "EncodeBase58 B v = replicate k (CHR ''1'') @ text58 (d58 (v58 ds))"
    using EncodeBase58_text [OF B, of k "rev ?m"] v by simp
  then show ?E using a t(3) t' d58_v58 [OF small ds(2)] by auto
qed

section \<open>Textual forms\<close>

text \<open>The contract of a textual coding: a text denotes the value whose coding it is, apart from white space around it.\<close>

locale text_form =
  fixes enc :: "'a list \<Rightarrow> string" and dec :: "string \<Rightarrow> 'a list option" and ok :: "'a list \<Rightarrow> bool"
  assumes dec_iff: "ok v \<Longrightarrow> dec s = Some v \<longleftrightarrow> (\<exists>a z. list_all isspace a \<and> list_all isspace z \<and> s = a @ enc v @ z)"
begin

lemma dec_enc: "ok v \<Longrightarrow> dec (enc v) = Some v"
proof -
  assume "ok v"
  moreover have "list_all isspace [] \<and> list_all isspace [] \<and> enc v = [] @ enc v @ []" by simp
  ultimately show ?thesis using dec_iff by blast
qed

lemma enc_inject: "ok v \<Longrightarrow> ok w \<Longrightarrow> enc v = enc w \<Longrightarrow> v = w"
  by (metis dec_enc option.inject)

end

text \<open>Appending a checksum of fixed length gives a textual coding again.\<close>

locale text_check = text_form enc dec ok
  for enc :: "'a list \<Rightarrow> string" and dec :: "string \<Rightarrow> 'a list option" and ok :: "'a list \<Rightarrow> bool" +
  fixes cs :: "'a list \<Rightarrow> 'a list" and n :: nat
  assumes cs_length: "length (cs v) = n"
begin

lemma check_iff:
  assumes "ok (v @ cs v)"
  shows "(case dec s of None \<Rightarrow> None
    | Some r \<Rightarrow> if length r < n then None else if cs (take (length r - n) r) \<noteq> drop (length r - n) r then None else Some (take (length r - n) r)) = Some v \<longleftrightarrow>
    (\<exists>a z. list_all isspace a \<and> list_all isspace z \<and> s = a @ enc (v @ cs v) @ z)"
proof -
  have "r = v @ cs v" if "n \<le> length r" "cs (take (length r - n) r) = drop (length r - n) r" "v = take (length r - n) r" for r
    using that append_take_drop_id [of "length r - n" r] by metis
  then show ?thesis using dec_iff [OF assms, of s, symmetric] by (auto simp: cs_length split: option.splits)
qed

end

sublocale text_check \<subseteq> chk: text_form "\<lambda>v. enc (v @ cs v)"
  "\<lambda>s. case dec s of None \<Rightarrow> None
    | Some r \<Rightarrow> if length r < n then None else if cs (take (length r - n) r) \<noteq> drop (length r - n) r then None else Some (take (length r - n) r)"
  "\<lambda>v. ok (v @ cs v)"
  by unfold_locales (rule check_iff)

interpretation b58: text_check "EncodeBase58 (bn L)" "DecodeBase58 (bn L)" "\<lambda>v. mpi_documented (bn L) \<and> length v + 1 < 2 ^ 31"
  "\<lambda>v. take 4 (u256_bytes (Hash L v))" 4 for L
  by unfold_locales (use DecodeBase58_iff in \<open>blast, simp\<close>)

lemma DecodeBase58Check_iff:
  assumes "mpi_documented (bn L)" "length v + 5 < 2 ^ 31"
  shows "DecodeBase58Check L s = Some v \<longleftrightarrow> (\<exists>a z. list_all isspace a \<and> list_all isspace z \<and> s = a @ EncodeBase58Check L v @ z)"
  using b58.chk.dec_iff [of L v s] assms by (simp add: EncodeBase58Check_def) (simp only: DecodeBase58Check_def Let_def)

lemma DecodeBase58Check_Encode: "mpi_documented (bn L) \<Longrightarrow> length v + 5 < 2 ^ 31 \<Longrightarrow> DecodeBase58Check L (EncodeBase58Check L v) = Some v"
  using b58.chk.dec_enc [of L v] by (simp add: EncodeBase58Check_def) (simp only: DecodeBase58Check_def Let_def)

lemma SetString_iff:
  assumes "mpi_documented (bn L)" "length (vchData d) + 6 < 2 ^ 31"
  shows "SetString L s = (True, d) \<longleftrightarrow> (\<exists>a z. list_all isspace a \<and> list_all isspace z \<and> s = a @ ToString L d @ z)"
proof -
  have "SetString L s = (True, d) \<longleftrightarrow> DecodeBase58Check L s = Some (b58_nVersion d # vchData d)"
    by (auto simp: SetString_def split: option.splits list.splits)
  also have "\<dots> \<longleftrightarrow> (\<exists>a z. list_all isspace a \<and> list_all isspace z \<and> s = a @ ToString L d @ z)"
    using DecodeBase58Check_iff [OF assms(1), of "b58_nVersion d # vchData d" s] assms(2) by (simp add: ToString_def)
  finally show ?thesis .
qed

lemma SetString_ToString: "mpi_documented (bn L) \<Longrightarrow> length (vchData d) + 6 < 2 ^ 31 \<Longrightarrow> SetString L (ToString L d) = (True, d)"
  using DecodeBase58Check_Encode [of L "b58_nVersion d # vchData d"] by (simp add: SetString_def ToString_def)

lemma EncodeBase58_chars: "mpi_documented B \<Longrightarrow> length v + 1 < 2 ^ 31 \<Longrightarrow> set (EncodeBase58 B v) \<subseteq> set pszBase58"
proof -
  assume B: "mpi_documented B" and v: "length v + 1 < 2 ^ 31"
  obtain k w where w: "v = replicate k 0 @ w" "w = [] \<or> hd w \<noteq> 0" using leading_zeros [of v 0] by blast
  have "EncodeBase58 B v = text58 (d58 (le_dec (rev w)) @ replicate k 0)"
    using EncodeBase58_text [OF B _ w(2), of k] v w(1) by (simp add: text58_append text58_zeros)
  moreover have "d < 58" if "d \<in> set (d58 (le_dec (rev w)) @ replicate k 0)" for d using that d58_less by auto
  ultimately show ?thesis using text58_set [of "d58 (le_dec (rev w)) @ replicate k 0"] by presburger
qed

lemma c_str_EncodeBase58: "mpi_documented B \<Longrightarrow> length v + 1 < 2 ^ 31 \<Longrightarrow> c_str (EncodeBase58 B v) = EncodeBase58 B v"
proof -
  assume "mpi_documented B" "length v + 1 < 2 ^ 31"
  then have "set (EncodeBase58 B v) \<subseteq> set pszBase58" by (rule EncodeBase58_chars)
  moreover have "CHR 0x00 \<notin> set pszBase58" by (simp add: pszBase58_def)
  ultimately show ?thesis unfolding c_str_def by (intro takeWhile_eq_all_conv [THEN iffD2]) auto
qed

lemma SetString_failed: "fst (SetString L s) = False \<Longrightarrow> snd (SetString L s) = CBase58Data_new"
  by (auto simp: SetString_def CBase58Data_new_def split: option.splits list.splits)

lemmas address_defs = Set_CTxDestination_def Set_CKeyID_def Set_CScriptID_def SetData_def CBase58Data_new_def address_versions

lemma Address_Get_iff:
  assumes "dest \<noteq> CNoDestination"
  shows "Address_Get T d = dest \<longleftrightarrow> d = CBitcoinAddress_dest T dest"
proof -
  have l: "u160_bytes (bytes_u160 (vchData d)) = vchData d" if "length (vchData d) = 20" using that by simp
  show ?thesis
  proof
    assume "Address_Get T d = dest"
    then show "d = CBitcoinAddress_dest T dest" using assms l
      by (cases d) (auto simp: Address_Get_def Address_IsValid_def CBitcoinAddress_dest_def address_defs Let_def word_uint_eq_iff split: if_splits)
  next
    assume d: "d = CBitcoinAddress_dest T dest"
    then show "Address_Get T d = dest" using assms
      by (cases dest; cases T) (simp_all add: Address_Get_def Address_IsValid_def CBitcoinAddress_dest_def address_defs)
  qed
qed

lemma dest_length: "dest \<noteq> CNoDestination \<Longrightarrow> length (vchData (CBitcoinAddress_dest T dest)) = 20 \<and> b58_nVersion (CBitcoinAddress_dest T dest) \<noteq> 0"
  by (cases dest; cases T) (simp_all add: CBitcoinAddress_dest_def address_defs)

lemma CBitcoinAddress_str_iff:
  assumes "mpi_documented (bn L)" "dest \<noteq> CNoDestination"
  shows "CBitcoinAddress_str L s = CBitcoinAddress_dest T dest \<longleftrightarrow>
    (\<exists>a z. list_all isspace a \<and> list_all isspace z \<and> c_str s = a @ ToString L (CBitcoinAddress_dest T dest) @ z)"
proof -
  let ?d = "CBitcoinAddress_dest T dest"
  have "?d \<noteq> CBase58Data_new" using dest_length [OF assms(2), of T] by (metis CBase58Data.select_convs(1) CBase58Data_new_def)
  then have "snd (SetString L (c_str s)) = ?d \<longleftrightarrow> SetString L (c_str s) = (True, ?d)"
    using SetString_failed [of L "c_str s"] by (cases "SetString L (c_str s)") auto
  then show ?thesis using SetString_iff [OF assms(1), of ?d "c_str s"] dest_length [OF assms(2), of T]
    by (simp add: CBitcoinAddress_str_def SetString_str_def)
qed

text \<open>A secret key survives its textual form, compression flag included.\<close>

lemma secret_round_trip:
  assumes "mpi_documented (bn L)" "Secret_SetSecret T vchSecret fCompressed = Some d"
  shows "Secret_SetString L T (ToString L d) = (True, d)" "Secret_GetSecret d = Some (vchSecret, fCompressed)"
proof -
  have l: "length vchSecret = 32" and d: "d = \<lparr>b58_nVersion = (if T then 239 else 178), vchData = vchSecret @ (if fCompressed then [1] else [])\<rparr>"
    using assms(2) by (auto simp: Secret_SetSecret_def SetData_def address_versions split: if_splits)
  have s: "SetString L (ToString L d) = (True, d)"
    using SetString_ToString [OF assms(1), of d] l d by simp
  have "Secret_IsValid T d" using l by (auto simp: d Secret_IsValid_def address_versions nth_append)
  then show "Secret_SetString L T (ToString L d) = (True, d)" using s by (simp add: Secret_SetString_def)
  show "Secret_GetSecret d = Some (vchSecret, fCompressed)" using l by (simp add: Secret_GetSecret_def d)
qed

lemma vec_less_total: "\<not> vec_less s t \<Longrightarrow> \<not> vec_less t s \<Longrightarrow> s = t"
  by (induction s t rule: vec_less.induct) (auto simp: neq_Nil_conv elim: vec_less.elims)

lemma vec_less_asym: "vec_less s t \<Longrightarrow> \<not> vec_less t s"
  by (induction s t rule: vec_less.induct) auto

text \<open>The comparison operators are those of a linear order.\<close>

lemma CompareTo_order: "CompareTo a b = 0 \<longleftrightarrow> a = b" "CompareTo b a = - CompareTo a b"
  using vec_less_total vec_less_asym by (auto simp: CompareTo_def)

section \<open>Properties\<close>

text \<open>C14. Base-58 with a checksum is exact: \<open>DecodeBase58Check\<close> reads a text as a byte string if and only if the text is what
  \<open>EncodeBase58Check\<close> writes for that byte string, with white space around it. So coding and decoding are inverse to each other, leading
  zero bytes included, and a text with another checksum, a foreign character or inner white space is refused.\<close>

theorem base58check_exact:
  assumes "mpi_documented (bn L)" "length v + 5 < 2 ^ 31"
  shows "DecodeBase58Check L s = Some v \<longleftrightarrow> (\<exists>a z. list_all isspace a \<and> list_all isspace z \<and> s = a @ EncodeBase58Check L v @ z)"
  using assms by (rule DecodeBase58Check_iff)

theorem base58check_exact_witness:
  "DecodeBase58Check ssl_demo (''  '' @ EncodeBase58Check ssl_demo [0, 0, 7] @ '' '') = Some [0, 0, 7]"
proof -
  have "list_all isspace ''  ''" "list_all isspace '' ''" by (simp_all add: isspace_def)
  then show ?thesis by (subst base58check_exact) (simp, simp, blast)
qed

text \<open>C21. Addresses are exact: the address read from a text denotes a given key or script destination on a network if and only if the text is
  what \<open>ToString\<close> writes for this destination on this network, with white space around it. Every other text,
  an address of the other network included, denotes no destination.\<close>

theorem address_text_exact:
  assumes "mpi_documented (bn L)" "dest \<noteq> CNoDestination"
  shows "Address_Get T (CBitcoinAddress_str L s) = dest \<longleftrightarrow>
    (\<exists>a z. list_all isspace a \<and> list_all isspace z \<and> c_str s = a @ ToString L (CBitcoinAddress_dest T dest) @ z)"
  using CBitcoinAddress_str_iff [OF assms] Address_Get_iff [OF assms(2)] by simp

theorem address_text_exact_witness:
  "Address_Get False (CBitcoinAddress_str ssl_demo (ToString ssl_demo (CBitcoinAddress_dest False (DKeyID 5)))) = DKeyID 5"
proof (subst address_text_exact)
  let ?t = "ToString ssl_demo (CBitcoinAddress_dest False (DKeyID 5))"
  have "c_str ?t = [] @ ?t @ []"
    using c_str_EncodeBase58 [OF ssl_demo_documented(2)] dest_length [of "DKeyID 5" False] by (simp add: ToString_def EncodeBase58Check_def)
  moreover have "list_all isspace []" by simp
  ultimately show "\<exists>a z. list_all isspace a \<and> list_all isspace z \<and> c_str ?t = a @ ?t @ z" by blast
qed simp_all

end
