(* ===== verification/Sign.thy ===== *)
theory Sign
  imports Solver StdMap
begin

text \<open>
  The basic key store (\<open>keystore.h\<close>, \<open>keystore.cpp\<close>) and signing (\<open>script.cpp\<close>): \<open>Sign1\<close>, \<open>SignN\<close>, the signing
  \<open>Solver\<close>, \<open>SignSignature\<close> and \<open>CombineSignatures\<close>. The elliptic-curve operations on a secret are
  OpenSSL functions and fields of the record \<open>key_lib\<close>; \<open>signing_documented\<close> states what is relied on. A \<open>CKey\<close> is
  the secret it was set from with its compression flag.
\<close>

section \<open>Keys\<close>

record key_lib =
  i2o_ECPublicKey :: "byte list \<Rightarrow> bool \<Rightarrow> valtype"
  ECDSA_do_sign :: "byte list \<Rightarrow> byte list \<Rightarrow> (int \<times> int) option"
  EC_order :: int
  i2d_ECDSA_SIG :: "int \<Rightarrow> int \<Rightarrow> valtype"

record CKey =
  k_secret :: "byte list"
  fCompressedPubKey :: bool

definition CKey_GetPubKey :: "key_lib \<Rightarrow> CKey \<Rightarrow> valtype" where
  "CKey_GetPubKey K key = i2o_ECPublicKey K (k_secret key) (fCompressedPubKey key)"

text \<open>\<open>CKey::Sign\<close> replaces a high \<open>s\<close> by its negative modulo the order.\<close>

definition CKey_Sign :: "key_lib \<Rightarrow> CKey \<Rightarrow> uint256 \<Rightarrow> valtype option" where
  "CKey_Sign K key hash =
     (case ECDSA_do_sign K (k_secret key) (u256_bytes hash) of
        None \<Rightarrow> None
      | Some (r, s) \<Rightarrow> Some (i2d_ECDSA_SIG K r (if s > EC_order K div 2 then EC_order K - s else s)))"

section \<open>The basic key store\<close>

record CBasicKeyStore =
  mapKeys :: "(CKeyID, byte list \<times> bool) smap"
  mapScripts :: "(CScriptID, CScript) smap"

definition AddKey :: "ssl_lib \<Rightarrow> key_lib \<Rightarrow> CKey \<Rightarrow> 'a CBasicKeyStore_scheme \<Rightarrow> 'a CBasicKeyStore_scheme" where
  "AddKey L K key ks =
     ks\<lparr>mapKeys := sm_put (CPubKey_GetID L (CKey_GetPubKey K key)) (k_secret key, fCompressedPubKey key) (mapKeys ks)\<rparr>"

definition GetKey :: "'a CBasicKeyStore_scheme \<Rightarrow> CKeyID \<Rightarrow> CKey option" where
  "GetKey ks address =
     (case sm_find (mapKeys ks) address of
        None \<Rightarrow> None
      | Some (secret, fCompressed) \<Rightarrow> Some \<lparr>k_secret = secret, fCompressedPubKey = fCompressed\<rparr>)"

definition GetPubKey :: "key_lib \<Rightarrow> 'a CBasicKeyStore_scheme \<Rightarrow> CKeyID \<Rightarrow> valtype option" where
  "GetPubKey K ks address = map_option (CKey_GetPubKey K) (GetKey ks address)"

definition CScript_GetID :: "ssl_lib \<Rightarrow> CScript \<Rightarrow> CScriptID" where
  "CScript_GetID L s = Hash160 L s"

definition AddCScript :: "ssl_lib \<Rightarrow> CScript \<Rightarrow> 'a CBasicKeyStore_scheme \<Rightarrow> 'a CBasicKeyStore_scheme" where
  "AddCScript L redeemScript ks = ks\<lparr>mapScripts := sm_put (CScript_GetID L redeemScript) redeemScript (mapScripts ks)\<rparr>"

text \<open>The queries the rest of the code asks of a key store.\<close>

definition key_view_of :: "CBasicKeyStore \<Rightarrow> key_view" where
  "key_view_of ks = \<lparr>HaveKey = (\<lambda>a. sm_find (mapKeys ks) a \<noteq> None), GetCScript = sm_find (mapScripts ks)\<rparr>"

section \<open>Signing\<close>

text \<open>The script under construction is passed along and returned.\<close>

definition Sign1 :: "key_lib \<Rightarrow> CKeyID \<Rightarrow> CBasicKeyStore \<Rightarrow> uint256 \<Rightarrow> int \<Rightarrow> CScript \<Rightarrow> bool \<times> CScript" where
  "Sign1 K address keystore hash nHashType scriptSigRet =
     (case GetKey keystore address of
        None \<Rightarrow> (False, scriptSigRet)
      | Some key \<Rightarrow>
          (case CKey_Sign K key hash of
             None \<Rightarrow> (False, scriptSigRet)
           | Some vchSig \<Rightarrow> (True, scriptSigRet @ push_data (vchSig @ [word_of_int nHashType]))))"

fun sign_loop :: "ssl_lib \<Rightarrow> key_lib \<Rightarrow> CBasicKeyStore \<Rightarrow> uint256 \<Rightarrow> int \<Rightarrow> nat \<Rightarrow> nat \<Rightarrow> valtype list \<Rightarrow> CScript \<Rightarrow> nat \<times> CScript" where
  "sign_loop L K keystore hash nHashType nRequired nSigned [] s = (nSigned, s)"
| "sign_loop L K keystore hash nHashType nRequired nSigned (pubkey # r) s =
     (if nSigned < nRequired then
        (case Sign1 K (CPubKey_GetID L pubkey) keystore hash nHashType s of (ok, s1) \<Rightarrow>
           sign_loop L K keystore hash nHashType nRequired (if ok then Suc nSigned else nSigned) r s1)
      else (nSigned, s))"

definition SignN :: "ssl_lib \<Rightarrow> key_lib \<Rightarrow> valtype list \<Rightarrow> CBasicKeyStore \<Rightarrow> uint256 \<Rightarrow> int \<Rightarrow> CScript \<Rightarrow> bool \<times> CScript" where
  "SignN L K multisigdata keystore hash nHashType s =
     (let nRequired = unat (hd multisigdata ! 0) in
      case sign_loop L K keystore hash nHashType nRequired 0 (butlast (tl multisigdata)) s of
        (nSigned, s1) \<Rightarrow> (nSigned = nRequired, s1))"

definition Solver_sign :: "ssl_lib \<Rightarrow> key_lib \<Rightarrow> CBasicKeyStore \<Rightarrow> CScript \<Rightarrow> uint256 \<Rightarrow> int \<Rightarrow> bool \<times> CScript \<times> txnouttype" where
  "Solver_sign L K keystore spk hash nHashType =
     (case Solver spk of (ok, whichType, vSolutions) \<Rightarrow>
        if \<not> ok then (False, [], whichType)
        else case whichType of
          TX_NONSTANDARD \<Rightarrow> (False, [], whichType)
        | TX_PUBKEY \<Rightarrow> (case Sign1 K (CPubKey_GetID L (vSolutions ! 0)) keystore hash nHashType [] of (r, s) \<Rightarrow> (r, s, whichType))
        | TX_PUBKEYHASH \<Rightarrow>
            let keyID = bytes_u160 (vSolutions ! 0) in
            (case Sign1 K keyID keystore hash nHashType [] of
               (False, s) \<Rightarrow> (False, s, whichType)
             | (True, s) \<Rightarrow> (True, s @ push_data (case GetPubKey K keystore keyID of None \<Rightarrow> [] | Some k \<Rightarrow> k), whichType))
        | TX_SCRIPTHASH \<Rightarrow>
            (case sm_find (mapScripts keystore) (bytes_u160 (vSolutions ! 0)) of
               None \<Rightarrow> (False, [], whichType)
             | Some redeemScript \<Rightarrow> (True, redeemScript, whichType))
        | TX_MULTISIG \<Rightarrow> (case SignN L K vSolutions keystore hash nHashType (op_byte OP_0) of (r, s) \<Rightarrow> (r, s, whichType)))"

definition set_scriptSig :: "nat \<Rightarrow> CScript \<Rightarrow> CTransaction \<Rightarrow> CTransaction" where
  "set_scriptSig nIn s tx = tx\<lparr>vin := (vin tx)[nIn := (vin tx ! nIn)\<lparr>scriptSig := s\<rparr>]\<rparr>"

text \<open>\<open>None\<close> is the failed assertion on \<open>nIn\<close>; the transaction comes back changed in every other case.\<close>

definition SignSignature :: "ssl_lib \<Rightarrow> key_lib \<Rightarrow> CBasicKeyStore \<Rightarrow> CScript \<Rightarrow> CTransaction \<Rightarrow> nat \<Rightarrow> int \<Rightarrow>
    (bool \<times> CTransaction) option" where
  "SignSignature L K keystore fromPubKey txTo nIn nHashType =
     (if nIn \<ge> length (vin txTo) then None
      else let hash = SignatureHash L fromPubKey txTo nIn nHashType in
      case Solver_sign L K keystore fromPubKey hash nHashType of
        (False, s, _) \<Rightarrow> Some (False, set_scriptSig nIn s txTo)
      | (True, s, whichType) \<Rightarrow>
          if whichType = TX_SCRIPTHASH then
            let hash2 = SignatureHash L s (set_scriptSig nIn s txTo) nIn nHashType in
            (case Solver_sign L K keystore s hash2 nHashType of (ok, s2, subType) \<Rightarrow>
               let tx1 = set_scriptSig nIn (s2 @ push_data s) txTo in
               if \<not> (ok \<and> subType \<noteq> TX_SCRIPTHASH) then Some (False, tx1)
               else Some (VerifyScript L (s2 @ push_data s) fromPubKey tx1 nIn 0, tx1))
          else let tx1 = set_scriptSig nIn s txTo in Some (VerifyScript L s fromPubKey tx1 nIn 0, tx1))"

text \<open>The overload that looks up the output; its assertions are \<open>None\<close> too.\<close>

definition SignSignature_from :: "ssl_lib \<Rightarrow> key_lib \<Rightarrow> CBasicKeyStore \<Rightarrow> CTransaction \<Rightarrow> CTransaction \<Rightarrow> nat \<Rightarrow> int \<Rightarrow>
    (bool \<times> CTransaction) option" where
  "SignSignature_from L K keystore txFrom txTo nIn nHashType =
     (if nIn \<ge> length (vin txTo) then None
      else let p = prevout (vin txTo ! nIn) in
      if unat (op_n p) \<ge> length (vout txFrom) \<or> op_hash p \<noteq> GetHash L txFrom then None
      else SignSignature L K keystore (scriptPubKey (vout txFrom ! unat (op_n p))) txTo nIn nHashType)"

section \<open>Combining signatures\<close>

definition PushAll :: "valtype list \<Rightarrow> CScript" where
  "PushAll values = concat (map push_data values)"

text \<open>Each signature, in the order of the set, goes to the first key without one that it verifies for.\<close>

definition match_sig :: "(valtype \<Rightarrow> valtype \<Rightarrow> bool) \<Rightarrow> valtype list \<Rightarrow> valtype \<Rightarrow> (valtype \<rightharpoonup> valtype) \<Rightarrow> (valtype \<rightharpoonup> valtype)" where
  "match_sig check pubkeys sig sigs =
     (case find (\<lambda>pubkey. sigs pubkey = None \<and> check sig pubkey) pubkeys of
        None \<Rightarrow> sigs
      | Some pubkey \<Rightarrow> sigs(pubkey \<mapsto> sig))"

definition CombineMultisig :: "ssl_lib \<Rightarrow> CScript \<Rightarrow> CTransaction \<Rightarrow> nat \<Rightarrow> valtype list \<Rightarrow> valtype list \<Rightarrow> valtype list \<Rightarrow> CScript" where
  "CombineMultisig L spk txTo nIn vSolutions sigs1 sigs2 =
     (let allsigs = sorted_list_of_set ((set sigs1 \<union> set sigs2) - {[]});
          nSigsRequired = unat (hd vSolutions ! 0);
          pubkeys = butlast (tl vSolutions);
          sigs = fold (match_sig (\<lambda>sig pubkey. CheckSig L txTo nIn 0 sig pubkey spk) pubkeys) allsigs (\<lambda>_. None);
          have = take nSigsRequired (List.map_filter sigs pubkeys)
      in op_byte OP_0 @ PushAll have @ concat (replicate (nSigsRequired - length have) (op_byte OP_0)))"

text \<open>The stacks \<open>sigs1\<close> and \<open>sigs2\<close> have their top at the end, as the vectors do. Combining below a redeem
  script recurses once per level, which shortens both.\<close>

function CombineSignatures_stacks :: "ssl_lib \<Rightarrow> CScript \<Rightarrow> CTransaction \<Rightarrow> nat \<Rightarrow> txnouttype \<Rightarrow> valtype list \<Rightarrow> valtype list \<Rightarrow> valtype list \<Rightarrow> CScript" where
  "CombineSignatures_stacks L spk txTo nIn txType vSolutions sigs1 sigs2 =
     (case txType of
        TX_NONSTANDARD \<Rightarrow> if length sigs1 \<ge> length sigs2 then PushAll sigs1 else PushAll sigs2
      | TX_PUBKEY \<Rightarrow> if sigs1 = [] \<or> sigs1 ! 0 = [] then PushAll sigs2 else PushAll sigs1
      | TX_PUBKEYHASH \<Rightarrow> if sigs1 = [] \<or> sigs1 ! 0 = [] then PushAll sigs2 else PushAll sigs1
      | TX_SCRIPTHASH \<Rightarrow>
          if sigs1 = [] \<or> last sigs1 = [] then PushAll sigs2
          else if sigs2 = [] \<or> last sigs2 = [] then PushAll sigs1
          else let pubKey2 = last sigs1; r = Solver pubKey2 in
               CombineSignatures_stacks L pubKey2 txTo nIn (fst (snd r)) (snd (snd r)) (butlast sigs1) (butlast sigs2) @ push_data pubKey2
      | TX_MULTISIG \<Rightarrow> CombineMultisig L spk txTo nIn vSolutions sigs1 sigs2)"
  by pat_completeness auto
termination by (relation "measure (\<lambda>(L, spk, txTo, nIn, txType, vSolutions, sigs1, sigs2). length sigs1)") auto

declare CombineSignatures_stacks.simps [simp del]

text \<open>\<open>None\<close> when one of the scripts does not run to its end: what is then on the stack is not modelled. \<open>now\<close> is the clock,
  which stamps the empty transaction the scripts are run for.\<close>

definition CTransaction_empty :: "u32 \<Rightarrow> CTransaction" where
  "CTransaction_empty now = \<lparr>nVersion = 1, nTime = now, vin = [], vout = [], nLockTime = 0\<rparr>"

definition CombineSignatures :: "ssl_lib \<Rightarrow> u32 \<Rightarrow> CScript \<Rightarrow> CTransaction \<Rightarrow> nat \<Rightarrow> CScript \<Rightarrow> CScript \<Rightarrow> CScript option" where
  "CombineSignatures L now spk txTo nIn scriptSig1 scriptSig2 =
     (let check = CheckSig L (CTransaction_empty now) 0 0; r = Solver spk in
      case (EvalScript L check [] scriptSig1, EvalScript L check [] scriptSig2) of
        (Some stack1, Some stack2) \<Rightarrow>
          Some (CombineSignatures_stacks L spk txTo nIn (fst (snd r)) (snd (snd r)) (rev stack1) (rev stack2))
      | _ \<Rightarrow> None)"

section \<open>Signing a pay-to-pubkey-hash output\<close>

text \<open>What is relied on of the library for a key and a hash type: the signature it makes, also with \<open>s\<close> negated, is
  a canonical encoding, verifies under the public key, and the public key is canonical and can be read back.\<close>

definition signing_documented :: "ssl_lib \<Rightarrow> key_lib \<Rightarrow> CKey \<Rightarrow> int \<Rightarrow> bool" where
  "signing_documented L K key ht \<longleftrightarrow>
     (\<forall>h r s. ECDSA_do_sign K (k_secret key) h = Some (r, s) \<longrightarrow>
        (\<forall>s' \<in> {s, EC_order K - s}. IsCanonicalSignature (i2d_ECDSA_SIG K r s' @ [word_of_int ht]) \<and>
           ECDSA_verify L (CKey_GetPubKey K key) h (i2d_ECDSA_SIG K r s') = 1)) \<and>
     IsCanonicalPubKey (CKey_GetPubKey K key) \<and> o2i_ECPublicKey L (CKey_GetPubKey K key)"

lemma CKey_Sign_verifies:
  assumes "signing_documented L K key ht" "CKey_Sign K key hash = Some sig"
  shows "IsCanonicalSignature (sig @ [word_of_int ht])" "CKey_Verify L (CKey_GetPubKey K key) hash sig"
  using assms by (auto simp: signing_documented_def CKey_Sign_def CKey_Verify_def split: option.splits prod.splits)

lemma erase_prefix_none: "take (length b) s \<noteq> b \<Longrightarrow> erase_prefix b s = (s, 0)"
  by (subst erase_prefix.simps) auto

lemma fad_loop_step:
  assumes "erase_prefix b (p @ r) = (p @ r, 0)" "GetOp2 (p @ r) = Some (opcode, v, r)"
  shows "fst (fad_loop b (p @ r)) = p @ fst (fad_loop b r)"
  by (subst fad_loop.simps) (simp add: assms split: prod.split)

lemma fad_loop_Nil: "b \<noteq> [] \<Longrightarrow> fst (fad_loop b []) = []"
  by (subst fad_loop.simps) (simp add: erase_prefix_none GetOp2_def)

lemma FindAndDelete_p2pkh:
  assumes "length sig \<le> 73" "9 \<le> length sig" "sig \<noteq> u160_bytes h"
  shows "fst (FindAndDelete (p2pkh_script h) (push_data sig)) = p2pkh_script h"
proof -
  have pd: "push_data sig = of_nat (length sig) # sig" using assms(1) by (simp add: push_data_def)
  have small: "(of_nat (length sig) :: byte) \<noteq> b" if "unat b > 73 \<or> unat b < 9" for b
  proof
    assume "(of_nat (length sig) :: byte) = b"
    then have "unat b = length sig" using assms(1) by (auto simp: unat_of_nat)
    then show False using that assms(1,2) by simp
  qed
  have e: "erase_prefix (push_data sig) (b # r) = (b # r, 0)" if "unat b > 73 \<or> unat b < 9" for b r
    using small [OF that] by (intro erase_prefix_none) (auto simp: pd)
  have e20: "erase_prefix (push_data sig) (20 # u160_bytes h @ r) = (20 # u160_bytes h @ r, 0)" for r
  proof (rule erase_prefix_none, rule notI)
    assume a: "take (length (push_data sig)) (20 # u160_bytes h @ r) = push_data sig"
    then have "(of_nat (length sig) :: byte) = 20" "take (length sig) (u160_bytes h @ r) = sig" by (simp_all add: pd)
    then have "unat (of_nat (length sig) :: byte) = 20" by simp
    then have "length sig = 20" using assms(1) by (simp add: unat_of_nat)
    then show False using \<open>take _ _ = sig\<close> assms(3) by simp
  qed
  have op: "fst (fad_loop (push_data sig) (b # r)) = b # fst (fad_loop (push_data sig) r)" if "OP_PUSHDATA4 < unat b" for b r
    using fad_loop_step [of "push_data sig" "[b]" r] e [of b r] GetOp2_op [OF that, of r] that by simp
  have push: "fst (fad_loop (push_data sig) (20 # u160_bytes h @ r)) = 20 # u160_bytes h @ fst (fad_loop (push_data sig) r)" for r
    using fad_loop_step [of "push_data sig" "20 # u160_bytes h" r] e20 [of r] GetOp2_push_uint160 [of h r] by simp
  have "p2pkh_script h = 0x76 # 0xa9 # 20 # u160_bytes h @ [0x88, 0xac]" by (simp add: p2pkh_script_def op_byte_def push_data_def)
  moreover have "push_data sig \<noteq> []" by (simp add: pd)
  ultimately show ?thesis by (simp add: FindAndDelete_def op push fad_loop_Nil)
qed

lemma IsCanonicalSignature_length: "IsCanonicalSignature s \<Longrightarrow> 9 \<le> length s \<and> length s \<le> 73"
  by (auto simp: IsCanonicalSignature_def split: if_splits)

lemma IsCanonicalPubKey_length: "IsCanonicalPubKey k \<Longrightarrow> length k \<le> 65"
  by (auto simp: IsCanonicalPubKey_def split: if_splits)

lemma IsCanonicalSignature_type: "IsCanonicalSignature (sig @ [b]) \<Longrightarrow> b \<noteq> 0"
  by (auto simp: IsCanonicalSignature_def Let_def nth_append split: if_splits)

lemma SignatureHash_set: "nIn < length (vin tx) \<Longrightarrow> SignatureHash L code (set_scriptSig nIn s tx) nIn ht = SignatureHash L code tx nIn ht"
proof -
  assume n: "nIn < length (vin tx)"
  have "strip_scripts (set_scriptSig nIn s tx) = strip_scripts tx"
    using n by (simp add: strip_scripts_def set_scriptSig_def map_update) (simp add: list_update_same_conv)
  then show ?thesis unfolding SignatureHash_def using sighash_tx_strip by metis
qed

text \<open>Signing with a key of the store gives a script that verifies.\<close>

lemma SignSignature_p2pkh:
  assumes doc: "signing_documented L K key ht" and ht: "0 \<le> ht" "ht < 256" and n: "nIn < length (vin tx)"
    and key: "GetKey ks (Hash160 L (CKey_GetPubKey K key)) = Some key"
    and sig: "CKey_Sign K key (SignatureHash L (p2pkh_script (Hash160 L (CKey_GetPubKey K key))) tx nIn ht) = Some sig"
    and ne: "sig @ [word_of_int ht] \<noteq> u160_bytes (Hash160 L (CKey_GetPubKey K key))"
  shows "SignSignature L K ks (p2pkh_script (Hash160 L (CKey_GetPubKey K key))) tx nIn ht =
    Some (True, set_scriptSig nIn (push_data (sig @ [word_of_int ht]) @ push_data (CKey_GetPubKey K key)) tx)"
    "VerifyScript L (push_data (sig @ [word_of_int ht]) @ push_data (CKey_GetPubKey K key)) (p2pkh_script (Hash160 L (CKey_GetPubKey K key)))
       (set_scriptSig nIn (push_data (sig @ [word_of_int ht]) @ push_data (CKey_GetPubKey K key)) tx) nIn 0"
proof -
  let ?pk = "CKey_GetPubKey K key"
  let ?h = "Hash160 L ?pk" and ?sig = "sig @ [word_of_int ht]"
  let ?tx = "set_scriptSig nIn (push_data ?sig @ push_data ?pk) tx"
  note v = CKey_Sign_verifies [OF doc sig]
  have pk: "IsCanonicalPubKey ?pk" "CKey_SetPubKey L ?pk" using doc by (simp_all add: signing_documented_def CKey_SetPubKey_def)
  have l: "length ?sig \<le> 520" "length ?pk \<le> 520"
    using IsCanonicalSignature_length [OF v(1)] IsCanonicalPubKey_length [OF pk(1)] by simp_all
  have u: "uint (word_of_int ht :: byte) = ht" using ht by (simp add: uint_word_of_int)
  have "CheckSig L ?tx nIn 0 ?sig ?pk (p2pkh_script ?h)"
    using v(2) pk(2) n by (simp add: CheckSig_def sig_hash_type_def u SignatureHash_set)
  then show vs: "VerifyScript L (push_data ?sig @ push_data ?pk) (p2pkh_script ?h) ?tx nIn 0"
    using VerifyScript_p2pkh [OF l] FindAndDelete_p2pkh [of ?sig ?h] IsCanonicalSignature_length [OF v(1)] v(1) pk(1) ne by simp
  have "Solver_sign L K ks (p2pkh_script ?h) hash ht = (True, push_data ?sig @ push_data ?pk, TX_PUBKEYHASH)"
    if "hash = SignatureHash L (p2pkh_script ?h) tx nIn ht" for hash
    using key sig by (simp add: Solver_sign_def Solver_p2pkh Sign1_def GetPubKey_def that)
  then show "SignSignature L K ks (p2pkh_script ?h) tx nIn ht = Some (True, ?tx)" using n vs by (simp add: SignSignature_def)
qed

lemma VerifySignature_set:
  assumes "nIn < length (vin tx)" "unat (op_n (prevout (vin tx ! nIn))) < length (vout txFrom)" "op_hash (prevout (vin tx ! nIn)) = GetHash L txFrom"
  shows "VerifySignature L txFrom (set_scriptSig nIn s tx) nIn 0 =
    Some (VerifyScript L s (scriptPubKey (vout txFrom ! unat (op_n (prevout (vin tx ! nIn))))) (set_scriptSig nIn s tx) nIn 0)"
proof -
  have "vin (set_scriptSig nIn s tx) ! nIn = (vin tx ! nIn)\<lparr>scriptSig := s\<rparr>" "length (vin (set_scriptSig nIn s tx)) = length (vin tx)"
    using assms(1) by (simp_all add: set_scriptSig_def)
  then show ?thesis using assms by (simp add: VerifySignature_def)
qed

text \<open>A library that signs everything with the smallest canonical signature, for the witness.\<close>

definition sign_ssl :: ssl_lib where "sign_ssl = ssl_demo\<lparr>ECDSA_verify := (\<lambda>k h s. 1)\<rparr>"

definition sign_keys :: key_lib where
  "sign_keys = \<lparr>i2o_ECPublicKey = (\<lambda>s c. 2 # replicate 32 7), ECDSA_do_sign = (\<lambda>s h. Some (1, 1)), EC_order = 5,
     i2d_ECDSA_SIG = (\<lambda>r s. [0x30, 6, 2, 1, 1, 2, 1, 1])\<rparr>"

definition sign_key :: CKey where "sign_key = \<lparr>k_secret = replicate 32 1, fCompressedPubKey = True\<rparr>"

definition sign_from :: CTransaction where
  "sign_from = \<lparr>nVersion = 1, nTime = 5, vin = [], vout = [\<lparr>nValue = 7, scriptPubKey = p2pkh_script (CPubKey_GetID sign_ssl (2 # replicate 32 7))\<rparr>],
     nLockTime = 0\<rparr>"

definition sign_to :: CTransaction where
  "sign_to = \<lparr>nVersion = 1, nTime = 6, vin = [\<lparr>prevout = COutPoint (GetHash sign_ssl sign_from) 0, scriptSig = [], nSequence = -1\<rparr>], vout = [],
     nLockTime = 0\<rparr>"

lemma sign_demo:
  "CKey_GetPubKey sign_keys sign_key = 2 # replicate 32 7" "CKey_Sign sign_keys sign_key h = Some [0x30, 6, 2, 1, 1, 2, 1, 1]"
  "signing_documented sign_ssl sign_keys sign_key 1"
proof -
  show k: "CKey_GetPubKey sign_keys sign_key = 2 # replicate 32 7" by (simp add: CKey_GetPubKey_def sign_keys_def)
  show "CKey_Sign sign_keys sign_key h = Some [0x30, 6, 2, 1, 1, 2, 1, 1]" by (simp add: CKey_Sign_def sign_keys_def)
  have "IsCanonicalSignature [0x30, 6, 2, 1, 1, 2, 1, 1, 1]" by code_simp
  moreover have "IsCanonicalPubKey (2 # replicate 32 7)" by (simp add: IsCanonicalPubKey_def)
  ultimately show "signing_documented sign_ssl sign_keys sign_key 1"
    unfolding signing_documented_def k by (simp add: sign_ssl_def sign_keys_def ssl_demo_def)
qed

section \<open>Properties\<close>



end
