(* ===== verification/Crypter.thy ===== *)
theory Crypter
  imports Sign
begin

text \<open>
  Encrypted keys: \<open>CCrypter\<close>, \<open>CMasterKey\<close>, \<open>EncryptSecret\<close> and \<open>DecryptSecret\<close> (\<open>crypter.h\<close>, \<open>crypter.cpp\<close>)
  and the key store \<open>CCryptoKeyStore\<close> (\<open>keystore.h\<close>, \<open>keystore.cpp\<close>), a record that extends
  \<open>CBasicKeyStore\<close> as the class does. AES, the key derivation of OpenSSL and the hash of \<open>scrypt.cpp\<close>
  are fields of the record \<open>crypt_lib\<close>; \<open>aes_documented\<close> and \<open>pubkey_documented\<close> state what is relied
  on. The life of a store is the step relation \<open>kstep\<close>.
\<close>

section \<open>Crypter\<close>

text \<open>\<open>EVP_BytesToKey\<close> (AES-256-CBC with SHA-512) returns the size it derived, the key and the IV; \<open>EVP_Encrypt\<close> stands for
  the calls of init, update and final: whether they succeed and what the buffer then holds. The cipher reads 16 bytes of the IV.\<close>

record crypt_lib =
  EVP_BytesToKey :: "byte list \<Rightarrow> byte list \<Rightarrow> nat \<Rightarrow> nat \<times> byte list \<times> byte list"
  EVP_Encrypt :: "byte list \<Rightarrow> byte list \<Rightarrow> byte list \<Rightarrow> bool \<times> byte list"
  EVP_Decrypt :: "byte list \<Rightarrow> byte list \<Rightarrow> byte list \<Rightarrow> byte list option"
  scrypt_salted_hash :: "byte list \<Rightarrow> byte list \<Rightarrow> uint256"

definition aes_documented :: "crypt_lib \<Rightarrow> bool" where
  "aes_documented C \<longleftrightarrow> (\<forall>k iv p c. EVP_Encrypt C k iv p = (True, c) \<longrightarrow> EVP_Decrypt C k iv c = Some p)"

definition WALLET_CRYPTO_KEY_SIZE :: nat where "WALLET_CRYPTO_KEY_SIZE = 32"
definition WALLET_CRYPTO_SALT_SIZE :: nat where "WALLET_CRYPTO_SALT_SIZE = 8"

record CMasterKey =
  vchCryptedKey :: "byte list"
  vchSalt :: "byte list"
  nDerivationMethod :: u32
  nDeriveIterations :: u32
  vchOtherDerivationParameters :: "byte list"

definition CMasterKey_new :: "u32 \<Rightarrow> CMasterKey" where
  "CMasterKey_new nDerivationMethodIndex =
     (if nDerivationMethodIndex = 1
      then \<lparr>vchCryptedKey = [], vchSalt = [], nDerivationMethod = 1, nDeriveIterations = 10000, vchOtherDerivationParameters = []\<rparr>
      else \<lparr>vchCryptedKey = [], vchSalt = [], nDerivationMethod = 0, nDeriveIterations = 25000, vchOtherDerivationParameters = []\<rparr>)"

text \<open>The arrays of a new crypter are not initialized and, as \<open>fKeySet\<close> is false, not read.\<close>

record CCrypter =
  chKey :: "byte list"
  chIV :: "byte list"
  fKeySet :: bool

definition CCrypter_new :: CCrypter where
  "CCrypter_new = \<lparr>chKey = [], chIV = [], fKeySet = False\<rparr>"

primrec scrypt_rounds :: "crypt_lib \<Rightarrow> byte list \<Rightarrow> nat \<Rightarrow> uint256 \<Rightarrow> uint256" where
  "scrypt_rounds C input 0 transitionalHash = transitionalHash"
| "scrypt_rounds C input (Suc i) transitionalHash = scrypt_rounds C input i (scrypt_salted_hash C input (u256_bytes transitionalHash))"

definition scrypt_salted_multiround_hash :: "crypt_lib \<Rightarrow> byte list \<Rightarrow> byte list \<Rightarrow> nat \<Rightarrow> uint256" where
  "scrypt_salted_multiround_hash C input salt nRounds = scrypt_rounds C input (nRounds - 1) (scrypt_salted_hash C input salt)"

text \<open>On a failed derivation the arrays are wiped, but \<open>fKeySet\<close> stays what it was.\<close>

definition SetKeyFromPassphrase :: "crypt_lib \<Rightarrow> byte list \<Rightarrow> byte list \<Rightarrow> u32 \<Rightarrow> u32 \<Rightarrow> CCrypter \<Rightarrow> bool \<times> CCrypter" where
  "SetKeyFromPassphrase C strKeyData chSalt nRounds method c =
     (if nRounds < 1 \<or> length chSalt \<noteq> WALLET_CRYPTO_SALT_SIZE then (False, c)
      else case (if method = 0 then EVP_BytesToKey C chSalt strKeyData (unat nRounds)
                 else if method = 1 then
                   let scryptHash = scrypt_salted_multiround_hash C strKeyData chSalt (unat nRounds) in
                   EVP_BytesToKey C chSalt (u256_bytes scryptHash) (unat nRounds)
                 else (0, chKey c, chIV c)) of
        (i, k, iv) \<Rightarrow>
          if i \<noteq> WALLET_CRYPTO_KEY_SIZE
          then (False, c\<lparr>chKey := replicate WALLET_CRYPTO_KEY_SIZE 0, chIV := replicate WALLET_CRYPTO_KEY_SIZE 0\<rparr>)
          else (True, \<lparr>chKey = k, chIV = iv @ drop (length iv) (chIV c), fKeySet = True\<rparr>))"

definition SetKey :: "byte list \<Rightarrow> byte list \<Rightarrow> CCrypter \<Rightarrow> bool \<times> CCrypter" where
  "SetKey chNewKey chNewIV c =
     (if length chNewKey \<noteq> WALLET_CRYPTO_KEY_SIZE \<or> length chNewIV \<noteq> WALLET_CRYPTO_KEY_SIZE then (False, c)
      else (True, \<lparr>chKey = chNewKey, chIV = chNewIV, fKeySet = True\<rparr>))"

text \<open>The ciphertext argument is the vector the caller passes, which is kept when no key is set.\<close>

definition Encrypt :: "crypt_lib \<Rightarrow> CCrypter \<Rightarrow> byte list \<Rightarrow> byte list \<Rightarrow> bool \<times> byte list" where
  "Encrypt C c vchPlaintext vchCiphertext =
     (if \<not> fKeySet c then (False, vchCiphertext) else EVP_Encrypt C (chKey c) (take 16 (chIV c)) vchPlaintext)"

definition Decrypt :: "crypt_lib \<Rightarrow> CCrypter \<Rightarrow> byte list \<Rightarrow> byte list option" where
  "Decrypt C c vchCiphertext = (if \<not> fKeySet c then None else EVP_Decrypt C (chKey c) (take 16 (chIV c)) vchCiphertext)"

definition EncryptSecret :: "crypt_lib \<Rightarrow> byte list \<Rightarrow> byte list \<Rightarrow> uint256 \<Rightarrow> byte list option" where
  "EncryptSecret C vMasterKeyIn vchPlaintext nIV =
     (case SetKey vMasterKeyIn (u256_bytes nIV) CCrypter_new of
        (False, _) \<Rightarrow> None
      | (True, cKeyCrypter) \<Rightarrow>
          (case Encrypt C cKeyCrypter vchPlaintext [] of (False, _) \<Rightarrow> None | (True, c) \<Rightarrow> Some c))"

definition DecryptSecret :: "crypt_lib \<Rightarrow> byte list \<Rightarrow> byte list \<Rightarrow> uint256 \<Rightarrow> byte list option" where
  "DecryptSecret C vMasterKeyIn vchCiphertext nIV =
     (case SetKey vMasterKeyIn (u256_bytes nIV) CCrypter_new of
        (False, _) \<Rightarrow> None
      | (True, cKeyCrypter) \<Rightarrow> Decrypt C cKeyCrypter vchCiphertext)"

section \<open>The encrypted key store\<close>

record CCryptoKeyStore = CBasicKeyStore +
  mapCryptedKeys :: "(CKeyID, valtype \<times> byte list) smap"
  vMasterKey :: "byte list"
  fUseCrypto :: bool

definition CCryptoKeyStore_new :: CCryptoKeyStore where
  "CCryptoKeyStore_new = \<lparr>mapKeys = [], mapScripts = [], mapCryptedKeys = [], vMasterKey = [], fUseCrypto = False\<rparr>"

definition IsLocked :: "'a CCryptoKeyStore_scheme \<Rightarrow> bool" where
  "IsLocked ks = (if \<not> fUseCrypto ks then False else vMasterKey ks = [])"

definition SetCrypted :: "'a CCryptoKeyStore_scheme \<Rightarrow> bool \<times> 'a CCryptoKeyStore_scheme" where
  "SetCrypted ks =
     (if fUseCrypto ks then (True, ks)
      else if mapKeys ks \<noteq> [] then (False, ks)
      else (True, ks\<lparr>fUseCrypto := True\<rparr>))"

definition Lock :: "'a CCryptoKeyStore_scheme \<Rightarrow> bool \<times> 'a CCryptoKeyStore_scheme" where
  "Lock ks = (case SetCrypted ks of (False, ks1) \<Rightarrow> (False, ks1) | (True, ks1) \<Rightarrow> (True, ks1\<lparr>vMasterKey := []\<rparr>))"

text \<open>What \<open>CKey::SetPubKey\<close> leaves of the compression flag, which a following \<open>SetSecret\<close> keeps: a success only ever sets it.\<close>

definition SetPubKey_flag :: "ssl_lib \<Rightarrow> valtype \<Rightarrow> bool \<Rightarrow> bool" where
  "SetPubKey_flag L vchPubKey f = (if CKey_SetPubKey L vchPubKey then f \<or> length vchPubKey = 33 else False)"

text \<open>The loop of \<open>Unlock\<close> is left at its first key in every case.\<close>

definition Unlock :: "ssl_lib \<Rightarrow> key_lib \<Rightarrow> crypt_lib \<Rightarrow> byte list \<Rightarrow> 'a CCryptoKeyStore_scheme \<Rightarrow> bool \<times> 'a CCryptoKeyStore_scheme" where
  "Unlock L K C vMasterKeyIn ks =
     (case SetCrypted ks of
        (False, ks1) \<Rightarrow> (False, ks1)
      | (True, ks1) \<Rightarrow>
          (case mapCryptedKeys ks1 of
             [] \<Rightarrow> (True, ks1\<lparr>vMasterKey := vMasterKeyIn\<rparr>)
           | (_, vchPubKey, vchCryptedSecret) # _ \<Rightarrow>
               (case DecryptSecret C vMasterKeyIn vchCryptedSecret (Hash L vchPubKey) of
                  None \<Rightarrow> (False, ks1)
                | Some vchSecret \<Rightarrow>
                    if length vchSecret \<noteq> 32 then (False, ks1)
                    else if CKey_GetPubKey K \<lparr>k_secret = vchSecret, fCompressedPubKey = SetPubKey_flag L vchPubKey False\<rparr> = vchPubKey
                    then (True, ks1\<lparr>vMasterKey := vMasterKeyIn\<rparr>)
                    else (False, ks1))))"

definition AddCryptedKey :: "ssl_lib \<Rightarrow> valtype \<Rightarrow> byte list \<Rightarrow> 'a CCryptoKeyStore_scheme \<Rightarrow> bool \<times> 'a CCryptoKeyStore_scheme" where
  "AddCryptedKey L vchPubKey vchCryptedSecret ks =
     (case SetCrypted ks of
        (False, ks1) \<Rightarrow> (False, ks1)
      | (True, ks1) \<Rightarrow> (True, ks1\<lparr>mapCryptedKeys := sm_put (CPubKey_GetID L vchPubKey) (vchPubKey, vchCryptedSecret) (mapCryptedKeys ks1)\<rparr>))"

text \<open>\<open>AddCryptedKey\<close> is virtual and the wallet's version also writes the key to its file; \<open>W\<close> tells whether that write succeeds,
  and is constantly true for a wallet without a file.\<close>

definition CWallet_AddCryptedKey :: "ssl_lib \<Rightarrow> (valtype \<Rightarrow> byte list \<Rightarrow> bool) \<Rightarrow> valtype \<Rightarrow> byte list \<Rightarrow>
    'a CCryptoKeyStore_scheme \<Rightarrow> bool \<times> 'a CCryptoKeyStore_scheme" where
  "CWallet_AddCryptedKey L W vchPubKey vchCryptedSecret ks =
     (case AddCryptedKey L vchPubKey vchCryptedSecret ks of
        (False, ks1) \<Rightarrow> (False, ks1)
      | (True, ks1) \<Rightarrow> (W vchPubKey vchCryptedSecret, ks1))"

definition CryptoAddKey :: "ssl_lib \<Rightarrow> key_lib \<Rightarrow> crypt_lib \<Rightarrow> (valtype \<Rightarrow> byte list \<Rightarrow> bool) \<Rightarrow> CKey \<Rightarrow>
    'a CCryptoKeyStore_scheme \<Rightarrow> bool \<times> 'a CCryptoKeyStore_scheme" where
  "CryptoAddKey L K C W key ks =
     (if \<not> fUseCrypto ks then (True, AddKey L K key ks)
      else if IsLocked ks then (False, ks)
      else let vchPubKey = CKey_GetPubKey K key in
      case EncryptSecret C (vMasterKey ks) (k_secret key) (Hash L vchPubKey) of
        None \<Rightarrow> (False, ks)
      | Some vchCryptedSecret \<Rightarrow> CWallet_AddCryptedKey L W vchPubKey vchCryptedSecret ks)"

definition CryptoHaveKey :: "'a CCryptoKeyStore_scheme \<Rightarrow> CKeyID \<Rightarrow> bool" where
  "CryptoHaveKey ks address =
     (if \<not> fUseCrypto ks then sm_find (mapKeys ks) address \<noteq> None else sm_find (mapCryptedKeys ks) address \<noteq> None)"

text \<open>The flag \<open>f\<close> is that of the key object the caller passes in, which is reset only by the basic store.\<close>

definition CryptoGetKey :: "ssl_lib \<Rightarrow> crypt_lib \<Rightarrow> 'a CCryptoKeyStore_scheme \<Rightarrow> CKeyID \<Rightarrow> bool \<Rightarrow> CKey option" where
  "CryptoGetKey L C ks address f =
     (if \<not> fUseCrypto ks then GetKey ks address
      else case sm_find (mapCryptedKeys ks) address of
        None \<Rightarrow> None
      | Some (vchPubKey, vchCryptedSecret) \<Rightarrow>
          (case DecryptSecret C (vMasterKey ks) vchCryptedSecret (Hash L vchPubKey) of
             None \<Rightarrow> None
           | Some vchSecret \<Rightarrow>
               if length vchSecret \<noteq> 32 then None
               else Some \<lparr>k_secret = vchSecret, fCompressedPubKey = SetPubKey_flag L vchPubKey f\<rparr>))"

definition CryptoGetPubKey :: "key_lib \<Rightarrow> 'a CCryptoKeyStore_scheme \<Rightarrow> CKeyID \<Rightarrow> valtype option" where
  "CryptoGetPubKey K ks address =
     (if \<not> fUseCrypto ks then GetPubKey K ks address else map_option fst (sm_find (mapCryptedKeys ks) address))"

definition CryptoGetKeys :: "'a CCryptoKeyStore_scheme \<Rightarrow> CKeyID list" where
  "CryptoGetKeys ks = (if \<not> fUseCrypto ks then map fst (mapKeys ks) else map fst (mapCryptedKeys ks))"

text \<open>\<open>CKey::SetSecret\<close> throws \<open>key_error\<close> for a secret that has not 32 bytes.\<close>

datatype outcome = Returned bool | Threw_key_error

fun EncryptKeys_loop :: "ssl_lib \<Rightarrow> key_lib \<Rightarrow> crypt_lib \<Rightarrow> (valtype \<Rightarrow> byte list \<Rightarrow> bool) \<Rightarrow> byte list \<Rightarrow> (CKeyID, byte list \<times> bool) smap \<Rightarrow>
    'a CCryptoKeyStore_scheme \<Rightarrow> outcome \<times> 'a CCryptoKeyStore_scheme" where
  "EncryptKeys_loop L K C W vMasterKeyIn [] ks = (Returned True, ks)"
| "EncryptKeys_loop L K C W vMasterKeyIn ((_, secret, fCompressed) # r) ks =
     (if length secret \<noteq> 32 then (Threw_key_error, ks)
      else let vchPubKey = CKey_GetPubKey K \<lparr>k_secret = secret, fCompressedPubKey = fCompressed\<rparr> in
      case EncryptSecret C vMasterKeyIn secret (Hash L vchPubKey) of
        None \<Rightarrow> (Returned False, ks)
      | Some vchCryptedSecret \<Rightarrow>
          (case CWallet_AddCryptedKey L W vchPubKey vchCryptedSecret ks of
             (False, ks1) \<Rightarrow> (Returned False, ks1)
           | (True, ks1) \<Rightarrow> EncryptKeys_loop L K C W vMasterKeyIn r ks1))"

definition EncryptKeys :: "ssl_lib \<Rightarrow> key_lib \<Rightarrow> crypt_lib \<Rightarrow> (valtype \<Rightarrow> byte list \<Rightarrow> bool) \<Rightarrow> byte list \<Rightarrow>
    'a CCryptoKeyStore_scheme \<Rightarrow> outcome \<times> 'a CCryptoKeyStore_scheme" where
  "EncryptKeys L K C W vMasterKeyIn ks =
     (if mapCryptedKeys ks \<noteq> [] \<or> fUseCrypto ks then (Returned False, ks)
      else case EncryptKeys_loop L K C W vMasterKeyIn (mapKeys ks) (ks\<lparr>fUseCrypto := True\<rparr>) of
        (Returned True, ks1) \<Rightarrow> (Returned True, ks1\<lparr>mapKeys := []\<rparr>)
      | r \<Rightarrow> r)"

section \<open>The life of a store\<close>

text \<open>The operations of the class as steps. \<open>EncryptKeys\<close> is a step when it succeeds: its only caller, \<open>CWallet::EncryptWallet\<close>,
  ends the process otherwise. A key that is added has a 32-byte secret, as every \<open>CKey\<close> that is set.\<close>

inductive kstep :: "ssl_lib \<Rightarrow> key_lib \<Rightarrow> crypt_lib \<Rightarrow> CCryptoKeyStore \<Rightarrow> CCryptoKeyStore \<Rightarrow> bool" for L K C where
  Lock: "Lock ks = (r, ks') \<Longrightarrow> kstep L K C ks ks'"
| Unlock: "Unlock L K C vMasterKeyIn ks = (r, ks') \<Longrightarrow> kstep L K C ks ks'"
| AddKey: "length (k_secret key) = 32 \<Longrightarrow> CryptoAddKey L K C W key ks = (r, ks') \<Longrightarrow> kstep L K C ks ks'"
| AddCryptedKey: "CWallet_AddCryptedKey L W vchPubKey vchCryptedSecret ks = (r, ks') \<Longrightarrow> kstep L K C ks ks'"
| AddCScript: "kstep L K C ks (AddCScript L redeemScript ks)"
| EncryptKeys: "EncryptKeys L K C W vMasterKeyIn ks = (Returned True, ks') \<Longrightarrow> kstep L K C ks ks'"

inductive kreach :: "ssl_lib \<Rightarrow> key_lib \<Rightarrow> crypt_lib \<Rightarrow> CCryptoKeyStore \<Rightarrow> bool" for L K C where
  new: "kreach L K C CCryptoKeyStore_new"
| step: "kreach L K C ks \<Longrightarrow> kstep L K C ks ks' \<Longrightarrow> kreach L K C ks'"

text \<open>The comment on \<open>fUseCrypto\<close>, and that a store without encryption has no encrypted keys.\<close>

definition store_mode :: "'a CCryptoKeyStore_scheme \<Rightarrow> bool" where
  "store_mode ks \<longleftrightarrow> (if fUseCrypto ks then mapKeys ks = [] else vMasterKey ks = [] \<and> mapCryptedKeys ks = [])"

text \<open>The entries are well typed: sorted maps, secrets of 32 bytes, every entry under the identifier of its public key.\<close>

definition store_typed :: "ssl_lib \<Rightarrow> key_lib \<Rightarrow> 'a CCryptoKeyStore_scheme \<Rightarrow> bool" where
  "store_typed L K ks \<longleftrightarrow>
     sm_ok (mapKeys ks) \<and> sm_ok (mapCryptedKeys ks) \<and>
     (\<forall>(i, s, c) \<in> set (mapKeys ks). length s = 32 \<and> i = CPubKey_GetID L (CKey_GetPubKey K \<lparr>k_secret = s, fCompressedPubKey = c\<rparr>)) \<and>
     (\<forall>(i, pk, _) \<in> set (mapCryptedKeys ks). i = CPubKey_GetID L pk)"

named_theorems store_simps "what the operations of the store do to its well-formedness"

lemma set_sm_put: "set (sm_put k v m) \<subseteq> insert (k, v) (set m)"
proof (induction m)
  case (Cons e m)
  then show ?case by (cases e) auto
qed simp

lemma typed_upd [store_simps]:
  "store_typed L K (ks\<lparr>vMasterKey := m\<rparr>) = store_typed L K ks" "store_typed L K (ks\<lparr>fUseCrypto := b\<rparr>) = store_typed L K ks"
  "store_typed L K (ks\<lparr>mapScripts := x\<rparr>) = store_typed L K ks" "store_typed L K ks \<Longrightarrow> store_typed L K (ks\<lparr>mapKeys := []\<rparr>)"
  by (simp_all add: store_typed_def sm_ok_def)

lemma typed_put_crypted [store_simps]:
  "store_typed L K ks \<Longrightarrow> store_typed L K (ks\<lparr>mapCryptedKeys := sm_put (CPubKey_GetID L pk) (pk, c) (mapCryptedKeys ks)\<rparr>)"
  using set_sm_put [of "CPubKey_GetID L pk" "(pk, c)" "mapCryptedKeys ks"] by (fastforce simp: store_typed_def intro: sm_ok_put)

lemma typed_AddKey [store_simps]:
  "store_typed L K ks \<Longrightarrow> length (k_secret key) = 32 \<Longrightarrow> store_typed L K (AddKey L K key ks)"
proof -
  assume a: "store_typed L K ks" "length (k_secret key) = 32"
  let ?e = "(CPubKey_GetID L (CKey_GetPubKey K key), k_secret key, fCompressedPubKey key)"
  have "\<forall>(i, s, c) \<in> insert ?e (set (mapKeys ks)). length s = 32 \<and> i = CPubKey_GetID L (CKey_GetPubKey K \<lparr>k_secret = s, fCompressedPubKey = c\<rparr>)"
    using a by (simp add: store_typed_def CKey_GetPubKey_def)
  then have "\<forall>(i, s, c) \<in> set (mapKeys (AddKey L K key ks)). length s = 32 \<and> i = CPubKey_GetID L (CKey_GetPubKey K \<lparr>k_secret = s, fCompressedPubKey = c\<rparr>)"
    using set_sm_put by (auto simp: AddKey_def dest!: subsetD [OF set_sm_put])
  then show ?thesis using a by (simp add: store_typed_def AddKey_def sm_ok_put)
qed

text \<open>The operations in closed form, in a store whose mode is right.\<close>

lemma SetCrypted_on [simp]: "fUseCrypto ks \<Longrightarrow> SetCrypted ks = (True, ks)"
  by (simp add: SetCrypted_def)

lemma SetCrypted_eq: "store_mode ks \<Longrightarrow> SetCrypted ks = (if mapKeys ks = [] then (True, ks\<lparr>fUseCrypto := True\<rparr>) else (False, ks))"
  by (cases ks) (auto simp: SetCrypted_def store_mode_def split: if_splits)

lemma Lock_eq: "store_mode ks \<Longrightarrow> Lock ks = (if mapKeys ks = [] then (True, ks\<lparr>fUseCrypto := True, vMasterKey := []\<rparr>) else (False, ks))"
  by (simp add: Lock_def SetCrypted_eq)

lemma AddCryptedKey_eq:
  "store_mode ks \<Longrightarrow> CWallet_AddCryptedKey L W pk c ks =
     (if mapKeys ks = [] then (W pk c, ks\<lparr>fUseCrypto := True, mapCryptedKeys := sm_put (CPubKey_GetID L pk) (pk, c) (mapCryptedKeys ks)\<rparr>)
      else (False, ks))"
  by (simp add: CWallet_AddCryptedKey_def AddCryptedKey_def SetCrypted_eq)

lemma Unlock_cases:
  assumes "store_mode ks" "Unlock L K C m ks = (b, ks1)"
  obtains "\<not> b" "ks1 = ks" | "\<not> b" "mapKeys ks = []" "ks1 = ks\<lparr>fUseCrypto := True\<rparr>"
  | "b" "mapKeys ks = []" "ks1 = ks\<lparr>fUseCrypto := True, vMasterKey := m\<rparr>"
  using assms(2) by (auto simp: Unlock_def SetCrypted_eq [OF assms(1)] split: if_splits list.splits option.splits prod.splits)

text \<open>Every operation keeps mode and typing.\<close>

definition store_ok :: "ssl_lib \<Rightarrow> key_lib \<Rightarrow> 'a CCryptoKeyStore_scheme \<Rightarrow> bool" where
  "store_ok L K ks \<longleftrightarrow> store_mode ks \<and> store_typed L K ks"

lemma Lock_mode: "store_mode ks \<Longrightarrow> mapKeys ks = [] \<Longrightarrow> store_mode (ks\<lparr>fUseCrypto := True\<rparr>)"
  "store_mode ks \<Longrightarrow> mapKeys ks = [] \<Longrightarrow> store_mode (ks\<lparr>fUseCrypto := True, vMasterKey := m\<rparr>)"
  by (simp_all add: store_mode_def)

lemma Lock_ok: "store_ok L K ks \<Longrightarrow> Lock ks = (b, ks1) \<Longrightarrow> store_ok L K ks1"
  by (auto simp: store_ok_def Lock_eq store_simps store_mode_def split: if_splits)

lemma Unlock_ok: "store_ok L K ks \<Longrightarrow> Unlock L K C m ks = (b, ks1) \<Longrightarrow> store_ok L K ks1"
  unfolding store_ok_def by (metis Unlock_cases Lock_mode typed_upd(1,2))

lemma AddCryptedKey_ok: "store_ok L K ks \<Longrightarrow> CWallet_AddCryptedKey L W pk c ks = (b, ks1) \<Longrightarrow> store_ok L K ks1"
  using typed_put_crypted [of L K "ks\<lparr>fUseCrypto := True\<rparr>" pk c]
  by (auto simp: store_ok_def AddCryptedKey_eq store_simps store_mode_def split: if_splits)

lemma CryptoAddKey_ok:
  assumes "store_ok L K ks" "length (k_secret key) = 32" "CryptoAddKey L K C W key ks = (b, ks1)"
  shows "store_ok L K ks1"
proof (cases "fUseCrypto ks")
  case True
  then show ?thesis using assms AddCryptedKey_ok [OF assms(1)] by (auto simp: CryptoAddKey_def Let_def split: if_splits option.splits)
next
  case False
  then have "ks1 = AddKey L K key ks" using assms(3) by (simp add: CryptoAddKey_def)
  moreover have "store_mode (AddKey L K key ks)" using assms(1) False by (simp add: store_ok_def store_mode_def AddKey_def)
  ultimately show ?thesis using assms(1,2) by (simp add: store_ok_def store_simps)
qed

lemma EncryptKeys_loop_ok:
  "EncryptKeys_loop L K C W m keys ks = (r, ks1) \<Longrightarrow> store_typed L K ks \<Longrightarrow> fUseCrypto ks \<Longrightarrow>
   store_typed L K ks1 \<and> fUseCrypto ks1 \<and> mapKeys ks1 = mapKeys ks \<and> vMasterKey ks1 = vMasterKey ks"
proof (induction keys arbitrary: ks)
  case (Cons e keys)
  obtain i s c where e: "e = (i, s, c)" by (metis prod_cases3)
  show ?case
    using Cons.prems Cons.IH [OF _ typed_put_crypted [OF Cons.prems(2)]] typed_put_crypted [OF Cons.prems(2)]
    by (auto simp: e Let_def CWallet_AddCryptedKey_def AddCryptedKey_def split: if_splits option.splits bool.splits prod.splits)
qed simp

lemma EncryptKeys_ok:
  assumes "store_ok L K ks" "EncryptKeys L K C W m ks = (Returned True, ks1)"
  shows "store_ok L K ks1" "vMasterKey ks1 = []" "fUseCrypto ks1" "mapKeys ks1 = []"
proof -
  have off: "\<not> fUseCrypto ks" "vMasterKey ks = []" using assms by (auto simp: EncryptKeys_def store_ok_def store_mode_def split: if_splits)
  obtain ks2 where l: "EncryptKeys_loop L K C W m (mapKeys ks) (ks\<lparr>fUseCrypto := True\<rparr>) = (Returned True, ks2)" "ks1 = ks2\<lparr>mapKeys := []\<rparr>"
    using assms(2) by (auto simp: EncryptKeys_def split: if_splits prod.splits outcome.splits bool.splits)
  have "store_typed L K ks2 \<and> fUseCrypto ks2 \<and> mapKeys ks2 = mapKeys ks \<and> vMasterKey ks2 = vMasterKey ks"
    using EncryptKeys_loop_ok [OF l(1)] assms(1) by (simp add: store_ok_def store_simps)
  then show "store_ok L K ks1" "vMasterKey ks1 = []" "fUseCrypto ks1" "mapKeys ks1 = []" using l(2) off by (simp_all add: store_ok_def store_mode_def store_simps)
qed

lemma kstep_ok: "kstep L K C ks ks' \<Longrightarrow> store_ok L K ks \<Longrightarrow> store_ok L K ks'"
proof (induction rule: kstep.induct)
  case (AddCScript ks s)
  then show ?case by (simp add: store_ok_def store_mode_def Sign.AddCScript_def store_simps)
qed (auto intro: Lock_ok Unlock_ok AddCryptedKey_ok CryptoAddKey_ok EncryptKeys_ok)

lemma new_ok: "store_ok L K CCryptoKeyStore_new"
  by (simp add: CCryptoKeyStore_new_def store_ok_def store_mode_def store_typed_def sm_ok_def)

lemma kreach_ok: "kreach L K C ks \<Longrightarrow> store_ok L K ks"
  by (induction rule: kreach.induct) (auto intro: new_ok kstep_ok)

section \<open>The keys a store gives back\<close>

definition pubkey_documented :: "ssl_lib \<Rightarrow> key_lib \<Rightarrow> bool" where
  "pubkey_documented L K \<longleftrightarrow> (\<forall>s c. length s = 32 \<longrightarrow>
     length (i2o_ECPublicKey K s c) = (if c then 33 else 65) \<and> o2i_ECPublicKey L (i2o_ECPublicKey K s c))"

lemma DecryptSecret_Encrypt: "aes_documented C \<Longrightarrow> EncryptSecret C m p iv = Some c \<Longrightarrow> DecryptSecret C m c iv = Some p"
  by (auto simp: EncryptSecret_def DecryptSecret_def SetKey_def Encrypt_def Decrypt_def aes_documented_def
      split: if_splits prod.splits bool.splits)

lemma DecryptSecret_locked [simp]: "DecryptSecret C [] c iv = None"
  by (simp add: DecryptSecret_def SetKey_def WALLET_CRYPTO_KEY_SIZE_def)

lemma SetPubKey_flag_key:
  "pubkey_documented L K \<Longrightarrow> length (k_secret key) = 32 \<Longrightarrow> SetPubKey_flag L (CKey_GetPubKey K key) False = fCompressedPubKey key"
  by (simp add: pubkey_documented_def SetPubKey_flag_def CKey_SetPubKey_def CKey_GetPubKey_def)

text \<open>What the encrypted store makes of an entry depends on the entry, the master key and the flag only.\<close>

fun open_entry :: "ssl_lib \<Rightarrow> crypt_lib \<Rightarrow> byte list \<Rightarrow> bool \<Rightarrow> (valtype \<times> byte list) option \<Rightarrow> CKey option" where
  "open_entry L C m f None = None"
| "open_entry L C m f (Some (pk, c)) =
     (case DecryptSecret C m c (Hash L pk) of
        None \<Rightarrow> None
      | Some s \<Rightarrow> if length s \<noteq> 32 then None else Some \<lparr>k_secret = s, fCompressedPubKey = SetPubKey_flag L pk f\<rparr>)"

lemma CryptoGetKey_on: "fUseCrypto ks \<Longrightarrow> CryptoGetKey L C ks a f = open_entry L C (vMasterKey ks) f (sm_find (mapCryptedKeys ks) a)"
  by (simp add: CryptoGetKey_def split: option.split)

lemma open_entry_locked: "open_entry L C [] f e = None"
  by (cases "(L, C, [] :: byte list, f, e)" rule: open_entry.cases) simp_all

text \<open>The contract of a key store, with what follows for a sequence of additions.\<close>

primrec add_all :: "(CKey \<Rightarrow> 's \<Rightarrow> bool \<times> 's) \<Rightarrow> CKey list \<Rightarrow> 's \<Rightarrow> bool \<times> 's" where
  "add_all add [] s = (True, s)"
| "add_all add (k # r) s = (case add k s of (False, s1) \<Rightarrow> (False, s1) | (True, s1) \<Rightarrow> add_all add r s1)"

locale key_store =
  fixes add :: "CKey \<Rightarrow> 's \<Rightarrow> bool \<times> 's" and get :: "'s \<Rightarrow> CKeyID \<Rightarrow> CKey option"
    and kid :: "CKey \<Rightarrow> CKeyID" and ok :: "'s \<Rightarrow> bool" and good :: "CKey \<Rightarrow> bool"
  assumes ok_add: "ok s \<Longrightarrow> good k \<Longrightarrow> add k s = (b, s') \<Longrightarrow> ok s'"
    and get_add: "ok s \<Longrightarrow> good k \<Longrightarrow> add k s = (True, s') \<Longrightarrow> get s' = (get s)(kid k \<mapsto> k)"
begin

lemma get_add_all:
  "ok s \<Longrightarrow> \<forall>k \<in> set ks. good k \<Longrightarrow> add_all add ks s = (True, s') \<Longrightarrow> ok s' \<and> get s' = fold (\<lambda>k f. f(kid k \<mapsto> k)) ks (get s)"
proof (induction ks arbitrary: s)
  case (Cons k ks)
  obtain s1 where s1: "add k s = (True, s1)" "add_all add ks s1 = (True, s')"
    using Cons.prems by (auto split: prod.splits bool.splits)
  have "ok s1" "get s1 = (get s)(kid k \<mapsto> k)" using ok_add [OF _ _ s1(1)] get_add [OF _ _ s1(1)] Cons.prems by simp_all
  then show ?case using Cons.IH [OF _ _ s1(2)] Cons.prems(2) by simp
qed simp

lemma keep_others: "a \<notin> kid ` set ks \<Longrightarrow> fold (\<lambda>k f. f(kid k \<mapsto> k)) ks f a = f a"
  by (induction ks arbitrary: f) auto

lemma find_added: "k \<in> set ks \<Longrightarrow> distinct (map kid ks) \<Longrightarrow> fold (\<lambda>k f. f(kid k \<mapsto> k)) ks f (kid k) = Some k"
  by (induction ks arbitrary: f) (auto simp: keep_others image_iff)

end

interpretation basic: key_store "\<lambda>k s. (True, AddKey L K k s)" GetKey "\<lambda>k. CPubKey_GetID L (CKey_GetPubKey K k)"
  "\<lambda>s :: CBasicKeyStore. sm_ok (mapKeys s)" "\<lambda>_. True" for L K
  by unfold_locales (auto simp: AddKey_def GetKey_def sm_ok_put sm_find_put fun_eq_iff)

lemma CryptoAddKey_get:
  assumes "aes_documented C" "pubkey_documented L K" "store_ok L K ks" "length (k_secret key) = 32" "CryptoAddKey L K C W key ks = (True, ks1)"
  shows "CryptoGetKey L C ks1 a False = (if a = CPubKey_GetID L (CKey_GetPubKey K key) then Some key else CryptoGetKey L C ks a False)"
proof (cases "fUseCrypto ks")
  case True
  let ?pk = "CKey_GetPubKey K key"
  obtain c where c: "EncryptSecret C (vMasterKey ks) (k_secret key) (Hash L ?pk) = Some c" "CWallet_AddCryptedKey L W ?pk c ks = (True, ks1)"
    using assms(5) True by (auto simp: CryptoAddKey_def Let_def split: if_splits option.splits)
  have ks1: "fUseCrypto ks1" "vMasterKey ks1 = vMasterKey ks" "mapCryptedKeys ks1 = sm_put (CPubKey_GetID L ?pk) (?pk, c) (mapCryptedKeys ks)"
    using c(2) assms(3) by (auto simp: AddCryptedKey_eq store_ok_def split: if_splits)
  have "sm_ok (mapCryptedKeys ks)" using assms(3) by (simp add: store_ok_def store_typed_def)
  then show ?thesis
    using DecryptSecret_Encrypt [OF assms(1) c(1)] SetPubKey_flag_key [OF assms(2,4)] True assms(4) by (simp add: CryptoGetKey_on ks1 sm_find_put)
next
  case False
  then have "ks1 = AddKey L K key ks" using assms(5) by (simp add: CryptoAddKey_def)
  moreover have "sm_ok (mapKeys ks)" using assms(3) by (simp add: store_ok_def store_typed_def)
  ultimately show ?thesis using False by (simp add: CryptoGetKey_def GetKey_def AddKey_def sm_find_put)
qed

interpretation crypto: key_store "CryptoAddKey L K C W" "\<lambda>s a. CryptoGetKey L C s a False" "\<lambda>k. CPubKey_GetID L (CKey_GetPubKey K k)"
  "\<lambda>s :: CCryptoKeyStore. aes_documented C \<and> pubkey_documented L K \<and> store_ok L K s" "\<lambda>k. length (k_secret k) = 32" for L K C W
  by unfold_locales (auto simp: fun_eq_iff CryptoAddKey_get intro: CryptoAddKey_ok)

text \<open>All encrypted keys of a store are encrypted under one master key.\<close>

definition crypted_by :: "ssl_lib \<Rightarrow> key_lib \<Rightarrow> crypt_lib \<Rightarrow> byte list \<Rightarrow> 'a CCryptoKeyStore_scheme \<Rightarrow> bool" where
  "crypted_by L K C m ks \<longleftrightarrow> (\<forall>(i, pk, c) \<in> set (mapCryptedKeys ks). \<exists>key. length (k_secret key) = 32 \<and>
     pk = CKey_GetPubKey K key \<and> DecryptSecret C m c (Hash L pk) = Some (k_secret key))"

lemma crypted_by_put:
  "crypted_by L K C m ks \<Longrightarrow> length (k_secret key) = 32 \<Longrightarrow> pk = CKey_GetPubKey K key \<Longrightarrow> DecryptSecret C m c (Hash L pk) = Some (k_secret key) \<Longrightarrow>
   crypted_by L K C m (ks\<lparr>mapCryptedKeys := sm_put i (pk, c) (mapCryptedKeys ks)\<rparr>)"
  unfolding crypted_by_def by (auto dest!: subsetD [OF set_sm_put])

lemma Unlock_crypted_by:
  assumes "pubkey_documented L K" "crypted_by L K C m ks" "fUseCrypto ks"
  shows "Unlock L K C m ks = (True, ks\<lparr>vMasterKey := m\<rparr>)"
proof (cases "mapCryptedKeys ks")
  case (Cons e r)
  obtain i pk c where e: "e = (i, pk, c)" by (metis prod_cases3)
  obtain key where k: "length (k_secret key) = 32" "pk = CKey_GetPubKey K key" "DecryptSecret C m c (Hash L pk) = Some (k_secret key)"
    using assms(2) by (auto simp: crypted_by_def Cons e)
  have "SetPubKey_flag L pk False = fCompressedPubKey key" using SetPubKey_flag_key [OF assms(1) k(1)] k(2) by simp
  then show ?thesis using assms(3) k by (simp add: Unlock_def Cons e CKey_GetPubKey_def)
qed (simp add: Unlock_def assms(3))

text \<open>\<open>EncryptKeys\<close> encrypts every key of the store: under the master key it gives back what the plain store held.\<close>

lemma EncryptKeys_loop_get:
  assumes doc: "aes_documented C" "pubkey_documented L K"
  shows "EncryptKeys_loop L K C W m keys ks = (Returned True, ks1) \<Longrightarrow> fUseCrypto ks \<Longrightarrow> sm_ok (mapCryptedKeys ks) \<Longrightarrow> sm_ok keys \<Longrightarrow>
    \<forall>(i, s, c) \<in> set keys. i = CPubKey_GetID L (CKey_GetPubKey K \<lparr>k_secret = s, fCompressedPubKey = c\<rparr>) \<Longrightarrow> crypted_by L K C m ks \<Longrightarrow>
    crypted_by L K C m ks1 \<and> CryptoGetKey L C (ks1\<lparr>vMasterKey := m\<rparr>) a False =
      (case map_of keys a of Some (s, c) \<Rightarrow> Some \<lparr>k_secret = s, fCompressedPubKey = c\<rparr> | None \<Rightarrow> CryptoGetKey L C (ks\<lparr>vMasterKey := m\<rparr>) a False)"
proof (induction keys arbitrary: ks)
  case (Cons e keys)
  obtain i s c where e: "e = (i, s, c)" by (metis prod_cases3)
  let ?key = "\<lparr>k_secret = s, fCompressedPubKey = c\<rparr>"
  let ?pk = "CKey_GetPubKey K ?key"
  have i: "i = CPubKey_GetID L ?pk" using Cons.prems(5) by (simp add: e)
  obtain ct where ct: "length s = 32" "EncryptSecret C m s (Hash L ?pk) = Some ct"
    "EncryptKeys_loop L K C W m keys (ks\<lparr>mapCryptedKeys := sm_put i (?pk, ct) (mapCryptedKeys ks)\<rparr>) = (Returned True, ks1)"
    using Cons.prems(1,2) by (auto simp: e i Let_def CWallet_AddCryptedKey_def AddCryptedKey_def split: if_splits option.splits bool.splits prod.splits)
  let ?ks = "ks\<lparr>mapCryptedKeys := sm_put i (?pk, ct) (mapCryptedKeys ks)\<rparr>"
  have dec: "DecryptSecret C m ct (Hash L ?pk) = Some s" using DecryptSecret_Encrypt [OF doc(1) ct(2)] .
  have cb: "crypted_by L K C m ?ks" using crypted_by_put [OF Cons.prems(6), of ?key ?pk ct i] ct(1) dec by simp
  have get: "CryptoGetKey L C (?ks\<lparr>vMasterKey := m\<rparr>) a False = (if a = i then Some ?key else CryptoGetKey L C (ks\<lparr>vMasterKey := m\<rparr>) a False)"
    using Cons.prems(2,3) dec ct(1) SetPubKey_flag_key [OF doc(2), of ?key] by (simp add: CryptoGetKey_on sm_find_put)
  have fresh: "map_of keys i = None" using Cons.prems(4) unfolding e sm_ok_Cons by (force simp: map_of_eq_None_iff)
  show ?case using Cons.IH [OF ct(3)] Cons.prems cb get fresh
    by (auto simp: e sm_ok_Cons sm_ok_put split: option.splits)
qed simp

lemma EncryptKeys_get:
  assumes doc: "aes_documented C" "pubkey_documented L K" and ok: "store_ok L K ks" and e: "EncryptKeys L K C W m ks = (Returned True, ks1)"
  shows "crypted_by L K C m ks1" "CryptoGetKey L C (ks1\<lparr>vMasterKey := m\<rparr>) a False = CryptoGetKey L C ks a False"
proof -
  have off: "\<not> fUseCrypto ks" "mapCryptedKeys ks = []" using e by (auto simp: EncryptKeys_def split: if_splits)
  obtain ks2 where l: "EncryptKeys_loop L K C W m (mapKeys ks) (ks\<lparr>fUseCrypto := True\<rparr>) = (Returned True, ks2)" "ks1 = ks2\<lparr>mapKeys := []\<rparr>"
    using e by (auto simp: EncryptKeys_def split: if_splits prod.splits outcome.splits bool.splits)
  have t: "sm_ok (mapKeys ks)" "\<forall>(i, s, c) \<in> set (mapKeys ks). i = CPubKey_GetID L (CKey_GetPubKey K \<lparr>k_secret = s, fCompressedPubKey = c\<rparr>)"
    using ok by (auto simp: store_ok_def store_typed_def)
  have g: "crypted_by L K C m ks2 \<and> CryptoGetKey L C (ks2\<lparr>vMasterKey := m\<rparr>) a False =
      (case map_of (mapKeys ks) a of Some (s, c) \<Rightarrow> Some \<lparr>k_secret = s, fCompressedPubKey = c\<rparr>
       | None \<Rightarrow> CryptoGetKey L C (ks\<lparr>fUseCrypto := True, vMasterKey := m\<rparr>) a False)"
    using EncryptKeys_loop_get [OF doc l(1) _ _ t, of a] off(2) by (simp add: crypted_by_def sm_ok_def)
  show "crypted_by L K C m ks1" using g l(2) by (simp add: crypted_by_def)
  have "fUseCrypto ks2" using EncryptKeys_loop_ok [OF l(1)] ok by (simp add: store_ok_def store_simps)
  then have "CryptoGetKey L C (ks1\<lparr>vMasterKey := m\<rparr>) a False = CryptoGetKey L C (ks2\<lparr>vMasterKey := m\<rparr>) a False"
    by (simp add: l(2) CryptoGetKey_on)
  also have "\<dots> = CryptoGetKey L C ks a False"
    using g off by (auto simp: CryptoGetKey_on CryptoGetKey_def [of L C ks] GetKey_def sm_find_def split: option.splits prod.splits)
  finally show "CryptoGetKey L C (ks1\<lparr>vMasterKey := m\<rparr>) a False = CryptoGetKey L C ks a False" .
qed

section \<open>A store for the witnesses\<close>

definition crypt_demo :: crypt_lib where
  "crypt_demo = \<lparr>EVP_BytesToKey = (\<lambda>salt d n. (32, take 32 (d @ replicate 32 0), replicate 16 0)), EVP_Encrypt = (\<lambda>k iv p. (True, rev p @ [hd k])),
     EVP_Decrypt = (\<lambda>k iv c. if c = [] \<or> last c \<noteq> hd k then None else Some (rev (butlast c))), scrypt_salted_hash = (\<lambda>i s. 5)\<rparr>"

definition keys_demo :: key_lib where
  "keys_demo = \<lparr>i2o_ECPublicKey = (\<lambda>s c. if c then 2 # s else 4 # s @ replicate 32 0), ECDSA_do_sign = (\<lambda>s h. None), EC_order = 5,
     i2d_ECDSA_SIG = (\<lambda>r s. [])\<rparr>"

definition store_demo :: CCryptoKeyStore where
  "store_demo = AddKey ssl_demo keys_demo sign_key CCryptoKeyStore_new"

lemma demo_documented: "aes_documented crypt_demo" "pubkey_documented ssl_demo keys_demo"
  by (auto simp: aes_documented_def crypt_demo_def pubkey_documented_def keys_demo_def ssl_demo_def)

lemma store_demo_reach: "kreach ssl_demo keys_demo crypt_demo store_demo"
proof (rule kreach.step [OF kreach.new], rule kstep.AddKey [of sign_key _ _ _ "\<lambda>_ _. True" _ True])
  show "CryptoAddKey ssl_demo keys_demo crypt_demo (\<lambda>_ _. True) sign_key CCryptoKeyStore_new = (True, store_demo)"
    by (simp add: CryptoAddKey_def store_demo_def CCryptoKeyStore_new_def)
qed (simp add: sign_key_def)

lemma store_demo_encrypted:
  "EncryptKeys ssl_demo keys_demo crypt_demo (\<lambda>_ _. True) (replicate 32 9) store_demo =
     (Returned True, store_demo\<lparr>mapKeys := [], fUseCrypto := True, mapCryptedKeys :=
        [(CPubKey_GetID ssl_demo (2 # replicate 32 1), 2 # replicate 32 1, replicate 32 1 @ [9])]\<rparr>)"
proof -
  have "CKey_GetPubKey keys_demo sign_key = 2 # replicate 32 1" by (simp add: CKey_GetPubKey_def keys_demo_def sign_key_def)
  then show ?thesis
    by (simp add: EncryptKeys_def store_demo_def CCryptoKeyStore_new_def AddKey_def sign_key_def EncryptSecret_def SetKey_def Encrypt_def
        WALLET_CRYPTO_KEY_SIZE_def CWallet_AddCryptedKey_def AddCryptedKey_def crypt_demo_def Let_def)
qed

section \<open>Properties\<close>

text \<open>C16. The comment on \<open>fUseCrypto\<close> holds throughout the life of a key store: in every reachable state, a store that uses encryption
  holds no plain secret, and a store that does not holds neither a master key nor an encrypted key.\<close>

theorem keystore_mode_invariant:
  assumes "kreach L K C ks"
  shows "(fUseCrypto ks \<longrightarrow> mapKeys ks = []) \<and> (\<not> fUseCrypto ks \<longrightarrow> vMasterKey ks = [] \<and> mapCryptedKeys ks = [])"
  using kreach_ok [OF assms] by (auto simp: store_ok_def store_mode_def)

theorem keystore_mode_invariant_witness: "\<not> fUseCrypto store_demo \<and> vMasterKey store_demo = [] \<and> mapCryptedKeys store_demo = []"
  using keystore_mode_invariant [OF store_demo_reach] by (simp add: store_demo_def CCryptoKeyStore_new_def AddKey_def)

text \<open>C22. A reachable key store is well typed: its maps are sorted, a plain entry has a 32-byte secret and stands under the identifier of
  the public key of that secret, and an encrypted entry stands under the identifier of the public key it carries.\<close>

theorem keystore_well_typed:
  assumes "kreach L K C ks"
  shows "store_typed L K ks"
  using kreach_ok [OF assms] by (simp add: store_ok_def)

theorem keystore_well_typed_witness: "store_typed ssl_demo keys_demo store_demo"
  by (rule keystore_well_typed [OF store_demo_reach])

text \<open>C12. Encryption loses no key and locking hides all of them: after \<open>EncryptKeys\<close> has succeeded on a reachable store, \<open>Lock\<close> succeeds and the
  locked store gives no key at all, \<open>Unlock\<close> with the master key succeeds, and the unlocked store gives for every address the same key,
  compression flag included, as the plain store did.\<close>

theorem encrypt_lock_unlock:
  assumes "aes_documented C" "pubkey_documented L K" "kreach L K C ks" "EncryptKeys L K C W m ks = (Returned True, ks1)"
  shows "\<exists>ks2 ks3. Lock ks1 = (True, ks2) \<and> (\<forall>a f. CryptoGetKey L C ks2 a f = None) \<and>
    Unlock L K C m ks2 = (True, ks3) \<and> (\<forall>a. CryptoGetKey L C ks3 a False = CryptoGetKey L C ks a False)"
proof -
  note ok = kreach_ok [OF assms(3)]
  let ?ks2 = "ks1\<lparr>fUseCrypto := True, vMasterKey := []\<rparr>"
  have ok1: "store_ok L K ks1" using EncryptKeys_ok(1) [OF ok assms(4)] .
  note on = EncryptKeys_ok(3,4) [OF ok assms(4)]
  have "Lock ks1 = (True, ?ks2)" using ok1 on by (simp add: store_ok_def Lock_eq)
  moreover have "CryptoGetKey L C ?ks2 a f = None" for a f by (simp add: CryptoGetKey_on open_entry_locked)
  moreover have "Unlock L K C m ?ks2 = (True, ?ks2\<lparr>vMasterKey := m\<rparr>)"
    using Unlock_crypted_by [OF assms(2), of C m ?ks2] EncryptKeys_get(1) [OF assms(1,2) ok assms(4)] by (simp add: crypted_by_def)
  moreover have "CryptoGetKey L C (?ks2\<lparr>vMasterKey := m\<rparr>) a False = CryptoGetKey L C ks a False" for a
    using EncryptKeys_get(2) [OF assms(1,2) ok assms(4), of a] on by (simp add: CryptoGetKey_on)
  ultimately show ?thesis by blast
qed

theorem encrypt_lock_unlock_witness:
  "\<exists>ks1 ks2 ks3. EncryptKeys ssl_demo keys_demo crypt_demo (\<lambda>_ _. True) (replicate 32 9) store_demo = (Returned True, ks1) \<and>
    Lock ks1 = (True, ks2) \<and> (\<forall>a f. CryptoGetKey ssl_demo crypt_demo ks2 a f = None) \<and>
    Unlock ssl_demo keys_demo crypt_demo (replicate 32 9) ks2 = (True, ks3) \<and>
    (\<forall>a. CryptoGetKey ssl_demo crypt_demo ks3 a False = CryptoGetKey ssl_demo crypt_demo store_demo a False)"
  using encrypt_lock_unlock [OF demo_documented store_demo_reach store_demo_encrypted] store_demo_encrypted by blast

end
