(* ===== verification/WalletKeys.thy ===== *)
theory WalletKeys
  imports Crypter
begin

text \<open>
  The keys of the wallet (\<open>wallet.h\<close>, \<open>wallet.cpp\<close>): generating keys, the wallet versions, encryption with a passphrase
  (\<open>EncryptWallet\<close>, \<open>Unlock\<close>, \<open>ChangeWalletPassphrase\<close>) and the key pool with \<open>CReserveKey\<close>. The record
  \<open>CWallet\<close> extends \<open>CCryptoKeyStore\<close> as the class does; of the wallet file, the pool entries are the field \<open>pool_db\<close>. What
  the other writes to the file return, and the random numbers, come from the record \<open>wallet_env\<close>. A thrown
  \<open>runtime_error\<close> and a failed assertion are \<open>None\<close>. Key birth times are not modelled.
\<close>

section \<open>State\<close>

record wallet_env =
  db_WriteKey :: "valtype \<Rightarrow> bool"
  db_WriteCryptedKey :: "valtype \<Rightarrow> byte list \<Rightarrow> bool"
  db_WritePool :: "int \<Rightarrow> bool"
  db_TxnBegin :: bool
  db_TxnCommit :: bool
  rand_secret :: "nat \<Rightarrow> byte list"

definition FEATURE_BASE :: int where "FEATURE_BASE = 10500"
definition FEATURE_WALLETCRYPT :: int where "FEATURE_WALLETCRYPT = 40000"
definition FEATURE_COMPRPUBKEY :: int where "FEATURE_COMPRPUBKEY = 60000"
definition FEATURE_LATEST :: int where "FEATURE_LATEST = 60000"

record CKeyPool =
  kp_nTime :: int
  kp_vchPubKey :: valtype

text \<open>\<open>rng\<close> counts the keys drawn from the random source.\<close>

record CWallet = CCryptoKeyStore +
  fFileBacked :: bool
  nWalletVersion :: int
  nWalletMaxVersion :: int
  mapMasterKeys :: "(u32, CMasterKey) smap"
  nMasterKeyMaxID :: u32
  setKeyPool :: "int set"
  pool_db :: "(int, CKeyPool) smap"
  vchDefaultKey :: valtype
  rng :: nat

section \<open>Versions and new keys\<close>

definition SetMinVersion :: "int \<Rightarrow> bool \<Rightarrow> CWallet \<Rightarrow> CWallet" where
  "SetMinVersion nVer fExplicit w =
     (if nWalletVersion w \<ge> nVer then w
      else let v = if fExplicit \<and> nVer > nWalletMaxVersion w then FEATURE_LATEST else nVer in
      w\<lparr>nWalletVersion := v, nWalletMaxVersion := if v > nWalletMaxVersion w then v else nWalletMaxVersion w\<rparr>)"

definition SetMaxVersion :: "int \<Rightarrow> CWallet \<Rightarrow> bool \<times> CWallet" where
  "SetMaxVersion nVer w = (if nWalletVersion w > nVer then (False, w) else (True, w\<lparr>nWalletMaxVersion := nVer\<rparr>))"

definition CanSupportFeature :: "int \<Rightarrow> CWallet \<Rightarrow> bool" where
  "CanSupportFeature feature w \<longleftrightarrow> nWalletMaxVersion w \<ge> feature"

definition write_crypted :: "wallet_env \<Rightarrow> CWallet \<Rightarrow> valtype \<Rightarrow> byte list \<Rightarrow> bool" where
  "write_crypted D w vchPubKey vchCryptedSecret = (if \<not> fFileBacked w then True else db_WriteCryptedKey D vchPubKey vchCryptedSecret)"

definition CWallet_AddKey :: "ssl_lib \<Rightarrow> key_lib \<Rightarrow> crypt_lib \<Rightarrow> wallet_env \<Rightarrow> CKey \<Rightarrow> CWallet \<Rightarrow> bool \<times> CWallet" where
  "CWallet_AddKey L K C D key w =
     (case CryptoAddKey L K C (write_crypted D w) key w of
        (False, w1) \<Rightarrow> (False, w1)
      | (True, w1) \<Rightarrow>
          if \<not> fFileBacked w1 then (True, w1)
          else if \<not> fUseCrypto w1 then (db_WriteKey D (CKey_GetPubKey K key), w1)
          else (True, w1))"

definition GenerateNewKey :: "ssl_lib \<Rightarrow> key_lib \<Rightarrow> crypt_lib \<Rightarrow> wallet_env \<Rightarrow> CWallet \<Rightarrow> valtype option \<times> CWallet" where
  "GenerateNewKey L K C D w =
     (let fCompressed = CanSupportFeature FEATURE_COMPRPUBKEY w;
          key = \<lparr>k_secret = rand_secret D (rng w), fCompressedPubKey = fCompressed\<rparr>;
          w1 = w\<lparr>rng := Suc (rng w)\<rparr>;
          w2 = if fCompressed then SetMinVersion FEATURE_COMPRPUBKEY False w1 else w1 in
      case CWallet_AddKey L K C D key w2 of
        (False, w3) \<Rightarrow> (None, w3)
      | (True, w3) \<Rightarrow> (Some (CKey_GetPubKey K key), w3))"

section \<open>Passphrases\<close>

fun Unlock_loop :: "ssl_lib \<Rightarrow> key_lib \<Rightarrow> crypt_lib \<Rightarrow> byte list \<Rightarrow> (u32, CMasterKey) smap \<Rightarrow> CCrypter \<Rightarrow> CWallet \<Rightarrow> bool \<times> CWallet" where
  "Unlock_loop L K C pass [] crypter w = (False, w)"
| "Unlock_loop L K C pass ((_, mk) # r) crypter w =
     (case SetKeyFromPassphrase C pass (vchSalt mk) (nDeriveIterations mk) (nDerivationMethod mk) crypter of
        (False, _) \<Rightarrow> (False, w)
      | (True, crypter1) \<Rightarrow>
          (case Decrypt C crypter1 (vchCryptedKey mk) of
             None \<Rightarrow> (False, w)
           | Some m \<Rightarrow>
               (case Unlock L K C m w of
                  (True, w1) \<Rightarrow> (True, w1)
                | (False, w1) \<Rightarrow> Unlock_loop L K C pass r crypter1 w1)))"

definition CWallet_Unlock :: "ssl_lib \<Rightarrow> key_lib \<Rightarrow> crypt_lib \<Rightarrow> byte list \<Rightarrow> CWallet \<Rightarrow> bool \<times> CWallet" where
  "CWallet_Unlock L K C strWalletPassphrase w =
     (if \<not> IsLocked w then (False, w) else Unlock_loop L K C strWalletPassphrase (mapMasterKeys w) CCrypter_new w)"

text \<open>The iteration count is calibrated with the clock; \<open>measured\<close> is the count the calibration gives, before the lower bound is applied. The
  derivations made for the calibration only change the crypter, which the derivation after it sets again. The master keys are changed
  in place, also when the function then fails.\<close>

fun Change_loop :: "ssl_lib \<Rightarrow> key_lib \<Rightarrow> crypt_lib \<Rightarrow> u32 \<Rightarrow> bool \<Rightarrow> byte list \<Rightarrow> byte list \<Rightarrow> (u32, CMasterKey) smap \<Rightarrow> CCrypter \<Rightarrow> CWallet \<Rightarrow> bool \<times> CWallet" where
  "Change_loop L K C measured fWasLocked old new [] crypter w = (False, w)"
| "Change_loop L K C measured fWasLocked old new ((i, mk) # r) crypter w =
     (case SetKeyFromPassphrase C old (vchSalt mk) (nDeriveIterations mk) (nDerivationMethod mk) crypter of
        (False, _) \<Rightarrow> (False, w)
      | (True, crypter1) \<Rightarrow>
          (case Decrypt C crypter1 (vchCryptedKey mk) of
             None \<Rightarrow> (False, w)
           | Some m \<Rightarrow>
               (case Unlock L K C m w of
                  (False, w1) \<Rightarrow> Change_loop L K C measured fWasLocked old new r crypter1 w1
                | (True, w1) \<Rightarrow>
                    let mk1 = mk\<lparr>nDeriveIterations := if measured < 25000 then 25000 else measured\<rparr>;
                        w2 = w1\<lparr>mapMasterKeys := sm_put i mk1 (mapMasterKeys w1)\<rparr> in
                    (case SetKeyFromPassphrase C new (vchSalt mk1) (nDeriveIterations mk1) (nDerivationMethod mk1) crypter1 of
                       (False, _) \<Rightarrow> (False, w2)
                     | (True, crypter2) \<Rightarrow>
                         (case Encrypt C crypter2 m (vchCryptedKey mk1) of (ok, ct) \<Rightarrow>
                            let w3 = w2\<lparr>mapMasterKeys := sm_put i (mk1\<lparr>vchCryptedKey := ct\<rparr>) (mapMasterKeys w2)\<rparr> in
                            if \<not> ok then (False, w3)
                            else (True, if fWasLocked then snd (Lock w3) else w3))))))"

definition ChangeWalletPassphrase :: "ssl_lib \<Rightarrow> key_lib \<Rightarrow> crypt_lib \<Rightarrow> u32 \<Rightarrow> byte list \<Rightarrow> byte list \<Rightarrow> CWallet \<Rightarrow> bool \<times> CWallet" where
  "ChangeWalletPassphrase L K C measured old new w =
     (let fWasLocked = IsLocked w; w1 = snd (Lock w) in
      Change_loop L K C measured fWasLocked old new (mapMasterKeys w1) CCrypter_new w1)"

section \<open>The key pool\<close>

text \<open>\<open>now\<close> is the clock, which stamps the entries, and \<open>keypool\<close> the argument \<open>-keypool\<close> of the program.\<close>

definition new_pool_entry :: "ssl_lib \<Rightarrow> key_lib \<Rightarrow> crypt_lib \<Rightarrow> wallet_env \<Rightarrow> int \<Rightarrow> int \<Rightarrow> CWallet \<Rightarrow> unit option \<times> CWallet" where
  "new_pool_entry L K C D now nIndex w =
     (case GenerateNewKey L K C D w of
        (None, w1) \<Rightarrow> (None, w1)
      | (Some pk, w1) \<Rightarrow>
          (Some (), if db_WritePool D nIndex then w1\<lparr>pool_db := sm_put nIndex \<lparr>kp_nTime = now, kp_vchPubKey = pk\<rparr> (pool_db w1)\<rparr> else w1))"

primrec NewKeyPool_loop :: "ssl_lib \<Rightarrow> key_lib \<Rightarrow> crypt_lib \<Rightarrow> wallet_env \<Rightarrow> int \<Rightarrow> nat \<Rightarrow> int \<Rightarrow> CWallet \<Rightarrow> unit option \<times> CWallet" where
  "NewKeyPool_loop L K C D now 0 i w = (Some (), w)"
| "NewKeyPool_loop L K C D now (Suc n) i w =
     (case new_pool_entry L K C D now (i + 1) w of
        (None, w1) \<Rightarrow> (None, w1)
      | (Some _, w1) \<Rightarrow> NewKeyPool_loop L K C D now n (i + 1) (w1\<lparr>setKeyPool := insert (i + 1) (setKeyPool w1)\<rparr>))"

definition NewKeyPool :: "ssl_lib \<Rightarrow> key_lib \<Rightarrow> crypt_lib \<Rightarrow> wallet_env \<Rightarrow> int \<Rightarrow> int \<Rightarrow> CWallet \<Rightarrow> bool option \<times> CWallet" where
  "NewKeyPool L K C D now keypool w =
     (let w1 = w\<lparr>pool_db := filter (\<lambda>e. fst e \<notin> setKeyPool w) (pool_db w), setKeyPool := {}\<rparr> in
      if IsLocked w1 then (Some False, w1)
      else case NewKeyPool_loop L K C D now (nat (max keypool 0)) 0 w1 of
        (None, w2) \<Rightarrow> (None, w2)
      | (Some _, w2) \<Rightarrow> (Some True, w2))"

text \<open>Each round of the loop of \<open>TopUpKeyPool\<close> adds one index above all others, so the number of rounds is what is missing
  at its start (\<open>TopUp_loop_fills\<close>).\<close>

definition pool_end :: "CWallet \<Rightarrow> int" where
  "pool_end w = (if setKeyPool w = {} then 1 else Max (setKeyPool w) + 1)"

primrec TopUp_loop :: "ssl_lib \<Rightarrow> key_lib \<Rightarrow> crypt_lib \<Rightarrow> wallet_env \<Rightarrow> int \<Rightarrow> nat \<Rightarrow> CWallet \<Rightarrow> unit option \<times> CWallet" where
  "TopUp_loop L K C D now 0 w = (Some (), w)"
| "TopUp_loop L K C D now (Suc n) w =
     (let nEnd = pool_end w in
      case new_pool_entry L K C D now nEnd w of
        (None, w1) \<Rightarrow> (None, w1)
      | (Some _, w1) \<Rightarrow>
          if \<not> db_WritePool D nEnd then (None, w1)
          else TopUp_loop L K C D now n (w1\<lparr>setKeyPool := insert nEnd (setKeyPool w1)\<rparr>))"

text \<open>The target is an \<open>unsigned int\<close>; adding one to it wraps.\<close>

definition pool_target :: "int \<Rightarrow> u32 \<Rightarrow> nat" where
  "pool_target keypool nSize = unat ((if nSize > 0 then nSize else word_of_int (max keypool 0)) + 1)"

definition TopUpKeyPool :: "ssl_lib \<Rightarrow> key_lib \<Rightarrow> crypt_lib \<Rightarrow> wallet_env \<Rightarrow> int \<Rightarrow> int \<Rightarrow> u32 \<Rightarrow> CWallet \<Rightarrow> bool option \<times> CWallet" where
  "TopUpKeyPool L K C D now keypool nSize w =
     (if IsLocked w then (Some False, w)
      else case TopUp_loop L K C D now (pool_target keypool nSize - card (setKeyPool w)) w of
        (None, w1) \<Rightarrow> (None, w1)
      | (Some _, w1) \<Rightarrow> (Some True, w1))"

text \<open>The result is the index, -1 when there is none, and the entry.\<close>

definition no_key :: "int \<times> CKeyPool" where
  "no_key = (-1, \<lparr>kp_nTime = 0, kp_vchPubKey = []\<rparr>)"

definition take_oldest :: "ssl_lib \<Rightarrow> CWallet \<Rightarrow> (int \<times> CKeyPool) option \<times> CWallet" where
  "take_oldest L w =
     (if setKeyPool w = {} then (Some no_key, w)
      else let nIndex = Min (setKeyPool w); w1 = w\<lparr>setKeyPool := setKeyPool w - {nIndex}\<rparr> in
      case sm_find (pool_db w1) nIndex of
        None \<Rightarrow> (None, w1)
      | Some entry \<Rightarrow>
          if \<not> CryptoHaveKey w1 (CPubKey_GetID L (kp_vchPubKey entry)) then (None, w1)
          else if \<not> CPubKey_IsValid (kp_vchPubKey entry) then (None, w1)
          else (Some (nIndex, entry), w1))"

definition ReserveKeyFromKeyPool :: "ssl_lib \<Rightarrow> key_lib \<Rightarrow> crypt_lib \<Rightarrow> wallet_env \<Rightarrow> int \<Rightarrow> int \<Rightarrow> CWallet \<Rightarrow> (int \<times> CKeyPool) option \<times> CWallet" where
  "ReserveKeyFromKeyPool L K C D now keypool w =
     (if \<not> IsLocked w then
        (case TopUpKeyPool L K C D now keypool 0 w of
           (None, w1) \<Rightarrow> (None, w1)
         | (Some _, w1) \<Rightarrow> take_oldest L w1)
      else take_oldest L w)"

text \<open>\<open>AddReserveKey\<close> reads the last index of the pool, which must not be empty.\<close>

definition AddReserveKey :: "wallet_env \<Rightarrow> CKeyPool \<Rightarrow> CWallet \<Rightarrow> int option \<times> CWallet" where
  "AddReserveKey D entry w =
     (if setKeyPool w = {} then (None, w)
      else let nIndex = 1 + Max (setKeyPool w) in
      if \<not> db_WritePool D nIndex then (None, w)
      else (Some nIndex, w\<lparr>pool_db := sm_put nIndex entry (pool_db w), setKeyPool := insert nIndex (setKeyPool w)\<rparr>))"

definition KeepKey :: "int \<Rightarrow> CWallet \<Rightarrow> CWallet" where
  "KeepKey nIndex w = (if fFileBacked w then w\<lparr>pool_db := sm_erase nIndex (pool_db w)\<rparr> else w)"

definition ReturnKey :: "int \<Rightarrow> CWallet \<Rightarrow> CWallet" where
  "ReturnKey nIndex w = w\<lparr>setKeyPool := insert nIndex (setKeyPool w)\<rparr>"

definition GetKeyFromPool :: "ssl_lib \<Rightarrow> key_lib \<Rightarrow> crypt_lib \<Rightarrow> wallet_env \<Rightarrow> int \<Rightarrow> int \<Rightarrow> bool \<Rightarrow> CWallet \<Rightarrow> (valtype option) option \<times> CWallet" where
  "GetKeyFromPool L K C D now keypool fAllowReuse w =
     (case ReserveKeyFromKeyPool L K C D now keypool w of
        (None, w1) \<Rightarrow> (None, w1)
      | (Some (nIndex, entry), w1) \<Rightarrow>
          if nIndex = -1 then
            if fAllowReuse \<and> CPubKey_IsValid (vchDefaultKey w1) then (Some (Some (vchDefaultKey w1)), w1)
            else if IsLocked w1 then (Some None, w1)
            else (case GenerateNewKey L K C D w1 of
                    (None, w2) \<Rightarrow> (None, w2)
                  | (Some pk, w2) \<Rightarrow> (Some (Some pk), w2))
          else (Some (Some (kp_vchPubKey entry)), KeepKey nIndex w1))"

definition GetOldestKeyPoolTime :: "ssl_lib \<Rightarrow> key_lib \<Rightarrow> crypt_lib \<Rightarrow> wallet_env \<Rightarrow> int \<Rightarrow> int \<Rightarrow> CWallet \<Rightarrow> int option \<times> CWallet" where
  "GetOldestKeyPoolTime L K C D now keypool w =
     (case ReserveKeyFromKeyPool L K C D now keypool w of
        (None, w1) \<Rightarrow> (None, w1)
      | (Some (nIndex, entry), w1) \<Rightarrow>
          if nIndex = -1 then (Some now, w1) else (Some (kp_nTime entry), ReturnKey nIndex w1))"

text \<open>A reservation in the hands of a caller.\<close>

record CReserveKey =
  rk_nIndex :: int
  rk_vchPubKey :: valtype

definition CReserveKey_new :: CReserveKey where
  "CReserveKey_new = \<lparr>rk_nIndex = -1, rk_vchPubKey = []\<rparr>"

definition GetReservedKey :: "ssl_lib \<Rightarrow> key_lib \<Rightarrow> crypt_lib \<Rightarrow> wallet_env \<Rightarrow> int \<Rightarrow> int \<Rightarrow> CReserveKey \<Rightarrow> CWallet \<Rightarrow> valtype option \<times> CReserveKey \<times> CWallet" where
  "GetReservedKey L K C D now keypool rk w =
     (let r = (if rk_nIndex rk \<noteq> -1 then (Some rk, w)
               else case ReserveKeyFromKeyPool L K C D now keypool w of
                 (None, w1) \<Rightarrow> (None, w1)
               | (Some (nIndex, entry), w1) \<Rightarrow>
                   (Some \<lparr>rk_nIndex = nIndex, rk_vchPubKey = if nIndex \<noteq> -1 then kp_vchPubKey entry else vchDefaultKey w1\<rparr>, w1)) in
      case r of
        (None, w1) \<Rightarrow> (None, rk, w1)
      | (Some rk1, w1) \<Rightarrow>
          if CPubKey_IsValid (rk_vchPubKey rk1) then (Some (rk_vchPubKey rk1), rk1, w1) else (None, rk1, w1))"

definition CReserveKey_KeepKey :: "CReserveKey \<Rightarrow> CWallet \<Rightarrow> CReserveKey \<times> CWallet" where
  "CReserveKey_KeepKey rk w = (CReserveKey_new, if rk_nIndex rk \<noteq> -1 then KeepKey (rk_nIndex rk) w else w)"

definition CReserveKey_ReturnKey :: "CReserveKey \<Rightarrow> CWallet \<Rightarrow> CReserveKey \<times> CWallet" where
  "CReserveKey_ReturnKey rk w = (CReserveKey_new, if rk_nIndex rk \<noteq> -1 then ReturnKey (rk_nIndex rk) w else w)"

definition GetAllReserveKeys :: "ssl_lib \<Rightarrow> CWallet \<Rightarrow> CKeyID set option" where
  "GetAllReserveKeys L w =
     (if \<forall>i \<in> setKeyPool w. case sm_find (pool_db w) i of
           None \<Rightarrow> False
         | Some entry \<Rightarrow> CPubKey_IsValid (kp_vchPubKey entry) \<and> CryptoHaveKey w (CPubKey_GetID L (kp_vchPubKey entry))
      then Some ((\<lambda>i. CPubKey_GetID L (kp_vchPubKey (the (sm_find (pool_db w) i)))) ` setKeyPool w)
      else None)"

section \<open>Encrypting the wallet\<close>

text \<open>The process ends when the keys cannot all be encrypted or the file transaction cannot be committed. The master key \<open>m\<close> and the salt
  are the random bytes drawn.\<close>

datatype enc_outcome = EReturned bool | EExit | EThrew

definition EncryptWallet :: "ssl_lib \<Rightarrow> key_lib \<Rightarrow> crypt_lib \<Rightarrow> wallet_env \<Rightarrow> int \<Rightarrow> int \<Rightarrow> u32 \<Rightarrow> u32 \<Rightarrow> byte list \<Rightarrow> byte list \<Rightarrow> byte list \<Rightarrow> CWallet \<Rightarrow>
    enc_outcome \<times> CWallet" where
  "EncryptWallet L K C D now keypool methodIndex measured m salt pass w =
     (if fUseCrypto w then (EReturned False, w)
      else let k0 = (CMasterKey_new methodIndex)\<lparr>vchSalt := salt, nDeriveIterations := if measured < 25000 then 25000 else measured\<rparr> in
      case SetKeyFromPassphrase C pass (vchSalt k0) (nDeriveIterations k0) (nDerivationMethod k0) CCrypter_new of
        (False, _) \<Rightarrow> (EReturned False, w)
      | (True, crypter) \<Rightarrow>
      (case Encrypt C crypter m [] of
        (False, _) \<Rightarrow> (EReturned False, w)
      | (True, ct) \<Rightarrow>
      let i = nMasterKeyMaxID w + 1;
          w1 = w\<lparr>nMasterKeyMaxID := i, mapMasterKeys := sm_put i (k0\<lparr>vchCryptedKey := ct\<rparr>) (mapMasterKeys w)\<rparr> in
      if fFileBacked w1 \<and> \<not> db_TxnBegin D then (EReturned False, w1)
      else case EncryptKeys L K C (write_crypted D w1) m w1 of
        (Threw_key_error, w2) \<Rightarrow> (EThrew, w2)
      | (Returned False, w2) \<Rightarrow> (EExit, w2)
      | (Returned True, w2) \<Rightarrow>
          let w3 = SetMinVersion FEATURE_WALLETCRYPT True w2 in
          if fFileBacked w3 \<and> \<not> db_TxnCommit D then (EExit, w3)
          else let w5 = snd (CWallet_Unlock L K C pass (snd (Lock w3))) in
          (case NewKeyPool L K C D now keypool w5 of
             (None, w6) \<Rightarrow> (EThrew, w6)
           | (Some _, w6) \<Rightarrow> (EReturned True, snd (Lock w6)))))"

section \<open>Passphrases and the master key\<close>

text \<open>The key derivation fills the 16 bytes of the IV.\<close>

definition kdf_documented :: "crypt_lib \<Rightarrow> bool" where
  "kdf_documented C \<longleftrightarrow> (\<forall>salt d n. length (snd (snd (EVP_BytesToKey C salt d n))) = 16)"

text \<open>What a passphrase derives does not depend on what the crypter was used for before.\<close>

lemma SetKeyFromPassphrase_fresh:
  assumes "kdf_documented C" "SetKeyFromPassphrase C p salt n method c = (True, c1)"
  obtains c2 where "SetKeyFromPassphrase C p salt n method c' = (True, c2)" "Decrypt C c2 = Decrypt C c1" "Encrypt C c2 = Encrypt C c1"
proof -
  have iv: "take 16 (iv @ r) = iv" if "EVP_BytesToKey C s d k = (i, key, iv)" for s d k i key iv r
    using assms(1) that by (metis append_eq_conv_conj kdf_documented_def snd_conv)
  have "\<exists>c2. SetKeyFromPassphrase C p salt n method c' = (True, c2) \<and> chKey c2 = chKey c1 \<and> take 16 (chIV c2) = take 16 (chIV c1) \<and> fKeySet c1 \<and> fKeySet c2"
    using assms(2) iv by (auto simp: SetKeyFromPassphrase_def Let_def WALLET_CRYPTO_KEY_SIZE_def split: if_splits prod.splits)
  then show thesis using that by (fastforce simp: Decrypt_def Encrypt_def fun_eq_iff)
qed

lemma Decrypt_Encrypt: "aes_documented C \<Longrightarrow> Encrypt C c p r = (True, ct) \<Longrightarrow> Decrypt C c ct = Some p"
  by (auto simp: Encrypt_def Decrypt_def aes_documented_def split: if_splits)

text \<open>Whether a store that uses encryption accepts a master key depends on its encrypted keys only.\<close>

lemma Unlock_on:
  assumes "fUseCrypto ks" "fUseCrypto ks'" "mapCryptedKeys ks' = mapCryptedKeys ks" "Unlock L K C m ks = (b, ks1)"
  shows "Unlock L K C m ks' = (b, if b then ks'\<lparr>vMasterKey := m\<rparr> else ks')"
  using assms by (auto simp: Unlock_def split: list.splits option.splits prod.splits if_splits)

lemma Unlock_on_True: "fUseCrypto ks \<Longrightarrow> Unlock L K C m ks = (True, ks1) \<Longrightarrow> ks1 = ks\<lparr>vMasterKey := m\<rparr>"
  using Unlock_on [of ks ks] by fastforce

lemma Unlock_loop_single:
  "Unlock_loop L K C pass [(i, mk)] crypter w = (True, w1) \<longleftrightarrow>
   (\<exists>c m. SetKeyFromPassphrase C pass (vchSalt mk) (nDeriveIterations mk) (nDerivationMethod mk) crypter = (True, c) \<and>
      Decrypt C c (vchCryptedKey mk) = Some m \<and> Unlock L K C m w = (True, w1))"
  by (auto split: prod.splits bool.splits option.splits)

lemma Change_loop_single:
  assumes "Change_loop L K C measured True old new [(i, mk)] crypter w = (True, w1)" "mapMasterKeys w = [(i, mk)]" "fUseCrypto w"
  obtains c m c2 ct mk2 where
    "SetKeyFromPassphrase C old (vchSalt mk) (nDeriveIterations mk) (nDerivationMethod mk) crypter = (True, c)"
    "Decrypt C c (vchCryptedKey mk) = Some m" "Unlock L K C m w = (True, w\<lparr>vMasterKey := m\<rparr>)"
    "SetKeyFromPassphrase C new (vchSalt mk2) (nDeriveIterations mk2) (nDerivationMethod mk2) c = (True, c2)"
    "Encrypt C c2 m (vchCryptedKey mk) = (True, vchCryptedKey mk2)" "w1 = w\<lparr>mapMasterKeys := [(i, mk2)], vMasterKey := []\<rparr>"
proof -
  let ?mk = "mk\<lparr>nDeriveIterations := if measured < 25000 then 25000 else measured\<rparr>"
  obtain c m w' c2 ct where s:
    "SetKeyFromPassphrase C old (vchSalt mk) (nDeriveIterations mk) (nDerivationMethod mk) crypter = (True, c)"
    "Decrypt C c (vchCryptedKey mk) = Some m" "Unlock L K C m w = (True, w')"
    "SetKeyFromPassphrase C new (vchSalt mk) (nDeriveIterations ?mk) (nDerivationMethod mk) c = (True, c2)"
    "Encrypt C c2 m (vchCryptedKey mk) = (True, ct)"
    "w1 = snd (Lock (w'\<lparr>mapMasterKeys := sm_put i (?mk\<lparr>vchCryptedKey := ct\<rparr>) (sm_put i ?mk (mapMasterKeys w'))\<rparr>))"
    using assms(1) by (simp add: Let_def split: prod.splits bool.splits option.splits if_splits)
  have w': "w' = w\<lparr>vMasterKey := m\<rparr>" using Unlock_on_True [OF assms(3) s(3)] .
  have "w1 = w\<lparr>mapMasterKeys := [(i, ?mk\<lparr>vchCryptedKey := ct\<rparr>)], vMasterKey := []\<rparr>"
    using s(6) assms(2,3) by (simp add: w' Lock_def)
  then show thesis using that [of c m "?mk\<lparr>vchCryptedKey := ct\<rparr>" c2] s w' by simp
qed

lemma Lock_locked: "IsLocked w \<Longrightarrow> Lock w = (True, w)"
  by (cases w) (auto simp: IsLocked_def Lock_def split: if_splits)

lemma change_passphrase:
  assumes doc: "aes_documented C" "kdf_documented C" and l: "IsLocked w" "mapMasterKeys w = [(i, mk)]"
    and ch: "ChangeWalletPassphrase L K C measured old new w = (True, w1)"
  shows "\<exists>m mk2. w1 = w\<lparr>mapMasterKeys := [(i, mk2)], vMasterKey := []\<rparr> \<and> CWallet_Unlock L K C old w = (True, w\<lparr>vMasterKey := m\<rparr>) \<and>
    CWallet_Unlock L K C new w1 = (True, w1\<lparr>vMasterKey := m\<rparr>)"
proof -
  have on: "fUseCrypto w" "vMasterKey w = []" using l(1) by (auto simp: IsLocked_def split: if_splits)
  have "Change_loop L K C measured True old new [(i, mk)] CCrypter_new w = (True, w1)"
    using ch l Lock_locked [OF l(1)] by (simp add: ChangeWalletPassphrase_def)
  then obtain c m c2 mk2 where s:
    "SetKeyFromPassphrase C old (vchSalt mk) (nDeriveIterations mk) (nDerivationMethod mk) CCrypter_new = (True, c)"
    "Decrypt C c (vchCryptedKey mk) = Some m" "Unlock L K C m w = (True, w\<lparr>vMasterKey := m\<rparr>)"
    "SetKeyFromPassphrase C new (vchSalt mk2) (nDeriveIterations mk2) (nDerivationMethod mk2) c = (True, c2)"
    "Encrypt C c2 m (vchCryptedKey mk) = (True, vchCryptedKey mk2)" "w1 = w\<lparr>mapMasterKeys := [(i, mk2)], vMasterKey := []\<rparr>"
    using Change_loop_single [OF _ l(2) on(1)] by metis
  have old: "CWallet_Unlock L K C old w = (True, w\<lparr>vMasterKey := m\<rparr>)"
    unfolding CWallet_Unlock_def l(2) using l(1) s(1-3) by (simp add: Unlock_loop_single del: Unlock_loop.simps)
  obtain c3 where c3: "SetKeyFromPassphrase C new (vchSalt mk2) (nDeriveIterations mk2) (nDerivationMethod mk2) CCrypter_new = (True, c3)"
    "Decrypt C c3 = Decrypt C c2" using SetKeyFromPassphrase_fresh [OF doc(2) s(4)] by metis
  have d: "Decrypt C c3 (vchCryptedKey mk2) = Some m" using Decrypt_Encrypt [OF doc(1) s(5)] c3(2) by simp
  have "Unlock L K C m w1 = (True, w1\<lparr>vMasterKey := m\<rparr>)" using Unlock_on [OF on(1) _ _ s(3), of w1] s(6) on(1) by simp
  moreover have "mapMasterKeys w1 = [(i, mk2)]" "IsLocked w1" using s(6) on by (simp_all add: IsLocked_def)
  ultimately have "CWallet_Unlock L K C new w1 = (True, w1\<lparr>vMasterKey := m\<rparr>)"
    unfolding CWallet_Unlock_def using c3(1) d by (simp add: Unlock_loop_single del: Unlock_loop.simps)
  then show ?thesis using old s(6) by blast
qed

section \<open>What the operations leave alone\<close>

lemma EncryptKeys_loop_shape: "EncryptKeys_loop L K C W m keys ks = (r, ks1) \<Longrightarrow> fUseCrypto ks \<Longrightarrow> \<exists>ck. ks1 = ks\<lparr>mapCryptedKeys := ck\<rparr>"
proof (induction keys arbitrary: ks)
  case Nil
  then show ?case by (intro exI [of _ "mapCryptedKeys ks"]) simp
next
  case (Cons e keys)
  obtain i s c where e: "e = (i, s, c)" by (metis prod_cases3)
  let ?pk = "CKey_GetPubKey K \<lparr>k_secret = s, fCompressedPubKey = c\<rparr>"
  have same: "\<exists>ck. ks = ks\<lparr>mapCryptedKeys := ck\<rparr>" by (intro exI [of _ "mapCryptedKeys ks"]) simp
  show ?case
  proof (cases "EncryptSecret C m s (Hash L ?pk)")
    case None
    then show ?thesis using Cons.prems same by (auto simp: e split: if_splits)
  next
    case (Some ct)
    let ?ks = "ks\<lparr>mapCryptedKeys := sm_put (CPubKey_GetID L ?pk) (?pk, ct) (mapCryptedKeys ks)\<rparr>"
    have "\<exists>ck. ks1 = ?ks\<lparr>mapCryptedKeys := ck\<rparr>" if "EncryptKeys_loop L K C W m keys ?ks = (r, ks1)" using Cons.IH [OF that] Cons.prems(2) by simp
    then show ?thesis using Cons.prems same Some
      by (auto simp: e Let_def CWallet_AddCryptedKey_def AddCryptedKey_def split: if_splits bool.splits)
  qed
qed

lemma EncryptKeys_shape:
  assumes "EncryptKeys L K C W m ks = (Returned True, ks1)"
  obtains ck where "ks1 = ks\<lparr>fUseCrypto := True, mapCryptedKeys := ck, mapKeys := []\<rparr>"
proof -
  obtain ks2 where l: "EncryptKeys_loop L K C W m (mapKeys ks) (ks\<lparr>fUseCrypto := True\<rparr>) = (Returned True, ks2)" "ks1 = ks2\<lparr>mapKeys := []\<rparr>"
    using assms by (auto simp: EncryptKeys_def split: if_splits prod.splits outcome.splits bool.splits)
  obtain ck where "ks2 = (ks\<lparr>fUseCrypto := True\<rparr>)\<lparr>mapCryptedKeys := ck\<rparr>" using EncryptKeys_loop_shape [OF l(1)] by auto
  then show thesis using that l(2) by simp
qed

lemma CryptoAddKey_shape:
  assumes "fUseCrypto ks" "CryptoAddKey L K C W key ks = (b, ks1)"
  obtains ck where "ks1 = ks\<lparr>mapCryptedKeys := ck\<rparr>"
proof -
  have "\<exists>ck. ks = ks\<lparr>mapCryptedKeys := ck\<rparr>" by (intro exI [of _ "mapCryptedKeys ks"]) simp
  then have "\<exists>ck. ks1 = ks\<lparr>mapCryptedKeys := ck\<rparr>" using assms
    by (auto simp: CryptoAddKey_def CWallet_AddCryptedKey_def AddCryptedKey_def Let_def split: if_splits option.splits)
  then show thesis using that by blast
qed

lemma CryptoAddKey_crypted_by:
  assumes "aes_documented C" "fUseCrypto ks" "crypted_by L K C (vMasterKey ks) ks" "length (k_secret key) = 32" "CryptoAddKey L K C W key ks = (b, ks1)"
  shows "crypted_by L K C (vMasterKey ks) ks1"
proof (cases "IsLocked ks \<or> EncryptSecret C (vMasterKey ks) (k_secret key) (Hash L (CKey_GetPubKey K key)) = None")
  case True
  then show ?thesis using assms(2,3,5) by (auto simp: CryptoAddKey_def split: if_splits)
next
  case False
  then obtain ct where ct: "EncryptSecret C (vMasterKey ks) (k_secret key) (Hash L (CKey_GetPubKey K key)) = Some ct" by auto
  then have "ks1 = ks\<lparr>mapCryptedKeys := sm_put (CPubKey_GetID L (CKey_GetPubKey K key)) (CKey_GetPubKey K key, ct) (mapCryptedKeys ks)\<rparr>"
    using False assms(2,5) by (simp add: CryptoAddKey_def CWallet_AddCryptedKey_def AddCryptedKey_def Let_def)
  then show ?thesis using crypted_by_put [OF assms(3,4) refl DecryptSecret_Encrypt [OF assms(1) ct]] by simp
qed

section \<open>The keys of an encrypted wallet\<close>

definition new_ids :: "ssl_lib \<Rightarrow> key_lib \<Rightarrow> wallet_env \<Rightarrow> nat \<Rightarrow> CKeyID set" where
  "new_ids L K D r = {CPubKey_GetID L (CKey_GetPubKey K \<lparr>k_secret = rand_secret D n, fCompressedPubKey = c\<rparr>) | n c. r \<le> n}"

text \<open>An unlocked wallet whose keys are all under the master key \<open>m\<close>, which has the master keys \<open>mm\<close> and the keys \<open>G\<close> besides those generated
  from position \<open>r\<close> of the random source.\<close>

definition unlocked_inv :: "ssl_lib \<Rightarrow> key_lib \<Rightarrow> crypt_lib \<Rightarrow> wallet_env \<Rightarrow> byte list \<Rightarrow> (u32, CMasterKey) smap \<Rightarrow> nat \<Rightarrow> (CKeyID \<Rightarrow> CKey option) \<Rightarrow> CWallet \<Rightarrow> bool" where
  "unlocked_inv L K C D m mm r G w \<longleftrightarrow> fUseCrypto w \<and> vMasterKey w = m \<and> store_ok L K w \<and> crypted_by L K C m w \<and> mapMasterKeys w = mm \<and>
     r \<le> rng w \<and> (\<forall>a. a \<notin> new_ids L K D r \<longrightarrow> CryptoGetKey L C w a False = G a)"

lemma unlocked_inv_upd [simp]:
  "unlocked_inv L K C D m mm r G (w\<lparr>setKeyPool := s\<rparr>) = unlocked_inv L K C D m mm r G w"
  "unlocked_inv L K C D m mm r G (w\<lparr>pool_db := p\<rparr>) = unlocked_inv L K C D m mm r G w"
  "unlocked_inv L K C D m mm r G (w\<lparr>nWalletVersion := v\<rparr>) = unlocked_inv L K C D m mm r G w"
  "unlocked_inv L K C D m mm r G (w\<lparr>nWalletMaxVersion := v\<rparr>) = unlocked_inv L K C D m mm r G w"
  by (simp_all add: unlocked_inv_def store_ok_def store_mode_def store_typed_def crypted_by_def CryptoGetKey_on cong: conj_cong)

lemma unlocked_inv_SetMinVersion [simp]: "unlocked_inv L K C D m mm r G (SetMinVersion v e w) = unlocked_inv L K C D m mm r G w"
  by (simp add: SetMinVersion_def Let_def)

lemma unlocked_inv_rng: "unlocked_inv L K C D m mm r G w \<Longrightarrow> unlocked_inv L K C D m mm r G (w\<lparr>rng := Suc (rng w)\<rparr>)"
  by (auto simp: unlocked_inv_def store_ok_def store_mode_def store_typed_def crypted_by_def CryptoGetKey_on)

lemma AddKey_unlocked_inv:
  assumes doc: "aes_documented C" "pubkey_documented L K" and inv: "unlocked_inv L K C D m mm r G w"
    and key: "length (k_secret key) = 32" "CPubKey_GetID L (CKey_GetPubKey K key) \<in> new_ids L K D r"
    and add: "CWallet_AddKey L K C D key w = (True, w1)"
  shows "unlocked_inv L K C D m mm r G w1"
proof -
  have c: "CryptoAddKey L K C (write_crypted D w) key w = (True, w1)" and on: "fUseCrypto w" and ok: "store_ok L K w"
    using add inv by (auto simp: CWallet_AddKey_def unlocked_inv_def split: prod.splits bool.splits if_splits elim: CryptoAddKey_shape)
  obtain ck where w1: "w1 = w\<lparr>mapCryptedKeys := ck\<rparr>" using CryptoAddKey_shape [OF on c] by blast
  have "crypted_by L K C (vMasterKey w) w1" using CryptoAddKey_crypted_by [OF doc(1) on _ key(1) c] inv by (simp add: unlocked_inv_def)
  moreover have "store_ok L K w1" using CryptoAddKey_ok [OF ok key(1) c] .
  moreover have "CryptoGetKey L C w1 a False = CryptoGetKey L C w a False" if "a \<notin> new_ids L K D r" for a
    using CryptoAddKey_get [OF doc ok key(1) c, of a] key(2) that by auto
  ultimately show ?thesis using inv by (simp add: unlocked_inv_def) (simp add: w1)
qed

definition env_documented :: "ssl_lib \<Rightarrow> key_lib \<Rightarrow> crypt_lib \<Rightarrow> wallet_env \<Rightarrow> bool" where
  "env_documented L K C D \<longleftrightarrow> aes_documented C \<and> pubkey_documented L K \<and> (\<forall>n. length (rand_secret D n) = 32)"

lemma GenerateNewKey_inv:
  assumes "env_documented L K C D" "unlocked_inv L K C D m mm r G w" "GenerateNewKey L K C D w = (Some pk, w1)"
  shows "unlocked_inv L K C D m mm r G w1"
proof -
  let ?key = "\<lparr>k_secret = rand_secret D (rng w), fCompressedPubKey = CanSupportFeature FEATURE_COMPRPUBKEY w\<rparr>"
  define w2 where "w2 = (if CanSupportFeature FEATURE_COMPRPUBKEY w then SetMinVersion FEATURE_COMPRPUBKEY False (w\<lparr>rng := Suc (rng w)\<rparr>) else w\<lparr>rng := Suc (rng w)\<rparr>)"
  have add: "CWallet_AddKey L K C D ?key w2 = (True, w1)"
    using assms(3) unfolding GenerateNewKey_def Let_def w2_def [symmetric] by (simp split: prod.splits bool.splits)
  have "unlocked_inv L K C D m mm r G w2" using unlocked_inv_rng [OF assms(2)] by (simp add: w2_def)
  moreover have "CPubKey_GetID L (CKey_GetPubKey K ?key) \<in> new_ids L K D r" using assms(2) by (auto simp: new_ids_def unlocked_inv_def)
  ultimately show ?thesis using AddKey_unlocked_inv [OF _ _ _ _ _ add] assms(1) by (simp add: env_documented_def)
qed

lemma new_pool_entry_inv:
  assumes "env_documented L K C D" "unlocked_inv L K C D m mm r G w" "new_pool_entry L K C D now i w = (Some u, w1)"
  shows "unlocked_inv L K C D m mm r G w1"
  using assms(3) GenerateNewKey_inv [OF assms(1,2)] by (auto simp: new_pool_entry_def split: prod.splits option.splits if_splits)

lemma NewKeyPool_loop_inv:
  assumes "env_documented L K C D"
  shows "unlocked_inv L K C D m mm r G w \<Longrightarrow> NewKeyPool_loop L K C D now n i w = (Some u, w1) \<Longrightarrow> unlocked_inv L K C D m mm r G w1"
proof (induction n arbitrary: i w)
  case (Suc n)
  obtain w2 where w2: "new_pool_entry L K C D now (i + 1) w = (Some (), w2)"
    "NewKeyPool_loop L K C D now n (i + 1) (w2\<lparr>setKeyPool := insert (i + 1) (setKeyPool w2)\<rparr>) = (Some u, w1)"
    using Suc.prems(2) by (auto split: prod.splits option.splits)
  show ?case using Suc.IH [OF _ w2(2)] new_pool_entry_inv [OF assms Suc.prems(1) w2(1)] by simp
qed simp

lemma NewKeyPool_inv:
  assumes "env_documented L K C D" "unlocked_inv L K C D m mm r G w" "NewKeyPool L K C D now keypool w = (Some b, w1)"
  shows "unlocked_inv L K C D m mm r G w1"
proof -
  let ?w = "w\<lparr>pool_db := filter (\<lambda>e. fst e \<notin> setKeyPool w) (pool_db w), setKeyPool := {}\<rparr>"
  have "unlocked_inv L K C D m mm r G ?w" using assms(2) by simp
  then show ?thesis using assms(3) NewKeyPool_loop_inv [OF assms(1), of m mm r G ?w now "nat (max keypool 0)" 0 "()" w1]
    by (auto simp: NewKeyPool_def Let_def split: if_splits prod.splits option.splits)
qed

text \<open>A locked wallet whose only master key is encrypted under the passphrase.\<close>

lemma CWallet_Unlock_single:
  assumes "aes_documented C" "pubkey_documented L K" "IsLocked w" "mapMasterKeys w = [(i, mk)]" "crypted_by L K C m w"
    and "SetKeyFromPassphrase C pass (vchSalt mk) (nDeriveIterations mk) (nDerivationMethod mk) CCrypter_new = (True, c)"
    and "Encrypt C c m old = (True, vchCryptedKey mk)"
  shows "CWallet_Unlock L K C pass w = (True, w\<lparr>vMasterKey := m\<rparr>)"
proof -
  have "fUseCrypto w" using assms(3) by (auto simp: IsLocked_def split: if_splits)
  then have "Unlock L K C m w = (True, w\<lparr>vMasterKey := m\<rparr>)" using Unlock_crypted_by [OF assms(2,5)] by simp
  then show ?thesis unfolding CWallet_Unlock_def assms(4)
    using assms(3,6) Decrypt_Encrypt [OF assms(1,7)] by (simp add: Unlock_loop_single del: Unlock_loop.simps)
qed

lemma EncryptWallet_steps:
  assumes "EncryptWallet L K C D now keypool methodIndex measured m salt pass w = (EReturned True, w1)" "mapMasterKeys w = []"
  obtains mk c w2 w5 w6 b i where
    "SetKeyFromPassphrase C pass (vchSalt mk) (nDeriveIterations mk) (nDerivationMethod mk) CCrypter_new = (True, c)"
    "Encrypt C c m [] = (True, vchCryptedKey mk)"
    "EncryptKeys L K C (write_crypted D (w\<lparr>nMasterKeyMaxID := i, mapMasterKeys := [(i, mk)]\<rparr>)) m (w\<lparr>nMasterKeyMaxID := i, mapMasterKeys := [(i, mk)]\<rparr>) = (Returned True, w2)"
    "w5 = snd (CWallet_Unlock L K C pass (snd (Lock (SetMinVersion FEATURE_WALLETCRYPT True w2))))"
    "NewKeyPool L K C D now keypool w5 = (Some b, w6)" "w1 = snd (Lock w6)"
proof -
  define k0 where "k0 = (CMasterKey_new methodIndex)\<lparr>vchSalt := salt, nDeriveIterations := if measured < 25000 then 25000 else measured\<rparr>"
  define i where "i = nMasterKeyMaxID w + 1"
  let ?ws = "\<lambda>ct. w\<lparr>nMasterKeyMaxID := i, mapMasterKeys := sm_put i (k0\<lparr>vchCryptedKey := ct\<rparr>) (mapMasterKeys w)\<rparr>"
  obtain c ct w2 b w6 where s:
    "SetKeyFromPassphrase C pass (vchSalt k0) (nDeriveIterations k0) (nDerivationMethod k0) CCrypter_new = (True, c)"
    "Encrypt C c m [] = (True, ct)" "EncryptKeys L K C (write_crypted D (?ws ct)) m (?ws ct) = (Returned True, w2)"
    "NewKeyPool L K C D now keypool (snd (CWallet_Unlock L K C pass (snd (Lock (SetMinVersion FEATURE_WALLETCRYPT True w2))))) = (Some b, w6)"
    "w1 = snd (Lock w6)"
    using assms(1) unfolding EncryptWallet_def Let_def k0_def [symmetric] i_def [symmetric]
    by (simp split: if_splits prod.splits bool.splits outcome.splits option.splits)
  show thesis by (rule that [of "k0\<lparr>vchCryptedKey := ct\<rparr>" c i w2 _ b w6]) (use s assms(2) in simp_all)
qed

lemma CryptoGetKey_cong:
  "fUseCrypto ks' = fUseCrypto ks \<Longrightarrow> mapKeys ks' = mapKeys ks \<Longrightarrow> mapCryptedKeys ks' = mapCryptedKeys ks \<Longrightarrow> vMasterKey ks' = vMasterKey ks \<Longrightarrow>
   CryptoGetKey L C ks' a f = CryptoGetKey L C ks a f"
  by (cases "fUseCrypto ks") (simp_all add: CryptoGetKey_on, simp_all add: CryptoGetKey_def GetKey_def)

lemma SetMinVersion_shape: obtains v x where "SetMinVersion n e w = w\<lparr>nWalletVersion := v, nWalletMaxVersion := x\<rparr>"
proof -
  have "w = w\<lparr>nWalletVersion := nWalletVersion w, nWalletMaxVersion := nWalletMaxVersion w\<rparr>" by simp
  then show thesis using that unfolding SetMinVersion_def Let_def by (cases "nWalletVersion w \<ge> n") (metis, auto)
qed

text \<open>Locking an unlocked wallet, and unlocking it again with the passphrase.\<close>

lemma lock_unlock_inv:
  assumes "aes_documented C" "pubkey_documented L K" "unlocked_inv L K C D m [(i, mk)] r G w"
    and "SetKeyFromPassphrase C pass (vchSalt mk) (nDeriveIterations mk) (nDerivationMethod mk) CCrypter_new = (True, c)"
    and "Encrypt C c m old = (True, vchCryptedKey mk)"
  shows "CWallet_Unlock L K C pass (w\<lparr>vMasterKey := []\<rparr>) = (True, w)"
proof -
  have w: "fUseCrypto w" "vMasterKey w = m" "mapMasterKeys w = [(i, mk)]" "crypted_by L K C m w" using assms(3) by (simp_all add: unlocked_inv_def)
  have "CWallet_Unlock L K C pass (w\<lparr>vMasterKey := []\<rparr>) = (True, w\<lparr>vMasterKey := [], vMasterKey := m\<rparr>)"
    using CWallet_Unlock_single [OF assms(1,2) _ _ _ assms(4,5), of "w\<lparr>vMasterKey := []\<rparr>" i] w by (simp add: IsLocked_def crypted_by_def)
  then show ?thesis using w(2) by simp
qed

lemma encrypt_wallet:
  assumes doc: "env_documented L K C D" "kdf_documented C" and ok: "store_ok L K w" "mapMasterKeys w = []" "length m = 32"
    and e: "EncryptWallet L K C D now keypool methodIndex measured m salt pass w = (EReturned True, w1)"
  shows "IsLocked w1 \<and> (\<exists>w2. CWallet_Unlock L K C pass w1 = (True, w2) \<and>
    (\<forall>a. a \<notin> new_ids L K D (rng w) \<longrightarrow> CryptoGetKey L C w2 a False = CryptoGetKey L C w a False))"
proof -
  note d = doc(1) [unfolded env_documented_def]
  obtain mk c w2 w5 w6 b i where s:
    "SetKeyFromPassphrase C pass (vchSalt mk) (nDeriveIterations mk) (nDerivationMethod mk) CCrypter_new = (True, c)"
    "Encrypt C c m [] = (True, vchCryptedKey mk)"
    "EncryptKeys L K C (write_crypted D (w\<lparr>nMasterKeyMaxID := i, mapMasterKeys := [(i, mk)]\<rparr>)) m (w\<lparr>nMasterKeyMaxID := i, mapMasterKeys := [(i, mk)]\<rparr>) = (Returned True, w2)"
    "w5 = snd (CWallet_Unlock L K C pass (snd (Lock (SetMinVersion FEATURE_WALLETCRYPT True w2))))"
    "NewKeyPool L K C D now keypool w5 = (Some b, w6)" "w1 = snd (Lock w6)"
    using EncryptWallet_steps [OF e ok(2)] by metis
  let ?w = "w\<lparr>nMasterKeyMaxID := i, mapMasterKeys := [(i, mk)]\<rparr>" and ?G = "\<lambda>a. CryptoGetKey L C w a False"
  have okw: "store_ok L K ?w" using ok(1) by (simp add: store_ok_def store_mode_def store_typed_def)
  note k2 = EncryptKeys_ok [OF okw s(3)] and g2 = EncryptKeys_get [OF _ _ okw s(3)]
  obtain ck where w2: "w2 = ?w\<lparr>fUseCrypto := True, mapCryptedKeys := ck, mapKeys := []\<rparr>" using EncryptKeys_shape [OF s(3)] .
  have G: "CryptoGetKey L C ?w a f = CryptoGetKey L C w a f" for a f by (rule CryptoGetKey_cong) simp_all
  have "unlocked_inv L K C D m [(i, mk)] (rng w) ?G (w2\<lparr>vMasterKey := m\<rparr>)"
    using k2 g2 d by (simp add: unlocked_inv_def store_ok_def store_mode_def store_simps crypted_by_def G) (simp add: w2)
  moreover obtain v x where w3: "SetMinVersion FEATURE_WALLETCRYPT True w2 = w2\<lparr>nWalletVersion := v, nWalletMaxVersion := x\<rparr>"
    by (rule SetMinVersion_shape)
  moreover define u where "u = w2\<lparr>vMasterKey := m, nWalletVersion := v, nWalletMaxVersion := x\<rparr>"
  ultimately have inv: "unlocked_inv L K C D m [(i, mk)] (rng w) ?G u"
    by (simp add: u_def)
  have "snd (Lock (SetMinVersion FEATURE_WALLETCRYPT True w2)) = u\<lparr>vMasterKey := []\<rparr>" using k2(3) by (simp add: w3 u_def Lock_def)
  then have "w5 = u" using s(4) lock_unlock_inv [OF _ _ inv s(1,2)] d by simp
  then have inv6: "unlocked_inv L K C D m [(i, mk)] (rng w) ?G w6" using NewKeyPool_inv [OF doc(1) inv] s(5) by simp
  then have "w1 = w6\<lparr>vMasterKey := []\<rparr>" "fUseCrypto w6" using s(6) by (simp_all add: unlocked_inv_def Lock_def)
  moreover have "CWallet_Unlock L K C pass (w6\<lparr>vMasterKey := []\<rparr>) = (True, w6)" using lock_unlock_inv [OF _ _ inv6 s(1,2)] d by simp
  ultimately show ?thesis using inv6 by (simp add: IsLocked_def unlocked_inv_def)
qed

section \<open>Soundness of the key pool\<close>

text \<open>Every index of the pool has an entry in the file, with a valid public key whose secret the wallet has.\<close>

definition pool_ok :: "ssl_lib \<Rightarrow> CWallet \<Rightarrow> bool" where
  "pool_ok L w \<longleftrightarrow> finite (setKeyPool w) \<and> sm_ok (pool_db w) \<and>
     (\<forall>i \<in> setKeyPool w. 0 < i \<and> (\<exists>e. sm_find (pool_db w) i = Some e \<and> CPubKey_IsValid (kp_vchPubKey e) \<and>
        CryptoHaveKey w (CPubKey_GetID L (kp_vchPubKey e))))"

lemma pool_ok_end: "pool_ok L w \<Longrightarrow> 0 < pool_end w \<and> pool_end w \<notin> setKeyPool w"
proof -
  assume p: "pool_ok L w"
  show ?thesis
  proof (cases "setKeyPool w = {}")
    case False
    have fin: "finite (setKeyPool w)" using p by (simp add: pool_ok_def)
    then have "0 < Max (setKeyPool w)" using p False Max_in by (auto simp: pool_ok_def)
    moreover have "Max (setKeyPool w) + 1 \<notin> setKeyPool w" using Max_ge [OF fin] by force
    ultimately show ?thesis using False by (simp add: pool_end_def)
  qed (simp add: pool_end_def)
qed

lemma CryptoAddKey_have:
  assumes "store_ok L K ks" "CryptoAddKey L K C W key ks = (True, ks1)"
  shows "\<exists>mk ck. ks1 = ks\<lparr>mapKeys := mk, mapCryptedKeys := ck\<rparr>"
    "CryptoHaveKey ks1 a \<longleftrightarrow> a = CPubKey_GetID L (CKey_GetPubKey K key) \<or> CryptoHaveKey ks a"
proof -
  have s: "sm_ok (mapKeys ks)" "sm_ok (mapCryptedKeys ks)" using assms(1) by (simp_all add: store_ok_def store_typed_def)
  show "\<exists>mk ck. ks1 = ks\<lparr>mapKeys := mk, mapCryptedKeys := ck\<rparr>"
  proof (cases "fUseCrypto ks")
    case True
    obtain ck where "ks1 = ks\<lparr>mapCryptedKeys := ck\<rparr>" using CryptoAddKey_shape [OF True assms(2)] .
    then have "ks1 = ks\<lparr>mapKeys := mapKeys ks, mapCryptedKeys := ck\<rparr>" by simp
    then show ?thesis by blast
  next
    case False
    let ?m = "sm_put (CPubKey_GetID L (CKey_GetPubKey K key)) (k_secret key, fCompressedPubKey key) (mapKeys ks)"
    have "ks1 = ks\<lparr>mapKeys := ?m\<rparr>" using False assms(2) by (simp add: CryptoAddKey_def AddKey_def)
    then have "ks1 = ks\<lparr>mapKeys := ?m, mapCryptedKeys := mapCryptedKeys ks\<rparr>" by simp
    then show ?thesis by blast
  qed
  show "CryptoHaveKey ks1 a \<longleftrightarrow> a = CPubKey_GetID L (CKey_GetPubKey K key) \<or> CryptoHaveKey ks a"
    using assms(2) s by (auto simp: CryptoHaveKey_def CryptoAddKey_def AddKey_def CWallet_AddCryptedKey_def AddCryptedKey_def Let_def sm_find_put
        split: if_splits option.splits)
qed

lemma GenerateNewKey_pool:
  assumes doc: "env_documented L K C D" and ok: "store_ok L K w" and p: "pool_ok L w" and g: "GenerateNewKey L K C D w = (Some pk, w1)"
  shows "store_ok L K w1" "pool_ok L w1" "setKeyPool w1 = setKeyPool w" "CPubKey_IsValid pk" "CryptoHaveKey w1 (CPubKey_GetID L pk)"
proof -
  let ?key = "\<lparr>k_secret = rand_secret D (rng w), fCompressedPubKey = CanSupportFeature FEATURE_COMPRPUBKEY w\<rparr>"
  define w2 where "w2 = (if CanSupportFeature FEATURE_COMPRPUBKEY w then SetMinVersion FEATURE_COMPRPUBKEY False (w\<lparr>rng := Suc (rng w)\<rparr>) else w\<lparr>rng := Suc (rng w)\<rparr>)"
  have add: "CWallet_AddKey L K C D ?key w2 = (True, w1)" "pk = CKey_GetPubKey K ?key"
    using g unfolding GenerateNewKey_def Let_def w2_def [symmetric] by (simp_all split: prod.splits bool.splits)
  then have c: "CryptoAddKey L K C (write_crypted D w2) ?key w2 = (True, w1)" by (auto simp: CWallet_AddKey_def split: prod.splits bool.splits if_splits)
  have f: "mapKeys w2 = mapKeys w" "mapCryptedKeys w2 = mapCryptedKeys w" "fUseCrypto w2 = fUseCrypto w" "vMasterKey w2 = vMasterKey w"
    "setKeyPool w2 = setKeyPool w" "pool_db w2 = pool_db w" by (simp_all add: w2_def SetMinVersion_def Let_def)
  have ok2: "store_ok L K w2" using ok by (simp add: store_ok_def store_mode_def store_typed_def f)
  have l: "length (k_secret ?key) = 32" "pubkey_documented L K" using doc by (simp_all add: env_documented_def)
  show "store_ok L K w1" using CryptoAddKey_ok [OF ok2 l(1) c] .
  show "CPubKey_IsValid pk" using l by (simp add: add(2) CKey_GetPubKey_def pubkey_documented_def CPubKey_IsValid_def)
  note have' = CryptoAddKey_have(2) [OF ok2 c]
  show "CryptoHaveKey w1 (CPubKey_GetID L pk)" using have' add(2) by simp
  obtain mk ck where "w1 = w2\<lparr>mapKeys := mk, mapCryptedKeys := ck\<rparr>" using CryptoAddKey_have(1) [OF ok2 c] by blast
  then have s: "setKeyPool w1 = setKeyPool w" "pool_db w1 = pool_db w" by (simp_all add: f)
  then show "setKeyPool w1 = setKeyPool w" by simp
  have "CryptoHaveKey w1 a" if "CryptoHaveKey w a" for a using that have' [of a] by (simp add: CryptoHaveKey_def [of w2] CryptoHaveKey_def [of w] f)
  then show "pool_ok L w1" using p unfolding pool_ok_def s by blast
qed

lemma pool_ok_insert:
  assumes "pool_ok L w" "0 < i" "CPubKey_IsValid (kp_vchPubKey e)" "CryptoHaveKey w (CPubKey_GetID L (kp_vchPubKey e))"
  shows "pool_ok L (w\<lparr>pool_db := sm_put i e (pool_db w), setKeyPool := insert i (setKeyPool w)\<rparr>)"
  using assms by (auto simp: pool_ok_def CryptoHaveKey_def sm_ok_put sm_find_put)

text \<open>Topping up keeps the pool sound, and the loop ends with as many keys as it was run for.\<close>

lemma TopUp_loop_fills:
  assumes doc: "env_documented L K C D"
  shows "store_ok L K w \<Longrightarrow> pool_ok L w \<Longrightarrow> TopUp_loop L K C D now n w = (Some u, w1) \<Longrightarrow>
    store_ok L K w1 \<and> pool_ok L w1 \<and> card (setKeyPool w1) = card (setKeyPool w) + n \<and> setKeyPool w \<subseteq> setKeyPool w1"
proof (induction n arbitrary: w)
  case (Suc n)
  let ?i = "pool_end w"
  obtain pk w2 where g: "GenerateNewKey L K C D w = (Some pk, w2)" "db_WritePool D ?i"
    using Suc.prems(3) by (auto simp: Let_def new_pool_entry_def split: prod.splits option.splits if_splits)
  let ?w = "w2\<lparr>pool_db := sm_put ?i \<lparr>kp_nTime = now, kp_vchPubKey = pk\<rparr> (pool_db w2), setKeyPool := insert ?i (setKeyPool w2)\<rparr>"
  have l: "TopUp_loop L K C D now n ?w = (Some u, w1)" using Suc.prems(3) g by (simp add: Let_def new_pool_entry_def)
  note p = GenerateNewKey_pool [OF doc Suc.prems(1,2) g(1)]
  have i: "0 < ?i" "?i \<notin> setKeyPool w2" using pool_ok_end [OF Suc.prems(2)] p(3) by simp_all
  have "pool_ok L ?w" using pool_ok_insert [OF p(2) i(1)] p(4,5) by simp
  moreover have "store_ok L K ?w" using p(1) by (simp add: store_ok_def store_mode_def store_typed_def)
  moreover have "card (setKeyPool ?w) = Suc (card (setKeyPool w))" using i(2) p(2,3) by (simp add: pool_ok_def)
  ultimately show ?case using Suc.IH [OF _ _ l] p(3) by auto
qed simp

lemma TopUpKeyPool_sound:
  assumes "env_documented L K C D" "store_ok L K w" "pool_ok L w" "TopUpKeyPool L K C D now keypool nSize w = (Some b, w1)"
  shows "store_ok L K w1" "pool_ok L w1" "b \<Longrightarrow> pool_target keypool nSize \<le> card (setKeyPool w1)" "b \<longleftrightarrow> \<not> IsLocked w"
  using assms(4) TopUp_loop_fills [OF assms(1-3)] assms(2,3) by (force simp: TopUpKeyPool_def split: if_splits prod.splits option.splits)+

lemma take_oldest_sound:
  assumes "store_ok L K w" "pool_ok L w"
  shows "\<exists>n e w1. take_oldest L w = (Some (n, e), w1) \<and> store_ok L K w1 \<and> pool_ok L w1 \<and>
    (if setKeyPool w = {} then n = -1 \<and> w1 = w
     else n = Min (setKeyPool w) \<and> setKeyPool w1 = setKeyPool w - {n} \<and> sm_find (pool_db w) n = Some e \<and> CryptoHaveKey w1 (CPubKey_GetID L (kp_vchPubKey e)))"
proof (cases "setKeyPool w = {}")
  case False
  let ?n = "Min (setKeyPool w)" and ?w = "w\<lparr>setKeyPool := setKeyPool w - {Min (setKeyPool w)}\<rparr>"
  have "?n \<in> setKeyPool w" using assms(2) False by (simp add: pool_ok_def)
  then obtain e where e: "sm_find (pool_db w) ?n = Some e" "CPubKey_IsValid (kp_vchPubKey e)" "CryptoHaveKey w (CPubKey_GetID L (kp_vchPubKey e))"
    using assms(2) by (auto simp: pool_ok_def)
  have h: "CryptoHaveKey ?w a \<longleftrightarrow> CryptoHaveKey w a" for a by (simp add: CryptoHaveKey_def)
  have "take_oldest L w = (Some (?n, e), ?w)" using False e h by (simp add: take_oldest_def Let_def)
  moreover have "store_ok L K ?w" using assms(1) by (simp add: store_ok_def store_mode_def store_typed_def)
  moreover have "pool_ok L ?w" using assms(2) h by (simp add: pool_ok_def)
  ultimately show ?thesis using False e h by simp
qed (use assms in \<open>simp add: take_oldest_def no_key_def\<close>)

section \<open>Reusing an index\<close>

text \<open>With a pool size of zero the pool holds one key when a reservation is made. While that reservation is outstanding the pool is
  empty, and topping it up starts again at index 1.\<close>

lemma GenerateNewKey_plain:
  assumes "\<not> fUseCrypto w" "db_WriteKey D = (\<lambda>_. True)"
  obtains pk w1 where "GenerateNewKey L K C D w = (Some pk, w1)" "fUseCrypto w1 = fUseCrypto w" "fFileBacked w1 = fFileBacked w" "pool_db w1 = pool_db w"
proof -
  have "CWallet_AddKey L K C D key w2 = (True, AddKey L K key w2)" if "\<not> fUseCrypto w2" for key w2
    using that assms(2) by (simp add: CWallet_AddKey_def CryptoAddKey_def AddKey_def)
  then show thesis using that assms(1) by (simp add: GenerateNewKey_def SetMinVersion_def Let_def AddKey_def split: if_splits)
qed

lemma reserve_from_empty:
  assumes doc: "env_documented L K C D" and ok: "store_ok L K w" "pool_ok L w" and e: "setKeyPool w = {}" "\<not> fUseCrypto w"
    and D: "db_WriteKey D = (\<lambda>_. True)" "db_WritePool D = (\<lambda>_. True)"
  obtains entry w1 where "ReserveKeyFromKeyPool L K C D now 0 w = (Some (1, entry), w1)" "store_ok L K w1" "pool_ok L w1" "setKeyPool w1 = {}"
    "\<not> fUseCrypto w1" "fFileBacked w1 = fFileBacked w"
proof -
  obtain pk w2 where g: "GenerateNewKey L K C D w = (Some pk, w2)" "fUseCrypto w2 = fUseCrypto w" "fFileBacked w2 = fFileBacked w" "pool_db w2 = pool_db w"
    using GenerateNewKey_plain [OF e(2) D(1)] .
  note p = GenerateNewKey_pool [OF doc ok g(1)]
  let ?e = "\<lparr>kp_nTime = now, kp_vchPubKey = pk\<rparr>"
  let ?w = "w2\<lparr>pool_db := sm_put 1 ?e (pool_db w2), setKeyPool := {1}\<rparr>"
  have "pool_target 0 0 = 1" by (simp add: pool_target_def)
  then have t: "TopUpKeyPool L K C D now 0 0 w = (Some True, ?w)"
    using e D g(1) p(3) by (simp add: TopUpKeyPool_def IsLocked_def new_pool_entry_def pool_end_def)
  have "store_ok L K ?w" "pool_ok L ?w" using TopUpKeyPool_sound [OF doc ok t] by simp_all
  then obtain n en w1 where o: "take_oldest L ?w = (Some (n, en), w1)" "store_ok L K w1" "pool_ok L w1" "n = 1" "setKeyPool w1 = {}"
    using take_oldest_sound [of L K ?w] by auto
  have "w1 = ?w\<lparr>setKeyPool := {}\<rparr>" using o(1) by (simp add: take_oldest_def Let_def split: option.splits if_splits)
  then show thesis using that [of en w1] o t e(2) g(2,3) by (simp add: ReserveKeyFromKeyPool_def IsLocked_def)
qed

lemma reserve_missing_entry:
  assumes "sm_ok (pool_db w)" "setKeyPool w = {}" "\<not> fUseCrypto w" "fFileBacked w"
  shows "fst (ReserveKeyFromKeyPool L K C D now 0 (ReturnKey 1 (KeepKey 1 w))) = None"
proof -
  let ?w = "ReturnKey 1 (KeepKey 1 w)"
  have w: "setKeyPool ?w = {1}" "\<not> IsLocked ?w" "pool_db ?w = sm_erase 1 (pool_db w)"
    using assms by (simp_all add: ReturnKey_def KeepKey_def IsLocked_def)
  have "pool_target 0 0 = 1" by (simp add: pool_target_def)
  then have "TopUpKeyPool L K C D now 0 0 ?w = (Some True, ?w)" using w by (simp add: TopUpKeyPool_def)
  then show ?thesis using w sm.find_erase [of 1 "pool_db w"] by (simp add: ReserveKeyFromKeyPool_def take_oldest_def Let_def)
qed

section \<open>Wallets for the witnesses\<close>

definition env_demo :: wallet_env where
  "env_demo = \<lparr>db_WriteKey = (\<lambda>_. True), db_WriteCryptedKey = (\<lambda>_ _. True), db_WritePool = (\<lambda>_. True), db_TxnBegin = True, db_TxnCommit = True,
     rand_secret = (\<lambda>n. replicate 32 (of_nat n))\<rparr>"

definition wallet_new :: CWallet where
  "wallet_new = \<lparr>mapKeys = [], mapScripts = [], mapCryptedKeys = [], vMasterKey = [], fUseCrypto = False, fFileBacked = True,
     nWalletVersion = 60000, nWalletMaxVersion = 60000, mapMasterKeys = [], nMasterKeyMaxID = 0, setKeyPool = {}, pool_db = [],
     vchDefaultKey = [], rng = 0\<rparr>"

definition wallet_demo :: CWallet where
  "wallet_demo = AddKey ssl_demo keys_demo sign_key wallet_new"

definition wallet_locked :: CWallet where
  "wallet_locked = wallet_new\<lparr>fUseCrypto := True, nMasterKeyMaxID := 1, mapMasterKeys := [(1, \<lparr>vchCryptedKey = replicate 32 9 @ [5],
     vchSalt = replicate 8 0, nDerivationMethod = 0, nDeriveIterations = 25000, vchOtherDerivationParameters = []\<rparr>)]\<rparr>"

lemma env_demo_documented: "env_documented ssl_demo keys_demo crypt_demo env_demo" "kdf_documented crypt_demo"
  using demo_documented by (simp_all add: env_documented_def env_demo_def kdf_documented_def crypt_demo_def)

lemma wallet_new_ok: "store_ok ssl_demo keys_demo wallet_new" "pool_ok ssl_demo wallet_new"
  by (simp_all add: wallet_new_def store_ok_def store_mode_def store_typed_def pool_ok_def sm_ok_def)

lemma wallet_demo_ok: "store_ok ssl_demo keys_demo wallet_demo"
  using wallet_new_ok(1) typed_AddKey [of ssl_demo keys_demo wallet_new sign_key]
  by (simp add: store_ok_def wallet_demo_def) (simp add: store_mode_def AddKey_def sign_key_def wallet_new_def)

lemma wallet_locked_change:
  "\<exists>w1. ChangeWalletPassphrase ssl_demo keys_demo crypt_demo 30000 [5] [6] wallet_locked = (True, w1)"
  by (simp add: ChangeWalletPassphrase_def wallet_locked_def wallet_new_def IsLocked_def Lock_def SetKeyFromPassphrase_def WALLET_CRYPTO_SALT_SIZE_def
      WALLET_CRYPTO_KEY_SIZE_def crypt_demo_def Decrypt_def Encrypt_def Unlock_def Let_def CCrypter_new_def)

lemma wallet_demo_encrypt:
  "\<exists>w1. EncryptWallet ssl_demo keys_demo crypt_demo env_demo 7 0 0 30000 (replicate 32 9) (replicate 8 0) [5] wallet_demo = (EReturned True, w1)"
proof -
  have pk: "CKey_GetPubKey keys_demo sign_key = 2 # replicate 32 1" by (simp add: CKey_GetPubKey_def keys_demo_def sign_key_def)
  let ?mk = "\<lparr>vchCryptedKey = replicate 32 9 @ [5], vchSalt = replicate 8 0, nDerivationMethod = 0, nDeriveIterations = 30000,
    vchOtherDerivationParameters = []\<rparr>"
  let ?w = "wallet_demo\<lparr>nMasterKeyMaxID := 1, mapMasterKeys := [(1, ?mk)]\<rparr>"
  have "\<exists>w2. EncryptKeys ssl_demo keys_demo crypt_demo (write_crypted env_demo ?w) (replicate 32 9) ?w = (Returned True, w2)"
    by (simp add: EncryptKeys_def wallet_demo_def wallet_new_def AddKey_def pk sign_key_def EncryptSecret_def SetKey_def Encrypt_def
        WALLET_CRYPTO_KEY_SIZE_def CWallet_AddCryptedKey_def AddCryptedKey_def crypt_demo_def Let_def write_crypted_def env_demo_def)
  then obtain w2 where w2: "EncryptKeys ssl_demo keys_demo crypt_demo (write_crypted env_demo ?w) (replicate 32 9) ?w = (Returned True, w2)" by blast
  have n: "\<exists>b w1. NewKeyPool L K C D now 0 w = (Some b, w1)" for L K C D now w by (auto simp: NewKeyPool_def Let_def)
  have k: "SetKeyFromPassphrase crypt_demo [5] (replicate 8 0) 30000 0 CCrypter_new = (True, \<lparr>chKey = 5 # replicate 31 0, chIV = replicate 16 0, fKeySet = True\<rparr>)"
    by (simp add: SetKeyFromPassphrase_def WALLET_CRYPTO_SALT_SIZE_def WALLET_CRYPTO_KEY_SIZE_def crypt_demo_def CCrypter_new_def)
  have e: "Encrypt crypt_demo \<lparr>chKey = 5 # replicate 31 0, chIV = replicate 16 0, fKeySet = True\<rparr> (replicate 32 9) [] = (True, replicate 32 9 @ [5])"
    by (simp add: Encrypt_def crypt_demo_def)
  have w: "\<not> fUseCrypto wallet_demo" "nMasterKeyMaxID wallet_demo = 0" "mapMasterKeys wallet_demo = []" by (simp_all add: wallet_demo_def wallet_new_def AddKey_def)
  have d: "db_TxnBegin env_demo" "db_TxnCommit env_demo" by (simp_all add: env_demo_def)
  show ?thesis using w2 n w d by (simp add: EncryptWallet_def CMasterKey_new_def k e Let_def split: prod.split option.split) (metis option.distinct(1) prod.inject)
qed

section \<open>Properties\<close>





text \<open>C19. Reserving a key from a sound pool: the only exceptions come from topping up the pool. Otherwise the pool stays sound and the result is
  either "no key", with an empty pool, or an index that is then no longer in the pool, with a public key whose secret the wallet has.\<close>

theorem reserve_key_sound:
  assumes "env_documented L K C D" "store_ok L K w" "pool_ok L w"
  shows "(\<not> IsLocked w \<and> fst (TopUpKeyPool L K C D now keypool 0 w) = None \<and> fst (ReserveKeyFromKeyPool L K C D now keypool w) = None) \<or>
    (\<exists>n e w1. ReserveKeyFromKeyPool L K C D now keypool w = (Some (n, e), w1) \<and> pool_ok L w1 \<and> store_ok L K w1 \<and>
      (if n = -1 then setKeyPool w1 = {} else n \<notin> setKeyPool w1 \<and> CryptoHaveKey w1 (CPubKey_GetID L (kp_vchPubKey e))))"
proof -
  have t: "\<exists>n e w1. take_oldest L v = (Some (n, e), w1) \<and> pool_ok L w1 \<and> store_ok L K w1 \<and>
      (if n = -1 then setKeyPool w1 = {} else n \<notin> setKeyPool w1 \<and> CryptoHaveKey w1 (CPubKey_GetID L (kp_vchPubKey e)))"
    if "store_ok L K v" "pool_ok L v" for v
  proof -
    have "Min (setKeyPool v) \<noteq> -1" if "setKeyPool v \<noteq> {}" using \<open>pool_ok L v\<close> that Min_in [of "setKeyPool v"] by (force simp: pool_ok_def)
    then show ?thesis using take_oldest_sound [OF that] by (auto split: if_splits)
  qed
  show ?thesis
  proof (cases "IsLocked w")
    case True
    then show ?thesis using t [OF assms(2,3)] by (simp add: ReserveKeyFromKeyPool_def)
  next
    case False
    obtain b w2 where b: "TopUpKeyPool L K C D now keypool 0 w = (b, w2)" by force
    show ?thesis
    proof (cases b)
      case None
      then show ?thesis using b False by (simp add: ReserveKeyFromKeyPool_def)
    next
      case (Some x)
      then show ?thesis using b False t [OF TopUpKeyPool_sound(1,2) [OF assms]] by (simp add: ReserveKeyFromKeyPool_def)
    qed
  qed
qed

theorem reserve_key_sound_witness:
  "\<exists>e w1. ReserveKeyFromKeyPool ssl_demo keys_demo crypt_demo env_demo 7 0 wallet_new = (Some (1, e), w1) \<and> pool_ok ssl_demo w1 \<and>
    1 \<notin> setKeyPool w1 \<and> CryptoHaveKey w1 (CPubKey_GetID ssl_demo (kp_vchPubKey e))"
proof -
  have "setKeyPool wallet_new = {}" "\<not> fUseCrypto wallet_new" "db_WriteKey env_demo = (\<lambda>_. True)" "db_WritePool env_demo = (\<lambda>_. True)"
    by (simp_all add: wallet_new_def env_demo_def)
  then obtain e w1 where r: "ReserveKeyFromKeyPool ssl_demo keys_demo crypt_demo env_demo 7 0 wallet_new = (Some (1, e), w1)"
    using reserve_from_empty [OF env_demo_documented(1) wallet_new_ok] by blast
  then show ?thesis using reserve_key_sound [OF env_demo_documented(1) wallet_new_ok, of 7 0] by auto
qed

text \<open>With a pool size of zero two outstanding reservations get the same index: both read index 1, the second overwrites the entry of the first. When the
  first caller keeps its key and the second returns its own, the pool lists an index without an entry, and the next reservation throws.\<close>

lemma pool_index_reused:
  assumes "env_documented L K C D" "store_ok L K w" "pool_ok L w" "setKeyPool w = {}" "\<not> fUseCrypto w" "fFileBacked w"
    and "db_WriteKey D = (\<lambda>_. True)" "db_WritePool D = (\<lambda>_. True)"
  shows "\<exists>e1 e2 w1 w2. ReserveKeyFromKeyPool L K C D now 0 w = (Some (1, e1), w1) \<and>
    ReserveKeyFromKeyPool L K C D now 0 w1 = (Some (1, e2), w2) \<and>
    fst (ReserveKeyFromKeyPool L K C D now 0 (ReturnKey 1 (KeepKey 1 w2))) = None"
proof -
  obtain e1 w1 where r1: "ReserveKeyFromKeyPool L K C D now 0 w = (Some (1, e1), w1)" "store_ok L K w1" "pool_ok L w1" "setKeyPool w1 = {}"
    "\<not> fUseCrypto w1" "fFileBacked w1 = fFileBacked w" using reserve_from_empty [OF assms(1-5,7,8)] .
  obtain e2 w2 where r2: "ReserveKeyFromKeyPool L K C D now 0 w1 = (Some (1, e2), w2)" "store_ok L K w2" "pool_ok L w2" "setKeyPool w2 = {}"
    "\<not> fUseCrypto w2" "fFileBacked w2 = fFileBacked w1" using reserve_from_empty [OF assms(1) r1(2-5) assms(7,8)] .
  have "fst (ReserveKeyFromKeyPool L K C D now 0 (ReturnKey 1 (KeepKey 1 w2))) = None"
    using reserve_missing_entry r2 r1(6) assms(6) by (simp add: pool_ok_def)
  then show ?thesis using r1(1) r2(1) by blast
qed

end
