(* ===== verification/Coins.thy ===== *)
theory Coins
  imports Solver StdMap "HOL-Library.Multiset"
begin

text \<open>
  The coins of the wallet (\<open>wallet.h\<close>, \<open>wallet.cpp\<close>): which outputs are spent, what comes from the wallet itself, and the
  selection of coins for a payment (\<open>SelectCoinsMinConf\<close> with its stochastic subset approximation, \<open>SelectCoinsSimple\<close>). A pointer to a wallet transaction is the hash it is filed under. The random choices and the order
  \<open>std::sort\<close> gives to equal values are the record \<open>sel_env\<close>. A thrown \<open>runtime_error\<close> is \<open>None\<close>. Of \<open>CWalletTx\<close>
  the transaction and its spent flags are kept; caches of balances, the log line of \<open>WalletUpdateSpent\<close> and writing to disk are not modelled.
\<close>

section \<open>Wallet transactions\<close>

record CWalletTx = CTransaction +
  vfSpent :: "bool list"

definition resize_flags :: "nat \<Rightarrow> bool list \<Rightarrow> bool list" where
  "resize_flags n v = take n v @ replicate (n - length v) False"

definition IsSpent :: "CWalletTx \<Rightarrow> nat \<Rightarrow> bool option" where
  "IsSpent wtx nOut =
     (if nOut \<ge> length (vout wtx) then None
      else if nOut \<ge> length (vfSpent wtx) then Some False
      else Some (vfSpent wtx ! nOut))"

definition MarkSpent :: "nat \<Rightarrow> CWalletTx \<Rightarrow> CWalletTx option" where
  "MarkSpent nOut wtx =
     (if nOut \<ge> length (vout wtx) then None
      else Some (wtx\<lparr>vfSpent := (resize_flags (length (vout wtx)) (vfSpent wtx))[nOut := True]\<rparr>))"

definition MarkUnspent :: "nat \<Rightarrow> CWalletTx \<Rightarrow> CWalletTx option" where
  "MarkUnspent nOut wtx =
     (if nOut \<ge> length (vout wtx) then None
      else Some (wtx\<lparr>vfSpent := (resize_flags (length (vout wtx)) (vfSpent wtx))[nOut := False]\<rparr>))"

text \<open>\<open>UpdateSpent\<close> goes through the new flags until the old ones end.\<close>

fun UpdateSpent_loop :: "bool list \<Rightarrow> bool list \<Rightarrow> bool \<times> bool list" where
  "UpdateSpent_loop (f # new) (s # old) =
     (case UpdateSpent_loop new old of (r, old1) \<Rightarrow> if f \<and> \<not> s then (True, True # old1) else (r, s # old1))"
| "UpdateSpent_loop _ old = (False, old)"

definition UpdateSpent :: "bool list \<Rightarrow> CWalletTx \<Rightarrow> bool \<times> CWalletTx" where
  "UpdateSpent vfNewSpent wtx = (case UpdateSpent_loop vfNewSpent (vfSpent wtx) of (r, v) \<Rightarrow> (r, wtx\<lparr>vfSpent := v\<rparr>))"

text \<open>What the wallet calls its own; a redeem script that refers to itself counts as foreign.\<close>

definition IsMine_out :: "ssl_lib \<Rightarrow> key_view \<Rightarrow> CTxOut \<Rightarrow> bool" where
  "IsMine_out L keystore txout \<longleftrightarrow> IsMine L keystore (scriptPubKey txout) = Some True"

definition IsMine_in :: "ssl_lib \<Rightarrow> key_view \<Rightarrow> (uint256, CWalletTx) smap \<Rightarrow> CTxIn \<Rightarrow> bool" where
  "IsMine_in L keystore mapWallet txin =
     (case sm_find mapWallet (op_hash (prevout txin)) of
        None \<Rightarrow> False
      | Some prev \<Rightarrow> unat (op_n (prevout txin)) < length (vout prev) \<and> IsMine_out L keystore (vout prev ! unat (op_n (prevout txin))))"

definition GetDebit_in :: "ssl_lib \<Rightarrow> key_view \<Rightarrow> (uint256, CWalletTx) smap \<Rightarrow> CTxIn \<Rightarrow> int" where
  "GetDebit_in L keystore mapWallet txin =
     (case sm_find mapWallet (op_hash (prevout txin)) of
        None \<Rightarrow> 0
      | Some prev \<Rightarrow>
          if unat (op_n (prevout txin)) < length (vout prev) then
            if IsMine_out L keystore (vout prev ! unat (op_n (prevout txin))) then nValue (vout prev ! unat (op_n (prevout txin))) else 0
          else 0)"

primrec GetDebit_loop :: "ssl_lib \<Rightarrow> key_view \<Rightarrow> (uint256, CWalletTx) smap \<Rightarrow> CTxIn list \<Rightarrow> int \<Rightarrow> int option" where
  "GetDebit_loop L keystore mapWallet [] nDebit = Some nDebit"
| "GetDebit_loop L keystore mapWallet (txin # r) nDebit =
     (let nDebit1 = i64 (nDebit + GetDebit_in L keystore mapWallet txin) in
      if \<not> MoneyRange nDebit1 then None else GetDebit_loop L keystore mapWallet r nDebit1)"

definition GetDebit :: "ssl_lib \<Rightarrow> key_view \<Rightarrow> (uint256, CWalletTx) smap \<Rightarrow> CWalletTx \<Rightarrow> int option" where
  "GetDebit L keystore mapWallet wtx = (if vin wtx = [] then Some 0 else GetDebit_loop L keystore mapWallet (vin wtx) 0)"

definition IsFromMe :: "ssl_lib \<Rightarrow> key_view \<Rightarrow> (uint256, CWalletTx) smap \<Rightarrow> CWalletTx \<Rightarrow> bool option" where
  "IsFromMe L keystore mapWallet wtx = map_option (\<lambda>d. d > 0) (GetDebit L keystore mapWallet wtx)"

definition GetCredit_out :: "ssl_lib \<Rightarrow> key_view \<Rightarrow> CTxOut \<Rightarrow> int option" where
  "GetCredit_out L keystore txout =
     (if \<not> MoneyRange (nValue txout) then None else Some (if IsMine_out L keystore txout then nValue txout else 0))"

section \<open>Spent flags of the wallet\<close>

definition spend_prevout :: "ssl_lib \<Rightarrow> key_view \<Rightarrow> CTxIn \<Rightarrow> (uint256, CWalletTx) smap \<Rightarrow> (uint256, CWalletTx) smap" where
  "spend_prevout L keystore txin mapWallet =
     (case sm_find mapWallet (op_hash (prevout txin)) of
        None \<Rightarrow> mapWallet
      | Some wtx \<Rightarrow>
          let n = unat (op_n (prevout txin)) in
          if n \<ge> length (vout wtx) then mapWallet
          else if IsSpent wtx n = Some False \<and> IsMine_out L keystore (vout wtx ! n)
          then sm_put (op_hash (prevout txin)) (the (MarkSpent n wtx)) mapWallet
          else mapWallet)"

text \<open>The second half of \<open>WalletUpdateSpent\<close>, for a transaction in a block, marks its own outputs as unspent again. The transaction must
  be in the wallet: the code dereferences the iterator without a test (\<open>None\<close>).\<close>

definition unspend_outputs :: "ssl_lib \<Rightarrow> key_view \<Rightarrow> CTransaction \<Rightarrow> CWalletTx \<Rightarrow> CWalletTx option" where
  "unspend_outputs L keystore tx wtx =
     fold (\<lambda>i o1. Option.bind o1 (\<lambda>w. if IsMine_out L keystore (vout tx ! i) then MarkUnspent i w else Some w)) [0..<length (vout tx)] (Some wtx)"

definition WalletUpdateSpent :: "ssl_lib \<Rightarrow> key_view \<Rightarrow> CTransaction \<Rightarrow> bool \<Rightarrow> (uint256, CWalletTx) smap \<Rightarrow> (uint256, CWalletTx) smap option" where
  "WalletUpdateSpent L keystore tx fBlock mapWallet =
     (let m1 = fold (spend_prevout L keystore) (vin tx) mapWallet in
      if \<not> fBlock then Some m1
      else case sm_find m1 (GetHash L tx) of
        None \<Rightarrow> None
      | Some wtx \<Rightarrow> map_option (\<lambda>w. sm_put (GetHash L tx) w m1) (unspend_outputs L keystore tx wtx))"

section \<open>Coin selection\<close>

type_synonym coin_ref = "uint256 \<times> nat"

record COutput =
  out_hash :: uint256
  out_tx :: CWalletTx
  out_i :: nat
  out_nDepth :: int

record sel_env =
  shuffle :: "COutput list \<Rightarrow> COutput list"
  sort_desc :: "(int \<times> coin_ref) list \<Rightarrow> (int \<times> coin_ref) list"
  coin_flip :: "nat \<Rightarrow> bool"
  sort_age :: "(COutput \<times> u64) list \<Rightarrow> (COutput \<times> u64) list"

text \<open>One pass over the coins, in the variables of \<open>ApproximateBestSubset\<close>; \<open>draws\<close> counts the calls of \<open>rand\<close>.\<close>

record subset_state =
  vfIncluded :: "bool list"
  nTotal :: int
  fReachedTarget :: bool
  vfBest :: "bool list"
  nBest :: int
  draws :: nat

definition subset_step :: "sel_env \<Rightarrow> (int \<times> coin_ref) list \<Rightarrow> int \<Rightarrow> nat \<Rightarrow> nat \<Rightarrow> subset_state \<Rightarrow> subset_state" where
  "subset_step E vValue nTargetValue nPass i st =
     (let take_it = (if nPass = 0 then coin_flip E (draws st) else \<not> vfIncluded st ! i);
          st = (if nPass = 0 then st\<lparr>draws := Suc (draws st)\<rparr> else st) in
      if take_it then
        let total1 = i64 (nTotal st + fst (vValue ! i)); inc1 = (vfIncluded st)[i := True] in
        if total1 \<ge> nTargetValue then
          let st1 = (if total1 < nBest st then st\<lparr>nBest := total1, vfBest := inc1\<rparr> else st) in
          st1\<lparr>fReachedTarget := True, nTotal := i64 (total1 - fst (vValue ! i)), vfIncluded := inc1[i := False]\<rparr>
        else st\<lparr>nTotal := total1, vfIncluded := inc1\<rparr>
      else st)"

definition subset_pass :: "sel_env \<Rightarrow> (int \<times> coin_ref) list \<Rightarrow> int \<Rightarrow> nat \<Rightarrow> subset_state \<Rightarrow> subset_state" where
  "subset_pass E vValue nTargetValue nPass st =
     (if fReachedTarget st then st else fold (subset_step E vValue nTargetValue nPass) [0..<length vValue] st)"

primrec subset_reps :: "sel_env \<Rightarrow> (int \<times> coin_ref) list \<Rightarrow> int \<Rightarrow> nat \<Rightarrow> subset_state \<Rightarrow> subset_state" where
  "subset_reps E vValue nTargetValue 0 st = st"
| "subset_reps E vValue nTargetValue (Suc n) st =
     (if nBest st = nTargetValue then st
      else let st0 = st\<lparr>vfIncluded := replicate (length vValue) False, nTotal := 0, fReachedTarget := False\<rparr> in
      subset_reps E vValue nTargetValue n (subset_pass E vValue nTargetValue 1 (subset_pass E vValue nTargetValue 0 st0)))"

text \<open>The number of draws goes in and out.\<close>

definition ApproximateBestSubset :: "sel_env \<Rightarrow> (int \<times> coin_ref) list \<Rightarrow> int \<Rightarrow> int \<Rightarrow> nat \<Rightarrow> nat \<Rightarrow> bool list \<times> int \<times> nat" where
  "ApproximateBestSubset E vValue nTotalLower nTargetValue iterations k =
     (let st = subset_reps E vValue nTargetValue iterations
            \<lparr>vfIncluded = [], nTotal = 0, fReachedTarget = False, vfBest = replicate (length vValue) True, nBest = nTotalLower, draws = k\<rparr>
      in (vfBest st, nBest st, draws st))"

text \<open>The first loop of \<open>SelectCoinsMinConf\<close>: it ends early with a coin of exactly the target, otherwise with the smaller coins, their total and
  the smallest of the larger ones.\<close>

datatype sel_scan = Exact "int \<times> coin_ref" | Scanned "(int \<times> coin_ref) list" int "(int \<times> coin_ref) option"

fun select_scan :: "(CWalletTx \<Rightarrow> bool option) \<Rightarrow> int \<Rightarrow> u32 \<Rightarrow> int \<Rightarrow> int \<Rightarrow> COutput list \<Rightarrow> (int \<times> coin_ref) list \<Rightarrow> int \<Rightarrow> (int \<times> coin_ref) option \<Rightarrow> sel_scan option" where
  "select_scan from_me nTargetValue nSpendTime nConfMine nConfTheirs [] vValue nTotalLower larger = Some (Scanned vValue nTotalLower larger)"
| "select_scan from_me nTargetValue nSpendTime nConfMine nConfTheirs (out # r) vValue nTotalLower larger =
     (case from_me (out_tx out) of
        None \<Rightarrow> None
      | Some mine \<Rightarrow>
          if out_nDepth out < (if mine then nConfMine else nConfTheirs) then select_scan from_me nTargetValue nSpendTime nConfMine nConfTheirs r vValue nTotalLower larger
          else if nTime (out_tx out) > nSpendTime then select_scan from_me nTargetValue nSpendTime nConfMine nConfTheirs r vValue nTotalLower larger
          else let n = nValue (vout (out_tx out) ! out_i out); coin = (n, out_hash out, out_i out) in
          if n = nTargetValue then Some (Exact coin)
          else if n < i64 (nTargetValue + CENT) then
            select_scan from_me nTargetValue nSpendTime nConfMine nConfTheirs r (vValue @ [coin]) (i64 (nTotalLower + n)) larger
          else if n < (case larger of None \<Rightarrow> 2 ^ 63 - 1 | Some c \<Rightarrow> fst c) then
            select_scan from_me nTargetValue nSpendTime nConfMine nConfTheirs r vValue nTotalLower (Some coin)
          else select_scan from_me nTargetValue nSpendTime nConfMine nConfTheirs r vValue nTotalLower larger)"

text \<open>Inserting coins into \<open>setCoinsRet\<close> and adding to \<open>nValueRet\<close>.\<close>

definition add_coins :: "(int \<times> coin_ref) list \<Rightarrow> coin_ref set \<times> int" where
  "add_coins cs = fold (\<lambda>c (s, v). (insert (snd c) s, i64 (v + fst c))) cs ({}, 0)"

definition SelectCoinsMinConf :: "sel_env \<Rightarrow> (CWalletTx \<Rightarrow> bool option) \<Rightarrow> int \<Rightarrow> u32 \<Rightarrow> int \<Rightarrow> int \<Rightarrow> COutput list \<Rightarrow> (bool \<times> coin_ref set \<times> int) option" where
  "SelectCoinsMinConf E from_me nTargetValue nSpendTime nConfMine nConfTheirs vCoins =
     (case select_scan from_me nTargetValue nSpendTime nConfMine nConfTheirs (shuffle E vCoins) [] 0 None of
        None \<Rightarrow> None
      | Some (Exact coin) \<Rightarrow> Some (True, add_coins [coin])
      | Some (Scanned vValue nTotalLower larger) \<Rightarrow>
          if nTotalLower = nTargetValue then Some (True, add_coins vValue)
          else if nTotalLower < nTargetValue then
            (case larger of None \<Rightarrow> Some (False, {}, 0) | Some c \<Rightarrow> Some (True, add_coins [c]))
          else let vValue = sort_desc E vValue in
          (case ApproximateBestSubset E vValue nTotalLower nTargetValue 1000 0 of (vfBest1, nBest1, k) \<Rightarrow>
             let (vfBest2, nBest2, _) =
                   (if nBest1 \<noteq> nTargetValue \<and> nTotalLower \<ge> i64 (nTargetValue + CENT)
                    then ApproximateBestSubset E vValue nTotalLower (i64 (nTargetValue + CENT)) 1000 k else (vfBest1, nBest1, k)) in
             (case larger of
                Some c \<Rightarrow>
                  if nBest2 \<noteq> nTargetValue \<and> nBest2 < i64 (nTargetValue + CENT) \<or> fst c \<le> nBest2
                  then Some (True, add_coins [c])
                  else Some (True, add_coins (map fst (filter snd (zip vValue vfBest2))))
              | None \<Rightarrow> Some (True, add_coins (map fst (filter snd (zip vValue vfBest2)))))))"

text \<open>The selection for staking.\<close>

fun SelectCoinsSimple :: "int \<Rightarrow> u32 \<Rightarrow> COutput list \<Rightarrow> coin_ref set \<Rightarrow> int \<Rightarrow> coin_ref set \<times> int" where
  "SelectCoinsSimple nTargetValue nSpendTime [] setCoinsRet nValueRet = (setCoinsRet, nValueRet)"
| "SelectCoinsSimple nTargetValue nSpendTime (out # r) setCoinsRet nValueRet =
     (if nValueRet \<ge> nTargetValue then (setCoinsRet, nValueRet)
      else if nTime (out_tx out) > nSpendTime then SelectCoinsSimple nTargetValue nSpendTime r setCoinsRet nValueRet
      else let n = nValue (vout (out_tx out) ! out_i out) in
      if n \<ge> nTargetValue then (insert (out_hash out, out_i out) setCoinsRet, i64 (nValueRet + n))
      else if n < i64 (nTargetValue + CENT) then
        SelectCoinsSimple nTargetValue nSpendTime r (insert (out_hash out, out_i out) setCoinsRet) (i64 (nValueRet + n))
      else SelectCoinsSimple nTargetValue nSpendTime r setCoinsRet nValueRet)"

section \<open>Sums of selected coins\<close>

definition sel_sum :: "(int \<times> coin_ref) list \<Rightarrow> bool list \<Rightarrow> int" where
  "sel_sum vs fs = (\<Sum>i<length vs. if fs ! i then fst (vs ! i) else 0)"

definition coins_ok :: "(int \<times> coin_ref) list \<Rightarrow> bool" where
  "coins_ok vs \<longleftrightarrow> (\<forall>c \<in> set vs. 0 \<le> fst c) \<and> sum_list (map fst vs) \<le> MAX_MONEY"

lemma sum_values: "sum_list (map fst vs) = (\<Sum>i<length vs. fst (vs ! i))"
  by (simp add: sum_list_sum_nth atLeast0LessThan)

lemma sel_sum_bounds: "coins_ok vs \<Longrightarrow> 0 \<le> sel_sum vs fs \<and> sel_sum vs fs \<le> sum_list (map fst vs)"
proof -
  assume ok: "coins_ok vs"
  then have "0 \<le> fst (vs ! i)" if "i < length vs" for i using that by (simp add: coins_ok_def)
  then show ?thesis unfolding sel_sum_def sum_values by (auto intro!: sum_nonneg sum_mono)
qed

lemma sel_sum_all: "sel_sum vs (replicate (length vs) True) = sum_list (map fst vs)"
  by (simp add: sel_sum_def sum_values)

lemma sel_sum_none: "sel_sum vs (replicate (length vs) False) = 0"
  by (simp add: sel_sum_def)

lemma sel_sum_upd:
  assumes "length fs = length vs" "i < length vs"
  shows "sel_sum vs (fs[i := b]) = sel_sum vs fs - (if fs ! i then fst (vs ! i) else 0) + (if b then fst (vs ! i) else 0)"
proof -
  have "(\<Sum>j<length vs. if fs[i := b] ! j then fst (vs ! j) else 0) =
      (\<Sum>j<length vs. (if fs ! j then fst (vs ! j) else 0) + (if j = i then (if b then fst (vs ! i) else 0) - (if fs ! i then fst (vs ! i) else 0) else 0))"
    using assms by (intro sum.cong) (auto simp: nth_list_update)
  also have "\<dots> = sel_sum vs fs + ((if b then fst (vs ! i) else 0) - (if fs ! i then fst (vs ! i) else 0))"
    using assms(2) by (simp add: sum.distrib sel_sum_def)
  finally show ?thesis by (simp add: sel_sum_def)
qed

lemma sel_sum_i64: "coins_ok vs \<Longrightarrow> i64 (sel_sum vs fs) = sel_sum vs fs"
  using sel_sum_bounds [of vs fs] by (intro i64_id) (simp add: coins_ok_def in_i64_def)

lemma sel_sum_filter: "length fs = length vs \<Longrightarrow> sum_list (map fst (map fst (filter snd (zip vs fs)))) = sel_sum vs fs"
proof (induction vs arbitrary: fs)
  case (Cons v vs)
  then obtain f r where fs: "fs = f # r" "length r = length vs" by (cases fs) auto
  have "sel_sum (v # vs) (f # r) = (if f then fst v else 0) + sel_sum vs r"
    by (simp add: sel_sum_def sum.lessThan_Suc_shift del: sum.lessThan_Suc cong: if_cong)
  then show ?case using Cons.IH [OF fs(2)] fs(1) by simp
qed (simp add: sel_sum_def)

section \<open>The subset approximation\<close>

text \<open>The running total belongs to the running selection, the best total to the best selection, which reaches the target.\<close>

definition subset_inv :: "(int \<times> coin_ref) list \<Rightarrow> int \<Rightarrow> subset_state \<Rightarrow> bool" where
  "subset_inv vs target st \<longleftrightarrow> length (vfIncluded st) = length vs \<and> nTotal st = sel_sum vs (vfIncluded st) \<and>
     length (vfBest st) = length vs \<and> nBest st = sel_sum vs (vfBest st) \<and> target \<le> nBest st"

lemma subset_step_inv:
  assumes ok: "coins_ok vs" and i: "i < length vs" and inv: "subset_inv vs target st" and new: "p = 0 \<Longrightarrow> \<not> vfIncluded st ! i"
  shows "subset_inv vs target (subset_step E vs target p i st)"
    and "j \<noteq> i \<Longrightarrow> vfIncluded (subset_step E vs target p i st) ! j = vfIncluded st ! j"
proof -
  define st' where "st' = (if p = 0 then st\<lparr>draws := Suc (draws st)\<rparr> else st)"
  have st': "vfIncluded st' = vfIncluded st" "nTotal st' = nTotal st" "vfBest st' = vfBest st" "nBest st' = nBest st" by (simp_all add: st'_def)
  define tk where "tk = (if p = 0 then coin_flip E (draws st) else \<not> vfIncluded st ! i)"
  have l: "length (vfIncluded st) = length vs" "nTotal st = sel_sum vs (vfIncluded st)" using inv by (simp_all add: subset_inv_def)
  have n: "\<not> vfIncluded st ! i" if "tk" using that new by (auto simp: tk_def split: if_splits)
  let ?inc = "(vfIncluded st)[i := True]"
  have s1: "sel_sum vs ?inc = nTotal st + fst (vs ! i)" if "tk" using sel_sum_upd [OF l(1) i, of True] n [OF that] l(2) by simp
  have t1: "i64 (nTotal st + fst (vs ! i)) = sel_sum vs ?inc" if "tk" using sel_sum_i64 [OF ok, of ?inc] s1 [OF that] by simp
  have t2: "i64 (sel_sum vs ?inc - fst (vs ! i)) = nTotal st" if "tk" using sel_sum_i64 [OF ok, of "vfIncluded st"] s1 [OF that] l(2) by simp
  have undo: "?inc[i := False] = vfIncluded st" if "tk" using n [OF that] i l(1) by (metis list_update_id list_update_overwrite)
  have e: "subset_step E vs target p i st = (if tk then
        if sel_sum vs ?inc \<ge> target then
          (if sel_sum vs ?inc < nBest st then st'\<lparr>nBest := sel_sum vs ?inc, vfBest := ?inc\<rparr> else st')
            \<lparr>fReachedTarget := True, nTotal := nTotal st, vfIncluded := vfIncluded st\<rparr>
        else st'\<lparr>nTotal := sel_sum vs ?inc, vfIncluded := ?inc\<rparr>
      else st')"
    unfolding subset_step_def Let_def st'_def [symmetric] tk_def [symmetric] using t1 t2 undo by (simp add: st')
  show "subset_inv vs target (subset_step E vs target p i st)" using inv st' by (auto simp: e subset_inv_def)
  show "j \<noteq> i \<Longrightarrow> vfIncluded (subset_step E vs target p i st) ! j = vfIncluded st ! j" by (simp add: e st')
qed

lemma subset_fold_inv:
  assumes ok: "coins_ok vs" and inv: "subset_inv vs target st" and none: "p = 0 \<Longrightarrow> \<forall>j < length vs. \<not> vfIncluded st ! j" and "k \<le> length vs"
  shows "subset_inv vs target (fold (subset_step E vs target p) [0..<k] st) \<and>
    (p = 0 \<longrightarrow> (\<forall>j. k \<le> j \<and> j < length vs \<longrightarrow> \<not> vfIncluded (fold (subset_step E vs target p) [0..<k] st) ! j))"
  using assms(4)
proof (induction k)
  case (Suc k)
  let ?st = "fold (subset_step E vs target p) [0..<k] st"
  have k: "k < length vs" using Suc.prems by simp
  note ih = Suc.IH [OF less_imp_le [OF k]]
  have new: "p = 0 \<Longrightarrow> \<not> vfIncluded ?st ! k" using ih k by simp
  have s1: "subset_inv vs target (subset_step E vs target p k ?st)" by (rule subset_step_inv(1) [OF ok k conjunct1 [OF ih] new])
  have s2: "vfIncluded (subset_step E vs target p k ?st) ! j = vfIncluded ?st ! j" if "j \<noteq> k" for j
    by (rule subset_step_inv(2) [OF ok k conjunct1 [OF ih] new that])
  show ?case using s1 s2 ih by auto
qed (use inv none in simp)

lemma subset_pass_inv:
  assumes "coins_ok vs" "subset_inv vs target st" "p = 0 \<Longrightarrow> \<forall>j < length vs. \<not> vfIncluded st ! j"
  shows "subset_inv vs target (subset_pass E vs target p st)"
  using subset_fold_inv [OF assms order_refl, where E = E] assms(2) by (simp add: subset_pass_def)

lemma subset_reps_inv:
  assumes ok: "coins_ok vs"
  shows "length (vfBest st) = length vs \<Longrightarrow> nBest st = sel_sum vs (vfBest st) \<Longrightarrow> target \<le> nBest st \<Longrightarrow>
    length (vfBest (subset_reps E vs target n st)) = length vs \<and> nBest (subset_reps E vs target n st) = sel_sum vs (vfBest (subset_reps E vs target n st)) \<and>
    target \<le> nBest (subset_reps E vs target n st)"
proof (induction n arbitrary: st)
  case (Suc n)
  let ?st0 = "st\<lparr>vfIncluded := replicate (length vs) False, nTotal := 0, fReachedTarget := False\<rparr>"
  have "subset_inv vs target ?st0" using Suc.prems by (simp add: subset_inv_def sel_sum_none)
  then have "subset_inv vs target (subset_pass E vs target 0 ?st0)" by (rule subset_pass_inv [OF ok]) simp
  then have "subset_inv vs target (subset_pass E vs target (Suc 0) (subset_pass E vs target 0 ?st0))" by (rule subset_pass_inv [OF ok]) simp
  then have "subset_inv vs target (subset_pass E vs target 1 (subset_pass E vs target 0 ?st0))" by simp
  then show ?case using Suc.IH [of "subset_pass E vs target 1 (subset_pass E vs target 0 ?st0)"] Suc.prems
    unfolding subset_reps.simps Let_def subset_inv_def by auto
qed simp

lemma ApproximateBestSubset_sound:
  assumes "coins_ok vs" "target \<le> sum_list (map fst vs)" "ApproximateBestSubset E vs (sum_list (map fst vs)) target n k = (vf, best, k')"
  shows "length vf = length vs" "best = sel_sum vs vf" "target \<le> best"
  using subset_reps_inv [OF assms(1), of "\<lparr>vfIncluded = [], nTotal = 0, fReachedTarget = False, vfBest = replicate (length vs) True,
    nBest = sum_list (map fst vs), draws = k\<rparr>" target E n] assms(2,3) by (auto simp: ApproximateBestSubset_def Let_def sel_sum_all)

section \<open>Correctness of the selection\<close>

definition coin_of :: "COutput \<Rightarrow> int \<times> coin_ref" where
  "coin_of out = (nValue (vout (out_tx out) ! out_i out), out_hash out, out_i out)"

text \<open>The coins the thresholds admit.\<close>

definition coin_eligible :: "(CWalletTx \<Rightarrow> bool option) \<Rightarrow> u32 \<Rightarrow> int \<Rightarrow> int \<Rightarrow> COutput \<Rightarrow> bool" where
  "coin_eligible from_me nSpendTime nConfMine nConfTheirs out \<longleftrightarrow>
     out_nDepth out \<ge> (if from_me (out_tx out) = Some True then nConfMine else nConfTheirs) \<and> nTime (out_tx out) \<le> nSpendTime"

definition sel_documented :: "sel_env \<Rightarrow> bool" where
  "sel_documented E \<longleftrightarrow> (\<forall>xs. mset (shuffle E xs) = mset xs) \<and> (\<forall>xs. mset (sort_desc E xs) = mset xs \<and> sorted_wrt (\<ge>) (map fst (sort_desc E xs))) \<and>
     (\<forall>xs. mset (sort_age E xs) = mset xs \<and> sorted (map snd (sort_age E xs)))"

lemma coins_ok_sub:
  assumes "coins_ok all" "distinct all" "distinct cs" "set cs \<subseteq> set all"
  shows "coins_ok cs" "sum_list (map fst cs) = (\<Sum>c \<in> set cs. fst c)" "sum_list (map fst cs) \<le> sum_list (map fst all)"
proof -
  show s: "sum_list (map fst cs) = (\<Sum>c \<in> set cs. fst c)" using assms(3) by (rule sum_list_distinct_conv_sum_set)
  have "sum_list (map fst all) = (\<Sum>c \<in> set all. fst c)" using assms(2) by (rule sum_list_distinct_conv_sum_set)
  then show le: "sum_list (map fst cs) \<le> sum_list (map fst all)" using s assms(1,4) by (auto simp: coins_ok_def intro!: sum_mono2)
  show "coins_ok cs" using le assms(1,4) by (auto simp: coins_ok_def)
qed

lemma add_coins_fold:
  assumes "0 \<le> v" "\<forall>c \<in> set cs. 0 \<le> fst c" "v + sum_list (map fst cs) \<le> MAX_MONEY"
  shows "fold (\<lambda>c (s, v). (insert (snd c) s, i64 (v + fst c))) cs (S, v) = (S \<union> snd ` set cs, v + sum_list (map fst cs))"
  using assms
proof (induction cs arbitrary: S v)
  case (Cons c cs)
  have "0 \<le> sum_list (map fst cs)" using Cons.prems(2) by (intro sum_list_nonneg) auto
  then have "i64 (v + fst c) = v + fst c" using Cons.prems by (intro i64_id) (auto simp: in_i64_def)
  then show ?case using Cons by (simp add: Un_commute add.assoc)
qed simp

lemma add_coins_sum: "coins_ok cs \<Longrightarrow> add_coins cs = (snd ` set cs, sum_list (map fst cs))"
  using add_coins_fold [of 0 cs "{}"] by (simp add: add_coins_def coins_ok_def)

text \<open>What the scan finds.\<close>

definition scan_ok :: "(COutput \<Rightarrow> bool) \<Rightarrow> int \<Rightarrow> COutput list \<Rightarrow> (int \<times> coin_ref) list \<Rightarrow> int \<Rightarrow> (int \<times> coin_ref) option \<Rightarrow> sel_scan \<Rightarrow> bool" where
  "scan_ok el target outs vs low larger r =
     (case r of
        Exact c \<Rightarrow> \<exists>out \<in> set outs. el out \<and> c = coin_of out \<and> fst (coin_of out) = target
      | Scanned vs' low' larger' \<Rightarrow>
          vs' = vs @ map coin_of (filter (\<lambda>out. el out \<and> fst (coin_of out) < target + CENT) outs) \<and>
          low' = low + (\<Sum>out\<leftarrow>filter (\<lambda>out. el out \<and> fst (coin_of out) < target + CENT) outs. fst (coin_of out)) \<and>
          (case larger' of
             None \<Rightarrow> larger = None \<and> (\<forall>out \<in> set outs. el out \<longrightarrow> fst (coin_of out) < target + CENT)
           | Some c \<Rightarrow> target + CENT \<le> fst c \<and> (larger = Some c \<or> (\<exists>out \<in> set outs. el out \<and> c = coin_of out))))"

lemma scan_ok_skip: "scan_ok el target outs vs low larger r \<Longrightarrow> \<not> el out \<or> target + CENT \<le> fst (coin_of out) \<and> larger \<noteq> None \<Longrightarrow>
    scan_ok el target (out # outs) vs low larger r"
  by (auto simp: scan_ok_def split: sel_scan.splits option.splits) (metis fst_conv)+

lemma scan_ok_small: "scan_ok el target outs (vs @ [coin_of out]) (low + fst (coin_of out)) larger r \<Longrightarrow> el out \<Longrightarrow> fst (coin_of out) < target + CENT \<Longrightarrow>
    scan_ok el target (out # outs) vs low larger r"
  by (auto simp: scan_ok_def split: sel_scan.splits option.splits) (metis fst_conv)+

lemma scan_ok_large: "scan_ok el target outs vs low (Some (coin_of out)) r \<Longrightarrow> el out \<Longrightarrow> target + CENT \<le> fst (coin_of out) \<Longrightarrow>
    scan_ok el target (out # outs) vs low larger r"
  by (auto simp: scan_ok_def split: sel_scan.splits option.splits) (metis fst_conv)+

lemma select_scan_sound:
  assumes "select_scan from_me target t c1 c2 outs vs low larger = Some r" "MoneyRange target" "0 \<le> low" "low + (\<Sum>out\<leftarrow>outs. fst (coin_of out)) \<le> MAX_MONEY"
    and "\<forall>out \<in> set outs. 0 \<le> fst (coin_of out)" "case larger of None \<Rightarrow> True | Some c \<Rightarrow> target + CENT \<le> fst c \<and> fst c \<le> MAX_MONEY"
  shows "scan_ok (coin_eligible from_me t c1 c2) target outs vs low larger r"
  using assms
proof (induction outs arbitrary: vs low larger)
  case Nil
  then show ?case by (auto simp: scan_ok_def split: option.splits)
next
  case (Cons out outs)
  obtain mine where mine: "from_me (out_tx out) = Some mine" using Cons.prems(1) by (auto split: option.splits)
  let ?n = "fst (coin_of out)" and ?el = "coin_eligible from_me t c1 c2"
  have n: "nValue (vout (out_tx out) ! out_i out) = ?n" "(?n, out_hash out, out_i out) = coin_of out" by (simp_all add: coin_of_def)
  have el: "?el out \<longleftrightarrow> \<not> out_nDepth out < (if mine then c1 else c2) \<and> \<not> nTime (out_tx out) > t" using mine by (auto simp: coin_eligible_def)
  have nn: "0 \<le> (\<Sum>a\<leftarrow>outs. fst (coin_of a))" using Cons.prems(5) by (intro sum_list_nonneg) auto
  have b: "0 \<le> ?n" "?n \<le> MAX_MONEY" "low + ?n \<le> MAX_MONEY" "low + (\<Sum>a\<leftarrow>outs. fst (coin_of a)) \<le> MAX_MONEY" "low + ?n + (\<Sum>a\<leftarrow>outs. fst (coin_of a)) \<le> MAX_MONEY"
    using Cons.prems(3,4,5) nn by auto
  have w: "i64 (target + CENT) = target + CENT" "i64 (low + ?n) = low + ?n"
    using Cons.prems(2,3) b by (auto intro!: i64_id simp: MoneyRange_def in_i64_def)
  have nonneg: "\<forall>out \<in> set outs. 0 \<le> fst (coin_of out)" using Cons.prems(5) by simp
  have tail: "scan_ok ?el target outs vs' low' larger' r"
    if "select_scan from_me target t c1 c2 outs vs' low' larger' = Some r" "low' = low \<or> low' = low + ?n" "larger' = larger \<or> larger' = Some (coin_of out) \<and> target + CENT \<le> ?n"
    for vs' low' larger' using Cons.IH [OF that(1) Cons.prems(2) _ _ nonneg] that(2,3) Cons.prems(3,6) b by auto
  consider "\<not> ?el out" | "?el out" "?n = target" | "?el out" "?n \<noteq> target" "?n < target + CENT" | "?el out" "target + CENT \<le> ?n" "?n \<noteq> target"
    by linarith
  then show ?case
  proof cases
    case 1
    then have "select_scan from_me target t c1 c2 outs vs low larger = Some r" using Cons.prems(1) mine el by (auto split: if_splits)
    then show ?thesis using 1 tail scan_ok_skip by blast
  next
    case 2
    then have "r = Exact (coin_of out)" using Cons.prems(1) mine el n by (auto simp: Let_def split: if_splits)
    then show ?thesis using 2 by (simp add: scan_ok_def)
  next
    case 3
    then have "select_scan from_me target t c1 c2 outs (vs @ [coin_of out]) (low + ?n) larger = Some r"
      using Cons.prems(1) mine el w n by (auto simp: Let_def split: if_splits)
    then show ?thesis using 3 tail scan_ok_small by blast
  next
    case 4
    then have m: "select_scan from_me target t c1 c2 outs vs low (if ?n < (case larger of None \<Rightarrow> 2 ^ 63 - 1 | Some c \<Rightarrow> fst c) then Some (coin_of out) else larger) = Some r"
      using Cons.prems(1) mine el w n by (auto simp: Let_def split: if_splits)
    show ?thesis
    proof (cases "?n < (case larger of None \<Rightarrow> 2 ^ 63 - 1 | Some c \<Rightarrow> fst c)")
      case True
      then have "select_scan from_me target t c1 c2 outs vs low (Some (coin_of out)) = Some r" using m by simp
      then show ?thesis using 4 tail scan_ok_large by blast
    next
      case False
      then have "larger \<noteq> None" using b(2) by (auto split: option.splits)
      moreover have "select_scan from_me target t c1 c2 outs vs low larger = Some r" using m False by simp
      ultimately show ?thesis using 4 tail scan_ok_skip by blast
    qed
  qed
qed

text \<open>What a selection has to be.\<close>

definition selection_ok :: "(CWalletTx \<Rightarrow> bool option) \<Rightarrow> int \<Rightarrow> u32 \<Rightarrow> int \<Rightarrow> int \<Rightarrow> COutput list \<Rightarrow> bool \<times> coin_ref set \<times> int \<Rightarrow> bool" where
  "selection_ok from_me target t c1 c2 vCoins r \<longleftrightarrow>
     (case r of (b, S, v) \<Rightarrow>
        (b \<longleftrightarrow> target \<le> sum_list (map (fst \<circ> coin_of) (filter (coin_eligible from_me t c1 c2) vCoins))) \<and>
        (b \<longrightarrow> S \<subseteq> snd ` coin_of ` set (filter (coin_eligible from_me t c1 c2) vCoins) \<and>
           v = (\<Sum>c \<in> {c \<in> coin_of ` set vCoins. snd c \<in> S}. fst c) \<and> target \<le> v))"

definition wallet_coins_ok :: "COutput list \<Rightarrow> bool" where
  "wallet_coins_ok vCoins \<longleftrightarrow> distinct (map (snd \<circ> coin_of) vCoins) \<and> coins_ok (map coin_of vCoins)"

lemma selection_found:
  assumes ok: "wallet_coins_ok outs" and cs: "distinct cs" "set cs \<subseteq> coin_of ` set (filter (coin_eligible from_me t c1 c2) outs)" "target \<le> sum_list (map fst cs)"
  shows "selection_ok from_me target t c1 c2 outs (True, add_coins cs)"
proof -
  let ?el = "filter (coin_eligible from_me t c1 c2) outs"
  have all: "distinct (map coin_of outs)" "coins_ok (map coin_of outs)" "inj_on snd (coin_of ` set outs)"
    using ok by (auto simp: wallet_coins_ok_def distinct_map inj_on_def comp_def)
  have del: "distinct (map coin_of ?el)" using all(1) by (simp add: distinct_map inj_on_def)
  have okel: "coins_ok (map coin_of ?el)" using coins_ok_sub(1) [OF all(2,1) del] by auto
  note s = coins_ok_sub [OF okel del cs(1)]
  have sub: "set cs \<subseteq> set (map coin_of ?el)" using cs(2) by simp
  have "c \<in> set cs" if h: "c \<in> coin_of ` set outs" "snd c \<in> snd ` set cs" for c
  proof -
    obtain c' where c': "c' \<in> set cs" "snd c = snd c'" using h(2) by blast
    then have "c' \<in> coin_of ` set outs" using cs(2) by auto
    then show ?thesis using inj_onD [OF all(3) c'(2) h(1)] c'(1) by simp
  qed
  then have e: "{c \<in> coin_of ` set outs. snd c \<in> snd ` set cs} = set cs" using cs(2) by fastforce
  have "snd ` set cs \<subseteq> snd ` coin_of ` set ?el" using cs(2) by (rule image_mono)
  then show ?thesis using s(2,3) [OF sub] cs(3) unfolding selection_ok_def add_coins_sum [OF s(1) [OF sub]] by (simp only: prod.case e map_map) simp
qed

lemma selection_scanned:
  assumes ok: "wallet_coins_ok outs" and E: "sel_documented E" and m: "MoneyRange target"
    and vs: "vs = map coin_of (filter (\<lambda>out. coin_eligible from_me t c1 c2 out \<and> fst (coin_of out) < target + CENT) outs)"
    and tot: "target < sum_list (map fst vs)"
    and a: "ApproximateBestSubset E (sort_desc E vs) (sum_list (map fst vs)) tg 1000 k = (vf, best, k')" "target \<le> tg" "tg \<le> sum_list (map fst vs)"
  shows "selection_ok from_me target t c1 c2 outs (True, add_coins (map fst (filter snd (zip (sort_desc E vs) vf))))"
proof -
  let ?sv = "sort_desc E vs" and ?cs = "map fst (filter snd (zip (sort_desc E vs) vf))"
  have ms: "mset ?sv = mset vs" using E by (simp add: sel_documented_def)
  have sum: "sum_list (map fst ?sv) = sum_list (map fst vs)" using ms by (metis mset_map sum_mset_sum_list)
  have all: "distinct (map coin_of outs)" "coins_ok (map coin_of outs)" using ok by (auto simp: wallet_coins_ok_def distinct_map inj_on_def comp_def)
  have dvs: "distinct vs" using all(1) by (simp add: vs distinct_map inj_on_def)
  then have dsv: "distinct ?sv" using ms by (metis mset_eq_imp_distinct_iff)
  have set: "set ?sv = set vs" using ms by (metis set_mset_mset)
  have oksv: "coins_ok ?sv" using coins_ok_sub(1) [OF all(2,1) dsv] set by (auto simp: vs)
  note s = ApproximateBestSubset_sound [OF oksv _ a(1) [folded sum]]
  have tg: "tg \<le> sum_list (map fst ?sv)" using a(3) sum by simp
  have "sum_list (map fst ?cs) = sel_sum ?sv vf" using sel_sum_filter [OF s(1) [OF tg]] .
  then have "target \<le> sum_list (map fst ?cs)" using s(2,3) [OF tg] a(2) by simp
  moreover have "distinct ?cs"
  proof -
    have "distinct (map fst (zip ?sv vf))" using dsv s(1) [OF tg] by simp
    then show ?thesis by (rule distinct_map_filter)
  qed
  moreover have "set ?cs \<subseteq> set ?sv" by (auto dest: set_zip_leftD)
  ultimately show ?thesis using set by (intro selection_found [OF ok]) (auto simp: vs)
qed

lemma selection_perm:
  assumes "mset outs = mset vCoins"
  shows "wallet_coins_ok outs = wallet_coins_ok vCoins" "selection_ok from_me target t c1 c2 outs r = selection_ok from_me target t c1 c2 vCoins r"
proof -
  have m: "mset (map f outs) = mset (map f vCoins)" for f :: "COutput \<Rightarrow> 'b" using assms by simp
  have s: "set outs = set vCoins" using assms by (metis set_mset_mset)
  have "sum_list (map fst (map coin_of outs)) = sum_list (map fst (map coin_of vCoins))"
    by (metis assms mset_map sum_mset_sum_list)
  moreover have "distinct (map (snd \<circ> coin_of) outs) = distinct (map (snd \<circ> coin_of) vCoins)" by (metis assms mset_map mset_eq_imp_distinct_iff)
  ultimately show "wallet_coins_ok outs = wallet_coins_ok vCoins" by (simp add: wallet_coins_ok_def coins_ok_def s)
  have "sum_list (map (fst \<circ> coin_of) (filter P outs)) = sum_list (map (fst \<circ> coin_of) (filter P vCoins))" for P
    by (metis assms mset_filter mset_map sum_mset_sum_list)
  then show "selection_ok from_me target t c1 c2 outs r = selection_ok from_me target t c1 c2 vCoins r"
    by (simp add: selection_ok_def s)
qed

lemma selection_larger:
  assumes "wallet_coins_ok outs" "out \<in> set outs" "coin_eligible from_me t c1 c2 out" "target \<le> fst (coin_of out)"
  shows "selection_ok from_me target t c1 c2 outs (True, add_coins [coin_of out])"
  using assms by (intro selection_found) auto

lemma selection_none:
  assumes "\<forall>out \<in> set outs. coin_eligible from_me t c1 c2 out \<longrightarrow> fst (coin_of out) < target + CENT"
    and "(\<Sum>out\<leftarrow>filter (\<lambda>out. coin_eligible from_me t c1 c2 out \<and> fst (coin_of out) < target + CENT) outs. fst (coin_of out)) < target"
  shows "selection_ok from_me target t c1 c2 outs (False, {}, 0)"
proof -
  have "filter (\<lambda>out. coin_eligible from_me t c1 c2 out \<and> fst (coin_of out) < target + CENT) outs = filter (coin_eligible from_me t c1 c2) outs"
    using assms(1) by (intro filter_cong) auto
  then show ?thesis using assms(2) by (simp add: selection_ok_def comp_def)
qed

lemma SelectCoinsMinConf_ok:
  assumes E: "sel_documented E" and ok: "wallet_coins_ok vCoins" and m: "MoneyRange target"
    and r: "SelectCoinsMinConf E from_me target t c1 c2 vCoins = Some r"
  shows "selection_ok from_me target t c1 c2 vCoins r"
proof -
  let ?outs = "shuffle E vCoins" and ?el = "coin_eligible from_me t c1 c2"
  have perm: "mset ?outs = mset vCoins" using E by (simp add: sel_documented_def)
  have oko: "wallet_coins_ok ?outs" using ok selection_perm(1) [OF perm] by simp
  obtain q where q: "select_scan from_me target t c1 c2 ?outs [] 0 None = Some q" using r by (auto simp: SelectCoinsMinConf_def split: option.splits)
  have sc: "scan_ok ?el target ?outs [] 0 None q"
    using select_scan_sound [OF q m] oko by (auto simp: wallet_coins_ok_def coins_ok_def comp_def)
  have cent: "i64 (target + CENT) = target + CENT" using m by (intro i64_id) (auto simp: MoneyRange_def in_i64_def)
  have "selection_ok from_me target t c1 c2 ?outs r"
  proof (cases q)
    case (Exact c)
    then obtain out where o: "out \<in> set ?outs" "?el out" "c = coin_of out" "fst (coin_of out) = target" using sc by (auto simp: scan_ok_def)
    have "r = (True, add_coins [c])" using r q Exact by (simp add: SelectCoinsMinConf_def)
    then show ?thesis using selection_larger [OF oko o(1,2)] o(3,4) by simp
  next
    case (Scanned vs low larger)
    let ?small = "filter (\<lambda>out. ?el out \<and> fst (coin_of out) < target + CENT) ?outs"
    have vs: "vs = map coin_of ?small" "low = sum_list (map fst vs)" using sc by (simp_all add: Scanned scan_ok_def comp_def)
    have big: "case larger of None \<Rightarrow> \<forall>out \<in> set ?outs. ?el out \<longrightarrow> fst (coin_of out) < target + CENT
        | Some c \<Rightarrow> target + CENT \<le> fst c \<and> (\<exists>out \<in> set ?outs. ?el out \<and> c = coin_of out)"
      using sc by (cases larger) (simp_all add: Scanned scan_ok_def)
    have large: "selection_ok from_me target t c1 c2 ?outs (True, add_coins [c])" if "larger = Some c" for c
    proof -
      obtain out where "out \<in> set ?outs" "?el out" "c = coin_of out" "target + CENT \<le> fst (coin_of out)" using big \<open>larger = Some c\<close> by auto
      then show ?thesis using selection_larger [OF oko, of out] by simp
    qed
    have d: "distinct vs" using oko by (auto simp: vs(1) wallet_coins_ok_def distinct_map inj_on_def comp_def)
    consider "low = target" | "low < target" | "low > target" by linarith
    then show ?thesis
    proof cases
      case 1
      then have "r = (True, add_coins vs)" using r q Scanned by (simp add: SelectCoinsMinConf_def)
      moreover have "set vs \<subseteq> coin_of ` set (filter ?el ?outs)" by (auto simp: vs(1))
      ultimately show ?thesis using selection_found [OF oko d, of from_me t c1 c2 target] 1 vs(2) by simp
    next
      case 2
      show ?thesis
      proof (cases larger)
        case None
        then have "r = (False, {}, 0)" using r q Scanned 2 by (simp add: SelectCoinsMinConf_def)
        then show ?thesis using selection_none big None 2 vs by (simp add: comp_def)
      next
        case (Some c)
        then have "r = (True, add_coins [c])" using r q Scanned 2 by (simp add: SelectCoinsMinConf_def)
        then show ?thesis using large Some by simp
      qed
    next
      case 3
      obtain vf1 b1 k1 where a1: "ApproximateBestSubset E (sort_desc E vs) low target 1000 0 = (vf1, b1, k1)" by (metis prod_cases3)
      obtain vf b k where a2: "(if b1 \<noteq> target \<and> low \<ge> target + CENT then ApproximateBestSubset E (sort_desc E vs) low (target + CENT) 1000 k1 else (vf1, b1, k1)) = (vf, b, k)"
        by (metis prod_cases3)
      let ?cs = "map fst (filter snd (zip (sort_desc E vs) vf))"
      have tot: "target < sum_list (map fst vs)" using 3 vs(2) by simp
      have sub: "selection_ok from_me target t c1 c2 ?outs (True, add_coins ?cs)"
      proof (cases "b1 \<noteq> target \<and> low \<ge> target + CENT")
        case True
        then show ?thesis using selection_scanned [OF oko E m vs(1) tot, of "target + CENT" k1 vf b k] a2 vs(2) by simp
      next
        case False
        then have "vf = vf1" using a2 by auto
        then show ?thesis using selection_scanned [OF oko E m vs(1) tot, of target 0 vf1 b1 k1] a1 vs(2) tot by simp
      qed
      have "r = (True, add_coins ?cs) \<or> (\<exists>c. larger = Some c \<and> r = (True, add_coins [c]))"
        using r q Scanned 3 a1 a2 cent by (auto simp: SelectCoinsMinConf_def Let_def split: option.splits if_splits)
      then show ?thesis using sub large by blast
    qed
  qed
  then show ?thesis using selection_perm(2) [OF perm] by simp
qed

lemma select_scan_total:
  "\<forall>out \<in> set outs. from_me (out_tx out) \<noteq> None \<Longrightarrow> \<exists>q. select_scan from_me target t c1 c2 outs vs low larger = Some q"
  by (induction outs arbitrary: vs low larger) (auto simp: Let_def)

lemma SelectCoinsMinConf_total:
  assumes "sel_documented E" "\<forall>out \<in> set vCoins. from_me (out_tx out) \<noteq> None"
  shows "\<exists>r. SelectCoinsMinConf E from_me target t c1 c2 vCoins = Some r"
proof -
  have "set (shuffle E vCoins) = set vCoins" using assms(1) by (metis sel_documented_def set_mset_mset)
  then obtain q where "select_scan from_me target t c1 c2 (shuffle E vCoins) [] 0 None = Some q" using select_scan_total assms(2) by metis
  then show ?thesis by (auto simp: SelectCoinsMinConf_def Let_def split: sel_scan.splits option.splits prod.splits)
qed

section \<open>Spent flags\<close>

lemma IsSpent_MarkSpent:
  assumes "MarkSpent n wtx = Some w"
  shows "IsSpent w j = (if j = n then Some True else IsSpent wtx j)" "vout w = vout wtx"
  using assms by (auto simp: MarkSpent_def IsSpent_def resize_flags_def nth_append nth_list_update split: if_splits)

lemma IsSpent_MarkUnspent:
  assumes "MarkUnspent n wtx = Some w"
  shows "IsSpent w j = (if j = n then Some False else IsSpent wtx j)" "vout w = vout wtx"
  using assms by (auto simp: MarkUnspent_def IsSpent_def resize_flags_def nth_append nth_list_update split: if_splits)

text \<open>Whether an output of the wallet is filed as spent.\<close>

definition wallet_spent :: "(uint256, CWalletTx) smap \<Rightarrow> uint256 \<Rightarrow> nat \<Rightarrow> bool" where
  "wallet_spent m h n \<longleftrightarrow> (\<exists>w. sm_find m h = Some w \<and> IsSpent w n = Some True)"

definition own_output :: "ssl_lib \<Rightarrow> key_view \<Rightarrow> (uint256, CWalletTx) smap \<Rightarrow> uint256 \<Rightarrow> nat \<Rightarrow> bool" where
  "own_output L keystore m h n \<longleftrightarrow> (\<exists>w. sm_find m h = Some w \<and> n < length (vout w) \<and> IsMine_out L keystore (vout w ! n))"

lemma spend_prevout_eff:
  assumes "sm_ok m"
  shows "sm_ok (spend_prevout L ks txin m)"
    "wallet_spent (spend_prevout L ks txin m) h n \<longleftrightarrow> wallet_spent m h n \<or> h = op_hash (prevout txin) \<and> n = unat (op_n (prevout txin)) \<and> own_output L ks m h n"
    "own_output L ks (spend_prevout L ks txin m) h n \<longleftrightarrow> own_output L ks m h n"
proof -
  let ?h = "op_hash (prevout txin)" and ?n = "unat (op_n (prevout txin))"
  consider (same) "spend_prevout L ks txin m = m" "own_output L ks m ?h ?n \<Longrightarrow> wallet_spent m ?h ?n"
    | (mark) w w' where "sm_find m ?h = Some w" "?n < length (vout w)" "IsMine_out L ks (vout w ! ?n)" "MarkSpent ?n w = Some w'" "spend_prevout L ks txin m = sm_put ?h w' m"
  proof (cases "sm_find m ?h")
    case None
    then show ?thesis using that(1) by (simp add: spend_prevout_def own_output_def)
  next
    case (Some w)
    show ?thesis
    proof (cases "?n < length (vout w) \<and> IsSpent w ?n = Some False \<and> IsMine_out L ks (vout w ! ?n)")
      case True
      then have "MarkSpent ?n w = Some (the (MarkSpent ?n w))" by (simp add: MarkSpent_def)
      then show ?thesis using that(2) Some True by (simp add: spend_prevout_def Let_def)
    next
      case False
      then have "wallet_spent m ?h ?n" if "own_output L ks m ?h ?n" using that Some by (auto simp: own_output_def wallet_spent_def IsSpent_def split: if_splits)
      then show ?thesis using that(1) Some False by (auto simp: spend_prevout_def Let_def)
    qed
  qed
  note cs = this
  show "sm_ok (spend_prevout L ks txin m)" using cs assms by cases (simp_all add: sm_ok_put)
  show "wallet_spent (spend_prevout L ks txin m) h n \<longleftrightarrow> wallet_spent m h n \<or> h = ?h \<and> n = ?n \<and> own_output L ks m h n"
    using cs assms by cases (auto simp: wallet_spent_def own_output_def sm_find_put IsSpent_MarkSpent)
  show "own_output L ks (spend_prevout L ks txin m) h n \<longleftrightarrow> own_output L ks m h n"
    using cs assms by cases (auto simp: own_output_def sm_find_put IsSpent_MarkSpent)
qed

lemma WalletUpdateSpent_fold:
  "sm_ok m \<Longrightarrow> sm_ok (fold (spend_prevout L ks) ins m) \<and>
   (wallet_spent (fold (spend_prevout L ks) ins m) h n \<longleftrightarrow>
      wallet_spent m h n \<or> (\<exists>txin \<in> set ins. h = op_hash (prevout txin) \<and> n = unat (op_n (prevout txin))) \<and> own_output L ks m h n)"
proof (induction ins arbitrary: m)
  case (Cons txin ins)
  show ?case using Cons.IH [OF spend_prevout_eff(1) [OF Cons.prems]] spend_prevout_eff(2,3) [OF Cons.prems] by auto
qed simp

lemma unspend_outputs_eff:
  assumes "unspend_outputs L ks tx wtx = Some w"
  shows "IsSpent w j = (if j < length (vout tx) \<and> IsMine_out L ks (vout tx ! j) then Some False else IsSpent wtx j)" "vout w = vout wtx"
proof -
  let ?f = "\<lambda>i o1. Option.bind o1 (\<lambda>w. if IsMine_out L ks (vout tx ! i) then MarkUnspent i w else Some w)"
  have "fold ?f [0..<k] (Some wtx) = Some w \<Longrightarrow>
      (\<forall>j. IsSpent w j = (if j < k \<and> IsMine_out L ks (vout tx ! j) then Some False else IsSpent wtx j)) \<and> vout w = vout wtx" for k w
  proof (induction k arbitrary: w)
    case (Suc k)
    then obtain w1 where w1: "fold ?f [0..<k] (Some wtx) = Some w1" "(if IsMine_out L ks (vout tx ! k) then MarkUnspent k w1 else Some w1) = Some w"
      by (cases "fold ?f [0..<k] (Some wtx)") auto
    show ?case
    proof (cases "IsMine_out L ks (vout tx ! k)")
      case True
      then have "MarkUnspent k w1 = Some w" using w1(2) by simp
      note u = IsSpent_MarkUnspent [OF this]
      show ?thesis using Suc.IH [OF w1(1)] True by (auto simp: u less_Suc_eq)
    next
      case False
      then show ?thesis using Suc.IH [OF w1(1)] w1(2) by (auto simp: less_Suc_eq)
    qed
  qed simp
  from this [OF assms [unfolded unspend_outputs_def]]
  show "IsSpent w j = (if j < length (vout tx) \<and> IsMine_out L ks (vout tx ! j) then Some False else IsSpent wtx j)" "vout w = vout wtx" by auto
qed

text \<open>A concrete choice of the random outcomes, for the witnesses, and a wallet with three coins.\<close>

definition purse_env :: sel_env where
  "purse_env = \<lparr>shuffle = rev, sort_desc = (\<lambda>xs. rev (sort_key fst xs)), coin_flip = (\<lambda>n. n < 5), sort_age = sort_key snd\<rparr>"

definition purse_tx :: CWalletTx where
  "purse_tx = \<lparr>nVersion = 1, nTime = 100, vin = [], vout = [\<lparr>nValue = 700, scriptPubKey = []\<rparr>, \<lparr>nValue = 500, scriptPubKey = []\<rparr>,
     \<lparr>nValue = 300, scriptPubKey = []\<rparr>], nLockTime = 0, vfSpent = []\<rparr>"

definition purse_coins :: "COutput list" where
  "purse_coins = map (\<lambda>i. \<lparr>out_hash = 9, out_tx = purse_tx, out_i = i, out_nDepth = 12\<rparr>) [0, 1, 2]"

lemma purse_env_documented: "sel_documented purse_env"
  by (simp add: sel_documented_def purse_env_def rev_map [symmetric] sorted_wrt_rev)

lemma purse_coins_ok: "wallet_coins_ok purse_coins"
  by (simp add: wallet_coins_ok_def coins_ok_def purse_coins_def coin_of_def purse_tx_def)

lemma purse_selection: "SelectCoinsMinConf purse_env (\<lambda>_. Some False) 1200 100 1 10 purse_coins = Some (True, {(9, 0), (9, 1)}, 1200)"
  by code_simp

section \<open>Properties\<close>

text \<open>Coin selection: with distinct coins whose values add up to at most the money supply, \<open>SelectCoinsMinConf\<close> succeeds exactly when
  the coins that have enough confirmations and are not younger than the payment reach the target. The selected coins are then among these, the returned
  value is the sum of exactly the selected coins, no coin counted twice, and it reaches the target; for every order of the shuffle, every
  order of equal values and every outcome of the random subset approximation.\<close>

lemma select_coins_correct:
  assumes "sel_documented E" "wallet_coins_ok vCoins" "MoneyRange target"
    and "SelectCoinsMinConf E from_me target t c1 c2 vCoins = Some (b, S, v)"
  shows "(b \<longleftrightarrow> target \<le> (\<Sum>out\<leftarrow>filter (coin_eligible from_me t c1 c2) vCoins. fst (coin_of out))) \<and>
    (b \<longrightarrow> S \<subseteq> (\<lambda>out. snd (coin_of out)) ` set (filter (coin_eligible from_me t c1 c2) vCoins) \<and>
       v = (\<Sum>c \<in> {c \<in> coin_of ` set vCoins. snd c \<in> S}. fst c) \<and> target \<le> v)"
  using SelectCoinsMinConf_ok [OF assms] unfolding selection_ok_def prod.case comp_def image_image by blast

text \<open>Spent flags: after \<open>WalletUpdateSpent\<close> an output counts as spent exactly when it did before or it is an output of the wallet's own that
  the transaction spends; for a transaction in a block, the wallet's own outputs of the transaction itself are unspent.\<close>

lemma wallet_update_spent_exact:
  assumes "sm_ok mapWallet" "WalletUpdateSpent L keystore tx fBlock mapWallet = Some m"
  shows "wallet_spent m h n \<longleftrightarrow>
    (wallet_spent mapWallet h n \<or> (\<exists>txin \<in> set (vin tx). h = op_hash (prevout txin) \<and> n = unat (op_n (prevout txin))) \<and> own_output L keystore mapWallet h n) \<and>
    \<not> (fBlock \<and> h = GetHash L tx \<and> n < length (vout tx) \<and> IsMine_out L keystore (vout tx ! n))"
proof -
  let ?m1 = "fold (spend_prevout L keystore) (vin tx) mapWallet"
  note f = WalletUpdateSpent_fold [OF assms(1), of L keystore "vin tx"]
  show ?thesis
  proof (cases fBlock)
    case False
    then show ?thesis using assms(2) f by (simp add: WalletUpdateSpent_def)
  next
    case True
    then obtain wtx w where w: "sm_find ?m1 (GetHash L tx) = Some wtx" "unspend_outputs L keystore tx wtx = Some w" "m = sm_put (GetHash L tx) w ?m1"
      using assms(2) by (auto simp: WalletUpdateSpent_def Let_def split: option.splits)
    have "wallet_spent m h n \<longleftrightarrow> wallet_spent ?m1 h n \<and> \<not> (h = GetHash L tx \<and> n < length (vout tx) \<and> IsMine_out L keystore (vout tx ! n))"
      using conjunct1 [OF f] w(1) by (auto simp: wallet_spent_def w(3) sm_find_put unspend_outputs_eff [OF w(2)])
    then show ?thesis using f True by simp
  qed
qed

end
