(* ===== verification/CoinAge.thy ===== *)
theory CoinAge
  imports Coins
begin

text \<open>
  Coin selection that spends as little coin age as possible (\<open>SelectCoinsMinConfByCoinAge\<close>, chosen by \<open>-minimizecoinage\<close>), and \<open>SelectCoins\<close>,
  which tries either selection with three thresholds (\<open>wallet.cpp\<close>). The selection by age is a knapsack: of the coins below the target plus a cent it
  discards, within the surplus, the coins of greatest age, by dynamic programming over values divided by \<open>denom\<close>. An exception and undefined
  behaviour are \<open>None\<close>.
\<close>

section \<open>Coins with their age\<close>

text \<open>The value of a coin, its age in coin-days times \<open>COIN\<close>, and its reference. The code keeps the age now as \<open>uint64_t\<close>, now as \<open>int64_t\<close>, adds
  modulo \<open>2^64\<close> and compares unsigned.\<close>

type_synonym age_coin = "(int \<times> u64) \<times> coin_ref"

abbreviation (input) coin_value :: "age_coin \<Rightarrow> int" where "coin_value c \<equiv> fst (fst c)"

definition CoinWeightCost :: "bn_lib \<Rightarrow> int \<Rightarrow> COutput \<Rightarrow> u64" where
  "CoinWeightCost B now out =
     (let nTimeWeight = min (i64 (now - uint (nTime (out_tx out)))) (25 * 24 * 60 * 60);
          bnCoinDayWeight = cdiv (setint64 B (nValue (vout (out_tx out) ! out_i out)) * setint64 B nTimeWeight) (24 * 60 * 60)
      in getuint64 B bnCoinDayWeight)"

text \<open>The greatest common divisor, with the remainder of C.\<close>

function gcd_c :: "int \<Rightarrow> int \<Rightarrow> int" where
  "gcd_c n m = (if m = 0 then n else gcd_c m (n - cdiv n m * m))"
  by pat_completeness auto

lemma crem_less: "m \<noteq> 0 \<Longrightarrow> \<bar>n - cdiv n m * m\<bar> < \<bar>m :: int\<bar>"
proof -
  assume m: "m \<noteq> 0"
  have "n - cdiv n m * m = sgn n * (\<bar>n\<bar> mod \<bar>m\<bar>)"
    unfolding cdiv_def minus_div_mult_eq_mod [symmetric] by (simp add: algebra_simps sgn_if abs_if)
  then show ?thesis using m by (simp add: abs_mult sgn_if)
qed

termination gcd_c
  by (relation "measure (\<lambda>(n, m). nat \<bar>m\<bar>)") (use crem_less in auto)

declare gcd_c.simps [simp del]

text \<open>The first loop: coins below the target plus a cent, their total, and of the larger ones the one of least age, if that is below the
  initial bound.\<close>

fun age_scan :: "(CWalletTx \<Rightarrow> bool option) \<Rightarrow> int \<Rightarrow> u32 \<Rightarrow> int \<Rightarrow> int \<Rightarrow> (COutput \<times> u64) list \<Rightarrow> age_coin list \<Rightarrow> int \<Rightarrow> age_coin option \<Rightarrow>
    (age_coin list \<times> int \<times> age_coin option) option" where
  "age_scan from_me nTargetValue nSpendTime nConfMine nConfTheirs [] vValue nTotalLower larger = Some (vValue, nTotalLower, larger)"
| "age_scan from_me nTargetValue nSpendTime nConfMine nConfTheirs ((out, cost) # r) vValue nTotalLower larger =
     (case from_me (out_tx out) of
        None \<Rightarrow> None
      | Some mine \<Rightarrow>
          if out_nDepth out < (if mine then nConfMine else nConfTheirs) then age_scan from_me nTargetValue nSpendTime nConfMine nConfTheirs r vValue nTotalLower larger
          else if nTime (out_tx out) > nSpendTime then age_scan from_me nTargetValue nSpendTime nConfMine nConfTheirs r vValue nTotalLower larger
          else let n = nValue (vout (out_tx out) ! out_i out); coin = ((n, cost), out_hash out, out_i out) in
          if n < i64 (nTargetValue + CENT) then
            age_scan from_me nTargetValue nSpendTime nConfMine nConfTheirs r (vValue @ [coin]) (i64 (nTotalLower + n)) larger
          else if cost < (case larger of None \<Rightarrow> 2 ^ 63 - 1 | Some c \<Rightarrow> snd (fst c)) then
            age_scan from_me nTargetValue nSpendTime nConfMine nConfTheirs r vValue nTotalLower (Some coin)
          else age_scan from_me nTargetValue nSpendTime nConfMine nConfTheirs r vValue nTotalLower larger)"

section \<open>The knapsack\<close>

text \<open>An item is a coin or a bundle of coins, with the sum of their values and ages.\<close>

type_synonym age_item = "(int \<times> u64) \<times> age_coin list"

definition single :: "age_coin \<Rightarrow> age_item" where
  "single c = (fst c, [c])"

text \<open>Coins below \<open>denom\<close> are bundled until a bundle is worth \<open>denom\<close>. The code writes the sums of a bundle over the values of the first entries of
  the partition; a bundle has at least two coins, so these entries have been read. The coins after the last complete bundle remain.\<close>

fun make_bundles :: "int \<Rightarrow> age_coin list \<Rightarrow> int \<times> u64 \<Rightarrow> age_coin list \<Rightarrow> age_item list \<times> age_coin list" where
  "make_bundles denom [] pBundle pending = ([], pending)"
| "make_bundles denom (c # r) pBundle pending =
     (let pBundle1 = (i64 (fst pBundle + coin_value c), snd pBundle + snd (fst c)); pending1 = pending @ [c] in
      if fst pBundle1 \<ge> denom
      then (case make_bundles denom r (0, 0) [] of (bundles, rest) \<Rightarrow> ((pBundle1, pending1) # bundles, rest))
      else make_bundles denom r pBundle1 pending1)"

text \<open>Items are picked in advance while the rounded values do not exceed what is still needed.\<close>

fun prepick :: "int \<Rightarrow> int \<Rightarrow> age_item list \<Rightarrow> int \<Rightarrow> coin_ref set \<Rightarrow> int \<Rightarrow> age_item list \<times> int \<times> coin_ref set \<times> int" where
  "prepick nTargetValue denom [] nTotalValue setCoinsRet nValueRet = ([], nTotalValue, setCoinsRet, nValueRet)"
| "prepick nTargetValue denom (x # r) nTotalValue setCoinsRet nValueRet =
     (if cdiv (i64 (nTargetValue - nValueRet)) denom \<ge> nTotalValue
      then prepick nTargetValue denom r (i64 (nTotalValue - cdiv (fst (fst x)) denom)) (setCoinsRet \<union> snd ` set (snd x)) (i64 (nValueRet + fst (fst x)))
      else (x # r, nTotalValue, setCoinsRet, nValueRet))"

text \<open>One row of the matrices \<open>M\<close> and \<open>B\<close> from the row of \<open>M\<close> above it.\<close>

definition dp_row :: "nat \<Rightarrow> nat \<Rightarrow> u64 \<Rightarrow> u64 list \<Rightarrow> (u64 \<times> nat) list" where
  "dp_row cols nWeight cost prev =
     map (\<lambda>j. if nWeight \<le> j
              then let nStep = prev ! (j - nWeight) + cost in
                   if prev ! j \<ge> nStep then (prev ! j, j) else (nStep, j - nWeight)
              else (prev ! j, j)) [0..<cols]"

definition item_weight :: "int \<Rightarrow> age_item \<Rightarrow> nat" where
  "item_weight denom x = nat (cdiv (fst (fst x)) denom)"

fun dp_table :: "nat \<Rightarrow> int \<Rightarrow> age_item list \<Rightarrow> u64 list \<Rightarrow> nat list list" where
  "dp_table cols denom [] prev = []"
| "dp_table cols denom (x # r) prev =
     (let row = dp_row cols (item_weight denom x) (snd (fst x)) prev in map snd row # dp_table cols denom r (map fst row))"

text \<open>From the last item to the first: an item is picked when the optimum does not discard it.\<close>

primrec trace_optimum :: "(age_item \<times> nat list) list \<Rightarrow> nat \<Rightarrow> coin_ref set \<Rightarrow> int \<Rightarrow> coin_ref set \<times> int" where
  "trace_optimum [] nPrev setCoinsRet nValueRet = (setCoinsRet, nValueRet)"
| "trace_optimum (e # r) nPrev setCoinsRet nValueRet =
     (case e of (x, b) \<Rightarrow>
        if nPrev = b ! nPrev
        then trace_optimum r (b ! nPrev) (setCoinsRet \<union> snd ` set (snd x)) (i64 (nValueRet + fst (fst x)))
        else trace_optimum r (b ! nPrev) setCoinsRet nValueRet)"

fun add_small :: "int \<Rightarrow> age_coin list \<Rightarrow> coin_ref set \<Rightarrow> int \<Rightarrow> coin_ref set \<times> int" where
  "add_small nTargetValue [] setCoinsRet nValueRet = (setCoinsRet, nValueRet)"
| "add_small nTargetValue (c # r) setCoinsRet nValueRet =
     (if nValueRet < nTargetValue then add_small nTargetValue r (insert (snd c) setCoinsRet) (i64 (nValueRet + coin_value c)) else (setCoinsRet, nValueRet))"

text \<open>The number of columns is the surplus that may be discarded. A negative number is a matrix that cannot be allocated; without a column
  there is nothing to trace back for an item. \<open>rest\<close> holds the coins left over by the bundles, if bundles were made.\<close>

definition dp_columns :: "int \<Rightarrow> int \<Rightarrow> int \<Rightarrow> int \<Rightarrow> int" where
  "dp_columns nTargetValue denom nTotalValue nValueRet =
     (let need = i64 (nTargetValue - nValueRet); nAppend = (if need - cdiv need denom * denom \<noteq> 0 then 0 else 1) in
      i64 (nTotalValue - cdiv need denom) + nAppend)"

definition age_knapsack :: "int \<Rightarrow> int \<Rightarrow> age_item list \<Rightarrow> int \<Rightarrow> coin_ref set \<Rightarrow> int \<Rightarrow> age_coin list option \<Rightarrow> (bool \<times> coin_ref set \<times> int) option" where
  "age_knapsack nTargetValue denom items nTotalValue setCoinsRet nValueRet rest =
     (let cols = dp_columns nTargetValue denom nTotalValue nValueRet in
      if cols < 0 \<or> cols = 0 \<and> items \<noteq> [] then None
      else case trace_optimum (rev (zip items (dp_table (nat cols) denom items (replicate (nat cols) 0)))) (nat cols - 1) setCoinsRet nValueRet of
        (S, v) \<Rightarrow>
          if v < nTargetValue then (case rest of None \<Rightarrow> Some (True, S, v) | Some r \<Rightarrow> Some (True, add_small nTargetValue r S v))
          else Some (True, S, v))"

section \<open>Selection by coin age\<close>

definition age_denom :: "int \<Rightarrow> age_coin list \<Rightarrow> int \<Rightarrow> int \<times> int" where
  "age_denom nTargetValue vValue nTotalValue =
     (let nGCD = gcd_c nTargetValue (fold (\<lambda>c g. gcd_c (coin_value c) g) (tl vValue) (coin_value (hd vValue)));
          approx = cdiv (i64 (int (length vValue) * (nTotalValue - nTargetValue))) 25 in
      (nGCD, if approx > nGCD then approx else nGCD))"

definition age_total :: "age_coin list \<Rightarrow> int" where
  "age_total vValue = fold (\<lambda>c s. i64 (s + coin_value c)) (tl vValue) (coin_value (hd vValue))"

definition items_total :: "int \<Rightarrow> age_item list \<Rightarrow> int" where
  "items_total denom items = fold (\<lambda>x s. i64 (s + cdiv (fst (fst x)) denom)) items 0"

definition age_bundled :: "int \<Rightarrow> int \<Rightarrow> age_coin list \<Rightarrow> (bool \<times> coin_ref set \<times> int) option" where
  "age_bundled nTargetValue denom vValue =
     (case make_bundles denom (filter (\<lambda>c. coin_value c < denom) vValue) (0, 0) [] of
        (bundles, rest) \<Rightarrow>
          let items = map single (filter (\<lambda>c. coin_value c \<ge> denom) vValue) @ bundles;
              nTotalValue = items_total denom items in
          if cdiv nTargetValue denom \<ge> nTotalValue then
            (case prepick nTargetValue denom items nTotalValue {} 0 of
               (items1, nTotalValue1, S, v) \<Rightarrow>
                 if v \<ge> nTargetValue then Some (True, S, v) else age_knapsack nTargetValue denom items1 nTotalValue1 S v (Some rest))
          else age_knapsack nTargetValue denom items nTotalValue {} 0 (Some rest))"

definition age_choose :: "int \<Rightarrow> age_coin list \<Rightarrow> (bool \<times> coin_ref set \<times> int) option" where
  "age_choose nTargetValue vValue =
     (if vValue = [] then None
      else let nTotalValue = age_total vValue in
      case age_denom nTargetValue vValue nTotalValue of (nGCD, denom) \<Rightarrow>
        if nTotalValue = nTargetValue then Some (True, set (map snd vValue), nTotalValue)
        else if denom \<noteq> nGCD then age_bundled nTargetValue denom vValue
        else age_knapsack nTargetValue denom (map single vValue) (cdiv nTotalValue denom) {} 0 None)"

definition SelectCoinsMinConfByCoinAge :: "bn_lib \<Rightarrow> int \<Rightarrow> sel_env \<Rightarrow> (CWalletTx \<Rightarrow> bool option) \<Rightarrow> int \<Rightarrow> u32 \<Rightarrow> int \<Rightarrow> int \<Rightarrow> COutput list \<Rightarrow>
    (bool \<times> coin_ref set \<times> int) option" where
  "SelectCoinsMinConfByCoinAge B now E from_me nTargetValue nSpendTime nConfMine nConfTheirs vCoins =
     (case age_scan from_me nTargetValue nSpendTime nConfMine nConfTheirs (sort_age E (map (\<lambda>out. (out, CoinWeightCost B now out)) vCoins)) [] 0 None of
        None \<Rightarrow> None
      | Some (vValue, nTotalLower, larger) \<Rightarrow>
          if nTotalLower < nTargetValue then
            (case larger of None \<Rightarrow> Some (False, {}, 0) | Some c \<Rightarrow> Some (True, {snd c}, coin_value c))
          else age_choose nTargetValue vValue)"

section \<open>SelectCoins\<close>

text \<open>Three attempts with falling thresholds, each with its own random choices; a throw ends them.\<close>

definition three_attempts :: "(nat \<Rightarrow> int \<Rightarrow> int \<Rightarrow> (bool \<times> coin_ref set \<times> int) option) \<Rightarrow> (bool \<times> coin_ref set \<times> int) option" where
  "three_attempts f =
     (case f 0 1 10 of
        None \<Rightarrow> None
      | Some (True, r) \<Rightarrow> Some (True, r)
      | Some (False, _) \<Rightarrow>
          (case f 1 1 1 of
             None \<Rightarrow> None
           | Some (True, r) \<Rightarrow> Some (True, r)
           | Some (False, _) \<Rightarrow> f 2 0 1))"

text \<open>\<open>vCoins\<close> is what \<open>AvailableCoins\<close> gives. When coins are chosen by hand all of them are taken; \<open>setCoinsRet\<close> and \<open>nValueRet\<close> come
  in empty from the caller.\<close>

definition SelectCoins :: "bn_lib \<Rightarrow> int \<Rightarrow> (nat \<Rightarrow> sel_env) \<Rightarrow> bool \<Rightarrow> (CWalletTx \<Rightarrow> bool option) \<Rightarrow> int \<Rightarrow> u32 \<Rightarrow> bool \<Rightarrow> COutput list \<Rightarrow> (bool \<times> coin_ref set \<times> int) option" where
  "SelectCoins B now E fMinimizeCoinAge from_me nTargetValue nSpendTime has_selected vCoins =
     (if has_selected then
        let r = add_coins (map (\<lambda>out. (nValue (vout (out_tx out) ! out_i out), out_hash out, out_i out)) vCoins) in
        Some (snd r \<ge> nTargetValue, r)
      else three_attempts (\<lambda>k nConfMine nConfTheirs.
        if fMinimizeCoinAge then SelectCoinsMinConfByCoinAge B now (E k) from_me nTargetValue nSpendTime nConfMine nConfTheirs vCoins
        else SelectCoinsMinConf (E k) from_me nTargetValue nSpendTime nConfMine nConfTheirs vCoins))"

section \<open>Sums without wrap-around\<close>

abbreviation (input) vsum :: "age_coin list \<Rightarrow> int" where "vsum cs \<equiv> \<Sum>c\<leftarrow>cs. coin_value c"

definition nonneg_coins :: "age_coin list \<Rightarrow> bool" where
  "nonneg_coins cs \<longleftrightarrow> (\<forall>c \<in> set cs. 0 \<le> coin_value c)"

definition item_ok :: "age_item \<Rightarrow> bool" where
  "item_ok x \<longleftrightarrow> fst (fst x) = vsum (snd x) \<and> nonneg_coins (snd x)"

lemma nonneg_coins_simps [simp]:
  "nonneg_coins []" "nonneg_coins (c # cs) \<longleftrightarrow> 0 \<le> coin_value c \<and> nonneg_coins cs" "nonneg_coins (cs @ ds) \<longleftrightarrow> nonneg_coins cs \<and> nonneg_coins ds"
  by (auto simp: nonneg_coins_def)

lemma vsum_nonneg: "nonneg_coins cs \<Longrightarrow> 0 \<le> vsum cs"
  by (induction cs) auto

lemma item_ok_nonneg: "item_ok x \<Longrightarrow> 0 \<le> fst (fst x)"
  by (simp add: item_ok_def vsum_nonneg)

lemma item_ok_single [simp]: "item_ok (single c) \<longleftrightarrow> 0 \<le> coin_value c"
  by (simp add: item_ok_def single_def)

lemma fold_i64:
  assumes "\<forall>x \<in> set xs. 0 \<le> f x" "0 \<le> s" "s + (\<Sum>x\<leftarrow>xs. f x) \<le> MAX_MONEY"
  shows "fold (\<lambda>x s. i64 (s + f x)) xs s = s + (\<Sum>x\<leftarrow>xs. f x)"
  using assms
proof (induction xs arbitrary: s)
  case (Cons x xs)
  have "0 \<le> (\<Sum>x\<leftarrow>xs. f x)" using Cons.prems(1) by (intro sum_list_nonneg) auto
  then have "i64 (s + f x) = s + f x" using Cons.prems by (intro i64_id) (auto simp: in_i64_def)
  then show ?case using Cons by (simp add: add.assoc)
qed simp

lemma age_total_sum:
  assumes "cs \<noteq> []" "nonneg_coins cs" "vsum cs \<le> MAX_MONEY"
  shows "age_total cs = vsum cs"
  using assms fold_i64 [of "tl cs" "\<lambda>c. coin_value c" "coin_value (hd cs)"] by (cases cs) (auto simp: age_total_def nonneg_coins_def)

lemma idiv_bounds:
  assumes "0 \<le> n" "0 < (d :: int)"
  shows "0 \<le> n div d" "n div d * d \<le> n" "n div d \<le> n"
proof -
  show a: "0 \<le> n div d" using assms by (simp add: pos_imp_zdiv_nonneg_iff)
  show b: "n div d * d \<le> n" using div_mult_mod_eq [of n d] pos_mod_sign [OF assms(2), of n] by linarith
  have "n div d * 1 \<le> n div d * d" using a assms(2) by (intro mult_left_mono) auto
  then show "n div d \<le> n" using b by simp
qed

lemma isum_bounds:
  assumes "\<forall>x \<in> set items. item_ok x" "0 < d"
  shows "0 \<le> (\<Sum>x\<leftarrow>items. fst (fst x) div d)" "(\<Sum>x\<leftarrow>items. fst (fst x) div d) * d \<le> (\<Sum>x\<leftarrow>items. fst (fst x))"
    "(\<Sum>x\<leftarrow>items. fst (fst x)) = vsum (concat (map snd items))" "nonneg_coins (concat (map snd items))"
    "(\<Sum>x\<leftarrow>items. fst (fst x) div d) \<le> (\<Sum>x\<leftarrow>items. fst (fst x))"
proof -
  have q: "0 \<le> fst (fst x) div d" "fst (fst x) div d * d \<le> fst (fst x)" "fst (fst x) div d \<le> fst (fst x)" if "item_ok x" for x
    using idiv_bounds [OF item_ok_nonneg [OF that] assms(2)] by simp_all
  show "0 \<le> (\<Sum>x\<leftarrow>items. fst (fst x) div d)" using assms(1) q(1) by (induction items) (auto intro: add_nonneg_nonneg)
  show "(\<Sum>x\<leftarrow>items. fst (fst x) div d) * d \<le> (\<Sum>x\<leftarrow>items. fst (fst x))"
    using assms(1) q(2) by (induction items) (auto simp: distrib_right intro: add_mono)
  show "(\<Sum>x\<leftarrow>items. fst (fst x) div d) \<le> (\<Sum>x\<leftarrow>items. fst (fst x))" using assms(1) q(3) by (induction items) (auto intro: add_mono)
  show "(\<Sum>x\<leftarrow>items. fst (fst x)) = vsum (concat (map snd items))" "nonneg_coins (concat (map snd items))"
    using assms(1) by (induction items) (auto simp: item_ok_def)
qed

lemma items_total_sum:
  assumes "\<forall>x \<in> set items. item_ok x" "0 < d" "vsum (concat (map snd items)) \<le> MAX_MONEY"
  shows "items_total d items = (\<Sum>x\<leftarrow>items. fst (fst x) div d)"
proof -
  have e: "(\<Sum>x\<leftarrow>items. cdiv (fst (fst x)) d) = (\<Sum>x\<leftarrow>items. fst (fst x) div d)"
    using assms(1,2) item_ok_nonneg by (intro arg_cong [where f = sum_list] map_cong) auto
  have "\<forall>x \<in> set items. 0 \<le> cdiv (fst (fst x)) d" using assms(1,2) item_ok_nonneg by (auto simp: pos_imp_zdiv_nonneg_iff)
  then show ?thesis using fold_i64 [of items "\<lambda>x. cdiv (fst (fst x)) d" 0] isum_bounds [OF assms(1,2)] assms(3) e by (simp add: items_total_def)
qed

section \<open>The divisor\<close>

lemma gcd_c_gcd: "0 \<le> n \<Longrightarrow> 0 \<le> m \<Longrightarrow> gcd_c n m = gcd n m"
proof (induction n m rule: gcd_c.induct)
  case (1 n m)
  show ?case
  proof (cases "m = 0")
    case False
    then have "n - cdiv n m * m = n mod m" using 1(2,3) by (simp add: minus_div_mult_eq_mod)
    then have "gcd_c n m = gcd m (n mod m)" using 1(1) [OF False] False 1(2,3) by (subst gcd_c.simps) simp
    then show ?thesis by (simp add: gcd_red_int [symmetric])
  qed (use 1(2) in \<open>simp add: gcd_c.simps\<close>)
qed

lemma gcd_fold:
  assumes "nonneg_coins cs" "0 \<le> g"
  shows "0 \<le> fold (\<lambda>c g. gcd_c (coin_value c) g) cs g \<and> fold (\<lambda>c g. gcd_c (coin_value c) g) cs g dvd g \<and>
    (\<forall>c \<in> set cs. fold (\<lambda>c g. gcd_c (coin_value c) g) cs g dvd coin_value c)"
  using assms
proof (induction cs arbitrary: g)
  case (Cons c cs)
  let ?g = "gcd (coin_value c) g"
  have "gcd_c (coin_value c) g = ?g" using Cons.prems gcd_c_gcd by simp
  then show ?case using Cons.IH [of ?g] Cons.prems(1) by auto
qed simp

lemma age_denom_ok:
  assumes "cs \<noteq> []" "nonneg_coins cs" "0 < T" "age_denom T cs tot = (g, d)"
  shows "0 < g" "g \<le> d" "\<forall>c \<in> set cs. g dvd coin_value c" "g dvd T"
proof -
  let ?f = "fold (\<lambda>c g. gcd_c (coin_value c) g) (tl cs) (coin_value (hd cs))"
  have f: "0 \<le> ?f" "\<forall>c \<in> set cs. ?f dvd coin_value c" using gcd_fold [of "tl cs" "coin_value (hd cs)"] assms(1,2) by (cases cs; auto)+
  have g: "g = gcd T ?f" "g \<le> d" using assms(3,4) gcd_c_gcd [OF _ f(1), of T] by (auto simp: age_denom_def Let_def split: if_splits)
  show "0 < g" "g dvd T" "g \<le> d" using g assms(3) by auto
  show "\<forall>c \<in> set cs. g dvd coin_value c" using f(2) g(1) by (meson dvd_trans gcd_dvd2)
qed

section \<open>Bundles and picks\<close>

lemma make_bundles_ok:
  assumes "make_bundles d cs (vsum pend, w) pend = (bs, rest)" "0 < d" "nonneg_coins cs" "nonneg_coins pend" "vsum pend < d" "vsum pend + vsum cs \<le> MAX_MONEY"
  shows "mset (concat (map snd bs)) + mset rest = mset pend + mset cs \<and> (\<forall>x \<in> set bs. item_ok x \<and> d \<le> fst (fst x)) \<and> vsum rest < d"
  using assms
proof (induction cs arbitrary: pend w bs rest)
  case (Cons c cs)
  have "0 \<le> vsum cs" "0 \<le> vsum pend" using Cons.prems(3,4) vsum_nonneg by auto
  then have i: "i64 (vsum pend + coin_value c) = vsum (pend @ [c])" "vsum cs \<le> MAX_MONEY" using Cons.prems(3,6) by (auto intro!: i64_id simp: in_i64_def)
  show ?case
  proof (cases "d \<le> vsum (pend @ [c])")
    case True
    then obtain bs1 where b: "make_bundles d cs (0, 0) [] = (bs1, rest)" "bs = ((vsum (pend @ [c]), w + snd (fst c)), pend @ [c]) # bs1"
      using Cons.prems(1) i(1) by (auto simp: Let_def split: prod.splits)
    show ?thesis using Cons.IH [of "[]" 0 bs1 rest] b(1) Cons.prems(2-4) i(2) True by (auto simp: b(2) item_ok_def)
  next
    case False
    then have "make_bundles d cs (vsum (pend @ [c]), w + snd (fst c)) (pend @ [c]) = (bs, rest)" using Cons.prems(1) i(1) by (simp add: Let_def)
    then show ?thesis using Cons.IH [of "pend @ [c]" "w + snd (fst c)" bs rest] Cons.prems False by (simp add: add.assoc)
  qed
qed auto

lemma prepick_ok:
  assumes "prepick T d items (\<Sum>x\<leftarrow>items. fst (fst x) div d) (snd ` set P) (vsum P) = (items1, tot1, S, v)"
    and "\<forall>x \<in> set items. item_ok x" "nonneg_coins P" "0 < d" "0 < T" "T \<le> MAX_MONEY" "vsum P + vsum (concat (map snd items)) \<le> MAX_MONEY"
  shows "\<exists>Q. S = snd ` set Q \<and> v = vsum Q \<and> mset Q + mset (concat (map snd items1)) = mset P + mset (concat (map snd items)) \<and>
    nonneg_coins Q \<and> set items1 \<subseteq> set items \<and> tot1 = (\<Sum>x\<leftarrow>items1. fst (fst x) div d) \<and> (items1 = [] \<or> cdiv (T - v) d < tot1)"
  using assms
proof (induction items arbitrary: P)
  case (Cons x items)
  have x: "item_ok x" "\<forall>x \<in> set items. item_ok x" "fst (fst x) = vsum (snd x)" "nonneg_coins (snd x)" using Cons.prems(2) by (auto simp: item_ok_def)
  note b = isum_bounds [OF x(2) Cons.prems(4)]
  have n: "0 \<le> vsum (snd x)" "0 \<le> vsum P" "0 \<le> vsum (concat (map snd items))" using x(4) Cons.prems(3) b(4) vsum_nonneg by auto
  have i: "i64 (T - vsum P) = T - vsum P" "i64 (vsum P + fst (fst x)) = vsum (P @ snd x)"
    using Cons.prems(5-7) n x(3) by (auto intro!: i64_id simp: in_i64_def)
  have "fst (fst x) div d + (\<Sum>x\<leftarrow>items. fst (fst x) div d) - cdiv (fst (fst x)) d = (\<Sum>x\<leftarrow>items. fst (fst x) div d)"
    using item_ok_nonneg [OF x(1)] Cons.prems(4) by simp
  moreover have "i64 (\<Sum>x\<leftarrow>items. fst (fst x) div d) = (\<Sum>x\<leftarrow>items. fst (fst x) div d)"
    using b(1,5) b(3) n Cons.prems(7) by (intro i64_id) (auto simp: in_i64_def)
  ultimately have t: "i64 ((\<Sum>x\<leftarrow>x # items. fst (fst x) div d) - cdiv (fst (fst x)) d) = (\<Sum>x\<leftarrow>items. fst (fst x) div d)" by simp
  show ?case
  proof (cases "cdiv (T - vsum P) d \<ge> (\<Sum>x\<leftarrow>x # items. fst (fst x) div d)")
    case True
    have u: "snd ` set P \<union> snd ` set (snd x) = snd ` set (P @ snd x)" by auto
    have "prepick T d items (\<Sum>x\<leftarrow>items. fst (fst x) div d) (snd ` set (P @ snd x)) (vsum (P @ snd x)) = (items1, tot1, S, v)"
      using Cons.prems(1) True unfolding prepick.simps i(1) t i(2) u by simp
    then show ?thesis using Cons.IH [of "P @ snd x"] x(2,4) Cons.prems(3-7) by (auto simp: add.assoc)
  next
    case False
    then have "items1 = x # items" "tot1 = (\<Sum>x\<leftarrow>x # items. fst (fst x) div d)" "S = snd ` set P" "v = vsum P"
      using Cons.prems(1) by (auto simp: i(1))
    then show ?thesis using False Cons.prems(3) by (intro exI [of _ P]) auto
  qed
qed (auto intro: exI [of _ P])

text \<open>Which items the trace keeps and which it discards.\<close>

fun split_trace :: "(age_item \<times> nat list) list \<Rightarrow> nat \<Rightarrow> age_item list \<times> age_item list" where
  "split_trace [] p = ([], [])"
| "split_trace ((x, b) # r) p = (case split_trace r (b ! p) of (ks, ds) \<Rightarrow> if p = b ! p then (x # ks, ds) else (ks, x # ds))"

definition row_ok :: "nat \<Rightarrow> int \<Rightarrow> age_item \<Rightarrow> nat list \<Rightarrow> bool" where
  "row_ok cols d x b \<longleftrightarrow> (\<forall>j < cols. b ! j = j \<or> item_weight d x \<le> j \<and> b ! j = j - item_weight d x)"

lemma split_trace_ok:
  assumes "split_trace es p = (ks, ds)" "\<forall>(x, b) \<in> set es. row_ok cols d x b" "p < cols"
  shows "mset ks + mset ds = mset (map fst es) \<and> (\<Sum>x\<leftarrow>ds. item_weight d x) \<le> p"
  using assms
proof (induction es p arbitrary: ks ds rule: split_trace.induct)
  case (2 x b r p)
  obtain ks1 ds1 where s: "split_trace r (b ! p) = (ks1, ds1)" by force
  have row: "b ! p = p \<or> item_weight d x \<le> p \<and> b ! p = p - item_weight d x" using 2(3,4) by (auto simp: row_ok_def)
  then have "b ! p < cols" using 2(4) by auto
  then have "mset ks1 + mset ds1 = mset (map fst r) \<and> (\<Sum>x\<leftarrow>ds1. item_weight d x) \<le> b ! p" using 2(1) [OF s] 2(3) by auto
  then show ?case using 2(2) s row by (auto split: if_splits)
qed simp

lemma trace_optimum_split:
  assumes "split_trace es p = (ks, ds)" "\<forall>x \<in> set (map fst es). item_ok x" "nonneg_coins P" "vsum P + (\<Sum>x\<leftarrow>map fst es. fst (fst x)) \<le> MAX_MONEY"
  shows "trace_optimum es p (snd ` set P) (vsum P) = (snd ` set (P @ concat (map snd ks)), vsum (P @ concat (map snd ks)))"
  using assms
proof (induction es p arbitrary: ks ds P rule: split_trace.induct)
  case (2 x b r p)
  obtain ks1 ds1 where s: "split_trace r (b ! p) = (ks1, ds1)" by force
  have x: "fst (fst x) = vsum (snd x)" "nonneg_coins (snd x)" using 2(3) by (auto simp: item_ok_def)
  have n: "0 \<le> vsum P" "0 \<le> vsum (snd x)" using 2(4) x(2) vsum_nonneg by auto
  have n3: "0 \<le> (\<Sum>x\<leftarrow>map fst r. fst (fst x))" using isum_bounds(3,4) [of "map fst r" 1] vsum_nonneg 2(3) by simp
  then have i: "i64 (vsum P + fst (fst x)) = vsum (P @ snd x)" using 2(5) x(1) n by (auto intro!: i64_id simp: in_i64_def)
  have u: "snd ` set P \<union> snd ` set (snd x) = snd ` set (P @ snd x)" by auto
  show ?case
  proof (cases "p = b ! p")
    case True
    then have ks: "ks = x # ks1" using 2(2) s by simp
    have "trace_optimum r (b ! p) (snd ` set (P @ snd x)) (vsum (P @ snd x)) =
        (snd ` set ((P @ snd x) @ concat (map snd ks1)), vsum ((P @ snd x) @ concat (map snd ks1)))"
      using 2(1) [OF s, of "P @ snd x"] 2(3-5) x by simp
    then show ?thesis using True unfolding trace_optimum.simps prod.case i u ks by simp
  next
    case False
    then show ?thesis using 2(1) [OF s, of P] 2(2-5) s n x(1) by simp
  qed
qed simp

lemma dp_row_nth:
  "length (dp_row cols w c prev) = cols"
  "j < cols \<Longrightarrow> dp_row cols w c prev ! j =
     (if w \<le> j then if prev ! j \<ge> prev ! (j - w) + c then (prev ! j, j) else (prev ! (j - w) + c, j - w) else (prev ! j, j))"
  by (simp_all add: dp_row_def Let_def)

lemma dp_row_ok: "row_ok cols d x (map snd (dp_row cols (item_weight d x) w prev))"
  by (auto simp: row_ok_def dp_row_def Let_def)

lemma dp_table_ok: "length (dp_table cols d items prev) = length items" "\<forall>(x, b) \<in> set (zip items (dp_table cols d items prev)). row_ok cols d x b"
  using dp_row_ok by (induction items arbitrary: prev) (auto simp: Let_def)

lemma add_small_ok:
  assumes "nonneg_coins P" "nonneg_coins r" "vsum P + vsum r \<le> MAX_MONEY" "T \<le> vsum P + vsum r"
  shows "\<exists>Q. add_small T r (snd ` set P) (vsum P) = (snd ` set Q, vsum Q) \<and> mset Q \<subseteq># mset P + mset r \<and> T \<le> vsum Q"
  using assms
proof (induction r arbitrary: P)
  case (Cons c r)
  have i: "i64 (vsum P + coin_value c) = vsum (P @ [c])" using Cons.prems(1-3) vsum_nonneg [of r] vsum_nonneg [of P] by (auto intro!: i64_id simp: in_i64_def)
  show ?case
  proof (cases "vsum P < T")
    case True
    have u: "insert (snd c) (snd ` set P) = snd ` set (P @ [c])" by auto
    show ?thesis using Cons.IH [of "P @ [c]"] Cons.prems True unfolding add_small.simps i u by (auto simp: add.assoc)
  next
    case False
    then show ?thesis by (intro exI [of _ P]) auto
  qed
qed (auto intro: exI [of _ P])

section \<open>The knapsack reaches the target\<close>

lemma split_sums:
  assumes "mset ks + mset ds = mset (items :: age_item list)"
  shows "mset (concat (map snd items)) = mset (concat (map snd ks)) + mset (concat (map snd ds))"
    "(\<Sum>x\<leftarrow>items. f x :: int) = (\<Sum>x\<leftarrow>ks. f x) + (\<Sum>x\<leftarrow>ds. f x)" "set items = set ks \<union> set ds"
proof -
  have c: "mset (concat (map snd xs)) = (\<Sum>x \<in># mset xs. mset (snd x))" for xs :: "age_item list" by (induction xs) auto
  show "mset (concat (map snd items)) = mset (concat (map snd ks)) + mset (concat (map snd ds))" by (simp add: c flip: assms)
  have l: "(\<Sum>x\<leftarrow>xs. f x) = (\<Sum>x \<in># mset xs. f x)" for xs by (induction xs) auto
  show "(\<Sum>x\<leftarrow>items. f x) = (\<Sum>x\<leftarrow>ks. f x) + (\<Sum>x\<leftarrow>ds. f x)" by (simp add: l flip: assms)
  show "set items = set ks \<union> set ds" using arg_cong [OF assms, of set_mset] by simp
qed

lemma kept_enough:
  assumes "mset ks + mset ds = mset items" "\<forall>x \<in> set items. item_ok x" "0 < d" "0 < need" "(\<Sum>x\<leftarrow>ds. item_weight d x) \<le> nat cols - 1" "0 < cols"
    and cols: "cols = (\<Sum>x\<leftarrow>items. fst (fst x) div d) - need div d + (if need mod d \<noteq> 0 then 0 else 1)"
  shows "need \<le> vsum (concat (map snd ks))"
proof -
  note sp = split_sums [OF assms(1)]
  have ok: "\<forall>x \<in> set ks. item_ok x" "\<forall>x \<in> set ds. item_ok x" using assms(2) sp(3) by auto
  have "(\<Sum>x\<leftarrow>ds. fst (fst x) div d) = int (\<Sum>x\<leftarrow>ds. item_weight d x)"
    using ok(2) item_ok_nonneg assms(3) by (induction ds) (auto simp: item_weight_def pos_imp_zdiv_nonneg_iff)
  then have "(\<Sum>x\<leftarrow>ds. fst (fst x) div d) \<le> cols - 1" using assms(5,6) by linarith
  then have "need div d + (if need mod d \<noteq> 0 then 1 else 0) \<le> (\<Sum>x\<leftarrow>ks. fst (fst x) div d)" using sp(2) [of "\<lambda>x. fst (fst x) div d"] cols by (auto split: if_splits)
  then have "(need div d + (if need mod d \<noteq> 0 then 1 else 0)) * d \<le> vsum (concat (map snd ks))"
    using isum_bounds(2,3) [OF ok(1) assms(3)] mult_right_mono [of _ "(\<Sum>x\<leftarrow>ks. fst (fst x) div d)" d] assms(3) by (smt (verit))
  moreover have "need \<le> (need div d + (if need mod d \<noteq> 0 then 1 else 0)) * d"
  proof -
    define q r where "q = need div d" and "r = need mod d"
    have "need = q * d + r" "r < d" using pos_mod_bound [OF assms(3), of need] by (simp_all add: q_def r_def)
    then have "need \<le> (q + (if r \<noteq> 0 then 1 else 0)) * d" by (simp add: distrib_right)
    then show ?thesis unfolding q_def r_def .
  qed
  ultimately show ?thesis by linarith
qed

lemma age_knapsack_ok:
  assumes ok: "\<forall>x \<in> set items. item_ok x" "nonneg_coins P" "nonneg_coins rs" "0 < d" and T: "vsum P < T" "T \<le> MAX_MONEY"
    and m: "vsum P + vsum (concat (map snd items)) \<le> MAX_MONEY" "vsum P + vsum rs \<le> MAX_MONEY"
    and tot: "tot = (\<Sum>x\<leftarrow>items. fst (fst x) div d)"
    and c: "items \<noteq> [] \<and> (T - vsum P) div d < tot \<or> items = [] \<and> rest = Some rs \<and> T - vsum P < d \<and> T \<le> vsum P + vsum rs"
  shows "\<exists>Q. age_knapsack T d items tot (snd ` set P) (vsum P) rest = Some (True, snd ` set Q, vsum Q) \<and>
    mset Q \<subseteq># mset P + mset (concat (map snd items)) + mset rs \<and> T \<le> vsum Q"
proof -
  let ?need = "T - vsum P"
  note b = isum_bounds [OF ok(1,4)]
  have n: "0 \<le> vsum P" using ok(2) by (rule vsum_nonneg)
  have i: "i64 ?need = ?need" using T n by (intro i64_id) (auto simp: in_i64_def)
  have dv: "cdiv ?need d = ?need div d" "?need - cdiv ?need d * d = ?need mod d" using T(1) ok(4) by (simp_all add: minus_div_mult_eq_mod)
  have "0 \<le> ?need div d" "?need div d \<le> ?need" using idiv_bounds [of ?need d] T(1) ok(4) by auto
  then have "in_i64 (tot - ?need div d)" using b(1,3,5) T(2) n m(1) unfolding tot in_i64_def by auto
  then have cols: "dp_columns T d tot (vsum P) = tot - ?need div d + (if ?need mod d \<noteq> 0 then 0 else 1)"
    unfolding dp_columns_def Let_def i unfolding dv(2) unfolding dv(1) by simp
  show ?thesis
  proof (cases "items = []")
    case True
    then have "?need div d = 0" "?need mod d \<noteq> 0" using c T(1) by auto
    then have "age_knapsack T d items tot (snd ` set P) (vsum P) rest = Some (True, add_small T rs (snd ` set P) (vsum P))"
      using True c T(1) tot cols by (simp add: age_knapsack_def)
    then show ?thesis using add_small_ok [OF ok(2,3) m(2), of T] c True by auto
  next
    case False
    define cs where "cs = dp_columns T d tot (vsum P)"
    let ?es = "rev (zip items (dp_table (nat cs) d items (replicate (nat cs) 0)))"
    have pos: "0 < cs" using False c by (simp add: cs_def cols)
    obtain ks ds where s: "split_trace ?es (nat cs - 1) = (ks, ds)" by force
    have es: "mset (map fst ?es) = mset items" "set (map fst ?es) = set items" using dp_table_ok(1) [of "nat cs" d items] by (simp_all flip: rev_map)
    have sp: "mset ks + mset ds = mset items" "(\<Sum>x\<leftarrow>ds. item_weight d x) \<le> nat cs - 1"
      using split_trace_ok [OF s, of "nat cs" d] dp_table_ok(2) [of items "nat cs" d] pos es(1) by auto
    have e: "(\<Sum>x\<leftarrow>map fst ?es. fst (fst x)) = (\<Sum>x\<leftarrow>items. fst (fst x))" using split_sums(2) [of "map fst ?es" "[]" items] es(1) by simp
    have tr: "trace_optimum ?es (nat cs - 1) (snd ` set P) (vsum P) = (snd ` set (P @ concat (map snd ks)), vsum (P @ concat (map snd ks)))"
    proof (rule trace_optimum_split [OF s _ ok(2)])
      show "\<forall>x \<in> set (map fst ?es). item_ok x" using ok(1) unfolding es(2) .
      show "vsum P + (\<Sum>x\<leftarrow>map fst ?es. fst (fst x)) \<le> MAX_MONEY" using m(1) unfolding e b(3) .
    qed
    have "?need \<le> vsum (concat (map snd ks))" using kept_enough [OF sp(1) ok(1,4) _ sp(2) pos] T(1) cols tot by (simp add: cs_def)
    then have "T \<le> vsum (P @ concat (map snd ks))" by simp
    moreover have "mset (P @ concat (map snd ks)) \<subseteq># mset P + mset (concat (map snd items)) + mset rs" using split_sums(1) [OF sp(1)] by simp
    ultimately show ?thesis using tr pos by (intro exI [of _ "P @ concat (map snd ks)"]) (simp add: age_knapsack_def flip: cs_def)
  qed
qed

lemma vsum_parts:
  assumes "mset xs + mset ys = mset zs"
  shows "vsum xs + vsum ys = vsum zs" "nonneg_coins zs \<longleftrightarrow> nonneg_coins xs \<and> nonneg_coins ys"
proof -
  have l: "vsum cs = (\<Sum>c \<in># mset cs. coin_value c)" for cs by (induction cs) auto
  show "vsum xs + vsum ys = vsum zs" by (simp add: l flip: assms)
  show "nonneg_coins zs \<longleftrightarrow> nonneg_coins xs \<and> nonneg_coins ys"
    using arg_cong [OF assms, of set_mset] by (auto simp: nonneg_coins_def)
qed

lemma age_bundled_ok:
  assumes vs: "nonneg_coins vs" "vsum vs \<le> MAX_MONEY" and T: "0 < T" "T \<le> vsum vs" and d: "0 < d"
  shows "\<exists>Q. age_bundled T d vs = Some (True, snd ` set Q, vsum Q) \<and> mset Q \<subseteq># mset vs \<and> T \<le> vsum Q"
proof -
  let ?big = "filter (\<lambda>c. coin_value c \<ge> d) vs" and ?small = "filter (\<lambda>c. coin_value c < d) vs"
  obtain bs rest where mb: "make_bundles d ?small (0, 0) [] = (bs, rest)" by force
  define items where "items = map single ?big @ bs"
  let ?all = "concat (map snd items)" and ?tot = "\<Sum>x\<leftarrow>items. fst (fst x) div d"
  have p: "mset ?big + mset ?small = mset vs" using multiset_partition [of "mset vs" "\<lambda>c. coin_value c \<ge> d"] by (simp add: not_le)
  have nb: "nonneg_coins ?big" "nonneg_coins ?small" "vsum ?small \<le> MAX_MONEY" using vsum_parts [OF p] vs vsum_nonneg [of ?big] by auto
  have b: "mset (concat (map snd bs)) + mset rest = mset ?small" "\<forall>x \<in> set bs. item_ok x" "vsum rest < d"
    using make_bundles_ok [of d ?small "[]" 0 bs rest] mb d nb by auto
  have "concat (map snd (map single cs)) = cs" for cs by (induction cs) (auto simp: single_def)
  then have all: "mset ?all + mset rest = mset vs" using p b(1) by (simp add: items_def add.assoc)
  have ok: "\<forall>x \<in> set items. item_ok x" using b(2) d by (simp add: items_def ball_Un)
  note v = vsum_parts [OF all]
  have n: "nonneg_coins rest" "0 \<le> vsum rest" "vsum ?all \<le> MAX_MONEY" "vsum rest \<le> MAX_MONEY" using v vs vsum_nonneg [of rest] vsum_nonneg [of ?all] by auto
  have tot: "items_total d items = ?tot" using items_total_sum [OF ok d n(3)] .
  have TM: "T \<le> MAX_MONEY" using T(2) vs(2) by linarith
  have dv: "cdiv T d = T div d" using T(1) d by simp
  show ?thesis
  proof (cases "T div d \<ge> ?tot")
    case False
    then have "items \<noteq> []" using idiv_bounds(1) [of T d] T(1) d by auto
    then obtain Q where "age_knapsack T d items ?tot {} 0 (Some rest) = Some (True, snd ` set Q, vsum Q)" "mset Q \<subseteq># mset ?all + mset rest" "T \<le> vsum Q"
      using age_knapsack_ok [OF ok _ n(1) d, of "[]" T ?tot "Some rest"] False T(1) TM n(3,4) by auto
    then show ?thesis using False mb all tot dv by (auto simp: age_bundled_def Let_def items_def [symmetric])
  next
    case True
    obtain items1 tot1 S w where pk: "prepick T d items ?tot {} 0 = (items1, tot1, S, w)" by (metis prod_cases4)
    then obtain Q0 where q: "S = snd ` set Q0" "w = vsum Q0" "mset Q0 + mset (concat (map snd items1)) = mset ?all" "nonneg_coins Q0"
      "set items1 \<subseteq> set items" "tot1 = (\<Sum>x\<leftarrow>items1. fst (fst x) div d)" "items1 = [] \<or> cdiv (T - w) d < tot1"
      using prepick_ok [of T d items "[]" items1 tot1 S w] ok d T(1) TM n(3) by auto
    have e: "age_bundled T d vs = (if w \<ge> T then Some (True, S, w) else age_knapsack T d items1 tot1 S w (Some rest))"
      using True pk mb tot dv by (simp add: age_bundled_def Let_def items_def [symmetric])
    have sub: "mset Q0 \<subseteq># mset vs" unfolding all [symmetric] q(3) [symmetric] by simp
    show ?thesis
    proof (cases "w \<ge> T")
      case False
      note v1 = vsum_parts [OF q(3)]
      have n1: "0 \<le> vsum (concat (map snd items1))" using isum_bounds(4) [of items1 d] ok q(5) d vsum_nonneg by blast
      have c: "items1 \<noteq> [] \<and> (T - vsum Q0) div d < tot1 \<or> items1 = [] \<and> Some rest = Some rest \<and> T - vsum Q0 < d \<and> T \<le> vsum Q0 + vsum rest"
        using q(2,7) False d v(1) v1(1) T(2) b(3) by (cases "items1 = []") auto
      obtain Q where "age_knapsack T d items1 tot1 S w (Some rest) = Some (True, snd ` set Q, vsum Q)"
        "mset Q \<subseteq># mset Q0 + mset (concat (map snd items1)) + mset rest" "T \<le> vsum Q"
        using age_knapsack_ok [OF _ q(4) n(1) d _ TM _ _ q(6) c] False q(1,2,5) ok v1(1) v(1) n n1 vs(2) by auto
      then show ?thesis using e False all q(3) by auto
    qed (use e q(1,2) sub in auto)
  qed
qed

lemma age_choose_ok:
  assumes vs: "vs \<noteq> []" "nonneg_coins vs" "vsum vs \<le> MAX_MONEY" and T: "0 < T" "T \<le> vsum vs"
  shows "\<exists>Q. age_choose T vs = Some (True, snd ` set Q, vsum Q) \<and> mset Q \<subseteq># mset vs \<and> T \<le> vsum Q"
proof -
  note tot = age_total_sum [OF vs]
  obtain g d where gd: "age_denom T vs (vsum vs) = (g, d)" by force
  note g = age_denom_ok [OF vs(1,2) T(1) gd]
  have ch: "age_choose T vs = (if vsum vs = T then Some (True, snd ` set vs, vsum vs) else if d \<noteq> g then age_bundled T d vs
      else age_knapsack T d (map single vs) (cdiv (vsum vs) d) {} 0 None)"
    using vs(1) gd tot by (simp add: age_choose_def)
  consider "vsum vs = T" | "d \<noteq> g" "vsum vs \<noteq> T" | "d = g" "T < vsum vs" using T(2) by linarith
  then show ?thesis
  proof cases
    case 1
    then show ?thesis using ch by (intro exI [of _ vs]) simp
  next
    case 2
    then show ?thesis using ch age_bundled_ok [OF vs(2,3) T, of d] g(1,2) by auto
  next
    case 3
    have ok: "\<forall>x \<in> set (map single vs). item_ok x" using vs(2) by (auto simp: nonneg_coins_def)
    have m: "(\<Sum>x\<leftarrow>map single vs. fst (fst x) div g) * g = vsum vs" using g(3) by (induction vs) (auto simp: single_def distrib_right)
    have "vsum vs div g = (\<Sum>x\<leftarrow>map single vs. fst (fst x) div g)" using g(1) unfolding m [symmetric] by simp
    then have t: "cdiv (vsum vs) d = (\<Sum>x\<leftarrow>map single vs. fst (fst x) div d)" using g(1) 3 T by simp
    obtain k where k: "T = g * k" using g(4) by blast
    have "k * g < (\<Sum>x\<leftarrow>map single vs. fst (fst x) div g) * g" using 3(2) k m by (simp add: mult.commute)
    then have "T div d < cdiv (vsum vs) d" using g(1) k t 3(1) by simp
    moreover have c: "concat (map snd (map single vs)) = vs" by (induction vs) (auto simp: single_def)
    ultimately obtain Q where "age_knapsack T d (map single vs) (cdiv (vsum vs) d) {} 0 None = Some (True, snd ` set Q, vsum Q)" "mset Q \<subseteq># mset vs" "T \<le> vsum Q"
      using age_knapsack_ok [OF ok, of "[]" "[]" d T "cdiv (vsum vs) d" None] t vs g(1) 3 T by auto
    then show ?thesis using ch 3 by auto
  qed
qed

section \<open>The selection by age meets the contract\<close>

definition age_coin_of :: "COutput \<times> u64 \<Rightarrow> age_coin" where
  "age_coin_of e = ((fst (coin_of (fst e)), snd e), snd (coin_of (fst e)))"

definition plain_coin :: "age_coin \<Rightarrow> int \<times> coin_ref" where
  "plain_coin c = (coin_value c, snd c)"

lemma plain_coin_age [simp]: "plain_coin (age_coin_of e) = coin_of (fst e)"
  by (simp add: plain_coin_def age_coin_of_def)

definition age_small :: "(COutput \<Rightarrow> bool) \<Rightarrow> int \<Rightarrow> COutput \<times> u64 \<Rightarrow> bool" where
  "age_small el target e \<longleftrightarrow> el (fst e) \<and> fst (coin_of (fst e)) < target + CENT"

definition age_scanned :: "(COutput \<Rightarrow> bool) \<Rightarrow> int \<Rightarrow> (COutput \<times> u64) list \<Rightarrow> age_coin list \<Rightarrow> int \<Rightarrow> age_coin option \<Rightarrow>
    age_coin list \<times> int \<times> age_coin option \<Rightarrow> bool" where
  "age_scanned el target es vs low larger q \<longleftrightarrow>
     fst q = vs @ map age_coin_of (filter (age_small el target) es) \<and>
     fst (snd q) = low + (\<Sum>e\<leftarrow>filter (age_small el target) es. fst (coin_of (fst e))) \<and>
     (snd (snd q) = None \<longrightarrow> larger = None \<and> (\<forall>e \<in> set es. el (fst e) \<longrightarrow> age_small el target e)) \<and>
     (\<forall>c. snd (snd q) = Some c \<longrightarrow> larger = Some c \<or> (\<exists>e \<in> set es. c = age_coin_of e \<and> el (fst e) \<and> target + CENT \<le> fst (coin_of (fst e))))"

lemma age_scanned_Cons:
  "age_scanned el target es vs low larger q \<Longrightarrow> \<not> el (fst e) \<Longrightarrow> age_scanned el target (e # es) vs low larger q"
  "age_scanned el target es (vs @ [age_coin_of e]) (low + fst (coin_of (fst e))) larger q \<Longrightarrow> age_small el target e \<Longrightarrow> age_scanned el target (e # es) vs low larger q"
  "age_scanned el target es vs low l q \<Longrightarrow> el (fst e) \<Longrightarrow> target + CENT \<le> fst (coin_of (fst e)) \<Longrightarrow> l \<noteq> None \<Longrightarrow> l = larger \<or> l = Some (age_coin_of e) \<Longrightarrow>
   age_scanned el target (e # es) vs low larger q"
proof -
  show "age_scanned el target es vs low larger q \<Longrightarrow> \<not> el (fst e) \<Longrightarrow> age_scanned el target (e # es) vs low larger q"
    unfolding age_scanned_def by (simp add: age_small_def)
  show "age_scanned el target es (vs @ [age_coin_of e]) (low + fst (coin_of (fst e))) larger q \<Longrightarrow> age_small el target e \<Longrightarrow> age_scanned el target (e # es) vs low larger q"
    unfolding age_scanned_def by simp blast
  show "age_scanned el target es vs low l q \<Longrightarrow> el (fst e) \<Longrightarrow> target + CENT \<le> fst (coin_of (fst e)) \<Longrightarrow> l \<noteq> None \<Longrightarrow> l = larger \<or> l = Some (age_coin_of e) \<Longrightarrow>
     age_scanned el target (e # es) vs low larger q"
    unfolding age_scanned_def by (simp add: age_small_def) (metis option.inject)
qed

lemma age_scan_sound:
  assumes "\<forall>e \<in> set es. from_me (out_tx (fst e)) \<noteq> None" "MoneyRange target" "\<forall>e \<in> set es. 0 \<le> fst (coin_of (fst e)) \<and> snd e < 2 ^ 63 - 1"
    and "0 \<le> low" "low + (\<Sum>e\<leftarrow>es. fst (coin_of (fst e))) \<le> MAX_MONEY"
  shows "\<exists>q. age_scan from_me target t c1 c2 es vs low larger = Some q \<and> age_scanned (coin_eligible from_me t c1 c2) target es vs low larger q"
  using assms
proof (induction es arbitrary: vs low larger)
  case Nil
  then show ?case by (simp add: age_scanned_def)
next
  case (Cons e es)
  obtain out cost where e: "e = (out, cost)" by force
  obtain mine where mine: "from_me (out_tx out) = Some mine" using Cons.prems(1) e by auto
  let ?n = "fst (coin_of out)" and ?el = "coin_eligible from_me t c1 c2"
  have n: "nValue (vout (out_tx out) ! out_i out) = ?n" "((?n, cost), out_hash out, out_i out) = age_coin_of e" by (simp_all add: coin_of_def age_coin_of_def e)
  have el: "?el out \<longleftrightarrow> \<not> out_nDepth out < (if mine then c1 else c2) \<and> \<not> nTime (out_tx out) > t" using mine by (auto simp: coin_eligible_def)
  have nn: "0 \<le> (\<Sum>e\<leftarrow>es. fst (coin_of (fst e)))" using Cons.prems(3) by (intro sum_list_nonneg) auto
  have b: "0 \<le> ?n" "low + ?n \<le> MAX_MONEY" "low + (\<Sum>e\<leftarrow>es. fst (coin_of (fst e))) \<le> MAX_MONEY" "cost < 2 ^ 63 - 1" using Cons.prems(3-5) nn e by auto
  have w: "i64 (target + CENT) = target + CENT" "i64 (low + ?n) = low + ?n" using Cons.prems(2,4) b by (auto intro!: i64_id simp: MoneyRange_def in_i64_def)
  note ih = Cons.IH [OF _ Cons.prems(2)]
  have h: "\<forall>e \<in> set es. from_me (out_tx (fst e)) \<noteq> None" "\<forall>e \<in> set es. 0 \<le> fst (coin_of (fst e)) \<and> snd e < 2 ^ 63 - 1" using Cons.prems(1,3) by auto
  consider "\<not> ?el out" | "?el out" "?n < target + CENT" | "?el out" "target + CENT \<le> ?n" by linarith
  then show ?case
  proof cases
    case 1
    then have "age_scan from_me target t c1 c2 (e # es) vs low larger = age_scan from_me target t c1 c2 es vs low larger" using mine el e by (auto simp: Let_def)
    then show ?thesis using ih [OF h Cons.prems(4) b(3), of vs larger] age_scanned_Cons(1) [of ?el _ _ _ _ _ _ e] 1 e by auto
  next
    case 2
    then have "age_scan from_me target t c1 c2 (e # es) vs low larger = age_scan from_me target t c1 c2 es (vs @ [age_coin_of e]) (low + ?n) larger"
      using mine el e n w by (auto simp: Let_def)
    moreover have "age_small ?el target e" using 2 by (simp add: age_small_def e)
    ultimately show ?thesis using ih [OF h, of "low + ?n" "vs @ [age_coin_of e]" larger] age_scanned_Cons(2) [of ?el target es vs e low larger] Cons.prems(4,5) b(1) e
      by (auto simp: add.assoc)
  next
    case 3
    define l where "l = (if cost < (case larger of None \<Rightarrow> 2 ^ 63 - 1 | Some c \<Rightarrow> snd (fst c)) then Some (age_coin_of e) else larger)"
    have "age_scan from_me target t c1 c2 (e # es) vs low larger = age_scan from_me target t c1 c2 es vs low l"
      using 3 mine el e n w by (auto simp: Let_def l_def)
    moreover have "l \<noteq> None" using b(4) by (cases larger) (simp_all add: l_def del: not_None_eq)
    moreover have "l = larger \<or> l = Some (age_coin_of e)" by (simp add: l_def)
    ultimately show ?thesis using ih [OF h Cons.prems(4) b(3), of vs l] age_scanned_Cons(3) [of ?el target es vs low l _ e larger] 3 e by auto
  qed
qed

lemma submset_distinct:
  assumes "mset xs \<subseteq># mset ys" "distinct ys"
  shows "distinct xs" "set xs \<subseteq> set ys"
proof -
  obtain M where "mset ys = mset xs + M" using assms(1) by (auto simp: mset_subset_eq_exists_conv)
  moreover obtain zs where "M = mset zs" by (metis ex_mset)
  ultimately have "mset ys = mset (xs @ zs)" by simp
  then have "distinct (xs @ zs)" using assms(2) by (metis mset_eq_imp_distinct_iff)
  then show "distinct xs" by simp
  show "set xs \<subseteq> set ys" using set_mset_mono [OF assms(1)] by simp
qed

lemma selection_plain:
  assumes ok: "wallet_coins_ok outs" and vs: "map plain_coin vs = map coin_of (filter P outs)" "\<forall>out. P out \<longrightarrow> coin_eligible from_me t c1 c2 out"
    and Q: "mset Q \<subseteq># mset vs" "target \<le> vsum Q"
  shows "selection_ok from_me target t c1 c2 outs (True, snd ` set Q, vsum Q)"
proof -
  let ?cs = "map plain_coin Q"
  have all: "distinct (map coin_of outs)" "coins_ok (map coin_of outs)" using ok by (auto simp: wallet_coins_ok_def distinct_map inj_on_def comp_def)
  have "distinct (map coin_of (filter P outs))" using all(1) by (rule distinct_map_filter)
  moreover have "mset ?cs \<subseteq># mset (map coin_of (filter P outs))" using image_mset_subseteq_mono [OF Q(1), of plain_coin] by (simp flip: vs(1))
  ultimately have cs: "distinct ?cs" "set ?cs \<subseteq> coin_of ` set (filter P outs)" using submset_distinct [of ?cs "map coin_of (filter P outs)"] by auto
  then have sub: "set ?cs \<subseteq> set (map coin_of outs)" "set ?cs \<subseteq> coin_of ` set (filter (coin_eligible from_me t c1 c2) outs)" using vs(2) by auto
  have e: "sum_list (map fst ?cs) = vsum Q" "snd ` set ?cs = snd ` set Q" by (simp_all add: plain_coin_def comp_def image_image)
  have "add_coins ?cs = (snd ` set Q, vsum Q)" using add_coins_sum [OF coins_ok_sub(1) [OF all(2,1) cs(1) sub(1)]] e by simp
  then show ?thesis using selection_found [OF ok cs(1) sub(2), of target] Q(2) e(1) by simp
qed

lemma ByCoinAge_ok:
  assumes E: "sel_documented E" and ok: "wallet_coins_ok vCoins" and T: "MoneyRange target" "0 < target"
    and me: "\<forall>out \<in> set vCoins. from_me (out_tx out) \<noteq> None" and cost: "\<forall>out \<in> set vCoins. CoinWeightCost B now out < 2 ^ 63 - 1"
  shows "\<exists>r. SelectCoinsMinConfByCoinAge B now E from_me target t c1 c2 vCoins = Some r \<and> selection_ok from_me target t c1 c2 vCoins r"
proof -
  let ?el = "coin_eligible from_me t c1 c2"
  define es where "es = sort_age E (map (\<lambda>out. (out, CoinWeightCost B now out)) vCoins)"
  define outs where "outs = map fst es"
  have ms: "mset es = mset (map (\<lambda>out. (out, CoinWeightCost B now out)) vCoins)" using E by (simp add: es_def sel_documented_def)
  have perm: "mset outs = mset vCoins" using arg_cong [OF ms, of "image_mset fst"] by (simp add: outs_def multiset.map_comp comp_def)
  have oko: "wallet_coins_ok outs" using ok selection_perm(1) [OF perm] by simp
  have "set es = (\<lambda>out. (out, CoinWeightCost B now out)) ` set vCoins" using arg_cong [OF ms, of set_mset] by simp
  then have se: "\<forall>e \<in> set es. from_me (out_tx (fst e)) \<noteq> None" "\<forall>e \<in> set es. snd e < 2 ^ 63 - 1" using me cost by auto
  have c: "\<forall>e \<in> set es. 0 \<le> fst (coin_of (fst e))" "(\<Sum>e\<leftarrow>es. fst (coin_of (fst e))) \<le> MAX_MONEY"
    using oko by (auto simp: wallet_coins_ok_def coins_ok_def outs_def comp_def)
  obtain q where q: "age_scan from_me target t c1 c2 es [] 0 None = Some q" "age_scanned ?el target es [] 0 None q"
    using age_scan_sound [OF se(1) T(1), of 0 t c1 c2 "[]" None] se(2) c by auto
  obtain vs low larger where q3: "q = (vs, low, larger)" by (metis prod_cases3)
  let ?P = "\<lambda>out. ?el out \<and> fst (coin_of out) < target + CENT"
  have fo: "map f (filter (age_small ?el target) es) = map g (filter ?P outs)" if "\<forall>e. f e = g (fst e)" for f :: "COutput \<times> u64 \<Rightarrow> 'b" and g
    unfolding outs_def using that by (induction es) (auto simp: age_small_def)
  have vs: "map plain_coin vs = map coin_of (filter ?P outs)" "low = (\<Sum>out\<leftarrow>filter ?P outs. fst (coin_of out))"
    using q(2) fo [of "\<lambda>e. coin_of (fst e)" coin_of] fo [of "\<lambda>e. fst (coin_of (fst e))" "\<lambda>out. fst (coin_of out)"]
    by (simp_all add: q3 age_scanned_def comp_def)
  have main: "SelectCoinsMinConfByCoinAge B now E from_me target t c1 c2 vCoins =
      (if low < target then (case larger of None \<Rightarrow> Some (False, {}, 0) | Some c \<Rightarrow> Some (True, {snd c}, coin_value c)) else age_choose target vs)"
    using q(1) by (simp add: SelectCoinsMinConfByCoinAge_def q3 flip: es_def)
  have "\<exists>r. SelectCoinsMinConfByCoinAge B now E from_me target t c1 c2 vCoins = Some r \<and> selection_ok from_me target t c1 c2 outs r"
  proof (cases "low < target")
    case True
    show ?thesis
    proof (cases larger)
      case None
      then have "\<forall>out \<in> set outs. ?el out \<longrightarrow> fst (coin_of out) < target + CENT" using q(2) by (auto simp: q3 age_scanned_def age_small_def outs_def)
      then show ?thesis using selection_none [of outs from_me t c1 c2 target] True vs(2) None main by simp
    next
      case (Some c)
      then obtain e where e: "e \<in> set es" "c = age_coin_of e" "?el (fst e)" "target + CENT \<le> fst (coin_of (fst e))" using q(2) by (auto simp: q3 age_scanned_def)
      have "selection_ok from_me target t c1 c2 outs (True, add_coins [coin_of (fst e)])" using e by (intro selection_larger [OF oko]) (auto simp: outs_def)
      moreover have "coins_ok [coin_of (fst e)]" using coins_ok_sub(1) [of "map coin_of outs" "[coin_of (fst e)]"] oko e(1)
        by (auto simp: wallet_coins_ok_def distinct_map inj_on_def comp_def outs_def)
      ultimately show ?thesis using main True Some e(2) add_coins_sum by (simp add: age_coin_of_def)
    qed
  next
    case False
    have vc: "vs = map age_coin_of (filter (age_small ?el target) es)" using q(2) by (simp add: q3 age_scanned_def)
    have n: "nonneg_coins vs" using c(1) by (auto simp: vc nonneg_coins_def age_coin_of_def)
    have sum: "vsum vs = low" using q(2) by (simp add: vc q3 age_scanned_def age_coin_of_def comp_def)
    have "low \<le> (\<Sum>e\<leftarrow>es. fst (coin_of (fst e)))" unfolding sum [symmetric] vc using c(1) by (induction es) (auto simp: age_coin_of_def)
    then obtain Q where "age_choose target vs = Some (True, snd ` set Q, vsum Q)" "mset Q \<subseteq># mset vs" "target \<le> vsum Q"
      using age_choose_ok [OF _ n, of target] T(2) False c(2) sum by fastforce
    then show ?thesis using selection_plain [OF oko vs(1)] main False by auto
  qed
  then show ?thesis using selection_perm(2) [OF perm] by simp
qed

section \<open>Optimality of the knapsack\<close>

text \<open>The greatest age that can be discarded within a weight, as a recursion over the items.\<close>

fun best_age :: "int \<Rightarrow> age_item list \<Rightarrow> nat \<Rightarrow> nat" where
  "best_age d [] j = 0"
| "best_age d (x # r) j =
     (if item_weight d x \<le> j then max (best_age d r j) (best_age d r (j - item_weight d x) + unat (snd (fst x))) else best_age d r j)"

abbreviation (input) ages :: "age_item list \<Rightarrow> nat" where "ages xs \<equiv> \<Sum>x\<leftarrow>xs. unat (snd (fst x))"

lemma best_age_le: "best_age d xs j \<le> ages xs"
proof (induction xs arbitrary: j)
  case (Cons x xs)
  show ?case using Cons.IH [of j] Cons.IH [of "j - item_weight d x"] by simp
qed simp

lemma best_age_upper: "mset ds \<subseteq># mset xs \<Longrightarrow> (\<Sum>x\<leftarrow>ds. item_weight d x) \<le> j \<Longrightarrow> ages ds \<le> best_age d xs j"
proof (induction xs arbitrary: ds j)
  case (Cons x xs)
  show ?case
  proof (cases "x \<in> set ds")
    case True
    have f: "(\<Sum>y\<leftarrow>ds. f y) = f x + (\<Sum>y\<leftarrow>remove1 x ds. f y)" for f :: "age_item \<Rightarrow> nat" using True by (rule sum_list_map_remove1)
    have w: "item_weight d x \<le> j" "(\<Sum>y\<leftarrow>remove1 x ds. item_weight d y) \<le> j - item_weight d x" using Cons.prems(2) f [of "item_weight d"] by auto
    have "mset ds = add_mset x (mset (remove1 x ds))" using True by simp
    then have "mset (remove1 x ds) \<subseteq># mset xs" using Cons.prems(1) by (metis mset.simps(2) mset_subset_eq_add_mset_cancel)
    then have "ages (remove1 x ds) \<le> best_age d xs (j - item_weight d x)" using Cons.IH w(2) by blast
    then show ?thesis using w(1) f [of "\<lambda>y. unat (snd (fst y))"] by simp
  next
    case False
    have "count (mset ds) y \<le> count (mset xs) y" for y
    proof (cases "y = x")
      case True
      then have "count (mset ds) y = 0" using False by (simp add: count_eq_zero_iff)
      then show ?thesis by linarith
    qed (use mset_subset_eq_count [OF Cons.prems(1), of y] in simp)
    then have "mset ds \<subseteq># mset xs" by (simp add: subseteq_mset_def)
    then have "ages ds \<le> best_age d xs j" using Cons.IH Cons.prems(2) by blast
    then show ?thesis by (auto intro: max.coboundedI1)
  qed
qed simp

text \<open>The last row of \<open>M\<close>.\<close>

definition dp_last :: "nat \<Rightarrow> int \<Rightarrow> age_item list \<Rightarrow> u64 list \<Rightarrow> u64 list" where
  "dp_last cols d items prev = fold (\<lambda>x prev. map fst (dp_row cols (item_weight d x) (snd (fst x)) prev)) items prev"

lemma dp_table_snoc:
  "dp_table cols d (xs @ [x]) prev = dp_table cols d xs prev @ [map snd (dp_row cols (item_weight d x) (snd (fst x)) (dp_last cols d xs prev))]"
  by (induction xs arbitrary: prev) (simp_all add: dp_last_def Let_def)

lemma unat_step: "unat a + unat b < 2 ^ 64 \<Longrightarrow> unat (a + b :: u64) = unat a + unat b"
  by (simp add: unat_word_ariths)

lemma dp_last_best:
  assumes "ages xs < 2 ^ 64" "j < cols"
  shows "unat (dp_last cols d xs (replicate cols 0) ! j) = best_age d (rev xs) j"
  using assms
proof (induction xs arbitrary: j rule: rev_induct)
  case (snoc x xs)
  let ?prev = "dp_last cols d xs (replicate cols 0)" and ?w = "item_weight d x" and ?c = "snd (fst x)"
  have ih: "unat (?prev ! i) = best_age d (rev xs) i" if "i < cols" for i using snoc that by simp
  have "unat (?prev ! i) + unat ?c < 2 ^ 64" if "i < cols" for i
    using ih [OF that] best_age_le [of d "rev xs" i] snoc.prems(1) by (simp add: rev_map sum_list_rev flip: rev_map)
  then have st: "unat (?prev ! (j - ?w) + ?c) = best_age d (rev xs) (j - ?w) + unat ?c" using unat_step ih snoc.prems(2) by simp
  have "dp_last cols d (xs @ [x]) (replicate cols 0) ! j = fst (dp_row cols ?w ?c ?prev ! j)" using snoc.prems(2) dp_row_nth(1) by (simp add: dp_last_def)
  also have "\<dots> = (if ?w \<le> j then if ?prev ! j \<ge> ?prev ! (j - ?w) + ?c then ?prev ! j else ?prev ! (j - ?w) + ?c else ?prev ! j)"
    using dp_row_nth(2) [OF snoc.prems(2)] by simp
  finally show ?case using st ih [OF snoc.prems(2)] by (auto simp: word_le_nat_alt)
qed (simp add: dp_last_def)

lemma split_trace_best:
  assumes "split_trace (rev (zip xs (dp_table cols d xs (replicate cols 0)))) p = (ks, ds)" "p < cols" "ages xs < 2 ^ 64" "\<forall>x \<in> set xs. 0 < item_weight d x"
  shows "ages ds = best_age d (rev xs) p"
  using assms
proof (induction xs arbitrary: p ks ds rule: rev_induct)
  case (snoc x xs)
  let ?prev = "dp_last cols d xs (replicate cols 0)" and ?w = "item_weight d x" and ?c = "snd (fst x)"
  let ?b = "map snd (dp_row cols ?w ?c ?prev)"
  let ?r = "rev (zip xs (dp_table cols d xs (replicate cols 0)))"
  have e: "rev (zip (xs @ [x]) (dp_table cols d (xs @ [x]) (replicate cols 0))) = (x, ?b) # ?r"
    using dp_table_ok(1) [of cols d xs] by (simp add: dp_table_snoc zip_append)
  have b: "?b ! p = (if ?w \<le> p then if ?prev ! p \<ge> ?prev ! (p - ?w) + ?c then p else p - ?w else p)"
    using snoc.prems(2) dp_row_nth(1) [of cols ?w ?c ?prev] dp_row_nth(2) [OF snoc.prems(2), of ?w ?c ?prev] by simp
  have a: "ages xs < 2 ^ 64" "0 < ?w" "\<forall>x \<in> set xs. 0 < item_weight d x" using snoc.prems(3,4) by auto
  have m: "unat (?prev ! i) = best_age d (rev xs) i" if "i < cols" for i using dp_last_best [OF a(1) that] .
  have "unat (?prev ! i) + unat ?c < 2 ^ 64" if "i < cols" for i
    using m [OF that] best_age_le [of d "rev xs" i] snoc.prems(3) by (simp add: rev_map sum_list_rev flip: rev_map)
  then have st: "unat (?prev ! (p - ?w) + ?c) = best_age d (rev xs) (p - ?w) + unat ?c" using unat_step m snoc.prems(2) by simp
  obtain ks1 ds1 where s: "split_trace ?r (?b ! p) = (ks1, ds1)" by force
  have "?b ! p < cols" using b snoc.prems(2) by auto
  then have ih: "ages ds1 = best_age d (rev xs) (?b ! p)" using snoc.IH [OF s _ a(1,3)] by simp
  have ds: "ds = (if p = ?b ! p then ds1 else x # ds1)" using snoc.prems(1) s unfolding e by (auto split: if_splits)
  show ?case using ih ds b st m [OF snoc.prems(2)] a(2) by (auto simp: word_le_nat_alt split: if_splits)
qed simp

section \<open>The size of the matrices\<close>

text \<open>The divisor is at least a twenty-fifth of the surplus per coin, so the matrices have at most 51 columns whatever the amounts, unless the
  product of the number of coins and the surplus overflows.\<close>

lemma coin_age_columns:
  assumes vs: "vs \<noteq> []" "nonneg_coins vs" "vsum vs \<le> MAX_MONEY" and T: "vsum P < T" "T < vsum vs" "nonneg_coins P"
    and fits: "int (length vs) * (vsum vs - T) < 2 ^ 63" and gd: "age_denom T vs (vsum vs) = (g, d)"
    and items: "\<forall>x \<in> set items. item_ok x" "vsum P + vsum (concat (map snd items)) \<le> vsum vs"
  shows "dp_columns T d (\<Sum>x\<leftarrow>items. fst (fst x) div d) (vsum P) \<le> 51"
proof -
  let ?D = "vsum vs - T" and ?need = "T - vsum P" and ?tot = "\<Sum>x\<leftarrow>items. fst (fst x) div d"
  have n: "0 \<le> vsum P" using T(3) by (rule vsum_nonneg)
  have T0: "0 < T" using n T(1) by linarith
  note g = age_denom_ok [OF vs(1,2) T0 gd]
  have d: "0 < d" using g(1,2) by linarith
  have len: "1 \<le> int (length vs)" using vs(1) by (cases vs) auto
  then have big: "?D \<le> int (length vs) * ?D" using T(2) mult_right_mono [of 1 "int (length vs)" ?D] by simp
  have "i64 (int (length vs) * ?D) = int (length vs) * ?D" using fits big T(2) by (intro i64_id) (unfold in_i64_def, linarith)
  then have "int (length vs) * ?D div 25 \<le> d" using gd big T(2) by (auto simp: age_denom_def Let_def split: if_splits)
  then have D: "?D < 50 * d" using big d by linarith
  define q where "q = ?need div d"
  have need: "?need < (q + 1) * d" using div_mult_mod_eq [of ?need d] pos_mod_bound [OF d, of ?need] unfolding q_def distrib_right by linarith
  have "?tot * d \<le> vsum vs - vsum P" using isum_bounds(2,3) [OF items(1) d] items(2) by linarith
  then have "(?tot - q) * d < 51 * d" using need D by (simp add: algebra_simps)
  then have le: "?tot - q \<le> 50" using d by (simp add: mult_less_cancel_right)
  have i: "i64 ?need = ?need" using T vs(3) n by (intro i64_id) (simp add: in_i64_def)
  have q: "0 \<le> q" "q \<le> ?need" using idiv_bounds [of ?need d] T(1) d by (auto simp: q_def)
  have "i64 (?tot - q) = ?tot - q" using isum_bounds(1) [OF items(1) d] le q T vs(3) n by (intro i64_id) (simp add: in_i64_def)
  then show ?thesis using le T(1) d i by (simp add: dp_columns_def Let_def flip: q_def)
qed

section \<open>The contract of a selection\<close>

lemma selection_weaken:
  assumes "wallet_coins_ok vCoins" "selection_ok from_me target t c1 c2 vCoins (True, r)" "d1 \<le> c1" "d2 \<le> c2"
  shows "selection_ok from_me target t d1 d2 vCoins (True, r)"
proof -
  have el: "coin_eligible from_me t c1 c2 out \<Longrightarrow> coin_eligible from_me t d1 d2 out" for out using assms(3,4) by (auto simp: coin_eligible_def split: if_splits)
  have "\<forall>out \<in> set vCoins. 0 \<le> fst (coin_of out)" using assms(1) by (auto simp: wallet_coins_ok_def coins_ok_def)
  then have "(\<Sum>out\<leftarrow>filter (coin_eligible from_me t c1 c2) vCoins. fst (coin_of out)) \<le> (\<Sum>out\<leftarrow>filter (coin_eligible from_me t d1 d2) vCoins. fst (coin_of out))"
    using el by (induction vCoins) (auto intro: add_increasing)
  then show ?thesis using assms(2) el by (auto simp: selection_ok_def comp_def split: prod.splits)
qed

text \<open>What \<open>SelectCoins\<close> relies on: with usable coins the selection answers, and its answer is right.\<close>

locale coin_selector =
  fixes select :: "'e \<Rightarrow> (CWalletTx \<Rightarrow> bool option) \<Rightarrow> int \<Rightarrow> u32 \<Rightarrow> int \<Rightarrow> int \<Rightarrow> COutput list \<Rightarrow> (bool \<times> coin_ref set \<times> int) option"
    and usable :: "'e \<Rightarrow> COutput list \<Rightarrow> bool"
  assumes selects: "usable e vCoins \<Longrightarrow> wallet_coins_ok vCoins \<Longrightarrow> MoneyRange target \<Longrightarrow> 0 < target \<Longrightarrow> \<forall>out \<in> set vCoins. from_me (out_tx out) \<noteq> None \<Longrightarrow>
    \<exists>r. select e from_me target t c1 c2 vCoins = Some r \<and> selection_ok from_me target t c1 c2 vCoins r"
begin

lemma attempts:
  assumes "\<forall>k. usable (e k) vCoins" "wallet_coins_ok vCoins" "MoneyRange target" "0 < target" "\<forall>out \<in> set vCoins. from_me (out_tx out) \<noteq> None"
  shows "\<exists>r. three_attempts (\<lambda>k c1 c2. select (e k) from_me target t c1 c2 vCoins) = Some r \<and> selection_ok from_me target t 0 1 vCoins r"
proof -
  have s: "\<exists>r. select (e k) from_me target t c1 c2 vCoins = Some r \<and> selection_ok from_me target t c1 c2 vCoins r" for k c1 c2
    using selects assms by blast
  obtain b1 r1 where 1: "select (e 0) from_me target t 1 10 vCoins = Some (b1, r1)" "selection_ok from_me target t 1 10 vCoins (b1, r1)" using s [of 0 1 10] by auto
  obtain b2 r2 where 2: "select (e 1) from_me target t 1 1 vCoins = Some (b2, r2)" "selection_ok from_me target t 1 1 vCoins (b2, r2)" using s [of 1 1 1] by auto
  obtain r3 where 3: "select (e 2) from_me target t 0 1 vCoins = Some r3" "selection_ok from_me target t 0 1 vCoins r3" using s [of 2 0 1] by auto
  have "selection_ok from_me target t 0 1 vCoins (True, r1)" if b1 using selection_weaken [OF assms(2) _ _ _] 1(2) that by auto
  moreover have "selection_ok from_me target t 0 1 vCoins (True, r2)" if b2 using selection_weaken [OF assms(2) _ _ _] 2(2) that by auto
  ultimately show ?thesis using 1(1) 2(1) 3 by (cases b1; cases b2) (auto simp: three_attempts_def)
qed

end

interpretation by_value: coin_selector SelectCoinsMinConf "\<lambda>E vCoins. sel_documented E"
proof unfold_locales
  fix E vCoins target from_me t c1 c2
  assume h: "sel_documented E" "wallet_coins_ok vCoins" "MoneyRange target" "0 < target" "\<forall>out \<in> set vCoins. from_me (out_tx out) \<noteq> (None :: bool option)"
  then show "\<exists>r. SelectCoinsMinConf E from_me target t c1 c2 vCoins = Some r \<and> selection_ok from_me target t c1 c2 vCoins r"
    using SelectCoinsMinConf_total SelectCoinsMinConf_ok by blast
qed

definition ages_small :: "bn_lib \<Rightarrow> int \<Rightarrow> COutput list \<Rightarrow> bool" where
  "ages_small B now vCoins \<longleftrightarrow> (\<forall>out \<in> set vCoins. CoinWeightCost B now out < 2 ^ 63 - 1)"

interpretation by_age: coin_selector "\<lambda>(B, now, E). SelectCoinsMinConfByCoinAge B now E" "\<lambda>(B, now, E) vCoins. sel_documented E \<and> ages_small B now vCoins"
proof unfold_locales
  fix e vCoins target from_me t c1 c2
  assume h: "(case e of (B, now, E) \<Rightarrow> \<lambda>vCoins. sel_documented E \<and> ages_small B now vCoins) vCoins" "wallet_coins_ok vCoins" "MoneyRange target" "0 < target"
    "\<forall>out \<in> set vCoins. from_me (out_tx out) \<noteq> (None :: bool option)"
  obtain B now E where "e = (B, now, E)" by (metis prod_cases3)
  then show "\<exists>r. (case e of (B, now, E) \<Rightarrow> SelectCoinsMinConfByCoinAge B now E) from_me target t c1 c2 vCoins = Some r \<and> selection_ok from_me target t c1 c2 vCoins r"
    using ByCoinAge_ok [OF _ h(2-5), of E B now t c1 c2] h(1) by (simp add: ages_small_def)
qed

lemma ages_small_old:
  assumes "mpi_documented B" "wallet_coins_ok vCoins" "\<forall>out \<in> set vCoins. uint (nTime (out_tx out)) \<le> now" "now < 2 ^ 63"
  shows "ages_small B now vCoins"
  unfolding ages_small_def
proof
  fix out assume out: "out \<in> set vCoins"
  let ?v = "nValue (vout (out_tx out) ! out_i out)" and ?w = "min (now - uint (nTime (out_tx out))) (25 * 24 * 60 * 60)"
  have "coins_ok [coin_of out]" using coins_ok_sub(1) [of "map coin_of vCoins" "[coin_of out]"] assms(2) out
    by (auto simp: wallet_coins_ok_def distinct_map inj_on_def comp_def)
  then have v: "0 \<le> ?v" "?v \<le> MAX_MONEY" by (auto simp: coins_ok_def coin_of_def)
  have "0 \<le> now - uint (nTime (out_tx out))" "now - uint (nTime (out_tx out)) \<le> now" using assms(3) out by simp_all
  moreover from this have "in_i64 (now - uint (nTime (out_tx out)))" using assms(4) unfolding in_i64_def by linarith
  ultimately have w: "0 \<le> ?w" "?w \<le> 25 * 24 * 60 * 60" "i64 (now - uint (nTime (out_tx out))) = now - uint (nTime (out_tx out))" by simp_all
  have p: "0 \<le> ?v * ?w" "?v * ?w \<le> MAX_MONEY * (25 * 24 * 60 * 60)" using v w(1,2) by (simp, intro mult_mono) auto
  let ?q = "?v * ?w div (24 * 60 * 60)"
  have q: "0 \<le> ?q" "?q \<le> 25 * MAX_MONEY" using p by (simp_all add: pos_imp_zdiv_nonneg_iff)
  have "setint64 B ?v = ?v" "setint64 B ?w = ?w" using setint64_doc [OF assms(1)] v w(1,2) by (auto simp: in_i64_def)
  then have "CoinWeightCost B now out = of_nat (nat ?q mod 2 ^ 64)"
    using p(1) q(1) w(3) get_low_doc [OF assms(1), of 8 ?q] by (simp add: CoinWeightCost_def Let_def getuint64_def)
  moreover have "nat ?q < 2 ^ 63 - 1" using q(2) by (subst nat_less_iff [OF q(1)]) simp
  ultimately show "CoinWeightCost B now out < 2 ^ 63 - 1" by (simp add: word_less_nat_alt unat_of_nat)
qed

section \<open>Properties\<close>

text \<open>C13. \<open>SelectCoins\<close>, with either selection: when the coins of the wallet are distinct, not from the future and worth at most the money supply, it
  always answers. It succeeds exactly when the coins of at least one confirmation (none for the wallet's own payments) that are not younger than the payment
  reach the target. The selected coins are then among these, the returned value is the exact sum of the selected coins, and it reaches the target, for
  all random outcomes of the three attempts.\<close>

theorem select_coins_enough:
  assumes "\<forall>k. sel_documented (E k)" "mpi_documented B" "wallet_coins_ok vCoins" "MoneyRange target" "0 < target"
    and "\<forall>out \<in> set vCoins. from_me (out_tx out) \<noteq> None" "\<forall>out \<in> set vCoins. uint (nTime (out_tx out)) \<le> now" "now < 2 ^ 63"
  shows "\<exists>b S v. SelectCoins B now E fMinimizeCoinAge from_me target t False vCoins = Some (b, S, v) \<and>
    (b \<longleftrightarrow> target \<le> (\<Sum>out\<leftarrow>filter (coin_eligible from_me t 0 1) vCoins. fst (coin_of out))) \<and>
    (b \<longrightarrow> S \<subseteq> (\<lambda>out. snd (coin_of out)) ` set (filter (coin_eligible from_me t 0 1) vCoins) \<and>
       v = (\<Sum>c \<in> {c \<in> coin_of ` set vCoins. snd c \<in> S}. fst c) \<and> target \<le> v)"
proof -
  have "\<exists>r. SelectCoins B now E fMinimizeCoinAge from_me target t False vCoins = Some r \<and> selection_ok from_me target t 0 1 vCoins r"
  proof (cases fMinimizeCoinAge)
    case True
    then show ?thesis
      using by_age.attempts [of "\<lambda>k. (B, now, E k)" vCoins target from_me t] assms ages_small_old [OF assms(2,3,7,8)] by (simp add: SelectCoins_def)
  next
    case False
    then show ?thesis using by_value.attempts [of E vCoins target from_me t] assms by (simp add: SelectCoins_def)
  qed
  then obtain b S v where "SelectCoins B now E fMinimizeCoinAge from_me target t False vCoins = Some (b, S, v)" "selection_ok from_me target t 0 1 vCoins (b, S, v)"
    by (metis prod_cases3)
  then show ?thesis unfolding selection_ok_def prod.case comp_def image_image by blast
qed

theorem select_coins_enough_witness:
  "\<exists>S v. SelectCoins (bn ssl_demo) 100000 (\<lambda>_. purse_env) True (\<lambda>_. Some False) 1200 100 False purse_coins = Some (True, S, v) \<and>
    S \<subseteq> {(9, 0), (9, 1), (9, 2)} \<and> 1200 \<le> v"
proof -
  have el: "coin_eligible (\<lambda>_. Some False) 100 0 1 out" if "out \<in> set purse_coins" for out
    using that by (auto simp: purse_coins_def coin_eligible_def purse_tx_def)
  have f: "filter (coin_eligible (\<lambda>_. Some False) 100 0 1) purse_coins = purse_coins" using el by (simp add: filter_id_conv)
  have "\<forall>k :: nat. sel_documented purse_env" "MoneyRange 1200" using purse_env_documented by (simp_all add: MoneyRange_def)
  moreover have "(\<Sum>out\<leftarrow>purse_coins. fst (coin_of out)) = 1500" "(\<lambda>out. snd (coin_of out)) ` set purse_coins = {(9, 0), (9, 1), (9, 2)}"
    "\<forall>out \<in> set purse_coins. uint (nTime (out_tx out)) \<le> 100000" by (simp_all add: purse_coins_def coin_of_def purse_tx_def)
  ultimately show ?thesis
    using select_coins_enough [of "\<lambda>_. purse_env" "bn ssl_demo" purse_coins 1200 "\<lambda>_. Some False" 100000 True 100]
      ssl_demo_documented(2) purse_coins_ok unfolding f by auto
qed

text \<open>C18. The knapsack of the selection by coin age is optimal: tracing back the matrices keeps some of the items and discards the others,
  the discarded ones fit into the columns, and no other choice of items that fits has a greater total age. So the least coin age is spent among the
  selections that leave at most this surplus, in rounded values.\<close>

theorem coin_age_optimal:
  assumes "\<forall>x \<in> set items. item_ok x" "0 < cols" "(\<Sum>x\<leftarrow>items. unat (snd (fst x))) < 2 ^ 64" "\<forall>x \<in> set items. 0 < item_weight d x"
    and "(\<Sum>x\<leftarrow>items. fst (fst x)) \<le> MAX_MONEY"
  shows "\<exists>ks ds. mset ks + mset ds = mset items \<and>
    trace_optimum (rev (zip items (dp_table cols d items (replicate cols 0)))) (cols - 1) {} 0 =
      (snd ` set (concat (map snd ks)), \<Sum>c\<leftarrow>concat (map snd ks). fst (fst c)) \<and>
    (\<Sum>x\<leftarrow>ds. item_weight d x) \<le> cols - 1 \<and>
    (\<forall>ds'. mset ds' \<subseteq># mset items \<and> (\<Sum>x\<leftarrow>ds'. item_weight d x) \<le> cols - 1 \<longrightarrow>
      (\<Sum>x\<leftarrow>ds'. unat (snd (fst x))) \<le> (\<Sum>x\<leftarrow>ds. unat (snd (fst x))))"
proof -
  let ?es = "rev (zip items (dp_table cols d items (replicate cols 0)))"
  obtain ks ds where s: "split_trace ?es (cols - 1) = (ks, ds)" by force
  have p: "cols - 1 < cols" using assms(2) by simp
  have es: "mset (map fst ?es) = mset items" "set (map fst ?es) = set items" using dp_table_ok(1) [of cols d items] by (simp_all flip: rev_map)
  have sp: "mset ks + mset ds = mset items" "(\<Sum>x\<leftarrow>ds. item_weight d x) \<le> cols - 1"
    using split_trace_ok [OF s _ p, of d] dp_table_ok(2) [of items cols d] es(1) by auto
  have e: "(\<Sum>x\<leftarrow>map fst ?es. fst (fst x)) = (\<Sum>x\<leftarrow>items. fst (fst x))" using split_sums(2) [of "map fst ?es" "[]" items] es(1) by simp
  have "trace_optimum ?es (cols - 1) (snd ` set ([] :: age_coin list)) (vsum []) = (snd ` set ([] @ concat (map snd ks)), vsum ([] @ concat (map snd ks)))"
  proof (rule trace_optimum_split [OF s])
    show "\<forall>x \<in> set (map fst ?es). item_ok x" using assms(1) unfolding es(2) .
    show "vsum [] + (\<Sum>x\<leftarrow>map fst ?es. fst (fst x)) \<le> MAX_MONEY" using assms(5) unfolding e by simp
  qed simp
  moreover have "ages ds' \<le> ages ds" if "mset ds' \<subseteq># mset items" "(\<Sum>x\<leftarrow>ds'. item_weight d x) \<le> cols - 1" for ds'
    using best_age_upper [of ds' "rev items" d "cols - 1"] split_trace_best [OF s p assms(3,4)] that by simp
  ultimately show ?thesis using sp by (intro exI [of _ ks] exI [of _ ds]) simp
qed

theorem coin_age_optimal_witness:
  "let young = ((7, 3), [((7, 3), (9, 0))]); old = ((5, 10), [((5, 10), (9, 1))]); items = [young, old] in
   \<exists>ks ds. mset ks + mset ds = mset items \<and>
    trace_optimum (rev (zip items (dp_table 6 1 items (replicate 6 0)))) 5 {} 0 = (snd ` set (concat (map snd ks)), \<Sum>c\<leftarrow>concat (map snd ks). fst (fst c)) \<and>
    (\<Sum>x\<leftarrow>ds. item_weight 1 x) \<le> 5 \<and> 10 \<le> (\<Sum>x\<leftarrow>ds. unat (snd (fst x)))"
proof -
  let ?old = "((5, 10), [((5, 10), (9, 1))]) :: age_item" and ?items = "[((7, 3), [((7, 3), (9, 0))]), ((5, 10), [((5, 10), (9, 1))])] :: age_item list"
  have "\<forall>x \<in> set ?items. item_ok x" "\<forall>x \<in> set ?items. 0 < item_weight 1 x" by (simp_all add: item_ok_def item_weight_def)
  then obtain ks ds where k: "mset ks + mset ds = mset ?items"
      "trace_optimum (rev (zip ?items (dp_table 6 1 ?items (replicate 6 0)))) (6 - 1) {} 0 = (snd ` set (concat (map snd ks)), \<Sum>c\<leftarrow>concat (map snd ks). fst (fst c))"
      "(\<Sum>x\<leftarrow>ds. item_weight 1 x) \<le> 6 - 1"
      "\<forall>ds'. mset ds' \<subseteq># mset ?items \<and> (\<Sum>x\<leftarrow>ds'. item_weight 1 x) \<le> 6 - 1 \<longrightarrow> (\<Sum>x\<leftarrow>ds'. unat (snd (fst x))) \<le> (\<Sum>x\<leftarrow>ds. unat (snd (fst x)))"
    using coin_age_optimal [of ?items 6 1] by auto
  have "mset [?old] \<subseteq># mset ?items \<and> (\<Sum>x\<leftarrow>[?old]. item_weight 1 x) \<le> 6 - 1" by (simp add: item_weight_def)
  then have "10 \<le> (\<Sum>x\<leftarrow>ds. unat (snd (fst x)))" using k(4) by fastforce
  then show ?thesis using k(1-3) unfolding Let_def by (intro exI [of _ ks] exI [of _ ds]) simp
qed

end
