(* ===== verification/Catalogue.thy ===== *)
theory Catalogue
  imports Main "HOL-Library.Multiset"
begin

text \<open>
  The translation catalogues of the graphical client (\<open>src/src/qt/locale/*.ts\<close>): the data of a Qt
  Linguist file as contexts of messages, and the checks a catalogue has to pass before it is compiled
  into the client. A text is a list of runs: ASCII runs as strings, other characters (and quotes, line
  feeds, backslashes) as Unicode code points. The catalogues themselves are the theories
  \<open>Catalogue_zh\<close>, \<open>Catalogue_ja\<close> and \<open>Catalogue_ka\<close>.
\<close>

section \<open>The data of a .ts file\<close>

datatype run = A string | U "int list"

type_synonym ts_text = "run list"

text \<open>A \<open>location\<close> element: its file name, when it has one, and its line, relative to the previous one.\<close>

type_synonym ts_location = "string option \<times> int"

text \<open>A \<open>message\<close> element: locations, the \<open>numerus\<close> attribute, source text, and the translation: one
  text, or one per \<open>numerusform\<close>.\<close>

datatype ts_message =
  Message (msg_locations: "ts_location list") (msg_numerus: bool) (msg_source: ts_text) (msg_translations: "ts_text list")

datatype ts_context = Context (ctx_name: string) (ctx_messages: "ts_message list")

section \<open>Texts\<close>

fun run_points :: "run \<Rightarrow> int list" where
  "run_points (A s) = map of_char s"
| "run_points (U cs) = cs"

definition code_points :: "ts_text \<Rightarrow> int list" where
  "code_points t = concat (map run_points t)"

text \<open>Substitution marks: a percent sign followed by a digit (\<open>QString::arg\<close>), \<open>n\<close> (the plural number)
  or a \<open>printf\<close> conversion used by the core strings.\<close>

definition ph_char :: "char \<Rightarrow> bool" where
  "ph_char d \<longleftrightarrow> d \<in> set ''123456789nsdiu''"

fun scan_placeholders :: "string \<Rightarrow> string" where
  "scan_placeholders [] = []"
| "scan_placeholders [c] = []"
| "scan_placeholders (c # d # r) =
     (if c = CHR 0x25 \<and> ph_char d then d # scan_placeholders r else scan_placeholders (d # r))"

fun run_placeholders :: "run \<Rightarrow> string" where
  "run_placeholders (A s) = scan_placeholders s"
| "run_placeholders (U cs) = []"

definition placeholders :: "ts_text \<Rightarrow> string" where
  "placeholders t = concat (map run_placeholders t)"

text \<open>Code points are written out for characters outside ASCII and for line feeds, quotes, backslashes
  and the like; none of them can be part of a mark.\<close>

definition escaped :: "int \<Rightarrow> bool" where
  "escaped c \<longleftrightarrow> c \<ge> 128 \<or> c = 0xA \<or> c = 0x22 \<or> c = 0x27 \<or> c = 0x40 \<or> c = 0x5C \<or> c = 0x60 \<or> c = 0x7B \<or> c = 0x7D"

fun run_whole :: "run \<Rightarrow> bool" where
  "run_whole (A s) \<longleftrightarrow> s \<noteq> []"
| "run_whole (U cs) \<longleftrightarrow> cs \<noteq> [] \<and> list_all escaped cs"

fun alternating :: "ts_text \<Rightarrow> bool" where
  "alternating (A s # A s' # t) = False"
| "alternating (r # t) = alternating t"
| "alternating [] = True"

definition text_ok :: "ts_text \<Rightarrow> bool" where
  "text_ok t \<longleftrightarrow> t \<noteq> [] \<and> list_all run_whole t \<and> alternating t"

section \<open>Checks on messages\<close>

fun same_bag :: "'a list \<Rightarrow> 'a list \<Rightarrow> bool" where
  "same_bag [] ys \<longleftrightarrow> ys = []"
| "same_bag (x # xs) ys \<longleftrightarrow> x \<in> set ys \<and> same_bag xs (remove1 x ys)"

text \<open>\<open>forms\<close> is the number of plural forms of the language.\<close>

definition message_ok :: "nat \<Rightarrow> ts_message \<Rightarrow> bool" where
  "message_ok forms m \<longleftrightarrow>
     text_ok (msg_source m) \<and> msg_locations m \<noteq> [] \<and>
     length (msg_translations m) = (if msg_numerus m then forms else 1) \<and>
     list_all (\<lambda>t. text_ok t \<and> same_bag (placeholders (msg_source m)) (placeholders t)) (msg_translations m)"

text \<open>For an unfinished catalogue, where a translation may still be empty: the shape of a message, and that
  a translation present keeps the substitution marks.\<close>

definition message_shape_ok :: "nat \<Rightarrow> ts_message \<Rightarrow> bool" where
  "message_shape_ok forms m \<longleftrightarrow>
     text_ok (msg_source m) \<and> msg_locations m \<noteq> [] \<and>
     length (msg_translations m) = (if msg_numerus m then forms else 1) \<and>
     list_all (\<lambda>t. t = [] \<or> text_ok t) (msg_translations m)"

definition marks_kept :: "ts_message \<Rightarrow> bool" where
  "marks_kept m \<longleftrightarrow>
     list_all (\<lambda>t. t = [] \<or> same_bag (placeholders (msg_source m)) (placeholders t)) (msg_translations m)"

text \<open>The key under which the client asks for a message.\<close>

definition key :: "ts_message \<Rightarrow> ts_text" where
  "key m = msg_source m"

definition context_ok :: "nat \<Rightarrow> ts_context \<Rightarrow> bool" where
  "context_ok forms c \<longleftrightarrow> list_all (message_ok forms) (ctx_messages c) \<and> distinct (map key (ctx_messages c))"

definition catalogue_ok :: "nat \<Rightarrow> ts_context list \<Rightarrow> bool" where
  "catalogue_ok forms cs \<longleftrightarrow> distinct (map ctx_name cs) \<and> list_all (context_ok forms) cs"

text \<open>Looking a message up by context and source text.\<close>

definition ts_lookup :: "ts_context list \<Rightarrow> string \<Rightarrow> ts_text \<Rightarrow> ts_text list option" where
  "ts_lookup cs name src =
     (case find (\<lambda>c. ctx_name c = name) cs of
        None \<Rightarrow> None
      | Some c \<Rightarrow> (case find (\<lambda>m. key m = src) (ctx_messages c) of
                    None \<Rightarrow> None | Some m \<Rightarrow> Some (msg_translations m)))"

section \<open>What the checks mean\<close>

lemma same_bag_iff: "same_bag xs ys \<longleftrightarrow> mset xs = mset ys"
proof (induction xs arbitrary: ys)
  case (Cons x xs)
  show ?case
  proof (cases "x \<in> set ys")
    case True
    then show ?thesis using Cons.IH [of "remove1 x ys"]
      by (metis add_mset_remove_trivial insert_DiffM mset.simps(2) mset_remove1 same_bag.simps(2) set_mset_mset)
  next
    case False
    then show ?thesis by (metis list.set_intros(1) same_bag.simps(2) set_mset_mset)
  qed
qed simp

text \<open>The marks found run by run are those of the whole text, read as one sequence of code points.\<close>

definition ph_code :: "int \<Rightarrow> bool" where
  "ph_code d \<longleftrightarrow> d \<in> set (map of_char ''123456789nsdiu'')"

fun scan_points :: "int list \<Rightarrow> int list" where
  "scan_points [] = []"
| "scan_points [c] = []"
| "scan_points (c # d # r) = (if c = 0x25 \<and> ph_code d then d # scan_points r else scan_points (d # r))"

lemma ph_code_of_char: "ph_code (of_char d) \<longleftrightarrow> ph_char d"
  by (simp add: ph_code_def ph_char_def flip: of_char_eq_iff [where 'a = int])

lemma percent_of_char: "(of_char c :: int) = 0x25 \<longleftrightarrow> c = CHR 0x25"
  by (simp flip: of_char_eq_iff [where 'a = int])

lemma escaped_ph: "escaped c \<Longrightarrow> c \<noteq> 0x25 \<and> \<not> ph_code c"
  by (auto simp: escaped_def ph_code_def)

lemma scan_points_skip: "c \<noteq> 0x25 \<Longrightarrow> scan_points (c # r) = scan_points r"
  by (cases r) simp_all

lemma scan_points_U: "list_all escaped cs \<Longrightarrow> scan_points (cs @ r) = scan_points r"
  by (induction cs) (simp_all add: scan_points_skip escaped_ph)

lemma scan_points_A:
  assumes "r = [] \<or> \<not> ph_code (hd r)"
  shows "scan_points (map of_char s @ r) = map of_char (scan_placeholders s) @ scan_points r"
proof (induction s rule: scan_placeholders.induct)
  case (2 c)
  then show ?case using assms by (cases r) simp_all
next
  case (3 c d s)
  then show ?case by (auto simp: ph_code_of_char percent_of_char)
qed simp

lemma placeholders_scan:
  "list_all run_whole t \<Longrightarrow> alternating t \<Longrightarrow> scan_points (code_points t) = map of_char (placeholders t)"
proof (induction t)
  case Nil
  then show ?case by (simp add: code_points_def placeholders_def)
next
  case (Cons x t)
  have alt: "alternating t" using Cons.prems(2) by (cases x; cases t; cases "hd t") simp_all
  show ?case
  proof (cases x)
    case (U cs)
    then show ?thesis using Cons alt by (simp add: code_points_def placeholders_def scan_points_U)
  next
    case (A s)
    have "code_points t = [] \<or> \<not> ph_code (hd (code_points t))"
    proof (cases t)
      case (Cons y t')
      with A Cons.prems(1,2) obtain cs where "y = U cs" "cs \<noteq> []" "escaped (hd cs)"
        by (cases y) (auto simp: list_all_iff)
      then show ?thesis using Cons escaped_ph by (simp add: code_points_def)
    qed (simp add: code_points_def)
    from scan_points_A [OF this, of s] A Cons alt show ?thesis by (simp add: code_points_def placeholders_def)
  qed
qed

definition substitutions_agree :: "ts_message \<Rightarrow> bool" where
  "substitutions_agree m \<longleftrightarrow>
     list_all (\<lambda>t. mset (scan_points (code_points t)) = mset (scan_points (code_points (msg_source m)))) (msg_translations m)"

lemma message_ok_substitutions: "message_ok forms m \<Longrightarrow> substitutions_agree m"
  by (auto simp: message_ok_def substitutions_agree_def list_all_iff text_ok_def placeholders_scan same_bag_iff)

lemma catalogue_ok_substitutions:
  "catalogue_ok forms cs \<Longrightarrow> list_all (\<lambda>c. list_all substitutions_agree (ctx_messages c)) cs"
  by (auto simp: catalogue_ok_def context_ok_def list_all_iff intro: message_ok_substitutions)

text \<open>The same for the translations that are present.\<close>

definition present_agree :: "ts_message \<Rightarrow> bool" where
  "present_agree m \<longleftrightarrow>
     list_all (\<lambda>t. t = [] \<or> mset (scan_points (code_points t)) = mset (scan_points (code_points (msg_source m)))) (msg_translations m)"

lemma present_agree_marks: "message_shape_ok forms m \<Longrightarrow> present_agree m \<longleftrightarrow> marks_kept m"
proof -
  assume ok: "message_shape_ok forms m"
  have "(t = [] \<or> mset (scan_points (code_points t)) = mset (scan_points (code_points (msg_source m)))) \<longleftrightarrow>
      (t = [] \<or> same_bag (placeholders (msg_source m)) (placeholders t))" if "t \<in> set (msg_translations m)" for t
  proof -
    have "mset (map of_char xs) = (mset (map of_char ys) :: int multiset) \<longleftrightarrow> mset xs = mset ys" for xs ys :: string
      using multiset.inj_map [OF inj_of_char [where 'a = int]] by (simp add: inj_eq)
    then show ?thesis
      using ok that by (auto simp: message_shape_ok_def list_all_iff text_ok_def placeholders_scan same_bag_iff simp del: mset_map)
  qed
  then show ?thesis unfolding present_agree_def marks_kept_def by (simp add: list_all_iff)
qed

lemma find_distinct:
  "distinct (map f xs) \<Longrightarrow> x \<in> set xs \<Longrightarrow> find (\<lambda>y. f y = f x) xs = Some x"
  by (induction xs) (auto simp: rev_image_eqI)

text \<open>Distinct checksums are a quick certificate of distinct source texts.\<close>

definition checksum :: "ts_message \<Rightarrow> int" where
  "checksum m = sum_list (code_points (key m))"

lemma distinct_checksums: "distinct (map checksum ms) \<Longrightarrow> distinct (map key ms)"
  by (auto simp: distinct_map inj_on_def checksum_def)

text \<open>Contexts and, within a context, source texts are pairwise different.\<close>

definition keys_distinct :: "ts_context list \<Rightarrow> bool" where
  "keys_distinct cs \<longleftrightarrow> distinct (map ctx_name cs) \<and> list_all (\<lambda>c. distinct (map key (ctx_messages c))) cs"

lemma catalogue_ok_keys: "catalogue_ok forms cs \<Longrightarrow> keys_distinct cs"
  by (auto simp: catalogue_ok_def context_ok_def keys_distinct_def list_all_iff)

lemma ts_lookup_found:
  assumes "keys_distinct cs" "c \<in> set cs" "m \<in> set (ctx_messages c)"
  shows "ts_lookup cs (ctx_name c) (msg_source m) = Some (msg_translations m)"
proof -
  have "find (\<lambda>d. ctx_name d = ctx_name c) cs = Some c"
    using assms(1,2) find_distinct [of ctx_name cs c] by (simp add: keys_distinct_def)
  moreover have "find (\<lambda>n. key n = key m) (ctx_messages c) = Some m"
    using assms find_distinct [of key "ctx_messages c" m] by (simp add: keys_distinct_def list_all_iff)
  ultimately show ?thesis by (simp add: ts_lookup_def key_def)
qed

lemma ts_lookup_total:
  "keys_distinct cs \<Longrightarrow> list_all (\<lambda>c. list_all (\<lambda>m.
     ts_lookup cs (ctx_name c) (msg_source m) = Some (msg_translations m)) (ctx_messages c)) cs"
  by (simp add: list_all_iff ts_lookup_found)

text \<open>What two catalogues of the same program share: contexts, locations, plural markers, sources.\<close>

definition outline :: "ts_context list \<Rightarrow> (string \<times> (ts_location list \<times> bool \<times> ts_text) list) list" where
  "outline cs = map (\<lambda>c. (ctx_name c, map (\<lambda>m. (msg_locations m, msg_numerus m, msg_source m)) (ctx_messages c))) cs"

lemma keys_distinct_outline: "outline cs = outline ds \<Longrightarrow> keys_distinct cs \<Longrightarrow> keys_distinct ds"
proof -
  assume o: "outline cs = outline ds" and d: "keys_distinct cs"
  let ?keys = "\<lambda>cs. map (map (\<lambda>m. msg_source m) \<circ> ctx_messages) cs"
  have n: "map ctx_name cs = map ctx_name ds" using arg_cong [OF o, of "map fst"] by (simp add: outline_def comp_def)
  have k: "?keys cs = ?keys ds" using arg_cong [OF o, of "map (map (\<lambda>(_, _, s). s) \<circ> snd)"] by (simp add: outline_def comp_def)
  have "list_all (\<lambda>c. distinct (map key (ctx_messages c))) cs \<longleftrightarrow> list_all distinct (?keys cs)" for cs
  proof -
    have "key = msg_source" by (simp add: fun_eq_iff key_def)
    then show ?thesis by (simp add: list_all_iff comp_def)
  qed
  then show ?thesis using d n k by (simp add: keys_distinct_def)
qed

end
