(* ===== verification/Catalogue_zh.thy ===== *)
theory Catalogue_zh
  imports Catalogue
begin

text \<open>
  The Simplified Chinese catalogue, \<open>src/src/qt/locale/bitcoin_zh_CN.ts\<close>: one definition per context (several for a
  long context), in the order of the file, and the proof that the catalogue passes the checks of
  \<open>Catalogue\<close>. The language has one plural form.
\<close>

section \<open>The messages\<close>

definition zh_AboutDialog :: "ts_message list" where
  "zh_AboutDialog = [
     Message [(Some ''../forms/aboutdialog.ui'', 14)] False [A ''About MotaCoin''] [[U [0x5173, 0x4E8E, 0x9ED1,
       0x5E01]]],
     Message [(None, 39)] False [A ''<b>MotaCoin</b> version''] [[U [0x9ED1, 0x5E01, 0x5BA2, 0x6237, 0x7AEF], A '' ''
       , U [0x7248, 0x672C]]],
     Message [(None, 41)] False [A ''Copyright '', U [0xA9], A '' 2009-14 The Bitcoin developers'', U [0xA], A
       ''Copyright '', U [0xA9], A '' 2012-14 The NovaCoin developers'', U [0xA], A ''Copyright '', U [0xA9], A
       '' 2014-20 The MotaCoin developers''] [[U [0x7248, 0x6743, 0x6240, 0x6709], A '' '', U [0xA9], A '' 2009-14 ''
       , U [0x6BD4, 0x7279, 0x5E01], A ''Bitcoin'', U [0x5F00, 0x53D1, 0x7EC4, 0xA, 0x7248, 0x6743, 0x6240, 0x6709],
       A '' '', U [0xA9], A '' 2012-14 '', U [0x65B0, 0x661F, 0x5E01], A ''Novacoin'', U [0x5F00, 0x53D1, 0x7EC4,
       0xA, 0x7248, 0x6743, 0x6240, 0x6709], A '' '', U [0xA9], A '' 2014 '', U [0x9ED1, 0x5E01], A ''MotaCoin'', U
       [0x5F00, 0x53D1, 0x7EC4]]],
     Message [(None, 15)] False [U [0xA], A ''This is experimental software.'', U [0xA, 0xA], A
       ''Distributed under the MIT/X11 software license, see the accompanying file COPYING or http://www.opensource.org/licenses/mit-license.php.''
       , U [0xA, 0xA], A
       ''This product includes software developed by the OpenSSL Project for use in the OpenSSL Toolkit (http://www.openssl.org/) and cryptographic software written by Eric Young (eay''
       , U [0x40], A ''cryptsoft.com) and UPnP software written by Thomas Bernard.''] [[U [0xA, 0x6D4B, 0x8BD5,
       0x7248, 0x8F6F, 0x4EF6, 0xA, 0xA, 0x7ECF], A ''MIT/X11'', U [0x8F6F, 0x4EF6, 0x6388, 0x6743, 0x53D1, 0x5E03],
       A '', '', U [0x5177, 0x4F53, 0x53C2, 0x89C1], A ''http://www.opensource.org/licenses/mit-license.php.'', U
       [0xA, 0xA, 0x672C, 0x4EA7, 0x54C1, 0x5305, 0x62EC, 0x7531], A ''OpenSSL Project (http://www.openssl.org/)'', U
       [0x5F00, 0x53D1, 0x7684], A ''OpenSSL'', U [0x5DE5, 0x5177, 0x5305], A '' '', U [0xFF0C, 0x7531], A
       '' Eric Young (eay'', U [0x40], A ''cryptsoft.com) '', U [0x64B0, 0x5199, 0x7684, 0x5BC6, 0x7801, 0x5B66,
       0x8F6F, 0x4EF6, 0x4EE5, 0x53CA, 0x7531], A '' Thomas Bernard '', U [0x64B0, 0x5199, 0x7684], A ''UPnP'', U
       [0x8F6F, 0x4EF6], A ''.'']]]"

definition zh_AddressBookPage :: "ts_message list" where
  "zh_AddressBookPage = [
     Message [(Some ''../forms/addressbookpage.ui'', 14)] False [A ''Address Book''] [[U [0x5730, 0x5740, 0x7C3F]]],
     Message [(None, 22)] False [A ''Double-click to edit address or label''] [[U [0x53CC, 0x51FB, 0x7F16, 0x8F91,
       0x5730, 0x5740, 0x6216, 0x6807, 0x7B7E]]],
     Message [(None, 27)] False [A ''Create a new address''] [[U [0x521B, 0x5EFA, 0x65B0, 0x5730, 0x5740]]],
     Message [(None, 14)] False [A ''Copy the currently selected address to the system clipboard''] [[U [0x590D,
       0x5236, 0x5F53, 0x524D, 0x9009, 0x4E2D, 0x7684, 0x5730, 0x5740, 0x5230, 0x7CFB, 0x7EDF, 0x526A, 0x8D34,
       0x677F]]],
     Message [(None, -11)] False [A ''&New''] [[U [0x65B0, 0x5EFA, 0x5730, 0x5740], A ''(&N)'']],
     Message [(None, -46)] False [A
       ''These are your MotaCoin addresses for receiving payments. You may want to give a different one to each sender so you can keep track of who is paying you.''
       ] [[U [0x8FD9, 0x662F, 0x60A8, 0x7528, 0x6765, 0x63A5, 0x6536, 0x652F, 0x4ED8, 0x7684, 0x9ED1, 0x5E01, 0x5730,
       0x5740, 0x5217, 0x8868, 0x3002, 0x4E3A, 0x4E0D, 0x540C, 0x7684, 0x652F, 0x4ED8, 0x65B9, 0x5EFA, 0x7ACB,
       0x4E0D, 0x540C, 0x7684, 0x5730, 0x5740, 0x4EE5, 0x4FBF, 0x4E8E, 0x4E86, 0x89E3, 0x652F, 0x4ED8, 0x6765,
       0x6E90, 0x3002]]],
     Message [(None, 60)] False [A ''&Copy Address''] [[U [0x590D, 0x5236, 0x5730, 0x5740], A ''(&C)'']],
     Message [(None, 11)] False [A ''Show &QR Code''] [[U [0x663E, 0x793A, 0x4E8C, 0x7EF4, 0x7801], A ''(&Q)'']],
     Message [(None, 11)] False [A ''Sign a message to prove you own a MotaCoin address''] [[U [0x5BF9, 0x4FE1,
       0x606F, 0x8FDB, 0x884C, 0x7B7E, 0x540D, 0x4EE5, 0x8BC1, 0x660E, 0x60A8, 0x5BF9, 0x8BE5, 0x9ED1, 0x5E01,
       0x5730, 0x5740, 0x7684, 0x6240, 0x6709, 0x6743]]],
     Message [(None, 3)] False [A ''Sign &Message''] [[U [0x7B7E, 0x540D], A ''(&M)'']],
     Message [(None, 25)] False [A ''Delete the currently selected address from the list''] [[U [0x4ECE, 0x5217,
       0x8868, 0x4E2D, 0x5220, 0x9664, 0x9009, 0x4E2D, 0x7684, 0x5730, 0x5740]]],
     Message [(None, -14)] False [A ''Verify a message to ensure it was signed with a specified MotaCoin address'']
       [[U [0x9A8C, 0x8BC1, 0x4FE1, 0x606F, 0x4EE5, 0x4FDD, 0x8BC1, 0x5176, 0x7ECF, 0x8FC7, 0x6307, 0x5B9A, 0x9ED1,
       0x5E01, 0x5730, 0x5740, 0x7684, 0x7B7E, 0x540D]]],
     Message [(None, 3)] False [A ''&Verify Message''] [[U [0x9A8C, 0x8BC1, 0x6D88, 0x606F], A ''(&V)'']],
     Message [(None, 14)] False [A ''&Delete''] [[U [0x5220, 0x9664], A ''(&D)'']],
     Message [(Some ''../addressbookpage.cpp'', 65)] False [A ''Copy &Label''] [[U [0x590D, 0x5236, 0x6807, 0x7B7E],
       A ''(&L)'']],
     Message [(None, 2)] False [A ''&Edit''] [[U [0x7F16, 0x8F91], A ''(&E)'']],
     Message [(None, 250)] False [A ''Export Address Book Data''] [[U [0x5BFC, 0x51FA, 0x5730, 0x5740, 0x7C3F,
       0x6570, 0x636E]]],
     Message [(None, 1)] False [A ''Comma separated file (*.csv)''] [[U [0x9017, 0x53F7, 0x5206, 0x9694, 0x6587,
       0x4EF6], A '' (*.csv)'']],
     Message [(None, 13)] False [A ''Error exporting''] [[U [0x5BFC, 0x51FA, 0x65F6, 0x53D1, 0x751F, 0x9519, 0x8BEF]]],
     Message [(None, 0)] False [A ''Could not write to file %1.''] [[U [0x65E0, 0x6CD5, 0x5199, 0x5165, 0x6587,
       0x4EF6], A '' %1 '', U [0x3002]]]]"

definition zh_AddressTableModel :: "ts_message list" where
  "zh_AddressTableModel = [
     Message [(Some ''../addresstablemodel.cpp'', 144)] False [A ''Label''] [[U [0x6807, 0x7B7E]]],
     Message [(None, 0)] False [A ''Address''] [[U [0x5730, 0x5740]]],
     Message [(None, 36)] False [A ''(no label)''] [[A ''('', U [0x6CA1, 0x6709, 0x6807, 0x7B7E], A '')'']]]"

definition zh_AskPassphraseDialog_1 :: "ts_message list" where
  "zh_AskPassphraseDialog_1 = [
     Message [(Some ''../forms/askpassphrasedialog.ui'', 26)] False [A ''Passphrase Dialog''] [[U [0x5BC6, 0x7801,
       0x5BF9, 0x8BDD, 0x6846]]],
     Message [(None, 21)] False [A ''Enter passphrase''] [[U [0x8F93, 0x5165, 0x5BC6, 0x7801]]],
     Message [(None, 14)] False [A ''New passphrase''] [[U [0x65B0, 0x5BC6, 0x7801]]],
     Message [(None, 14)] False [A ''Repeat new passphrase''] [[U [0x91CD, 0x590D, 0x65B0, 0x5BC6, 0x7801]]],
     Message [(None, 33)] False [A
       ''Serves to disable the trivial sendmoney when OS account compromised. Provides no real security.''] [[U
       [0x5728, 0x7CFB, 0x7EDF, 0x5141, 0x8BB8, 0x7684, 0x60C5, 0x51B5, 0x4E0B, 0x7528, 0x4E8E, 0x9632, 0x6B62], A
       ''sendmoney'', U [0x6B3A, 0x8BC8, 0xFF0C, 0x5E76, 0x672A, 0x63D0, 0x4F9B, 0x771F, 0x6B63, 0x7684, 0x5B89,
       0x5168, 0x9632, 0x62A4, 0x63AA, 0x65BD, 0x3002]]],
     Message [(None, 3)] False [A ''For staking only''] [[U [0x4EC5, 0x7528, 0x4E8E, 0x6743, 0x76CA, 0x589E, 0x503C]]],
     Message [(Some ''../askpassphrasedialog.cpp'', 35)] False [A
       ''Enter the new passphrase to the wallet.<br/>Please use a passphrase of <b>10 or more random characters</b>, or <b>eight or more words</b>.''
       ] [[U [0x8F93, 0x5165, 0x94B1, 0x5305, 0x7684, 0x65B0, 0x5BC6, 0x7801, 0x3002], A ''<br/>'', U [0x4F7F,
       0x7528, 0x7684, 0x5BC6, 0x7801, 0x8BF7, 0x81F3, 0x5C11, 0x5305, 0x542B], A ''<b>10'', U [0x4E2A, 0x4EE5,
       0x4E0A, 0x968F, 0x673A, 0x5B57, 0x7B26], A ''</>'', U [0xFF0C, 0x6216, 0x8005, 0x662F], A ''<b>8'', U [0x4E2A,
       0x4EE5, 0x4E0A, 0x7684, 0x5355, 0x8BCD], A ''</b>'', U [0x3002]]],
     Message [(None, 1)] False [A ''Encrypt wallet''] [[U [0x52A0, 0x5BC6, 0x94B1, 0x5305]]],
     Message [(None, 7)] False [A ''This operation needs your wallet passphrase to unlock the wallet.''] [[U [0x6B64,
       0x64CD, 0x4F5C, 0x9700, 0x8981, 0x60A8, 0x9996, 0x5148, 0x4F7F, 0x7528, 0x5BC6, 0x7801, 0x89E3, 0x9501,
       0x8BE5, 0x94B1, 0x5305, 0x3002]]],
     Message [(None, 5)] False [A ''Unlock wallet''] [[U [0x89E3, 0x9501, 0x94B1, 0x5305]]],
     Message [(None, 3)] False [A ''This operation needs your wallet passphrase to decrypt the wallet.''] [[U
       [0x8BE5, 0x64CD, 0x4F5C, 0x9700, 0x8981, 0x60A8, 0x9996, 0x5148, 0x4F7F, 0x7528, 0x5BC6, 0x7801, 0x89E3,
       0x5BC6, 0x94B1, 0x5305, 0x3002]]],
     Message [(None, 5)] False [A ''Decrypt wallet''] [[U [0x89E3, 0x5BC6, 0x94B1, 0x5305]]],
     Message [(None, 3)] False [A ''Change passphrase''] [[U [0x66F4, 0x6539, 0x5BC6, 0x7801]]],
     Message [(None, 1)] False [A ''Enter the old and new passphrase to the wallet.''] [[U [0x8BF7, 0x8F93, 0x5165,
       0x8BE5, 0x94B1, 0x5305, 0x7684, 0x65E7, 0x5BC6, 0x7801, 0x4E0E, 0x65B0, 0x5BC6, 0x7801, 0x3002]]],
     Message [(None, 46)] False [A ''Confirm wallet encryption''] [[U [0x786E, 0x8BA4, 0x52A0, 0x5BC6, 0x94B1,
       0x5305]]],
     Message [(None, 1)] False [A
       ''Warning: If you encrypt your wallet and lose your passphrase, you will <b>LOSE ALL OF YOUR COINS</b>!''] [[U
       [0x8B66, 0x544A, 0xFF1A, 0x5982, 0x679C, 0x60A8, 0x4E22, 0x5931, 0x4E86, 0x52A0, 0x5BC6, 0x8BE5, 0x94B1,
       0x5305, 0x7684, 0x5BC6, 0x7801, 0xFF0C, 0x5176, 0x4E2D, 0x6240, 0x6709, 0x7684, 0x9ED1, 0x5E01, 0x5C06,
       0x4F1A, 0x4E22, 0x5931, 0xFF01]]],
     Message [(None, 0)] False [A ''Are you sure you wish to encrypt your wallet?''] [[U [0x60A8, 0x786E, 0x5B9A,
       0x9700, 0x8981, 0x4E3A, 0x94B1, 0x5305, 0x52A0, 0x5BC6, 0x5417, 0xFF1F]]],
     Message [(None, 15)] False [A
       ''IMPORTANT: Any previous backups you have made of your wallet file should be replaced with the newly generated, encrypted wallet file. For security reasons, previous backups of the unencrypted wallet file will become useless as soon as you start using the new, encrypted wallet.''
       ] [[U [0x91CD, 0x8981, 0x63D0, 0x793A, 0xFF1A, 0x60A8, 0x4EE5, 0x524D, 0x5907, 0x4EFD, 0x7684, 0x94B1, 0x5305,
       0x6587, 0x4EF6, 0x5E94, 0x8BE5, 0x66FF, 0x6362, 0x6210, 0x6700, 0x65B0, 0x751F, 0x6210, 0x7684, 0x52A0,
       0x5BC6, 0x94B1, 0x5305, 0x6587, 0x4EF6, 0xFF08, 0x91CD, 0x65B0, 0x5907, 0x4EFD, 0xFF09, 0x3002, 0x4ECE,
       0x5B89, 0x5168, 0x6027, 0x4E0A, 0x8003, 0x8651, 0xFF0C, 0x60A8, 0x4EE5, 0x524D, 0x5907, 0x4EFD, 0x7684,
       0x672A, 0x52A0, 0x5BC6, 0x7684, 0x94B1, 0x5305, 0x6587, 0x4EF6, 0xFF0C, 0x5728, 0x60A8, 0x4F7F, 0x7528,
       0x65B0, 0x7684, 0x52A0, 0x5BC6, 0x94B1, 0x5305, 0x540E, 0x5C06, 0x65E0, 0x6548, 0xFF0C, 0x8BF7, 0x91CD,
       0x65B0, 0x5907, 0x4EFD, 0x3002]]],
     Message [(None, 103), (None, 24)] False [A ''Warning: The Caps Lock key is on!''] [[U [0x8B66, 0x544A, 0xFF1A,
       0x5927, 0x5199, 0x9501, 0x5B9A, 0x952E, 0x5904, 0x4E8E, 0x6253, 0x5F00, 0x72B6, 0x6001, 0xFF01]]],
     Message [(None, -133), (None, 60)] False [A ''Wallet encrypted''] [[U [0x94B1, 0x5305, 0x5DF2, 0x52A0, 0x5BC6]]],
     Message [(None, -58)] False [A
       ''MotaCoin will close now to finish the encryption process. Remember that encrypting your wallet cannot fully protect your coins from being stolen by malware infecting your computer.''
       ] [[U [0x9ED1, 0x5E01, 0x5BA2, 0x6237, 0x7AEF, 0x5373, 0x5C06, 0x5173, 0x95ED, 0x4EE5, 0x5B8C, 0x6210, 0x52A0,
       0x5BC6, 0x8FC7, 0x7A0B, 0x3002, 0x8BF7, 0x8BB0, 0x4F4F, 0xFF0C, 0x52A0, 0x5BC6, 0x94B1, 0x5305, 0x5E76,
       0x4E0D, 0x80FD, 0x5B8C, 0x5168, 0x9632, 0x6B62, 0x60A8, 0x7684, 0x7535, 0x5B50, 0x8D27, 0x5E01, 0x88AB,
       0x5165, 0x4FB5, 0x60A8, 0x8BA1, 0x7B97, 0x673A, 0x7684, 0x6728, 0x9A6C, 0x8F6F, 0x4EF6, 0x76D7, 0x7A83,
       0x3002]]],
     Message [(None, 13), (None, 7), (None, 44), (None, 6)] False [A ''Wallet encryption failed''] [[U [0x94B1,
       0x5305, 0x52A0, 0x5BC6, 0x5931, 0x8D25]]],
     Message [(None, -56)] False [A
       ''Wallet encryption failed due to an internal error. Your wallet was not encrypted.''] [[U [0x7531, 0x4E8E,
       0x4E00, 0x4E2A, 0x672C, 0x5730, 0x9519, 0x8BEF, 0xFF0C, 0x52A0, 0x5BC6, 0x94B1, 0x5305, 0x7684, 0x64CD,
       0x4F5C, 0x5DF2, 0x7ECF, 0x5931, 0x8D25, 0x3002, 0x60A8, 0x7684, 0x94B1, 0x5305, 0x6CA1, 0x80FD, 0x88AB,
       0x52A0, 0x5BC6, 0x3002]]],
     Message [(None, 7), (None, 50)] False [A ''The supplied passphrases do not match.''] [[U [0x5BC6, 0x7801,
       0x4E0D, 0x5339, 0x914D, 0x3002]]],
     Message [(None, -38)] False [A ''Wallet unlock failed''] [[U [0x94B1, 0x5305, 0x89E3, 0x9501, 0x5931, 0x8D25]]],
     Message [(None, 1), (None, 12), (None, 19)] False [A
       ''The passphrase entered for the wallet decryption was incorrect.''] [[U [0x7528, 0x4E8E, 0x89E3, 0x5BC6,
       0x94B1, 0x5305, 0x7684, 0x5BC6, 0x7801, 0x4E0D, 0x6B63, 0x786E, 0x3002]]],
     Message [(None, -20)] False [A ''Wallet decryption failed''] [[U [0x94B1, 0x5305, 0x89E3, 0x5BC6, 0x5931,
       0x8D25, 0x3002]]]]"

definition zh_AskPassphraseDialog_2 :: "ts_message list" where
  "zh_AskPassphraseDialog_2 = [
     Message [(None, 14)] False [A ''Wallet passphrase was successfully changed.''] [[U [0x4FEE, 0x6539, 0x94B1,
       0x5305, 0x5BC6, 0x7801, 0x6210, 0x529F, 0x3002]]]]"

definition zh_BitcoinGUI_1 :: "ts_message list" where
  "zh_BitcoinGUI_1 = [
     Message [(Some ''../bitcoingui.cpp'', 282)] False [A ''Sign &message...''] [[U [0x6D88, 0x606F, 0x7B7E, 0x540D],
       A ''(&M)...'']],
     Message [(None, 251)] False [A ''Synchronizing with network...''] [[U [0x6B63, 0x5728, 0x4E0E, 0x7F51, 0x7EDC,
       0x540C, 0x6B65], A ''...'']],
     Message [(None, -319)] False [A ''&Overview''] [[U [0x6982, 0x51B5], A ''(&O)'']],
     Message [(None, 1)] False [A ''Show general overview of wallet''] [[U [0x663E, 0x793A, 0x94B1, 0x5305, 0x6982,
       0x51B5]]],
     Message [(None, 17)] False [A ''&Transactions''] [[U [0x4EA4, 0x6613, 0x8BB0, 0x5F55], A ''(&T)'']],
     Message [(None, 1)] False [A ''Browse transaction history''] [[U [0x67E5, 0x770B, 0x4EA4, 0x6613, 0x5386,
       0x53F2]]],
     Message [(None, 5)] False [A ''&Address Book''] [[U [0x5730, 0x5740, 0x7C3F], A ''(&A)'']],
     Message [(None, 1)] False [A ''Edit the list of stored addresses and labels''] [[U [0x7BA1, 0x7406, 0x5DF2,
       0x50A8, 0x5B58, 0x7684, 0x5730, 0x5740, 0x548C, 0x6807, 0x7B7E]]],
     Message [(None, -13)] False [A ''&Receive coins''] [[U [0x63A5, 0x6536, 0x9ED1, 0x5E01], A ''(&R)'']],
     Message [(None, 1)] False [A ''Show the list of addresses for receiving payments''] [[U [0x663E, 0x793A, 0x7528,
       0x4E8E, 0x63A5, 0x6536, 0x652F, 0x4ED8, 0x7684, 0x5730, 0x5740, 0x5217, 0x8868]]],
     Message [(None, -7)] False [A ''&Send coins''] [[U [0x53D1, 0x9001, 0x8D27, 0x5E01], A ''(&S)'']],
     Message [(None, 35)] False [A ''E&xit''] [[U [0x9000, 0x51FA], A ''(&X)'']],
     Message [(None, 1)] False [A ''Quit application''] [[U [0x9000, 0x51FA, 0x7A0B, 0x5E8F]]],
     Message [(None, 6)] False [A ''Show information about MotaCoin''] [[U [0x663E, 0x793A, 0x5173, 0x4E8E, 0x9ED1,
       0x5E01, 0x7684, 0x4FE1, 0x606F]]],
     Message [(None, 2)] False [A ''About &Qt''] [[U [0x5173, 0x4E8E], A '' &Qt'']],
     Message [(None, 1)] False [A ''Show information about Qt''] [[U [0x663E, 0x793A], A '' Qt '', U [0x76F8, 0x5173,
       0x4FE1, 0x606F]]],
     Message [(None, 2)] False [A ''&Options...''] [[U [0x9009, 0x9879], A ''(&O)...'']],
     Message [(None, 4)] False [A ''&Encrypt Wallet...''] [[U [0x52A0, 0x5BC6, 0x94B1, 0x5305], A ''(&E)...'']],
     Message [(None, 3)] False [A ''&Backup Wallet...''] [[U [0x5907, 0x4EFD, 0x94B1, 0x5305], A ''(&B)...'']],
     Message [(None, 2)] False [A ''&Change Passphrase...''] [[U [0x66F4, 0x6539, 0x5BC6, 0x7801], A ''(&C)...'']],
     Message [(None, 259)] True [A ''~%n block(s) remaining''] [[A ''~%n '', U [0x4E2A, 0x533A, 0x5757, 0x672A,
       0x5B8C, 0x6210]]],
     Message [(None, 6)] False [A ''Downloaded %1 of %2 blocks of transaction history (%3% done).''] [[U [0x4EA4,
       0x6613, 0x8BB0, 0x5F55, 0x5DF2, 0x4E0B, 0x8F7D], A ''%3% (%1 / %2 '', U [0x4E2A, 0x533A, 0x5757], A '')'']],
     Message [(None, -256)] False [A ''&Export...''] [[U [0x5BFC, 0x51FA], A ''(&E)'']],
     Message [(None, -64)] False [A ''Send coins to a MotaCoin address''] [[U [0x5411, 0x6307, 0x5B9A, 0x7684,
       0x5730, 0x5740, 0x53D1, 0x9001, 0x9ED1, 0x5E01]]],
     Message [(None, 47)] False [A ''Modify configuration options for MotaCoin''] [[U [0x66F4, 0x6539, 0x8BBE,
       0x7F6E, 0x9009, 0x9879]]],
     Message [(None, 18)] False [A ''Export the data in the current tab to a file''] [[U [0x5BFC, 0x51FA, 0x5F53,
       0x524D, 0x6807, 0x7B7E, 0x9875, 0x7684, 0x6570, 0x636E]]],
     Message [(None, -14)] False [A ''Encrypt or decrypt wallet''] [[U [0x52A0, 0x5BC6], A ''/'', U [0x89E3, 0x5BC6,
       0x94B1, 0x5305]]],
     Message [(None, 3)] False [A ''Backup wallet to another location''] [[U [0x5907, 0x4EFD, 0x94B1, 0x5305, 0x5230,
       0x5176, 0x4ED6, 0x6587, 0x4EF6, 0x5939]]],
     Message [(None, 2)] False [A ''Change the passphrase used for wallet encryption''] [[U [0x66F4, 0x6539, 0x94B1,
       0x5305, 0x52A0, 0x5BC6, 0x53E3, 0x4EE4]]]]"

definition zh_BitcoinGUI_2 :: "ts_message list" where
  "zh_BitcoinGUI_2 = [
     Message [(None, 10)] False [A ''&Debug window''] [[U [0x8C03, 0x8BD5, 0x7A97, 0x53E3], A ''(&D)'']],
     Message [(None, 1)] False [A ''Open debugging and diagnostic console''] [[U [0x6253, 0x5F00, 0x8C03, 0x8BD5,
       0x548C, 0x8BCA, 0x65AD, 0x63A7, 0x5236, 0x53F0]]],
     Message [(None, -5)] False [A ''&Verify message...''] [[U [0x9A8C, 0x8BC1, 0x6D88, 0x606F], A ''(&V)...'']],
     Message [(None, -202)] False [A ''MotaCoin''] [[U [0x9ED1, 0x5E01]]],
     Message [(None, 0)] False [A ''Wallet''] [[U [0x94B1, 0x5305]]],
     Message [(None, 180)] False [A ''&About MotaCoin''] [[U [0x5173, 0x4E8E, 0x9ED1, 0x5E01], A ''(&A)'']],
     Message [(None, 9)] False [A ''&Show / Hide''] [[U [0x663E, 0x793A], A '' / '', U [0x9690, 0x85CF], A ''(&S)'']],
     Message [(None, 9)] False [A ''Unlock wallet''] [[U [0x89E3, 0x9501, 0x94B1, 0x5305]]],
     Message [(None, 1)] False [A ''&Lock Wallet''] [[U [0x9501, 0x5B9A, 0x94B1, 0x5305], A ''(&L)'']],
     Message [(None, 1)] False [A ''Lock wallet''] [[U [0x9501, 0x5B9A, 0x94B1, 0x5305]]],
     Message [(None, 35)] False [A ''&File''] [[U [0x6587, 0x4EF6], A ''(&F)'']],
     Message [(None, 8)] False [A ''&Settings''] [[U [0x8BBE, 0x7F6E], A ''(&S)'']],
     Message [(None, 8)] False [A ''&Help''] [[U [0x5E2E, 0x52A9], A ''(&H)'']],
     Message [(None, 12)] False [A ''Tabs toolbar''] [[U [0x5206, 0x9875, 0x5DE5, 0x5177, 0x680F]]],
     Message [(None, 8)] False [A ''Actions toolbar''] [[U [0x5DE5, 0x5177, 0x680F]]],
     Message [(None, 13), (None, 9)] False [A ''[testnet]''] [[A ''['', U [0x6D4B, 0x8BD5, 0x7F51, 0x7EDC], A '']'']],
     Message [(None, 0), (None, 60)] False [A ''MotaCoin client''] [[U [0x9ED1, 0x5E01, 0x5BA2, 0x6237, 0x7AEF]]],
     Message [(None, 75)] True [A ''%n active connection(s) to MotaCoin network''] [[U [0x4E0E, 0x9ED1, 0x5E01,
       0x7F51, 0x7EDC, 0x5EFA, 0x7ACB, 0x4E86], A '' %n '', U [0x4E2A, 0x8FDE, 0x63A5]]],
     Message [(None, 40)] False [A ''Downloaded %1 blocks of transaction history.''] [[U [0x5DF2, 0x4E0B, 0x8F7D], A
       '' %1 '', U [0x4E2A, 0x533A, 0x5757, 0x7684, 0x4EA4, 0x6613, 0x8BB0, 0x5F55]]],
     Message [(None, 413)] False [A
       ''Staking.<br>Your weight is %1<br>Network weight is %2<br>Expected time to earn reward is %3''] [[U [0x6743,
       0x76CA, 0x589E, 0x503C, 0x4E2D], A '' <br>'', U [0x60A8, 0x7684, 0x6743, 0x91CD, 0x4E3A], A '' %1 <br>'', U
       [0x7F51, 0x7EDC, 0x603B, 0x6743, 0x91CD, 0x4E3A], A '' %2<br>'', U [0x9884, 0x8BA1, 0x5C06, 0x5728], A '' %3 ''
       , U [0x4E4B, 0x540E, 0x83B7, 0x5F97, 0x6536, 0x76CA]]],
     Message [(None, 6)] False [A ''Not staking because wallet is locked''] [[U [0x672A, 0x8FDB, 0x884C, 0x6743,
       0x76CA, 0x589E, 0x503C, 0xFF0C, 0x56E0, 0x4E3A, 0x94B1, 0x5305, 0x5DF2, 0x9501, 0x5B9A]]],
     Message [(None, 2)] False [A ''Not staking because wallet is offline''] [[U [0x672A, 0x8FDB, 0x884C, 0x6743,
       0x76CA, 0x589E, 0x503C, 0xFF0C, 0x56E0, 0x4E3A, 0x94B1, 0x5305, 0x5904, 0x4E8E, 0x79BB, 0x7EBF, 0x72B6,
       0x6001]]],
     Message [(None, 2)] False [A ''Not staking because wallet is syncing''] [[U [0x672A, 0x8FDB, 0x884C, 0x6743,
       0x76CA, 0x589E, 0x503C, 0xFF0C, 0x56E0, 0x4E3A, 0x94B1, 0x5305, 0x6B63, 0x5728, 0x540C, 0x6B65]]],
     Message [(None, 2)] False [A ''Not staking because you don'', U [0x27], A ''t have mature coins''] [[U [0x672A,
       0x8FDB, 0x884C, 0x6743, 0x76CA, 0x589E, 0x503C, 0xFF0C, 0x56E0, 0x4E3A, 0x94B1, 0x5305, 0x4E2D, 0x6CA1,
       0x6709, 0x6210, 0x719F, 0x7684, 0x9ED1, 0x5E01]]],
     Message [(None, -403)] True [A ''%n second(s) ago''] [[A ''%n '', U [0x79D2, 0x524D]]],
     Message [(None, -312)] False [A ''About MotaCoin card''] [[U [0x5173, 0x4E8E, 0x9ED1, 0x5E01, 0x5361]]],
     Message [(None, 1)] False [A ''Show information about MotaCoin card''] [[U [0x663E, 0x793A, 0x5173, 0x4E8E,
       0x9ED1, 0x5E01, 0x5361, 0x7684, 0x4FE1, 0x606F]]],
     Message [(None, 18)] False [A ''&Unlock Wallet...''] [[U [0x89E3, 0x9501, 0x94B1, 0x5305], A ''(&U)'']],
     Message [(None, 297)] True [A ''%n minute(s) ago''] [[A ''%n '', U [0x5206, 0x949F, 0x524D]]]]"

definition zh_BitcoinGUI_3 :: "ts_message list" where
  "zh_BitcoinGUI_3 = [
     Message [(None, 4)] True [A ''%n hour(s) ago''] [[A ''%n '', U [0x5C0F, 0x65F6, 0x524D]]],
     Message [(None, 4)] True [A ''%n day(s) ago''] [[A ''%n '', U [0x5929, 0x524D]]],
     Message [(None, 6)] False [A ''Up to date''] [[U [0x5DF2, 0x662F, 0x6700, 0x65B0]]],
     Message [(None, 7)] False [A ''Catching up...''] [[U [0x66F4, 0x65B0, 0x4E2D], A ''...'']],
     Message [(None, 10)] False [A ''Last received block was generated %1.''] [[U [0x6700, 0x8FD1, 0x751F, 0x6210,
       0x7684, 0x533A, 0x5757, 0x63A5, 0x6536, 0x4E8E], A ''%1'']],
     Message [(None, 59)] False [A
       ''This transaction is over the size limit.  You can still send it for a fee of %1, which goes to the nodes that process your transaction and helps to support the network.  Do you want to pay the fee?''
       ] [[U [0x8BE5, 0x7B14, 0x4EA4, 0x6613, 0x6570, 0x636E, 0x91CF, 0x592A, 0x5927, 0xFF0C, 0x9700, 0x652F,
       0x4ED8], A ''%1'', U [0x624B, 0x7EED, 0x8D39, 0x7ED9, 0x6267, 0x884C, 0x8BE5, 0x7B14, 0x4EA4, 0x6613, 0x7684,
       0x7F51, 0x7EDC, 0x7ED3, 0x70B9, 0x3002, 0x60A8, 0x613F, 0x610F, 0x652F, 0x4ED8, 0x5417, 0xFF1F]]],
     Message [(None, 5)] False [A ''Confirm transaction fee''] [[U [0x624B, 0x7EED, 0x8D39, 0x786E, 0x8BA4]]],
     Message [(None, 27)] False [A ''Sent transaction''] [[U [0x53D1, 0x9001, 0x4EA4, 0x6613]]],
     Message [(None, 1)] False [A ''Incoming transaction''] [[U [0x6D41, 0x5165, 0x4EA4, 0x6613]]],
     Message [(None, 1)] False [A ''Date: %1'', U [0xA], A ''Amount: %2'', U [0xA], A ''Type: %3'', U [0xA], A
       ''Address: %4'', U [0xA]] [[U [0x65E5, 0x671F], A '': %1'', U [0xA, 0x91D1, 0x989D], A '': %2'', U [0xA,
       0x7C7B, 0x522B], A '': %3'', U [0xA, 0x5730, 0x5740], A '': %4'', U [0xA]]],
     Message [(None, 100), (None, 15)] False [A ''URI handling''] [[A ''URI'', U [0x5904, 0x7406]]],
     Message [(None, -15), (None, 15)] False [A
       ''URI can not be parsed! This can be caused by an invalid MotaCoin address or malformed URI parameters.''] [[U
       [0x65E0, 0x6CD5, 0x89E3, 0x6790], A ''URI'', U [0xFF1A, 0x65E0, 0x6548, 0x7684, 0x9ED1, 0x5E01, 0x5730,
       0x5740, 0x6216, 0x9519, 0x8BEF, 0x7684], A ''URI'', U [0x53C2, 0x6570, 0x3002]]],
     Message [(None, 18)] False [A ''Wallet is <b>encrypted</b> and currently <b>unlocked</b>''] [[U [0x94B1, 0x5305,
       0x5DF2, 0x88AB], A ''<b>'', U [0x52A0, 0x5BC6], A ''</b>'', U [0xFF0C, 0x5F53, 0x524D, 0x4E3A], A ''<b>'', U
       [0x89E3, 0x9501], A ''</b>'', U [0x72B6, 0x6001]]],
     Message [(None, 10)] False [A ''Wallet is <b>encrypted</b> and currently <b>locked</b>''] [[U [0x94B1, 0x5305,
       0x5DF2, 0x88AB], A ''<b>'', U [0x52A0, 0x5BC6], A ''</b>'', U [0xFF0C, 0x5F53, 0x524D, 0x4E3A], A ''<b>'', U
       [0x9501, 0x5B9A], A ''</b>'', U [0x72B6, 0x6001]]],
     Message [(None, 25)] False [A ''Backup Wallet''] [[U [0x5907, 0x4EFD, 0x94B1, 0x5305]]],
     Message [(None, 0)] False [A ''Wallet Data (*.dat)''] [[U [0x94B1, 0x5305, 0x6570, 0x636E, 0x6587, 0x4EF6], A
       ''(*.dat)'']],
     Message [(None, 3)] False [A ''Backup Failed''] [[U [0x5907, 0x4EFD, 0x5931, 0x8D25]]],
     Message [(None, 0)] False [A ''There was an error trying to save the wallet data to the new location.''] [[U
       [0x8BD5, 0x56FE, 0x5C06, 0x94B1, 0x5305, 0x5730, 0x5740, 0x4FDD, 0x5B58, 0x5230, 0x65B0, 0x4F4D, 0x7F6E,
       0x65F6, 0x51FA, 0x73B0, 0x9519, 0x8BEF]]],
     Message [(None, 76)] True [A ''%n second(s)''] [[A ''%n'', U [0x79D2]]],
     Message [(None, 4)] True [A ''%n minute(s)''] [[A ''%n '', U [0x5206, 0x949F]]],
     Message [(None, 4)] True [A ''%n hour(s)''] [[A ''%n '', U [0x5C0F, 0x65F6]]],
     Message [(None, 4)] True [A ''%n day(s)''] [[A ''%n '', U [0x5929]]],
     Message [(None, 18)] False [A ''Not staking''] [[U [0x672A, 0x8FDB, 0x884C, 0x6743, 0x76CA, 0x589E, 0x503C]]],
     Message [(Some ''../bitcoin.cpp'', 109)] False [A
       ''A fatal error occurred. MotaCoin can no longer continue safely and will quit.''] [[U [0x53D1, 0x751F,
       0x4E25, 0x91CD, 0x9519, 0x8BEF, 0xFF0C, 0x9ED1, 0x5E01, 0x5BA2, 0x6237, 0x7AEF, 0x5373, 0x5C06, 0x5173,
       0x95ED, 0x3002]]]]"

definition zh_ClientModel :: "ts_message list" where
  "zh_ClientModel = [
     Message [(Some ''../clientmodel.cpp'', 90)] False [A ''Network Alert''] [[U [0x7F51, 0x7EDC, 0x8B66, 0x62A5]]]]"

definition zh_CoinControlDialog_1 :: "ts_message list" where
  "zh_CoinControlDialog_1 = [
     Message [(Some ''../forms/coincontroldialog.ui'', 14)] False [A ''Coin Control''] [[U [0x9ED1, 0x5E01, 0x63A7,
       0x5236]]],
     Message [(None, 31)] False [A ''Quantity:''] [[U [0x603B, 0x91CF, 0xFF1A]]],
     Message [(None, 32)] False [A ''Bytes:''] [[U [0x5B57, 0x8282, 0xFF1A]]],
     Message [(None, 48)] False [A ''Amount:''] [[U [0x91D1, 0x989D, 0xFF1A]]],
     Message [(None, 32)] False [A ''Priority:''] [[U [0x4F18, 0x5148, 0x7EA7, 0xFF1A]]],
     Message [(None, 48)] False [A ''Fee:''] [[U [0x8D39, 0x7528, 0xFF1A]]],
     Message [(None, 35)] False [A ''Low Output:''] [[U [0x4F4E, 0x8F93, 0x51FA]]],
     Message [(Some ''../coincontroldialog.cpp'', 551)] False [A ''no''] [[U [0x5426]]],
     Message [(Some ''../forms/coincontroldialog.ui'', 51)] False [A ''After Fee:''] [[U [0x52A0, 0x4E0A, 0x4EA4,
       0x6613, 0x8D39, 0x7528, 0x540E], A '':'']],
     Message [(None, 35)] False [A ''Change:''] [[U [0x53D8, 0x66F4], A '' : '']],
     Message [(None, 69)] False [A ''(un)select all''] [[A ''('', U [0x4E0D], A '')'', U [0x5168, 0x9009]]],
     Message [(None, 13)] False [A ''Tree mode''] [[U [0x6811, 0x72B6, 0x6A21, 0x5F0F]]],
     Message [(None, 16)] False [A ''List mode''] [[U [0x5217, 0x8868, 0x6A21, 0x5F0F]]],
     Message [(None, 45)] False [A ''Amount''] [[U [0x91D1, 0x989D]]],
     Message [(None, 5)] False [A ''Label''] [[U [0x6807, 0x7B7E]]],
     Message [(None, 5)] False [A ''Address''] [[U [0x5730, 0x5740]]],
     Message [(None, 5)] False [A ''Date''] [[U [0x65E5, 0x671F]]],
     Message [(None, 5)] False [A ''Confirmations''] [[U [0x786E, 0x8BA4]]],
     Message [(None, 3)] False [A ''Confirmed''] [[U [0x5DF2, 0x786E, 0x8BA4]]],
     Message [(None, 5)] False [A ''Priority''] [[U [0x4F18, 0x5148, 0x7EA7]]],
     Message [(Some ''../coincontroldialog.cpp'', -515)] False [A ''Copy address''] [[U [0x590D, 0x5236, 0x5730,
       0x5740]]],
     Message [(None, 1)] False [A ''Copy label''] [[U [0x590D, 0x5236, 0x6807, 0x7B7E]]],
     Message [(None, 1), (None, 26)] False [A ''Copy amount''] [[U [0x590D, 0x5236, 0x91D1, 0x989D]]],
     Message [(None, -25)] False [A ''Copy transaction ID''] [[U [0x590D, 0x5236, 0x4EA4, 0x6613, 0x7F16, 0x53F7]]],
     Message [(None, 24)] False [A ''Copy quantity''] [[U [0x590D, 0x5236, 0x91D1, 0x989D]]],
     Message [(None, 2)] False [A ''Copy fee''] [[U [0x590D, 0x5236, 0x4EA4, 0x6613, 0x8D39]]],
     Message [(None, 1)] False [A ''Copy after fee''] [[U [0x590D, 0x5236, 0x542B, 0x4EA4, 0x6613, 0x8D39, 0x7684,
       0x91D1, 0x989D]]],
     Message [(None, 1)] False [A ''Copy bytes''] [[U [0x590D, 0x5236, 0x5B57, 0x8282]]],
     Message [(None, 1)] False [A ''Copy priority''] [[U [0x590D, 0x5236, 0x4F18, 0x5148, 0x7EA7]]]]"

definition zh_CoinControlDialog_2 :: "ts_message list" where
  "zh_CoinControlDialog_2 = [
     Message [(None, 1)] False [A ''Copy low output''] [[U [0x590D, 0x5236, 0x4F4E, 0x8F93, 0x51FA]]],
     Message [(None, 1)] False [A ''Copy change''] [[U [0x590D, 0x5236, 0x96F6, 0x94B1]]],
     Message [(None, 317)] False [A ''highest''] [[U [0x6700, 0x9AD8]]],
     Message [(None, 1)] False [A ''high''] [[U [0x9AD8]]],
     Message [(None, 1)] False [A ''medium-high''] [[U [0x4E2D, 0x9AD8]]],
     Message [(None, 1)] False [A ''medium''] [[U [0x4E2D, 0x7B49]]],
     Message [(None, 4)] False [A ''low-medium''] [[U [0x4E2D, 0x4F4E]]],
     Message [(None, 1)] False [A ''low''] [[U [0x4F4E]]],
     Message [(None, 1)] False [A ''lowest''] [[U [0x6700, 0x4F4E]]],
     Message [(None, 155)] False [A ''DUST''] [[A ''DUST'']],
     Message [(None, 0)] False [A ''yes''] [[U [0x662F]]],
     Message [(None, 10)] False [A ''This label turns red, if the transaction size is bigger than 10000 bytes.'', U
       [0xA, 0xA], A '' This means a fee of at least %1 per kb is required.'', U [0xA, 0xA], A
       '' Can vary +/- 1 Byte per input.''] [[U [0x4EA4, 0x6613, 0x6570, 0x636E, 0x91CF, 0x8D85, 0x8FC7], A ''10000''
       , U [0x5B57, 0x8282, 0x65F6, 0xFF0C, 0x8BE5, 0x6807, 0x7B7E, 0x53D8, 0x4E3A, 0x7EA2, 0x8272, 0x3002, 0xA,
       0x6B64, 0x65F6, 0x6BCF], A ''kb'', U [0x6570, 0x636E, 0x91CF, 0x5C06, 0x4F1A, 0x6536, 0x53D6], A '' %1 '', U
       [0x7684, 0x624B, 0x7EED, 0x8D39, 0x3002, 0xA, 0x53EF, 0x80FD, 0x6709], A ''+/-1'', U [0x5B57, 0x8282, 0x7684,
       0x8BEF, 0x5DEE, 0x3002]]],
     Message [(None, 1)] False [A ''Transactions with higher priority get more likely into a block.'', U [0xA, 0xA],
       A ''This label turns red, if the priority is smaller than '', U [0x22], A ''medium'', U [0x22], A ''.'', U
       [0xA, 0xA], A '' This means a fee of at least %1 per kb is required.''] [[U [0x4F18, 0x5148, 0x5EA6, 0x8F83,
       0x9AD8, 0x7684, 0x4EA4, 0x6613, 0x6709, 0x66F4, 0x9AD8, 0x53EF, 0x80FD, 0x8FDB, 0x5165, 0x5230, 0x533A,
       0x5757, 0x4E2D, 0x3002, 0xA, 0x5F53, 0x4F18, 0x5148, 0x5EA6, 0x4E3A, 0x4E2D, 0x7EA7, 0x4EE5, 0x4E0B, 0x65F6,
       0xFF0C, 0x8BE5, 0x6807, 0x7B7E, 0x53D8, 0x4E3A, 0x7EA2, 0x8272, 0x3002, 0xA, 0x6B64, 0x65F6, 0x9700, 0x8981,
       0x6536, 0x53D6, 0x6BCF], A ''kb %1 '', U [0x7684, 0x624B, 0x7EED, 0x8D39, 0x3002]]],
     Message [(None, 1)] False [A ''This label turns red, if any recipient receives an amount smaller than %1.'', U
       [0xA, 0xA], A '' This means a fee of at least %2 is required. '', U [0xA, 0xA], A
       '' Amounts below 0.546 times the minimum relay fee are shown as DUST.''] [[U [0x5982, 0x679C, 0x6536, 0x6B3E,
       0x4EBA, 0x6240, 0x6536, 0x6B3E, 0x9879, 0x5C11, 0x4E8E], A '' %1'', U [0xFF0C, 0x8BE5, 0x6807, 0x7B7E, 0x53D8,
       0x4E3A, 0x7EA2, 0x8272, 0x3002, 0xA, 0x6B64, 0x65F6, 0x9700, 0x6536, 0x53D6], A '' %2 '', U [0x7684, 0x624B,
       0x7EED, 0x8D39, 0x3002, 0xA, 0x4F4E, 0x4E8E, 0x8BE5, 0x624B, 0x7EED, 0x8D39, 0x7684], A ''0.546'', U [0x500D,
       0x7684, 0x6B3E, 0x9879, 0x5C06, 0x88AB, 0x663E, 0x793A, 0x4E3A], A ''DUST'', U [0x3002]]],
     Message [(None, 1)] False [A ''This label turns red, if the change is smaller than %1.'', U [0xA, 0xA], A
       '' This means a fee of at least %2 is required.''] [[U [0x5982, 0x679C, 0x96F6, 0x94B1, 0x5C11, 0x4E8E], A
       '' %1'', U [0xFF0C, 0x8BE5, 0x6807, 0x7B7E, 0x53D8, 0x4E3A, 0x7EA2, 0x8272, 0x3002, 0xA, 0x6B64, 0x65F6,
       0x9700, 0x6536, 0x53D6], A '' %2 '', U [0x7684, 0x624B, 0x7EED, 0x8D39, 0x3002]]],
     Message [(None, 37), (None, 66)] False [A ''(no label)''] [[A ''('', U [0x6CA1, 0x6709, 0x6807, 0x7B7E], A '')''
       ]],
     Message [(None, -9)] False [A ''change from %1 (%2)''] [[U [0x6765, 0x81EA], A ''%1'', U [0x7684, 0x96F6,
       0x94B1], A '' (%2)'']],
     Message [(None, 1)] False [A ''(change)''] [[A ''('', U [0x96F6, 0x94B1], A '')'']]]"

definition zh_EditAddressDialog :: "ts_message list" where
  "zh_EditAddressDialog = [
     Message [(Some ''../forms/editaddressdialog.ui'', 14)] False [A ''Edit Address''] [[U [0x7F16, 0x8F91, 0x5730,
       0x5740]]],
     Message [(None, 11)] False [A ''&Label''] [[U [0x6807, 0x7B7E], A ''(&L)'']],
     Message [(None, 10)] False [A ''The label associated with this address book entry''] [[U [0x5730, 0x5740,
       0x7C3F, 0x5185, 0x8BE5, 0x9879, 0x76EE, 0x5BF9, 0x5E94, 0x7684, 0x6807, 0x7B7E]]],
     Message [(None, 7)] False [A ''&Address''] [[U [0x5730, 0x5740], A ''(&A)'']],
     Message [(None, 10)] False [A
       ''The address associated with this address book entry. This can only be modified for sending addresses.''] [[U
       [0x5730, 0x5740, 0x7C3F, 0x5185, 0x8BE5, 0x9879, 0x76EE, 0x5BF9, 0x5E94, 0x7684, 0x5730, 0x5740, 0x3002,
       0x53EA, 0x6709, 0x201C, 0x6536, 0x6B3E, 0x4EBA, 0x5730, 0x5740, 0x201D, 0x5206, 0x7C7B, 0x4E0B, 0x7684,
       0x5730, 0x5740, 0x53EF, 0x4EE5, 0x4FEE, 0x6539, 0x3002]]],
     Message [(Some ''../editaddressdialog.cpp'', 20)] False [A ''New receiving address''] [[U [0x65B0, 0x5EFA,
       0x63A5, 0x6536, 0x5730, 0x5740]]],
     Message [(None, 4)] False [A ''New sending address''] [[U [0x65B0, 0x5EFA, 0x53D1, 0x9001, 0x5730, 0x5740]]],
     Message [(None, 3)] False [A ''Edit receiving address''] [[U [0x7F16, 0x8F91, 0x63A5, 0x6536, 0x5730, 0x5740]]],
     Message [(None, 4)] False [A ''Edit sending address''] [[U [0x7F16, 0x8F91, 0x53D1, 0x9001, 0x5730, 0x5740]]],
     Message [(None, 76)] False [A ''The entered address '', U [0x22], A ''%1'', U [0x22], A
       '' is already in the address book.''] [[U [0x8F93, 0x5165, 0x7684, 0x5730, 0x5740, 0x201C], A ''%1'', U
       [0x201D, 0x5DF2, 0x7ECF, 0x5B58, 0x5728, 0x4E8E, 0x5730, 0x5740, 0x7C3F, 0x4E2D, 0x3002]]],
     Message [(None, -5)] False [A ''The entered address '', U [0x22], A ''%1'', U [0x22], A
       '' is not a valid MotaCoin address.''] [[U [0x201C], A ''%1'', U [0x201D], A '' '', U [0x4E0D, 0x662F, 0x6709,
       0x6548, 0x7684, 0x9ED1, 0x5E01, 0x5730, 0x5740, 0x3002]]],
     Message [(None, 10)] False [A ''Could not unlock wallet.''] [[U [0x65E0, 0x6CD5, 0x89E3, 0x9501, 0x94B1,
       0x5305]]],
     Message [(None, 5)] False [A ''New key generation failed.''] [[U [0x65B0, 0x7684, 0x5BC6, 0x94A5, 0x751F,
       0x6210, 0x5931, 0x8D25, 0x3002]]]]"

definition zh_GUIUtil_HelpMessageBox :: "ts_message list" where
  "zh_GUIUtil_HelpMessageBox = [
     Message [(Some ''../guiutil.cpp'', 420), (None, 12)] False [A ''MotaCoin-Qt''] [[U [0x9ED1, 0x5E01, 0x5BA2,
       0x6237, 0x7AEF], A ''MotaCoin-Qt'']],
     Message [(None, -12)] False [A ''version''] [[U [0x7248, 0x672C]]],
     Message [(None, 2)] False [A ''Usage:''] [[U [0x4F7F, 0x7528]]],
     Message [(None, 1)] False [A ''command-line options''] [[U [0x547D, 0x4EE4, 0x884C, 0x9009, 0x9879]]],
     Message [(None, 4)] False [A ''UI options''] [[U [0x7528, 0x6237, 0x754C, 0x9762, 0x9009, 0x9879]]],
     Message [(None, 1)] False [A ''Set language, for example '', U [0x22], A ''de_DE'', U [0x22], A
       '' (default: system locale)''] [[U [0x8BBE, 0x5B9A, 0x8BED, 0x8A00, 0xFF0C, 0x4F8B, 0x5982], A '' '', U
       [0x201C], A ''de_DE'', U [0x22], A '' ('', U [0x9ED8, 0x8BA4, 0x8BED, 0x8A00, 0x4E3A, 0x672C, 0x5730, 0x64CD,
       0x4F5C, 0x7CFB, 0x7EDF, 0x8BED, 0x8A00], A '')'']],
     Message [(None, 1)] False [A ''Start minimized''] [[U [0x542F, 0x52A8, 0x65F6, 0x6700, 0x5C0F, 0x5316]]],
     Message [(None, 1)] False [A ''Show splash screen on startup (default: 1)''] [[U [0x767B, 0x5F55, 0x65F6,
       0x663E, 0x793A], A ''Logo'', U [0x754C, 0x9762], A '' ('', U [0x9ED8, 0x8BA4, 0x5F00, 0x542F], A '')'']]]"

definition zh_OptionsDialog_1 :: "ts_message list" where
  "zh_OptionsDialog_1 = [
     Message [(Some ''../forms/optionsdialog.ui'', 14)] False [A ''Options''] [[U [0x9009, 0x9879]]],
     Message [(None, 16)] False [A ''&Main''] [[U [0x4E3B, 0x8981], A ''(&M)'']],
     Message [(None, 6)] False [A
       ''Optional transaction fee per kB that helps make sure your transactions are processed quickly. Most transactions are 1 kB. Fee 0.01 recommended.''
       ] [[U [0x652F, 0x4ED8, 0x53EF, 0x9009, 0x7684, 0x4EA4, 0x6613, 0x624B, 0x7EED, 0x8D39, 0x4EE5, 0x52A0, 0x901F,
       0x4EA4, 0x6613], A ''('', U [0x6BCF], A ''kB)'', U [0x3002, 0x5927, 0x591A, 0x6570, 0x4EA4, 0x6613, 0x7684,
       0x6570, 0x636E, 0x91CF, 0x4E3A], A ''1kB'', U [0x3002, 0x63A8, 0x8350, 0x989D], A ''0.01'', U [0x3002]]],
     Message [(None, 15)] False [A ''Pay transaction &fee''] [[U [0x652F, 0x4ED8, 0x4EA4, 0x6613, 0x8D39, 0x7528], A
       ''(&F)'']],
     Message [(None, 31)] False [A
       ''Reserved amount does not participate in staking and is therefore spendable at any time.''] [[U [0x4FDD,
       0x7559, 0x91D1, 0x989D, 0x4E0D, 0x53C2, 0x4E0E, 0x6743, 0x76CA, 0x7D2F, 0x79EF, 0xFF0C, 0x53EF, 0x4EE5,
       0x968F, 0x65F6, 0x4F7F, 0x7528, 0x3002]]],
     Message [(None, 15)] False [A ''Reserve''] [[U [0x4FDD, 0x7559]]],
     Message [(None, 31)] False [A ''Automatically start MotaCoin after logging in to the system.''] [[U [0x5F00,
       0x673A, 0x81EA, 0x52A8, 0x542F, 0x52A8, 0x9ED1, 0x5E01, 0x5BA2, 0x6237, 0x7AEF]]],
     Message [(None, 3)] False [A ''&Start MotaCoin on system login''] [[U [0x5F00, 0x673A, 0x65F6, 0x81EA, 0x52A8,
       0x542F, 0x52A8, 0x9ED1, 0x5E01, 0x5BA2, 0x6237, 0x7AEF], A ''(&S)'']],
     Message [(None, 7)] False [A
       ''Detach block and address databases at shutdown. This means they can be moved to another data directory, but it slows down shutdown. The wallet is always detached.''
       ] [[U [0x5173, 0x673A, 0x65F6, 0x65AD, 0x5F00, 0x533A, 0x5757, 0x548C, 0x5730, 0x5740, 0x6570, 0x636E, 0x8FDE,
       0x63A5, 0x4F7F, 0x5F97, 0x5B83, 0x4EEC, 0x53EF, 0x4EE5, 0x88AB, 0x79FB, 0x52A8, 0x5230, 0x5176, 0x4ED6,
       0x76EE, 0x5F55, 0x3002, 0x8FD9, 0x6837, 0x505A, 0x4F1A, 0x4F7F, 0x5173, 0x673A, 0x901F, 0x5EA6, 0x53D8,
       0x6162, 0x3002, 0x94B1, 0x5305, 0x6570, 0x636E, 0x603B, 0x662F, 0x65AD, 0x5F00, 0x5B58, 0x50A8, 0x7684,
       0x3002]]],
     Message [(None, 3)] False [A ''&Detach databases at shutdown''] [[U [0x5173, 0x673A, 0x65F6, 0x65AD, 0x5F00,
       0x533A, 0x5757, 0x548C, 0x5730, 0x5740, 0x6570, 0x636E, 0x5E93, 0x8FDE, 0x63A5], A ''(&D)'']],
     Message [(None, 21)] False [A ''&Network''] [[U [0x7F51, 0x7EDC], A ''(&N)'']],
     Message [(None, 6)] False [A
       ''Automatically open the MotaCoin client port on the router. This only works when your router supports UPnP and it is enabled.''
       ] [[U [0x8DEF, 0x7531, 0x5668, 0x81EA, 0x52A8, 0x6253, 0x5F00, 0x9ED1, 0x5E01, 0x5BA2, 0x6237, 0x7AEF, 0x7AEF,
       0x53E3, 0x3002, 0x8BE5, 0x529F, 0x80FD, 0x4EC5, 0x5728, 0x8DEF, 0x7531, 0x5668, 0x5F00, 0x542F], A ''UPnP'', U
       [0x652F, 0x6301, 0x65F6, 0x6709, 0x6548, 0x3002]]],
     Message [(None, 3)] False [A ''Map port using &UPnP''] [[U [0x4F7F, 0x7528], A '' &UPnP '', U [0x6620, 0x5C04,
       0x7AEF, 0x53E3]]],
     Message [(None, 7)] False [A
       ''Connect to the MotaCoin network through a SOCKS proxy (e.g. when connecting through Tor).''] [[U [0x7ECF], A
       ''SOCKS'', U [0x4EE3, 0x7406, 0x8FDE, 0x63A5, 0x5230, 0x9ED1, 0x5E01, 0x7F51, 0x7EDC], A ''('', U [0x4F8B,
       0x5982, 0x4F7F, 0x7528], A ''Tor)'']],
     Message [(None, 3)] False [A ''&Connect through SOCKS proxy:''] [[U [0x7ECF], A ''SOCKS'', U [0x4EE3, 0x7406,
       0x8FDE, 0x63A5], A ''(&C)'']],
     Message [(None, 9)] False [A ''Proxy &IP:''] [[U [0x4EE3, 0x7406, 0x670D, 0x52A1, 0x5668], A '' &IP'', U
       [0xFF1A]]],
     Message [(None, 19)] False [A ''IP address of the proxy (e.g. 127.0.0.1)''] [[U [0x4EE3, 0x7406, 0x5730,
       0x5740], A ''('', U [0x5982, 0xFF1A], A ''127.0.0.1)'']],
     Message [(None, 7)] False [A ''&Port:''] [[U [0x7AEF, 0x53E3], A ''(&P)'', U [0xFF1A]]],
     Message [(None, 19)] False [A ''Port of the proxy (e.g. 9050)''] [[U [0x4EE3, 0x7406, 0x7AEF, 0x53E3, 0xFF08,
       0x4F8B, 0x5982], A '' 9050'', U [0xFF09]]],
     Message [(None, 7)] False [A ''SOCKS &Version:''] [[A ''Socks '', U [0x7248, 0x672C], A ''(&V)'', U [0xFF1A]]],
     Message [(None, 13)] False [A ''SOCKS version of the proxy (e.g. 5)''] [[A ''Socks '', U [0x4EE3, 0x7406,
       0x7248, 0x672C, 0xFF08, 0x4F8B, 0x5982], A '' 5'', U [0xFF09]]],
     Message [(None, 36)] False [A ''&Window''] [[U [0x7A97, 0x53E3], A ''(&W)'']],
     Message [(None, 6)] False [A ''Show only a tray icon after minimizing the window.''] [[U [0x6700, 0x5C0F,
       0x5316, 0x7A97, 0x53E3, 0x540E, 0x4EC5, 0x663E, 0x793A, 0x6258, 0x76D8, 0x56FE, 0x6807]]],
     Message [(None, 3)] False [A ''&Minimize to the tray instead of the taskbar''] [[U [0x6700, 0x5C0F, 0x5316,
       0x5230, 0x6258, 0x76D8], A ''(&M)'']],
     Message [(None, 7)] False [A
       ''Minimize instead of exit the application when the window is closed. When this option is enabled, the application will be closed only after selecting Quit in the menu.''
       ] [[U [0x5F53, 0x7A97, 0x53E3, 0x5173, 0x95ED, 0x65F6, 0x7A0B, 0x5E8F, 0x6700, 0x5C0F, 0x5316, 0x800C, 0x4E0D,
       0x662F, 0x9000, 0x51FA, 0x3002, 0x5F53, 0x4F7F, 0x7528, 0x8BE5, 0x9009, 0x9879, 0x65F6, 0xFF0C, 0x7A0B,
       0x5E8F, 0x53EA, 0x80FD, 0x901A, 0x8FC7, 0x5728, 0x83DC, 0x5355, 0x4E2D, 0x9009, 0x62E9, 0x9000, 0x51FA,
       0x6765, 0x5173, 0x95ED]]],
     Message [(None, 3)] False [A ''M&inimize on close''] [[U [0x5355, 0x51FB, 0x5173, 0x95ED, 0x6309, 0x94AE,
       0x6700, 0x5C0F, 0x5316], A ''(&I)'']],
     Message [(None, 21)] False [A ''&Display''] [[U [0x663E, 0x793A], A ''(&D)'']],
     Message [(None, 8)] False [A ''User Interface &language:''] [[U [0x7528, 0x6237, 0x754C, 0x9762, 0x8BED,
       0x8A00], A ''(&L)'', U [0xFF1A]]],
     Message [(None, 13)] False [A
       ''The user interface language can be set here. This setting will take effect after restarting MotaCoin.''] [[U
       [0x5728, 0x6B64, 0x8BBE, 0x7F6E, 0x7528, 0x6237, 0x754C, 0x9762, 0x8BED, 0x8A00, 0x3002, 0x91CD, 0x542F,
       0x9ED1, 0x5E01, 0x5BA2, 0x6237, 0x7AEF, 0x540E, 0x8BBE, 0x7F6E, 0x751F, 0x6548, 0x3002]]]]"

definition zh_OptionsDialog_2 :: "ts_message list" where
  "zh_OptionsDialog_2 = [
     Message [(None, 11)] False [A ''&Unit to show amounts in:''] [[U [0x9ED1, 0x5E01, 0x91D1, 0x989D, 0x5355,
       0x4F4D], A ''(&U)'', U [0xFF1A]]],
     Message [(None, 13)] False [A
       ''Choose the default subdivision unit to show in the interface and when sending coins.''] [[U [0x9009, 0x62E9,
       0x9ED1, 0x5E01, 0x5355, 0x4F4D, 0x3002]]],
     Message [(None, 9)] False [A ''Whether to show MotaCoin addresses in the transaction list or not.''] [[U
       [0x662F, 0x5426, 0x5728, 0x4EA4, 0x6613, 0x5217, 0x8868, 0x4E2D, 0x663E, 0x793A, 0x9ED1, 0x5E01, 0x5730,
       0x5740]]],
     Message [(None, 3)] False [A ''&Display addresses in transaction list''] [[U [0x5728, 0x4EA4, 0x6613, 0x6E05,
       0x5355, 0x4E2D, 0x663E, 0x793A, 0x9ED1, 0x5E01, 0x5730, 0x5740], A ''(&D)'']],
     Message [(None, 7)] False [A ''Whether to show coin control features or not.''] [[U [0x662F, 0x5426, 0x9700,
       0x8981, 0x4EA4, 0x6613, 0x6E90, 0x5730, 0x5740, 0x63A7, 0x5236, 0x529F, 0x80FD, 0x3002]]],
     Message [(None, 3)] False [A ''Display coin &control features (experts only!)''] [[U [0x663E, 0x793A, 0x9ED1,
       0x5E01, 0x63A7, 0x5236, 0x9009, 0x9879], A ''('', U [0x4EC5, 0x7528, 0x4E8E, 0x4E13, 0x5BB6, 0x7528, 0x6237],
       A '')'']],
     Message [(None, 71)] False [A ''&OK''] [[U [0x786E, 0x5B9A], A ''(&O)'']],
     Message [(None, 7)] False [A ''&Cancel''] [[U [0x53D6, 0x6D88], A ''(&C)'']],
     Message [(None, 10)] False [A ''&Apply''] [[U [0x5E94, 0x7528], A ''(&A)'']],
     Message [(Some ''../optionsdialog.cpp'', 55)] False [A ''default''] [[U [0x9ED8, 0x8BA4]]],
     Message [(None, 149), (None, 9)] False [A ''Warning''] [[U [0x8B66, 0x544A]]],
     Message [(None, -9), (None, 9)] False [A ''This setting will take effect after restarting MotaCoin.''] [[U
       [0x91CD, 0x542F, 0x5BA2, 0x6237, 0x7AEF, 0x540E, 0x8BBE, 0x7F6E, 0x751F, 0x6548]]],
     Message [(None, 29)] False [A ''The supplied proxy address is invalid.''] [[U [0x63D0, 0x4F9B, 0x7684, 0x4EE3,
       0x7406, 0x670D, 0x52A1, 0x5668, 0x5730, 0x5740, 0x65E0, 0x6548, 0x3002]]]]"

definition zh_OverviewPage :: "ts_message list" where
  "zh_OverviewPage = [
     Message [(Some ''../forms/overviewpage.ui'', 14)] False [A ''Form''] [[U [0x8868, 0x5355]]],
     Message [(None, 33), (None, 231)] False [A
       ''The displayed information may be out of date. Your wallet automatically synchronizes with the MotaCoin network after a connection is established, but this process has not completed yet.''
       ] [[U [0x6240, 0x663E, 0x793A, 0x7684, 0x4FE1, 0x606F, 0x5C1A, 0x672A, 0x66F4, 0x65B0, 0xFF0C, 0x5EFA, 0x7ACB,
       0x8FDE, 0x63A5, 0x540E, 0x94B1, 0x5305, 0x5BA2, 0x6237, 0x7AEF, 0x4F1A, 0x81EA, 0x52A8, 0x548C, 0x7F51,
       0x7EDC, 0x8FDB, 0x884C, 0x540C, 0x6B65, 0xFF0C, 0x4F46, 0x76EE, 0x524D, 0x8BE5, 0x8FC7, 0x7A0B, 0x5C1A,
       0x672A, 0x5B8C, 0x6210, 0x3002]]],
     Message [(None, -160)] False [A ''Stake:''] [[U [0x7528, 0x4E8E, 0x6743, 0x76CA, 0x7D2F, 0x79EF, 0xFF1A]]],
     Message [(None, 29)] False [A ''Unconfirmed:''] [[U [0x672A, 0x786E, 0x8BA4, 0xFF1A]]],
     Message [(None, -107)] False [A ''Wallet''] [[U [0x94B1, 0x5305]]],
     Message [(None, 49)] False [A ''Spendable:''] [[U [0x53EF, 0x7528, 0x91D1, 0x989D, 0xFF1A]]],
     Message [(None, 16)] False [A ''Your current spendable balance''] [[U [0x60A8, 0x5F53, 0x524D, 0x53EF, 0x4F7F,
       0x7528, 0x7684, 0x4F59, 0x989D]]],
     Message [(None, 71)] False [A ''Immature:''] [[U [0x672A, 0x6210, 0x719F, 0x7684, 0xFF1A]]],
     Message [(None, 13)] False [A ''Mined balance that has not yet matured''] [[U [0x5C1A, 0x672A, 0x6210, 0x719F,
       0x7684, 0x6316, 0x77FF, 0x6536, 0x5165, 0x4F59, 0x989D]]],
     Message [(None, 20)] False [A ''Total:''] [[U [0x603B, 0x989D, 0xFF1A]]],
     Message [(None, 16)] False [A ''Your current total balance''] [[U [0x60A8, 0x5F53, 0x524D, 0x7684, 0x603B,
       0x4F59, 0x989D]]],
     Message [(None, 46)] False [A ''<b>Recent transactions</b>''] [[A ''<b>'', U [0x6700, 0x8FD1, 0x4EA4, 0x6613,
       0x8BB0, 0x5F55], A ''</b>'']],
     Message [(None, -108)] False [A
       ''Total of transactions that have yet to be confirmed, and do not yet count toward the current balance''] [[U
       [0x5C1A, 0x672A, 0x786E, 0x8BA4, 0x7684, 0x4EA4, 0x6613, 0x603B, 0x989D, 0xFF08, 0x4E0D, 0x8BA1, 0x5165,
       0x76EE, 0x524D, 0x94B1, 0x5305, 0x4F59, 0x989D, 0xFF09]]],
     Message [(None, -29)] False [A
       ''Total of coins that was staked, and do not yet count toward the current balance''] [[U [0x6B63, 0x5728,
       0x8FDB, 0x884C, 0x6743, 0x76CA, 0x7D2F, 0x79EF, 0x7684, 0x8D27, 0x5E01, 0x603B, 0x989D, 0xFF08, 0x4E0D,
       0x8BA1, 0x5165, 0x76EE, 0x524D, 0x94B1, 0x5305, 0x4F59, 0x989D, 0xFF09]]],
     Message [(Some ''../overviewpage.cpp'', 113), (None, 1)] False [A ''out of sync''] [[U [0x6570, 0x636E, 0x672A,
       0x540C, 0x6B65]]]]"

definition zh_QRCodeDialog :: "ts_message list" where
  "zh_QRCodeDialog = [
     Message [(Some ''../forms/qrcodedialog.ui'', 14)] False [A ''QR Code Dialog''] [[A ''QR'', U [0x4E8C, 0x7EF4,
       0x7801, 0x5BF9, 0x8BDD, 0x6846]]],
     Message [(None, 59)] False [A ''Request Payment''] [[U [0x8BF7, 0x6C42, 0x652F, 0x4ED8]]],
     Message [(None, 56)] False [A ''Amount:''] [[U [0x91D1, 0x989D, 0xFF1A]]],
     Message [(None, -44)] False [A ''Label:''] [[U [0x6807, 0x7B7E, 0xFF1A]]],
     Message [(None, 19)] False [A ''Message:''] [[U [0x4FE1, 0x606F, 0xFF1A]]],
     Message [(None, 71)] False [A ''&Save As...''] [[U [0x53E6, 0x5B58, 0x4E3A], A ''(&S)...'']],
     Message [(Some ''../qrcodedialog.cpp'', 62)] False [A ''Error encoding URI into QR Code.''] [[A ''URI'', U
       [0x7F16, 0x4E3A], A ''QR'', U [0x4E8C, 0x7EF4, 0x7801, 0x65F6, 0x51FA, 0x9519, 0x3002]]],
     Message [(None, 40)] False [A ''The entered amount is invalid, please check.''] [[U [0x8F93, 0x5165, 0x7684,
       0x91D1, 0x989D, 0x65E0, 0x6548, 0xFF0C, 0x8BF7, 0x68C0, 0x67E5, 0x3002]]],
     Message [(None, 23)] False [A ''Resulting URI too long, try to reduce the text for label / message.''] [[U
       [0x751F, 0x6210, 0x7684], A ''URI'', U [0x8FC7, 0x957F, 0xFF0C, 0x8BF7, 0x51CF, 0x77ED, 0x6807, 0x7B7E,
       0x6216, 0x6D88, 0x606F, 0x7684, 0x957F, 0x5EA6, 0x3002]]],
     Message [(None, 25)] False [A ''Save QR Code''] [[U [0x4FDD, 0x5B58], A ''QR'', U [0x4E8C, 0x7EF4, 0x7801]]],
     Message [(None, 0)] False [A ''PNG Images (*.png)''] [[A ''PNG'', U [0x56FE, 0x7247], A ''(*.png)'']]]"

definition zh_RPCConsole :: "ts_message list" where
  "zh_RPCConsole = [
     Message [(Some ''../forms/rpcconsole.ui'', 46)] False [A ''Client name''] [[U [0x5BA2, 0x6237, 0x7AEF, 0x540D,
       0x79F0]]],
     Message [(None, 10), (None, 23), (None, 26), (None, 23), (None, 23), (None, 36), (None, 53), (None, 23), (None,
       23), (Some ''../rpcconsole.cpp'', 348)] False [A ''N/A''] [[U [0x4E0D, 0x53EF, 0x7528]]],
     Message [(None, -217)] False [A ''Client version''] [[U [0x5BA2, 0x6237, 0x7AEF, 0x7248, 0x672C]]],
     Message [(None, -45)] False [A ''&Information''] [[U [0x4FE1, 0x606F], A ''(&I)'']],
     Message [(None, 68)] False [A ''Using OpenSSL version''] [[U [0x4F7F, 0x7528], A '' OpenSSL '', U [0x7248,
       0x672C]]],
     Message [(None, 49)] False [A ''Startup time''] [[U [0x542F, 0x52A8, 0x65F6, 0x95F4]]],
     Message [(None, 29)] False [A ''Network''] [[U [0x7F51, 0x7EDC]]],
     Message [(None, 7)] False [A ''Number of connections''] [[U [0x8FDE, 0x63A5, 0x6570]]],
     Message [(None, 23)] False [A ''On testnet''] [[U [0x6D4B, 0x8BD5, 0x7F51]]],
     Message [(None, 23)] False [A ''Block chain''] [[U [0x6570, 0x636E, 0x94FE]]],
     Message [(None, 7)] False [A ''Current number of blocks''] [[U [0x5F53, 0x524D, 0x6570, 0x636E, 0x5757, 0x6570,
       0x91CF]]],
     Message [(None, 23)] False [A ''Estimated total blocks''] [[U [0x9884, 0x8BA1, 0x6570, 0x636E, 0x5757, 0x6570,
       0x91CF]]],
     Message [(None, 23)] False [A ''Last block time''] [[U [0x4E0A, 0x4E00, 0x6570, 0x636E, 0x5757, 0x65F6, 0x95F4]]],
     Message [(None, 52)] False [A ''&Open''] [[U [0x6253, 0x5F00], A ''(&O)'']],
     Message [(None, 16)] False [A ''Command-line options''] [[U [0x547D, 0x4EE4, 0x884C, 0x9009, 0x9879]]],
     Message [(None, 7)] False [A
       ''Show the MotaCoin-Qt help message to get a list with possible MotaCoin command-line options.''] [[U [0x663E,
       0x793A, 0x5173, 0x4E8E, 0x547D, 0x4EE4, 0x884C, 0x9009, 0x9879, 0x7684, 0x5E2E, 0x52A9, 0x4FE1, 0x606F,
       0x3002]]],
     Message [(None, 3)] False [A ''&Show''] [[U [0x663E, 0x793A], A ''(&S)'']],
     Message [(None, 24)] False [A ''&Console''] [[U [0x63A7, 0x5236, 0x53F0], A ''(&C)'']],
     Message [(None, -260)] False [A ''Build date''] [[U [0x521B, 0x5EFA, 0x65F6, 0x95F4]]],
     Message [(None, -104)] False [A ''MotaCoin - Debug window''] [[U [0x9ED1, 0x5E01, 0x5BA2, 0x6237, 0x7AEF], A
       ''-'', U [0x8C03, 0x8BD5, 0x7A97, 0x53E3]]],
     Message [(None, 25)] False [A ''MotaCoin Core''] [[U [0x9ED1, 0x5E01, 0x6838, 0x5FC3, 0x8FDB, 0x7A0B]]],
     Message [(None, 279)] False [A ''Debug log file''] [[U [0x8C03, 0x8BD5, 0x65E5, 0x5FD7, 0x6587, 0x4EF6]]],
     Message [(None, 7)] False [A
       ''Open the MotaCoin debug log file from the current data directory. This can take a few seconds for large log files.''
       ] [[U [0x6253, 0x5F00, 0x8C03, 0x8BD5, 0x65E5, 0x5FD7, 0x6587, 0x4EF6, 0xFF0C, 0x5BF9, 0x4E8E, 0x8F83, 0x5927,
       0x7684, 0x6587, 0x4EF6, 0xFF0C, 0x8FD9, 0x53EF, 0x80FD, 0x6301, 0x7EED, 0x51E0, 0x79D2, 0x949F, 0x3002]]],
     Message [(None, 102)] False [A ''Clear console''] [[U [0x6E05, 0x7A7A, 0x63A7, 0x5236, 0x53F0]]],
     Message [(Some ''../rpcconsole.cpp'', -33)] False [A ''Welcome to the MotaCoin RPC console.''] [[U [0x6B22,
       0x8FCE, 0x4F7F, 0x7528, 0x9ED1, 0x5E01], A ''RPC'', U [0x63A7, 0x5236, 0x53F0, 0x3002]]],
     Message [(None, 1)] False [A ''Use up and down arrows to navigate history, and <b>Ctrl-L</b> to clear screen.'']
       [[U [0x4F7F, 0x7528, 0x4E0A, 0x4E0B, 0x65B9, 0x5411, 0x952E, 0x6D4F, 0x89C8, 0x5386, 0x53F2], A
       '',  <b>Ctrl-L</b>'', U [0x6E05, 0x9664, 0x5C4F, 0x5E55, 0x3002]]],
     Message [(None, 1)] False [A ''Type <b>help</b> for an overview of available commands.''] [[U [0x4F7F, 0x7528],
       A '' <b>help</b> '', U [0x547D, 0x4EE4, 0x663E, 0x793A, 0x5E2E, 0x52A9, 0x4FE1, 0x606F, 0x3002]]]]"

definition zh_SendCoinsDialog_1 :: "ts_message list" where
  "zh_SendCoinsDialog_1 = [
     Message [(Some ''../forms/sendcoinsdialog.ui'', 14), (Some ''../sendcoinsdialog.cpp'', 182), (None, 5), (None,
       5), (None, 5), (None, 6), (None, 5), (None, 5)] False [A ''Send Coins''] [[U [0x53D1, 0x9001, 0x8D27, 0x5E01]]],
     Message [(None, 76)] False [A ''Coin Control Features''] [[U [0x4EA4, 0x6613, 0x6E90, 0x5730, 0x5740, 0x63A7,
       0x5236, 0x529F, 0x80FD]]],
     Message [(None, 20)] False [A ''Inputs...''] [[U [0x8F93, 0x5165], A ''...'']],
     Message [(None, 7)] False [A ''automatically selected''] [[U [0x81EA, 0x52A8, 0x9009, 0x62E9]]],
     Message [(None, 19)] False [A ''Insufficient funds!''] [[U [0x5B58, 0x6B3E, 0x4E0D, 0x8DB3, 0xFF01]]],
     Message [(None, 77)] False [A ''Quantity:''] [[U [0x603B, 0x91CF, 0xFF1A]]],
     Message [(None, 22), (None, 35)] False [A ''0''] [[A ''0'']],
     Message [(None, -19)] False [A ''Bytes:''] [[U [0x5B57, 0x8282, 0xFF1A]]],
     Message [(None, 51)] False [A ''Amount:''] [[U [0x91D1, 0x989D, 0xFF1A]]],
     Message [(None, 22), (None, 86), (None, 86), (None, 32)] False [A ''0.00 MOTA''] [[A ''123.456 MOTA '', U
       [0x7B], A ''0.00 ?'', U [0x7D]]],
     Message [(None, -191)] False [A ''Priority:''] [[U [0x4F18, 0x5148, 0x7EA7, 0xFF1A]]],
     Message [(None, 19)] False [A ''medium''] [[U [0x4E2D, 0x7B49]]],
     Message [(None, 32)] False [A ''Fee:''] [[U [0x8D39, 0x7528, 0xFF1A]]],
     Message [(None, 35)] False [A ''Low Output:''] [[U [0x4F4E, 0x8F93, 0x51FA]]],
     Message [(None, 19)] False [A ''no''] [[A ''no'']],
     Message [(None, 32)] False [A ''After Fee:''] [[U [0x52A0, 0x4E0A, 0x4EA4, 0x6613, 0x8D39, 0x7528, 0x540E], A
       '':'']],
     Message [(None, 35)] False [A ''Change''] [[U [0x96F6, 0x94B1]]],
     Message [(None, 50)] False [A ''custom change address''] [[U [0x81EA, 0x5B9A, 0x4E49, 0x96F6, 0x94B1, 0x5730,
       0x5740]]],
     Message [(None, 106)] False [A ''Send to multiple recipients at once''] [[U [0x4E00, 0x6B21, 0x53D1, 0x9001,
       0x7ED9, 0x591A, 0x4E2A, 0x63A5, 0x6536, 0x8005]]],
     Message [(None, 3)] False [A ''Add &Recipient''] [[U [0x6DFB, 0x52A0, 0x6536, 0x6B3E, 0x4EBA], A ''(&R)'']],
     Message [(None, 20)] False [A ''Remove all transaction fields''] [[U [0x5220, 0x9664, 0x6240, 0x6709, 0x4EA4,
       0x6613, 0x533A, 0x57DF]]],
     Message [(None, 3)] False [A ''Clear &All''] [[U [0x6E05, 0x9664, 0x6240, 0x6709], A ''(&A)'']],
     Message [(None, 28)] False [A ''Balance:''] [[U [0x4F59, 0x989D, 0xFF1A]]],
     Message [(None, 16)] False [A ''123.456 MOTA''] [[A ''123.456 MOTA'']],
     Message [(None, 31)] False [A ''Confirm the send action''] [[U [0x786E, 0x8BA4, 0x5E76, 0x53D1, 0x9001, 0x8D27,
       0x5E01]]],
     Message [(None, 3)] False [A ''S&end''] [[U [0x53D1, 0x9001], A ''(&E)'']],
     Message [(Some ''../sendcoinsdialog.cpp'', -173)] False [A
       ''Enter a MotaCoin address (e.g. MBDKLakRxSRw7hUB2q5DXEnDpNpLVkqGZd)''] [[U [0x8F93, 0x5165, 0x9ED1, 0x5E01,
       0x5730, 0x5740], A ''('', U [0x4F8B, 0x5982, 0xFF1A], A ''MBDKLakRxSRw7hUB2q5DXEnDpNpLVkqGZd)'']]]"

definition zh_SendCoinsDialog_2 :: "ts_message list" where
  "zh_SendCoinsDialog_2 = [
     Message [(None, 15)] False [A ''Copy quantity''] [[U [0x590D, 0x5236, 0x91D1, 0x989D]]],
     Message [(None, 1)] False [A ''Copy amount''] [[U [0x590D, 0x5236, 0x91D1, 0x989D]]],
     Message [(None, 1)] False [A ''Copy fee''] [[U [0x590D, 0x5236, 0x4EA4, 0x6613, 0x8D39]]],
     Message [(None, 1)] False [A ''Copy after fee''] [[U [0x590D, 0x5236, 0x542B, 0x4EA4, 0x6613, 0x8D39, 0x7684,
       0x91D1, 0x989D]]],
     Message [(None, 1)] False [A ''Copy bytes''] [[U [0x590D, 0x5236, 0x5B57, 0x8282]]],
     Message [(None, 1)] False [A ''Copy priority''] [[U [0x590D, 0x5236, 0x4F18, 0x5148, 0x7EA7]]],
     Message [(None, 1)] False [A ''Copy low output''] [[U [0x590D, 0x5236, 0x4F4E, 0x8F93, 0x51FA]]],
     Message [(None, 1)] False [A ''Copy change''] [[U [0x590D, 0x5236, 0x96F6, 0x94B1]]],
     Message [(None, 86)] False [A ''<b>%1</b> to %2 (%3)''] [[A ''<b>%1</b> '', U [0x81F3], A '' %2 (%3)'']],
     Message [(None, 5)] False [A ''Confirm send coins''] [[U [0x786E, 0x8BA4, 0x53D1, 0x9001, 0x8D27, 0x5E01]]],
     Message [(None, 1)] False [A ''Are you sure you want to send %1?''] [[U [0x786E, 0x8BA4, 0x8981, 0x53D1,
       0x9001], A '' %1 ?'']],
     Message [(None, 0)] False [A '' and ''] [[U [0x548C]]],
     Message [(None, 29)] False [A ''The recipient address is not valid, please recheck.''] [[U [0x6536, 0x6B3E,
       0x4EBA, 0x5730, 0x5740, 0x4E0D, 0x5408, 0x6CD5, 0xFF0C, 0x8BF7, 0x68C0, 0x67E5, 0x3002]]],
     Message [(None, 5)] False [A ''The amount to pay must be larger than 0.''] [[U [0x652F, 0x4ED8, 0x91D1, 0x989D,
       0x5FC5, 0x987B, 0x5927, 0x4E8E], A ''0'', U [0x3002]]],
     Message [(None, 5)] False [A ''The amount exceeds your balance.''] [[U [0x91D1, 0x989D, 0x8D85, 0x51FA, 0x60A8,
       0x7684, 0x8D26, 0x4E0A, 0x4F59, 0x989D, 0x3002]]],
     Message [(None, 5)] False [A ''The total exceeds your balance when the %1 transaction fee is included.''] [[U
       [0x8BA1, 0x5165], A '' %1 '', U [0x4EA4, 0x6613, 0x8D39, 0x540E, 0x7684, 0x91D1, 0x989D, 0x8D85, 0x51FA,
       0x60A8, 0x7684, 0x8D26, 0x4E0A, 0x4F59, 0x989D, 0x3002]]],
     Message [(None, 6)] False [A ''Duplicate address found, can only send to each address once per send operation.''
       ] [[U [0x53D1, 0x73B0, 0x91CD, 0x590D, 0x7684, 0x5730, 0x5740], A '', '', U [0x6BCF, 0x6B21, 0x53EA, 0x80FD,
       0x5BF9, 0x540C, 0x4E00, 0x5730, 0x5740, 0x53D1, 0x9001, 0x4E00, 0x6B21, 0x3002]]],
     Message [(None, 5)] False [A ''Error: Transaction creation failed.''] [[U [0x9519, 0x8BEF, 0xFF1A, 0x4EA4,
       0x6613, 0x521B, 0x5EFA, 0x5931, 0x8D25, 0x3002]]],
     Message [(None, 5)] False [A
       ''Error: The transaction was rejected. This might happen if some of the coins in your wallet were already spent, such as if you used a copy of wallet.dat and coins were spent in the copy but not marked as spent here.''
       ] [[U [0x9519, 0x8BEF, 0xFF1A, 0x4EA4, 0x6613, 0x88AB, 0x62D2, 0x7EDD, 0x3002, 0x53EF, 0x80FD, 0x7531, 0x4E8E,
       0x94B1, 0x5305, 0x4E2D, 0x90E8, 0x5206, 0x91D1, 0x989D, 0x5DF2, 0x88AB, 0x4F7F, 0x7528, 0xFF0C, 0x4F8B,
       0x5982, 0x60A8, 0x4F7F, 0x7528, 0x4E86, 0x94B1, 0x5305, 0x6570, 0x636E, 0x7684, 0x526F, 0x672C, 0xFF0C,
       0x5728, 0x526F, 0x672C, 0x4E2D, 0x67D0, 0x4E9B, 0x91D1, 0x989D, 0x5DF2, 0x88AB, 0x4F7F, 0x7528, 0xFF0C,
       0x4F46, 0x5728, 0x6B64, 0x5904, 0x5C1A, 0x672A, 0x88AB, 0x6807, 0x8BB0, 0x4E3A, 0x5DF2, 0x4F7F, 0x7528,
       0x3002]]],
     Message [(None, 251)] False [A ''WARNING: Invalid MotaCoin address''] [[U [0x8B66, 0x544A, 0xFF1A, 0x65E0,
       0x6548, 0x7684, 0x9ED1, 0x5E01, 0x5730, 0x5740]]],
     Message [(None, 13)] False [A ''(no label)''] [[A ''('', U [0x6CA1, 0x6709, 0x6807, 0x7B7E], A '')'']],
     Message [(None, 4)] False [A ''WARNING: unknown change address''] [[U [0x8B66, 0x544A, 0xFF1A, 0x672A, 0x77E5,
       0x7684, 0x96F6, 0x94B1, 0x5730, 0x5740]]]]"

definition zh_SendCoinsEntry :: "ts_message list" where
  "zh_SendCoinsEntry = [
     Message [(Some ''../forms/sendcoinsentry.ui'', 14)] False [A ''Form''] [[U [0x8868, 0x5355]]],
     Message [(None, 15)] False [A ''A&mount:''] [[U [0x91D1, 0x989D], A ''(&M)'']],
     Message [(None, 13)] False [A ''Pay &To:''] [[U [0x4ED8, 0x7ED9], A ''(&T)'', U [0xFF1A]]],
     Message [(None, 24), (Some ''../sendcoinsentry.cpp'', 25)] False [A
       ''Enter a label for this address to add it to your address book''] [[U [0x4E3A, 0x8FD9, 0x4E2A, 0x5730,
       0x5740, 0x8F93, 0x5165, 0x4E00, 0x4E2A, 0x6807, 0x7B7E, 0xFF0C, 0x4EE5, 0x4FBF, 0x5C06, 0x5B83, 0x6DFB,
       0x52A0, 0x5230, 0x60A8, 0x7684, 0x5730, 0x5740, 0x7C3F]]],
     Message [(None, 9)] False [A ''&Label:''] [[U [0x6807, 0x7B7E], A ''(&L)'', U [0xFF1A]]],
     Message [(None, 18)] False [A ''The address to send the payment to  (e.g. MBDKLakRxSRw7hUB2q5DXEnDpNpLVkqGZd)'']
       [[U [0x6536, 0x6B3E, 0x4EBA, 0x5730, 0x5740], A ''('', U [0x4F8B, 0xFF1A], A
       ''MBDKLakRxSRw7hUB2q5DXEnDpNpLVkqGZd)'']],
     Message [(None, 10)] False [A ''Choose address from address book''] [[U [0x4ECE, 0x5730, 0x5740, 0x7C3F, 0x9009,
       0x62E9, 0x5730, 0x5740]]],
     Message [(None, 10)] False [A ''Alt+A''] [[A ''Alt+A'']],
     Message [(None, 7)] False [A ''Paste address from clipboard''] [[U [0x4ECE, 0x526A, 0x8D34, 0x677F, 0x7C98,
       0x8D34, 0x5730, 0x5740]]],
     Message [(None, 10)] False [A ''Alt+P''] [[A ''Alt+P'']],
     Message [(None, 7)] False [A ''Remove this recipient''] [[U [0x5220, 0x9664, 0x6536, 0x6B3E, 0x4EBA]]],
     Message [(Some ''../sendcoinsentry.cpp'', 1)] False [A
       ''Enter a MotaCoin address (e.g. MBDKLakRxSRw7hUB2q5DXEnDpNpLVkqGZd)''] [[U [0x8F93, 0x5165, 0x4E00, 0x4E2A,
       0x9ED1, 0x5E01, 0x5730, 0x5740], A '' ('', U [0x4F8B, 0xFF1A], A ''MBDKLakRxSRw7hUB2q5DXEnDpNpLVkqGZd)'']]]"

definition zh_SignVerifyMessageDialog_1 :: "ts_message list" where
  "zh_SignVerifyMessageDialog_1 = [
     Message [(Some ''../forms/signverifymessagedialog.ui'', 14)] False [A ''Signatures - Sign / Verify a Message'']
       [[U [0x7B7E, 0x540D], A '' - '', U [0x4E3A, 0x6D88, 0x606F, 0x7B7E, 0x540D], A ''/'', U [0x9A8C, 0x8BC1,
       0x7B7E, 0x540D, 0x6D88, 0x606F]]],
     Message [(None, 13), (None, 124)] False [A ''&Sign Message''] [[U [0x7B7E, 0x540D, 0x6D88, 0x606F], A ''(&S)'']],
     Message [(None, -118)] False [A
       ''You can sign messages with your addresses to prove you own them. Be careful not to sign anything vague, as phishing attacks may try to trick you into signing your identity over to them. Only sign fully-detailed statements you agree to.''
       ] [[U [0x60A8, 0x53EF, 0x4EE5, 0x7528, 0x4F60, 0x7684, 0x5730, 0x5740, 0x5BF9, 0x6D88, 0x606F, 0x8FDB, 0x884C,
       0x7B7E, 0x540D, 0xFF0C, 0x4EE5, 0x8BC1, 0x660E, 0x60A8, 0x662F, 0x8BE5, 0x5730, 0x5740, 0x7684, 0x6240,
       0x6709, 0x4EBA, 0x3002, 0x6CE8, 0x610F, 0x4E0D, 0x8981, 0x5BF9, 0x6A21, 0x68F1, 0x4E24, 0x53EF, 0x7684,
       0x6D88, 0x606F, 0x7B7E, 0x540D, 0xFF0C, 0x4EE5, 0x514D, 0x906D, 0x53D7, 0x9493, 0x9C7C, 0x5F0F, 0x653B,
       0x51FB, 0x3002, 0x8BF7, 0x786E, 0x4FDD, 0x6D88, 0x606F, 0x5185, 0x5BB9, 0x51C6, 0x786E, 0x7684, 0x8868,
       0x8FBE, 0x4E86, 0x60A8, 0x7684, 0x771F, 0x5B9E, 0x610F, 0x613F, 0x3002]]],
     Message [(None, 18)] False [A ''The address to sign the message with (e.g. MBDKLakRxSRw7hUB2q5DXEnDpNpLVkqGZd)''
       ] [[U [0x7528, 0x6765, 0x7B7E, 0x540D, 0x8BE5, 0x6D88, 0x606F, 0x7684, 0x5730, 0x5740], A ''('', U [0x4F8B,
       0xFF1A], A '' MBDKLakRxSRw7hUB2q5DXEnDpNpLVkqGZd)'']],
     Message [(None, 10), (None, 203)] False [A ''Choose an address from the address book''] [[U [0x4ECE, 0x5730,
       0x5740, 0x7C3F, 0x91CC, 0x9009, 0x62E9, 0x4E00, 0x4E2A, 0x5730, 0x5740]]],
     Message [(None, -193), (None, 203)] False [A ''Alt+A''] [[A ''Alt+A'']],
     Message [(None, -193)] False [A ''Paste address from clipboard''] [[U [0x4ECE, 0x526A, 0x8D34, 0x677F, 0x7C98,
       0x8D34, 0x5730, 0x5740]]],
     Message [(None, 10)] False [A ''Alt+P''] [[A ''Alt+P'']],
     Message [(None, 12)] False [A ''Enter the message you want to sign here''] [[U [0x8BF7, 0x8F93, 0x5165, 0x60A8,
       0x8981, 0x53D1, 0x9001, 0x7684, 0x7B7E, 0x540D, 0x6D88, 0x606F]]],
     Message [(None, 24)] False [A ''Copy the current signature to the system clipboard''] [[U [0x590D, 0x5236,
       0x5F53, 0x524D, 0x7B7E, 0x540D, 0x81F3, 0x526A, 0x5207, 0x677F]]],
     Message [(None, 21)] False [A ''Sign the message to prove you own this MotaCoin address''] [[U [0x5BF9, 0x8BE5,
       0x6D88, 0x606F, 0x8FDB, 0x884C, 0x7B7E, 0x540D, 0x4EE5, 0x8BC1, 0x660E, 0x60A8, 0x5BF9, 0x8BE5, 0x9ED1,
       0x5E01, 0x5730, 0x5740, 0x7684, 0x6240, 0x6709, 0x6743]]],
     Message [(None, 17)] False [A ''Reset all sign message fields''] [[U [0x6E05, 0x7A7A, 0x6240, 0x6709, 0x7B7E,
       0x540D, 0x6D88, 0x606F, 0x680F]]],
     Message [(None, 3), (None, 146)] False [A ''Clear &All''] [[U [0x6E05, 0x9664, 0x6240, 0x6709], A ''(&A)'']],
     Message [(None, -87), (None, 70)] False [A ''&Verify Message''] [[U [0x9A8C, 0x8BC1, 0x6D88, 0x606F], A ''(&V)''
       ]],
     Message [(None, -64)] False [A
       ''Enter the signing address, message (ensure you copy line breaks, spaces, tabs, etc. exactly) and signature below to verify the message. Be careful not to read more into the signature than what is in the signed message itself, to avoid being tricked by a man-in-the-middle attack.''
       ] [[U [0x5728, 0x4E0B, 0x9762, 0x8F93, 0x5165, 0x7B7E, 0x540D, 0x5730, 0x5740, 0xFF0C, 0x6D88, 0x606F, 0xFF08,
       0x8BF7, 0x786E, 0x4FDD, 0x6362, 0x884C, 0x7B26, 0x3001, 0x7A7A, 0x683C, 0x7B26, 0x3001, 0x5236, 0x8868,
       0x7B26, 0x7B49, 0x7B49, 0x4E00, 0x4E2A, 0x4E0D, 0x6F0F, 0xFF09, 0x548C, 0x7B7E, 0x540D, 0x4EE5, 0x9A8C,
       0x8BC1, 0x6D88, 0x606F, 0x3002, 0x8BF7, 0x786E, 0x4FDD, 0x7B7E, 0x540D, 0x4FE1, 0x606F, 0x51C6, 0x786E,
       0xFF0C, 0x63D0, 0x9632, 0x4E2D, 0x95F4, 0x4EBA, 0x653B, 0x51FB, 0x3002]]],
     Message [(None, 21)] False [A
       ''The address the message was signed with (e.g. MBDKLakRxSRw7hUB2q5DXEnDpNpLVkqGZd)''] [[U [0x7528, 0x6765,
       0x7B7E, 0x540D, 0x8BE5, 0x6D88, 0x606F, 0x7684, 0x9ED1, 0x5E01, 0x5730, 0x5740], A ''('', U [0x4F8B, 0xFF1A],
       A '' MBDKLakRxSRw7hUB2q5DXEnDpNpLVkqGZd)'']],
     Message [(None, 40)] False [A ''Verify the message to ensure it was signed with the specified MotaCoin address''
       ] [[U [0x786E, 0x8BA4, 0x8BE5, 0x6D88, 0x606F, 0x4EE5, 0x4FDD, 0x8BC1, 0x5B83, 0x7ECF, 0x7531, 0x6307, 0x5B9A,
       0x7684, 0x9ED1, 0x5E01, 0x5730, 0x5740, 0x7B7E, 0x540D]]],
     Message [(None, 17)] False [A ''Reset all verify message fields''] [[U [0x6E05, 0x7A7A, 0x6240, 0x6709, 0x9A8C,
       0x8BC1, 0x6D88, 0x606F, 0x680F]]],
     Message [(Some ''../signverifymessagedialog.cpp'', 27), (None, 3)] False [A
       ''Enter a MotaCoin address (e.g. MBDKLakRxSRw7hUB2q5DXEnDpNpLVkqGZd)''] [[U [0x8F93, 0x5165, 0x9ED1, 0x5E01,
       0x5730, 0x5740], A ''('', U [0x4F8B, 0xFF1A], A '' MBDKLakRxSRw7hUB2q5DXEnDpNpLVkqGZd)'']],
     Message [(None, -2)] False [A ''Click '', U [0x22], A ''Sign Message'', U [0x22], A '' to generate signature'']
       [[U [0x5355, 0x51FB, 0x201C, 0x7B7E, 0x540D, 0x6D88, 0x606F, 0x201C, 0x4EA7, 0x751F, 0x7B7E, 0x540D, 0x3002]]],
     Message [(None, 3)] False [A ''Enter MotaCoin signature''] [[U [0x8F93, 0x5165, 0x9ED1, 0x5E01, 0x7B7E, 0x540D]]],
     Message [(None, 82), (None, 81)] False [A ''The entered address is invalid.''] [[U [0x8F93, 0x5165, 0x7684,
       0x5730, 0x5740, 0x975E, 0x6CD5, 0x3002]]],
     Message [(None, -81), (None, 8), (None, 73), (None, 8)] False [A ''Please check the address and try again.'']
       [[U [0x8BF7, 0x68C0, 0x67E5, 0x5730, 0x5740, 0x540E, 0x91CD, 0x8BD5, 0x3002]]],
     Message [(None, -81), (None, 81)] False [A ''The entered address does not refer to a key.''] [[U [0x8F93,
       0x5165, 0x7684, 0x5730, 0x5740, 0x6CA1, 0x6709, 0x5173, 0x8054, 0x7684, 0x516C, 0x79C1, 0x94A5, 0x5BF9,
       0x3002]]],
     Message [(None, -73)] False [A ''Wallet unlock was cancelled.''] [[U [0x94B1, 0x5305, 0x89E3, 0x9501, 0x52A8,
       0x4F5C, 0x53D6, 0x6D88, 0x3002]]],
     Message [(None, 8)] False [A ''Private key for the entered address is not available.''] [[U [0x627E, 0x4E0D,
       0x5230, 0x8F93, 0x5165, 0x5730, 0x5740, 0x5173, 0x8054, 0x7684, 0x79C1, 0x94A5, 0x3002]]],
     Message [(None, 12)] False [A ''Message signing failed.''] [[U [0x6D88, 0x606F, 0x7B7E, 0x540D, 0x5931, 0x8D25,
       0x3002]]]]"

definition zh_SignVerifyMessageDialog_2 :: "ts_message list" where
  "zh_SignVerifyMessageDialog_2 = [
     Message [(None, 5)] False [A ''Message signed.''] [[U [0x6D88, 0x606F, 0x5DF2, 0x7B7E, 0x540D, 0x3002]]],
     Message [(None, 59)] False [A ''The signature could not be decoded.''] [[U [0x7B7E, 0x540D, 0x65E0, 0x6CD5,
       0x89E3, 0x7801, 0x3002]]],
     Message [(None, 0), (None, 13)] False [A ''Please check the signature and try again.''] [[U [0x8BF7, 0x68C0,
       0x67E5, 0x7B7E, 0x540D, 0x540E, 0x91CD, 0x8BD5, 0x3002]]],
     Message [(None, 0)] False [A ''The signature did not match the message digest.''] [[U [0x7B7E, 0x540D, 0x4E0E,
       0x6D88, 0x606F, 0x6458, 0x8981, 0x4E0D, 0x5339, 0x914D, 0x3002]]],
     Message [(None, 7)] False [A ''Message verification failed.''] [[U [0x6D88, 0x606F, 0x9A8C, 0x8BC1, 0x5931,
       0x8D25, 0x3002]]],
     Message [(None, 5)] False [A ''Message verified.''] [[U [0x6D88, 0x606F, 0x9A8C, 0x8BC1, 0x6210, 0x529F,
       0x3002]]]]"

definition zh_TransactionDesc_1 :: "ts_message list" where
  "zh_TransactionDesc_1 = [
     Message [(Some ''../transactiondesc.cpp'', 19)] False [A ''Open until %1''] [[U [0x81F3], A '' %1 '', U [0x4E2A,
       0x6570, 0x636E, 0x5757, 0x65F6, 0x5F00, 0x542F]]],
     Message [(None, -2)] True [A ''Open for %n block(s)''] [[U [0x4E3A], A '' %n '', U [0x4E2A, 0x6570, 0x636E,
       0x5757, 0x5F00, 0x542F]]],
     Message [(None, 8)] False [A ''conflicted''] [[U [0x53D1, 0x73B0, 0x51B2, 0x7A81]]],
     Message [(None, 2)] False [A ''%1/offline''] [[A ''%1 / '', U [0x79BB, 0x7EBF]]],
     Message [(None, 2)] False [A ''%1/unconfirmed''] [[A ''%1/'', U [0x672A, 0x786E, 0x8BA4]]],
     Message [(None, 2)] False [A ''%1 confirmations''] [[A ''%1 '', U [0x5DF2, 0x786E, 0x8BA4]]],
     Message [(None, 18)] False [A ''Status''] [[U [0x72B6, 0x6001]]],
     Message [(None, 7)] True [A '', broadcast through %n node(s)''] [[U [0x901A, 0x8FC7], A '' %n '', U [0x4E2A,
       0x8282, 0x70B9, 0x5E7F, 0x64AD]]],
     Message [(None, 4)] False [A ''Date''] [[U [0x65E5, 0x671F]]],
     Message [(None, 7)] False [A ''Source''] [[U [0x6E90]]],
     Message [(None, 0)] False [A ''Generated''] [[U [0x751F, 0x6210]]],
     Message [(None, 5), (None, 17)] False [A ''From''] [[U [0x6765, 0x81EA]]],
     Message [(None, 1), (None, 22), (None, 58)] False [A ''To''] [[U [0x5230]]],
     Message [(None, -77), (None, 2)] False [A ''own address''] [[U [0x81EA, 0x5DF1, 0x7684, 0x5730, 0x5740]]],
     Message [(None, -2)] False [A ''label''] [[U [0x6807, 0x7B7E]]],
     Message [(None, 37), (None, 12), (None, 45), (None, 17), (None, 30)] False [A ''Credit''] [[U [0x6536, 0x5165]]],
     Message [(None, -102)] True [A ''matures in %n more block(s)''] [[U [0x5C06, 0x5728], A '' %n '', U [0x4E2A,
       0x6570, 0x636E, 0x5757, 0x540E, 0x6210, 0x719F]]],
     Message [(None, 2)] False [A ''not accepted''] [[U [0x672A, 0x88AB, 0x63A5, 0x53D7]]],
     Message [(None, 44), (None, 8), (None, 15), (None, 30)] False [A ''Debit''] [[U [0x652F, 0x51FA]]],
     Message [(None, -39)] False [A ''Transaction fee''] [[U [0x4EA4, 0x6613, 0x8D39]]],
     Message [(None, 16)] False [A ''Net amount''] [[U [0x51C0, 0x989D]]],
     Message [(None, 6)] False [A ''Message''] [[U [0x6D88, 0x606F]]],
     Message [(None, 2)] False [A ''Comment''] [[U [0x5907, 0x6CE8]]],
     Message [(None, 2)] False [A ''Transaction ID''] [[U [0x4EA4, 0x6613], A ''ID'']],
     Message [(None, 3)] False [A
       ''Generated coins must mature 510 blocks before they can be spent. When you generated this block, it was broadcast to the network to be added to the block chain. If it fails to get into the chain, its state will change to ''
       , U [0x22], A ''not accepted'', U [0x22], A '' and it won'', U [0x27], A
       ''t be spendable. This may occasionally happen if another node generates a block within a few seconds of yours.''
       ] [[U [0x901A, 0x8FC7, 0x6743, 0x76CA, 0x7D2F, 0x79EF, 0x83B7, 0x5F97, 0x7684, 0x91D1, 0x989D, 0x9700, 0x8981,
       0x5728], A ''510'', U [0x4E2A, 0x5757, 0x786E, 0x8BA4, 0x540E, 0x65B9, 0x53EF, 0x4F7F, 0x7528, 0x3002, 0x6B64,
       0x6570, 0x636E, 0x5757, 0x751F, 0x6210, 0x65F6, 0xFF0C, 0x5C06, 0x88AB, 0x5E7F, 0x64AD, 0x5230, 0x7F51,
       0x7EDC, 0x5E76, 0x52A0, 0x5165, 0x533A, 0x5757, 0x94FE, 0x3002, 0x5982, 0x679C, 0x672A, 0x80FD, 0x6210,
       0x529F, 0x52A0, 0x5165, 0x533A, 0x5757, 0x94FE, 0xFF0C, 0x5176, 0x72B6, 0x6001, 0x4F1A, 0x663E, 0x793A,
       0x4E3A, 0x201C, 0x672A, 0x63A5, 0x53D7, 0x201D, 0xFF0C, 0x8BE5, 0x90E8, 0x5206, 0x91D1, 0x989D, 0x4E5F,
       0x4E0D, 0x53EF, 0x88AB, 0x4F7F, 0x7528, 0x3002, 0x5982, 0x679C, 0x5176, 0x4ED6, 0x8282, 0x70B9, 0x5728,
       0x60A8, 0x751F, 0x6210, 0x533A, 0x5757, 0x540E, 0x7684, 0x51E0, 0x79D2, 0x949F, 0x5185, 0x4E5F, 0x751F,
       0x6210, 0x4E86, 0x533A, 0x5757, 0xFF0C, 0x8FD9, 0x79CD, 0x60C5, 0x51B5, 0x4F1A, 0x5076, 0x5C14, 0x53D1,
       0x751F, 0x3002]]],
     Message [(None, 7)] False [A ''Debug information''] [[U [0x8C03, 0x8BD5, 0x4FE1, 0x606F]]],
     Message [(None, 8)] False [A ''Transaction''] [[U [0x4EA4, 0x6613]]]]"

definition zh_TransactionDesc_2 :: "ts_message list" where
  "zh_TransactionDesc_2 = [
     Message [(None, 5)] False [A ''Inputs''] [[U [0x8F93, 0x5165]]],
     Message [(None, 23)] False [A ''Amount''] [[U [0x91D1, 0x989D]]],
     Message [(None, 1)] False [A ''true''] [[U [0x6B63, 0x786E]]],
     Message [(None, 0)] False [A ''false''] [[U [0x9519, 0x8BEF]]],
     Message [(None, -211)] False [A '', has not been successfully broadcast yet''] [[U [0xFF0C, 0x672A, 0x88AB,
       0x6210, 0x529F, 0x5E7F, 0x64AD]]],
     Message [(None, 35)] False [A ''unknown''] [[U [0x672A, 0x77E5]]]]"

definition zh_TransactionDescDialog :: "ts_message list" where
  "zh_TransactionDescDialog = [
     Message [(Some ''../forms/transactiondescdialog.ui'', 14)] False [A ''Transaction details''] [[U [0x4EA4,
       0x6613, 0x7EC6, 0x8282]]],
     Message [(None, 6)] False [A ''This pane shows a detailed description of the transaction''] [[U [0x5F53, 0x524D,
       0x9762, 0x677F, 0x663E, 0x793A, 0x4E86, 0x4EA4, 0x6613, 0x7684, 0x8BE6, 0x7EC6, 0x4FE1, 0x606F]]]]"

definition zh_TransactionTableModel :: "ts_message list" where
  "zh_TransactionTableModel = [
     Message [(Some ''../transactiontablemodel.cpp'', 226)] False [A ''Date''] [[U [0x65E5, 0x671F]]],
     Message [(None, 0)] False [A ''Type''] [[U [0x7C7B, 0x578B]]],
     Message [(None, 0)] False [A ''Address''] [[U [0x5730, 0x5740]]],
     Message [(None, 0)] False [A ''Amount''] [[U [0x6570, 0x91CF]]],
     Message [(None, 60)] False [A ''Open until %1''] [[U [0x81F3], A '' %1 '', U [0x4E2A, 0x6570, 0x636E, 0x5757,
       0x65F6, 0x5F00, 0x542F]]],
     Message [(None, 12)] False [A ''Confirmed (%1 confirmations)''] [[U [0x5DF2, 0x786E, 0x8BA4], A '' (%1 '', U
       [0x6761, 0x786E, 0x8BA4, 0x4FE1, 0x606F], A '')'']],
     Message [(None, -15)] True [A ''Open for %n more block(s)''] [[U [0x4E3A], A '' %n '', U [0x4E2A, 0x66F4,
       0x591A, 0x7684, 0x533A, 0x5757, 0x5F00, 0x542F]]],
     Message [(None, 6)] False [A ''Offline''] [[U [0x6389, 0x7EBF]]],
     Message [(None, 3)] False [A ''Unconfirmed''] [[U [0x672A, 0x786E, 0x8BA4, 0x7684], A '' '']],
     Message [(None, 3)] False [A ''Confirming (%1 of %2 recommended confirmations)''] [[U [0x786E, 0x8BA4, 0x4E2D],
       A '' ('', U [0x63A8, 0x8350], A '' %2'', U [0x4E2A, 0x786E, 0x8BA4, 0xFF0C, 0x5DF2, 0x7ECF, 0x6709], A '' %1''
       , U [0x4E2A, 0x786E, 0x8BA4], A '')'']],
     Message [(None, 6)] False [A ''Conflicted''] [[U [0x51B2, 0x7A81, 0x7684]]],
     Message [(None, 3)] False [A ''Immature (%1 confirmations, will be available after %2)''] [[U [0x672A, 0x6210,
       0x719F], A '' (%1 '', U [0x4E2A, 0x786E, 0x8BA4, 0xFF0C, 0x5C06, 0x5728], A '' %2 '', U [0x4E2A, 0x540E,
       0x53EF, 0x7528], A '')'']],
     Message [(None, 3)] False [A
       ''This block was not received by any other nodes and will probably not be accepted!''] [[U [0x6B64, 0x6570,
       0x636E, 0x5757, 0x672A, 0x88AB, 0x4EFB, 0x4F55, 0x5176, 0x4ED6, 0x8282, 0x70B9, 0x63A5, 0x6536, 0xFF0C,
       0x53EF, 0x80FD, 0x4E0D, 0x88AB, 0x63A5, 0x53D7, 0xFF01]]],
     Message [(None, 3)] False [A ''Generated but not accepted''] [[U [0x5DF2, 0x751F, 0x6210, 0x4F46, 0x672A,
       0x88AB, 0x63A5, 0x53D7]]],
     Message [(None, 42)] False [A ''Received with''] [[U [0x63A5, 0x6536, 0x4E8E]]],
     Message [(None, 2)] False [A ''Received from''] [[U [0x6536, 0x6B3E, 0x6765, 0x81EA]]],
     Message [(None, 3)] False [A ''Sent to''] [[U [0x53D1, 0x9001, 0x7ED9]]],
     Message [(None, 2)] False [A ''Payment to yourself''] [[U [0x4ED8, 0x6B3E, 0x7ED9, 0x81EA, 0x5DF1]]],
     Message [(None, 2)] False [A ''Mined''] [[U [0x6316, 0x77FF, 0x6240, 0x5F97]]],
     Message [(None, 38)] False [A ''(n/a)''] [[U [0xFF08, 0x4E0D, 0x53EF, 0x7528, 0xFF09]]],
     Message [(None, 190)] False [A ''Transaction status. Hover over this field to show number of confirmations.'']
       [[U [0x4EA4, 0x6613, 0x72B6, 0x6001, 0x3002], A '' '', U [0x9F20, 0x6807, 0x79FB, 0x5230, 0x6B64, 0x533A,
       0x57DF, 0x53EF, 0x663E, 0x793A, 0x786E, 0x8BA4, 0x9879, 0x6570, 0x91CF, 0x3002]]],
     Message [(None, 2)] False [A ''Date and time that the transaction was received.''] [[U [0x63A5, 0x6536, 0x5230,
       0x4EA4, 0x6613, 0x7684, 0x65F6, 0x95F4]]],
     Message [(None, 2)] False [A ''Type of transaction.''] [[U [0x4EA4, 0x6613, 0x7C7B, 0x522B, 0x3002]]],
     Message [(None, 2)] False [A ''Destination address of transaction.''] [[U [0x4EA4, 0x6613, 0x76EE, 0x7684,
       0x5730, 0x5740, 0x3002]]],
     Message [(None, 2)] False [A ''Amount removed from or added to balance.''] [[U [0x4ECE, 0x4F59, 0x989D, 0x6DFB,
       0x52A0, 0x6216, 0x79FB, 0x9664, 0x7684, 0x91D1, 0x989D, 0x3002]]]]"

definition zh_TransactionView_1 :: "ts_message list" where
  "zh_TransactionView_1 = [
     Message [(Some ''../transactionview.cpp'', 55), (None, 16)] False [A ''All''] [[U [0x5168, 0x90E8]]],
     Message [(None, -15)] False [A ''Today''] [[U [0x4ECA, 0x5929]]],
     Message [(None, 1)] False [A ''This week''] [[U [0x672C, 0x5468]]],
     Message [(None, 1)] False [A ''This month''] [[U [0x672C, 0x6708]]],
     Message [(None, 1)] False [A ''Last month''] [[U [0x4E0A, 0x6708]]],
     Message [(None, 1)] False [A ''This year''] [[U [0x4ECA, 0x5E74]]],
     Message [(None, 1)] False [A ''Range...''] [[U [0x8303, 0x56F4], A ''...'']],
     Message [(None, 11)] False [A ''Received with''] [[U [0x63A5, 0x6536, 0x4E8E]]],
     Message [(None, 2)] False [A ''Sent to''] [[U [0x53D1, 0x9001, 0x7ED9]]],
     Message [(None, 2)] False [A ''To yourself''] [[U [0x5230, 0x81EA, 0x5DF1]]],
     Message [(None, 1)] False [A ''Mined''] [[U [0x6316, 0x77FF, 0x6240, 0x5F97]]],
     Message [(None, 1)] False [A ''Other''] [[U [0x5176, 0x4ED6]]],
     Message [(None, 7)] False [A ''Enter address or label to search''] [[U [0x8F93, 0x5165, 0x5730, 0x5740, 0x6216,
       0x6807, 0x7B7E, 0x8FDB, 0x884C, 0x641C, 0x7D22]]],
     Message [(None, 7)] False [A ''Min amount''] [[U [0x6700, 0x5C0F, 0x91D1, 0x989D]]],
     Message [(None, 34)] False [A ''Copy address''] [[U [0x590D, 0x5236, 0x5730, 0x5740]]],
     Message [(None, 1)] False [A ''Copy label''] [[U [0x590D, 0x5236, 0x6807, 0x7B7E]]],
     Message [(None, 1)] False [A ''Copy amount''] [[U [0x590D, 0x5236, 0x91D1, 0x989D]]],
     Message [(None, 1)] False [A ''Copy transaction ID''] [[U [0x590D, 0x5236, 0x4EA4, 0x6613, 0x7F16, 0x53F7]]],
     Message [(None, 1)] False [A ''Edit label''] [[U [0x7F16, 0x8F91, 0x6807, 0x7B7E]]],
     Message [(None, 1)] False [A ''Show transaction details''] [[U [0x663E, 0x793A, 0x4EA4, 0x6613, 0x8BE6, 0x60C5]]],
     Message [(None, 144)] False [A ''Export Transaction Data''] [[U [0x8F93, 0x51FA, 0x4EA4, 0x6613, 0x6570,
       0x636E]]],
     Message [(None, 1)] False [A ''Comma separated file (*.csv)''] [[U [0x9017, 0x53F7, 0x5206, 0x9694, 0x6587,
       0x4EF6], A '' (*.csv)'']],
     Message [(None, 8)] False [A ''Confirmed''] [[U [0x5DF2, 0x786E, 0x8BA4]]],
     Message [(None, 1)] False [A ''Date''] [[U [0x65E5, 0x671F]]],
     Message [(None, 1)] False [A ''Type''] [[U [0x7C7B, 0x522B]]],
     Message [(None, 1)] False [A ''Label''] [[U [0x6807, 0x7B7E]]],
     Message [(None, 1)] False [A ''Address''] [[U [0x5730, 0x5740]]],
     Message [(None, 1)] False [A ''Amount''] [[U [0x91D1, 0x989D]]],
     Message [(None, 1)] False [A ''ID''] [[A ''ID'']]]"

definition zh_TransactionView_2 :: "ts_message list" where
  "zh_TransactionView_2 = [
     Message [(None, 4)] False [A ''Error exporting''] [[U [0x5BFC, 0x51FA, 0x51FA, 0x73B0, 0x9519, 0x8BEF]]],
     Message [(None, 0)] False [A ''Could not write to file %1.''] [[U [0x65E0, 0x6CD5, 0x5199, 0x5165, 0x6587,
       0x4EF6], A '' %1 '', U [0x3002]]],
     Message [(None, 100)] False [A ''Range:''] [[U [0x8303, 0x56F4, 0xFF1A]]],
     Message [(None, 8)] False [A ''to''] [[U [0x5230]]]]"

definition zh_WalletModel :: "ts_message list" where
  "zh_WalletModel = [
     Message [(Some ''../walletmodel.cpp'', 206)] False [A ''Sending...''] [[U [0x6B63, 0x5728, 0x53D1, 0x9001]]]]"

definition zh_bitcoin_core_1 :: "ts_message list" where
  "zh_bitcoin_core_1 = [
     Message [(Some ''../bitcoinstrings.cpp'', 33)] False [A ''MotaCoin version''] [[U [0x9ED1, 0x5E01, 0x5BA2,
       0x6237, 0x7AEF], A '' '', U [0x7248, 0x672C]]],
     Message [(None, 1)] False [A ''Usage:''] [[U [0x4F7F, 0x7528, 0xFF1A]]],
     Message [(None, 1)] False [A ''Send command to -server or MotaCoind''] [[U [0x5411], A ''-server'', U [0x670D,
       0x52A1, 0x5668, 0x6216], A ''MotaCoind'', U [0x53D1, 0x9001, 0x547D, 0x4EE4]]],
     Message [(None, 1)] False [A ''List commands''] [[U [0x5217, 0x51FA, 0x547D, 0x4EE4, 0xA]]],
     Message [(None, 1)] False [A ''Get help for a command''] [[U [0x83B7, 0x5F97, 0x67D0, 0x6761, 0x547D, 0x4EE4,
       0x7684, 0x5E2E, 0x52A9, 0xA]]],
     Message [(None, 2)] False [A ''Options:''] [[U [0x9009, 0x9879, 0xFF1A, 0xA]]],
     Message [(None, 2)] False [A ''Specify configuration file (default: MotaCoin.conf)''] [[U [0x6307, 0x5B9A,
       0x914D, 0x7F6E, 0x6587, 0x4EF6], A ''('', U [0x9ED8, 0x8BA4], A '': MotaCoin.conf)'']],
     Message [(None, 1)] False [A ''Specify pid file (default: MotaCoind.pid)''] [[U [0x6307, 0x5B9A], A ''pid'', U
       [0x6587, 0x4EF6], A ''('', U [0x9ED8, 0x8BA4], A '': MotaCoind.pid)'']],
     Message [(None, 2)] False [A ''Specify wallet file (within data directory)''] [[U [0x6307, 0x5B9A, 0x94B1,
       0x5305, 0x6587, 0x4EF6, 0xFF08, 0x6570, 0x636E, 0x76EE, 0x5F55, 0x5185, 0xFF09]]],
     Message [(None, -1)] False [A ''Specify data directory''] [[U [0x6307, 0x5B9A, 0x6570, 0x636E, 0x76EE, 0x5F55,
       0xA]]],
     Message [(None, 2)] False [A ''Set database cache size in megabytes (default: 25)''] [[U [0x8BBE, 0x7F6E,
       0x6570, 0x636E, 0x5E93, 0x7F13, 0x51B2, 0x533A, 0x5927, 0x5C0F], A '' ('', U [0x7F3A, 0x7701], A '': 25MB)'']],
     Message [(None, 1)] False [A ''Set database disk log size in megabytes (default: 100)''] [[U [0x8BBE, 0x7F6E,
       0x6570, 0x636E, 0x5E93, 0x65E5, 0x5FD7, 0x6587, 0x4EF6, 0x5927, 0x5C0F], A ''('', U [0x5355, 0x4F4D], A ''MB''
       , U [0xFF0C, 0x9ED8, 0x8BA4, 0x503C], A ''100)'']],
     Message [(None, 6)] False [A ''Listen for connections on <port> (default: 15714 or testnet: 25714)''] [[U
       [0x76D1, 0x542C], A ''<port>'', U [0x7AEF, 0x53E3, 0x7684, 0x8FDE, 0x63A5], A '' ('', U [0x9ED8, 0x8BA4], A
       '': 15714 '', U [0x6D4B, 0x8BD5, 0x7F51], A '': 25714)'']],
     Message [(None, 1)] False [A ''Maintain at most <n> connections to peers (default: 125)''] [[U [0x6700, 0x5927,
       0x8FDE, 0x63A5, 0x6570], A '' <n> '', U [0xFF08, 0x7F3A, 0x7701], A '': 125'', U [0xFF09]]],
     Message [(None, 3)] False [A ''Connect to a node to retrieve peer addresses, and disconnect''] [[U [0x8FDE,
       0x63A5, 0x4E00, 0x4E2A, 0x8282, 0x70B9, 0x5E76, 0x83B7, 0x53D6, 0x5BF9, 0x7AEF, 0x5730, 0x5740, 0xFF0C,
       0x7136, 0x540E, 0x65AD, 0x5F00, 0x8FDE, 0x63A5]]],
     Message [(None, 1)] False [A ''Specify your own public address''] [[U [0x6307, 0x5B9A, 0x60A8, 0x7684, 0x516C,
       0x5171, 0x5730, 0x5740]]],
     Message [(None, 5)] False [A ''Bind to given address. Use [host]:port notation for IPv6''] [[U [0x4EE5], A
       ''IPv6 [host]:'', U [0x7AEF, 0x53E3, 0x7ED1, 0x5B9A, 0x7ED9, 0x5B9A, 0x5730, 0x5740]]],
     Message [(None, 2)] False [A ''Stake your coins to support network and gain reward (default: 1)''] [[U [0x8FDB,
       0x884C, 0x6743, 0x76CA, 0x7D2F, 0x79EF, 0x4EE5, 0x652F, 0x6301, 0x9ED1, 0x5E01, 0x7F51, 0x7EDC, 0x5E76,
       0x83B7, 0x5F97, 0x62A5, 0x916C], A ''('', U [0x9ED8, 0x8BA4], A '': 1)'']],
     Message [(None, 5)] False [A ''Threshold for disconnecting misbehaving peers (default: 100)''] [[U [0x65AD,
       0x5F00, 0x51FA, 0x73B0, 0x95EE, 0x9898, 0x8282, 0x70B9, 0x9600, 0x503C, 0xFF08, 0x7F3A, 0x7701], A '': 100'',
       U [0xFF09]]],
     Message [(None, 1)] False [A ''Number of seconds to keep misbehaving peers from reconnecting (default: 86400)'']
       [[A ''Number of seconds to keep misbehaving peers from reconnecting ('', U [0x7F3A, 0x7701], A '': 86400)'']],
     Message [(None, -44)] False [A ''An error occurred while setting up the RPC port %u for listening on IPv4: %s'']
       [[U [0x8BBE, 0x7F6E], A ''RPC'', U [0x76D1, 0x542C, 0x7AEF, 0x53E3], A ''%u'', U [0x65F6, 0x53D1, 0x751F,
       0x9519, 0x8BEF], A '', IPv4:%s'']],
     Message [(None, 51)] False [A ''Detach block and address databases. Increases shutdown time (default: 0)''] [[U
       [0x79BB, 0x7EBF, 0x4FDD, 0x5B58, 0x533A, 0x5757, 0x548C, 0x5730, 0x5740, 0x6570, 0x636E, 0x5E93], A ''. '', U
       [0x589E, 0x52A0, 0x5173, 0x673A, 0x65F6, 0x95F4, 0x3002], A '' ('', U [0x9ED8, 0x8BA4], A '': 0)'']],
     Message [(None, 109)] False [A
       ''Error: The transaction was rejected.  This might happen if some of the coins in your wallet were already spent, such as if you used a copy of wallet.dat and coins were spent in the copy but not marked as spent here.''
       ] [[U [0x9519, 0x8BEF, 0xFF1A, 0x4EA4, 0x6613, 0x88AB, 0x62D2, 0x7EDD, 0x3002, 0x53EF, 0x80FD, 0x7531, 0x4E8E,
       0x94B1, 0x5305, 0x4E2D, 0x90E8, 0x5206, 0x91D1, 0x989D, 0x5DF2, 0x88AB, 0x4F7F, 0x7528, 0xFF0C, 0x4F8B,
       0x5982, 0x60A8, 0x4F7F, 0x7528, 0x4E86, 0x94B1, 0x5305, 0x6570, 0x636E, 0x7684, 0x526F, 0x672C, 0xFF0C,
       0x5728, 0x526F, 0x672C, 0x4E2D, 0x67D0, 0x4E9B, 0x91D1, 0x989D, 0x5DF2, 0x88AB, 0x4F7F, 0x7528, 0xFF0C,
       0x4F46, 0x5728, 0x6B64, 0x5904, 0x5C1A, 0x672A, 0x88AB, 0x6807, 0x8BB0, 0x4E3A, 0x5DF2, 0x4F7F, 0x7528,
       0x3002]]],
     Message [(None, -5)] False [A
       ''Error: This transaction requires a transaction fee of at least %s because of its amount, complexity, or use of recently received funds  ''
       ] [[U [0x9519, 0x8BEF, 0xFF1A, 0x8BE5, 0x7B14, 0x4EA4, 0x6613, 0x9700, 0x81F3, 0x5C11, 0x652F, 0x4ED8], A
       '' %s '', U [0x7684, 0x624B, 0x7EED, 0x8D39, 0x3002]]],
     Message [(None, -87)] False [A ''Listen for JSON-RPC connections on <port> (default: 15715 or testnet: 25715)'']
       [[U [0x76D1, 0x542C], A '' <port> '', U [0x7AEF, 0x53E3, 0x7684], A ''JSON-RPC'', U [0x8FDE, 0x63A5], A '' (''
       , U [0x9ED8, 0x8BA4], A '': 15715 '', U [0x6D4B, 0x8BD5, 0x7F51], A '': 25715)'']],
     Message [(None, -11)] False [A ''Accept command line and JSON-RPC commands''] [[U [0x63A5, 0x53D7, 0x547D,
       0x4EE4, 0x884C, 0x548C], A '' JSON-RPC '', U [0x547D, 0x4EE4, 0xA]]],
     Message [(None, 101)] False [A ''Error: Transaction creation failed  ''] [[U [0x9519, 0x8BEF, 0xFF1A, 0x4EA4,
       0x6613, 0x521B, 0x5EFA, 0x5931, 0x8D25, 0x3002]]],
     Message [(None, -5)] False [A ''Error: Wallet locked, unable to create transaction  ''] [[U [0x9519, 0x8BEF,
       0xFF1A, 0x94B1, 0x5305, 0x5DF2, 0x9501, 0x5B9A, 0xFF0C, 0x65E0, 0x6CD5, 0x521B, 0x5EFA, 0x4EA4, 0x6613,
       0x3002]]]]"

definition zh_bitcoin_core_2 :: "ts_message list" where
  "zh_bitcoin_core_2 = [
     Message [(None, -8)] False [A ''Importing blockchain data file.''] [[U [0x6B63, 0x5728, 0x5BFC, 0x5165, 0x533A,
       0x5757, 0x94FE, 0x6570, 0x636E, 0x6587, 0x4EF6]]],
     Message [(None, 1)] False [A ''Importing bootstrap blockchain data file.''] [[U [0x6B63, 0x5728, 0x5BFC, 0x5165,
       0x9AD8, 0x901F, 0x533A, 0x5757, 0x94FE, 0x6570, 0x636E, 0x6587, 0x4EF6]]],
     Message [(None, -88)] False [A ''Run in the background as a daemon and accept commands''] [[U [0x5728, 0x540E,
       0x53F0, 0x8FD0, 0x884C, 0x5E76, 0x63A5, 0x53D7, 0x547D, 0x4EE4, 0xA, 0xA]]],
     Message [(None, 1)] False [A ''Use the test network''] [[U [0x4F7F, 0x7528, 0x6D4B, 0x8BD5, 0x7F51, 0x7EDC,
       0xA]]],
     Message [(None, -24)] False [A ''Accept connections from outside (default: 1 if no -proxy or -connect)''] [[U
       [0x63A5, 0x53D7, 0x6765, 0x81EA, 0x5916, 0x90E8, 0x7684, 0x8FDE, 0x63A5], A '' ('', U [0x7F3A, 0x7701], A
       '': '', U [0x5982, 0x679C, 0x4E0D, 0x5E26], A '' -proxy or -connect '', U [0x53C2, 0x6570, 0x8BBE, 0x7F6E,
       0x4E3A], A ''1)'']],
     Message [(None, -38)] False [A
       ''An error occurred while setting up the RPC port %u for listening on IPv6, falling back to IPv4: %s''] [[U
       [0x5728], A ''IPv6'', U [0x6A21, 0x5F0F, 0x4E0B, 0x8BBE, 0x7F6E], A ''RPC'', U [0x76D1, 0x542C, 0x7AEF,
       0x53E3], A '' %u '', U [0x5931, 0x8D25, 0xFF0C, 0x8FD4, 0x56DE, 0x5230], A ''IPv4'', U [0x6A21, 0x5F0F], A
       '': %s'']],
     Message [(None, 117)] False [A
       ''Error initializing database environment %s! To recover, BACKUP THAT DIRECTORY, then remove everything from it except for wallet.dat.''
       ] [[U [0x6570, 0x636E, 0x5E93, 0x73AF, 0x5883], A '' %s '', U [0x521D, 0x59CB, 0x5316, 0x9519, 0x8BEF, 0x3002,
       0x8981, 0x4FEE, 0x590D, 0xFF0C, 0x5907, 0x4EFD, 0x8BE5, 0x76EE, 0x5F55, 0x5E76, 0x5C06, 0x5176, 0x4E0B,
       0x9664], A ''wallet.dat'', U [0x4EE5, 0x5916, 0x7684, 0x6587, 0x4EF6, 0x5168, 0x90E8, 0x5220, 0x9664, 0x3002]]],
     Message [(None, -20)] False [A
       ''Set maximum size of high-priority/low-fee transactions in bytes (default: 27000)''] [[U [0x8BBE, 0x7F6E,
       0x9AD8, 0x4F18, 0x5148, 0x5EA6], A ''/'', U [0x4F4E, 0x624B, 0x7EED, 0x8D39, 0x4EA4, 0x6613, 0x7684, 0x6700,
       0x5927, 0x5B57, 0x8282, 0x6570], A '' ('', U [0x9ED8, 0x8BA4], A '': 27000)'']],
     Message [(None, 11)] False [A
       ''Warning: -paytxfee is set very high! This is the transaction fee you will pay if you send a transaction.'']
       [[U [0x8B66, 0x544A, 0xFF1A], A ''-paytxfee '', U [0x4EA4, 0x6613, 0x8D39, 0x8BBE, 0x7F6E, 0x5F97, 0x592A,
       0x9AD8, 0x4E86, 0xFF01, 0x6BCF, 0x7B14, 0x4EA4, 0x6613, 0x90FD, 0x5C06, 0x652F, 0x4ED8, 0x4EA4, 0x6613,
       0x8D39, 0x3002]]],
     Message [(None, 61)] False [A ''Warning: Please check that your computer'', U [0x27], A
       ''s date and time are correct! If your clock is wrong MotaCoin will not work properly.''] [[U [0x8B66, 0x544A,
       0xFF1A, 0x8BF7, 0x786E, 0x8BA4, 0x60A8, 0x8BA1, 0x7B97, 0x673A, 0x7684, 0x672C, 0x5730, 0x65F6, 0x95F4,
       0x3002, 0x5982, 0x679C, 0x65F6, 0x949F, 0x9519, 0x8BEF, 0xFF0C, 0x9ED1, 0x5E01, 0x5BA2, 0x6237, 0x7AEF,
       0x5C06, 0x4E0D, 0x80FD, 0x6B63, 0x5E38, 0x5DE5, 0x4F5C, 0x3002]]],
     Message [(None, -31)] False [A
       ''Warning: error reading wallet.dat! All keys read correctly, but transaction data or address book entries might be missing or incorrect.''
       ] [[U [0x8B66, 0x544A, 0xFF1A, 0x94B1, 0x5305, 0x6587, 0x4EF6], A ''wallet.dat'', U [0x8BFB, 0x53D6, 0x5931,
       0x8D25, 0xFF01, 0x6700, 0x91CD, 0x8981, 0x7684, 0x516C, 0x94A5, 0x3001, 0x79C1, 0x94A5, 0x6570, 0x636E,
       0x90FD, 0x6CA1, 0x6709, 0x95EE, 0x9898, 0xFF0C, 0x4F46, 0x662F, 0x4EA4, 0x6613, 0x8BB0, 0x5F55, 0x6216,
       0x5730, 0x5740, 0x7C3F, 0x6570, 0x636E, 0x4E0D, 0x6B63, 0x786E, 0xFF0C, 0x6216, 0x8005, 0x5B58, 0x5728,
       0x6570, 0x636E, 0x4E22, 0x5931, 0x3002]]],
     Message [(None, -18)] False [A
       ''Warning: wallet.dat corrupt, data salvaged! Original wallet.dat saved as wallet.'', U [0x7B], A ''timestamp''
       , U [0x7D], A ''.bak in %s; if your balance or transactions are incorrect you should restore from a backup.'']
       [[U [0x8B66, 0x544A, 0xFF1A, 0x94B1, 0x5305, 0x6587, 0x4EF6], A ''wallet.dat'', U [0x635F, 0x574F], A ''! '',
       U [0x539F, 0x59CB, 0x7684, 0x94B1, 0x5305, 0x6587, 0x4EF6, 0x5DF2, 0x7ECF, 0x5907, 0x4EFD, 0x5230], A ''%s'',
       U [0x76EE, 0x5F55, 0x4E0B, 0x5E76, 0x91CD, 0x547D, 0x540D, 0x4E3A, 0x7B], A ''timestamp'', U [0x7D], A
       ''.bak '', U [0x3002, 0x5982, 0x679C, 0x60A8, 0x7684, 0x8D26, 0x6237, 0x4F59, 0x989D, 0x6216, 0x8005, 0x4EA4,
       0x6613, 0x8BB0, 0x5F55, 0x4E0D, 0x6B63, 0x786E, 0xFF0C, 0x8BF7, 0x4F7F, 0x7528, 0x60A8, 0x7684, 0x94B1,
       0x5305, 0x5907, 0x4EFD, 0x6587, 0x4EF6, 0x6062, 0x590D, 0x3002]]],
     Message [(None, -30)] False [A ''Attempt to recover private keys from a corrupt wallet.dat''] [[U [0x5C1D,
       0x8BD5, 0x4ECE, 0x635F, 0x574F, 0x7684, 0x94B1, 0x5305, 0x6587, 0x4EF6], A ''wallet.dat'', U [0x4E2D, 0x6062,
       0x590D, 0x79C1, 0x94A5]]],
     Message [(None, 4)] False [A ''Block creation options:''] [[U [0x6570, 0x636E, 0x5757, 0x521B, 0x5EFA, 0x9009,
       0x9879, 0xFF1A]]],
     Message [(None, -62)] False [A ''Connect only to the specified node(s)''] [[U [0x4EC5, 0x8FDE, 0x63A5, 0x5230,
       0x6307, 0x5B9A, 0x8282, 0x70B9]]],
     Message [(None, 4)] False [A ''Discover own IP address (default: 1 when listening and no -externalip)''] [[U
       [0x53D1, 0x73B0, 0x81EA, 0x5DF1, 0x7684], A ''IP'', U [0x5730, 0x5740], A ''('', U [0x7F3A, 0x7701], A '':'',
       U [0x4E0D, 0x5E26], A '' -externalip '', U [0x53C2, 0x6570, 0x76D1, 0x542C, 0x65F6, 0x8BBE, 0x7F6E, 0x4E3A], A
       ''1)'']],
     Message [(None, 94)] False [A ''Failed to listen on any port. Use -listen=0 if you want this.''] [[U [0x76D1,
       0x542C, 0x7AEF, 0x53E3, 0x5931, 0x8D25, 0x3002, 0x8BF7, 0x4F7F, 0x7528], A '' -listen=0 '', U [0x53C2, 0x6570,
       0x3002]]],
     Message [(None, -90)] False [A ''Find peers using DNS lookup (default: 1)''] [[U [0x4EE5], A ''DNS'', U [0x67E5,
       0x627E, 0x65B9, 0x5F0F, 0x5BFB, 0x627E, 0x8282, 0x70B9], A '' ('', U [0x9ED8, 0x8BA4, 0xFF1A], A ''1)'']],
     Message [(None, 5)] False [A ''Sync checkpoints policy (default: strict)''] [[U [0x540C, 0x6B65, 0x68C0, 0x6D4B,
       0x70B9, 0x653F, 0x7B56], A '' ('', U [0x9ED8, 0x8BA4, 0xFF1A, 0x4E25, 0x683C], A '')'']],
     Message [(None, 83)] False [A ''Invalid -tor address: '', U [0x27], A ''%s'', U [0x27]] [[U [0x65E0, 0x6548,
       0x7684], A '' -tor '', U [0x5730, 0x5740], A '': '', U [0x27], A ''%s'', U [0x27]]],
     Message [(None, 4)] False [A ''Invalid amount for -reservebalance=<amount>''] [[A ''-reservebalance=<amount> '',
       U [0x91D1, 0x989D, 0x65E0, 0x6548]]],
     Message [(None, -82)] False [A ''Maximum per-connection receive buffer, <n>*1000 bytes (default: 5000)''] [[U
       [0x6BCF, 0x4E2A, 0x8FDE, 0x63A5, 0x7684, 0x6700, 0x5927, 0x63A5, 0x6536, 0x7F13, 0x5B58, 0xFF0C], A
       ''<n>*1000 '', U [0x5B57, 0x8282], A ''('', U [0x7F3A, 0x7701, 0xFF1A], A ''5000)'']],
     Message [(None, 1)] False [A ''Maximum per-connection send buffer, <n>*1000 bytes (default: 1000)''] [[U
       [0x6BCF, 0x4E2A, 0x8FDE, 0x63A5, 0x7684, 0x6700, 0x5927, 0x53D1, 0x9001, 0x7F13, 0x5B58, 0xFF0C], A
       ''<n>*1000 '', U [0x5B57, 0x8282], A ''('', U [0x7F3A, 0x7701, 0xFF1A], A ''1000)'']],
     Message [(None, -16)] False [A ''Only connect to nodes in network <net> (IPv4, IPv6 or Tor)''] [[U [0x4EC5,
       0x8FDE, 0x63A5, 0x81F3, 0x6307, 0x5B9A, 0x7F51, 0x7EDC, 0x7684, 0x8282, 0x70B9], A ''<net>(IPv4, IPv6 '', U
       [0x6216, 0x8005], A '' Tor)'']],
     Message [(None, 28)] False [A ''Output extra debugging information. Implies all other -debug* options''] [[U
       [0x8F93, 0x51FA, 0x989D, 0x5916, 0x7684, 0x8C03, 0x8BD5, 0x4FE1, 0x606F, 0x3002, 0x76F8, 0x5F53, 0x4E8E,
       0x5F00, 0x542F, 0x4E86, 0x5176, 0x5B83, 0x6240, 0x6709], A ''-debug'', U [0x9009, 0x9879]]],
     Message [(None, 1)] False [A ''Output extra network debugging information''] [[U [0x8F93, 0x51FA, 0x989D,
       0x5916, 0x7684, 0x7F51, 0x7EDC, 0x8C03, 0x8BD5, 0x4FE1, 0x606F]]],
     Message [(None, 1)] False [A ''Prepend debug output with timestamp''] [[U [0x5C06, 0x65F6, 0x95F4, 0x4FE1,
       0x606F, 0x52A0, 0x5165, 0x8C03, 0x8BD5, 0x8F93, 0x51FA, 0x4E2D]]],
     Message [(None, 35)] False [A ''SSL options: (see the Bitcoin Wiki for SSL setup instructions)''] [[A ''SSL'', U
       [0x9009, 0x9879, 0xFF1A], A ''('', U [0x53C2, 0x89C1], A ''Bitcoin Wiki'', U [0x5173, 0x4E8E], A ''SSL'', U
       [0x8BBE, 0x7F6E, 0x680F, 0x76EE], A '')'']],
     Message [(None, -74)] False [A ''Select the version of socks proxy to use (4-5, default: 5)''] [[U [0x9009,
       0x62E9, 0x8981, 0x4F7F, 0x7528, 0x7684], A ''SOCKS'', U [0x4EE3, 0x7406, 0x7248, 0x672C], A '' (4-5, '', U
       [0x9ED8, 0x8BA4], A '' 5)'']]]"

definition zh_bitcoin_core_3 :: "ts_message list" where
  "zh_bitcoin_core_3 = [
     Message [(None, 41)] False [A ''Send trace/debug info to console instead of debug.log file''] [[U [0x8DDF,
       0x8E2A], A ''/'', U [0x8C03, 0x8BD5, 0x4FE1, 0x606F, 0x8F93, 0x51FA, 0x5230, 0x63A7, 0x5236, 0x53F0, 0xFF0C,
       0x4E0D, 0x8F93, 0x51FA, 0x5230], A '' debug.log '', U [0x6587, 0x4EF6]]],
     Message [(None, 1)] False [A ''Send trace/debug info to debugger''] [[U [0x53D1, 0x9001, 0x8DDF, 0x8E2A], A ''/''
       , U [0x8C03, 0x8BD5, 0x4FE1, 0x606F, 0x7ED9, 0x8C03, 0x8BD5, 0x8005]]],
     Message [(None, 28)] False [A ''Set maximum block size in bytes (default: 250000)''] [[U [0x8BBE, 0x7F6E,
       0x6700, 0x5927, 0x533A, 0x5757, 0x5927, 0x5C0F], A '' ('', U [0x9ED8, 0x8BA4, 0xFF1A], A ''250000)'']],
     Message [(None, -1)] False [A ''Set minimum block size in bytes (default: 0)''] [[U [0x8BBE, 0x7F6E, 0x6700,
       0x5C0F, 0x6570, 0x636E, 0x5757, 0x5927, 0x5C0F], A ''('', U [0x7F3A, 0x7701], A '':0)'']],
     Message [(None, -29)] False [A ''Shrink debug.log file on client startup (default: 1 when no -debug)''] [[U
       [0x5BA2, 0x6237, 0x7AEF, 0x542F, 0x52A8, 0x65F6, 0x538B, 0x7F29], A ''debug.log'', U [0x6587, 0x4EF6], A ''(''
       , U [0x7F3A, 0x7701, 0xFF1A], A ''no-debug'', U [0x6A21, 0x5F0F, 0x65F6, 0x4E3A], A ''1)'']],
     Message [(None, -42)] False [A ''Specify connection timeout in milliseconds (default: 5000)''] [[U [0x8BBE,
       0x7F6E, 0x8FDE, 0x63A5, 0x8D85, 0x65F6, 0x65F6, 0x95F4], A ''('', U [0x7F3A, 0x7701, 0xFF1A], A ''5000'', U
       [0x6BEB, 0x79D2], A '')'']],
     Message [(None, 109)] False [A ''Unable to sign checkpoint, wrong checkpointkey?'', U [0xA]] [[U [0x65E0,
       0x6CD5, 0x4E3A, 0x8BB0, 0x5F55, 0x70B9, 0x7B7E, 0x540D, 0xFF0C, 0x9519, 0x8BEF, 0x7684, 0x8BB0, 0x5F55,
       0x70B9, 0x5BC6, 0x94A5, 0x3002]]],
     Message [(None, -80)] False [A ''Use UPnP to map the listening port (default: 0)''] [[U [0x4F7F, 0x7528], A
       ''UPnP'', U [0x6620, 0x5C04, 0x76D1, 0x542C, 0x7AEF, 0x53E3], A '' ('', U [0x7F3A, 0x7701], A '': 0)'']],
     Message [(None, -1)] False [A ''Use UPnP to map the listening port (default: 1 when listening)''] [[U [0x4F7F,
       0x7528], A ''UPnp'', U [0x6620, 0x5C04, 0x76D1, 0x542C, 0x7AEF, 0x53E3], A ''('', U [0x7F3A, 0x7701], A '': ''
       , U [0x76D1, 0x542C, 0x72B6, 0x6001, 0x8BBE, 0x4E3A], A ''1)'']],
     Message [(None, -25)] False [A ''Use proxy to reach tor hidden services (default: same as -proxy)''] [[U
       [0x5F00, 0x542F, 0x4EE3, 0x7406, 0x4EE5, 0x4F7F, 0x7528, 0x9690, 0x85CF, 0x670D, 0x52A1], A '' ('', U [0x9ED8,
       0x8BA4], A '': '', U [0x548C], A ''-proxy'', U [0x8BBE, 0x7F6E, 0x76F8, 0x540C], A '')'']],
     Message [(None, 42)] False [A ''Username for JSON-RPC connections''] [[A ''JSON-RPC '', U [0x8FDE, 0x63A5,
       0x7528, 0x6237, 0x540D]]],
     Message [(None, 47)] False [A ''Verifying database integrity...''] [[U [0x6B63, 0x5728, 0x68C0, 0x67E5, 0x6570,
       0x636E, 0x5E93, 0x5B8C, 0x6574, 0x6027], A ''...'']],
     Message [(None, 57)] False [A ''WARNING: syncronized checkpoint violation detected, but skipped!''] [[U [0x8B66,
       0x544A, 0xFF1A, 0x68C0, 0x6D4B, 0x5230, 0x540C, 0x6B65, 0x8BB0, 0x5F55, 0x70B9, 0x9519, 0x8BEF, 0xFF0C,
       0x5DF2, 0x8DF3, 0x8FC7, 0x3002]]],
     Message [(None, 1)] False [A ''Warning: Disk space is low!''] [[U [0x8B66, 0x544A, 0xFF1A, 0x78C1, 0x76D8,
       0x7A7A, 0x95F4, 0x4F4E, 0x3002]]],
     Message [(None, -2)] False [A ''Warning: This version is obsolete, upgrade required!''] [[U [0x8B66, 0x544A,
       0xFF1A, 0x8BE5, 0x8F6F, 0x4EF6, 0x7248, 0x672C, 0x5DF2, 0x8FC7, 0x65F6, 0xFF0C, 0x8BF7, 0x5347, 0x7EA7,
       0xFF01]]],
     Message [(None, -48)] False [A ''wallet.dat corrupt, salvage failed''] [[U [0x94B1, 0x5305, 0x6587, 0x4EF6], A
       ''wallet.dat'', U [0x635F, 0x574F, 0xFF0C, 0x62A2, 0x6551, 0x5907, 0x4EFD, 0x5931, 0x8D25]]],
     Message [(None, -54)] False [A ''Password for JSON-RPC connections''] [[A ''JSON-RPC '', U [0x8FDE, 0x63A5,
       0x5BC6, 0x7801, 0xA]]],
     Message [(None, -84)] False [A ''%s, you must set a rpcpassword in the configuration file:'', U [0xA], A '' %s''
       , U [0xA], A ''It is recommended you use the following random password:'', U [0xA], A ''rpcuser=MotaCoinrpc'',
       U [0xA], A ''rpcpassword=%s'', U [0xA], A ''(you do not need to remember this password)'', U [0xA], A
       ''The username and password MUST NOT be the same.'', U [0xA], A
       ''If the file does not exist, create it with owner-readable-only file permissions.'', U [0xA], A
       ''It is also recommended to set alertnotify so you are notified of problems;'', U [0xA], A
       ''for example: alertnotify=echo %%s | mail -s '', U [0x22], A ''MotaCoin Alert'', U [0x22], A '' admin'', U
       [0x40], A ''foo.com'', U [0xA]] [[A ''%s, '', U [0x5FC5, 0x987B, 0x5728, 0x914D, 0x7F6E, 0x6587, 0x4EF6,
       0x91CC, 0x8BBE, 0x7F6E], A ''rpc'', U [0x5BC6, 0x7801], A '':'', U [0xA], A '' %s'', U [0xA, 0x5EFA, 0x8BAE,
       0x4F7F, 0x7528, 0x5982, 0x4E0B, 0x7684, 0x968F, 0x673A, 0x5BC6, 0x7801], A '':'', U [0xA], A
       ''rpcuser=MotaCoinrpc'', U [0xA], A ''rpcpassword=%s'', U [0xA], A ''('', U [0x4E0D, 0x9700, 0x8981, 0x8BB0,
       0x4F4F, 0x8BE5, 0x5BC6, 0x7801], A '')'', U [0xA, 0x7528, 0x6237, 0x540D, 0x548C, 0x5BC6, 0x7801, 0x4E0D,
       0x80FD, 0x91CD, 0x590D, 0x3002, 0xA, 0x5982, 0x679C, 0x8BE5, 0x6587, 0x4EF6, 0x4E0D, 0x5B58, 0x5728, 0xFF0C,
       0x8BF7, 0x81EA, 0x884C, 0x521B, 0x5EFA, 0x5E76, 0x8BBE, 0x4E3A, 0x7528, 0x6237, 0x672C, 0x8EAB, 0x53EA,
       0x8BFB, 0x6743, 0x9650, 0x3002, 0xA, 0x5EFA, 0x8BAE, 0x521B, 0x5EFA, 0x63D0, 0x793A, 0x4EE5, 0x76D1, 0x6D4B,
       0x53EF, 0x80FD, 0x7684, 0x95EE, 0x9898, 0xFF0C, 0x5982, 0xFF1A, 0xA], A ''alertnotify=echo %%s | mail -s '', U
       [0x22], A ''MotaCoin Alert'', U [0x22], A '' admin'', U [0x40], A ''foo.com'', U [0xA]]],
     Message [(None, 51)] False [A ''Find peers using internet relay chat (default: 0)''] [[U [0x5BFB, 0x627E,
       0x4F7F, 0x7528, 0x4E92, 0x8054, 0x7F51, 0x63A5, 0x529B, 0x804A, 0x5929, 0x7684, 0x8282, 0x70B9], A '' ('', U
       [0x9ED8, 0x8BA4], A '': 1) '', U [0x7B], A ''0)?'', U [0x7D]]],
     Message [(None, 5)] False [A
       ''Sync time with other nodes. Disable if time on your system is precise e.g. syncing with NTP (default: 1)'']
       [[U [0x81EA, 0x52A8, 0x548C, 0x5176, 0x5B83, 0x8282, 0x70B9, 0x540C, 0x6B65, 0x65F6, 0x95F4, 0x3002, 0x5982,
       0x679C, 0x672C, 0x5730, 0x8BA1, 0x7B97, 0x673A, 0x4E16, 0x754C, 0x662F, 0x51C6, 0x786E, 0x7684, 0xFF0C,
       0x5EFA, 0x8BAE, 0x5173, 0x95ED, 0x3002], A ''('', U [0x9ED8, 0x8BA4], A '': 1)'']],
     Message [(None, 15)] False [A
       ''When creating transactions, ignore inputs with value less than this (default: 0.01)''] [[U [0x521B, 0x5EFA,
       0x4EA4, 0x6613, 0x65F6, 0x81EA, 0x52A8, 0x5FFD, 0x7565, 0x8BE5, 0x503C, 0x4EE5, 0x4E0B, 0x7684, 0x6570,
       0x989D], A '' ('', U [0x9ED8, 0x8BA4, 0xFF1A], A ''0.01)'']],
     Message [(None, 16)] False [A ''Allow JSON-RPC connections from specified IP address''] [[U [0x5141, 0x8BB8,
       0x4ECE, 0x6307, 0x5B9A], A ''IP'', U [0x63A5, 0x53D7, 0x5230, 0x7684], A '' JSON-RPC '', U [0x8FDE, 0x63A5]]],
     Message [(None, 1)] False [A ''Send commands to node running on <ip> (default: 127.0.0.1)''] [[U [0x5411], A
       ''IP'', U [0x5730, 0x5740, 0x4E3A], A '' <ip> '', U [0x7684, 0x8282, 0x70B9, 0x53D1, 0x9001, 0x6307, 0x4EE4],
       A '' ('', U [0x7F3A, 0x7701], A '': 127.0.0.1)'']],
     Message [(None, 1)] False [A
       ''Execute command when the best block changes (%s in cmd is replaced by block hash)''] [[U [0x5F53, 0x6700,
       0x4F73, 0x6570, 0x636E, 0x5757, 0x53D8, 0x5316, 0x65F6, 0x6267, 0x884C, 0x547D, 0x4EE4], A '' ('', U [0x547D,
       0x4EE4, 0x884C, 0x4E2D, 0x7684], A '' %s '', U [0x4F1A, 0x88AB, 0x66FF, 0x6362, 0x6210, 0x6570, 0x636E,
       0x5757, 0x54C8, 0x5E0C, 0x503C], A '')'']],
     Message [(None, 3)] False [A
       ''Execute command when a wallet transaction changes (%s in cmd is replaced by TxID)''] [[U [0x5F53, 0x6700,
       0x4F73, 0x533A, 0x5757, 0x53D8, 0x5316, 0x65F6, 0x6267, 0x884C, 0x547D, 0x4EE4], A '' ('', U [0x547D, 0x4EE4,
       0x884C, 0x4E2D, 0x7684], A '' %s '', U [0x4F1A, 0x88AB, 0x66FF, 0x6362, 0x6210, 0x533A, 0x5757, 0x54C8,
       0x5E0C, 0x503C], A '')'']]]"

definition zh_bitcoin_core_4 :: "ts_message list" where
  "zh_bitcoin_core_4 = [
     Message [(None, 3)] False [A ''Require a confirmations for change (default: 0)''] [[U [0x8981, 0x6C42, 0x5BF9,
       0x96F6, 0x94B1, 0x8FDB, 0x884C, 0x786E, 0x8BA4], A '' ('', U [0x9ED8, 0x8BA4, 0xFF1A], A ''0)'']],
     Message [(None, 1)] False [A ''Enforce transaction scripts to use canonical PUSH operators (default: 1)''] [[U
       [0x5F3A, 0x5236, 0x8981, 0x6C42, 0x4EA4, 0x6613, 0x811A, 0x672C, 0x4F7F, 0x7528, 0x6807, 0x51C6], A ''PUSH'',
       U [0x7B97, 0x5B50], A '' ('', U [0x9ED8, 0x8BA4, 0xFF1A], A ''1)'']],
     Message [(None, 2)] False [A
       ''Execute command when a relevant alert is received (%s in cmd is replaced by message)''] [[U [0x6536, 0x5230,
       0x76F8, 0x5173, 0x63D0, 0x793A, 0x65F6, 0x6267, 0x884C, 0x547D, 0x4EE4], A '' ('', U [0x547D, 0x4EE4, 0x4E2D,
       0x7684], A ''%s'', U [0x5C06, 0x88AB, 0x4FE1, 0x606F, 0x66FF, 0x6362], A '')'']],
     Message [(None, 3)] False [A ''Upgrade wallet to latest format''] [[U [0x5C06, 0x94B1, 0x5305, 0x5347, 0x7EA7,
       0x5230, 0x6700, 0x65B0, 0x7684, 0x683C, 0x5F0F]]],
     Message [(None, 1)] False [A ''Set key pool size to <n> (default: 100)''] [[U [0x8BBE, 0x7F6E, 0x5BC6, 0x94A5,
       0x6C60, 0x5927, 0x5C0F, 0x4E3A], A '' <n> ('', U [0x7F3A, 0x7701], A '': 100)'', U [0xA]]],
     Message [(None, 1)] False [A ''Rescan the block chain for missing wallet transactions''] [[U [0x91CD, 0x65B0,
       0x626B, 0x63CF, 0x533A, 0x5757, 0x94FE, 0x4EE5, 0x67E5, 0x627E, 0x9057, 0x6F0F, 0x7684, 0x94B1, 0x5305,
       0x4EA4, 0x6613]]],
     Message [(None, 2)] False [A ''How many blocks to check at startup (default: 2500, 0 = all)''] [[U [0x542F,
       0x52A8, 0x65F6, 0x68C0, 0x6D4B, 0x7684, 0x533A, 0x5757, 0x6570, 0x91CF], A '' ('', U [0x9ED8, 0x8BA4], A
       '': 2500, 0'', U [0x8868, 0x793A, 0x68C0, 0x6D4B, 0x5168, 0x90E8], A '')'']],
     Message [(None, 1)] False [A ''How thorough the block verification is (0-6, default: 1)''] [[U [0x533A, 0x5757,
       0x786E, 0x8BA4, 0x7684, 0x5F7B, 0x5E95, 0x7A0B, 0x5EA6], A '' (0-6, '', U [0x9ED8, 0x8BA4], A '': 1)'']],
     Message [(None, 1)] False [A ''Imports blocks from external blk000?.dat file''] [[U [0x4ECE, 0x5916, 0x90E8], A
       '' blk000?.dat '', U [0x6587, 0x4EF6, 0x5BFC, 0x5165, 0x533A, 0x5757]]],
     Message [(None, 8)] False [A ''Use OpenSSL (https) for JSON-RPC connections''] [[U [0x4E3A], A '' JSON-RPC '', U
       [0x8FDE, 0x63A5, 0x4F7F, 0x7528], A '' OpenSSL (https) '', U [0x8FDE, 0x63A5]]],
     Message [(None, 1)] False [A ''Server certificate file (default: server.cert)''] [[U [0x670D, 0x52A1, 0x5668,
       0x8BC1, 0x4E66], A '' ('', U [0x9ED8, 0x8BA4, 0x4E3A], A '' server.cert)'', U [0xA]]],
     Message [(None, 1)] False [A ''Server private key (default: server.pem)''] [[U [0x670D, 0x52A1, 0x5668, 0x79C1,
       0x94A5], A '' ('', U [0x9ED8, 0x8BA4, 0x4E3A], A '' server.pem)'', U [0xA]]],
     Message [(None, 1)] False [A ''Acceptable ciphers (default: TLSv1+HIGH:!SSLv2:!aNULL:!eNULL:!AH:!3DES:'', U
       [0x40], A ''STRENGTH)''] [[U [0x53EF, 0x7528, 0x52A0, 0x5BC6, 0x7B97, 0x6CD5], A '' ('', U [0x9ED8, 0x8BA4], A
       '': TLSv1+HIGH:!SSLv2:!aNULL:!eNULL:!AH:!3DES:'', U [0x40], A ''STRENGTH)'']],
     Message [(None, 53)] False [A ''Error: Wallet unlocked for staking only, unable to create transaction.''] [[U
       [0x9519, 0x8BEF, 0xFF1A, 0x65E0, 0x6CD5, 0x521B, 0x5EFA, 0x4EA4, 0x6613, 0xFF0C, 0x5DF2, 0x89E3, 0x9501,
       0x7684, 0x94B1, 0x5305, 0x4EC5, 0x7528, 0x4E8E, 0x6743, 0x76CA, 0x7D2F, 0x79EF, 0x3002]]],
     Message [(None, 18)] False [A
       ''WARNING: Invalid checkpoint found! Displayed transactions may not be correct! You may need to upgrade, or notify developers.''
       ] [[U [0x8B66, 0x544A, 0xFF1A, 0x53D1, 0x73B0, 0x65E0, 0x6548, 0x7684, 0x8BB0, 0x5F55, 0x70B9, 0x3002, 0x6240,
       0x663E, 0x793A, 0x7684, 0x4EA4, 0x6613, 0x4FE1, 0x606F, 0x672A, 0x5FC5, 0x6B63, 0x786E, 0xFF01, 0x8BF7,
       0x5347, 0x7EA7, 0x5BA2, 0x6237, 0x7AEF, 0x6216, 0x8054, 0x7CFB, 0x5F00, 0x53D1, 0x8005, 0x3002]]],
     Message [(None, -158)] False [A ''This help message''] [[U [0x672C, 0x5E2E, 0x52A9, 0x4FE1, 0x606F, 0xA]]],
     Message [(None, 95)] False [A ''Wallet %s resides outside data directory %s.''] [[U [0x94B1, 0x5305], A '' %s ''
       , U [0x4F4D, 0x4E8E, 0x6570, 0x636E, 0x76EE, 0x5F55], A '' %s '', U [0x4E4B, 0x5916], A ''.'']],
     Message [(None, 1)] False [A
       ''Cannot obtain a lock on data directory %s.  MotaCoin is probably already running.''] [[U [0x65E0, 0x6CD5,
       0x4ECE, 0x6570, 0x636E, 0x76EE, 0x5F55], A '' %s '', U [0x83B7, 0x5F97, 0x9501, 0x5B9A], A ''.  '', U [0x9ED1,
       0x5E01, 0x5BA2, 0x6237, 0x7AEF, 0x53EF, 0x80FD, 0x5DF2, 0x5728, 0x8FD0, 0x884C, 0x4E2D], A ''.'']],
     Message [(None, -98)] False [A ''MotaCoin''] [[U [0x9ED1, 0x5E01]]],
     Message [(None, 140)] False [A ''Unable to bind to %s on this computer (bind returned error %d, %s)''] [[U
       [0x65E0, 0x6CD5, 0x7ED1, 0x5B9A, 0x672C, 0x673A, 0x7AEF, 0x53E3], A '' %s  ('', U [0x8FD4, 0x56DE, 0x9519,
       0x8BEF, 0x6D88, 0x606F], A '' %d, %s)'']],
     Message [(None, -130)] False [A ''Connect through socks proxy''] [[U [0x901A, 0x8FC7], A ''socks'', U [0x4EE3,
       0x7406, 0x8FDE, 0x63A5]]],
     Message [(None, 3)] False [A ''Allow DNS lookups for -addnode, -seednode and -connect''] [[U [0x4F7F, 0x7528], A
       '' -addnode, -seednode '', U [0x548C], A '' -connect '', U [0x9009, 0x9879, 0x65F6, 0x5141, 0x8BB8, 0x67E5,
       0x8BE2], A ''DNS'']],
     Message [(None, 122)] False [A ''Loading addresses...''] [[U [0x6B63, 0x5728, 0x52A0, 0x8F7D, 0x5730, 0x5740,
       0x7C3F], A ''...'']],
     Message [(None, -15)] False [A ''Error loading blkindex.dat''] [[A ''blkindex.dat '', U [0x6587, 0x4EF6, 0x52A0,
       0x8F7D, 0x51FA, 0x9519]]],
     Message [(None, 2)] False [A ''Error loading wallet.dat: Wallet corrupted''] [[A ''wallet.dat '', U [0x94B1,
       0x5305, 0x6587, 0x4EF6, 0x52A0, 0x8F7D, 0x51FA, 0x9519, 0xFF1A, 0x94B1, 0x5305, 0x635F, 0x574F]]],
     Message [(None, 4)] False [A ''Error loading wallet.dat: Wallet requires newer version of MotaCoin''] [[A
       ''wallet.dat '', U [0x94B1, 0x5305, 0x6587, 0x4EF6, 0x52A0, 0x8F7D, 0x51FA, 0x9519, 0xFF1A, 0x9700, 0x8981,
       0x65B0, 0x7248, 0x672C, 0x7684, 0x5BA2, 0x6237, 0x7AEF]]],
     Message [(None, 1)] False [A ''Wallet needed to be rewritten: restart MotaCoin to complete''] [[U [0x9700,
       0x8981, 0x91CD, 0x5199, 0x94B1, 0x5305, 0xFF0C, 0x91CD, 0x542F, 0x5BA2, 0x6237, 0x7AEF, 0x4EE5, 0x5B8C,
       0x6210, 0x8BE5, 0x64CD, 0x4F5C, 0x3002]]],
     Message [(None, 1)] False [A ''Error loading wallet.dat''] [[A ''wallet.dat '', U [0x94B1, 0x5305, 0x6587,
       0x4EF6, 0x52A0, 0x8F7D, 0x51FA, 0x9519]]]]"

definition zh_bitcoin_core_5 :: "ts_message list" where
  "zh_bitcoin_core_5 = [
     Message [(None, -16)] False [A ''Invalid -proxy address: '', U [0x27], A ''%s'', U [0x27]] [[U [0x65E0, 0x6548,
       0x7684, 0x4EE3, 0x7406, 0x5730, 0x5740, 0xFF1A], A ''%s'']],
     Message [(None, -1)] False [A ''Unknown network specified in -onlynet: '', U [0x27], A ''%s'', U [0x27]] [[A
       ''-onlynet '', U [0x6307, 0x5B9A, 0x7684, 0x662F, 0x672A, 0x77E5, 0x7F51, 0x7EDC, 0xFF1A], A ''%s'']],
     Message [(None, -1)] False [A ''Unknown -socks proxy version requested: %i''] [[U [0x88AB, 0x6307, 0x5B9A,
       0x7684, 0x662F, 0x672A, 0x77E5], A ''socks'', U [0x4EE3, 0x7406, 0x7248, 0x672C], A '': %i'']],
     Message [(None, 4)] False [A ''Cannot resolve -bind address: '', U [0x27], A ''%s'', U [0x27]] [[U [0x65E0,
       0x6CD5, 0x89E3, 0x6790], A '' -bind '', U [0x7AEF, 0x53E3, 0x5730, 0x5740], A '': '', U [0x27], A ''%s'', U
       [0x27]]],
     Message [(None, 2)] False [A ''Cannot resolve -externalip address: '', U [0x27], A ''%s'', U [0x27]] [[U
       [0x65E0, 0x6CD5, 0x89E3, 0x6790], A '' -externalip '', U [0x5730, 0x5740], A '': '', U [0x27], A ''%s'', U
       [0x27]]],
     Message [(None, -24)] False [A ''Invalid amount for -paytxfee=<amount>: '', U [0x27], A ''%s'', U [0x27]] [[U
       [0x975E, 0x6CD5, 0x91D1, 0x989D], A '' -paytxfee=<amount>: '', U [0x27], A ''%s'', U [0x27]]],
     Message [(None, 44)] False [A ''Error: could not start node''] [[U [0x9519, 0x8BEF, 0xFF1A, 0x65E0, 0x6CD5,
       0x542F, 0x52A8, 0x8282, 0x70B9]]],
     Message [(None, 11)] False [A ''Sending...''] [[U [0x6B63, 0x5728, 0x53D1, 0x9001]]],
     Message [(None, 5)] False [A ''Invalid amount''] [[U [0x65E0, 0x6548, 0x91D1, 0x989D]]],
     Message [(None, 1)] False [A ''Insufficient funds''] [[U [0x91D1, 0x989D, 0x4E0D, 0x8DB3]]],
     Message [(None, -34)] False [A ''Loading block index...''] [[U [0x6B63, 0x5728, 0x52A0, 0x8F7D, 0x6570, 0x636E,
       0x5757, 0x7D22, 0x5F15], A ''...'']],
     Message [(None, -103)] False [A ''Add a node to connect to and attempt to keep the connection open''] [[U
       [0x6DFB, 0x52A0, 0x8282, 0x70B9, 0x5E76, 0x4E0E, 0x5176, 0x4FDD, 0x6301, 0x8FDE, 0x63A5]]],
     Message [(None, 122)] False [A ''Unable to bind to %s on this computer. MotaCoin is probably already running.'']
       [[U [0x65E0, 0x6CD5, 0x7ED1, 0x5B9A, 0x5230, 0x8BE5, 0x8BA1, 0x7B97, 0x673A, 0x4E0A, 0x7684], A '' %s. '', U
       [0x9ED1, 0x5E01, 0x5BA2, 0x6237, 0x7AEF, 0x53EF, 0x80FD, 0x5DF2, 0x5728, 0x8FD0, 0x884C, 0x4E2D, 0x3002]]],
     Message [(None, -97)] False [A ''Fee per KB to add to transactions you send''] [[U [0x6BCF], A ''kB'', U
       [0x4EA4, 0x6613, 0x6240, 0x652F, 0x4ED8, 0x7684, 0x624B, 0x7EED, 0x8D39]]],
     Message [(None, 55)] False [A ''Invalid amount for -mininput=<amount>: '', U [0x27], A ''%s'', U [0x27]] [[U
       [0x65E0, 0x6548, 0x7684, 0x6570, 0x91CF, 0x3002], A '' -mininput=<amount>: '', U [0x27], A ''%s'', U [0x27]]],
     Message [(None, 25)] False [A ''Loading wallet...''] [[U [0x6B63, 0x5728, 0x52A0, 0x8F7D, 0x94B1, 0x5305], A
       ''...'']],
     Message [(None, 8)] False [A ''Cannot downgrade wallet''] [[U [0x65E0, 0x6CD5, 0x964D, 0x7EA7, 0x94B1, 0x5305]]],
     Message [(None, 1)] False [A ''Cannot initialize keypool''] [[U [0x65E0, 0x6CD5, 0x521D, 0x59CB, 0x5316, 0x5BC6,
       0x94A5, 0x6C60, 0x3002]]],
     Message [(None, 1)] False [A ''Cannot write default address''] [[U [0x65E0, 0x6CD5, 0x5199, 0x5165, 0x9ED8,
       0x8BA4, 0x5730, 0x5740]]],
     Message [(None, 1)] False [A ''Rescanning...''] [[U [0x6B63, 0x5728, 0x91CD, 0x65B0, 0x626B, 0x63CF], A ''...'']],
     Message [(None, 5)] False [A ''Done loading''] [[U [0x52A0, 0x8F7D, 0x5B8C, 0x6210]]],
     Message [(None, -167)] False [A ''To use the %s option''] [[U [0x4F7F, 0x7528], A '' %s '', U [0x9009, 0x9879]]],
     Message [(None, 14)] False [A ''Error''] [[U [0x9519, 0x8BEF]]],
     Message [(None, 6)] False [A ''You must set rpcpassword=<password> in the configuration file:'', U [0xA], A
       ''%s'', U [0xA], A ''If the file does not exist, create it with owner-readable-only file permissions.''] [[U
       [0x60A8, 0x5FC5, 0x987B, 0x5728, 0x914D, 0x7F6E, 0x6587, 0x4EF6, 0x4E2D, 0x52A0, 0x5165, 0x9009, 0x9879], A
       '' rpcpassword :'', U [0xA], A '' %s'', U [0xA, 0x5982, 0x679C, 0x914D, 0x7F6E, 0x6587, 0x4EF6, 0x4E0D,
       0x5B58, 0x5728, 0xFF0C, 0x8BF7, 0x65B0, 0x5EFA, 0xFF0C, 0x5E76, 0x5C06, 0x6587, 0x4EF6, 0x6743, 0x9650,
       0x8BBE, 0x7F6E, 0x4E3A, 0x4EC5, 0x5141, 0x8BB8, 0x6587, 0x4EF6, 0x6240, 0x6709, 0x8005, 0x8BFB, 0x53D6], A
       ''.'']]]"

definition zh_contexts :: "ts_context list" where
  "zh_contexts = [
     Context ''AboutDialog'' (zh_AboutDialog),
     Context ''AddressBookPage'' (zh_AddressBookPage),
     Context ''AddressTableModel'' (zh_AddressTableModel),
     Context ''AskPassphraseDialog'' (zh_AskPassphraseDialog_1 @ zh_AskPassphraseDialog_2),
     Context ''BitcoinGUI'' (zh_BitcoinGUI_1 @ zh_BitcoinGUI_2 @ zh_BitcoinGUI_3),
     Context ''ClientModel'' (zh_ClientModel),
     Context ''CoinControlDialog'' (zh_CoinControlDialog_1 @ zh_CoinControlDialog_2),
     Context ''EditAddressDialog'' (zh_EditAddressDialog),
     Context ''GUIUtil::HelpMessageBox'' (zh_GUIUtil_HelpMessageBox),
     Context ''OptionsDialog'' (zh_OptionsDialog_1 @ zh_OptionsDialog_2),
     Context ''OverviewPage'' (zh_OverviewPage),
     Context ''QRCodeDialog'' (zh_QRCodeDialog),
     Context ''RPCConsole'' (zh_RPCConsole),
     Context ''SendCoinsDialog'' (zh_SendCoinsDialog_1 @ zh_SendCoinsDialog_2),
     Context ''SendCoinsEntry'' (zh_SendCoinsEntry),
     Context ''SignVerifyMessageDialog'' (zh_SignVerifyMessageDialog_1 @ zh_SignVerifyMessageDialog_2),
     Context ''TransactionDesc'' (zh_TransactionDesc_1 @ zh_TransactionDesc_2),
     Context ''TransactionDescDialog'' (zh_TransactionDescDialog),
     Context ''TransactionTableModel'' (zh_TransactionTableModel),
     Context ''TransactionView'' (zh_TransactionView_1 @ zh_TransactionView_2),
     Context ''WalletModel'' (zh_WalletModel),
     Context ''bitcoin-core'' (zh_bitcoin_core_1 @ zh_bitcoin_core_2 @ zh_bitcoin_core_3 @ zh_bitcoin_core_4 @ zh_bitcoin_core_5)]"

section \<open>The checks\<close>

lemma zh_AboutDialog_ok: "list_all (message_ok 1) zh_AboutDialog"
  by code_simp

lemma zh_AddressBookPage_ok: "list_all (message_ok 1) zh_AddressBookPage"
  by code_simp

lemma zh_AddressTableModel_ok: "list_all (message_ok 1) zh_AddressTableModel"
  by code_simp

lemma zh_AskPassphraseDialog_1_ok: "list_all (message_ok 1) zh_AskPassphraseDialog_1"
  by code_simp

lemma zh_AskPassphraseDialog_2_ok: "list_all (message_ok 1) zh_AskPassphraseDialog_2"
  by code_simp

lemma zh_BitcoinGUI_1_ok: "list_all (message_ok 1) zh_BitcoinGUI_1"
  by code_simp

lemma zh_BitcoinGUI_2_ok: "list_all (message_ok 1) zh_BitcoinGUI_2"
  by code_simp

lemma zh_BitcoinGUI_3_ok: "list_all (message_ok 1) zh_BitcoinGUI_3"
  by code_simp

lemma zh_ClientModel_ok: "list_all (message_ok 1) zh_ClientModel"
  by code_simp

lemma zh_CoinControlDialog_1_ok: "list_all (message_ok 1) zh_CoinControlDialog_1"
  by code_simp

lemma zh_CoinControlDialog_2_ok: "list_all (message_ok 1) zh_CoinControlDialog_2"
  by code_simp

lemma zh_EditAddressDialog_ok: "list_all (message_ok 1) zh_EditAddressDialog"
  by code_simp

lemma zh_GUIUtil_HelpMessageBox_ok: "list_all (message_ok 1) zh_GUIUtil_HelpMessageBox"
  by code_simp

lemma zh_OptionsDialog_1_ok: "list_all (message_ok 1) zh_OptionsDialog_1"
  by code_simp

lemma zh_OptionsDialog_2_ok: "list_all (message_ok 1) zh_OptionsDialog_2"
  by code_simp

lemma zh_OverviewPage_ok: "list_all (message_ok 1) zh_OverviewPage"
  by code_simp

lemma zh_QRCodeDialog_ok: "list_all (message_ok 1) zh_QRCodeDialog"
  by code_simp

lemma zh_RPCConsole_ok: "list_all (message_ok 1) zh_RPCConsole"
  by code_simp

lemma zh_SendCoinsDialog_1_ok: "list_all (message_ok 1) zh_SendCoinsDialog_1"
  by code_simp

lemma zh_SendCoinsDialog_2_ok: "list_all (message_ok 1) zh_SendCoinsDialog_2"
  by code_simp

lemma zh_SendCoinsEntry_ok: "list_all (message_ok 1) zh_SendCoinsEntry"
  by code_simp

lemma zh_SignVerifyMessageDialog_1_ok: "list_all (message_ok 1) zh_SignVerifyMessageDialog_1"
  by code_simp

lemma zh_SignVerifyMessageDialog_2_ok: "list_all (message_ok 1) zh_SignVerifyMessageDialog_2"
  by code_simp

lemma zh_TransactionDesc_1_ok: "list_all (message_ok 1) zh_TransactionDesc_1"
  by code_simp

lemma zh_TransactionDesc_2_ok: "list_all (message_ok 1) zh_TransactionDesc_2"
  by code_simp

lemma zh_TransactionDescDialog_ok: "list_all (message_ok 1) zh_TransactionDescDialog"
  by code_simp

lemma zh_TransactionTableModel_ok: "list_all (message_ok 1) zh_TransactionTableModel"
  by code_simp

lemma zh_TransactionView_1_ok: "list_all (message_ok 1) zh_TransactionView_1"
  by code_simp

lemma zh_TransactionView_2_ok: "list_all (message_ok 1) zh_TransactionView_2"
  by code_simp

lemma zh_WalletModel_ok: "list_all (message_ok 1) zh_WalletModel"
  by code_simp

lemma zh_bitcoin_core_1_ok: "list_all (message_ok 1) zh_bitcoin_core_1"
  by code_simp

lemma zh_bitcoin_core_2_ok: "list_all (message_ok 1) zh_bitcoin_core_2"
  by code_simp

lemma zh_bitcoin_core_3_ok: "list_all (message_ok 1) zh_bitcoin_core_3"
  by code_simp

lemma zh_bitcoin_core_4_ok: "list_all (message_ok 1) zh_bitcoin_core_4"
  by code_simp

lemma zh_bitcoin_core_5_ok: "list_all (message_ok 1) zh_bitcoin_core_5"
  by code_simp

lemma zh_AboutDialog_context: "context_ok 1 (Context ''AboutDialog'' (zh_AboutDialog))"
proof -
  have "distinct (map checksum (zh_AboutDialog))" by code_simp
  then have "distinct (map key (zh_AboutDialog))" by (rule distinct_checksums)
  then show ?thesis by (simp add: context_ok_def zh_AboutDialog_ok [simplified])
qed

lemma zh_AddressBookPage_context: "context_ok 1 (Context ''AddressBookPage'' (zh_AddressBookPage))"
proof -
  have "distinct (map checksum (zh_AddressBookPage))" by code_simp
  then have "distinct (map key (zh_AddressBookPage))" by (rule distinct_checksums)
  then show ?thesis by (simp add: context_ok_def zh_AddressBookPage_ok [simplified])
qed

lemma zh_AddressTableModel_context: "context_ok 1 (Context ''AddressTableModel'' (zh_AddressTableModel))"
proof -
  have "distinct (map checksum (zh_AddressTableModel))" by code_simp
  then have "distinct (map key (zh_AddressTableModel))" by (rule distinct_checksums)
  then show ?thesis by (simp add: context_ok_def zh_AddressTableModel_ok [simplified])
qed

lemma zh_AskPassphraseDialog_context: "context_ok 1 (Context ''AskPassphraseDialog'' (zh_AskPassphraseDialog_1 @ zh_AskPassphraseDialog_2))"
proof -
  have "distinct (map key (zh_AskPassphraseDialog_1 @ zh_AskPassphraseDialog_2))" by code_simp
  then show ?thesis by (simp add: context_ok_def zh_AskPassphraseDialog_1_ok [simplified] zh_AskPassphraseDialog_2_ok [simplified])
qed

lemma zh_BitcoinGUI_context: "context_ok 1 (Context ''BitcoinGUI'' (zh_BitcoinGUI_1 @ zh_BitcoinGUI_2 @ zh_BitcoinGUI_3))"
proof -
  have "distinct (map checksum (zh_BitcoinGUI_1 @ zh_BitcoinGUI_2 @ zh_BitcoinGUI_3))" by code_simp
  then have "distinct (map key (zh_BitcoinGUI_1 @ zh_BitcoinGUI_2 @ zh_BitcoinGUI_3))" by (rule distinct_checksums)
  then show ?thesis by (simp add: context_ok_def zh_BitcoinGUI_1_ok [simplified] zh_BitcoinGUI_2_ok [simplified] zh_BitcoinGUI_3_ok [simplified])
qed

lemma zh_ClientModel_context: "context_ok 1 (Context ''ClientModel'' (zh_ClientModel))"
proof -
  have "distinct (map checksum (zh_ClientModel))" by code_simp
  then have "distinct (map key (zh_ClientModel))" by (rule distinct_checksums)
  then show ?thesis by (simp add: context_ok_def zh_ClientModel_ok [simplified])
qed

lemma zh_CoinControlDialog_context: "context_ok 1 (Context ''CoinControlDialog'' (zh_CoinControlDialog_1 @ zh_CoinControlDialog_2))"
proof -
  have "distinct (map checksum (zh_CoinControlDialog_1 @ zh_CoinControlDialog_2))" by code_simp
  then have "distinct (map key (zh_CoinControlDialog_1 @ zh_CoinControlDialog_2))" by (rule distinct_checksums)
  then show ?thesis by (simp add: context_ok_def zh_CoinControlDialog_1_ok [simplified] zh_CoinControlDialog_2_ok [simplified])
qed

lemma zh_EditAddressDialog_context: "context_ok 1 (Context ''EditAddressDialog'' (zh_EditAddressDialog))"
proof -
  have "distinct (map checksum (zh_EditAddressDialog))" by code_simp
  then have "distinct (map key (zh_EditAddressDialog))" by (rule distinct_checksums)
  then show ?thesis by (simp add: context_ok_def zh_EditAddressDialog_ok [simplified])
qed

lemma zh_GUIUtil_HelpMessageBox_context: "context_ok 1 (Context ''GUIUtil::HelpMessageBox'' (zh_GUIUtil_HelpMessageBox))"
proof -
  have "distinct (map checksum (zh_GUIUtil_HelpMessageBox))" by code_simp
  then have "distinct (map key (zh_GUIUtil_HelpMessageBox))" by (rule distinct_checksums)
  then show ?thesis by (simp add: context_ok_def zh_GUIUtil_HelpMessageBox_ok [simplified])
qed

lemma zh_OptionsDialog_context: "context_ok 1 (Context ''OptionsDialog'' (zh_OptionsDialog_1 @ zh_OptionsDialog_2))"
proof -
  have "distinct (map checksum (zh_OptionsDialog_1 @ zh_OptionsDialog_2))" by code_simp
  then have "distinct (map key (zh_OptionsDialog_1 @ zh_OptionsDialog_2))" by (rule distinct_checksums)
  then show ?thesis by (simp add: context_ok_def zh_OptionsDialog_1_ok [simplified] zh_OptionsDialog_2_ok [simplified])
qed

lemma zh_OverviewPage_context: "context_ok 1 (Context ''OverviewPage'' (zh_OverviewPage))"
proof -
  have "distinct (map checksum (zh_OverviewPage))" by code_simp
  then have "distinct (map key (zh_OverviewPage))" by (rule distinct_checksums)
  then show ?thesis by (simp add: context_ok_def zh_OverviewPage_ok [simplified])
qed

lemma zh_QRCodeDialog_context: "context_ok 1 (Context ''QRCodeDialog'' (zh_QRCodeDialog))"
proof -
  have "distinct (map checksum (zh_QRCodeDialog))" by code_simp
  then have "distinct (map key (zh_QRCodeDialog))" by (rule distinct_checksums)
  then show ?thesis by (simp add: context_ok_def zh_QRCodeDialog_ok [simplified])
qed

lemma zh_RPCConsole_context: "context_ok 1 (Context ''RPCConsole'' (zh_RPCConsole))"
proof -
  have "distinct (map checksum (zh_RPCConsole))" by code_simp
  then have "distinct (map key (zh_RPCConsole))" by (rule distinct_checksums)
  then show ?thesis by (simp add: context_ok_def zh_RPCConsole_ok [simplified])
qed

lemma zh_SendCoinsDialog_context: "context_ok 1 (Context ''SendCoinsDialog'' (zh_SendCoinsDialog_1 @ zh_SendCoinsDialog_2))"
proof -
  have "distinct (map checksum (zh_SendCoinsDialog_1 @ zh_SendCoinsDialog_2))" by code_simp
  then have "distinct (map key (zh_SendCoinsDialog_1 @ zh_SendCoinsDialog_2))" by (rule distinct_checksums)
  then show ?thesis by (simp add: context_ok_def zh_SendCoinsDialog_1_ok [simplified] zh_SendCoinsDialog_2_ok [simplified])
qed

lemma zh_SendCoinsEntry_context: "context_ok 1 (Context ''SendCoinsEntry'' (zh_SendCoinsEntry))"
proof -
  have "distinct (map checksum (zh_SendCoinsEntry))" by code_simp
  then have "distinct (map key (zh_SendCoinsEntry))" by (rule distinct_checksums)
  then show ?thesis by (simp add: context_ok_def zh_SendCoinsEntry_ok [simplified])
qed

lemma zh_SignVerifyMessageDialog_context: "context_ok 1 (Context ''SignVerifyMessageDialog'' (zh_SignVerifyMessageDialog_1 @ zh_SignVerifyMessageDialog_2))"
proof -
  have "distinct (map checksum (zh_SignVerifyMessageDialog_1 @ zh_SignVerifyMessageDialog_2))" by code_simp
  then have "distinct (map key (zh_SignVerifyMessageDialog_1 @ zh_SignVerifyMessageDialog_2))" by (rule distinct_checksums)
  then show ?thesis by (simp add: context_ok_def zh_SignVerifyMessageDialog_1_ok [simplified] zh_SignVerifyMessageDialog_2_ok [simplified])
qed

lemma zh_TransactionDesc_context: "context_ok 1 (Context ''TransactionDesc'' (zh_TransactionDesc_1 @ zh_TransactionDesc_2))"
proof -
  have "distinct (map checksum (zh_TransactionDesc_1 @ zh_TransactionDesc_2))" by code_simp
  then have "distinct (map key (zh_TransactionDesc_1 @ zh_TransactionDesc_2))" by (rule distinct_checksums)
  then show ?thesis by (simp add: context_ok_def zh_TransactionDesc_1_ok [simplified] zh_TransactionDesc_2_ok [simplified])
qed

lemma zh_TransactionDescDialog_context: "context_ok 1 (Context ''TransactionDescDialog'' (zh_TransactionDescDialog))"
proof -
  have "distinct (map checksum (zh_TransactionDescDialog))" by code_simp
  then have "distinct (map key (zh_TransactionDescDialog))" by (rule distinct_checksums)
  then show ?thesis by (simp add: context_ok_def zh_TransactionDescDialog_ok [simplified])
qed

lemma zh_TransactionTableModel_context: "context_ok 1 (Context ''TransactionTableModel'' (zh_TransactionTableModel))"
proof -
  have "distinct (map checksum (zh_TransactionTableModel))" by code_simp
  then have "distinct (map key (zh_TransactionTableModel))" by (rule distinct_checksums)
  then show ?thesis by (simp add: context_ok_def zh_TransactionTableModel_ok [simplified])
qed

lemma zh_TransactionView_context: "context_ok 1 (Context ''TransactionView'' (zh_TransactionView_1 @ zh_TransactionView_2))"
proof -
  have "distinct (map checksum (zh_TransactionView_1 @ zh_TransactionView_2))" by code_simp
  then have "distinct (map key (zh_TransactionView_1 @ zh_TransactionView_2))" by (rule distinct_checksums)
  then show ?thesis by (simp add: context_ok_def zh_TransactionView_1_ok [simplified] zh_TransactionView_2_ok [simplified])
qed

lemma zh_WalletModel_context: "context_ok 1 (Context ''WalletModel'' (zh_WalletModel))"
proof -
  have "distinct (map checksum (zh_WalletModel))" by code_simp
  then have "distinct (map key (zh_WalletModel))" by (rule distinct_checksums)
  then show ?thesis by (simp add: context_ok_def zh_WalletModel_ok [simplified])
qed

lemma zh_bitcoin_core_context: "context_ok 1 (Context ''bitcoin-core'' (zh_bitcoin_core_1 @ zh_bitcoin_core_2 @ zh_bitcoin_core_3 @ zh_bitcoin_core_4 @ zh_bitcoin_core_5))"
proof -
  have "distinct (map checksum (zh_bitcoin_core_1 @ zh_bitcoin_core_2 @ zh_bitcoin_core_3 @ zh_bitcoin_core_4 @ zh_bitcoin_core_5))" by code_simp
  then have "distinct (map key (zh_bitcoin_core_1 @ zh_bitcoin_core_2 @ zh_bitcoin_core_3 @ zh_bitcoin_core_4 @ zh_bitcoin_core_5))" by (rule distinct_checksums)
  then show ?thesis by (simp add: context_ok_def zh_bitcoin_core_1_ok [simplified] zh_bitcoin_core_2_ok [simplified] zh_bitcoin_core_3_ok [simplified] zh_bitcoin_core_4_ok [simplified] zh_bitcoin_core_5_ok [simplified])
qed

lemma zh_contexts_ok: "catalogue_ok 1 zh_contexts"
proof -
  have "distinct (map ctx_name zh_contexts)" by (simp add: zh_contexts_def)
  moreover have "list_all (context_ok 1) zh_contexts"
    unfolding zh_contexts_def list.pred_inject(2)
    by (intro conjI list.pred_inject(1) zh_AboutDialog_context zh_AddressBookPage_context zh_AddressTableModel_context zh_AskPassphraseDialog_context
        zh_BitcoinGUI_context zh_ClientModel_context zh_CoinControlDialog_context zh_EditAddressDialog_context
        zh_GUIUtil_HelpMessageBox_context zh_OptionsDialog_context zh_OverviewPage_context zh_QRCodeDialog_context
        zh_RPCConsole_context zh_SendCoinsDialog_context zh_SendCoinsEntry_context zh_SignVerifyMessageDialog_context
        zh_TransactionDesc_context zh_TransactionDescDialog_context zh_TransactionTableModel_context zh_TransactionView_context
        zh_WalletModel_context zh_bitcoin_core_context)
  ultimately show ?thesis by (simp add: catalogue_ok_def)
qed

end
