(* ===== verification/Catalogue_ja.thy ===== *)
theory Catalogue_ja
  imports Catalogue
begin

text \<open>
  The Japanese catalogue, \<open>src/src/qt/locale/bitcoin_ja.ts\<close>: one definition per context (several for a
  long context), in the order of the file, and the proof that the catalogue passes the checks of
  \<open>Catalogue\<close>. The language has one plural form.
\<close>

section \<open>The messages\<close>

definition ja_AboutDialog :: "ts_message list" where
  "ja_AboutDialog = [
     Message [(Some ''../forms/aboutdialog.ui'', 14)] False [A ''About MotaCoin''] [[U [0x30D6, 0x30E9, 0x30C3,
       0x30AF, 0x30B3, 0x30A4, 0x30F3, 0x306B, 0x3064, 0x3044, 0x3066]]],
     Message [(None, 39)] False [A ''<b>MotaCoin</b> version''] [[A ''<b>'', U [0x30D6, 0x30E9, 0x30C3, 0x30AF,
       0x30B3, 0x30A4, 0x30F3], A ''</b>'', U [0x30D0, 0x30FC, 0x30B8, 0x30E7, 0x30F3]]],
     Message [(None, 41)] False [A ''Copyright '', U [0xA9], A '' 2009-14 The Bitcoin developers'', U [0xA], A
       ''Copyright '', U [0xA9], A '' 2012-14 The NovaCoin developers'', U [0xA], A ''Copyright '', U [0xA9], A
       '' 2014-20 The MotaCoin developers''] [[U [0x30B3, 0x30D4, 0x30FC, 0x30E9, 0x30A4, 0x30C8], A '' '', U [0xA9],
       A '' 2009-14 The Bitcoin developers'', U [0xA, 0x30B3, 0x30D4, 0x30FC, 0x30E9, 0x30A4, 0x30C8], A '' '', U
       [0xA9], A '' 2012-14 The NovaCoin developers'', U [0xA, 0x30B3, 0x30D4, 0x30FC, 0x30E9, 0x30A4, 0x30C8], A
       '' '', U [0xA9], A '' 2014-20 The MotaCoin developers'']],
     Message [(None, 15)] False [U [0xA], A ''This is experimental software.'', U [0xA, 0xA], A
       ''Distributed under the MIT/X11 software license, see the accompanying file COPYING or http://www.opensource.org/licenses/mit-license.php.''
       , U [0xA, 0xA], A
       ''This product includes software developed by the OpenSSL Project for use in the OpenSSL Toolkit (http://www.openssl.org/) and cryptographic software written by Eric Young (eay''
       , U [0x40], A ''cryptsoft.com) and UPnP software written by Thomas Bernard.''] [[U [0xA, 0x3053, 0x308C,
       0x306F, 0x5B9F, 0x9A13, 0x7684, 0x306A, 0x30BD, 0x30D5, 0x30C8, 0x30A6, 0x30A7, 0x30A2, 0x3067, 0x3059,
       0x3002, 0xA, 0xA], A ''MIT/X11 '', U [0x30BD, 0x30D5, 0x30C8, 0x30A6, 0x30A7, 0x30A2], A '' '', U [0x30E9,
       0x30A4, 0x30BB, 0x30F3, 0x30B9, 0x306E, 0x4E0B, 0x3067, 0x914D, 0x5E03, 0x3055, 0x308C, 0x3066, 0x3044,
       0x307E, 0x3059, 0x3002, 0x8A73, 0x3057, 0x304F, 0x306F, 0x6DFB, 0x4ED8, 0x306E], A '' COPYING '', U [0x30D5,
       0x30A1, 0x30A4, 0x30EB, 0x3084], A ''http://www.opensource.org/licenses/mit-license.php '', U [0x3092, 0x53C2,
       0x7167, 0x3057, 0x3066, 0x304F, 0x3060, 0x3055, 0x3044, 0x3002, 0xA, 0xA, 0x3053, 0x306E, 0x88FD, 0x54C1,
       0x306F], A '' OpenSSL Toolkit (http://www.openssl.org/) '', U [0x306B, 0x7528, 0x3044, 0x3089, 0x308C,
       0x308B], A ''  Eric Young (eay'', U [0x40], A ''cryptsoft.com)  '', U [0x304C, 0x958B, 0x767A, 0x3057, 0x305F,
       0x6697, 0x53F7, 0x5316, 0x30BD, 0x30D5, 0x30C8, 0x30A6, 0x30A7, 0x30A2, 0x3068], A '' Thomas Bernard '', U
       [0x304C, 0x958B, 0x767A, 0x3057, 0x305F], A '' UPnP '', U [0x30BD, 0x30D5, 0x30C8, 0x30A6, 0x30A7, 0x30A2,
       0x3092, 0x542B, 0x3093, 0x3067, 0x3044, 0x307E, 0x3059, 0x3002]]]]"

definition ja_AddressBookPage :: "ts_message list" where
  "ja_AddressBookPage = [
     Message [(Some ''../forms/addressbookpage.ui'', 14)] False [A ''Address Book''] [[U [0x30A2, 0x30C9, 0x30EC,
       0x30B9, 0x5E33]]],
     Message [(None, 22)] False [A ''Double-click to edit address or label''] [[U [0x30A2, 0x30C9, 0x30EC, 0x30B9,
       0x307E, 0x305F, 0x306F, 0x30E9, 0x30D9, 0x30EB, 0x3092, 0x7DE8, 0x96C6, 0x3059, 0x308B, 0x306B, 0x306F,
       0x30C0, 0x30D6, 0x30EB, 0x30AF, 0x30EA, 0x30C3, 0x30AF]]],
     Message [(None, 27)] False [A ''Create a new address''] [[U [0x65B0, 0x898F, 0x30A2, 0x30C9, 0x30EC, 0x30B9,
       0x306E, 0x4F5C, 0x6210]]],
     Message [(None, 14)] False [A ''Copy the currently selected address to the system clipboard''] [[U [0x73FE,
       0x5728, 0x9078, 0x629E, 0x3055, 0x308C, 0x3066, 0x3044, 0x308B, 0x30A2, 0x30C9, 0x30EC, 0x30B9, 0x3092,
       0x30B7, 0x30B9, 0x30C6, 0x30E0, 0x306E, 0x30AF, 0x30EA, 0x30C3, 0x30D7, 0x30DC, 0x30FC, 0x30C9, 0x306B,
       0x30B3, 0x30D4, 0x30FC, 0x3059, 0x308B]]],
     Message [(None, -11)] False [A ''&New''] [[U [0x65B0, 0x3057, 0x3044, 0x30A2, 0x30C9, 0x30EC, 0x30B9]]],
     Message [(None, -46)] False [A
       ''These are your MotaCoin addresses for receiving payments. You may want to give a different one to each sender so you can keep track of who is paying you.''
       ] [[U [0x3053, 0x308C, 0x306F, 0x652F, 0x6255, 0x3044, 0x3092, 0x53D7, 0x3051, 0x308B, 0x305F, 0x3081, 0x306E,
       0x30D6, 0x30E9, 0x30C3, 0x30AF, 0x30B3, 0x30A4, 0x30F3, 0x306E, 0x30A2, 0x30C9, 0x30EC, 0x30B9, 0x3002,
       0x652F, 0x6255, 0x3044, 0x7BA1, 0x7406, 0x3092, 0x3059, 0x308B, 0x306E, 0x305F, 0x3081, 0x3001, 0x5404,
       0x9001, 0x4FE1, 0x8005, 0x3078, 0x3001, 0x305D, 0x308C, 0x305E, 0x308C, 0x306E, 0x30A2, 0x30C9, 0x30EC,
       0x30B9, 0x3092, 0x4F1D, 0x3048, 0x305F, 0x307B, 0x3046, 0x304C, 0x3044, 0x3044, 0x3067, 0x3059, 0x3002]]],
     Message [(None, 60)] False [A ''&Copy Address''] [[U [0x30A2, 0x30C9, 0x30EC, 0x30B9, 0x3092, 0x30B3, 0x30D4,
       0x30FC], A '' (&C)'']],
     Message [(None, 11)] False [A ''Show &QR Code''] [[A ''QR'', U [0x30B3, 0x30FC, 0x30C9, 0x3092, 0x8868, 0x3059]]],
     Message [(None, 11)] False [A ''Sign a message to prove you own a MotaCoin address''] [[U [0x6240, 0x6709,
       0x6A29, 0x306E, 0x8A3C, 0x660E, 0x3059, 0x308B, 0x305F, 0x3081, 0x306E, 0x30E1, 0x30B5, 0x30C3, 0x30B8,
       0x3092, 0x7F72, 0x540D, 0x3059, 0x308B, 0x3002]]],
     Message [(None, 3)] False [A ''Sign &Message''] [[U [0x30E1, 0x30B5, 0x30C3, 0x30B8, 0x3092, 0x7F72, 0x540D,
       0x3059, 0x308B, 0x3002]]],
     Message [(None, 25)] False [A ''Delete the currently selected address from the list''] [[U [0x9078, 0x629E,
       0x3055, 0x308C, 0x305F, 0x30A2, 0x30C9, 0x30EC, 0x30B9, 0x3092, 0x4E00, 0x89A7, 0x304B, 0x3089, 0x524A,
       0x9664, 0x3059, 0x308B]]],
     Message [(None, -14)] False [A ''Verify a message to ensure it was signed with a specified MotaCoin address'']
       [[U [0x53D7, 0x3051, 0x53D6, 0x3063, 0x305F, 0x30E1, 0x30C3, 0x30BB, 0x30FC, 0x30B8, 0x306E, 0x7F72, 0x540D,
       0x3092, 0x78BA, 0x4FDD, 0x306E, 0x305F, 0x3081, 0x3001, 0x30E1, 0x30C3, 0x30BB, 0x30FC, 0x30B8, 0x3092,
       0x78BA, 0x8A8D, 0x3059, 0x308B, 0x3002]]],
     Message [(None, 3)] False [A ''&Verify Message''] [[U [0x30E1, 0x30C3, 0x30BB, 0x30FC, 0x30B8, 0x3092, 0x78BA,
       0x8A8D, 0x3059, 0x308B, 0x3002]]],
     Message [(None, 14)] False [A ''&Delete''] [[U [0x524A, 0x9664]]],
     Message [(Some ''../addressbookpage.cpp'', 65)] False [A ''Copy &Label''] [[U [0x30E9, 0x30D9, 0x30EB, 0x3092,
       0x30B3, 0x30D4, 0x30FC], A '' (&L)'']],
     Message [(None, 2)] False [A ''&Edit''] [[U [0x7DE8, 0x96C6], A '' (&E)'']],
     Message [(None, 250)] False [A ''Export Address Book Data''] [[U [0x30A2, 0x30C9, 0x30EC, 0x30B9, 0x5E33,
       0x306E, 0x30C7, 0x30FC, 0x30BF, 0x3092, 0x66F8, 0x304D, 0x51FA, 0x3059]]],
     Message [(None, 1)] False [A ''Comma separated file (*.csv)''] [[A ''CSV'', U [0x30D5, 0x30A1, 0x30A4, 0x30EB],
       A '' (*.csv)'']],
     Message [(None, 13)] False [A ''Error exporting''] [[U [0x30A8, 0x30E9, 0x30FC, 0x3092, 0x66F8, 0x304D, 0x51FA,
       0x3059]]],
     Message [(None, 0)] False [A ''Could not write to file %1.''] [[U [0x30D5, 0x30A1, 0x30A4, 0x30EB, 0x3092,
       0x66F8, 0x304D, 0x8FBC, 0x3081, 0x306A, 0x304B, 0x3063, 0x305F, 0x3002], A ''%1'']]]"

definition ja_AddressTableModel :: "ts_message list" where
  "ja_AddressTableModel = [
     Message [(Some ''../addresstablemodel.cpp'', 144)] False [A ''Label''] [[U [0x30E9, 0x30D9, 0x30EB]]],
     Message [(None, 0)] False [A ''Address''] [[U [0x30A2, 0x30C9, 0x30EC, 0x30B9]]],
     Message [(None, 36)] False [A ''(no label)''] [[U [0xFF08, 0x30E9, 0x30D9, 0x30EB, 0x7121, 0x3057, 0xFF09]]]]"

definition ja_AskPassphraseDialog_1 :: "ts_message list" where
  "ja_AskPassphraseDialog_1 = [
     Message [(Some ''../forms/askpassphrasedialog.ui'', 26)] False [A ''Passphrase Dialog''] [[U [0x30D1, 0x30B9,
       0x30D5, 0x30EC, 0x30FC, 0x30BA], A '' '', U [0x30C0, 0x30A4, 0x30A2, 0x30ED, 0x30B0]]],
     Message [(None, 21)] False [A ''Enter passphrase''] [[U [0x30D1, 0x30B9, 0x30D5, 0x30EC, 0x30FC, 0x30BA, 0x3092,
       0x5165, 0x529B]]],
     Message [(None, 14)] False [A ''New passphrase''] [[U [0x65B0, 0x3057, 0x3044, 0x30D1, 0x30B9, 0x30D5, 0x30EC,
       0x30FC, 0x30BA]]],
     Message [(None, 14)] False [A ''Repeat new passphrase''] [[U [0x65B0, 0x3057, 0x3044, 0x30D1, 0x30B9, 0x30D5,
       0x30EC, 0x30FC, 0x30BA, 0x3092, 0x3082, 0x3046, 0x4E00, 0x5EA6]]],
     Message [(None, 33)] False [A
       ''Serves to disable the trivial sendmoney when OS account compromised. Provides no real security.''] [[U
       [0x30E6, 0x30FC, 0x30B6, 0x30A2, 0x30AB, 0x30A6, 0x30F3, 0x30C8, 0x306F, 0x30CF, 0x30C3, 0x30AD, 0x30F3,
       0x30B0, 0x3055, 0x308C, 0x305F, 0x3070, 0x3044, 0x3001, 0x7463, 0x672B, 0x306E], A ''sendmoney'', U [0x7121,
       0x52B9, 0x306B, 0x3059, 0x308B, 0x3002, 0x6A5F, 0x5BC6, 0x4FDD, 0x8B77, 0x306B, 0x306F, 0x52B9, 0x679C,
       0x306F, 0x306A, 0x3044, 0x3002]]],
     Message [(None, 3)] False [A ''For staking only''] [[U [0x8CED, 0x3051, 0x308B, 0x306E, 0x307F]]],
     Message [(Some ''../askpassphrasedialog.cpp'', 35)] False [A
       ''Enter the new passphrase to the wallet.<br/>Please use a passphrase of <b>10 or more random characters</b>, or <b>eight or more words</b>.''
       ] [[U [0x30A6, 0x30A9, 0x30EC, 0x30C3, 0x30C8, 0x306E, 0x65B0, 0x3057, 0x3044, 0x30D1, 0x30B9, 0x30D5, 0x30EC,
       0x30FC, 0x30BA, 0x3092, 0x5165, 0x529B, 0x3057, 0x3066, 0x304F, 0x3060, 0x3055, 0x3044, 0x3002], A
       ''<br/><b>8'', U [0x500B, 0x4EE5, 0x4E0A, 0x306E, 0x5358, 0x8A9E, 0x304B], A ''10'', U [0x500B, 0x4EE5,
       0x4E0A, 0x306E, 0x30E9, 0x30F3, 0x30C0, 0x30E0, 0x306A, 0x6587, 0x5B57], A ''</b>'', U [0x3092, 0x4F7F,
       0x3063, 0x3066, 0x304F, 0x3060, 0x3055, 0x3044, 0x3002]]],
     Message [(None, 1)] False [A ''Encrypt wallet''] [[U [0x30A6, 0x30A9, 0x30EC, 0x30C3, 0x30C8, 0x3092, 0x6697,
       0x53F7, 0x5316, 0x3059, 0x308B]]],
     Message [(None, 7)] False [A ''This operation needs your wallet passphrase to unlock the wallet.''] [[U [0x3053,
       0x306E, 0x64CD, 0x4F5C, 0x306F, 0x30A6, 0x30A9, 0x30EC, 0x30C3, 0x30C8, 0x3092, 0x30A2, 0x30F3, 0x30ED,
       0x30C3, 0x30AF, 0x3059, 0x308B, 0x305F, 0x3081, 0x306B, 0x30D1, 0x30B9, 0x30D5, 0x30EC, 0x30FC, 0x30BA,
       0x304C, 0x5FC5, 0x8981, 0x3067, 0x3059, 0x3002]]],
     Message [(None, 5)] False [A ''Unlock wallet''] [[U [0x30A6, 0x30A9, 0x30EC, 0x30C3, 0x30C8, 0x3092, 0x30A2,
       0x30F3, 0x30ED, 0x30C3, 0x30AF, 0x3059, 0x308B]]],
     Message [(None, 3)] False [A ''This operation needs your wallet passphrase to decrypt the wallet.''] [[U
       [0x3053, 0x306E, 0x64CD, 0x4F5C, 0x306F, 0x30A6, 0x30A9, 0x30EC, 0x30C3, 0x30C8, 0x306E, 0x6697, 0x53F7,
       0x5316, 0x89E3, 0x9664, 0x306E, 0x305F, 0x3081, 0x306B, 0x30D1, 0x30B9, 0x30D5, 0x30EC, 0x30FC, 0x30BA,
       0x304C, 0x5FC5, 0x8981, 0x3067, 0x3059, 0x3002]]],
     Message [(None, 5)] False [A ''Decrypt wallet''] [[U [0x30A6, 0x30A9, 0x30EC, 0x30C3, 0x30C8, 0x306E, 0x6697,
       0x53F7, 0x5316, 0x3092, 0x89E3, 0x9664, 0x3059, 0x308B]]],
     Message [(None, 3)] False [A ''Change passphrase''] [[U [0x30D1, 0x30B9, 0x30D5, 0x30EC, 0x30FC, 0x30BA, 0x306E,
       0x5909, 0x66F4]]],
     Message [(None, 1)] False [A ''Enter the old and new passphrase to the wallet.''] [[U [0x65B0, 0x65E7, 0x4E21,
       0x65B9, 0x306E, 0x30D1, 0x30B9, 0x30D5, 0x30EC, 0x30FC, 0x30BA, 0x3092, 0x5165, 0x529B, 0x3057, 0x3066,
       0x304F, 0x3060, 0x3055, 0x3044, 0x3002]]],
     Message [(None, 46)] False [A ''Confirm wallet encryption''] [[U [0x30A6, 0x30A9, 0x30EC, 0x30C3, 0x30C8,
       0x306E, 0x6697, 0x53F7, 0x5316, 0x3092, 0x78BA, 0x8A8D, 0x3059, 0x308B]]],
     Message [(None, 1)] False [A
       ''Warning: If you encrypt your wallet and lose your passphrase, you will <b>LOSE ALL OF YOUR COINS</b>!''] [[U
       [0x3054, 0x6CE8, 0x610F, 0xFF1A, 0x6697, 0x53F7, 0x5316, 0x3057, 0x305F, 0x30A6, 0x30A9, 0x30EC, 0x30C3,
       0x30C8, 0x306E, 0x30D1, 0x30B9, 0x30EF, 0x30FC, 0x30C9, 0x3092, 0x5FD8, 0x308C, 0x305F, 0x3070, 0x3044,
       0x3001], A ''b>'', U [0x3059, 0x3079, 0x3066, 0x306E, 0x30B3, 0x30A4, 0x30F3, 0x3092, 0x5931, 0x3046], A
       ''</b>!'']],
     Message [(None, 0)] False [A ''Are you sure you wish to encrypt your wallet?''] [[U [0x30A6, 0x30A9, 0x30EC,
       0x30C3, 0x30C8, 0x3092, 0x6697, 0x53F7, 0x5316, 0x3001, 0x3088, 0x308D, 0x3057, 0x3044, 0x3067, 0x3059,
       0x304B], A ''?'']],
     Message [(None, 15)] False [A
       ''IMPORTANT: Any previous backups you have made of your wallet file should be replaced with the newly generated, encrypted wallet file. For security reasons, previous backups of the unencrypted wallet file will become useless as soon as you start using the new, encrypted wallet.''
       ] [[U [0x91CD, 0x8981], A '': '', U [0x904E, 0x53BB, 0x306E, 0x30A6, 0x30A9, 0x30EC, 0x30C3, 0x30C8], A '' '',
       U [0x30D5, 0x30A1, 0x30A4, 0x30EB, 0x306E, 0x30D0, 0x30C3, 0x30AF, 0x30A2, 0x30C3, 0x30D7, 0x306F, 0x3001,
       0x6697, 0x53F7, 0x5316, 0x3055, 0x308C, 0x305F, 0x65B0, 0x3057, 0x3044, 0x30A6, 0x30A9, 0x30EC, 0x30C3,
       0x30C8], A '' '', U [0x30D5, 0x30A1, 0x30A4, 0x30EB, 0x306B, 0x53D6, 0x308A, 0x66FF, 0x3048, 0x308B, 0x5FC5,
       0x8981, 0x304C, 0x3042, 0x308A, 0x307E, 0x3059, 0x3002, 0x30BB, 0x30AD, 0x30E5, 0x30EA, 0x30C6, 0x30A3,
       0x4E0A, 0x306E, 0x7406, 0x7531, 0x306B, 0x3088, 0x308A, 0x3001, 0x6697, 0x53F7, 0x5316, 0x3055, 0x308C,
       0x305F, 0x65B0, 0x3057, 0x3044, 0x30A6, 0x30A9, 0x30EC, 0x30C3, 0x30C8, 0x3092, 0x4F7F, 0x3044, 0x59CB,
       0x3081, 0x308B, 0x3068, 0x3001, 0x6697, 0x53F7, 0x5316, 0x3055, 0x308C, 0x3066, 0x3044, 0x306A, 0x3044,
       0x30A6, 0x30A9, 0x30EC, 0x30C3, 0x30C8], A '' '', U [0x30D5, 0x30A1, 0x30A4, 0x30EB, 0x306E, 0x30D0, 0x30C3,
       0x30AF, 0x30A2, 0x30C3, 0x30D7, 0x306F, 0x3059, 0x3050, 0x306B, 0x4F7F, 0x3048, 0x306A, 0x304F, 0x306A,
       0x308A, 0x307E, 0x3059, 0x3002]]],
     Message [(None, 103), (None, 24)] False [A ''Warning: The Caps Lock key is on!''] [[U [0x8B66, 0x544A], A
       '': Caps Lock '', U [0x30AD, 0x30FC, 0x304C, 0x30AA, 0x30F3, 0x306B, 0x306A, 0x3063, 0x3066, 0x3044, 0x307E,
       0x3059], A ''!'']],
     Message [(None, -133), (None, 60)] False [A ''Wallet encrypted''] [[U [0x30A6, 0x30A9, 0x30EC, 0x30C3, 0x30C8,
       0x306F, 0x6697, 0x53F7, 0x5316, 0x3055, 0x308C, 0x307E, 0x3057, 0x305F]]],
     Message [(None, -58)] False [A
       ''MotaCoin will close now to finish the encryption process. Remember that encrypting your wallet cannot fully protect your coins from being stolen by malware infecting your computer.''
       ] [[U [0x305F, 0x3060, 0x3044, 0x307E, 0x3001, 0x6697, 0x53F7, 0x5316, 0x624B, 0x9806, 0x3092, 0x5B8C, 0x6210,
       0x3059, 0x308B, 0x305F, 0x3081, 0x3001, 0x30D6, 0x30E9, 0x30C3, 0x30AF, 0x30B3, 0x30A4, 0x30F3], A ''QT'', U
       [0x306F, 0x9589, 0x3058, 0x307E, 0x3059, 0x3002, 0x5C1A, 0x3001, 0x30A6, 0x30A9, 0x30EC, 0x30C3, 0x30C8,
       0x3092, 0x6697, 0x53F7, 0x5316, 0x3092, 0x3055, 0x308C, 0x305F, 0x306B, 0x3057, 0x3066, 0x3082, 0x3001], A
       ''TEND'', U [0x306E, 0x30A6, 0x30A4, 0x30EB, 0x30B9, 0x304B, 0x3089, 0x76D7, 0x96E3, 0x9632, 0x6B62, 0x306E,
       0x5831, 0x511F, 0x3067, 0x304D, 0x306A, 0x3044, 0x3053, 0x3068, 0x3092, 0x3001, 0x3054, 0x7406, 0x89E3,
       0x3092, 0x304A, 0x9858, 0x3044, 0x8DB3, 0x3057, 0x307E, 0x3059, 0x3002]]],
     Message [(None, 13), (None, 7), (None, 44), (None, 6)] False [A ''Wallet encryption failed''] [[U [0x30A6,
       0x30A9, 0x30EC, 0x30C3, 0x30C8, 0x306E, 0x6697, 0x53F7, 0x5316, 0x306B, 0x5931, 0x6557, 0x3057, 0x307E,
       0x3057, 0x305F]]],
     Message [(None, -56)] False [A
       ''Wallet encryption failed due to an internal error. Your wallet was not encrypted.''] [[U [0x5185, 0x90E8,
       0x30A8, 0x30E9, 0x30FC, 0x306B, 0x3088, 0x308A, 0x30A6, 0x30A9, 0x30EC, 0x30C3, 0x30C8, 0x306E, 0x6697,
       0x53F7, 0x5316, 0x304C, 0x5931, 0x6557, 0x3057, 0x307E, 0x3057, 0x305F, 0x3002, 0x30A6, 0x30A9, 0x30EC,
       0x30C3, 0x30C8, 0x306F, 0x6697, 0x53F7, 0x5316, 0x3055, 0x308C, 0x307E, 0x305B, 0x3093, 0x3067, 0x3057,
       0x305F, 0x3002]]],
     Message [(None, 7), (None, 50)] False [A ''The supplied passphrases do not match.''] [[U [0x30D1, 0x30B9,
       0x30D5, 0x30EC, 0x30FC, 0x30BA, 0x304C, 0x540C, 0x3058, 0x3067, 0x306F, 0x3042, 0x308A, 0x307E, 0x305B,
       0x3093, 0x3002]]],
     Message [(None, -38)] False [A ''Wallet unlock failed''] [[U [0x30A6, 0x30A9, 0x30EC, 0x30C3, 0x30C8, 0x306E,
       0x30A2, 0x30F3, 0x30ED, 0x30C3, 0x30AF, 0x306B, 0x5931, 0x6557, 0x3057, 0x307E, 0x3057, 0x305F]]],
     Message [(None, 1), (None, 12), (None, 19)] False [A
       ''The passphrase entered for the wallet decryption was incorrect.''] [[U [0x30A6, 0x30A9, 0x30EC, 0x30C3,
       0x30C8, 0x306E, 0x6697, 0x53F7, 0x5316, 0x89E3, 0x9664, 0x306E, 0x30D1, 0x30B9, 0x30D5, 0x30EC, 0x30FC,
       0x30BA, 0x304C, 0x6B63, 0x3057, 0x304F, 0x3042, 0x308A, 0x307E, 0x305B, 0x3093, 0x3002]]],
     Message [(None, -20)] False [A ''Wallet decryption failed''] [[U [0x30A6, 0x30A9, 0x30EC, 0x30C3, 0x30C8,
       0x306E, 0x6697, 0x53F7, 0x5316, 0x89E3, 0x9664, 0x306B, 0x5931, 0x6557, 0x3057, 0x307E, 0x3057, 0x305F]]]]"

definition ja_AskPassphraseDialog_2 :: "ts_message list" where
  "ja_AskPassphraseDialog_2 = [
     Message [(None, 14)] False [A ''Wallet passphrase was successfully changed.''] [[U [0x30A6, 0x30A9, 0x30EC,
       0x30C3, 0x30C8, 0x306E, 0x30D1, 0x30B9, 0x30D5, 0x30EC, 0x30FC, 0x30BA, 0x306E, 0x5909, 0x66F4, 0x304C,
       0x6210, 0x529F, 0x3057, 0x307E, 0x3057, 0x305F, 0x3002]]]]"

definition ja_BitcoinGUI_1 :: "ts_message list" where
  "ja_BitcoinGUI_1 = [
     Message [(Some ''../bitcoingui.cpp'', 282)] False [A ''Sign &message...''] [[U [0x30E1, 0x30C3, 0x30BB, 0x30FC,
       0x30B8, 0x306E, 0x7F72, 0x540D], A ''... (&m)'']],
     Message [(None, 251)] False [A ''Synchronizing with network...''] [[U [0x30CD, 0x30C3, 0x30C8, 0x30EF, 0x30FC,
       0x30AF, 0x306B, 0x540C, 0x671F, 0x4E2D, 0x2026, 0x2026]]],
     Message [(None, -319)] False [A ''&Overview''] [[U [0x6982, 0x8981], A ''(&O)'']],
     Message [(None, 1)] False [A ''Show general overview of wallet''] [[U [0x30A6, 0x30A9, 0x30EC, 0x30C3, 0x30C8,
       0x306E, 0x6982, 0x8981, 0x3092, 0x898B, 0x308B]]],
     Message [(None, 17)] False [A ''&Transactions''] [[U [0x51E6, 0x7406], A ''(&T)'']],
     Message [(None, 1)] False [A ''Browse transaction history''] [[U [0x51E6, 0x7406, 0x5C65, 0x6B74, 0x3092,
       0x95B2, 0x89A7]]],
     Message [(None, 5)] False [A ''&Address Book''] [[U [0x30A2, 0x30C9, 0x30EC, 0x30B9, 0x5E33]]],
     Message [(None, 1)] False [A ''Edit the list of stored addresses and labels''] [[U [0x4FDD, 0x5B58, 0x3055,
       0x308C, 0x305F, 0x30A2, 0x30C9, 0x30EC, 0x30B9, 0x3068, 0x30E9, 0x30D9, 0x30EB, 0x306E, 0x7DE8, 0x96C6]]],
     Message [(None, -13)] False [A ''&Receive coins''] [[U [0x30B3, 0x30A4, 0x30F3, 0x3092, 0x53D7, 0x3051, 0x53D6,
       0x308B]]],
     Message [(None, 1)] False [A ''Show the list of addresses for receiving payments''] [[U [0x652F, 0x6255, 0x3044,
       0x3092, 0x53D7, 0x3051, 0x308B, 0x305F, 0x3081, 0x306E, 0x30A2, 0x30C9, 0x30EC, 0x30B9, 0x30EA, 0x30B9,
       0x30C8, 0x3092, 0x8868, 0x793A]]],
     Message [(None, -7)] False [A ''&Send coins''] [[U [0x30B3, 0x30A4, 0x30F3, 0x3092, 0x9001, 0x308B]]],
     Message [(None, 35)] False [A ''E&xit''] [[U [0x7D42, 0x4E86], A ''(&E)'']],
     Message [(None, 1)] False [A ''Quit application''] [[U [0x30A2, 0x30D7, 0x30EA, 0x30B1, 0x30FC, 0x30B7, 0x30E7,
       0x30F3, 0x3092, 0x7D42, 0x4E86]]],
     Message [(None, 6)] False [A ''Show information about MotaCoin''] [[U [0x30D6, 0x30E9, 0x30C3, 0x30AF, 0x30B3,
       0x30A4, 0x30F3, 0x306E, 0x60C5, 0x5831, 0x3092, 0x8868, 0x793A]]],
     Message [(None, 2)] False [A ''About &Qt''] [[A ''Qt '', U [0x306B, 0x3064, 0x3044, 0x3066], A ''(&Q)'']],
     Message [(None, 1)] False [A ''Show information about Qt''] [[A ''Qt '', U [0x306E, 0x60C5, 0x5831, 0x3092,
       0x8868, 0x793A]]],
     Message [(None, 2)] False [A ''&Options...''] [[U [0x30AA, 0x30D7, 0x30B7, 0x30E7, 0x30F3], A ''... (&O)'']],
     Message [(None, 4)] False [A ''&Encrypt Wallet...''] [[U [0x30A6, 0x30A9, 0x30EC, 0x30C3, 0x30C8, 0x306E,
       0x6697, 0x53F7, 0x5316], A ''... (&E)'']],
     Message [(None, 3)] False [A ''&Backup Wallet...''] [[U [0x30A6, 0x30A9, 0x30EC, 0x30C3, 0x30C8, 0x306E, 0x30D0,
       0x30C3, 0x30AF, 0x30A2, 0x30C3, 0x30D7], A ''... (&B)'']],
     Message [(None, 2)] False [A ''&Change Passphrase...''] [[U [0x30D1, 0x30B9, 0x30D5, 0x30EC, 0x30FC, 0x30BA,
       0x306E, 0x5909, 0x66F4], A ''... (&C)'']],
     Message [(None, 259)] True [A ''~%n block(s) remaining''] [[A ''~%n '', U [0x30D6, 0x30ED, 0x30C3, 0x30AF,
       0x304C, 0x6B8B, 0x3063, 0x3066, 0x3044, 0x308B]]],
     Message [(None, 6)] False [A ''Downloaded %1 of %2 blocks of transaction history (%3% done).''] [[U [0x51E6,
       0x7406, 0x306E, 0x5C65, 0x6B74, 0x306E], A ''%1 / %2 '', U [0x30D6, 0x30ED, 0x30C3, 0x30AF, 0x3092, 0x30C0,
       0x30A6, 0x30F3, 0x30ED, 0x30FC, 0x30C9, 0x3057, 0x307E, 0x3057, 0x305F, 0x3002], A ''(%3% '', U [0x5B8C,
       0x6210, 0xFF09]]],
     Message [(None, -256)] False [A ''&Export...''] [[A ''(&E)'', U [0x66F8, 0x304D, 0x51FA, 0x3059], A ''...'']],
     Message [(None, -64)] False [A ''Send coins to a MotaCoin address''] [[U [0x30D6, 0x30E9, 0x30C3, 0x30AF,
       0x30B3, 0x30A4, 0x30F3, 0x30A2, 0x30C9, 0x30EC, 0x30B9, 0x3078, 0x30B3, 0x30A4, 0x30F3, 0x3092, 0x9001,
       0x308B]]],
     Message [(None, 47)] False [A ''Modify configuration options for MotaCoin''] [[U [0x30D6, 0x30E9, 0x30C3,
       0x30AF, 0x30B3, 0x30A4, 0x30F3, 0x306E, 0x8A2D, 0x5B9A, 0x3092, 0x5909, 0x5316, 0x3059, 0x308B]]],
     Message [(None, 18)] False [A ''Export the data in the current tab to a file''] [[U [0x73FE, 0x5728, 0x306E,
       0x30BF, 0x30D6, 0x306E, 0x30C7, 0x30FC, 0x30BF, 0x3092, 0x30D5, 0x30A1, 0x30A4, 0x30EB, 0x3078, 0x66F8,
       0x304D, 0x51FA, 0x3059]]],
     Message [(None, -14)] False [A ''Encrypt or decrypt wallet''] [[U [0x30A6, 0x30A9, 0x30EC, 0x30C3, 0x30C8,
       0x3092, 0x6697, 0x53F7, 0x5316, 0x304B, 0x6697, 0x53F7, 0x5316, 0x3092, 0x89E3, 0x9664, 0x3059, 0x308B]]],
     Message [(None, 3)] False [A ''Backup wallet to another location''] [[U [0x30A6, 0x30A9, 0x30EC, 0x30C3, 0x30C8,
       0x3092, 0x4ED6, 0x306E, 0x5834, 0x6240, 0x306B, 0x30D0, 0x30C3, 0x30AF, 0x30A2, 0x30C3, 0x30D7]]],
     Message [(None, 2)] False [A ''Change the passphrase used for wallet encryption''] [[U [0x30A6, 0x30A9, 0x30EC,
       0x30C3, 0x30C8, 0x6697, 0x53F7, 0x5316, 0x7528, 0x30D1, 0x30B9, 0x30D5, 0x30EC, 0x30FC, 0x30BA, 0x306E,
       0x5909, 0x66F4]]]]"

definition ja_BitcoinGUI_2 :: "ts_message list" where
  "ja_BitcoinGUI_2 = [
     Message [(None, 10)] False [A ''&Debug window''] [[U [0x30C7, 0x30D0, 0x30C3, 0x30B0], A '' '', U [0x30A6,
       0x30A4, 0x30F3, 0x30C9, 0x30A6], A '' (&D)'']],
     Message [(None, 1)] False [A ''Open debugging and diagnostic console''] [[U [0x30C7, 0x30D0, 0x30C3, 0x30B0,
       0x3068, 0x8A3A, 0x65AD, 0x30B3, 0x30F3, 0x30BD, 0x30FC, 0x30EB, 0x3092, 0x958B, 0x304F]]],
     Message [(None, -5)] False [A ''&Verify message...''] [[U [0x30E1, 0x30C3, 0x30BB, 0x30FC, 0x30B8, 0x306E,
       0x691C, 0x8A3C], A ''... (&V)'']],
     Message [(None, -202)] False [A ''MotaCoin''] [[U [0x30D6, 0x30E9, 0x30C3, 0x30AF, 0x30B3, 0x30A4, 0x30F3]]],
     Message [(None, 0)] False [A ''Wallet''] [[U [0x30A6, 0x30A9, 0x30EC, 0x30C3, 0x30C8]]],
     Message [(None, 180)] False [A ''&About MotaCoin''] [[U [0x30D6, 0x30E9, 0x30C3, 0x30AF, 0x30B3, 0x30A4, 0x30F3,
       0x306B, 0x3064, 0x3044, 0x3066]]],
     Message [(None, 9)] False [A ''&Show / Hide''] [[U [0x898B, 0x308B], A ''/'', U [0x96A0, 0x3059], A '' (&S)'']],
     Message [(None, 9)] False [A ''Unlock wallet''] [[U [0x30A6, 0x30A9, 0x30EC, 0x30C3, 0x30C8, 0x3092, 0x30A2,
       0x30F3, 0x30ED, 0x30C3, 0x30AF, 0x3059, 0x308B]]],
     Message [(None, 1)] False [A ''&Lock Wallet''] [[A ''(&L)'', U [0x30A6, 0x30A9, 0x30EC, 0x30C3, 0x30C8, 0x3092,
       0x30ED, 0x30C3, 0x30AF, 0x3059, 0x308B]]],
     Message [(None, 1)] False [A ''Lock wallet''] [[U [0x30A6, 0x30A9, 0x30EC, 0x30C3, 0x30C8, 0x3092, 0x30ED,
       0x30C3, 0x30AF, 0x3059, 0x308B]]],
     Message [(None, 35)] False [A ''&File''] [[U [0x30D5, 0x30A1, 0x30A4, 0x30EB], A ''(&F)'']],
     Message [(None, 8)] False [A ''&Settings''] [[U [0x8A2D, 0x5B9A], A ''(&S)'']],
     Message [(None, 8)] False [A ''&Help''] [[U [0x30D8, 0x30EB, 0x30D7], A ''(&H)'']],
     Message [(None, 12)] False [A ''Tabs toolbar''] [[U [0x30BF, 0x30D6, 0x30C4, 0x30FC, 0x30EB, 0x30D0, 0x30FC]]],
     Message [(None, 8)] False [A ''Actions toolbar''] [[U [0x6D3B, 0x52D5, 0x30C4, 0x30FC, 0x30EB, 0x30D0, 0x30FC]]],
     Message [(None, 13), (None, 9)] False [A ''[testnet]''] [[A ''[testnet]'']],
     Message [(None, 0), (None, 60)] False [A ''MotaCoin client''] [[U [0x30D6, 0x30E9, 0x30C3, 0x30AF, 0x30B3,
       0x30A4, 0x30F3, 0x30AF, 0x30E9, 0x30A4, 0x30A2, 0x30F3, 0x30C8, 0x30BD, 0x30D5, 0x30C8, 0x30A6, 0x30A7,
       0x30A2]]],
     Message [(None, 75)] True [A ''%n active connection(s) to MotaCoin network''] [[U [0x30D6, 0x30E9, 0x30C3,
       0x30AF, 0x30B3, 0x30A4, 0x30F3, 0x30CD, 0x30C3, 0x30C8, 0x30EF, 0x30FC, 0x30AF, 0x3078, 0x306E], A ''%n '', U
       [0x30A2, 0x30AF, 0x30C6, 0x30A3, 0x30D6, 0x306A, 0x63A5, 0x7D9A]]],
     Message [(None, 40)] False [A ''Downloaded %1 blocks of transaction history.''] [[U [0x51E6, 0x7406, 0x5C65,
       0x6B74, 0x306E], A ''%1'', U [0x30D6, 0x30ED, 0x30C3, 0x30AF, 0x3092, 0x30C0, 0x30A6, 0x30F3, 0x30ED, 0x30FC,
       0x30C9, 0x3057, 0x307E, 0x3057, 0x305F, 0x3002]]],
     Message [(None, 413)] False [A
       ''Staking.<br>Your weight is %1<br>Network weight is %2<br>Expected time to earn reward is %3''] [[U [0x8CED,
       0x3051, 0x3066, 0x3044, 0x308B, 0x3002], A ''<br>'', U [0x91CD, 0x3055, 0x306F], A ''%1<br>'', U [0x30CD,
       0x30C3, 0x30C8, 0x30EF, 0x30FC, 0x30AF, 0x306E, 0x91CD, 0x3055, 0x306F], A ''%2<br>'', U [0x5831, 0x916C,
       0x3092, 0x3082, 0x3089, 0x3046, 0x6642, 0x9593, 0x306E, 0x63A8, 0x6E2C, 0x306F], A ''%3'']],
     Message [(None, 6)] False [A ''Not staking because wallet is locked''] [[U [0x30A6, 0x30A9, 0x30EC, 0x30C3,
       0x30C8, 0x3092, 0x30ED, 0x30C3, 0x30AF, 0x3055, 0x308C, 0x305F, 0x305F, 0x3081, 0x3001, 0x8CED, 0x3051,
       0x3066, 0x3044, 0x307E, 0x305B, 0x3093]]],
     Message [(None, 2)] False [A ''Not staking because wallet is offline''] [[U [0x30A6, 0x30A9, 0x30EC, 0x30C3,
       0x30C8, 0x306F, 0x30AA, 0x30D5, 0x30E9, 0x30A4, 0x30F3, 0x3067, 0x3001, 0x8CED, 0x3051, 0x3066, 0x3044,
       0x307E, 0x305B, 0x3093]]],
     Message [(None, 2)] False [A ''Not staking because wallet is syncing''] [[U [0x30A6, 0x30A9, 0x30EC, 0x30C3,
       0x30C8, 0x306F, 0x540C, 0x671F, 0x6700, 0x4E2D, 0x305F, 0x3081, 0x3001, 0x8CED, 0x3051, 0x3066, 0x3044,
       0x307E, 0x305B, 0x3093, 0x3002]]],
     Message [(None, 2)] False [A ''Not staking because you don'', U [0x27], A ''t have mature coins''] [[U [0x30B3,
       0x30A4, 0x30F3, 0x306F, 0x307E, 0x3060, 0x6210, 0x9577, 0x3067, 0x304D, 0x3066, 0x3044, 0x306A, 0x3044,
       0x305F, 0x3081, 0x3001, 0x8CED, 0x3051, 0x3066, 0x3044, 0x307E, 0x305B, 0x3093, 0x3002]]],
     Message [(None, -403)] True [A ''%n second(s) ago''] [[A ''%n '', U [0x79D2, 0x524D]]],
     Message [(None, -312)] False [A ''About MotaCoin card''] [[U [0x30D6, 0x30E9, 0x30C3, 0x30AF, 0x30B3, 0x30A4,
       0x30F3, 0x30AB, 0x30FC, 0x30C9, 0x306B, 0x3064, 0x3044, 0x3066]]],
     Message [(None, 1)] False [A ''Show information about MotaCoin card''] [[U [0x30D0, 0x30E9, 0x30C3, 0x30AF,
       0x30B3, 0x30A4, 0x30F3, 0x30AB, 0x30FC, 0x30C9, 0x306E, 0x60C5, 0x5831, 0x3092, 0x8868, 0x793A, 0x3059,
       0x308B]]],
     Message [(None, 18)] False [A ''&Unlock Wallet...''] [[A ''&'', U [0x30A6, 0x30A9, 0x30EC, 0x30C3, 0x30C8,
       0x3092, 0x30A2, 0x30F3, 0x30ED, 0x30C3, 0x30AF], A ''...'']],
     Message [(None, 297)] True [A ''%n minute(s) ago''] [[A ''%n '', U [0x5206, 0x524D]]]]"

definition ja_BitcoinGUI_3 :: "ts_message list" where
  "ja_BitcoinGUI_3 = [
     Message [(None, 4)] True [A ''%n hour(s) ago''] [[A ''%n '', U [0x6642, 0x9593, 0x524D]]],
     Message [(None, 4)] True [A ''%n day(s) ago''] [[A ''%n '', U [0x65E5, 0x9593, 0x524D]]],
     Message [(None, 6)] False [A ''Up to date''] [[U [0x30D0, 0x30FC, 0x30B8, 0x30E7, 0x30F3, 0x306F, 0x6700,
       0x65B0, 0x3067, 0x3059]]],
     Message [(None, 7)] False [A ''Catching up...''] [[U [0x8FFD, 0x8DE1, 0x4E2D], A ''...'']],
     Message [(None, 10)] False [A ''Last received block was generated %1.''] [[U [0x6700, 0x65B0, 0x30D6, 0x30ED,
       0x30C3, 0x30AF, 0x306F], A ''%1'', U [0x306B, 0x751F, 0x6210, 0x3055, 0x308C, 0x307E, 0x3057, 0x305F, 0x3002]]],
     Message [(None, 59)] False [A
       ''This transaction is over the size limit.  You can still send it for a fee of %1, which goes to the nodes that process your transaction and helps to support the network.  Do you want to pay the fee?''
       ] [[U [0x3053, 0x306E, 0x51E6, 0x7406, 0x306F, 0x5927, 0x304D, 0x3055, 0x306E, 0x5236, 0x9650, 0x3092, 0x8D85,
       0x3048, 0x3066, 0x3044, 0x308B, 0x3002], A ''%1'', U [0x6599, 0x91D1, 0x3092, 0x6255, 0x3063, 0x305F, 0x3070,
       0x3044, 0x3001, 0x901A, 0x4FE1, 0x53EF, 0x80FD, 0x6027, 0x3067, 0x3059, 0x3002, 0x6599, 0x91D1, 0x306F,
       0x624B, 0x7D9A, 0x304D, 0x3092, 0x3059, 0x308B, 0x30CE, 0x30FC, 0x30C9, 0x3078, 0x652F, 0x6255, 0x3063,
       0x3066, 0x3001, 0x30CD, 0x30C3, 0x30C8, 0x30EF, 0x30FC, 0x30AF, 0x306E, 0x30B5, 0x30C3, 0x30DD, 0x30FC,
       0x30C8, 0x306B, 0x306A, 0x308A, 0x307E, 0x3059, 0x3002, 0x6599, 0x91D1, 0x3092, 0x6255, 0x3044, 0x307E,
       0x3059, 0x304B, 0x3002]]],
     Message [(None, 5)] False [A ''Confirm transaction fee''] [[U [0x51E6, 0x7406, 0x624B, 0x6570, 0x6599, 0x3092,
       0x78BA, 0x8A8D, 0x3059, 0x308B]]],
     Message [(None, 27)] False [A ''Sent transaction''] [[U [0x9001, 0x91D1, 0x51E6, 0x7406]]],
     Message [(None, 1)] False [A ''Incoming transaction''] [[U [0x7740, 0x91D1, 0x51E6, 0x7406]]],
     Message [(None, 1)] False [A ''Date: %1'', U [0xA], A ''Amount: %2'', U [0xA], A ''Type: %3'', U [0xA], A
       ''Address: %4'', U [0xA]] [[U [0x65E5, 0x4ED8], A '': %1'', U [0xA, 0x7DCF, 0x984D], A '': %2'', U [0xA,
       0x7A2E, 0x985E], A '': %3'', U [0xA, 0x30A2, 0x30C9, 0x30EC, 0x30B9], A '': %4'']],
     Message [(None, 100), (None, 15)] False [A ''URI handling''] [[A ''URI'', U [0x306E, 0x53D6, 0x308A, 0x6271,
       0x3044]]],
     Message [(None, -15), (None, 15)] False [A
       ''URI can not be parsed! This can be caused by an invalid MotaCoin address or malformed URI parameters.''] [[A
       ''URI'', U [0x306E, 0x30D1, 0x30FC, 0x30BA, 0x304C, 0x3067, 0x304D, 0x307E, 0x305B, 0x3093, 0x3067, 0x3057,
       0x305F, 0xFF01, 0x3002, 0x539F, 0x56E0, 0x306F, 0x7121, 0x52B9, 0x306A, 0x30D6, 0x30E9, 0x30C3, 0x30AF,
       0x30B3, 0x30A4, 0x30F3, 0x30A2, 0x30C9, 0x30EC, 0x30B9, 0x304B, 0x4E0D, 0x6B63, 0x306A], A ''URI'', U [0x30D1,
       0x30E9, 0x30E1, 0x30FC, 0x30BF, 0x3002]]],
     Message [(None, 18)] False [A ''Wallet is <b>encrypted</b> and currently <b>unlocked</b>''] [[U [0x30A6, 0x30A9,
       0x30EC, 0x30C3, 0x30C8, 0x306F], A ''<b>'', U [0x6697, 0x53F7, 0x5316, 0x3055, 0x308C, 0x3066, 0x3001, 0x30A2,
       0x30F3, 0x30ED, 0x30C3, 0x30AF, 0x3055, 0x308C, 0x3066, 0x3044, 0x307E, 0x3059], A ''</b>'']],
     Message [(None, 10)] False [A ''Wallet is <b>encrypted</b> and currently <b>locked</b>''] [[U [0x30A6, 0x30A9,
       0x30EC, 0x30C3, 0x30C8, 0x306F], A ''<b>'', U [0x6697, 0x53F7, 0x5316, 0x3055, 0x308C, 0x3066, 0x3001, 0x30ED,
       0x30C3, 0x30AF, 0x3055, 0x308C, 0x3066, 0x3044, 0x307E, 0x3059], A ''</b>'']],
     Message [(None, 25)] False [A ''Backup Wallet''] [[U [0x30A6, 0x30A9, 0x30EC, 0x30C3, 0x30C8, 0x306E, 0x30D0,
       0x30C3, 0x30AF, 0x30A2, 0x30C3, 0x30D7]]],
     Message [(None, 0)] False [A ''Wallet Data (*.dat)''] [[U [0x30A6, 0x30A9, 0x30EC, 0x30C3, 0x30C8, 0x306E,
       0x30C7, 0x30FC, 0x30BF], A '' (*.dat)'']],
     Message [(None, 3)] False [A ''Backup Failed''] [[U [0x30D0, 0x30C3, 0x30AF, 0x30A2, 0x30C3, 0x30D7, 0x306F,
       0x5931, 0x6557, 0x3057, 0x307E, 0x3057, 0x305F]]],
     Message [(None, 0)] False [A ''There was an error trying to save the wallet data to the new location.''] [[U
       [0x30A6, 0x30A9, 0x30EC, 0x30C3, 0x30C8, 0x306E, 0x30C7, 0x30FC, 0x30BF, 0x304C, 0x65B0, 0x3057, 0x3044,
       0x5834, 0x6240, 0x3078, 0x4FDD, 0x5B58, 0x3059, 0x308B, 0x306B, 0x306F, 0x30A8, 0x30E9, 0x30FC, 0x306B,
       0x306A, 0x308A, 0x307E, 0x3057, 0x305F, 0x3002]]],
     Message [(None, 76)] True [A ''%n second(s)''] [[A ''%n '', U [0x79D2]]],
     Message [(None, 4)] True [A ''%n minute(s)''] [[A ''%n '', U [0x5206]]],
     Message [(None, 4)] True [A ''%n hour(s)''] [[A ''%n '', U [0x6642, 0x9593]]],
     Message [(None, 4)] True [A ''%n day(s)''] [[A ''%n '', U [0x65E5, 0x9593]]],
     Message [(None, 18)] False [A ''Not staking''] [[U [0x8CED, 0x3051, 0x3066, 0x3044, 0x307E, 0x305B, 0x3093]]],
     Message [(Some ''../bitcoin.cpp'', 109)] False [A
       ''A fatal error occurred. MotaCoin can no longer continue safely and will quit.''] [[U [0x81F4, 0x547D,
       0x7684, 0x30A8, 0x30E9, 0x30FC, 0x3002, 0x5B89, 0x5168, 0x306B, 0x7D9A, 0x304D, 0x304C, 0x3067, 0x304D,
       0x306A, 0x3044, 0x305F, 0x3081, 0x3001, 0x30D0, 0x30E9, 0x30C3, 0x30AF, 0x30B3, 0x30A4, 0x30F3], A ''QT'', U
       [0x306F, 0x9589, 0x3058, 0x307E, 0x3059, 0x3002]]]]"

definition ja_ClientModel :: "ts_message list" where
  "ja_ClientModel = [
     Message [(Some ''../clientmodel.cpp'', 90)] False [A ''Network Alert''] [[U [0x30CD, 0x30C3, 0x30C8, 0x30EF,
       0x30FC, 0x30AF, 0x8B66, 0x544A]]]]"

definition ja_CoinControlDialog_1 :: "ts_message list" where
  "ja_CoinControlDialog_1 = [
     Message [(Some ''../forms/coincontroldialog.ui'', 14)] False [A ''Coin Control''] [[U [0x30B3, 0x30A4, 0x30F3,
       0x306E, 0x30B3, 0x30F3, 0x30C8, 0x30ED, 0x30FC, 0x30EB]]],
     Message [(None, 31)] False [A ''Quantity:''] [[U [0x6570, 0x91CF, 0xFF1A]]],
     Message [(None, 32)] False [A ''Bytes:''] [[U [0x30D0, 0x30A4, 0x30C8]]],
     Message [(None, 48)] False [A ''Amount:''] [[U [0x7DCF, 0x984D], A '':'']],
     Message [(None, 32)] False [A ''Priority:''] [[U [0x512A, 0x5148], A '':'']],
     Message [(None, 48)] False [A ''Fee:''] [[U [0x6599, 0x91D1], A '':'']],
     Message [(None, 35)] False [A ''Low Output:''] [[U [0x30A2, 0x30A6, 0x30C8, 0x30D7, 0x30C3, 0x30C8, 0x4F4E,
       0x3044], A '':'']],
     Message [(Some ''../coincontroldialog.cpp'', 551)] False [A ''no''] [[U [0x3044, 0x3044, 0x3048]]],
     Message [(Some ''../forms/coincontroldialog.ui'', 51)] False [A ''After Fee:''] [[U [0x6599, 0x91D1, 0x306E,
       0x5F8C]]],
     Message [(None, 35)] False [A ''Change:''] [[U [0x304A, 0x91E3, 0x308A], A '':'']],
     Message [(None, 69)] False [A ''(un)select all''] [[U [0x3059, 0x3079, 0x3066, 0x3092, 0x9078, 0x629E, 0x304B,
       0x9078, 0x629E, 0x3092, 0x89E3, 0x9664]]],
     Message [(None, 13)] False [A ''Tree mode''] [[U [0x6728, 0x30E2, 0x30FC, 0x30C9]]],
     Message [(None, 16)] False [A ''List mode''] [[U [0x30EA, 0x30B9, 0x30C8, 0x30E2, 0x30FC, 0x30C9]]],
     Message [(None, 45)] False [A ''Amount''] [[U [0x7DCF, 0x984D]]],
     Message [(None, 5)] False [A ''Label''] [[U [0x30EC, 0x30D9, 0x30EB]]],
     Message [(None, 5)] False [A ''Address''] [[U [0x30A2, 0x30C9, 0x30EC, 0x30B9]]],
     Message [(None, 5)] False [A ''Date''] [[U [0x65E5, 0x4ED8]]],
     Message [(None, 5)] False [A ''Confirmations''] [[U [0x691C, 0x8A3C, 0x6E08, 0x307F, 0x306E, 0x6570]]],
     Message [(None, 3)] False [A ''Confirmed''] [[U [0x691C, 0x8A3C, 0x6E08]]],
     Message [(None, 5)] False [A ''Priority''] [[U [0x512A, 0x5148]]],
     Message [(Some ''../coincontroldialog.cpp'', -515)] False [A ''Copy address''] [[U [0x30A2, 0x30C9, 0x30EC,
       0x30B9, 0x3092, 0x30B3, 0x30D4, 0x30FC]]],
     Message [(None, 1)] False [A ''Copy label''] [[U [0x30E9, 0x30D9, 0x30EB, 0x3092, 0x30B3, 0x30D4, 0x30FC]]],
     Message [(None, 1), (None, 26)] False [A ''Copy amount''] [[U [0x7DCF, 0x984D, 0x306E, 0x30B3, 0x30D4, 0x30FC]]],
     Message [(None, -25)] False [A ''Copy transaction ID''] [[U [0x51E6, 0x7406, 0x306E], A ''ID'', U [0x3092,
       0x30B3, 0x30D4, 0x30FC]]],
     Message [(None, 24)] False [A ''Copy quantity''] [[U [0x6570, 0x91CF, 0x3092, 0x30B3, 0x30D4, 0x30FC]]],
     Message [(None, 2)] False [A ''Copy fee''] [[U [0x6599, 0x91D1, 0x3092, 0x30B3, 0x30D4, 0x30FC]]],
     Message [(None, 1)] False [A ''Copy after fee''] [[U [0x6599, 0x91D1, 0x306E, 0x5F8C, 0x3092, 0x30B3, 0x30D4,
       0x30FC]]],
     Message [(None, 1)] False [A ''Copy bytes''] [[U [0x30D0, 0x30A4, 0x30C8, 0x3092, 0x30B3, 0x30D4, 0x30FC]]],
     Message [(None, 1)] False [A ''Copy priority''] [[U [0x512A, 0x5148, 0x3092, 0x30B3, 0x30D4, 0x30FC]]]]"

definition ja_CoinControlDialog_2 :: "ts_message list" where
  "ja_CoinControlDialog_2 = [
     Message [(None, 1)] False [A ''Copy low output''] [[U [0x30A2, 0x30A6, 0x30C8, 0x30D7, 0x30C3, 0x30C8, 0x4F4E,
       0x3044, 0x3092, 0x30B3, 0x30D4, 0x30FC]]],
     Message [(None, 1)] False [A ''Copy change''] [[U [0x304A, 0x91E3, 0x308A, 0x3092, 0x30B3, 0x30D4, 0x30FC]]],
     Message [(None, 317)] False [A ''highest''] [[U [0x6700, 0x9AD8]]],
     Message [(None, 1)] False [A ''high''] [[U [0x9AD8, 0x3044]]],
     Message [(None, 1)] False [A ''medium-high''] [[U [0x4E2D, 0x9AD8]]],
     Message [(None, 1)] False [A ''medium''] [[U [0x4E2D]]],
     Message [(None, 4)] False [A ''low-medium''] [[U [0x4E2D, 0x4F4E]]],
     Message [(None, 1)] False [A ''low''] [[U [0x4F4E, 0x3044]]],
     Message [(None, 1)] False [A ''lowest''] [[U [0x6700, 0x4F4E]]],
     Message [(None, 155)] False [A ''DUST''] [[U [0x307B, 0x3053, 0x308A]]],
     Message [(None, 0)] False [A ''yes''] [[U [0x306F, 0x3044]]],
     Message [(None, 10)] False [A ''This label turns red, if the transaction size is bigger than 10000 bytes.'', U
       [0xA, 0xA], A '' This means a fee of at least %1 per kb is required.'', U [0xA, 0xA], A
       '' Can vary +/- 1 Byte per input.''] [[U [0x3053, 0x306E, 0x30E9, 0x30D9, 0x30EB, 0x304C, 0x8D64, 0x304F,
       0x306A, 0x3063, 0x305F, 0x3089, 0x3001, 0x51E6, 0x7406, 0x306E, 0x5927, 0x304D, 0x3055, 0x306F], A ''10000'',
       U [0x30D0, 0x30A4, 0x30C8, 0x3088, 0x308A, 0x5927, 0x304D, 0x3044, 0x3067, 0x3059, 0x3002, 0xA, 0xA, 0x5C11,
       0x306A, 0x304F, 0x3068, 0x3082], A ''%1 KB'', U [0x3042, 0x305F, 0x308A, 0x306E, 0x6599, 0x91D1, 0x306F,
       0x5FC5, 0x8981, 0x3068, 0x306A, 0x308A, 0x307E, 0x3059, 0x3002, 0xA, 0xA, 0x5165, 0x529B, 0x30C7, 0x30FC,
       0x30BF, 0x306B, 0x3088, 0x3063, 0x3066, 0x3001, 0x6599, 0x91D1, 0x306E], A ''+/-1 '', U [0x30D0, 0x30A4,
       0x30C8, 0x304C, 0x53EF, 0x80FD, 0x3067, 0x3059, 0x3002]]],
     Message [(None, 1)] False [A ''Transactions with higher priority get more likely into a block.'', U [0xA, 0xA],
       A ''This label turns red, if the priority is smaller than '', U [0x22], A ''medium'', U [0x22], A ''.'', U
       [0xA, 0xA], A '' This means a fee of at least %1 per kb is required.''] [[U [0x9AD8, 0x3044, 0x512A, 0x5148,
       0x3042, 0x308A, 0x306E, 0x51E6, 0x7406, 0x306E, 0x65B9, 0x306F, 0x30D6, 0x30ED, 0x30C3, 0x30AF, 0x306B,
       0x66F8, 0x304D, 0x8FBC, 0x307F, 0x53EF, 0x80FD, 0x6027, 0x304C, 0x9AD8, 0x3044, 0x3002, 0xA, 0xA, 0x3053,
       0x306E, 0x30E9, 0x30D9, 0x30EB, 0x306F, 0x512A, 0x5148, 0x306E, 0x8A2D, 0x5B9A, 0x306F, 0x4E2D, 0x3088,
       0x308A, 0x4F4E, 0x3044, 0x3067, 0x3059, 0x3002, 0xA, 0xA, 0x5C11, 0x306A, 0x304F, 0x3068, 0x3082], A ''%1 KB''
       , U [0x3042, 0x305F, 0x308A, 0x306E, 0x6599, 0x91D1, 0x306F, 0x5FC5, 0x8981, 0x3068, 0x306A, 0x308A, 0x307E,
       0x3059, 0x3002]]],
     Message [(None, 1)] False [A ''This label turns red, if any recipient receives an amount smaller than %1.'', U
       [0xA, 0xA], A '' This means a fee of at least %2 is required. '', U [0xA, 0xA], A
       '' Amounts below 0.546 times the minimum relay fee are shown as DUST.''] [[U [0x4EFB, 0x610F, 0x306E, 0x53D7,
       0x4FE1, 0x8005, 0x306F], A ''%1'', U [0x3088, 0x308A, 0x5C11, 0x306A, 0x3044, 0x984D, 0x3092, 0x3082, 0x3089,
       0x3063, 0x305F, 0x3070, 0x3044, 0x3001, 0x3053, 0x306E, 0x30E9, 0x30D9, 0x30EB, 0x306F, 0x8D64, 0x304F,
       0x306A, 0x308B, 0x3002, 0xA, 0xA, 0x5C11, 0x306A, 0x304F, 0x3068, 0x3082], A ''%2'', U [0x306E, 0x6599,
       0x91D1, 0x306F, 0x5FC5, 0x8981, 0x3068, 0x306A, 0x308A, 0x307E, 0x3059, 0x3002, 0xA, 0xA, 0x6700, 0x5C0F,
       0x306A, 0x30EA, 0x30EC, 0x30FC, 0x6599, 0x91D1, 0x3000], A ''x'', U [0x3000], A ''0.546'', U [0x3088, 0x308A,
       0x4E0B, 0x306E, 0x984D, 0x306F, 0x3001, 0x307B, 0x3053, 0x308A, 0x306B, 0x306A, 0x308A, 0x307E, 0x3059,
       0x3002]]],
     Message [(None, 1)] False [A ''This label turns red, if the change is smaller than %1.'', U [0xA, 0xA], A
       '' This means a fee of at least %2 is required.''] [[U [0x3053, 0x306E, 0x30E9, 0x30D9, 0x30EB, 0x304C,
       0x8D64, 0x304F, 0x306A, 0x305F, 0x3089, 0x3001, 0x304A, 0x91E3, 0x308A, 0x306F], A ''%1'', U [0x3088, 0x308A,
       0x5C11, 0x306A, 0x3044, 0x3002, 0xA, 0xA, 0x5C11, 0x306A, 0x304F, 0x3068, 0x3082], A ''%2'', U [0x306E,
       0x6599, 0x91D1, 0x306F, 0x5FC5, 0x8981, 0x3068, 0x306A, 0x308A, 0x307E, 0x3059, 0x3002]]],
     Message [(None, 37), (None, 66)] False [A ''(no label)''] [[U [0xFF08, 0x30E9, 0x30D9, 0x30EB, 0x7121, 0x3057,
       0xFF09]]],
     Message [(None, -9)] False [A ''change from %1 (%2)''] [[A ''%1 (%2)'', U [0x304B, 0x3089, 0x304A, 0x91E3,
       0x308A]]],
     Message [(None, 1)] False [A ''(change)''] [[A ''('', U [0x304A, 0x91E3, 0x308A], A '')'']]]"

definition ja_EditAddressDialog :: "ts_message list" where
  "ja_EditAddressDialog = [
     Message [(Some ''../forms/editaddressdialog.ui'', 14)] False [A ''Edit Address''] [[U [0x30A2, 0x30C9, 0x30EC,
       0x30B9, 0x306E, 0x7DE8, 0x96C6]]],
     Message [(None, 11)] False [A ''&Label''] [[U [0x30E9, 0x30D9, 0x30EB], A ''(&L)'']],
     Message [(None, 10)] False [A ''The label associated with this address book entry''] [[U [0x3053, 0x306E,
       0x30A2, 0x30C9, 0x30EC, 0x30B9, 0x5E33, 0x306E, 0x5165, 0x529B, 0x306E, 0x30E9, 0x30D9, 0x30EB]]],
     Message [(None, 7)] False [A ''&Address''] [[U [0x30A2, 0x30C9, 0x30EC, 0x30B9, 0x5E33], A '' (&A)'']],
     Message [(None, 10)] False [A
       ''The address associated with this address book entry. This can only be modified for sending addresses.''] [[U
       [0x3053, 0x306E, 0x30A2, 0x30C9, 0x30EC, 0x30B9, 0x5E33, 0x306E, 0x5165, 0x529B, 0x306E, 0x30A2, 0x30C9,
       0x30EC, 0x30B9, 0x3002, 0x901A, 0x4FE1, 0x30A2, 0x30C9, 0x30EC, 0x30B9, 0x3057, 0x305F, 0x5909, 0x66F4,
       0x304C, 0x3067, 0x304D, 0x306A, 0x3044, 0x3002]]],
     Message [(Some ''../editaddressdialog.cpp'', 20)] False [A ''New receiving address''] [[U [0x65B0, 0x3057,
       0x3044, 0x53D7, 0x4FE1, 0x30A2, 0x30C9, 0x30EC, 0x30B9]]],
     Message [(None, 4)] False [A ''New sending address''] [[U [0x65B0, 0x3057, 0x3044, 0x9001, 0x4FE1, 0x30A2,
       0x30C9, 0x30EC, 0x30B9]]],
     Message [(None, 3)] False [A ''Edit receiving address''] [[U [0x53D7, 0x4FE1, 0x30A2, 0x30C9, 0x30EC, 0x30B9,
       0x3092, 0x7DE8, 0x96C6]]],
     Message [(None, 4)] False [A ''Edit sending address''] [[U [0x9001, 0x4FE1, 0x30A2, 0x30C9, 0x30EC, 0x30B9,
       0x3092, 0x7DE8, 0x96C6]]],
     Message [(None, 76)] False [A ''The entered address '', U [0x22], A ''%1'', U [0x22], A
       '' is already in the address book.''] [[U [0x5165, 0x529B, 0x3055, 0x308C, 0x305F, 0x30A2, 0x30C9, 0x30EC,
       0x30B9], A '' '', U [0x22], A ''%1'', U [0x22], A '' '', U [0x306F, 0x65E2, 0x306B, 0x30A2, 0x30C9, 0x30EC,
       0x30B9, 0x5E33, 0x306B, 0x3042, 0x308A, 0x307E, 0x3059, 0x3002]]],
     Message [(None, -5)] False [A ''The entered address '', U [0x22], A ''%1'', U [0x22], A
       '' is not a valid MotaCoin address.''] [[U [0x5165, 0x529B, 0x3055, 0x308C, 0x305F, 0x30A2, 0x30C9, 0x30EC,
       0x30B9], A '' '', U [0x22], A ''%1'', U [0x22], A '' '', U [0x3001, 0x6709, 0x52B9, 0x306A, 0x30D6, 0x30E9,
       0x30C3, 0x30AF, 0x30B3, 0x30A4, 0x30F3, 0x30A2, 0x30C9, 0x30EC, 0x30B9, 0x3067, 0x306F, 0x306A, 0x3044,
       0x3002]]],
     Message [(None, 10)] False [A ''Could not unlock wallet.''] [[U [0x30A6, 0x30A9, 0x30EC, 0x30C3, 0x30C8, 0x3092,
       0x30A2, 0x30F3, 0x30ED, 0x30C3, 0x30AF, 0x3067, 0x304D, 0x307E, 0x305B, 0x3093, 0x3067, 0x3057, 0x305F,
       0x3002]]],
     Message [(None, 5)] False [A ''New key generation failed.''] [[U [0x65B0, 0x3057, 0x3044, 0x30AD, 0x30FC,
       0x306E, 0x751F, 0x6210, 0x306B, 0x5931, 0x6557, 0x3057, 0x307E, 0x3057, 0x305F, 0x3002]]]]"

definition ja_GUIUtil_HelpMessageBox :: "ts_message list" where
  "ja_GUIUtil_HelpMessageBox = [
     Message [(Some ''../guiutil.cpp'', 420), (None, 12)] False [A ''MotaCoin-Qt''] [[U [0x30D6, 0x30E9, 0x30C3,
       0x30AF, 0x30B3, 0x30A4, 0x30F3], A ''QT'']],
     Message [(None, -12)] False [A ''version''] [[U [0x30D0, 0x30FC, 0x30B8, 0x30E7, 0x30F3]]],
     Message [(None, 2)] False [A ''Usage:''] [[U [0x4F7F, 0x7528, 0x6CD5]]],
     Message [(None, 1)] False [A ''command-line options''] [[U [0x30B3, 0x30DE, 0x30F3, 0x30C9, 0x30E9, 0x30A4,
       0x30F3, 0x306E, 0x30AA, 0x30D7, 0x30B7, 0x30E7, 0x30F3]]],
     Message [(None, 4)] False [A ''UI options''] [[A ''UI'', U [0x306E, 0x30AA, 0x30D7, 0x30B7, 0x30E7, 0x30F3]]],
     Message [(None, 1)] False [A ''Set language, for example '', U [0x22], A ''de_DE'', U [0x22], A
       '' (default: system locale)''] [[U [0x8A00, 0x8A9E, 0x306E, 0x8A2D, 0x5B9A, 0x3001, 0x4F8B], A '': '', U
       [0x22], A ''de_DE'', U [0x22], A '' ('', U [0x30C7, 0x30D5, 0x30A9, 0x30EB, 0x30C8], A '':'', U [0x30B7,
       0x30B9, 0x30C6, 0x30E0, 0x306E, 0x30ED, 0x30B1, 0x30FC, 0x30EB], A '')'']],
     Message [(None, 1)] False [A ''Start minimized''] [[U [0x6700, 0x5C0F, 0x5316, 0x3067, 0x30B9, 0x30BF, 0x30FC,
       0x30C8]]],
     Message [(None, 1)] False [A ''Show splash screen on startup (default: 1)''] [[U [0x30B9, 0x30BF, 0x30FC,
       0x30C8, 0x3067, 0x30B9, 0x30D7, 0x30E9, 0x30C3, 0x30B7, 0x30E5, 0x30B9, 0x30AF, 0x30EA, 0x30FC, 0x30F3,
       0x3092, 0x8868, 0x793A], A ''('', U [0x30C7, 0x30D5, 0x30A9, 0x30EB, 0x30C8], A '':'', U [0xFF11], A '')'']]]"

definition ja_OptionsDialog_1 :: "ts_message list" where
  "ja_OptionsDialog_1 = [
     Message [(Some ''../forms/optionsdialog.ui'', 14)] False [A ''Options''] [[U [0x8A2D, 0x5B9A]]],
     Message [(None, 16)] False [A ''&Main''] [[U [0x30E1, 0x30A4, 0x30F3], A '' (&M)'']],
     Message [(None, 6)] False [A
       ''Optional transaction fee per kB that helps make sure your transactions are processed quickly. Most transactions are 1 kB. Fee 0.01 recommended.''
       ] [[U [0x624B, 0x7D9A, 0x304D, 0x3092, 0x65E9, 0x3081, 0x308B, 0x305F, 0x3081, 0x306E, 0x30AA, 0x30D7, 0x30B7,
       0x30E7, 0x30CA, 0x30EB, 0x6599, 0x91D1, 0x3002, 0x3060, 0x3044, 0x305F, 0x3044, 0x306E, 0x51E6, 0x7406,
       0x306F], A ''1KB'', U [0x3002, 0x6599, 0x91D1, 0x306E], A ''0.01'', U [0x304C, 0x52E7, 0x3081, 0x3067, 0x3059,
       0x3002]]],
     Message [(None, 15)] False [A ''Pay transaction &fee''] [[U [0x652F, 0x6255, 0x3046, 0x53D6, 0x5F15, 0x624B,
       0x6570, 0x6599], A '' (&f)'']],
     Message [(None, 31)] False [A
       ''Reserved amount does not participate in staking and is therefore spendable at any time.''] [[U [0x8CAF,
       0x91D1, 0x306F, 0x8CED, 0x3051, 0x308B, 0x53C2, 0x52A0, 0x3057, 0x306A, 0x3044, 0x305F, 0x3081, 0x3001,
       0x3044, 0x3064, 0x3067, 0x3082, 0x652F, 0x51FA, 0x3067, 0x304D, 0x308B, 0x3002]]],
     Message [(None, 15)] False [A ''Reserve''] [[U [0x8CAF, 0x91D1]]],
     Message [(None, 31)] False [A ''Automatically start MotaCoin after logging in to the system.''] [[U [0x30B7,
       0x30B9, 0x30C6, 0x30E0, 0x306E, 0x30ED, 0x30B0, 0x30A4, 0x30F3, 0x6B21, 0x7B2C, 0x3001, 0x81EA, 0x52D5,
       0x7684, 0x306B, 0x30D6, 0x30E9, 0x30C3, 0x30AF, 0x30B3, 0x30A4, 0x30F3, 0x3092, 0x30B9, 0x30BF, 0x30FC,
       0x30C8, 0x3002]]],
     Message [(None, 3)] False [A ''&Start MotaCoin on system login''] [[U [0x30B7, 0x30B9, 0x30C6, 0x30E0, 0x30ED,
       0x30B0, 0x30A4, 0x30F3, 0x6B21, 0x7B2C, 0x3001, 0x30D6, 0x30E9, 0x30C3, 0x30AF, 0x30B3, 0x30A4, 0x30F3,
       0x3092, 0x30B9, 0x30BF, 0x30FC, 0x30C8]]],
     Message [(None, 7)] False [A
       ''Detach block and address databases at shutdown. This means they can be moved to another data directory, but it slows down shutdown. The wallet is always detached.''
       ] [[U [0x30B7, 0x30E3, 0x30C3, 0x30C8, 0x30C0, 0x30A6, 0x30F3, 0x3059, 0x308B, 0x3068, 0x304D, 0x3001, 0x30D6,
       0x30ED, 0x30C3, 0x30AF, 0x3068, 0x30A2, 0x30C9, 0x30EC, 0x30B9, 0x306E, 0x30C7, 0x30FC, 0x30BF, 0x30D9,
       0x30FC, 0x30B9, 0x3092, 0x5207, 0x308A, 0x96E2, 0x3059, 0x3002, 0x3059, 0x308B, 0x3068, 0x3001, 0x5225,
       0x306E, 0x30C7, 0x30A3, 0x30EC, 0x30AF, 0x30C8, 0x30EA, 0x3078, 0x79FB, 0x52D5, 0x3067, 0x304D, 0x307E,
       0x3059, 0x304C, 0x3001, 0x30B7, 0x30E3, 0x30C3, 0x30C8, 0x30C0, 0x30A6, 0x30F3, 0x306F, 0x5C11, 0x3057,
       0x9045, 0x308C, 0x307E, 0x3059, 0x3002, 0x30A6, 0x30A9, 0x30EC, 0x30C3, 0x30C8, 0x306F, 0x3044, 0x3064,
       0x3082, 0x5207, 0x308A, 0x96E2, 0x3057, 0x307E, 0x3059, 0x3002]]],
     Message [(None, 3)] False [A ''&Detach databases at shutdown''] [[U [0x30B7, 0x30E3, 0x30C3, 0x30C8, 0x30C0,
       0x30A6, 0x30F3, 0x3059, 0x308B, 0x3068, 0x304D, 0x3001, 0x30C7, 0x30FC, 0x30BF, 0x30D9, 0x30FC, 0x30B9,
       0x3092, 0x5207, 0x308A, 0x96E2, 0x3059]]],
     Message [(None, 21)] False [A ''&Network''] [[U [0x30CD, 0x30C3, 0x30C8, 0x30EF, 0x30FC, 0x30AF], A '' (&N)'']],
     Message [(None, 6)] False [A
       ''Automatically open the MotaCoin client port on the router. This only works when your router supports UPnP and it is enabled.''
       ] [[U [0x81EA, 0x52D5, 0x7684, 0x306B, 0x30EB, 0x30FC, 0x30BF, 0x30FC, 0x3067, 0x30D6, 0x30E9, 0x30C3, 0x30AF,
       0x30B3, 0x30A4, 0x30F3, 0x30AF, 0x30E9, 0x30A4, 0x30A8, 0x30F3, 0x30C8, 0x30BD, 0x30D5, 0x30C8, 0x30A6,
       0x30A7, 0x30A2, 0x306E, 0x30DD, 0x30FC, 0x30C8, 0x3092, 0x958B, 0x304F, 0x3002, 0x30EB, 0x30FC, 0x30BF,
       0x30FC, 0x306F], A ''UPnP'', U [0x306E, 0x30B5, 0x30DD, 0x30FC, 0x30C8, 0x3042, 0x308A, 0x3001], A ''UPnP'', U
       [0x3092, 0x6709, 0x52B9, 0x306B, 0x3059, 0x308B, 0x306A, 0x3089, 0x3067, 0x304D, 0x308B, 0x3002]]],
     Message [(None, 3)] False [A ''Map port using &UPnP''] [[A ''UPnP '', U [0x3092, 0x4F7F, 0x3063, 0x3066, 0x30DD,
       0x30FC, 0x30C8, 0x3092, 0x5272, 0x308A, 0x5F53, 0x3066, 0x308B], A '' (&U)'']],
     Message [(None, 7)] False [A
       ''Connect to the MotaCoin network through a SOCKS proxy (e.g. when connecting through Tor).''] [[U [0x30D6,
       0x30E9, 0x30C3, 0x30AF, 0x30B3, 0x30A4, 0x30F3, 0x306E, 0x30CD, 0x30C3, 0x30C8, 0x30EF, 0x30FC, 0x30AF,
       0x3078], A ''SOCKS'', U [0x30D7, 0x30ED, 0x30AD, 0x30B7, 0x3067, 0x63A5, 0x7D9A, 0x3059, 0x308B, 0xFF08,
       0x4F8B, 0xFF1A], A ''TOR'', U [0x3067, 0x63A5, 0x7D9A, 0x3059, 0x308B, 0x3070, 0x3044, 0xFF09]]],
     Message [(None, 3)] False [A ''&Connect through SOCKS proxy:''] [[A ''SOCKS'', U [0x30D7, 0x30ED, 0x30AD,
       0x30B7, 0x3067, 0x63A5, 0x7D9A, 0x3059, 0x308B]]],
     Message [(None, 9)] False [A ''Proxy &IP:''] [[U [0x30D7, 0x30ED, 0x30AD, 0x30B7, 0x306E], A '' IP (&I) :'']],
     Message [(None, 19)] False [A ''IP address of the proxy (e.g. 127.0.0.1)''] [[U [0x30D7, 0x30ED, 0x30AD, 0x30B7,
       0x306E], A ''IP'', U [0x30A2, 0x30C9, 0x30EC, 0x30B9], A '' '', U [0xFF08, 0x4F8B, 0xFF1A], A ''127.0.0.1'', U
       [0xFF09]]],
     Message [(None, 7)] False [A ''&Port:''] [[U [0x30DD, 0x30FC, 0x30C8], A '' (&P) :'']],
     Message [(None, 19)] False [A ''Port of the proxy (e.g. 9050)''] [[U [0x30D7, 0x30ED, 0x30AD, 0x30B7, 0x306E,
       0x30DD, 0x30FC, 0x30C8, 0x756A, 0x53F7], A '' ('', U [0x4F8B], A '' 9050)'']],
     Message [(None, 7)] False [A ''SOCKS &Version:''] [[A ''SOCKS '', U [0x30D0, 0x30FC, 0x30B8, 0x30E7, 0x30F3], A
       '' (&V) :'']],
     Message [(None, 13)] False [A ''SOCKS version of the proxy (e.g. 5)''] [[A ''SOCKS '', U [0x30D7, 0x30ED,
       0x30AD, 0x30B7, 0x306E, 0x30D0, 0x30FC, 0x30B8, 0x30E7, 0x30F3], A '' ('', U [0x4F8B], A '' 5)'']],
     Message [(None, 36)] False [A ''&Window''] [[U [0x30A6, 0x30A4, 0x30F3, 0x30C9, 0x30A6], A '' (&W)'']],
     Message [(None, 6)] False [A ''Show only a tray icon after minimizing the window.''] [[U [0x30A6, 0x30A4,
       0x30F3, 0x30C9, 0x30A6, 0x3092, 0x6700, 0x5C0F, 0x5316, 0x3057, 0x305F, 0x3042, 0x3068, 0x30C8, 0x30EC,
       0x30A4], A '' '', U [0x30A2, 0x30A4, 0x30B3, 0x30F3, 0x3060, 0x3051, 0x3092, 0x8868, 0x793A, 0x3059, 0x308B,
       0x3002]]],
     Message [(None, 3)] False [A ''&Minimize to the tray instead of the taskbar''] [[U [0x30BF, 0x30B9, 0x30AF,
       0x30D0, 0x30FC, 0x306E, 0x4EE3, 0x308F, 0x308A, 0x306B, 0x30C8, 0x30EC, 0x30A4, 0x306B, 0x6700, 0x5C0F,
       0x5316], A '' (&M)'']],
     Message [(None, 7)] False [A
       ''Minimize instead of exit the application when the window is closed. When this option is enabled, the application will be closed only after selecting Quit in the menu.''
       ] [[U [0x30A6, 0x30A4, 0x30F3, 0x30C9, 0x30A6, 0x304C, 0x9589, 0x3058, 0x3089, 0x308C, 0x308B, 0x6642, 0x30A2,
       0x30D7, 0x30EA, 0x30B1, 0x30FC, 0x30B7, 0x30E7, 0x30F3, 0x3092, 0x7D42, 0x4E86, 0x305B, 0x305A, 0x306B,
       0x6700, 0x5C0F, 0x5316, 0x3057, 0x307E, 0x3059, 0x3002, 0x3053, 0x306E, 0x30AA, 0x30D7, 0x30B7, 0x30E7,
       0x30F3, 0x304C, 0x6709, 0x52B9, 0x306A, 0x6642, 0x306B, 0x30A2, 0x30D7, 0x30EA, 0x30B1, 0x30FC, 0x30B7,
       0x30E7, 0x30F3, 0x3092, 0x7D42, 0x4E86, 0x3059, 0x308B, 0x306B, 0x306F, 0x30E1, 0x30CB, 0x30E5, 0x30FC,
       0x304B, 0x3089, 0x7D42, 0x4E86, 0x3092, 0x9078, 0x629E, 0x3057, 0x307E, 0x3059, 0x3002]]],
     Message [(None, 3)] False [A ''M&inimize on close''] [[U [0x9589, 0x3058, 0x308B, 0x6642, 0x306B, 0x6700,
       0x5C0F, 0x5316], A '' (&i)'']],
     Message [(None, 21)] False [A ''&Display''] [[U [0x8868, 0x793A], A '' (&D)'']],
     Message [(None, 8)] False [A ''User Interface &language:''] [[U [0x30E6, 0x30FC, 0x30B6, 0x30A4, 0x30F3, 0x30BF,
       0x30FC, 0x30D5, 0x30A7, 0x30FC, 0x30B9, 0x306E, 0x8A00, 0x8A9E], A '' (&l) :'']],
     Message [(None, 13)] False [A
       ''The user interface language can be set here. This setting will take effect after restarting MotaCoin.''] [[U
       [0x30E6, 0x30FC, 0x30B6, 0x306E, 0x30A4, 0x30F3, 0x30BF, 0x30FC, 0x30D5, 0x30A7, 0x30FC, 0x30B9, 0x306E,
       0x8A00, 0x8A9E, 0x306E, 0x8A2D, 0x5B9A, 0x3067, 0x3059, 0x3002, 0x30EA, 0x30B9, 0x30BF, 0x30FC, 0x30C8,
       0x306E, 0x5F8C, 0x3001, 0x6709, 0x52B9, 0x3057, 0x307E, 0x3059, 0x3002]]]]"

definition ja_OptionsDialog_2 :: "ts_message list" where
  "ja_OptionsDialog_2 = [
     Message [(None, 11)] False [A ''&Unit to show amounts in:''] [[U [0x984D, 0x3092, 0x8868, 0x793A, 0x3059,
       0x308B, 0x5358, 0x4F4D], A '' (&U) :'']],
     Message [(None, 13)] False [A
       ''Choose the default subdivision unit to show in the interface and when sending coins.''] [[U [0x30A4, 0x30F3,
       0x30BF, 0x30FC, 0x30D5, 0x30A7, 0x30FC, 0x30B9, 0x4E0A, 0x306E, 0x8868, 0x793A, 0x3068, 0x30B3, 0x30A4,
       0x30F3, 0x306E, 0x9001, 0x4FE1, 0x3067, 0x4F7F, 0x7528, 0x3059, 0x308B, 0x5358, 0x4F4D, 0x3092, 0x9078,
       0x629E, 0x3057, 0x307E, 0x3059, 0x3002]]],
     Message [(None, 9)] False [A ''Whether to show MotaCoin addresses in the transaction list or not.''] [[U
       [0x51E6, 0x7406, 0x306E, 0x6B74, 0x53F2, 0x3067, 0x30D6, 0x30E9, 0x30C3, 0x30AF, 0x30B3, 0x30A4, 0x30F3,
       0x306E, 0x30A2, 0x30C9, 0x30EC, 0x30B9, 0x3092, 0x8868, 0x793A, 0x3059, 0x308B, 0xFF0F, 0x3057, 0x306A,
       0x3044, 0x3002]]],
     Message [(None, 3)] False [A ''&Display addresses in transaction list''] [[U [0x51E6, 0x7406, 0x306E, 0x5C65,
       0x6B74, 0x306B, 0x30A2, 0x30C9, 0x30EC, 0x30B9, 0x3092, 0x8868, 0x793A], A '' (&D)'']],
     Message [(None, 7)] False [A ''Whether to show coin control features or not.''] [[U [0x30B3, 0x30A4, 0x30F3,
       0x30B3, 0x30F3, 0x30C8, 0x30ED, 0x30FC, 0x30EB, 0x3092, 0x8868, 0x793A, 0x3059, 0x308B, 0xFF0F, 0x3057,
       0x306A, 0x3044, 0x3002]]],
     Message [(None, 3)] False [A ''Display coin &control features (experts only!)''] [[U [0x30B3, 0x30A4, 0x30F3,
       0x30B3, 0x30F3, 0x30C8, 0x30ED, 0x30FC, 0x30EB, 0x306E, 0x8A2D, 0x5B9A, 0x3092, 0x8868, 0x793A, 0x3059,
       0x308B], A ''('', U [0x6709, 0x8B58, 0x8005, 0x306E, 0x307F, 0xFF01], A '')'']],
     Message [(None, 71)] False [A ''&OK''] [[A ''&OK'']],
     Message [(None, 7)] False [A ''&Cancel''] [[U [0x30AD, 0x30E3, 0x30F3, 0x30BB, 0x30EB], A '' (&C)'']],
     Message [(None, 10)] False [A ''&Apply''] [[U [0x9069, 0x7528, 0x3059, 0x308B]]],
     Message [(Some ''../optionsdialog.cpp'', 55)] False [A ''default''] [[U [0x521D, 0x671F, 0x5024]]],
     Message [(None, 149), (None, 9)] False [A ''Warning''] [[U [0x8B66, 0x544A]]],
     Message [(None, -9), (None, 9)] False [A ''This setting will take effect after restarting MotaCoin.''] [[U
       [0x3053, 0x306E, 0x8A2D, 0x5B9A, 0x306F, 0x30D6, 0x30E9, 0x30C3, 0x30AF, 0x30B3, 0x30A4, 0x30F3, 0x3092,
       0x30EA, 0x30B9, 0x30BF, 0x30FC, 0x30C8, 0x3057, 0x305F, 0x5F8C, 0x306B, 0x6709, 0x52B9, 0x3059, 0x308B,
       0x3002]]],
     Message [(None, 29)] False [A ''The supplied proxy address is invalid.''] [[U [0x30D7, 0x30ED, 0x30AD, 0x30B7,
       0x30A2, 0x30C9, 0x30EC, 0x30B9, 0x304C, 0x7121, 0x52B9, 0x3067, 0x3059, 0x3002]]]]"

definition ja_OverviewPage :: "ts_message list" where
  "ja_OverviewPage = [
     Message [(Some ''../forms/overviewpage.ui'', 14)] False [A ''Form''] [[U [0x30D5, 0x30A9, 0x30FC, 0x30E0]]],
     Message [(None, 33), (None, 231)] False [A
       ''The displayed information may be out of date. Your wallet automatically synchronizes with the MotaCoin network after a connection is established, but this process has not completed yet.''
       ] [[U [0x8868, 0x793A, 0x3055, 0x308C, 0x3066, 0x3044, 0x308B, 0x60C5, 0x5831, 0x306F, 0x6642, 0x9593, 0x9045,
       0x308C, 0x3066, 0x3044, 0x308B, 0x3002, 0x63A5, 0x7D9A, 0x3057, 0x305F, 0x3089, 0x3001, 0x30A6, 0x30A9,
       0x30EC, 0x30C3, 0x30C8, 0x306F, 0x81EA, 0x52D5, 0x7684, 0x306B, 0x30D6, 0x30E9, 0x30C3, 0x30AF, 0x30B3,
       0x30A4, 0x30F3, 0x30CD, 0x30C3, 0x30C8, 0x30EF, 0x30FC, 0x30AF, 0x3068, 0x540C, 0x671F, 0x3057, 0x307E,
       0x3059, 0x304C, 0x904E, 0x7A0B, 0x306F, 0x5B8C, 0x4E86, 0x3057, 0x3066, 0x307E, 0x305B, 0x3093, 0x3002]]],
     Message [(None, -160)] False [A ''Stake:''] [[U [0x8CED, 0x3051, 0x91D1, 0xFF1A]]],
     Message [(None, 29)] False [A ''Unconfirmed:''] [[U [0x672A, 0x691C, 0x8A3C, 0xFF1A]]],
     Message [(None, -107)] False [A ''Wallet''] [[U [0x30A6, 0x30A9, 0x30EC, 0x30C3, 0x30C8]]],
     Message [(None, 49)] False [A ''Spendable:''] [[U [0x652F, 0x51FA, 0x53EF, 0x80FD, 0xFF1A]]],
     Message [(None, 16)] False [A ''Your current spendable balance''] [[U [0x3042, 0x306A, 0x305F, 0x306E, 0x5229,
       0x7528, 0x53EF, 0x80FD, 0x6B8B, 0x9AD8]]],
     Message [(None, 71)] False [A ''Immature:''] [[U [0x672A, 0x5B8C, 0x6210], A '':'']],
     Message [(None, 13)] False [A ''Mined balance that has not yet matured''] [[U [0x5B8C, 0x6210, 0x3057, 0x3066,
       0x3044, 0x306A, 0x3044, 0x63A1, 0x6398, 0x3055, 0x308C, 0x305F, 0x6B8B, 0x9AD8]]],
     Message [(None, 20)] False [A ''Total:''] [[U [0x5408, 0x8A08], A '':'']],
     Message [(None, 16)] False [A ''Your current total balance''] [[U [0x3042, 0x306A, 0x305F, 0x306E, 0x73FE,
       0x5728, 0x306E, 0x6B8B, 0x9AD8]]],
     Message [(None, 46)] False [A ''<b>Recent transactions</b>''] [[A ''<b>'', U [0x6700, 0x8FD1, 0x306E, 0x51E6,
       0x7406], A ''</b>'']],
     Message [(None, -108)] False [A
       ''Total of transactions that have yet to be confirmed, and do not yet count toward the current balance''] [[U
       [0x672A, 0x78BA, 0x8A8D, 0x306E, 0x5408, 0x8A08, 0x3067, 0x3001, 0x307E, 0x3060, 0x73FE, 0x5728, 0x306E,
       0x6B8B, 0x9AD8, 0x306B, 0x542B, 0x307E, 0x308C, 0x3066, 0x3044, 0x306A, 0x3044, 0x3002]]],
     Message [(None, -29)] False [A
       ''Total of coins that was staked, and do not yet count toward the current balance''] [[U [0x8CED, 0x3051,
       0x3066, 0x3044, 0x308B, 0x30B3, 0x30A4, 0x30F3, 0x306E, 0x5408, 0x8A08, 0x3067, 0x3001, 0x307E, 0x3060,
       0x73FE, 0x5728, 0x306E, 0x6B8B, 0x9AD8, 0x306B, 0x542B, 0x307E, 0x308C, 0x3066, 0x3044, 0x306A, 0x3044,
       0x3002]]],
     Message [(Some ''../overviewpage.cpp'', 113), (None, 1)] False [A ''out of sync''] [[U [0x540C, 0x671F, 0x3057,
       0x3066, 0x3044, 0x306A, 0x3044]]]]"

definition ja_QRCodeDialog :: "ts_message list" where
  "ja_QRCodeDialog = [
     Message [(Some ''../forms/qrcodedialog.ui'', 14)] False [A ''QR Code Dialog''] [[A ''QR'', U [0x30B3, 0x30FC,
       0x30C9, 0x306E, 0x30C0, 0x30A4, 0x30A2, 0x30ED, 0x30B0]]],
     Message [(None, 59)] False [A ''Request Payment''] [[U [0x652F, 0x6255, 0x3044, 0x3092, 0x8981, 0x8ACB, 0x3059,
       0x308B]]],
     Message [(None, 56)] False [A ''Amount:''] [[U [0x7DCF, 0x984D], A '':'']],
     Message [(None, -44)] False [A ''Label:''] [[U [0x30EC, 0x30D9, 0x30EB]]],
     Message [(None, 19)] False [A ''Message:''] [[U [0x30E1, 0x30C3, 0x30BB, 0x30FC, 0x30B8], A '':'']],
     Message [(None, 71)] False [A ''&Save As...''] [[A ''&S'', U [0x540D, 0x524D, 0x3092, 0x4ED8, 0x3051, 0x3066,
       0x4FDD, 0x5B58], A ''...'']],
     Message [(Some ''../qrcodedialog.cpp'', 62)] False [A ''Error encoding URI into QR Code.''] [[A ''URI'', U
       [0x304B, 0x3089], A ''QR'', U [0x30B3, 0x30FC, 0x30C9, 0x306B, 0x30A8, 0x30F3, 0x30B3, 0x30FC, 0x30C9, 0x3059,
       0x308B, 0x30A8, 0x30E9, 0x30FC, 0x3002]]],
     Message [(None, 40)] False [A ''The entered amount is invalid, please check.''] [[U [0x5165, 0x529B, 0x3055,
       0x308C, 0x305F, 0x984D, 0x306F, 0x7121, 0x52B9, 0x3067, 0x3059, 0x3002, 0x78BA, 0x8A8D, 0x3057, 0x3066,
       0x304F, 0x3060, 0x3055, 0x3044, 0x3002]]],
     Message [(None, 23)] False [A ''Resulting URI too long, try to reduce the text for label / message.''] [[A
       ''URI'', U [0x306F, 0x9577, 0x904E, 0x304E, 0x3066, 0x3001, 0x30E9, 0x30D9, 0x30EB, 0x6587, 0x5B57, 0x306E,
       0x9577, 0x3055, 0x3092, 0x77ED, 0x304F, 0x3057, 0x3066, 0x304F, 0x3060, 0x3055, 0x3044, 0x3002]]],
     Message [(None, 25)] False [A ''Save QR Code''] [[A ''QR'', U [0x30B3, 0x30FC, 0x30C9, 0x3092, 0x4FDD, 0x5B58]]],
     Message [(None, 0)] False [A ''PNG Images (*.png)''] [[A ''PNG '', U [0x30A4, 0x30E1, 0x30FC, 0x30B8], A
       '' (*.png)'']]]"

definition ja_RPCConsole :: "ts_message list" where
  "ja_RPCConsole = [
     Message [(Some ''../forms/rpcconsole.ui'', 46)] False [A ''Client name''] [[U [0x30AF, 0x30E9, 0x30A4, 0x30A2,
       0x30F3, 0x30C8, 0x540D]]],
     Message [(None, 10), (None, 23), (None, 26), (None, 23), (None, 23), (None, 36), (None, 53), (None, 23), (None,
       23), (Some ''../rpcconsole.cpp'', 348)] False [A ''N/A''] [[A ''N/A'']],
     Message [(None, -217)] False [A ''Client version''] [[U [0x30AF, 0x30E9, 0x30A4, 0x30A2, 0x30F3, 0x30C8, 0x306E,
       0x30D0, 0x30FC, 0x30B8, 0x30E7, 0x30F3]]],
     Message [(None, -45)] False [A ''&Information''] [[U [0x60C5, 0x5831], A '' (&I)'']],
     Message [(None, 68)] False [A ''Using OpenSSL version''] [[U [0x4F7F, 0x7528, 0x4E2D, 0x306E], A '' OpenSSL '',
       U [0x306E, 0x30D0, 0x30FC, 0x30B8, 0x30E7, 0x30F3]]],
     Message [(None, 49)] False [A ''Startup time''] [[U [0x8D77, 0x52D5, 0x3057, 0x305F, 0x65E5, 0x6642]]],
     Message [(None, 29)] False [A ''Network''] [[U [0x30CD, 0x30C3, 0x30C8, 0x30EF, 0x30FC, 0x30AF]]],
     Message [(None, 7)] False [A ''Number of connections''] [[U [0x63A5, 0x7D9A, 0x6570]]],
     Message [(None, 23)] False [A ''On testnet''] [[A ''testnet'', U [0x3067]]],
     Message [(None, 23)] False [A ''Block chain''] [[U [0x30D6, 0x30ED, 0x30C3, 0x30AF], A '' '', U [0x30C1, 0x30A7,
       0x30FC, 0x30F3]]],
     Message [(None, 7)] False [A ''Current number of blocks''] [[U [0x73FE, 0x5728, 0x306E, 0x30D6, 0x30ED, 0x30C3,
       0x30AF, 0x6570]]],
     Message [(None, 23)] False [A ''Estimated total blocks''] [[U [0x63A8, 0x5B9A, 0x7DCF, 0x30D6, 0x30ED, 0x30C3,
       0x30AF, 0x6570]]],
     Message [(None, 23)] False [A ''Last block time''] [[U [0x6700, 0x7D42, 0x30D6, 0x30ED, 0x30C3, 0x30AF, 0x306E,
       0x65E5, 0x6642]]],
     Message [(None, 52)] False [A ''&Open''] [[U [0x958B, 0x304F], A '' (&O)'']],
     Message [(None, 16)] False [A ''Command-line options''] [[U [0x30B3, 0x30DE, 0x30F3, 0x30C9, 0x30E9, 0x30A4,
       0x30F3, 0x306E, 0x30AA, 0x30D7, 0x30B7, 0x30E7, 0x30F3]]],
     Message [(None, 7)] False [A
       ''Show the MotaCoin-Qt help message to get a list with possible MotaCoin command-line options.''] [[U [0x30D6,
       0x30E9, 0x30C3, 0x30AF, 0x30B3, 0x30A4, 0x30F3], A ''QT'', U [0x306E, 0x30B3, 0x30DE, 0x30F3, 0x30C9, 0x30E9,
       0x30A4, 0x30F3, 0x306E, 0x30D8, 0x30EB, 0x30D7, 0x60C5, 0x5831, 0x3092, 0x8868, 0x793A, 0x3059, 0x308B,
       0x3002]]],
     Message [(None, 3)] False [A ''&Show''] [[A ''(&S)'', U [0x8868, 0x793A]]],
     Message [(None, 24)] False [A ''&Console''] [[U [0x30B3, 0x30F3, 0x30BD, 0x30FC, 0x30EB], A '' (&C)'']],
     Message [(None, -260)] False [A ''Build date''] [[U [0x30D3, 0x30EB, 0x30C9, 0x306E, 0x65E5, 0x4ED8]]],
     Message [(None, -104)] False [A ''MotaCoin - Debug window''] [[U [0x30D6, 0x30E9, 0x30C3, 0x30AF, 0x30B3,
       0x30A4, 0x30F3, 0xFF1A, 0x30C7, 0x30D0, 0x30C3, 0x30B0, 0x30A6, 0x30A4, 0x30F3, 0x30C9, 0x30A6]]],
     Message [(None, 25)] False [A ''MotaCoin Core''] [[U [0x30D6, 0x30E9, 0x30C3, 0x30AF, 0x30B3, 0x30A4, 0x30F3,
       0x30B3, 0x30A2]]],
     Message [(None, 279)] False [A ''Debug log file''] [[U [0x30C7, 0x30D0, 0x30C3, 0x30B0, 0x7528, 0x30ED, 0x30B0,
       0x30D5, 0x30A1, 0x30A4, 0x30EB]]],
     Message [(None, 7)] False [A
       ''Open the MotaCoin debug log file from the current data directory. This can take a few seconds for large log files.''
       ] [[U [0x73FE, 0x884C, 0x306E, 0x30C7, 0x30A3, 0x30EC, 0x30AF, 0x30C8, 0x30EA, 0x304B, 0x3089, 0x30C7, 0x30D0,
       0x30C3, 0x30B0, 0x30ED, 0x30B0, 0x30D5, 0x30A1, 0x30A4, 0x30EB, 0x3092, 0x958B, 0x304F, 0x3002, 0x5927,
       0x304D, 0x306A, 0x30D5, 0x30A1, 0x30A4, 0x30EB, 0x306E, 0x3070, 0x3044, 0x3001, 0x5C11, 0x3057, 0x6642,
       0x9593, 0x304B, 0x304B, 0x308B, 0x3002]]],
     Message [(None, 102)] False [A ''Clear console''] [[U [0x30B3, 0x30F3, 0x30BD, 0x30FC, 0x30EB, 0x3092, 0x30AF,
       0x30EA, 0x30A2]]],
     Message [(Some ''../rpcconsole.cpp'', -33)] False [A ''Welcome to the MotaCoin RPC console.''] [[U [0x30D6,
       0x30E9, 0x30C3, 0x30AF, 0x30B3, 0x30A4, 0x30F3], A ''RPC'', U [0x30B3, 0x30F3, 0x30BD, 0x30FC, 0x30EB, 0x3078,
       0x3088, 0x3046, 0x3053, 0x305D, 0x3002]]],
     Message [(None, 1)] False [A ''Use up and down arrows to navigate history, and <b>Ctrl-L</b> to clear screen.'']
       [[U [0x4E0A, 0x4E0B, 0x306E, 0x77E2, 0x5370, 0x3067, 0x5C65, 0x6B74, 0x3092, 0x305F, 0x3069, 0x308C, 0x307E,
       0x3059, 0x3002], A '' <b>Ctrl-L</b> '', U [0x3067, 0x30B9, 0x30AF, 0x30EA, 0x30FC, 0x30F3, 0x3092, 0x6D88,
       0x53BB, 0x3067, 0x304D, 0x307E, 0x3059, 0x3002]]],
     Message [(None, 1)] False [A ''Type <b>help</b> for an overview of available commands.''] [[U [0x4F7F, 0x7528,
       0x53EF, 0x80FD, 0x306A, 0x30B3, 0x30DE, 0x30F3, 0x30C9, 0x3092, 0x898B, 0x308B, 0x306B, 0x306F], A
       '' <b>help</b> '', U [0x3068, 0x5165, 0x529B, 0x3057, 0x307E, 0x3059, 0x3002]]]]"

definition ja_SendCoinsDialog_1 :: "ts_message list" where
  "ja_SendCoinsDialog_1 = [
     Message [(Some ''../forms/sendcoinsdialog.ui'', 14), (Some ''../sendcoinsdialog.cpp'', 182), (None, 5), (None,
       5), (None, 5), (None, 6), (None, 5), (None, 5)] False [A ''Send Coins''] [[U [0x30B3, 0x30A4, 0x30F3, 0x3092,
       0x9001, 0x308B]]],
     Message [(None, 76)] False [A ''Coin Control Features''] [[U [0x30B3, 0x30A4, 0x30F3, 0x306E, 0x30B3, 0x30F3,
       0x30C8, 0x30ED, 0x30FC, 0x30EB, 0x306E, 0x8A2D, 0x5B9A]]],
     Message [(None, 20)] False [A ''Inputs...''] [[U [0x5165, 0x529B], A ''...'']],
     Message [(None, 7)] False [A ''automatically selected''] [[U [0x81EA, 0x52D5, 0x7684, 0x306B, 0x9078, 0x629E]]],
     Message [(None, 19)] False [A ''Insufficient funds!''] [[U [0x8CC7, 0x91D1, 0x4E0D, 0x8DB3, 0xFF01]]],
     Message [(None, 77)] False [A ''Quantity:''] [[U [0x6570, 0x91CF, 0xFF1A]]],
     Message [(None, 22), (None, 35)] False [A ''0''] [[A ''0'']],
     Message [(None, -19)] False [A ''Bytes:''] [[U [0x30D0, 0x30A4, 0x30C8]]],
     Message [(None, 51)] False [A ''Amount:''] [[U [0x7DCF, 0x984D], A '':'']],
     Message [(None, 22), (None, 86), (None, 86), (None, 32)] False [A ''0.00 MOTA''] [[A ''123.456 MOTA '', U
       [0x7B], A ''0.00 ?'', U [0x7D]]],
     Message [(None, -191)] False [A ''Priority:''] [[U [0x512A, 0x5148], A '':'']],
     Message [(None, 19)] False [A ''medium''] [[U [0x4E2D]]],
     Message [(None, 32)] False [A ''Fee:''] [[U [0x6599, 0x91D1], A '':'']],
     Message [(None, 35)] False [A ''Low Output:''] [[U [0x30A2, 0x30A6, 0x30C8, 0x30D7, 0x30C3, 0x30C8, 0x4F4E,
       0x3044], A '':'']],
     Message [(None, 19)] False [A ''no''] [[U [0x3044, 0x3044, 0x3048]]],
     Message [(None, 32)] False [A ''After Fee:''] [[U [0x6599, 0x91D1, 0x306E, 0x5F8C]]],
     Message [(None, 35)] False [A ''Change''] [[U [0x304A, 0x91E3, 0x308A], A '':'']],
     Message [(None, 50)] False [A ''custom change address''] [[U [0x30AB, 0x30B9, 0x30BF, 0x30E0, 0x306E, 0x304A,
       0x91E3, 0x308A, 0x306E, 0x30A2, 0x30C9, 0x30EC, 0x30B9]]],
     Message [(None, 106)] False [A ''Send to multiple recipients at once''] [[U [0x4E00, 0x5EA6, 0x306B, 0x8907,
       0x6570, 0x306E, 0x4EBA, 0x306B, 0x9001, 0x308B]]],
     Message [(None, 3)] False [A ''Add &Recipient''] [[U [0x53D7, 0x53D6, 0x4EBA, 0x3092, 0x8FFD, 0x52A0], A
       '' (&R)'']],
     Message [(None, 20)] False [A ''Remove all transaction fields''] [[U [0x5168, 0x5206, 0x306E, 0x51E6, 0x7406,
       0x6B04, 0x3092, 0x524A, 0x9664, 0x3059, 0x308B]]],
     Message [(None, 3)] False [A ''Clear &All''] [[U [0x3059, 0x3079, 0x3066, 0x30AF, 0x30EA, 0x30A2], A '' (&A)'']],
     Message [(None, 28)] False [A ''Balance:''] [[U [0x6B8B, 0x9AD8], A '':'']],
     Message [(None, 16)] False [A ''123.456 MOTA''] [[A ''123.456 MOTA'']],
     Message [(None, 31)] False [A ''Confirm the send action''] [[U [0x9001, 0x308B, 0x64CD, 0x4F5C, 0x3092, 0x78BA,
       0x8A8D, 0x3059, 0x308B]]],
     Message [(None, 3)] False [A ''S&end''] [[U [0x9001, 0x308B], A '' (&e)'']],
     Message [(Some ''../sendcoinsdialog.cpp'', -173)] False [A
       ''Enter a MotaCoin address (e.g. MBDKLakRxSRw7hUB2q5DXEnDpNpLVkqGZd)''] [[U [0x30D6, 0x30E9, 0x30C3, 0x30AF,
       0x30B3, 0x30A4, 0x30F3, 0x30A2, 0x30C9, 0x30EC, 0x30B9, 0x306E, 0x5165, 0x529B], A '' ('', U [0x4F8B, 0xFF1B],
       A ''MBDKLakRxSRw7hUB2q5DXEnDpNpLVkqGZd)'']]]"

definition ja_SendCoinsDialog_2 :: "ts_message list" where
  "ja_SendCoinsDialog_2 = [
     Message [(None, 15)] False [A ''Copy quantity''] [[U [0x6570, 0x91CF, 0x3092, 0x30B3, 0x30D4, 0x30FC]]],
     Message [(None, 1)] False [A ''Copy amount''] [[U [0x7DCF, 0x984D, 0x306E, 0x30B3, 0x30D4, 0x30FC]]],
     Message [(None, 1)] False [A ''Copy fee''] [[U [0x6599, 0x91D1, 0x3092, 0x30B3, 0x30D4, 0x30FC]]],
     Message [(None, 1)] False [A ''Copy after fee''] [[U [0x6599, 0x91D1, 0x306E, 0x5F8C, 0x3092, 0x30B3, 0x30D4,
       0x30FC]]],
     Message [(None, 1)] False [A ''Copy bytes''] [[U [0x30D0, 0x30A4, 0x30C8, 0x3092, 0x30B3, 0x30D4, 0x30FC]]],
     Message [(None, 1)] False [A ''Copy priority''] [[U [0x512A, 0x5148, 0x3092, 0x30B3, 0x30D4, 0x30FC]]],
     Message [(None, 1)] False [A ''Copy low output''] [[U [0x30A2, 0x30A6, 0x30C8, 0x30D7, 0x30C3, 0x30C8, 0x4F4E,
       0x3044, 0x3092, 0x30B3, 0x30D4, 0x30FC]]],
     Message [(None, 1)] False [A ''Copy change''] [[U [0x304A, 0x91E3, 0x308A, 0x3092, 0x30B3, 0x30D4, 0x30FC]]],
     Message [(None, 86)] False [A ''<b>%1</b> to %2 (%3)''] [[A ''<b>%1</b> '', U [0x304B, 0x3089], A '' %2 (%3)'',
       U [0x306B]]],
     Message [(None, 5)] False [A ''Confirm send coins''] [[U [0x30B3, 0x30A4, 0x30F3, 0x3092, 0x9001, 0x308B,
       0x78BA, 0x8A8D]]],
     Message [(None, 1)] False [A ''Are you sure you want to send %1?''] [[A ''%1'', U [0x9001, 0x4ED8, 0x3001,
       0x3088, 0x308D, 0x3057, 0x3044, 0x3067, 0x3059, 0x304B], A ''?'']],
     Message [(None, 0)] False [A '' and ''] [[U [0x3068]]],
     Message [(None, 29)] False [A ''The recipient address is not valid, please recheck.''] [[U [0x53D7, 0x53D6,
       0x4EBA, 0x306E, 0x30A2, 0x30C9, 0x30EC, 0x30B9, 0x304C, 0x4E0D, 0x6B63, 0x3067, 0x3059, 0x3002, 0x518D,
       0x78BA, 0x8A8D, 0x3057, 0x3066, 0x304F, 0x3060, 0x3055, 0x3044, 0x3002]]],
     Message [(None, 5)] False [A ''The amount to pay must be larger than 0.''] [[U [0x652F, 0x6255, 0x984D, 0x306F],
       A ''0'', U [0x3088, 0x308A, 0x5927, 0x304D, 0x304F, 0x306A, 0x3044, 0x3068, 0x3044, 0x3051, 0x307E, 0x305B,
       0x3093, 0x3002]]],
     Message [(None, 5)] False [A ''The amount exceeds your balance.''] [[U [0x984D, 0x304C, 0x6B8B, 0x9AD8, 0x3092,
       0x8D85, 0x3048, 0x3066, 0x3044, 0x307E, 0x3059, 0x3002]]],
     Message [(None, 5)] False [A ''The total exceeds your balance when the %1 transaction fee is included.''] [[A
       ''%1 '', U [0x306E, 0x51E6, 0x7406, 0x624B, 0x6570, 0x6599, 0x3092, 0x542B, 0x3081, 0x308B, 0x3068, 0x984D,
       0x304C, 0x6B8B, 0x9AD8, 0x3092, 0x8D85, 0x3048, 0x3066, 0x3044, 0x307E, 0x3059, 0x3002]]],
     Message [(None, 6)] False [A ''Duplicate address found, can only send to each address once per send operation.''
       ] [[U [0x91CD, 0x8907, 0x3057, 0x3066, 0x3044, 0x308B, 0x30A2, 0x30C9, 0x30EC, 0x30B9, 0x304C, 0x898B, 0x3064,
       0x304B, 0x308A, 0x307E, 0x3057, 0x305F, 0x3002], A ''1'', U [0x56DE, 0x306E, 0x9001, 0x4FE1, 0x3067, 0x540C,
       0x3058, 0x30A2, 0x30C9, 0x30EC, 0x30B9, 0x306B, 0x9001, 0x308B, 0x3053, 0x3068, 0x306F, 0x51FA, 0x6765,
       0x307E, 0x305B, 0x3093, 0x3002]]],
     Message [(None, 5)] False [A ''Error: Transaction creation failed.''] [[U [0x30A8, 0x30E9, 0x30FC, 0xFF1A,
       0x51E6, 0x7406, 0x3092, 0x5931, 0x6557, 0x3057, 0x307E, 0x3057, 0x305F, 0x3002]]],
     Message [(None, 5)] False [A
       ''Error: The transaction was rejected. This might happen if some of the coins in your wallet were already spent, such as if you used a copy of wallet.dat and coins were spent in the copy but not marked as spent here.''
       ] [[U [0x30A8, 0x30E9, 0x30FC, 0xFF1A, 0x51E6, 0x7406, 0x306F, 0x62D2, 0x5426, 0x3055, 0x308C, 0x307E, 0x3057,
       0x305F, 0x3002, 0x30A6, 0x30A9, 0x30EC, 0x30C3, 0x30C8, 0x306E, 0x30B3, 0x30A4, 0x30F3, 0x3092, 0x3059,
       0x3067, 0x306B, 0x8CBB, 0x3084, 0x3057, 0x305F, 0x53EF, 0x80FD, 0x6027, 0x3067, 0x3001], A ''wallet.dat'', U
       [0x306E, 0x30B3, 0x30D4, 0x30FC, 0x3067, 0x8CBB, 0x3084, 0x3057, 0x305F, 0x304C, 0x3001, 0x73FE, 0x884C,
       0x306E], A ''wallet.dat'', U [0x3068, 0x306F, 0x30A2, 0x30C3, 0x30D7, 0x30C7, 0x30FC, 0x30C8, 0x3055, 0x308C,
       0x3066, 0x3044, 0x306A, 0x3044, 0x3002]]],
     Message [(None, 251)] False [A ''WARNING: Invalid MotaCoin address''] [[U [0x8B66, 0x544A, 0xFF1A, 0x7121,
       0x52B9, 0x306A, 0x30D6, 0x30E9, 0x30C3, 0x30AF, 0x30B3, 0x30A4, 0x30F3, 0x30A2, 0x30C9, 0x30EC, 0x30B9]]],
     Message [(None, 13)] False [A ''(no label)''] [[U [0xFF08, 0x30E9, 0x30D9, 0x30EB, 0x7121, 0x3057, 0xFF09]]],
     Message [(None, 4)] False [A ''WARNING: unknown change address''] [[U [0x8B66, 0x544A, 0xFF1A, 0x4E0D, 0x660E,
       0x306A, 0x304A, 0x91E3, 0x308A, 0x306E, 0x30A2, 0x30C9, 0x30EC, 0x30B9]]]]"

definition ja_SendCoinsEntry :: "ts_message list" where
  "ja_SendCoinsEntry = [
     Message [(Some ''../forms/sendcoinsentry.ui'', 14)] False [A ''Form''] [[U [0x30D5, 0x30A9, 0x30FC, 0x30E0]]],
     Message [(None, 15)] False [A ''A&mount:''] [[U [0x91D1, 0x984D], A ''(&A):'']],
     Message [(None, 13)] False [A ''Pay &To:''] [[U [0x9001, 0x308A, 0x5148], A ''(&T):'']],
     Message [(None, 24), (Some ''../sendcoinsentry.cpp'', 25)] False [A
       ''Enter a label for this address to add it to your address book''] [[U [0x30A2, 0x30C9, 0x30EC, 0x30B9,
       0x5E33, 0x306B, 0x8FFD, 0x52A0, 0x3059, 0x308B, 0x306B, 0x306F, 0x3001, 0x3053, 0x306E, 0x30A2, 0x30C9,
       0x30EC, 0x30B9, 0x306E, 0x30E9, 0x30D9, 0x30EB, 0x3092, 0x5165, 0x529B, 0x3057, 0x307E, 0x3059]]],
     Message [(None, 9)] False [A ''&Label:''] [[U [0x30E9, 0x30D9, 0x30EB], A ''(&L):'']],
     Message [(None, 18)] False [A ''The address to send the payment to  (e.g. MBDKLakRxSRw7hUB2q5DXEnDpNpLVkqGZd)'']
       [[U [0x652F, 0x6255, 0x3044, 0x3078, 0x9001, 0x308B, 0x30A2, 0x30C9, 0x30EC, 0x30B9], A '' ('', U [0x4F8B,
       0xFF1A], A ''MBDKLakRxSRw7hUB2q5DXEnDpNpLVkqGZd)'']],
     Message [(None, 10)] False [A ''Choose address from address book''] [[U [0x30A2, 0x30C9, 0x30EC, 0x30B9, 0x5E33,
       0x304B, 0x3089, 0x30A2, 0x30C9, 0x30EC, 0x30B9, 0x3092, 0x9078, 0x629E, 0x3059, 0x308B]]],
     Message [(None, 10)] False [A ''Alt+A''] [[A ''Alt+A'']],
     Message [(None, 7)] False [A ''Paste address from clipboard''] [[U [0x30AF, 0x30EA, 0x30C3, 0x30D7, 0x30DC,
       0x30FC, 0x30C9, 0x304B, 0x3089, 0x30A2, 0x30C9, 0x30EC, 0x30B9, 0x3092, 0x8CBC, 0x4ED8, 0x3051, 0x308B]]],
     Message [(None, 10)] False [A ''Alt+P''] [[A ''Alt+P'']],
     Message [(None, 7)] False [A ''Remove this recipient''] [[U [0x3053, 0x306E, 0x53D7, 0x4FE1, 0x8005, 0x3092,
       0x5916, 0x3059]]],
     Message [(Some ''../sendcoinsentry.cpp'', 1)] False [A
       ''Enter a MotaCoin address (e.g. MBDKLakRxSRw7hUB2q5DXEnDpNpLVkqGZd)''] [[U [0x30D6, 0x30E9, 0x30C3, 0x30AF,
       0x30B3, 0x30A4, 0x30F3, 0x30A2, 0x30C9, 0x30EC, 0x30B9, 0x306E, 0x5165, 0x529B], A '' ('', U [0x4F8B, 0xFF1B],
       A ''MBDKLakRxSRw7hUB2q5DXEnDpNpLVkqGZd)'']]]"

definition ja_SignVerifyMessageDialog_1 :: "ts_message list" where
  "ja_SignVerifyMessageDialog_1 = [
     Message [(Some ''../forms/signverifymessagedialog.ui'', 14)] False [A ''Signatures - Sign / Verify a Message'']
       [[U [0x7F72, 0x540D], A '' - '', U [0x30E1, 0x30C3, 0x30BB, 0x30FC, 0x30B8, 0x306E, 0x7F72, 0x540D], A ''/'',
       U [0x691C, 0x8A3C]]],
     Message [(None, 13), (None, 124)] False [A ''&Sign Message''] [[U [0x30E1, 0x30C3, 0x30BB, 0x30FC, 0x30B8,
       0x306E, 0x7F72, 0x540D], A '' (&S)'']],
     Message [(None, -118)] False [A
       ''You can sign messages with your addresses to prove you own them. Be careful not to sign anything vague, as phishing attacks may try to trick you into signing your identity over to them. Only sign fully-detailed statements you agree to.''
       ] [[U [0x3042, 0x306A, 0x305F, 0x81EA, 0x8EAB, 0x3092, 0x7ACB, 0x8A3C, 0x3059, 0x308B, 0x305F, 0x3081, 0x306B,
       0x3042, 0x306A, 0x305F, 0x306E, 0x30A2, 0x30C9, 0x30EC, 0x30B9, 0x3067, 0x30E1, 0x30C3, 0x30BB, 0x30FC,
       0x30B8, 0x306B, 0x7F72, 0x540D, 0x3059, 0x308B, 0x3053, 0x3068, 0x304C, 0x3067, 0x304D, 0x307E, 0x3059,
       0x3002, 0x30D5, 0x30A3, 0x30C3, 0x30B7, 0x30F3, 0x30B0, 0x653B, 0x6483, 0x306B, 0x3088, 0x3063, 0x3066,
       0x3042, 0x306A, 0x305F, 0x3092, 0x9A19, 0x3057, 0x3066, 0x7F72, 0x540D, 0x3092, 0x8B72, 0x6E21, 0x3055,
       0x305B, 0x3088, 0x3046, 0x3068, 0x3059, 0x308B, 0x304B, 0x3082, 0x3057, 0x308C, 0x306A, 0x3044, 0x306E,
       0x3067, 0x3001, 0x4E0D, 0x660E, 0x78BA, 0x306A, 0x3082, 0x306E, 0x306F, 0x7D76, 0x5BFE, 0x306B, 0x7F72,
       0x540D, 0x3057, 0x306A, 0x3044, 0x3088, 0x3046, 0x306B, 0x6CE8, 0x610F, 0x3057, 0x3066, 0x304F, 0x3060,
       0x3055, 0x3044, 0x3002, 0x3042, 0x306A, 0x305F, 0x304C, 0x540C, 0x610F, 0x3059, 0x308B, 0x5B8C, 0x5168,
       0x306B, 0x8A73, 0x7D30, 0x306A, 0x58F0, 0x660E, 0x306B, 0x3060, 0x3051, 0x7F72, 0x540D, 0x3057, 0x3066,
       0x304F, 0x3060, 0x3055, 0x3044, 0x3002]]],
     Message [(None, 18)] False [A ''The address to sign the message with (e.g. MBDKLakRxSRw7hUB2q5DXEnDpNpLVkqGZd)''
       ] [[U [0x30E1, 0x30C3, 0x30BB, 0x30FC, 0x30B8, 0x306E, 0x7F72, 0x540D, 0x3059, 0x308B, 0x30A2, 0x30C9, 0x30EC,
       0x30B9], A ''('', U [0x4F8B, 0xFF1A], A ''MBDKLakRxSRw7hUB2q5DXEnDpNpLVkqGZd)'']],
     Message [(None, 10), (None, 203)] False [A ''Choose an address from the address book''] [[U [0x30A2, 0x30C9,
       0x30EC, 0x30B9, 0x5E33, 0x304B, 0x3089, 0x30A2, 0x30C9, 0x30EC, 0x30B9, 0x3092, 0x9078, 0x3076]]],
     Message [(None, -193), (None, 203)] False [A ''Alt+A''] [[A ''Alt+A'']],
     Message [(None, -193)] False [A ''Paste address from clipboard''] [[U [0x30AF, 0x30EA, 0x30C3, 0x30D7, 0x30DC,
       0x30FC, 0x30C9, 0x304B, 0x3089, 0x30A2, 0x30C9, 0x30EC, 0x30B9, 0x3092, 0x8CBC, 0x4ED8, 0x3051, 0x308B]]],
     Message [(None, 10)] False [A ''Alt+P''] [[A ''Alt+P'']],
     Message [(None, 12)] False [A ''Enter the message you want to sign here''] [[U [0x3053, 0x3053, 0x306B, 0x3042,
       0x306A, 0x305F, 0x304C, 0x7F72, 0x540D, 0x3059, 0x308B, 0x30E1, 0x30C3, 0x30BB, 0x30FC, 0x30B8, 0x3092,
       0x5165, 0x529B, 0x3057, 0x307E, 0x3059]]],
     Message [(None, 24)] False [A ''Copy the current signature to the system clipboard''] [[U [0x73FE, 0x5728,
       0x306E, 0x7F72, 0x540D, 0x3092, 0x30B7, 0x30B9, 0x30C6, 0x30E0, 0x306E, 0x30AF, 0x30EA, 0x30C3, 0x30D7,
       0x30DC, 0x30FC, 0x30C9, 0x306B, 0x30B3, 0x30D4, 0x30FC, 0x3059, 0x308B]]],
     Message [(None, 21)] False [A ''Sign the message to prove you own this MotaCoin address''] [[U [0x6240, 0x6709,
       0x6A29, 0x306E, 0x8A3C, 0x660E, 0x3059, 0x308B, 0x305F, 0x3081, 0x3053, 0x306E, 0x30E1, 0x30B5, 0x30C3,
       0x30B8, 0x3092, 0x7F72, 0x540D, 0x3059, 0x308B]]],
     Message [(None, 17)] False [A ''Reset all sign message fields''] [[U [0x30E1, 0x30C3, 0x30BB, 0x30FC, 0x30B8,
       0x7F72, 0x540D, 0x306E, 0x5185, 0x5BB9, 0x3092, 0x3059, 0x3079, 0x3066, 0x6D88, 0x53BB, 0x3057, 0x307E,
       0x3059]]],
     Message [(None, 3), (None, 146)] False [A ''Clear &All''] [[U [0x3059, 0x3079, 0x3066, 0x30AF, 0x30EA, 0x30A2],
       A '' (&A)'']],
     Message [(None, -87), (None, 70)] False [A ''&Verify Message''] [[U [0x30E1, 0x30C3, 0x30BB, 0x30FC, 0x30B8,
       0x306E, 0x691C, 0x8A3C], A '' (&V)'']],
     Message [(None, -64)] False [A
       ''Enter the signing address, message (ensure you copy line breaks, spaces, tabs, etc. exactly) and signature below to verify the message. Be careful not to read more into the signature than what is in the signed message itself, to avoid being tricked by a man-in-the-middle attack.''
       ] [[U [0x30E1, 0x30C3, 0x30BB, 0x30FC, 0x30B8, 0x3092, 0x691C, 0x8A3C, 0x3059, 0x308B, 0x305F, 0x3081, 0x306B,
       0x3001, 0x7F72, 0x540D, 0x3059, 0x308B, 0x30A2, 0x30C9, 0x30EC, 0x30B9, 0x3068, 0x30E1, 0x30C3, 0x30BB,
       0x30FC, 0x30B8], A ''('', U [0x6539, 0x884C, 0x3001, 0x30B9, 0x30DA, 0x30FC, 0x30B9, 0x3001, 0x30BF, 0x30D6,
       0x306A, 0x3069, 0x3092, 0x6B63, 0x78BA, 0x306B, 0x30B3, 0x30D4, 0x30FC, 0x3057, 0x3066, 0x304F, 0x3060,
       0x3055, 0x3044], A '')'', U [0x3001, 0x305D, 0x3057, 0x3066, 0x7F72, 0x540D, 0x3092, 0x5165, 0x529B, 0x3057,
       0x307E, 0x3059, 0x3002, 0x4E2D, 0x9593, 0x8005, 0x653B, 0x6483, 0x306B, 0x3088, 0x3063, 0x3066, 0x3060,
       0x307E, 0x3055, 0x308C, 0x308B, 0x3053, 0x3068, 0x3092, 0x907F, 0x3051, 0x308B, 0x305F, 0x3081, 0x306B,
       0x3001, 0x7F72, 0x540D, 0x3055, 0x308C, 0x305F, 0x30E1, 0x30C3, 0x30BB, 0x30FC, 0x30B8, 0x305D, 0x306E,
       0x3082, 0x306E, 0x3088, 0x308A, 0x3082, 0x3001, 0x7F72, 0x540D, 0x3092, 0x8AAD, 0x307F, 0x53D6, 0x3089,
       0x308C, 0x306A, 0x3044, 0x3088, 0x3046, 0x306B, 0x6CE8, 0x610F, 0x3057, 0x3066, 0x304F, 0x3060, 0x3055,
       0x3044, 0x3002]]],
     Message [(None, 21)] False [A
       ''The address the message was signed with (e.g. MBDKLakRxSRw7hUB2q5DXEnDpNpLVkqGZd)''] [[U [0x30E1, 0x30C3,
       0x30BB, 0x30FC, 0x30B8, 0x306E, 0x7F72, 0x540D, 0x3059, 0x308B, 0x30A2, 0x30C9, 0x30EC, 0x30B9], A ''('', U
       [0x4F8B, 0xFF1A], A ''MBDKLakRxSRw7hUB2q5DXEnDpNpLVkqGZd)'']],
     Message [(None, 40)] False [A ''Verify the message to ensure it was signed with the specified MotaCoin address''
       ] [[U [0x53D7, 0x3051, 0x53D6, 0x3063, 0x305F, 0x30E1, 0x30C3, 0x30BB, 0x30FC, 0x30B8, 0x306E, 0x7F72, 0x540D,
       0x3092, 0x78BA, 0x4FDD, 0x306E, 0x305F, 0x3081, 0x3001, 0x30E1, 0x30C3, 0x30BB, 0x30FC, 0x30B8, 0x3092,
       0x78BA, 0x8A8D, 0x3059, 0x308B, 0x3002]]],
     Message [(None, 17)] False [A ''Reset all verify message fields''] [[U [0x5165, 0x529B, 0x9805, 0x76EE, 0x306E,
       0x5185, 0x5BB9, 0x3092, 0x3059, 0x3079, 0x3066, 0x6D88, 0x53BB, 0x3057, 0x307E, 0x3059]]],
     Message [(Some ''../signverifymessagedialog.cpp'', 27), (None, 3)] False [A
       ''Enter a MotaCoin address (e.g. MBDKLakRxSRw7hUB2q5DXEnDpNpLVkqGZd)''] [[U [0x30D6, 0x30E9, 0x30C3, 0x30AF,
       0x30B3, 0x30A4, 0x30F3, 0x306E, 0x30A2, 0x30C9, 0x30EC, 0x30B9, 0x3092, 0x5165, 0x529B], A ''('', U [0x4F8B,
       0xFF1A], A ''MBDKLakRxSRw7hUB2q5DXEnDpNpLVkqGZd)'']],
     Message [(None, -2)] False [A ''Click '', U [0x22], A ''Sign Message'', U [0x22], A '' to generate signature'']
       [[U [0x7F72, 0x540D, 0x3092, 0x4F5C, 0x6210, 0x3059, 0x308B, 0x306B, 0x306F, 0x22, 0x30E1, 0x30C3, 0x30BB,
       0x30FC, 0x30B8, 0x306E, 0x7F72, 0x540D, 0x22, 0x3092, 0x30AF, 0x30EA, 0x30C3, 0x30AF]]],
     Message [(None, 3)] False [A ''Enter MotaCoin signature''] [[U [0x30D6, 0x30E9, 0x30C3, 0x30AF, 0x30B3, 0x30A4,
       0x30F3, 0x306E, 0x30C7, 0x30B8, 0x30BF, 0x30EB, 0x7F72, 0x540D, 0x3092, 0x5165, 0x529B]]],
     Message [(None, 82), (None, 81)] False [A ''The entered address is invalid.''] [[U [0x4E0D, 0x6B63, 0x306A,
       0x30A2, 0x30C9, 0x30EC, 0x30B9, 0x304C, 0x5165, 0x529B, 0x3055, 0x308C, 0x307E, 0x3057, 0x305F, 0x3002]]],
     Message [(None, -81), (None, 8), (None, 73), (None, 8)] False [A ''Please check the address and try again.'']
       [[U [0x30A2, 0x30C9, 0x30EC, 0x30B9, 0x3092, 0x78BA, 0x304B, 0x3081, 0x3066, 0x304B, 0x3089, 0x3082, 0x3046,
       0x4E00, 0x5EA6, 0x8A66, 0x3057, 0x3066, 0x304F, 0x3060, 0x3055, 0x3044, 0x3002]]],
     Message [(None, -81), (None, 81)] False [A ''The entered address does not refer to a key.''] [[U [0x5165,
       0x529B, 0x3055, 0x308C, 0x305F, 0x30A2, 0x30C9, 0x30EC, 0x30B9, 0x306B, 0x95A2, 0x9023, 0x3059, 0x308B,
       0x30AD, 0x30FC, 0x304C, 0x3042, 0x308A, 0x307E, 0x305B, 0x3093, 0x3002]]],
     Message [(None, -73)] False [A ''Wallet unlock was cancelled.''] [[U [0x30A6, 0x30A9, 0x30EC, 0x30C3, 0x30C8,
       0x306E, 0x30A2, 0x30F3, 0x30ED, 0x30C3, 0x30AF, 0x306F, 0x30AD, 0x30E3, 0x30F3, 0x30BB, 0x30EB, 0x3055,
       0x308C, 0x307E, 0x3057, 0x305F, 0x3002]]],
     Message [(None, 8)] False [A ''Private key for the entered address is not available.''] [[U [0x5165, 0x529B,
       0x3055, 0x308C, 0x305F, 0x30A2, 0x30C9, 0x30EC, 0x30B9, 0x306E, 0x30D7, 0x30E9, 0x30A4, 0x30D9, 0x30FC,
       0x30C8], A '' '', U [0x30AD, 0x30FC, 0x304C, 0x7121, 0x52B9, 0x3067, 0x3059, 0x3002]]],
     Message [(None, 12)] False [A ''Message signing failed.''] [[U [0x30E1, 0x30C3, 0x30BB, 0x30FC, 0x30B8, 0x306E,
       0x7F72, 0x540D, 0x306B, 0x5931, 0x6557, 0x3057, 0x307E, 0x3057, 0x305F, 0x3002]]]]"

definition ja_SignVerifyMessageDialog_2 :: "ts_message list" where
  "ja_SignVerifyMessageDialog_2 = [
     Message [(None, 5)] False [A ''Message signed.''] [[U [0x30E1, 0x30C3, 0x30BB, 0x30FC, 0x30B8, 0x306B, 0x7F72,
       0x540D, 0x3057, 0x307E, 0x3057, 0x305F, 0x3002]]],
     Message [(None, 59)] False [A ''The signature could not be decoded.''] [[U [0x7F72, 0x540D, 0x304C, 0x30C7,
       0x30B3, 0x30FC, 0x30C9, 0x3067, 0x304D, 0x307E, 0x305B, 0x3093, 0x3002]]],
     Message [(None, 0), (None, 13)] False [A ''Please check the signature and try again.''] [[U [0x7F72, 0x540D,
       0x3092, 0x78BA, 0x8A8D, 0x3057, 0x3066, 0x304B, 0x3089, 0x3082, 0x3046, 0x4E00, 0x5EA6, 0x8A66, 0x3057,
       0x3066, 0x304F, 0x3060, 0x3055, 0x3044, 0x3002]]],
     Message [(None, 0)] False [A ''The signature did not match the message digest.''] [[U [0x7F72, 0x540D, 0x306F,
       0x30E1, 0x30C3, 0x30BB, 0x30FC, 0x30B8], A '' '', U [0x30C0, 0x30A4, 0x30B8, 0x30A7, 0x30B9, 0x30C8, 0x3068,
       0x4E00, 0x81F4, 0x3057, 0x307E, 0x305B, 0x3093, 0x3067, 0x3057, 0x305F, 0x3002]]],
     Message [(None, 7)] False [A ''Message verification failed.''] [[U [0x30E1, 0x30C3, 0x30BB, 0x30FC, 0x30B8,
       0x306E, 0x691C, 0x8A3C, 0x306B, 0x5931, 0x6557, 0x3057, 0x307E, 0x3057, 0x305F, 0x3002]]],
     Message [(None, 5)] False [A ''Message verified.''] [[U [0x30E1, 0x30C3, 0x30BB, 0x30FC, 0x30B8, 0x306F, 0x691C,
       0x8A3C, 0x3055, 0x308C, 0x307E, 0x3057, 0x305F, 0x3002]]]]"

definition ja_TransactionDesc_1 :: "ts_message list" where
  "ja_TransactionDesc_1 = [
     Message [(Some ''../transactiondesc.cpp'', 19)] False [A ''Open until %1''] [[U [0x30E6, 0x30CB, 0x30C3,
       0x30C8], A '' %1 '', U [0x3092, 0x958B, 0x304F]]],
     Message [(None, -2)] True [A ''Open for %n block(s)''] [[A ''%n '', U [0x30D6, 0x30ED, 0x30C3, 0x30AF, 0x306B,
       0x958B, 0x3044, 0x3066, 0x3044, 0x308B]]],
     Message [(None, 8)] False [A ''conflicted''] [[U [0x76F8, 0x9055]]],
     Message [(None, 2)] False [A ''%1/offline''] [[A ''%1/'', U [0x30AA, 0x30D5, 0x30E9, 0x30A4, 0x30F3]]],
     Message [(None, 2)] False [A ''%1/unconfirmed''] [[A ''%1/'', U [0x672A, 0x691C, 0x8A3C]]],
     Message [(None, 2)] False [A ''%1 confirmations''] [[A ''%1 '', U [0x78BA, 0x8A8D]]],
     Message [(None, 18)] False [A ''Status''] [[U [0x30B9, 0x30C6, 0x30FC, 0x30BF, 0x30B9]]],
     Message [(None, 7)] True [A '', broadcast through %n node(s)''] [[A ''%n '', U [0x30CE, 0x30FC, 0x30C9, 0x306B,
       0x30D6, 0x30ED, 0x30FC, 0x30C9, 0x30AD, 0x30E3, 0x30B9, 0x30C8]]],
     Message [(None, 4)] False [A ''Date''] [[U [0x65E5, 0x4ED8]]],
     Message [(None, 7)] False [A ''Source''] [[U [0x30BD, 0x30FC, 0x30B9]]],
     Message [(None, 0)] False [A ''Generated''] [[U [0x751F, 0x6210, 0x3055, 0x308C, 0x305F]]],
     Message [(None, 5), (None, 17)] False [A ''From''] [[U [0x9001, 0x4FE1]]],
     Message [(None, 1), (None, 22), (None, 58)] False [A ''To''] [[U [0x53D7, 0x4FE1]]],
     Message [(None, -77), (None, 2)] False [A ''own address''] [[U [0x81EA, 0x5206, 0x306E, 0x30A2, 0x30C9, 0x30EC,
       0x30B9]]],
     Message [(None, -2)] False [A ''label''] [[U [0x30E9, 0x30D9, 0x30EB]]],
     Message [(None, 37), (None, 12), (None, 45), (None, 17), (None, 30)] False [A ''Credit''] [[U [0x30AF, 0x30EC,
       0x30B8, 0x30C3, 0x30C8]]],
     Message [(None, -102)] True [A ''matures in %n more block(s)''] [[A ''%n '', U [0x4EE5, 0x4E0A, 0x306E, 0x30D6,
       0x30ED, 0x30C3, 0x30AF, 0x304C, 0x6E80, 0x671F]]],
     Message [(None, 2)] False [A ''not accepted''] [[U [0x627F, 0x8A8D, 0x3055, 0x308C, 0x306A, 0x304B, 0x3063,
       0x305F]]],
     Message [(None, 44), (None, 8), (None, 15), (None, 30)] False [A ''Debit''] [[U [0x5F15, 0x304D, 0x843D, 0x3068,
       0x3057, 0x984D]]],
     Message [(None, -39)] False [A ''Transaction fee''] [[U [0x51E6, 0x7406, 0x306E, 0x624B, 0x6570, 0x6599]]],
     Message [(None, 16)] False [A ''Net amount''] [[U [0x6B63, 0x5473, 0x91D1, 0x984D]]],
     Message [(None, 6)] False [A ''Message''] [[U [0x30E1, 0x30C3, 0x30BB, 0x30FC, 0x30B8]]],
     Message [(None, 2)] False [A ''Comment''] [[U [0x30B3, 0x30E1, 0x30F3, 0x30C8]]],
     Message [(None, 2)] False [A ''Transaction ID''] [[U [0x51E6, 0x7406, 0x306E], A ''ID'']],
     Message [(None, 3)] False [A
       ''Generated coins must mature 510 blocks before they can be spent. When you generated this block, it was broadcast to the network to be added to the block chain. If it fails to get into the chain, its state will change to ''
       , U [0x22], A ''not accepted'', U [0x22], A '' and it won'', U [0x27], A
       ''t be spendable. This may occasionally happen if another node generates a block within a few seconds of yours.''
       ] [[U [0x30B3, 0x30A4, 0x30F3, 0x3092, 0x8CBB, 0x3084, 0x3059, 0x524D, 0x306B, 0x767A, 0x73FE, 0x3055, 0x308C,
       0x305F, 0x30B3, 0x30A4, 0x30F3, 0x306F], A ''510'', U [0x30D6, 0x30ED, 0x30C3, 0x30AF, 0x9593, 0x6210, 0x719F,
       0x3057, 0x306A, 0x3051, 0x308C, 0x3070, 0x306A, 0x308A, 0x307E, 0x305B, 0x3093, 0x3002, 0x3053, 0x306E,
       0x30D6, 0x30ED, 0x30C3, 0x30AF, 0x3092, 0x767A, 0x73FE, 0x3055, 0x305B, 0x305F, 0x3068, 0x304D, 0x306B,
       0x3001, 0x30D6, 0x30ED, 0x30C3, 0x30AF, 0x30C1, 0x30A7, 0x30A4, 0x30F3, 0x306B, 0x8DB3, 0x3059, 0x305F,
       0x3081, 0x306B, 0x30CD, 0x30C3, 0x30C8, 0x30EF, 0x30FC, 0x30AF, 0x3078, 0x653E, 0x9001, 0x3057, 0x307E,
       0x3057, 0x305F, 0x3002, 0x30D6, 0x30ED, 0x30C3, 0x30AF, 0x30C1, 0x30A7, 0x30A4, 0x30F3, 0x306B, 0x8FFD,
       0x52A0, 0x5931, 0x6557, 0x3057, 0x305F, 0x3070, 0x3044, 0x3001, 0x30EC, 0x30D9, 0x30EB, 0x306F, 0x300C,
       0x53D7, 0x3051, 0x5165, 0x3089, 0x308C, 0x3066, 0x3044, 0x306A, 0x3044, 0x300D, 0x306B, 0x5909, 0x308F,
       0x3063, 0x3066, 0x3001, 0x8CBB, 0x3084, 0x305B, 0x3089, 0x308C, 0x306A, 0x3044, 0x72B6, 0x6CC1, 0x306B,
       0x306A, 0x308A, 0x307E, 0x3059, 0x3002, 0x81EA, 0x5206, 0x306E, 0x30CE, 0x30FC, 0x30C9, 0x3068, 0x4ED6,
       0x306E, 0x30CE, 0x30FC, 0x30C9, 0x3068, 0x540C, 0x6642, 0x306B, 0x65B0, 0x3057, 0x3044, 0x30D6, 0x30ED,
       0x30C3, 0x30AF, 0x3092, 0x767A, 0x73FE, 0x3055, 0x305B, 0x305F, 0x3068, 0x304D, 0x306B, 0x3001, 0x6642,
       0x6298, 0x306B, 0x8D77, 0x3053, 0x308B, 0x3053, 0x3068, 0x3002]]],
     Message [(None, 7)] False [A ''Debug information''] [[U [0x30C7, 0x30D0, 0x30C3, 0x30B0, 0x60C5, 0x5831]]],
     Message [(None, 8)] False [A ''Transaction''] [[U [0x51E6, 0x7406]]]]"

definition ja_TransactionDesc_2 :: "ts_message list" where
  "ja_TransactionDesc_2 = [
     Message [(None, 5)] False [A ''Inputs''] [[U [0x5165, 0x529B]]],
     Message [(None, 23)] False [A ''Amount''] [[U [0x7DCF, 0x984D]]],
     Message [(None, 1)] False [A ''true''] [[U [0x6B63, 0x3057, 0x3044]]],
     Message [(None, 0)] False [A ''false''] [[U [0x6B63, 0x3057, 0x304F, 0x306A, 0x3044]]],
     Message [(None, -211)] False [A '', has not been successfully broadcast yet''] [[U [0x307E, 0x3060, 0x30D6,
       0x30ED, 0x30FC, 0x30C9, 0x30AD, 0x30E3, 0x30B9, 0x30C8, 0x304C, 0x6210, 0x529F, 0x3057, 0x3066, 0x3044,
       0x307E, 0x305B, 0x3093]]],
     Message [(None, 35)] False [A ''unknown''] [[U [0x672A, 0x78BA, 0x8A8D]]]]"

definition ja_TransactionDescDialog :: "ts_message list" where
  "ja_TransactionDescDialog = [
     Message [(Some ''../forms/transactiondescdialog.ui'', 14)] False [A ''Transaction details''] [[U [0x51E6,
       0x7406, 0x306E, 0x8A73, 0x7D30]]],
     Message [(None, 6)] False [A ''This pane shows a detailed description of the transaction''] [[U [0x3053, 0x3053,
       0x3067, 0x306F, 0x51E6, 0x7406, 0x306E, 0x8A73, 0x7D30, 0x3092, 0x8868, 0x793A, 0x3057, 0x3066, 0x3044,
       0x307E, 0x3059]]]]"

definition ja_TransactionTableModel :: "ts_message list" where
  "ja_TransactionTableModel = [
     Message [(Some ''../transactiontablemodel.cpp'', 226)] False [A ''Date''] [[U [0x65E5, 0x4ED8]]],
     Message [(None, 0)] False [A ''Type''] [[U [0x30BF, 0x30A4, 0x30D7]]],
     Message [(None, 0)] False [A ''Address''] [[A ''Helbidea'']],
     Message [(None, 0)] False [A ''Amount''] [[U [0x7DCF, 0x984D]]],
     Message [(None, 60)] False [A ''Open until %1''] [[U [0x30E6, 0x30CB, 0x30C3, 0x30C8], A '' %1 '', U [0x3092,
       0x958B, 0x304F]]],
     Message [(None, 12)] False [A ''Confirmed (%1 confirmations)''] [[U [0x691C, 0x8A3C, 0x3055, 0x308C, 0x307E,
       0x3057, 0x305F], A '' (%1 '', U [0x691C, 0x8A3C, 0x6E08, 0x307F], A '')'']],
     Message [(None, -15)] True [A ''Open for %n more block(s)''] [[A ''%n '', U [0x4EE5, 0x4E0A, 0x306E, 0x30D6,
       0x30ED, 0x30C3, 0x30AF, 0x3092, 0x958B, 0x304F]]],
     Message [(None, 6)] False [A ''Offline''] [[U [0x30AA, 0x30D5, 0x30E9, 0x30A4, 0x30F3]]],
     Message [(None, 3)] False [A ''Unconfirmed''] [[U [0x672A, 0x691C, 0x8A3C]]],
     Message [(None, 3)] False [A ''Confirming (%1 of %2 recommended confirmations)''] [[U [0x691C, 0x8A3C, 0x6700,
       0x4E2D], A '' (%1 / %2 '', U [0x306E, 0x9032, 0x3081, 0x3066, 0x3044, 0x308B, 0x691C, 0x8A3C, 0x6E08, 0x307F],
       A '')'']],
     Message [(None, 6)] False [A ''Conflicted''] [[U [0x76F8, 0x9055]]],
     Message [(None, 3)] False [A ''Immature (%1 confirmations, will be available after %2)''] [[U [0x672A, 0x719F],
       A '' (%1 '', U [0x691C, 0x8A3C], A '',%2'', U [0x306E, 0x5F8C, 0x53EF, 0x7528, 0x304C, 0x3067, 0x304D,
       0x308B], A '')'']],
     Message [(None, 3)] False [A
       ''This block was not received by any other nodes and will probably not be accepted!''] [[U [0x3053, 0x306E,
       0x30D6, 0x30ED, 0x30C3, 0x30AF, 0x306F, 0x4ED6, 0x306E, 0x3069, 0x306E, 0x30CE, 0x30FC, 0x30C9, 0x306B,
       0x3088, 0x3063, 0x3066, 0x3082, 0x53D7, 0x3051, 0x53D6, 0x3089, 0x308C, 0x306A, 0x3044, 0x3067, 0x3001,
       0x591A, 0x5206, 0x53D7, 0x3051, 0x5165, 0x308C, 0x3089, 0x308C, 0x306A, 0x3044, 0x3067, 0x3057, 0x3087,
       0x3046, 0xFF01]]],
     Message [(None, 3)] False [A ''Generated but not accepted''] [[U [0x751F, 0x6210, 0x3055, 0x308C, 0x307E,
       0x3057, 0x305F, 0x304C, 0x627F, 0x8A8D, 0x3055, 0x308C, 0x307E, 0x305B, 0x3093, 0x3067, 0x3057, 0x305F]]],
     Message [(None, 42)] False [A ''Received with''] [[U [0x53D7, 0x4FE1, 0x5143]]],
     Message [(None, 2)] False [A ''Received from''] [[U [0x9001, 0x308A, 0x4E3B]]],
     Message [(None, 3)] False [A ''Sent to''] [[U [0x9001, 0x308A, 0x5148]]],
     Message [(None, 2)] False [A ''Payment to yourself''] [[U [0x81EA, 0x5206, 0x81EA, 0x8EAB, 0x3078, 0x306E,
       0x652F, 0x6255, 0x3044]]],
     Message [(None, 2)] False [A ''Mined''] [[U [0x767A, 0x6398, 0x3057, 0x305F]]],
     Message [(None, 38)] False [A ''(n/a)''] [[A ''(n/a)'']],
     Message [(None, 190)] False [A ''Transaction status. Hover over this field to show number of confirmations.'']
       [[U [0x51E6, 0x7406, 0x306E, 0x72B6, 0x6CC1, 0x3002, 0x3053, 0x306E, 0x6B04, 0x306E, 0x4E0A, 0x306B, 0x30AB,
       0x30FC, 0x30BD, 0x30EB, 0x3092, 0x7F6E, 0x304F, 0x3068, 0x691C, 0x8A3C, 0x306E, 0x6570, 0x3092, 0x8868,
       0x793A, 0x3057, 0x307E, 0x3059, 0x3002]]],
     Message [(None, 2)] False [A ''Date and time that the transaction was received.''] [[U [0x51E6, 0x7406, 0x3092,
       0x53D7, 0x4FE1, 0x3057, 0x305F, 0x65E5, 0x6642, 0x3002]]],
     Message [(None, 2)] False [A ''Type of transaction.''] [[U [0x51E6, 0x7406, 0x306E, 0x7A2E, 0x985E, 0x3002]]],
     Message [(None, 2)] False [A ''Destination address of transaction.''] [[U [0x51E6, 0x7406, 0x306E, 0x5B9B,
       0x5148, 0x30A2, 0x30C9, 0x30EC, 0x30B9, 0x3002]]],
     Message [(None, 2)] False [A ''Amount removed from or added to balance.''] [[U [0x6B8B, 0x9AD8, 0x306B, 0x8FFD,
       0x52A0, 0x307E, 0x305F, 0x306F, 0x524A, 0x9664, 0x3055, 0x308C, 0x305F, 0x7DCF, 0x984D, 0x3002]]]]"

definition ja_TransactionView_1 :: "ts_message list" where
  "ja_TransactionView_1 = [
     Message [(Some ''../transactionview.cpp'', 55), (None, 16)] False [A ''All''] [[U [0x3059, 0x3079, 0x3066]]],
     Message [(None, -15)] False [A ''Today''] [[U [0x4ECA, 0x65E5]]],
     Message [(None, 1)] False [A ''This week''] [[U [0x4ECA, 0x9031]]],
     Message [(None, 1)] False [A ''This month''] [[U [0x4ECA, 0x6708]]],
     Message [(None, 1)] False [A ''Last month''] [[U [0x5148, 0x6708]]],
     Message [(None, 1)] False [A ''This year''] [[U [0x4ECA, 0x5E74]]],
     Message [(None, 1)] False [A ''Range...''] [[U [0x671F, 0x9593], A ''...'']],
     Message [(None, 11)] False [A ''Received with''] [[U [0x9001, 0x308A, 0x4E3B]]],
     Message [(None, 2)] False [A ''Sent to''] [[U [0x9001, 0x308A, 0x5148]]],
     Message [(None, 2)] False [A ''To yourself''] [[U [0x81EA, 0x5206, 0x81EA, 0x8EAB]]],
     Message [(None, 1)] False [A ''Mined''] [[U [0x767A, 0x6398, 0x3057, 0x305F]]],
     Message [(None, 1)] False [A ''Other''] [[U [0x305D, 0x306E, 0x4ED6]]],
     Message [(None, 7)] False [A ''Enter address or label to search''] [[U [0x691C, 0x7D22, 0x3059, 0x308B, 0x30A2,
       0x30C9, 0x30EC, 0x30B9, 0x307E, 0x305F, 0x306F, 0x30E9, 0x30D9, 0x30EB, 0x3092, 0x5165, 0x529B]]],
     Message [(None, 7)] False [A ''Min amount''] [[U [0x6700, 0x5C0F, 0x306E, 0x984D]]],
     Message [(None, 34)] False [A ''Copy address''] [[U [0x30A2, 0x30C9, 0x30EC, 0x30B9, 0x3092, 0x30B3, 0x30D4,
       0x30FC, 0x3059, 0x308B]]],
     Message [(None, 1)] False [A ''Copy label''] [[U [0x30E9, 0x30D9, 0x30EB, 0x3092, 0x30B3, 0x30D4, 0x30FC,
       0x3059, 0x308B]]],
     Message [(None, 1)] False [A ''Copy amount''] [[U [0x7DCF, 0x984D, 0x306E, 0x30B3, 0x30D4, 0x30FC]]],
     Message [(None, 1)] False [A ''Copy transaction ID''] [[U [0x51E6, 0x7406], A ''ID'', U [0x3092, 0x30B3, 0x30D4,
       0x30FC]]],
     Message [(None, 1)] False [A ''Edit label''] [[U [0x30E9, 0x30D9, 0x30EB, 0x306E, 0x7DE8, 0x96C6]]],
     Message [(None, 1)] False [A ''Show transaction details''] [[U [0x51E6, 0x7406, 0x306E, 0x8A73, 0x7D30, 0x3092,
       0x8868, 0x793A]]],
     Message [(None, 144)] False [A ''Export Transaction Data''] [[U [0x51E6, 0x7406, 0x306E, 0x30C7, 0x30FC, 0x30BF,
       0x3092, 0x66F8, 0x304D, 0x51FA, 0x3059]]],
     Message [(None, 1)] False [A ''Comma separated file (*.csv)''] [[U [0x30C6, 0x30AD, 0x30B9, 0x30C8], A
       '' CSV (*.csv)'']],
     Message [(None, 8)] False [A ''Confirmed''] [[U [0x691C, 0x8A3C, 0x6E08, 0x307F]]],
     Message [(None, 1)] False [A ''Date''] [[U [0x65E5, 0x4ED8]]],
     Message [(None, 1)] False [A ''Type''] [[U [0x30BF, 0x30A4, 0x30D7]]],
     Message [(None, 1)] False [A ''Label''] [[U [0x30E9, 0x30D9, 0x30EB]]],
     Message [(None, 1)] False [A ''Address''] [[A ''Helbidea'']],
     Message [(None, 1)] False [A ''Amount''] [[U [0x7DCF, 0x984D]]],
     Message [(None, 1)] False [A ''ID''] [[A ''ID'']]]"

definition ja_TransactionView_2 :: "ts_message list" where
  "ja_TransactionView_2 = [
     Message [(None, 4)] False [A ''Error exporting''] [[U [0x30A8, 0x30E9, 0x30FC, 0x3092, 0x66F8, 0x304D, 0x51FA,
       0x3059]]],
     Message [(None, 0)] False [A ''Could not write to file %1.''] [[U [0x30D5, 0x30A1, 0x30A4, 0x30EB, 0x3092,
       0x66F8, 0x304D, 0x8FBC, 0x3081, 0x306A, 0x304B, 0x3063, 0x305F, 0x3002], A ''%1'']],
     Message [(None, 100)] False [A ''Range:''] [[U [0x671F, 0x9593], A '':'']],
     Message [(None, 8)] False [A ''to''] [[U [0x304B, 0x3089]]]]"

definition ja_WalletModel :: "ts_message list" where
  "ja_WalletModel = [
     Message [(Some ''../walletmodel.cpp'', 206)] False [A ''Sending...''] [[U [0x901A, 0x4FE1, 0x4E2D], A ''...'']]]"

definition ja_bitcoin_core_1 :: "ts_message list" where
  "ja_bitcoin_core_1 = [
     Message [(Some ''../bitcoinstrings.cpp'', 33)] False [A ''MotaCoin version''] [[U [0x30D6, 0x30E9, 0x30C3,
       0x30AF, 0x30B3, 0x30A4, 0x30F3, 0x30D0, 0x30FC, 0x30B8, 0x30E7, 0x30F3]]],
     Message [(None, 1)] False [A ''Usage:''] [[U [0x4F7F, 0x7528, 0x6CD5], A '':'']],
     Message [(None, 1)] False [A ''Send command to -server or MotaCoind''] [[A ''-server '', U [0x304B], A
       '' MotaCoind'', U [0x3078, 0x30B3, 0x30DE, 0x30F3, 0x30C9, 0x3092, 0x9001, 0x308B, 0x3002]]],
     Message [(None, 1)] False [A ''List commands''] [[U [0x30B3, 0x30DE, 0x30F3, 0x30C9, 0x4E00, 0x89A7]]],
     Message [(None, 1)] False [A ''Get help for a command''] [[U [0x30B3, 0x30DE, 0x30F3, 0x30C9, 0x306E, 0x30D8,
       0x30EB, 0x30D7]]],
     Message [(None, 2)] False [A ''Options:''] [[U [0x30AA, 0x30D7, 0x30B7, 0x30E7, 0x30F3], A '':'']],
     Message [(None, 2)] False [A ''Specify configuration file (default: MotaCoin.conf)''] [[U [0x8A2D, 0x5B9A,
       0x30D5, 0x30A1, 0x30A4, 0x30EB, 0x3092, 0x7279, 0x5B9A, 0x3059, 0x308B], A '' ('', U [0x30C7, 0x30D5, 0x30A1,
       0x30EB, 0x30C8], A '': MotaCoin.conf)'']],
     Message [(None, 1)] False [A ''Specify pid file (default: MotaCoind.pid)''] [[A ''pid '', U [0x30D5, 0x30A1,
       0x30A4, 0x30EB, 0x3092, 0x7279, 0x5B9A, 0x3059, 0x308B], A '' ('', U [0x30C7, 0x30D5, 0x30A9, 0x30EB, 0x30C8],
       A '': MotaCoind.pid)'']],
     Message [(None, 2)] False [A ''Specify wallet file (within data directory)''] [[U [0x30A6, 0x30A9, 0x30EC,
       0x30C3, 0x30C8, 0x306E, 0x30D5, 0x30A1, 0x30A4, 0x30EB, 0x3092, 0x6307, 0x5B9A, 0x3000], A ''('', U [0x30C7,
       0x30FC, 0x30BF, 0x30FB, 0x30C7, 0x30A3, 0x30EC, 0x30AF, 0x30C8, 0x30EA, 0x306E, 0x4E2D, 0x306B], A '')'']],
     Message [(None, -1)] False [A ''Specify data directory''] [[U [0x30C7, 0x30FC, 0x30BF], A '' '', U [0x30C7,
       0x30A3, 0x30EC, 0x30AF, 0x30C8, 0x30EA, 0x306E, 0x6307, 0x5B9A]]],
     Message [(None, 2)] False [A ''Set database cache size in megabytes (default: 25)''] [[U [0x30C7, 0x30FC,
       0x30BF, 0x30D9, 0x30FC, 0x30B9, 0x306E, 0x30AD, 0x30E3, 0x30C3, 0x30B7, 0x30E5, 0x30B5, 0x30A4, 0x30BA,
       0x3092, 0x30E1, 0x30AC, 0x30D0, 0x30A4, 0x30C8, 0x3067, 0x8A2D, 0x5B9A], A '' ('', U [0x521D, 0x671F, 0x5024],
       A '': 25)'']],
     Message [(None, 1)] False [A ''Set database disk log size in megabytes (default: 100)''] [[U [0x30E1, 0x30AC,
       0x30D0, 0x30A4, 0x30C8, 0x3067, 0x306E, 0x30C7, 0x30FC, 0x30BF, 0x30D9, 0x30FC, 0x30B9, 0x306E, 0x30ED,
       0x30B0, 0x30B6, 0x30A4, 0x30BA, 0x306E, 0x5927, 0x304D, 0x3055, 0x306E, 0x8A2D, 0x5B9A], A ''('', U [0x30C7,
       0x30D5, 0x30A1, 0x30EB, 0x30C8, 0xFF1A], A ''100)'']],
     Message [(None, 6)] False [A ''Listen for connections on <port> (default: 15714 or testnet: 25714)''] [[A
       ''<port> '', U [0x3067], A '' '', U [0x63A5, 0x7D9A, 0x3092, 0x30EA, 0x30B9, 0x30F3], A '' ('', U [0x30C7,
       0x30D5, 0x30A9, 0x30EB, 0x30C8], A '': 15714'', U [0x304B], A ''testnet '', U [0x306F], A '' 25714)'']],
     Message [(None, 1)] False [A ''Maintain at most <n> connections to peers (default: 125)''] [[U [0x30D4, 0x30A2,
       0x306E, 0x6700, 0x5927, 0x63A5, 0x7D9A, 0x6570], A '' ('', U [0x521D, 0x671F, 0x5024], A '': 125)'']],
     Message [(None, 3)] False [A ''Connect to a node to retrieve peer addresses, and disconnect''] [[U [0x30D4,
       0x30A2], A '' '', U [0x30A2, 0x30C9, 0x30EC, 0x30B9, 0x3092, 0x53D6, 0x5F97, 0x3059, 0x308B, 0x305F, 0x3081,
       0x306B, 0x30CE, 0x30FC, 0x30C9, 0x306B, 0x63A5, 0x7D9A, 0x3057, 0x3001, 0x305D, 0x3057, 0x3066, 0x5207,
       0x65AD, 0x3057, 0x307E, 0x3059]]],
     Message [(None, 1)] False [A ''Specify your own public address''] [[U [0x3042, 0x306A, 0x305F, 0x81EA, 0x8EAB,
       0x306E, 0x30D1, 0x30D6, 0x30EA, 0x30C3, 0x30AF, 0x306A, 0x30A2, 0x30C9, 0x30EC, 0x30B9, 0x3092, 0x6307,
       0x5B9A]]],
     Message [(None, 5)] False [A ''Bind to given address. Use [host]:port notation for IPv6''] [[U [0x30A2, 0x30C9,
       0x30EC, 0x30B9, 0x306B, 0x7D50, 0x3076, 0x3002], A ''IPv6'', U [0x306E, 0x3070, 0x3044, 0x3001], A
       ''[host]:port '', U [0x8868, 0x8A18, 0x6CD5, 0x3092, 0x4F7F, 0x3063, 0x3066, 0x304F, 0x3060, 0x3055, 0x3044,
       0x3002]]],
     Message [(None, 2)] False [A ''Stake your coins to support network and gain reward (default: 1)''] [[U [0x8912,
       0x5968, 0x91D1, 0x3092, 0x3082, 0x3089, 0x3046, 0x305F, 0x3081, 0x3068, 0x3001, 0x30D6, 0x30E9, 0x30C3,
       0x30AF, 0x30B3, 0x30A4, 0x30F3, 0x30CD, 0x30C3, 0x30C8, 0x30EF, 0x30FC, 0x30AF, 0x3092, 0x30B5, 0x30C3,
       0x30DD, 0x30FC, 0x30C8, 0x3059, 0x308B, 0x305F, 0x3081, 0x306B, 0x3001, 0x30B3, 0x30A4, 0x30F3, 0x3092,
       0x8CED, 0x3051, 0x308B], A ''('', U [0x30C7, 0x30D5, 0x30A1, 0x30EB, 0x30C8, 0xFF1A], A ''1)'']],
     Message [(None, 5)] False [A ''Threshold for disconnecting misbehaving peers (default: 100)''] [[U [0x4E0D,
       0x6B63, 0x306A, 0x30D4, 0x30A2, 0x3092, 0x5207, 0x65AD, 0x3059, 0x308B, 0x305F, 0x3081, 0x306E, 0x3057,
       0x304D, 0x3044, 0x5024], A '' ('', U [0x521D, 0x671F, 0x5024], A '': 100)'']],
     Message [(None, 1)] False [A ''Number of seconds to keep misbehaving peers from reconnecting (default: 86400)'']
       [[U [0x4E0D, 0x6B63, 0x306A, 0x30D4, 0x30A2, 0x3092, 0x518D, 0x63A5, 0x7D9A, 0x3059, 0x308B, 0x307E, 0x3067,
       0x306E, 0x79D2, 0x6570], A '' ('', U [0x521D, 0x671F, 0x5024], A '': 86400)'']],
     Message [(None, -44)] False [A ''An error occurred while setting up the RPC port %u for listening on IPv4: %s'']
       [[A ''IPv4 '', U [0x3067, 0x30EA, 0x30B9, 0x30F3, 0x3059, 0x308B], A '' RPC '', U [0x30DD, 0x30FC, 0x30C8], A
       '' %u '', U [0x306E, 0x8A2D, 0x5B9A, 0x4E2D, 0x306B, 0x30A8, 0x30E9, 0x30FC, 0x304C, 0x767A, 0x751F, 0x3057,
       0x307E, 0x3057, 0x305F], A '': %s'']],
     Message [(None, 51)] False [A ''Detach block and address databases. Increases shutdown time (default: 0)''] [[U
       [0x30D6, 0x30ED, 0x30C3, 0x30AF, 0x3068, 0x30A2, 0x30C9, 0x30EC, 0x30B9, 0x306E, 0x30C7, 0x30FC, 0x30BF,
       0x30D9, 0x30FC, 0x30B9, 0x3092, 0x5207, 0x308A, 0x96E2, 0x3059, 0x3002, 0x3053, 0x306E, 0x8A2D, 0x5B9A,
       0x306F, 0x30B7, 0x30E3, 0x30C3, 0x30C8, 0x30C0, 0x30A6, 0x30F3, 0x306E, 0x6642, 0x9593, 0x3092, 0x4F38,
       0x3070, 0x3055, 0x305B, 0x307E, 0x3059, 0x3002], A ''('', U [0x30C7, 0x30D5, 0x30A1, 0x30EB, 0x30C8, 0xFF1A],
       A ''0)'']],
     Message [(None, 109)] False [A
       ''Error: The transaction was rejected.  This might happen if some of the coins in your wallet were already spent, such as if you used a copy of wallet.dat and coins were spent in the copy but not marked as spent here.''
       ] [[U [0x30A8, 0x30E9, 0x30FC, 0xFF1A, 0x51E6, 0x7406, 0x306F, 0x62D2, 0x5426, 0x3055, 0x308C, 0x307E, 0x3057,
       0x305F, 0x3002, 0x30A6, 0x30A9, 0x30EC, 0x30C3, 0x30C8, 0x306E, 0x30B3, 0x30A4, 0x30F3, 0x3092, 0x3059,
       0x3067, 0x306B, 0x8CBB, 0x3084, 0x3057, 0x305F, 0x53EF, 0x80FD, 0x6027, 0x3067, 0x3001], A ''wallet.dat'', U
       [0x306E, 0x30B3, 0x30D4, 0x30FC, 0x3067, 0x8CBB, 0x3084, 0x3057, 0x305F, 0x304C, 0x3001, 0x73FE, 0x884C,
       0x306E], A ''wallet.dat'', U [0x3068, 0x306F, 0x30A2, 0x30C3, 0x30D7, 0x30C7, 0x30FC, 0x30C8, 0x3055, 0x308C,
       0x3066, 0x3044, 0x306A, 0x3044, 0x3002]]],
     Message [(None, -5)] False [A
       ''Error: This transaction requires a transaction fee of at least %s because of its amount, complexity, or use of recently received funds  ''
       ] [[U [0x30A8, 0x30E9, 0x30FC, 0xFF1A, 0x984D], A '','', U [0x8907, 0x96D1], A '','', U [0x6700, 0x8FD1,
       0x3082, 0x3089, 0x3063, 0x305F, 0x8CC7, 0x91D1, 0x3001, 0x3069, 0x308C, 0x304B, 0x306E, 0x7406, 0x7531,
       0x3067, 0x51E6, 0x7406, 0x306F, 0x5C11, 0x306A, 0x304F, 0x3068, 0x3082], A '' %s'', U [0x306E, 0x6599, 0x91D1,
       0x304C, 0x5FC5, 0x8981, 0x3067, 0x3059, 0x3002]]],
     Message [(None, -87)] False [A ''Listen for JSON-RPC connections on <port> (default: 15715 or testnet: 25715)'']
       [[A ''<port> '', U [0x3067], A '' JSON-RPC '', U [0x63A5, 0x7D9A, 0x3092, 0x30EA, 0x30B9, 0x30F3], A '' ('', U
       [0x30C7, 0x30D5, 0x30A9, 0x30EB, 0x30C8], A '': 15715'', U [0x304B], A ''testnet '', U [0x306F], A '' 25715)''
       ]],
     Message [(None, -11)] False [A ''Accept command line and JSON-RPC commands''] [[U [0x30B3, 0x30DE, 0x30F3,
       0x30C9, 0x30E9, 0x30A4, 0x30F3, 0x3068], A '' JSON-RPC '', U [0x30B3, 0x30DE, 0x30F3, 0x30C9, 0x3092, 0x8A31,
       0x53EF]]],
     Message [(None, 101)] False [A ''Error: Transaction creation failed  ''] [[U [0x30A8, 0x30E9, 0x30FC, 0xFF1A,
       0x51E6, 0x7406, 0x3092, 0x5931, 0x6557, 0x3057, 0x307E, 0x3057, 0x305F, 0x3002]]],
     Message [(None, -5)] False [A ''Error: Wallet locked, unable to create transaction  ''] [[U [0x30A8, 0x30E9,
       0x30FC, 0xFF1A, 0x30A6, 0x30A9, 0x30EC, 0x30C3, 0x30C8, 0x306F, 0x30ED, 0x30C3, 0x30AF, 0x3055, 0x308C,
       0x305F, 0x305F, 0x3081, 0x306B, 0x3001, 0x51E6, 0x7406, 0x3092, 0x4F5C, 0x3089, 0x308C, 0x306A, 0x304B,
       0x3063, 0x305F, 0x3002]]],
     Message [(None, -8)] False [A ''Importing blockchain data file.''] [[U [0x30D6, 0x30ED, 0x30C3, 0x30AF, 0x30C1,
       0x30A7, 0x30A4, 0x30F3, 0x306E, 0x30D5, 0x30A1, 0x30A4, 0x30EB, 0x3092, 0x8AAD, 0x307F, 0x8FBC, 0x3093,
       0x3067, 0x3044, 0x308B, 0x3002]]]]"

definition ja_bitcoin_core_2 :: "ts_message list" where
  "ja_bitcoin_core_2 = [
     Message [(None, 1)] False [A ''Importing bootstrap blockchain data file.''] [[U [0x30D6, 0x30FC, 0x30C8, 0x30B9,
       0x30C8, 0x30E9, 0x30C3, 0x30D7, 0x306A, 0x30D6, 0x30ED, 0x30C3, 0x30AF, 0x30C1, 0x30A7, 0x30A4, 0x30F3,
       0x306E, 0x30D5, 0x30A1, 0x30A4, 0x30EB, 0x3092, 0x8AAD, 0x307F, 0x8FBC, 0x3093, 0x3067, 0x3044, 0x308B,
       0x3002]]],
     Message [(None, -88)] False [A ''Run in the background as a daemon and accept commands''] [[U [0x30C7, 0x30FC,
       0x30E2, 0x30F3, 0x3068, 0x3057, 0x3066, 0x30D0, 0x30C3, 0x30AF, 0x30B0, 0x30E9, 0x30F3, 0x30C9, 0x3067,
       0x5B9F, 0x884C, 0x3057, 0x30B3, 0x30DE, 0x30F3, 0x30C9, 0x3092, 0x8A31, 0x53EF]]],
     Message [(None, 1)] False [A ''Use the test network''] [[U [0x30C6, 0x30B9, 0x30C8, 0x306E, 0x305F, 0x3081,
       0x306E, 0x30CD, 0x30C3, 0x30C8, 0x30EF, 0x30FC, 0x30AF, 0x3092, 0x4F7F, 0x7528]]],
     Message [(None, -24)] False [A ''Accept connections from outside (default: 1 if no -proxy or -connect)''] [[U
       [0x5916, 0x90E8, 0x304B, 0x3089, 0x306E, 0x63A5, 0x7D9A, 0x3092, 0x8A31, 0x53EF], A '' ('', U [0x521D, 0x671F,
       0x5024], A '':  -proxy '', U [0x307E, 0x305F, 0x306F], A '' -connect '', U [0x3092, 0x4F7F, 0x7528, 0x3057,
       0x3066, 0x3044, 0x306A, 0x3044, 0x5834, 0x5408, 0x306F], A ''1)'']],
     Message [(None, -38)] False [A
       ''An error occurred while setting up the RPC port %u for listening on IPv6, falling back to IPv4: %s''] [[A
       ''IPv6 '', U [0x3067, 0x30EA, 0x30B9, 0x30F3, 0x3059, 0x308B], A '' RPC '', U [0x30DD, 0x30FC, 0x30C8], A
       '' %u '', U [0x306E, 0x8A2D, 0x5B9A, 0x4E2D, 0x306B, 0x30A8, 0x30E9, 0x30FC, 0x304C, 0x767A, 0x751F, 0x3057,
       0x305F, 0x306E, 0x3067], A '' IPv4 '', U [0x306B, 0x5207, 0x308A, 0x66FF, 0x3048, 0x307E, 0x3059], A '': %s'']],
     Message [(None, 117)] False [A
       ''Error initializing database environment %s! To recover, BACKUP THAT DIRECTORY, then remove everything from it except for wallet.dat.''
       ] [[U [0x30C7, 0x30FC, 0x30BF, 0x30D9, 0x30FC, 0x30B9], A ''%s'', U [0x3092, 0x521D, 0x671F, 0x5316, 0x3059,
       0x308B, 0x306B, 0x30A8, 0x30E9, 0x30FC, 0x306B, 0x306A, 0x308A, 0x307E, 0x3057, 0x305F, 0x3002, 0x76F4,
       0x3059, 0x305F, 0x3081, 0x306B, 0x30C7, 0x30A3, 0x30EC, 0x30AF, 0x30C8, 0x30EA, 0x3092, 0x30D0, 0x30C3,
       0x30AF, 0x30A2, 0x30C3, 0x30D7, 0x3057, 0x3066, 0x3001, 0x305D, 0x3057, 0x3066], A ''wallet.dat'', U [0x610F,
       0x5916, 0x306E, 0x30D5, 0x30A1, 0x30A4, 0x30EB, 0x3092, 0x53D6, 0x308A, 0x9664, 0x3044, 0x3066, 0x304F,
       0x3060, 0x3055, 0x3044, 0x3002]]],
     Message [(None, -20)] False [A
       ''Set maximum size of high-priority/low-fee transactions in bytes (default: 27000)''] [[U [0x30D0, 0x30A4,
       0x30C8, 0x3067, 0x3001, 0x6700, 0x512A, 0x5148, 0x3001, 0x4F4E, 0x6599, 0x91D1, 0x306E, 0x51E6, 0x7406,
       0x306E, 0x6700, 0x5927, 0x30B5, 0x30A4, 0x30BA, 0x306E, 0x8A2D, 0x5B9A], A ''('', U [0x30C7, 0x30D5, 0x30A1,
       0x30EB, 0x30C8, 0xFF1A], A ''27000)'']],
     Message [(None, 11)] False [A
       ''Warning: -paytxfee is set very high! This is the transaction fee you will pay if you send a transaction.'']
       [[U [0x8B66, 0x544A], A '': -paytxfee '', U [0x304C, 0x975E, 0x5E38, 0x306B, 0x9AD8, 0x304F, 0x8A2D, 0x5B9A,
       0x3055, 0x308C, 0x3066, 0x3044, 0x307E, 0x3059], A ''! '', U [0x3053, 0x308C, 0x306F, 0x51E6, 0x7406, 0x3092,
       0x9001, 0x4FE1, 0x3059, 0x308B, 0x5834, 0x5408, 0x306B, 0x652F, 0x6255, 0x3046, 0x53D6, 0x5F15, 0x624B,
       0x6570, 0x6599, 0x3067, 0x3059, 0x3002]]],
     Message [(None, 61)] False [A ''Warning: Please check that your computer'', U [0x27], A
       ''s date and time are correct! If your clock is wrong MotaCoin will not work properly.''] [[U [0xA0, 0x8B66,
       0x544A, 0xFF1A, 0x30B3, 0x30F3, 0x30D4, 0x30E5, 0x30FC, 0x30BF, 0x306E, 0x65E5, 0x4ED8, 0x3068, 0x6642,
       0x9593, 0x3092, 0x8ABF, 0x3079, 0x3066, 0x304F, 0x3060, 0x3055, 0x3044, 0x3002, 0x6642, 0x9593, 0x305A,
       0x3089, 0x3057, 0x304B, 0x3063, 0x305F, 0x3070, 0x3044, 0x3001, 0x30D6, 0x30E9, 0x30C3, 0x30AF, 0x30B3,
       0x30A4, 0x30F3], A '' QT'', U [0x306F, 0x6B63, 0x3057, 0x304F, 0x884C, 0x52D5, 0x3057, 0x306A, 0x3044,
       0x3002]]],
     Message [(None, -31)] False [A
       ''Warning: error reading wallet.dat! All keys read correctly, but transaction data or address book entries might be missing or incorrect.''
       ] [[U [0x8B66, 0x544A], A '': wallet.dat '', U [0x306E, 0x8AAD, 0x307F, 0x8FBC, 0x307F, 0x30A8, 0x30E9,
       0x30FC], A ''! '', U [0x3059, 0x3079, 0x3066, 0x306E, 0x30AD, 0x30FC, 0x306F, 0x6B63, 0x3057, 0x304F, 0x8AAD,
       0x307F, 0x53D6, 0x308C, 0x307E, 0x3059, 0x304C, 0x3001, 0x51E6, 0x7406, 0x306E, 0x30C7, 0x30FC, 0x30BF,
       0x3084, 0x30A2, 0x30C9, 0x30EC, 0x30B9, 0x5E33, 0x306E, 0x30A8, 0x30F3, 0x30C8, 0x30EA, 0x304C, 0x5931,
       0x308F, 0x308C, 0x305F, 0x304B, 0x3001, 0x6B63, 0x3057, 0x304F, 0x306A, 0x3044, 0x53EF, 0x80FD, 0x6027,
       0x304C, 0x3042, 0x308A, 0x307E, 0x3059, 0x3002]]],
     Message [(None, -18)] False [A
       ''Warning: wallet.dat corrupt, data salvaged! Original wallet.dat saved as wallet.'', U [0x7B], A ''timestamp''
       , U [0x7D], A ''.bak in %s; if your balance or transactions are incorrect you should restore from a backup.'']
       [[U [0x8B66, 0x544A], A '': wallet.dat '', U [0x306E, 0x30C7, 0x30FC, 0x30BF, 0x306F, 0x306E, 0x6C5A, 0x67D3,
       0x3067, 0x3001, 0x3067, 0x30C7, 0x30FC, 0x30BF, 0x3092, 0x5FA9, 0x65E7, 0x3057, 0x307E, 0x3057, 0x305F,
       0xFF01], A '' '', U [0x30AA, 0x30EA, 0x30B8, 0x30CA, 0x30EB, 0x306E], A '' wallet.dat '', U [0x306F], A
       '' wallet.'', U [0x7B], A ''timestamp'', U [0x7D], A ''.bak '', U [0x3068, 0x3057, 0x3066], A '' %s '', U
       [0x306B, 0x4FDD, 0x5B58, 0x3055, 0x308C, 0x307E, 0x3057, 0x305F], A ''; '', U [0x3082, 0x3057, 0x3082, 0x3042,
       0x306A, 0x305F, 0x306E, 0x6B8B, 0x9AD8, 0x3084, 0x51E6, 0x7406, 0x304C, 0x6B63, 0x3057, 0x304F, 0x306A,
       0x3044, 0x3070, 0x3044, 0x3001, 0x30D0, 0x30C3, 0x30AF, 0x30A2, 0x30C3, 0x30D7, 0x304B, 0x3089, 0x5FA9,
       0x5143, 0x3057, 0x3066, 0x304F, 0x3060, 0x3055, 0x3044, 0x3002]]],
     Message [(None, -30)] False [A ''Attempt to recover private keys from a corrupt wallet.dat''] [[U [0x58CA,
       0x308C, 0x305F], A '' wallet.dat '', U [0x304B, 0x3089, 0x79D8, 0x5BC6, 0x9375, 0x3092, 0x5FA9, 0x65E7,
       0x3059, 0x308B, 0x3053, 0x3068, 0x3092, 0x8A66, 0x3059]]],
     Message [(None, 4)] False [A ''Block creation options:''] [[U [0x30D6, 0x30ED, 0x30C3, 0x30AF, 0x4F5C, 0x6210,
       0x30AA, 0x30D7, 0x30B7, 0x30E7, 0x30F3], A '':'']],
     Message [(None, -62)] False [A ''Connect only to the specified node(s)''] [[U [0x6307, 0x5B9A, 0x3057, 0x305F,
       0x30CE, 0x30FC, 0x30C9, 0x3060, 0x3051, 0x306B, 0x63A5, 0x7D9A]]],
     Message [(None, 4)] False [A ''Discover own IP address (default: 1 when listening and no -externalip)''] [[U
       [0x81EA, 0x5206, 0x306E], A '' IP '', U [0x30A2, 0x30C9, 0x30EC, 0x30B9, 0x3092, 0x767A, 0x898B], A '' ('', U
       [0x521D, 0x671F, 0x5024], A '':  '', U [0x30EA, 0x30B9, 0x30F3, 0x4E2D, 0x3068], A '' -externalip '', U
       [0x3092, 0x4F7F, 0x7528, 0x3057, 0x3066, 0x3044, 0x306A, 0x3044, 0x5834, 0x5408, 0x306F], A ''1)'']],
     Message [(None, 94)] False [A ''Failed to listen on any port. Use -listen=0 if you want this.''] [[U [0x30DD,
       0x30FC, 0x30C8, 0x306E, 0x30EA, 0x30B9, 0x30F3, 0x306B, 0x5931, 0x6557, 0x3057, 0x307E, 0x3057, 0x305F,
       0x3002, 0x5FC5, 0x8981, 0x3067, 0x3042, 0x308C, 0x3070], A '' -listen=0 '', U [0x3092, 0x4F7F, 0x7528, 0x3057,
       0x3066, 0x304F, 0x3060, 0x3055, 0x3044, 0x3002]]],
     Message [(None, -90)] False [A ''Find peers using DNS lookup (default: 1)''] [[A ''DNS'', U [0x30EB, 0x30C3,
       0x30AF, 0x30A2, 0x30C3, 0x30D7, 0x3067, 0x30D4, 0x30FC, 0x30A2, 0x3092, 0x63A2, 0x3059], A ''('', U [0x30C7,
       0x30D5, 0x30A1, 0x30EB, 0x30C8, 0xFF1A], A ''1)'']],
     Message [(None, 5)] False [A ''Sync checkpoints policy (default: strict)''] [[U [0x540C, 0x671F, 0x30C1, 0x30A7,
       0x30C3, 0x30AF, 0x30DD, 0x30A4, 0x30F3, 0x30C8, 0x65B9, 0x91DD], A ''('', U [0x30C7, 0x30D5, 0x30A1, 0x30EB,
       0x30C8, 0xFF1A, 0x53B3, 0x3057, 0x3044], A '')'']],
     Message [(None, 83)] False [A ''Invalid -tor address: '', U [0x27], A ''%s'', U [0x27]] [[U [0x7121, 0x52B9,
       0x306A], A ''TOR'', U [0x30A2, 0x30C9, 0x30EC, 0x30B9], A '': '', U [0x27], A ''%s'', U [0x27]]],
     Message [(None, 4)] False [A ''Invalid amount for -reservebalance=<amount>''] [[A ''-reservebalance=<amount>'',
       U [0x306E, 0x984D, 0x306F, 0x7121, 0x52B9, 0x3067, 0x3059]]],
     Message [(None, -82)] False [A ''Maximum per-connection receive buffer, <n>*1000 bytes (default: 5000)''] [[U
       [0x63A5, 0x7D9A, 0x6BCE, 0x306E, 0x6700, 0x5927, 0x53D7, 0x4FE1, 0x30D0, 0x30C3, 0x30D5, 0x30A1], A
       '' <n>*1000 '', U [0x30D0, 0x30A4, 0x30C8], A '' ('', U [0x521D, 0x671F, 0x5024], A '': 5000)'']],
     Message [(None, 1)] False [A ''Maximum per-connection send buffer, <n>*1000 bytes (default: 1000)''] [[U
       [0x63A5, 0x7D9A, 0x6BCE, 0x306E, 0x6700, 0x5927, 0x9001, 0x4FE1, 0x30D0, 0x30C3, 0x30D5, 0x30A1], A
       '' <n>*1000 '', U [0x30D0, 0x30A4, 0x30C8], A '' ('', U [0x521D, 0x671F, 0x5024], A '': 1000)'']],
     Message [(None, -16)] False [A ''Only connect to nodes in network <net> (IPv4, IPv6 or Tor)''] [[A
       ''<net> (IPv4, IPv6, Tor) '', U [0x30CD, 0x30C3, 0x30C8, 0x30EF, 0x30FC, 0x30AF, 0x5185, 0x306E, 0x30CE,
       0x30FC, 0x30C9, 0x3060, 0x3051, 0x306B, 0x63A5, 0x7D9A, 0x3059, 0x308B]]],
     Message [(None, 28)] False [A ''Output extra debugging information. Implies all other -debug* options''] [[U
       [0x4F59, 0x5206, 0x306A, 0x30C7, 0x30D0, 0x30C3, 0x30B0, 0x60C5, 0x5831, 0x3092, 0x51FA, 0x529B, 0x3059,
       0x308B, 0x3002, 0x3053, 0x306E, 0x8A2D, 0x5B9A, 0x306F, 0x3059, 0x3079, 0x3066, 0x306E], A ''debug* '', U
       [0x306E, 0x8A2D, 0x5B9A, 0x3092, 0x6709, 0x52B9, 0x306B, 0x3059, 0x308B, 0x3002]]],
     Message [(None, 1)] False [A ''Output extra network debugging information''] [[U [0x4F59, 0x5206, 0x306A,
       0x30CD, 0x30C3, 0x30C8, 0x30EF, 0x30FC, 0x30AF, 0x306E, 0x30C7, 0x30D0, 0x30C3, 0x30B0, 0x60C5, 0x5831,
       0x3092, 0x51FA, 0x529B, 0x3059, 0x308B]]],
     Message [(None, 1)] False [A ''Prepend debug output with timestamp''] [[U [0x30C7, 0x30D0, 0x30C3, 0x30B0,
       0x306E, 0x30A2, 0x30A6, 0x30C8, 0x30D7, 0x30C3, 0x30C8, 0x306F, 0x30BF, 0x30A4, 0x30E0, 0x30B9, 0x30BF,
       0x30F3, 0x30D7, 0x3067, 0x5148, 0x982D, 0x306B, 0x8FFD, 0x52A0, 0x3059, 0x308B]]],
     Message [(None, 35)] False [A ''SSL options: (see the Bitcoin Wiki for SSL setup instructions)''] [[A ''SSL '',
       U [0x30AA, 0x30D7, 0x30B7, 0x30E7, 0x30F3], A '': (SSL'', U [0x306E, 0x30BB, 0x30C3, 0x30C8, 0x30A2, 0x30C3,
       0x30D7, 0x624B, 0x9806, 0x306F], A '' Bitcoin Wiki '', U [0x3092, 0x3054, 0x89A7, 0x4E0B, 0x3055, 0x3044], A
       '')'']],
     Message [(None, -74)] False [A ''Select the version of socks proxy to use (4-5, default: 5)''] [[A ''SOCKS'', U
       [0x30D7, 0x30ED, 0x30AF, 0x30B7, 0x30FC, 0x306E, 0x30D0, 0x30FC, 0x30B8, 0x30E7, 0x30F3, 0x3092, 0x9078,
       0x629E, 0x3059, 0x308B], A '' (4-5'', U [0x3001], A '' '', U [0x30C7, 0x30D5, 0x30A1, 0x30EB, 0x30C8], A
       '': 5)'']],
     Message [(None, 41)] False [A ''Send trace/debug info to console instead of debug.log file''] [[U [0x30C8,
       0x30EC, 0x30FC, 0x30B9], A ''/'', U [0x30C7, 0x30D0, 0x30C3, 0x30B0, 0x60C5, 0x5831, 0x3092], A '' debug.log ''
       , U [0x30D5, 0x30A1, 0x30A4, 0x30EB, 0x306E, 0x4EE3, 0x308F, 0x308A, 0x306B, 0x30B3, 0x30F3, 0x30BD, 0x30FC,
       0x30EB, 0x3078, 0x9001, 0x308B]]]]"

definition ja_bitcoin_core_3 :: "ts_message list" where
  "ja_bitcoin_core_3 = [
     Message [(None, 1)] False [A ''Send trace/debug info to debugger''] [[U [0x30C7, 0x30D0, 0x30C3, 0x30AC, 0x3078,
       0x8FFD, 0x8DE1, 0x3068, 0x30C7, 0x30D0, 0x30C3, 0x30B0, 0x60C5, 0x5831, 0x3092, 0x9001, 0x308B, 0x3002]]],
     Message [(None, 28)] False [A ''Set maximum block size in bytes (default: 250000)''] [[U [0x6700, 0x5927,
       0x30D6, 0x30ED, 0x30C3, 0x30AF, 0x30B5, 0x30A4, 0x30BA, 0x3092, 0x30D0, 0x30A4, 0x30C8, 0x3067, 0x8A2D,
       0x5B9A], A '' ('', U [0x521D, 0x671F, 0x5024], A '': 250000)'']],
     Message [(None, -1)] False [A ''Set minimum block size in bytes (default: 0)''] [[U [0x6700, 0x5C0F, 0x30D6,
       0x30ED, 0x30C3, 0x30AF, 0x30B5, 0x30A4, 0x30BA, 0x3092, 0x30D0, 0x30A4, 0x30C8, 0x3067, 0x8A2D, 0x5B9A], A
       '' ('', U [0x521D, 0x671F, 0x5024], A '': 0)'']],
     Message [(None, -29)] False [A ''Shrink debug.log file on client startup (default: 1 when no -debug)''] [[U
       [0x30AF, 0x30E9, 0x30A4, 0x30A2, 0x30F3, 0x30C8, 0x8D77, 0x52D5, 0x6642, 0x306B], A '' debug.log '', U
       [0x30D5, 0x30A1, 0x30A4, 0x30EB, 0x3092, 0x7E2E, 0x5C0F], A '' ('', U [0x521D, 0x671F, 0x5024], A '': -debug ''
       , U [0x30AA, 0x30D7, 0x30B7, 0x30E7, 0x30F3, 0x3092, 0x6307, 0x5B9A, 0x3057, 0x306A, 0x3044, 0x5834, 0x5408,
       0x306F], A ''1)'']],
     Message [(None, -42)] False [A ''Specify connection timeout in milliseconds (default: 5000)''] [[U [0x63A5,
       0x7D9A, 0x306E, 0x30BF, 0x30A4, 0x30E0, 0x30A2, 0x30A6, 0x30C8, 0x3092, 0x30DF, 0x30EA, 0x30BB, 0x30B3,
       0x30F3, 0x30C9, 0x3067, 0x6307, 0x5B9A], A '' ('', U [0x521D, 0x671F, 0x5024], A '': 5000)'']],
     Message [(None, 109)] False [A ''Unable to sign checkpoint, wrong checkpointkey?'', U [0xA]] [[U [0x30C1,
       0x30A7, 0x30C3, 0x30AF, 0x30DD, 0x30A4, 0x30F3, 0x30C8, 0x3092, 0x7F72, 0x540D, 0x3067, 0x304D, 0x307E,
       0x305B, 0x3093, 0x3002], A ''checkpointkey'', U [0x306F, 0x9055, 0x3044, 0x307E, 0x3059, 0x304B, 0x3002, 0xA]]],
     Message [(None, -80)] False [A ''Use UPnP to map the listening port (default: 0)''] [[U [0x30EA, 0x30B9,
       0x30F3], A '' '', U [0x30DD, 0x30FC, 0x30C8, 0x306E, 0x5272, 0x5F53, 0x306B], A '' UPnP '', U [0x3092, 0x4F7F,
       0x7528], A '' ('', U [0x521D, 0x671F, 0x5024], A '': 0)'']],
     Message [(None, -1)] False [A ''Use UPnP to map the listening port (default: 1 when listening)''] [[U [0x30EA,
       0x30B9, 0x30F3], A '' '', U [0x30DD, 0x30FC, 0x30C8, 0x306E, 0x5272, 0x5F53, 0x306B], A '' UPnP '', U [0x3092,
       0x4F7F, 0x7528], A '' ('', U [0x521D, 0x671F, 0x5024], A '': '', U [0x30EA, 0x30B9, 0x30F3, 0x4E2D, 0x306F], A
       ''1)'']],
     Message [(None, -25)] False [A ''Use proxy to reach tor hidden services (default: same as -proxy)''] [[U
       [0x30D7, 0x30ED, 0x30AF, 0x30B7, 0x30FC, 0x3067], A ''TOR'', U [0x30D2, 0x30C9, 0x30A5, 0x30F3, 0x30B5,
       0x30FC, 0x30D3, 0x30B9], A ''(TOR Hidden Services)'', U [0x3092, 0x63A5, 0x7D9A, 0x3059, 0x308B], A ''('', U
       [0x30C7, 0x30D5, 0x30A1, 0x30EB, 0x30C8, 0xFF1A], A ''-proxy'', U [0x3068, 0x540C, 0x3058], A '')'']],
     Message [(None, 42)] False [A ''Username for JSON-RPC connections''] [[A ''JSON-RPC '', U [0x63A5, 0x7D9A,
       0x306E, 0x30E6, 0x30FC, 0x30B6, 0x30FC, 0x540D]]],
     Message [(None, 47)] False [A ''Verifying database integrity...''] [[U [0x30C7, 0x30FC, 0x30BF, 0x30D9, 0x30FC,
       0x30B9, 0x306E, 0x4FDD, 0x5168, 0x6027, 0x3092, 0x78BA, 0x8A8D, 0x6700, 0x4E2D], A ''...'']],
     Message [(None, 57)] False [A ''WARNING: syncronized checkpoint violation detected, but skipped!''] [[U [0x8B66,
       0x544A, 0xFF1A, 0x30B7, 0x30F3, 0x30AF, 0x30ED, 0x30CA, 0x30A4, 0x30BA, 0x30C9, 0x30C1, 0x30A7, 0x30C3,
       0x30AF, 0x30DD, 0x30A4, 0x30F3, 0x30C8, 0x9055, 0x53CD, 0x3092, 0x691C, 0x51FA, 0x3057, 0x305F, 0x304C,
       0x3001, 0x30C1, 0x30A7, 0x30C3, 0x30AF, 0x30DD, 0x30A4, 0x30F3, 0x30C8, 0x3092, 0x98DB, 0x3070, 0x3057,
       0x305F, 0x3002]]],
     Message [(None, 1)] False [A ''Warning: Disk space is low!''] [[U [0x8B66, 0x544A, 0xFF1A, 0x30C7, 0x30A3,
       0x30B9, 0x30AF, 0x306E, 0x7A7A, 0x304D, 0x9818, 0x57DF, 0x306F, 0x5C11, 0x306A, 0x3044, 0xFF01]]],
     Message [(None, -2)] False [A ''Warning: This version is obsolete, upgrade required!''] [[U [0x8B66, 0x544A], A
       '': '', U [0x3053, 0x306E, 0x30D0, 0x30FC, 0x30B8, 0x30E7, 0x30F3, 0x306F, 0x53E4, 0x3044, 0x306E, 0x3067,
       0x30A2, 0x30C3, 0x30D7, 0x30B0, 0x30EC, 0x30FC, 0x30C9, 0x304C, 0x5FC5, 0x8981, 0x3067, 0x3059], A ''!'']],
     Message [(None, -48)] False [A ''wallet.dat corrupt, salvage failed''] [[A ''wallet.dat '', U [0x304C, 0x58CA,
       0x308C, 0x3001, 0x5FA9, 0x65E7, 0x306B, 0x5931, 0x6557, 0x3057, 0x307E, 0x3057, 0x305F]]],
     Message [(None, -54)] False [A ''Password for JSON-RPC connections''] [[A ''JSON-RPC '', U [0x63A5, 0x7D9A,
       0x306E, 0x30D1, 0x30B9, 0x30EF, 0x30FC, 0x30C9]]],
     Message [(None, -84)] False [A ''%s, you must set a rpcpassword in the configuration file:'', U [0xA], A '' %s''
       , U [0xA], A ''It is recommended you use the following random password:'', U [0xA], A ''rpcuser=MotaCoinrpc'',
       U [0xA], A ''rpcpassword=%s'', U [0xA], A ''(you do not need to remember this password)'', U [0xA], A
       ''The username and password MUST NOT be the same.'', U [0xA], A
       ''If the file does not exist, create it with owner-readable-only file permissions.'', U [0xA], A
       ''It is also recommended to set alertnotify so you are notified of problems;'', U [0xA], A
       ''for example: alertnotify=echo %%s | mail -s '', U [0x22], A ''MotaCoin Alert'', U [0x22], A '' admin'', U
       [0x40], A ''foo.com'', U [0xA]] [[A ''%s, '', U [0x8A2D, 0x5B9A, 0x30D5, 0x30A1, 0x30A4, 0x30EB, 0xFF1A], A
       ''%s'', U [0x3067], A ''rpcpassword'', U [0x306E, 0x30D1, 0x30B9, 0x30EF, 0x30FC, 0x30C9, 0x3092, 0x5165,
       0x529B, 0x3057, 0x306A, 0x3051, 0x308C, 0x3070, 0x306A, 0x3089, 0x3044, 0xA, 0xA, 0x3053, 0x306E, 0x30E9,
       0x30F3, 0x30C0, 0x30E0, 0x30D1, 0x30B9, 0x30EF, 0x30FC, 0x30C9, 0x306E, 0x304A, 0x3059, 0x3059, 0x3081,
       0x3067, 0x3059, 0xFF1A, 0xA], A ''rpcuser=MotaCoinrpc'', U [0xA], A ''rpcpassword=%s'', U [0xA], A ''('', U
       [0x3053, 0x306E, 0x30D1, 0x30B5, 0x30EF, 0x30FC, 0x30C9, 0x3092, 0x899A, 0x3048, 0x306A, 0x304F, 0x3066,
       0x3082, 0x5927, 0x4E08, 0x592B, 0x3067, 0x3059], A '')'', U [0xA, 0x30E6, 0x30FC, 0x30B6, 0x540D, 0x3068,
       0x30D1, 0x30B9, 0x30EF, 0x30FC, 0x30C9, 0x306F, 0x540C, 0x3058, 0x3067, 0x3042, 0x3063, 0x3066, 0x306F,
       0x306A, 0x308A, 0x307E, 0x305B, 0x3093, 0x3002, 0xA, 0x30D5, 0x30A1, 0x30A4, 0x30EB, 0x306F, 0x5B58, 0x5728,
       0x3057, 0x306A, 0x3044, 0x3070, 0x3044, 0x306F, 0x3001, 0x6240, 0x6709, 0x8005, 0x304C, 0x8AAD, 0x307F,
       0x53D6, 0x308A, 0x53EF, 0x80FD, 0x306A, 0x5C02, 0x7528, 0x306E, 0x30D5, 0x30A1, 0x30A4, 0x30EB, 0x3092,
       0x4F5C, 0x6210, 0x3057, 0x3066, 0x304F, 0x3060, 0x3055, 0x3044, 0x3002, 0xA, 0x554F, 0x984C, 0x306E, 0x3053,
       0x3068, 0x3092, 0x77E5, 0x3089, 0x305B, 0x308B, 0x305F, 0x3081, 0x306B, 0x3001], A ''alertnotify'', U [0x306E,
       0x8A2D, 0x5B9A, 0x3092, 0x6709, 0x52B9, 0x306B, 0x3057, 0x305F, 0x307B, 0x3046, 0x304C, 0x3044, 0x3044,
       0x3067, 0x3059, 0x3002, 0xA, 0x4F8B, 0xFF1A], A ''alertnotify=echo %%s | mail -s '', U [0x22, 0x30D6, 0x30E9,
       0x30C3, 0x30AF, 0x30B3, 0x30A4, 0x30F3, 0x8B66, 0x544A, 0x22], A '' admin'', U [0x40], A ''foo.com'', U [0xA]]],
     Message [(None, 51)] False [A ''Find peers using internet relay chat (default: 0)''] [[U [0x30A4, 0x30F3,
       0x30BF, 0x30FC, 0x30CD, 0x30C3, 0x30C8, 0x30EA, 0x30EC, 0x30FC, 0x30C1, 0x30E3, 0x30C3, 0x30C8], A ''(IRC)'',
       U [0x3067, 0x30D4, 0x30A2, 0x30A2, 0x3092, 0x63A2, 0x3059, 0x3002], A ''('', U [0x30C7, 0x30D5, 0x30A1,
       0x30EB, 0x30C8], A '':1 '', U [0x7B], A ''0'', U [0x7D], A ''?)'']],
     Message [(None, 5)] False [A
       ''Sync time with other nodes. Disable if time on your system is precise e.g. syncing with NTP (default: 1)'']
       [[U [0x4ED6, 0x306E, 0x30CE, 0x30FC, 0x30C9, 0x3068, 0x6642, 0x523B, 0x306E, 0x540C, 0x671F, 0x3059, 0x308B,
       0x3002, 0x78BA, 0x306A, 0x6642, 0x523B, 0x306E, 0x30B3, 0x30F3, 0x30D4, 0x30E5, 0x30FC, 0x30BF, 0x30FC,
       0x306E, 0x3070, 0x3044, 0x3001, 0x7121, 0x52B9, 0x3059, 0x308B, 0x3002, 0x4F8B, 0xFF1A], A ''NTP'', U [0x540C,
       0x671F, 0x8A2D, 0x5B9A, 0x6709, 0x52B9, 0x3042, 0x308B], A ''('', U [0x30C7, 0x30D5, 0x30A1, 0x30EB, 0x30C8,
       0xFF1A], A ''1)'']],
     Message [(None, 15)] False [A
       ''When creating transactions, ignore inputs with value less than this (default: 0.01)''] [[U [0x51E6, 0x7406,
       0x3092, 0x4F5C, 0x308B, 0x3068, 0x3001, 0x3053, 0x306E, 0x984D, 0x3088, 0x308A, 0x5C11, 0x306A, 0x3044,
       0x6570, 0x5B57, 0x3092, 0x7121, 0x8996, 0x3059, 0x308B], A '' ('', U [0x30C7, 0x30D5, 0x30A1, 0x30EB, 0x30C8,
       0xFF1A], A ''0.01)'']],
     Message [(None, 16)] False [A ''Allow JSON-RPC connections from specified IP address''] [[U [0x6307, 0x5B9A,
       0x3057, 0x305F], A '' IP '', U [0x30A2, 0x30C9, 0x30EC, 0x30B9, 0x304B, 0x3089, 0x306E], A '' JSON-RPC '', U
       [0x63A5, 0x7D9A, 0x3092, 0x8A31, 0x53EF]]],
     Message [(None, 1)] False [A ''Send commands to node running on <ip> (default: 127.0.0.1)''] [[A ''<ip> ('', U
       [0x521D, 0x671F, 0x5024], A '': 127.0.0.1) '', U [0x3067, 0x5B9F, 0x884C, 0x4E2D, 0x306E, 0x30CE, 0x30FC,
       0x30C9, 0x306B, 0x30B3, 0x30DE, 0x30F3, 0x30C9, 0x3092, 0x9001, 0x4FE1]]],
     Message [(None, 1)] False [A
       ''Execute command when the best block changes (%s in cmd is replaced by block hash)''] [[U [0x6700, 0x826F,
       0x306E, 0x30D6, 0x30ED, 0x30C3, 0x30AF, 0x306B, 0x5909, 0x66F4, 0x3059, 0x308B, 0x969B, 0x306B, 0x30B3,
       0x30DE, 0x30F3, 0x30C9, 0x3092, 0x5B9F, 0x884C], A '' (cmd '', U [0x306E], A '' %s '', U [0x306F, 0x30D6,
       0x30ED, 0x30C3, 0x30AF], A '' '', U [0x30CF, 0x30C3, 0x30B7, 0x30E5, 0x306B, 0x7F6E, 0x63DB, 0x3055, 0x308C,
       0x308B], A '')'']],
     Message [(None, 3)] False [A
       ''Execute command when a wallet transaction changes (%s in cmd is replaced by TxID)''] [[U [0x30A6, 0x30A9,
       0x30EC, 0x30C3, 0x30C8, 0x306E, 0x51E6, 0x7406, 0x3092, 0x5909, 0x66F4, 0x3059, 0x308B, 0x969B, 0x306B,
       0x30B3, 0x30DE, 0x30F3, 0x30C9, 0x3092, 0x5B9F, 0x884C], A '' (cmd '', U [0x306E], A '' %s '', U [0x306F], A
       '' TxID '', U [0x306B, 0x7F6E, 0x63DB, 0x3055, 0x308C, 0x308B], A '')'']],
     Message [(None, 3)] False [A ''Require a confirmations for change (default: 0)''] [[U [0x5909, 0x66F4, 0x3059,
       0x308B, 0x305F, 0x3081, 0x306B, 0x3001, 0x78BA, 0x8A8D, 0x3092, 0x5FC5, 0x8981, 0x3068, 0x3059, 0x308B], A
       '' ('', U [0x30C7, 0x30D5, 0x30A1, 0x30EB, 0x30C8, 0xFF1A], A ''0)'']]]"

definition ja_bitcoin_core_4 :: "ts_message list" where
  "ja_bitcoin_core_4 = [
     Message [(None, 1)] False [A ''Enforce transaction scripts to use canonical PUSH operators (default: 1)''] [[U
       [0x51E6, 0x7406, 0x306E, 0x30B9, 0x30AF, 0x30EA, 0x30D7, 0x30C8, 0x30B3, 0x30DE, 0x30F3, 0x30C9, 0x3067,
       0x6A19, 0x6E96, 0x7684, 0x306A], A ''PUSH'', U [0x30AA, 0x30DA, 0x30EC, 0x30FC, 0x30BF, 0x3092, 0x65BD,
       0x884C, 0x3059, 0x308B], A ''('', U [0x30C7, 0x30D5, 0x30A1, 0x30EB, 0x30C8, 0xFF1A], A ''1)'']],
     Message [(None, 2)] False [A
       ''Execute command when a relevant alert is received (%s in cmd is replaced by message)''] [[U [0x95A2, 0x9023,
       0x3057, 0x305F, 0x8B66, 0x544A, 0x3092, 0x3082, 0x3089, 0x3063, 0x305F, 0x3089, 0x3001, 0x30B3, 0x30DE,
       0x30F3, 0x30C9, 0x3092, 0x5B9F, 0x884C, 0x3059, 0x308B], A '' (cmd'', U [0x306E, 0x4E2D, 0x3067], A ''%s'', U
       [0x306B, 0x30E1, 0x30C3, 0x30BB, 0x30FC, 0x30B8, 0x3092, 0x4EA4, 0x63DB, 0x3055, 0x308C, 0x308B], A '')'']],
     Message [(None, 3)] False [A ''Upgrade wallet to latest format''] [[U [0x30A6, 0x30A9, 0x30EC, 0x30C3, 0x30C8,
       0x3092, 0x6700, 0x65B0, 0x306E, 0x30D5, 0x30A9, 0x30FC, 0x30DE, 0x30C3, 0x30C8, 0x306B, 0x30A2, 0x30C3,
       0x30D7, 0x30B0, 0x30EC, 0x30FC, 0x30C9]]],
     Message [(None, 1)] False [A ''Set key pool size to <n> (default: 100)''] [[A ''key pool '', U [0x306E, 0x30B5,
       0x30A4, 0x30BA, 0x3092], A '' <n> ('', U [0x521D, 0x671F, 0x5024], A '': 100) '', U [0x306B, 0x30BB, 0x30C3,
       0x30C8]]],
     Message [(None, 1)] False [A ''Rescan the block chain for missing wallet transactions''] [[U [0x5931, 0x3063,
       0x305F, 0x30A6, 0x30A9, 0x30EC, 0x30C3, 0x30C8, 0x306E, 0x51E6, 0x7406, 0x306E, 0x30D6, 0x30ED, 0x30C3,
       0x30AF], A '' '', U [0x30C1, 0x30A7, 0x30FC, 0x30F3, 0x3092, 0x518D, 0x30B9, 0x30AD, 0x30E3, 0x30F3]]],
     Message [(None, 2)] False [A ''How many blocks to check at startup (default: 2500, 0 = all)''] [[U [0x30B9,
       0x30BF, 0x30FC, 0x30C8, 0x306E, 0x3068, 0x304D, 0x306B, 0x3001, 0x3044, 0x304F, 0x3064, 0x306E, 0x30D6,
       0x30ED, 0x30C3, 0x30AF, 0x3092, 0x8ABF, 0x3079, 0x307E, 0x3059, 0x3000], A ''('', U [0x30C7, 0x30D5, 0x30A1,
       0x30EB, 0x30C8, 0xFF1A], A ''2500'', U [0x3001], A '' 0 = '', U [0x3059, 0x3079, 0x3066], A '' )'']],
     Message [(None, 1)] False [A ''How thorough the block verification is (0-6, default: 1)''] [[U [0x30D6, 0x30ED,
       0x30C3, 0x30AF, 0x691C, 0x8A3C, 0x306E, 0x5FB9, 0x5E95, 0x306E, 0x7A0B, 0x5EA6, 0x3000], A ''(0-6 '', U
       [0x3001, 0x30C7, 0x30D5, 0x30A1, 0x30EB, 0x30C8, 0xFF1A], A ''1)'']],
     Message [(None, 1)] False [A ''Imports blocks from external blk000?.dat file''] [[U [0x5916, 0x90E8], A
       '' blk000?.dat '', U [0x30D5, 0x30A1, 0x30A4, 0x30EB, 0x304B, 0x3089, 0x30D6, 0x30ED, 0x30C3, 0x30AF, 0x3092,
       0x8AAD, 0x307F, 0x8FBC, 0x3080, 0x3002]]],
     Message [(None, 8)] False [A ''Use OpenSSL (https) for JSON-RPC connections''] [[A ''JSON-RPC '', U [0x63A5,
       0x7D9A, 0x306B], A '' OpenSSL (https) '', U [0x3092, 0x4F7F, 0x7528]]],
     Message [(None, 1)] False [A ''Server certificate file (default: server.cert)''] [[U [0x30B5, 0x30FC, 0x30D0,
       0x8A3C, 0x660E, 0x66F8, 0x30D5, 0x30A1, 0x30A4, 0x30EB], A '' ('', U [0x521D, 0x671F, 0x5024], A
       '': server.cert)'']],
     Message [(None, 1)] False [A ''Server private key (default: server.pem)''] [[U [0x30B5, 0x30FC, 0x30D0, 0x306E,
       0x79D8, 0x5BC6, 0x9375], A '' ('', U [0x521D, 0x671F, 0x5024], A '': server.pem)'']],
     Message [(None, 1)] False [A ''Acceptable ciphers (default: TLSv1+HIGH:!SSLv2:!aNULL:!eNULL:!AH:!3DES:'', U
       [0x40], A ''STRENGTH)''] [[U [0x8A31, 0x5BB9, 0x53EF, 0x80FD, 0x306A, 0x6697, 0x53F7], A '' ('', U [0x30C7,
       0x30D5, 0x30A9, 0x30EB, 0x30C8, 0xFF1A], A '' TLSv1+HIGH:!SSLv2:!aNULL:!eNULL:!AH:!3DES:'', U [0x40], A
       ''STRENGTH)'']],
     Message [(None, 53)] False [A ''Error: Wallet unlocked for staking only, unable to create transaction.''] [[U
       [0x30A8, 0x30E9, 0x30FC, 0xFF1A, 0x30A2, 0x30F3, 0x30ED, 0x30C3, 0x30AF, 0x3055, 0x308C, 0x305F, 0x30A6,
       0x30A9, 0x30EC, 0x30C3, 0x30C8, 0x306F, 0x8CED, 0x3051, 0x308B, 0x305F, 0x3081, 0x3060, 0x3051, 0x3067,
       0x3001, 0x51E6, 0x7406, 0x3092, 0x4F5C, 0x3089, 0x308C, 0x306A, 0x3044, 0x3002]]],
     Message [(None, 18)] False [A
       ''WARNING: Invalid checkpoint found! Displayed transactions may not be correct! You may need to upgrade, or notify developers.''
       ] [[U [0x8B66, 0x544A, 0xFF1A, 0x7121, 0x52B9, 0x306A, 0x30C1, 0x30A7, 0x30C3, 0x30AF, 0x30DD, 0x30A4, 0x30F3,
       0x30C8, 0x3092, 0x898B, 0x3064, 0x304B, 0x308A, 0x307E, 0x3057, 0x305F, 0xFF01, 0x8868, 0x793A, 0x3055,
       0x308C, 0x305F, 0x51E6, 0x7406, 0x306F, 0x6B63, 0x3057, 0x304F, 0x306A, 0x3044, 0x53EF, 0x80FD, 0x6027,
       0x304C, 0x3042, 0x308B, 0xFF01, 0x30A2, 0x30C3, 0x30D7, 0x30B0, 0x30EC, 0x30FC, 0x30C9, 0x3059, 0x308B,
       0x304B, 0x3001, 0x30C7, 0x30D9, 0x30ED, 0x30C3, 0x30D1, 0x30FC, 0x306B, 0x5831, 0x544A, 0x3059, 0x308B,
       0x5FC5, 0x8981, 0x304C, 0x3042, 0x308A, 0x307E, 0x3059, 0x3002]]],
     Message [(None, -158)] False [A ''This help message''] [[U [0x3053, 0x306E, 0x30D8, 0x30EB, 0x30D7], A '' '', U
       [0x30E1, 0x30C3, 0x30BB, 0x30FC, 0x30B8]]],
     Message [(None, 95)] False [A ''Wallet %s resides outside data directory %s.''] [[A ''%s'', U [0x30A6, 0x30A9,
       0x30EC, 0x30C3, 0x30C8, 0x306F, 0x30C7, 0x30A3, 0x30EC, 0x30AF, 0x30C8, 0x30EA], A ''%s'', U [0x306E, 0x5916,
       0x306B, 0x3042, 0x308A, 0x307E, 0x3059, 0x3002]]],
     Message [(None, 1)] False [A
       ''Cannot obtain a lock on data directory %s.  MotaCoin is probably already running.''] [[A ''%s'', U [0x30C7,
       0x30A3, 0x30EC, 0x30AF, 0x30C8, 0x30EA, 0x306B, 0x3092, 0x30ED, 0x30C3, 0x30AF, 0x30AA, 0x30F3, 0x3067,
       0x304D, 0x306A, 0x3044, 0x3002, 0x30D6, 0x30E9, 0x30C3, 0x30AF, 0x30B3, 0x30A4, 0x30F3], A ''QT'', U [0x306F,
       0x3001, 0x3082, 0x3046, 0x767A, 0x884C, 0x3057, 0x3066, 0x308B, 0x3067, 0x3057, 0x3087, 0x3046, 0x3002]]],
     Message [(None, -98)] False [A ''MotaCoin''] [[U [0x30D6, 0x30E9, 0x30C3, 0x30AF, 0x30B3, 0x30A4, 0x30F3]]],
     Message [(None, 140)] False [A ''Unable to bind to %s on this computer (bind returned error %d, %s)''] [[U
       [0x3053, 0x306E, 0x30B3, 0x30F3, 0x30D4, 0x30E5, 0x30FC, 0x30BF, 0x306E], A '' %s '', U [0x306B, 0x30D0,
       0x30A4, 0x30F3, 0x30C9, 0x3059, 0x308B, 0x3053, 0x3068, 0x304C, 0x3067, 0x304D, 0x307E, 0x305B, 0x3093], A
       '' ('', U [0x30D0, 0x30A4, 0x30F3, 0x30C9, 0x304C, 0x8FD4, 0x3057, 0x305F, 0x30A8, 0x30E9, 0x30FC, 0x306F], A
       '' %d, %s)'']],
     Message [(None, -130)] False [A ''Connect through socks proxy''] [[A ''SOCKS'', U [0x30D7, 0x30ED, 0x30AD,
       0x30B7, 0x3067, 0x63A5, 0x7D9A, 0x3059, 0x308B]]],
     Message [(None, 3)] False [A ''Allow DNS lookups for -addnode, -seednode and -connect''] [[A
       ''-addnode, -seednode '', U [0x3068], A '' -connect '', U [0x3067], A '' DNS '', U [0x30EB, 0x30C3, 0x30AF,
       0x30A2, 0x30C3, 0x30D7, 0x3092, 0x8A31, 0x53EF, 0x3059, 0x308B]]],
     Message [(None, 122)] False [A ''Loading addresses...''] [[U [0x30A2, 0x30C9, 0x30EC, 0x30B9, 0x3092, 0x8AAD,
       0x307F, 0x8FBC, 0x3093, 0x3067, 0x3044, 0x307E, 0x3059], A ''...'']],
     Message [(None, -15)] False [A ''Error loading blkindex.dat''] [[A ''blkindex.dat '', U [0x8AAD, 0x307F, 0x8FBC,
       0x307F, 0x30A8, 0x30E9, 0x30FC]]],
     Message [(None, 2)] False [A ''Error loading wallet.dat: Wallet corrupted''] [[A ''wallet.dat '', U [0x8AAD,
       0x307F, 0x8FBC, 0x307F, 0x30A8, 0x30E9, 0x30FC], A '': '', U [0x30A6, 0x30A9, 0x30EC, 0x30C3, 0x30C8, 0x304C,
       0x58CA, 0x308C, 0x307E, 0x3057, 0x305F]]],
     Message [(None, 4)] False [A ''Error loading wallet.dat: Wallet requires newer version of MotaCoin''] [[A
       ''wallet.dat '', U [0x8AAD, 0x307F, 0x8FBC, 0x307F, 0x30A8, 0x30E9, 0x30FC], A '': '', U [0x3000, 0x30D6,
       0x30E9, 0x30C3, 0x30AF, 0x30B3, 0x30A4, 0x30F3], A ''QT'', U [0x306E, 0x6700, 0x65B0, 0x30D0, 0x30FC, 0x30B8,
       0x30E7, 0x30F3, 0x304C, 0x5FC5, 0x8981, 0x3067, 0x3059]]],
     Message [(None, 1)] False [A ''Wallet needed to be rewritten: restart MotaCoin to complete''] [[U [0x30A6,
       0x30A9, 0x30EC, 0x30C3, 0x30C8, 0x306E, 0x30C7, 0x30FC, 0x30BF, 0x3092, 0x30EA, 0x30E9, 0x30A4, 0x30C8,
       0x3057, 0x306A, 0x3051, 0x308C, 0x3070, 0x306A, 0x3089, 0x3044, 0xFF1A, 0x30D6, 0x30E9, 0x30C3, 0x30AF,
       0x30B3, 0x30A4, 0x30F3], A ''QT'', U [0x3092, 0x30EA, 0x30B9, 0x30BF, 0x30FC, 0x30C8, 0x3057, 0x3066, 0x304F,
       0x3060, 0x3055, 0x3044]]],
     Message [(None, 1)] False [A ''Error loading wallet.dat''] [[A ''wallet.dat '', U [0x8AAD, 0x307F, 0x8FBC,
       0x307F, 0x30A8, 0x30E9, 0x30FC]]],
     Message [(None, -16)] False [A ''Invalid -proxy address: '', U [0x27], A ''%s'', U [0x27]] [[U [0x7121, 0x52B9,
       0x306A], A '' -proxy '', U [0x30A2, 0x30C9, 0x30EC, 0x30B9], A '': '', U [0x27], A ''%s'', U [0x27]]],
     Message [(None, -1)] False [A ''Unknown network specified in -onlynet: '', U [0x27], A ''%s'', U [0x27]] [[A
       ''-onlynet '', U [0x3067, 0x6307, 0x5B9A, 0x3055, 0x308C, 0x305F], A '' '', U [0x27], A ''%s'', U [0x27], A
       '' '', U [0x306F, 0x672A, 0x77E5, 0x306E, 0x30CD, 0x30C3, 0x30C8, 0x30EF, 0x30FC, 0x30AF, 0x3067, 0x3059]]]]"

definition ja_bitcoin_core_5 :: "ts_message list" where
  "ja_bitcoin_core_5 = [
     Message [(None, -1)] False [A ''Unknown -socks proxy version requested: %i''] [[A ''-socks '', U [0x3067,
       0x6307, 0x5B9A, 0x3055, 0x308C, 0x305F], A '' %i '', U [0x306F, 0x672A, 0x77E5, 0x306E, 0x30D0, 0x30FC,
       0x30B8, 0x30E7, 0x30F3, 0x3067, 0x3059]]],
     Message [(None, 4)] False [A ''Cannot resolve -bind address: '', U [0x27], A ''%s'', U [0x27]] [[A ''-bind '', U
       [0x306E, 0x30A2, 0x30C9, 0x30EC, 0x30B9], A '' '', U [0x27], A ''%s'', U [0x27], A '' '', U [0x3092, 0x89E3,
       0x6C7A, 0x3067, 0x304D, 0x307E, 0x305B, 0x3093]]],
     Message [(None, 2)] False [A ''Cannot resolve -externalip address: '', U [0x27], A ''%s'', U [0x27]] [[A
       ''-externalip '', U [0x306E, 0x30A2, 0x30C9, 0x30EC, 0x30B9], A '' '', U [0x27], A ''%s'', U [0x27], A '' '',
       U [0x3092, 0x89E3, 0x6C7A, 0x3067, 0x304D, 0x307E, 0x305B, 0x3093]]],
     Message [(None, -24)] False [A ''Invalid amount for -paytxfee=<amount>: '', U [0x27], A ''%s'', U [0x27]] [[A
       ''-paytxfee=<amount> '', U [0x306E, 0x984D], A '' '', U [0x27], A ''%s'', U [0x27], A '' '', U [0x304C,
       0x7121, 0x52B9, 0x3067, 0x3059]]],
     Message [(None, 44)] False [A ''Error: could not start node''] [[U [0x30A8, 0x30E9, 0x30FC, 0xFF1A, 0x30CE,
       0x30FC, 0x30C9, 0x306E, 0x958B, 0x59CB, 0x304C, 0x3067, 0x304D, 0x306A, 0x3063, 0x305F]]],
     Message [(None, 11)] False [A ''Sending...''] [[U [0x901A, 0x4FE1, 0x4E2D], A ''...'']],
     Message [(None, 5)] False [A ''Invalid amount''] [[U [0x7121, 0x52B9, 0x306A, 0x7DCF, 0x984D]]],
     Message [(None, 1)] False [A ''Insufficient funds''] [[U [0x6B8B, 0x9AD8, 0x4E0D, 0x8DB3]]],
     Message [(None, -34)] False [A ''Loading block index...''] [[U [0x30D6, 0x30ED, 0x30C3, 0x30AF], A '' '', U
       [0x30A4, 0x30F3, 0x30C7, 0x30C3, 0x30AF, 0x30B9, 0x3092, 0x8AAD, 0x307F, 0x8FBC, 0x3093, 0x3067, 0x3044,
       0x307E, 0x3059], A ''...'']],
     Message [(None, -103)] False [A ''Add a node to connect to and attempt to keep the connection open''] [[U
       [0x63A5, 0x7D9A, 0x3059, 0x308B, 0x30CE, 0x30FC, 0x30C9, 0x3092, 0x8FFD, 0x52A0, 0x3057, 0x63A5, 0x7D9A,
       0x3092, 0x6301, 0x7D9A, 0x3059, 0x308B, 0x3088, 0x3046, 0x306B, 0x8A66, 0x3057, 0x307E, 0x3059]]],
     Message [(None, 122)] False [A ''Unable to bind to %s on this computer. MotaCoin is probably already running.'']
       [[U [0x3053, 0x306E, 0x30B3, 0x30F3, 0x30D4, 0x30E5, 0x30FC, 0x30BF, 0x30FC, 0x3067], A ''%s'', U [0x306B,
       0x7D50, 0x3076, 0x3053, 0x3068, 0x304C, 0x3067, 0x304D, 0x306A, 0x304B, 0x3063, 0x305F, 0x3002, 0x30D6,
       0x30E9, 0x30C3, 0x30AF, 0x30B3, 0x30A4, 0x30F3], A ''QT'', U [0x306F, 0x3001, 0x3082, 0x3046, 0x767A, 0x884C,
       0x3057, 0x3066, 0x308B, 0x3067, 0x3057, 0x3087, 0x3046, 0x3002]]],
     Message [(None, -97)] False [A ''Fee per KB to add to transactions you send''] [[U [0x9001, 0x308B, 0x51E6,
       0x7406, 0x3092, 0x8DB3, 0x3057, 0x3066, 0x3001], A ''KB'', U [0x3042, 0x305F, 0x308A, 0x306E, 0x6599, 0x91D1]]],
     Message [(None, 55)] False [A ''Invalid amount for -mininput=<amount>: '', U [0x27], A ''%s'', U [0x27]] [[A
       ''-mininput=<amount>: '', U [0x27], A ''%s'', U [0x27, 0x306E, 0x984D, 0x306F, 0x7121, 0x52B9, 0x3067,
       0x3059]]],
     Message [(None, 25)] False [A ''Loading wallet...''] [[U [0x30A6, 0x30A9, 0x30EC, 0x30C3, 0x30C8, 0x3092,
       0x8AAD, 0x307F, 0x8FBC, 0x3093, 0x3067, 0x3044, 0x307E, 0x3059], A ''...'']],
     Message [(None, 8)] False [A ''Cannot downgrade wallet''] [[U [0x30A6, 0x30A9, 0x30EC, 0x30C3, 0x30C8, 0x306E,
       0x30C0, 0x30A6, 0x30F3, 0x30B0, 0x30EC, 0x30FC, 0x30C9, 0x306F, 0x3067, 0x304D, 0x307E, 0x305B, 0x3093]]],
     Message [(None, 1)] False [A ''Cannot initialize keypool''] [[U [0x30AD, 0x30FC, 0x30B9, 0x30DA, 0x30FC, 0x30B9,
       0x3092, 0x30A4, 0x30CB, 0x30B7, 0x30E3, 0x30E9, 0x30A4, 0x30BA, 0x3092, 0x3059, 0x308B]]],
     Message [(None, 1)] False [A ''Cannot write default address''] [[U [0x521D, 0x671F, 0x5024, 0x306E, 0x30A2,
       0x30C9, 0x30EC, 0x30B9, 0x3092, 0x66F8, 0x304D, 0x8FBC, 0x3080, 0x3053, 0x3068, 0x304C, 0x3067, 0x304D,
       0x307E, 0x305B, 0x3093]]],
     Message [(None, 1)] False [A ''Rescanning...''] [[U [0x518D, 0x30B9, 0x30AD, 0x30E3, 0x30F3, 0x4E2D], A ''...'']],
     Message [(None, 5)] False [A ''Done loading''] [[U [0x8AAD, 0x307F, 0x8FBC, 0x307F, 0x5B8C, 0x4E86]]],
     Message [(None, -167)] False [A ''To use the %s option''] [[A ''%s '', U [0x30AA, 0x30D7, 0x30B7, 0x30E7,
       0x30F3, 0x3092, 0x4F7F, 0x3046, 0x306B, 0x306F]]],
     Message [(None, 14)] False [A ''Error''] [[U [0x30A8, 0x30E9, 0x30FC]]],
     Message [(None, 6)] False [A ''You must set rpcpassword=<password> in the configuration file:'', U [0xA], A
       ''%s'', U [0xA], A ''If the file does not exist, create it with owner-readable-only file permissions.''] [[A
       ''rpcpassword=<password> '', U [0x3092, 0x8A2D, 0x5B9A, 0x30D5, 0x30A1, 0x30A4, 0x30EB, 0x3067, 0x30BB,
       0x30C3, 0x30C8, 0x3057, 0x3066, 0x304F, 0x3060, 0x3055, 0x3044], A '':'', U [0xA], A ''%s'', U [0xA, 0x30D5,
       0x30A1, 0x30A4, 0x30EB, 0x304C, 0x7121, 0x3044, 0x5834, 0x5408, 0x306F, 0x3001, 0x30AA, 0x30FC, 0x30CA,
       0x30FC, 0x3060, 0x3051, 0x304C, 0x8AAD, 0x307F, 0x53D6, 0x308C, 0x308B, 0x6A29, 0x9650, 0x3067, 0x30D5,
       0x30A1, 0x30A4, 0x30EB, 0x3092, 0x4F5C, 0x6210, 0x3057, 0x3066, 0x304F, 0x3060, 0x3055, 0x3044, 0x3002]]]]"

definition ja_contexts :: "ts_context list" where
  "ja_contexts = [
     Context ''AboutDialog'' (ja_AboutDialog),
     Context ''AddressBookPage'' (ja_AddressBookPage),
     Context ''AddressTableModel'' (ja_AddressTableModel),
     Context ''AskPassphraseDialog'' (ja_AskPassphraseDialog_1 @ ja_AskPassphraseDialog_2),
     Context ''BitcoinGUI'' (ja_BitcoinGUI_1 @ ja_BitcoinGUI_2 @ ja_BitcoinGUI_3),
     Context ''ClientModel'' (ja_ClientModel),
     Context ''CoinControlDialog'' (ja_CoinControlDialog_1 @ ja_CoinControlDialog_2),
     Context ''EditAddressDialog'' (ja_EditAddressDialog),
     Context ''GUIUtil::HelpMessageBox'' (ja_GUIUtil_HelpMessageBox),
     Context ''OptionsDialog'' (ja_OptionsDialog_1 @ ja_OptionsDialog_2),
     Context ''OverviewPage'' (ja_OverviewPage),
     Context ''QRCodeDialog'' (ja_QRCodeDialog),
     Context ''RPCConsole'' (ja_RPCConsole),
     Context ''SendCoinsDialog'' (ja_SendCoinsDialog_1 @ ja_SendCoinsDialog_2),
     Context ''SendCoinsEntry'' (ja_SendCoinsEntry),
     Context ''SignVerifyMessageDialog'' (ja_SignVerifyMessageDialog_1 @ ja_SignVerifyMessageDialog_2),
     Context ''TransactionDesc'' (ja_TransactionDesc_1 @ ja_TransactionDesc_2),
     Context ''TransactionDescDialog'' (ja_TransactionDescDialog),
     Context ''TransactionTableModel'' (ja_TransactionTableModel),
     Context ''TransactionView'' (ja_TransactionView_1 @ ja_TransactionView_2),
     Context ''WalletModel'' (ja_WalletModel),
     Context ''bitcoin-core'' (ja_bitcoin_core_1 @ ja_bitcoin_core_2 @ ja_bitcoin_core_3 @ ja_bitcoin_core_4 @ ja_bitcoin_core_5)]"

section \<open>The checks\<close>

lemma ja_AboutDialog_ok: "list_all (message_ok 1) ja_AboutDialog"
  by code_simp

lemma ja_AddressBookPage_ok: "list_all (message_ok 1) ja_AddressBookPage"
  by code_simp

lemma ja_AddressTableModel_ok: "list_all (message_ok 1) ja_AddressTableModel"
  by code_simp

lemma ja_AskPassphraseDialog_1_ok: "list_all (message_ok 1) ja_AskPassphraseDialog_1"
  by code_simp

lemma ja_AskPassphraseDialog_2_ok: "list_all (message_ok 1) ja_AskPassphraseDialog_2"
  by code_simp

lemma ja_BitcoinGUI_1_ok: "list_all (message_ok 1) ja_BitcoinGUI_1"
  by code_simp

lemma ja_BitcoinGUI_2_ok: "list_all (message_ok 1) ja_BitcoinGUI_2"
  by code_simp

lemma ja_BitcoinGUI_3_ok: "list_all (message_ok 1) ja_BitcoinGUI_3"
  by code_simp

lemma ja_ClientModel_ok: "list_all (message_ok 1) ja_ClientModel"
  by code_simp

lemma ja_CoinControlDialog_1_ok: "list_all (message_ok 1) ja_CoinControlDialog_1"
  by code_simp

lemma ja_CoinControlDialog_2_ok: "list_all (message_ok 1) ja_CoinControlDialog_2"
  by code_simp

lemma ja_EditAddressDialog_ok: "list_all (message_ok 1) ja_EditAddressDialog"
  by code_simp

lemma ja_GUIUtil_HelpMessageBox_ok: "list_all (message_ok 1) ja_GUIUtil_HelpMessageBox"
  by code_simp

lemma ja_OptionsDialog_1_ok: "list_all (message_ok 1) ja_OptionsDialog_1"
  by code_simp

lemma ja_OptionsDialog_2_ok: "list_all (message_ok 1) ja_OptionsDialog_2"
  by code_simp

lemma ja_OverviewPage_ok: "list_all (message_ok 1) ja_OverviewPage"
  by code_simp

lemma ja_QRCodeDialog_ok: "list_all (message_ok 1) ja_QRCodeDialog"
  by code_simp

lemma ja_RPCConsole_ok: "list_all (message_ok 1) ja_RPCConsole"
  by code_simp

lemma ja_SendCoinsDialog_1_ok: "list_all (message_ok 1) ja_SendCoinsDialog_1"
  by code_simp

lemma ja_SendCoinsDialog_2_ok: "list_all (message_ok 1) ja_SendCoinsDialog_2"
  by code_simp

lemma ja_SendCoinsEntry_ok: "list_all (message_ok 1) ja_SendCoinsEntry"
  by code_simp

lemma ja_SignVerifyMessageDialog_1_ok: "list_all (message_ok 1) ja_SignVerifyMessageDialog_1"
  by code_simp

lemma ja_SignVerifyMessageDialog_2_ok: "list_all (message_ok 1) ja_SignVerifyMessageDialog_2"
  by code_simp

lemma ja_TransactionDesc_1_ok: "list_all (message_ok 1) ja_TransactionDesc_1"
  by code_simp

lemma ja_TransactionDesc_2_ok: "list_all (message_ok 1) ja_TransactionDesc_2"
  by code_simp

lemma ja_TransactionDescDialog_ok: "list_all (message_ok 1) ja_TransactionDescDialog"
  by code_simp

lemma ja_TransactionTableModel_ok: "list_all (message_ok 1) ja_TransactionTableModel"
  by code_simp

lemma ja_TransactionView_1_ok: "list_all (message_ok 1) ja_TransactionView_1"
  by code_simp

lemma ja_TransactionView_2_ok: "list_all (message_ok 1) ja_TransactionView_2"
  by code_simp

lemma ja_WalletModel_ok: "list_all (message_ok 1) ja_WalletModel"
  by code_simp

lemma ja_bitcoin_core_1_ok: "list_all (message_ok 1) ja_bitcoin_core_1"
  by code_simp

lemma ja_bitcoin_core_2_ok: "list_all (message_ok 1) ja_bitcoin_core_2"
  by code_simp

lemma ja_bitcoin_core_3_ok: "list_all (message_ok 1) ja_bitcoin_core_3"
  by code_simp

lemma ja_bitcoin_core_4_ok: "list_all (message_ok 1) ja_bitcoin_core_4"
  by code_simp

lemma ja_bitcoin_core_5_ok: "list_all (message_ok 1) ja_bitcoin_core_5"
  by code_simp

lemma ja_AboutDialog_context: "context_ok 1 (Context ''AboutDialog'' (ja_AboutDialog))"
proof -
  have "distinct (map checksum (ja_AboutDialog))" by code_simp
  then have "distinct (map key (ja_AboutDialog))" by (rule distinct_checksums)
  then show ?thesis by (simp add: context_ok_def ja_AboutDialog_ok [simplified])
qed

lemma ja_AddressBookPage_context: "context_ok 1 (Context ''AddressBookPage'' (ja_AddressBookPage))"
proof -
  have "distinct (map checksum (ja_AddressBookPage))" by code_simp
  then have "distinct (map key (ja_AddressBookPage))" by (rule distinct_checksums)
  then show ?thesis by (simp add: context_ok_def ja_AddressBookPage_ok [simplified])
qed

lemma ja_AddressTableModel_context: "context_ok 1 (Context ''AddressTableModel'' (ja_AddressTableModel))"
proof -
  have "distinct (map checksum (ja_AddressTableModel))" by code_simp
  then have "distinct (map key (ja_AddressTableModel))" by (rule distinct_checksums)
  then show ?thesis by (simp add: context_ok_def ja_AddressTableModel_ok [simplified])
qed

lemma ja_AskPassphraseDialog_context: "context_ok 1 (Context ''AskPassphraseDialog'' (ja_AskPassphraseDialog_1 @ ja_AskPassphraseDialog_2))"
proof -
  have "distinct (map key (ja_AskPassphraseDialog_1 @ ja_AskPassphraseDialog_2))" by code_simp
  then show ?thesis by (simp add: context_ok_def ja_AskPassphraseDialog_1_ok [simplified] ja_AskPassphraseDialog_2_ok [simplified])
qed

lemma ja_BitcoinGUI_context: "context_ok 1 (Context ''BitcoinGUI'' (ja_BitcoinGUI_1 @ ja_BitcoinGUI_2 @ ja_BitcoinGUI_3))"
proof -
  have "distinct (map checksum (ja_BitcoinGUI_1 @ ja_BitcoinGUI_2 @ ja_BitcoinGUI_3))" by code_simp
  then have "distinct (map key (ja_BitcoinGUI_1 @ ja_BitcoinGUI_2 @ ja_BitcoinGUI_3))" by (rule distinct_checksums)
  then show ?thesis by (simp add: context_ok_def ja_BitcoinGUI_1_ok [simplified] ja_BitcoinGUI_2_ok [simplified] ja_BitcoinGUI_3_ok [simplified])
qed

lemma ja_ClientModel_context: "context_ok 1 (Context ''ClientModel'' (ja_ClientModel))"
proof -
  have "distinct (map checksum (ja_ClientModel))" by code_simp
  then have "distinct (map key (ja_ClientModel))" by (rule distinct_checksums)
  then show ?thesis by (simp add: context_ok_def ja_ClientModel_ok [simplified])
qed

lemma ja_CoinControlDialog_context: "context_ok 1 (Context ''CoinControlDialog'' (ja_CoinControlDialog_1 @ ja_CoinControlDialog_2))"
proof -
  have "distinct (map checksum (ja_CoinControlDialog_1 @ ja_CoinControlDialog_2))" by code_simp
  then have "distinct (map key (ja_CoinControlDialog_1 @ ja_CoinControlDialog_2))" by (rule distinct_checksums)
  then show ?thesis by (simp add: context_ok_def ja_CoinControlDialog_1_ok [simplified] ja_CoinControlDialog_2_ok [simplified])
qed

lemma ja_EditAddressDialog_context: "context_ok 1 (Context ''EditAddressDialog'' (ja_EditAddressDialog))"
proof -
  have "distinct (map checksum (ja_EditAddressDialog))" by code_simp
  then have "distinct (map key (ja_EditAddressDialog))" by (rule distinct_checksums)
  then show ?thesis by (simp add: context_ok_def ja_EditAddressDialog_ok [simplified])
qed

lemma ja_GUIUtil_HelpMessageBox_context: "context_ok 1 (Context ''GUIUtil::HelpMessageBox'' (ja_GUIUtil_HelpMessageBox))"
proof -
  have "distinct (map checksum (ja_GUIUtil_HelpMessageBox))" by code_simp
  then have "distinct (map key (ja_GUIUtil_HelpMessageBox))" by (rule distinct_checksums)
  then show ?thesis by (simp add: context_ok_def ja_GUIUtil_HelpMessageBox_ok [simplified])
qed

lemma ja_OptionsDialog_context: "context_ok 1 (Context ''OptionsDialog'' (ja_OptionsDialog_1 @ ja_OptionsDialog_2))"
proof -
  have "distinct (map checksum (ja_OptionsDialog_1 @ ja_OptionsDialog_2))" by code_simp
  then have "distinct (map key (ja_OptionsDialog_1 @ ja_OptionsDialog_2))" by (rule distinct_checksums)
  then show ?thesis by (simp add: context_ok_def ja_OptionsDialog_1_ok [simplified] ja_OptionsDialog_2_ok [simplified])
qed

lemma ja_OverviewPage_context: "context_ok 1 (Context ''OverviewPage'' (ja_OverviewPage))"
proof -
  have "distinct (map checksum (ja_OverviewPage))" by code_simp
  then have "distinct (map key (ja_OverviewPage))" by (rule distinct_checksums)
  then show ?thesis by (simp add: context_ok_def ja_OverviewPage_ok [simplified])
qed

lemma ja_QRCodeDialog_context: "context_ok 1 (Context ''QRCodeDialog'' (ja_QRCodeDialog))"
proof -
  have "distinct (map checksum (ja_QRCodeDialog))" by code_simp
  then have "distinct (map key (ja_QRCodeDialog))" by (rule distinct_checksums)
  then show ?thesis by (simp add: context_ok_def ja_QRCodeDialog_ok [simplified])
qed

lemma ja_RPCConsole_context: "context_ok 1 (Context ''RPCConsole'' (ja_RPCConsole))"
proof -
  have "distinct (map checksum (ja_RPCConsole))" by code_simp
  then have "distinct (map key (ja_RPCConsole))" by (rule distinct_checksums)
  then show ?thesis by (simp add: context_ok_def ja_RPCConsole_ok [simplified])
qed

lemma ja_SendCoinsDialog_context: "context_ok 1 (Context ''SendCoinsDialog'' (ja_SendCoinsDialog_1 @ ja_SendCoinsDialog_2))"
proof -
  have "distinct (map checksum (ja_SendCoinsDialog_1 @ ja_SendCoinsDialog_2))" by code_simp
  then have "distinct (map key (ja_SendCoinsDialog_1 @ ja_SendCoinsDialog_2))" by (rule distinct_checksums)
  then show ?thesis by (simp add: context_ok_def ja_SendCoinsDialog_1_ok [simplified] ja_SendCoinsDialog_2_ok [simplified])
qed

lemma ja_SendCoinsEntry_context: "context_ok 1 (Context ''SendCoinsEntry'' (ja_SendCoinsEntry))"
proof -
  have "distinct (map checksum (ja_SendCoinsEntry))" by code_simp
  then have "distinct (map key (ja_SendCoinsEntry))" by (rule distinct_checksums)
  then show ?thesis by (simp add: context_ok_def ja_SendCoinsEntry_ok [simplified])
qed

lemma ja_SignVerifyMessageDialog_context: "context_ok 1 (Context ''SignVerifyMessageDialog'' (ja_SignVerifyMessageDialog_1 @ ja_SignVerifyMessageDialog_2))"
proof -
  have "distinct (map checksum (ja_SignVerifyMessageDialog_1 @ ja_SignVerifyMessageDialog_2))" by code_simp
  then have "distinct (map key (ja_SignVerifyMessageDialog_1 @ ja_SignVerifyMessageDialog_2))" by (rule distinct_checksums)
  then show ?thesis by (simp add: context_ok_def ja_SignVerifyMessageDialog_1_ok [simplified] ja_SignVerifyMessageDialog_2_ok [simplified])
qed

lemma ja_TransactionDesc_context: "context_ok 1 (Context ''TransactionDesc'' (ja_TransactionDesc_1 @ ja_TransactionDesc_2))"
proof -
  have "distinct (map checksum (ja_TransactionDesc_1 @ ja_TransactionDesc_2))" by code_simp
  then have "distinct (map key (ja_TransactionDesc_1 @ ja_TransactionDesc_2))" by (rule distinct_checksums)
  then show ?thesis by (simp add: context_ok_def ja_TransactionDesc_1_ok [simplified] ja_TransactionDesc_2_ok [simplified])
qed

lemma ja_TransactionDescDialog_context: "context_ok 1 (Context ''TransactionDescDialog'' (ja_TransactionDescDialog))"
proof -
  have "distinct (map checksum (ja_TransactionDescDialog))" by code_simp
  then have "distinct (map key (ja_TransactionDescDialog))" by (rule distinct_checksums)
  then show ?thesis by (simp add: context_ok_def ja_TransactionDescDialog_ok [simplified])
qed

lemma ja_TransactionTableModel_context: "context_ok 1 (Context ''TransactionTableModel'' (ja_TransactionTableModel))"
proof -
  have "distinct (map checksum (ja_TransactionTableModel))" by code_simp
  then have "distinct (map key (ja_TransactionTableModel))" by (rule distinct_checksums)
  then show ?thesis by (simp add: context_ok_def ja_TransactionTableModel_ok [simplified])
qed

lemma ja_TransactionView_context: "context_ok 1 (Context ''TransactionView'' (ja_TransactionView_1 @ ja_TransactionView_2))"
proof -
  have "distinct (map checksum (ja_TransactionView_1 @ ja_TransactionView_2))" by code_simp
  then have "distinct (map key (ja_TransactionView_1 @ ja_TransactionView_2))" by (rule distinct_checksums)
  then show ?thesis by (simp add: context_ok_def ja_TransactionView_1_ok [simplified] ja_TransactionView_2_ok [simplified])
qed

lemma ja_WalletModel_context: "context_ok 1 (Context ''WalletModel'' (ja_WalletModel))"
proof -
  have "distinct (map checksum (ja_WalletModel))" by code_simp
  then have "distinct (map key (ja_WalletModel))" by (rule distinct_checksums)
  then show ?thesis by (simp add: context_ok_def ja_WalletModel_ok [simplified])
qed

lemma ja_bitcoin_core_context: "context_ok 1 (Context ''bitcoin-core'' (ja_bitcoin_core_1 @ ja_bitcoin_core_2 @ ja_bitcoin_core_3 @ ja_bitcoin_core_4 @ ja_bitcoin_core_5))"
proof -
  have "distinct (map checksum (ja_bitcoin_core_1 @ ja_bitcoin_core_2 @ ja_bitcoin_core_3 @ ja_bitcoin_core_4 @ ja_bitcoin_core_5))" by code_simp
  then have "distinct (map key (ja_bitcoin_core_1 @ ja_bitcoin_core_2 @ ja_bitcoin_core_3 @ ja_bitcoin_core_4 @ ja_bitcoin_core_5))" by (rule distinct_checksums)
  then show ?thesis by (simp add: context_ok_def ja_bitcoin_core_1_ok [simplified] ja_bitcoin_core_2_ok [simplified] ja_bitcoin_core_3_ok [simplified] ja_bitcoin_core_4_ok [simplified] ja_bitcoin_core_5_ok [simplified])
qed

lemma ja_contexts_ok: "catalogue_ok 1 ja_contexts"
proof -
  have "distinct (map ctx_name ja_contexts)" by (simp add: ja_contexts_def)
  moreover have "list_all (context_ok 1) ja_contexts"
    unfolding ja_contexts_def list.pred_inject(2)
    by (intro conjI list.pred_inject(1) ja_AboutDialog_context ja_AddressBookPage_context ja_AddressTableModel_context ja_AskPassphraseDialog_context
        ja_BitcoinGUI_context ja_ClientModel_context ja_CoinControlDialog_context ja_EditAddressDialog_context
        ja_GUIUtil_HelpMessageBox_context ja_OptionsDialog_context ja_OverviewPage_context ja_QRCodeDialog_context
        ja_RPCConsole_context ja_SendCoinsDialog_context ja_SendCoinsEntry_context ja_SignVerifyMessageDialog_context
        ja_TransactionDesc_context ja_TransactionDescDialog_context ja_TransactionTableModel_context ja_TransactionView_context
        ja_WalletModel_context ja_bitcoin_core_context)
  ultimately show ?thesis by (simp add: catalogue_ok_def)
qed

end
