(* ===== verification/Catalogue_ka.thy ===== *)
theory Catalogue_ka
  imports Catalogue
begin

text \<open>
  The Georgian catalogue, \<open>src/src/qt/locale/bitcoin_ka.ts\<close>: one definition per context (several for a
  long context), in the order of the file. The language has one plural form. The catalogue is
  unfinished: an element marked \<open>unfinished\<close> has no text, and no other element lacks one, so the
  marker is the empty text. One finished translation changes a substitution mark.
\<close>

section \<open>The messages\<close>

definition ka_AboutDialog :: "ts_message list" where
  "ka_AboutDialog = [
     Message [(Some ''../forms/aboutdialog.ui'', 14)] False [A ''About MotaCoin''] [[]],
     Message [(None, 39)] False [A ''<b>MotaCoin</b> version''] [[]],
     Message [(None, 41)] False [A ''Copyright '', U [0xA9], A '' 2009-14 The Bitcoin developers'', U [0xA], A
       ''Copyright '', U [0xA9], A '' 2012-14 The NovaCoin developers'', U [0xA], A ''Copyright '', U [0xA9], A
       '' 2014-20 The MotaCoin developers''] [[]],
     Message [(None, 15)] False [U [0xA], A ''This is experimental software.'', U [0xA, 0xA], A
       ''Distributed under the MIT/X11 software license, see the accompanying file COPYING or http://www.opensource.org/licenses/mit-license.php.''
       , U [0xA, 0xA], A
       ''This product includes software developed by the OpenSSL Project for use in the OpenSSL Toolkit (http://www.openssl.org/) and cryptographic software written by Eric Young (eay''
       , U [0x40], A ''cryptsoft.com) and UPnP software written by Thomas Bernard.''] [[U [0xA, 0x10DE, 0x10E0,
       0x10DD, 0x10D2, 0x10E0, 0x10D0, 0x10DB, 0x10D0], A '' '', U [0x10D4, 0x10E5, 0x10E1, 0x10DE, 0x10D4, 0x10E0,
       0x10D8, 0x10DB, 0x10D4, 0x10DC, 0x10E2, 0x10E3, 0x10DA, 0x10D8, 0x10D0], A ''.'', U [0xA, 0xA, 0x10D5, 0x10E0,
       0x10EA, 0x10D4, 0x10DA, 0x10D3, 0x10D4, 0x10D1, 0x10D0], A '' MIT/X11 '', U [0x10DA, 0x10D8, 0x10EA, 0x10D4,
       0x10DC, 0x10D6, 0x10D8, 0x10D8, 0x10D7], A '', '', U [0x10D8, 0x10EE, 0x10D8, 0x10DA, 0x10D4], A '' '', U
       [0x10D7, 0x10D0, 0x10DC, 0x10D3, 0x10D0, 0x10E0, 0x10D7, 0x10E3, 0x10DA, 0x10D8], A '' '', U [0x10E4, 0x10D0,
       0x10D8, 0x10DA, 0x10D8], A '' COPYING '', U [0x10D0, 0x10DC], A
       '' http://www.opensource.org/licenses/mit-license.php.'', U [0xA, 0xA, 0x10DE, 0x10E0, 0x10DD, 0x10D3, 0x10E3,
       0x10E5, 0x10E2, 0x10D8], A '' '', U [0x10E8, 0x10D4, 0x10D8, 0x10EA, 0x10D0, 0x10D5, 0x10E1], A '' OpenSSL '',
       U [0x10DE, 0x10E0, 0x10DD, 0x10D4, 0x10E5, 0x10E2, 0x10D8, 0x10E1], A '' '', U [0x10E4, 0x10D0, 0x10E0,
       0x10D2, 0x10DA, 0x10D4, 0x10D1, 0x10E8, 0x10D8], A '' '', U [0x10E8, 0x10D4, 0x10DB, 0x10E3, 0x10E8, 0x10D0,
       0x10D5, 0x10D4, 0x10D1, 0x10E3, 0x10DA], A '' '', U [0x10DE, 0x10E0, 0x10DD, 0x10D2, 0x10E0, 0x10D0, 0x10DB,
       0x10E3, 0x10DA], A '' '', U [0x10E3, 0x10D6, 0x10E0, 0x10E3, 0x10DC, 0x10D5, 0x10D4, 0x10DA, 0x10E7, 0x10DD,
       0x10E4, 0x10D0, 0x10E1], A '' OpenSSL Toolkit-'', U [0x10E8, 0x10D8], A '' '', U [0x10D2, 0x10D0, 0x10DB,
       0x10DD, 0x10E7, 0x10D4, 0x10DC, 0x10D4, 0x10D1, 0x10D8, 0x10E1, 0x10D0, 0x10D7, 0x10D5, 0x10D8, 0x10E1], A
       '' (http://www.openssl.org/), '', U [0x10D9, 0x10E0, 0x10D8, 0x10DE, 0x10E2, 0x10DD, 0x10D2, 0x10E0, 0x10D0,
       0x10E4, 0x10D8, 0x10E3, 0x10DA], A '' '', U [0x10DE, 0x10E0, 0x10DD, 0x10D2, 0x10E0, 0x10D0, 0x10DB, 0x10D0,
       0x10E1], A '', '', U [0x10D0, 0x10D5, 0x10E2, 0x10DD, 0x10E0, 0x10D8], A '' '', U [0x10D4, 0x10E0, 0x10D8,
       0x10E5], A '' '', U [0x10D8, 0x10D0, 0x10DC, 0x10D2, 0x10D8], A '' (Eric Young, eay'', U [0x40], A
       ''cryptsoft.com) '', U [0x10D3, 0x10D0], A '' UPnP-'', U [0x10DE, 0x10E0, 0x10DD, 0x10D2, 0x10E0, 0x10D0,
       0x10DB, 0x10D0, 0x10E1], A '', '', U [0x10D0, 0x10D5, 0x10E2, 0x10DD, 0x10E0, 0x10D8], A '' '', U [0x10D7,
       0x10DD, 0x10DB, 0x10D0, 0x10E1], A '' '', U [0x10D1, 0x10D4, 0x10E0, 0x10DC, 0x10D0, 0x10E0, 0x10D3, 0x10D8],
       A '' (Thomas Bernard).'']]]"

definition ka_AddressBookPage :: "ts_message list" where
  "ka_AddressBookPage = [
     Message [(Some ''../forms/addressbookpage.ui'', 14)] False [A ''Address Book''] [[]],
     Message [(None, 22)] False [A ''Double-click to edit address or label''] [[U [0x10D3, 0x10D0, 0x10D0, 0x10D9,
       0x10DA, 0x10D8, 0x10D9, 0x10D4, 0x10D7], A '' '', U [0x10DD, 0x10E0, 0x10EF, 0x10D4, 0x10E0], A '' '', U
       [0x10DB, 0x10D8, 0x10E1, 0x10D0, 0x10DB, 0x10D0, 0x10E0, 0x10D7, 0x10D8, 0x10E1], A '' '', U [0x10D0, 0x10DC],
       A '' '', U [0x10DC, 0x10D8, 0x10E8, 0x10DC, 0x10E3, 0x10DA, 0x10D8, 0x10E1], A '' '', U [0x10E8, 0x10D4,
       0x10E1, 0x10D0, 0x10EA, 0x10D5, 0x10DA, 0x10D4, 0x10DA, 0x10D0, 0x10D3]]],
     Message [(None, 27)] False [A ''Create a new address''] [[U [0x10D0, 0x10EE, 0x10D0, 0x10DA, 0x10D8], A '' '', U
       [0x10DB, 0x10D8, 0x10E1, 0x10D0, 0x10DB, 0x10D0, 0x10E0, 0x10D7, 0x10D8, 0x10E1], A '' '', U [0x10E8, 0x10D4,
       0x10E5, 0x10DB, 0x10DC, 0x10D0]]],
     Message [(None, 14)] False [A ''Copy the currently selected address to the system clipboard''] [[U [0x10DB,
       0x10DD, 0x10DC, 0x10D8, 0x10E8, 0x10DC, 0x10E3, 0x10DA, 0x10D8], A '' '', U [0x10DB, 0x10D8, 0x10E1, 0x10D0,
       0x10DB, 0x10D0, 0x10E0, 0x10D7, 0x10D8, 0x10E1], A '' '', U [0x10D9, 0x10DD, 0x10DE, 0x10D8, 0x10E0, 0x10D4,
       0x10D1, 0x10D0], A '' '', U [0x10E1, 0x10D8, 0x10E1, 0x10E2, 0x10D4, 0x10DB, 0x10E3, 0x10E0], A '' '', U
       [0x10D9, 0x10DA, 0x10D8, 0x10DE, 0x10D1, 0x10DD, 0x10E0, 0x10D3, 0x10E8, 0x10D8]]],
     Message [(None, -11)] False [A ''&New''] [[]],
     Message [(None, -46)] False [A
       ''These are your MotaCoin addresses for receiving payments. You may want to give a different one to each sender so you can keep track of who is paying you.''
       ] [[]],
     Message [(None, 60)] False [A ''&Copy Address''] [[A ''&'', U [0x10DB, 0x10D8, 0x10E1, 0x10D0, 0x10DB, 0x10D0,
       0x10E0, 0x10D7, 0x10D8, 0x10E1], A '' '', U [0x10D9, 0x10DD, 0x10DE, 0x10D8, 0x10E0, 0x10D4, 0x10D1, 0x10D0]]],
     Message [(None, 11)] False [A ''Show &QR Code''] [[]],
     Message [(None, 11)] False [A ''Sign a message to prove you own a MotaCoin address''] [[]],
     Message [(None, 3)] False [A ''Sign &Message''] [[]],
     Message [(None, 25)] False [A ''Delete the currently selected address from the list''] [[U [0x10DB, 0x10DD,
       0x10DC, 0x10D8, 0x10E8, 0x10DC, 0x10E3, 0x10DA, 0x10D8], A '' '', U [0x10DB, 0x10D8, 0x10E1, 0x10D0, 0x10DB,
       0x10D0, 0x10E0, 0x10D7, 0x10D8, 0x10E1], A '' '', U [0x10EC, 0x10D0, 0x10E8, 0x10DA, 0x10D0], A '' '', U
       [0x10E1, 0x10D8, 0x10D8, 0x10D3, 0x10D0, 0x10DC]]],
     Message [(None, -14)] False [A ''Verify a message to ensure it was signed with a specified MotaCoin address'']
       [[]],
     Message [(None, 3)] False [A ''&Verify Message''] [[]],
     Message [(None, 14)] False [A ''&Delete''] [[A ''&'', U [0x10EC, 0x10D0, 0x10E8, 0x10DA, 0x10D0]]],
     Message [(Some ''../addressbookpage.cpp'', 65)] False [A ''Copy &Label''] [[U [0x10DC, 0x10D8, 0x10E8, 0x10DC,
       0x10E3], A ''&'', U [0x10DA, 0x10D8, 0x10E1], A '' '', U [0x10D9, 0x10DD, 0x10DE, 0x10D8, 0x10E0, 0x10D4,
       0x10D1, 0x10D0]]],
     Message [(None, 2)] False [A ''&Edit''] [[U [0x10E0], A ''&'', U [0x10D4, 0x10D3, 0x10D0, 0x10E5, 0x10E2,
       0x10D8, 0x10E0, 0x10D4, 0x10D1, 0x10D0]]],
     Message [(None, 250)] False [A ''Export Address Book Data''] [[]],
     Message [(None, 1)] False [A ''Comma separated file (*.csv)''] [[A ''CSV-'', U [0x10E4, 0x10D0, 0x10D8, 0x10DA,
       0x10D8], A '' (*.csv)'']],
     Message [(None, 13)] False [A ''Error exporting''] [[]],
     Message [(None, 0)] False [A ''Could not write to file %1.''] [[]]]"

definition ka_AddressTableModel :: "ts_message list" where
  "ka_AddressTableModel = [
     Message [(Some ''../addresstablemodel.cpp'', 144)] False [A ''Label''] [[U [0x10DC, 0x10D8, 0x10E8, 0x10DC,
       0x10E3, 0x10DA, 0x10D8]]],
     Message [(None, 0)] False [A ''Address''] [[U [0x10DB, 0x10D8, 0x10E1, 0x10D0, 0x10DB, 0x10D0, 0x10E0, 0x10D7,
       0x10D8]]],
     Message [(None, 36)] False [A ''(no label)''] [[A ''('', U [0x10D0, 0x10E0], A '' '', U [0x10D0, 0x10E0, 0x10D8,
       0x10E1], A '' '', U [0x10DC, 0x10D8, 0x10E8, 0x10DC, 0x10E3, 0x10DA, 0x10D8], A '')'']]]"

definition ka_AskPassphraseDialog_1 :: "ts_message list" where
  "ka_AskPassphraseDialog_1 = [
     Message [(Some ''../forms/askpassphrasedialog.ui'', 26)] False [A ''Passphrase Dialog''] [[U [0x10E4, 0x10E0,
       0x10D0, 0x10D6, 0x10D0], A ''-'', U [0x10DE, 0x10D0, 0x10E0, 0x10DD, 0x10DA, 0x10D8, 0x10E1], A '' '', U
       [0x10D3, 0x10D8, 0x10D0, 0x10DA, 0x10DD, 0x10D2, 0x10D8]]],
     Message [(None, 21)] False [A ''Enter passphrase''] [[U [0x10E8, 0x10D4, 0x10D8, 0x10E7, 0x10D5, 0x10D0, 0x10DC,
       0x10D4, 0x10D7], A '' '', U [0x10E4, 0x10E0, 0x10D0, 0x10D6, 0x10D0], A ''-'', U [0x10DE, 0x10D0, 0x10E0,
       0x10DD, 0x10DA, 0x10D8]]],
     Message [(None, 14)] False [A ''New passphrase''] [[U [0x10D0, 0x10EE, 0x10D0, 0x10DA, 0x10D8], A '' '', U
       [0x10E4, 0x10E0, 0x10D0, 0x10D6, 0x10D0], A ''-'', U [0x10DE, 0x10D0, 0x10E0, 0x10DD, 0x10DA, 0x10D8]]],
     Message [(None, 14)] False [A ''Repeat new passphrase''] [[U [0x10D2, 0x10D0, 0x10D8, 0x10DB, 0x10D4, 0x10DD,
       0x10E0, 0x10D4, 0x10D7], A '' '', U [0x10D0, 0x10EE, 0x10D0, 0x10DA, 0x10D8], A '' '', U [0x10E4, 0x10E0,
       0x10D0, 0x10D6, 0x10D0], A ''-'', U [0x10DE, 0x10D0, 0x10E0, 0x10DD, 0x10DA, 0x10D8]]],
     Message [(None, 33)] False [A
       ''Serves to disable the trivial sendmoney when OS account compromised. Provides no real security.''] [[]],
     Message [(None, 3)] False [A ''For staking only''] [[]],
     Message [(Some ''../askpassphrasedialog.cpp'', 35)] False [A
       ''Enter the new passphrase to the wallet.<br/>Please use a passphrase of <b>10 or more random characters</b>, or <b>eight or more words</b>.''
       ] [[U [0x10E8, 0x10D4, 0x10D8, 0x10E7, 0x10D5, 0x10D0, 0x10DC, 0x10D4, 0x10D7], A '' '', U [0x10E1, 0x10D0,
       0x10E4, 0x10E3, 0x10DA, 0x10D8, 0x10E1], A '' '', U [0x10D0, 0x10EE, 0x10D0, 0x10DA, 0x10D8], A '' '', U
       [0x10E4, 0x10E0, 0x10D0, 0x10D6, 0x10D0], A ''-'', U [0x10DE, 0x10D0, 0x10E0, 0x10DD, 0x10DA, 0x10D8], A
       ''.<br/>'', U [0x10E4, 0x10E0, 0x10D0, 0x10D6, 0x10D0], A ''-'', U [0x10DE, 0x10D0, 0x10E0, 0x10DD, 0x10DA,
       0x10D8], A '' '', U [0x10E8, 0x10D4, 0x10D0, 0x10D3, 0x10D2, 0x10D8, 0x10DC, 0x10D4, 0x10D7], A '' <b>'', U
       [0x10D0, 0x10E0, 0x10D0, 0x10DC, 0x10D0, 0x10D9, 0x10DA, 0x10D4, 0x10D1], A '' 10 '', U [0x10E8, 0x10D4,
       0x10DB, 0x10D7, 0x10EE, 0x10D5, 0x10D4, 0x10D5, 0x10D8, 0x10D7, 0x10D8], A '' '', U [0x10E1, 0x10D8, 0x10DB,
       0x10D1, 0x10DD, 0x10DA, 0x10DD, 0x10E1, 0x10D0, 0x10D2, 0x10D0, 0x10DC], A ''</b>, '', U [0x10D0, 0x10DC], A
       '' <b>'', U [0x10E0, 0x10D5, 0x10D0], A '' '', U [0x10D3, 0x10D0], A '' '', U [0x10DB, 0x10D4, 0x10E2,
       0x10D8], A '' '', U [0x10E1, 0x10D8, 0x10E2, 0x10E7, 0x10D5, 0x10D8, 0x10E1, 0x10D0, 0x10D2, 0x10D0, 0x10DC],
       A ''</b>.'']],
     Message [(None, 1)] False [A ''Encrypt wallet''] [[U [0x10E1, 0x10D0, 0x10E4, 0x10E3, 0x10DA, 0x10D8, 0x10E1], A
       '' '', U [0x10D3, 0x10D0, 0x10E8, 0x10D8, 0x10E4, 0x10E0, 0x10D5, 0x10D0]]],
     Message [(None, 7)] False [A ''This operation needs your wallet passphrase to unlock the wallet.''] [[U [0x10D4,
       0x10E1], A '' '', U [0x10DD, 0x10DE, 0x10D4, 0x10E0, 0x10D0, 0x10EA, 0x10D8, 0x10D0], A '' '', U [0x10DB,
       0x10DD, 0x10D8, 0x10D7, 0x10EE, 0x10DD, 0x10D5, 0x10E1], A '' '', U [0x10D7, 0x10E5, 0x10D5, 0x10D4, 0x10DC,
       0x10D8], A '' '', U [0x10E1, 0x10D0, 0x10E4, 0x10E3, 0x10DA, 0x10D8, 0x10E1], A '' '', U [0x10E4, 0x10E0,
       0x10D0, 0x10D6, 0x10D0], A ''-'', U [0x10DE, 0x10D0, 0x10E0, 0x10DD, 0x10DA, 0x10E1], A '' '', U [0x10E1,
       0x10D0, 0x10E4, 0x10E3, 0x10DA, 0x10D8, 0x10E1], A '' '', U [0x10D2, 0x10D0, 0x10DC, 0x10E1, 0x10D0, 0x10D1,
       0x10DA, 0x10DD, 0x10D9, 0x10D0, 0x10D3], A ''.'']],
     Message [(None, 5)] False [A ''Unlock wallet''] [[U [0x10E1, 0x10D0, 0x10E4, 0x10E3, 0x10DA, 0x10D8, 0x10E1], A
       '' '', U [0x10D2, 0x10D0, 0x10DC, 0x10D1, 0x10DA, 0x10DD, 0x10D9, 0x10D5, 0x10D0]]],
     Message [(None, 3)] False [A ''This operation needs your wallet passphrase to decrypt the wallet.''] [[U
       [0x10D4, 0x10E1], A '' '', U [0x10DD, 0x10DE, 0x10D4, 0x10E0, 0x10D0, 0x10EA, 0x10D8, 0x10D0], A '' '', U
       [0x10DB, 0x10DD, 0x10D8, 0x10D7, 0x10EE, 0x10DD, 0x10D5, 0x10E1], A '' '', U [0x10D7, 0x10E5, 0x10D5, 0x10D4,
       0x10DC, 0x10D8], A '' '', U [0x10E1, 0x10D0, 0x10E4, 0x10E3, 0x10DA, 0x10D8, 0x10E1], A '' '', U [0x10E4,
       0x10E0, 0x10D0, 0x10D6, 0x10D0], A ''-'', U [0x10DE, 0x10D0, 0x10E0, 0x10DD, 0x10DA, 0x10E1], A '' '', U
       [0x10E1, 0x10D0, 0x10E4, 0x10E3, 0x10DA, 0x10D8, 0x10E1], A '' '', U [0x10D2, 0x10D0, 0x10E1, 0x10D0, 0x10E8,
       0x10D8, 0x10E4, 0x10E0, 0x10D0, 0x10D3], A ''.'']],
     Message [(None, 5)] False [A ''Decrypt wallet''] [[U [0x10E1, 0x10D0, 0x10E4, 0x10E3, 0x10DA, 0x10D8, 0x10E1], A
       '' '', U [0x10D2, 0x10D0, 0x10E8, 0x10D8, 0x10E4, 0x10E0, 0x10D5, 0x10D0]]],
     Message [(None, 3)] False [A ''Change passphrase''] [[U [0x10E4, 0x10E0, 0x10D0, 0x10D6, 0x10D0], A ''-'', U
       [0x10DE, 0x10D0, 0x10E0, 0x10DD, 0x10DA, 0x10D8, 0x10E1], A '' '', U [0x10E8, 0x10D4, 0x10EA, 0x10D5, 0x10DA,
       0x10D0]]],
     Message [(None, 1)] False [A ''Enter the old and new passphrase to the wallet.''] [[U [0x10E8, 0x10D4, 0x10D8,
       0x10E7, 0x10D5, 0x10D0, 0x10DC, 0x10D4, 0x10D7], A '' '', U [0x10E1, 0x10D0, 0x10E4, 0x10E3, 0x10DA, 0x10D8,
       0x10E1], A '' '', U [0x10EB, 0x10D5, 0x10D4, 0x10DA, 0x10D8], A '' '', U [0x10D3, 0x10D0], A '' '', U [0x10D0,
       0x10EE, 0x10D0, 0x10DA, 0x10D8], A '' '', U [0x10E4, 0x10E0, 0x10D0, 0x10D6, 0x10D0], A ''-'', U [0x10DE,
       0x10D0, 0x10E0, 0x10DD, 0x10DA, 0x10D8], A ''.'']],
     Message [(None, 46)] False [A ''Confirm wallet encryption''] [[U [0x10D3, 0x10D0, 0x10D0, 0x10D3, 0x10D0,
       0x10E1, 0x10E2, 0x10E3, 0x10E0, 0x10D4, 0x10D7], A '' '', U [0x10E1, 0x10D0, 0x10E4, 0x10E3, 0x10DA, 0x10D8,
       0x10E1], A '' '', U [0x10D3, 0x10D0, 0x10E8, 0x10D8, 0x10E4, 0x10E0, 0x10D5, 0x10D0]]],
     Message [(None, 1)] False [A
       ''Warning: If you encrypt your wallet and lose your passphrase, you will <b>LOSE ALL OF YOUR COINS</b>!''] [[]],
     Message [(None, 0)] False [A ''Are you sure you wish to encrypt your wallet?''] [[U [0x10D3, 0x10D0, 0x10E0,
       0x10EC, 0x10DB, 0x10E3, 0x10DC, 0x10D4, 0x10D1, 0x10E3, 0x10DA, 0x10D8], A '' '', U [0x10EE, 0x10D0, 0x10E0,
       0x10D7], A '', '', U [0x10E0, 0x10DD, 0x10DB], A '' '', U [0x10D2, 0x10D8, 0x10DC, 0x10D3, 0x10D0, 0x10D7], A
       '' '', U [0x10E1, 0x10D0, 0x10E4, 0x10E3, 0x10DA, 0x10D8, 0x10E1], A '' '', U [0x10D3, 0x10D0, 0x10E8, 0x10D8,
       0x10E4, 0x10E0, 0x10D5, 0x10D0], A ''?'']],
     Message [(None, 15)] False [A
       ''IMPORTANT: Any previous backups you have made of your wallet file should be replaced with the newly generated, encrypted wallet file. For security reasons, previous backups of the unencrypted wallet file will become useless as soon as you start using the new, encrypted wallet.''
       ] [[U [0x10DB, 0x10DC, 0x10D8, 0x10E8, 0x10D5, 0x10DC, 0x10D4, 0x10DA, 0x10DD, 0x10D5, 0x10D0, 0x10DC, 0x10D8,
       0x10D0], A '': '', U [0x10D7, 0x10E5, 0x10D5, 0x10D4, 0x10DC, 0x10D8], A '' '', U [0x10E1, 0x10D0, 0x10E4,
       0x10E3, 0x10DA, 0x10D8, 0x10E1], A '' '', U [0x10E7, 0x10D5, 0x10D4, 0x10DA, 0x10D0], A '' '', U [0x10D0,
       0x10D3, 0x10E0, 0x10D8, 0x10DC, 0x10D3, 0x10D4, 0x10DA, 0x10D8], A '' '', U [0x10D0, 0x10E0, 0x10E5, 0x10D8,
       0x10D5, 0x10D8], A '' '', U [0x10E8, 0x10D4, 0x10D8, 0x10EA, 0x10D5, 0x10DA, 0x10D4, 0x10D1, 0x10D0], A '' '',
       U [0x10D0, 0x10EE, 0x10DA, 0x10D0, 0x10D3, 0x10D2, 0x10D4, 0x10DC, 0x10D4, 0x10E0, 0x10D8, 0x10E0, 0x10D4,
       0x10D1, 0x10E3, 0x10DA, 0x10D8], A '' '', U [0x10D3, 0x10D0, 0x10E8, 0x10D8, 0x10E4, 0x10E0, 0x10E3, 0x10DA,
       0x10D8], A '' '', U [0x10E1, 0x10D0, 0x10E4, 0x10E3, 0x10DA, 0x10D8, 0x10E1], A '' '', U [0x10E4, 0x10D0,
       0x10D8, 0x10DA, 0x10D8, 0x10D7], A ''. '', U [0x10E3, 0x10E1, 0x10D0, 0x10E4, 0x10E0, 0x10D7, 0x10EE, 0x10DD,
       0x10D4, 0x10D1, 0x10D8, 0x10E1], A '' '', U [0x10DB, 0x10DD, 0x10E1, 0x10D0, 0x10D6, 0x10E0, 0x10D4, 0x10D1,
       0x10D4, 0x10D1, 0x10D8, 0x10D7], A '' '', U [0x10D3, 0x10D0, 0x10E3, 0x10E8, 0x10D8, 0x10E4, 0x10E0, 0x10D0,
       0x10D5, 0x10D8], A '' '', U [0x10E1, 0x10D0, 0x10E4, 0x10E3, 0x10DA, 0x10D8, 0x10E1], A '' '', U [0x10EB,
       0x10D5, 0x10D4, 0x10DA, 0x10D8], A '' '', U [0x10D0, 0x10E0, 0x10E5, 0x10D8, 0x10D5, 0x10D4, 0x10D1, 0x10D8],
       A '' '', U [0x10EB, 0x10D0, 0x10DA, 0x10D0, 0x10E1], A '' '', U [0x10D3, 0x10D0, 0x10D9, 0x10D0, 0x10E0,
       0x10D2, 0x10D0, 0x10D5, 0x10E1], A '', '', U [0x10E0, 0x10DD, 0x10D2, 0x10DD, 0x10E0, 0x10EA], A '' '', U
       [0x10D9, 0x10D8], A '' '', U [0x10D3, 0x10D0, 0x10D8, 0x10EC, 0x10E7, 0x10D4, 0x10D1, 0x10D7], A '' '', U
       [0x10D0, 0x10EE, 0x10D0, 0x10DA, 0x10D8], A '', '', U [0x10D3, 0x10D0, 0x10E8, 0x10D8, 0x10E4, 0x10E0, 0x10E3,
       0x10DA, 0x10D8], A '' '', U [0x10E1, 0x10D0, 0x10E4, 0x10E3, 0x10DA, 0x10D8, 0x10E1], A '' '', U [0x10D2,
       0x10D0, 0x10DB, 0x10DD, 0x10E7, 0x10D4, 0x10DC, 0x10D4, 0x10D1, 0x10D0, 0x10E1], A ''.'']],
     Message [(None, 103), (None, 24)] False [A ''Warning: The Caps Lock key is on!''] [[U [0x10E7, 0x10E3, 0x10E0,
       0x10D0, 0x10D3, 0x10E6, 0x10D4, 0x10D1, 0x10D0], A '': '', U [0x10E9, 0x10D0, 0x10E0, 0x10D7, 0x10E3, 0x10DA,
       0x10D8, 0x10D0], A '' Caps Lock '', U [0x10E0, 0x10D4, 0x10DF, 0x10D8, 0x10DB, 0x10D8], A ''!'']],
     Message [(None, -133), (None, 60)] False [A ''Wallet encrypted''] [[U [0x10E1, 0x10D0, 0x10E4, 0x10E3, 0x10DA,
       0x10D4], A '' '', U [0x10D3, 0x10D0, 0x10E8, 0x10D8, 0x10E4, 0x10E0, 0x10E3, 0x10DA, 0x10D8, 0x10D0]]],
     Message [(None, -58)] False [A
       ''MotaCoin will close now to finish the encryption process. Remember that encrypting your wallet cannot fully protect your coins from being stolen by malware infecting your computer.''
       ] [[]],
     Message [(None, 13), (None, 7), (None, 44), (None, 6)] False [A ''Wallet encryption failed''] [[U [0x10D5,
       0x10D4, 0x10E0], A '' '', U [0x10DB, 0x10DD, 0x10EE, 0x10D4, 0x10E0, 0x10EE, 0x10D3, 0x10D0], A '' '', U
       [0x10E1, 0x10D0, 0x10E4, 0x10E3, 0x10DA, 0x10D8, 0x10E1], A '' '', U [0x10D3, 0x10D0, 0x10E8, 0x10D8, 0x10E4,
       0x10E0, 0x10D5, 0x10D0]]],
     Message [(None, -56)] False [A
       ''Wallet encryption failed due to an internal error. Your wallet was not encrypted.''] [[U [0x10E1, 0x10D0,
       0x10E4, 0x10E3, 0x10DA, 0x10D8, 0x10E1], A '' '', U [0x10D3, 0x10D0, 0x10E8, 0x10D8, 0x10E4, 0x10E0, 0x10D5,
       0x10D0], A '' '', U [0x10D5, 0x10D4, 0x10E0], A '' '', U [0x10DB, 0x10DD, 0x10EE, 0x10D4, 0x10E0, 0x10EE,
       0x10D3, 0x10D0], A '' '', U [0x10E1, 0x10D8, 0x10E1, 0x10E2, 0x10D4, 0x10DB, 0x10D0, 0x10E8, 0x10D8], A '' '',
       U [0x10E8, 0x10D4, 0x10EA, 0x10D3, 0x10DD, 0x10DB, 0x10D8, 0x10E1], A '' '', U [0x10D2, 0x10D0, 0x10DB,
       0x10DD], A ''. '', U [0x10D7, 0x10E5, 0x10D5, 0x10D4, 0x10DC, 0x10D8], A '' '', U [0x10E1, 0x10D0, 0x10E4,
       0x10E3, 0x10DA, 0x10D4], A '' '', U [0x10D0, 0x10E0], A '' '', U [0x10D0, 0x10E0, 0x10D8, 0x10E1], A '' '', U
       [0x10D3, 0x10D0, 0x10E8, 0x10E4, 0x10E0, 0x10E3, 0x10DA, 0x10D8], A ''.'']],
     Message [(None, 7), (None, 50)] False [A ''The supplied passphrases do not match.''] [[U [0x10E4, 0x10E0,
       0x10D0, 0x10D6, 0x10D0], A ''-'', U [0x10DE, 0x10D0, 0x10E0, 0x10DD, 0x10DA, 0x10D4, 0x10D1, 0x10D8], A '' '',
       U [0x10D0, 0x10E0], A '' '', U [0x10D4, 0x10DB, 0x10D7, 0x10EE, 0x10D5, 0x10D4, 0x10D5, 0x10D0], A '' '', U
       [0x10D4, 0x10E0, 0x10D7, 0x10DB, 0x10D0, 0x10DC, 0x10D4, 0x10D7, 0x10E1], A ''.'']],
     Message [(None, -38)] False [A ''Wallet unlock failed''] [[U [0x10E1, 0x10D0, 0x10E4, 0x10E3, 0x10DA, 0x10D8,
       0x10E1], A '' '', U [0x10D2, 0x10D0, 0x10DC, 0x10D1, 0x10DA, 0x10DD, 0x10D9, 0x10D5, 0x10D0], A '' '', U
       [0x10D5, 0x10D4, 0x10E0], A '' '', U [0x10DB, 0x10DD, 0x10EE, 0x10D4, 0x10E0, 0x10EE, 0x10D3, 0x10D0]]],
     Message [(None, 1), (None, 12), (None, 19)] False [A
       ''The passphrase entered for the wallet decryption was incorrect.''] [[U [0x10E1, 0x10D0, 0x10E4, 0x10E3,
       0x10DA, 0x10D8, 0x10E1], A '' '', U [0x10D2, 0x10D0, 0x10DC, 0x10E8, 0x10D8, 0x10E4, 0x10E0, 0x10D5, 0x10D8,
       0x10E1], A '' '', U [0x10E4, 0x10E0, 0x10D0, 0x10D6, 0x10D0], A ''-'', U [0x10DE, 0x10D0, 0x10E0, 0x10DD,
       0x10DA, 0x10D8], A '' '', U [0x10D0, 0x10E0, 0x10D0, 0x10EC, 0x10DD, 0x10E0, 0x10D8, 0x10D0]]],
     Message [(None, -20)] False [A ''Wallet decryption failed''] [[U [0x10E1, 0x10D0, 0x10E4, 0x10E3, 0x10DA,
       0x10D8, 0x10E1], A '' '', U [0x10D2, 0x10D0, 0x10DC, 0x10E8, 0x10D8, 0x10E4, 0x10E0, 0x10D5, 0x10D0], A '' '',
       U [0x10D5, 0x10D4, 0x10E0], A '' '', U [0x10DB, 0x10DD, 0x10EE, 0x10D4, 0x10E0, 0x10EE, 0x10D3, 0x10D0]]]]"

definition ka_AskPassphraseDialog_2 :: "ts_message list" where
  "ka_AskPassphraseDialog_2 = [
     Message [(None, 14)] False [A ''Wallet passphrase was successfully changed.''] [[U [0x10E1, 0x10D0, 0x10E4,
       0x10E3, 0x10DA, 0x10D8, 0x10E1], A '' '', U [0x10E4, 0x10E0, 0x10D0, 0x10D6, 0x10D0], A ''-'', U [0x10DE,
       0x10D0, 0x10E0, 0x10DD, 0x10DA, 0x10D8], A '' '', U [0x10E8, 0x10D4, 0x10EA, 0x10D5, 0x10DA, 0x10D8, 0x10DA,
       0x10D8, 0x10D0], A ''.'']]]"

definition ka_BitcoinGUI_1 :: "ts_message list" where
  "ka_BitcoinGUI_1 = [
     Message [(Some ''../bitcoingui.cpp'', 282)] False [A ''Sign &message...''] [[U [0x10EE, 0x10D4, 0x10DA], A ''&''
       , U [0x10DB, 0x10DD, 0x10EC, 0x10D4, 0x10E0, 0x10D0]]],
     Message [(None, 251)] False [A ''Synchronizing with network...''] [[U [0x10E5, 0x10E1, 0x10D4, 0x10DA, 0x10D7,
       0x10D0, 0x10DC], A '' '', U [0x10E1, 0x10D8, 0x10DC, 0x10E5, 0x10E0, 0x10DD, 0x10DC, 0x10D8, 0x10D6, 0x10D4,
       0x10D1, 0x10D0], A ''...'']],
     Message [(None, -319)] False [A ''&Overview''] [[U [0x10DB, 0x10D8, 0x10DB], A ''&'', U [0x10DD, 0x10EE, 0x10D8,
       0x10DA, 0x10D5, 0x10D0]]],
     Message [(None, 1)] False [A ''Show general overview of wallet''] [[U [0x10E1, 0x10D0, 0x10E4, 0x10E3, 0x10DA,
       0x10D8, 0x10E1], A '' '', U [0x10D6, 0x10DD, 0x10D2, 0x10D0, 0x10D3, 0x10D8], A '' '', U [0x10DB, 0x10D8,
       0x10DB, 0x10DD, 0x10EE, 0x10D8, 0x10DA, 0x10D5, 0x10D0]]],
     Message [(None, 17)] False [A ''&Transactions''] [[A ''&'', U [0x10E2, 0x10E0, 0x10D0, 0x10DC, 0x10E1, 0x10D0,
       0x10E5, 0x10EA, 0x10D8, 0x10D4, 0x10D1, 0x10D8]]],
     Message [(None, 1)] False [A ''Browse transaction history''] [[U [0x10E2, 0x10E0, 0x10D0, 0x10DC, 0x10E1,
       0x10D0, 0x10E5, 0x10EA, 0x10D8, 0x10D4, 0x10D1, 0x10D8, 0x10E1], A '' '', U [0x10D8, 0x10E1, 0x10E2, 0x10DD,
       0x10E0, 0x10D8, 0x10D8, 0x10E1], A '' '', U [0x10D3, 0x10D0, 0x10D7, 0x10D5, 0x10D0, 0x10DA, 0x10D8, 0x10D4,
       0x10E0, 0x10D4, 0x10D1, 0x10D0]]],
     Message [(None, 5)] False [A ''&Address Book''] [[]],
     Message [(None, 1)] False [A ''Edit the list of stored addresses and labels''] [[]],
     Message [(None, -13)] False [A ''&Receive coins''] [[]],
     Message [(None, 1)] False [A ''Show the list of addresses for receiving payments''] [[]],
     Message [(None, -7)] False [A ''&Send coins''] [[]],
     Message [(None, 35)] False [A ''E&xit''] [[A ''&'', U [0x10D2, 0x10D0, 0x10E1, 0x10D5, 0x10DA, 0x10D0]]],
     Message [(None, 1)] False [A ''Quit application''] [[U [0x10D2, 0x10D0, 0x10E1, 0x10D5, 0x10DA, 0x10D0]]],
     Message [(None, 6)] False [A ''Show information about MotaCoin''] [[]],
     Message [(None, 2)] False [A ''About &Qt''] [[A ''&Qt-'', U [0x10E1], A '' '', U [0x10E8, 0x10D4, 0x10E1,
       0x10D0, 0x10EE, 0x10D4, 0x10D1]]],
     Message [(None, 1)] False [A ''Show information about Qt''] [[U [0x10D8, 0x10DC, 0x10E4, 0x10DD, 0x10E0, 0x10DB,
       0x10D0, 0x10EA, 0x10D8, 0x10D0], A '' Qt-'', U [0x10E1], A '' '', U [0x10E8, 0x10D4, 0x10E1, 0x10D0, 0x10EE,
       0x10D4, 0x10D1]]],
     Message [(None, 2)] False [A ''&Options...''] [[A ''&'', U [0x10DD, 0x10DE, 0x10EA, 0x10D8, 0x10D4, 0x10D1,
       0x10D8]]],
     Message [(None, 4)] False [A ''&Encrypt Wallet...''] [[U [0x10E1, 0x10D0, 0x10E4, 0x10E3, 0x10DA, 0x10D8,
       0x10E1], A '' &'', U [0x10D3, 0x10D0, 0x10E8, 0x10D8, 0x10E4, 0x10E0, 0x10D5, 0x10D0]]],
     Message [(None, 3)] False [A ''&Backup Wallet...''] [[U [0x10E1, 0x10D0, 0x10E4, 0x10E3, 0x10DA, 0x10D8,
       0x10E1], A '' &'', U [0x10D0, 0x10E0, 0x10E5, 0x10D8, 0x10D5, 0x10D8, 0x10E0, 0x10D4, 0x10D1, 0x10D0]]],
     Message [(None, 2)] False [A ''&Change Passphrase...''] [[U [0x10E4, 0x10E0, 0x10D0, 0x10D6, 0x10D0], A ''-'', U
       [0x10DE, 0x10D0, 0x10E0, 0x10DD, 0x10DA, 0x10D8, 0x10E1], A '' '', U [0x10E8, 0x10D4], A ''&'', U [0x10EA,
       0x10D5, 0x10DA, 0x10D0]]],
     Message [(None, 259)] True [A ''~%n block(s) remaining''] [[]],
     Message [(None, 6)] False [A ''Downloaded %1 of %2 blocks of transaction history (%3% done).''] [[]],
     Message [(None, -256)] False [A ''&Export...''] [[]],
     Message [(None, -64)] False [A ''Send coins to a MotaCoin address''] [[]],
     Message [(None, 47)] False [A ''Modify configuration options for MotaCoin''] [[]],
     Message [(None, 18)] False [A ''Export the data in the current tab to a file''] [[]],
     Message [(None, -14)] False [A ''Encrypt or decrypt wallet''] [[]],
     Message [(None, 3)] False [A ''Backup wallet to another location''] [[U [0x10E1, 0x10D0, 0x10E4, 0x10E3, 0x10DA,
       0x10D8, 0x10E1], A '' '', U [0x10D0, 0x10E0, 0x10E5, 0x10D8, 0x10D5, 0x10D8, 0x10E0, 0x10D4, 0x10D1, 0x10D0],
       A '' '', U [0x10E1, 0x10EE, 0x10D5, 0x10D0], A '' '', U [0x10D0, 0x10D3, 0x10D2, 0x10D8, 0x10DA, 0x10D6,
       0x10D4]]],
     Message [(None, 2)] False [A ''Change the passphrase used for wallet encryption''] [[U [0x10E1, 0x10D0, 0x10E4,
       0x10E3, 0x10DA, 0x10D8, 0x10E1], A '' '', U [0x10D3, 0x10D0, 0x10E8, 0x10D8, 0x10E4, 0x10E0, 0x10D5, 0x10D8,
       0x10E1], A '' '', U [0x10E4, 0x10E0, 0x10D0, 0x10D6, 0x10D0], A ''-'', U [0x10DE, 0x10D0, 0x10E0, 0x10DD,
       0x10DA, 0x10D8, 0x10E1], A '' '', U [0x10E8, 0x10D4, 0x10EA, 0x10D5, 0x10DA, 0x10D0]]]]"

definition ka_BitcoinGUI_2 :: "ts_message list" where
  "ka_BitcoinGUI_2 = [
     Message [(None, 10)] False [A ''&Debug window''] [[U [0x10D3, 0x10D0], A ''&'', U [0x10EE, 0x10D5, 0x10D4,
       0x10EC, 0x10D8, 0x10E1], A '' '', U [0x10E4, 0x10D0, 0x10DC, 0x10EF, 0x10D0, 0x10E0, 0x10D0]]],
     Message [(None, 1)] False [A ''Open debugging and diagnostic console''] [[U [0x10D3, 0x10D0, 0x10EE, 0x10D5,
       0x10D4, 0x10EC, 0x10D8, 0x10E1, 0x10D0], A '' '', U [0x10D3, 0x10D0], A '' '', U [0x10D2, 0x10D8, 0x10D0,
       0x10D2, 0x10DC, 0x10DD, 0x10E1, 0x10E2, 0x10D8, 0x10D9, 0x10D8, 0x10E1], A '' '', U [0x10D9, 0x10DD, 0x10DC,
       0x10E1, 0x10DD, 0x10DA, 0x10D8, 0x10E1], A '' '', U [0x10D2, 0x10D0, 0x10E8, 0x10D5, 0x10D4, 0x10D1, 0x10D0]]],
     Message [(None, -5)] False [A ''&Verify message...''] [[A ''&'', U [0x10D5, 0x10D4, 0x10E0, 0x10D8, 0x10E4,
       0x10D8, 0x10D9, 0x10D0, 0x10EA, 0x10D8, 0x10D0]]],
     Message [(None, -202)] False [A ''MotaCoin''] [[]],
     Message [(None, 0)] False [A ''Wallet''] [[U [0x10E1, 0x10D0, 0x10E4, 0x10E3, 0x10DA, 0x10D4]]],
     Message [(None, 180)] False [A ''&About MotaCoin''] [[]],
     Message [(None, 9)] False [A ''&Show / Hide''] [[A ''&'', U [0x10E9, 0x10D5, 0x10D4, 0x10DC, 0x10D4, 0x10D1,
       0x10D0], A ''/'', U [0x10D3, 0x10D0, 0x10E4, 0x10D0, 0x10E0, 0x10D5, 0x10D0]]],
     Message [(None, 9)] False [A ''Unlock wallet''] [[]],
     Message [(None, 1)] False [A ''&Lock Wallet''] [[]],
     Message [(None, 1)] False [A ''Lock wallet''] [[]],
     Message [(None, 35)] False [A ''&File''] [[A ''&'', U [0x10E4, 0x10D0, 0x10D8, 0x10DA, 0x10D8]]],
     Message [(None, 8)] False [A ''&Settings''] [[A ''&'', U [0x10DE, 0x10D0, 0x10E0, 0x10D0, 0x10DB, 0x10D4,
       0x10E2, 0x10E0, 0x10D4, 0x10D1, 0x10D8]]],
     Message [(None, 8)] False [A ''&Help''] [[A ''&'', U [0x10D3, 0x10D0, 0x10EE, 0x10DB, 0x10D0, 0x10E0, 0x10D4,
       0x10D1, 0x10D0]]],
     Message [(None, 12)] False [A ''Tabs toolbar''] [[U [0x10D1, 0x10D0, 0x10E0, 0x10D0, 0x10D7, 0x10D4, 0x10D1,
       0x10D8, 0x10E1], A '' '', U [0x10DE, 0x10D0, 0x10DC, 0x10D4, 0x10DA, 0x10D8]]],
     Message [(None, 8)] False [A ''Actions toolbar''] [[]],
     Message [(None, 13), (None, 9)] False [A ''[testnet]''] [[A ''[testnet]'']],
     Message [(None, 0), (None, 60)] False [A ''MotaCoin client''] [[]],
     Message [(None, 75)] True [A ''%n active connection(s) to MotaCoin network''] [[]],
     Message [(None, 40)] False [A ''Downloaded %1 blocks of transaction history.''] [[]],
     Message [(None, 413)] False [A
       ''Staking.<br>Your weight is %1<br>Network weight is %2<br>Expected time to earn reward is %3''] [[]],
     Message [(None, 6)] False [A ''Not staking because wallet is locked''] [[]],
     Message [(None, 2)] False [A ''Not staking because wallet is offline''] [[]],
     Message [(None, 2)] False [A ''Not staking because wallet is syncing''] [[]],
     Message [(None, 2)] False [A ''Not staking because you don'', U [0x27], A ''t have mature coins''] [[]],
     Message [(None, -403)] True [A ''%n second(s) ago''] [[]],
     Message [(None, -312)] False [A ''About MotaCoin card''] [[]],
     Message [(None, 1)] False [A ''Show information about MotaCoin card''] [[]],
     Message [(None, 18)] False [A ''&Unlock Wallet...''] [[]],
     Message [(None, 297)] True [A ''%n minute(s) ago''] [[]]]"

definition ka_BitcoinGUI_3 :: "ts_message list" where
  "ka_BitcoinGUI_3 = [
     Message [(None, 4)] True [A ''%n hour(s) ago''] [[]],
     Message [(None, 4)] True [A ''%n day(s) ago''] [[]],
     Message [(None, 6)] False [A ''Up to date''] [[U [0x10D2, 0x10D0, 0x10DC, 0x10D0, 0x10EE, 0x10DA, 0x10D4,
       0x10D1, 0x10E3, 0x10DA, 0x10D8, 0x10D0]]],
     Message [(None, 7)] False [A ''Catching up...''] [[U [0x10E9, 0x10D0, 0x10E0, 0x10D7, 0x10D5, 0x10D0], A ''...''
       ]],
     Message [(None, 10)] False [A ''Last received block was generated %1.''] [[]],
     Message [(None, 59)] False [A
       ''This transaction is over the size limit.  You can still send it for a fee of %1, which goes to the nodes that process your transaction and helps to support the network.  Do you want to pay the fee?''
       ] [[]],
     Message [(None, 5)] False [A ''Confirm transaction fee''] [[]],
     Message [(None, 27)] False [A ''Sent transaction''] [[U [0x10D2, 0x10D0, 0x10D2, 0x10D6, 0x10D0, 0x10D5, 0x10DC,
       0x10D8, 0x10DA, 0x10D8], A '' '', U [0x10E2, 0x10E0, 0x10D0, 0x10DC, 0x10E1, 0x10D0, 0x10E5, 0x10EA, 0x10D8,
       0x10D4, 0x10D1, 0x10D8]]],
     Message [(None, 1)] False [A ''Incoming transaction''] [[U [0x10DB, 0x10D8, 0x10E6, 0x10D4, 0x10D1, 0x10E3,
       0x10DA, 0x10D8], A '' '', U [0x10E2, 0x10E0, 0x10D0, 0x10DC, 0x10E1, 0x10D0, 0x10E5, 0x10EA, 0x10D8, 0x10D4,
       0x10D1, 0x10D8]]],
     Message [(None, 1)] False [A ''Date: %1'', U [0xA], A ''Amount: %2'', U [0xA], A ''Type: %3'', U [0xA], A
       ''Address: %4'', U [0xA]] [[U [0x10D7, 0x10D0, 0x10E0, 0x10D8, 0x10E6, 0x10D8], A '': %1'', U [0xA, 0x10D7,
       0x10D0, 0x10DC, 0x10EE, 0x10D0], A '': %2'', U [0xA, 0x10E2, 0x10D8, 0x10DE, 0x10D8], A '': %3'', U [0xA,
       0x10DB, 0x10D8, 0x10E1, 0x10D0, 0x10DB, 0x10D0, 0x10E0, 0x10D7, 0x10D8], A '': %4'', U [0xA]]],
     Message [(None, 100), (None, 15)] False [A ''URI handling''] [[]],
     Message [(None, -15), (None, 15)] False [A
       ''URI can not be parsed! This can be caused by an invalid MotaCoin address or malformed URI parameters.''] [[]],
     Message [(None, 18)] False [A ''Wallet is <b>encrypted</b> and currently <b>unlocked</b>''] [[U [0x10E1, 0x10D0,
       0x10E4, 0x10E3, 0x10DA, 0x10D4], A '' <b>'', U [0x10D3, 0x10D0, 0x10E8, 0x10D8, 0x10E4, 0x10E0, 0x10E3,
       0x10DA, 0x10D8, 0x10D0], A ''</b> '', U [0x10D3, 0x10D0], A '' '', U [0x10D0, 0x10DB, 0x10DF, 0x10D0, 0x10DB,
       0x10D0, 0x10D3], A '' <b>'', U [0x10D2, 0x10D0, 0x10DC, 0x10D1, 0x10DA, 0x10DD, 0x10D9, 0x10D8, 0x10DA,
       0x10D8, 0x10D0], A ''</b>'']],
     Message [(None, 10)] False [A ''Wallet is <b>encrypted</b> and currently <b>locked</b>''] [[U [0x10E1, 0x10D0,
       0x10E4, 0x10E3, 0x10DA, 0x10D4], A '' <b>'', U [0x10D3, 0x10D0, 0x10E8, 0x10D8, 0x10E4, 0x10E0, 0x10E3,
       0x10DA, 0x10D8, 0x10D0], A ''</b> '', U [0x10D3, 0x10D0], A '' '', U [0x10D0, 0x10DB, 0x10DF, 0x10D0, 0x10DB,
       0x10D0, 0x10D3], A '' <b>'', U [0x10D3, 0x10D0, 0x10D1, 0x10DA, 0x10DD, 0x10D9, 0x10D8, 0x10DA, 0x10D8,
       0x10D0], A ''</b>'']],
     Message [(None, 25)] False [A ''Backup Wallet''] [[]],
     Message [(None, 0)] False [A ''Wallet Data (*.dat)''] [[]],
     Message [(None, 3)] False [A ''Backup Failed''] [[]],
     Message [(None, 0)] False [A ''There was an error trying to save the wallet data to the new location.''] [[]],
     Message [(None, 76)] True [A ''%n second(s)''] [[]],
     Message [(None, 4)] True [A ''%n minute(s)''] [[]],
     Message [(None, 4)] True [A ''%n hour(s)''] [[]],
     Message [(None, 4)] True [A ''%n day(s)''] [[]],
     Message [(None, 18)] False [A ''Not staking''] [[]],
     Message [(Some ''../bitcoin.cpp'', 109)] False [A
       ''A fatal error occurred. MotaCoin can no longer continue safely and will quit.''] [[]]]"

definition ka_ClientModel :: "ts_message list" where
  "ka_ClientModel = [
     Message [(Some ''../clientmodel.cpp'', 90)] False [A ''Network Alert''] [[U [0x10E5, 0x10E1, 0x10D4, 0x10DA,
       0x10E3, 0x10E0, 0x10D8], A '' '', U [0x10D2, 0x10D0, 0x10DC, 0x10D2, 0x10D0, 0x10E8, 0x10D8]]]]"

definition ka_CoinControlDialog_1 :: "ts_message list" where
  "ka_CoinControlDialog_1 = [
     Message [(Some ''../forms/coincontroldialog.ui'', 14)] False [A ''Coin Control''] [[]],
     Message [(None, 31)] False [A ''Quantity:''] [[U [0x10E0, 0x10D0, 0x10DD, 0x10D3, 0x10D4, 0x10DC, 0x10DD,
       0x10D1, 0x10D0], A '':'']],
     Message [(None, 32)] False [A ''Bytes:''] [[U [0x10D1, 0x10D0, 0x10D8, 0x10E2, 0x10D4, 0x10D1, 0x10D8], A '':'']],
     Message [(None, 48)] False [A ''Amount:''] [[U [0x10D7, 0x10D0, 0x10DC, 0x10EE, 0x10D0], A '':'']],
     Message [(None, 32)] False [A ''Priority:''] [[U [0x10DE, 0x10E0, 0x10D8, 0x10DD, 0x10E0, 0x10D8, 0x10E2,
       0x10D4, 0x10E2, 0x10D8], A '':'']],
     Message [(None, 48)] False [A ''Fee:''] [[U [0x10E1, 0x10D0, 0x10D9, 0x10DD, 0x10DB, 0x10D8, 0x10E1, 0x10D8,
       0x10DD], A '':'']],
     Message [(None, 35)] False [A ''Low Output:''] [[U [0x10E5, 0x10D5, 0x10D4, 0x10D3, 0x10D0], A '' '', U [0x10D6,
       0x10E6, 0x10D5, 0x10D0, 0x10E0, 0x10D8], A '':'']],
     Message [(Some ''../coincontroldialog.cpp'', 551)] False [A ''no''] [[U [0x10D0, 0x10E0, 0x10D0]]],
     Message [(Some ''../forms/coincontroldialog.ui'', 51)] False [A ''After Fee:''] [[U [0x10D3, 0x10D0, 0x10DB,
       0x10D0, 0x10E2, 0x10D4, 0x10D1, 0x10D8, 0x10D7, 0x10D8], A '' '', U [0x10E1, 0x10D0, 0x10D9, 0x10DD, 0x10DB,
       0x10D8, 0x10E1, 0x10D8, 0x10DD], A '':'']],
     Message [(None, 35)] False [A ''Change:''] [[U [0x10EE, 0x10E3, 0x10E0, 0x10D3, 0x10D0], A '':'']],
     Message [(None, 69)] False [A ''(un)select all''] [[U [0x10E7, 0x10D5, 0x10D4, 0x10DA, 0x10D0, 0x10E1], A '' '',
       U [0x10DB, 0x10DD, 0x10DC, 0x10D8, 0x10E8, 0x10D5, 0x10DC, 0x10D0], A ''/('', U [0x10DB, 0x10DD, 0x10EE,
       0x10E1, 0x10DC, 0x10D0], A '')'']],
     Message [(None, 13)] False [A ''Tree mode''] [[U [0x10D2, 0x10D0, 0x10DC, 0x10E2, 0x10DD, 0x10E2, 0x10D5,
       0x10D8, 0x10DA, 0x10D8]]],
     Message [(None, 16)] False [A ''List mode''] [[U [0x10E1, 0x10D8, 0x10D0]]],
     Message [(None, 45)] False [A ''Amount''] [[U [0x10E0, 0x10D0, 0x10DD, 0x10D3, 0x10D4, 0x10DC, 0x10DD, 0x10D1,
       0x10D0]]],
     Message [(None, 5)] False [A ''Label''] [[]],
     Message [(None, 5)] False [A ''Address''] [[U [0x10DB, 0x10D8, 0x10E1, 0x10D0, 0x10DB, 0x10D0, 0x10E0, 0x10D7,
       0x10D8]]],
     Message [(None, 5)] False [A ''Date''] [[U [0x10D7, 0x10D0, 0x10E0, 0x10D8, 0x10E6, 0x10D8]]],
     Message [(None, 5)] False [A ''Confirmations''] [[U [0x10D3, 0x10D0, 0x10D3, 0x10D0, 0x10E1, 0x10E2, 0x10E3,
       0x10E0, 0x10D4, 0x10D1, 0x10D0]]],
     Message [(None, 3)] False [A ''Confirmed''] [[U [0x10D3, 0x10D0, 0x10D3, 0x10D0, 0x10E1, 0x10E2, 0x10E3, 0x10E0,
       0x10D4, 0x10D1, 0x10E3, 0x10DA, 0x10D8, 0x10D0]]],
     Message [(None, 5)] False [A ''Priority''] [[U [0x10DE, 0x10E0, 0x10D8, 0x10DD, 0x10E0, 0x10D8, 0x10E2, 0x10D4,
       0x10E2, 0x10D8]]],
     Message [(Some ''../coincontroldialog.cpp'', -515)] False [A ''Copy address''] [[U [0x10DB, 0x10D8, 0x10E1,
       0x10D0, 0x10DB, 0x10D0, 0x10E0, 0x10D7, 0x10D8, 0x10E1], A '' '', U [0x10D9, 0x10DD, 0x10DE, 0x10D8, 0x10E0,
       0x10D4, 0x10D1, 0x10D0]]],
     Message [(None, 1)] False [A ''Copy label''] [[U [0x10DC, 0x10D8, 0x10E8, 0x10DC, 0x10E3, 0x10DA, 0x10D8,
       0x10E1], A '' '', U [0x10D9, 0x10DD, 0x10DE, 0x10D8, 0x10E0, 0x10D4, 0x10D1, 0x10D0]]],
     Message [(None, 1), (None, 26)] False [A ''Copy amount''] [[U [0x10D7, 0x10D0, 0x10DC, 0x10EE, 0x10D8, 0x10E1],
       A '' '', U [0x10D9, 0x10DD, 0x10DE, 0x10D8, 0x10E0, 0x10D4, 0x10D1, 0x10D0]]],
     Message [(None, -25)] False [A ''Copy transaction ID''] [[U [0x10E2, 0x10E0, 0x10D0, 0x10DC, 0x10E1, 0x10D0,
       0x10E5, 0x10EA, 0x10D8, 0x10D8, 0x10E1], A '' ID-'', U [0x10E1], A '' '', U [0x10D9, 0x10DD, 0x10DE, 0x10D8,
       0x10E0, 0x10D4, 0x10D1, 0x10D0]]],
     Message [(None, 24)] False [A ''Copy quantity''] [[U [0x10E0, 0x10D0, 0x10DD, 0x10D3, 0x10D4, 0x10DC, 0x10DD,
       0x10D1, 0x10D8, 0x10E1], A '' '', U [0x10D9, 0x10DD, 0x10DE, 0x10D8, 0x10E0, 0x10D4, 0x10D1, 0x10D0]]],
     Message [(None, 2)] False [A ''Copy fee''] [[U [0x10E1, 0x10D0, 0x10D9, 0x10DD, 0x10DB, 0x10D8, 0x10E1, 0x10D8,
       0x10DD, 0x10E1], A '' '', U [0x10D9, 0x10DD, 0x10DE, 0x10D8, 0x10E0, 0x10D4, 0x10D1, 0x10D0]]],
     Message [(None, 1)] False [A ''Copy after fee''] [[U [0x10D3, 0x10D0, 0x10DB, 0x10D0, 0x10E2, 0x10D4, 0x10D1,
       0x10D8, 0x10D7, 0x10D8], A '' '', U [0x10E1, 0x10D0, 0x10D9, 0x10DD, 0x10DB, 0x10D8, 0x10E1, 0x10D8, 0x10DD,
       0x10E1], A '' '', U [0x10D9, 0x10DD, 0x10DE, 0x10D8, 0x10E0, 0x10D4, 0x10D1, 0x10D0]]],
     Message [(None, 1)] False [A ''Copy bytes''] [[U [0x10D1, 0x10D0, 0x10D8, 0x10E2, 0x10D4, 0x10D1, 0x10D8,
       0x10E1], A '' '', U [0x10D9, 0x10DD, 0x10DE, 0x10D8, 0x10E0, 0x10D4, 0x10D1, 0x10D0]]],
     Message [(None, 1)] False [A ''Copy priority''] [[U [0x10DE, 0x10E0, 0x10D8, 0x10DD, 0x10E0, 0x10D8, 0x10E2,
       0x10D4, 0x10E2, 0x10D8, 0x10E1], A '' '', U [0x10D9, 0x10DD, 0x10DE, 0x10D8, 0x10E0, 0x10D4, 0x10D1, 0x10D0]]]]"

definition ka_CoinControlDialog_2 :: "ts_message list" where
  "ka_CoinControlDialog_2 = [
     Message [(None, 1)] False [A ''Copy low output''] [[U [0x10E5, 0x10D5, 0x10D4, 0x10D3, 0x10D0], A '' '', U
       [0x10D6, 0x10E6, 0x10D5, 0x10E0, 0x10D8, 0x10E1], A '' '', U [0x10D9, 0x10DD, 0x10DE, 0x10D8, 0x10E0, 0x10D4,
       0x10D1, 0x10D0]]],
     Message [(None, 1)] False [A ''Copy change''] [[U [0x10EE, 0x10E3, 0x10E0, 0x10D3, 0x10D8, 0x10E1], A '' '', U
       [0x10D9, 0x10DD, 0x10DE, 0x10D8, 0x10E0, 0x10D4, 0x10D1, 0x10D0]]],
     Message [(None, 317)] False [A ''highest''] [[U [0x10E3, 0x10DB, 0x10D0, 0x10E6, 0x10DA, 0x10D4, 0x10E1,
       0x10D8]]],
     Message [(None, 1)] False [A ''high''] [[U [0x10DB, 0x10D0, 0x10E6, 0x10D0, 0x10DA, 0x10D8]]],
     Message [(None, 1)] False [A ''medium-high''] [[U [0x10E1, 0x10D0, 0x10E8, 0x10E3, 0x10D0, 0x10DA, 0x10DD,
       0x10D6, 0x10D4], A '' '', U [0x10DB, 0x10D0, 0x10E6, 0x10D0, 0x10DA, 0x10D8]]],
     Message [(None, 1)] False [A ''medium''] [[U [0x10E1, 0x10D0, 0x10E8, 0x10E3, 0x10D0, 0x10DA, 0x10DD]]],
     Message [(None, 4)] False [A ''low-medium''] [[U [0x10E1, 0x10D0, 0x10E8, 0x10E3, 0x10D0, 0x10DA, 0x10DD,
       0x10D6, 0x10D4], A '' '', U [0x10D3, 0x10D0, 0x10D1, 0x10D0, 0x10DA, 0x10D8]]],
     Message [(None, 1)] False [A ''low''] [[U [0x10D3, 0x10D0, 0x10D1, 0x10D0, 0x10DA, 0x10D8]]],
     Message [(None, 1)] False [A ''lowest''] [[U [0x10E3, 0x10D3, 0x10D0, 0x10D1, 0x10DA, 0x10D4, 0x10E1, 0x10D8]]],
     Message [(None, 155)] False [A ''DUST''] [[]],
     Message [(None, 0)] False [A ''yes''] [[U [0x10D9, 0x10D8]]],
     Message [(None, 10)] False [A ''This label turns red, if the transaction size is bigger than 10000 bytes.'', U
       [0xA, 0xA], A '' This means a fee of at least %1 per kb is required.'', U [0xA, 0xA], A
       '' Can vary +/- 1 Byte per input.''] [[]],
     Message [(None, 1)] False [A ''Transactions with higher priority get more likely into a block.'', U [0xA, 0xA],
       A ''This label turns red, if the priority is smaller than '', U [0x22], A ''medium'', U [0x22], A ''.'', U
       [0xA, 0xA], A '' This means a fee of at least %1 per kb is required.''] [[]],
     Message [(None, 1)] False [A ''This label turns red, if any recipient receives an amount smaller than %1.'', U
       [0xA, 0xA], A '' This means a fee of at least %2 is required. '', U [0xA, 0xA], A
       '' Amounts below 0.546 times the minimum relay fee are shown as DUST.''] [[]],
     Message [(None, 1)] False [A ''This label turns red, if the change is smaller than %1.'', U [0xA, 0xA], A
       '' This means a fee of at least %2 is required.''] [[]],
     Message [(None, 37), (None, 66)] False [A ''(no label)''] [[A ''('', U [0x10D0, 0x10E0], A '' '', U [0x10D0,
       0x10E0, 0x10D8, 0x10E1], A '' '', U [0x10DC, 0x10D8, 0x10E8, 0x10DC, 0x10E3, 0x10DA, 0x10D8], A '')'']],
     Message [(None, -9)] False [A ''change from %1 (%2)''] [[U [0x10EE, 0x10E3, 0x10E0, 0x10D3, 0x10D0], A '' %1-'',
       U [0x10D3, 0x10D0, 0x10DC], A '' (%2)'']],
     Message [(None, 1)] False [A ''(change)''] [[A ''('', U [0x10EE, 0x10E3, 0x10E0, 0x10D3, 0x10D0], A '')'']]]"

definition ka_EditAddressDialog :: "ts_message list" where
  "ka_EditAddressDialog = [
     Message [(Some ''../forms/editaddressdialog.ui'', 14)] False [A ''Edit Address''] [[U [0x10DB, 0x10D8, 0x10E1,
       0x10D0, 0x10DB, 0x10D0, 0x10E0, 0x10D7, 0x10D8, 0x10E1], A '' '', U [0x10E8, 0x10D4, 0x10EA, 0x10D5, 0x10DA,
       0x10D0]]],
     Message [(None, 11)] False [A ''&Label''] [[U [0x10DC, 0x10D8, 0x10E8, 0x10DC, 0x10E3], A ''&'', U [0x10DA,
       0x10D8]]],
     Message [(None, 10)] False [A ''The label associated with this address book entry''] [[]],
     Message [(None, 7)] False [A ''&Address''] [[U [0x10DB, 0x10D8, 0x10E1], A ''&'', U [0x10D0, 0x10DB, 0x10D0,
       0x10E0, 0x10D7, 0x10D8]]],
     Message [(None, 10)] False [A
       ''The address associated with this address book entry. This can only be modified for sending addresses.''] [[]],
     Message [(Some ''../editaddressdialog.cpp'', 20)] False [A ''New receiving address''] [[U [0x10D0, 0x10EE,
       0x10D0, 0x10DA, 0x10D8], A '' '', U [0x10DB, 0x10D8, 0x10E6, 0x10D4, 0x10D1, 0x10D8, 0x10E1], A '' '', U
       [0x10DB, 0x10D8, 0x10E1, 0x10D0, 0x10DB, 0x10D0, 0x10E0, 0x10D7, 0x10D8]]],
     Message [(None, 4)] False [A ''New sending address''] [[U [0x10D0, 0x10EE, 0x10D0, 0x10DA, 0x10D8], A '' '', U
       [0x10D2, 0x10D0, 0x10D2, 0x10D6, 0x10D0, 0x10D5, 0x10DC, 0x10D8, 0x10E1], A '' '', U [0x10DB, 0x10D8, 0x10E1,
       0x10D0, 0x10DB, 0x10D0, 0x10E0, 0x10D7, 0x10D8]]],
     Message [(None, 3)] False [A ''Edit receiving address''] [[U [0x10DB, 0x10D8, 0x10E6, 0x10D4, 0x10D1, 0x10D8,
       0x10E1], A '' '', U [0x10DB, 0x10D8, 0x10E1, 0x10D0, 0x10DB, 0x10D0, 0x10E0, 0x10D7, 0x10D8, 0x10E1], A '' '',
       U [0x10E8, 0x10D4, 0x10EA, 0x10D5, 0x10DA, 0x10D0]]],
     Message [(None, 4)] False [A ''Edit sending address''] [[U [0x10D2, 0x10D0, 0x10D2, 0x10D6, 0x10D0, 0x10D5,
       0x10DC, 0x10D8, 0x10E1], A '' '', U [0x10DB, 0x10D8, 0x10E1, 0x10D0, 0x10DB, 0x10D0, 0x10E0, 0x10D7, 0x10D8,
       0x10E1], A '' '', U [0x10E8, 0x10D4, 0x10EA, 0x10D5, 0x10DA, 0x10D0]]],
     Message [(None, 76)] False [A ''The entered address '', U [0x22], A ''%1'', U [0x22], A
       '' is already in the address book.''] [[U [0x10DB, 0x10D8, 0x10E1, 0x10D0, 0x10DB, 0x10D0, 0x10E0, 0x10D7,
       0x10D8], A '' '', U [0x22], A ''%1'', U [0x22], A '' '', U [0x10E3, 0x10D9, 0x10D5, 0x10D4], A '' '', U
       [0x10D0, 0x10E0, 0x10D8, 0x10E1], A '' '', U [0x10DB, 0x10D8, 0x10E1, 0x10D0, 0x10DB, 0x10D0, 0x10E0, 0x10D7,
       0x10D4, 0x10D1, 0x10D8, 0x10E1], A '' '', U [0x10EC, 0x10D8, 0x10D2, 0x10DC, 0x10E8, 0x10D8], A ''.'']],
     Message [(None, -5)] False [A ''The entered address '', U [0x22], A ''%1'', U [0x22], A
       '' is not a valid MotaCoin address.''] [[]],
     Message [(None, 10)] False [A ''Could not unlock wallet.''] [[U [0x10E1, 0x10D0, 0x10E4, 0x10E3, 0x10DA, 0x10D8,
       0x10E1], A '' '', U [0x10D2, 0x10D0, 0x10DC, 0x10D1, 0x10DA, 0x10DD, 0x10D9, 0x10D5, 0x10D0], A '' '', U
       [0x10D5, 0x10D4, 0x10E0], A '' '', U [0x10DB, 0x10DD, 0x10EE, 0x10D4, 0x10E0, 0x10EE, 0x10D3, 0x10D0], A ''.''
       ]],
     Message [(None, 5)] False [A ''New key generation failed.''] [[U [0x10D0, 0x10EE, 0x10D0, 0x10DA, 0x10D8], A
       '' '', U [0x10D2, 0x10D0, 0x10E1, 0x10D0, 0x10E6, 0x10D4, 0x10D1, 0x10D8, 0x10E1], A '' '', U [0x10D2, 0x10D4,
       0x10DC, 0x10D4, 0x10E0, 0x10D8, 0x10E0, 0x10D4, 0x10D1, 0x10D0], A '' '', U [0x10D5, 0x10D4, 0x10E0], A '' '',
       U [0x10DB, 0x10DD, 0x10EE, 0x10D4, 0x10E0, 0x10EE, 0x10D3, 0x10D0]]]]"

definition ka_GUIUtil_HelpMessageBox :: "ts_message list" where
  "ka_GUIUtil_HelpMessageBox = [
     Message [(Some ''../guiutil.cpp'', 420), (None, 12)] False [A ''MotaCoin-Qt''] [[]],
     Message [(None, -12)] False [A ''version''] [[]],
     Message [(None, 2)] False [A ''Usage:''] [[]],
     Message [(None, 1)] False [A ''command-line options''] [[]],
     Message [(None, 4)] False [A ''UI options''] [[]],
     Message [(None, 1)] False [A ''Set language, for example '', U [0x22], A ''de_DE'', U [0x22], A
       '' (default: system locale)''] [[]],
     Message [(None, 1)] False [A ''Start minimized''] [[]],
     Message [(None, 1)] False [A ''Show splash screen on startup (default: 1)''] [[]]]"

definition ka_OptionsDialog_1 :: "ts_message list" where
  "ka_OptionsDialog_1 = [
     Message [(Some ''../forms/optionsdialog.ui'', 14)] False [A ''Options''] [[U [0x10DD, 0x10DE, 0x10EA, 0x10D8,
       0x10D4, 0x10D1, 0x10D8]]],
     Message [(None, 16)] False [A ''&Main''] [[A ''&'', U [0x10DB, 0x10D7, 0x10D0, 0x10D5, 0x10D0, 0x10E0, 0x10D8]]],
     Message [(None, 6)] False [A
       ''Optional transaction fee per kB that helps make sure your transactions are processed quickly. Most transactions are 1 kB. Fee 0.01 recommended.''
       ] [[]],
     Message [(None, 15)] False [A ''Pay transaction &fee''] [[U [0x10E2, 0x10E0, 0x10D0, 0x10DC, 0x10E1, 0x10D0,
       0x10E5, 0x10EA, 0x10D8, 0x10D8, 0x10E1], A '' '', U [0x10E1, 0x10D0], A ''&'', U [0x10E4, 0x10D0, 0x10E1,
       0x10E3, 0x10E0, 0x10D8, 0x10E1], A '' '', U [0x10D2, 0x10D0, 0x10D3, 0x10D0, 0x10EE, 0x10D3, 0x10D0]]],
     Message [(None, 31)] False [A
       ''Reserved amount does not participate in staking and is therefore spendable at any time.''] [[]],
     Message [(None, 15)] False [A ''Reserve''] [[]],
     Message [(None, 31)] False [A ''Automatically start MotaCoin after logging in to the system.''] [[]],
     Message [(None, 3)] False [A ''&Start MotaCoin on system login''] [[]],
     Message [(None, 7)] False [A
       ''Detach block and address databases at shutdown. This means they can be moved to another data directory, but it slows down shutdown. The wallet is always detached.''
       ] [[]],
     Message [(None, 3)] False [A ''&Detach databases at shutdown''] [[]],
     Message [(None, 21)] False [A ''&Network''] [[A ''&'', U [0x10E5, 0x10E1, 0x10D4, 0x10DA, 0x10D8]]],
     Message [(None, 6)] False [A
       ''Automatically open the MotaCoin client port on the router. This only works when your router supports UPnP and it is enabled.''
       ] [[]],
     Message [(None, 3)] False [A ''Map port using &UPnP''] [[U [0x10DE, 0x10DD, 0x10E0, 0x10E2, 0x10D8, 0x10E1], A
       '' '', U [0x10D2, 0x10D0, 0x10D3, 0x10D0, 0x10DB, 0x10D8, 0x10E1, 0x10D0, 0x10DB, 0x10D0, 0x10E0, 0x10D7,
       0x10D4, 0x10D1, 0x10D0], A '' &UPnP-'', U [0x10D8, 0x10D7]]],
     Message [(None, 7)] False [A
       ''Connect to the MotaCoin network through a SOCKS proxy (e.g. when connecting through Tor).''] [[]],
     Message [(None, 3)] False [A ''&Connect through SOCKS proxy:''] [[]],
     Message [(None, 9)] False [A ''Proxy &IP:''] [[U [0x10DE, 0x10E0, 0x10DD, 0x10E5, 0x10E1, 0x10D8, 0x10E1], A
       '' &IP:'']],
     Message [(None, 19)] False [A ''IP address of the proxy (e.g. 127.0.0.1)''] [[]],
     Message [(None, 7)] False [A ''&Port:''] [[A ''&'', U [0x10DE, 0x10DD, 0x10E0, 0x10E2, 0x10D8]]],
     Message [(None, 19)] False [A ''Port of the proxy (e.g. 9050)''] [[U [0x10DE, 0x10E0, 0x10DD, 0x10E5, 0x10E1,
       0x10D8, 0x10E1], A '' '', U [0x10DE, 0x10DD, 0x10E0, 0x10E2, 0x10D8], A '' ('', U [0x10DB, 0x10D0, 0x10D2], A
       ''.: 9050)'']],
     Message [(None, 7)] False [A ''SOCKS &Version:''] [[A ''SOCKS &'', U [0x10D5, 0x10D4, 0x10E0, 0x10E1, 0x10D8,
       0x10D0], A '':'']],
     Message [(None, 13)] False [A ''SOCKS version of the proxy (e.g. 5)''] [[U [0x10DE, 0x10E0, 0x10DD, 0x10E5,
       0x10E1, 0x10D8, 0x10E1], A '' SOCKS-'', U [0x10D5, 0x10D4, 0x10E0, 0x10E1, 0x10D8, 0x10D0], A '' ('', U
       [0x10DB, 0x10D0, 0x10D2], A ''.: 5)'']],
     Message [(None, 36)] False [A ''&Window''] [[A ''&'', U [0x10E4, 0x10D0, 0x10DC, 0x10EF, 0x10D0, 0x10E0,
       0x10D0]]],
     Message [(None, 6)] False [A ''Show only a tray icon after minimizing the window.''] [[U [0x10E4, 0x10D0,
       0x10DC, 0x10EF, 0x10E0, 0x10D8, 0x10E1], A '' '', U [0x10DB, 0x10D8, 0x10DC, 0x10D8, 0x10DB, 0x10D8, 0x10D6,
       0x10D4, 0x10D1, 0x10D8, 0x10E1, 0x10D0, 0x10E1], A '' '', U [0x10DB, 0x10EE, 0x10DD, 0x10DA, 0x10DD, 0x10D3],
       A '' '', U [0x10D8, 0x10D9, 0x10DD, 0x10DC, 0x10D0], A '' '', U [0x10E1, 0x10D8, 0x10E1, 0x10E2, 0x10D4,
       0x10DB, 0x10E3, 0x10E0], A '' '', U [0x10D6, 0x10DD, 0x10DC, 0x10D0, 0x10E8, 0x10D8]]],
     Message [(None, 3)] False [A ''&Minimize to the tray instead of the taskbar''] [[A ''&'', U [0x10DB, 0x10D8,
       0x10DC, 0x10D8, 0x10DB, 0x10D8, 0x10D6, 0x10D4, 0x10D1, 0x10D0], A '' '', U [0x10E1, 0x10D8, 0x10E1, 0x10E2,
       0x10D4, 0x10DB, 0x10E3, 0x10E0], A '' '', U [0x10D6, 0x10DD, 0x10DC, 0x10D0, 0x10E8, 0x10D8], A '' '', U
       [0x10DE, 0x10E0, 0x10DD, 0x10D2, 0x10E0, 0x10D0, 0x10DB, 0x10D4, 0x10D1, 0x10D8, 0x10E1], A '' '', U [0x10DE,
       0x10D0, 0x10DC, 0x10D4, 0x10DA, 0x10D8, 0x10E1], A '' '', U [0x10DC, 0x10D0, 0x10EA, 0x10D5, 0x10DA, 0x10D0,
       0x10D3]]],
     Message [(None, 7)] False [A
       ''Minimize instead of exit the application when the window is closed. When this option is enabled, the application will be closed only after selecting Quit in the menu.''
       ] [[U [0x10DE, 0x10E0, 0x10DD, 0x10D2, 0x10E0, 0x10D0, 0x10DB, 0x10D8, 0x10E1], A '' '', U [0x10DB, 0x10D8,
       0x10DC, 0x10D8, 0x10DB, 0x10D8, 0x10D6, 0x10D4, 0x10D1, 0x10D0], A '' '', U [0x10E4, 0x10D0, 0x10DC, 0x10EF,
       0x10E0, 0x10D8, 0x10E1], A '' '', U [0x10D3, 0x10D0, 0x10EE, 0x10E3, 0x10E0, 0x10D5, 0x10D8, 0x10E1, 0x10D0,
       0x10E1], A ''. '', U [0x10DD, 0x10DE, 0x10EA, 0x10D8, 0x10D8, 0x10E1], A '' '', U [0x10E9, 0x10D0, 0x10E0,
       0x10D7, 0x10D5, 0x10D8, 0x10E1], A '' '', U [0x10E8, 0x10D4, 0x10DB, 0x10D3, 0x10D4, 0x10D2], A '' '', U
       [0x10DE, 0x10E0, 0x10DD, 0x10D2, 0x10E0, 0x10D0, 0x10DB, 0x10D8, 0x10E1], A '' '', U [0x10D3, 0x10D0, 0x10EE,
       0x10E3, 0x10E0, 0x10D5, 0x10D0], A '' '', U [0x10E8, 0x10D4, 0x10E1, 0x10D0, 0x10EB, 0x10DA, 0x10D4, 0x10D1,
       0x10D4, 0x10DA, 0x10D8], A '' '', U [0x10D8, 0x10E5, 0x10DC, 0x10D4, 0x10D1, 0x10D0], A '' '', U [0x10DB,
       0x10EE, 0x10DD, 0x10DA, 0x10DD, 0x10D3], A '' '', U [0x10DB, 0x10D4, 0x10DC, 0x10D8, 0x10E3, 0x10D3, 0x10D0,
       0x10DC], A '' - '', U [0x10DE, 0x10E3, 0x10DC, 0x10E5, 0x10E2, 0x10D8], A '' '', U [0x22, 0x10D2, 0x10D0,
       0x10E1, 0x10D5, 0x10DA, 0x10D0, 0x22], A ''.'']],
     Message [(None, 3)] False [A ''M&inimize on close''] [[U [0x10DB], A ''&'', U [0x10D8, 0x10DC, 0x10D8, 0x10DB,
       0x10D8, 0x10D6, 0x10D4, 0x10D1, 0x10D0], A '' '', U [0x10D3, 0x10D0, 0x10EE, 0x10E3, 0x10E0, 0x10D5, 0x10D8,
       0x10E1, 0x10D0, 0x10E1]]],
     Message [(None, 21)] False [A ''&Display''] [[A ''&'', U [0x10E9, 0x10D5, 0x10D4, 0x10DC, 0x10D4, 0x10D1,
       0x10D0]]],
     Message [(None, 8)] False [A ''User Interface &language:''] [[U [0x10E1, 0x10D0, 0x10DB, 0x10DD, 0x10DB, 0x10EE,
       0x10DB, 0x10D0, 0x10E0, 0x10D4, 0x10D1], A ''&'', U [0x10DA, 0x10DD], A '' '', U [0x10D4, 0x10DC, 0x10D0], A
       '':'']],
     Message [(None, 13)] False [A
       ''The user interface language can be set here. This setting will take effect after restarting MotaCoin.''] [[]]]"

definition ka_OptionsDialog_2 :: "ts_message list" where
  "ka_OptionsDialog_2 = [
     Message [(None, 11)] False [A ''&Unit to show amounts in:''] [[U [0x10D4, 0x10E0, 0x10D7, 0x10D4, 0x10E3], A
       ''&'', U [0x10DA, 0x10D8], A '':'']],
     Message [(None, 13)] False [A
       ''Choose the default subdivision unit to show in the interface and when sending coins.''] [[U [0x10D0, 0x10D8,
       0x10E0, 0x10E9, 0x10D8, 0x10D4, 0x10D7], A '' '', U [0x10D2, 0x10D0, 0x10E1, 0x10D0, 0x10D2, 0x10D6, 0x10D0,
       0x10D5, 0x10DC, 0x10D8], A '' '', U [0x10D7, 0x10D0, 0x10DC, 0x10EE, 0x10D8, 0x10E1], A '' '', U [0x10DC,
       0x10D0, 0x10D2, 0x10E3, 0x10DA, 0x10D8, 0x10E1, 0x10EE, 0x10DB, 0x10D4, 0x10D5, 0x10D8], A '' '', U [0x10D4,
       0x10E0, 0x10D7, 0x10D4, 0x10E3, 0x10DA, 0x10D8], A ''.'']],
     Message [(None, 9)] False [A ''Whether to show MotaCoin addresses in the transaction list or not.''] [[]],
     Message [(None, 3)] False [A ''&Display addresses in transaction list''] [[U [0x10DB, 0x10D8, 0x10E1, 0x10D0,
       0x10DB, 0x10D0, 0x10E0, 0x10D7, 0x10D4, 0x10D1, 0x10D8, 0x10E1], A '' &'', U [0x10E9, 0x10D5, 0x10D4, 0x10DC,
       0x10D4, 0x10D1, 0x10D0], A '' '', U [0x10E1, 0x10D8, 0x10D0, 0x10E8, 0x10D8]]],
     Message [(None, 7)] False [A ''Whether to show coin control features or not.''] [[U [0x10D5, 0x10D0, 0x10E9,
       0x10D5, 0x10D4, 0x10DC, 0x10DD, 0x10D7], A '' '', U [0x10D7, 0x10E3], A '' '', U [0x10D0, 0x10E0, 0x10D0], A
       '' '', U [0x10DB, 0x10DD, 0x10DC, 0x10D4, 0x10E2, 0x10D4, 0x10D1, 0x10D8, 0x10E1], A '' '', U [0x10DB, 0x10D0,
       0x10E0, 0x10D7, 0x10D5, 0x10D8, 0x10E1], A '' '', U [0x10DE, 0x10D0, 0x10E0, 0x10D0, 0x10DB, 0x10D4, 0x10E2,
       0x10E0, 0x10D4, 0x10D1, 0x10D8], A ''.'']],
     Message [(None, 3)] False [A ''Display coin &control features (experts only!)''] [[]],
     Message [(None, 71)] False [A ''&OK''] [[A ''&OK'']],
     Message [(None, 7)] False [A ''&Cancel''] [[A ''&'', U [0x10D2, 0x10D0, 0x10E3, 0x10E5, 0x10DB, 0x10D4, 0x10D1,
       0x10D0]]],
     Message [(None, 10)] False [A ''&Apply''] [[]],
     Message [(Some ''../optionsdialog.cpp'', 55)] False [A ''default''] [[U [0x10DC, 0x10D0, 0x10D2, 0x10E3, 0x10DA,
       0x10D8, 0x10E1, 0x10EE, 0x10DB, 0x10D4, 0x10D5, 0x10D8]]],
     Message [(None, 149), (None, 9)] False [A ''Warning''] [[]],
     Message [(None, -9), (None, 9)] False [A ''This setting will take effect after restarting MotaCoin.''] [[]],
     Message [(None, 29)] False [A ''The supplied proxy address is invalid.''] [[U [0x10DE, 0x10E0, 0x10DD, 0x10E5,
       0x10E1, 0x10D8, 0x10E1], A '' '', U [0x10DB, 0x10D8, 0x10E1, 0x10D0, 0x10DB, 0x10D0, 0x10E0, 0x10D7, 0x10D8],
       A '' '', U [0x10D0, 0x10E0, 0x10D0, 0x10E1, 0x10EC, 0x10DD, 0x10E0, 0x10D8, 0x10D0], A ''.'']]]"

definition ka_OverviewPage :: "ts_message list" where
  "ka_OverviewPage = [
     Message [(Some ''../forms/overviewpage.ui'', 14)] False [A ''Form''] [[U [0x10E4, 0x10DD, 0x10E0, 0x10DB,
       0x10D0]]],
     Message [(None, 33), (None, 231)] False [A
       ''The displayed information may be out of date. Your wallet automatically synchronizes with the MotaCoin network after a connection is established, but this process has not completed yet.''
       ] [[]],
     Message [(None, -160)] False [A ''Stake:''] [[]],
     Message [(None, 29)] False [A ''Unconfirmed:''] [[U [0x10D3, 0x10D0, 0x10E3, 0x10D3, 0x10D0, 0x10E1, 0x10E2,
       0x10E3, 0x10E0, 0x10D4, 0x10D1, 0x10D4, 0x10DA, 0x10D8, 0x10D0], A '':'']],
     Message [(None, -107)] False [A ''Wallet''] [[U [0x10E1, 0x10D0, 0x10E4, 0x10E3, 0x10DA, 0x10D4]]],
     Message [(None, 49)] False [A ''Spendable:''] [[]],
     Message [(None, 16)] False [A ''Your current spendable balance''] [[U [0x10D7, 0x10E5, 0x10D5, 0x10D4, 0x10DC,
       0x10D8], A '' '', U [0x10EE, 0x10D4, 0x10DA, 0x10DB, 0x10D8, 0x10E1, 0x10D0, 0x10EC, 0x10D5, 0x10D3, 0x10DD,
       0x10DB, 0x10D8], A '' '', U [0x10DC, 0x10D0, 0x10E8, 0x10D7, 0x10D8]]],
     Message [(None, 71)] False [A ''Immature:''] [[U [0x10DB, 0x10DD, 0x10E3, 0x10DB, 0x10D6, 0x10D0, 0x10D3,
       0x10D4, 0x10D1, 0x10D4, 0x10DA, 0x10D8, 0x10D0], A '':'']],
     Message [(None, 13)] False [A ''Mined balance that has not yet matured''] [[U [0x10DB, 0x10DD, 0x10DE, 0x10DD,
       0x10D5, 0x10D4, 0x10D1, 0x10E3, 0x10DA, 0x10D8], A '' '', U [0x10D7, 0x10D0, 0x10DC, 0x10EE, 0x10D0], A '', ''
       , U [0x10E0, 0x10DD, 0x10DB, 0x10D4, 0x10DA, 0x10D8, 0x10EA], A '' '', U [0x10EF, 0x10D4, 0x10E0], A '' '', U
       [0x10D0, 0x10E0], A '' '', U [0x10D0, 0x10E0, 0x10D8, 0x10E1], A '' '', U [0x10DB, 0x10D6, 0x10D0, 0x10D3,
       0x10E7, 0x10DD, 0x10E4, 0x10DC, 0x10D0, 0x10E8, 0x10D8]]],
     Message [(None, 20)] False [A ''Total:''] [[U [0x10E1, 0x10E3, 0x10DA], A '':'']],
     Message [(None, 16)] False [A ''Your current total balance''] [[U [0x10D7, 0x10E5, 0x10D5, 0x10D4, 0x10DC,
       0x10D8], A '' '', U [0x10E1, 0x10E0, 0x10E3, 0x10DA, 0x10D8], A '' '', U [0x10DB, 0x10D8, 0x10DB, 0x10D3,
       0x10D8, 0x10DC, 0x10D0, 0x10E0, 0x10D4], A '' '', U [0x10D1, 0x10D0, 0x10DA, 0x10D0, 0x10DC, 0x10E1, 0x10D8]]],
     Message [(None, 46)] False [A ''<b>Recent transactions</b>''] [[A ''<b>'', U [0x10D1, 0x10DD, 0x10DA, 0x10DD], A
       '' '', U [0x10E2, 0x10E0, 0x10D0, 0x10DC, 0x10E1, 0x10D0, 0x10E5, 0x10EA, 0x10D8, 0x10D4, 0x10D1, 0x10D8], A
       ''</b>'']],
     Message [(None, -108)] False [A
       ''Total of transactions that have yet to be confirmed, and do not yet count toward the current balance''] [[]],
     Message [(None, -29)] False [A
       ''Total of coins that was staked, and do not yet count toward the current balance''] [[]],
     Message [(Some ''../overviewpage.cpp'', 113), (None, 1)] False [A ''out of sync''] [[U [0x10D0, 0x10E0], A '' ''
       , U [0x10D0, 0x10E0, 0x10D8, 0x10E1], A '' '', U [0x10E1, 0x10D8, 0x10DC, 0x10E5, 0x10E0, 0x10DD, 0x10DC,
       0x10D8, 0x10D6, 0x10D4, 0x10D1, 0x10E3, 0x10DA, 0x10D8]]]]"

definition ka_QRCodeDialog :: "ts_message list" where
  "ka_QRCodeDialog = [
     Message [(Some ''../forms/qrcodedialog.ui'', 14)] False [A ''QR Code Dialog''] [[]],
     Message [(None, 59)] False [A ''Request Payment''] [[]],
     Message [(None, 56)] False [A ''Amount:''] [[]],
     Message [(None, -44)] False [A ''Label:''] [[]],
     Message [(None, 19)] False [A ''Message:''] [[]],
     Message [(None, 71)] False [A ''&Save As...''] [[]],
     Message [(Some ''../qrcodedialog.cpp'', 62)] False [A ''Error encoding URI into QR Code.''] [[]],
     Message [(None, 40)] False [A ''The entered amount is invalid, please check.''] [[]],
     Message [(None, 23)] False [A ''Resulting URI too long, try to reduce the text for label / message.''] [[]],
     Message [(None, 25)] False [A ''Save QR Code''] [[]],
     Message [(None, 0)] False [A ''PNG Images (*.png)''] [[]]]"

definition ka_RPCConsole :: "ts_message list" where
  "ka_RPCConsole = [
     Message [(Some ''../forms/rpcconsole.ui'', 46)] False [A ''Client name''] [[U [0x10D9, 0x10DA, 0x10D8, 0x10D4,
       0x10DC, 0x10E2, 0x10D8]]],
     Message [(None, 10), (None, 23), (None, 26), (None, 23), (None, 23), (None, 36), (None, 53), (None, 23), (None,
       23), (Some ''../rpcconsole.cpp'', 348)] False [A ''N/A''] [[U [0x10DB, 0x10D8, 0x10E3, 0x10EC, 0x10D5,
       0x10D3], A ''.'']],
     Message [(None, -217)] False [A ''Client version''] [[U [0x10D9, 0x10DA, 0x10D8, 0x10D4, 0x10DC, 0x10E2, 0x10D8,
       0x10E1], A '' '', U [0x10D5, 0x10D4, 0x10E0, 0x10E1, 0x10D8, 0x10D0]]],
     Message [(None, -45)] False [A ''&Information''] [[A ''&'', U [0x10D8, 0x10DC, 0x10E4, 0x10DD, 0x10E0, 0x10DB,
       0x10D0, 0x10EA, 0x10D8, 0x10D0]]],
     Message [(None, 68)] False [A ''Using OpenSSL version''] [[A ''OpenSSL-'', U [0x10D8, 0x10E1], A '' '', U
       [0x10D5, 0x10D4, 0x10E0, 0x10E1, 0x10D8, 0x10D0]]],
     Message [(None, 49)] False [A ''Startup time''] [[U [0x10E1, 0x10E2, 0x10D0, 0x10E0, 0x10E2, 0x10D8, 0x10E1], A
       '' '', U [0x10D3, 0x10E0, 0x10DD]]],
     Message [(None, 29)] False [A ''Network''] [[U [0x10E5, 0x10E1, 0x10D4, 0x10DA, 0x10D8]]],
     Message [(None, 7)] False [A ''Number of connections''] [[U [0x10E8, 0x10D4, 0x10D4, 0x10E0, 0x10D7, 0x10D4,
       0x10D1, 0x10D4, 0x10D1, 0x10D8, 0x10E1], A '' '', U [0x10E0, 0x10D0, 0x10DD, 0x10D3, 0x10D4, 0x10DC, 0x10DD,
       0x10D1, 0x10D0]]],
     Message [(None, 23)] False [A ''On testnet''] [[]],
     Message [(None, 23)] False [A ''Block chain''] [[U [0x10D1, 0x10DA, 0x10DD, 0x10D9, 0x10D7, 0x10D0], A '' '', U
       [0x10EF, 0x10D0, 0x10ED, 0x10D5, 0x10D8]]],
     Message [(None, 7)] False [A ''Current number of blocks''] [[U [0x10D1, 0x10DA, 0x10DD, 0x10D9, 0x10D4, 0x10D1,
       0x10D8, 0x10E1], A '' '', U [0x10DB, 0x10D8, 0x10DB, 0x10D3, 0x10D8, 0x10DC, 0x10D0, 0x10E0, 0x10D4], A '' '',
       U [0x10E0, 0x10D0, 0x10DD, 0x10D3, 0x10D4, 0x10DC, 0x10DD, 0x10D1, 0x10D0]]],
     Message [(None, 23)] False [A ''Estimated total blocks''] [[U [0x10D1, 0x10DA, 0x10DD, 0x10D9, 0x10D4, 0x10D1,
       0x10D8, 0x10E1], A '' '', U [0x10E1, 0x10D0, 0x10D5, 0x10D0, 0x10E0, 0x10D0, 0x10E3, 0x10D3, 0x10DD], A '' '',
       U [0x10E0, 0x10D0, 0x10DD, 0x10D3, 0x10D4, 0x10DC, 0x10DD, 0x10D1, 0x10D0]]],
     Message [(None, 23)] False [A ''Last block time''] [[U [0x10D1, 0x10DD, 0x10DA, 0x10DD], A '' '', U [0x10D1,
       0x10DA, 0x10DD, 0x10D9, 0x10D8, 0x10E1], A '' '', U [0x10D3, 0x10E0, 0x10DD]]],
     Message [(None, 52)] False [A ''&Open''] [[A ''&'', U [0x10E8, 0x10D4, 0x10E5, 0x10DB, 0x10DC, 0x10D0]]],
     Message [(None, 16)] False [A ''Command-line options''] [[]],
     Message [(None, 7)] False [A
       ''Show the MotaCoin-Qt help message to get a list with possible MotaCoin command-line options.''] [[]],
     Message [(None, 3)] False [A ''&Show''] [[]],
     Message [(None, 24)] False [A ''&Console''] [[A ''&'', U [0x10D9, 0x10DD, 0x10DC, 0x10E1, 0x10DD, 0x10DA,
       0x10D8]]],
     Message [(None, -260)] False [A ''Build date''] [[U [0x10E8, 0x10D4, 0x10E5, 0x10DB, 0x10DC, 0x10D8, 0x10E1], A
       '' '', U [0x10D3, 0x10E0, 0x10DD]]],
     Message [(None, -104)] False [A ''MotaCoin - Debug window''] [[]],
     Message [(None, 25)] False [A ''MotaCoin Core''] [[]],
     Message [(None, 279)] False [A ''Debug log file''] [[U [0x10D3, 0x10D0, 0x10EE, 0x10D5, 0x10D4, 0x10EC, 0x10D8,
       0x10E1], A '' '', U [0x10DA, 0x10DD, 0x10D2], A ''-'', U [0x10E4, 0x10D0, 0x10D8, 0x10DA, 0x10D8]]],
     Message [(None, 7)] False [A
       ''Open the MotaCoin debug log file from the current data directory. This can take a few seconds for large log files.''
       ] [[]],
     Message [(None, 102)] False [A ''Clear console''] [[U [0x10D9, 0x10DD, 0x10DC, 0x10E1, 0x10DD, 0x10DA, 0x10D8,
       0x10E1], A '' '', U [0x10D2, 0x10D0, 0x10E1, 0x10E3, 0x10E4, 0x10D7, 0x10D0, 0x10D5, 0x10D4, 0x10D1, 0x10D0]]],
     Message [(Some ''../rpcconsole.cpp'', -33)] False [A ''Welcome to the MotaCoin RPC console.''] [[]],
     Message [(None, 1)] False [A ''Use up and down arrows to navigate history, and <b>Ctrl-L</b> to clear screen.'']
       [[U [0x10D9, 0x10DA, 0x10D0, 0x10D5, 0x10D8, 0x10E8, 0x10D4, 0x10D1, 0x10D8], A '' '', U [0x22, 0x10D6,
       0x10D4, 0x10D5, 0x10D8, 0x10D7, 0x22], A '' '', U [0x10D3, 0x10D0], A '' '', U [0x22, 0x10E5, 0x10D5, 0x10D4,
       0x10D5, 0x10D8, 0x10D7, 0x22], A '' - '', U [0x10D8, 0x10E1, 0x10E2, 0x10DD, 0x10E0, 0x10D8, 0x10D0, 0x10E8,
       0x10D8], A '' '', U [0x10DB, 0x10DD, 0x10EB, 0x10E0, 0x10D0, 0x10DD, 0x10D1, 0x10D0], A '', <b>Ctrl-L</b> - ''
       , U [0x10D4, 0x10D9, 0x10E0, 0x10D0, 0x10DC, 0x10D8, 0x10E1], A '' '', U [0x10D2, 0x10D0, 0x10E1, 0x10E3,
       0x10E4, 0x10D7, 0x10D0, 0x10D5, 0x10D4, 0x10D1, 0x10D0], A ''.'']],
     Message [(None, 1)] False [A ''Type <b>help</b> for an overview of available commands.''] [[U [0x10D0, 0x10D9,
       0x10E0, 0x10D8, 0x10E4, 0x10D4, 0x10D7], A '' <b>help</b> '', U [0x10E4, 0x10D0, 0x10E8, 0x10D5, 0x10D4,
       0x10D1, 0x10E3, 0x10DA, 0x10D8], A '' '', U [0x10D1, 0x10E0, 0x10EB, 0x10D0, 0x10DC, 0x10D4, 0x10D1, 0x10D4,
       0x10D1, 0x10D8, 0x10E1], A '' '', U [0x10E1, 0x10D0, 0x10DC, 0x10D0, 0x10EE, 0x10D0, 0x10D5, 0x10D0, 0x10D3],
       A ''.'']]]"

definition ka_SendCoinsDialog_1 :: "ts_message list" where
  "ka_SendCoinsDialog_1 = [
     Message [(Some ''../forms/sendcoinsdialog.ui'', 14), (Some ''../sendcoinsdialog.cpp'', 182), (None, 5), (None,
       5), (None, 5), (None, 6), (None, 5), (None, 5)] False [A ''Send Coins''] [[U [0x10DB, 0x10DD, 0x10DC, 0x10D4,
       0x10E2, 0x10D4, 0x10D1, 0x10D8, 0x10E1], A '' '', U [0x10D2, 0x10D0, 0x10D2, 0x10D6, 0x10D0, 0x10D5, 0x10DC,
       0x10D0]]],
     Message [(None, 76)] False [A ''Coin Control Features''] [[U [0x10DB, 0x10DD, 0x10DC, 0x10D4, 0x10E2, 0x10D4,
       0x10D1, 0x10D8, 0x10E1], A '' '', U [0x10D9, 0x10DD, 0x10DC, 0x10E2, 0x10E0, 0x10DD, 0x10DA, 0x10D8, 0x10E1],
       A '' '', U [0x10DE, 0x10D0, 0x10E0, 0x10D0, 0x10DB, 0x10D4, 0x10E2, 0x10E0, 0x10D4, 0x10D1, 0x10D8]]],
     Message [(None, 20)] False [A ''Inputs...''] [[U [0x10EE, 0x10D0, 0x10E0, 0x10EF, 0x10D4, 0x10D1, 0x10D8], A
       ''...'']],
     Message [(None, 7)] False [A ''automatically selected''] [[U [0x10D0, 0x10E0, 0x10E9, 0x10D4, 0x10E3, 0x10DA,
       0x10D8, 0x10D0], A '' '', U [0x10D0, 0x10D5, 0x10E2, 0x10DD, 0x10DB, 0x10D0, 0x10E2, 0x10E3, 0x10E0, 0x10D0,
       0x10D3]]],
     Message [(None, 19)] False [A ''Insufficient funds!''] [[U [0x10D0, 0x10E0], A '' '', U [0x10D0, 0x10E0, 0x10D8,
       0x10E1], A '' '', U [0x10E1, 0x10D0, 0x10D9, 0x10DB, 0x10D0, 0x10E0, 0x10D8, 0x10E1, 0x10D8], A '' '', U
       [0x10D7, 0x10D0, 0x10DC, 0x10EE, 0x10D0], A ''!'']],
     Message [(None, 77)] False [A ''Quantity:''] [[U [0x10E0, 0x10D0, 0x10DD, 0x10D3, 0x10D4, 0x10DC, 0x10DD,
       0x10D1, 0x10D0], A '':'']],
     Message [(None, 22), (None, 35)] False [A ''0''] [[]],
     Message [(None, -19)] False [A ''Bytes:''] [[U [0x10D1, 0x10D0, 0x10D8, 0x10E2, 0x10D4, 0x10D1, 0x10D8], A '':''
       ]],
     Message [(None, 51)] False [A ''Amount:''] [[U [0x10D7, 0x10D0, 0x10DC, 0x10EE, 0x10D0], A '':'']],
     Message [(None, 22), (None, 86), (None, 86), (None, 32)] False [A ''0.00 MOTA''] [[]],
     Message [(None, -191)] False [A ''Priority:''] [[U [0x10DE, 0x10E0, 0x10D8, 0x10DD, 0x10E0, 0x10D8, 0x10E2,
       0x10D4, 0x10E2, 0x10D8], A '':'']],
     Message [(None, 19)] False [A ''medium''] [[]],
     Message [(None, 32)] False [A ''Fee:''] [[U [0x10E1, 0x10D0, 0x10D9, 0x10DD, 0x10DB, 0x10D8, 0x10E1, 0x10D8,
       0x10DD], A '':'']],
     Message [(None, 35)] False [A ''Low Output:''] [[U [0x10E5, 0x10D5, 0x10D4, 0x10D3, 0x10D0], A '' '', U [0x10D6,
       0x10E6, 0x10D5, 0x10D0, 0x10E0, 0x10D8], A '':'']],
     Message [(None, 19)] False [A ''no''] [[]],
     Message [(None, 32)] False [A ''After Fee:''] [[U [0x10D3, 0x10D0, 0x10DB, 0x10D0, 0x10E2, 0x10D4, 0x10D1,
       0x10D8, 0x10D7, 0x10D8], A '' '', U [0x10E1, 0x10D0, 0x10D9, 0x10DD, 0x10DB, 0x10D8, 0x10E1, 0x10D8, 0x10DD],
       A '':'']],
     Message [(None, 35)] False [A ''Change''] [[]],
     Message [(None, 50)] False [A ''custom change address''] [[]],
     Message [(None, 106)] False [A ''Send to multiple recipients at once''] [[U [0x10D2, 0x10D0, 0x10D2, 0x10D6,
       0x10D0, 0x10D5, 0x10DC, 0x10D0], A '' '', U [0x10E0, 0x10D0, 0x10DB, 0x10D3, 0x10D4, 0x10DC, 0x10D8, 0x10DB,
       0x10D4], A '' '', U [0x10E0, 0x10D4, 0x10EA, 0x10D8, 0x10DE, 0x10D8, 0x10D4, 0x10DC, 0x10E2, 0x10D7, 0x10D0,
       0x10DC], A '' '', U [0x10D4, 0x10E0, 0x10D7, 0x10D3, 0x10E0, 0x10DD, 0x10E3, 0x10DA, 0x10D0, 0x10D3]]],
     Message [(None, 3)] False [A ''Add &Recipient''] [[A ''&'', U [0x10E0, 0x10D4, 0x10EA, 0x10D8, 0x10DE, 0x10D8,
       0x10D4, 0x10DC, 0x10E2, 0x10D8, 0x10E1], A '' '', U [0x10D3, 0x10D0, 0x10DB, 0x10D0, 0x10E2, 0x10D4, 0x10D1,
       0x10D0]]],
     Message [(None, 20)] False [A ''Remove all transaction fields''] [[]],
     Message [(None, 3)] False [A ''Clear &All''] [[U [0x10D2], A ''&'', U [0x10D0, 0x10E1, 0x10E3, 0x10E4, 0x10D7,
       0x10D0, 0x10D5, 0x10D4, 0x10D1, 0x10D0]]],
     Message [(None, 28)] False [A ''Balance:''] [[U [0x10D1, 0x10D0, 0x10DA, 0x10D0, 0x10DC, 0x10E1, 0x10D8], A '':''
       ]],
     Message [(None, 16)] False [A ''123.456 MOTA''] [[]],
     Message [(None, 31)] False [A ''Confirm the send action''] [[U [0x10D2, 0x10D0, 0x10D2, 0x10D6, 0x10D0, 0x10D5,
       0x10DC, 0x10D8, 0x10E1], A '' '', U [0x10D3, 0x10D0, 0x10D3, 0x10D0, 0x10E1, 0x10E2, 0x10E3, 0x10E0, 0x10D4,
       0x10D1, 0x10D0]]],
     Message [(None, 3)] False [A ''S&end''] [[U [0x10D2, 0x10D0, 0x10D2], A ''&'', U [0x10D6, 0x10D0, 0x10D5,
       0x10DC, 0x10D0]]],
     Message [(Some ''../sendcoinsdialog.cpp'', -173)] False [A
       ''Enter a MotaCoin address (e.g. MBDKLakRxSRw7hUB2q5DXEnDpNpLVkqGZd)''] [[]]]"

definition ka_SendCoinsDialog_2 :: "ts_message list" where
  "ka_SendCoinsDialog_2 = [
     Message [(None, 15)] False [A ''Copy quantity''] [[U [0x10E0, 0x10D0, 0x10DD, 0x10D3, 0x10D4, 0x10DC, 0x10DD,
       0x10D1, 0x10D8, 0x10E1], A '' '', U [0x10D9, 0x10DD, 0x10DE, 0x10D8, 0x10E0, 0x10D4, 0x10D1, 0x10D0]]],
     Message [(None, 1)] False [A ''Copy amount''] [[U [0x10D7, 0x10D0, 0x10DC, 0x10EE, 0x10D8, 0x10E1], A '' '', U
       [0x10D9, 0x10DD, 0x10DE, 0x10D8, 0x10E0, 0x10D4, 0x10D1, 0x10D0]]],
     Message [(None, 1)] False [A ''Copy fee''] [[U [0x10E1, 0x10D0, 0x10D9, 0x10DD, 0x10DB, 0x10D8, 0x10E1, 0x10D8,
       0x10DD, 0x10E1], A '' '', U [0x10D9, 0x10DD, 0x10DE, 0x10D8, 0x10E0, 0x10D4, 0x10D1, 0x10D0]]],
     Message [(None, 1)] False [A ''Copy after fee''] [[U [0x10D3, 0x10D0, 0x10DB, 0x10D0, 0x10E2, 0x10D4, 0x10D1,
       0x10D8, 0x10D7, 0x10D8], A '' '', U [0x10E1, 0x10D0, 0x10D9, 0x10DD, 0x10DB, 0x10D8, 0x10E1, 0x10D8, 0x10DD,
       0x10E1], A '' '', U [0x10D9, 0x10DD, 0x10DE, 0x10D8, 0x10E0, 0x10D4, 0x10D1, 0x10D0]]],
     Message [(None, 1)] False [A ''Copy bytes''] [[U [0x10D1, 0x10D0, 0x10D8, 0x10E2, 0x10D4, 0x10D1, 0x10D8,
       0x10E1], A '' '', U [0x10D9, 0x10DD, 0x10DE, 0x10D8, 0x10E0, 0x10D4, 0x10D1, 0x10D0]]],
     Message [(None, 1)] False [A ''Copy priority''] [[U [0x10DE, 0x10E0, 0x10D8, 0x10DD, 0x10E0, 0x10D8, 0x10E2,
       0x10D4, 0x10E2, 0x10D8, 0x10E1], A '' '', U [0x10D9, 0x10DD, 0x10DE, 0x10D8, 0x10E0, 0x10D4, 0x10D1, 0x10D0]]],
     Message [(None, 1)] False [A ''Copy low output''] [[U [0x10E5, 0x10D5, 0x10D4, 0x10D3, 0x10D0], A '' '', U
       [0x10D6, 0x10E6, 0x10D5, 0x10E0, 0x10D8, 0x10E1], A '' '', U [0x10D9, 0x10DD, 0x10DE, 0x10D8, 0x10E0, 0x10D4,
       0x10D1, 0x10D0]]],
     Message [(None, 1)] False [A ''Copy change''] [[U [0x10EE, 0x10E3, 0x10E0, 0x10D3, 0x10D8, 0x10E1], A '' '', U
       [0x10D9, 0x10DD, 0x10DE, 0x10D8, 0x10E0, 0x10D4, 0x10D1, 0x10D0]]],
     Message [(None, 86)] False [A ''<b>%1</b> to %2 (%3)''] [[]],
     Message [(None, 5)] False [A ''Confirm send coins''] [[U [0x10DB, 0x10DD, 0x10DC, 0x10D4, 0x10E2, 0x10D4,
       0x10D1, 0x10D8, 0x10E1], A '' '', U [0x10D2, 0x10D0, 0x10D2, 0x10D6, 0x10D0, 0x10D5, 0x10DC, 0x10D8, 0x10E1],
       A '' '', U [0x10D3, 0x10D0, 0x10D3, 0x10D0, 0x10E1, 0x10E2, 0x10E3, 0x10E0, 0x10D4, 0x10D1, 0x10D0]]],
     Message [(None, 1)] False [A ''Are you sure you want to send %1?''] [[]],
     Message [(None, 0)] False [A '' and ''] [[]],
     Message [(None, 29)] False [A ''The recipient address is not valid, please recheck.''] [[U [0x10DB, 0x10D8,
       0x10DB, 0x10E6, 0x10D4, 0x10D1, 0x10D8, 0x10E1], A '' '', U [0x10DB, 0x10D8, 0x10E1, 0x10D0, 0x10DB, 0x10D0,
       0x10E0, 0x10D7, 0x10D8], A '' '', U [0x10D0, 0x10E0, 0x10D0, 0x10E1, 0x10EC, 0x10DD, 0x10E0, 0x10D8, 0x10D0],
       A '', '', U [0x10E8, 0x10D4, 0x10D0, 0x10DB, 0x10DD, 0x10EC, 0x10DB, 0x10D4, 0x10D7], A ''.'']],
     Message [(None, 5)] False [A ''The amount to pay must be larger than 0.''] [[U [0x10D2, 0x10D0, 0x10D3, 0x10D0,
       0x10EE, 0x10D3, 0x10D8, 0x10E1], A '' '', U [0x10DB, 0x10DD, 0x10EA, 0x10E3, 0x10DA, 0x10DD, 0x10D1, 0x10D0],
       A '' 0-'', U [0x10D6, 0x10D4], A '' '', U [0x10DB, 0x10D4, 0x10E2, 0x10D8], A '' '', U [0x10E3, 0x10DC,
       0x10D3, 0x10D0], A '' '', U [0x10D8, 0x10E7, 0x10DD, 0x10E1]]],
     Message [(None, 5)] False [A ''The amount exceeds your balance.''] [[U [0x10D7, 0x10D0, 0x10DC, 0x10EE, 0x10D0],
       A '' '', U [0x10D0, 0x10E6, 0x10D4, 0x10DB, 0x10D0, 0x10E2, 0x10D4, 0x10D1, 0x10D0], A '' '', U [0x10D7,
       0x10E5, 0x10D5, 0x10D4, 0x10DC, 0x10E1], A '' '', U [0x10D1, 0x10D0, 0x10DA, 0x10D0, 0x10DC, 0x10E1, 0x10E1]]],
     Message [(None, 5)] False [A ''The total exceeds your balance when the %1 transaction fee is included.''] [[U
       [0x10E1, 0x10D0, 0x10D9, 0x10DD, 0x10DB, 0x10D8, 0x10E1, 0x10D8, 0x10DD], A '' 1%-'', U [0x10D8, 0x10E1], A
       '' '', U [0x10D3, 0x10D0, 0x10DB, 0x10D0, 0x10E2, 0x10D4, 0x10D1, 0x10D8, 0x10E1], A '' '', U [0x10E8, 0x10D4,
       0x10DB, 0x10D3, 0x10D4, 0x10D2], A '' '', U [0x10D7, 0x10D0, 0x10DC, 0x10EE, 0x10D0], A '' '', U [0x10D0,
       0x10ED, 0x10D0, 0x10E0, 0x10D1, 0x10D4, 0x10D1, 0x10E1], A '' '', U [0x10D7, 0x10E5, 0x10D5, 0x10D4, 0x10DC,
       0x10E1], A '' '', U [0x10D1, 0x10D0, 0x10DA, 0x10D0, 0x10DC, 0x10E1, 0x10E1]]],
     Message [(None, 6)] False [A ''Duplicate address found, can only send to each address once per send operation.''
       ] [[U [0x10DB, 0x10D8, 0x10E1, 0x10D0, 0x10DB, 0x10D0, 0x10E0, 0x10D7, 0x10D4, 0x10D1, 0x10D8], A '' '', U
       [0x10D3, 0x10E3, 0x10D1, 0x10DA, 0x10D8, 0x10E0, 0x10D4, 0x10D1, 0x10E3, 0x10DA, 0x10D8, 0x10D0], A '', '', U
       [0x10D3, 0x10D0, 0x10E8, 0x10D5, 0x10D4, 0x10D1, 0x10E3, 0x10DA, 0x10D8, 0x10D0], A '' '', U [0x10D4, 0x10E0,
       0x10D7], A '' '', U [0x10EF, 0x10D4, 0x10E0, 0x10D6, 0x10D4], A '' '', U [0x10D7, 0x10D8, 0x10D7, 0x10DD], A
       '' '', U [0x10DB, 0x10D8, 0x10E1, 0x10D0, 0x10DB, 0x10D0, 0x10E0, 0x10D7, 0x10D6, 0x10D4], A '' '', U [0x10D4,
       0x10E0, 0x10D7, 0x10EE, 0x10D4, 0x10DA], A '' '', U [0x10D2, 0x10D0, 0x10D2, 0x10D6, 0x10D0, 0x10D5, 0x10DC,
       0x10D0], A ''.'']],
     Message [(None, 5)] False [A ''Error: Transaction creation failed.''] [[]],
     Message [(None, 5)] False [A
       ''Error: The transaction was rejected. This might happen if some of the coins in your wallet were already spent, such as if you used a copy of wallet.dat and coins were spent in the copy but not marked as spent here.''
       ] [[]],
     Message [(None, 251)] False [A ''WARNING: Invalid MotaCoin address''] [[]],
     Message [(None, 13)] False [A ''(no label)''] [[A ''('', U [0x10D0, 0x10E0], A '' '', U [0x10D0, 0x10E0, 0x10D8,
       0x10E1], A '' '', U [0x10DC, 0x10D8, 0x10E8, 0x10DC, 0x10E3, 0x10DA, 0x10D8], A '')'']],
     Message [(None, 4)] False [A ''WARNING: unknown change address''] [[]]]"

definition ka_SendCoinsEntry :: "ts_message list" where
  "ka_SendCoinsEntry = [
     Message [(Some ''../forms/sendcoinsentry.ui'', 14)] False [A ''Form''] [[]],
     Message [(None, 15)] False [A ''A&mount:''] [[A ''&'', U [0x10E0, 0x10D0, 0x10DD, 0x10D3, 0x10D4, 0x10DC,
       0x10DD, 0x10D1, 0x10D0]]],
     Message [(None, 13)] False [A ''Pay &To:''] [[U [0x10D0, 0x10D3, 0x10E0, 0x10D4, 0x10E1, 0x10D0], A ''&'', U
       [0x10E2, 0x10D8], A '':'']],
     Message [(None, 24), (Some ''../sendcoinsentry.cpp'', 25)] False [A
       ''Enter a label for this address to add it to your address book''] [[U [0x10E8, 0x10D4, 0x10D8, 0x10E7,
       0x10D5, 0x10D0, 0x10DC, 0x10D4, 0x10D7], A '' '', U [0x10D0, 0x10DB], A '' '', U [0x10DB, 0x10D8, 0x10E1,
       0x10D0, 0x10DB, 0x10D0, 0x10E0, 0x10D7, 0x10D8, 0x10E1], A '' '', U [0x10DC, 0x10D8, 0x10E8, 0x10DC, 0x10E3,
       0x10DA, 0x10D8], A '' '', U [0x10DB, 0x10D8, 0x10E1, 0x10D0, 0x10DB, 0x10D0, 0x10E0, 0x10D7, 0x10D4, 0x10D1,
       0x10D8, 0x10E1], A '' '', U [0x10EC, 0x10D8, 0x10D2, 0x10DC, 0x10E8, 0x10D8], A '' '', U [0x10D3, 0x10D0,
       0x10E1, 0x10D0, 0x10DB, 0x10D0, 0x10E2, 0x10D4, 0x10D1, 0x10DA, 0x10D0, 0x10D3]]],
     Message [(None, 9)] False [A ''&Label:''] [[U [0x10DC, 0x10D8, 0x10E8, 0x10DC, 0x10E3], A ''&'', U [0x10DA,
       0x10D8], A '':'']],
     Message [(None, 18)] False [A ''The address to send the payment to  (e.g. MBDKLakRxSRw7hUB2q5DXEnDpNpLVkqGZd)'']
       [[]],
     Message [(None, 10)] False [A ''Choose address from address book''] [[]],
     Message [(None, 10)] False [A ''Alt+A''] [[A ''Alt+A'']],
     Message [(None, 7)] False [A ''Paste address from clipboard''] [[U [0x10DB, 0x10D8, 0x10E1, 0x10D0, 0x10DB,
       0x10D0, 0x10E0, 0x10D7, 0x10D8, 0x10E1], A '' '', U [0x10E9, 0x10D0, 0x10E1, 0x10DB, 0x10D0], A '' '', U
       [0x10D9, 0x10DA, 0x10D8, 0x10DE, 0x10D1, 0x10DD, 0x10E0, 0x10D3, 0x10D8, 0x10D3, 0x10D0, 0x10DC]]],
     Message [(None, 10)] False [A ''Alt+P''] [[A ''Alt+P'']],
     Message [(None, 7)] False [A ''Remove this recipient''] [[]],
     Message [(Some ''../sendcoinsentry.cpp'', 1)] False [A
       ''Enter a MotaCoin address (e.g. MBDKLakRxSRw7hUB2q5DXEnDpNpLVkqGZd)''] [[]]]"

definition ka_SignVerifyMessageDialog_1 :: "ts_message list" where
  "ka_SignVerifyMessageDialog_1 = [
     Message [(Some ''../forms/signverifymessagedialog.ui'', 14)] False [A ''Signatures - Sign / Verify a Message'']
       [[U [0x10EE, 0x10D4, 0x10DA, 0x10DB, 0x10DD, 0x10EC, 0x10D4, 0x10E0, 0x10D4, 0x10D1, 0x10D8], A '' - '', U
       [0x10DB, 0x10D4, 0x10E1, 0x10D8, 0x10EF, 0x10D8, 0x10E1], A '' '', U [0x10EE, 0x10D4, 0x10DA, 0x10DB, 0x10DD,
       0x10EC, 0x10D4, 0x10E0, 0x10D0], A ''/'', U [0x10D5, 0x10D4, 0x10E0, 0x10D8, 0x10E4, 0x10D8, 0x10D9, 0x10D0,
       0x10EA, 0x10D8, 0x10D0]]],
     Message [(None, 13), (None, 124)] False [A ''&Sign Message''] [[U [0x10DB, 0x10D4], A ''&'', U [0x10E1, 0x10D8,
       0x10EF, 0x10D8, 0x10E1], A '' '', U [0x10EE, 0x10D4, 0x10DA, 0x10DB, 0x10DD, 0x10EC, 0x10D4, 0x10E0, 0x10D0]]],
     Message [(None, -118)] False [A
       ''You can sign messages with your addresses to prove you own them. Be careful not to sign anything vague, as phishing attacks may try to trick you into signing your identity over to them. Only sign fully-detailed statements you agree to.''
       ] [[U [0x10EE, 0x10D4, 0x10DA, 0x10DB, 0x10DD, 0x10EC, 0x10D4, 0x10E0, 0x10D8, 0x10D7], A '' '', U [0x10D7,
       0x10E5, 0x10D5, 0x10D4, 0x10DC], A '' '', U [0x10D0, 0x10D3, 0x10D0, 0x10E1, 0x10E2, 0x10E3, 0x10E0, 0x10D4,
       0x10D1, 0x10D7], A '', '', U [0x10E0, 0x10DD, 0x10DB], A '' '', U [0x10DB, 0x10D4, 0x10E1, 0x10D8, 0x10EF,
       0x10D8], A '' '', U [0x10D7, 0x10E5, 0x10D5, 0x10D4, 0x10DC, 0x10D8, 0x10D0], A ''. '', U [0x10E4, 0x10E0,
       0x10D7, 0x10EE, 0x10D8, 0x10DA, 0x10D0, 0x10D3], A '' - '', U [0x10D0, 0x10E0], A '' '', U [0x10DB, 0x10DD,
       0x10D0, 0x10EC, 0x10D4, 0x10E0, 0x10DD, 0x10D7], A '' '', U [0x10EE, 0x10D4, 0x10DA, 0x10D8], A '' '', U
       [0x10E0, 0x10D0, 0x10D8, 0x10DB, 0x10D4], A '' '', U [0x10E1, 0x10D0, 0x10D4, 0x10ED, 0x10D5, 0x10DD, 0x10E1],
       A '': '', U [0x10E4, 0x10D8, 0x10E8, 0x10D8, 0x10DC, 0x10D2, 0x10E3, 0x10E0, 0x10D8], A '' '', U [0x10EE,
       0x10E0, 0x10D8, 0x10D9, 0x10D4, 0x10D1, 0x10D8, 0x10D7], A '' '', U [0x10E8, 0x10D4, 0x10D8, 0x10EB, 0x10DA,
       0x10D4, 0x10D1, 0x10D0], A '' '', U [0x10D8, 0x10E1], A '' '', U [0x10D7, 0x10E5, 0x10D5, 0x10D4, 0x10DC,
       0x10E1], A '' '', U [0x10DB, 0x10D4, 0x10E1, 0x10D8, 0x10EF, 0x10D0, 0x10D3], A '' '', U [0x10D2, 0x10D0,
       0x10D0, 0x10E1, 0x10D0, 0x10E6, 0x10DD, 0x10DC], A ''. '', U [0x10DB, 0x10DD, 0x10D0, 0x10EC, 0x10D4, 0x10E0,
       0x10D4, 0x10D7], A '' '', U [0x10EE, 0x10D4, 0x10DA, 0x10D8], A '' '', U [0x10DB, 0x10EE, 0x10DD, 0x10DA,
       0x10DD, 0x10D3], A '' '', U [0x10D8, 0x10DB, 0x10D0, 0x10E1], A '', '', U [0x10E0, 0x10D0, 0x10E1, 0x10D0,
       0x10EA], A '' '', U [0x10E7, 0x10D5, 0x10D4, 0x10DA, 0x10D0], A '' '', U [0x10EC, 0x10D5, 0x10E0, 0x10D8,
       0x10DA, 0x10DB, 0x10D0, 0x10DC, 0x10E8, 0x10D8], A '' '', U [0x10D4, 0x10D7, 0x10D0, 0x10DC, 0x10EE, 0x10DB,
       0x10D4, 0x10D1, 0x10D8, 0x10D7], A ''.'']],
     Message [(None, 18)] False [A ''The address to sign the message with (e.g. MBDKLakRxSRw7hUB2q5DXEnDpNpLVkqGZd)''
       ] [[]],
     Message [(None, 10), (None, 203)] False [A ''Choose an address from the address book''] [[]],
     Message [(None, -193), (None, 203)] False [A ''Alt+A''] [[A ''Alt+A'']],
     Message [(None, -193)] False [A ''Paste address from clipboard''] [[U [0x10DB, 0x10D8, 0x10E1, 0x10D0, 0x10DB,
       0x10D0, 0x10E0, 0x10D7, 0x10D8, 0x10E1], A '' '', U [0x10E9, 0x10D0, 0x10E1, 0x10DB, 0x10D0], A '' '', U
       [0x10D9, 0x10DA, 0x10D8, 0x10DE, 0x10D1, 0x10DD, 0x10E0, 0x10D3, 0x10D8, 0x10D3, 0x10D0, 0x10DC]]],
     Message [(None, 10)] False [A ''Alt+P''] [[A ''Alt+P'']],
     Message [(None, 12)] False [A ''Enter the message you want to sign here''] [[U [0x10D0, 0x10D9, 0x10E0, 0x10D8,
       0x10E4, 0x10D4, 0x10D7], A '' '', U [0x10EE, 0x10D4, 0x10DA, 0x10DB, 0x10DD, 0x10E1, 0x10D0, 0x10EC, 0x10D4,
       0x10E0, 0x10D8], A '' '', U [0x10DB, 0x10D4, 0x10E1, 0x10D8, 0x10EF, 0x10D8]]],
     Message [(None, 24)] False [A ''Copy the current signature to the system clipboard''] [[U [0x10DB, 0x10D8,
       0x10DB, 0x10D3, 0x10D8, 0x10DC, 0x10D0, 0x10E0, 0x10D4], A '' '', U [0x10EE, 0x10D4, 0x10DA, 0x10DB, 0x10DD,
       0x10EC, 0x10D4, 0x10E0, 0x10D8, 0x10E1], A '' '', U [0x10D9, 0x10DD, 0x10DE, 0x10D8, 0x10E0, 0x10D4, 0x10D1,
       0x10D0], A '' '', U [0x10D9, 0x10DA, 0x10D8, 0x10DE, 0x10D1, 0x10DD, 0x10E0, 0x10D3, 0x10E8, 0x10D8]]],
     Message [(None, 21)] False [A ''Sign the message to prove you own this MotaCoin address''] [[]],
     Message [(None, 17)] False [A ''Reset all sign message fields''] [[U [0x10EE, 0x10D4, 0x10DA, 0x10DB, 0x10DD,
       0x10EC, 0x10D4, 0x10E0, 0x10D8, 0x10E1], A '' '', U [0x10E7, 0x10D5, 0x10D4, 0x10DA, 0x10D0], A '' '', U
       [0x10D5, 0x10D4, 0x10DA, 0x10D8, 0x10E1], A '' '', U [0x10EC, 0x10D0, 0x10E8, 0x10DA, 0x10D0]]],
     Message [(None, 3), (None, 146)] False [A ''Clear &All''] [[U [0x10D2], A ''&'', U [0x10D0, 0x10E1, 0x10E3,
       0x10E4, 0x10D7, 0x10D0, 0x10D5, 0x10D4, 0x10D1, 0x10D0]]],
     Message [(None, -87), (None, 70)] False [A ''&Verify Message''] [[U [0x10DB, 0x10D4, 0x10E1, 0x10D8, 0x10EF,
       0x10D8, 0x10E1], A '' &'', U [0x10D5, 0x10D4, 0x10E0, 0x10D8, 0x10E4, 0x10D8, 0x10D9, 0x10D0, 0x10EA, 0x10D8,
       0x10D0]]],
     Message [(None, -64)] False [A
       ''Enter the signing address, message (ensure you copy line breaks, spaces, tabs, etc. exactly) and signature below to verify the message. Be careful not to read more into the signature than what is in the signed message itself, to avoid being tricked by a man-in-the-middle attack.''
       ] [[U [0x10E8, 0x10D4, 0x10D8, 0x10E7, 0x10D5, 0x10D0, 0x10DC, 0x10D4, 0x10D7], A '' '', U [0x10EE, 0x10D4,
       0x10DA, 0x10DB, 0x10DD, 0x10EC, 0x10D4, 0x10E0, 0x10D8, 0x10E1], A '' '', U [0x10DB, 0x10D8, 0x10E1, 0x10D0,
       0x10DB, 0x10D0, 0x10E0, 0x10D7, 0x10D8], A '', '', U [0x10DB, 0x10D4, 0x10E1, 0x10D8, 0x10EF, 0x10D8], A '' (''
       , U [0x10D3, 0x10D0, 0x10E3, 0x10D9, 0x10D5, 0x10D8, 0x10E0, 0x10D3, 0x10D8, 0x10D7], A '', '', U [0x10E0,
       0x10DD, 0x10DB], A '' '', U [0x10D6, 0x10E3, 0x10E1, 0x10E2, 0x10D0, 0x10D3], A '' '', U [0x10D8, 0x10E7,
       0x10DD, 0x10E1], A '' '', U [0x10D9, 0x10DD, 0x10DE, 0x10D8, 0x10E0, 0x10D4, 0x10D1, 0x10E3, 0x10DA, 0x10D8],
       A '' '', U [0x10E1, 0x10E2, 0x10E0, 0x10D8, 0x10E5, 0x10DD, 0x10DC, 0x10D8, 0x10E1], A '' '', U [0x10D2,
       0x10D0, 0x10D3, 0x10D0, 0x10E2, 0x10D0, 0x10DC, 0x10D4, 0x10D1, 0x10D8], A '', '', U [0x10F0, 0x10D0, 0x10E0,
       0x10D4, 0x10D1, 0x10D8], A '', '', U [0x10E2, 0x10D0, 0x10D1, 0x10E3, 0x10DA, 0x10D0, 0x10EA, 0x10D8, 0x10D4,
       0x10D1, 0x10D8], A '' '', U [0x10D3, 0x10D0], A '' '', U [0x10E1, 0x10EE, 0x10D5], A '') '', U [0x10D3,
       0x10D0], A '' '', U [0x10EE, 0x10D4, 0x10DA, 0x10DB, 0x10DD, 0x10EC, 0x10D4, 0x10E0, 0x10D0], A '' '', U
       [0x10DB, 0x10D4, 0x10E1, 0x10D8, 0x10EF, 0x10D8, 0x10E1], A '' '', U [0x10D5, 0x10D4, 0x10E0, 0x10D8, 0x10E4,
       0x10D8, 0x10D9, 0x10D0, 0x10EA, 0x10D8, 0x10D8, 0x10E1, 0x10D0, 0x10D7, 0x10D5, 0x10D8, 0x10E1], A ''. '', U
       [0x10DB, 0x10D8, 0x10D0, 0x10E5, 0x10EA, 0x10D8, 0x10D4, 0x10D7], A '' '', U [0x10E7, 0x10E3, 0x10E0, 0x10D0,
       0x10D3, 0x10E6, 0x10D4, 0x10D1, 0x10D0], A '', '', U [0x10E0, 0x10DD, 0x10DB], A '' '', U [0x10E0, 0x10D0,
       0x10D8, 0x10DB, 0x10D4], A '' '', U [0x10D6, 0x10D4, 0x10D3, 0x10DB, 0x10D4, 0x10E2, 0x10D8], A '' '', U
       [0x10D0, 0x10E0], A '' '', U [0x10D2, 0x10D0, 0x10D2, 0x10E7, 0x10D5, 0x10D4, 0x10D7], A '' '', U [0x10D9,
       0x10DD, 0x10DE, 0x10D8, 0x10E0, 0x10D4, 0x10D1, 0x10D8, 0x10E1, 0x10D0, 0x10E1], A '', '', U [0x10E0, 0x10D0,
       0x10D7, 0x10D0], A '' '', U [0x10D0, 0x10E0], A '' '', U [0x10D2, 0x10D0, 0x10EE, 0x10D3, 0x10D4, 0x10D7], A
       '' '', U [0x22], A ''man-in-the-middle'', U [0x22], A '' '', U [0x10E8, 0x10D4, 0x10E2, 0x10D4, 0x10D5,
       0x10D8, 0x10E1], A '' '', U [0x10DD, 0x10D1, 0x10D8, 0x10D4, 0x10E5, 0x10E2, 0x10D8], A ''.'']],
     Message [(None, 21)] False [A
       ''The address the message was signed with (e.g. MBDKLakRxSRw7hUB2q5DXEnDpNpLVkqGZd)''] [[]],
     Message [(None, 40)] False [A ''Verify the message to ensure it was signed with the specified MotaCoin address''
       ] [[]],
     Message [(None, 17)] False [A ''Reset all verify message fields''] [[U [0x10D5, 0x10D4, 0x10E0, 0x10D8, 0x10E4,
       0x10D8, 0x10D9, 0x10D0, 0x10EA, 0x10D8, 0x10D8, 0x10E1], A '' '', U [0x10E7, 0x10D5, 0x10D4, 0x10DA, 0x10D0],
       A '' '', U [0x10D5, 0x10D4, 0x10DA, 0x10D8, 0x10E1], A '' '', U [0x10EC, 0x10D0, 0x10E8, 0x10DA, 0x10D0]]],
     Message [(Some ''../signverifymessagedialog.cpp'', 27), (None, 3)] False [A
       ''Enter a MotaCoin address (e.g. MBDKLakRxSRw7hUB2q5DXEnDpNpLVkqGZd)''] [[]],
     Message [(None, -2)] False [A ''Click '', U [0x22], A ''Sign Message'', U [0x22], A '' to generate signature'']
       [[U [0x10EE, 0x10D4, 0x10DA, 0x10DB, 0x10DD, 0x10EC, 0x10D4, 0x10E0, 0x10D8, 0x10E1], A '' '', U [0x10D2,
       0x10D4, 0x10DC, 0x10D4, 0x10E0, 0x10D8, 0x10E0, 0x10D4, 0x10D1, 0x10D8, 0x10E1, 0x10D0, 0x10D7, 0x10D5,
       0x10D8, 0x10E1], A '' '', U [0x10D3, 0x10D0, 0x10D0, 0x10ED, 0x10D8, 0x10E0, 0x10D4, 0x10D7], A '' '', U
       [0x22, 0x10DB, 0x10D4, 0x10E1, 0x10D8, 0x10EF, 0x10D8, 0x10E1], A '' '', U [0x10EE, 0x10D4, 0x10DA, 0x10DB,
       0x10DD, 0x10EC, 0x10D4, 0x10E0, 0x10D0, 0x22], A ''-'', U [0x10E1]]],
     Message [(None, 3)] False [A ''Enter MotaCoin signature''] [[]],
     Message [(None, 82), (None, 81)] False [A ''The entered address is invalid.''] [[U [0x10E8, 0x10D4, 0x10E7,
       0x10D5, 0x10D0, 0x10DC, 0x10D8, 0x10DA, 0x10D8], A '' '', U [0x10DB, 0x10D8, 0x10E1, 0x10D0, 0x10DB, 0x10D0,
       0x10E0, 0x10D7, 0x10D8], A '' '', U [0x10D0, 0x10E0, 0x10D0, 0x10E1, 0x10EC, 0x10DD, 0x10E0, 0x10D8, 0x10D0],
       A ''.'']],
     Message [(None, -81), (None, 8), (None, 73), (None, 8)] False [A ''Please check the address and try again.'']
       [[U [0x10E8, 0x10D4, 0x10D0, 0x10DB, 0x10DD, 0x10EC, 0x10DB, 0x10D4, 0x10D7], A '' '', U [0x10DB, 0x10D8,
       0x10E1, 0x10D0, 0x10DB, 0x10D0, 0x10E0, 0x10D7, 0x10D8], A '' '', U [0x10D3, 0x10D0], A '' '', U [0x10E1,
       0x10EA, 0x10D0, 0x10D3, 0x10D4, 0x10D7], A '' '', U [0x10EE, 0x10D4, 0x10DA, 0x10D0, 0x10EE, 0x10DA, 0x10D0],
       A ''.'']],
     Message [(None, -81), (None, 81)] False [A ''The entered address does not refer to a key.''] [[U [0x10E8,
       0x10D4, 0x10E7, 0x10D5, 0x10D0, 0x10DC, 0x10D8, 0x10DA, 0x10D8], A '' '', U [0x10DB, 0x10D8, 0x10E1, 0x10D0,
       0x10DB, 0x10D0, 0x10E0, 0x10D7, 0x10D8], A '' '', U [0x10D0, 0x10E0], A '' '', U [0x10D0, 0x10E0, 0x10D8,
       0x10E1], A '' '', U [0x10D9, 0x10D0, 0x10D5, 0x10E8, 0x10D8, 0x10E0, 0x10E8, 0x10D8], A '' '', U [0x10D2,
       0x10D0, 0x10E1, 0x10D0, 0x10E6, 0x10D4, 0x10D1, 0x10D7, 0x10D0, 0x10DC], A ''.'']],
     Message [(None, -73)] False [A ''Wallet unlock was cancelled.''] [[U [0x10E1, 0x10D0, 0x10E4, 0x10E3, 0x10DA,
       0x10D8, 0x10E1], A '' '', U [0x10D2, 0x10D0, 0x10DC, 0x10D1, 0x10DA, 0x10DD, 0x10D9, 0x10D5, 0x10D0], A '' '',
       U [0x10E8, 0x10D4, 0x10EC, 0x10E7, 0x10D5, 0x10D4, 0x10E2, 0x10D8, 0x10DA, 0x10D8, 0x10D0], A ''.'']],
     Message [(None, 8)] False [A ''Private key for the entered address is not available.''] [[U [0x10D0, 0x10DB], A
       '' '', U [0x10DB, 0x10D8, 0x10E1, 0x10D0, 0x10DB, 0x10D0, 0x10E0, 0x10D7, 0x10D8, 0x10E1, 0x10D0, 0x10D7,
       0x10D5, 0x10D8, 0x10E1], A '' '', U [0x10DE, 0x10D8, 0x10E0, 0x10D0, 0x10D3, 0x10D8], A '' '', U [0x10D2,
       0x10D0, 0x10E1, 0x10D0, 0x10E6, 0x10D4, 0x10D1, 0x10D8], A '' '', U [0x10DB, 0x10D8, 0x10E3, 0x10EC, 0x10D5,
       0x10D3, 0x10DD, 0x10DB, 0x10D4, 0x10DA, 0x10D8, 0x10D0], A ''.'']],
     Message [(None, 12)] False [A ''Message signing failed.''] [[U [0x10D5, 0x10D4, 0x10E0], A '' '', U [0x10DB,
       0x10DD, 0x10EE, 0x10D4, 0x10E0, 0x10EE, 0x10D3, 0x10D0], A '' '', U [0x10DB, 0x10D4, 0x10E1, 0x10D8, 0x10EF,
       0x10D8, 0x10E1], A '' '', U [0x10EE, 0x10D4, 0x10DA, 0x10DB, 0x10DD, 0x10EC, 0x10D4, 0x10E0, 0x10D0], A ''.'']]]"

definition ka_SignVerifyMessageDialog_2 :: "ts_message list" where
  "ka_SignVerifyMessageDialog_2 = [
     Message [(None, 5)] False [A ''Message signed.''] [[U [0x10DB, 0x10D4, 0x10E1, 0x10D8, 0x10EF, 0x10D8], A '' '',
       U [0x10EE, 0x10D4, 0x10DA, 0x10DB, 0x10DD, 0x10EC, 0x10D4, 0x10E0, 0x10D8, 0x10DA, 0x10D8, 0x10D0], A ''.'']],
     Message [(None, 59)] False [A ''The signature could not be decoded.''] [[U [0x10EE, 0x10D4, 0x10DA, 0x10DB,
       0x10DD, 0x10EC, 0x10D4, 0x10E0, 0x10D8, 0x10E1], A '' '', U [0x10D3, 0x10D4, 0x10D9, 0x10DD, 0x10D3, 0x10D8,
       0x10E0, 0x10D4, 0x10D1, 0x10D0], A '' '', U [0x10D5, 0x10D4, 0x10E0], A '' '', U [0x10EE, 0x10D4, 0x10E0,
       0x10EE, 0x10D3, 0x10D4, 0x10D1, 0x10D0], A ''.'']],
     Message [(None, 0), (None, 13)] False [A ''Please check the signature and try again.''] [[U [0x10E8, 0x10D4,
       0x10D0, 0x10DB, 0x10DD, 0x10EC, 0x10DB, 0x10D4, 0x10D7], A '' '', U [0x10EE, 0x10D4, 0x10DA, 0x10DB, 0x10DD,
       0x10EC, 0x10D4, 0x10E0, 0x10D0], A '' '', U [0x10D3, 0x10D0], A '' '', U [0x10E1, 0x10EA, 0x10D0, 0x10D3,
       0x10D4, 0x10D7], A '' '', U [0x10EE, 0x10D4, 0x10DA, 0x10D0, 0x10EE, 0x10DA, 0x10D0], A ''.'']],
     Message [(None, 0)] False [A ''The signature did not match the message digest.''] [[U [0x10EE, 0x10D4, 0x10DA,
       0x10DB, 0x10DD, 0x10EC, 0x10D4, 0x10E0, 0x10D0], A '' '', U [0x10D0, 0x10E0], A '' '', U [0x10E8, 0x10D4,
       0x10D4, 0x10E1, 0x10D0, 0x10D1, 0x10D0, 0x10DB, 0x10D4, 0x10D1, 0x10D0], A '' '', U [0x10DB, 0x10D4, 0x10E1,
       0x10D8, 0x10EF, 0x10D8, 0x10E1], A '' '', U [0x10D3, 0x10D0, 0x10D8, 0x10EF, 0x10D4, 0x10E1, 0x10E2, 0x10E1],
       A ''.'']],
     Message [(None, 7)] False [A ''Message verification failed.''] [[U [0x10DB, 0x10D4, 0x10E1, 0x10D8, 0x10EF,
       0x10D8, 0x10E1], A '' '', U [0x10D5, 0x10D4, 0x10E0, 0x10D8, 0x10E4, 0x10D8, 0x10D9, 0x10D0, 0x10EA, 0x10D8,
       0x10D0], A '' '', U [0x10D5, 0x10D4, 0x10E0], A '' '', U [0x10DB, 0x10DD, 0x10EE, 0x10D4, 0x10E0, 0x10EE,
       0x10D3, 0x10D0], A ''.'']],
     Message [(None, 5)] False [A ''Message verified.''] [[U [0x10DB, 0x10D4, 0x10E1, 0x10D8, 0x10EF, 0x10D8], A '' ''
       , U [0x10D5, 0x10D4, 0x10E0, 0x10D8, 0x10E4, 0x10D8, 0x10EA, 0x10D8, 0x10E0, 0x10D4, 0x10D1, 0x10E3, 0x10DA,
       0x10D8, 0x10D0], A ''.'']]]"

definition ka_TransactionDesc_1 :: "ts_message list" where
  "ka_TransactionDesc_1 = [
     Message [(Some ''../transactiondesc.cpp'', 19)] False [A ''Open until %1''] [[U [0x10E6, 0x10D8, 0x10D0], A '' ''
       , U [0x10D8, 0x10E5, 0x10DC, 0x10D4, 0x10D1, 0x10D0], A '' '', U [0x10E1, 0x10D0, 0x10DC, 0x10D0, 0x10DB], A
       '' %1'']],
     Message [(None, -2)] True [A ''Open for %n block(s)''] [[]],
     Message [(None, 8)] False [A ''conflicted''] [[]],
     Message [(None, 2)] False [A ''%1/offline''] [[A ''%1/'', U [0x10D2, 0x10D0, 0x10D7, 0x10D8, 0x10E8, 0x10E3,
       0x10DA, 0x10D8, 0x10D0]]],
     Message [(None, 2)] False [A ''%1/unconfirmed''] [[A ''%1/'', U [0x10D3, 0x10D0, 0x10E3, 0x10D3, 0x10D0, 0x10E1,
       0x10E2, 0x10E3, 0x10E0, 0x10D4, 0x10D1, 0x10D4, 0x10DA, 0x10D8, 0x10D0]]],
     Message [(None, 2)] False [A ''%1 confirmations''] [[A ''%1 '', U [0x10D3, 0x10D0, 0x10D3, 0x10D0, 0x10E1,
       0x10E2, 0x10E3, 0x10E0, 0x10D4, 0x10D1, 0x10E3, 0x10DA, 0x10D8, 0x10D0]]],
     Message [(None, 18)] False [A ''Status''] [[U [0x10E1, 0x10E2, 0x10D0, 0x10E2, 0x10E3, 0x10E1, 0x10D8]]],
     Message [(None, 7)] True [A '', broadcast through %n node(s)''] [[]],
     Message [(None, 4)] False [A ''Date''] [[U [0x10D7, 0x10D0, 0x10E0, 0x10D8, 0x10E6, 0x10D8]]],
     Message [(None, 7)] False [A ''Source''] [[U [0x10EC, 0x10E7, 0x10D0, 0x10E0, 0x10DD]]],
     Message [(None, 0)] False [A ''Generated''] [[U [0x10D2, 0x10D4, 0x10DC, 0x10D4, 0x10E0, 0x10D8, 0x10E0, 0x10D4,
       0x10D1, 0x10E3, 0x10DA, 0x10D8, 0x10D0]]],
     Message [(None, 5), (None, 17)] False [A ''From''] [[U [0x10D2, 0x10D0, 0x10DB, 0x10D2, 0x10D6, 0x10D0, 0x10D5,
       0x10DC, 0x10D8]]],
     Message [(None, 1), (None, 22), (None, 58)] False [A ''To''] [[U [0x10DB, 0x10D8, 0x10DB, 0x10E6, 0x10D4,
       0x10D1, 0x10D8]]],
     Message [(None, -77), (None, 2)] False [A ''own address''] [[U [0x10E1, 0x10D0, 0x10D9, 0x10E3, 0x10D7, 0x10D0,
       0x10E0, 0x10D8], A '' '', U [0x10DB, 0x10D8, 0x10E1, 0x10D0, 0x10DB, 0x10D0, 0x10E0, 0x10D7, 0x10D8]]],
     Message [(None, -2)] False [A ''label''] [[U [0x10DC, 0x10D8, 0x10E8, 0x10DC, 0x10E3, 0x10DA, 0x10D8]]],
     Message [(None, 37), (None, 12), (None, 45), (None, 17), (None, 30)] False [A ''Credit''] [[U [0x10D9, 0x10E0,
       0x10D4, 0x10D3, 0x10D8, 0x10E2, 0x10D8]]],
     Message [(None, -102)] True [A ''matures in %n more block(s)''] [[]],
     Message [(None, 2)] False [A ''not accepted''] [[U [0x10E3, 0x10D0, 0x10E0, 0x10E7, 0x10DD, 0x10E4, 0x10D8,
       0x10DA, 0x10D8, 0x10D0]]],
     Message [(None, 44), (None, 8), (None, 15), (None, 30)] False [A ''Debit''] [[U [0x10D3, 0x10D4, 0x10D1, 0x10D8,
       0x10E2, 0x10D8]]],
     Message [(None, -39)] False [A ''Transaction fee''] [[U [0x10E2, 0x10E0, 0x10D0, 0x10DC, 0x10E1, 0x10D0, 0x10E5,
       0x10EA, 0x10D8, 0x10D8, 0x10E1], A '' '', U [0x10E1, 0x10D0, 0x10E4, 0x10D0, 0x10E1, 0x10E3, 0x10E0, 0x10D8],
       A '' - '', U [0x10E1, 0x10D0, 0x10D9, 0x10DD, 0x10DB, 0x10D8, 0x10E1, 0x10D8, 0x10DD]]],
     Message [(None, 16)] False [A ''Net amount''] [[U [0x10E1, 0x10E3, 0x10E4, 0x10D7, 0x10D0], A '' '', U [0x10D7,
       0x10D0, 0x10DC, 0x10EE, 0x10D0]]],
     Message [(None, 6)] False [A ''Message''] [[U [0x10DB, 0x10D4, 0x10E1, 0x10D8, 0x10EF, 0x10D8]]],
     Message [(None, 2)] False [A ''Comment''] [[U [0x10E8, 0x10D4, 0x10DC, 0x10D8, 0x10E8, 0x10D5, 0x10DC, 0x10D0]]],
     Message [(None, 2)] False [A ''Transaction ID''] [[U [0x10E2, 0x10E0, 0x10D0, 0x10DC, 0x10E1, 0x10D0, 0x10E5,
       0x10EA, 0x10D8, 0x10D8, 0x10E1], A '' ID'']],
     Message [(None, 3)] False [A
       ''Generated coins must mature 510 blocks before they can be spent. When you generated this block, it was broadcast to the network to be added to the block chain. If it fails to get into the chain, its state will change to ''
       , U [0x22], A ''not accepted'', U [0x22], A '' and it won'', U [0x27], A
       ''t be spendable. This may occasionally happen if another node generates a block within a few seconds of yours.''
       ] [[]],
     Message [(None, 7)] False [A ''Debug information''] [[U [0x10D3, 0x10D0, 0x10EE, 0x10D5, 0x10D4, 0x10EC, 0x10D8,
       0x10E1], A '' '', U [0x10D8, 0x10DC, 0x10E4, 0x10DD, 0x10E0, 0x10DB, 0x10D0, 0x10EA, 0x10D8, 0x10D0]]],
     Message [(None, 8)] False [A ''Transaction''] [[U [0x10E2, 0x10E0, 0x10D0, 0x10DC, 0x10E1, 0x10D0, 0x10E5,
       0x10EA, 0x10D8, 0x10D0]]]]"

definition ka_TransactionDesc_2 :: "ts_message list" where
  "ka_TransactionDesc_2 = [
     Message [(None, 5)] False [A ''Inputs''] [[U [0x10EE, 0x10D0, 0x10E0, 0x10EF, 0x10D4, 0x10D1, 0x10D8]]],
     Message [(None, 23)] False [A ''Amount''] [[U [0x10D7, 0x10D0, 0x10DC, 0x10EE, 0x10D0]]],
     Message [(None, 1)] False [A ''true''] [[U [0x10ED, 0x10D4, 0x10E8, 0x10DB, 0x10D0, 0x10E0, 0x10D8, 0x10E2,
       0x10D8]]],
     Message [(None, 0)] False [A ''false''] [[U [0x10DB, 0x10EA, 0x10D3, 0x10D0, 0x10E0, 0x10D8]]],
     Message [(None, -211)] False [A '', has not been successfully broadcast yet''] [[A '', '', U [0x10D3, 0x10D0,
       0x10D2, 0x10D6, 0x10D0, 0x10D5, 0x10DC, 0x10D0], A '' '', U [0x10D0, 0x10E0], A '' '', U [0x10D0, 0x10E0,
       0x10D8, 0x10E1], A '' '', U [0x10EC, 0x10D0, 0x10E0, 0x10DB, 0x10D0, 0x10E2, 0x10D4, 0x10D1, 0x10D8, 0x10D7],
       A '' '', U [0x10D3, 0x10D0, 0x10E1, 0x10E0, 0x10E3, 0x10DA, 0x10D4, 0x10D1, 0x10E3, 0x10DA, 0x10D8]]],
     Message [(None, 35)] False [A ''unknown''] [[U [0x10E3, 0x10EA, 0x10DC, 0x10DD, 0x10D1, 0x10D8, 0x10D0]]]]"

definition ka_TransactionDescDialog :: "ts_message list" where
  "ka_TransactionDescDialog = [
     Message [(Some ''../forms/transactiondescdialog.ui'', 14)] False [A ''Transaction details''] [[U [0x10E2,
       0x10E0, 0x10D0, 0x10DC, 0x10E1, 0x10D0, 0x10E5, 0x10EA, 0x10D8, 0x10D8, 0x10E1], A '' '', U [0x10D3, 0x10D4,
       0x10E2, 0x10D0, 0x10DA, 0x10D4, 0x10D1, 0x10D8]]],
     Message [(None, 6)] False [A ''This pane shows a detailed description of the transaction''] [[U [0x10E2, 0x10E0,
       0x10D0, 0x10DC, 0x10E1, 0x10D0, 0x10E5, 0x10EA, 0x10D8, 0x10D8, 0x10E1], A '' '', U [0x10D3, 0x10D0, 0x10EC,
       0x10D5, 0x10E0, 0x10D8, 0x10DA, 0x10D4, 0x10D1, 0x10D8, 0x10D7, 0x10D8], A '' '', U [0x10D0, 0x10E6, 0x10EC,
       0x10D4, 0x10E0, 0x10D8, 0x10DA, 0x10DD, 0x10D1, 0x10D0]]]]"

definition ka_TransactionTableModel :: "ts_message list" where
  "ka_TransactionTableModel = [
     Message [(Some ''../transactiontablemodel.cpp'', 226)] False [A ''Date''] [[U [0x10D7, 0x10D0, 0x10E0, 0x10D8,
       0x10E6, 0x10D8]]],
     Message [(None, 0)] False [A ''Type''] [[U [0x10E2, 0x10D8, 0x10DE, 0x10D8]]],
     Message [(None, 0)] False [A ''Address''] [[U [0x10DB, 0x10D8, 0x10E1, 0x10D0, 0x10DB, 0x10D0, 0x10E0, 0x10D7,
       0x10D8]]],
     Message [(None, 0)] False [A ''Amount''] [[U [0x10E0, 0x10D0, 0x10DD, 0x10D3, 0x10D4, 0x10DC, 0x10DD, 0x10D1,
       0x10D0]]],
     Message [(None, 60)] False [A ''Open until %1''] [[U [0x10E6, 0x10D8, 0x10D0], A '' '', U [0x10D8, 0x10E5,
       0x10DC, 0x10D4, 0x10D1, 0x10D0], A '' '', U [0x10E1, 0x10D0, 0x10DC, 0x10D0, 0x10DB], A '' %1'']],
     Message [(None, 12)] False [A ''Confirmed (%1 confirmations)''] [[U [0x10D3, 0x10D0, 0x10D3, 0x10D0, 0x10E1,
       0x10E2, 0x10E3, 0x10E0, 0x10D4, 0x10D1, 0x10E3, 0x10DA, 0x10D8, 0x10D0], A '' (%1'', U [0x10D3, 0x10D0,
       0x10E1, 0x10E2, 0x10E3, 0x10E0, 0x10D8], A '')'']],
     Message [(None, -15)] True [A ''Open for %n more block(s)''] [[]],
     Message [(None, 6)] False [A ''Offline''] [[]],
     Message [(None, 3)] False [A ''Unconfirmed''] [[]],
     Message [(None, 3)] False [A ''Confirming (%1 of %2 recommended confirmations)''] [[]],
     Message [(None, 6)] False [A ''Conflicted''] [[]],
     Message [(None, 3)] False [A ''Immature (%1 confirmations, will be available after %2)''] [[U [0x10D0, 0x10E0],
       A '' '', U [0x10D0, 0x10E0, 0x10D8, 0x10E1], A '' '', U [0x10DB, 0x10DD, 0x10DB, 0x10EC, 0x10D8, 0x10E4,
       0x10D4, 0x10D1, 0x10E3, 0x10DA, 0x10D8], A '' (%1 '', U [0x10D3, 0x10D0, 0x10E1, 0x10E2, 0x10E3, 0x10E0,
       0x10D8], A '', '', U [0x10E1, 0x10D0, 0x10ED, 0x10D8, 0x10E0, 0x10DD, 0x10D0], A '' '', U [0x10E1, 0x10E3,
       0x10DA], A '' %2)'']],
     Message [(None, 3)] False [A
       ''This block was not received by any other nodes and will probably not be accepted!''] [[U [0x10D4, 0x10E1], A
       '' '', U [0x10D1, 0x10DA, 0x10DD, 0x10D9, 0x10D8], A '' '', U [0x10D0, 0x10E0], A '' '', U [0x10D0, 0x10E0,
       0x10D8, 0x10E1], A '' '', U [0x10DB, 0x10D8, 0x10E6, 0x10D4, 0x10D1, 0x10E3, 0x10DA, 0x10D8], A '' '', U
       [0x10D0, 0x10E0, 0x10EA, 0x10D4, 0x10E0, 0x10D7, 0x10D8], A '' '', U [0x10D9, 0x10D5, 0x10D0, 0x10DC, 0x10EB,
       0x10D8, 0x10E1], A '' '', U [0x10DB, 0x10D8, 0x10D4, 0x10E0], A '' '', U [0x10D3, 0x10D0], A '' '', U [0x10E1,
       0x10D0, 0x10D5, 0x10D0, 0x10E0, 0x10D0, 0x10E3, 0x10D3, 0x10DD, 0x10D3], A '' '', U [0x10E3, 0x10D0, 0x10E0,
       0x10E7, 0x10DD, 0x10E4, 0x10D8, 0x10DA, 0x10D8, 0x10D0], A ''!'']],
     Message [(None, 3)] False [A ''Generated but not accepted''] [[U [0x10D2, 0x10D4, 0x10DC, 0x10D4, 0x10E0,
       0x10D8, 0x10E0, 0x10D4, 0x10D1, 0x10E3, 0x10DA, 0x10D8, 0x10D0], A '', '', U [0x10DB, 0x10D0, 0x10D2, 0x10E0,
       0x10D0, 0x10DB], A '' '', U [0x10E3, 0x10D0, 0x10E0, 0x10E7, 0x10DD, 0x10E4, 0x10D8, 0x10DA, 0x10D8, 0x10D0]]],
     Message [(None, 42)] False [A ''Received with''] [[U [0x10DB, 0x10D8, 0x10E6, 0x10D4, 0x10D1, 0x10E3, 0x10DA,
       0x10D8, 0x10D0]]],
     Message [(None, 2)] False [A ''Received from''] [[U [0x10D2, 0x10D0, 0x10DB, 0x10DD, 0x10DB, 0x10D2, 0x10D6,
       0x10D0, 0x10D5, 0x10DC, 0x10D8]]],
     Message [(None, 3)] False [A ''Sent to''] [[U [0x10D2, 0x10D0, 0x10D2, 0x10D6, 0x10D0, 0x10D5, 0x10DC, 0x10D8,
       0x10DA, 0x10D8, 0x10D0], A '' '', U [0x10D0, 0x10D3, 0x10E0, 0x10D4, 0x10E1, 0x10D0, 0x10E2, 0x10D7, 0x10D0,
       0x10DC]]],
     Message [(None, 2)] False [A ''Payment to yourself''] [[U [0x10D2, 0x10D0, 0x10D3, 0x10D0, 0x10EE, 0x10D3,
       0x10D8, 0x10DA, 0x10D8, 0x10D0], A '' '', U [0x10E1, 0x10D0, 0x10D9, 0x10E3, 0x10D7, 0x10D0, 0x10E0, 0x10D8],
       A '' '', U [0x10D7, 0x10D0, 0x10D5, 0x10D8, 0x10E1, 0x10D0, 0x10D7, 0x10D5, 0x10D8, 0x10E1]]],
     Message [(None, 2)] False [A ''Mined''] [[U [0x10DB, 0x10DD, 0x10DE, 0x10DD, 0x10D5, 0x10D4, 0x10D1, 0x10E3,
       0x10DA, 0x10D8, 0x10D0]]],
     Message [(None, 38)] False [A ''(n/a)''] [[A ''('', U [0x10DB, 0x10D8, 0x10E3, 0x10EC, 0x10D5, 0x10D3], A ''.)''
       ]],
     Message [(None, 190)] False [A ''Transaction status. Hover over this field to show number of confirmations.'']
       [[U [0x10E2, 0x10E0, 0x10D0, 0x10DC, 0x10E1, 0x10D0, 0x10E5, 0x10EA, 0x10D8, 0x10D8, 0x10E1], A '' '', U
       [0x10E1, 0x10E2, 0x10D0, 0x10E2, 0x10E3, 0x10E1, 0x10D8], A ''. '', U [0x10D5, 0x10D4, 0x10DA, 0x10D6,
       0x10D4], A '' '', U [0x10D9, 0x10E3, 0x10E0, 0x10E1, 0x10DD, 0x10E0, 0x10D8, 0x10E1], A '' '', U [0x10E8,
       0x10D4, 0x10E7, 0x10D5, 0x10D0, 0x10DC, 0x10D8, 0x10E1, 0x10D0, 0x10E1], A '' '', U [0x10D2, 0x10D0, 0x10DB,
       0x10DD, 0x10E9, 0x10DC, 0x10D3, 0x10D4, 0x10D1, 0x10D0], A '' '', U [0x10D3, 0x10D0, 0x10E1, 0x10E2, 0x10E3,
       0x10E0, 0x10D4, 0x10D1, 0x10D8, 0x10E1], A '' '', U [0x10E0, 0x10D0, 0x10DD, 0x10D3, 0x10D4, 0x10DC, 0x10DD,
       0x10D1, 0x10D0], A ''.'']],
     Message [(None, 2)] False [A ''Date and time that the transaction was received.''] [[U [0x10E2, 0x10E0, 0x10D0,
       0x10DC, 0x10E1, 0x10D0, 0x10E5, 0x10EA, 0x10D8, 0x10D8, 0x10E1], A '' '', U [0x10DB, 0x10D8, 0x10E6, 0x10D4,
       0x10D1, 0x10D8, 0x10E1], A '' '', U [0x10D7, 0x10D0, 0x10E0, 0x10D8, 0x10E6, 0x10D8], A '' '', U [0x10D3,
       0x10D0], A '' '', U [0x10D3, 0x10E0, 0x10DD], A ''.'']],
     Message [(None, 2)] False [A ''Type of transaction.''] [[U [0x10E2, 0x10E0, 0x10D0, 0x10DC, 0x10E1, 0x10D0,
       0x10E5, 0x10EA, 0x10D8, 0x10D8, 0x10E1], A '' '', U [0x10E2, 0x10D8, 0x10DE, 0x10D8], A ''.'']],
     Message [(None, 2)] False [A ''Destination address of transaction.''] [[U [0x10E2, 0x10E0, 0x10D0, 0x10DC,
       0x10E1, 0x10D0, 0x10E5, 0x10D8, 0x10D8, 0x10E1], A '' '', U [0x10D3, 0x10D0, 0x10DC, 0x10D8, 0x10E8, 0x10DC,
       0x10E3, 0x10DA, 0x10D4, 0x10D1, 0x10D8, 0x10E1], A '' '', U [0x10DB, 0x10D8, 0x10E1, 0x10D0, 0x10DB, 0x10D0,
       0x10E0, 0x10D7, 0x10D8], A ''.'']],
     Message [(None, 2)] False [A ''Amount removed from or added to balance.''] [[U [0x10D1, 0x10D0, 0x10DA, 0x10D0,
       0x10DC, 0x10E1, 0x10D8, 0x10D3, 0x10D0, 0x10DC], A '' '', U [0x10DB, 0x10DD, 0x10EE, 0x10E1, 0x10DC, 0x10D8,
       0x10DA, 0x10D8], A '' '', U [0x10D0, 0x10DC], A '' '', U [0x10D3, 0x10D0, 0x10DB, 0x10D0, 0x10E2, 0x10D4,
       0x10D1, 0x10E3, 0x10DA, 0x10D8], A '' '', U [0x10D7, 0x10D0, 0x10DC, 0x10EE, 0x10D0], A ''.'']]]"

definition ka_TransactionView_1 :: "ts_message list" where
  "ka_TransactionView_1 = [
     Message [(Some ''../transactionview.cpp'', 55), (None, 16)] False [A ''All''] [[U [0x10E7, 0x10D5, 0x10D4,
       0x10DA, 0x10D0]]],
     Message [(None, -15)] False [A ''Today''] [[U [0x10D3, 0x10E6, 0x10D4, 0x10E1]]],
     Message [(None, 1)] False [A ''This week''] [[U [0x10D0, 0x10DB], A '' '', U [0x10D9, 0x10D5, 0x10D8, 0x10E0,
       0x10D8, 0x10E1]]],
     Message [(None, 1)] False [A ''This month''] [[U [0x10D0, 0x10DB], A '' '', U [0x10D7, 0x10D5, 0x10D8, 0x10E1]]],
     Message [(None, 1)] False [A ''Last month''] [[U [0x10D1, 0x10DD, 0x10DA, 0x10DD], A '' '', U [0x10D7, 0x10D5,
       0x10D8, 0x10E1]]],
     Message [(None, 1)] False [A ''This year''] [[U [0x10D0, 0x10DB], A '' '', U [0x10EC, 0x10DA, 0x10D8, 0x10E1]]],
     Message [(None, 1)] False [A ''Range...''] [[U [0x10E8, 0x10E3, 0x10D0, 0x10DA, 0x10D4, 0x10D3, 0x10D8], A
       ''...'']],
     Message [(None, 11)] False [A ''Received with''] [[U [0x10E8, 0x10D4, 0x10DB, 0x10DD, 0x10E1, 0x10E3, 0x10DA,
       0x10D8, 0x10D0]]],
     Message [(None, 2)] False [A ''Sent to''] [[U [0x10D2, 0x10D0, 0x10D2, 0x10D6, 0x10D0, 0x10D5, 0x10DC, 0x10D8,
       0x10DA, 0x10D8, 0x10D0]]],
     Message [(None, 2)] False [A ''To yourself''] [[U [0x10E1, 0x10D0, 0x10D9, 0x10E3, 0x10D7, 0x10D0, 0x10E0,
       0x10D8], A '' '', U [0x10D7, 0x10D0, 0x10D5, 0x10D8, 0x10E1, 0x10D0, 0x10D7, 0x10D5, 0x10D8, 0x10E1]]],
     Message [(None, 1)] False [A ''Mined''] [[U [0x10DB, 0x10DD, 0x10DE, 0x10DD, 0x10D5, 0x10D4, 0x10D1, 0x10E3,
       0x10DA, 0x10D8, 0x10D0]]],
     Message [(None, 1)] False [A ''Other''] [[U [0x10E1, 0x10EE, 0x10D5, 0x10D0]]],
     Message [(None, 7)] False [A ''Enter address or label to search''] [[U [0x10E8, 0x10D4, 0x10D8, 0x10E7, 0x10D5,
       0x10D0, 0x10DC, 0x10D4, 0x10D7], A '' '', U [0x10E1, 0x10D0, 0x10EB, 0x10D4, 0x10D1, 0x10DC, 0x10D8], A '' '',
       U [0x10DB, 0x10D8, 0x10E1, 0x10D0, 0x10DB, 0x10D0, 0x10E0, 0x10D7, 0x10D8], A '' '', U [0x10D0, 0x10DC], A
       '' '', U [0x10DC, 0x10D8, 0x10E8, 0x10DC, 0x10E3, 0x10DA, 0x10D8]]],
     Message [(None, 7)] False [A ''Min amount''] [[U [0x10DB, 0x10D8, 0x10DC], A ''. '', U [0x10D7, 0x10D0, 0x10DC,
       0x10EE, 0x10D0]]],
     Message [(None, 34)] False [A ''Copy address''] [[U [0x10DB, 0x10D8, 0x10E1, 0x10D0, 0x10DB, 0x10D0, 0x10E0,
       0x10D7, 0x10D8, 0x10E1], A '' '', U [0x10D9, 0x10DD, 0x10DE, 0x10D8, 0x10E0, 0x10D4, 0x10D1, 0x10D0]]],
     Message [(None, 1)] False [A ''Copy label''] [[U [0x10DC, 0x10D8, 0x10E8, 0x10DC, 0x10E3, 0x10DA, 0x10D8,
       0x10E1], A '' '', U [0x10D9, 0x10DD, 0x10DE, 0x10D8, 0x10E0, 0x10D4, 0x10D1, 0x10D0]]],
     Message [(None, 1)] False [A ''Copy amount''] [[U [0x10D7, 0x10D0, 0x10DC, 0x10EE, 0x10D8, 0x10E1], A '' '', U
       [0x10D9, 0x10DD, 0x10DE, 0x10D8, 0x10E0, 0x10D4, 0x10D1, 0x10D0]]],
     Message [(None, 1)] False [A ''Copy transaction ID''] [[U [0x10E2, 0x10E0, 0x10D0, 0x10DC, 0x10E1, 0x10D0,
       0x10E5, 0x10EA, 0x10D8, 0x10D8, 0x10E1], A '' ID-'', U [0x10E1], A '' '', U [0x10D9, 0x10DD, 0x10DE, 0x10D8,
       0x10E0, 0x10D4, 0x10D1, 0x10D0]]],
     Message [(None, 1)] False [A ''Edit label''] [[U [0x10DC, 0x10D8, 0x10E8, 0x10DC, 0x10E3, 0x10DA, 0x10D8,
       0x10E1], A '' '', U [0x10E0, 0x10D4, 0x10D3, 0x10D0, 0x10E5, 0x10E2, 0x10D8, 0x10E0, 0x10D4, 0x10D1, 0x10D0]]],
     Message [(None, 1)] False [A ''Show transaction details''] [[U [0x10E2, 0x10E0, 0x10D0, 0x10DC, 0x10E1, 0x10D0,
       0x10E5, 0x10EA, 0x10D8, 0x10D8, 0x10E1], A '' '', U [0x10D3, 0x10D4, 0x10E2, 0x10D0, 0x10DA, 0x10D4, 0x10D1,
       0x10D8, 0x10E1], A '' '', U [0x10E9, 0x10D5, 0x10D4, 0x10DC, 0x10D4, 0x10D1, 0x10D0]]],
     Message [(None, 144)] False [A ''Export Transaction Data''] [[]],
     Message [(None, 1)] False [A ''Comma separated file (*.csv)''] [[A ''CSV-'', U [0x10E4, 0x10D0, 0x10D8, 0x10DA,
       0x10D8], A '' (*.csv)'']],
     Message [(None, 8)] False [A ''Confirmed''] [[U [0x10D3, 0x10D0, 0x10D3, 0x10D0, 0x10E1, 0x10E2, 0x10E3, 0x10E0,
       0x10D4, 0x10D1, 0x10E3, 0x10DA, 0x10D8, 0x10D0]]],
     Message [(None, 1)] False [A ''Date''] [[U [0x10D7, 0x10D0, 0x10E0, 0x10D8, 0x10E6, 0x10D8]]],
     Message [(None, 1)] False [A ''Type''] [[U [0x10E2, 0x10D8, 0x10DE, 0x10D8]]],
     Message [(None, 1)] False [A ''Label''] [[U [0x10DC, 0x10D8, 0x10E8, 0x10DC, 0x10E3, 0x10DA, 0x10D8]]],
     Message [(None, 1)] False [A ''Address''] [[U [0x10DB, 0x10D8, 0x10E1, 0x10D0, 0x10DB, 0x10D0, 0x10E0, 0x10D7,
       0x10D8]]],
     Message [(None, 1)] False [A ''Amount''] [[U [0x10D7, 0x10D0, 0x10DC, 0x10EE, 0x10D0]]],
     Message [(None, 1)] False [A ''ID''] [[A ''ID'']]]"

definition ka_TransactionView_2 :: "ts_message list" where
  "ka_TransactionView_2 = [
     Message [(None, 4)] False [A ''Error exporting''] [[]],
     Message [(None, 0)] False [A ''Could not write to file %1.''] [[]],
     Message [(None, 100)] False [A ''Range:''] [[U [0x10E8, 0x10E3, 0x10D0, 0x10DA, 0x10D4, 0x10D3, 0x10D8], A '':''
       ]],
     Message [(None, 8)] False [A ''to''] [[A ''-'']]]"

definition ka_WalletModel :: "ts_message list" where
  "ka_WalletModel = [
     Message [(Some ''../walletmodel.cpp'', 206)] False [A ''Sending...''] [[]]]"

definition ka_bitcoin_core_1 :: "ts_message list" where
  "ka_bitcoin_core_1 = [
     Message [(Some ''../bitcoinstrings.cpp'', 33)] False [A ''MotaCoin version''] [[]],
     Message [(None, 1)] False [A ''Usage:''] [[U [0x10D2, 0x10D0, 0x10DB, 0x10DD, 0x10E7, 0x10D4, 0x10DC, 0x10D4,
       0x10D1, 0x10D0], A '':'']],
     Message [(None, 1)] False [A ''Send command to -server or MotaCoind''] [[]],
     Message [(None, 1)] False [A ''List commands''] [[U [0x10D1, 0x10E0, 0x10EB, 0x10D0, 0x10DC, 0x10D4, 0x10D1,
       0x10D4, 0x10D1, 0x10D8]]],
     Message [(None, 1)] False [A ''Get help for a command''] [[U [0x10D1, 0x10E0, 0x10EB, 0x10D0, 0x10DC, 0x10D4,
       0x10D1, 0x10D8, 0x10E1], A '' '', U [0x10D0, 0x10E6, 0x10EC, 0x10D4, 0x10E0, 0x10D8, 0x10DA, 0x10DD, 0x10D1,
       0x10D0]]],
     Message [(None, 2)] False [A ''Options:''] [[U [0x10DD, 0x10DE, 0x10EA, 0x10D8, 0x10D4, 0x10D1, 0x10D8], A '':''
       ]],
     Message [(None, 2)] False [A ''Specify configuration file (default: MotaCoin.conf)''] [[]],
     Message [(None, 1)] False [A ''Specify pid file (default: MotaCoind.pid)''] [[]],
     Message [(None, 2)] False [A ''Specify wallet file (within data directory)''] [[U [0x10DB, 0x10D8, 0x10E3,
       0x10D7, 0x10D8, 0x10D7, 0x10D4, 0x10D7], A '' '', U [0x10E1, 0x10D0, 0x10E4, 0x10E3, 0x10DA, 0x10D8, 0x10E1],
       A '' '', U [0x10E4, 0x10D0, 0x10D8, 0x10DA, 0x10D8], A '' ('', U [0x10D9, 0x10D0, 0x10E2, 0x10D0, 0x10DA,
       0x10DD, 0x10D2, 0x10E8, 0x10D8], A '')'']],
     Message [(None, -1)] False [A ''Specify data directory''] [[U [0x10DB, 0x10D8, 0x10E3, 0x10D7, 0x10D8, 0x10D7,
       0x10D4, 0x10D7], A '' '', U [0x10DB, 0x10DD, 0x10DC, 0x10D0, 0x10EA, 0x10D4, 0x10DB, 0x10D7, 0x10D0], A '' '',
       U [0x10D9, 0x10D0, 0x10E2, 0x10D0, 0x10DA, 0x10DD, 0x10D2, 0x10D8]]],
     Message [(None, 2)] False [A ''Set database cache size in megabytes (default: 25)''] [[U [0x10DB, 0x10DD,
       0x10DC, 0x10D0, 0x10EA, 0x10D4, 0x10DB, 0x10D7, 0x10D0], A '' '', U [0x10D1, 0x10D0, 0x10D6, 0x10D8, 0x10E1],
       A '' '', U [0x10E5, 0x10D4, 0x10E8, 0x10D8, 0x10E1], A '' '', U [0x10D6, 0x10DD, 0x10DB, 0x10D0], A '' '', U
       [0x10DB, 0x10D4, 0x10D2, 0x10D0, 0x10D1, 0x10D0, 0x10D8, 0x10E2, 0x10D4, 0x10D1, 0x10E8, 0x10D8], A '' ('', U
       [0x10DC, 0x10D0, 0x10D2, 0x10E3, 0x10DA, 0x10D8, 0x10E1, 0x10EE, 0x10DB, 0x10D4, 0x10D5, 0x10D8, 0x10D0], A
       '' 25)'']],
     Message [(None, 1)] False [A ''Set database disk log size in megabytes (default: 100)''] [[]],
     Message [(None, 6)] False [A ''Listen for connections on <port> (default: 15714 or testnet: 25714)''] [[]],
     Message [(None, 1)] False [A ''Maintain at most <n> connections to peers (default: 125)''] [[U [0x10D0, 0x10E0,
       0x10D0, 0x10E3, 0x10DB, 0x10D4, 0x10E2, 0x10D4, 0x10E1], A '' <n> '', U [0x10E8, 0x10D4, 0x10D4, 0x10E0,
       0x10D7, 0x10D4, 0x10D1, 0x10D8, 0x10E1, 0x10D0], A '' '', U [0x10DE, 0x10D8, 0x10E0, 0x10D4, 0x10D1, 0x10D6,
       0x10D4], A '' ('', U [0x10DC, 0x10D0, 0x10D2, 0x10E3, 0x10DA, 0x10D8, 0x10E1, 0x10EE, 0x10DB, 0x10D4, 0x10D5,
       0x10D8], A '': 125)'']],
     Message [(None, 3)] False [A ''Connect to a node to retrieve peer addresses, and disconnect''] [[U [0x10DB,
       0x10D8, 0x10D4, 0x10E0, 0x10D7, 0x10D4, 0x10D1, 0x10D0], A '' '', U [0x10D9, 0x10D5, 0x10D0, 0x10DC, 0x10EB,
       0x10D7, 0x10D0, 0x10DC], A '', '', U [0x10DE, 0x10D8, 0x10E0, 0x10D4, 0x10D1, 0x10D8, 0x10E1], A '' '', U
       [0x10DB, 0x10D8, 0x10E1, 0x10D0, 0x10DB, 0x10D0, 0x10E0, 0x10D7, 0x10D4, 0x10D1, 0x10D8, 0x10E1], A '' '', U
       [0x10DB, 0x10D8, 0x10E6, 0x10D4, 0x10D1, 0x10D0], A '' '', U [0x10D3, 0x10D0], A '' '', U [0x10D2, 0x10D0,
       0x10D7, 0x10D8, 0x10E8, 0x10D5, 0x10D0]]],
     Message [(None, 1)] False [A ''Specify your own public address''] [[U [0x10DB, 0x10D8, 0x10E3, 0x10D7, 0x10D8,
       0x10D7, 0x10D4, 0x10D7], A '' '', U [0x10D7, 0x10E5, 0x10D5, 0x10D4, 0x10DC, 0x10D8], A '' '', U [0x10E1,
       0x10D0, 0x10EF, 0x10D0, 0x10E0, 0x10DD], A '' '', U [0x10DB, 0x10D8, 0x10E1, 0x10D0, 0x10DB, 0x10D0, 0x10E0,
       0x10D7, 0x10D8]]],
     Message [(None, 5)] False [A ''Bind to given address. Use [host]:port notation for IPv6''] [[]],
     Message [(None, 2)] False [A ''Stake your coins to support network and gain reward (default: 1)''] [[]],
     Message [(None, 5)] False [A ''Threshold for disconnecting misbehaving peers (default: 100)''] [[U [0x10D0,
       0x10E0, 0x10D0, 0x10E1, 0x10EC, 0x10DD, 0x10E0, 0x10D0, 0x10D3], A '' '', U [0x10DB, 0x10DD, 0x10E5, 0x10DB,
       0x10D4, 0x10D3, 0x10D8], A '' '', U [0x10DE, 0x10D8, 0x10E0, 0x10D4, 0x10D1, 0x10D8, 0x10E1], A '' '', U
       [0x10D2, 0x10D0, 0x10D7, 0x10D8, 0x10E8, 0x10D5, 0x10D8, 0x10E1], A '' '', U [0x10D6, 0x10E6, 0x10D5, 0x10D0,
       0x10E0, 0x10D8], A '' ('', U [0x10DC, 0x10D0, 0x10D2, 0x10E3, 0x10DA, 0x10D8, 0x10E1, 0x10EE, 0x10DB, 0x10D4,
       0x10D5, 0x10D8], A '':100)'']],
     Message [(None, 1)] False [A ''Number of seconds to keep misbehaving peers from reconnecting (default: 86400)'']
       [[U [0x10D0, 0x10E0, 0x10D0, 0x10E1, 0x10EC, 0x10DD, 0x10E0, 0x10D0, 0x10D3], A '' '', U [0x10DB, 0x10DD,
       0x10E5, 0x10DB, 0x10D4, 0x10D3, 0x10D8], A '' '', U [0x10DE, 0x10D8, 0x10E0, 0x10D4, 0x10D1, 0x10D8, 0x10E1],
       A '' '', U [0x10D1, 0x10DA, 0x10DD, 0x10D9, 0x10D8, 0x10E0, 0x10D4, 0x10D1, 0x10D8, 0x10E1], A '' '', U
       [0x10D3, 0x10E0, 0x10DD], A '' '', U [0x10EC, 0x10D0, 0x10DB, 0x10D4, 0x10D1, 0x10E8, 0x10D8], A '' ('', U
       [0x10DC, 0x10D0, 0x10D2, 0x10E3, 0x10DA, 0x10D8, 0x10E1, 0x10EE, 0x10DB, 0x10D4, 0x10D5, 0x10D8], A
       '': 86400)'']],
     Message [(None, -44)] False [A ''An error occurred while setting up the RPC port %u for listening on IPv4: %s'']
       [[U [0x10E8, 0x10D4, 0x10EA, 0x10D3, 0x10DD, 0x10DB, 0x10D0], A '' %u RPC-'', U [0x10DE, 0x10DD, 0x10E0,
       0x10E2, 0x10D8, 0x10E1], A '' '', U [0x10DB, 0x10D8, 0x10E7, 0x10E3, 0x10E0, 0x10D0, 0x10D3, 0x10D4, 0x10D1,
       0x10D8, 0x10E1], A '' '', U [0x10E9, 0x10D0, 0x10E0, 0x10D7, 0x10D5, 0x10D8, 0x10E1, 0x10D0, 0x10E1], A
       '' IPv4 '', U [0x10DB, 0x10D8, 0x10E1, 0x10D0, 0x10DB, 0x10D0, 0x10E0, 0x10D7, 0x10D6, 0x10D4], A '': %s'']],
     Message [(None, 51)] False [A ''Detach block and address databases. Increases shutdown time (default: 0)''] [[]],
     Message [(None, 109)] False [A
       ''Error: The transaction was rejected.  This might happen if some of the coins in your wallet were already spent, such as if you used a copy of wallet.dat and coins were spent in the copy but not marked as spent here.''
       ] [[]],
     Message [(None, -5)] False [A
       ''Error: This transaction requires a transaction fee of at least %s because of its amount, complexity, or use of recently received funds  ''
       ] [[]],
     Message [(None, -87)] False [A ''Listen for JSON-RPC connections on <port> (default: 15715 or testnet: 25715)'']
       [[]],
     Message [(None, -11)] False [A ''Accept command line and JSON-RPC commands''] [[U [0x10E1, 0x10D0, 0x10D9,
       0x10DD, 0x10DB, 0x10D0, 0x10DC, 0x10D3, 0x10DD], A '' '', U [0x10E1, 0x10E2, 0x10E0, 0x10D8, 0x10E5, 0x10DD,
       0x10DC, 0x10D8, 0x10E1, 0x10D0], A '' '', U [0x10D3, 0x10D0], A '' JSON-RPC-'', U [0x10D9, 0x10DD, 0x10DB,
       0x10D0, 0x10DB, 0x10D3, 0x10D4, 0x10D1, 0x10D8, 0x10E1], A '' '', U [0x10DC, 0x10D4, 0x10D1, 0x10D0, 0x10E0,
       0x10D7, 0x10D5, 0x10D0]]],
     Message [(None, 101)] False [A ''Error: Transaction creation failed  ''] [[]],
     Message [(None, -5)] False [A ''Error: Wallet locked, unable to create transaction  ''] [[]],
     Message [(None, -8)] False [A ''Importing blockchain data file.''] [[]]]"

definition ka_bitcoin_core_2 :: "ts_message list" where
  "ka_bitcoin_core_2 = [
     Message [(None, 1)] False [A ''Importing bootstrap blockchain data file.''] [[]],
     Message [(None, -88)] False [A ''Run in the background as a daemon and accept commands''] [[U [0x10E0, 0x10D4,
       0x10D6, 0x10D8, 0x10D3, 0x10D4, 0x10DC, 0x10E2, 0x10E3, 0x10DA, 0x10D0, 0x10D3], A '' '', U [0x10D2, 0x10D0,
       0x10E8, 0x10D5, 0x10D4, 0x10D1, 0x10D0], A '' '', U [0x10D3, 0x10D0], A '' '', U [0x10D9, 0x10DD, 0x10DB,
       0x10D0, 0x10DC, 0x10D3, 0x10D4, 0x10D1, 0x10D8, 0x10E1], A '' '', U [0x10DB, 0x10D8, 0x10E6, 0x10D4, 0x10D1,
       0x10D0]]],
     Message [(None, 1)] False [A ''Use the test network''] [[U [0x10E1, 0x10D0, 0x10E2, 0x10D4, 0x10E1, 0x10E2,
       0x10DD], A '' '', U [0x10E5, 0x10E1, 0x10D4, 0x10DA, 0x10D8, 0x10E1], A '' '', U [0x10D2, 0x10D0, 0x10DB,
       0x10DD, 0x10E7, 0x10D4, 0x10DC, 0x10D4, 0x10D1, 0x10D0]]],
     Message [(None, -24)] False [A ''Accept connections from outside (default: 1 if no -proxy or -connect)''] [[U
       [0x10D2, 0x10D0, 0x10E0, 0x10D4, 0x10D3, 0x10D0, 0x10DC], A '' '', U [0x10E8, 0x10D4, 0x10D4, 0x10E0, 0x10D7,
       0x10D4, 0x10D1, 0x10D4, 0x10D1, 0x10D8, 0x10E1], A '' '', U [0x10D3, 0x10D0, 0x10E8, 0x10D5, 0x10D4, 0x10D1,
       0x10D0], A '' ('', U [0x10DC, 0x10D0, 0x10D2, 0x10E3, 0x10DA, 0x10D8, 0x10E1, 0x10EE, 0x10DB, 0x10D4, 0x10D5,
       0x10D8], A '': 1 '', U [0x10D7, 0x10E3], A '' '', U [0x10D0, 0x10E0], A '' '', U [0x10D2, 0x10D0, 0x10DB,
       0x10DD, 0x10D8, 0x10E7, 0x10D4, 0x10DC, 0x10D4, 0x10D1, 0x10D0], A '' -proxy '', U [0x10D0, 0x10DC], A
       '' -connect)'']],
     Message [(None, -38)] False [A
       ''An error occurred while setting up the RPC port %u for listening on IPv6, falling back to IPv4: %s''] [[U
       [0x10E8, 0x10D4, 0x10EA, 0x10D3, 0x10DD, 0x10DB, 0x10D0], A '' %u RPC-'', U [0x10DE, 0x10DD, 0x10E0, 0x10E2,
       0x10D8, 0x10E1], A '' '', U [0x10DB, 0x10D8, 0x10E7, 0x10E3, 0x10E0, 0x10D0, 0x10D3, 0x10D4, 0x10D1, 0x10D8,
       0x10E1], A '' '', U [0x10E9, 0x10D0, 0x10E0, 0x10D7, 0x10D5, 0x10D8, 0x10E1, 0x10D0, 0x10E1], A '' IPv6 '', U
       [0x10DB, 0x10D8, 0x10E1, 0x10D0, 0x10DB, 0x10D0, 0x10E0, 0x10D7, 0x10D6, 0x10D4], A '', '', U [0x10D5, 0x10D1,
       0x10E0, 0x10E3, 0x10DC, 0x10D3, 0x10D4, 0x10D1, 0x10D8, 0x10D7], A '' IPv4-'', U [0x10D6, 0x10D4], A '' : %s''
       ]],
     Message [(None, 117)] False [A
       ''Error initializing database environment %s! To recover, BACKUP THAT DIRECTORY, then remove everything from it except for wallet.dat.''
       ] [[]],
     Message [(None, -20)] False [A
       ''Set maximum size of high-priority/low-fee transactions in bytes (default: 27000)''] [[]],
     Message [(None, 11)] False [A
       ''Warning: -paytxfee is set very high! This is the transaction fee you will pay if you send a transaction.'']
       [[U [0x10E7, 0x10E3, 0x10E0, 0x10D0, 0x10D3, 0x10E6, 0x10D4, 0x10D1, 0x10D0], A '':  '', U [0x10EB, 0x10D0,
       0x10DA, 0x10D8, 0x10D0, 0x10DC], A '' '', U [0x10DB, 0x10D0, 0x10E6, 0x10D0, 0x10DA, 0x10D8, 0x10D0], A
       '' -paytxfee - '', U [0x10E1, 0x10D0, 0x10D9, 0x10DD, 0x10DB, 0x10D8, 0x10E1, 0x10DD], A '', '', U [0x10E0,
       0x10DD, 0x10DB, 0x10D4, 0x10DA, 0x10E1, 0x10D0, 0x10EA], A '' '', U [0x10D7, 0x10E5, 0x10D5, 0x10D4, 0x10DC],
       A '' '', U [0x10D2, 0x10D0, 0x10D3, 0x10D0, 0x10D8, 0x10EE, 0x10D3, 0x10D8, 0x10D7], A '' '', U [0x10D0,
       0x10DB], A '' '', U [0x10E2, 0x10E0, 0x10D0, 0x10DC, 0x10E1, 0x10D0, 0x10E5, 0x10EA, 0x10D8, 0x10D8, 0x10E1],
       A '' '', U [0x10D2, 0x10D0, 0x10D2, 0x10D6, 0x10D0, 0x10D5, 0x10DC, 0x10D8, 0x10E1], A '' '', U [0x10E1,
       0x10D0, 0x10E4, 0x10D0, 0x10E1, 0x10E3, 0x10E0, 0x10D0, 0x10D3], A ''.'']],
     Message [(None, 61)] False [A ''Warning: Please check that your computer'', U [0x27], A
       ''s date and time are correct! If your clock is wrong MotaCoin will not work properly.''] [[]],
     Message [(None, -31)] False [A
       ''Warning: error reading wallet.dat! All keys read correctly, but transaction data or address book entries might be missing or incorrect.''
       ] [[U [0x10E7, 0x10E3, 0x10E0, 0x10D0, 0x10D3, 0x10E6, 0x10D4, 0x10D1, 0x10D0], A '': '', U [0x10D0, 0x10E0],
       A '' '', U [0x10D8, 0x10D9, 0x10D8, 0x10D7, 0x10EE, 0x10D4, 0x10D1, 0x10D0], A '' wallet.dat! '', U [0x10E7,
       0x10D5, 0x10D4, 0x10DA, 0x10D0], A '' '', U [0x10D2, 0x10D0, 0x10E1, 0x10D0, 0x10E6, 0x10D4, 0x10D1, 0x10D8],
       A '' '', U [0x10EC, 0x10D0, 0x10D9, 0x10D8, 0x10D7, 0x10EE, 0x10E3, 0x10DA, 0x10D8, 0x10D0], A '', '', U
       [0x10DB, 0x10D0, 0x10D2, 0x10E0, 0x10D0, 0x10DB], A '' '', U [0x10D2, 0x10D0, 0x10DB, 0x10DD, 0x10E0, 0x10E9,
       0x10D4, 0x10DC, 0x10D8, 0x10DA, 0x10D8], A '' '', U [0x10D0, 0x10DC], A '' '', U [0x10D0, 0x10E0, 0x10D0,
       0x10E1, 0x10EC, 0x10DD, 0x10E0, 0x10D8, 0x10D0], A '' '', U [0x10E2, 0x10E0, 0x10D0, 0x10DC, 0x10E1, 0x10D0,
       0x10E5, 0x10EA, 0x10D8, 0x10D8, 0x10E1], A '' '', U [0x10D7, 0x10D0, 0x10E0, 0x10D8, 0x10E6, 0x10D8], A '' '',
       U [0x10D0, 0x10DC], A '' '', U [0x10E9, 0x10D0, 0x10DC, 0x10D0, 0x10EC, 0x10D4, 0x10E0, 0x10D4, 0x10D1,
       0x10D8], A '' '', U [0x10DB, 0x10D8, 0x10E1, 0x10D0, 0x10DB, 0x10D0, 0x10E0, 0x10D7, 0x10D4, 0x10D1, 0x10D8,
       0x10E1], A '' '', U [0x10EC, 0x10D8, 0x10D2, 0x10DC, 0x10E8, 0x10D8], A ''.'']],
     Message [(None, -18)] False [A
       ''Warning: wallet.dat corrupt, data salvaged! Original wallet.dat saved as wallet.'', U [0x7B], A ''timestamp''
       , U [0x7D], A ''.bak in %s; if your balance or transactions are incorrect you should restore from a backup.'']
       [[U [0x10E7, 0x10E3, 0x10E0, 0x10D0, 0x10D3, 0x10E6, 0x10D4, 0x10D1, 0x10D0], A '': wallet.dat '', U [0x10D3,
       0x10D0, 0x10D6, 0x10D8, 0x10D0, 0x10DC, 0x10D4, 0x10D1, 0x10E3, 0x10DA, 0x10D8, 0x10D0], A ''! '', U [0x10DD,
       0x10E0, 0x10D8, 0x10D2, 0x10D8, 0x10DC, 0x10D0, 0x10DA, 0x10E3, 0x10E0, 0x10D8], A '' wallet.dat '', U
       [0x10E8, 0x10D4, 0x10DC, 0x10D0, 0x10EE, 0x10E3, 0x10DA, 0x10D8, 0x10D0], A '' '', U [0x10E0, 0x10DD, 0x10D2,
       0x10DD, 0x10E0, 0x10EA], A '' wallet.'', U [0x7B], A ''timestamp'', U [0x7D], A ''.bak %s-'', U [0x10E8,
       0x10D8], A ''; '', U [0x10D7, 0x10E3], A '' '', U [0x10E8, 0x10D4, 0x10D0, 0x10DB, 0x10E9, 0x10DC, 0x10D8,
       0x10D4, 0x10D7], A '' '', U [0x10E3, 0x10D6, 0x10E3, 0x10E1, 0x10E2, 0x10DD, 0x10D1, 0x10D0], A '' '', U
       [0x10DC, 0x10D0, 0x10E8, 0x10D7, 0x10E8, 0x10D8], A '' '', U [0x10D0, 0x10DC], A '' '', U [0x10E2, 0x10E0,
       0x10D0, 0x10DC, 0x10E1, 0x10D0, 0x10E5, 0x10EA, 0x10D8, 0x10D4, 0x10D1, 0x10E8, 0x10D8], A '', '', U [0x10D0,
       0x10E6, 0x10D0, 0x10D3, 0x10D2, 0x10D8, 0x10DC, 0x10D4, 0x10D7], A '' '', U [0x10D0, 0x10E0, 0x10E5, 0x10D8,
       0x10D5, 0x10D8, 0x10D3, 0x10D0, 0x10DC], A ''.'']],
     Message [(None, -30)] False [A ''Attempt to recover private keys from a corrupt wallet.dat''] [[U [0x10DE,
       0x10D8, 0x10E0, 0x10D0, 0x10D3, 0x10D8], A '' '', U [0x10D2, 0x10D0, 0x10E1, 0x10D0, 0x10E6, 0x10D4, 0x10D1,
       0x10D4, 0x10D1, 0x10D8, 0x10E1], A '' '', U [0x10D0, 0x10E6, 0x10D3, 0x10D2, 0x10D4, 0x10DC, 0x10D8, 0x10E1],
       A '' '', U [0x10DB, 0x10EA, 0x10D3, 0x10D4, 0x10DA, 0x10DD, 0x10D1, 0x10D0], A '' wallet.dat-'', U [0x10D8,
       0x10D3, 0x10D0, 0x10DC]]],
     Message [(None, 4)] False [A ''Block creation options:''] [[U [0x10D1, 0x10DA, 0x10DD, 0x10D9, 0x10D8, 0x10E1],
       A '' '', U [0x10E8, 0x10D4, 0x10E5, 0x10DB, 0x10DC, 0x10D8, 0x10E1], A '' '', U [0x10DD, 0x10DE, 0x10EA,
       0x10D8, 0x10D4, 0x10D1, 0x10D8], A '':'']],
     Message [(None, -62)] False [A ''Connect only to the specified node(s)''] [[U [0x10E8, 0x10D4, 0x10D4, 0x10E0,
       0x10D7, 0x10D4, 0x10D1, 0x10D0], A '' '', U [0x10DB, 0x10EE, 0x10DD, 0x10DA, 0x10DD, 0x10D3], A '' '', U
       [0x10DB, 0x10D8, 0x10D7, 0x10D8, 0x10D7, 0x10D4, 0x10D1, 0x10E3, 0x10DA], A '' '', U [0x10D9, 0x10D5, 0x10D0,
       0x10DC, 0x10EB], A ''('', U [0x10D4, 0x10D1], A '')'', U [0x10D7, 0x10D0, 0x10DC]]],
     Message [(None, 4)] False [A ''Discover own IP address (default: 1 when listening and no -externalip)''] [[U
       [0x10E1, 0x10D0, 0x10D9, 0x10E3, 0x10D7, 0x10D0, 0x10E0, 0x10D8], A '' IP-'', U [0x10DB, 0x10D8, 0x10E1,
       0x10D0, 0x10DB, 0x10D0, 0x10E0, 0x10D7, 0x10D8, 0x10E1], A '' '', U [0x10D2, 0x10D0, 0x10DC, 0x10E1, 0x10D0,
       0x10D6, 0x10E6, 0x10D5, 0x10E0, 0x10D0], A '' ('', U [0x10DC, 0x10D0, 0x10D2, 0x10E3, 0x10DA, 0x10D8, 0x10E1,
       0x10EE, 0x10DB, 0x10D4, 0x10D5, 0x10D8], A '': 1 '', U [0x10D7, 0x10E3], A '' '', U [0x10E9, 0x10D0, 0x10E0,
       0x10D7, 0x10E3, 0x10DA, 0x10D8, 0x10D0], A '' '', U [0x10DB, 0x10D8, 0x10E7, 0x10E3, 0x10E0, 0x10D0, 0x10D3,
       0x10D4, 0x10D1, 0x10D0], A '' '', U [0x10D3, 0x10D0], A '' '', U [0x10D0, 0x10E0], A '' '', U [0x10D2, 0x10D0,
       0x10DB, 0x10DD, 0x10D8, 0x10E7, 0x10D4, 0x10DC, 0x10D4, 0x10D1, 0x10D0], A '' -externalip)'']],
     Message [(None, 94)] False [A ''Failed to listen on any port. Use -listen=0 if you want this.''] [[U [0x10D5,
       0x10D4, 0x10E0], A '' '', U [0x10EE, 0x10D4, 0x10E0, 0x10EE, 0x10D3, 0x10D4, 0x10D1, 0x10D0], A '' '', U
       [0x10DE, 0x10DD, 0x10E0, 0x10E2, 0x10D4, 0x10D1, 0x10D8, 0x10E1], A '' '', U [0x10DB, 0x10D8, 0x10E7, 0x10E3,
       0x10E0, 0x10D0, 0x10D3, 0x10D4, 0x10D1, 0x10D0], A ''. '', U [0x10D7, 0x10E3], A '' '', U [0x10D2, 0x10E1,
       0x10E3, 0x10E0, 0x10D7], A '', '', U [0x10D2, 0x10D0, 0x10DB, 0x10DD, 0x10D8, 0x10E7, 0x10D4, 0x10DC, 0x10D4,
       0x10D7], A '' -listen=0.'']],
     Message [(None, -90)] False [A ''Find peers using DNS lookup (default: 1)''] [[]],
     Message [(None, 5)] False [A ''Sync checkpoints policy (default: strict)''] [[]],
     Message [(None, 83)] False [A ''Invalid -tor address: '', U [0x27], A ''%s'', U [0x27]] [[]],
     Message [(None, 4)] False [A ''Invalid amount for -reservebalance=<amount>''] [[]],
     Message [(None, -82)] False [A ''Maximum per-connection receive buffer, <n>*1000 bytes (default: 5000)''] [[U
       [0x10DB, 0x10D8, 0x10E6, 0x10D4, 0x10D1, 0x10D8, 0x10E1], A '' '', U [0x10D1, 0x10E3, 0x10E4, 0x10D4, 0x10E0,
       0x10D8, 0x10E1], A '' '', U [0x10DB, 0x10D0, 0x10E5, 0x10E1, 0x10D8, 0x10DB, 0x10D0, 0x10DA, 0x10E3, 0x10E0,
       0x10D8], A '' '', U [0x10D6, 0x10DD, 0x10DB, 0x10D0], A '' '', U [0x10E8, 0x10D4, 0x10D4, 0x10E0, 0x10D7,
       0x10D4, 0x10D1, 0x10D0, 0x10D6, 0x10D4], A '', <n>*1000 '', U [0x10D1, 0x10D0, 0x10D8, 0x10E2, 0x10D8], A
       '' ('', U [0x10DC, 0x10D0, 0x10D2, 0x10E3, 0x10DA, 0x10D8, 0x10E1, 0x10EE, 0x10DB, 0x10D4, 0x10D5, 0x10D8], A
       '': 5000)'']],
     Message [(None, 1)] False [A ''Maximum per-connection send buffer, <n>*1000 bytes (default: 1000)''] [[U
       [0x10D2, 0x10D0, 0x10D2, 0x10D6, 0x10D0, 0x10D5, 0x10DC, 0x10D8, 0x10E1], A '' '', U [0x10D1, 0x10E3, 0x10E4,
       0x10D4, 0x10E0, 0x10D8, 0x10E1], A '' '', U [0x10DB, 0x10D0, 0x10E5, 0x10E1, 0x10D8, 0x10DB, 0x10D0, 0x10DA,
       0x10E3, 0x10E0, 0x10D8], A '' '', U [0x10D6, 0x10DD, 0x10DB, 0x10D0], A '' '', U [0x10E8, 0x10D4, 0x10D4,
       0x10E0, 0x10D7, 0x10D4, 0x10D1, 0x10D0, 0x10D6, 0x10D4], A '', <n>*1000 '', U [0x10D1, 0x10D0, 0x10D8, 0x10E2,
       0x10D8], A '' ('', U [0x10DC, 0x10D0, 0x10D2, 0x10E3, 0x10DA, 0x10D8, 0x10E1, 0x10EE, 0x10DB, 0x10D4, 0x10D5,
       0x10D8], A '': 5000)'']],
     Message [(None, -16)] False [A ''Only connect to nodes in network <net> (IPv4, IPv6 or Tor)''] [[U [0x10E8,
       0x10D4, 0x10D4, 0x10E0, 0x10D7, 0x10D4, 0x10D1, 0x10D0], A '' '', U [0x10DB, 0x10EE, 0x10DD, 0x10DA, 0x10DD,
       0x10D3], A '' <net> '', U [0x10E5, 0x10E1, 0x10D4, 0x10DA, 0x10D8, 0x10E1], A '' '', U [0x10D9, 0x10D5,
       0x10D0, 0x10DC, 0x10EB, 0x10D4, 0x10D1, 0x10D7, 0x10D0, 0x10DC], A '' (IPv4, IPv6 '', U [0x10D0, 0x10DC], A
       '' Tor)'']],
     Message [(None, 28)] False [A ''Output extra debugging information. Implies all other -debug* options''] [[]],
     Message [(None, 1)] False [A ''Output extra network debugging information''] [[]],
     Message [(None, 1)] False [A ''Prepend debug output with timestamp''] [[]],
     Message [(None, 35)] False [A ''SSL options: (see the Bitcoin Wiki for SSL setup instructions)''] [[A ''SSL '',
       U [0x10DD, 0x10DE, 0x10EA, 0x10D8, 0x10D4, 0x10D1, 0x10D8], A '': ('', U [0x10D8, 0x10EE, 0x10D8, 0x10DA,
       0x10D4], A '' Bitcoin Wiki-'', U [0x10E8, 0x10D8], A ''  SSL-'', U [0x10E1], A '' '', U [0x10DB, 0x10DD,
       0x10EC, 0x10E7, 0x10DD, 0x10D1, 0x10D8, 0x10E1], A '' '', U [0x10D8, 0x10DC, 0x10E1, 0x10E2, 0x10E0, 0x10E3,
       0x10E5, 0x10EA, 0x10D8, 0x10D4, 0x10D1, 0x10D8], A '')'']],
     Message [(None, -74)] False [A ''Select the version of socks proxy to use (4-5, default: 5)''] [[]],
     Message [(None, 41)] False [A ''Send trace/debug info to console instead of debug.log file''] [[U [0x10E2,
       0x10E0, 0x10D0, 0x10E1, 0x10D8, 0x10E0, 0x10D4, 0x10D1, 0x10D8, 0x10E1], A ''/'', U [0x10D3, 0x10D0, 0x10EE,
       0x10D5, 0x10D4, 0x10EC, 0x10D8, 0x10E1], A '' '', U [0x10D8, 0x10DC, 0x10E4, 0x10DD, 0x10E1], A '' '', U
       [0x10D2, 0x10D0, 0x10D2, 0x10D6, 0x10D0, 0x10D5, 0x10DC, 0x10D0], A '' '', U [0x10D9, 0x10DD, 0x10DC, 0x10E1,
       0x10DD, 0x10DA, 0x10D6, 0x10D4], A '' debug.log '', U [0x10E4, 0x10D0, 0x10D8, 0x10DA, 0x10D8, 0x10E1], A '' ''
       , U [0x10DC, 0x10D0, 0x10EA, 0x10D5, 0x10DA, 0x10D0, 0x10D3]]]]"

definition ka_bitcoin_core_3 :: "ts_message list" where
  "ka_bitcoin_core_3 = [
     Message [(None, 1)] False [A ''Send trace/debug info to debugger''] [[]],
     Message [(None, 28)] False [A ''Set maximum block size in bytes (default: 250000)''] [[]],
     Message [(None, -1)] False [A ''Set minimum block size in bytes (default: 0)''] [[U [0x10D3, 0x10D0, 0x10D0,
       0x10E7, 0x10D4, 0x10DC, 0x10D4, 0x10D7], A '' '', U [0x10D1, 0x10DA, 0x10DD, 0x10D9, 0x10D8, 0x10E1], A '' '',
       U [0x10DB, 0x10D8, 0x10DC, 0x10D8, 0x10DB, 0x10D0, 0x10DA, 0x10E3, 0x10E0, 0x10D8], A '' '', U [0x10D6,
       0x10DD, 0x10DB, 0x10D0], A '' '', U [0x10D1, 0x10D0, 0x10D8, 0x10E2, 0x10D4, 0x10D1, 0x10E8, 0x10D8], A '' (''
       , U [0x10DC, 0x10D0, 0x10D2, 0x10E3, 0x10DA, 0x10D8, 0x10E1, 0x10EE, 0x10DB, 0x10D4, 0x10D5, 0x10D8], A
       '': 0)'']],
     Message [(None, -29)] False [A ''Shrink debug.log file on client startup (default: 1 when no -debug)''] [[A
       ''debug.log '', U [0x10E4, 0x10D0, 0x10D8, 0x10DA, 0x10D8, 0x10E1], A '' '', U [0x10E8, 0x10D4, 0x10D9,
       0x10E3, 0x10DB, 0x10E8, 0x10D5, 0x10D0], A '' '', U [0x10D2, 0x10D0, 0x10E8, 0x10D5, 0x10D4, 0x10D1, 0x10D8,
       0x10E1, 0x10D0, 0x10E1], A '' ('', U [0x10DC, 0x10D0, 0x10D2, 0x10E3, 0x10DA, 0x10D8, 0x10E1, 0x10EE, 0x10DB,
       0x10D4, 0x10D5, 0x10D8, 0x10D0], A '': 1 '', U [0x10E0, 0x10DD, 0x10EA, 0x10D0], A '' '', U [0x10D0, 0x10E0],
       A '' '', U [0x10D0, 0x10E7, 0x10D4, 0x10DC, 0x10D8, 0x10D0], A '' -debug)'']],
     Message [(None, -42)] False [A ''Specify connection timeout in milliseconds (default: 5000)''] [[U [0x10DB,
       0x10D8, 0x10E3, 0x10D7, 0x10D8, 0x10D7, 0x10D4, 0x10D7], A '' '', U [0x10E8, 0x10D4, 0x10D4, 0x10E0, 0x10D7,
       0x10D4, 0x10D1, 0x10D8, 0x10E1], A '' '', U [0x10E2, 0x10D0, 0x10D8, 0x10DB, 0x10D0, 0x10E3, 0x10E2, 0x10D8],
       A '' '', U [0x10DB, 0x10D8, 0x10DA, 0x10D8, 0x10EC, 0x10D0, 0x10DB, 0x10D4, 0x10D1, 0x10E8, 0x10D8], A '' ('',
       U [0x10DC, 0x10D0, 0x10D2, 0x10E3, 0x10DA, 0x10D8, 0x10E1, 0x10EE, 0x10DB, 0x10D4, 0x10D5, 0x10D8], A
       '': 5000)'']],
     Message [(None, 109)] False [A ''Unable to sign checkpoint, wrong checkpointkey?'', U [0xA]] [[]],
     Message [(None, -80)] False [A ''Use UPnP to map the listening port (default: 0)''] [[U [0x10D2, 0x10D0, 0x10DB,
       0x10DD, 0x10D8, 0x10E7, 0x10D4, 0x10DC, 0x10D4, 0x10D7], A '' UPnP '', U [0x10DB, 0x10D8, 0x10E1, 0x10D0,
       0x10E7, 0x10E3, 0x10E0, 0x10D0, 0x10D3, 0x10D4, 0x10D1, 0x10D4, 0x10DA, 0x10D8], A '' '', U [0x10DE, 0x10DD,
       0x10E0, 0x10E2, 0x10D8, 0x10E1], A '' '', U [0x10D2, 0x10D0, 0x10D3, 0x10D0, 0x10E1, 0x10D0, 0x10DB, 0x10D8,
       0x10E1, 0x10D0, 0x10DB, 0x10D0, 0x10E0, 0x10D7, 0x10D4, 0x10D1, 0x10DA, 0x10D0, 0x10D3], A '' ('', U [0x10DC,
       0x10D0, 0x10D2, 0x10E3, 0x10DA, 0x10D8, 0x10E1, 0x10EE, 0x10DB, 0x10D4, 0x10D5, 0x10D8], A '': 0)'']],
     Message [(None, -1)] False [A ''Use UPnP to map the listening port (default: 1 when listening)''] [[U [0x10D2,
       0x10D0, 0x10DB, 0x10DD, 0x10D8, 0x10E7, 0x10D4, 0x10DC, 0x10D4, 0x10D7], A '' UPnP '', U [0x10DB, 0x10D8,
       0x10E1, 0x10D0, 0x10E7, 0x10E3, 0x10E0, 0x10D0, 0x10D3, 0x10D4, 0x10D1, 0x10D4, 0x10DA, 0x10D8], A '' '', U
       [0x10DE, 0x10DD, 0x10E0, 0x10E2, 0x10D8, 0x10E1], A '' '', U [0x10D2, 0x10D0, 0x10D3, 0x10D0, 0x10E1, 0x10D0,
       0x10DB, 0x10D8, 0x10E1, 0x10D0, 0x10DB, 0x10D0, 0x10E0, 0x10D7, 0x10D4, 0x10D1, 0x10DA, 0x10D0, 0x10D3], A
       '' ('', U [0x10DC, 0x10D0, 0x10D2, 0x10E3, 0x10DA, 0x10D8, 0x10E1, 0x10EE, 0x10DB, 0x10D4, 0x10D5, 0x10D8], A
       '': 1 '', U [0x10E0, 0x10DD, 0x10EA, 0x10D0], A '' '', U [0x10E9, 0x10D0, 0x10E0, 0x10D7, 0x10E3, 0x10DA,
       0x10D8, 0x10D0], A '' '', U [0x10DB, 0x10D8, 0x10E7, 0x10E3, 0x10E0, 0x10D0, 0x10D3, 0x10D4, 0x10D1, 0x10D0],
       A '')'']],
     Message [(None, -25)] False [A ''Use proxy to reach tor hidden services (default: same as -proxy)''] [[]],
     Message [(None, 42)] False [A ''Username for JSON-RPC connections''] [[U [0x10DB, 0x10DD, 0x10DB, 0x10EE,
       0x10DB, 0x10D0, 0x10E0, 0x10D4, 0x10D1, 0x10DA, 0x10D8, 0x10E1], A '' '', U [0x10E1, 0x10D0, 0x10EE, 0x10D4,
       0x10DA, 0x10D8], A '' JSON-RPC-'', U [0x10E8, 0x10D4, 0x10D4, 0x10E0, 0x10D7, 0x10D4, 0x10D1, 0x10D8, 0x10E1,
       0x10D0, 0x10D7, 0x10D5, 0x10D8, 0x10E1]]],
     Message [(None, 47)] False [A ''Verifying database integrity...''] [[]],
     Message [(None, 57)] False [A ''WARNING: syncronized checkpoint violation detected, but skipped!''] [[]],
     Message [(None, 1)] False [A ''Warning: Disk space is low!''] [[]],
     Message [(None, -2)] False [A ''Warning: This version is obsolete, upgrade required!''] [[U [0x10E7, 0x10E3,
       0x10E0, 0x10D0, 0x10D3, 0x10E6, 0x10D4, 0x10D1, 0x10D0], A '': '', U [0x10D5, 0x10D4, 0x10E0, 0x10E1, 0x10D8,
       0x10D0], A '' '', U [0x10DB, 0x10DD, 0x10EB, 0x10D5, 0x10D4, 0x10DA, 0x10D4, 0x10D1, 0x10E3, 0x10DA, 0x10D8,
       0x10D0], A '', '', U [0x10E1, 0x10D0, 0x10ED, 0x10D8, 0x10E0, 0x10DD, 0x10D0], A '' '', U [0x10D2, 0x10D0,
       0x10DC, 0x10D0, 0x10EE, 0x10DA, 0x10D4, 0x10D1, 0x10D0], A ''!'']],
     Message [(None, -48)] False [A ''wallet.dat corrupt, salvage failed''] [[A ''wallet.dat '', U [0x10D3, 0x10D0,
       0x10D6, 0x10D8, 0x10D0, 0x10DC, 0x10D4, 0x10D1, 0x10E3, 0x10DA, 0x10D8, 0x10D0], A '', '', U [0x10D0, 0x10E6,
       0x10D3, 0x10D2, 0x10D4, 0x10DC, 0x10D0], A '' '', U [0x10D5, 0x10D4, 0x10E0], A '' '', U [0x10DB, 0x10DD,
       0x10EE, 0x10D4, 0x10E0, 0x10EE, 0x10D3, 0x10D0]]],
     Message [(None, -54)] False [A ''Password for JSON-RPC connections''] [[U [0x10DE, 0x10D0, 0x10E0, 0x10DD,
       0x10DA, 0x10D8], A '' JSON-RPC-'', U [0x10E8, 0x10D4, 0x10D4, 0x10E0, 0x10D7, 0x10D4, 0x10D1, 0x10D8, 0x10E1,
       0x10D0, 0x10D7, 0x10D5, 0x10D8, 0x10E1]]],
     Message [(None, -84)] False [A ''%s, you must set a rpcpassword in the configuration file:'', U [0xA], A '' %s''
       , U [0xA], A ''It is recommended you use the following random password:'', U [0xA], A ''rpcuser=MotaCoinrpc'',
       U [0xA], A ''rpcpassword=%s'', U [0xA], A ''(you do not need to remember this password)'', U [0xA], A
       ''The username and password MUST NOT be the same.'', U [0xA], A
       ''If the file does not exist, create it with owner-readable-only file permissions.'', U [0xA], A
       ''It is also recommended to set alertnotify so you are notified of problems;'', U [0xA], A
       ''for example: alertnotify=echo %%s | mail -s '', U [0x22], A ''MotaCoin Alert'', U [0x22], A '' admin'', U
       [0x40], A ''foo.com'', U [0xA]] [[]],
     Message [(None, 51)] False [A ''Find peers using internet relay chat (default: 0)''] [[]],
     Message [(None, 5)] False [A
       ''Sync time with other nodes. Disable if time on your system is precise e.g. syncing with NTP (default: 1)'']
       [[]],
     Message [(None, 15)] False [A
       ''When creating transactions, ignore inputs with value less than this (default: 0.01)''] [[]],
     Message [(None, 16)] False [A ''Allow JSON-RPC connections from specified IP address''] [[A ''JSON-RPC-'', U
       [0x10E8, 0x10D4, 0x10D4, 0x10E0, 0x10D7, 0x10D4, 0x10D1, 0x10D8, 0x10E1], A '' '', U [0x10DC, 0x10D4, 0x10D1,
       0x10D0, 0x10E0, 0x10D7, 0x10D5, 0x10D0], A '' '', U [0x10DB, 0x10D8, 0x10D7, 0x10D8, 0x10D7, 0x10D4, 0x10D1,
       0x10E3, 0x10DA, 0x10D8], A '' IP '', U [0x10DB, 0x10D8, 0x10E1, 0x10D0, 0x10DB, 0x10D0, 0x10E0, 0x10D7,
       0x10D8, 0x10D3, 0x10D0, 0x10DC]]],
     Message [(None, 1)] False [A ''Send commands to node running on <ip> (default: 127.0.0.1)''] [[U [0x10D9,
       0x10DD, 0x10DB, 0x10D0, 0x10DC, 0x10D3, 0x10D8, 0x10E1], A '' '', U [0x10D2, 0x10D0, 0x10D2, 0x10D6, 0x10D0,
       0x10D5, 0x10DC, 0x10D0], A '' '', U [0x10D9, 0x10D5, 0x10D0, 0x10DC, 0x10EB, 0x10D8, 0x10E1, 0x10D0, 0x10D7,
       0x10D5, 0x10D8, 0x10E1], A '', '', U [0x10E0, 0x10DD, 0x10DB, 0x10D4, 0x10DA, 0x10D8, 0x10EA], A '' '', U
       [0x10D2, 0x10D0, 0x10E8, 0x10D5, 0x10D4, 0x10D1, 0x10E3, 0x10DA, 0x10D8, 0x10D0], A '' '', U [0x10DB, 0x10D8,
       0x10E1, 0x10D0, 0x10DB, 0x10D0, 0x10E0, 0x10D7, 0x10D6, 0x10D4], A '' <ip> ('', U [0x10DC, 0x10D0, 0x10D2,
       0x10E3, 0x10DA, 0x10D8, 0x10E1, 0x10EE, 0x10DB, 0x10D4, 0x10D5, 0x10D8], A '': 127.0.0.1)'']],
     Message [(None, 1)] False [A
       ''Execute command when the best block changes (%s in cmd is replaced by block hash)''] [[U [0x10D9, 0x10DD,
       0x10DB, 0x10D0, 0x10DC, 0x10D3, 0x10D8, 0x10E1], A '' '', U [0x10E8, 0x10D4, 0x10E1, 0x10E0, 0x10E3, 0x10DA,
       0x10D4, 0x10D1, 0x10D0], A '' '', U [0x10E3, 0x10D9, 0x10D4, 0x10D7, 0x10D4, 0x10E1, 0x10D8], A '' '', U
       [0x10D1, 0x10DA, 0x10DD, 0x10D9, 0x10D8, 0x10E1], A '' '', U [0x10D2, 0x10D0, 0x10DB, 0x10DD, 0x10E9, 0x10D4,
       0x10DC, 0x10D8, 0x10E1, 0x10D0, 0x10E1], A '' (%s '', U [0x10D9, 0x10DD, 0x10DB, 0x10D0, 0x10DC, 0x10D3,
       0x10D0, 0x10E8, 0x10D8], A '' '', U [0x10E9, 0x10D0, 0x10DC, 0x10D0, 0x10EA, 0x10D5, 0x10DA, 0x10D3, 0x10D4,
       0x10D1, 0x10D0], A '' '', U [0x10D1, 0x10DA, 0x10DD, 0x10D9, 0x10D8, 0x10E1], A '' '', U [0x10F0, 0x10D4,
       0x10E8, 0x10D8, 0x10D7], A '')'']],
     Message [(None, 3)] False [A
       ''Execute command when a wallet transaction changes (%s in cmd is replaced by TxID)''] [[U [0x10D9, 0x10DD,
       0x10DB, 0x10D0, 0x10DC, 0x10D3, 0x10D8, 0x10E1], A '' '', U [0x10E8, 0x10D4, 0x10E1, 0x10E0, 0x10E3, 0x10DA,
       0x10D4, 0x10D1, 0x10D0], A '' '', U [0x10E1, 0x10D0, 0x10E4, 0x10E3, 0x10DA, 0x10D8, 0x10E1], A '' '', U
       [0x10E2, 0x10E0, 0x10D0, 0x10DC, 0x10E1, 0x10D0, 0x10E5, 0x10EA, 0x10D8, 0x10D8, 0x10E1], A '' '', U [0x10EA,
       0x10D5, 0x10DA, 0x10D8, 0x10DA, 0x10D4, 0x10D1, 0x10D8, 0x10E1, 0x10D0, 0x10E1], A '' (%s '', U [0x10D9,
       0x10DD, 0x10DB, 0x10D0, 0x10DC, 0x10D3, 0x10D0, 0x10E8, 0x10D8], A '' '', U [0x10E9, 0x10D0, 0x10DC, 0x10D0,
       0x10EA, 0x10D5, 0x10DA, 0x10D3, 0x10D4, 0x10D1, 0x10D0], A '' TxID-'', U [0x10D8, 0x10D7], A '')'']],
     Message [(None, 3)] False [A ''Require a confirmations for change (default: 0)''] [[]],
     Message [(None, 1)] False [A ''Enforce transaction scripts to use canonical PUSH operators (default: 1)''] [[]],
     Message [(None, 2)] False [A
       ''Execute command when a relevant alert is received (%s in cmd is replaced by message)''] [[]]]"

definition ka_bitcoin_core_4 :: "ts_message list" where
  "ka_bitcoin_core_4 = [
     Message [(None, 3)] False [A ''Upgrade wallet to latest format''] [[U [0x10E1, 0x10D0, 0x10E4, 0x10E3, 0x10DA,
       0x10D8, 0x10E1], A '' '', U [0x10E4, 0x10DD, 0x10E0, 0x10DB, 0x10D0, 0x10E2, 0x10D8, 0x10E1], A '' '', U
       [0x10D2, 0x10D0, 0x10DC, 0x10D0, 0x10EE, 0x10DA, 0x10D4, 0x10D1, 0x10D0]]],
     Message [(None, 1)] False [A ''Set key pool size to <n> (default: 100)''] [[U [0x10D2, 0x10D0, 0x10E1, 0x10D0,
       0x10E6, 0x10D4, 0x10D1, 0x10D8, 0x10E1], A '' '', U [0x10DE, 0x10E3, 0x10DA, 0x10D8, 0x10E1], A '' '', U
       [0x10D6, 0x10DD, 0x10DB, 0x10D0], A '' '', U [0x10D8, 0x10E5, 0x10DC, 0x10D4, 0x10D1, 0x10D0], A '' <n> ('', U
       [0x10DC, 0x10D0, 0x10D2, 0x10E3, 0x10DA, 0x10D8, 0x10E1, 0x10EE, 0x10DB, 0x10D4, 0x10D5, 0x10D8], A '': 100)''
       ]],
     Message [(None, 1)] False [A ''Rescan the block chain for missing wallet transactions''] [[U [0x10D1, 0x10DA,
       0x10DD, 0x10D9, 0x10D4, 0x10D1, 0x10D8, 0x10E1], A '' '', U [0x10EF, 0x10D0, 0x10ED, 0x10D5, 0x10D8, 0x10E1],
       A '' '', U [0x10D2, 0x10D0, 0x10D3, 0x10D0, 0x10DB, 0x10DD, 0x10EC, 0x10DB, 0x10D4, 0x10D1, 0x10D0], A '' '',
       U [0x10E1, 0x10D0, 0x10E4, 0x10E3, 0x10DA, 0x10D4, 0x10E8, 0x10D8], A '' '', U [0x10D2, 0x10D0, 0x10DB,
       0x10DD, 0x10E0, 0x10E9, 0x10D4, 0x10DC, 0x10D8, 0x10DA], A '' '', U [0x10E2, 0x10E0, 0x10D0, 0x10DC, 0x10E1,
       0x10D0, 0x10E5, 0x10EA, 0x10D8, 0x10D4, 0x10D1, 0x10D6, 0x10D4]]],
     Message [(None, 2)] False [A ''How many blocks to check at startup (default: 2500, 0 = all)''] [[]],
     Message [(None, 1)] False [A ''How thorough the block verification is (0-6, default: 1)''] [[]],
     Message [(None, 1)] False [A ''Imports blocks from external blk000?.dat file''] [[]],
     Message [(None, 8)] False [A ''Use OpenSSL (https) for JSON-RPC connections''] [[A ''OpenSSL-'', U [0x10D8,
       0x10E1], A '' (https) '', U [0x10D2, 0x10D0, 0x10DB, 0x10DD, 0x10E7, 0x10D4, 0x10DC, 0x10D4, 0x10D1, 0x10D0],
       A '' JSON-RPC-'', U [0x10E8, 0x10D4, 0x10D4, 0x10E0, 0x10D7, 0x10D4, 0x10D1, 0x10D4, 0x10D1, 0x10D8, 0x10E1,
       0x10D0, 0x10D7, 0x10D5, 0x10D8, 0x10E1]]],
     Message [(None, 1)] False [A ''Server certificate file (default: server.cert)''] [[U [0x10E1, 0x10D4, 0x10E0,
       0x10D5, 0x10D4, 0x10E0, 0x10D8, 0x10E1], A '' '', U [0x10E1, 0x10D4, 0x10E0, 0x10E2, 0x10D8, 0x10E4, 0x10D8,
       0x10D9, 0x10D0, 0x10E2, 0x10D8, 0x10E1], A '' '', U [0x10E4, 0x10D0, 0x10D8, 0x10DA, 0x10D8], A '' ('', U
       [0x10DC, 0x10D0, 0x10D2, 0x10E3, 0x10DA, 0x10D8, 0x10E1, 0x10EE, 0x10DB, 0x10D4, 0x10D5, 0x10D8], A
       '': server.cert)'']],
     Message [(None, 1)] False [A ''Server private key (default: server.pem)''] [[U [0x10E1, 0x10D4, 0x10E0, 0x10D5,
       0x10D4, 0x10E0, 0x10D8, 0x10E1], A '' '', U [0x10DE, 0x10D8, 0x10E0, 0x10D0, 0x10D3, 0x10D8], A '' '', U
       [0x10D2, 0x10D0, 0x10E1, 0x10D0, 0x10E6, 0x10D4, 0x10D1, 0x10D8], A '' ('', U [0x10DC, 0x10D0, 0x10D2, 0x10E3,
       0x10DA, 0x10D8, 0x10E1, 0x10EE, 0x10DB, 0x10D4, 0x10D5, 0x10D8], A '': server.pem)'']],
     Message [(None, 1)] False [A ''Acceptable ciphers (default: TLSv1+HIGH:!SSLv2:!aNULL:!eNULL:!AH:!3DES:'', U
       [0x40], A ''STRENGTH)''] [[]],
     Message [(None, 53)] False [A ''Error: Wallet unlocked for staking only, unable to create transaction.''] [[]],
     Message [(None, 18)] False [A
       ''WARNING: Invalid checkpoint found! Displayed transactions may not be correct! You may need to upgrade, or notify developers.''
       ] [[]],
     Message [(None, -158)] False [A ''This help message''] [[U [0x10D4, 0x10E1], A '' '', U [0x10E2, 0x10D4, 0x10E5,
       0x10E1, 0x10E2, 0x10D8]]],
     Message [(None, 95)] False [A ''Wallet %s resides outside data directory %s.''] [[]],
     Message [(None, 1)] False [A
       ''Cannot obtain a lock on data directory %s.  MotaCoin is probably already running.''] [[]],
     Message [(None, -98)] False [A ''MotaCoin''] [[]],
     Message [(None, 140)] False [A ''Unable to bind to %s on this computer (bind returned error %d, %s)''] [[U
       [0x10D5, 0x10D4, 0x10E0], A '' '', U [0x10EE, 0x10D4, 0x10E0, 0x10EE, 0x10D3, 0x10D4, 0x10D1, 0x10D0], A '' ''
       , U [0x10DB, 0x10D8, 0x10D1, 0x10DB, 0x10D0], A '' %s-'', U [0x10D7, 0x10D0, 0x10DC], A '' '', U [0x10D0,
       0x10DB], A '' '', U [0x10D9, 0x10DD, 0x10DB, 0x10DE, 0x10D8, 0x10E3, 0x10E2, 0x10D4, 0x10E0, 0x10D6, 0x10D4],
       A '' ('', U [0x10DB, 0x10D8, 0x10E6, 0x10D4, 0x10D1, 0x10E3, 0x10DA, 0x10D8, 0x10D0], A '' '', U [0x10E8,
       0x10D4, 0x10EA, 0x10D3, 0x10DD, 0x10DB, 0x10D0], A '' %d, %s)'']],
     Message [(None, -130)] False [A ''Connect through socks proxy''] [[]],
     Message [(None, 3)] False [A ''Allow DNS lookups for -addnode, -seednode and -connect''] [[A ''DNS-'', U
       [0x10EB, 0x10D4, 0x10D1, 0x10DC, 0x10D8, 0x10E1], A '' '', U [0x10D3, 0x10D0, 0x10E8, 0x10D5, 0x10D4, 0x10D1,
       0x10D0], A '' -addnode, -seednode '', U [0x10D3, 0x10D0], A '' -connect-'', U [0x10E1, 0x10D0, 0x10D7, 0x10D5,
       0x10D8, 0x10E1]]],
     Message [(None, 122)] False [A ''Loading addresses...''] [[U [0x10DB, 0x10D8, 0x10E1, 0x10D0, 0x10DB, 0x10D0,
       0x10E0, 0x10D7, 0x10D4, 0x10D1, 0x10D8, 0x10E1], A '' '', U [0x10E9, 0x10D0, 0x10E2, 0x10D5, 0x10D8, 0x10E0,
       0x10D7, 0x10D5, 0x10D0], A ''...'']],
     Message [(None, -15)] False [A ''Error loading blkindex.dat''] [[]],
     Message [(None, 2)] False [A ''Error loading wallet.dat: Wallet corrupted''] [[U [0x10D0, 0x10E0], A '' '', U
       [0x10D8, 0x10E2, 0x10D5, 0x10D8, 0x10E0, 0x10D7, 0x10D4, 0x10D1, 0x10D0], A '' wallet.dat: '', U [0x10E1,
       0x10D0, 0x10E4, 0x10E3, 0x10DA, 0x10D4], A '' '', U [0x10D3, 0x10D0, 0x10D6, 0x10D8, 0x10D0, 0x10DC, 0x10D4,
       0x10D1, 0x10E3, 0x10DA, 0x10D8, 0x10D0]]],
     Message [(None, 4)] False [A ''Error loading wallet.dat: Wallet requires newer version of MotaCoin''] [[]],
     Message [(None, 1)] False [A ''Wallet needed to be rewritten: restart MotaCoin to complete''] [[]],
     Message [(None, 1)] False [A ''Error loading wallet.dat''] [[U [0x10D0, 0x10E0], A '' '', U [0x10D8, 0x10E2,
       0x10D5, 0x10D8, 0x10E0, 0x10D7, 0x10D4, 0x10D1, 0x10D0], A '' wallet.dat'']],
     Message [(None, -16)] False [A ''Invalid -proxy address: '', U [0x27], A ''%s'', U [0x27]] [[U [0x10D0, 0x10E0,
       0x10D0, 0x10E1, 0x10EC, 0x10DD, 0x10E0, 0x10D8, 0x10D0], A '' '', U [0x10DB, 0x10D8, 0x10E1, 0x10D0, 0x10DB,
       0x10D0, 0x10E0, 0x10D7, 0x10D8], A '' -proxy: '', U [0x27], A ''%s'', U [0x27]]],
     Message [(None, -1)] False [A ''Unknown network specified in -onlynet: '', U [0x27], A ''%s'', U [0x27]] [[A
       ''-onlynet-'', U [0x10E8, 0x10D8], A '' '', U [0x10DB, 0x10D8, 0x10D7, 0x10D8, 0x10D7, 0x10D4, 0x10D1, 0x10E3,
       0x10DA, 0x10D8, 0x10D0], A '' '', U [0x10E3, 0x10EA, 0x10DC, 0x10DD, 0x10D1, 0x10D8], A '' '', U [0x10E5,
       0x10E1, 0x10D4, 0x10DA, 0x10D8], A '': '', U [0x27], A ''%s'', U [0x27]]],
     Message [(None, -1)] False [A ''Unknown -socks proxy version requested: %i''] [[U [0x10DB, 0x10DD, 0x10D7,
       0x10EE, 0x10DD, 0x10D5, 0x10DC, 0x10D8, 0x10DA, 0x10D8, 0x10D0], A '' -socks '', U [0x10DE, 0x10E0, 0x10DD,
       0x10E5, 0x10E1, 0x10D8, 0x10E1], A '' '', U [0x10E3, 0x10EA, 0x10DC, 0x10DD, 0x10D1, 0x10D8], A '' '', U
       [0x10D5, 0x10D4, 0x10E0, 0x10E1, 0x10D8, 0x10D0], A '': %i'']],
     Message [(None, 4)] False [A ''Cannot resolve -bind address: '', U [0x27], A ''%s'', U [0x27]] [[U [0x10D5,
       0x10D4, 0x10E0], A '' '', U [0x10EE, 0x10D4, 0x10E0, 0x10EE, 0x10D3, 0x10D4, 0x10D1, 0x10D0], A '' -bind '', U
       [0x10DB, 0x10D8, 0x10E1, 0x10D0, 0x10DB, 0x10D0, 0x10E0, 0x10D7, 0x10D8, 0x10E1], A '' '', U [0x10D2, 0x10D0,
       0x10E0, 0x10D9, 0x10D5, 0x10D4, 0x10D5, 0x10D0], A '': '', U [0x27], A ''%s'', U [0x27]]]]"

definition ka_bitcoin_core_5 :: "ts_message list" where
  "ka_bitcoin_core_5 = [
     Message [(None, 2)] False [A ''Cannot resolve -externalip address: '', U [0x27], A ''%s'', U [0x27]] [[U
       [0x10D5, 0x10D4, 0x10E0], A '' '', U [0x10EE, 0x10D4, 0x10E0, 0x10EE, 0x10D3, 0x10D4, 0x10D1, 0x10D0], A
       '' -externalip '', U [0x10DB, 0x10D8, 0x10E1, 0x10D0, 0x10DB, 0x10D0, 0x10E0, 0x10D7, 0x10D8, 0x10E1], A '' ''
       , U [0x10D2, 0x10D0, 0x10E0, 0x10D9, 0x10D5, 0x10D4, 0x10D5, 0x10D0], A '': '', U [0x27], A ''%s'', U [0x27]]],
     Message [(None, -24)] False [A ''Invalid amount for -paytxfee=<amount>: '', U [0x27], A ''%s'', U [0x27]] [[U
       [0x10D3, 0x10D0, 0x10E3, 0x10E8, 0x10D5, 0x10D4, 0x10D1, 0x10D4, 0x10DA, 0x10D8], A '' '', U [0x10DB, 0x10DC,
       0x10D8, 0x10E8, 0x10D5, 0x10DC, 0x10D4, 0x10DA, 0x10DD, 0x10D1, 0x10D0], A '' -paytxfee=<amount>: '', U
       [0x27], A ''%s'', U [0x27]]],
     Message [(None, 44)] False [A ''Error: could not start node''] [[]],
     Message [(None, 11)] False [A ''Sending...''] [[]],
     Message [(None, 5)] False [A ''Invalid amount''] [[U [0x10D3, 0x10D0, 0x10E3, 0x10E8, 0x10D5, 0x10D4, 0x10D1,
       0x10D4, 0x10DA, 0x10D8], A '' '', U [0x10D7, 0x10D0, 0x10DC, 0x10EE, 0x10D0]]],
     Message [(None, 1)] False [A ''Insufficient funds''] [[U [0x10D0, 0x10E0], A '' '', U [0x10D0, 0x10E0, 0x10D8,
       0x10E1], A '' '', U [0x10E1, 0x10D0, 0x10D9, 0x10DB, 0x10D0, 0x10E0, 0x10D8, 0x10E1, 0x10D8], A '' '', U
       [0x10D7, 0x10D0, 0x10DC, 0x10EE, 0x10D0]]],
     Message [(None, -34)] False [A ''Loading block index...''] [[U [0x10D1, 0x10DA, 0x10DD, 0x10D9, 0x10D4, 0x10D1,
       0x10D8, 0x10E1], A '' '', U [0x10D8, 0x10DC, 0x10D3, 0x10D4, 0x10E5, 0x10E1, 0x10D8, 0x10E1], A '' '', U
       [0x10E9, 0x10D0, 0x10E2, 0x10D5, 0x10D8, 0x10E0, 0x10D7, 0x10D5, 0x10D0], A ''...'']],
     Message [(None, -103)] False [A ''Add a node to connect to and attempt to keep the connection open''] [[U
       [0x10DB, 0x10D8, 0x10E1, 0x10D0, 0x10D4, 0x10E0, 0x10D7, 0x10D4, 0x10D1, 0x10D4, 0x10DA, 0x10D8], A '' '', U
       [0x10D9, 0x10D5, 0x10D0, 0x10DC, 0x10EB, 0x10D8, 0x10E1], A '' '', U [0x10D3, 0x10D0, 0x10DB, 0x10D0, 0x10E2,
       0x10D4, 0x10D1, 0x10D0], A '' '', U [0x10D3, 0x10D0], A '' '', U [0x10DB, 0x10D8, 0x10D4, 0x10E0, 0x10D7,
       0x10D4, 0x10D1, 0x10D8, 0x10E1], A '' '', U [0x10E8, 0x10D4, 0x10EB, 0x10DA, 0x10D4, 0x10D1, 0x10D8, 0x10E1,
       0x10D3, 0x10D0, 0x10D2, 0x10D5, 0x10D0, 0x10E0, 0x10D0, 0x10D3], A '' '', U [0x10E8, 0x10D4, 0x10DC, 0x10D0,
       0x10E0, 0x10E9, 0x10E3, 0x10DC, 0x10D4, 0x10D1, 0x10D0]]],
     Message [(None, 122)] False [A ''Unable to bind to %s on this computer. MotaCoin is probably already running.'']
       [[]],
     Message [(None, -97)] False [A ''Fee per KB to add to transactions you send''] [[]],
     Message [(None, 55)] False [A ''Invalid amount for -mininput=<amount>: '', U [0x27], A ''%s'', U [0x27]] [[]],
     Message [(None, 25)] False [A ''Loading wallet...''] [[U [0x10E1, 0x10D0, 0x10E4, 0x10E3, 0x10DA, 0x10D8,
       0x10E1], A '' '', U [0x10E9, 0x10D0, 0x10E2, 0x10D5, 0x10D8, 0x10E0, 0x10D7, 0x10D5, 0x10D0], A ''...'']],
     Message [(None, 8)] False [A ''Cannot downgrade wallet''] [[U [0x10E1, 0x10D0, 0x10E4, 0x10E3, 0x10DA, 0x10D8,
       0x10E1], A '' '', U [0x10EB, 0x10D5, 0x10D4, 0x10DA], A '' '', U [0x10D5, 0x10D4, 0x10E0, 0x10E1, 0x10D8,
       0x10D0, 0x10D6, 0x10D4], A '' '', U [0x10D2, 0x10D0, 0x10D3, 0x10D0, 0x10E7, 0x10D5, 0x10D0, 0x10DC, 0x10D0],
       A '' '', U [0x10E8, 0x10D4, 0x10E3, 0x10EB, 0x10DA, 0x10D4, 0x10D1, 0x10D4, 0x10DA, 0x10D8, 0x10D0]]],
     Message [(None, 1)] False [A ''Cannot initialize keypool''] [[]],
     Message [(None, 1)] False [A ''Cannot write default address''] [[U [0x10D5, 0x10D4, 0x10E0], A '' '', U [0x10EE,
       0x10D4, 0x10E0, 0x10EE, 0x10D3, 0x10D4, 0x10D1, 0x10D0], A '' '', U [0x10DC, 0x10D0, 0x10D2, 0x10E3, 0x10DA,
       0x10D8, 0x10E1, 0x10EE, 0x10DB, 0x10D4, 0x10D5, 0x10D8], A '' '', U [0x10DB, 0x10D8, 0x10E1, 0x10D0, 0x10DB,
       0x10D0, 0x10E0, 0x10D7, 0x10D8, 0x10E1], A '' '', U [0x10E9, 0x10D0, 0x10EC, 0x10D4, 0x10E0, 0x10D0]]],
     Message [(None, 1)] False [A ''Rescanning...''] [[U [0x10E1, 0x10D9, 0x10D0, 0x10DC, 0x10D8, 0x10E0, 0x10D4,
       0x10D1, 0x10D0], A ''...'']],
     Message [(None, 5)] False [A ''Done loading''] [[U [0x10E9, 0x10D0, 0x10E2, 0x10D5, 0x10D8, 0x10E0, 0x10D7,
       0x10D5, 0x10D0], A '' '', U [0x10D3, 0x10D0, 0x10E1, 0x10E0, 0x10E3, 0x10DA, 0x10D4, 0x10D1, 0x10E3, 0x10DA,
       0x10D8, 0x10D0]]],
     Message [(None, -167)] False [A ''To use the %s option''] [[A ''%s '', U [0x10DD, 0x10DE, 0x10EA, 0x10D8,
       0x10D8, 0x10E1], A '' '', U [0x10D2, 0x10D0, 0x10DB, 0x10DD, 0x10E1, 0x10D0, 0x10E7, 0x10D4, 0x10DC, 0x10D4,
       0x10D1, 0x10DA, 0x10D0, 0x10D3]]],
     Message [(None, 14)] False [A ''Error''] [[U [0x10E8, 0x10D4, 0x10EA, 0x10D3, 0x10DD, 0x10DB, 0x10D0]]],
     Message [(None, 6)] False [A ''You must set rpcpassword=<password> in the configuration file:'', U [0xA], A
       ''%s'', U [0xA], A ''If the file does not exist, create it with owner-readable-only file permissions.''] [[U
       [0x10E3, 0x10DC, 0x10D3, 0x10D0], A '' '', U [0x10D3, 0x10D0, 0x10D0, 0x10E7, 0x10D4, 0x10DC, 0x10DD, 0x10D7],
       A '' rpcpassword=<password> '', U [0x10E1, 0x10D0, 0x10D9, 0x10DD, 0x10DC, 0x10E4, 0x10D8, 0x10D2, 0x10E3,
       0x10E0, 0x10D0, 0x10EA, 0x10D8, 0x10DD], A '' '', U [0x10E4, 0x10D0, 0x10D8, 0x10DA, 0x10E8, 0x10D8], A '':'',
       U [0xA], A ''%s'', U [0xA, 0x10D7, 0x10E3], A '' '', U [0x10D4, 0x10E1], A '' '', U [0x10E4, 0x10D0, 0x10D8,
       0x10DA, 0x10D8], A '' '', U [0x10D0, 0x10E0], A '' '', U [0x10D0, 0x10E0, 0x10E1, 0x10D4, 0x10D1, 0x10DD,
       0x10D1, 0x10E1], A '', '', U [0x10E8, 0x10D4, 0x10E5, 0x10DB, 0x10D4, 0x10DC, 0x10D8, 0x10D7], A '' '', U
       [0x10D8, 0x10D2, 0x10D8], A '' '', U [0x10E3, 0x10E4, 0x10DA, 0x10D4, 0x10D1, 0x10D4, 0x10D1, 0x10D8, 0x10D7],
       A '' owner-readable-only.'']]]"

definition ka_contexts :: "ts_context list" where
  "ka_contexts = [
     Context ''AboutDialog'' (ka_AboutDialog),
     Context ''AddressBookPage'' (ka_AddressBookPage),
     Context ''AddressTableModel'' (ka_AddressTableModel),
     Context ''AskPassphraseDialog'' (ka_AskPassphraseDialog_1 @ ka_AskPassphraseDialog_2),
     Context ''BitcoinGUI'' (ka_BitcoinGUI_1 @ ka_BitcoinGUI_2 @ ka_BitcoinGUI_3),
     Context ''ClientModel'' (ka_ClientModel),
     Context ''CoinControlDialog'' (ka_CoinControlDialog_1 @ ka_CoinControlDialog_2),
     Context ''EditAddressDialog'' (ka_EditAddressDialog),
     Context ''GUIUtil::HelpMessageBox'' (ka_GUIUtil_HelpMessageBox),
     Context ''OptionsDialog'' (ka_OptionsDialog_1 @ ka_OptionsDialog_2),
     Context ''OverviewPage'' (ka_OverviewPage),
     Context ''QRCodeDialog'' (ka_QRCodeDialog),
     Context ''RPCConsole'' (ka_RPCConsole),
     Context ''SendCoinsDialog'' (ka_SendCoinsDialog_1 @ ka_SendCoinsDialog_2),
     Context ''SendCoinsEntry'' (ka_SendCoinsEntry),
     Context ''SignVerifyMessageDialog'' (ka_SignVerifyMessageDialog_1 @ ka_SignVerifyMessageDialog_2),
     Context ''TransactionDesc'' (ka_TransactionDesc_1 @ ka_TransactionDesc_2),
     Context ''TransactionDescDialog'' (ka_TransactionDescDialog),
     Context ''TransactionTableModel'' (ka_TransactionTableModel),
     Context ''TransactionView'' (ka_TransactionView_1 @ ka_TransactionView_2),
     Context ''WalletModel'' (ka_WalletModel),
     Context ''bitcoin-core'' (ka_bitcoin_core_1 @ ka_bitcoin_core_2 @ ka_bitcoin_core_3 @ ka_bitcoin_core_4 @ ka_bitcoin_core_5)]"

text \<open>The translation that reads \<open>1%\<close> where the source has \<open>%1\<close>.\<close>

definition ka_fee_message :: ts_message where
  "ka_fee_message =
     Message [(None, 5)] False [A ''The total exceeds your balance when the %1 transaction fee is included.''] [[U
       [0x10E1, 0x10D0, 0x10D9, 0x10DD, 0x10DB, 0x10D8, 0x10E1, 0x10D8, 0x10DD], A '' 1%-'', U [0x10D8, 0x10E1], A
       '' '', U [0x10D3, 0x10D0, 0x10DB, 0x10D0, 0x10E2, 0x10D4, 0x10D1, 0x10D8, 0x10E1], A '' '', U [0x10E8, 0x10D4,
       0x10DB, 0x10D3, 0x10D4, 0x10D2], A '' '', U [0x10D7, 0x10D0, 0x10DC, 0x10EE, 0x10D0], A '' '', U [0x10D0,
       0x10ED, 0x10D0, 0x10E0, 0x10D1, 0x10D4, 0x10D1, 0x10E1], A '' '', U [0x10D7, 0x10E5, 0x10D5, 0x10D4, 0x10DC,
       0x10E1], A '' '', U [0x10D1, 0x10D0, 0x10DA, 0x10D0, 0x10DC, 0x10E1, 0x10E1]]]"

section \<open>The checks\<close>

lemma ka_AboutDialog_shape: "list_all (message_shape_ok 1) ka_AboutDialog"
  by code_simp

lemma ka_AboutDialog_marks: "list_all marks_kept ka_AboutDialog"
  by code_simp

lemma ka_AddressBookPage_shape: "list_all (message_shape_ok 1) ka_AddressBookPage"
  by code_simp

lemma ka_AddressBookPage_marks: "list_all marks_kept ka_AddressBookPage"
  by code_simp

lemma ka_AddressTableModel_shape: "list_all (message_shape_ok 1) ka_AddressTableModel"
  by code_simp

lemma ka_AddressTableModel_marks: "list_all marks_kept ka_AddressTableModel"
  by code_simp

lemma ka_AskPassphraseDialog_1_shape: "list_all (message_shape_ok 1) ka_AskPassphraseDialog_1"
  by code_simp

lemma ka_AskPassphraseDialog_1_marks: "list_all marks_kept ka_AskPassphraseDialog_1"
  by code_simp

lemma ka_AskPassphraseDialog_2_shape: "list_all (message_shape_ok 1) ka_AskPassphraseDialog_2"
  by code_simp

lemma ka_AskPassphraseDialog_2_marks: "list_all marks_kept ka_AskPassphraseDialog_2"
  by code_simp

lemma ka_BitcoinGUI_1_shape: "list_all (message_shape_ok 1) ka_BitcoinGUI_1"
  by code_simp

lemma ka_BitcoinGUI_1_marks: "list_all marks_kept ka_BitcoinGUI_1"
  by code_simp

lemma ka_BitcoinGUI_2_shape: "list_all (message_shape_ok 1) ka_BitcoinGUI_2"
  by code_simp

lemma ka_BitcoinGUI_2_marks: "list_all marks_kept ka_BitcoinGUI_2"
  by code_simp

lemma ka_BitcoinGUI_3_shape: "list_all (message_shape_ok 1) ka_BitcoinGUI_3"
  by code_simp

lemma ka_BitcoinGUI_3_marks: "list_all marks_kept ka_BitcoinGUI_3"
  by code_simp

lemma ka_ClientModel_shape: "list_all (message_shape_ok 1) ka_ClientModel"
  by code_simp

lemma ka_ClientModel_marks: "list_all marks_kept ka_ClientModel"
  by code_simp

lemma ka_CoinControlDialog_1_shape: "list_all (message_shape_ok 1) ka_CoinControlDialog_1"
  by code_simp

lemma ka_CoinControlDialog_1_marks: "list_all marks_kept ka_CoinControlDialog_1"
  by code_simp

lemma ka_CoinControlDialog_2_shape: "list_all (message_shape_ok 1) ka_CoinControlDialog_2"
  by code_simp

lemma ka_CoinControlDialog_2_marks: "list_all marks_kept ka_CoinControlDialog_2"
  by code_simp

lemma ka_EditAddressDialog_shape: "list_all (message_shape_ok 1) ka_EditAddressDialog"
  by code_simp

lemma ka_EditAddressDialog_marks: "list_all marks_kept ka_EditAddressDialog"
  by code_simp

lemma ka_GUIUtil_HelpMessageBox_shape: "list_all (message_shape_ok 1) ka_GUIUtil_HelpMessageBox"
  by code_simp

lemma ka_GUIUtil_HelpMessageBox_marks: "list_all marks_kept ka_GUIUtil_HelpMessageBox"
  by code_simp

lemma ka_OptionsDialog_1_shape: "list_all (message_shape_ok 1) ka_OptionsDialog_1"
  by code_simp

lemma ka_OptionsDialog_1_marks: "list_all marks_kept ka_OptionsDialog_1"
  by code_simp

lemma ka_OptionsDialog_2_shape: "list_all (message_shape_ok 1) ka_OptionsDialog_2"
  by code_simp

lemma ka_OptionsDialog_2_marks: "list_all marks_kept ka_OptionsDialog_2"
  by code_simp

lemma ka_OverviewPage_shape: "list_all (message_shape_ok 1) ka_OverviewPage"
  by code_simp

lemma ka_OverviewPage_marks: "list_all marks_kept ka_OverviewPage"
  by code_simp

lemma ka_QRCodeDialog_shape: "list_all (message_shape_ok 1) ka_QRCodeDialog"
  by code_simp

lemma ka_QRCodeDialog_marks: "list_all marks_kept ka_QRCodeDialog"
  by code_simp

lemma ka_RPCConsole_shape: "list_all (message_shape_ok 1) ka_RPCConsole"
  by code_simp

lemma ka_RPCConsole_marks: "list_all marks_kept ka_RPCConsole"
  by code_simp

lemma ka_SendCoinsDialog_1_shape: "list_all (message_shape_ok 1) ka_SendCoinsDialog_1"
  by code_simp

lemma ka_SendCoinsDialog_1_marks: "list_all marks_kept ka_SendCoinsDialog_1"
  by code_simp

lemma ka_SendCoinsDialog_2_shape: "list_all (message_shape_ok 1) ka_SendCoinsDialog_2"
  by code_simp

lemma ka_SendCoinsEntry_shape: "list_all (message_shape_ok 1) ka_SendCoinsEntry"
  by code_simp

lemma ka_SendCoinsEntry_marks: "list_all marks_kept ka_SendCoinsEntry"
  by code_simp

lemma ka_SignVerifyMessageDialog_1_shape: "list_all (message_shape_ok 1) ka_SignVerifyMessageDialog_1"
  by code_simp

lemma ka_SignVerifyMessageDialog_1_marks: "list_all marks_kept ka_SignVerifyMessageDialog_1"
  by code_simp

lemma ka_SignVerifyMessageDialog_2_shape: "list_all (message_shape_ok 1) ka_SignVerifyMessageDialog_2"
  by code_simp

lemma ka_SignVerifyMessageDialog_2_marks: "list_all marks_kept ka_SignVerifyMessageDialog_2"
  by code_simp

lemma ka_TransactionDesc_1_shape: "list_all (message_shape_ok 1) ka_TransactionDesc_1"
  by code_simp

lemma ka_TransactionDesc_1_marks: "list_all marks_kept ka_TransactionDesc_1"
  by code_simp

lemma ka_TransactionDesc_2_shape: "list_all (message_shape_ok 1) ka_TransactionDesc_2"
  by code_simp

lemma ka_TransactionDesc_2_marks: "list_all marks_kept ka_TransactionDesc_2"
  by code_simp

lemma ka_TransactionDescDialog_shape: "list_all (message_shape_ok 1) ka_TransactionDescDialog"
  by code_simp

lemma ka_TransactionDescDialog_marks: "list_all marks_kept ka_TransactionDescDialog"
  by code_simp

lemma ka_TransactionTableModel_shape: "list_all (message_shape_ok 1) ka_TransactionTableModel"
  by code_simp

lemma ka_TransactionTableModel_marks: "list_all marks_kept ka_TransactionTableModel"
  by code_simp

lemma ka_TransactionView_1_shape: "list_all (message_shape_ok 1) ka_TransactionView_1"
  by code_simp

lemma ka_TransactionView_1_marks: "list_all marks_kept ka_TransactionView_1"
  by code_simp

lemma ka_TransactionView_2_shape: "list_all (message_shape_ok 1) ka_TransactionView_2"
  by code_simp

lemma ka_TransactionView_2_marks: "list_all marks_kept ka_TransactionView_2"
  by code_simp

lemma ka_WalletModel_shape: "list_all (message_shape_ok 1) ka_WalletModel"
  by code_simp

lemma ka_WalletModel_marks: "list_all marks_kept ka_WalletModel"
  by code_simp

lemma ka_bitcoin_core_1_shape: "list_all (message_shape_ok 1) ka_bitcoin_core_1"
  by code_simp

lemma ka_bitcoin_core_1_marks: "list_all marks_kept ka_bitcoin_core_1"
  by code_simp

lemma ka_bitcoin_core_2_shape: "list_all (message_shape_ok 1) ka_bitcoin_core_2"
  by code_simp

lemma ka_bitcoin_core_2_marks: "list_all marks_kept ka_bitcoin_core_2"
  by code_simp

lemma ka_bitcoin_core_3_shape: "list_all (message_shape_ok 1) ka_bitcoin_core_3"
  by code_simp

lemma ka_bitcoin_core_3_marks: "list_all marks_kept ka_bitcoin_core_3"
  by code_simp

lemma ka_bitcoin_core_4_shape: "list_all (message_shape_ok 1) ka_bitcoin_core_4"
  by code_simp

lemma ka_bitcoin_core_4_marks: "list_all marks_kept ka_bitcoin_core_4"
  by code_simp

lemma ka_bitcoin_core_5_shape: "list_all (message_shape_ok 1) ka_bitcoin_core_5"
  by code_simp

lemma ka_bitcoin_core_5_marks: "list_all marks_kept ka_bitcoin_core_5"
  by code_simp

lemma ka_SendCoinsDialog_2_marks: "filter (\<lambda>m. \<not> marks_kept m) ka_SendCoinsDialog_2 = [ka_fee_message]"
  by code_simp

lemmas ka_shapes =
  ka_AboutDialog_shape ka_AddressBookPage_shape ka_AddressTableModel_shape ka_AskPassphraseDialog_1_shape
  ka_AskPassphraseDialog_2_shape ka_BitcoinGUI_1_shape ka_BitcoinGUI_2_shape ka_BitcoinGUI_3_shape
  ka_ClientModel_shape ka_CoinControlDialog_1_shape ka_CoinControlDialog_2_shape ka_EditAddressDialog_shape
  ka_GUIUtil_HelpMessageBox_shape ka_OptionsDialog_1_shape ka_OptionsDialog_2_shape ka_OverviewPage_shape
  ka_QRCodeDialog_shape ka_RPCConsole_shape ka_SendCoinsDialog_1_shape ka_SendCoinsDialog_2_shape
  ka_SendCoinsEntry_shape ka_SignVerifyMessageDialog_1_shape ka_SignVerifyMessageDialog_2_shape
  ka_TransactionDesc_1_shape ka_TransactionDesc_2_shape ka_TransactionDescDialog_shape
  ka_TransactionTableModel_shape ka_TransactionView_1_shape ka_TransactionView_2_shape ka_WalletModel_shape
  ka_bitcoin_core_1_shape ka_bitcoin_core_2_shape ka_bitcoin_core_3_shape ka_bitcoin_core_4_shape
  ka_bitcoin_core_5_shape

lemmas ka_marks =
  ka_AboutDialog_marks ka_AddressBookPage_marks ka_AddressTableModel_marks ka_AskPassphraseDialog_1_marks
  ka_AskPassphraseDialog_2_marks ka_BitcoinGUI_1_marks ka_BitcoinGUI_2_marks ka_BitcoinGUI_3_marks
  ka_ClientModel_marks ka_CoinControlDialog_1_marks ka_CoinControlDialog_2_marks ka_EditAddressDialog_marks
  ka_GUIUtil_HelpMessageBox_marks ka_OptionsDialog_1_marks ka_OptionsDialog_2_marks ka_OverviewPage_marks
  ka_QRCodeDialog_marks ka_RPCConsole_marks ka_SendCoinsDialog_1_marks ka_SendCoinsEntry_marks
  ka_SignVerifyMessageDialog_1_marks ka_SignVerifyMessageDialog_2_marks ka_TransactionDesc_1_marks
  ka_TransactionDesc_2_marks ka_TransactionDescDialog_marks ka_TransactionTableModel_marks
  ka_TransactionView_1_marks ka_TransactionView_2_marks ka_WalletModel_marks ka_bitcoin_core_1_marks
  ka_bitcoin_core_2_marks ka_bitcoin_core_3_marks ka_bitcoin_core_4_marks ka_bitcoin_core_5_marks

lemma ka_contexts_shape: "list_all (\<lambda>c. list_all (message_shape_ok 1) (ctx_messages c)) ka_contexts"
  unfolding ka_contexts_def by (simp only: list.pred_inject list_all_append ts_context.sel ka_shapes simp_thms)

lemma filter_marks_kept: "list_all marks_kept ms \<Longrightarrow> filter (\<lambda>m. \<not> marks_kept m) ms = []"
  by (simp add: filter_empty_conv list_all_iff)

lemma ka_contexts_marks: "concat (map (\<lambda>c. filter (\<lambda>m. \<not> marks_kept m) (ctx_messages c)) ka_contexts) = [ka_fee_message]"
  unfolding ka_contexts_def
  by (simp only: list.map concat.simps filter_append append.simps ts_context.sel ka_SendCoinsDialog_2_marks
      ka_marks [THEN filter_marks_kept] simp_thms)

end
