(* ===== verification/Catalogues.thy ===== *)
theory Catalogues
  imports Catalogue_zh Catalogue_ja Catalogue_ka
begin

text \<open>The properties of the three shipped catalogues.\<close>

section \<open>The shared outline\<close>

lemma outline_zh_ja: "outline zh_contexts = outline ja_contexts"
  unfolding outline_def
      zh_AboutDialog_def zh_AddressBookPage_def zh_AddressTableModel_def zh_AskPassphraseDialog_1_def
      zh_AskPassphraseDialog_2_def zh_BitcoinGUI_1_def zh_BitcoinGUI_2_def zh_BitcoinGUI_3_def
      zh_ClientModel_def zh_CoinControlDialog_1_def zh_CoinControlDialog_2_def zh_EditAddressDialog_def
      zh_GUIUtil_HelpMessageBox_def zh_OptionsDialog_1_def zh_OptionsDialog_2_def zh_OverviewPage_def
      zh_QRCodeDialog_def zh_RPCConsole_def zh_SendCoinsDialog_1_def zh_SendCoinsDialog_2_def
      zh_SendCoinsEntry_def zh_SignVerifyMessageDialog_1_def zh_SignVerifyMessageDialog_2_def
      zh_TransactionDesc_1_def zh_TransactionDesc_2_def zh_TransactionDescDialog_def
      zh_TransactionTableModel_def zh_TransactionView_1_def zh_TransactionView_2_def zh_WalletModel_def
      zh_bitcoin_core_1_def zh_bitcoin_core_2_def zh_bitcoin_core_3_def zh_bitcoin_core_4_def
      zh_bitcoin_core_5_def zh_contexts_def
      ja_AboutDialog_def ja_AddressBookPage_def ja_AddressTableModel_def ja_AskPassphraseDialog_1_def
      ja_AskPassphraseDialog_2_def ja_BitcoinGUI_1_def ja_BitcoinGUI_2_def ja_BitcoinGUI_3_def
      ja_ClientModel_def ja_CoinControlDialog_1_def ja_CoinControlDialog_2_def ja_EditAddressDialog_def
      ja_GUIUtil_HelpMessageBox_def ja_OptionsDialog_1_def ja_OptionsDialog_2_def ja_OverviewPage_def
      ja_QRCodeDialog_def ja_RPCConsole_def ja_SendCoinsDialog_1_def ja_SendCoinsDialog_2_def
      ja_SendCoinsEntry_def ja_SignVerifyMessageDialog_1_def ja_SignVerifyMessageDialog_2_def
      ja_TransactionDesc_1_def ja_TransactionDesc_2_def ja_TransactionDescDialog_def
      ja_TransactionTableModel_def ja_TransactionView_1_def ja_TransactionView_2_def ja_WalletModel_def
      ja_bitcoin_core_1_def ja_bitcoin_core_2_def ja_bitcoin_core_3_def ja_bitcoin_core_4_def
      ja_bitcoin_core_5_def ja_contexts_def
  by (simp only: list.map append.simps ts_context.sel ts_message.sel)

lemma outline_zh_ka: "outline zh_contexts = outline ka_contexts"
  unfolding outline_def
      zh_AboutDialog_def zh_AddressBookPage_def zh_AddressTableModel_def zh_AskPassphraseDialog_1_def
      zh_AskPassphraseDialog_2_def zh_BitcoinGUI_1_def zh_BitcoinGUI_2_def zh_BitcoinGUI_3_def
      zh_ClientModel_def zh_CoinControlDialog_1_def zh_CoinControlDialog_2_def zh_EditAddressDialog_def
      zh_GUIUtil_HelpMessageBox_def zh_OptionsDialog_1_def zh_OptionsDialog_2_def zh_OverviewPage_def
      zh_QRCodeDialog_def zh_RPCConsole_def zh_SendCoinsDialog_1_def zh_SendCoinsDialog_2_def
      zh_SendCoinsEntry_def zh_SignVerifyMessageDialog_1_def zh_SignVerifyMessageDialog_2_def
      zh_TransactionDesc_1_def zh_TransactionDesc_2_def zh_TransactionDescDialog_def
      zh_TransactionTableModel_def zh_TransactionView_1_def zh_TransactionView_2_def zh_WalletModel_def
      zh_bitcoin_core_1_def zh_bitcoin_core_2_def zh_bitcoin_core_3_def zh_bitcoin_core_4_def
      zh_bitcoin_core_5_def zh_contexts_def
      ka_AboutDialog_def ka_AddressBookPage_def ka_AddressTableModel_def ka_AskPassphraseDialog_1_def
      ka_AskPassphraseDialog_2_def ka_BitcoinGUI_1_def ka_BitcoinGUI_2_def ka_BitcoinGUI_3_def
      ka_ClientModel_def ka_CoinControlDialog_1_def ka_CoinControlDialog_2_def ka_EditAddressDialog_def
      ka_GUIUtil_HelpMessageBox_def ka_OptionsDialog_1_def ka_OptionsDialog_2_def ka_OverviewPage_def
      ka_QRCodeDialog_def ka_RPCConsole_def ka_SendCoinsDialog_1_def ka_SendCoinsDialog_2_def
      ka_SendCoinsEntry_def ka_SignVerifyMessageDialog_1_def ka_SignVerifyMessageDialog_2_def
      ka_TransactionDesc_1_def ka_TransactionDesc_2_def ka_TransactionDescDialog_def
      ka_TransactionTableModel_def ka_TransactionView_1_def ka_TransactionView_2_def ka_WalletModel_def
      ka_bitcoin_core_1_def ka_bitcoin_core_2_def ka_bitcoin_core_3_def ka_bitcoin_core_4_def
      ka_bitcoin_core_5_def ka_contexts_def
  by (simp only: list.map append.simps ts_context.sel ts_message.sel)

lemma all_keys_distinct: "keys_distinct zh_contexts" "keys_distinct ja_contexts" "keys_distinct ka_contexts"
  using catalogue_ok_keys [OF zh_contexts_ok] keys_distinct_outline [OF outline_zh_ja] keys_distinct_outline [OF outline_zh_ka]
  by blast+

section \<open>Properties\<close>


text \<open>C40. In the Georgian catalogue exactly one translation that is present changes the substitution
  marks of its source text: the message on the transaction fee, whose argument is never shown.\<close>

theorem georgian_fee_message:
  "concat (map (\<lambda>c. filter (\<lambda>m. \<not> present_agree m) (ctx_messages c)) ka_contexts) = [ka_fee_message]"
proof -
  have "map (\<lambda>c. filter (\<lambda>m. \<not> present_agree m) (ctx_messages c)) ka_contexts =
      map (\<lambda>c. filter (\<lambda>m. \<not> marks_kept m) (ctx_messages c)) ka_contexts"
    using ka_contexts_shape by (intro map_cong refl filter_cong) (simp only: list_all_iff, metis present_agree_marks)
  then show ?thesis using ka_contexts_marks by (simp only:)
qed

text \<open>Look-up by context and source text returns the translation of that very message for every
  message of the three catalogues: no key is shadowed.\<close>

lemma catalogue_lookup:
  "list_all (\<lambda>cs. list_all (\<lambda>c. list_all (\<lambda>m. ts_lookup cs (ctx_name c) (msg_source m) = Some (msg_translations m))
     (ctx_messages c)) cs) [zh_contexts, ja_contexts, ka_contexts]"
  using all_keys_distinct [THEN ts_lookup_total] by (simp only: list.pred_inject simp_thms)

text \<open>The three catalogues translate the same program: the same contexts with the same source texts,
  plural markers and source locations, in the same order.\<close>

lemma catalogues_same_outline: "outline zh_contexts = outline ja_contexts \<and> outline zh_contexts = outline ka_contexts"
  using outline_zh_ja outline_zh_ka by (rule conjI)

end
